(* ===== verification/Prelude.thy ===== *)
theory Prelude
  imports Main "HOL-Library.Sublist" "HOL-Library.List_Lexorder" "HOL-Library.Char_ord"
begin

text \<open>
  The part of the Go language and standard library that the modelled packages use.

  A Go \<open>string\<close> is a sequence of bytes, modelled as a \<^typ>\<open>string\<close> (a character is a byte), so
  \<open>len\<close>, indices and slices count bytes as they do in Go. Functions of package \<open>strings\<close> are
  written as recursions over the bytes. A Go function that returns \<open>(T, error)\<close> is modelled by
  \<open>'a result\<close>: \<open>Inl (Err msg)\<close> is a returned error, \<open>Inl (Panic msg)\<close> is a run-time panic (an index
  or slice bound out of range), \<open>Inr v\<close> is a normal return.
\<close>

named_theorems str_simps \<open>characterisations of the string functions\<close>

section \<open>Results\<close>

datatype go_error = Err string | Panic string

type_synonym 'a result = "go_error + 'a"

definition and_then :: "'a result \<Rightarrow> ('a \<Rightarrow> 'b result) \<Rightarrow> 'b result" where
  "and_then r f = (case r of Inl e \<Rightarrow> Inl e | Inr x \<Rightarrow> f x)"

lemma and_then_simps [simp]:
  "and_then (Inl e) f = Inl e"
  "and_then (Inr x) f = f x"
  by (simp_all add: and_then_def)

lemma and_then_eq_Inr: "and_then r f = Inr y \<longleftrightarrow> (\<exists>x. r = Inr x \<and> f x = Inr y)"
  by (cases r) simp_all

text \<open>Reading a slice element: Go panics when the index is not in range.\<close>

definition slice_get :: "'a list \<Rightarrow> int \<Rightarrow> 'a result" where
  "slice_get xs i = (if 0 \<le> i \<and> i < int (length xs) then Inr (xs ! nat i)
                     else Inl (Panic ''index out of range''))"

lemma slice_get_in: "0 \<le> i \<Longrightarrow> i < int (length xs) \<Longrightarrow> slice_get xs i = Inr (xs ! nat i)"
  by (simp add: slice_get_def)

text \<open>Running a step over a list, stopping at the first error.\<close>

fun fold_result :: "('a \<Rightarrow> 's \<Rightarrow> 's result) \<Rightarrow> 'a list \<Rightarrow> 's \<Rightarrow> 's result" where
  "fold_result f [] s = Inr s"
| "fold_result f (x # xs) s = and_then (f x s) (fold_result f xs)"

lemma fold_result_append: "fold_result f (xs @ ys) s = and_then (fold_result f xs s) (fold_result f ys)"
proof (induction xs arbitrary: s)
  case (Cons x xs)
  then show ?case by (cases "f x s") simp_all
qed simp

lemma map_upt_snoc:
  "map (\<lambda>i. f i ((p @ [x]) ! i)) [0..<length (p @ [x])] = map (\<lambda>i. f i (p ! i)) [0..<length p] @ [f (length p) x]"
  by (auto simp: nth_append)

text \<open>Integer division of Go truncates towards zero.\<close>

definition go_div :: "int \<Rightarrow> int \<Rightarrow> int" where
  "go_div a b = sgn a * sgn b * (\<bar>a\<bar> div \<bar>b\<bar>)"

section \<open>Package strings\<close>

definition has_prefix :: "string \<Rightarrow> string \<Rightarrow> bool" where
  "has_prefix s p \<longleftrightarrow> take (length p) s = p"

definition has_suffix :: "string \<Rightarrow> string \<Rightarrow> bool" where
  "has_suffix s p \<longleftrightarrow> length p \<le> length s \<and> drop (length s - length p) s = p"

lemma has_prefix_iff [str_simps]: "has_prefix s p \<longleftrightarrow> (\<exists>t. s = p @ t)"
  by (auto simp: has_prefix_def) (metis append_take_drop_id)

lemma has_prefix_prefix: "has_prefix s p \<longleftrightarrow> prefix p s"
  by (auto simp: has_prefix_iff prefix_def)

lemma has_prefix_Nil [simp]: "has_prefix s []"
  by (simp add: has_prefix_def)

lemma has_prefix_Cons [simp]: "has_prefix (x # s) (y # p) \<longleftrightarrow> x = y \<and> has_prefix s p"
  by (auto simp: has_prefix_def)

lemma has_prefix_Nil_Cons [simp]: "\<not> has_prefix [] (y # p)"
  by (simp add: has_prefix_def)

lemma has_prefix_append [simp]: "has_prefix (p @ s) p"
  by (simp add: has_prefix_def)

lemma has_prefix_refl [simp]: "has_prefix s s"
  by (simp add: has_prefix_def)

lemma has_prefix_trans: "has_prefix a b \<Longrightarrow> has_prefix b c \<Longrightarrow> has_prefix a c"
  by (auto simp: has_prefix_iff)

lemma has_suffix_iff [str_simps]: "has_suffix s p \<longleftrightarrow> (\<exists>t. s = t @ p)"
proof
  assume "has_suffix s p"
  then have "s = take (length s - length p) s @ p"
    by (metis append_take_drop_id has_suffix_def)
  then show "\<exists>t. s = t @ p" ..
next
  assume "\<exists>t. s = t @ p"
  then show "has_suffix s p" by (auto simp: has_suffix_def)
qed

lemma has_suffix_append [simp]: "has_suffix (t @ p) p"
  by (auto simp: has_suffix_iff)

lemma has_suffix_single: "has_suffix s [c] \<longleftrightarrow> s \<noteq> [] \<and> last s = c"
  by (auto simp: has_suffix_iff) (metis append_butlast_last_id)

definition trim_prefix :: "string \<Rightarrow> string \<Rightarrow> string" where
  "trim_prefix s p = (if has_prefix s p then drop (length p) s else s)"

definition trim_suffix :: "string \<Rightarrow> string \<Rightarrow> string" where
  "trim_suffix s p = (if has_suffix s p then take (length s - length p) s else s)"

lemma trim_suffix_append [simp]: "trim_suffix (t @ p) p = t"
  by (simp add: trim_suffix_def)

lemma trim_prefix_append [simp]: "trim_prefix (p @ t) p = t"
  by (simp add: trim_prefix_def)

text \<open>\<open>strings.Index\<close>: the first position at which \<open>sub\<close> occurs.\<close>

fun find_sub :: "string \<Rightarrow> string \<Rightarrow> nat option" where
  "find_sub sub [] = (if sub = [] then Some 0 else None)"
| "find_sub sub (c # s) =
     (if has_prefix (c # s) sub then Some 0 else map_option Suc (find_sub sub s))"

definition str_index :: "string \<Rightarrow> string \<Rightarrow> int" where
  "str_index s sub = (case find_sub sub s of None \<Rightarrow> - 1 | Some i \<Rightarrow> int i)"

definition str_contains :: "string \<Rightarrow> string \<Rightarrow> bool" where
  "str_contains s sub \<longleftrightarrow> find_sub sub s \<noteq> None"

lemma find_sub_SomeD: "find_sub sub s = Some i \<Longrightarrow> i + length sub \<le> length s \<and> has_prefix (drop i s) sub"
proof (induction s arbitrary: i)
  case Nil
  then show ?case by (auto split: if_splits)
next
  case (Cons c s)
  show ?case
  proof (cases "has_prefix (c # s) sub")
    case True
    then have "length sub \<le> length (c # s)"
      by (metis has_prefix_def length_take linorder_linear min.absorb_iff2 min.absorb_iff1)
    with True Cons.prems show ?thesis by simp
  next
    case False
    with Cons.prems obtain j where "find_sub sub s = Some j" "i = Suc j" by auto
    with Cons.IH[of j] show ?thesis by simp
  qed
qed

lemma find_sub_single: "find_sub [c] s = (if c \<in> set s then Some (length (takeWhile (\<lambda>x. x \<noteq> c) s)) else None)"
  by (induction s) auto

lemma str_contains_single [simp]: "str_contains s [c] \<longleftrightarrow> c \<in> set s"
  by (simp add: str_contains_def find_sub_single)

lemma find_sub_NoneD: "find_sub sub s = None \<Longrightarrow> \<not> has_prefix (drop i s) sub"
proof (induction s arbitrary: i)
  case Nil
  then show ?case by (cases sub) auto
next
  case (Cons c s)
  then show ?case by (cases i) (auto split: if_splits)
qed

lemma str_contains_iff [str_simps]: "str_contains s sub \<longleftrightarrow> (\<exists>a b. s = a @ sub @ b)"
proof
  assume "str_contains s sub"
  then obtain i where "find_sub sub s = Some i" by (auto simp: str_contains_def)
  then have "has_prefix (drop i s) sub" by (simp add: find_sub_SomeD)
  then obtain b where "drop i s = sub @ b" by (auto simp: has_prefix_iff)
  then have "s = take i s @ sub @ b" by (metis append_take_drop_id)
  then show "\<exists>a b. s = a @ sub @ b" by blast
next
  assume "\<exists>a b. s = a @ sub @ b"
  then obtain a b where "s = a @ sub @ b" by blast
  then have "has_prefix (drop (length a) s) sub" by simp
  then show "str_contains s sub" using find_sub_NoneD by (auto simp: str_contains_def)
qed

text \<open>\<open>strings.LastIndex\<close> of a single byte.\<close>

definition last_index_char :: "string \<Rightarrow> char \<Rightarrow> int" where
  "last_index_char s c = (if c \<in> set s then int (length s) - 1 - int (length (takeWhile (\<lambda>x. x \<noteq> c) (rev s))) else - 1)"

lemma last_index_char_last: "c \<notin> set b \<Longrightarrow> last_index_char (a @ c # b) c = int (length a)"
proof -
  assume "c \<notin> set b"
  then have "takeWhile (\<lambda>x. x \<noteq> c) (rev b @ c # rev a) = rev b" by (subst takeWhile_append2) auto
  then show ?thesis by (simp add: last_index_char_def)
qed

lemma last_index_char_split:
  assumes "c \<in> set s"
  obtains a b where "s = a @ c # b" "c \<notin> set b" "last_index_char s c = int (length a)"
proof -
  from assms obtain a b where ab: "s = a @ c # b" "c \<notin> set b" by (metis split_list_last)
  with that last_index_char_last show thesis by simp
qed

lemma last_index_char_neg: "last_index_char s c < 0 \<longleftrightarrow> c \<notin> set s"
proof (cases "c \<in> set s")
  case True
  then show ?thesis by (auto elim: last_index_char_split)
qed (simp add: last_index_char_def)

text \<open>\<open>strings.Split\<close> by a one-byte separator.\<close>

fun split_char :: "char \<Rightarrow> string \<Rightarrow> string list" where
  "split_char c [] = [[]]"
| "split_char c (x # xs) =
     (if x = c then [] # split_char c xs
      else (x # hd (split_char c xs)) # tl (split_char c xs))"

text \<open>\<open>strings.Join\<close>.\<close>

fun str_join :: "string \<Rightarrow> string list \<Rightarrow> string" where
  "str_join sep [] = []"
| "str_join sep [w] = w"
| "str_join sep (w # v # ws) = w @ sep @ str_join sep (v # ws)"

lemma foldl_append: "foldl (\<lambda>j x. j @ f x) s xs = s @ concat (map f xs)"
  by (induction xs arbitrary: s) simp_all

lemma concat_sep_suffix: "ws \<noteq> [] \<Longrightarrow> concat (map (\<lambda>w. w @ sep) ws) = str_join sep ws @ sep"
  by (induction ws rule: induct_list012) simp_all

lemma concat_sep_prefix: "ws \<noteq> [] \<Longrightarrow> concat (map (\<lambda>w. sep @ w) ws) = sep @ str_join sep ws"
  by (induction ws rule: induct_list012) simp_all

lemma str_join_snoc: "str_join sep (ws @ [w]) = (if ws = [] then w else str_join sep ws @ sep @ w)"
  by (induction ws rule: induct_list012) simp_all

lemma split_char_not_Nil [simp]: "split_char c s \<noteq> []"
  by (cases s) auto

lemma str_join_Cons: "ws \<noteq> [] \<Longrightarrow> str_join sep (w # ws) = w @ sep @ str_join sep ws"
  by (cases ws) auto

lemma str_join_hd: "ws \<noteq> [] \<Longrightarrow> str_join sep ((x # hd ws) # tl ws) = x # str_join sep ws"
  by (cases ws; cases "tl ws") auto

lemma join_split_char [simp]: "str_join [c] (split_char c s) = s"
proof (induction s)
  case Nil
  show ?case by simp
next
  case (Cons x s)
  then show ?case by (simp add: str_join_Cons str_join_hd)
qed

lemma split_char_no_sep: "w \<in> set (split_char c s) \<Longrightarrow> c \<notin> set w"
proof (induction s arbitrary: w)
  case Nil
  then show ?case by simp
next
  case (Cons x s)
  have hd: "c \<notin> set (hd (split_char c s))"
    using Cons.IH by simp
  have tl: "v \<in> set (tl (split_char c s)) \<Longrightarrow> c \<notin> set v" for v
    using Cons.IH list.set_sel(2) split_char_not_Nil by metis
  from Cons.prems Cons.IH hd tl show ?case by (auto split: if_splits)
qed

lemma split_char_single: "c \<notin> set s \<Longrightarrow> split_char c s = [s]"
  by (induction s) auto

lemma split_char_append_sep: "split_char c (a @ c # b) = split_char c a @ split_char c b"
  by (induction a) auto

lemma split_char_join: "ws \<noteq> [] \<Longrightarrow> \<forall>w\<in>set ws. c \<notin> set w \<Longrightarrow> split_char c (str_join [c] ws) = ws"
proof (induction ws rule: induct_list012)
  case 1
  then show ?case by simp
next
  case (2 x)
  then show ?case by (simp add: split_char_single)
next
  case (3 x y zs)
  then show ?case by (simp add: split_char_append_sep split_char_single)
qed

text \<open>\<open>strings.ReplaceAll\<close>: non-overlapping occurrences, from the left. With an empty \<open>old\<close> Go
  inserts \<open>new\<close> around every character.\<close>

function replace_all :: "string \<Rightarrow> string \<Rightarrow> string \<Rightarrow> string" where
  "replace_all old new [] = (if old = [] then new else [])"
| "replace_all old new (c # s) =
     (if old = [] then new @ c # replace_all old new s
      else if has_prefix (c # s) old
      then new @ replace_all old new (drop (length old - 1) s)
      else c # replace_all old new s)"
  by pat_completeness auto
termination
  by (relation "measure (\<lambda>(old, new, s). length s)") auto

definition replace_char :: "char \<Rightarrow> string \<Rightarrow> string \<Rightarrow> string" where
  "replace_char c new s = concat (map (\<lambda>x. if x = c then new else [x]) s)"

lemma replace_all_single: "replace_all [c] new s = replace_char c new s"
  by (induction s) (auto simp: replace_char_def)

lemma replace_all_no_occurrence: "old \<noteq> [] \<Longrightarrow> \<not> str_contains s old \<Longrightarrow> replace_all old new s = s"
proof (induction s)
  case Nil
  then show ?case by simp
next
  case (Cons c s)
  from Cons.prems have "\<not> has_prefix (c # s) old" and "\<not> str_contains s old"
    by (auto simp: str_contains_def split: if_splits)
  with Cons show ?case by simp
qed

lemma replace_char_simps [simp]:
  "replace_char c new [] = []"
  "replace_char c new (x # s) = (if x = c then new else [x]) @ replace_char c new s"
  "replace_char c new (s @ t) = replace_char c new s @ replace_char c new t"
  by (simp_all add: replace_char_def)

lemma replace_char_Nil_filter: "replace_char c [] s = filter (\<lambda>x. x \<noteq> c) s"
  by (induction s) auto

section \<open>Package strconv\<close>

definition digit_char :: "nat \<Rightarrow> char" where
  "digit_char d = ''0123456789'' ! d"

fun dec :: "nat \<Rightarrow> string" where
  "dec n = (if n < 10 then [digit_char n] else dec (n div 10) @ [digit_char (n mod 10)])"

declare dec.simps [simp del]

definition itoa :: "int \<Rightarrow> string" where
  "itoa i = (if i < 0 then CHR ''-'' # dec (nat (- i)) else dec (nat i))"

definition digit_val :: "char \<Rightarrow> nat option" where
  "digit_val c = (case filter (\<lambda>d. digit_char d = c) [0..<10] of [] \<Rightarrow> None | d # _ \<Rightarrow> Some d)"

fun undec :: "nat \<Rightarrow> string \<Rightarrow> nat option" where
  "undec acc [] = Some acc"
| "undec acc (c # s) = (case digit_val c of None \<Rightarrow> None | Some d \<Rightarrow> undec (10 * acc + d) s)"

text \<open>\<open>strconv.Atoi\<close> on a 64-bit \<open>int\<close>: an optional sign, at least one digit, in range.\<close>

definition atoi :: "string \<Rightarrow> int option" where
  "atoi s =
     (let (neg, ds) = (case s of [] \<Rightarrow> (False, [])
                       | c # r \<Rightarrow> if c = CHR ''-'' then (True, r)
                                  else if c = CHR ''+'' then (False, r) else (False, s))
      in if ds = [] then None
         else case undec 0 ds of None \<Rightarrow> None
              | Some n \<Rightarrow> (let v = (if neg then - int n else int n)
                           in if - (2 ^ 63) \<le> v \<and> v < 2 ^ 63 then Some v else None))"

lemma digit_val_digit_char [simp]: "d < 10 \<Longrightarrow> digit_val (digit_char d) = Some d"
proof -
  assume "d < 10"
  then have "d \<in> {0,1,2,3,4,5,6,7,8,9}" by auto
  then show ?thesis by (auto simp: digit_val_def digit_char_def upt_rec)
qed

lemma undec_append: "undec acc (s @ t) = (case undec acc s of None \<Rightarrow> None | Some a \<Rightarrow> undec a t)"
  by (induction s arbitrary: acc) (auto split: option.split)

lemma undec_dec [simp]: "undec 0 (dec n) = Some n"
proof (induction n rule: dec.induct)
  case (1 n)
  then show ?case
    by (cases "n < 10") (simp_all add: dec.simps[of n] undec_append)
qed

lemma dec_not_Nil [simp]: "dec n \<noteq> []"
  by (subst dec.simps) simp

lemma dec_inject [simp]: "dec m = dec n \<longleftrightarrow> m = n"
  by (metis option.inject undec_dec)

lemma digit_char_set: "d < 10 \<Longrightarrow> digit_char d \<in> set ''0123456789''"
  unfolding digit_char_def by (rule nth_mem) simp

lemma set_dec: "set (dec n) \<subseteq> set ''0123456789''"
proof (induction n rule: dec.induct)
  case (1 n)
  then show ?case
    using digit_char_set[of n] digit_char_set[of "n mod 10"]
    by (subst dec.simps) auto
qed

lemma atoi_dec: "int n < 2 ^ 63 \<Longrightarrow> atoi (dec n) = Some (int n)"
proof -
  assume n: "int n < 2 ^ 63"
  obtain c r where cr: "dec n = c # r" by (cases "dec n") auto
  then have "c \<in> set ''0123456789''" using set_dec[of n] by auto
  then have "c \<noteq> CHR ''-''" "c \<noteq> CHR ''+''" by auto
  moreover have "undec 0 (c # r) = Some n" using cr undec_dec[of n] by simp
  ultimately show ?thesis using n by (simp add: atoi_def cr del: undec.simps)
qed

text \<open>\<open>strings.Split\<close> by a separator of any length.\<close>

function split_str :: "string \<Rightarrow> string \<Rightarrow> string list" where
  "split_str sep s =
     (if sep = [] then map (\<lambda>c. [c]) s
      else case find_sub sep s of None \<Rightarrow> [s]
           | Some i \<Rightarrow> take i s # split_str sep (drop (i + length sep) s))"
  by pat_completeness auto
termination
  by (relation "measure (\<lambda>(sep, s). length s)")
     (use find_sub_SomeD in \<open>fastforce simp: neq_Nil_conv\<close>)+

declare split_str.simps [simp del]

text \<open>\<open>strconv.ParseBool\<close>.\<close>

definition parse_bool :: "string \<Rightarrow> bool option" where
  "parse_bool s =
     (if s \<in> {''1'', ''t'', ''T'', ''TRUE'', ''true'', ''True''} then Some True
      else if s \<in> {''0'', ''f'', ''F'', ''FALSE'', ''false'', ''False''} then Some False else None)"

section \<open>Package path\<close>

text \<open>\<open>path.Clean\<close>: the components are pushed on a stack; \<open>.\<close> and empty components are
  dropped, \<open>..\<close> pops a component, is dropped at the root, and is kept above a relative start.\<close>

fun clean_components :: "bool \<Rightarrow> string list \<Rightarrow> string list \<Rightarrow> string list" where
  "clean_components rooted [] st = rev st"
| "clean_components rooted (c # cs) st =
     (if c = [] \<or> c = ''.'' then clean_components rooted cs st
      else if c = ''..''
      then (if st = [] then clean_components rooted cs (if rooted then [] else [''..''])
            else if hd st = ''..'' then clean_components rooted cs (''..'' # st)
            else clean_components rooted cs (tl st))
      else clean_components rooted cs (c # st))"

definition path_clean :: "string \<Rightarrow> string" where
  "path_clean p =
     (let rooted = has_prefix p ''/'';
          r = str_join ''/'' (clean_components rooted (split_char CHR ''/'' p) [])
      in if rooted then CHR ''/'' # r else if r = [] then ''.'' else r)"

definition path_join :: "string list \<Rightarrow> string" where
  "path_join elems =
     (let ne = filter (\<lambda>e. e \<noteq> []) elems in if ne = [] then [] else path_clean (str_join ''/'' ne))"

text \<open>A clean relative path: non-empty components other than \<open>.\<close> and \<open>..\<close>, with no slash inside.\<close>

definition plain_component :: "string \<Rightarrow> bool" where
  "plain_component c \<longleftrightarrow> c \<noteq> [] \<and> c \<noteq> ''.'' \<and> c \<noteq> ''..'' \<and> CHR ''/'' \<notin> set c"

lemma clean_components_plain: "list_all plain_component cs \<Longrightarrow> clean_components b cs st = rev st @ cs"
  by (induction cs arbitrary: st) (auto simp: plain_component_def)

lemma plain_not_rooted: "plain_component c \<Longrightarrow> \<not> has_prefix (str_join ''/'' (c # cs)) ''/''"
  by (cases c; cases cs) (auto simp: plain_component_def)

lemma path_clean_plain:
  assumes "cs \<noteq> []" "list_all plain_component cs"
  shows "path_clean (str_join ''/'' cs) = str_join ''/'' cs"
proof -
  obtain c r where cs: "cs = c # r" using assms(1) by (cases cs) auto
  have "split_char CHR ''/'' (str_join ''/'' cs) = cs"
    using assms by (intro split_char_join) (auto simp: plain_component_def list_all_iff)
  moreover have "\<not> has_prefix (str_join ''/'' cs) ''/''"
    unfolding cs using assms(2) cs by (intro plain_not_rooted) simp
  moreover have "str_join ''/'' cs \<noteq> []"
    using assms(2) cs by (cases r) (auto simp: plain_component_def)
  ultimately show ?thesis
    using assms(2) by (simp add: path_clean_def clean_components_plain)
qed

end
