(* ===== verification/Parens.thy ===== *)
theory Parens
  imports Prelude
begin

text \<open>
  \<^verbatim>\<open>utils/parenthesesutils.go\<close>: the parentheses of a pattern that define the placeholders
  \<open>{1}, {2}, ...\<close> of a target. The index loops are kept as loops; the specification is the
  usual notion of matching parentheses, stated with the nesting depth of a substring.
\<close>

section \<open>The code\<close>

record Parentheses =
  OpenIndex :: nat
  CloseIndex :: nat

text \<open>\<open>ParenthesesSlice\<close> is a struct whose only field is the slice.\<close>

record ParenthesesSlice =
  parens :: "Parentheses list"

definition IsPresent :: "ParenthesesSlice \<Rightarrow> nat \<Rightarrow> bool" where
  "IsPresent p index \<longleftrightarrow> list_ex (\<lambda>v. OpenIndex v = index \<or> CloseIndex v = index) (parens p)"

text \<open>The inner loop of \<open>getAllParentheses\<close>: \<open>j\<close> runs down to the last entry that is still open.\<close>

fun close_last :: "Parentheses list \<Rightarrow> nat \<Rightarrow> nat \<Rightarrow> Parentheses list" where
  "close_last ps 0 i = ps"
| "close_last ps (Suc j) i =
     (if CloseIndex (ps ! j) = 0 then ps[j := (ps ! j)\<lparr>CloseIndex := i\<rparr>] else close_last ps j i)"

fun scan_parentheses :: "(nat \<times> char) list \<Rightarrow> Parentheses list \<Rightarrow> Parentheses list" where
  "scan_parentheses [] ps = ps"
| "scan_parentheses ((i, c) # cs) ps =
     scan_parentheses cs
       (if c = CHR ''('' then ps @ [\<lparr>OpenIndex = i, CloseIndex = 0\<rparr>]
        else if c = CHR '')'' then close_last ps (length ps) i else ps)"

definition getAllParentheses :: "string \<Rightarrow> Parentheses list" where
  "getAllParentheses pattern =
     filter (\<lambda>q. CloseIndex q \<noteq> 0) (scan_parentheses (enumerate 0 pattern) [])"

text \<open>\<open>sortNoDuplicates\<close>: sort, then compact in place with the write index \<open>j\<close>, then cut the
  slice. The cut panics on an empty slice.\<close>

function compact_loop :: "int list \<Rightarrow> nat \<Rightarrow> nat \<Rightarrow> int list \<times> nat" where
  "compact_loop arr j i =
     (if i < length arr
      then if arr ! j = arr ! i then compact_loop arr j (Suc i)
           else compact_loop (arr[Suc j := arr ! i]) (Suc j) (Suc i)
      else (arr, j))"
  by pat_completeness auto
termination
  by (relation "measure (\<lambda>(arr, j, i). length arr - i)") auto

declare compact_loop.simps [simp del]

definition sortNoDuplicates :: "int list \<Rightarrow> int list result" where
  "sortNoDuplicates xs =
     (let (arr, j) = compact_loop (sort xs) 0 1
      in if j + 1 \<le> length arr then Inr (take (j + 1) arr)
         else Inl (Panic ''slice bounds out of range''))"

text \<open>\<open>placeholderRegExp\<close> is \<^verbatim>\<open>{([^}]*)}\<close>: the first closing brace after an opening one ends a match.
  The list holds the submatch of every match, from the left.\<close>

function placeholder_submatches :: "string \<Rightarrow> string list" where
  "placeholder_submatches [] = []"
| "placeholder_submatches (c # s) =
     (if c = CHR ''{'' \<and> CHR ''}'' \<in> set s
      then takeWhile (\<lambda>x. x \<noteq> CHR ''}'') s
             # placeholder_submatches (tl (dropWhile (\<lambda>x. x \<noteq> CHR ''}'') s))
      else placeholder_submatches s)"
  by pat_completeness auto
termination
  by (relation "measure length")
     (auto intro: le_imp_less_Suc order_trans[OF diff_le_self length_dropWhile_le])

definition getPlaceHoldersValues :: "string \<Rightarrow> int list result" where
  "getPlaceHoldersValues target =
     (let placeholderFound = List.map_filter atoi (placeholder_submatches target)
      in if placeholderFound \<noteq> [] then sortNoDuplicates placeholderFound else Inr [])"

definition findParentheses :: "string \<Rightarrow> string \<Rightarrow> Parentheses list result" where
  "findParentheses pattern target =
     (let parentheses = getAllParentheses pattern
      in and_then (getPlaceHoldersValues target) (\<lambda>values.
           fold_result (\<lambda>v rs.
             if int (length parentheses) > v - 1
             then and_then (slice_get parentheses (v - 1)) (\<lambda>q. Inr (rs @ [q]))
             else Inr rs) values []))"

definition CreateParenthesesSlice :: "string \<Rightarrow> string \<Rightarrow> ParenthesesSlice result" where
  "CreateParenthesesSlice pattern target =
     and_then (findParentheses pattern target) (\<lambda>ps. Inr \<lparr>parens = ps\<rparr>)"

definition is_paren :: "char \<Rightarrow> bool" where
  "is_paren c \<longleftrightarrow> c = CHR ''('' \<or> c = CHR '')''"

definition RemovePlaceholderParentheses :: "string \<Rightarrow> string \<Rightarrow> string result" where
  "RemovePlaceholderParentheses pattern target =
     and_then (CreateParenthesesSlice pattern target) (\<lambda>parentheses.
       Inr (concat (map (\<lambda>(i, c). if is_paren c \<and> IsPresent parentheses i then [] else [c])
                        (enumerate 0 pattern))))"

definition IsPlaceholdersUsed :: "string \<Rightarrow> string \<Rightarrow> bool result" where
  "IsPlaceholdersUsed pattern target =
     and_then (RemovePlaceholderParentheses pattern target) (\<lambda>removed. Inr (removed \<noteq> target))"

definition AddEscapingParentheses :: "string \<Rightarrow> string \<Rightarrow> string \<Rightarrow> string result" where
  "AddEscapingParentheses pattern target targetPathInArchive =
     and_then (CreateParenthesesSlice pattern target) (\<lambda>parentheses.
     and_then (CreateParenthesesSlice pattern targetPathInArchive) (\<lambda>archiveParentheses.
       Inr (concat (map (\<lambda>(i, c).
              if is_paren c \<and> \<not> IsPresent parentheses i \<and> \<not> IsPresent archiveParentheses i
              then [CHR 0x5C, c] else [c]) (enumerate 0 pattern)))))"

definition addEscapingParentheses :: "string \<Rightarrow> string \<Rightarrow> string result" where
  "addEscapingParentheses pattern target = AddEscapingParentheses pattern target []"

section \<open>Matching parentheses\<close>

fun depth :: "string \<Rightarrow> int" where
  "depth [] = 0"
| "depth (c # s) = (if c = CHR ''('' then 1 else if c = CHR '')'' then - 1 else 0) + depth s"

text \<open>The bytes of \<open>p\<close> from position \<open>a\<close> up to, not including, \<open>b\<close>.\<close>

definition sub :: "string \<Rightarrow> nat \<Rightarrow> nat \<Rightarrow> string" where
  "sub p a b = take (b - a) (drop a p)"

definition matched :: "string \<Rightarrow> nat \<Rightarrow> nat \<Rightarrow> bool" where
  "matched p a b \<longleftrightarrow> a < b \<and> b < length p \<and> p ! a = CHR ''('' \<and> p ! b = CHR '')'' \<and>
     depth (sub p (Suc a) b) = 0 \<and> (\<forall>k\<le>b. 0 \<le> depth (sub p (Suc a) k))"

lemma depth_append [simp]: "depth (s @ t) = depth s + depth t"
  by (induction s) auto

lemma sub_snoc_old: "b \<le> length p \<Longrightarrow> sub (p @ [x]) a b = sub p a b"
  by (simp add: sub_def)

lemma sub_snoc_new: "a \<le> length p \<Longrightarrow> sub (p @ [x]) a (Suc (length p)) = sub p a (length p) @ [x]"
  by (simp add: sub_def)

lemma sub_self [simp]: "sub p a a = []"
  by (simp add: sub_def)

lemma sub_Suc: "a \<le> b \<Longrightarrow> b < length p \<Longrightarrow> sub p a (Suc b) = sub p a b @ [p ! b]"
  by (simp add: sub_def Suc_diff_le take_Suc_conv_app_nth)

lemma matched_snoc: "matched p a b \<Longrightarrow> matched (p @ [x]) a b"
  by (auto simp: matched_def nth_append sub_snoc_old)

lemma matched_deterministic: "matched p a b \<Longrightarrow> matched p a c \<Longrightarrow> b = c"
proof (induction b c rule: linorder_wlog)
  case (le b c)
  show ?case
  proof (rule ccontr)
    assume "b \<noteq> c"
    with le have "Suc b \<le> c" by simp
    with le(3) have "0 \<le> depth (sub p (Suc a) (Suc b))" by (simp add: matched_def)
    with le(2) show False by (simp add: matched_def sub_Suc)
  qed
qed auto

section \<open>The scan finds exactly the matching pairs\<close>

abbreviation still_open :: "Parentheses \<Rightarrow> bool" where
  "still_open q \<equiv> CloseIndex q = 0"

lemma close_last_cases:
  assumes "n \<le> length ps" "\<forall>q\<in>set (drop n ps). \<not> still_open q"
  shows "((\<forall>q\<in>set ps. \<not> still_open q) \<and> close_last ps n i = ps) \<or>
         (\<exists>xs q ys. ps = xs @ q # ys \<and> still_open q \<and> (\<forall>r\<in>set ys. \<not> still_open r) \<and>
            close_last ps n i = xs @ q\<lparr>CloseIndex := i\<rparr> # ys)"
  using assms
proof (induction n)
  case 0
  then show ?case by simp
next
  case (Suc j)
  have split: "ps = take j ps @ ps ! j # drop (Suc j) ps"
    using Suc.prems(1) by (simp add: id_take_nth_drop)
  show ?case
  proof (cases "still_open (ps ! j)")
    case True
    have "close_last ps (Suc j) i = take j ps @ (ps ! j)\<lparr>CloseIndex := i\<rparr> # drop (Suc j) ps"
      using True Suc.prems(1) by (simp add: upd_conv_take_nth_drop)
    with True split Suc.prems(2) show ?thesis by blast
  next
    case False
    have "drop j ps = ps ! j # drop (Suc j) ps"
      using Suc.prems(1) by (simp add: Cons_nth_drop_Suc)
    with False Suc.prems(2) have "\<forall>q\<in>set (drop j ps). \<not> still_open q" by simp
    with Suc.IH Suc.prems(1) False show ?thesis by simp
  qed
qed

definition scan_inv :: "string \<Rightarrow> Parentheses list \<Rightarrow> bool" where
  "scan_inv p ps \<longleftrightarrow>
     map OpenIndex ps = filter (\<lambda>i. p ! i = CHR ''('') [0..<length p] \<and>
     (\<forall>q\<in>set ps. \<not> still_open q \<longrightarrow> matched p (OpenIndex q) (CloseIndex q)) \<and>
     (\<forall>xs q ys. ps = xs @ q # ys \<longrightarrow> still_open q \<longrightarrow>
        (\<forall>k\<le>length p. 0 \<le> depth (sub p (Suc (OpenIndex q)) k)) \<and>
        depth (sub p (Suc (OpenIndex q)) (length p)) = int (length (filter still_open ys)))"

lemma scan_inv_open_lt: "scan_inv p ps \<Longrightarrow> q \<in> set ps \<Longrightarrow> OpenIndex q < length p \<and> p ! OpenIndex q = CHR ''(''"
proof -
  assume "scan_inv p ps" "q \<in> set ps"
  then have "OpenIndex q \<in> set (filter (\<lambda>i. p ! i = CHR ''('') [0..<length p])"
    by (metis (no_types, lifting) image_eqI list.set_map scan_inv_def)
  then show ?thesis by simp
qed

lemma filter_upt_snoc:
  "filter (\<lambda>i. (p @ [x]) ! i = c) [0..<length (p @ [x])] =
   filter (\<lambda>i. p ! i = c) [0..<length p] @ (if x = c then [length p] else [])"
  by (auto simp: nth_append intro: filter_cong)


lemma open_entry_snoc:
  assumes "a < length p" "\<forall>k\<le>length p. 0 \<le> depth (sub p (Suc a) k)"
    and "0 \<le> depth (sub p (Suc a) (length p)) + depth [x]"
  shows "(\<forall>k\<le>length (p @ [x]). 0 \<le> depth (sub (p @ [x]) (Suc a) k)) \<and>
         depth (sub (p @ [x]) (Suc a) (length (p @ [x]))) = depth (sub p (Suc a) (length p)) + depth [x]"
proof -
  have new: "depth (sub (p @ [x]) (Suc a) (length (p @ [x]))) = depth (sub p (Suc a) (length p)) + depth [x]"
    using assms(1) sub_snoc_new[of "Suc a" p x] by simp
  have "0 \<le> depth (sub (p @ [x]) (Suc a) k)" if "k \<le> length (p @ [x])" for k
  proof (cases "k \<le> length p")
    case True
    with assms(2) show ?thesis by (simp add: sub_snoc_old)
  next
    case False
    with that have "k = length (p @ [x])" by simp
    with new assms(3) show ?thesis by simp
  qed
  with new show ?thesis by blast
qed

lemma scan_inv_split_lt: "scan_inv p (xs @ q # ys) \<Longrightarrow> OpenIndex q < length p"
  using scan_inv_open_lt by auto

lemma scan_inv_other:
  assumes inv: "scan_inv p ps" and x: "x \<noteq> CHR ''(''" "x \<noteq> CHR '')''"
  shows "scan_inv (p @ [x]) ps"
  unfolding scan_inv_def filter_upt_snoc
proof (intro conjI)
  show "map OpenIndex ps = filter (\<lambda>i. p ! i = CHR ''('') [0..<length p] @ (if x = CHR ''('' then [length p] else [])"
    using inv x by (simp add: scan_inv_def)
  show "\<forall>q\<in>set ps. \<not> still_open q \<longrightarrow> matched (p @ [x]) (OpenIndex q) (CloseIndex q)"
    using inv by (auto simp: scan_inv_def intro: matched_snoc)
  show "\<forall>xs q ys. ps = xs @ q # ys \<longrightarrow> still_open q \<longrightarrow>
        (\<forall>k\<le>length (p @ [x]). 0 \<le> depth (sub (p @ [x]) (Suc (OpenIndex q)) k)) \<and>
        depth (sub (p @ [x]) (Suc (OpenIndex q)) (length (p @ [x]))) = int (length (filter still_open ys))"
  proof (intro allI impI)
    fix xs q ys assume ps: "ps = xs @ q # ys" "still_open q"
    with inv have "OpenIndex q < length p" using scan_inv_split_lt by blast
    moreover from inv ps have
      "\<forall>k\<le>length p. 0 \<le> depth (sub p (Suc (OpenIndex q)) k)"
      "depth (sub p (Suc (OpenIndex q)) (length p)) = int (length (filter still_open ys))"
      unfolding scan_inv_def by blast+
    ultimately show "(\<forall>k\<le>length (p @ [x]). 0 \<le> depth (sub (p @ [x]) (Suc (OpenIndex q)) k)) \<and>
        depth (sub (p @ [x]) (Suc (OpenIndex q)) (length (p @ [x]))) = int (length (filter still_open ys))"
      using x open_entry_snoc[of "OpenIndex q" p x] by simp
  qed
qed

lemma scan_inv_opening:
  assumes inv: "scan_inv p ps"
  shows "scan_inv (p @ [CHR ''('']) (ps @ [\<lparr>OpenIndex = length p, CloseIndex = 0\<rparr>])"
    (is "scan_inv (p @ [?x]) (ps @ [?e])")
  unfolding scan_inv_def filter_upt_snoc
proof (intro conjI)
  show "map OpenIndex (ps @ [?e]) = filter (\<lambda>i. p ! i = CHR ''('') [0..<length p] @ (if ?x = CHR ''('' then [length p] else [])"
    using inv by (simp add: scan_inv_def)
  show "\<forall>q\<in>set (ps @ [?e]). \<not> still_open q \<longrightarrow> matched (p @ [?x]) (OpenIndex q) (CloseIndex q)"
    using inv by (auto simp: scan_inv_def intro: matched_snoc)
  show "\<forall>xs q ys. ps @ [?e] = xs @ q # ys \<longrightarrow> still_open q \<longrightarrow>
        (\<forall>k\<le>length (p @ [?x]). 0 \<le> depth (sub (p @ [?x]) (Suc (OpenIndex q)) k)) \<and>
        depth (sub (p @ [?x]) (Suc (OpenIndex q)) (length (p @ [?x]))) = int (length (filter still_open ys))"
  proof (intro allI impI)
    fix xs q ys assume ps: "ps @ [?e] = xs @ q # ys" "still_open q"
    show "(\<forall>k\<le>length (p @ [?x]). 0 \<le> depth (sub (p @ [?x]) (Suc (OpenIndex q)) k)) \<and>
        depth (sub (p @ [?x]) (Suc (OpenIndex q)) (length (p @ [?x]))) = int (length (filter still_open ys))"
    proof (cases ys rule: rev_cases)
      case Nil
      with ps have "q = ?e" by simp
      with Nil show ?thesis by (simp add: sub_def)
    next
      case (snoc zs z)
      with ps have ps': "ps = xs @ q # zs" and z: "z = ?e" by simp_all
      with inv have "OpenIndex q < length p" using scan_inv_split_lt by blast
      moreover from inv ps' ps(2) have
        "\<forall>k\<le>length p. 0 \<le> depth (sub p (Suc (OpenIndex q)) k)"
        "depth (sub p (Suc (OpenIndex q)) (length p)) = int (length (filter still_open zs))"
        unfolding scan_inv_def by blast+
      ultimately show ?thesis
        using snoc z open_entry_snoc[of "OpenIndex q" p ?x] by simp
    qed
  qed
qed

lemma scan_inv_closing_none:
  assumes inv: "scan_inv p ps" and none: "\<forall>q\<in>set ps. \<not> still_open q"
  shows "scan_inv (p @ [CHR '')'']) ps"
  unfolding scan_inv_def filter_upt_snoc
  using inv none by (auto simp: scan_inv_def intro: matched_snoc)

lemma scan_inv_closing:
  assumes inv: "scan_inv p (xs @ q # ys)" and q: "still_open q"
    and ys: "\<forall>r\<in>set ys. \<not> still_open r"
  shows "scan_inv (p @ [CHR '')'']) (xs @ q\<lparr>CloseIndex := length p\<rparr> # ys)"
    (is "scan_inv (p @ [?x]) (xs @ ?q # ys)")
  unfolding scan_inv_def filter_upt_snoc
proof (intro conjI)
  have lt: "OpenIndex q < length p" "p ! OpenIndex q = CHR ''(''"
    using scan_inv_open_lt[OF inv] by auto
  have q_open: "\<forall>k\<le>length p. 0 \<le> depth (sub p (Suc (OpenIndex q)) k)"
    "depth (sub p (Suc (OpenIndex q)) (length p)) = 0"
    using inv q ys unfolding scan_inv_def by (force simp: filter_False)+
  show "map OpenIndex (xs @ ?q # ys) = filter (\<lambda>i. p ! i = CHR ''('') [0..<length p] @ (if ?x = CHR ''('' then [length p] else [])"
    using inv by (simp add: scan_inv_def)
  have "matched (p @ [?x]) (OpenIndex q) (length p)"
    using lt q_open by (auto simp: matched_def sub_snoc_old nth_append)
  then show "\<forall>r\<in>set (xs @ ?q # ys). \<not> still_open r \<longrightarrow> matched (p @ [?x]) (OpenIndex r) (CloseIndex r)"
    using inv by (auto simp: scan_inv_def intro: matched_snoc)
  show "\<forall>as r bs. xs @ ?q # ys = as @ r # bs \<longrightarrow> still_open r \<longrightarrow>
        (\<forall>k\<le>length (p @ [?x]). 0 \<le> depth (sub (p @ [?x]) (Suc (OpenIndex r)) k)) \<and>
        depth (sub (p @ [?x]) (Suc (OpenIndex r)) (length (p @ [?x]))) = int (length (filter still_open bs))"
  proof (intro allI impI)
    fix as r bs assume eq: "xs @ ?q # ys = as @ r # bs" and r: "still_open r"
    have "length p \<noteq> 0" using lt by auto
    then have "\<not> still_open ?q" by simp
    with eq r ys obtain cs where xs: "xs = as @ r # cs" and bs: "bs = cs @ ?q # ys"
      by (auto simp: append_eq_append_conv2 append_eq_Cons_conv Cons_eq_append_conv)
    have "xs @ q # ys = as @ r # (cs @ q # ys)" using xs by simp
    with inv r have
      "\<forall>k\<le>length p. 0 \<le> depth (sub p (Suc (OpenIndex r)) k)"
      "depth (sub p (Suc (OpenIndex r)) (length p)) = int (length (filter still_open (cs @ q # ys)))"
      unfolding scan_inv_def by blast+
    moreover have "OpenIndex r < length p" using scan_inv_open_lt[OF inv] xs by auto
    ultimately show "(\<forall>k\<le>length (p @ [?x]). 0 \<le> depth (sub (p @ [?x]) (Suc (OpenIndex r)) k)) \<and>
        depth (sub (p @ [?x]) (Suc (OpenIndex r)) (length (p @ [?x]))) = int (length (filter still_open bs))"
      using bs q \<open>length p \<noteq> 0\<close> open_entry_snoc[of "OpenIndex r" p ?x] by simp
  qed
qed

lemma scan_inv_step:
  assumes inv: "scan_inv p ps"
  shows "scan_inv (p @ [c])
    (if c = CHR ''('' then ps @ [\<lparr>OpenIndex = length p, CloseIndex = 0\<rparr>]
     else if c = CHR '')'' then close_last ps (length ps) (length p) else ps)"
proof (cases "c = CHR '')''")
  case True
  have none: "\<forall>q\<in>set (drop (length ps) ps). \<not> still_open q" by simp
  from close_last_cases[OF order_refl none, of "length p"]
  have "scan_inv (p @ [CHR '')'']) (close_last ps (length ps) (length p))"
  proof (elim disjE conjE exE)
    assume "\<forall>q\<in>set ps. \<not> still_open q" "close_last ps (length ps) (length p) = ps"
    with inv scan_inv_closing_none show ?thesis by metis
  next
    fix xs q ys assume "ps = xs @ q # ys" "still_open q" "\<forall>r\<in>set ys. \<not> still_open r"
      "close_last ps (length ps) (length p) = xs @ q\<lparr>CloseIndex := length p\<rparr> # ys"
    with inv scan_inv_closing show ?thesis by metis
  qed
  with True show ?thesis by simp
next
  case False
  then show ?thesis
    using scan_inv_opening[OF inv] scan_inv_other[OF inv] by simp
qed

lemma scan_inv_run:
  "scan_inv p ps \<Longrightarrow> scan_inv (p @ s) (scan_parentheses (enumerate (length p) s) ps)"
proof (induction s arbitrary: p ps)
  case Nil
  then show ?case by simp
next
  case (Cons c s)
  show ?case
    using Cons.IH[OF scan_inv_step[OF Cons.prems, of c]] by simp
qed

lemma scan_inv_all: "scan_inv p (scan_parentheses (enumerate 0 p) [])"
  using scan_inv_run[of "[]" "[]" p] by (simp add: scan_inv_def)

lemma getAllParentheses_matched:
  "(\<exists>q\<in>set (getAllParentheses p). OpenIndex q = a \<and> CloseIndex q = b) \<longleftrightarrow> matched p a b"
proof
  assume "\<exists>q\<in>set (getAllParentheses p). OpenIndex q = a \<and> CloseIndex q = b"
  then show "matched p a b"
    using scan_inv_all[of p] by (auto simp: getAllParentheses_def scan_inv_def)
next
  assume m: "matched p a b"
  let ?ps = "scan_parentheses (enumerate 0 p) []"
  have inv: "scan_inv p ?ps" by (rule scan_inv_all)
  have "a \<in> set (map OpenIndex ?ps)" using m inv by (simp add: scan_inv_def matched_def)
  then obtain q where q: "q \<in> set ?ps" "OpenIndex q = a" by auto
  show "\<exists>q\<in>set (getAllParentheses p). OpenIndex q = a \<and> CloseIndex q = b"
  proof (cases "still_open q")
    case True
    obtain xs ys where "?ps = xs @ q # ys" using q(1) by (auto simp: in_set_conv_decomp)
    with True inv q(2) have "\<forall>k\<le>length p. 0 \<le> depth (sub p (Suc a) k)"
      unfolding scan_inv_def by blast
    moreover have "Suc b \<le> length p" using m by (simp add: matched_def)
    ultimately have "0 \<le> depth (sub p (Suc a) (Suc b))" by blast
    with m have False by (simp add: matched_def sub_Suc)
    then show ?thesis ..
  next
    case False
    with inv q have "matched p a (CloseIndex q)" by (auto simp: scan_inv_def)
    with m have "CloseIndex q = b" using matched_deterministic by blast
    with False q show ?thesis by (auto simp: getAllParentheses_def)
  qed
qed

lemma getAllParentheses_sorted: "sorted_wrt (<) (map OpenIndex (getAllParentheses p))"
proof -
  let ?ps = "scan_parentheses (enumerate 0 p) []"
  have "map OpenIndex ?ps = filter (\<lambda>i. p ! i = CHR ''('') [0..<length p]"
    using scan_inv_all[of p] by (simp add: scan_inv_def)
  then have "sorted_wrt (<) (map OpenIndex ?ps)"
    by (simp add: sorted_wrt_filter)
  then have "sorted_wrt (\<lambda>x y. OpenIndex x < OpenIndex y) ?ps"
    by (simp add: sorted_wrt_map)
  then show ?thesis
    by (simp add: getAllParentheses_def sorted_wrt_map sorted_wrt_filter)
qed


section \<open>Sorting placeholder values\<close>

lemma sorted_remdups_adj_strict: "sorted xs \<Longrightarrow> sorted_wrt (<) (remdups_adj (xs :: 'a :: linorder list))"
proof (induction xs rule: remdups_adj.induct)
  case (3 x y xs)
  then show ?case by (cases "x = y") (auto simp: less_le_trans)
qed auto

lemma remdups_adj_repeat: "remdups_adj ((xs @ [x]) @ x # ys) = remdups_adj ((xs @ [x]) @ ys)"
  using remdups_adj_append[of xs x "x # ys"] remdups_adj_append[of xs x ys] by simp

lemma compact_loop_correct:
  assumes "j < i" "i \<le> length arr" "distinct_adj (take (Suc j) arr)" "compact_loop arr j i = (arr', j')"
  shows "j' < length arr' \<and> take (Suc j') arr' = remdups_adj (take (Suc j) arr @ drop i arr)"
  using assms
proof (induction arr j i rule: compact_loop.induct)
  case (1 arr j i)
  show ?case
  proof (cases "i < length arr")
    case False
    with "1.prems"(4) have "arr' = arr" "j' = j"
      by (simp_all add: compact_loop.simps[of arr j i])
    with False "1.prems" show ?thesis by (simp add: distinct_adj_altdef)
  next
    case lt: True
    have pre: "take (Suc j) arr = take j arr @ [arr ! j]"
      using "1.prems"(1) lt by (simp add: take_Suc_conv_app_nth)
    have suf: "drop i arr = arr ! i # drop (Suc i) arr"
      using lt by (simp add: Cons_nth_drop_Suc)
    show ?thesis
    proof (cases "arr ! j = arr ! i")
      case True
      have "remdups_adj (take (Suc j) arr @ drop i arr) = remdups_adj (take (Suc j) arr @ drop (Suc i) arr)"
        unfolding pre suf using True remdups_adj_repeat by metis
      moreover have "compact_loop arr j (Suc i) = (arr', j')"
        using "1.prems"(4) lt True by (subst (asm) compact_loop.simps) simp
      ultimately show ?thesis
        using "1.IH"(1)[OF lt True] "1.prems"(1,3) lt by simp
    next
      case False
      let ?arr = "arr[Suc j := arr ! i]"
      have "take (Suc (Suc j)) ?arr = take (Suc j) arr @ [arr ! i]"
        using "1.prems"(1) lt by (simp add: take_Suc_conv_app_nth)
      moreover have "drop (Suc i) ?arr = drop (Suc i) arr"
        using "1.prems"(1) by simp
      moreover have run': "compact_loop ?arr (Suc j) (Suc i) = (arr', j')"
        using "1.prems"(4) lt False by (subst (asm) compact_loop.simps) simp
      moreover have "distinct_adj (take (Suc j) arr @ [arr ! i])"
        using "1.prems"(3) False pre by (simp add: distinct_adj_append_iff)
      ultimately show ?thesis
        using "1.IH"(2)[OF lt False] run' suf "1.prems"(1) lt by simp
    qed
  qed
qed

lemma sortNoDuplicates_correct:
  assumes "xs \<noteq> []"
  shows "sortNoDuplicates xs = Inr (sorted_list_of_set (set xs))"
proof -
  obtain arr' j' where run: "compact_loop (sort xs) 0 1 = (arr', j')" by fastforce
  have "length (sort xs) \<noteq> 0" using assms by simp
  then obtain y ys where ys: "sort xs = y # ys" by (cases "sort xs") auto
  have "j' < length arr' \<and> take (Suc j') arr' = remdups_adj (take (Suc 0) (sort xs) @ drop 1 (sort xs))"
    by (rule compact_loop_correct[OF _ _ _ run]) (use ys in simp_all)
  then have "j' < length arr'" and take: "take (Suc j') arr' = remdups_adj (sort xs)"
    using ys by simp_all
  moreover have "remdups_adj (sort xs) = sorted_list_of_set (set xs)"
    by (rule strict_sorted_equal) (auto intro: sorted_remdups_adj_strict)
  ultimately show ?thesis
    unfolding sortNoDuplicates_def run by simp
qed

lemma getPlaceHoldersValues_eq:
  "getPlaceHoldersValues t = Inr (sorted_list_of_set (set (List.map_filter atoi (placeholder_submatches t))))"
  using sortNoDuplicates_correct
  by (cases "List.map_filter atoi (placeholder_submatches t) = []")
     (simp_all only: getPlaceHoldersValues_def Let_def if_True if_False not_True_eq_False
        not_False_eq_True list.set simp_thms sorted_list_of_set_empty)

definition placeholder_values :: "string \<Rightarrow> int list" where
  "placeholder_values t = sorted_list_of_set (set (List.map_filter atoi (placeholder_submatches t)))"

lemma getPlaceHoldersValues_values: "getPlaceHoldersValues t = Inr (placeholder_values t)"
  by (simp add: getPlaceHoldersValues_eq placeholder_values_def)

lemma placeholder_values_sorted: "sorted_wrt (<) (placeholder_values t)"
  by (simp add: placeholder_values_def)

section \<open>Selecting the parentheses of the placeholders\<close>

definition selected :: "Parentheses list \<Rightarrow> int list \<Rightarrow> Parentheses list" where
  "selected ps vs = map (\<lambda>v. ps ! nat (v - 1)) (filter (\<lambda>v. v \<le> int (length ps)) vs)"

abbreviation select_step :: "Parentheses list \<Rightarrow> int \<Rightarrow> Parentheses list \<Rightarrow> Parentheses list result" where
  "select_step ps v rs \<equiv>
     (if int (length ps) > v - 1 then and_then (slice_get ps (v - 1)) (\<lambda>q. Inr (rs @ [q])) else Inr rs)"

lemma fold_select_positive:
  "\<forall>v\<in>set vs. 1 \<le> v \<Longrightarrow> fold_result (select_step ps) vs rs = Inr (rs @ selected ps vs)"
  by (induction vs arbitrary: rs) (auto simp: selected_def slice_get_def)

lemma findParentheses_positive:
  assumes "\<forall>v\<in>set (placeholder_values t). 1 \<le> v"
  shows "findParentheses p t = Inr (selected (getAllParentheses p) (placeholder_values t))"
  using fold_select_positive[OF assms, of "getAllParentheses p" "[]"]
  by (simp add: findParentheses_def getPlaceHoldersValues_values)

lemma findParentheses_nonpositive:
  assumes "\<exists>v\<in>set (placeholder_values t). v < 1"
  shows "findParentheses p t = Inl (Panic ''index out of range'')"
proof -
  obtain v vs where vs: "placeholder_values t = v # vs" using assms by (cases "placeholder_values t") auto
  have "v < 1"
    using assms placeholder_values_sorted[of t] vs by auto
  then show ?thesis
    by (simp add: findParentheses_def getPlaceHoldersValues_values vs slice_get_def)
qed

lemma findParentheses_cases:
  obtains (panic) "\<exists>v\<in>set (placeholder_values t). v < 1" "findParentheses p t = Inl (Panic ''index out of range'')"
  | (ok) "\<forall>v\<in>set (placeholder_values t). 1 \<le> v"
      "findParentheses p t = Inr (selected (getAllParentheses p) (placeholder_values t))"
  using findParentheses_positive findParentheses_nonpositive by (meson not_le)

lemma nth_strict_sorted_distinct: "sorted_wrt (<) (vs :: int list) \<Longrightarrow> distinct vs"
  by (simp add: strict_sorted_iff)

lemma getAllParentheses_distinct: "distinct (getAllParentheses p)"
  using getAllParentheses_sorted[of p] by (auto simp: strict_sorted_iff distinct_map)

lemma selected_distinct:
  assumes "distinct ps" "distinct vs" "\<forall>v\<in>set vs. 1 \<le> v"
  shows "distinct (selected ps vs)"
proof -
  have "inj_on (\<lambda>v. ps ! nat (v - 1)) {v \<in> set vs. v \<le> int (length ps)}"
  proof (rule inj_onI)
    fix v w assume "v \<in> {v \<in> set vs. v \<le> int (length ps)}" "w \<in> {v \<in> set vs. v \<le> int (length ps)}"
      and eq: "ps ! nat (v - 1) = ps ! nat (w - 1)"
    with assms(3) have v: "1 \<le> v" "v \<le> int (length ps)" and w: "1 \<le> w" "w \<le> int (length ps)" by auto
    then have "nat (v - 1) < length ps" "nat (w - 1) < length ps" by auto
    with eq assms(1) have "nat (v - 1) = nat (w - 1)" by (simp add: nth_eq_iff_index_eq)
    with v w show "v = w" by simp
  qed
  with assms(2) show ?thesis by (simp add: selected_def distinct_map)
qed

lemma selected_subset: "\<forall>v\<in>set vs. 1 \<le> v \<Longrightarrow> set (selected ps vs) \<subseteq> set ps"
  by (auto simp: selected_def)

text \<open>The pairs found for a target are pairwise disjoint matched pairs of the pattern.\<close>

lemma depth_balanced_suffix:
  assumes "matched p a c" "matched p b c" "a \<le> b"
  shows "a = b"
proof (rule ccontr)
  assume "a \<noteq> b"
  with assms have ab: "Suc a \<le> b" "b < c" "c < length p" by (auto simp: matched_def)
  have split: "sub p (Suc a) c = sub p (Suc a) b @ p ! b # sub p (Suc b) c"
  proof -
    have "drop (Suc a) p = take (b - Suc a) (drop (Suc a) p) @ drop b p"
      using ab by (metis append_take_drop_id drop_drop le_add_diff_inverse2)
    moreover have "drop b p = p ! b # drop (Suc b) p"
      using ab by (simp add: Cons_nth_drop_Suc)
    ultimately have d: "drop (Suc a) p = sub p (Suc a) b @ p ! b # drop (Suc b) p"
      by (simp add: sub_def)
    have "length (sub p (Suc a) b) = b - Suc a" using ab by (simp add: sub_def)
    then show ?thesis
      using ab unfolding sub_def[of p "Suc a" c] d
      by (simp add: take_Cons' sub_def[of p "Suc b" c] diff_diff_left)
  qed
  have "0 \<le> depth (sub p (Suc a) b)" using assms(1) ab by (simp add: matched_def)
  moreover have "depth (sub p (Suc a) c) = 0" "p ! b = CHR ''(''" "depth (sub p (Suc b) c) = 0"
    using assms(1,2) by (auto simp: matched_def)
  ultimately show False using split by simp
qed

lemma matched_close_unique: "matched p a c \<Longrightarrow> matched p b c \<Longrightarrow> a = b"
  using depth_balanced_suffix by (metis linorder_le_cases)

lemma getAllParentheses_mem: "q \<in> set (getAllParentheses p) \<Longrightarrow> matched p (OpenIndex q) (CloseIndex q)"
  using getAllParentheses_matched by blast

definition pair_positions :: "Parentheses list \<Rightarrow> nat list" where
  "pair_positions qs = map OpenIndex qs @ map CloseIndex qs"

lemma matched_pairs_positions_distinct:
  assumes "distinct qs" "\<forall>q\<in>set qs. matched p (OpenIndex q) (CloseIndex q)"
  shows "distinct (pair_positions qs)"
proof -
  have o: "inj_on OpenIndex (set qs)"
  proof (rule inj_onI)
    fix q r assume qr: "q \<in> set qs" "r \<in> set qs" "OpenIndex q = OpenIndex r"
    with assms(2) have "CloseIndex q = CloseIndex r" using matched_deterministic by metis
    with qr show "q = r" by simp
  qed
  have c: "inj_on CloseIndex (set qs)"
  proof (rule inj_onI)
    fix q r assume qr: "q \<in> set qs" "r \<in> set qs" "CloseIndex q = CloseIndex r"
    with assms(2) have "OpenIndex q = OpenIndex r" using matched_close_unique by metis
    with qr show "q = r" by simp
  qed
  have "OpenIndex q \<noteq> CloseIndex r" if "q \<in> set qs" "r \<in> set qs" for q r
  proof
    assume "OpenIndex q = CloseIndex r"
    moreover have "p ! OpenIndex q = CHR ''(''" "p ! CloseIndex r = CHR '')''"
      using assms(2) that by (auto simp: matched_def)
    ultimately show False by simp
  qed
  with o c assms(1) show ?thesis
    by (auto simp: pair_positions_def distinct_map)
qed

lemma IsPresent_iff: "IsPresent \<lparr>parens = qs\<rparr> i \<longleftrightarrow> i \<in> set (pair_positions qs)"
  by (auto simp: IsPresent_def pair_positions_def list_ex_iff)

section \<open>Properties of the exported functions\<close>

lemma enumerate_as_map: "enumerate 0 p = map (\<lambda>i. (i, p ! i)) [0..<length p]"
  by (rule nth_equalityI) (simp_all add: nth_enumerate_eq)

lemma nths_keep: "concat (map (\<lambda>i. if Q i then [] else [p ! i]) [0..<length p]) = nths p {i. \<not> Q i}"
proof (induction p rule: rev_induct)
  case Nil
  then show ?case by simp
next
  case (snoc x p)
  then show ?case
    unfolding map_upt_snoc[of "\<lambda>i c. if Q i then [] else [c]"]
    by (simp add: nths_append nths_singleton)
qed

lemma selected_pairs:
  assumes "findParentheses p t = Inr qs"
  shows "distinct (pair_positions qs)" "\<forall>i\<in>set (pair_positions qs). i < length p \<and> is_paren (p ! i)"
proof -
  have qs: "qs = selected (getAllParentheses p) (placeholder_values t)"
    and pos: "\<forall>v\<in>set (placeholder_values t). 1 \<le> v"
    using assms by (cases p t rule: findParentheses_cases; simp)+
  have m: "\<forall>q\<in>set qs. matched p (OpenIndex q) (CloseIndex q)"
    using selected_subset[OF pos, of "getAllParentheses p"] getAllParentheses_mem qs by blast
  have "distinct qs"
    unfolding qs
    by (rule selected_distinct[OF getAllParentheses_distinct nth_strict_sorted_distinct[OF placeholder_values_sorted] pos])
  then show "distinct (pair_positions qs)" using m by (rule matched_pairs_positions_distinct)
  show "\<forall>i\<in>set (pair_positions qs). i < length p \<and> is_paren (p ! i)"
    using m by (auto simp: pair_positions_def matched_def is_paren_def)
qed

lemma CreateParenthesesSlice_eq: "findParentheses p t = Inr qs \<Longrightarrow> CreateParenthesesSlice p t = Inr \<lparr>parens = qs\<rparr>"
  by (simp add: CreateParenthesesSlice_def)

lemma RemovePlaceholderParentheses_nths:
  assumes "findParentheses p t = Inr qs"
  shows "RemovePlaceholderParentheses p t = Inr (nths p {i. i \<notin> set (pair_positions qs)})"
proof -
  have "concat (map (\<lambda>(i, c). if is_paren c \<and> IsPresent \<lparr>parens = qs\<rparr> i then [] else [c]) (enumerate 0 p)) =
        concat (map (\<lambda>i. if i \<in> set (pair_positions qs) then [] else [p ! i]) [0..<length p])"
    using selected_pairs(2)[OF assms]
    by (intro arg_cong[of _ _ concat]) (auto simp: enumerate_as_map IsPresent_iff)
  then show ?thesis
    by (simp add: RemovePlaceholderParentheses_def CreateParenthesesSlice_eq[OF assms] nths_keep)
qed

lemma length_nths_delete:
  assumes "distinct is" "\<forall>i\<in>set is. i < length p"
  shows "length (nths p {i. i \<notin> set is}) + length is = length p"
proof -
  have "{i. i < length p \<and> i \<notin> set is} = {..<length p} - set is" by auto
  moreover have "card ({..<length p} - set is) = length p - length is"
    using assms by (subst card_Diff_subset) (auto simp: distinct_card)
  moreover have "length is \<le> length p"
    using assms card_mono[of "{..<length p}" "set is"] by (auto simp: distinct_card)
  ultimately show ?thesis by (simp add: length_nths)
qed

text \<open>The scan with its in-place closing of the last open entry finds exactly the pairs of
  matching parentheses of the pattern, in the order of their opening positions.\<close>

theorem getAllParentheses_correct:
  "{(OpenIndex q, CloseIndex q) | q. q \<in> set (getAllParentheses p)} = {(a, b). matched p a b} \<and>
   sorted_wrt (<) (map OpenIndex (getAllParentheses p))"
  using getAllParentheses_matched[of p] getAllParentheses_sorted[of p] by force

text \<open>Placeholder values come sorted and without duplicates; \<open>findParentheses\<close> takes the
  \<open>v\<close>-th matched pair for each value \<open>v\<close> that has one, and panics exactly when the target
  holds a placeholder below 1, such as \<open>{0}\<close>.\<close>

theorem findParentheses_correct:
  "getPlaceHoldersValues t = Inr (placeholder_values t) \<and>
   findParentheses p t =
     (if \<exists>v\<in>set (placeholder_values t). v < 1 then Inl (Panic ''index out of range'')
      else Inr (map (\<lambda>v. getAllParentheses p ! nat (v - 1))
                 (filter (\<lambda>v. v \<le> int (length (getAllParentheses p))) (placeholder_values t))))"
  by (cases p t rule: findParentheses_cases) (auto simp: selected_def getPlaceHoldersValues_values)

text \<open>Removing the placeholder parentheses deletes the bytes at the positions of the selected
  pairs, two distinct positions per pair, and nothing else.\<close>

theorem RemovePlaceholderParentheses_correct:
  assumes "findParentheses p t = Inr qs"
  shows "\<exists>r. RemovePlaceholderParentheses p t = Inr r \<and>
             r = nths p {i. i \<notin> set (pair_positions qs)} \<and>
             length r + 2 * length qs = length p"
proof -
  have "length (pair_positions qs) = 2 * length qs" by (simp add: pair_positions_def)
  then show ?thesis
    using RemovePlaceholderParentheses_nths[OF assms] selected_pairs[OF assms]
      length_nths_delete[of "pair_positions qs" p] by simp
qed

theorem RemovePlaceholderParentheses_correct_witness:
  "\<exists>r. RemovePlaceholderParentheses ''(a)/(b)'' ''{2}'' = Inr r \<and>
       r = nths ''(a)/(b)'' {i. i \<notin> set (pair_positions [\<lparr>OpenIndex = 4, CloseIndex = 6\<rparr>])} \<and>
       length r + 2 * length [\<lparr>OpenIndex = 4, CloseIndex = 6\<rparr>] = length ''(a)/(b)''"
proof -
  have "findParentheses ''(a)/(b)'' ''{2}'' = Inr [\<lparr>OpenIndex = 4, CloseIndex = 6\<rparr>]"
    by code_simp
  then show ?thesis by (rule RemovePlaceholderParentheses_correct)
qed

lemma AddEscapingParentheses_map:
  assumes "findParentheses p t = Inr qs" "findParentheses p a = Inr rs"
  shows "AddEscapingParentheses p t a = Inr (concat (map (\<lambda>i.
           if is_paren (p ! i) \<and> i \<notin> set (pair_positions qs) \<union> set (pair_positions rs)
           then [CHR 0x5C, p ! i] else [p ! i]) [0..<length p]))"
  by (simp add: AddEscapingParentheses_def CreateParenthesesSlice_eq[OF assms(1)]
      CreateParenthesesSlice_eq[OF assms(2)] enumerate_as_map IsPresent_iff comp_def)

lemma filter_concat_escape:
  "CHR 0x5C \<notin> set p \<Longrightarrow>
   filter (\<lambda>c. c \<noteq> CHR 0x5C) (concat (map (\<lambda>i. if Q i then [CHR 0x5C, p ! i] else [p ! i]) [0..<length p])) = p"
proof (induction p rule: rev_induct)
  case Nil
  then show ?case by simp
next
  case (snoc x p)
  then show ?case
    unfolding map_upt_snoc[of "\<lambda>i c. if Q i then [CHR 0x5C, c] else [c]"] by auto
qed

lemma length_concat_escape:
  "length (concat (map (\<lambda>i. if Q i then [CHR 0x5C, p ! i] else [p ! i]) [0..<n])) = n + card {i. i < n \<and> Q i}"
proof (induction n)
  case (Suc n)
  have "{i. i < Suc n \<and> Q i} = (if Q n then insert n {i. i < n \<and> Q i} else {i. i < n \<and> Q i})"
    by (auto simp: less_Suc_eq)
  with Suc show ?case by simp
qed simp

text \<open>Escaping only inserts a backslash before each parenthesis that no placeholder of the
  target or of the archive target selects: deleting the backslashes gives the pattern back, and
  their number is the number of those parentheses.\<close>

theorem AddEscapingParentheses_correct:
  assumes "findParentheses p t = Inr qs" "findParentheses p a = Inr rs" "CHR 0x5C \<notin> set p"
  shows "\<exists>r. AddEscapingParentheses p t a = Inr r \<and> filter (\<lambda>c. c \<noteq> CHR 0x5C) r = p \<and>
     length r = length p +
       card {i. i < length p \<and> is_paren (p ! i) \<and> i \<notin> set (pair_positions qs) \<union> set (pair_positions rs)}"
  using AddEscapingParentheses_map[OF assms(1,2)] filter_concat_escape[OF assms(3)] length_concat_escape
  by simp

theorem AddEscapingParentheses_correct_witness:
  "\<exists>r. AddEscapingParentheses ''(a)/(b)'' ''{2}'' [] = Inr r \<and> filter (\<lambda>c. c \<noteq> CHR 0x5C) r = ''(a)/(b)'' \<and>
     length r = length ''(a)/(b)'' +
       card {i. i < length ''(a)/(b)'' \<and> is_paren (''(a)/(b)'' ! i) \<and>
         i \<notin> set (pair_positions [\<lparr>OpenIndex = 4, CloseIndex = 6\<rparr>]) \<union> set (pair_positions [])}"
proof -
  have "findParentheses ''(a)/(b)'' ''{2}'' = Inr [\<lparr>OpenIndex = 4, CloseIndex = 6\<rparr>]"
    by code_simp
  moreover have "findParentheses ''(a)/(b)'' [] = Inr []"
    by code_simp
  ultimately show ?thesis by (rule AddEscapingParentheses_correct) simp
qed

text \<open>The exported test for used placeholders compares the stripped pattern with the
  \<^emph>\<open>target\<close>: when no placeholder of the target has parentheses in the pattern it still answers
  true, unless pattern and target happen to be equal.\<close>

theorem IsPlaceholdersUsed_without_placeholders:
  assumes "findParentheses p t = Inr []"
  shows "IsPlaceholdersUsed p t = Inr (p \<noteq> t)"
proof -
  have "nths p UNIV = p" by (rule nths_all) simp
  then have "RemovePlaceholderParentheses p t = Inr p"
    using RemovePlaceholderParentheses_nths[OF assms] by (simp add: pair_positions_def)
  then show ?thesis by (simp add: IsPlaceholdersUsed_def)
qed

theorem IsPlaceholdersUsed_without_placeholders_witness:
  "findParentheses ''repo/a'' ''other/'' = Inr [] \<and> IsPlaceholdersUsed ''repo/a'' ''other/'' = Inr (''repo/a'' \<noteq> ''other/'')"
proof -
  have "findParentheses ''repo/a'' ''other/'' = Inr []" by code_simp
  with IsPlaceholdersUsed_without_placeholders show ?thesis by blast
qed

end
