(* ===== verification/Utils.thy ===== *)
theory Utils
  imports Parens
begin

text \<open>
  \<^verbatim>\<open>utils/utils.go\<close> and \<^verbatim>\<open>utils/antUtils.go\<close>: patterns, root paths, placeholders and the
  small string helpers. The operating system enters as parameters: \<open>windows\<close> is
  \<open>io.IsWindows()\<close>, \<open>env\<close> is \<open>os.Getenv\<close>. Two functions of the third-party module
  \<^verbatim>\<open>gofrog/stringutils\<close> (\<open>WildcardPatternToRegExp\<close>, \<open>EscapeSpecialChars\<close>) and the regular
  expression engine are parameters of the definitions that call them.
\<close>

abbreviation backslash :: char where
  "backslash \<equiv> CHR 0x5C"

section \<open>Pattern types\<close>

datatype PatternType = WildCardPattern | RegExp | AntPattern

record PatternTypes =
  pt_RegExp :: bool
  pt_Ant :: bool

definition GetPatternType :: "PatternTypes \<Rightarrow> PatternType" where
  "GetPatternType pt = (if pt_RegExp pt then RegExp else if pt_Ant pt then AntPattern else WildCardPattern)"

section \<open>Environment and small helpers\<close>

definition GetUserHomeDir :: "bool \<Rightarrow> (string \<Rightarrow> string) \<Rightarrow> string" where
  "GetUserHomeDir windows env =
     (if windows
      then let home = env ''HOMEDRIVE'' @ env ''HOMEPATH'';
               home' = (if home = [] then env ''USERPROFILE'' else home)
           in replace_all [backslash] [backslash, backslash] home'
      else env ''HOME'')"

definition ReplaceTildeWithUserHome :: "bool \<Rightarrow> (string \<Rightarrow> string) \<Rightarrow> string \<Rightarrow> string" where
  "ReplaceTildeWithUserHome windows env path =
     (if length path > 1 \<and> take 1 path = ''~'' then GetUserHomeDir windows env @ drop 1 path else path)"

definition StringToBool :: "string \<Rightarrow> bool \<Rightarrow> bool result" where
  "StringToBool boolVal defaultValue =
     (if length boolVal > 0
      then (case parse_bool boolVal of Some b \<Rightarrow> Inr b | None \<Rightarrow> Inl (Err ''strconv.ParseBool: invalid syntax''))
      else Inr defaultValue)"

definition GetBoolEnvValue :: "(string \<Rightarrow> string) \<Rightarrow> string \<Rightarrow> bool \<Rightarrow> bool result" where
  "GetBoolEnvValue env flagName defValue =
     (let envVarValue = env flagName
      in if envVarValue = [] then Inr defValue
         else (case parse_bool envVarValue of Some b \<Rightarrow> Inr b
               | None \<Rightarrow> Inl (Err ''strconv.ParseBool: invalid syntax'')))"

definition AddTrailingSlashIfNeeded :: "string \<Rightarrow> string" where
  "AddTrailingSlashIfNeeded url = (if url \<noteq> [] \<and> \<not> has_suffix url ''/'' then url @ ''/'' else url)"

text \<open>Go maps with string keys are partial functions; a copy loop visits every entry once, in
  an unspecified order that the result does not depend on.\<close>

definition MergeMaps :: "(string \<rightharpoonup> 'v) \<Rightarrow> (string \<rightharpoonup> 'v) \<Rightarrow> (string \<rightharpoonup> 'v)" where
  "MergeMaps src dst = dst ++ src"

definition CopyMap :: "(string \<rightharpoonup> 'v) \<Rightarrow> (string \<rightharpoonup> 'v)" where
  "CopyMap src = Map.empty ++ src"

definition ConvertSliceToMap :: "string list \<Rightarrow> (string \<rightharpoonup> bool)" where
  "ConvertSliceToMap slice = fold (\<lambda>value m. m(value \<mapsto> True)) slice Map.empty"

definition GetLogMsgPrefix :: "int \<Rightarrow> bool \<Rightarrow> string" where
  "GetLogMsgPrefix threadId dryRun =
     ''[Thread '' @ itoa threadId @ ''] '' @ (if dryRun then ''[Dry run] '' else [])"

definition TrimPath :: "string \<Rightarrow> string" where
  "TrimPath path =
     replace_all ''./'' [] (replace_all ''../'' [] (replace_all ''//'' ''/'' (replace_all [backslash] ''/'' path)))"

definition Bool2Int :: "bool \<Rightarrow> int" where
  "Bool2Int b = (if b then 1 else 0)"

definition AddProps :: "string \<Rightarrow> string \<Rightarrow> string" where
  "AddProps oldProps additionalProps =
     (if length oldProps > 0 \<and> \<not> has_suffix oldProps '';'' \<and> length additionalProps > 0
      then oldProps @ '';'' else oldProps) @ additionalProps"

text \<open>\<open>SplitWithEscape\<close>: the loop carries the finished parts, the current part and whether the
  previous byte was a backslash. A backslash after a backslash is kept, and still escapes.\<close>

fun split_escape_loop :: "char \<Rightarrow> string \<Rightarrow> string list \<Rightarrow> string \<Rightarrow> bool \<Rightarrow> string list" where
  "split_escape_loop separator [] parts current escaped = parts @ [current]"
| "split_escape_loop separator (c # s) parts current escaped =
     (if c = backslash
      then split_escape_loop separator s parts (if escaped then current @ [c] else current) True
      else if c = separator \<and> \<not> escaped
      then split_escape_loop separator s (parts @ [current]) [] escaped
      else split_escape_loop separator s parts (current @ [c]) False)"

definition SplitWithEscape :: "string \<Rightarrow> char \<Rightarrow> string list" where
  "SplitWithEscape str separator = split_escape_loop separator str [] [] False"

section \<open>Local root path\<close>

text \<open>\<open>idx\<close> is the index within the rest of the string, as in the code.\<close>

function isWildcardParentheses :: "string \<Rightarrow> ParenthesesSlice \<Rightarrow> bool" where
  "isWildcardParentheses str parentheses =
     (case find_sub ''('' str of None \<Rightarrow> False
      | Some idx \<Rightarrow> if IsPresent parentheses idx then True
                    else isWildcardParentheses (drop (Suc idx) str) parentheses)"
  by pat_completeness auto
termination
  by (relation "measure (\<lambda>(str, parentheses). length str)")
     (use find_sub_SomeD in \<open>fastforce simp: neq_Nil_conv\<close>)+

declare isWildcardParentheses.simps [simp del]

text \<open>The early exit of the section loop: the section carries the pattern.\<close>

definition stop_section :: "PatternType \<Rightarrow> ParenthesesSlice \<Rightarrow> string \<Rightarrow> string \<Rightarrow> bool" where
  "stop_section patternType parentheses rootPath section' =
     (if patternType = RegExp then str_contains section' ''(''
      else str_contains section' ''*''
           \<or> (str_contains section' ''('' \<and> isWildcardParentheses (rootPath @ section') parentheses)
           \<or> (patternType = AntPattern \<and> str_contains section' ''?''))"

fun root_sections :: "string \<Rightarrow> string \<Rightarrow> PatternType \<Rightarrow> ParenthesesSlice \<Rightarrow> string list \<Rightarrow> string \<Rightarrow> string" where
  "root_sections home separator patternType parentheses [] rootPath = rootPath"
| "root_sections home separator patternType parentheses (section' # sections) rootPath =
     (if section' = [] then root_sections home separator patternType parentheses sections rootPath
      else if stop_section patternType parentheses rootPath section' then rootPath
      else root_sections home separator patternType parentheses sections
             ((if rootPath \<noteq> [] then rootPath @ separator else rootPath)
              @ (if section' = ''~'' then home else section')))"

definition path_sections :: "string \<Rightarrow> string \<times> string list" where
  "path_sections path =
     (let sections = split_char CHR ''/'' path
      in if length sections = 1
         then if str_contains path [backslash, backslash]
              then ([backslash], split_str [backslash, backslash] path)
              else ([backslash], split_char backslash path)
         else (''/'', sections))"

definition GetRootPath :: "bool \<Rightarrow> (string \<Rightarrow> string) \<Rightarrow> string \<Rightarrow> PatternType \<Rightarrow> ParenthesesSlice \<Rightarrow> string" where
  "GetRootPath windows env path patternType parentheses =
     (let (separator, sections) = path_sections path;
          rootPath = root_sections (GetUserHomeDir windows env) separator patternType parentheses sections [];
          rootPath = (if length sections > 0 \<and> sections ! 0 = [] then separator @ rootPath else rootPath)
      in if rootPath = [] then ''.'' else rootPath)"

section \<open>Patterns as regular expressions\<close>

definition getFileSeparatorForAntToRegex :: "bool \<Rightarrow> string" where
  "getFileSeparatorForAntToRegex windows = (if windows then [backslash, backslash] else ''/'')"

definition addMissingShorthand :: "bool \<Rightarrow> string \<Rightarrow> string" where
  "addMissingShorthand windows antPattern =
     (if has_suffix antPattern (if windows then [backslash] else ''/'') then antPattern @ ''**'' else antPattern)"

definition antQuestionMarkToRegex :: "string \<Rightarrow> string" where
  "antQuestionMarkToRegex antPattern = replace_all ''?'' ''.'' antPattern"

abbreviation doubleStartSpecialString :: string where
  "doubleStartSpecialString \<equiv> ''__JFROG_DOUBLE_STAR__''"

text \<open>The three compiled expressions of the file are literals, so replacing their matches is
  \<open>strings.ReplaceAll\<close>; on Windows the literal separator is two backslashes.\<close>

definition antStarsToRegex :: "bool \<Rightarrow> string \<Rightarrow> string" where
  "antStarsToRegex windows antPattern =
     (let separator = getFileSeparatorForAntToRegex windows;
          p = addMissingShorthand windows antPattern;
          p = replace_all ''**'' doubleStartSpecialString p;
          p = replace_all ''*'' (''([^'' @ separator @ '']*)'') p;
          p = replace_all (doubleStartSpecialString @ separator) (''(.*'' @ separator @ '')*'') p;
          p = replace_all (separator @ doubleStartSpecialString) (''('' @ separator @ ''.*)*'') p
      in replace_all doubleStartSpecialString ''(.*)'' p)"

definition AntToRegex :: "bool \<Rightarrow> (string \<Rightarrow> string) \<Rightarrow> string \<Rightarrow> string" where
  "AntToRegex windows EscapeSpecialChars antPattern =
     ''^'' @ antStarsToRegex windows (antQuestionMarkToRegex (EscapeSpecialChars antPattern)) @ ''$''"

text \<open>\<open>cleanPath\<close> on systems other than Windows, where \<open>filepath.Clean\<close> is \<open>path.Clean\<close>.\<close>

definition cleanPath :: "string \<Rightarrow> string result" where
  "cleanPath path =
     (if path = [] then Inl (Panic ''slice bounds out of range'')
      else let temp = last path; path' = path_clean path
           in Inr (if temp = backslash \<or> temp = CHR ''/'' then path' @ [temp] else path'))"

definition ConvertLocalPatternToRegexp ::
  "(string \<Rightarrow> string) \<Rightarrow> (string \<Rightarrow> string) \<Rightarrow> string \<Rightarrow> PatternType \<Rightarrow> string result" where
  "ConvertLocalPatternToRegexp EscapeSpecialChars WildcardPatternToRegExp localPath patternType =
     (if localPath = ''./'' \<or> localPath = [CHR ''.'', backslash] \<or> localPath = [CHR ''.'', backslash, backslash]
      then Inr ''^.*$''
      else let p = trim_prefix localPath [CHR ''.'', backslash, backslash];
               p = trim_prefix p ''./'';
               p = trim_prefix p [CHR ''.'', backslash]
           in case patternType of
                AntPattern \<Rightarrow> and_then (cleanPath p) (\<lambda>q. Inr (AntToRegex False EscapeSpecialChars q))
              | WildCardPattern \<Rightarrow> and_then (cleanPath p) (\<lambda>q. Inr (WildcardPatternToRegExp q))
              | RegExp \<Rightarrow> Inr p)"

section \<open>Placeholders in targets\<close>

definition is_digit :: "char \<Rightarrow> bool" where
  "is_digit c \<longleftrightarrow> digit_val c \<noteq> None"

text \<open>\<open>curlyParenthesesRegexp\<close>, \<^verbatim>\<open>\{(\d+?)}\<close>: the digit strings of all matches, from the left.\<close>

function curly_matches :: "string \<Rightarrow> string list" where
  "curly_matches [] = []"
| "curly_matches (c # s) =
     (let ds = takeWhile is_digit s; r = dropWhile is_digit s
      in if c = CHR ''{'' \<and> ds \<noteq> [] \<and> has_prefix r ''}'' then ds # curly_matches (tl r) else curly_matches s)"
  by pat_completeness auto
termination
  by (relation "measure length")
     (auto intro: le_imp_less_Suc order_trans[OF diff_le_self length_dropWhile_le])

text \<open>The number read from a match is not negative.\<close>

definition max_placeholder_step :: "string \<Rightarrow> nat \<Rightarrow> nat result" where
  "max_placeholder_step m mx =
     (case atoi m of
        None \<Rightarrow> Inl (Err ''strconv.Atoi: value out of range'')
      | Some num \<Rightarrow> Inr (if nat num > mx then nat num else mx))"

definition getMaxPlaceholderIndex :: "string \<Rightarrow> nat result" where
  "getMaxPlaceholderIndex toReplace = fold_result max_placeholder_step (curly_matches toReplace) 0"

definition placeholder :: "nat \<Rightarrow> string" where
  "placeholder i = ''{'' @ dec i @ ''}''"

text \<open>The inner loop for wildcard patterns: skip the indexes that do not occur.\<close>

function skip_absent :: "string \<Rightarrow> nat \<Rightarrow> nat \<Rightarrow> nat" where
  "skip_absent toReplace maxPlaceholderIndex i =
     (if \<not> str_contains toReplace (placeholder i)
      then if Suc i > maxPlaceholderIndex then Suc i
           else skip_absent toReplace maxPlaceholderIndex (Suc i)
      else i)"
  by pat_completeness auto
termination
  by (relation "measure (\<lambda>(t, mx, i). mx - i)") auto

declare skip_absent.simps [simp del]

fun replace_groups :: "bool \<Rightarrow> nat \<Rightarrow> string list \<Rightarrow> string \<Rightarrow> nat \<Rightarrow> string" where
  "replace_groups isRegexp mx [] toReplace placeHolderIndexer = toReplace"
| "replace_groups isRegexp mx (g # gs) toReplace placeHolderIndexer =
     (let group = replace_all [backslash] ''/'' g;
          i = (if isRegexp then placeHolderIndexer else skip_absent toReplace mx placeHolderIndexer)
      in replace_groups isRegexp mx gs (replace_all (placeholder i) group toReplace) (Suc i))"

definition ReplacePlaceHolders :: "string list \<Rightarrow> string \<Rightarrow> bool \<Rightarrow> (string \<times> bool) result" where
  "ReplacePlaceHolders groups toReplace isRegexp =
     and_then (getMaxPlaceholderIndex toReplace) (\<lambda>mx.
       let replaced = replace_groups isRegexp mx (drop 1 groups) toReplace 1
       in Inr (replaced, toReplace \<noteq> replaced))"

definition IsSlashPrecedeAsterisk :: "int \<Rightarrow> int \<Rightarrow> bool" where
  "IsSlashPrecedeAsterisk asteriskIndex slashIndex \<longleftrightarrow> slashIndex < asteriskIndex \<and> slashIndex \<ge> 0"

definition shouldRemoveRepo :: "bool \<Rightarrow> int \<Rightarrow> int \<Rightarrow> bool" where
  "shouldRemoveRepo ignoreRepo asteriskIndex slashIndex =
     (if \<not> ignoreRepo \<or> slashIndex < 0 then False
      else if asteriskIndex < 0 then True
      else IsSlashPrecedeAsterisk asteriskIndex slashIndex)"

definition removeRepoFromPath :: "string \<Rightarrow> string" where
  "removeRepoFromPath path =
     (case find_sub ''/'' path of None \<Rightarrow> path | Some idx \<Rightarrow> drop idx path)"

text \<open>\<open>compile\<close> is \<open>regexp.Compile\<close> followed by \<open>FindStringSubmatch\<close>: \<open>None\<close> when the expression
  does not compile, otherwise the submatches (none when it does not match).\<close>

definition BuildTargetPath ::
  "(string \<Rightarrow> string) \<Rightarrow> (string \<Rightarrow> (string \<Rightarrow> string list) option) \<Rightarrow>
   string \<Rightarrow> string \<Rightarrow> string \<Rightarrow> bool \<Rightarrow> (string \<times> bool) result" where
  "BuildTargetPath WildcardPatternToRegExp compile pattern path target ignoreRepo =
     (let asteriskIndex = str_index pattern ''*'';
          slashIndex = str_index pattern ''/'';
          (pattern', path') = (if shouldRemoveRepo ignoreRepo asteriskIndex slashIndex
                               then (removeRepoFromPath pattern, removeRepoFromPath path)
                               else (pattern, path))
      in and_then (addEscapingParentheses pattern' target) (\<lambda>escaped.
         let re = WildcardPatternToRegExp escaped
         in and_then (if slashIndex < 0
                      then let dollarIndex = last_index_char re CHR ''$''
                           in if dollarIndex < 0 then Inl (Panic ''slice bounds out of range'')
                              else Inr (take (nat dollarIndex) re @ ''(/.*)?$'')
                      else Inr re) (\<lambda>re'.
            case compile re' of
              None \<Rightarrow> Inl (Err ''error parsing regexp'')
            | Some FindStringSubmatch \<Rightarrow>
                let groups = FindStringSubmatch path'
                in if length groups > 0 then ReplacePlaceHolders groups target False
                   else Inr (target, False))))"

section \<open>Splitting with escapes\<close>

definition escape_sep :: "char \<Rightarrow> string \<Rightarrow> string" where
  "escape_sep separator w = concat (map (\<lambda>c. if c = separator then [backslash, c] else [c]) w)"

lemma split_escape_part:
  assumes "separator \<noteq> backslash" "backslash \<notin> set w"
  shows "split_escape_loop separator (escape_sep separator w @ r) parts current False =
         split_escape_loop separator r parts (current @ w) False"
  using assms(2)
  by (induction w arbitrary: current) (use assms(1) in \<open>auto simp: escape_sep_def\<close>)

lemma split_escape_parts:
  assumes "separator \<noteq> backslash" "\<forall>w\<in>set ws. backslash \<notin> set w" "ws \<noteq> []"
  shows "split_escape_loop separator (str_join [separator] (map (escape_sep separator) ws)) parts [] False = parts @ ws"
  using assms(2,3)
proof (induction ws arbitrary: parts)
  case (Cons w ws)
  show ?case
  proof (cases "ws = []")
    case True
    then show ?thesis
      using Cons.prems split_escape_part[OF assms(1), of w "[]" parts "[]"] by simp
  next
    case False
    then show ?thesis
      using Cons split_escape_part[OF assms(1), of w] assms(1) by (simp add: str_join_Cons)
  qed
qed simp

section \<open>Root paths\<close>

lemma str_join_concat: "str_join sep (w # ws) = w @ concat (map (\<lambda>v. sep @ v) ws)"
  by (induction ws arbitrary: w) auto

definition plain_section :: "string \<Rightarrow> bool" where
  "plain_section w \<longleftrightarrow> w \<noteq> [] \<and> w \<noteq> ''~'' \<and> CHR ''/'' \<notin> set w \<and> CHR ''('' \<notin> set w"

lemma stop_section_plain: "plain_section w \<Longrightarrow> stop_section WildCardPattern ps root w \<longleftrightarrow> CHR ''*'' \<in> set w"
  by (simp add: stop_section_def plain_section_def)

lemma root_sections_plain:
  assumes "\<forall>w\<in>set ws. plain_section w" "root \<noteq> []"
  shows "root_sections home sep WildCardPattern ps ws root =
         root @ concat (map (\<lambda>v. sep @ v) (takeWhile (\<lambda>w. CHR ''*'' \<notin> set w) ws))"
  using assms
proof (induction ws arbitrary: root)
  case (Cons w ws)
  have w: "w \<noteq> []" "w \<noteq> ''~''" using Cons.prems(1) by (auto simp: plain_section_def)
  have stop: "stop_section WildCardPattern ps root w \<longleftrightarrow> CHR ''*'' \<in> set w"
    using Cons.prems(1) by (simp add: stop_section_plain)
  show ?case
  proof (cases "CHR ''*'' \<in> set w")
    case True
    then show ?thesis by (simp add: w(1) stop)
  next
    case False
    have "root_sections home sep WildCardPattern ps (w # ws) root =
          root_sections home sep WildCardPattern ps ws (root @ sep @ w)"
      using False w Cons.prems(2) stop by simp
    also have "\<dots> = (root @ sep @ w) @ concat (map (\<lambda>v. sep @ v) (takeWhile (\<lambda>w. CHR ''*'' \<notin> set w) ws))"
      by (rule Cons.IH) (use Cons.prems in auto)
    finally show ?thesis using False by simp
  qed
qed simp

lemma root_sections_no_asterisk:
  assumes "CHR ''*'' \<notin> set home" "CHR ''*'' \<notin> set sep" "CHR ''*'' \<notin> set root" "pt \<noteq> RegExp"
  shows "CHR ''*'' \<notin> set (root_sections home sep pt ps ws root)"
  using assms
proof (induction ws arbitrary: root)
  case (Cons w ws)
  let ?root = "(if root \<noteq> [] then root @ sep else root) @ (if w = ''~'' then home else w)"
  have stop: "stop_section pt ps root w" if "CHR ''*'' \<in> set w"
    using that Cons.prems(4) by (simp add: stop_section_def)
  show ?case
  proof (cases "w = [] \<or> stop_section pt ps root w")
    case True
    then show ?thesis using Cons.IH[OF Cons.prems] Cons.prems(3) by auto
  next
    case False
    then have "CHR ''*'' \<notin> set ?root" using Cons.prems(1-3) stop by auto
    with Cons.IH[of ?root] Cons.prems False show ?thesis by (simp only: root_sections.simps) simp
  qed
qed simp

section \<open>Placeholder substitution\<close>

text \<open>A target as a sequence of literal text and placeholders, and its rendering.\<close>

datatype piece = Lit string | Ph nat

fun render_piece :: "piece \<Rightarrow> string" where
  "render_piece (Lit s) = s"
| "render_piece (Ph n) = placeholder n"

definition render :: "piece list \<Rightarrow> string" where
  "render ps = concat (map render_piece ps)"

fun subst_piece :: "(nat \<Rightarrow> string option) \<Rightarrow> piece \<Rightarrow> piece" where
  "subst_piece f (Lit s) = Lit s"
| "subst_piece f (Ph n) = (case f n of None \<Rightarrow> Ph n | Some g \<Rightarrow> Lit g)"

definition no_brace :: "string \<Rightarrow> bool" where
  "no_brace s \<longleftrightarrow> CHR ''{'' \<notin> set s"

fun lit_ok :: "piece \<Rightarrow> bool" where
  "lit_ok (Lit s) = no_brace s"
| "lit_ok (Ph n) = True"

lemma render_simps [simp]:
  "render [] = []" "render (p # ps) = render_piece p @ render ps"
  by (simp_all add: render_def)

lemma dec_no_close: "CHR ''}'' \<notin> set (dec n)" "CHR ''{'' \<notin> set (dec n)"
  using set_dec[of n] by auto

lemma placeholder_Cons: "placeholder n = CHR ''{'' # dec n @ ''}''"
  by (simp add: placeholder_def)

lemma append_close_inject:
  "CHR ''}'' \<notin> set a \<Longrightarrow> CHR ''}'' \<notin> set b \<Longrightarrow> a @ CHR ''}'' # x = b @ CHR ''}'' # y \<longleftrightarrow> a = b \<and> x = y"
proof -
  assume "CHR ''}'' \<notin> set a" "CHR ''}'' \<notin> set b"
  then have "takeWhile (\<lambda>c. c \<noteq> CHR ''}'') (a @ CHR ''}'' # x) = a"
    "takeWhile (\<lambda>c. c \<noteq> CHR ''}'') (b @ CHR ''}'' # y) = b"
    by (auto simp: takeWhile_append)
  then show ?thesis by (metis append_same_eq list.inject same_append_eq)
qed

lemma placeholder_prefix: "has_prefix (placeholder n @ r) (placeholder k) \<longleftrightarrow> n = k"
proof
  assume "has_prefix (placeholder n @ r) (placeholder k)"
  then obtain t where "dec n @ CHR ''}'' # r = dec k @ CHR ''}'' # t"
    by (auto simp: has_prefix_iff placeholder_Cons)
  then show "n = k" by (simp add: append_close_inject dec_no_close)
qed simp

lemma placeholder_prefix_brace: "c \<noteq> CHR ''{'' \<Longrightarrow> \<not> has_prefix (c # s) (placeholder k)"
  by (simp add: placeholder_Cons)

lemma placeholder_not_Nil [simp]: "placeholder k \<noteq> []"
  by (simp add: placeholder_Cons)

lemma replace_all_no_brace:
  "no_brace l \<Longrightarrow> replace_all (placeholder k) g (l @ r) = l @ replace_all (placeholder k) g r"
  by (induction l) (auto simp: no_brace_def placeholder_prefix_brace)

lemma replace_all_placeholder:
  "replace_all (placeholder k) g (placeholder n @ r) =
     (if n = k then g else placeholder n) @ replace_all (placeholder k) g r"
proof (cases "n = k")
  case True
  have "has_prefix ((dec k @ ''}'') @ r) (dec k @ ''}'')" by (rule has_prefix_append)
  with True show ?thesis by (simp add: placeholder_Cons)
next
  case False
  have "\<not> has_prefix (CHR ''{'' # dec n @ CHR ''}'' # r) (placeholder k)"
    using placeholder_prefix[of n r k] False by (simp add: placeholder_Cons)
  moreover have "no_brace (dec n @ ''}'')" using dec_no_close by (simp add: no_brace_def)
  ultimately show ?thesis
    using False replace_all_no_brace[of "dec n @ ''}''" k g r] by (simp add: placeholder_Cons)
qed

lemma replace_all_render:
  "\<forall>p\<in>set ps. lit_ok p \<Longrightarrow>
   replace_all (placeholder k) g (render ps) = render (map (subst_piece [k \<mapsto> g]) ps)"
proof (induction ps)
  case (Cons p ps)
  then show ?case
    by (cases p) (simp_all add: replace_all_no_brace replace_all_placeholder)
qed simp

lemma contains_Cons: "w \<noteq> [] \<Longrightarrow> str_contains (c # s) w \<longleftrightarrow> has_prefix (c # s) w \<or> str_contains s w"
  by (auto simp: str_contains_def)

lemma contains_no_brace: "no_brace l \<Longrightarrow> str_contains (l @ r) (placeholder k) \<longleftrightarrow> str_contains r (placeholder k)"
  by (induction l) (auto simp: no_brace_def contains_Cons placeholder_prefix_brace)

lemma contains_placeholder:
  "str_contains (placeholder n @ r) (placeholder k) \<longleftrightarrow> n = k \<or> str_contains r (placeholder k)"
proof -
  have "no_brace (dec n @ ''}'')" using dec_no_close by (simp add: no_brace_def)
  then have "str_contains (dec n @ ''}'' @ r) (placeholder k) \<longleftrightarrow> str_contains r (placeholder k)"
    using contains_no_brace[of "dec n @ ''}''" r k] by simp
  moreover have "str_contains (placeholder n @ r) (placeholder k) \<longleftrightarrow>
      has_prefix (placeholder n @ r) (placeholder k) \<or> str_contains (dec n @ ''}'' @ r) (placeholder k)"
    by (simp add: placeholder_Cons contains_Cons)
  ultimately show ?thesis by (simp add: placeholder_prefix)
qed

lemma contains_render:
  "\<forall>p\<in>set ps. lit_ok p \<Longrightarrow> str_contains (render ps) (placeholder k) \<longleftrightarrow> Ph k \<in> set ps"
proof (induction ps)
  case Nil
  then show ?case by (simp add: str_contains_def placeholder_Cons)
next
  case (Cons p ps)
  then show ?case
    by (cases p) (auto simp: contains_no_brace contains_placeholder)
qed

lemma is_digit_dec: "c \<in> set (dec n) \<Longrightarrow> is_digit c"
proof (induction n rule: dec.induct)
  case (1 n)
  then show ?case
    by (cases "n < 10") (auto simp: dec.simps[of n] is_digit_def)
qed

lemma not_digit_close: "\<not> is_digit CHR ''}''"
  by (simp add: is_digit_def digit_val_def digit_char_def upt_rec)

lemma curly_matches_no_brace: "no_brace l \<Longrightarrow> curly_matches (l @ r) = curly_matches r"
  by (induction l) (auto simp: no_brace_def)

lemma curly_matches_placeholder: "curly_matches (placeholder n @ r) = dec n # curly_matches r"
proof -
  have "takeWhile is_digit (dec n @ CHR ''}'' # r) = dec n" "dropWhile is_digit (dec n @ CHR ''}'' # r) = CHR ''}'' # r"
    using not_digit_close is_digit_dec by (auto simp: takeWhile_append dropWhile_append)
  then show ?thesis by (simp add: placeholder_Cons)
qed

fun placeholder_indexes :: "piece list \<Rightarrow> nat list" where
  "placeholder_indexes [] = []"
| "placeholder_indexes (Lit s # ps) = placeholder_indexes ps"
| "placeholder_indexes (Ph n # ps) = n # placeholder_indexes ps"

lemma set_placeholder_indexes [simp]: "set (placeholder_indexes ps) = {n. Ph n \<in> set ps}"
  by (induction ps rule: placeholder_indexes.induct) auto

lemma curly_matches_render:
  "\<forall>p\<in>set ps. lit_ok p \<Longrightarrow> curly_matches (render ps) = map dec (placeholder_indexes ps)"
proof (induction ps)
  case (Cons p ps)
  then show ?case
    by (cases p) (simp_all add: curly_matches_no_brace curly_matches_placeholder)
qed simp

lemma max_placeholder_step_dec: "int n < 2 ^ 63 \<Longrightarrow> max_placeholder_step (dec n) m = Inr (max m n)"
  by (simp add: max_placeholder_step_def atoi_dec max_def)

lemma max_placeholder_fold:
  "\<forall>n\<in>set ns. int n < 2 ^ 63 \<Longrightarrow> fold_result max_placeholder_step (map dec ns) m = Inr (fold (\<lambda>n m. max m n) ns m)"
  by (induction ns arbitrary: m) (simp_all add: max_placeholder_step_dec del: of_nat_less_numeral_iff)

lemma fold_max_ge: "m \<le> fold (\<lambda>n m. max m n) ns (m :: nat) \<and> (\<forall>n\<in>set ns. n \<le> fold (\<lambda>n m. max m n) ns m)"
proof (induction ns arbitrary: m)
  case (Cons n ns)
  from Cons.IH[of "max m n"] show ?case by auto
qed simp

lemma getMaxPlaceholderIndex_render:
  assumes "\<forall>p\<in>set ps. lit_ok p" "\<forall>n. Ph n \<in> set ps \<longrightarrow> int n < 2 ^ 63"
  shows "\<exists>mx. getMaxPlaceholderIndex (render ps) = Inr mx \<and> (\<forall>n. Ph n \<in> set ps \<longrightarrow> n \<le> mx)"
  using assms fold_max_ge[of 0 "placeholder_indexes ps"]
  by (simp add: getMaxPlaceholderIndex_def curly_matches_render max_placeholder_fold)

lemma subst_piece_lit_ok:
  "\<forall>g. f n = Some g \<longrightarrow> no_brace g \<Longrightarrow> lit_ok (subst_piece f (Ph n))"
  by (auto split: option.split)

lemma lit_ok_subst: "\<forall>p\<in>set ps. lit_ok p \<Longrightarrow> no_brace g \<Longrightarrow> \<forall>p\<in>set (map (subst_piece [k \<mapsto> g]) ps). lit_ok p"
proof
  fix q assume ps: "\<forall>p\<in>set ps. lit_ok p" "no_brace g" and "q \<in> set (map (subst_piece [k \<mapsto> g]) ps)"
  then obtain p where "p \<in> set ps" "q = subst_piece [k \<mapsto> g] p" by auto
  with ps show "lit_ok q" by (cases p) auto
qed

lemma subst_piece_compose:
  "subst_piece f (subst_piece [k \<mapsto> g] p) = subst_piece (f(k \<mapsto> g)) p"
  by (cases p) auto

lemma map_subst_compose:
  "map (subst_piece f) (map (subst_piece [k \<mapsto> g]) ps) = map (subst_piece (f(k \<mapsto> g))) ps"
  by (simp add: subst_piece_compose comp_def)

lemma map_of_zip_Cons: "map_of (zip (v # vs) (map f (g # gs))) = (map_of (zip vs (map f gs)))(v \<mapsto> f g)"
  by (simp add: fun_eq_iff)

lemma Ph_in_subst: "Ph n \<in> set (map (subst_piece [k \<mapsto> g]) ps) \<longleftrightarrow> n \<noteq> k \<and> Ph n \<in> set ps"
proof -
  have "subst_piece [k \<mapsto> g] p = Ph n \<longleftrightarrow> n \<noteq> k \<and> p = Ph n" for p
    by (cases p) auto
  then show ?thesis by force
qed

lemma no_brace_slashes: "no_brace g \<Longrightarrow> no_brace (replace_all [backslash] ''/'' g)"
  by (induction g) (auto simp: no_brace_def)

lemma skip_absent_ge: "i \<le> skip_absent t mx i"
proof (induction t mx i rule: skip_absent.induct)
  case (1 t mx i)
  then show ?case by (auto simp: skip_absent.simps[of t mx i])
qed

lemma skip_absent_hd:
  assumes "Ph v \<in> set ps" "\<forall>n. Ph n \<in> set ps \<longrightarrow> i \<le> n \<longrightarrow> v \<le> n" "i \<le> v" "v \<le> mx"
    and "\<forall>p\<in>set ps. lit_ok p"
  shows "skip_absent (render ps) mx i = v"
  using assms(2,3)
proof (induction "mx - i" arbitrary: i rule: less_induct)
  case less
  show ?case
  proof (cases "Ph i \<in> set ps")
    case True
    with less.prems have "i = v" by fastforce
    with True assms(5) show ?thesis by (simp add: skip_absent.simps[of _ mx v] contains_render)
  next
    case False
    with less.prems(2) assms(1) have "i < v" by (metis le_neq_implies_less)
    with assms(4) less have "skip_absent (render ps) mx (Suc i) = v" by auto
    with False \<open>i < v\<close> assms(4,5) show ?thesis
      by (simp add: skip_absent.simps[of _ mx i] contains_render)
  qed
qed

lemma replace_groups_wildcard:
  assumes "\<forall>p\<in>set ps. lit_ok p" "\<forall>g\<in>set gs. no_brace g"
    and "sorted_wrt (<) vs" "set vs = {n. Ph n \<in> set ps \<and> i \<le> n}" "\<forall>v\<in>set vs. v \<le> mx"
  shows "replace_groups False mx gs (render ps) i =
         render (map (subst_piece (map_of (zip vs (map (replace_all [backslash] ''/'') gs)))) ps)"
  using assms
proof (induction gs arbitrary: ps i vs)
  case Nil
  have "subst_piece (\<lambda>x. None) p = p" for p by (cases p) auto
  then show ?case by simp
next
  case (Cons g gs)
  let ?g = "replace_all [backslash] ''/'' g" and ?j = "skip_absent (render ps) mx i"
  let ?ps = "map (subst_piece [?j \<mapsto> ?g]) ps"
  have ok: "\<forall>p\<in>set ?ps. lit_ok p"
    using Cons.prems(1,2) by (intro lit_ok_subst no_brace_slashes) auto
  have step: "replace_groups False mx (g # gs) (render ps) i = replace_groups False mx gs (render ?ps) (Suc ?j)"
    using Cons.prems(1) by (simp add: Let_def replace_all_render)
  show ?case
  proof (cases vs)
    case Nil
    have "set [] = {n. Ph n \<in> set ?ps \<and> Suc ?j \<le> n}"
      using Cons.prems(4) Nil skip_absent_ge[of i "render ps" mx]
      by (auto simp: Ph_in_subst simp del: set_map)
    then have "replace_groups False mx gs (render ?ps) (Suc ?j) = render (map (subst_piece (map_of (zip [] (map (replace_all [backslash] ''/'') gs)))) ?ps)"
      using Cons.IH[OF ok, of "[]" "Suc ?j"] Cons.prems(2) by (simp del: set_map)
    moreover have "Ph ?j \<notin> set ps"
      using Cons.prems(4) Nil skip_absent_ge[of i "render ps" mx] by auto
    then have "subst_piece [?j \<mapsto> ?g] p = p" if "p \<in> set ps" for p
      using that by (cases p) auto
    then have "?ps = ps" by (simp add: map_idI)
    ultimately show ?thesis using step Nil by simp
  next
    case (Cons v vs')
    have v: "Ph v \<in> set ps" "i \<le> v" "v \<le> mx" and least: "\<forall>n. Ph n \<in> set ps \<longrightarrow> i \<le> n \<longrightarrow> v \<le> n"
      using Cons.prems(3-5) Cons by (auto simp: less_imp_le)
    have j: "?j = v" using skip_absent_hd[OF v(1) least v(2,3) Cons.prems(1)] .
    have "set vs' = {n. Ph n \<in> set ?ps \<and> Suc ?j \<le> n}"
      using Cons.prems(3,4) Cons v unfolding j by (auto simp: Ph_in_subst simp del: set_map)
    then have "replace_groups False mx gs (render ?ps) (Suc ?j) =
        render (map (subst_piece (map_of (zip vs' (map (replace_all [backslash] ''/'') gs)))) ?ps)"
      using Cons.IH[OF ok, of vs' "Suc ?j"] Cons.prems(2,3,5) Cons by (simp del: set_map)
    then show ?thesis unfolding Cons step map_of_zip_Cons j map_subst_compose .
  qed
qed

lemma replace_groups_regexp:
  assumes "\<forall>p\<in>set ps. lit_ok p" "\<forall>g\<in>set gs. no_brace g"
  shows "replace_groups True mx gs (render ps) i =
         render (map (subst_piece (map_of (zip [i..<i + length gs] (map (replace_all [backslash] ''/'') gs)))) ps)"
  using assms
proof (induction gs arbitrary: ps i)
  case Nil
  have "subst_piece (\<lambda>x. None) p = p" for p by (cases p) auto
  then show ?case by simp
next
  case (Cons g gs)
  let ?g = "replace_all [backslash] ''/'' g"
  let ?ps = "map (subst_piece [i \<mapsto> ?g]) ps"
  have ok: "\<forall>p\<in>set ?ps. lit_ok p"
    using Cons.prems by (intro lit_ok_subst no_brace_slashes) auto
  have upt: "[i..<i + length (g # gs)] = i # [Suc i..<Suc i + length gs]"
    by (subst upt_conv_Cons) auto
  have step: "replace_groups True mx (g # gs) (render ps) i = replace_groups True mx gs (render ?ps) (Suc i)"
    using Cons.prems(1) by (simp add: Let_def replace_all_render)
  have "replace_groups True mx gs (render ?ps) (Suc i) =
      render (map (subst_piece (map_of (zip [Suc i..<Suc i + length gs] (map (replace_all [backslash] ''/'') gs)))) ?ps)"
    by (rule Cons.IH[OF ok]) (use Cons.prems in simp)
  then show ?case unfolding step upt map_of_zip_Cons map_subst_compose .
qed

section \<open>Properties\<close>

text \<open>C38: for a target made of text without braces and placeholders, and groups without opening
  braces, the sequential replacement loop is the simultaneous substitution. For a wildcard
  pattern the groups go, in order, to the placeholders that occur in the target from 1 up; for
  a regular expression group \<open>i\<close> goes to placeholder \<open>i\<close>. The flag says whether the target changed.\<close>

theorem ReplacePlaceHolders_simultaneous:
  assumes "\<forall>p\<in>set ps. lit_ok p" "\<forall>g\<in>set gs. no_brace g" "\<forall>n. Ph n \<in> set ps \<longrightarrow> int n < 2 ^ 63"
    and "vs = (if isRegexp then [1..<1 + length gs] else sorted_list_of_set {n. Ph n \<in> set ps \<and> 1 \<le> n})"
    and "r = render (map (subst_piece (map_of (zip vs (map (replace_all [backslash] ''/'') gs)))) ps)"
  shows "ReplacePlaceHolders (g0 # gs) (render ps) isRegexp = Inr (r, render ps \<noteq> r)"
proof -
  obtain mx where mx: "getMaxPlaceholderIndex (render ps) = Inr mx" "\<forall>n. Ph n \<in> set ps \<longrightarrow> n \<le> mx"
    using getMaxPlaceholderIndex_render[OF assms(1,3)] by blast
  have fin: "finite {n. Ph n \<in> set ps \<and> 1 \<le> n}"
    by (rule finite_subset[of _ "{..mx}"]) (use mx(2) in auto)
  have "replace_groups isRegexp mx gs (render ps) 1 = r"
  proof (cases isRegexp)
    case True
    with assms replace_groups_regexp[OF assms(1,2), of mx 1] show ?thesis by simp
  next
    case False
    have "sorted_wrt (<) vs" "set vs = {n. Ph n \<in> set ps \<and> 1 \<le> n}"
      using False assms(4) fin by simp_all
    with False assms(5) mx(2) replace_groups_wildcard[OF assms(1,2), of vs 1 mx] show ?thesis by simp
  qed
  with mx(1) show ?thesis by (simp add: ReplacePlaceHolders_def)
qed

theorem ReplacePlaceHolders_simultaneous_witness:
  "ReplacePlaceHolders [''a/c'', ''a'', ''c''] (render [Lit ''t/'', Ph 1, Ph 3]) False =
   Inr (render [Lit ''t/'', Lit ''a'', Lit ''c''],
        render [Lit ''t/'', Ph 1, Ph 3] \<noteq> render [Lit ''t/'', Lit ''a'', Lit ''c''])"
proof (rule ReplacePlaceHolders_simultaneous)
  have "{n. Ph n \<in> set [Lit ''t/'', Ph 1, Ph 3] \<and> 1 \<le> n} = {1, 3}" by auto
  then show "[1, 3] = (if False then [1..<1 + length [''a'', ''c'']]
      else sorted_list_of_set {n. Ph n \<in> set [Lit ''t/'', Ph 1, Ph 3] \<and> 1 \<le> n})" by simp
  show "render [Lit ''t/'', Lit ''a'', Lit ''c''] = render (map (subst_piece (map_of (zip [1, 3]
      (map (replace_all [backslash] ''/'') [''a'', ''c''])))) [Lit ''t/'', Ph 1, Ph 3])" by simp
qed (auto simp: no_brace_def)

text \<open>With an opening brace in a group the two differ: what a group brings in is replaced again by a later one.\<close>

lemma ReplacePlaceHolders_again: "ReplacePlaceHolders [[], ''{2}'', ''x''] ''{1}-{2}'' False = Inr (''x-x'', True)"
  by code_simp

text \<open>Splitting undoes joining, when each part has its separators escaped with a backslash.\<close>

theorem SplitWithEscape_join:
  assumes "separator \<noteq> backslash" "\<forall>w\<in>set ws. backslash \<notin> set w" "ws \<noteq> []"
  shows "SplitWithEscape (str_join [separator] (map (escape_sep separator) ws)) separator = ws"
  using split_escape_parts[OF assms, of "[]"] by (simp add: SplitWithEscape_def)

theorem SplitWithEscape_join_witness:
  "SplitWithEscape (str_join ''/'' (map (escape_sep CHR ''/'') [''a/b'', '''', ''c''])) CHR ''/'' = [''a/b'', '''', ''c'']"
  by (rule SplitWithEscape_join) auto

text \<open>The root path of a wildcard pattern without parentheses is the run of sections before the
  first one that holds an asterisk, or \<open>.\<close> when there is none.\<close>

theorem GetRootPath_wildcard:
  assumes "2 \<le> length ws" "\<forall>w\<in>set ws. plain_section w"
  shows "GetRootPath windows env (str_join ''/'' ws) WildCardPattern ps =
     (let root = takeWhile (\<lambda>w. CHR ''*'' \<notin> set w) ws in if root = [] then ''.'' else str_join ''/'' root)"
proof -
  obtain w v us where ws: "ws = w # v # us"
    using assms(1) by (metis Suc_le_length_iff numeral_2_eq_2)
  have "split_char CHR ''/'' (str_join ''/'' ws) = ws"
    using assms by (intro split_char_join) (auto simp: plain_section_def)
  then have sections: "path_sections (str_join ''/'' ws) = (''/'', ws)"
    using assms(1) by (simp add: path_sections_def)
  have w: "w \<noteq> []" "w \<noteq> ''~''" "plain_section w" and rest: "\<forall>x\<in>set (v # us). plain_section x"
    using assms(2) ws by (auto simp: plain_section_def)
  have "root_sections (GetUserHomeDir windows env) ''/'' WildCardPattern ps ws [] =
      (let root = takeWhile (\<lambda>w. CHR ''*'' \<notin> set w) ws in if root = [] then [] else str_join ''/'' root)"
    using w root_sections_plain[OF rest w(1), of "GetUserHomeDir windows env" "''/''" ps]
    by (simp add: ws stop_section_plain str_join_concat del: str_join.simps)
  moreover have "ws ! 0 \<noteq> []" "ws \<noteq> []" using w ws by simp_all
  moreover have "str_join ''/'' (w # xs) \<noteq> []" for xs using w by (cases xs) auto
  then have "takeWhile (\<lambda>w. CHR ''*'' \<notin> set w) ws \<noteq> [] \<Longrightarrow>
      str_join ''/'' (takeWhile (\<lambda>w. CHR ''*'' \<notin> set w) ws) \<noteq> []"
    by (auto simp: ws simp del: str_join.simps split: if_splits)
  ultimately show ?thesis
    unfolding GetRootPath_def sections by (simp add: Let_def)
qed

theorem GetRootPath_wildcard_witness:
  "GetRootPath False (\<lambda>_. []) (str_join ''/'' [''build'', ''libs'', ''*.jar'']) WildCardPattern \<lparr>parens = []\<rparr> =
     (let root = takeWhile (\<lambda>w. CHR ''*'' \<notin> set w) [''build'', ''libs'', ''*.jar'']
      in if root = [] then ''.'' else str_join ''/'' root)"
  by (rule GetRootPath_wildcard) (auto simp: plain_section_def)

text \<open>A section whose parentheses belong to a placeholder must end the root path, but the code
  looks the parenthesis up at its position in the accumulated root (without the separators),
  not in the pattern: with the pattern \<open>x/(b)/*\<close> and target \<open>{1}\<close> the root path is \<open>x/(b)\<close>.\<close>

theorem GetRootPath_misses_placeholder:
  "\<exists>ps. CreateParenthesesSlice ''x/(b)/*'' ''{1}'' = Inr ps \<and> IsPresent ps 2 \<and>
        GetRootPath False env ''x/(b)/*'' WildCardPattern ps = ''x/(b)''"
proof -
  have ps: "CreateParenthesesSlice ''x/(b)/*'' ''{1}'' = Inr \<lparr>parens = [\<lparr>OpenIndex = 2, CloseIndex = 4\<rparr>]\<rparr>"
    by code_simp
  let ?ps = "\<lparr>parens = [\<lparr>OpenIndex = 2, CloseIndex = 4\<rparr>]\<rparr>"
  have "\<not> isWildcardParentheses ''x(b)'' ?ps"
    by (simp add: isWildcardParentheses.simps IsPresent_def)
  then have "GetRootPath False env ''x/(b)/*'' WildCardPattern ?ps = ''x/(b)''"
    by (simp add: GetRootPath_def path_sections_def stop_section_def)
  moreover have "IsPresent ?ps 2" by (simp add: IsPresent_def)
  ultimately show ?thesis using ps by blast
qed

end
