(* ===== verification/Retry.thy ===== *)
theory Retry
  imports Prelude
begin

text \<open>
  \<^verbatim>\<open>utils/retryexecutor.go\<close>, \<^verbatim>\<open>utils/io/httputils/pollingexecutor.go\<close> and \<^verbatim>\<open>utils/errorsqueue.go\<close>.
  The handler that is retried acts on a world of type \<open>'s\<close>; running an executor returns the
  error, the world after the run and the trace of what the executor itself did: attempts,
  sleeps and log lines, in order.
\<close>

section \<open>Errors queue\<close>

text \<open>A buffered channel: its capacity and the errors waiting in it. Sending and receiving are
  atomic and never block, because both sit in a \<open>select\<close> with a default case.\<close>

record 'e ErrorsQueue =
  queueSize :: nat
  errorsChan :: "'e list"

definition NewErrorsQueue :: "int \<Rightarrow> 'e ErrorsQueue" where
  "NewErrorsQueue size' = \<lparr>queueSize = (if size' > 1 then nat size' else 1), errorsChan = []\<rparr>"

definition AddError :: "'e \<Rightarrow> 'e ErrorsQueue \<Rightarrow> 'e ErrorsQueue" where
  "AddError err q =
     (if length (errorsChan q) < queueSize q then q\<lparr>errorsChan := errorsChan q @ [err]\<rparr> else q)"

definition GetError :: "'e ErrorsQueue \<Rightarrow> 'e option \<times> 'e ErrorsQueue" where
  "GetError q = (case errorsChan q of [] \<Rightarrow> (None, q) | e # es \<Rightarrow> (Some e, q\<lparr>errorsChan := es\<rparr>))"

text \<open>What the callers rely on: a queue that keeps the oldest entries up to a capacity.\<close>

locale bounded_queue =
  fixes new :: "int \<Rightarrow> 'q"
    and add :: "'e \<Rightarrow> 'q \<Rightarrow> 'q"
    and get :: "'q \<Rightarrow> 'e option \<times> 'q"
    and contents :: "'q \<Rightarrow> 'e list"
    and capacity :: "'q \<Rightarrow> nat"
  assumes contents_new: "contents (new n) = []"
    and capacity_new: "capacity (new n) = nat (max 1 n)"
    and contents_add: "contents (add x q) = (if length (contents q) < capacity q then contents q @ [x] else contents q)"
    and capacity_add: "capacity (add x q) = capacity q"
    and get_fst: "fst (get q) = (case contents q of [] \<Rightarrow> None | x # _ \<Rightarrow> Some x)"
    and contents_get: "contents (snd (get q)) = tl (contents q)"
    and capacity_get: "capacity (snd (get q)) = capacity q"
begin

lemma capacity_fold: "capacity (fold add xs q) = capacity q"
  by (induction xs arbitrary: q) (simp_all add: capacity_add)

lemma contents_fold:
  "length (contents q) \<le> capacity q \<Longrightarrow> contents (fold add xs q) = take (capacity q) (contents q @ xs)"
proof (induction xs arbitrary: q)
  case (Cons x xs)
  then show ?case
    using Cons.IH[of "add x q"] by (auto simp: contents_add capacity_add take_Cons')
qed simp

lemma contents_fold_new: "contents (fold add xs (new n)) = take (nat (max 1 n)) xs"
  by (simp add: contents_fold contents_new capacity_new)

lemma get_fold_new: "fst (get (fold add xs (new n))) = (case xs of [] \<Rightarrow> None | x # _ \<Rightarrow> Some x)"
  unfolding get_fst contents_fold_new by (cases xs) (auto simp: take_Cons')

lemma drain:
  "map (\<lambda>k. fst (get (((snd \<circ> get) ^^ k) q))) [0..<length (contents q)] = map Some (contents q)"
proof -
  have c: "contents (((snd \<circ> get) ^^ k) q) = drop k (contents q)" for k
    by (induction k) (simp_all add: contents_get drop_Suc tl_drop)
  show ?thesis
    by (rule nth_equalityI) (auto simp: get_fst c Cons_nth_drop_Suc[symmetric])
qed

end

interpretation errors_queue: bounded_queue NewErrorsQueue AddError GetError errorsChan queueSize
  by unfold_locales (auto simp: NewErrorsQueue_def AddError_def GetError_def split: list.split)

text \<open>Concurrent workers: any interleaving of additions and reads is a sequence of steps.\<close>

inductive queue_step :: "'e ErrorsQueue \<Rightarrow> 'e ErrorsQueue \<Rightarrow> bool" where
  add: "queue_step q (AddError e q)"
| get: "queue_step q (snd (GetError q))"

inductive queue_reachable :: "int \<Rightarrow> 'e ErrorsQueue \<Rightarrow> bool" for n where
  start: "queue_reachable n (NewErrorsQueue n)"
| step: "queue_reachable n q \<Longrightarrow> queue_step q q' \<Longrightarrow> queue_reachable n q'"

inductive_cases queue_stepE: "queue_step q q'"

section \<open>Retry executor\<close>

datatype exec_error = HandlerError string | ContextCanceled | RetryExecutorTimeoutError string

fun error_text :: "exec_error \<Rightarrow> string" where
  "error_text (HandlerError m) = m"
| "error_text ContextCanceled = ''context canceled''"
| "error_text (RetryExecutorTimeoutError m) = m"

datatype event = Attempt | Sleep int | LogInfo string | LogWarn string | LogDebug string

record RetryExecutor =
  MaxRetries :: int
  RetriesIntervalMilliSecs :: int
  ErrorMessage :: string
  LogMsgPrefix :: string

type_synonym 's handler = "'s \<Rightarrow> (bool \<times> exec_error option) \<times> 's"

definition getTimeoutErrorMsg :: "RetryExecutor \<Rightarrow> string" where
  "getTimeoutErrorMsg runner =
     (let prefix = (if LogMsgPrefix runner \<noteq> [] then LogMsgPrefix runner @ '' '' else [])
      in prefix @ ''executor timeout after '' @ itoa (MaxRetries runner) @ '' attempts with '' @
         itoa (RetriesIntervalMilliSecs runner) @ '' milliseconds wait intervals'')"

definition LogRetry :: "RetryExecutor \<Rightarrow> int \<Rightarrow> exec_error option \<Rightarrow> event" where
  "LogRetry runner attemptNumber err =
     (let message = LogMsgPrefix runner @ ''(Attempt '' @ itoa (attemptNumber + 1) @ '')'';
          message = (if ErrorMessage runner \<noteq> [] then message @ '' - '' @ ErrorMessage runner else message);
          message = (case err of None \<Rightarrow> message | Some e \<Rightarrow> message @ '': '' @ error_text e)
      in if err \<noteq> None \<or> ErrorMessage runner \<noteq> [] then LogWarn message else LogDebug message)"

text \<open>\<open>context\<close> is \<open>None\<close> for a nil context, otherwise it says of a world whether the context's
  error is \<open>context.Canceled\<close> there.\<close>

definition checkCancelled :: "('s \<Rightarrow> bool) option \<Rightarrow> 's \<Rightarrow> exec_error option \<times> event list" where
  "checkCancelled context s =
     (case context of None \<Rightarrow> (None, [])
      | Some cancelled \<Rightarrow>
          if cancelled s then (Some ContextCanceled, [LogInfo ''Retry executor was cancelled'']) else (None, []))"

function retry_loop ::
  "RetryExecutor \<Rightarrow> ('s \<Rightarrow> bool) option \<Rightarrow> 's handler \<Rightarrow> int \<Rightarrow> exec_error option \<Rightarrow> 's \<Rightarrow>
   exec_error option \<times> 's \<times> event list" where
  "retry_loop runner ctx handler i err s =
     (if i \<le> MaxRetries runner
      then let ((shouldRetry, err), s) = handler s
           in if \<not> shouldRetry then (err, s, [Attempt])
              else let (cancelledErr, logs) = checkCancelled ctx s
                   in if cancelledErr \<noteq> None then (cancelledErr, s, Attempt # logs)
                      else let sleeps = (if RetriesIntervalMilliSecs runner > 0 \<and> i < MaxRetries runner
                                         then [Sleep (RetriesIntervalMilliSecs runner)] else []);
                               (r, s, tr) = retry_loop runner ctx handler (i + 1) err s
                           in (r, s, Attempt # logs @ LogRetry runner i err # sleeps @ tr)
      else case err of
             Some e \<Rightarrow> (Some e, s, [LogInfo (getTimeoutErrorMsg runner)])
           | None \<Rightarrow> (Some (RetryExecutorTimeoutError (getTimeoutErrorMsg runner)), s, []))"
  by pat_completeness auto
termination
  by (relation "measure (\<lambda>(runner, ctx, handler, i, err, s). nat (MaxRetries runner + 1 - i))") auto

declare retry_loop.simps [simp del]

definition Execute :: "RetryExecutor \<Rightarrow> ('s \<Rightarrow> bool) option \<Rightarrow> 's handler \<Rightarrow> 's \<Rightarrow>
   exec_error option \<times> 's \<times> event list" where
  "Execute runner ctx handler s = retry_loop runner ctx handler 0 None s"

section \<open>Polling executor\<close>

text \<open>\<open>float_quotient\<close> is the truncated float64 float_quotient of the two durations in seconds, which this
  development does not compute. The statement \<^verbatim>\<open>return finalResponse, retryExecutor.Execute()\<close> reads a
  captured variable and calls a function that assigns it; Go leaves their order open, so
  \<open>read_after\<close> says whether the compiled code reads the variable after the call.\<close>

record PollingExecutor =
  Timeout :: int
  PollingInterval :: int
  MsgPrefix :: string

type_synonym ('s, 'r) polling_action = "'s \<Rightarrow> (bool \<times> 'r option \<times> exec_error option) \<times> 's"

definition polling_handler :: "('s, 'r) polling_action \<Rightarrow> ('s \<times> 'r option) handler" where
  "polling_handler action =
     (\<lambda>(s, finalResponse). let ((shouldStop, response, err), s') = action s
                           in ((\<not> shouldStop, err), (s', response)))"

definition polling_retry_executor :: "(int \<Rightarrow> int \<Rightarrow> int) \<Rightarrow> PollingExecutor \<Rightarrow> RetryExecutor" where
  "polling_retry_executor float_quotient p =
     \<lparr>MaxRetries = float_quotient (Timeout p) (PollingInterval p),
      RetriesIntervalMilliSecs = go_div (PollingInterval p) 1000000,
      ErrorMessage = [], LogMsgPrefix = MsgPrefix p\<rparr>"

definition PollingExecute :: "bool \<Rightarrow> (int \<Rightarrow> int \<Rightarrow> int) \<Rightarrow> PollingExecutor \<Rightarrow> ('s, 'r) polling_action \<Rightarrow> 's \<Rightarrow>
   'r option \<times> exec_error option \<times> 's" where
  "PollingExecute read_after float_quotient p action s =
     (let (err, (s', finalResponse), tr) =
            Execute (polling_retry_executor float_quotient p) None (polling_handler action) (s, None)
      in (if read_after then finalResponse else None, err, s'))"

section \<open>What a run does\<close>

definition world_after :: "'s handler \<Rightarrow> 's \<Rightarrow> nat \<Rightarrow> 's" where
  "world_after h s k = ((snd \<circ> h) ^^ k) s"

definition outcome :: "'s handler \<Rightarrow> 's \<Rightarrow> nat \<Rightarrow> bool \<times> exec_error option" where
  "outcome h s k = fst (h (world_after h s k))"

text \<open>Attempt \<open>k\<close> ends the run: the handler asks for no retry, or the context is cancelled after it.\<close>

definition stops :: "('s \<Rightarrow> bool) option \<Rightarrow> 's handler \<Rightarrow> 's \<Rightarrow> nat \<Rightarrow> bool" where
  "stops ctx h s k \<longleftrightarrow> \<not> fst (outcome h s k) \<or> fst (checkCancelled ctx (world_after h s (Suc k))) \<noteq> None"

definition timeout_error :: "RetryExecutor \<Rightarrow> exec_error option \<Rightarrow> exec_error option" where
  "timeout_error runner err =
     (case err of Some e \<Rightarrow> Some e | None \<Rightarrow> Some (RetryExecutorTimeoutError (getTimeoutErrorMsg runner)))"

text \<open>With \<open>n\<close> attempts left, the error, the number of attempts made, and the final world.\<close>

definition run_spec :: "RetryExecutor \<Rightarrow> ('s \<Rightarrow> bool) option \<Rightarrow> 's handler \<Rightarrow> nat \<Rightarrow> exec_error option \<Rightarrow> 's \<Rightarrow>
    exec_error option \<times> nat \<times> 's" where
  "run_spec runner ctx h n err s =
     (case find (stops ctx h s) [0..<n] of
        Some k \<Rightarrow> (if fst (outcome h s k) then Some ContextCanceled else snd (outcome h s k),
                   Suc k, world_after h s (Suc k))
      | None \<Rightarrow> (timeout_error runner (if n = 0 then err else snd (outcome h s (n - 1))), n, world_after h s n))"

definition is_sleep :: "event \<Rightarrow> bool" where
  "is_sleep e \<longleftrightarrow> (case e of Sleep _ \<Rightarrow> True | _ \<Rightarrow> False)"

lemma is_sleep_simps [simp]:
  "is_sleep (Sleep t)" "\<not> is_sleep Attempt" "\<not> is_sleep (LogInfo m)" "\<not> is_sleep (LogRetry r i e)" "LogRetry r i e \<noteq> Attempt"
  by (simp_all add: is_sleep_def LogRetry_def Let_def)

lemma world_after_Suc: "world_after h s (Suc k) = world_after h (snd (h s)) k"
  by (simp add: world_after_def funpow_swap1)

lemma outcome_Suc: "outcome h s (Suc k) = outcome h (snd (h s)) k"
  by (simp add: outcome_def world_after_Suc)

lemma stops_Suc: "stops ctx h s (Suc k) = stops ctx h (snd (h s)) k"
  by (simp add: stops_def outcome_Suc world_after_Suc)

lemma find_upt_Suc: "find P [0..<Suc n] = (if P 0 then Some 0 else map_option Suc (find (P \<circ> Suc) [0..<n]))"
proof -
  have "find P (map Suc xs) = map_option Suc (find (P \<circ> Suc) xs)" for xs
    by (induction xs) auto
  then show ?thesis by (simp add: upt_conv_Cons map_Suc_upt[symmetric] del: upt_Suc)
qed

lemma run_spec_Suc:
  "run_spec runner ctx h (Suc n) err s =
     (if stops ctx h s 0
      then (if fst (fst (h s)) then Some ContextCanceled else snd (fst (h s)), 1, snd (h s))
      else let (e, k, t) = run_spec runner ctx h n (snd (fst (h s))) (snd (h s)) in (e, Suc k, t))"
proof -
  have "stops ctx h s \<circ> Suc = stops ctx h (snd (h s))" by (simp add: fun_eq_iff stops_Suc)
  moreover have "outcome h s 0 = fst (h s)" "world_after h s (Suc 0) = snd (h s)"
    by (simp_all add: outcome_def world_after_def)
  ultimately show ?thesis
    unfolding run_spec_def find_upt_Suc
    by (cases n) (auto simp: outcome_Suc world_after_Suc split: option.split)
qed

lemma run_spec_attempts_pos: "run_spec runner ctx h (Suc n) err s = (e, k, t) \<Longrightarrow> 0 < k"
  by (auto simp: run_spec_def split: option.splits)

lemma retry_loop_spec:
  assumes "n = nat (MaxRetries runner + 1 - i)" "retry_loop runner ctx h i err s = (e, t, tr)"
  shows "run_spec runner ctx h n err s = (e, count_list tr Attempt, t) \<and>
     length (filter is_sleep tr) = (if RetriesIntervalMilliSecs runner > 0 then count_list tr Attempt - 1 else 0)"
  using assms
proof (induction n arbitrary: i err s e t tr)
  case 0
  then have "\<not> i \<le> MaxRetries runner" by simp
  with 0(2) have "(case err of Some e \<Rightarrow> (Some e, s, [LogInfo (getTimeoutErrorMsg runner)])
      | None \<Rightarrow> (Some (RetryExecutorTimeoutError (getTimeoutErrorMsg runner)), s, [])) = (e, t, tr)"
    by (simp add: retry_loop.simps[of runner ctx h i])
  then show ?case
    by (auto simp: run_spec_def timeout_error_def world_after_def split: option.splits)
next
  case (Suc n)
  then have i: "i \<le> MaxRetries runner" by simp
  obtain again err' s' where h: "h s = ((again, err'), s')" by (metis surj_pair)
  obtain c logs where c: "checkCancelled ctx s' = (c, logs)" by fastforce
  have logs: "count_list logs Attempt = 0" "filter is_sleep logs = []" and logs_none: "c = None \<Longrightarrow> logs = []"
    using c by (auto simp: checkCancelled_def split: option.splits if_splits)
  have stop: "stops ctx h s 0 \<longleftrightarrow> \<not> again \<or> c \<noteq> None"
    using h c by (simp add: stops_def outcome_def world_after_def)
  show ?case
  proof (cases "stops ctx h s 0")
    case True
    have "(e, t, tr) = (if \<not> again then (err', s', [Attempt]) else (c, s', Attempt # logs))"
      using Suc.prems(2) i h c True stop by (subst (asm) retry_loop.simps) auto
    moreover have "c \<noteq> None \<Longrightarrow> c = Some ContextCanceled"
      using c by (auto simp: checkCancelled_def split: option.splits if_splits)
    ultimately show ?thesis
      using True h stop logs by (auto simp: run_spec_Suc split: if_splits)
  next
    case False
    then have go: "again" "c = None" "logs = []" using stop logs_none by auto
    obtain tr' where rec: "retry_loop runner ctx h (i + 1) err' s' = (e, t, tr')"
      and tr: "tr = Attempt # LogRetry runner i err' # (if RetriesIntervalMilliSecs runner > 0 \<and> i < MaxRetries runner
                   then [Sleep (RetriesIntervalMilliSecs runner)] else []) @ tr'"
      using Suc.prems(2) i h c go by (subst (asm) retry_loop.simps) (auto split: prod.splits)
    have n: "n = nat (MaxRetries runner + 1 - (i + 1))" using Suc.prems(1) by simp
    note IH = Suc.IH[OF n rec]
    have "0 < count_list tr' Attempt" if less: "i < MaxRetries runner"
    proof -
      have "n \<noteq> 0" using n less by simp
      then obtain m where "n = Suc m" by (cases n) auto
      then have "run_spec runner ctx h (Suc m) err' s' = (e, count_list tr' Attempt, t)"
        using IH by simp
      then show ?thesis by (rule run_spec_attempts_pos)
    qed
    moreover have "count_list tr' Attempt = 0" if "\<not> i < MaxRetries runner"
    proof -
      have "n = 0" using n that by simp
      with IH show ?thesis by (simp add: run_spec_def)
    qed
    ultimately show ?thesis
      using IH False h by (auto simp: tr run_spec_Suc)
  qed
qed

lemma run_spec_attempts_le: "run_spec runner ctx h n err s = (e, k, t) \<Longrightarrow> k \<le> n"
  by (auto simp: run_spec_def find_Some_iff split: option.splits)

lemma Execute_run_spec:
  assumes "Execute runner ctx h s = (e, t, tr)"
  shows "run_spec runner ctx h (nat (MaxRetries runner + 1)) None s = (e, count_list tr Attempt, t)"
    "length (filter is_sleep tr) = (if RetriesIntervalMilliSecs runner > 0 then count_list tr Attempt - 1 else 0)"
  using retry_loop_spec[OF _ assms[unfolded Execute_def]] by simp_all

text \<open>C35: an executor runs the handler until an attempt asks for no retry or is followed by a
  cancelled context, and at most \<open>MaxRetries + 1\<close> times; it returns that attempt's error, the
  cancellation, the last error, or its own timeout error; and it sleeps exactly between
  consecutive attempts.\<close>

theorem Execute_correct:
  assumes "Execute runner ctx h s = (e, t, tr)"
  shows "run_spec runner ctx h (nat (MaxRetries runner + 1)) None s = (e, count_list tr Attempt, t) \<and>
     length (filter is_sleep tr) = (if RetriesIntervalMilliSecs runner > 0 then count_list tr Attempt - 1 else 0) \<and>
     count_list tr Attempt \<le> nat (MaxRetries runner + 1)"
  by (intro conjI Execute_run_spec[OF assms] run_spec_attempts_le[OF Execute_run_spec(1)[OF assms]])

theorem Execute_correct_witness:
  "\<exists>e t tr. run_spec \<lparr>MaxRetries = 1, RetriesIntervalMilliSecs = 5, ErrorMessage = [], LogMsgPrefix = []\<rparr> None
      (\<lambda>s::nat. ((True, None), Suc s)) (nat (1 + 1)) None 0 = (e, count_list tr Attempt, t) \<and> length (filter is_sleep tr) = 1"
proof -
  let ?r = "\<lparr>MaxRetries = 1, RetriesIntervalMilliSecs = 5, ErrorMessage = [], LogMsgPrefix = []\<rparr>"
  let ?h = "\<lambda>s::nat. ((True, None :: exec_error option), Suc s)"
  obtain e t tr where run: "Execute ?r None ?h 0 = (e, t, tr)" by (metis surj_pair)
  have "count_list tr Attempt = 2"
    using Execute_correct[OF run] by (simp add: run_spec_def stops_def outcome_def checkCancelled_def upt_rec)
  with Execute_correct[OF run] show ?thesis by (intro exI[of _ e] exI[of _ t] exI[of _ tr]) simp
qed

section \<open>What polling returns\<close>

definition poll_world :: "('s, 'r) polling_action \<Rightarrow> 's \<Rightarrow> nat \<Rightarrow> 's" where
  "poll_world a s k = ((snd \<circ> a) ^^ k) s"

definition poll :: "('s, 'r) polling_action \<Rightarrow> 's \<Rightarrow> nat \<Rightarrow> bool \<times> 'r option \<times> exec_error option" where
  "poll a s k = fst (a (poll_world a s k))"

lemma polling_world_after:
  "world_after (polling_handler a) (s, r) k =
     (poll_world a s k, if k = 0 then r else fst (snd (poll a s (k - 1))))"
proof (induction k)
  case 0
  show ?case by (simp add: world_after_def poll_world_def)
next
  case (Suc k)
  then show ?case
    by (simp add: world_after_def poll_world_def poll_def polling_handler_def split: prod.split)
qed

lemma polling_outcome:
  "outcome (polling_handler a) (s, r) k = (\<not> fst (poll a s k), snd (snd (poll a s k)))"
  by (simp add: outcome_def polling_world_after poll_def) (simp add: polling_handler_def split: prod.split)

lemma polling_stops: "stops None (polling_handler a) (s, r) k \<longleftrightarrow> fst (poll a s k)"
  by (simp add: stops_def polling_outcome checkCancelled_def)

text \<open>Polling that sees a stop within its attempts returns the response and the error of the
  first poll that asks to stop, if the captured variable is read after the call; if the compiler
  reads it before the call, which Go permits, the caller never gets a response.\<close>

theorem PollingExecute_correct:
  assumes "fst (poll a s k)" "\<forall>j<k. \<not> fst (poll a s j)" "int k \<le> float_quotient (Timeout p) (PollingInterval p)"
  shows "PollingExecute True float_quotient p a s =
           (fst (snd (poll a s k)), snd (snd (poll a s k)), poll_world a s (Suc k)) \<and>
         fst (PollingExecute False float_quotient p a s) = None"
proof -
  let ?r = "polling_retry_executor float_quotient p"
  obtain e t x tr where run: "Execute ?r None (polling_handler a) (s, None) = (e, (t, x), tr)"
    by (metis surj_pair)
  have mr: "MaxRetries ?r = float_quotient (Timeout p) (PollingInterval p)" by (simp add: polling_retry_executor_def)
  have "stops None (polling_handler a) (s, None) = (\<lambda>j. fst (poll a s j))"
    by (simp add: fun_eq_iff polling_stops)
  moreover have "find (\<lambda>j. fst (poll a s j)) [0..<nat (MaxRetries ?r + 1)] = Some k"
    using assms mr by (auto simp: find_Some_iff intro!: exI[of _ k])
  ultimately have "run_spec ?r None (polling_handler a) (nat (MaxRetries ?r + 1)) None (s, None) =
      (snd (snd (poll a s k)), Suc k, (poll_world a s (Suc k), fst (snd (poll a s k))))"
    using assms(1) by (simp add: run_spec_def polling_outcome polling_world_after)
  with Execute_run_spec(1)[OF run] have "e = snd (snd (poll a s k))" "t = poll_world a s (Suc k)" "x = fst (snd (poll a s k))"
    by auto
  with run show ?thesis by (simp add: PollingExecute_def)
qed

theorem PollingExecute_correct_witness:
  "let a = (\<lambda>n::nat. ((n = 2, Some n, None), Suc n));
       p = \<lparr>Timeout = 3000000000, PollingInterval = 1000000000, MsgPrefix = []\<rparr>
   in PollingExecute True (\<lambda>x y. x div y) p a 0 =
        (fst (snd (poll a 0 2)), snd (snd (poll a 0 2)), poll_world a 0 (Suc 2)) \<and>
      fst (PollingExecute False (\<lambda>x y. x div y) p a 0) = None"
proof -
  let ?a = "\<lambda>n::nat. ((n = 2, Some n, None :: exec_error option), Suc n)"
  have w: "poll_world ?a 0 k = k" for k
    by (induction k) (simp_all add: poll_world_def)
  show ?thesis
    unfolding Let_def by (rule PollingExecute_correct) (auto simp: poll_def w)
qed

section \<open>Properties of the errors queue\<close>

lemma queue_reachable_bound: "queue_reachable n q \<Longrightarrow> queueSize q = nat (max 1 n) \<and> length (errorsChan q) \<le> queueSize q"
proof (induction rule: queue_reachable.induct)
  case start
  then show ?case by (auto simp: NewErrorsQueue_def)
next
  case (step q q')
  from step.hyps(2) step.IH show ?case
    by (auto elim!: queue_stepE simp: AddError_def GetError_def split: list.split)
qed

text \<open>Errors added to a new queue are kept, oldest first, up to the capacity of the channel
  (at least one), later ones are dropped and no addition blocks; reading gives them back in order.\<close>

theorem ErrorsQueue_keeps_first:
  "errorsChan (fold AddError es (NewErrorsQueue n)) = take (nat (max 1 n)) es \<and>
   fst (GetError (fold AddError es (NewErrorsQueue n))) = (case es of [] \<Rightarrow> None | e # _ \<Rightarrow> Some e) \<and>
   map (\<lambda>k. fst (GetError (((snd \<circ> GetError) ^^ k) (fold AddError es (NewErrorsQueue n)))))
     [0..<length (errorsChan (fold AddError es (NewErrorsQueue n)))] = map Some (take (nat (max 1 n)) es)"
  using errors_queue.contents_fold_new[of es n] errors_queue.get_fold_new[of es n]
    errors_queue.drain[of "fold AddError es (NewErrorsQueue n)"] by simp

text \<open>In every state that concurrent additions and reads can reach, the queue holds at most its
  capacity.\<close>

theorem ErrorsQueue_bounded:
  assumes "queue_reachable n q"
  shows "queueSize q = nat (max 1 n) \<and> length (errorsChan q) \<le> queueSize q"
  using assms by (rule queue_reachable_bound)

theorem ErrorsQueue_bounded_witness:
  "queueSize (AddError ''e'' (NewErrorsQueue 1)) = nat (max 1 1) \<and>
   length (errorsChan (AddError ''e'' (NewErrorsQueue 1))) \<le> queueSize (AddError ''e'' (NewErrorsQueue 1))"
  by (rule ErrorsQueue_bounded) (rule queue_reachable.step[OF queue_reachable.start queue_step.add])

end
