(* ===== verification/Encoding.thy ===== *)
theory Encoding
  imports Prelude
begin

text \<open>
  The encodings of the Go library that the clients use: \<open>url.QueryEscape\<close> and
  \<open>base64.StdEncoding.EncodeToString\<close>, each with the decoder a server applies and the round trip.
\<close>

section \<open>Percent encoding\<close>

definition unreserved :: "char \<Rightarrow> bool" where
  "unreserved c \<longleftrightarrow> c \<in> set ''-_.~'' \<or> (CHR ''0'' \<le> c \<and> c \<le> CHR ''9'') \<or>
     (CHR ''A'' \<le> c \<and> c \<le> CHR ''Z'') \<or> (CHR ''a'' \<le> c \<and> c \<le> CHR ''z'')"

definition hex_char :: "nat \<Rightarrow> char" where
  "hex_char n = ''0123456789ABCDEF'' ! n"

definition hex_val :: "char \<Rightarrow> nat option" where
  "hex_val c = List.find (\<lambda>n. hex_char n = c) [0..<16]"

definition query_escape_char :: "char \<Rightarrow> string" where
  "query_escape_char c =
     (if unreserved c then [c] else if c = CHR '' '' then ''+''
      else [CHR ''%'', hex_char (of_char c div 16), hex_char (of_char c mod 16)])"

definition query_escape :: "string \<Rightarrow> string" where
  "query_escape s = concat (map query_escape_char s)"

fun query_unescape :: "string \<Rightarrow> string option" where
  "query_unescape [] = Some []"
| "query_unescape (c # s) =
     (if c = CHR ''%''
      then (case s of a # b # r \<Rightarrow>
              (case (hex_val a, hex_val b) of
                 (Some x, Some y) \<Rightarrow> map_option (Cons (char_of (16 * x + y))) (query_unescape r)
               | _ \<Rightarrow> None)
            | _ \<Rightarrow> None)
      else map_option (Cons (if c = CHR ''+'' then CHR '' '' else c)) (query_unescape s))"

lemma hex_round: "n < 16 \<Longrightarrow> hex_val (hex_char n) = Some n"
proof -
  have "\<forall>n\<in>set [0..<16]. hex_val (hex_char n) = Some n" by code_simp
  then show "n < 16 \<Longrightarrow> hex_val (hex_char n) = Some n" by simp
qed

lemma of_char_div_mod: "char_of (16 * (of_char c div 16) + of_char c mod 16 :: nat) = c"
  by (metis char_of_char mult_div_mod_eq)

lemma of_char_256: "(of_char c :: nat) < 256"
  by (rule nat_of_char_less_256)

lemma of_char_div_16: "(of_char c :: nat) div 16 < 16"
  using of_char_256[of c] by (simp add: less_mult_imp_div_less)

lemma not_unreserved: "\<not> unreserved CHR ''%''" "\<not> unreserved CHR ''+''" "\<not> unreserved CHR '';''" "\<not> unreserved CHR ''=''"
  "\<not> unreserved CHR '',''" "\<not> unreserved CHR ''/''" "\<not> unreserved CHR ''&''"
  by code_simp+

lemma query_unescape_escape_char: "query_unescape (query_escape_char c @ s) = map_option (Cons c) (query_unescape s)"
proof (cases "unreserved c \<or> c = CHR '' ''")
  case True
  then show ?thesis using not_unreserved by (auto simp: query_escape_char_def)
next
  case False
  then show ?thesis by (simp add: query_escape_char_def hex_round of_char_div_16 of_char_div_mod)
qed

lemma query_unescape_escape [simp]: "query_unescape (query_escape s) = Some s"
  by (induction s) (simp_all add: query_escape_def query_unescape_escape_char)

lemma query_escape_inject [simp]: "query_escape s = query_escape t \<longleftrightarrow> s = t"
  by (metis option.inject query_unescape_escape)

lemma hex_char_unreserved: "n < 16 \<Longrightarrow> unreserved (hex_char n)"
proof -
  have "\<forall>n\<in>set [0..<16]. unreserved (hex_char n)" by code_simp
  then show "n < 16 \<Longrightarrow> unreserved (hex_char n)" by simp
qed

lemma query_escape_set: "c \<in> set (query_escape s) \<Longrightarrow> unreserved c \<or> c = CHR ''%'' \<or> c = CHR ''+''"
proof -
  have "c \<in> set (query_escape_char x) \<Longrightarrow> unreserved c \<or> c = CHR ''%'' \<or> c = CHR ''+''" for x
    using hex_char_unreserved[OF of_char_div_16[of x]] hex_char_unreserved[of "of_char x mod 16"]
    by (auto simp: query_escape_char_def split: if_splits)
  then show "c \<in> set (query_escape s) \<Longrightarrow> unreserved c \<or> c = CHR ''%'' \<or> c = CHR ''+''"
    by (auto simp: query_escape_def)
qed

lemma query_escape_no_sep [simp]:
  "CHR '';'' \<notin> set (query_escape s)" "CHR ''='' \<notin> set (query_escape s)" "CHR '','' \<notin> set (query_escape s)"
  using query_escape_set not_unreserved by fastforce+

section \<open>Base64\<close>

definition base64_char :: "nat \<Rightarrow> char" where
  "base64_char n = ''ABCDEFGHIJKLMNOPQRSTUVWXYZabcdefghijklmnopqrstuvwxyz0123456789+/'' ! n"

definition base64_val :: "char \<Rightarrow> nat option" where
  "base64_val c = List.find (\<lambda>n. base64_char n = c) [0..<64]"

fun base64_bytes :: "nat list \<Rightarrow> string" where
  "base64_bytes [] = []"
| "base64_bytes [a] = [base64_char (a div 4), base64_char (a mod 4 * 16), CHR ''='', CHR ''='']"
| "base64_bytes [a, b] =
     [base64_char (a div 4), base64_char (a mod 4 * 16 + b div 16), base64_char (b mod 16 * 4), CHR ''='']"
| "base64_bytes (a # b # c # s) =
     base64_char (a div 4) # base64_char (a mod 4 * 16 + b div 16) # base64_char (b mod 16 * 4 + c div 64) #
     base64_char (c mod 64) # base64_bytes s"

definition base64_encode :: "string \<Rightarrow> string" where
  "base64_encode s = base64_bytes (map of_char s)"

fun base64_unbytes :: "string \<Rightarrow> nat list option" where
  "base64_unbytes [] = Some []"
| "base64_unbytes (p # q # r # t # s) =
     (case (base64_val p, base64_val q, base64_val r, base64_val t) of
        (Some x, Some y, Some z, Some w) \<Rightarrow>
          map_option (\<lambda>bs. (x * 4 + y div 16) # (y mod 16 * 16 + z div 4) # (z mod 4 * 64 + w) # bs) (base64_unbytes s)
      | (Some x, Some y, Some z, None) \<Rightarrow>
          if t = CHR ''='' \<and> s = [] then Some [x * 4 + y div 16, y mod 16 * 16 + z div 4] else None
      | (Some x, Some y, None, None) \<Rightarrow>
          if r = CHR ''='' \<and> t = CHR ''='' \<and> s = [] then Some [x * 4 + y div 16] else None
      | _ \<Rightarrow> None)"
| "base64_unbytes _ = None"

definition base64_decode :: "string \<Rightarrow> string option" where
  "base64_decode s = map_option (map char_of) (base64_unbytes s)"

lemma base64_round [simp]: "n < 64 \<Longrightarrow> base64_val (base64_char n) = Some n"
proof -
  have "\<forall>n\<in>set [0..<64]. base64_val (base64_char n) = Some n" by code_simp
  then show "n < 64 \<Longrightarrow> base64_val (base64_char n) = Some n" by simp
qed

lemma base64_pad [simp]: "base64_val CHR ''='' = None"
  by code_simp

lemma div_mod_place: "(y::nat) < m \<Longrightarrow> (x * m + y) div m = x \<and> (x * m + y) mod m = y"
  by (simp add: mult.commute)

lemma base64_sum:
  fixes a b c :: nat
  assumes "b < 256" "c < 256"
  shows "a mod 4 * 16 + b div 16 < 64" "b mod 16 * 4 + c div 64 < 64" "a mod 4 * 16 < 64" "b mod 16 * 4 < 64" "c mod 64 < 64"
    "a < 256 \<Longrightarrow> a div 4 < 64"
proof -
  have "a mod 4 < 4" "b mod 16 < 16" "b div 16 < 16" "c div 64 < 4"
    using assms by (simp_all add: less_mult_imp_div_less)
  then show "a mod 4 * 16 + b div 16 < 64" "b mod 16 * 4 + c div 64 < 64" "a mod 4 * 16 < 64" "b mod 16 * 4 < 64" by linarith+
qed (simp_all add: less_mult_imp_div_less)

lemma base64_back:
  fixes a b c :: nat
  assumes "b < 256" "c < 256"
  shows "a div 4 * 4 + (a mod 4 * 16 + b div 16) div 16 = a"
    "(a mod 4 * 16 + b div 16) mod 16 * 16 + (b mod 16 * 4 + c div 64) div 4 = b"
    "(b mod 16 * 4 + c div 64) mod 4 * 64 + c mod 64 = c"
proof -
  have "b div 16 < 16" "c div 64 < 4" using assms by (simp_all add: less_mult_imp_div_less)
  then show "a div 4 * 4 + (a mod 4 * 16 + b div 16) div 16 = a"
    "(a mod 4 * 16 + b div 16) mod 16 * 16 + (b mod 16 * 4 + c div 64) div 4 = b"
    "(b mod 16 * 4 + c div 64) mod 4 * 64 + c mod 64 = c"
    by (simp_all add: div_mod_place div_mult_mod_eq del: div_mult_self3 mod_mult_self3)
qed

lemma base64_unbytes_bytes: "list_all (\<lambda>a. a < 256) as \<Longrightarrow> base64_unbytes (base64_bytes as) = Some as"
proof (induction as rule: base64_bytes.induct)
  case (2 a)
  then have "a div 4 < 64" "a mod 4 * 16 < 64" by (simp_all add: base64_sum[of 0 0])
  then show ?case using base64_back(1)[of 0 0 a] by simp
next
  case (3 a b)
  then have "a div 4 < 64" "a mod 4 * 16 + b div 16 < 64" "b mod 16 * 4 < 64"
    by (simp_all add: base64_sum[of b 0])
  then show ?case using 3 base64_back(1,2)[of b 0 a] by simp
next
  case (4 a b c s)
  then have "a div 4 < 64" "a mod 4 * 16 + b div 16 < 64" "b mod 16 * 4 + c div 64 < 64" "c mod 64 < 64"
    by (simp_all add: base64_sum[of b c])
  then show ?case using 4 base64_back(1,2)[of b c a] base64_back(3)[of b c] less_mult_imp_div_less[of b 16 16] by simp
qed simp

lemma base64_decode_encode [simp]: "base64_decode (base64_encode s) = Some s"
  by (simp add: base64_decode_def base64_encode_def base64_unbytes_bytes list_all_iff of_char_256 comp_def)

end
