(* ===== verification/Props.thy ===== *)
theory Props
  imports Encoding
begin

text \<open>
  \<^verbatim>\<open>artifactory/services/utils/properties.go\<close>. The Go map of a \<open>Properties\<close> is an association
  list whose order is the iteration order of the map; nothing the code returns depends on it,
  except through \<open>getSortedKeys\<close>, which sorts.
\<close>

section \<open>Operations\<close>

type_synonym properties = "(string \<times> string list) list"

record Property =
  Key :: string
  Value :: string

abbreviation backslash :: char where "backslash \<equiv> CHR 0x5C"

definition values_of :: "properties \<Rightarrow> string \<Rightarrow> string list" where
  "values_of ps k = (case map_of ps k of None \<Rightarrow> [] | Some vs \<Rightarrow> vs)"

fun set_values :: "string \<Rightarrow> string list \<Rightarrow> properties \<Rightarrow> properties" where
  "set_values k vs [] = [(k, vs)]"
| "set_values k vs ((k', ws) # ps) = (if k' = k then (k, vs) # ps else (k', ws) # set_values k vs ps)"

text \<open>\<open>props.properties[key] = append(props.properties[key], values...)\<close>; appending nothing to an
  absent key still stores the key.\<close>

definition append_values :: "string \<Rightarrow> string list \<Rightarrow> properties \<Rightarrow> properties" where
  "append_values k vs ps = set_values k (values_of ps k @ vs) ps"

definition NewProperties :: "properties" where
  "NewProperties = []"

fun remove_duplicates_loop :: "string list \<Rightarrow> (string \<Rightarrow> bool) \<Rightarrow> string list \<Rightarrow> string list" where
  "remove_duplicates_loop [] keys l = l"
| "remove_duplicates_loop (item # items) keys l =
     (if keys item then remove_duplicates_loop items keys l
      else remove_duplicates_loop items (keys(item := True)) (l @ [item]))"

definition removeDuplicates :: "string list \<Rightarrow> string list" where
  "removeDuplicates stringSlice = remove_duplicates_loop stringSlice (\<lambda>_. False) []"

definition removeDuplicateValues :: "properties \<Rightarrow> properties" where
  "removeDuplicateValues ps = map (\<lambda>(k, vs). (k, removeDuplicates vs)) ps"

text \<open>The loop over \<open>strings.Split\<close>: a piece ending in a backslash is glued to the next piece.\<close>

fun glue_escaped :: "char \<Rightarrow> string list \<Rightarrow> string list" where
  "glue_escaped sep [] = []"
| "glue_escaped sep [v] = [v]"
| "glue_escaped sep (v # w # vs) =
     (if has_suffix v [backslash] then glue_escaped sep ((take (length v - 1) v @ [sep] @ w) # vs)
      else v # glue_escaped sep (w # vs))"

definition splitWhileIgnoringBackslashPrefixSeparators :: "string \<Rightarrow> char \<Rightarrow> string list" where
  "splitWhileIgnoringBackslashPrefixSeparators s sep = glue_escaped sep (split_char sep s)"

definition splitPropToKeyAndValue :: "string \<Rightarrow> (string \<times> string) result" where
  "splitPropToKeyAndValue s =
     (let index = str_index s ''=''
      in if index = - 1 \<or> index - 1 < 0 \<or> index + 1 \<ge> int (length s)
         then Inl (Err (''Invalid property format: '' @ s @ '' - format should be key=val1,val2,...''))
         else Inr (take (nat index) s, drop (nat index + 1) s))"

text \<open>On an error the properties added so far stay, as they do in the map the method mutates.\<close>

fun add_prop_list :: "string list \<Rightarrow> properties \<Rightarrow> go_error option \<times> properties" where
  "add_prop_list [] ps = (None, removeDuplicateValues ps)"
| "add_prop_list (prop # propList) ps =
     (if prop = [] then add_prop_list propList ps
      else case splitPropToKeyAndValue prop of
             Inl e \<Rightarrow> (Some e, ps)
           | Inr (key, v) \<Rightarrow>
               add_prop_list propList
                 (append_values key (splitWhileIgnoringBackslashPrefixSeparators v CHR '','') ps))"

definition ParseAndAddProperties :: "string \<Rightarrow> properties \<Rightarrow> go_error option \<times> properties" where
  "ParseAndAddProperties propStr ps = add_prop_list (splitWhileIgnoringBackslashPrefixSeparators propStr CHR '';'') ps"

definition ParseProperties :: "string \<Rightarrow> go_error option \<times> properties" where
  "ParseProperties propStr = ParseAndAddProperties propStr NewProperties"

definition getSortedKeys :: "properties \<Rightarrow> string list" where
  "getSortedKeys ps = sort (map fst ps)"

definition AddProperty :: "string \<Rightarrow> string \<Rightarrow> properties \<Rightarrow> properties" where
  "AddProperty key v ps = (if v \<in> set (values_of ps key) then ps else append_values key [v] ps)"

definition encode_property :: "bool \<Rightarrow> string \<Rightarrow> string list \<Rightarrow> string" where
  "encode_property concatValues key vs =
     (let jointProp = (if concatValues then query_escape key @ ''='' else []);
          jointProp = foldl (\<lambda>j v. if concatValues
              then j @ query_escape (replace_all '','' [backslash, CHR '',''] v) @ query_escape '',''
              else j @ query_escape key @ ''='' @ query_escape v @ '';'') jointProp vs
      in trim_suffix jointProp (if concatValues then query_escape '','' else '';''))"

definition ToEncodedString :: "bool \<Rightarrow> properties \<Rightarrow> string" where
  "ToEncodedString concatValues ps =
     trim_prefix (foldl (\<lambda>enc key. enc @ '';'' @ encode_property concatValues key (values_of ps key)) []
                    (getSortedKeys ps)) '';''"

definition ToHeadersMap :: "properties \<Rightarrow> (string \<times> string) list" where
  "ToHeadersMap ps = map (\<lambda>(k, vs). (k, base64_encode (str_join '','' vs))) ps"

definition ToMap :: "properties \<Rightarrow> (string \<times> string list) list" where
  "ToMap ps = ps"

definition KeysLen :: "properties \<Rightarrow> nat" where
  "KeysLen ps = length ps"

text \<open>\<open>None\<close> is a nil pointer of the slice.\<close>

definition MergeProperties :: "properties option list \<Rightarrow> properties" where
  "MergeProperties properties =
     removeDuplicateValues
       (foldl (\<lambda>merged p. case p of None \<Rightarrow> merged
                | Some ps \<Rightarrow> foldl (\<lambda>m (k, vs). append_values k vs m) merged ps) NewProperties properties)"

section \<open>The map and its invariant\<close>

definition wf_properties :: "properties \<Rightarrow> bool" where
  "wf_properties ps \<longleftrightarrow> distinct (map fst ps) \<and> list_all (\<lambda>(k, vs). distinct vs) ps"

lemma map_of_set_values [simp]: "map_of (set_values k vs ps) = (map_of ps)(k \<mapsto> vs)"
  by (induction ps) (auto simp: fun_eq_iff)

lemma keys_set_values: "map fst (set_values k vs ps) = (if k \<in> fst ` set ps then map fst ps else map fst ps @ [k])"
  by (induction k vs ps rule: set_values.induct) simp_all

lemma set_set_values: "set (set_values k vs ps) \<subseteq> insert (k, vs) (set ps)"
  by (induction ps) (auto split: if_splits)

lemma values_of_append_values: "values_of (append_values k vs ps) k' = (if k' = k then values_of ps k @ vs else values_of ps k')"
  by (simp add: append_values_def values_of_def)

lemma keys_append_values: "fst ` set (append_values k vs ps) = insert k (fst ` set ps)"
proof -
  have "set (map fst (append_values k vs ps)) = insert k (set (map fst ps))"
    unfolding append_values_def keys_set_values by auto
  then show ?thesis by simp
qed

lemma distinct_append_values: "distinct (map fst (append_values k vs ps)) \<longleftrightarrow> distinct (map fst ps)"
  by (auto simp: append_values_def keys_set_values)

lemma values_of_fresh: "k \<notin> fst ` set ps \<Longrightarrow> values_of ps k = []"
proof -
  assume "k \<notin> fst ` set ps"
  then have "map_of ps k = None" by (simp add: map_of_eq_None_iff)
  then show ?thesis by (simp add: values_of_def)
qed

lemma append_values_fresh: "k \<notin> fst ` set ps \<Longrightarrow> append_values k vs ps = ps @ [(k, vs)]"
proof -
  assume k: "k \<notin> fst ` set ps"
  have "set_values k ws ps = ps @ [(k, ws)]" for ws
    using k by (induction k ws ps rule: set_values.induct) auto
  with values_of_fresh[OF k] show ?thesis by (simp add: append_values_def)
qed

lemma values_of_in: "k \<in> fst ` set ps \<Longrightarrow> (k, values_of ps k) \<in> set ps"
proof -
  assume "k \<in> fst ` set ps"
  then have "map_of ps k \<noteq> None" by (simp add: map_of_eq_None_iff)
  then show ?thesis by (auto simp: values_of_def dest: map_of_SomeD)
qed

text \<open>The first occurrence of every element, in order.\<close>

fun firsts :: "'a list \<Rightarrow> 'a list" where
  "firsts [] = []"
| "firsts (x # xs) = x # filter (\<lambda>y. y \<noteq> x) (firsts xs)"

lemma set_firsts [simp]: "set (firsts xs) = set xs"
  by (induction xs) auto

lemma distinct_firsts [simp]: "distinct (firsts xs)"
  by (induction xs) auto

lemma firsts_distinct: "distinct xs \<Longrightarrow> firsts xs = xs"
  by (induction xs) (auto intro: filter_True)

lemma remove_duplicates_loop_firsts:
  "remove_duplicates_loop xs (\<lambda>x. x \<in> set l) l = l @ filter (\<lambda>x. x \<notin> set l) (firsts xs)"
proof (induction xs arbitrary: l)
  case Nil
  show ?case by simp
next
  case (Cons x xs)
  have upd: "(\<lambda>y. y \<in> set l)(x := True) = (\<lambda>y. y \<in> set (l @ [x]))" by (auto simp: fun_eq_iff)
  show ?case
  proof (cases "x \<in> set l")
    case True
    then show ?thesis using Cons.IH[of l] by (auto simp: filter_filter intro!: filter_cong)
  next
    case False
    then show ?thesis unfolding remove_duplicates_loop.simps upd Cons.IH by (simp add: filter_filter conj_commute)
  qed
qed

lemma removeDuplicates_firsts [simp]: "removeDuplicates xs = firsts xs"
  using remove_duplicates_loop_firsts[of xs "[]"] by (simp add: removeDuplicates_def)

lemma removeDuplicateValues_id: "list_all (\<lambda>(k, vs). distinct vs) ps \<Longrightarrow> removeDuplicateValues ps = ps"
  by (induction ps) (auto simp: removeDuplicateValues_def firsts_distinct)

lemma values_of_removeDuplicateValues: "values_of (removeDuplicateValues ps) k = firsts (values_of ps k)"
  by (induction ps) (auto simp: removeDuplicateValues_def values_of_def)

lemma keys_removeDuplicateValues [simp]: "map fst (removeDuplicateValues ps) = map fst ps"
  by (induction ps) (auto simp: removeDuplicateValues_def)

lemma wf_removeDuplicateValues: "distinct (map fst ps) \<Longrightarrow> wf_properties (removeDuplicateValues ps)"
  unfolding wf_properties_def keys_removeDuplicateValues by (auto simp: removeDuplicateValues_def list_all_iff)

section \<open>Operations keep the invariant\<close>

lemma wf_NewProperties: "wf_properties NewProperties"
  by (simp add: NewProperties_def wf_properties_def)

lemma wf_set_values: "wf_properties ps \<Longrightarrow> distinct vs \<Longrightarrow> wf_properties (set_values k vs ps)"
  using set_set_values[of k vs ps] by (fastforce simp: wf_properties_def keys_set_values list_all_iff)

lemma distinct_values_of: "wf_properties ps \<Longrightarrow> distinct (values_of ps k)"
  by (auto simp: wf_properties_def values_of_def list_all_iff split: option.split dest: map_of_SomeD)

lemma wf_AddProperty: "wf_properties ps \<Longrightarrow> wf_properties (AddProperty k v ps)"
  unfolding AddProperty_def append_values_def by (auto intro!: wf_set_values distinct_values_of)

lemma add_prop_list_keys: "distinct (map fst ps) \<Longrightarrow> distinct (map fst (snd (add_prop_list propList ps)))"
  by (induction propList ps rule: add_prop_list.induct)
    (auto simp: distinct_append_values simp del: removeDuplicates_firsts split: sum.split prod.split)

lemma wf_add_prop_list:
  "distinct (map fst ps) \<Longrightarrow> fst (add_prop_list propList ps) = None \<Longrightarrow> wf_properties (snd (add_prop_list propList ps))"
  by (induction propList ps rule: add_prop_list.induct)
    (auto simp: distinct_append_values wf_removeDuplicateValues split: sum.splits prod.splits if_splits)

lemma merge_step_values:
  "values_of (foldl (\<lambda>m (k, vs). append_values k vs m) m ps) k = values_of m k @ concat (map snd (filter (\<lambda>p. fst p = k) ps))"
  by (induction ps arbitrary: m) (auto simp: values_of_append_values)

lemma merge_step_keys:
  "distinct (map fst m) \<Longrightarrow> distinct (map fst (foldl (\<lambda>m (k, vs). append_values k vs m) m ps))"
  by (induction ps arbitrary: m) (auto simp: distinct_append_values)

lemma merge_step_key_set:
  "fst ` set (foldl (\<lambda>m (k, vs). append_values k vs m) m ps) = fst ` set m \<union> fst ` set ps"
proof (induction ps arbitrary: m)
  case (Cons p ps)
  then show ?case by (cases p) (simp add: keys_append_values)
qed simp

lemma filter_key: "distinct (map fst ps) \<Longrightarrow> concat (map snd (filter (\<lambda>p. fst p = k) ps)) = values_of ps k"
proof (induction ps)
  case (Cons p ps)
  then show ?case
    by (cases p) (auto simp: values_of_def filter_empty_conv image_iff)
qed (simp add: values_of_def)

section \<open>Escaped separators\<close>

definition escape :: "char \<Rightarrow> string \<Rightarrow> string" where
  "escape sep s = replace_char sep [backslash, sep] s"

text \<open>The same splitting, one character at a time.\<close>

fun scan_escaped :: "char \<Rightarrow> string \<Rightarrow> string \<Rightarrow> string list" where
  "scan_escaped sep acc [] = [acc]"
| "scan_escaped sep acc (x # s) =
     (if x = sep
      then (if has_suffix acc [backslash] then scan_escaped sep (take (length acc - 1) acc @ [sep]) s
            else acc # scan_escaped sep [] s)
      else scan_escaped sep (acc @ [x]) s)"

lemma glue_escaped_scan:
  "glue_escaped sep ((acc @ hd (split_char sep s)) # tl (split_char sep s)) = scan_escaped sep acc s"
proof (induction s arbitrary: acc)
  case Nil
  show ?case by simp
next
  case (Cons x s)
  obtain h t where ht: "split_char sep s = h # t" by (cases "split_char sep s") auto
  with Cons.IH[of "acc @ [x]"] Cons.IH[of "take (length acc - 1) acc @ [sep]"] Cons.IH[of "[]"]
  show ?case by simp
qed

lemma split_escaped_scan: "splitWhileIgnoringBackslashPrefixSeparators s sep = scan_escaped sep [] s"
  using glue_escaped_scan[of sep "[]" s] by (simp add: splitWhileIgnoringBackslashPrefixSeparators_def)

lemma scan_escape_sep:
  assumes "sep \<noteq> backslash"
  shows "\<not> has_suffix (acc @ w) [backslash] \<Longrightarrow>
    scan_escaped sep acc (escape sep w @ sep # t) = (acc @ w) # scan_escaped sep [] t"
  using assms by (induction w arbitrary: acc) (auto simp: escape_def)

lemma scan_escape_end:
  assumes "sep \<noteq> backslash"
  shows "\<not> has_suffix (acc @ w) [backslash] \<Longrightarrow> scan_escaped sep acc (escape sep w) = [acc @ w]"
  using assms by (induction w arbitrary: acc) (auto simp: escape_def)

lemma split_escaped_join:
  assumes "sep \<noteq> backslash" "ws \<noteq> []" "\<forall>w\<in>set ws. \<not> has_suffix w [backslash]"
  shows "splitWhileIgnoringBackslashPrefixSeparators (str_join [sep] (map (escape sep) ws)) sep = ws"
  unfolding split_escaped_scan using assms(2,3)
proof (induction ws rule: induct_list012)
  case (2 w)
  then show ?case using scan_escape_end[OF assms(1), of "[]" w] by simp
next
  case (3 w v ws)
  then show ?case using scan_escape_sep[OF assms(1), of "[]" w] by simp
qed simp

lemma last_escape: "sep \<noteq> backslash \<Longrightarrow> has_suffix (escape sep w) [backslash] \<longleftrightarrow> has_suffix w [backslash]"
  by (induction w rule: rev_induct) (auto simp: escape_def has_suffix_single)

lemma escape_eq_Nil [simp]: "escape sep w = [] \<longleftrightarrow> w = []"
  by (cases w) (auto simp: escape_def)

lemma has_suffix_append_single: "has_suffix (a @ b) [c] \<longleftrightarrow> (if b = [] then has_suffix a [c] else has_suffix b [c])"
  by (simp add: has_suffix_single)

lemma last_join_escape:
  assumes "sep \<noteq> backslash" "ws \<noteq> []" "\<forall>w\<in>set ws. \<not> has_suffix w [backslash]"
  shows "\<not> has_suffix (str_join [sep] (map (escape sep) ws)) [backslash]"
  using assms(2,3)
proof (induction ws rule: induct_list012)
  case (2 w)
  then show ?case using assms(1) by (simp add: last_escape)
next
  case (3 w v ws)
  have sep: "\<not> has_suffix [sep] [backslash]" using assms(1) by (simp add: has_suffix_single)
  have "has_suffix (a @ [sep] @ r) [backslash] \<longleftrightarrow> r \<noteq> [] \<and> has_suffix r [backslash]" for a r
    using sep by (auto simp: has_suffix_append_single simp del: append_Cons)
  moreover have "\<not> has_suffix (str_join [sep] (map (escape sep) (v # ws))) [backslash]"
    using 3 by simp
  ultimately show ?case by simp
qed simp

section \<open>Writing and reading property strings\<close>

definition render_property :: "string \<times> string list \<Rightarrow> string" where
  "render_property kv = fst kv @ ''='' @ str_join '','' (map (escape CHR '','') (snd kv))"

definition render_properties :: "properties \<Rightarrow> string" where
  "render_properties ps = str_join '';'' (map (escape CHR '';'') (map render_property ps))"

definition writable :: "string \<times> string list \<Rightarrow> bool" where
  "writable kv \<longleftrightarrow> fst kv \<noteq> [] \<and> CHR ''='' \<notin> set (fst kv) \<and> snd kv \<noteq> [] \<and> snd kv \<noteq> [[]] \<and>
     (\<forall>v\<in>set (snd kv). \<not> has_suffix v [backslash])"

lemma join_eq_Nil: "ws \<noteq> [] \<Longrightarrow> str_join [c] ws = [] \<longleftrightarrow> ws = [[]]"
  by (cases ws; cases "tl ws") auto

lemma joined_values_nonempty: "writable (k, vs) \<Longrightarrow> str_join '','' (map (escape CHR '','') vs) \<noteq> []"
  by (auto simp: writable_def join_eq_Nil map_eq_Cons_conv)

lemma str_index_key: "CHR ''='' \<notin> set k \<Longrightarrow> str_index (k @ ''='' @ r) ''='' = int (length k)"
  unfolding str_index_def find_sub_single by (induction k) auto

lemma split_render_property:
  assumes "writable (k, vs)"
  shows "splitPropToKeyAndValue (render_property (k, vs)) = Inr (k, str_join '','' (map (escape CHR '','') vs))"
proof -
  let ?v = "str_join '','' (map (escape CHR '','') vs)"
  have "str_index (k @ ''='' @ ?v) ''='' = int (length k)"
    using assms by (intro str_index_key) (simp add: writable_def)
  then show ?thesis
    using assms joined_values_nonempty[OF assms]
    by (simp add: splitPropToKeyAndValue_def render_property_def writable_def Let_def)
qed

lemma render_property_no_backslash:
  assumes "writable (k, vs)"
  shows "\<not> has_suffix (render_property (k, vs)) [backslash]"
proof -
  have "\<not> has_suffix (str_join '','' (map (escape CHR '','') vs)) [backslash]"
    using assms by (intro last_join_escape) (auto simp: writable_def)
  then show ?thesis using joined_values_nonempty[OF assms] by (simp add: render_property_def has_suffix_single)
qed

lemma add_prop_list_render:
  assumes "list_all writable ps" "distinct (map fst (qs @ ps))" "list_all (\<lambda>(k, vs). distinct vs) (qs @ ps)"
  shows "add_prop_list (map render_property ps) qs = (None, qs @ ps)"
  using assms
proof (induction ps arbitrary: qs)
  case Nil
  then show ?case by (simp add: removeDuplicateValues_id)
next
  case (Cons p ps)
  obtain k vs where p: "p = (k, vs)" by (cases p)
  from Cons.prems p have w: "writable (k, vs)" by simp
  have split: "splitWhileIgnoringBackslashPrefixSeparators (str_join '','' (map (escape CHR '','') vs)) CHR '','' = vs"
    using w by (intro split_escaped_join) (auto simp: writable_def)
  have "k \<notin> fst ` set qs" using Cons.prems(2) p by auto
  then have "append_values k vs qs = qs @ [p]" by (simp add: append_values_fresh p)
  moreover have "render_property (k, vs) \<noteq> []" by (simp add: render_property_def)
  ultimately show ?case
    using Cons.IH[of "qs @ [p]"] Cons.prems by (simp add: p split_render_property[OF w] split)
qed

lemma ParseProperties_rendered:
  assumes "wf_properties ps" "list_all writable ps"
  shows "ParseProperties (render_properties ps) = (None, ps)"
proof (cases "ps = []")
  case True
  then show ?thesis
    by (simp add: render_properties_def ParseProperties_def ParseAndAddProperties_def split_escaped_scan
        NewProperties_def removeDuplicateValues_def)
next
  case False
  have "splitWhileIgnoringBackslashPrefixSeparators (render_properties ps) CHR '';'' = map render_property ps"
    unfolding render_properties_def using False assms(2) render_property_no_backslash
    by (intro split_escaped_join) (auto simp: list_all_iff)
  then show ?thesis
    using add_prop_list_render[of ps "[]"] assms
    by (simp add: ParseProperties_def ParseAndAddProperties_def NewProperties_def wf_properties_def)
qed

text \<open>C37: a property string written with escaped separators is parsed to the properties it was
  written from, in order, when no value ends with a backslash, no key is empty or has the character \<open>=\<close>, keys and the values of
  a key are distinct, and no key has an empty string as its only value.\<close>

theorem ParseProperties_render:
  assumes "wf_properties ps" "list_all writable ps"
  shows "ParseProperties (render_properties ps) = (None, ps)"
  using assms by (rule ParseProperties_rendered)

theorem ParseProperties_render_witness:
  "ParseProperties (render_properties [(''a;b'', [''x,y'', ''z'']), (''c'', [''='', []])]) =
     (None, [(''a;b'', [''x,y'', ''z'']), (''c'', [''='', []])])"
  by (rule ParseProperties_render) (auto simp: wf_properties_def writable_def has_suffix_single)

text \<open>A value that ends with a backslash escapes the separator behind it: two values become one.\<close>

lemma ParseProperties_backslash:
  "ParseProperties (render_properties [(''y'', [''a'' @ [backslash], ''b''])]) = (None, [(''y'', [''a,b''])])"
  by code_simp

section \<open>Encoded strings\<close>

lemma query_escape_append: "query_escape (a @ b) = query_escape a @ query_escape b"
  by (simp add: query_escape_def)

lemma query_escape_join: "query_escape (str_join sep ws) = str_join (query_escape sep) (map query_escape ws)"
  by (induction ws rule: induct_list012) (simp_all add: query_escape_append query_escape_def[of "[]"])

lemma encode_property_values:
  "encode_property False k vs = str_join '';'' (map (\<lambda>v. query_escape k @ ''='' @ query_escape v) vs)"
proof (cases "vs = []")
  case True
  then show ?thesis by (simp add: encode_property_def trim_suffix_def has_suffix_def)
next
  case False
  then have "concat (map (\<lambda>v. query_escape k @ ''='' @ query_escape v @ '';'') vs) =
      str_join '';'' (map (\<lambda>v. query_escape k @ ''='' @ query_escape v) vs) @ '';''"
    using concat_sep_suffix[of "map (\<lambda>v. query_escape k @ ''='' @ query_escape v) vs" "'';''"] by (simp add: comp_def)
  then show ?thesis
    unfolding encode_property_def Let_def if_False foldl_append by (simp only: append_Nil trim_suffix_append)
qed

lemma encode_property_concat:
  assumes "vs \<noteq> []"
  shows "encode_property True k vs = query_escape k @ ''='' @ query_escape (str_join '','' (map (escape CHR '','') vs))"
proof -
  let ?e = "\<lambda>v. query_escape (escape CHR '','' v)"
  have "concat (map (\<lambda>v. ?e v @ query_escape '','') vs) = str_join (query_escape '','') (map ?e vs) @ query_escape '',''"
    using concat_sep_suffix[of "map ?e vs" "query_escape '',''"] assms by (simp add: comp_def)
  then have "encode_property True k vs =
      trim_suffix ((query_escape k @ ''='' @ str_join (query_escape '','') (map ?e vs)) @ query_escape '','') (query_escape '','')"
    unfolding encode_property_def Let_def if_True foldl_append replace_all_single escape_def[symmetric]
    by (simp del: trim_suffix_append)
  then show ?thesis unfolding trim_suffix_append query_escape_join by (simp add: comp_def)
qed

lemma sort_eq_Nil: "sort xs = [] \<longleftrightarrow> xs = []"
  by (metis length_0_conv length_sort)

lemma ToEncodedString_join:
  assumes "ps \<noteq> []"
  shows "ToEncodedString c ps = str_join '';'' (map (\<lambda>k. encode_property c k (values_of ps k)) (getSortedKeys ps))"
proof -
  let ?ws = "map (\<lambda>k. encode_property c k (values_of ps k)) (getSortedKeys ps)"
  have "?ws \<noteq> []" using assms by (simp add: getSortedKeys_def sort_eq_Nil)
  then have "concat (map (\<lambda>k. '';'' @ encode_property c k (values_of ps k)) (getSortedKeys ps)) = '';'' @ str_join '';'' ?ws"
    using concat_sep_prefix[of ?ws "'';''"] by (simp add: comp_def)
  then show ?thesis
    unfolding ToEncodedString_def foldl_append by (simp del: append_Cons append_Nil add: append_Nil)
qed

lemma join_joins: "\<forall>ws\<in>set wss. ws \<noteq> [] \<Longrightarrow> str_join sep (map (str_join sep) wss) = str_join sep (concat wss)"
proof (induction wss rule: induct_list012)
  case (3 ws vs wss)
  have "str_join sep (us @ xs) = str_join sep us @ sep @ str_join sep xs" if "us \<noteq> []" "xs \<noteq> []" for us xs
    using that by (induction us rule: induct_list012) (simp_all add: str_join_Cons)
  then show ?case using 3 by simp
qed simp_all

definition decode_pair :: "string \<Rightarrow> (string \<times> string) option" where
  "decode_pair s =
     (case split_char CHR ''='' s of
        [a, b] \<Rightarrow> (case (query_unescape a, query_unescape b) of (Some k, Some v) \<Rightarrow> Some (k, v) | _ \<Rightarrow> None)
      | _ \<Rightarrow> None)"

lemma decode_pair_escape: "decode_pair (query_escape k @ ''='' @ query_escape v) = Some (k, v)"
proof -
  have "split_char CHR ''='' (query_escape k @ CHR ''='' # query_escape v) = [query_escape k, query_escape v]"
    unfolding split_char_append_sep by (simp add: split_char_single)
  then show ?thesis by (simp add: decode_pair_def)
qed

text \<open>A server that splits an encoded property string, unescapes it and splits the
  values gets every key in increasing order with its own values; and the other form, one pair for
  each value.\<close>

theorem ToEncodedString_decodes:
  assumes "ps \<noteq> []" "\<forall>k\<in>fst ` set ps. values_of ps k \<noteq> [] \<and> (\<forall>v\<in>set (values_of ps k). \<not> has_suffix v [backslash])"
  shows "map (\<lambda>p. map_option (\<lambda>(k, v). (k, splitWhileIgnoringBackslashPrefixSeparators v CHR '','')) (decode_pair p))
           (split_char CHR '';'' (ToEncodedString True ps)) = map (\<lambda>k. Some (k, values_of ps k)) (getSortedKeys ps) \<and>
         map decode_pair (split_char CHR '';'' (ToEncodedString False ps)) =
           concat (map (\<lambda>k. map (\<lambda>v. Some (k, v)) (values_of ps k)) (getSortedKeys ps)) \<and>
         sorted (getSortedKeys ps)"
proof -
  let ?ks = "getSortedKeys ps"
  have ks: "set ?ks = fst ` set ps" "?ks \<noteq> []" using assms(1) by (simp_all add: getSortedKeys_def sort_eq_Nil)
  have ne: "values_of ps k \<noteq> []" if "k \<in> set ?ks" for k using assms(2) that ks by blast
  let ?c = "\<lambda>k. query_escape k @ ''='' @ query_escape (str_join '','' (map (escape CHR '','') (values_of ps k)))"
  let ?f = "\<lambda>k. map (\<lambda>v. query_escape k @ ''='' @ query_escape v) (values_of ps k)"
  have "ToEncodedString True ps = str_join '';'' (map ?c ?ks)"
    unfolding ToEncodedString_join[OF assms(1)] using ne encode_property_concat
    by (intro arg_cong[where f = "str_join '';''"] map_cong) auto
  then have split: "split_char CHR '';'' (ToEncodedString True ps) = map ?c ?ks"
    using ks(2) by (auto intro!: split_char_join)
  have vals: "splitWhileIgnoringBackslashPrefixSeparators (str_join '','' (map (escape CHR '','') (values_of ps k))) CHR '',''
      = values_of ps k" if "k \<in> set ?ks" for k
    using assms(2) that ks by (intro split_escaped_join) auto
  have "ToEncodedString False ps = str_join '';'' (map (str_join '';'') (map ?f ?ks))"
    unfolding ToEncodedString_join[OF assms(1)] encode_property_values by (simp add: comp_def)
  also have "\<dots> = str_join '';'' (concat (map ?f ?ks))"
    using ne by (intro join_joins) auto
  finally have "split_char CHR '';'' (ToEncodedString False ps) = concat (map ?f ?ks)"
    using ks(2) ne by (auto intro!: split_char_join)
  then have "map decode_pair (split_char CHR '';'' (ToEncodedString False ps)) =
           concat (map (\<lambda>k. map (\<lambda>v. Some (k, v)) (values_of ps k)) ?ks)"
    by (simp add: map_concat comp_def decode_pair_escape[simplified])
  moreover have "map (\<lambda>p. map_option (\<lambda>(k, v). (k, splitWhileIgnoringBackslashPrefixSeparators v CHR '','')) (decode_pair p))
           (split_char CHR '';'' (ToEncodedString True ps)) = map (\<lambda>k. Some (k, values_of ps k)) ?ks"
    unfolding split using vals by (simp add: decode_pair_escape[simplified])
  moreover have "sorted ?ks" by (simp add: getSortedKeys_def)
  ultimately show ?thesis by blast
qed

theorem ToEncodedString_decodes_witness:
  "map decode_pair (split_char CHR '';'' (ToEncodedString False [(''b'', [''1'']), (''a'', [''x'', '';''])])) =
     [Some (''a'', ''x''), Some (''a'', '';''), Some (''b'', ''1'')]"
  using ToEncodedString_decodes[of "[(''b'', [''1'']), (''a'', [''x'', '';''])]"]
  by (auto simp: has_suffix_single values_of_def getSortedKeys_def)

section \<open>Headers and merging\<close>

text \<open>Every property becomes one header whose decoded value is its values joined by commas.\<close>

theorem ToHeadersMap_decodes:
  "map (\<lambda>(k, h). (k, base64_decode h)) (ToHeadersMap ps) = map (\<lambda>(k, vs). (k, Some (str_join '','' vs))) ps"
  by (induction ps) (auto simp: ToHeadersMap_def)

lemma MergeProperties_loop:
  "values_of (foldl (\<lambda>merged p. case p of None \<Rightarrow> merged
                | Some ps \<Rightarrow> foldl (\<lambda>m (k, vs). append_values k vs m) merged ps) m properties) k =
     values_of m k @ concat (map (\<lambda>ps. concat (map snd (filter (\<lambda>p. fst p = k) ps))) (map the (filter (\<lambda>p. p \<noteq> None) properties)))"
  by (induction properties arbitrary: m) (auto simp: merge_step_values split: option.split)

lemma MergeProperties_loop_keys:
  "distinct (map fst m) \<Longrightarrow> distinct (map fst (foldl (\<lambda>merged p. case p of None \<Rightarrow> merged
                | Some ps \<Rightarrow> foldl (\<lambda>m (k, vs). append_values k vs m) merged ps) m properties))"
  by (induction properties arbitrary: m) (auto simp: merge_step_keys split: option.split)

text \<open>Merging collects, for every key, the values of all properties that are not nil, in
  order and each value once; the result has every key once.\<close>

theorem MergeProperties_values:
  assumes "\<forall>p\<in>set properties. case p of None \<Rightarrow> True | Some ps \<Rightarrow> distinct (map fst ps)"
  shows "values_of (MergeProperties properties) k =
           firsts (concat (map (\<lambda>ps. values_of ps k) (map the (filter (\<lambda>p. p \<noteq> None) properties)))) \<and>
         wf_properties (MergeProperties properties)"
proof -
  have "concat (map snd (filter (\<lambda>p. fst p = k) ps)) = values_of ps k"
    if "ps \<in> set (map the (filter (\<lambda>p. p \<noteq> None) properties))" for ps
    using that assms by (intro filter_key) auto
  then have "map (\<lambda>ps. concat (map snd (filter (\<lambda>p. fst p = k) ps))) (map the (filter (\<lambda>p. p \<noteq> None) properties)) =
      map (\<lambda>ps. values_of ps k) (map the (filter (\<lambda>p. p \<noteq> None) properties))"
    by (intro map_cong) auto
  moreover have "values_of NewProperties k = []" by (simp add: NewProperties_def values_of_def)
  ultimately have "values_of (MergeProperties properties) k =
      firsts (concat (map (\<lambda>ps. values_of ps k) (map the (filter (\<lambda>p. p \<noteq> None) properties))))"
    unfolding MergeProperties_def values_of_removeDuplicateValues MergeProperties_loop by (simp only: append_Nil)
  moreover have "wf_properties (MergeProperties properties)"
    unfolding MergeProperties_def
    by (intro wf_removeDuplicateValues MergeProperties_loop_keys) (simp add: NewProperties_def)
  ultimately show ?thesis ..
qed

theorem MergeProperties_values_witness:
  "values_of (MergeProperties [Some [(''a'', [''1'', ''2''])], None, Some [(''a'', [''2'', ''3''])]]) ''a'' = [''1'', ''2'', ''3'']"
  using MergeProperties_values[of "[Some [(''a'', [''1'', ''2''])], None, Some [(''a'', [''2'', ''3''])]]" "''a''"]
  by (simp add: values_of_def)

end
