(* ===== verification/RepoPath.thy ===== *)
theory RepoPath
  imports Utils
begin

text \<open>
  \<^verbatim>\<open>artifactory/services/utils/repopathfile.go\<close>: a download pattern is translated to triples of a
  repository, a path and a file name pattern, which an AQL query joins by \<open>or\<close>. The theorems
  compare the triples with matching the whole path of an item against the pattern.
\<close>

section \<open>Translation\<close>

record RepoPathFile =
  rpf_repo :: string
  rpf_path :: string
  rpf_file :: string

definition asterisk_indices :: "string \<Rightarrow> nat list" where
  "asterisk_indices pattern = filter (\<lambda>i. pattern ! i = CHR ''*'') [0..<length pattern]"

definition getDefaultPath :: "bool \<Rightarrow> string" where
  "getDefaultPath recursive = (if recursive then ''*'' else ''.'')"

definition handleNonRecursiveTriples :: "string \<Rightarrow> string \<Rightarrow> bool \<Rightarrow> string \<times> string \<times> RepoPathFile list" where
  "handleNonRecursiveTriples repo pattern recursive =
     (let slashIndex = last_index_char pattern CHR ''/''
      in if slashIndex < 0
         then if recursive \<and> has_prefix pattern ''*'' then ([], pattern, [])
              else ([], pattern, [\<lparr>rpf_repo = repo, rpf_path = ''.'', rpf_file = pattern\<rparr>])
         else let path = take (nat slashIndex) pattern; name = drop (nat slashIndex + 1) pattern
              in (path, name, [\<lparr>rpf_repo = repo, rpf_path = path, rpf_file = name\<rparr>]))"

text \<open>The inner loop: the parts joined by asterisks, with a slash after the one that follows part \<open>i\<close>.\<close>

definition split_at_asterisk :: "string list \<Rightarrow> nat \<Rightarrow> string" where
  "split_at_asterisk nameSplit i =
     concat (map (\<lambda>j. (if j > 0 then ''*'' else []) @ nameSplit ! j @ (if j = i then ''*/'' else []))
               [0..<length nameSplit])"

text \<open>The outer loop from part \<open>i\<close> on; \<open>path\<close> gets its slash in the first round. The last case of the
  split, an index out of range in Go, does not occur: the string has the slash that was put in.\<close>

function name_triples :: "string \<Rightarrow> string list \<Rightarrow> nat \<Rightarrow> string \<Rightarrow> RepoPathFile list" where
  "name_triples repo nameSplit i path =
     (if i + 1 < length nameSplit
      then case split_char CHR ''/'' (split_at_asterisk nameSplit i) of
             filePath # fileName # _ \<Rightarrow>
               let fileName = (if fileName = [] then ''*'' else fileName);
                   path = (if path \<noteq> [] \<and> \<not> has_suffix path ''/'' then path @ ''/'' else path)
               in \<lparr>rpf_repo = repo, rpf_path = path @ filePath, rpf_file = fileName\<rparr> #
                  name_triples repo nameSplit (i + 1) path
           | _ \<Rightarrow> []
      else [])"
  by pat_completeness auto
termination
  by (relation "measure (\<lambda>(repo, nameSplit, i, path). length nameSplit - i)") auto

declare name_triples.simps [simp del]

definition createPathFilePairs :: "string \<Rightarrow> string \<Rightarrow> bool \<Rightarrow> RepoPathFile list" where
  "createPathFilePairs repo pattern recursive =
     (if pattern = ''*'' then [\<lparr>rpf_repo = repo, rpf_path = getDefaultPath recursive, rpf_file = ''*''\<rparr>]
      else let (path, name, triples) = handleNonRecursiveTriples repo pattern recursive
           in if \<not> recursive then triples
              else if name = ''*'' then triples @ [\<lparr>rpf_repo = repo, rpf_path = path @ ''/*'', rpf_file = ''*''\<rparr>]
              else triples @ name_triples repo (split_char CHR ''*'' name) 0 path)"

text \<open>The pattern left for the path when the repository part ends at the asterisk \<open>i\<close>.\<close>

definition pattern_from_asterisk :: "string \<Rightarrow> nat \<Rightarrow> string" where
  "pattern_from_asterisk pattern i =
     (let newPattern = drop i pattern;
          slashCount = count_list newPattern CHR ''/'';
          asteriskCount = count_list newPattern CHR ''*''
      in if slashCount > 1 \<or> asteriskCount > 1
         then let newPattern = trim_prefix newPattern ''*/''
              in if \<not> has_prefix newPattern ''*'' then CHR ''*'' # newPattern else newPattern
         else newPattern)"

fun repo_asterisk_triples :: "string \<Rightarrow> bool \<Rightarrow> int \<Rightarrow> nat list \<Rightarrow> RepoPathFile list \<Rightarrow> int \<Rightarrow> RepoPathFile list \<times> int" where
  "repo_asterisk_triples pattern recursive firstSlashIndex [] triples lastIndex = (triples, lastIndex)"
| "repo_asterisk_triples pattern recursive firstSlashIndex (i # is) triples lastIndex =
     (if IsSlashPrecedeAsterisk (int i) firstSlashIndex then (triples, lastIndex)
      else repo_asterisk_triples pattern recursive firstSlashIndex is
             (triples @ createPathFilePairs (take (i + 1) pattern) (pattern_from_asterisk pattern i) recursive)
             (int i + 1))"

definition createRepoPathFileTriples :: "string \<Rightarrow> bool \<Rightarrow> (RepoPathFile list \<times> bool) result" where
  "createRepoPathFileTriples pattern recursive =
     (let firstSlashIndex = str_index pattern ''/''
      in if firstSlashIndex = 0
         then Inl (Err ''a pattern of a path in Artifactory must start with a repository name or an asterisk (*)'')
         else let asteriskIndices = asterisk_indices pattern;
                  singleRepo = asteriskIndices = [] \<or> IsSlashPrecedeAsterisk (int (hd asteriskIndices)) firstSlashIndex
              in if asteriskIndices \<noteq> [] \<and> \<not> singleRepo
                 then let (triples, lastRepoAsteriskIndex) =
                            repo_asterisk_triples pattern recursive firstSlashIndex asteriskIndices [] 0
                      in if lastRepoAsteriskIndex < firstSlashIndex
                         then Inr (triples @ createPathFilePairs (take (nat firstSlashIndex) pattern)
                                     (drop (nat firstSlashIndex + 1) pattern) recursive, singleRepo)
                         else if firstSlashIndex < 0 \<and> \<not> has_suffix pattern ''*''
                         then Inr (triples @ createPathFilePairs pattern ''*'' recursive, singleRepo)
                         else Inr (triples, singleRepo)
                 else if firstSlashIndex < 0
                 then Inr (createPathFilePairs pattern ''*'' recursive, singleRepo)
                 else Inr (createPathFilePairs (take (nat firstSlashIndex) pattern)
                             (drop (nat firstSlashIndex + 1) pattern) recursive, singleRepo))"

section \<open>Wildcard matching\<close>

text \<open>The \<open>$match\<close> comparator of AQL: an asterisk matches any string.\<close>

fun glob :: "string \<Rightarrow> string \<Rightarrow> bool" where
  "glob [] s = (s = [])"
| "glob (c # p) [] = (c = CHR ''*'' \<and> glob p [])"
| "glob (c # p) (x # s) =
     (if c = CHR ''*'' then glob p (x # s) \<or> glob (c # p) s else c = x \<and> glob p s)"

lemma glob_star: "glob (CHR ''*'' # p) s \<longleftrightarrow> (\<exists>u v. s = u @ v \<and> glob p v)"
proof (induction s)
  case (Cons x s)
  show ?case
  proof
    assume "glob (CHR ''*'' # p) (x # s)"
    then show "\<exists>u v. x # s = u @ v \<and> glob p v" using Cons by simp (metis append_Cons append_Nil)
  next
    assume "\<exists>u v. x # s = u @ v \<and> glob p v"
    then show "glob (CHR ''*'' # p) (x # s)" using Cons by (auto simp: Cons_eq_append_conv)
  qed
qed auto

lemma glob_Cons_literal: "c \<noteq> CHR ''*'' \<Longrightarrow> glob (c # p) s \<longleftrightarrow> (\<exists>t. s = c # t \<and> glob p t)"
  by (cases s) auto

lemma glob_append: "glob (p @ q) s \<longleftrightarrow> (\<exists>u v. s = u @ v \<and> glob p u \<and> glob q v)"
proof (induction p arbitrary: s)
  case (Cons c p)
  show ?case
  proof (cases "c = CHR ''*''")
    case True
    have "glob ((c # p) @ q) s \<longleftrightarrow> (\<exists>u v w. s = u @ v @ w \<and> glob p v \<and> glob q w)"
      using Cons by (auto simp: True glob_star)
    also have "\<dots> \<longleftrightarrow> (\<exists>t w. s = t @ w \<and> glob (c # p) t \<and> glob q w)"
      unfolding True glob_star by (metis append_assoc)
    finally show ?thesis .
  next
    case False
    have "glob ((c # p) @ q) s \<longleftrightarrow> (\<exists>v w. s = c # v @ w \<and> glob p v \<and> glob q w)"
      using Cons False by (auto simp: glob_Cons_literal)
    also have "\<dots> \<longleftrightarrow> (\<exists>t w. s = t @ w \<and> glob (c # p) t \<and> glob q w)"
      unfolding glob_Cons_literal[OF False] by (metis append_Cons)
    finally show ?thesis .
  qed
qed auto

lemma glob_appendI: "glob p u \<Longrightarrow> glob q v \<Longrightarrow> glob (p @ q) (u @ v)"
  by (auto simp: glob_append)

lemma glob_single_star [simp]: "glob ''*'' s"
  by (auto simp: glob_star)

lemma glob_literal: "CHR ''*'' \<notin> set p \<Longrightarrow> glob p s \<longleftrightarrow> s = p"
  by (induction p s rule: glob.induct) auto

text \<open>A character that the pattern does not have is matched by one of its asterisks.\<close>

lemma glob_split_star:
  assumes "glob p (u @ c # v)" "c \<notin> set p"
  obtains a b where "p = a @ CHR ''*'' # b" "glob (a @ ''*'') u" "glob (CHR ''*'' # b) v"
proof -
  have "\<exists>a b. p = a @ CHR ''*'' # b \<and> glob (a @ ''*'') u \<and> glob (CHR ''*'' # b) v"
    using assms
  proof (induction p arbitrary: u)
    case (Cons d p)
    show ?case
    proof (cases "d = CHR ''*''")
      case True
      with Cons.prems(1) obtain x y where xy: "u @ c # v = x @ y" "glob p y" by (auto simp: glob_star)
      show ?thesis
      proof (cases "length x \<le> length u")
        case True
        then obtain w where w: "u = x @ w" "y = w @ c # v" using xy by (auto simp: append_eq_append_conv2)
        with Cons.IH[of w] xy Cons.prems obtain a b where
          ab: "p = a @ CHR ''*'' # b" "glob (a @ ''*'') w" "glob (CHR ''*'' # b) v" by auto
        then have "glob ((d # a) @ ''*'') u" using w \<open>d = CHR ''*''\<close> by (auto simp: glob_star)
        then show ?thesis using ab by (intro exI[of _ "d # a"] exI[of _ b]) simp
      next
        case False
        then obtain w where "v = w @ y" using xy by (auto simp: append_eq_append_conv2 Cons_eq_append_conv)
        then have "glob (d # p) v" using xy(2) \<open>d = CHR ''*''\<close> by (auto simp: glob_star)
        then show ?thesis using \<open>d = CHR ''*''\<close> by (intro exI[of _ "[]"] exI[of _ p]) simp
      qed
    next
      case False
      with Cons.prems obtain t where t: "u @ c # v = d # t" "glob p t" by (auto simp: glob_Cons_literal)
      with Cons.prems(2) obtain u' where u: "u = d # u'" by (cases u) auto
      with t Cons.IH[of u'] Cons.prems obtain a b where
        "p = a @ CHR ''*'' # b" "glob (a @ ''*'') u'" "glob (CHR ''*'' # b) v" by auto
      then show ?thesis using u False by (intro exI[of _ "d # a"] exI[of _ b]) simp
    qed
  qed simp
  then show thesis using that by blast
qed

section \<open>The triples of a name\<close>

lemma join_upto: "n \<le> length ws \<Longrightarrow>
  concat (map (\<lambda>j. (if j > 0 then ''*'' else []) @ ws ! j) [0..<n]) = str_join ''*'' (take n ws)"
proof (induction n)
  case (Suc n)
  then have "take (Suc n) ws = take n ws @ [ws ! n]" "take n ws = [] \<longleftrightarrow> n = 0"
    by (auto simp: take_Suc_conv_app_nth)
  then show ?case using Suc by (simp add: str_join_snoc)
qed simp

lemma map_upt_drop: "map (\<lambda>j. f (ws ! j)) [k..<length ws] = map f (drop k ws)"
  by (rule nth_equalityI) simp_all

lemma split_at_asterisk_eq:
  assumes "i + 1 < length ws"
  shows "split_at_asterisk ws i = str_join ''*'' (take (i + 1) ws) @ ''*/*'' @ str_join ''*'' (drop (i + 1) ws)"
proof -
  let ?f = "\<lambda>j. (if j > 0 then ''*'' else []) @ ws ! j"
  let ?g = "\<lambda>j. (if j > 0 then ''*'' else []) @ ws ! j @ (if j = i then ''*/'' else [])"
  have "[0..<length ws] = [0..<i] @ i # [i + 1..<length ws]"
    using assms upt_add_eq_append[of 0 i "length ws - i"] by (simp add: upt_conv_Cons)
  then have "split_at_asterisk ws i = concat (map ?g [0..<i]) @ ?g i @ concat (map ?g [i + 1..<length ws])"
    by (simp add: split_at_asterisk_def)
  moreover have "map ?g [0..<i] = map ?f [0..<i]" by simp
  moreover have "map ?g [i + 1..<length ws] = map (\<lambda>j. ''*'' @ ws ! j) [i + 1..<length ws]"
    by (rule map_cong) auto
  moreover have "concat (map (\<lambda>j. ''*'' @ ws ! j) [i + 1..<length ws]) = ''*'' @ str_join ''*'' (drop (i + 1) ws)"
    unfolding map_upt_drop using assms by (intro concat_sep_prefix) simp
  moreover have "concat (map ?f [0..<i]) @ ?g i = concat (map ?f [0..<i + 1]) @ ''*/''"
    by simp
  moreover have "concat (map ?f [0..<i + 1]) = str_join ''*'' (take (i + 1) ws)"
    using assms by (intro join_upto) simp
  ultimately show ?thesis by (simp only: append_assoc) (simp only: append_assoc[symmetric], simp)
qed

definition with_slash :: "string \<Rightarrow> string" where
  "with_slash path = (if path \<noteq> [] \<and> \<not> has_suffix path ''/'' then path @ ''/'' else path)"

lemma with_slash_idem [simp]: "with_slash (with_slash p) = with_slash p"
  by (simp add: with_slash_def)

definition star_triple :: "string \<Rightarrow> string \<Rightarrow> string \<Rightarrow> string \<Rightarrow> RepoPathFile" where
  "star_triple repo path a b = \<lparr>rpf_repo = repo, rpf_path = with_slash path @ a @ ''*'', rpf_file = ''*'' @ b\<rparr>"

lemma set_join: "set (str_join sep ws) \<subseteq> set sep \<union> \<Union> (set ` set ws)"
  by (induction ws rule: induct_list012) auto

lemma set_in_join: "w \<in> set ws \<Longrightarrow> set w \<subseteq> set (str_join sep ws)"
  by (induction ws rule: induct_list012) auto

lemma set_split_char: "w \<in> set (split_char c s) \<Longrightarrow> set w \<subseteq> set s"
  using set_in_join[of w "split_char c s" "[c]"] by simp

lemma name_triples_eq:
  assumes "\<forall>w\<in>set ws. CHR ''/'' \<notin> set w"
  shows "name_triples repo ws i path =
    map (\<lambda>k. star_triple repo path (str_join ''*'' (take (k + 1) ws)) (str_join ''*'' (drop (k + 1) ws))) [i..<length ws - 1]"
proof (induction "length ws - i" arbitrary: i path)
  case 0
  then show ?case by (simp add: name_triples.simps[of _ _ i])
next
  case (Suc n)
  show ?case
  proof (cases "i + 1 < length ws")
    case True
    let ?a = "str_join ''*'' (take (i + 1) ws)" and ?b = "str_join ''*'' (drop (i + 1) ws)"
    have "CHR ''/'' \<notin> set ?a" "CHR ''/'' \<notin> set ?b"
      using set_join[of "''*''" "take (i + 1) ws"] set_join[of "''*''" "drop (i + 1) ws"] assms
      by (auto dest!: in_set_takeD in_set_dropD subsetD)
    then have "split_char CHR ''/'' ((?a @ ''*'') @ CHR ''/'' # (''*'' @ ?b)) = [?a @ ''*'', ''*'' @ ?b]"
      unfolding split_char_append_sep by (simp add: split_char_single)
    then have "split_char CHR ''/'' (split_at_asterisk ws i) = [?a @ ''*'', ''*'' @ ?b]"
      by (simp add: split_at_asterisk_eq[OF True])
    moreover have "star_triple repo (with_slash path) a b = star_triple repo path a b" for a b
      by (simp add: star_triple_def)
    moreover have "[i..<length ws - 1] = i # [i + 1..<length ws - 1]"
      using True by (simp add: upt_conv_Cons)
    ultimately show ?thesis
      using True Suc.hyps(1)[of "i + 1" "with_slash path"] Suc.hyps(2)
      by (simp add: name_triples.simps[of _ _ i] with_slash_def[symmetric] star_triple_def Let_def)
  next
    case False
    then show ?thesis by (simp add: name_triples.simps[of _ _ i])
  qed
qed

lemma set_name_triples:
  assumes "CHR ''/'' \<notin> set name"
  shows "set (name_triples repo (split_char CHR ''*'' name) 0 path) =
    {star_triple repo path a b | a b. name = a @ CHR ''*'' # b}"
proof -
  let ?ws = "split_char CHR ''*'' name"
  have noslash: "\<forall>w\<in>set ?ws. CHR ''/'' \<notin> set w"
    using assms set_split_char by fastforce
  have 1: "name = str_join ''*'' (take (k + 1) ?ws) @ CHR ''*'' # str_join ''*'' (drop (k + 1) ?ws)"
    if "k + 1 < length ?ws" for k
  proof -
    have app: "us \<noteq> [] \<Longrightarrow> vs \<noteq> [] \<Longrightarrow> str_join ''*'' (us @ vs) = str_join ''*'' us @ ''*'' @ str_join ''*'' vs" for us vs
      by (induction us rule: induct_list012) (simp_all add: str_join_Cons)
    have "take (k + 1) ?ws \<noteq> []" "drop (k + 1) ?ws \<noteq> []" using that by auto
    from app[OF this] show ?thesis by simp
  qed
  have 2: "\<exists>k. k + 1 < length ?ws \<and> str_join ''*'' (take (k + 1) ?ws) = a \<and> str_join ''*'' (drop (k + 1) ?ws) = b"
    if "name = a @ CHR ''*'' # b" for a b
  proof (rule exI[of _ "length (split_char CHR ''*'' a) - 1"])
    have "length (split_char CHR ''*'' a) > 0" "length (split_char CHR ''*'' b) > 0" by simp_all
    then show "length (split_char CHR ''*'' a) - 1 + 1 < length ?ws \<and>
      str_join ''*'' (take (length (split_char CHR ''*'' a) - 1 + 1) ?ws) = a \<and>
      str_join ''*'' (drop (length (split_char CHR ''*'' a) - 1 + 1) ?ws) = b"
      by (simp add: that split_char_append_sep)
  qed
  show ?thesis
    unfolding name_triples_eq[OF noslash]
  proof (intro set_eqI iffI)
    fix t
    assume "t \<in> {star_triple repo path a b | a b. name = a @ CHR ''*'' # b}"
    then obtain a b where t: "t = star_triple repo path a b" "name = a @ CHR ''*'' # b" by blast
    from 2[OF t(2)] obtain k where "k + 1 < length ?ws"
      "str_join ''*'' (take (k + 1) ?ws) = a" "str_join ''*'' (drop (k + 1) ?ws) = b" by blast
    then show "t \<in> set (map (\<lambda>k. star_triple repo path (str_join ''*'' (take (k + 1) ?ws))
        (str_join ''*'' (drop (k + 1) ?ws))) [0..<length ?ws - 1])"
      unfolding t(1) set_map by (intro image_eqI[of _ _ k]) simp_all
  next
    fix t
    assume "t \<in> set (map (\<lambda>k. star_triple repo path (str_join ''*'' (take (k + 1) ?ws))
        (str_join ''*'' (drop (k + 1) ?ws))) [0..<length ?ws - 1])"
    then obtain k where "k \<in> set [0..<length ?ws - 1]"
      and t: "t = star_triple repo path (str_join ''*'' (take (k + 1) ?ws)) (str_join ''*'' (drop (k + 1) ?ws))"
      unfolding set_map by (rule imageE)
    then have "k + 1 < length ?ws" by (simp add: less_diff_conv)
    with 1 t show "t \<in> {star_triple repo path a b | a b. name = a @ CHR ''*'' # b}" by blast
  qed
qed

section \<open>Pairs against whole paths\<close>

text \<open>Artifactory stores an item as a repository, a path (a dot for the root) and a name; its
  whole path is \<open>repo/item_path\<close>.\<close>

definition item_path :: "string \<Rightarrow> string \<Rightarrow> string" where
  "item_path p n = (if p = ''.'' then n else p @ ''/'' @ n)"

definition triple_matches :: "RepoPathFile \<Rightarrow> string \<Rightarrow> string \<Rightarrow> string \<Rightarrow> bool" where
  "triple_matches t r p n \<longleftrightarrow> glob (rpf_repo t) r \<and> glob (rpf_path t) p \<and> glob (rpf_file t) n"

definition clean_pattern :: "string \<Rightarrow> bool" where
  "clean_pattern pat \<longleftrightarrow> \<not> has_prefix pat ''/'' \<and> \<not> str_contains pat ''//''"

lemma handle_no_slash:
  "CHR ''/'' \<notin> set pat \<Longrightarrow> handleNonRecursiveTriples repo pat True =
     ([], pat, if has_prefix pat ''*'' then [] else [\<lparr>rpf_repo = repo, rpf_path = ''.'', rpf_file = pat\<rparr>])"
  by (simp add: handleNonRecursiveTriples_def last_index_char_neg)

lemma handle_last_slash:
  "CHR ''/'' \<notin> set N \<Longrightarrow> handleNonRecursiveTriples repo (P @ CHR ''/'' # N) recursive =
     (P, N, [\<lparr>rpf_repo = repo, rpf_path = P, rpf_file = N\<rparr>])"
  by (simp add: handleNonRecursiveTriples_def last_index_char_last)

lemma handle_slash:
  assumes "CHR ''/'' \<in> set pat"
  obtains P N where "pat = P @ CHR ''/'' # N" "CHR ''/'' \<notin> set N"
    "\<And>recursive. handleNonRecursiveTriples repo pat recursive = (P, N, [\<lparr>rpf_repo = repo, rpf_path = P, rpf_file = N\<rparr>])"
proof -
  from assms obtain P N where "pat = P @ CHR ''/'' # N" "CHR ''/'' \<notin> set N" by (metis split_list_last)
  with handle_last_slash that show thesis by simp
qed

lemma clean_with_slash: "clean_pattern (P @ CHR ''/'' # N) \<Longrightarrow> with_slash P = P @ ''/''"
proof -
  assume c: "clean_pattern (P @ CHR ''/'' # N)"
  then have "P \<noteq> []" by (auto simp: clean_pattern_def)
  moreover have "\<not> has_suffix P ''/''"
  proof
    assume "has_suffix P ''/''"
    then obtain q where "P @ CHR ''/'' # N = q @ ''//'' @ N" by (auto simp: has_suffix_iff)
    with c show False by (auto simp: clean_pattern_def str_contains_iff)
  qed
  ultimately show ?thesis by (simp add: with_slash_def)
qed

lemma with_slash_Nil [simp]: "with_slash [] = []"
  by (simp add: with_slash_def)

lemma set_createPathFilePairs:
  "pat \<noteq> ''*'' \<Longrightarrow> CHR ''/'' \<notin> set pat \<Longrightarrow> set (createPathFilePairs repo pat True) =
     (if has_prefix pat ''*'' then {} else {\<lparr>rpf_repo = repo, rpf_path = ''.'', rpf_file = pat\<rparr>}) \<union>
     {star_triple repo [] a b | a b. pat = a @ CHR ''*'' # b}"
  by (auto simp: createPathFilePairs_def handle_no_slash set_name_triples)

lemma item_slash_cases:
  assumes "p @ CHR ''/'' # n = u @ CHR ''/'' # v" "CHR ''/'' \<notin> set n"
  obtains "u = p" "v = n" | w where "p = u @ CHR ''/'' # w" "v = w @ CHR ''/'' # n"
proof -
  from assms(1) obtain us where
    "p = u @ us \<and> us @ CHR ''/'' # n = CHR ''/'' # v \<or> p @ us = u \<and> CHR ''/'' # n = us @ CHR ''/'' # v"
    by (auto simp: append_eq_append_conv2)
  then show thesis using assms(2) that by (cases us) auto
qed

lemma createPathFilePairs_complete:
  assumes "glob repo r" "glob pat (item_path p n)" "CHR ''/'' \<notin> set n" "clean_pattern pat"
  shows "\<exists>t\<in>set (createPathFilePairs repo pat True). triple_matches t r p n"
proof -
  consider "pat = ''*''" | "pat \<noteq> ''*''" "CHR ''/'' \<notin> set pat" | "CHR ''/'' \<in> set pat" by blast
  then show ?thesis
  proof cases
    case 1
    then show ?thesis using assms(1) by (simp add: createPathFilePairs_def getDefaultPath_def triple_matches_def)
  next
    case 2
    show ?thesis
    proof (cases "p = ''.''")
      case True
      then have n: "glob pat n" using assms(2) by (simp add: item_path_def)
      show ?thesis
      proof (cases "has_prefix pat ''*''")
        case True
        then obtain b where b: "pat = [] @ CHR ''*'' # b" by (auto simp: has_prefix_iff)
        then have "star_triple repo [] [] b \<in> set (createPathFilePairs repo pat True)"
          using 2 by (auto simp: set_createPathFilePairs)
        moreover have "triple_matches (star_triple repo [] [] b) r p n"
          using assms(1) n b by (simp add: triple_matches_def star_triple_def)
        ultimately show ?thesis ..
      next
        case False
        then show ?thesis using 2 n assms(1) \<open>p = ''.''\<close> by (auto simp: set_createPathFilePairs triple_matches_def)
      qed
    next
      case False
      then have "glob pat (p @ CHR ''/'' # n)" using assms(2) by (simp add: item_path_def)
      then obtain a b where ab: "pat = a @ CHR ''*'' # b" "glob (a @ ''*'') p" "glob (CHR ''*'' # b) n"
        using 2 by (elim glob_split_star)
      then have "star_triple repo [] a b \<in> set (createPathFilePairs repo pat True)"
        unfolding set_createPathFilePairs[OF 2] by blast
      moreover have "triple_matches (star_triple repo [] a b) r p n"
        using assms(1) ab by (simp add: triple_matches_def star_triple_def)
      ultimately show ?thesis ..
    qed
  next
    case 3
    then obtain P N where pat: "pat = P @ CHR ''/'' # N" and N: "CHR ''/'' \<notin> set N" and
      h: "\<And>recursive. handleNonRecursiveTriples repo pat recursive = (P, N, [\<lparr>rpf_repo = repo, rpf_path = P, rpf_file = N\<rparr>])"
      by (elim handle_slash[of pat repo]) blast
    have pairs: "createPathFilePairs repo pat True = \<lparr>rpf_repo = repo, rpf_path = P, rpf_file = N\<rparr> #
        (if N = ''*'' then [\<lparr>rpf_repo = repo, rpf_path = P @ ''/*'', rpf_file = ''*''\<rparr>]
         else name_triples repo (split_char CHR ''*'' N) 0 P)"
    proof -
      have "pat \<noteq> ''*''" using 3 by auto
      then show ?thesis unfolding createPathFilePairs_def h by simp
    qed
    obtain u v where uv: "item_path p n = u @ CHR ''/'' # v" "glob P u" "glob N v"
      using assms(2) unfolding pat glob_append by (auto simp: glob_Cons_literal)
    have item: "item_path p n = p @ CHR ''/'' # n"
    proof (rule ccontr)
      assume "item_path p n \<noteq> p @ CHR ''/'' # n"
      then have "item_path p n = n" by (simp add: item_path_def split: if_splits)
      then have "n = u @ CHR ''/'' # v" using uv(1) by simp
      then have "CHR ''/'' \<in> set n" by (metis in_set_conv_decomp)
      then show False using assms(3) by simp
    qed
    from item_slash_cases[OF uv(1)[unfolded item] assms(3)] show ?thesis
    proof cases
      case 1
      then show ?thesis using uv assms(1) by (simp add: pairs triple_matches_def)
    next
      case (2 w)
      show ?thesis
      proof (cases "N = ''*''")
        case True
        have "glob (P @ CHR ''/'' # ''*'') (u @ CHR ''/'' # w)"
          using uv(2) by (intro glob_appendI) simp_all
        then show ?thesis using True 2 assms(1) by (simp add: pairs triple_matches_def)
      next
        case False
        obtain a b where ab: "N = a @ CHR ''*'' # b" "glob (a @ ''*'') w" "glob (CHR ''*'' # b) n"
          using uv(3) N 2 by (auto elim: glob_split_star)
        have "glob (P @ CHR ''/'' # (a @ ''*'')) (u @ CHR ''/'' # w)"
          using uv(2) ab(2) by (intro glob_appendI) simp_all
        then have "triple_matches (star_triple repo P a b) r p n"
          using assms(1,4) ab 2 pat clean_with_slash by (simp add: triple_matches_def star_triple_def)
        moreover have "star_triple repo P a b \<in> set (createPathFilePairs repo pat True)"
          unfolding pairs using False set_name_triples[OF N, of repo P] ab(1) by auto
        ultimately show ?thesis ..
      qed
    qed
  qed
qed

lemma createPathFilePairs_sound:
  assumes "t \<in> set (createPathFilePairs repo pat recursive)" "triple_matches t r p n" "p \<noteq> ''.''" "clean_pattern pat"
  shows "glob repo r \<and> glob pat (p @ ''/'' @ n)"
proof -
  have join: "glob (x @ a @ CHR ''*'' # b) (p @ ''/'' @ n)"
    if "glob (x @ a @ ''*'') p" "glob (CHR ''*'' # b) n" for x a b
  proof -
    from that obtain u w m q where "p = u @ w" "glob (x @ a) u" "n = m @ q" "glob b q"
      unfolding append_assoc[symmetric] glob_append[of "x @ a"] glob_star[of b] by blast
    moreover have "glob (CHR ''*'' # b) (w @ ''/'' @ m @ q)" if "glob b q" for w m q
      unfolding glob_star using that by (intro exI[of _ "w @ ''/'' @ m"] exI[of _ q]) simp
    ultimately show ?thesis
      using glob_appendI[of "x @ a" u "CHR ''*'' # b" "w @ ''/'' @ m @ q"] by simp
  qed
  consider "pat = ''*''" | "pat \<noteq> ''*''" "CHR ''/'' \<notin> set pat" | "CHR ''/'' \<in> set pat" by blast
  then show ?thesis
  proof cases
    case 1
    then show ?thesis using assms by (auto simp: createPathFilePairs_def triple_matches_def)
  next
    case 2
    have h: "handleNonRecursiveTriples repo pat recursive = ([], pat, if recursive \<and> has_prefix pat ''*'' then []
        else [\<lparr>rpf_repo = repo, rpf_path = ''.'', rpf_file = pat\<rparr>])"
      using 2 by (simp add: handleNonRecursiveTriples_def last_index_char_neg)
    have dot: "\<not> glob ''.'' p" using assms(3) glob_literal[of "''.''" p] by auto
    from assms(1) 2 consider "t = \<lparr>rpf_repo = repo, rpf_path = ''.'', rpf_file = pat\<rparr>"
      | a b where "t = star_triple repo [] a b" "pat = a @ CHR ''*'' # b"
      by (auto simp: createPathFilePairs_def h set_name_triples split: if_splits)
    then show ?thesis
    proof cases
      case 1
      then show ?thesis using assms(2) dot by (simp add: triple_matches_def)
    next
      case (2 a b)
      then show ?thesis using assms(2) join[of "[]" a b] by (simp add: triple_matches_def star_triple_def)
    qed
  next
    case 3
    then obtain P N where pat: "pat = P @ CHR ''/'' # N" and N: "CHR ''/'' \<notin> set N" and
      h: "\<And>recursive. handleNonRecursiveTriples repo pat recursive = (P, N, [\<lparr>rpf_repo = repo, rpf_path = P, rpf_file = N\<rparr>])"
      by (elim handle_slash[of pat repo]) blast
    have "pat \<noteq> ''*''" using 3 by auto
    with assms(1) consider "t = \<lparr>rpf_repo = repo, rpf_path = P, rpf_file = N\<rparr>"
      | "N = ''*''" "t = \<lparr>rpf_repo = repo, rpf_path = P @ ''/*'', rpf_file = ''*''\<rparr>"
      | a b where "t = star_triple repo P a b" "N = a @ CHR ''*'' # b"
      using set_name_triples[OF N, of repo P]
      by (auto simp: createPathFilePairs_def h split: if_splits)
    then show ?thesis
    proof cases
      case 1
      then have "glob repo r" "glob P p" "glob (''/'' @ N) (''/'' @ n)" using assms(2) by (simp_all add: triple_matches_def)
      then show ?thesis unfolding pat by (simp add: glob_appendI)
    next
      case 2
      then have "glob repo r" "glob (P @ ''/*'') p" using assms(2) by (simp_all add: triple_matches_def)
      then show ?thesis unfolding pat 2 using join[of "P @ ''/''" "[]" "[]"] by simp
    next
      case (3 a b)
      then have "glob repo r" "glob ((P @ ''/'') @ a @ ''*'') p" "glob (CHR ''*'' # b) n"
        using assms(2) clean_with_slash[of P N] assms(4) pat by (simp_all add: triple_matches_def star_triple_def)
      then show ?thesis unfolding pat 3 using join[of "P @ ''/''" a b] by simp
    qed
  qed
qed

section \<open>Repositories with asterisks\<close>

lemma IsSlashPrecedeAsterisk_iff: "IsSlashPrecedeAsterisk a s \<longleftrightarrow> 0 \<le> s \<and> s < a"
  by (auto simp: IsSlashPrecedeAsterisk_def)

lemma repo_asterisk_triples_eq:
  "repo_asterisk_triples pat recursive k is ts l =
     (let js = takeWhile (\<lambda>i. \<not> IsSlashPrecedeAsterisk (int i) k) is
      in (ts @ concat (map (\<lambda>i. createPathFilePairs (take (i + 1) pat) (pattern_from_asterisk pat i) recursive) js),
          if js = [] then l else int (last js) + 1))"
  by (induction "is" arbitrary: ts l) (auto simp: Let_def)

lemma takeWhile_upt: "takeWhile (\<lambda>i. i \<le> m) (filter P [0..<n]) = filter P [0..<min (Suc m) n]"
proof (induction n)
  case (Suc n)
  show ?case
  proof (cases "n \<le> m")
    case True
    then have "takeWhile (\<lambda>i. i \<le> m) (filter P [0..<Suc n]) = filter P [0..<Suc n]"
      by (intro takeWhile_eq_all_conv[THEN iffD2]) auto
    then show ?thesis using True by simp
  next
    case False
    then have "min (Suc m) n = Suc m" "min (Suc m) (Suc n) = Suc m" by auto
    moreover have "takeWhile (\<lambda>i. i \<le> m) (xs @ [n]) = takeWhile (\<lambda>i. i \<le> m) xs" for xs
      using False by (induction xs) auto
    ultimately show ?thesis using Suc by simp
  qed
qed simp

lemma asterisks_before_slash:
  "set (takeWhile (\<lambda>i. \<not> IsSlashPrecedeAsterisk (int i) k) (asterisk_indices pat)) =
     {i. i < length pat \<and> pat ! i = CHR ''*'' \<and> (0 \<le> k \<longrightarrow> int i \<le> k)}"
proof (cases "0 \<le> k")
  case True
  then have "(\<lambda>i. \<not> IsSlashPrecedeAsterisk (int i) k) = (\<lambda>i. i \<le> nat k)"
    by (auto simp: IsSlashPrecedeAsterisk_iff fun_eq_iff)
  then show ?thesis using True by (auto simp: asterisk_indices_def takeWhile_upt)
next
  case False
  then have all: "(\<lambda>i. \<not> IsSlashPrecedeAsterisk (int i) k) = (\<lambda>i. True)"
    by (auto simp: IsSlashPrecedeAsterisk_iff fun_eq_iff)
  have tw: "takeWhile (\<lambda>i. True) xs = xs" for xs :: "nat list" by (induction xs) simp_all
  show ?thesis unfolding all tw using False by (auto simp: asterisk_indices_def)
qed

lemma pattern_from_asterisk_glob:
  assumes "pat = a @ CHR ''*'' # b" "glob (CHR ''*'' # b) s"
  shows "glob (pattern_from_asterisk pat (length a)) s"
proof -
  have "glob (CHR ''*'' # c) s" if "b = CHR ''/'' # c" for c
    using assms(2) that by (auto simp: glob_star glob_Cons_literal) (metis append_Cons append_Nil append_assoc)
  moreover have "glob c s" if "b = CHR ''/'' # c" "has_prefix c ''*''" for c
    using assms(2) that by (auto simp: glob_star glob_Cons_literal has_prefix_iff) (metis append_Cons append_Nil append_assoc)
  ultimately show ?thesis
    using assms by (cases b) (auto simp: pattern_from_asterisk_def trim_prefix_def Let_def)
qed

lemma clean_pattern_from_asterisk:
  assumes "clean_pattern (a @ CHR ''*'' # b)"
  shows "clean_pattern (pattern_from_asterisk (a @ CHR ''*'' # b) (length a))"
proof -
  have no: "\<not> str_contains (CHR ''*'' # b) ''//''"
    using assms by (auto simp: clean_pattern_def str_contains_iff) (metis append_assoc append_Cons)
  then have "\<not> str_contains c ''//''" if "b = CHR ''/'' # c" for c
    using that by (auto simp: str_contains_iff) (metis append_Cons)
  moreover have "\<not> str_contains (CHR ''*'' # c) ''//''" if "\<not> str_contains c ''//''" for c
    using that by (auto simp: str_contains_def)
  moreover have "\<not> has_prefix s ''/''" if "has_prefix s ''*''" for s
    using that by (cases s) auto
  ultimately show ?thesis
    using no by (cases b) (auto simp: clean_pattern_def pattern_from_asterisk_def trim_prefix_def Let_def)
qed

section \<open>Properties\<close>

lemma str_index_slash:
  "str_index pat ''/'' = (if CHR ''/'' \<in> set pat then int (length (takeWhile (\<lambda>x. x \<noteq> CHR ''/'') pat)) else - 1)"
  by (simp add: str_index_def find_sub_single)

lemma first_slash_split:
  assumes "CHR ''/'' \<in> set pat"
  obtains R S where "pat = R @ CHR ''/'' # S" "CHR ''/'' \<notin> set R" "str_index pat ''/'' = int (length R)"
proof -
  from assms obtain R S where RS: "pat = R @ CHR ''/'' # S" "CHR ''/'' \<notin> set R" by (metis split_list_first)
  then have "takeWhile (\<lambda>x. x \<noteq> CHR ''/'') pat = R" by (subst RS(1), subst takeWhile_append2) auto
  with RS that show thesis by (simp add: str_index_slash)
qed

lemma clean_pattern_rest: "clean_pattern (R @ CHR ''/'' # S) \<Longrightarrow> clean_pattern S"
proof -
  assume c: "clean_pattern (R @ CHR ''/'' # S)"
  have "\<not> has_prefix S ''/''"
  proof
    assume "has_prefix S ''/''"
    then obtain q where "R @ CHR ''/'' # S = R @ ''//'' @ q" by (auto simp: has_prefix_iff)
    with c show False by (auto simp: clean_pattern_def str_contains_iff)
  qed
  moreover have "\<not> str_contains S ''//''"
  proof
    assume "str_contains S ''//''"
    then obtain x y where "S = x @ ''//'' @ y" by (auto simp: str_contains_iff)
    then have "R @ CHR ''/'' # S = (R @ CHR ''/'' # x) @ ''//'' @ y" by simp
    with c show False unfolding clean_pattern_def str_contains_iff by blast
  qed
  ultimately show ?thesis by (simp add: clean_pattern_def)
qed

text \<open>The triples of an asterisk before the first slash.\<close>

lemma asterisk_triples_complete:
  assumes "pat = a @ CHR ''*'' # b" "glob (a @ ''*'') r" "glob (CHR ''*'' # b) (item_path p n)"
    "CHR ''/'' \<notin> set n" "clean_pattern pat" "0 \<le> k \<longrightarrow> int (length a) \<le> k"
  shows "\<exists>t\<in>set (fst (repo_asterisk_triples pat True k (asterisk_indices pat) [] 0)). triple_matches t r p n"
proof -
  have "length a \<in> set (takeWhile (\<lambda>i. \<not> IsSlashPrecedeAsterisk (int i) k) (asterisk_indices pat))"
    unfolding asterisks_before_slash using assms by simp
  moreover have "\<exists>t\<in>set (createPathFilePairs (take (length a + 1) pat) (pattern_from_asterisk pat (length a)) True).
      triple_matches t r p n"
    using assms by (intro createPathFilePairs_complete)
      (auto intro: pattern_from_asterisk_glob clean_pattern_from_asterisk)
  ultimately show ?thesis unfolding repo_asterisk_triples_eq Let_def by auto
qed

text \<open>When an asterisk stands just before the first slash there are no triples of the repository
  up to that slash; those of the asterisk cover them.\<close>

lemma asterisk_slash_complete:
  assumes "pat = a @ ''*/'' @ S" "glob (a @ ''*'') r" "glob S (item_path p n)"
    "CHR ''/'' \<notin> set n" "clean_pattern pat"
  shows "\<exists>t\<in>set (createPathFilePairs (take (length a + 1) pat) (pattern_from_asterisk pat (length a)) True).
      triple_matches t r p n"
proof (cases "count_list S CHR ''/'' = 0 \<and> count_list S CHR ''*'' = 0")
  case False
  then have "pattern_from_asterisk pat (length a) = (if has_prefix S ''*'' then S else CHR ''*'' # S)"
    by (auto simp: assms(1) pattern_from_asterisk_def trim_prefix_def)
  moreover have "glob (CHR ''*'' # S) (item_path p n)" using assms(3) by (auto simp: glob_star)
  ultimately show ?thesis
    using assms clean_pattern_from_asterisk[of a "CHR ''/'' # S"] by (intro createPathFilePairs_complete) auto
next
  case True
  then have S: "CHR ''/'' \<notin> set S" "CHR ''*'' \<notin> set S" by (auto simp: count_list_0_iff)
  then have item: "item_path p n = S" using assms(3) glob_literal by simp
  have p: "p = ''.''" "n = S"
    using item S(1) by (auto simp: item_path_def split: if_splits)
  have P: "pattern_from_asterisk pat (length a) = ''*/'' @ S"
    using True by (simp add: assms(1) pattern_from_asterisk_def)
  have "\<lparr>rpf_repo = a @ ''*'', rpf_path = ''*'', rpf_file = S\<rparr> \<in> set (createPathFilePairs (a @ ''*'') (''*'' @ CHR ''/'' # S) True)"
    unfolding createPathFilePairs_def handle_last_slash[OF S(1)] by simp
  moreover have "triple_matches \<lparr>rpf_repo = a @ ''*'', rpf_path = ''*'', rpf_file = S\<rparr> r p n"
    using assms(2) p S(2) by (simp add: triple_matches_def glob_literal)
  ultimately show ?thesis unfolding P using assms(1) by auto
qed

lemma asterisk_indices_Nil: "asterisk_indices pat = [] \<longleftrightarrow> CHR ''*'' \<notin> set pat"
  by (auto simp: asterisk_indices_def filter_empty_conv in_set_conv_nth)

lemma prefix_before_slash: "r @ CHR ''/'' # x = u @ CHR ''/'' # y \<Longrightarrow> CHR ''/'' \<notin> set r \<Longrightarrow> \<exists>w. u = r @ w"
proof -
  assume eq: "r @ CHR ''/'' # x = u @ CHR ''/'' # y" and r: "CHR ''/'' \<notin> set r"
  from eq obtain us where "r = u @ us \<and> us @ CHR ''/'' # x = CHR ''/'' # y \<or> r @ us = u"
    by (auto simp: append_eq_append_conv2)
  then show ?thesis using r by (cases us) auto
qed

lemma first_slash_unique:
  "r @ CHR ''/'' # x = u @ CHR ''/'' # y \<Longrightarrow> CHR ''/'' \<notin> set r \<Longrightarrow> CHR ''/'' \<notin> set u \<Longrightarrow> r = u \<and> x = y"
proof (induction r arbitrary: u)
  case Nil
  then show ?case by (cases u) auto
next
  case (Cons c r)
  then show ?case by (cases u) auto
qed

text \<open>The asterisk case: some asterisk stands before the first slash (or there is no slash).\<close>

lemma repo_asterisk_complete:
  assumes "pat = R @ S" "CHR ''/'' \<notin> set R" "S = [] \<or> (\<exists>rest. S = CHR ''/'' # rest)"
    "k = (if S = [] then - 1 else int (length R))"
    "glob pat (r @ CHR ''/'' # item_path p n)" "CHR ''/'' \<notin> set r" "CHR ''/'' \<notin> set n" "clean_pattern pat"
  defines "res \<equiv> repo_asterisk_triples pat True k (asterisk_indices pat) [] 0"
  shows "(\<exists>t\<in>set (fst res). triple_matches t r p n) \<or>
    (S \<noteq> [] \<and> snd res < k \<and> (\<exists>t\<in>set (createPathFilePairs R (drop 1 S) True). triple_matches t r p n))"
proof -
  have star: "\<exists>t\<in>set (fst res). triple_matches t r p n"
    if "R = a @ CHR ''*'' # b" "glob (a @ ''*'') r" "glob (CHR ''*'' # b @ S) (item_path p n)" for a b
    unfolding res_def using that assms by (intro asterisk_triples_complete[of pat a "b @ S"]) auto
  obtain u v where uv: "r @ CHR ''/'' # item_path p n = u @ v" "glob R u" "glob S v"
    using assms(5) unfolding assms(1) glob_append by blast
  show ?thesis
  proof (cases "S = []")
    case True
    then have "glob R (r @ CHR ''/'' # item_path p n)" using uv by simp
    then obtain a b where "R = a @ CHR ''*'' # b" "glob (a @ ''*'') r" "glob (CHR ''*'' # b) (item_path p n)"
      using assms(2) by (elim glob_split_star)
    with star True show ?thesis by simp
  next
    case False
    then obtain rest where S: "S = CHR ''/'' # rest" using assms(3) by blast
    then obtain v' where v': "v = CHR ''/'' # v'" "glob rest v'" using uv(3) by (auto simp: glob_Cons_literal)
    have "\<exists>w. u = r @ w"
      using uv(1) v'(1) assms(6) by (auto intro: prefix_before_slash)
    then consider "u = r" "v' = item_path p n" | w where "u = r @ CHR ''/'' # w" "item_path p n = w @ v"
      using uv(1) v'(1) by (auto simp: Cons_eq_append_conv)
    then show ?thesis
    proof cases
      case (2 w)
      then obtain a b where ab: "R = a @ CHR ''*'' # b" "glob (a @ ''*'') r" "glob (CHR ''*'' # b) w"
        using uv(2) assms(2) by (auto elim: glob_split_star)
      have "glob ((CHR ''*'' # b) @ S) (w @ v)" using ab(3) uv(3) by (rule glob_appendI)
      with star ab 2 show ?thesis by simp
    next
      case 1
      show ?thesis
      proof (cases "snd res < k")
        case True
        have "\<exists>t\<in>set (createPathFilePairs R rest True). triple_matches t r p n"
          using uv(2) v'(2) 1 assms(1,7,8) S clean_pattern_rest[of R rest]
          by (intro createPathFilePairs_complete) simp_all
        with True S show ?thesis by simp
      next
        case False
        let ?js = "takeWhile (\<lambda>i. \<not> IsSlashPrecedeAsterisk (int i) k) (asterisk_indices pat)"
        have k: "k = int (length R)" using assms(4) S by simp
        have snd: "snd res = (if ?js = [] then 0 else int (last ?js) + 1)"
          unfolding res_def repo_asterisk_triples_eq Let_def by simp
        have R: "R \<noteq> []" using assms(1,8) S by (auto simp: clean_pattern_def)
        then have ne: "?js \<noteq> []" using False snd k by auto
        then have last: "last ?js < length pat" "pat ! last ?js = CHR ''*''" "int (last ?js) \<le> k"
          using last_in_set[OF ne] unfolding asterisks_before_slash by (auto simp: k)
        then have "last ?js \<noteq> length R" using assms(1) S by auto
        then have len: "length R = last ?js + 1" using last(3) k False snd ne by auto
        have "R ! last ?js = CHR ''*''" using last(2) len assms(1) by (simp add: nth_append)
        then have "R = take (last ?js) R @ ''*''" using len take_Suc_conv_app_nth[of "last ?js" R] by simp
        then obtain a where a: "R = a @ ''*''" "length a = last ?js"
          using len that[of "take (last ?js) R"] by simp
        have "\<exists>t\<in>set (createPathFilePairs (take (length a + 1) pat) (pattern_from_asterisk pat (length a)) True).
            triple_matches t r p n"
          using uv(2) v'(2) 1 assms(1,7,8) S a by (intro asterisk_slash_complete[of pat a rest]) simp_all
        then show ?thesis
          using last_in_set[OF ne] unfolding res_def repo_asterisk_triples_eq Let_def a(2) by auto
      qed
    qed
  qed
qed

text \<open>C8: the triples of a recursive pattern cover it: every item whose whole path matches the
  pattern is matched by one of the triples.\<close>

theorem createRepoPathFileTriples_complete:
  assumes "createRepoPathFileTriples pat True = Inr (triples, singleRepo)" "clean_pattern pat"
    "glob pat (r @ ''/'' @ item_path p n)" "CHR ''/'' \<notin> set r" "CHR ''/'' \<notin> set n"
  shows "\<exists>t\<in>set triples. triple_matches t r p n"
proof -
  let ?k = "str_index pat ''/''"
  have g: "glob pat (r @ CHR ''/'' # item_path p n)" using assms(3) by simp
  obtain R S where RS: "pat = R @ S" "CHR ''/'' \<notin> set R" "S = [] \<or> (\<exists>rest. S = CHR ''/'' # rest)"
    "?k = (if S = [] then - 1 else int (length R))"
  proof (cases "CHR ''/'' \<in> set pat")
    case True
    then show thesis using that first_slash_split[OF True] by (metis list.distinct(1))
  next
    case False
    then show thesis using that[of pat "[]"] by (simp add: str_index_slash)
  qed
  let ?tl = "repo_asterisk_triples pat True ?k (asterisk_indices pat) [] 0"
  note complete = repo_asterisk_complete[OF RS g assms(4,5,2)]
  show ?thesis
  proof (cases "asterisk_indices pat \<noteq> [] \<and> \<not> IsSlashPrecedeAsterisk (int (hd (asterisk_indices pat))) ?k")
    case True
    from True assms(1) have "set (fst ?tl) \<subseteq> set triples \<and>
        (S \<noteq> [] \<and> snd ?tl < ?k \<longrightarrow> set (createPathFilePairs R (drop 1 S) True) \<subseteq> set triples)"
      using RS by (auto simp: createRepoPathFileTriples_def Let_def split: if_splits prod.splits)
    with complete show ?thesis by blast
  next
    case False
    have nostar: "CHR ''*'' \<notin> set R"
    proof
      assume "CHR ''*'' \<in> set R"
      then obtain i where i: "i < length R" "R ! i = CHR ''*''" by (auto simp: in_set_conv_nth)
      then have "i \<in> set (asterisk_indices pat)" using RS(1) by (simp add: asterisk_indices_def nth_append)
      then have "i \<in> set (takeWhile (\<lambda>i. \<not> IsSlashPrecedeAsterisk (int i) ?k) (asterisk_indices pat))"
        unfolding asterisks_before_slash using i RS by (auto simp: nth_append)
      then show False using False by (cases "asterisk_indices pat") auto
    qed
    obtain u v where uv: "r @ CHR ''/'' # item_path p n = u @ v" "glob R u" "glob S v"
      using g unfolding RS(1) glob_append by blast
    then have u: "u = R" using nostar glob_literal by blast
    have "S \<noteq> []"
    proof
      assume "S = []"
      then have "R = r @ CHR ''/'' # item_path p n" using uv u by simp
      then show False using RS(2) by simp
    qed
    then obtain rest where S: "S = CHR ''/'' # rest" using RS(3) by blast
    then obtain v' where "v = CHR ''/'' # v'" "glob rest v'" using uv(3) by (auto simp: glob_Cons_literal)
    moreover from this have "r = R" "item_path p n = v'"
      using uv(1) u first_slash_unique[OF _ assms(4) RS(2)] by simp_all
    ultimately have "\<exists>t\<in>set (createPathFilePairs R rest True). triple_matches t r p n"
      using uv(2) u assms(2,5) RS(1) S clean_pattern_rest[of R rest]
      by (intro createPathFilePairs_complete) simp_all
    moreover have "triples = createPathFilePairs R rest True"
      using assms(1) False RS S by (auto simp: createRepoPathFileTriples_def Let_def split: if_splits)
    ultimately show ?thesis by simp
  qed
qed

theorem createRepoPathFileTriples_complete_witness:
  "\<exists>triples singleRepo. createRepoPathFileTriples ''r*/a*b'' True = Inr (triples, singleRepo) \<and>
     (\<exists>t\<in>set triples. triple_matches t ''r1'' ''a/x'' ''cb'')"
proof -
  have "\<exists>triples singleRepo. createRepoPathFileTriples ''r*/a*b'' True = Inr (triples, singleRepo)"
    by (cases "createRepoPathFileTriples ''r*/a*b'' True")
      (auto simp: createRepoPathFileTriples_def str_index_slash Let_def split: if_splits prod.splits)
  then obtain triples singleRepo where run: "createRepoPathFileTriples ''r*/a*b'' True = Inr (triples, singleRepo)" by blast
  have "\<exists>t\<in>set triples. triple_matches t ''r1'' ''a/x'' ''cb''"
    by (rule createRepoPathFileTriples_complete[OF run]) (simp_all add: clean_pattern_def str_contains_def item_path_def)
  with run show ?thesis by blast
qed

text \<open>For one repository and a path pattern, an item below the root that a triple matches has
  a whole path that matches, recursively or not.\<close>

theorem createPathFilePairs_matches:
  assumes "t \<in> set (createPathFilePairs repo pat recursive)" "triple_matches t r p n" "p \<noteq> ''.''" "clean_pattern pat"
  shows "glob (repo @ ''/'' @ pat) (r @ ''/'' @ item_path p n)"
proof -
  have "glob repo r" "glob pat (item_path p n)"
    using createPathFilePairs_sound[OF assms] assms(3) by (simp_all add: item_path_def)
  then show ?thesis by (intro glob_appendI) simp_all
qed

theorem createPathFilePairs_matches_witness:
  "glob (''r'' @ ''/'' @ ''a/*.go'') (''r'' @ ''/'' @ item_path ''a/b'' ''x.go'')"
proof (rule createPathFilePairs_matches)
  show "star_triple ''r'' ''a'' [] ''.go'' \<in> set (createPathFilePairs ''r'' ''a/*.go'' True)"
    using handle_last_slash[of "''*.go''" "''r''" "''a''" True] set_name_triples[of "''*.go''" "''r''" "''a''"]
    by (auto simp: createPathFilePairs_def)
  show "triple_matches (star_triple ''r'' ''a'' [] ''.go'') ''r'' ''a/b'' ''x.go''"
    by (simp add: triple_matches_def star_triple_def with_slash_def has_suffix_single)
qed (simp_all add: clean_pattern_def str_contains_def)

text \<open>In the root of the repository the path of an item is a dot, which a pattern with an
  asterisk before a dot matches: the pattern \<open>*.*\<close> also selects root items without a dot.\<close>

theorem createPathFilePairs_root_dot:
  "\<exists>t\<in>set (createPathFilePairs ''repo'' ''*.*'' True). triple_matches t ''repo'' ''.'' ''README'' \<and>
     \<not> glob ''*.*'' (item_path ''.'' ''README'')"
proof (rule bexI[of _ "star_triple ''repo'' [] ''*.'' []"])
  show "star_triple ''repo'' [] ''*.'' [] \<in> set (createPathFilePairs ''repo'' ''*.*'' True)"
    by (simp add: set_createPathFilePairs) (rule exI[of _ "''*.''"], rule exI[of _ "[]"], simp)
qed (simp add: triple_matches_def star_triple_def item_path_def)

end
