(* ===== verification/ArtUtils.thy ===== *)
theory ArtUtils
  imports Props
begin

text \<open>
  The self-contained helpers of \<^verbatim>\<open>artifactory/services/utils/artifactoryutils.go\<close>: build and bundle
  identifiers, request headers and path predicates.
\<close>

section \<open>Names and versions\<close>

text \<open>The loop from the last part down; it stops at a part whose predecessor does not end with the
  escape character. \<open>versionsArray\<close> collects the parts passed.\<close>

fun version_loop :: "string list \<Rightarrow> nat \<Rightarrow> string list \<Rightarrow> string \<times> string" where
  "version_loop identifiers i versionsArray =
     (if i < 1 then ([], [])
      else let versionsArray = identifiers ! i # versionsArray
           in if \<not> has_suffix (identifiers ! (i - 1)) [backslash]
              then (str_join ''/'' (take i identifiers), str_join ''/'' versionsArray)
              else version_loop identifiers (i - 1) versionsArray)"

declare version_loop.simps [simp del]

definition ParseNameAndVersion :: "string \<Rightarrow> bool \<Rightarrow> (string \<times> string) result" where
  "ParseNameAndVersion identifier useLatestPolicy =
     (if identifier = [] then Inr ([], [])
      else if \<not> str_contains identifier ''/''
      then if useLatestPolicy then Inr (identifier, ''LATEST'')
           else Inl (Err (''No '' @ [CHR 0x27] @ ''/'' @ [CHR 0x27] @ '' is found in '' @ [CHR 0x27] @ identifier @ [CHR 0x27]))
      else let identifiers = split_char CHR ''/'' identifier;
               (name, version) = version_loop identifiers (length identifiers - 1) [];
               unescape = replace_all [backslash, CHR ''/''] ''/''
           in if name = []
              then if useLatestPolicy then Inr (unescape identifier, unescape ''LATEST'')
                   else Inl (Err (''No delimiter char (/) without escaping char was found in '' @ [CHR 0x27] @ identifier @ [CHR 0x27]))
              else Inr (unescape name, unescape version))"

definition getBuildNameAndNumberFromProps_step :: "Property \<Rightarrow> string \<times> string \<Rightarrow> string \<times> string" where
  "getBuildNameAndNumberFromProps_step property s =
     (if Key property = ''build.name'' then (Value property, snd s)
      else if Key property = ''build.number'' then (fst s, Value property) else s)"

fun build_props_loop :: "Property list \<Rightarrow> string \<times> string \<Rightarrow> string \<times> string" where
  "build_props_loop [] s = s"
| "build_props_loop (property # properties) s =
     (let (buildName, buildNumber) = getBuildNameAndNumberFromProps_step property s
      in if length buildName > 0 \<and> length buildNumber > 0 then (buildName, buildNumber)
         else build_props_loop properties (buildName, buildNumber))"

definition getBuildNameAndNumberFromProps :: "Property list \<Rightarrow> string \<times> string" where
  "getBuildNameAndNumberFromProps properties = build_props_loop properties ([], [])"

section \<open>Headers\<close>

text \<open>A Go map that may be nil.\<close>

type_synonym headers = "(string \<rightharpoonup> string) option"

definition AddHeader :: "string \<Rightarrow> string \<Rightarrow> headers \<Rightarrow> headers" where
  "AddHeader headerName headerValue headers =
     Some ((case headers of None \<Rightarrow> Map.empty | Some h \<Rightarrow> h)(headerName \<mapsto> headerValue))"

definition SetContentType :: "string \<Rightarrow> headers \<Rightarrow> headers" where
  "SetContentType contentType headers = AddHeader ''Content-Type'' contentType headers"

definition DisableAccelBuffering :: "headers \<Rightarrow> headers" where
  "DisableAccelBuffering headers = AddHeader ''X-Accel-Buffering'' ''no'' headers"

record Checksum =
  Md5 :: string
  Sha1 :: string
  Sha256 :: string

record FileDetails =
  fd_Checksum :: Checksum
  Size :: int

text \<open>The map is passed by value: when the caller's map is nil the headers go to a fresh map that the
  caller never sees; a map that is not nil is updated in place.\<close>

definition AddChecksumHeaders :: "headers \<Rightarrow> FileDetails \<Rightarrow> headers" where
  "AddChecksumHeaders headers fileDetails =
     (let c = fd_Checksum fileDetails;
          h = AddHeader ''X-Checksum-Md5'' (Md5 c) (AddHeader ''X-Checksum-Sha1'' (Sha1 c) headers);
          h = (if length (Sha256 c) > 0 then AddHeader ''X-Checksum'' (Sha256 c) h else h)
      in if headers = None then None else h)"

definition AddAuthHeaders :: "headers \<Rightarrow> headers \<Rightarrow> headers" where
  "AddAuthHeaders headers sshAuthHeaders =
     (case (headers, sshAuthHeaders) of (Some h, Some a) \<Rightarrow> Some (h ++ a) | _ \<Rightarrow> headers)"

section \<open>Paths and patterns\<close>

definition IsWildcardPattern :: "string \<Rightarrow> bool" where
  "IsWildcardPattern pattern \<longleftrightarrow> str_contains pattern ''*'' \<or> has_suffix pattern ''/'' \<or> \<not> str_contains pattern ''/''"

definition GetProjectQueryParam :: "string \<Rightarrow> string" where
  "GetProjectQueryParam projectKey = (if projectKey = [] then [] else ''?project='' @ projectKey)"

fun sub_path_loop :: "string list \<Rightarrow> nat \<Rightarrow> string \<Rightarrow> bool" where
  "sub_path_loop paths 0 currentPath = False"
| "sub_path_loop paths (Suc i) currentPath = (has_prefix (paths ! i) currentPath \<or> sub_path_loop paths i currentPath)"

definition IsSubPath :: "string list \<Rightarrow> nat \<Rightarrow> string \<Rightarrow> bool result" where
  "IsSubPath paths index separator =
     and_then (slice_get paths (int index)) (\<lambda>currentPath.
       let currentPath = (if \<not> has_suffix currentPath separator then currentPath @ separator else currentPath)
       in Inr (sub_path_loop paths index currentPath))"

fun HasPrefix :: "string list \<Rightarrow> string \<Rightarrow> bool" where
  "HasPrefix [] prefix' = False"
| "HasPrefix (p # paths) prefix' = (if has_prefix p prefix' then True else HasPrefix paths prefix')"

section \<open>Lemmas\<close>

lemma sub_path_loop_iff: "sub_path_loop paths i p \<longleftrightarrow> (\<exists>j<i. has_prefix (paths ! j) p)"
  by (induction i) (auto simp: less_Suc_eq)

lemma unescape_escape: "replace_all [backslash, CHR ''/''] ''/'' (escape CHR ''/'' w) = w"
proof (induction w)
  case (Cons x w)
  have "\<not> has_prefix (escape CHR ''/'' w) ''/''" by (cases w) (auto simp: escape_def)
  then show ?case using Cons by (cases "escape CHR ''/'' w") (auto simp: escape_def)
qed (simp add: escape_def)

text \<open>The parts of an escaped string: all but the last end with a backslash.\<close>

lemma split_escape:
  "split_char c (escape c w) = map (\<lambda>p. p @ [backslash]) (butlast (split_char c w)) @ [last (split_char c w)]"
  if "c \<noteq> backslash"
proof (induction w)
  case (Cons x w)
  obtain h t where "split_char c w = h # t" by (cases "split_char c w") auto
  then show ?case using Cons that by (cases t) (auto simp: escape_def)
qed (simp add: escape_def)

lemma last_split_suffix:
  "has_suffix (last (split_char c w)) [d] \<Longrightarrow> c \<noteq> d \<Longrightarrow> has_suffix w [d]"
proof (induction w)
  case (Cons x w)
  obtain h t where "split_char c w = h # t" by (cases "split_char c w") auto
  moreover have "split_char c w = [[]] \<Longrightarrow> w = []" by (metis join_split_char str_join.simps(2))
  ultimately show ?case using Cons by (cases "w = []"; cases t) (auto simp: has_suffix_single split: if_splits)
qed simp

lemma version_loop_found:
  assumes "\<not> has_suffix (last ns) [backslash]" "ns \<noteq> []" "\<forall>v\<in>set (butlast vs). has_suffix v [backslash]"
    "i < length vs" 
  shows "version_loop (ns @ vs) (length ns + i) (drop (Suc i) vs) = (str_join ''/'' ns, str_join ''/'' vs)"
  using assms(4)
proof (induction i)
  case 0
  then show ?case using assms(1,2)
    by (simp add: version_loop.simps nth_append last_conv_nth Cons_nth_drop_Suc)
next
  case (Suc i)
  have "vs ! i \<in> set (butlast vs)" using Suc.prems by (metis Suc_lessD length_butlast less_diff_conv nth_butlast nth_mem Suc_eq_plus1)
  then have "has_suffix (vs ! i) [backslash]" using assms(3) by blast
  moreover have "drop (Suc i) vs = vs ! Suc i # drop (Suc (Suc i)) vs"
    using Suc.prems by (simp add: Cons_nth_drop_Suc)
  ultimately show ?case
    using Suc by (simp add: version_loop.simps[of _ "Suc (length ns + i)"] nth_append)
qed

text \<open>An identifier made of a name and a version with escaped slashes is parsed back.\<close>

theorem ParseNameAndVersion_roundtrip:
  assumes "name \<noteq> []" "\<not> has_suffix name [backslash]"
  shows "ParseNameAndVersion (escape CHR ''/'' name @ ''/'' @ escape CHR ''/'' version) latest = Inr (name, version)"
proof -
  let ?ns = "split_char CHR ''/'' (escape CHR ''/'' name)" and ?vs = "split_char CHR ''/'' (escape CHR ''/'' version)"
  have slash: "CHR ''/'' \<noteq> backslash" by simp
  have ids: "split_char CHR ''/'' (escape CHR ''/'' name @ CHR ''/'' # escape CHR ''/'' version) = ?ns @ ?vs"
    by (rule split_char_append_sep)
  have "last ?ns = last (split_char CHR ''/'' name)" unfolding split_escape[OF slash] by simp
  then have last: "\<not> has_suffix (last ?ns) [backslash]"
    using last_split_suffix[of "CHR ''/''" name backslash] assms(2) by auto
  have "butlast ?vs = map (\<lambda>p. p @ [backslash]) (butlast (split_char CHR ''/'' version))"
    unfolding split_escape[OF slash] by simp
  then have vs: "\<forall>v\<in>set (butlast ?vs). has_suffix v [backslash]" by auto
  have pos: "length ?vs > 0" by simp
  then have "version_loop (?ns @ ?vs) (length ?ns + (length ?vs - 1)) (drop (Suc (length ?vs - 1)) ?vs) =
      (str_join ''/'' ?ns, str_join ''/'' ?vs)"
    by (intro version_loop_found[OF last _ vs]) simp_all
  then have "version_loop (?ns @ ?vs) (length (?ns @ ?vs) - 1) [] = (escape CHR ''/'' name, escape CHR ''/'' version)"
    using pos by simp
  then show ?thesis
    using assms(1) ids by (simp add: ParseNameAndVersion_def unescape_escape)
qed

theorem ParseNameAndVersion_roundtrip_witness:
  "ParseNameAndVersion (escape CHR ''/'' ''a/b'' @ ''/'' @ escape CHR ''/'' ''1/2'') True = Inr (''a/b'', ''1/2'')"
  by (rule ParseNameAndVersion_roundtrip) (simp_all add: has_suffix_single)

end
