(* ===== verification/Specs.thy ===== *)
theory Specs
  imports Props Utils
begin

text \<open>
  \<^verbatim>\<open>artifactory/services/utils/specutils.go\<close>: the parameters every file operation shares. The
  getters of the Go struct are the selectors of the record, so only the operations that compute or
  change something have a definition of their own.
\<close>

datatype SpecType = WILDCARD | AQL | BUILD

record Aql =
  ItemsFind :: string

record CommonParams =
  cp_Aql :: Aql
  Pattern :: string
  Exclusions :: "string list"
  Target :: string
  cp_Props :: string
  TargetProps :: "properties option"
  ExcludeProps :: string
  SortOrder :: string
  SortBy :: "string list"
  Offset :: int
  Limit :: int
  cp_Build :: string
  Project :: string
  ExcludeArtifacts :: bool
  IncludeDeps :: bool
  Bundle :: string
  Recursive :: bool
  IncludeDirs :: bool
  Regexp :: bool
  cp_Ant :: bool
  ArchiveEntries :: string
  Transitive :: bool
  Include :: "string list"

text \<open>The zero value of the Go struct.\<close>

definition zero_params :: CommonParams where
  "zero_params = \<lparr>cp_Aql = \<lparr>ItemsFind = []\<rparr>, Pattern = [], Exclusions = [], Target = [], cp_Props = [],
     TargetProps = None, ExcludeProps = [], SortOrder = [], SortBy = [], Offset = 0, Limit = 0,
     cp_Build = [], Project = [], ExcludeArtifacts = False, IncludeDeps = False, Bundle = [],
     Recursive = False, IncludeDirs = False, Regexp = False, cp_Ant = False, ArchiveEntries = [],
     Transitive = False, Include = []\<rparr>"

definition SetArchiveEntries :: "string \<Rightarrow> CommonParams \<Rightarrow> CommonParams" where
  "SetArchiveEntries archiveEntries params = params\<lparr>ArchiveEntries := archiveEntries\<rparr>"

definition SetPattern :: "string \<Rightarrow> CommonParams \<Rightarrow> CommonParams" where
  "SetPattern pattern params = params\<lparr>Pattern := pattern\<rparr>"

definition SetTarget :: "string \<Rightarrow> CommonParams \<Rightarrow> CommonParams" where
  "SetTarget target params = params\<lparr>Target := target\<rparr>"

definition SetProps :: "string \<Rightarrow> CommonParams \<Rightarrow> CommonParams" where
  "SetProps props params = params\<lparr>cp_Props := props\<rparr>"

definition SetTargetProps :: "properties option \<Rightarrow> CommonParams \<Rightarrow> CommonParams" where
  "SetTargetProps targetProps params = params\<lparr>TargetProps := targetProps\<rparr>"

definition SetExcludeProps :: "string \<Rightarrow> CommonParams \<Rightarrow> CommonParams" where
  "SetExcludeProps excludeProps params = params\<lparr>ExcludeProps := excludeProps\<rparr>"

definition IsExplode :: "CommonParams \<Rightarrow> bool" where
  "IsExplode params = Recursive params"

definition cp_GetPatternType :: "CommonParams \<Rightarrow> PatternType" where
  "cp_GetPatternType params = GetPatternType \<lparr>pt_RegExp = Regexp params, pt_Ant = cp_Ant params\<rparr>"

definition GetSpecType :: "CommonParams \<Rightarrow> SpecType" where
  "GetSpecType params =
     (if cp_Build params \<noteq> [] \<and> ItemsFind (cp_Aql params) = [] \<and> (Pattern params = ''*'' \<or> Pattern params = [])
      then BUILD
      else if ItemsFind (cp_Aql params) \<noteq> [] then AQL
      else WILDCARD)"

text \<open>\<open>str[low:high]\<close>: Go panics unless \<open>0 \<le> low \<le> high \<le> len(str)\<close>.\<close>

definition slice_range :: "string \<Rightarrow> int \<Rightarrow> int \<Rightarrow> string result" where
  "slice_range s low high =
     (if 0 \<le> low \<and> low \<le> high \<and> high \<le> int (length s) then Inr (take (nat high - nat low) (drop (nat low) s))
      else Inl (Panic ''slice bounds out of range''))"

definition UnmarshalJSON :: "string \<Rightarrow> Aql result" where
  "UnmarshalJSON value =
     (let first = str_index (drop (nat (str_index value ''{'' + 1)) value) ''{'';
          last = last_index_char value CHR ''}''
      in and_then (slice_range value (first + 1) last) (\<lambda>items. Inr \<lparr>ItemsFind = items\<rparr>))"

lemma str_index_first: "c \<notin> set a \<Longrightarrow> str_index (a @ c # b) [c] = int (length a)"
proof -
  assume "c \<notin> set a"
  then have "takeWhile (\<lambda>x. x \<noteq> c) (a @ c # b) = a" by (subst takeWhile_append2) auto
  then show ?thesis by (simp add: str_index_def find_sub_single)
qed

text \<open>Reading an AQL object keeps the query between its inner brace and its last brace, with
  both braces of the query; a value that is not an object (\<open>null\<close>, a string) makes it panic.\<close>

theorem UnmarshalJSON_object:
  assumes "CHR ''{'' \<notin> set key" "CHR ''}'' \<notin> set ws"
  shows "UnmarshalJSON (''{'' @ key @ ''{'' @ query @ ''}'' @ ws @ ''}'') = Inr \<lparr>ItemsFind = ''{'' @ query @ ''}'' @ ws\<rparr> \<and>
    (CHR ''}'' \<notin> set other \<longrightarrow> (\<exists>msg. UnmarshalJSON other = Inl (Panic msg)))"
proof
  let ?v = "''{'' @ key @ ''{'' @ query @ ''}'' @ ws @ ''}''"
  have "str_index ?v ''{'' = 0" using str_index_first[of "CHR ''{''" "[]"] by simp
  moreover have "str_index (key @ CHR ''{'' # query @ ''}'' @ ws @ ''}'') ''{'' = int (length key)"
    using assms(1) by (rule str_index_first)
  moreover have "last_index_char ?v CHR ''}'' = int (length (''{'' @ key @ ''{'' @ query @ ''}'' @ ws))"
    using last_index_char_last[of "CHR ''}''" "[]" "''{'' @ key @ ''{'' @ query @ ''}'' @ ws"] by simp
  ultimately show "UnmarshalJSON ?v = Inr \<lparr>ItemsFind = ''{'' @ query @ ''}'' @ ws\<rparr>"
    unfolding UnmarshalJSON_def Let_def by (simp add: slice_range_def nat_add_distrib)
  have "last_index_char other CHR ''}'' = - 1" if "CHR ''}'' \<notin> set other"
    using that by (simp add: last_index_char_def)
  then show "CHR ''}'' \<notin> set other \<longrightarrow> (\<exists>msg. UnmarshalJSON other = Inl (Panic msg))"
    by (simp add: UnmarshalJSON_def slice_range_def str_index_def Let_def split: option.split)
qed

theorem UnmarshalJSON_object_witness:
  "UnmarshalJSON (''{'' @ ''items.find:'' @ ''{'' @ ''repo:r'' @ ''}'' @ [] @ ''}'') = Inr \<lparr>ItemsFind = ''{'' @ ''repo:r'' @ ''}'' @ []\<rparr> \<and>
   (\<exists>msg. UnmarshalJSON ''null'' = Inl (Panic msg))"
  using UnmarshalJSON_object[of "''items.find:''" "[]" "''repo:r''" "''null''"] by simp

end
