(* ===== verification/Aql.thy ===== *)
theory Aql
  imports RepoPath ArtUtils Specs
begin

text \<open>
  \<^verbatim>\<open>artifactory/services/utils/aqlquerybuilder.go\<close>: the text of AQL queries. The theory
  \<open>AqlDocument\<close> relates the text to the JSON document it is meant to be. The only outside input is \<open>iteration\<close>, the order
  in which Go happens to iterate over a map of properties.
\<close>

section \<open>Query parts\<close>

datatype RequiredArtifactProps = ALL | SYMLINK | NONE

record Build =
  BuildName :: string
  BuildNumber :: string

definition quoted :: "string \<Rightarrow> string" where
  "quoted s = [CHR 0x22] @ s @ [CHR 0x22]"

definition getAqlValue :: "string \<Rightarrow> string" where
  "getAqlValue val = (if str_contains val ''*'' then ''{'' @ quoted ''$match'' @ '':'' @ quoted val @ ''}'' else quoted val)"

definition addWildcardIfNeeded :: "string \<Rightarrow> bool \<Rightarrow> string" where
  "addWildcardIfNeeded pattern repositoryExists =
     (if has_suffix pattern ''/'' \<or> (pattern = [] \<and> repositoryExists) then pattern @ ''*'' else pattern)"

definition prepareSearchPattern :: "string \<Rightarrow> bool \<Rightarrow> string" where
  "prepareSearchPattern pattern repositoryExists =
     replace_all '')'' [] (replace_all ''('' [] (addWildcardIfNeeded pattern repositoryExists))"

definition prepareSourceSearchPattern :: "string \<Rightarrow> string \<Rightarrow> string result" where
  "prepareSourceSearchPattern pattern target = RemovePlaceholderParentheses (addWildcardIfNeeded pattern True) target"

definition buildKeyValQueryPart :: "string \<Rightarrow> string list \<Rightarrow> string" where
  "buildKeyValQueryPart key propValues =
     quoted ''$or'' @ '':['' @ str_join '','' (map (\<lambda>v. ''{'' @ quoted (''@'' @ key) @ '':'' @ getAqlValue v @ ''}'') propValues) @ '']''"

definition buildKeyAllValQueryPart :: "string \<Rightarrow> string list \<Rightarrow> string" where
  "buildKeyAllValQueryPart key propValues =
     quoted ''$and'' @ '':['' @ str_join '','' (map (\<lambda>v. ''{'' @ quoted (''@'' @ key) @ '':'' @ getAqlValue v @ ''}'') propValues) @ '']''"

definition buildExcludedKeyValQueryPart :: "string \<Rightarrow> string \<Rightarrow> string" where
  "buildExcludedKeyValQueryPart key v =
     quoted (''@'' @ key) @ '':{'' @ quoted ''$ne'' @ '':'' @ getAqlValue v @ ''}''"

definition buildPropsQueryPart :: "(properties \<Rightarrow> properties) \<Rightarrow> string \<Rightarrow> string \<Rightarrow> string result" where
  "buildPropsQueryPart iteration props excludeProps =
     (case ParseProperties props of
        (Some e, _) \<Rightarrow> Inl e
      | (None, properties) \<Rightarrow>
          let propsQuery = foldl (\<lambda>q (key, vs). q @ buildKeyAllValQueryPart key vs @ '','') [] (iteration (ToMap properties))
          in case ParseProperties excludeProps of
               (Some e, _) \<Rightarrow> Inl e
             | (None, excludeProperties) \<Rightarrow>
                 let excludePropsQuery =
                       (if KeysLen excludeProperties > 0
                        then let q = foldl (\<lambda>q (key, vs).
                                       foldl (\<lambda>q v. q @ ''{'' @ buildExcludedKeyValQueryPart key v @ ''},'') q vs)
                                     (quoted ''$or'' @ '':['') (iteration (ToMap excludeProperties))
                             in trim_suffix q '','' @ ''],''
                        else [])
                 in Inr (propsQuery @ excludePropsQuery))"

definition buildItemTypeQueryPart :: "CommonParams \<Rightarrow> string" where
  "buildItemTypeQueryPart params = (if IncludeDirs params then quoted ''type'' @ '':'' @ quoted ''any'' @ '','' else [])"

definition buildNePathPart :: "bool \<Rightarrow> string" where
  "buildNePathPart includeRoot =
     (if \<not> includeRoot then quoted ''path'' @ '':{'' @ quoted ''$ne'' @ '':'' @ quoted ''.'' @ ''},'' else [])"

definition buildInnerQueryPart :: "RepoPathFile \<Rightarrow> string" where
  "buildInnerQueryPart triple =
     ''{'' @ quoted ''$and'' @ '':[{'' @
     quoted ''repo'' @ '':'' @ getAqlValue (rpf_repo triple) @ '','' @
     quoted ''path'' @ '':'' @ getAqlValue (rpf_path triple) @ '','' @
     quoted ''name'' @ '':'' @ getAqlValue (rpf_file triple) @ ''}]}''"

definition buildInnerArchiveQueryPart :: "RepoPathFile \<Rightarrow> string \<Rightarrow> string \<Rightarrow> string" where
  "buildInnerArchiveQueryPart triple archivePath archiveName =
     ''{'' @ quoted ''$and'' @ '':[{'' @
     quoted ''repo'' @ '':'' @ getAqlValue (rpf_repo triple) @ '','' @
     quoted ''path'' @ '':'' @ getAqlValue (rpf_path triple) @ '','' @
     quoted ''name'' @ '':'' @ getAqlValue (rpf_file triple) @ '','' @
     quoted ''archive.entry.path'' @ '':'' @ getAqlValue archivePath @ '','' @
     quoted ''archive.entry.name'' @ '':'' @ getAqlValue archiveName @ ''}]}''"

text \<open>The loops that write a comma after every part but the last.\<close>

fun comma_loop :: "('a \<Rightarrow> string) \<Rightarrow> 'a list \<Rightarrow> string \<Rightarrow> string" where
  "comma_loop part [] query = query"
| "comma_loop part (x # xs) query =
     comma_loop part xs (query @ part x @ (if xs \<noteq> [] then '','' else []))"

definition handleArchiveSearch :: "RepoPathFile \<Rightarrow> RepoPathFile list \<Rightarrow> string" where
  "handleArchiveSearch triple archivePathFilePairs =
     comma_loop (\<lambda>a. buildInnerArchiveQueryPart triple (rpf_path a) (rpf_file a)) archivePathFilePairs []"

definition handleRepoPathFileTriples :: "RepoPathFile list \<Rightarrow> RepoPathFile list \<Rightarrow> string" where
  "handleRepoPathFileTriples pathFilePairs archivePathFilePairs =
     comma_loop (\<lambda>t. if length archivePathFilePairs > 0 then handleArchiveSearch t archivePathFilePairs
                     else buildInnerQueryPart t) pathFilePairs []"

definition createArchiveSearchParams :: "CommonParams \<Rightarrow> RepoPathFile list" where
  "createArchiveSearchParams params =
     (if ArchiveEntries params \<noteq> []
      then createPathFilePairs [] (prepareSearchPattern (ArchiveEntries params) False) True else [])"

fun exclude_triples :: "string list \<Rightarrow> bool \<Rightarrow> RepoPathFile list result" where
  "exclude_triples [] recursive = Inr []"
| "exclude_triples (e # es) recursive =
     and_then (createRepoPathFileTriples (prepareSearchPattern e True) recursive) (\<lambda>(ts, _).
     and_then (exclude_triples es recursive) (\<lambda>rest. Inr (ts @ rest)))"

definition exclude_part :: "bool \<Rightarrow> RepoPathFile \<Rightarrow> string" where
  "exclude_part useLocalPath t =
     (let excludePath = (if \<not> useLocalPath \<and> rpf_path t = ''.'' then ''*'' else rpf_path t);
          excludeRepoStr = (if rpf_repo t \<noteq> [] \<and> rpf_repo t \<noteq> ''*''
                            then quoted ''repo'' @ '':{'' @ quoted ''$nmatch'' @ '':'' @ quoted (rpf_repo t) @ ''},'' else [])
      in quoted ''$or'' @ '':[{'' @ excludeRepoStr @
         quoted ''path'' @ '':{'' @ quoted ''$nmatch'' @ '':'' @ quoted excludePath @ ''},'' @
         quoted ''name'' @ '':{'' @ quoted ''$nmatch'' @ '':'' @ quoted (rpf_file t) @ ''}}],'')"

definition buildExcludeQueryPart :: "CommonParams \<Rightarrow> bool \<Rightarrow> bool \<Rightarrow> string result" where
  "buildExcludeQueryPart params useLocalPath recursive =
     and_then (exclude_triples (Exclusions params) recursive) (\<lambda>excludeTriples.
       Inr (foldl (\<lambda>q t. q @ exclude_part useLocalPath t) [] excludeTriples))"

definition buildReleaseBundleQuery :: "CommonParams \<Rightarrow> string result" where
  "buildReleaseBundleQuery params =
     and_then (ParseNameAndVersion (Bundle params) False) (\<lambda>(bundleName, bundleVersion).
       if bundleName = [] then Inr []
       else Inr (quoted ''$and'' @ '':[{'' @
              quoted ''release_artifact.release.name'' @ '':'' @ getAqlValue bundleName @ '','' @
              quoted ''release_artifact.release.version'' @ '':'' @ getAqlValue bundleVersion @ ''}],''))"

definition CreateAqlBodyForSpecWithPattern :: "(properties \<Rightarrow> properties) \<Rightarrow> CommonParams \<Rightarrow> string result" where
  "CreateAqlBodyForSpecWithPattern iteration params =
     and_then (prepareSourceSearchPattern (Pattern params) (Target params)) (\<lambda>searchPattern.
     and_then (createRepoPathFileTriples searchPattern (Recursive params)) (\<lambda>(repoPathFileTriples, singleRepo).
     if Transitive params \<and> \<not> singleRepo
     then Inl (Err ''When searching or downloading with the transitive setting, the pattern must include a single repository only, meaning wildcards are allowed only after the first slash.'')
     else let includeRoot = count_list searchPattern CHR ''/'' < 2;
              triplesSize = length repoPathFileTriples
     in and_then (buildPropsQueryPart iteration (cp_Props params) (ExcludeProps params)) (\<lambda>propsQueryPart.
        let itemTypeQuery = buildItemTypeQueryPart params;
            nePath = buildNePathPart (triplesSize = 0 \<or> includeRoot)
        in and_then (buildExcludeQueryPart params (triplesSize = 0 \<or> Recursive params) (Recursive params)) (\<lambda>excludeQuery.
           and_then (buildReleaseBundleQuery params) (\<lambda>releaseBundle.
             Inr (''{'' @ propsQueryPart @ itemTypeQuery @ nePath @ excludeQuery @ releaseBundle @
                  quoted ''$or'' @ '':['' @
                  handleRepoPathFileTriples repoPathFileTriples (createArchiveSearchParams params) @ '']}''))))))"

section \<open>Queries\<close>

definition prepareFieldsForQuery :: "string list \<Rightarrow> string list" where
  "prepareFieldsForQuery flds = map quoted flds"

definition buildIncludeQueryPart :: "string list \<Rightarrow> string" where
  "buildIncludeQueryPart fieldsToInclude = ''.include('' @ str_join '','' (prepareFieldsForQuery fieldsToInclude) @ '')''"

definition buildSortQueryPart :: "string list \<Rightarrow> string \<Rightarrow> string" where
  "buildSortQueryPart sortFields sortOrder =
     (let sortOrder = (if sortOrder = [] then ''asc'' else sortOrder)
      in quoted (''$'' @ sortOrder) @ '':['' @ str_join '','' (prepareFieldsForQuery sortFields) @ '']'')"

definition includePropertiesInAqlForSpec :: "CommonParams \<Rightarrow> bool" where
  "includePropertiesInAqlForSpec specFile \<longleftrightarrow> \<not> (length (SortBy specFile) > 0 \<or> Limit specFile > 0)"

fun appendMissingFields :: "string list \<Rightarrow> string list \<Rightarrow> string list" where
  "appendMissingFields [] defaultFields = defaultFields"
| "appendMissingFields (field # flds) defaultFields =
     appendMissingFields flds (if field \<notin> set defaultFields then defaultFields @ [field] else defaultFields)"

definition getQueryReturnFieldsWithInclude :: "string list \<Rightarrow> string list" where
  "getQueryReturnFieldsWithInclude includedQuery =
     foldl (\<lambda>returnFields q. if q \<in> set returnFields then returnFields else returnFields @ [q])
       [''name'', ''repo'', ''path''] includedQuery"

definition getQueryReturnFields :: "CommonParams \<Rightarrow> RequiredArtifactProps \<Rightarrow> string list" where
  "getQueryReturnFields specFile requiredArtifactProps =
     (let returnFields =
            (if length (Include specFile) > 0 then getQueryReturnFieldsWithInclude (Include specFile)
             else [''name'', ''repo'', ''path'', ''actual_md5'', ''actual_sha1'', ''sha256'', ''size'', ''type'', ''modified'', ''created''])
      in if \<not> includePropertiesInAqlForSpec specFile then appendMissingFields (SortBy specFile) returnFields
         else if requiredArtifactProps \<noteq> NONE then returnFields @ [''property'']
         else returnFields)"

definition appendSortQueryPart :: "CommonParams \<Rightarrow> string \<Rightarrow> string" where
  "appendSortQueryPart specFile query =
     (if length (SortBy specFile) > 0
      then query @ ''.sort({'' @ buildSortQueryPart (SortBy specFile) (SortOrder specFile) @ ''})'' else query)"

definition appendOffsetQueryPart :: "CommonParams \<Rightarrow> string \<Rightarrow> string" where
  "appendOffsetQueryPart specFile query =
     (if Offset specFile > 0 then query @ ''.offset('' @ itoa (Offset specFile) @ '')'' else query)"

definition appendTransitiveQueryPart :: "CommonParams \<Rightarrow> string \<Rightarrow> string" where
  "appendTransitiveQueryPart specFile query = (if Transitive specFile then query @ ''.transitive()'' else query)"

definition appendLimitQueryPart :: "CommonParams \<Rightarrow> string \<Rightarrow> string" where
  "appendLimitQueryPart specFile query =
     (if Limit specFile > 0 then query @ ''.limit('' @ itoa (Limit specFile) @ '')'' else query)"

definition BuildQueryFromSpecFile :: "CommonParams \<Rightarrow> RequiredArtifactProps \<Rightarrow> string" where
  "BuildQueryFromSpecFile specFile requiredArtifactProps =
     (let query = ''items.find('' @ ItemsFind (cp_Aql specFile) @ '')'' @
                    buildIncludeQueryPart (getQueryReturnFields specFile requiredArtifactProps);
          query = appendSortQueryPart specFile query;
          query = appendOffsetQueryPart specFile query;
          query = appendTransitiveQueryPart specFile query
      in appendLimitQueryPart specFile query)"

definition createAqlBodyForBuildArtifacts :: "Build list \<Rightarrow> string" where
  "createAqlBodyForBuildArtifacts builds =
     ''{'' @ quoted ''$or'' @ '':['' @
     str_join '','' (map (\<lambda>b. ''{'' @ quoted ''$and'' @ '':[{'' @ quoted ''artifact.module.build.name'' @ '':'' @ quoted (BuildName b) @
        '','' @ quoted ''artifact.module.build.number'' @ '':'' @ quoted (BuildNumber b) @ ''}]}'') builds) @ '']}''"

definition createAqlBodyForBuildDependencies :: "Build list \<Rightarrow> string" where
  "createAqlBodyForBuildDependencies builds =
     ''{'' @ quoted ''$or'' @ '':['' @
     str_join '','' (map (\<lambda>b. ''{'' @ quoted ''$and'' @ '':[{'' @ quoted ''dependency.module.build.name'' @ '':'' @ quoted (BuildName b) @
        '','' @ quoted ''dependency.module.build.number'' @ '':'' @ quoted (BuildNumber b) @ ''}]}'') builds) @ '']}''"

definition createAqlQueryForBuild :: "string \<Rightarrow> bool \<Rightarrow> Build list \<Rightarrow> string" where
  "createAqlQueryForBuild includeQueryPart artifactsQuery builds =
     ''items.find('' @ (if artifactsQuery then createAqlBodyForBuildArtifacts builds
                        else createAqlBodyForBuildDependencies builds) @ '')'' @ includeQueryPart"

definition CreateAqlQueryForYarn :: "string \<Rightarrow> string \<Rightarrow> string" where
  "CreateAqlQueryForYarn npmName npmVersion =
     ''items.find({'' @ quoted ''@npm.name'' @ '':'' @ quoted npmName @ '','' @ quoted ''$or'' @ '': ['' @
     ''{'' @ quoted ''@npm.version'' @ '':'' @ quoted npmVersion @ ''},'' @
     ''{'' @ quoted ''@npm.version'' @ '':'' @ quoted (''v'' @ npmVersion) @ ''}'' @ '']'' @ ''})'' @
     buildIncludeQueryPart [''name'', ''repo'', ''path'', ''actual_sha1'', ''actual_md5'', ''sha256'']"

definition CreateAqlQueryForPypi :: "string \<Rightarrow> string \<Rightarrow> string" where
  "CreateAqlQueryForPypi repo file =
     ''items.find({'' @ quoted ''repo'' @ '': '' @ quoted repo @ '','' @ quoted ''$or'' @ '': [{'' @
     quoted ''$and'' @ '':[{'' @ quoted ''path'' @ '': {'' @ quoted ''$match'' @ '': '' @ quoted ''*'' @ ''},'' @
     quoted ''name'' @ '': {'' @ quoted ''$match'' @ '': '' @ quoted file @ ''}'' @ ''}]'' @ ''}]'' @ ''})'' @
     buildIncludeQueryPart [''name'', ''repo'', ''path'', ''actual_md5'', ''actual_sha1'', ''sha256'']"

definition CreateAqlQueryForLatestCreated :: "string \<Rightarrow> string \<Rightarrow> string" where
  "CreateAqlQueryForLatestCreated repo path =
     ''items.find({'' @ quoted ''repo'' @ '': '' @ quoted repo @ '','' @
     quoted ''path'' @ '': {'' @ quoted ''$match'' @ '': '' @ quoted path @ ''}'' @ ''})'' @
     ''.sort({'' @ buildSortQueryPart [''created''] ''desc'' @ ''})'' @ ''.limit(1)''"

definition createPropsQuery :: "string \<Rightarrow> string \<Rightarrow> string list \<Rightarrow> string" where
  "createPropsQuery aqlBody propKey propValues =
     ''items.find({'' @ quoted ''$and'' @ '':['' @ aqlBody @ '',{'' @ buildKeyValQueryPart propKey propValues @ ''}]'' @ ''})'' @
     buildIncludeQueryPart [''name'', ''repo'', ''path'', ''actual_sha1'', ''property'']"

section \<open>Values with quotes\<close>

text \<open>Values are written without escaping, so one value with quotes gives the text of two
  conditions: the query of a property with such a value is the query of another list of values.\<close>

theorem buildKeyAllValQueryPart_injection:
  assumes "CHR ''*'' \<notin> set (k @ a @ b)"
  shows "buildKeyAllValQueryPart k [a @ [CHR 0x22] @ ''},{'' @ quoted (''@'' @ k) @ '':'' @ [CHR 0x22] @ b] =
         buildKeyAllValQueryPart k [a, b]"
  using assms by (simp add: buildKeyAllValQueryPart_def getAqlValue_def quoted_def)

theorem buildKeyAllValQueryPart_injection_witness:
  "buildKeyAllValQueryPart ''k'' [''a'' @ [CHR 0x22] @ ''},{'' @ quoted (''@'' @ ''k'') @ '':'' @ [CHR 0x22] @ ''b''] =
   buildKeyAllValQueryPart ''k'' [''a'', ''b'']"
  by (rule buildKeyAllValQueryPart_injection) simp

section \<open>Returned fields\<close>

lemma appendMissingFields_eq: "appendMissingFields fs ds = ds @ filter (\<lambda>f. f \<notin> set ds) (firsts fs)"
proof (induction fs ds rule: appendMissingFields.induct)
  case (2 f fs ds)
  have "filter (\<lambda>g. g \<notin> set (ds @ [f])) (firsts fs) = filter (\<lambda>g. g \<notin> set ds) (filter (\<lambda>y. y \<noteq> f) (firsts fs))"
    by (auto simp: filter_filter intro: filter_cong)
  moreover have "filter (\<lambda>g. g \<notin> set ds) (filter (\<lambda>y. y \<noteq> f) (firsts fs)) = filter (\<lambda>g. g \<notin> set ds) (firsts fs)"
    if "f \<in> set ds" using that by (auto simp: filter_filter intro: filter_cong)
  ultimately show ?case using 2 by auto
qed simp

lemma with_include_eq: "getQueryReturnFieldsWithInclude qs = appendMissingFields qs [''name'', ''repo'', ''path'']"
proof -
  have "foldl (\<lambda>r q. if q \<in> set r then r else r @ [q]) ds qs = appendMissingFields qs ds" for ds
    by (induction qs arbitrary: ds) auto
  then show ?thesis by (simp add: getQueryReturnFieldsWithInclude_def)
qed

text \<open>The returned fields have name, repo and path first; with an include list they have all of it
  and nothing else but the sort fields and \<open>property\<close>; every sort field is returned; \<open>property\<close> is never
  added to a sorted or limited query; and no field is returned twice, unless \<open>property\<close> was in the include list.\<close>

theorem getQueryReturnFields_correct:
  "take 3 (getQueryReturnFields params req) = [''name'', ''repo'', ''path''] \<and>
   set (SortBy params) \<subseteq> set (getQueryReturnFields params req) \<and>
   (Include params = [] \<or>
      set (getQueryReturnFields params req) =
        {''name'', ''repo'', ''path''} \<union> set (Include params) \<union> set (SortBy params) \<union>
        (if includePropertiesInAqlForSpec params \<and> req \<noteq> NONE then {''property''} else {})) \<and>
   (''property'' \<in> set (Include params) \<or> distinct (getQueryReturnFields params req))"
proof -
  let ?base = "if length (Include params) > 0 then getQueryReturnFieldsWithInclude (Include params)
      else [''name'', ''repo'', ''path'', ''actual_md5'', ''actual_sha1'', ''sha256'', ''size'', ''type'', ''modified'', ''created'']"
  have base: "\<exists>r. ?base = ''name'' # ''repo'' # ''path'' # r" "distinct ?base"
    "Include params \<noteq> [] \<Longrightarrow> set ?base = {''name'', ''repo'', ''path''} \<union> set (Include params)"
    "''property'' \<notin> set (Include params) \<Longrightarrow> ''property'' \<notin> set ?base"
    unfolding with_include_eq appendMissingFields_eq by auto
  have fields: "getQueryReturnFields params req =
      (if \<not> includePropertiesInAqlForSpec params then appendMissingFields (SortBy params) ?base
       else if req \<noteq> NONE then ?base @ [''property''] else ?base)"
    by (simp add: getQueryReturnFields_def Let_def)
  have sort: "includePropertiesInAqlForSpec params \<Longrightarrow> SortBy params = []"
    by (simp add: includePropertiesInAqlForSpec_def)
  obtain r where r: "?base = ''name'' # ''repo'' # ''path'' # r" using base(1) by blast
  show ?thesis
  proof (intro conjI)
    show "take 3 (getQueryReturnFields params req) = [''name'', ''repo'', ''path'']"
      unfolding fields r by (simp add: appendMissingFields_eq numeral_3_eq_3)
    show "set (SortBy params) \<subseteq> set (getQueryReturnFields params req)"
      unfolding fields using sort by (auto simp: appendMissingFields_eq)
    show "Include params = [] \<or> set (getQueryReturnFields params req) =
        {''name'', ''repo'', ''path''} \<union> set (Include params) \<union> set (SortBy params) \<union>
        (if includePropertiesInAqlForSpec params \<and> req \<noteq> NONE then {''property''} else {})"
      unfolding fields using base(3) sort by (cases "Include params = []") (auto simp: appendMissingFields_eq)
    show "''property'' \<in> set (Include params) \<or> distinct (getQueryReturnFields params req)"
      unfolding fields using base(2,4) by (auto simp: appendMissingFields_eq)
  qed
qed

end
