(* ===== verification/Json.thy ===== *)
theory Json
  imports Utils
begin

text \<open>
  What the services use of package \<^verbatim>\<open>encoding/json\<close>: the values, the text that \<open>json.Marshal\<close> writes, members that
  are left out when empty, and the reading of members into the fields of a struct.

  Texts are sequences of bytes in valid UTF-8 without the separators U+2028 and U+2029. A service holds the parser it
  uses; \<open>Unmarshal\<close> of \<open>JsonParser\<close> is the one of the package.
\<close>

named_theorems json_simps \<open>reading and writing of members\<close>

datatype jvalue = Null | BoolV bool | NumV string | StrV string | ArrV "jvalue list" | ObjV "(string \<times> jvalue) list"

type_synonym members = "(string \<times> jvalue) list"

section \<open>Writing\<close>

definition hex_digit :: "nat \<Rightarrow> char" where
  "hex_digit n = ''0123456789abcdef'' ! (n mod 16)"

definition escape_char :: "char \<Rightarrow> string" where
  "escape_char c =
     (if c = CHR 0x22 \<or> c = backslash then [backslash, c]
      else if c = CHR 0x0A then [backslash, CHR ''n'']
      else if c = CHR 0x0D then [backslash, CHR ''r'']
      else if c = CHR 0x09 then [backslash, CHR ''t'']
      else if (of_char c :: nat) < 32 \<or> c \<in> {CHR ''<'', CHR ''>'', CHR ''&''}
      then [backslash] @ ''u00'' @ [hex_digit (of_char c div 16), hex_digit (of_char c)]
      else [c])"

definition json_string :: "string \<Rightarrow> string" where
  "json_string s = [CHR 0x22] @ concat (map escape_char s) @ [CHR 0x22]"

fun Marshal :: "jvalue \<Rightarrow> string" where
  "Marshal Null = ''null''"
| "Marshal (BoolV b) = (if b then ''true'' else ''false'')"
| "Marshal (NumV n) = n"
| "Marshal (StrV s) = json_string s"
| "Marshal (ArrV vs) = ''['' @ str_join '','' (map Marshal vs) @ '']''"
| "Marshal (ObjV ms) = ''{'' @ str_join '','' (map (\<lambda>(k, v). json_string k @ '':'' @ Marshal v) ms) @ ''}''"

text \<open>Members with the option \<open>omitempty\<close>.\<close>

definition omit_string :: "string \<Rightarrow> string \<Rightarrow> members" where
  "omit_string name s = (if s = [] then [] else [(name, StrV s)])"

definition omit_bool :: "string \<Rightarrow> bool \<Rightarrow> members" where
  "omit_bool name b = (if b then [(name, BoolV b)] else [])"

definition omit_int :: "string \<Rightarrow> int \<Rightarrow> members" where
  "omit_int name i = (if i = 0 then [] else [(name, NumV (itoa i))])"

definition omit_list :: "string \<Rightarrow> ('a \<Rightarrow> jvalue) \<Rightarrow> 'a list \<Rightarrow> members" where
  "omit_list name f xs = (if xs = [] then [] else [(name, ArrV (map f xs))])"

definition omit_pointer :: "string \<Rightarrow> ('a \<Rightarrow> jvalue) \<Rightarrow> 'a option \<Rightarrow> members" where
  "omit_pointer name f p = (case p of None \<Rightarrow> [] | Some x \<Rightarrow> [(name, f x)])"

text \<open>A slice without the option: a nil slice is \<open>null\<close>.\<close>

definition slice_value :: "('a \<Rightarrow> jvalue) \<Rightarrow> 'a list option \<Rightarrow> jvalue" where
  "slice_value f xs = (case xs of None \<Rightarrow> Null | Some xs \<Rightarrow> ArrV (map f xs))"

section \<open>Reading\<close>

definition fold_char :: "char \<Rightarrow> char" where
  "fold_char c = (if CHR ''A'' \<le> c \<and> c \<le> CHR ''Z'' then char_of (of_char c + 32 :: nat) else c)"

text \<open>The members that go to a field: those with its name, whatever the case of the letters.\<close>

definition field_values :: "string \<Rightarrow> members \<Rightarrow> jvalue list" where
  "field_values name ms = map snd (filter (\<lambda>(k, v). map fold_char k = map fold_char name) ms)"

text \<open>Later members overwrite earlier ones, \<open>null\<close> overwrites nothing, and a value of a wrong type is an error.\<close>

definition read_field :: "(jvalue \<Rightarrow> 'a option) \<Rightarrow> 'a \<Rightarrow> string \<Rightarrow> members \<Rightarrow> 'a result" where
  "read_field conv dflt name ms =
     fold_result (\<lambda>v x. if v = Null then Inr x
                        else case conv v of None \<Rightarrow> Inl (Err ''json: cannot unmarshal'') | Some y \<Rightarrow> Inr y) (field_values name ms) dflt"

fun conv_string :: "jvalue \<Rightarrow> string option" where
  "conv_string (StrV s) = Some s"
| "conv_string _ = None"

fun conv_bool :: "jvalue \<Rightarrow> bool option" where
  "conv_bool (BoolV b) = Some b"
| "conv_bool _ = None"

text \<open>\<open>json.Number\<close> keeps the text of a number, also of one in quotes.\<close>

fun conv_number :: "jvalue \<Rightarrow> string option" where
  "conv_number (NumV n) = Some n"
| "conv_number (StrV s) = (if s \<noteq> [] \<and> list_all (\<lambda>c. CHR ''0'' \<le> c \<and> c \<le> CHR ''9'') s then Some s else None)"
| "conv_number _ = None"

definition read_string :: "string \<Rightarrow> members \<Rightarrow> string result" where
  "read_string = read_field conv_string []"

text \<open>A struct is read from an object; \<open>null\<close> leaves it as it is.\<close>

definition read_struct :: "jvalue \<Rightarrow> members result" where
  "read_struct v = (case v of ObjV ms \<Rightarrow> Inr ms | Null \<Rightarrow> Inr [] | _ \<Rightarrow> Inl (Err ''json: cannot unmarshal''))"

lemma read_struct_simps [simp]: "read_struct (ObjV ms) = Inr ms" "read_struct Null = Inr []"
  by (simp_all add: read_struct_def)

lemma field_values_simps [json_simps]:
  "field_values name [] = []"
  "field_values name ((k, v) # ms) = (if map fold_char k = map fold_char name then [v] else []) @ field_values name ms"
  by (simp_all add: field_values_def)

lemma field_values_append [json_simps]: "field_values name (ms @ ns) = field_values name ms @ field_values name ns"
  by (simp add: field_values_def)

lemma field_values_omit_string [json_simps]:
  "field_values name (omit_string k s) = (if map fold_char k = map fold_char name \<and> s \<noteq> [] then [StrV s] else [])"
  by (simp add: omit_string_def json_simps)

lemma read_string_field: "field_values name ms = (if s = [] then [] else [StrV s]) \<Longrightarrow> read_string name ms = Inr s"
  by (simp add: read_string_def read_field_def)

lemma read_string_once: "field_values name ms = [StrV s] \<Longrightarrow> read_string name ms = Inr s"
  by (simp add: read_string_def read_field_def)

end
