(* ===== verification/JsonParser.thy ===== *)
theory JsonParser
  imports Json
begin

text \<open>
  Reading JSON: the parser of package \<^verbatim>\<open>encoding/json\<close>, as far as a text is valid and what it stands for. Numbers keep their
  text, as the readers of fields convert it. The result of a text that is not valid is an error whose words are not modelled.

  The interface \<open>json_writer\<close> is a way to write values whose texts are read back. It is interpreted on \<open>Marshal\<close>, which is what a
  service relies on when a server keeps what it is sent, and on texts that are put together without escapes.
\<close>

section \<open>Lexical elements\<close>

definition json_space :: "char \<Rightarrow> bool" where
  "json_space c \<longleftrightarrow> c = CHR '' '' \<or> c = CHR 0x09 \<or> c = CHR 0x0A \<or> c = CHR 0x0D"

definition skip_ws :: "string \<Rightarrow> string" where
  "skip_ws s = dropWhile json_space s"

fun hex_value :: "char \<Rightarrow> nat option" where
  "hex_value c =
     (let n = of_char c :: nat
      in if 48 \<le> n \<and> n \<le> 57 then Some (n - 48) else if 97 \<le> n \<and> n \<le> 102 then Some (n - 87)
         else if 65 \<le> n \<and> n \<le> 70 then Some (n - 55) else None)"

fun hex4 :: "string \<Rightarrow> (nat \<times> string) option" where
  "hex4 (a # b # c # d # s) =
     (case (hex_value a, hex_value b, hex_value c, hex_value d) of
        (Some a, Some b, Some c, Some d) \<Rightarrow> Some (((a * 16 + b) * 16 + c) * 16 + d, s) | _ \<Rightarrow> None)"
| "hex4 _ = None"

text \<open>A code point in UTF-8.\<close>

definition utf8 :: "nat \<Rightarrow> string" where
  "utf8 r =
     map char_of (if r < 0x80 then [r]
       else if r < 0x800 then [0xC0 + r div 0x40, 0x80 + r mod 0x40]
       else if r < 0x10000 then [0xE0 + r div 0x1000, 0x80 + r div 0x40 mod 0x40, 0x80 + r mod 0x40]
       else [0xF0 + r div 0x40000, 0x80 + r div 0x1000 mod 0x40, 0x80 + r div 0x40 mod 0x40, 0x80 + r mod 0x40])"

text \<open>What follows \<open>\\u\<close>: two surrogates that belong together are one code point, any other surrogate is replaced.\<close>

definition unicode_escape :: "string \<Rightarrow> (string \<times> string) option" where
  "unicode_escape s =
     (case hex4 s of
        None \<Rightarrow> None
      | Some (r, t) \<Rightarrow>
          if r < 0xD800 \<or> 0xE000 \<le> r then Some (utf8 r, t)
          else case t of
                 b # u # t' \<Rightarrow>
                   (if b = backslash \<and> u = CHR ''u'' \<and> r < 0xDC00
                    then case hex4 t' of
                           Some (r', t'') \<Rightarrow>
                             if 0xDC00 \<le> r' \<and> r' < 0xE000
                             then Some (utf8 (0x10000 + (r - 0xD800) * 0x400 + (r' - 0xDC00)), t'') else Some (utf8 0xFFFD, t)
                         | None \<Rightarrow> Some (utf8 0xFFFD, t)
                    else Some (utf8 0xFFFD, t))
               | _ \<Rightarrow> Some (utf8 0xFFFD, t))"

fun simple_escape :: "char \<Rightarrow> char option" where
  "simple_escape c =
     (if c = CHR 0x22 \<or> c = backslash \<or> c = CHR ''/'' then Some c
      else if c = CHR ''b'' then Some (CHR 0x08) else if c = CHR ''f'' then Some (CHR 0x0C)
      else if c = CHR ''n'' then Some (CHR 0x0A) else if c = CHR ''r'' then Some (CHR 0x0D)
      else if c = CHR ''t'' then Some (CHR 0x09) else None)"

lemma hex4_shorter: "hex4 s = Some (r, t) \<Longrightarrow> length t < length s"
  by (cases s rule: hex4.cases) (auto split: option.splits)

lemma unicode_escape_shorter: "unicode_escape s = Some (b, t) \<Longrightarrow> length t < length s"
  by (auto simp: unicode_escape_def split: option.splits if_splits list.splits dest!: hex4_shorter)

text \<open>The rest of a string, after its opening quote.\<close>

function (sequential) string_rest :: "string \<Rightarrow> (string \<times> string) option" where
  "string_rest [] = None"
| "string_rest (c # s) =
     (if c = CHR 0x22 then Some ([], s)
      else if (of_char c :: nat) < 32 then None
      else if c = backslash then
        (case s of
           [] \<Rightarrow> None
         | e # t \<Rightarrow>
             (case (if e = CHR ''u'' then unicode_escape t else map_option (\<lambda>b. ([b], t)) (simple_escape e)) of
                None \<Rightarrow> None | Some (b, u) \<Rightarrow> map_option (apfst ((@) b)) (string_rest u)))
      else map_option (apfst ((#) c)) (string_rest s))"
  by pat_completeness auto

termination string_rest
  by (relation "measure length") (auto split: if_splits dest: unicode_escape_shorter)

lemma string_rest_shorter: "string_rest s = Some (b, t) \<Longrightarrow> length t < length s"
proof (induction s arbitrary: b t rule: string_rest.induct)
  case (2 c s)
  show ?case
  proof (cases "c = backslash")
    case False
    then show ?thesis using 2 by (fastforce split: if_splits)
  next
    case True
    then obtain e u where s: "s = e # u" using 2(3) by (auto split: list.splits)
    obtain x v where x: "(if e = CHR ''u'' then unicode_escape u else map_option (\<lambda>b. ([b], u)) (simple_escape e)) = Some (x, v)"
      using 2(3) True s by (auto split: option.splits)
    then obtain y where y: "string_rest v = Some (y, t)" using 2(3) True s by auto
    have "length v < length s" using x s by (auto split: if_splits dest: unicode_escape_shorter)
    moreover have "length t < length v" using 2(1)[OF _ _ True s x refl y] True by (simp split: if_splits)
    ultimately show ?thesis by simp
  qed
qed simp

definition digits :: "string \<Rightarrow> (string \<times> string) option" where
  "digits s = (let ds = takeWhile is_digit s in if ds = [] then None else Some (ds, dropWhile is_digit s))"

definition integer_part :: "string \<Rightarrow> (string \<times> string) option" where
  "integer_part s = (case s of [] \<Rightarrow> None | c # t \<Rightarrow> if c = CHR ''0'' then Some ([c], t) else digits s)"

definition fraction_part :: "string \<Rightarrow> (string \<times> string) option" where
  "fraction_part s =
     (case s of c # t \<Rightarrow> if c = CHR ''.'' then map_option (apfst ((#) c)) (digits t) else Some ([], s) | [] \<Rightarrow> Some ([], s))"

definition exponent_part :: "string \<Rightarrow> (string \<times> string) option" where
  "exponent_part s =
     (case s of
        c # t \<Rightarrow>
          if c \<in> {CHR ''e'', CHR ''E''}
          then (case t of
                  d # u \<Rightarrow> if d \<in> {CHR ''+'', CHR ''-''} then map_option (apfst (\<lambda>x. c # d # x)) (digits u)
                          else map_option (apfst ((#) c)) (digits t)
                | [] \<Rightarrow> None)
          else Some ([], s)
      | [] \<Rightarrow> Some ([], s))"

definition then_part :: "(string \<times> string) option \<Rightarrow> (string \<Rightarrow> (string \<times> string) option) \<Rightarrow> (string \<times> string) option" where
  "then_part r p = (case r of None \<Rightarrow> None | Some (x, s) \<Rightarrow> map_option (apfst ((@) x)) (p s))"

definition number :: "string \<Rightarrow> (string \<times> string) option" where
  "number s =
     (let sign = (if has_prefix s ''-'' then Some (''-'', tl s) else Some ([], s))
      in then_part (then_part (then_part sign integer_part) fraction_part) exponent_part)"

section \<open>Values\<close>

definition literal :: "string \<Rightarrow> (jvalue \<times> string) option" where
  "literal s =
     (if has_prefix s ''null'' then Some (Null, drop 4 s)
      else if has_prefix s ''true'' then Some (BoolV True, drop 4 s)
      else if has_prefix s ''false'' then Some (BoolV False, drop 5 s)
      else map_option (apfst NumV) (number s))"

text \<open>The first argument is the number of levels that may still be opened. A value is never longer than its text: the tests
  of the length always hold, and let the recursion end.\<close>

function (sequential) parse_value :: "nat \<Rightarrow> string \<Rightarrow> (jvalue \<times> string) option"
    and elements :: "nat \<Rightarrow> string \<Rightarrow> (jvalue list \<times> string) option"
    and object_members :: "nat \<Rightarrow> string \<Rightarrow> (members \<times> string) option" where
  "parse_value d s =
     (case skip_ws s of
        [] \<Rightarrow> None
      | c # t \<Rightarrow>
          if c = CHR ''['' then
            (if d = 0 then None
             else if has_prefix (skip_ws t) '']'' then Some (ArrV [], tl (skip_ws t))
             else map_option (apfst ArrV) (elements (d - 1) t))
          else if c = CHR ''{'' then
            (if d = 0 then None
             else if has_prefix (skip_ws t) ''}'' then Some (ObjV [], tl (skip_ws t))
             else map_option (apfst ObjV) (object_members (d - 1) t))
          else if c = CHR 0x22 then map_option (apfst StrV) (string_rest t)
          else literal (c # t))"
| "elements d s =
     (case parse_value d s of
        None \<Rightarrow> None
      | Some (v, r) \<Rightarrow>
          (case skip_ws r of
             [] \<Rightarrow> None
           | c # u \<Rightarrow>
               if c = CHR '']'' then Some ([v], u)
               else if c = CHR '','' \<and> length u < length s then map_option (apfst ((#) v)) (elements d u) else None))"
| "object_members d s =
     (case skip_ws s of
        [] \<Rightarrow> None
      | q # t \<Rightarrow>
          if q \<noteq> CHR 0x22 then None
          else case string_rest t of
                 None \<Rightarrow> None
               | Some (k, r) \<Rightarrow>
                   (case skip_ws r of
                      [] \<Rightarrow> None
                    | c # u \<Rightarrow>
                        if c \<noteq> CHR '':'' then None
                        else case parse_value d u of
                               None \<Rightarrow> None
                             | Some (v, r) \<Rightarrow>
                                 (case skip_ws r of
                                    [] \<Rightarrow> None
                                  | c # u \<Rightarrow>
                                      if c = CHR ''}'' then Some ([(k, v)], u)
                                      else if c = CHR '','' \<and> length u < length s
                                      then map_option (apfst ((#) (k, v))) (object_members d u) else None)))"
  by pat_completeness auto

lemma skip_ws_Cons: "skip_ws s = c # t \<Longrightarrow> length t < length s"
  using length_dropWhile_le[of json_space s] by (simp add: skip_ws_def)

termination parse_value
  by (relation "measure (\<lambda>x. case x of Inl (d, s) \<Rightarrow> 2 * length s | Inr (Inl (d, s)) \<Rightarrow> 2 * length s + 1 | Inr (Inr (d, s)) \<Rightarrow> 2 * length s + 1)")
     (auto dest!: skip_ws_Cons string_rest_shorter)

declare parse_value.simps [simp del] elements.simps [simp del] object_members.simps [simp del]

text \<open>The depth that package json allows.\<close>

definition maxNestingDepth :: nat where
  "maxNestingDepth = 10000"

definition Unmarshal :: "string \<Rightarrow> jvalue result" where
  "Unmarshal s =
     (case parse_value maxNestingDepth s of
        None \<Rightarrow> Inl (Err ''invalid JSON'')
      | Some (v, r) \<Rightarrow> if skip_ws r = [] then Inr v else Inl (Err ''invalid JSON''))"

section \<open>The tests of the length\<close>

lemma skip_ws_le: "length (skip_ws s) \<le> length s"
  by (simp add: skip_ws_def length_dropWhile_le)

lemma digits_shorter: "digits s = Some (x, r) \<Longrightarrow> length r < length s"
  by (cases s) (auto simp: digits_def Let_def length_dropWhile_le le_imp_less_Suc split: if_splits)

lemma integer_part_shorter: "integer_part s = Some (x, r) \<Longrightarrow> length r < length s"
  by (auto simp: integer_part_def split: list.splits if_splits dest: digits_shorter)

lemma fraction_part_le: "fraction_part s = Some (x, r) \<Longrightarrow> length r \<le> length s"
  by (auto simp: fraction_part_def split: list.splits if_splits dest: digits_shorter)

lemma exponent_part_le: "exponent_part s = Some (x, r) \<Longrightarrow> length r \<le> length s"
  by (auto simp: exponent_part_def split: list.splits if_splits dest!: digits_shorter)

lemma number_shorter: "number s = Some (x, r) \<Longrightarrow> length r < length s"
  by (auto simp: number_def then_part_def Let_def split: option.splits if_splits
      dest!: integer_part_shorter fraction_part_le exponent_part_le)

lemma has_prefix_length: "has_prefix s p \<Longrightarrow> length p \<le> length s"
  by (auto simp: has_prefix_iff)

lemma literal_shorter: "literal s = Some (v, r) \<Longrightarrow> length r < length s"
  by (auto simp: literal_def split: if_splits dest!: has_prefix_length number_shorter)

lemma skip_ws_shorter: "skip_ws s = c # u \<Longrightarrow> length s < n \<Longrightarrow> length u < n"
  by (drule skip_ws_Cons) simp

lemma parser_shorter:
  shows "parse_value d s = Some (v, r) \<Longrightarrow> length r < length s"
    and "elements d s = Some (vs, r) \<Longrightarrow> length r < length s"
    and "object_members d s = Some (ms, r) \<Longrightarrow> length r < length s"
proof (induction d s and d s and d s arbitrary: v r and vs r and ms r rule: parse_value_elements_object_members.induct)
  case (1 d s)
  obtain c t where s: "skip_ws s = c # t" using 1(3) by (auto simp: parse_value.simps[of d s] split: list.splits)
  have t: "length t < length s" using skip_ws_Cons[OF s] .
  have tl: "has_prefix (skip_ws t) [c] \<Longrightarrow> length (tl (skip_ws t)) < length s" for c
    using t skip_ws_le[of t] by simp
  have arr: "length r < length s" if "c = CHR ''[''" "d \<noteq> 0" "\<not> has_prefix (skip_ws t) '']''" "elements (d - 1) t = Some (vs, r)" for vs
    using less_trans[OF 1(1)[OF s that] t] .
  have obj: "length r < length s"
    if "c \<noteq> CHR ''[''" "c = CHR ''{''" "d \<noteq> 0" "\<not> has_prefix (skip_ws t) ''}''" "object_members (d - 1) t = Some (ms, r)" for ms
    using less_trans[OF 1(2)[OF s that] t] .
  have str: "length r < length s" if "string_rest t = Some (b, r)" for b using string_rest_shorter[OF that] t by simp
  have lit: "length r < length s" if "literal (c # t) = Some (v, r)"
    using literal_shorter[OF that] s skip_ws_le[of s] by simp
  show ?case
    using 1(3) s by (auto simp: parse_value.simps[of d s] split: if_splits intro: tl arr obj str lit)
next
  case (2 d s)
  obtain v r' where v: "parse_value d s = Some (v, r')" using 2(3) by (auto simp: elements.simps[of d s] split: option.splits)
  obtain c u where c: "skip_ws r' = c # u" using 2(3) v by (auto simp: elements.simps[of d s] split: list.splits)
  have u: "length u < length s" using skip_ws_shorter[OF c 2(1)[OF v]] .
  have "length r < length s" if "c \<noteq> CHR '']''" "c = CHR '',''" "elements d u = Some (ws, r)" for ws
    using less_trans[OF 2(2)[OF v refl c that(1) conjI[OF that(2) u] that(3)] u] .
  then show ?case using 2(3) v c u by (auto simp: elements.simps[of d s] split: if_splits)
next
  case (3 d s)
  obtain q t where t: "skip_ws s = q # t" "q = CHR 0x22"
    using 3(3) by (auto simp: object_members.simps[of d s] split: list.splits if_splits)
  obtain k r1 where k: "string_rest t = Some (k, r1)" using 3(3) t by (auto simp: object_members.simps[of d s] split: option.splits)
  obtain c1 u where u: "skip_ws r1 = c1 # u" "c1 = CHR '':''"
    using 3(3) t k by (auto simp: object_members.simps[of d s] split: list.splits if_splits)
  obtain v r2 where v: "parse_value d u = Some (v, r2)"
    using 3(3) t k u by (auto simp: object_members.simps[of d s] split: option.splits)
  obtain c2 u2 where u2: "skip_ws r2 = c2 # u2"
    using 3(3) t k u v by (auto simp: object_members.simps[of d s] split: list.splits)
  have len: "length u2 < length s"
    using skip_ws_Cons[OF t(1)] string_rest_shorter[OF k] skip_ws_Cons[OF u(1)] skip_ws_Cons[OF u2]
      3(1)[OF t(1) _ k refl u(1) _ v] t(2) u(2) by simp
  have "length r < length s" if "c2 \<noteq> CHR ''}''" "c2 = CHR '',''" "object_members d u2 = Some (ws, r)" for ws
    using less_trans[OF 3(2)[OF t(1) _ k refl u(1) _ v refl u2 that(1) conjI[OF that(2) len] that(3)] len] t(2) u(2) by simp
  then show ?case using 3(3) t k u v u2 len by (auto simp: object_members.simps[of d s] split: if_splits)
qed

text \<open>So the loops are these.\<close>

lemma elements_eq:
  "elements d s =
     (case parse_value d s of
        None \<Rightarrow> None
      | Some (v, r) \<Rightarrow>
          (case skip_ws r of
             [] \<Rightarrow> None
           | c # u \<Rightarrow> if c = CHR '']'' then Some ([v], u)
                      else if c = CHR '','' then map_option (apfst ((#) v)) (elements d u) else None))"
proof (cases "parse_value d s")
  case (Some x)
  obtain v r where x: "x = (v, r)" by fastforce
  then have "skip_ws r = c # u \<Longrightarrow> length u < length s" for c u using parser_shorter(1) Some skip_ws_shorter by blast
  then show ?thesis using Some x by (simp add: elements.simps[of d s] split: list.split)
qed (simp add: elements.simps[of d s])

section \<open>Reading what was written\<close>

lemma digit_char_no_space: "\<not> json_space c \<Longrightarrow> skip_ws (c # s) = c # s"
  by (simp add: skip_ws_def)

lemma hex_value_hex_digit: "hex_value (hex_digit n) = Some (n mod 16)"
proof -
  have "\<forall>n\<in>set [0..<16]. hex_value (hex_digit n) = Some n" by code_simp
  moreover have "hex_digit n = hex_digit (n mod 16)" by (simp add: hex_digit_def)
  ultimately show ?thesis by simp
qed

lemma hex_value_0: "hex_value CHR ''0'' = Some 0"
  by code_simp

lemma unicode_escape_char:
  assumes "(of_char c :: nat) < 128"
  shows "unicode_escape (''00'' @ hex_digit (of_char c div 16) # hex_digit (of_char c) # s) = Some ([c], s)"
proof -
  let ?n = "of_char c :: nat"
  have "?n div 16 mod 16 * 16 + ?n mod 16 = ?n" using assms by simp
  then have "hex4 (''00'' @ hex_digit (?n div 16) # hex_digit ?n # s) = Some (?n, s)"
    by (simp add: hex_value_hex_digit hex_value_0 del: hex_value.simps)
  then show ?thesis using assms by (simp add: unicode_escape_def utf8_def del: hex4.simps)
qed

lemma append_single: "(@) [c] = (#) c"
  by (rule ext) simp

lemma string_rest_escape: "string_rest (escape_char c @ s) = map_option (apfst ((#) c)) (string_rest s)"
proof -
  consider (quote) "c = CHR 0x22 \<or> c = backslash" | (named) "c \<in> {CHR 0x0A, CHR 0x0D, CHR 0x09}"
    | (code) "escape_char c = [backslash] @ ''u00'' @ [hex_digit (of_char c div 16), hex_digit (of_char c)]" "(of_char c :: nat) < 128"
    | (plain) "escape_char c = [c]" "c \<noteq> CHR 0x22" "c \<noteq> backslash" "\<not> (of_char c :: nat) < 32"
  proof (cases "c \<in> {CHR 0x22, backslash, CHR 0x0A, CHR 0x0D, CHR 0x09}")
    case False
    show thesis
    proof (cases "(of_char c :: nat) < 32 \<or> c \<in> {CHR ''<'', CHR ''>'', CHR ''&''}")
      case True
      then have "(of_char c :: nat) < 128" by auto
      then show thesis using that(3) False True by (simp add: escape_char_def)
    next
      case nc: False
      then show thesis using that(4) False by (simp add: escape_char_def)
    qed
  qed (use that(1,2) in auto)
  then show ?thesis
  proof cases
    case code
    have "string_rest (escape_char c @ s) =
        (case unicode_escape (''00'' @ hex_digit (of_char c div 16) # hex_digit (of_char c) # s) of
           None \<Rightarrow> None | Some (b, u) \<Rightarrow> map_option (apfst ((@) b)) (string_rest u))"
      using code(1) by (simp add: apfst_def)
    then show ?thesis unfolding unicode_escape_char[OF code(2)] by (simp add: append_single)
  next
    case quote
    then show ?thesis by (elim disjE) (simp_all add: escape_char_def apfst_def append_single)
  next
    case named
    then show ?thesis by (elim insertE emptyE) (simp_all add: escape_char_def apfst_def append_single)
  next
    case plain
    then show ?thesis by simp
  qed
qed

lemma string_rest_json: "string_rest (concat (map escape_char b) @ CHR 0x22 # s) = Some (b, s)"
  by (induction b) (simp_all add: string_rest_escape)

text \<open>Nothing after a number continues it.\<close>

definition stops :: "string \<Rightarrow> bool" where
  "stops r \<longleftrightarrow> (case r of [] \<Rightarrow> True | c # _ \<Rightarrow> c \<in> {CHR '','', CHR '']'', CHR ''}''})"

definition is_number :: "string \<Rightarrow> bool" where
  "is_number n \<longleftrightarrow> number n = Some (n, [])"

lemma digit_tests:
  "is_digit CHR ''0''" "\<not> is_digit CHR ''-''" "\<not> is_digit CHR '',''" "\<not> is_digit CHR '']''" "\<not> is_digit CHR ''}''"
  by code_simp+

lemma stops_no_digit: "stops (c # r) \<Longrightarrow> \<not> is_digit c \<and> c \<noteq> CHR ''.'' \<and> c \<noteq> CHR ''e'' \<and> c \<noteq> CHR ''E'' \<and> \<not> json_space c"
  by (auto simp: stops_def digit_tests json_space_def)

lemma stops_dropWhile: "stops r \<Longrightarrow> takeWhile is_digit r = [] \<and> dropWhile is_digit r = r"
  using stops_no_digit by (cases r) auto

lemma digits_append: "digits s = Some (x, t) \<Longrightarrow> stops r \<Longrightarrow> digits (s @ r) = Some (x, t @ r)"
  using stops_dropWhile[of r]
  by (cases "\<forall>c\<in>set s. is_digit c") (auto simp: digits_def Let_def takeWhile_append dropWhile_append takeWhile_eq_all_conv[THEN iffD2] split: if_splits)

lemmas digits_append_Cons = digits_append[of "c # s" for c s, simplified append_Cons]

lemma integer_part_append: "integer_part s = Some (x, t) \<Longrightarrow> stops r \<Longrightarrow> integer_part (s @ r) = Some (x, t @ r)"
  using digits_append[of s x t r] by (auto simp: integer_part_def split: list.splits if_splits)

lemma fraction_part_append: "fraction_part s = Some (x, t) \<Longrightarrow> stops r \<Longrightarrow> fraction_part (s @ r) = Some (x, t @ r)"
  using stops_no_digit[of "hd r" "tl r"]
  by (cases s; cases r) (auto simp: fraction_part_def digits_append split: if_splits)

lemma exponent_part_append: "exponent_part s = Some (x, t) \<Longrightarrow> stops r \<Longrightarrow> exponent_part (s @ r) = Some (x, t @ r)"
  using stops_no_digit[of "hd r" "tl r"]
  by (cases s; cases r) (auto simp: exponent_part_def digits_append digits_append_Cons split: if_splits list.splits)

lemma number_append:
  assumes "is_number n" "stops r"
  shows "number (n @ r) = Some (n, r)"
proof -
  let ?sign = "\<lambda>s. if has_prefix s ''-'' then Some (''-'', tl s) else Some ([], s)"
  obtain a s where a: "?sign n = Some (a, s)" by (cases "has_prefix n ''-''") auto
  obtain b t where b: "integer_part s = Some (b, t)" using assms(1) a by (auto simp: is_number_def number_def then_part_def split: option.splits)
  obtain c u where c: "fraction_part t = Some (c, u)"
    using assms(1) a b by (auto simp: is_number_def number_def then_part_def split: option.splits)
  obtain d where d: "exponent_part u = Some (d, [])" "n = a @ b @ c @ d"
    using assms(1) a b c by (auto simp: is_number_def number_def then_part_def split: option.splits)
  have "n \<noteq> []" using b a by (auto simp: integer_part_def split: list.splits)
  then have sign: "?sign (n @ r) = Some (a, s @ r)" using a by (cases n) auto
  note parts =  integer_part_append[OF b assms(2)] fraction_part_append[OF c assms(2)] exponent_part_append[OF d(1) assms(2)]
  show ?thesis unfolding number_def Let_def sign using d(2) by (simp add: then_part_def parts)
qed

lemma number_start: "is_number n \<Longrightarrow> \<exists>c t. n = c # t \<and> (c = CHR ''-'' \<or> is_digit c)"
  by (cases n) (auto simp: is_number_def number_def then_part_def integer_part_def digits_def Let_def digit_tests
      split: if_splits option.splits)

text \<open>The values that a text of the given depth stands for.\<close>

fun writable :: "nat \<Rightarrow> jvalue \<Rightarrow> bool" where
  "writable d (NumV n) = is_number n"
| "writable d (ArrV vs) = (case d of 0 \<Rightarrow> False | Suc d \<Rightarrow> list_all (writable d) vs)"
| "writable d (ObjV ms) = (case d of 0 \<Rightarrow> False | Suc d \<Rightarrow> list_all (\<lambda>(k, v). writable d v) ms)"
| "writable d v = True"

lemma number_token:
  assumes "is_number n"
  obtains c t where "n = c # t" "\<not> json_space c" "c \<notin> {CHR ''['', CHR ''{'', CHR 0x22, CHR ''n'', CHR ''t'', CHR ''f''}"
proof -
  obtain c t where n: "n = c # t" "c = CHR ''-'' \<or> is_digit c" using number_start[OF assms] by auto
  have "\<forall>c\<in>set [CHR '' '', CHR 0x09, CHR 0x0A, CHR 0x0D, CHR ''['', CHR ''{'', CHR 0x22, CHR ''n'', CHR ''t'', CHR ''f''].
      c \<noteq> CHR ''-'' \<and> \<not> is_digit c" by code_simp
  then have "\<not> json_space c" "c \<notin> {CHR ''['', CHR ''{'', CHR 0x22, CHR ''n'', CHR ''t'', CHR ''f''}"
    using n(2) by (auto simp: json_space_def)
  then show thesis using that n(1) by blast
qed

lemma parse_number:
  assumes "is_number n" "stops r"
  shows "parse_value d (n @ r) = Some (NumV n, r)"
proof -
  obtain c t where c: "n = c # t" "\<not> json_space c" "c \<notin> {CHR ''['', CHR ''{'', CHR 0x22, CHR ''n'', CHR ''t'', CHR ''f''}"
    using number_token[OF assms(1)] .
  have "literal (n @ r) = Some (NumV n, r)" using number_append[OF assms] c by (simp add: literal_def)
  then show ?thesis using c by (simp add: parse_value.simps skip_ws_def)
qed

lemma parse_literal:
  "parse_value d (''null'' @ r) = Some (Null, r)"
  "parse_value d (''true'' @ r) = Some (BoolV True, r)"
  "parse_value d (''false'' @ r) = Some (BoolV False, r)"
  by (simp_all add: parse_value.simps skip_ws_def json_space_def literal_def)

lemma skip_ws_stops: "stops r \<Longrightarrow> skip_ws r = r"
  by (cases r) (auto simp: skip_ws_def dest: stops_no_digit)

text \<open>A writer of values: it quotes the strings that are fine so that the parser finds them again, and puts everything else
  together as JSON does.\<close>

fun strings_ok :: "(string \<Rightarrow> bool) \<Rightarrow> jvalue \<Rightarrow> bool" where
  "strings_ok fine (StrV s) = fine s"
| "strings_ok fine (ArrV vs) = list_all (strings_ok fine) vs"
| "strings_ok fine (ObjV ms) = list_all (\<lambda>(k, v). fine k \<and> strings_ok fine v) ms"
| "strings_ok fine v = True"

locale json_writer =
  fixes emit :: "jvalue \<Rightarrow> string" and quote :: "string \<Rightarrow> string" and fine :: "string \<Rightarrow> bool"
  assumes quoted_string: "fine s \<Longrightarrow> \<exists>b. quote s = CHR 0x22 # b \<and> (\<forall>r. string_rest (b @ r) = Some (s, r))"
    and write_plain: "emit Null = ''null''" "emit (BoolV b) = (if b then ''true'' else ''false'')" "emit (NumV n) = n" "emit (StrV s) = quote s"
    and write_array: "emit (ArrV vs) = ''['' @ str_join '','' (map emit vs) @ '']''"
    and write_object: "emit (ObjV ms) = ''{'' @ str_join '','' (map (\<lambda>(k, v). quote k @ '':'' @ emit v) ms) @ ''}''"
begin

lemma parse_string: "fine s \<Longrightarrow> parse_value d (quote s @ r) = Some (StrV s, r)"
  using quoted_string[of s] by (auto simp: parse_value.simps skip_ws_def json_space_def)

text \<open>No value starts like the end of an array, and no member like that of an object.\<close>

lemma write_start: "writable d v \<Longrightarrow> strings_ok fine v \<Longrightarrow> \<exists>c t. emit v = c # t \<and> \<not> json_space c \<and> c \<noteq> CHR '']''"
proof (cases v)
  case (NumV n)
  assume "writable d v"
  then obtain c t where n: "n = c # t" "c = CHR ''-'' \<or> is_digit c" "\<not> json_space c"
    using number_start[of n] number_token[of n] NumV by (metis list.inject writable.simps(1))
  moreover from n(2) have "c \<noteq> CHR '']''" by (cases "c = CHR '']''") (simp_all add: digit_tests)
  ultimately show ?thesis using NumV by (simp add: write_plain)
next
  case (StrV s)
  assume "strings_ok fine v"
  then show ?thesis using StrV quoted_string[of s] by (auto simp: write_plain json_space_def)
qed (auto simp: write_plain write_array write_object json_space_def)

lemma elements_written:
  assumes "\<And>v r. v \<in> set vs \<Longrightarrow> stops r \<Longrightarrow> parse_value d (emit v @ r) = Some (v, r)" "vs \<noteq> []"
  shows "elements d (str_join '','' (map emit vs) @ '']'' @ r) = Some (vs, r)"
  using assms
proof (induction vs)
  case (Cons v vs)
  show ?case
  proof (cases "vs = []")
    case True
    have "stops (CHR '']'' # r)" by (simp add: stops_def)
    then show ?thesis using True Cons(2) by (simp add: elements_eq skip_ws_stops)
  next
    case False
    have "stops (CHR '','' # s)" for s by (simp add: stops_def)
    then show ?thesis using False Cons by (subst elements_eq) (simp add: str_join_Cons skip_ws_stops apfst_def)
  qed
qed simp

lemma members_written:
  assumes "\<And>k v r. (k, v) \<in> set ms \<Longrightarrow> stops r \<Longrightarrow> parse_value d (emit v @ r) = Some (v, r)"
    "\<And>k v. (k, v) \<in> set ms \<Longrightarrow> fine k" "ms \<noteq> []"
  shows "object_members d (str_join '','' (map (\<lambda>(k, v). quote k @ '':'' @ emit v) ms) @ ''}'' @ r) = Some (ms, r)"
  using assms
proof (induction ms)
  case (Cons m ms)
  obtain k v where m: "m = (k, v)" by fastforce
  obtain b where b: "quote k = CHR 0x22 # b" "\<And>r. string_rest (b @ r) = Some (k, r)" using quoted_string[of k] Cons(3) m by auto
  have member: "object_members d (quote k @ '':'' @ emit v @ CHR ''}'' # u) = Some ([(k, v)], u)"
    "object_members d (quote k @ '':'' @ emit v @ CHR '','' # u) = map_option (apfst ((#) (k, v))) (object_members d u)" for u
    using Cons(2)[of k v "CHR ''}'' # u"] Cons(2)[of k v "CHR '','' # u"] m
    by (subst object_members.simps; simp add: b skip_ws_def json_space_def stops_def)+
  show ?case
  proof (cases "ms = []")
    case True
    then show ?thesis using member(1) m by simp
  next
    case False
    have "object_members d (str_join '','' (map (\<lambda>(k, v). quote k @ '':'' @ emit v) ms) @ ''}'' @ r) = Some (ms, r)"
      using Cons(1)[OF _ _ False] Cons(2,3)[OF list.set_intros(2)] by blast
    then show ?thesis using False m member(2) by (simp add: str_join_Cons apfst_def)
  qed
qed simp

lemma parse_written: "writable d v \<Longrightarrow> strings_ok fine v \<Longrightarrow> stops r \<Longrightarrow> parse_value d (emit v @ r) = Some (v, r)"
proof (induction v arbitrary: d r)
  case (ArrV vs)
  then obtain n where n: "d = Suc n" "list_all (writable n) vs" by (cases d) auto
  show ?case
  proof (cases "vs = []")
    case False
    have el: "elements n (str_join '','' (map emit vs) @ '']'' @ r) = Some (vs, r)"
      using ArrV(1,3) n(2) False by (intro elements_written) (auto simp: list_all_iff)
    obtain c t where c: "emit (hd vs) = c # t" "\<not> json_space c" "c \<noteq> CHR '']''"
      using write_start[of n "hd vs"] n(2) ArrV(3) False by (cases vs) auto
    have "\<exists>u. str_join '','' (map emit vs) = c # u" using c(1) False by (cases vs; cases "tl vs") (auto simp: str_join_Cons)
    then have "\<not> has_prefix (skip_ws (str_join '','' (map emit vs) @ '']'' @ r)) '']''" using c by (auto simp: skip_ws_def)
    then show ?thesis using n(1) el by (simp add: write_array parse_value.simps skip_ws_def json_space_def)
  qed (simp add: n(1) write_array parse_value.simps skip_ws_def json_space_def)
next
  case (ObjV ms)
  then obtain n where n: "d = Suc n" "list_all (\<lambda>(k, v). writable n v) ms" by (cases d) auto
  show ?case
  proof (cases "ms = []")
    case False
    let ?body = "str_join '','' (map (\<lambda>(k, v). quote k @ '':'' @ emit v) ms)"
    have el: "object_members n (?body @ ''}'' @ r) = Some (ms, r)"
      using ObjV(1,3) n(2) False by (intro members_written) (fastforce simp: list_all_iff)+
    have "\<exists>u. ?body = CHR 0x22 # u"
      using False ObjV(3) quoted_string[of "fst (hd ms)"] by (cases ms; cases "tl ms") (auto simp: str_join_Cons)
    then have "\<not> has_prefix (skip_ws (?body @ ''}'' @ r)) ''}''" by (auto simp: skip_ws_def json_space_def)
    then show ?thesis using n(1) el by (simp add: write_object parse_value.simps skip_ws_def json_space_def)
  qed (simp add: n(1) write_object parse_value.simps skip_ws_def json_space_def)
qed (simp_all add: write_plain parse_literal[simplified] parse_number parse_string)

lemma Unmarshal_written: "writable maxNestingDepth v \<Longrightarrow> strings_ok fine v \<Longrightarrow> Unmarshal (emit v) = Inr v"
  using parse_written[of maxNestingDepth v "[]"] by (simp add: Unmarshal_def stops_def skip_ws_def)

end

interpretation marshal: json_writer Marshal json_string "\<lambda>_. True"
  by unfold_locales (auto simp: json_string_def string_rest_json)

lemma strings_ok_any [simp]: "strings_ok (\<lambda>_. True) v"
  by (induction v) (auto simp: list_all_iff)

theorem Unmarshal_Marshal: "writable maxNestingDepth v \<Longrightarrow> Unmarshal (Marshal v) = Inr v"
  by (simp add: marshal.Unmarshal_written)

lemma writable_mono: "writable d v \<Longrightarrow> d \<le> d' \<Longrightarrow> writable d' v"
proof (induction v arbitrary: d d')
  case (ArrV vs)
  obtain n n' where "d = Suc n" "d' = Suc n'" using ArrV(2,3) by (cases d; cases d') auto
  then show ?case using ArrV(1)[of _ n n'] ArrV(2,3) by (simp add: list_all_iff)
next
  case (ObjV ms)
  obtain n n' where "d = Suc n" "d' = Suc n'" using ObjV(2,3) by (cases d; cases d') auto
  moreover have "writable n' v" if "(k, v) \<in> set ms" "writable n v" "n \<le> n'" for k v
    using ObjV(1)[of "(k, v)" v n n'] that by (simp add: snds.simps)
  ultimately show ?case using ObjV(2,3) by (auto simp: list_all_iff)
qed simp_all

section \<open>Text without escapes\<close>

text \<open>Code that puts JSON together by itself writes strings as they are. That is the text of the value when no
  string has a quote, a backslash or a control character.\<close>

definition plain_string :: "string \<Rightarrow> bool" where
  "plain_string s \<longleftrightarrow> list_all (\<lambda>c. c \<noteq> CHR 0x22 \<and> c \<noteq> backslash \<and> \<not> (of_char c :: nat) < 32) s"

definition unescaped_string :: "string \<Rightarrow> string" where
  "unescaped_string s = [CHR 0x22] @ s @ [CHR 0x22]"

fun unescaped_text :: "jvalue \<Rightarrow> string" where
  "unescaped_text (StrV s) = unescaped_string s"
| "unescaped_text (ArrV vs) = ''['' @ str_join '','' (map unescaped_text vs) @ '']''"
| "unescaped_text (ObjV ms) = ''{'' @ str_join '','' (map (\<lambda>(k, v). unescaped_string k @ '':'' @ unescaped_text v) ms) @ ''}''"
| "unescaped_text v = Marshal v"

lemma string_rest_plain: "plain_string s \<Longrightarrow> string_rest (s @ CHR 0x22 # r) = Some (s, r)"
  by (induction s) (simp_all add: plain_string_def)

interpretation unescaped: json_writer unescaped_text unescaped_string plain_string
  by unfold_locales (auto simp: unescaped_string_def string_rest_plain)

lemma dec_start: "0 < n \<Longrightarrow> hd (dec n) \<noteq> CHR ''0''"
proof (induction n rule: dec.induct)
  case (1 n)
  show ?case
  proof (cases "n < 10")
    case True
    have "\<forall>n\<in>set [1..<10]. digit_char n \<noteq> CHR ''0''" by code_simp
    then show ?thesis using 1(2) True by (simp add: dec.simps[of n])
  next
    case False
    then show ?thesis using 1(1) dec_not_Nil[of "n div 10"] by (simp add: dec.simps[of n] div_greater_zero_iff)
  qed
qed

lemma digits_dec: "digits (dec n) = Some (dec n, [])"
  using is_digit_dec[of _ n] dec_not_Nil[of n] by (simp add: digits_def Let_def takeWhile_eq_all_conv[THEN iffD2])

lemma is_number_itoa: "is_number (itoa i)"
proof -
  have int: "integer_part (dec n) = Some (dec n, [])" for n
  proof (cases "n = 0")
    case True
    moreover have "dec 0 = ''0''" by code_simp
    ultimately show ?thesis by (simp add: integer_part_def)
  next
    case False
    then show ?thesis using dec_start[of n] digits_dec[of n] by (cases "dec n") (auto simp: integer_part_def)
  qed
  have "\<not> has_prefix (dec n) ''-''" for n
    using is_digit_dec[of "CHR ''-''" n] by (cases "dec n") (auto simp: digit_tests)
  then show ?thesis
    by (simp add: is_number_def itoa_def number_def then_part_def int fraction_part_def exponent_part_def)
qed

end
