(* ===== verification/AqlDocument.thy ===== *)
theory AqlDocument
  imports Aql JsonParser
begin

text \<open>
  What the query bodies of \<^verbatim>\<open>Aql\<close> are the texts of: the document with the conditions of a file specification.
\<close>

lemma unescaped_quoted [simp]: "unescaped_string s = quoted s"
  by (simp add: quoted_def unescaped_string_def)

section \<open>The document a query is the text of\<close>

definition member_text :: "string \<times> jvalue \<Rightarrow> string" where
  "member_text m = quoted (fst m) @ '':'' @ unescaped_text (snd m)"

text \<open>The parts of a query body: lists of members, one for each part of the code.\<close>

definition value_doc :: "string \<Rightarrow> jvalue" where
  "value_doc v = (if str_contains v ''*'' then ObjV [(''$match'', StrV v)] else StrV v)"

definition props_doc :: "properties \<Rightarrow> properties \<Rightarrow> members" where
  "props_doc props excluded =
     map (\<lambda>(k, vs). (''$and'', ArrV (map (\<lambda>v. ObjV [(''@'' @ k, value_doc v)]) vs))) props @
     (if excluded = [] then []
      else [(''$or'', ArrV (concat (map (\<lambda>(k, vs). map (\<lambda>v. ObjV [(''@'' @ k, ObjV [(''$ne'', value_doc v)])]) vs) excluded)))])"

definition exclude_doc :: "bool \<Rightarrow> RepoPathFile \<Rightarrow> string \<times> jvalue" where
  "exclude_doc useLocalPath t =
     (''$or'', ArrV [ObjV ((if rpf_repo t \<noteq> [] \<and> rpf_repo t \<noteq> ''*'' then [(''repo'', ObjV [(''$nmatch'', StrV (rpf_repo t))])] else []) @
       [(''path'', ObjV [(''$nmatch'', StrV (if \<not> useLocalPath \<and> rpf_path t = ''.'' then ''*'' else rpf_path t))]),
        (''name'', ObjV [(''$nmatch'', StrV (rpf_file t))])])])"

definition bundle_doc :: "string \<times> string \<Rightarrow> members" where
  "bundle_doc nv = (if fst nv = [] then []
     else [(''$and'', ArrV [ObjV [(''release_artifact.release.name'', value_doc (fst nv)),
                                 (''release_artifact.release.version'', value_doc (snd nv))]])])"

definition triple_members :: "RepoPathFile \<Rightarrow> members" where
  "triple_members t = [(''repo'', value_doc (rpf_repo t)), (''path'', value_doc (rpf_path t)), (''name'', value_doc (rpf_file t))]"

definition triples_doc :: "RepoPathFile list \<Rightarrow> RepoPathFile list \<Rightarrow> jvalue list" where
  "triples_doc ts archive =
     map (\<lambda>ms. ObjV [(''$and'', ArrV [ObjV ms])])
       (if archive = [] then map triple_members ts
        else concat (map (\<lambda>t. map (\<lambda>a. triple_members t @
               [(''archive.entry.path'', value_doc (rpf_path a)), (''archive.entry.name'', value_doc (rpf_file a))]) archive) ts))"

definition body_doc ::
  "(properties \<Rightarrow> properties) \<Rightarrow> CommonParams \<Rightarrow> string \<Rightarrow> RepoPathFile list \<Rightarrow> properties \<Rightarrow> properties \<Rightarrow>
   RepoPathFile list \<Rightarrow> string \<times> string \<Rightarrow> jvalue" where
  "body_doc iteration params searchPattern ts props excludeProps excl nv =
     ObjV (props_doc (iteration props) (iteration excludeProps) @
           (if IncludeDirs params then [(''type'', StrV ''any'')] else []) @
           (if ts = [] \<or> count_list searchPattern CHR ''/'' < 2 then [] else [(''path'', ObjV [(''$ne'', StrV ''.'')])]) @
           map (exclude_doc (ts = [] \<or> Recursive params)) excl @
           bundle_doc nv @
           [(''$or'', ArrV (triples_doc ts (createArchiveSearchParams params)))])"

lemma document_text: "unescaped_text (ObjV ms) = ''{'' @ str_join '','' (map member_text ms) @ ''}''"
  by (simp add: member_text_def[abs_def] split_def)

lemma getAqlValue_doc: "getAqlValue v = unescaped_text (value_doc v)"
  by (simp add: getAqlValue_def value_doc_def)

lemma comma_loop_join: "comma_loop part xs query = query @ str_join '','' (map part xs)"
  by (induction part xs query rule: comma_loop.induct) (auto simp: str_join_Cons)

text \<open>Members written with a trailing comma.\<close>

definition members_text :: "members \<Rightarrow> string" where
  "members_text ms = concat (map (\<lambda>m. member_text m @ '','') ms)"

lemma members_text_append [simp]: "members_text (a @ b) = members_text a @ members_text b"
  by (simp add: members_text_def)

lemma members_text_Nil [simp]: "members_text [] = []"
  by (simp add: members_text_def)

lemma members_text_Cons: "members_text (m # ms) = member_text m @ '','' @ members_text ms"
  by (simp add: members_text_def)

lemma document_members: "unescaped_text (ObjV (ms @ [m])) = ''{'' @ members_text ms @ member_text m @ ''}''"
proof -
  have "str_join '','' (map member_text (ms @ [m])) = members_text ms @ member_text m"
    by (induction ms) (simp_all add: members_text_Cons str_join_Cons)
  then show ?thesis by (simp only: document_text append_assoc)
qed

lemma key_all_text: "buildKeyAllValQueryPart k vs = member_text (''$and'', ArrV (map (\<lambda>v. ObjV [(''@'' @ k, value_doc v)]) vs))"
  by (simp add: buildKeyAllValQueryPart_def member_text_def getAqlValue_doc comp_def)

lemma props_text:
  "foldl (\<lambda>q (key, vs). q @ buildKeyAllValQueryPart key vs @ '','') s ps =
     s @ members_text (map (\<lambda>(k, vs). (''$and'', ArrV (map (\<lambda>v. ObjV [(''@'' @ k, value_doc v)]) vs))) ps)"
  by (induction ps arbitrary: s) (auto simp: members_text_Cons key_all_text)

lemma exclude_values_text:
  "foldl (\<lambda>q v. q @ ''{'' @ buildExcludedKeyValQueryPart k v @ ''},'') s vs =
     s @ concat (map (\<lambda>v. unescaped_text (ObjV [(''@'' @ k, ObjV [(''$ne'', value_doc v)])]) @ '','') vs)"
  by (induction vs arbitrary: s) (auto simp: buildExcludedKeyValQueryPart_def getAqlValue_doc)

lemma exclude_props_text:
  "foldl (\<lambda>q (key, vs). foldl (\<lambda>q v. q @ ''{'' @ buildExcludedKeyValQueryPart key v @ ''},'') q vs) s ps =
     s @ concat (map (\<lambda>d. unescaped_text d @ '','')
           (concat (map (\<lambda>(k, vs). map (\<lambda>v. ObjV [(''@'' @ k, ObjV [(''$ne'', value_doc v)])]) vs) ps)))"
proof (induction ps arbitrary: s)
  case (Cons p ps)
  obtain k vs where p: "p = (k, vs)" by (cases p)
  show ?case
    unfolding p foldl_Cons prod.case Cons.IH
    unfolding exclude_values_text
    by (simp only: list.map concat.simps map_append concat_append append_assoc map_map comp_def prod.case)
qed simp

lemma trim_comma: "trim_suffix (s @ ''['' @ concat (map (\<lambda>d. f d @ '','') ds)) '','' = s @ ''['' @ str_join '','' (map f ds)"
proof (cases "ds = []")
  case True
  then show ?thesis by (simp add: trim_suffix_def has_suffix_single)
next
  case False
  then have "concat (map (\<lambda>d. f d @ '','') ds) = str_join '','' (map f ds) @ '',''"
    using concat_sep_suffix[of "map f ds" "'',''"] by (simp add: comp_def)
  then have "s @ ''['' @ concat (map (\<lambda>d. f d @ '','') ds) = (s @ ''['' @ str_join '','' (map f ds)) @ '',''" by simp
  then show ?thesis by (simp only: trim_suffix_append)
qed

lemma excluded_member_text:
  assumes "ps \<noteq> []"
  shows "trim_suffix (foldl (\<lambda>q (key, vs). foldl (\<lambda>q v. q @ ''{'' @ buildExcludedKeyValQueryPart key v @ ''},'') q vs)
      (quoted ''$or'' @ '':['') ps) '','' @ ''],'' = members_text [(''$or'', ArrV (concat (map (\<lambda>(k, vs).
        map (\<lambda>v. ObjV [(''@'' @ k, ObjV [(''$ne'', value_doc v)])]) vs) ps)))]"
proof -
  have "(quoted ''$or'' @ '':['') = (quoted ''$or'' @ '':'') @ ''[''" by simp
  then show ?thesis
    unfolding exclude_props_text by (simp only: append_assoc trim_comma[of "quoted ''$or'' @ '':''", unfolded append_assoc])
      (simp add: members_text_def member_text_def)
qed

lemma buildPropsQueryPart_doc:
  assumes "\<And>ps. iteration ps = [] \<longleftrightarrow> ps = []"
  shows "buildPropsQueryPart iteration props excludeProps =
     (case ParseProperties props of
        (Some e, _) \<Rightarrow> Inl e
      | (None, ps) \<Rightarrow> (case ParseProperties excludeProps of
          (Some e, _) \<Rightarrow> Inl e
        | (None, xs) \<Rightarrow> Inr (members_text (props_doc (iteration ps) (iteration xs)))))"
proof -
  have "(if KeysLen xs > 0 then trim_suffix (foldl (\<lambda>q (key, vs).
           foldl (\<lambda>q v. q @ ''{'' @ buildExcludedKeyValQueryPart key v @ ''},'') q vs) (quoted ''$or'' @ '':['') (iteration (ToMap xs))) '','' @ ''],''
         else []) = members_text (if iteration xs = [] then []
      else [(''$or'', ArrV (concat (map (\<lambda>(k, vs). map (\<lambda>v. ObjV [(''@'' @ k, ObjV [(''$ne'', value_doc v)])]) vs) (iteration xs))))])" for xs
    using assms excluded_member_text[of "iteration xs"] by (simp add: KeysLen_def ToMap_def del: foldl_Cons)
  note excluded = this
  obtain e1 ps where 1: "ParseProperties props = (e1, ps)" by fastforce
  obtain e2 xs where 2: "ParseProperties excludeProps = (e2, xs)" by fastforce
  have "foldl (\<lambda>q (key, vs). q @ buildKeyAllValQueryPart key vs @ '','') [] (iteration (ToMap ps)) @
      (if KeysLen xs > 0 then trim_suffix (foldl (\<lambda>q (key, vs).
           foldl (\<lambda>q v. q @ ''{'' @ buildExcludedKeyValQueryPart key v @ ''},'') q vs) (quoted ''$or'' @ '':['') (iteration (ToMap xs))) '','' @ ''],''
         else []) = members_text (props_doc (iteration ps) (iteration xs))"
    unfolding excluded unfolding props_text props_doc_def members_text_append by (simp only: append_Nil ToMap_def)
  then show ?thesis
    unfolding buildPropsQueryPart_def Let_def 1 2 by (cases e1; cases e2) (simp_all only: prod.case option.case)
qed

lemma exclude_part_doc: "exclude_part useLocalPath t = members_text [exclude_doc useLocalPath t]"
  by (simp add: exclude_part_def exclude_doc_def members_text_def member_text_def Let_def)

lemma exclude_parts_doc: "foldl (\<lambda>q t. q @ exclude_part b t) [] ts = members_text (map (exclude_doc b) ts)"
  unfolding foldl_append by (simp add: members_text_def exclude_part_doc comp_def)

lemma triples_text:
  "handleRepoPathFileTriples ts archive = str_join '','' (map unescaped_text (triples_doc ts archive))"
proof -
  have inner: "buildInnerQueryPart t = unescaped_text (ObjV [(''$and'', ArrV [ObjV (triple_members t)])])" for t
    by (simp add: buildInnerQueryPart_def triple_members_def getAqlValue_doc)
  have "buildInnerArchiveQueryPart t (rpf_path a) (rpf_file a) = unescaped_text (ObjV [(''$and'', ArrV [ObjV (triple_members t @
      [(''archive.entry.path'', value_doc (rpf_path a)), (''archive.entry.name'', value_doc (rpf_file a))])])])" for t a :: RepoPathFile
    by (simp add: buildInnerArchiveQueryPart_def triple_members_def getAqlValue_doc)
  then have arch: "handleArchiveSearch t archive = str_join '','' (map unescaped_text (map (\<lambda>ms. ObjV [(''$and'', ArrV [ObjV ms])])
      (map (\<lambda>a. triple_members t @ [(''archive.entry.path'', value_doc (rpf_path a)),
        (''archive.entry.name'', value_doc (rpf_file a))]) archive)))" for t
    by (simp only: handleArchiveSearch_def comma_loop_join map_map comp_def append_Nil)
  show ?thesis
  proof (cases "archive = []")
    case True
    then show ?thesis
      by (simp add: handleRepoPathFileTriples_def comma_loop_join triples_doc_def inner comp_def)
  next
    case False
    let ?d = "\<lambda>t. map unescaped_text (map (\<lambda>ms. ObjV [(''$and'', ArrV [ObjV ms])])
      (map (\<lambda>a. triple_members t @ [(''archive.entry.path'', value_doc (rpf_path a)),
        (''archive.entry.name'', value_doc (rpf_file a))]) archive))"
    have "handleRepoPathFileTriples ts archive = str_join '','' (map (str_join '','') (map ?d ts))"
      using False by (simp only: handleRepoPathFileTriples_def comma_loop_join arch) (simp add: comp_def)
    also have "\<dots> = str_join '','' (concat (map ?d ts))"
      using False by (intro join_joins) auto
    also have "concat (map ?d ts) = map unescaped_text (triples_doc ts archive)"
      using False by (simp add: triples_doc_def map_concat comp_def)
    finally show ?thesis .
  qed
qed

lemma bundle_text:
  "buildReleaseBundleQuery params =
     and_then (ParseNameAndVersion (Bundle params) False) (\<lambda>nv. Inr (members_text (bundle_doc nv)))"
  unfolding buildReleaseBundleQuery_def
  by (cases "ParseNameAndVersion (Bundle params) False")
    (auto simp: bundle_doc_def members_text_def member_text_def getAqlValue_doc split_def)

lemma writable_value: "writable (Suc d) (value_doc v)"
  by (simp add: value_doc_def)

lemma writable_body: "writable maxNestingDepth (body_doc iteration params pat ts props xs excl nv)"
proof -
  have deep: "writable 6 (body_doc iteration params pat ts props xs excl nv)"
    by (auto simp: body_doc_def props_doc_def exclude_doc_def bundle_doc_def triples_doc_def triple_members_def list_all_iff
        eval_nat_numeral writable_value split: if_splits)
  show ?thesis by (rule writable_mono[OF deep]) (simp add: maxNestingDepth_def)
qed

text \<open>C7: a body that is built comes from one JSON document: the properties, the item type, the
  exclusions and the bundle as members, and the alternatives of the pattern under \<open>$or\<close>, whatever
  parts are empty and in whatever order Go iterates over its maps. It is the text of the document with its strings
  unescaped; a parser of JSON reads the document from it when none of the strings has a quote, a backslash or a control
  character.\<close>

theorem CreateAqlBodyForSpecWithPattern_document:
  assumes "CreateAqlBodyForSpecWithPattern iteration params = Inr body" "\<And>ps. iteration ps = [] \<longleftrightarrow> ps = []"
  shows "\<exists>pat ts single props xs excl nv.
    prepareSourceSearchPattern (Pattern params) (Target params) = Inr pat \<and>
    createRepoPathFileTriples pat (Recursive params) = Inr (ts, single) \<and> (Transitive params \<longrightarrow> single) \<and>
    ParseProperties (cp_Props params) = (None, props) \<and> ParseProperties (ExcludeProps params) = (None, xs) \<and>
    exclude_triples (Exclusions params) (Recursive params) = Inr excl \<and>
    ParseNameAndVersion (Bundle params) False = Inr nv \<and>
    body = unescaped_text (body_doc iteration params pat ts props xs excl nv) \<and>
    (strings_ok plain_string (body_doc iteration params pat ts props xs excl nv) \<longrightarrow>
      Unmarshal body = Inr (body_doc iteration params pat ts props xs excl nv))"
proof -
  obtain pat ts single p x b where run:
    "prepareSourceSearchPattern (Pattern params) (Target params) = Inr pat"
    "createRepoPathFileTriples pat (Recursive params) = Inr (ts, single)" "Transitive params \<longrightarrow> single"
    "buildPropsQueryPart iteration (cp_Props params) (ExcludeProps params) = Inr p"
    "buildExcludeQueryPart params (ts = [] \<or> Recursive params) (Recursive params) = Inr x"
    "buildReleaseBundleQuery params = Inr b" and
    body: "body = ''{'' @ p @ buildItemTypeQueryPart params @ buildNePathPart (ts = [] \<or> count_list pat CHR ''/'' < 2) @ x @ b @
      quoted ''$or'' @ '':['' @ handleRepoPathFileTriples ts (createArchiveSearchParams params) @ '']}''"
    using assms(1) unfolding CreateAqlBodyForSpecWithPattern_def Let_def
    by (auto simp: and_then_eq_Inr split: if_splits)
  from run(4) obtain props xs where props: "ParseProperties (cp_Props params) = (None, props)"
    "ParseProperties (ExcludeProps params) = (None, xs)" "p = members_text (props_doc (iteration props) (iteration xs))"
    unfolding buildPropsQueryPart_doc[of iteration, OF assms(2)] by (auto split: prod.splits option.splits)
  from run(5) obtain excl where excl: "exclude_triples (Exclusions params) (Recursive params) = Inr excl"
    "x = members_text (map (exclude_doc (ts = [] \<or> Recursive params)) excl)"
    unfolding buildExcludeQueryPart_def exclude_parts_doc by (auto simp: and_then_eq_Inr)
  from run(6) obtain nv where nv: "ParseNameAndVersion (Bundle params) False = Inr nv" "b = members_text (bundle_doc nv)"
    unfolding bundle_text by (auto simp: and_then_eq_Inr)
  have type: "buildItemTypeQueryPart params = members_text (if IncludeDirs params then [(''type'', StrV ''any'')] else [])"
    by (simp add: buildItemTypeQueryPart_def members_text_def member_text_def)
  have ne: "buildNePathPart c = members_text (if c then [] else [(''path'', ObjV [(''$ne'', StrV ''.'')])])" for c
    by (simp add: buildNePathPart_def members_text_def member_text_def)
  have or: "quoted ''$or'' @ '':['' @ handleRepoPathFileTriples ts a @ '']}'' = member_text (''$or'', ArrV (triples_doc ts a)) @ ''}''" for a
    by (simp add: member_text_def triples_text)
  have "body = unescaped_text (body_doc iteration params pat ts props xs excl nv)"
    unfolding body props(3) excl(2) nv(2) type ne or body_doc_def append_assoc[symmetric]
    unfolding document_members by (simp only: members_text_append append_assoc or)
  then show ?thesis using run(1-3) props(1,2) excl(1) nv(1) unescaped.Unmarshal_written[OF writable_body] by metis
qed

theorem CreateAqlBodyForSpecWithPattern_document_witness:
  "\<exists>body. CreateAqlBodyForSpecWithPattern (\<lambda>ps. ps) (zero_params\<lparr>Pattern := ''r/f''\<rparr>) = Inr body \<and>
     Unmarshal body = Inr (ObjV [(''$or'', ArrV [ObjV [(''$and'', ArrV [ObjV [(''repo'', StrV ''r''), (''path'', StrV ''.''), (''name'', StrV ''f'')]])]])])"
proof -
  let ?p = "zero_params\<lparr>Pattern := ''r/f''\<rparr>"
  have src: "prepareSourceSearchPattern ''r/f'' [] = Inr ''r/f''" by code_simp
  have triples: "createRepoPathFileTriples ''r/f'' False = Inr ([\<lparr>rpf_repo = ''r'', rpf_path = ''.'', rpf_file = ''f''\<rparr>], True)"
    by code_simp
  have "\<exists>body. CreateAqlBodyForSpecWithPattern (\<lambda>ps. ps) ?p = Inr body"
    by (simp add: CreateAqlBodyForSpecWithPattern_def zero_params_def src triples buildPropsQueryPart_def
        ParseProperties_def ParseAndAddProperties_def splitWhileIgnoringBackslashPrefixSeparators_def
        buildExcludeQueryPart_def buildReleaseBundleQuery_def ParseNameAndVersion_def Let_def)
  then obtain body where body: "CreateAqlBodyForSpecWithPattern (\<lambda>ps. ps) ?p = Inr body" ..
  let ?doc = "body_doc (\<lambda>ps. ps) ?p ''r/f'' [\<lparr>rpf_repo = ''r'', rpf_path = ''.'', rpf_file = ''f''\<rparr>] [] [] [] ([], [])"
  have doc: "?doc = ObjV [(''$or'', ArrV [ObjV [(''$and'', ArrV [ObjV [(''repo'', StrV ''r''), (''path'', StrV ''.''), (''name'', StrV ''f'')]])]])]"
    by code_simp
  have "strings_ok plain_string ?doc \<longrightarrow> Unmarshal body = Inr ?doc"
    using CreateAqlBodyForSpecWithPattern_document[OF body]
    by (auto simp: zero_params_def src triples ParseProperties_def ParseAndAddProperties_def ParseNameAndVersion_def
        splitWhileIgnoringBackslashPrefixSeparators_def NewProperties_def removeDuplicateValues_def)
  moreover have "strings_ok plain_string ?doc" unfolding doc by code_simp
  ultimately show ?thesis using body doc by auto
qed

end
