(* ===== verification/Content.thy ===== *)
theory Content
  imports Retry "HOL-Library.Multiset"
begin

text \<open>
  \<^verbatim>\<open>utils/io/content/contentreader.go\<close> and \<^verbatim>\<open>contentwriter.go\<close>: arrays of records kept in files.

  A file that a reader opens gives the records of its array, up to the first one that cannot be
  decoded; what it gives is a pair of the records and the error. Opening, tokenising and decoding
  JSON is the library's part. The goroutine of a reader pushes the records of all files, in order,
  into a channel that is closed at the end: \<open>NextRecord\<close> takes the next one or sees the end.
\<close>

section \<open>Reader\<close>

type_synonym 'a source = "'a list \<times> go_error list"

record 'a ContentReader =
  cr_files :: "'a source list"
  cr_pos :: nat
  cr_started :: bool
  cr_length :: int
  cr_errors :: "go_error ErrorsQueue"
  cr_empty :: bool

datatype read_error = EOF | ReadError go_error

definition MaxBufferSize :: nat where
  "MaxBufferSize = 50000"

definition NewMultiSourceContentReader :: "'a source list \<Rightarrow> 'a ContentReader" where
  "NewMultiSourceContentReader filePaths =
     \<lparr>cr_files = filePaths, cr_pos = 0, cr_started = False, cr_length = 0,
      cr_errors = NewErrorsQueue (int MaxBufferSize), cr_empty = (length filePaths = 0)\<rparr>"

text \<open>\<open>None\<close> stands for the empty path, for which no file exists.\<close>

definition NewContentReader :: "'a source option \<Rightarrow> 'a ContentReader" where
  "NewContentReader filePath =
     (let self = NewMultiSourceContentReader (case filePath of None \<Rightarrow> [([], [])] | Some f \<Rightarrow> [f])
      in self\<lparr>cr_empty := (filePath = None)\<rparr>)"

definition NewEmptyContentReader :: "'a ContentReader" where
  "NewEmptyContentReader = NewContentReader None"

definition cr_IsEmpty :: "'a ContentReader \<Rightarrow> bool" where
  "cr_IsEmpty cr = cr_empty cr"

text \<open>What \<open>run\<close> pushes, and the errors it adds to the queue: a file that fails does not stop the next.\<close>

definition run_records :: "'a ContentReader \<Rightarrow> 'a list" where
  "run_records cr = concat (map fst (cr_files cr))"

definition run_errors :: "'a ContentReader \<Rightarrow> go_error list" where
  "run_errors cr = concat (map snd (cr_files cr))"

definition reader_start :: "'a ContentReader \<Rightarrow> 'a ContentReader" where
  "reader_start cr =
     (if cr_started cr then cr
      else cr\<lparr>cr_started := True, cr_length := 0, cr_errors := fold AddError (run_errors cr) (cr_errors cr)\<rparr>)"

text \<open>\<open>convert\<close> is \<open>ConvertToStruct\<close> into the type of the caller's record.\<close>

definition NextRecord :: "('a \<Rightarrow> 'b result) \<Rightarrow> 'a ContentReader \<Rightarrow> (read_error + 'b) \<times> 'a ContentReader" where
  "NextRecord convert cr =
     (if cr_empty cr then (Inl (ReadError (Err ''Empty'')), cr)
      else let cr = reader_start cr
           in if cr_pos cr < length (run_records cr)
              then let record = run_records cr ! cr_pos cr;
                       cr = cr\<lparr>cr_pos := cr_pos cr + 1\<rparr>
                   in case convert record of
                        Inl e \<Rightarrow> (Inl (ReadError e), cr\<lparr>cr_errors := AddError e (cr_errors cr)\<rparr>)
                      | Inr r \<Rightarrow> (Inr r, cr\<lparr>cr_length := cr_length cr + 1\<rparr>)
              else (Inl EOF, cr))"

definition Reset :: "'a ContentReader \<Rightarrow> 'a ContentReader" where
  "Reset cr = cr\<lparr>cr_pos := 0, cr_started := False\<rparr>"

definition cr_GetError :: "'a ContentReader \<Rightarrow> go_error option \<times> 'a ContentReader" where
  "cr_GetError cr = (let (e, q) = GetError (cr_errors cr) in (e, cr\<lparr>cr_errors := q\<rparr>))"

text \<open>The loop \<open>for item := new(T); reader.NextRecord(item) == nil; item = new(T)\<close>: the records it sees.\<close>

function (sequential) read_loop :: "('a \<Rightarrow> 'b result) \<Rightarrow> 'a ContentReader \<Rightarrow> 'b list \<times> 'a ContentReader" where
  "read_loop convert cr =
     (case NextRecord convert cr of
        (Inl _, cr') \<Rightarrow> ([], cr')
      | (Inr r, cr') \<Rightarrow> let (rs, cr'') = read_loop convert cr' in (r # rs, cr''))"
  by pat_completeness auto
termination
  by (relation "measure (\<lambda>(convert, cr). length (run_records cr) - cr_pos cr)")
    (auto simp: NextRecord_def reader_start_def run_records_def Let_def split: if_splits sum.splits)

declare read_loop.simps [simp del]

definition Length :: "'a ContentReader \<Rightarrow> int result \<times> 'a ContentReader" where
  "Length cr =
     (if cr_empty cr then (Inr 0, cr)
      else if cr_length cr = 0
      then let cr = Reset (snd (read_loop (Inr :: 'a \<Rightarrow> 'a result) cr))
           in case cr_GetError cr of (Some e, cr) \<Rightarrow> (Inl e, cr) | (None, cr) \<Rightarrow> (Inr (cr_length cr), cr)
      else (Inr (cr_length cr), cr))"

section \<open>Writer\<close>

text \<open>A writer that completes: the records written, in order. The path of a writer that never wrote is
  empty, so the reader on it is the empty reader.\<close>

record 'a ContentWriter =
  cw_records :: "'a list"

definition NewContentWriter :: "'a ContentWriter" where
  "NewContentWriter = \<lparr>cw_records = []\<rparr>"

definition Write :: "'a \<Rightarrow> 'a ContentWriter \<Rightarrow> 'a ContentWriter" where
  "Write r cw = cw\<lparr>cw_records := cw_records cw @ [r]\<rparr>"

definition cw_IsEmpty :: "'a ContentWriter \<Rightarrow> bool" where
  "cw_IsEmpty cw \<longleftrightarrow> cw_records cw = []"

definition reader_of :: "'a ContentWriter \<Rightarrow> 'a ContentReader" where
  "reader_of cw = NewContentReader (if cw_IsEmpty cw then None else Some (cw_records cw, []))"

text \<open>The text of the file: \<open>encode\<close> is the library's encoder with indentation, its trailing newline removed.\<close>

fun writer_loop :: "('a \<Rightarrow> string) \<Rightarrow> 'a list \<Rightarrow> string \<Rightarrow> string \<Rightarrow> string \<times> string" where
  "writer_loop encode [] recordPrefix closeString = ([], closeString)"
| "writer_loop encode (r # rs) recordPrefix closeString =
     (let first = (closeString = []);
          (out, close) = writer_loop encode rs (if first then '','' @ recordPrefix else recordPrefix)
                           (if first then [CHR 0x0A, CHR '' '', CHR '' ''] else closeString)
      in (recordPrefix @ encode r @ out, close))"

definition writer_file :: "string \<Rightarrow> bool \<Rightarrow> ('a \<Rightarrow> string) \<Rightarrow> 'a list \<Rightarrow> string" where
  "writer_file arrayKey isCompleteFile encode rs =
     (let openString = ''  '' @ [CHR 0x22] @ arrayKey @ [CHR 0x22] @ '': ['';
          openString = (if isCompleteFile then [CHR ''{'', CHR 0x0A] @ openString else openString);
          (out, closeString) = writer_loop encode rs ([CHR 0x0A] @ ''    '') [];
          closeString = closeString @ '']'' @ [CHR 0x0A]
      in openString @ out @ (if isCompleteFile then closeString @ ''}'' @ [CHR 0x0A] else closeString))"

section \<open>Reading everything\<close>

text \<open>The prefix of the records that convert.\<close>

fun good_prefix :: "('a \<Rightarrow> 'b result) \<Rightarrow> 'a list \<Rightarrow> 'b list" where
  "good_prefix convert [] = []"
| "good_prefix convert (r # rs) = (case convert r of Inl _ \<Rightarrow> [] | Inr x \<Rightarrow> x # good_prefix convert rs)"

lemma reader_start_simps [simp]:
  "run_records (reader_start cr) = run_records cr" "cr_pos (reader_start cr) = cr_pos cr"
  "cr_empty (reader_start cr) = cr_empty cr" "cr_files (reader_start cr) = cr_files cr" "cr_started (reader_start cr)"
  by (simp_all add: reader_start_def run_records_def)

lemma reader_start_idem: "cr_started cr \<Longrightarrow> reader_start cr = cr"
  by (simp add: reader_start_def)

lemma run_records_update [simp]:
  "run_records (cr\<lparr>cr_pos := p\<rparr>) = run_records cr" "run_records (cr\<lparr>cr_length := n\<rparr>) = run_records cr"
  "run_records (cr\<lparr>cr_errors := q\<rparr>) = run_records cr" "run_records (cr\<lparr>cr_started := b\<rparr>) = run_records cr"
  by (simp_all add: run_records_def)

lemma NextRecord_record:
  assumes "\<not> cr_empty cr" "cr_pos cr < length (run_records cr)"
  shows "NextRecord convert cr =
    (let c = (reader_start cr)\<lparr>cr_pos := cr_pos cr + 1\<rparr>
     in case convert (run_records cr ! cr_pos cr) of
          Inl e \<Rightarrow> (Inl (ReadError e), c\<lparr>cr_errors := AddError e (cr_errors c)\<rparr>)
        | Inr r \<Rightarrow> (Inr r, c\<lparr>cr_length := cr_length c + 1\<rparr>))"
  using assms by (simp add: NextRecord_def Let_def)

lemma read_loop_records:
  "\<not> cr_empty cr \<Longrightarrow> fst (read_loop convert cr) = good_prefix convert (drop (cr_pos cr) (run_records cr))"
proof (induction "length (run_records cr) - cr_pos cr" arbitrary: cr)
  case 0
  then show ?case by (simp add: read_loop.simps[of _ cr] NextRecord_def Let_def)
next
  case (Suc n)
  then have lt: "cr_pos cr < length (run_records cr)" by simp
  then have d: "drop (cr_pos cr) (run_records cr) = run_records cr ! cr_pos cr # drop (cr_pos cr + 1) (run_records cr)"
    by (simp add: Cons_nth_drop_Suc)
  show ?case
  proof (cases "convert (run_records cr ! cr_pos cr)")
    case (Inl e)
    then show ?thesis
      using Suc.prems lt by (simp add: read_loop.simps[of _ cr] NextRecord_record d Let_def)
  next
    case (Inr r)
    let ?c = "(reader_start cr)\<lparr>cr_pos := cr_pos cr + 1\<rparr>"
    let ?c' = "?c\<lparr>cr_length := cr_length ?c + 1\<rparr>"
    have "fst (read_loop convert ?c') = good_prefix convert (drop (cr_pos ?c') (run_records ?c'))"
      using Suc by (intro Suc.hyps(1)) simp_all
    then show ?thesis
      using Suc.prems lt Inr by (simp add: read_loop.simps[of _ cr] NextRecord_record d Let_def split_def)
  qed
qed

lemma good_prefix_Inr [simp]: "good_prefix Inr rs = rs"
  by (induction rs) simp_all

text \<open>After a loop with a conversion that cannot fail the counter has grown by what was read.\<close>

lemma read_loop_Inr:
  "\<not> cr_empty cr \<Longrightarrow> cr_pos cr \<le> length (run_records cr) \<Longrightarrow>
   snd (read_loop Inr cr) = (reader_start cr)\<lparr>cr_pos := length (run_records cr),
     cr_length := cr_length (reader_start cr) + int (length (run_records cr) - cr_pos cr)\<rparr>"
proof (induction "length (run_records cr) - cr_pos cr" arbitrary: cr)
  case 0
  then show ?case by (simp add: read_loop.simps[of _ cr] NextRecord_def Let_def)
next
  case (Suc n)
  then have lt: "cr_pos cr < length (run_records cr)" by simp
  let ?c = "(reader_start cr)\<lparr>cr_pos := cr_pos cr + 1\<rparr>"
  let ?c' = "?c\<lparr>cr_length := cr_length ?c + 1\<rparr>"
  have "snd (read_loop Inr ?c') = (reader_start ?c')\<lparr>cr_pos := length (run_records ?c'),
     cr_length := cr_length (reader_start ?c') + int (length (run_records ?c') - cr_pos ?c')\<rparr>"
    using Suc lt by (intro Suc.hyps(1)) simp_all
  moreover have "reader_start ?c' = ?c'" by (rule reader_start_idem) simp
  ultimately show ?case
    using Suc.prems lt by (simp add: read_loop.simps[of _ cr] NextRecord_record Let_def split_def)
qed

text \<open>A reader that was just made gives all records of its files in order; its length is their
  number, and computing it leaves the reader as if untouched: the next loop gives all records again.\<close>

theorem Length_correct:
  assumes "files \<noteq> []" "concat (map snd files) = []"
  defines "cr \<equiv> NewMultiSourceContentReader files"
  shows "fst (Length cr) = Inr (int (length (concat (map fst files)))) \<and>
    fst (read_loop convert (snd (Length cr))) = good_prefix convert (concat (map fst files)) \<and>
    fst (read_loop convert cr) = good_prefix convert (concat (map fst files))"
proof -
  have cr: "\<not> cr_empty cr" "cr_pos cr = 0" "cr_length cr = 0" "\<not> cr_started cr" "errorsChan (cr_errors cr) = []"
    "run_records cr = concat (map fst files)" "run_errors cr = []"
    using assms by (simp_all add: NewMultiSourceContentReader_def NewErrorsQueue_def run_records_def run_errors_def)
  let ?c = "Reset (snd (read_loop Inr cr))"
  have c: "?c = cr\<lparr>cr_length := int (length (run_records cr)), cr_errors := cr_errors cr\<rparr>"
    using cr by (simp add: read_loop_Inr Reset_def reader_start_def)
  have ge: "cr_GetError ?c = (None, ?c)"
    by (simp add: cr_GetError_def GetError_def c cr(5))
  have "Length cr = (Inr (cr_length ?c), ?c)"
    unfolding Length_def Let_def ge using cr(1,3) by simp
  moreover have "\<not> cr_empty ?c" "cr_pos ?c = 0" "run_records ?c = run_records cr" "cr_length ?c = int (length (run_records cr))"
    using cr by (simp_all add: c)
  ultimately show ?thesis
    using cr read_loop_records[of cr convert] read_loop_records[of ?c convert] by simp
qed

theorem Length_correct_witness:
  "fst (Length (NewMultiSourceContentReader [([1, 2], []), ([3::nat], [])])) = Inr 3 \<and>
   fst (read_loop (Inr :: nat \<Rightarrow> nat result) (NewMultiSourceContentReader [([1, 2], []), ([3::nat], [])])) = [1, 2, 3]"
  using Length_correct[of "[([1, 2], []), ([3::nat], [])]" "Inr :: nat \<Rightarrow> nat result"] by simp

text \<open>The length of a reader that is being read is the number of records read so far, not the
  number of records.\<close>

theorem Length_partial:
  assumes "\<not> cr_empty cr" "cr_pos cr < length (run_records cr)" "\<not> cr_started cr \<or> 0 \<le> cr_length cr"
    "convert (run_records cr ! cr_pos cr) = Inr r"
  shows "fst (Length (snd (NextRecord convert cr))) = Inr (cr_length (reader_start cr) + 1)"
proof -
  have "0 \<le> cr_length (reader_start cr)" using assms(3) by (auto simp: reader_start_def)
  then show ?thesis using assms by (simp add: NextRecord_record Let_def Length_def)
qed

theorem Length_partial_witness:
  "fst (Length (snd (NextRecord (Inr :: nat \<Rightarrow> nat result) (NewMultiSourceContentReader [([1, 2, 3], [])])))) = Inr 1"
  using Length_partial[of "NewMultiSourceContentReader [([1, 2, 3], [])]" "Inr :: nat \<Rightarrow> nat result"]
  by (simp add: NewMultiSourceContentReader_def run_records_def reader_start_def)

section \<open>Sorting and merging\<close>

definition compareStrings :: "string \<Rightarrow> string \<Rightarrow> bool \<Rightarrow> bool" where
  "compareStrings src against ascendingOrder = (if ascendingOrder then src > against else src < against)"

text \<open>One reader of a merge: the record read ahead (\<open>currentContentItem[i]\<close>) and what the reader still
  gives before its end or first error (\<open>None\<close> once \<open>sortedFilesClone[i]\<close> is nil).\<close>

type_synonym 'a slot = "'a option \<times> 'a list option"

fun load_slot :: "'a slot \<Rightarrow> 'a slot \<times> bool" where
  "load_slot (None, Some []) = ((None, None), True)"
| "load_slot (None, Some (r # rs)) = ((Some r, Some rs), False)"
| "load_slot s = (s, False)"

text \<open>The inner loop from reader \<open>i\<close> on. The candidate carries its index; \<open>dedup\<close> tells the merge that
  drops a second record with the key of the candidate from the one that keeps it.\<close>

fun merge_scan :: "bool \<Rightarrow> ('a \<Rightarrow> string) \<Rightarrow> bool \<Rightarrow> 'a slot list \<Rightarrow> nat \<Rightarrow> ('a \<times> nat) option \<Rightarrow> ('a \<times> nat) option \<times> 'a slot list" where
  "merge_scan dedup key asc [] i cand = (cand, [])"
| "merge_scan dedup key asc (s # ss) i cand =
     (let ((cur, src), continue) = load_slot s
      in if continue
         then let (c, ss') = merge_scan dedup key asc ss (i + 1) cand in (c, (cur, src) # ss')
         else let cur = (case (cand, cur) of
                           (Some (c, _), Some r) \<Rightarrow> if dedup \<and> key c = key r then None else cur
                         | _ \<Rightarrow> cur);
                  cand = (case cand of
                            None \<Rightarrow> map_option (\<lambda>r. (r, i)) cur
                          | Some (c, j) \<Rightarrow>
                              (case cur of None \<Rightarrow> cand
                               | Some r \<Rightarrow> if compareStrings (key c) (key r) asc then Some (r, i) else cand));
                  (c, ss') = merge_scan dedup key asc ss (i + 1) cand
              in (c, (cur, src) # ss'))"

definition slot_contents :: "'a slot \<Rightarrow> 'a list" where
  "slot_contents s = (case fst s of None \<Rightarrow> [] | Some r \<Rightarrow> [r]) @ (case snd s of None \<Rightarrow> [] | Some rs \<Rightarrow> rs)"

lemma slot_contents_simps [simp]:
  "slot_contents (None, None) = []" "slot_contents (Some r, None) = [r]"
  "slot_contents (None, Some rs) = rs" "slot_contents (Some r, Some rs) = r # rs"
  by (simp_all add: slot_contents_def)

text \<open>One step of the inner loop.\<close>

definition scan_slot :: "bool \<Rightarrow> ('a \<Rightarrow> string) \<Rightarrow> 'a slot \<Rightarrow> ('a \<times> nat) option \<Rightarrow> 'a slot" where
  "scan_slot dedup key s cand =
     (let (cur, src) = fst (load_slot s)
      in (case (cand, cur) of (Some (c, _), Some r) \<Rightarrow> if dedup \<and> key c = key r then None else cur | _ \<Rightarrow> cur, src))"

definition scan_cand :: "('a \<Rightarrow> string) \<Rightarrow> bool \<Rightarrow> nat \<Rightarrow> 'a option \<Rightarrow> ('a \<times> nat) option \<Rightarrow> ('a \<times> nat) option" where
  "scan_cand key asc i cur cand =
     (case (cand, cur) of
        (None, _) \<Rightarrow> map_option (\<lambda>r. (r, i)) cur
      | (Some _, None) \<Rightarrow> cand
      | (Some (c, j), Some r) \<Rightarrow> if compareStrings (key c) (key r) asc then Some (r, i) else cand)"

lemma load_slot_contents: "slot_contents (fst (load_slot s)) = slot_contents s"
  by (cases s rule: load_slot.cases) simp_all

lemma load_slot_continue: "snd (load_slot s) \<longleftrightarrow> s = (None, Some [])"
  by (cases s rule: load_slot.cases) simp_all

lemma merge_scan_Cons:
  "merge_scan dedup key asc (s # ss) i cand =
     (let s' = scan_slot dedup key s cand; (c, ss') = merge_scan dedup key asc ss (i + 1) (scan_cand key asc i (fst s') cand)
      in (c, s' # ss'))"
proof (cases "s = (None, Some [])")
  case True
  then show ?thesis by (auto simp: scan_slot_def scan_cand_def split: prod.split option.split)
next
  case False
  then have "\<not> snd (load_slot s)" by (simp add: load_slot_continue)
  then show ?thesis
    by (auto simp: scan_slot_def scan_cand_def Let_def split_def split: option.split)
qed

lemma fst_scan_slot: "fst (scan_slot dedup key s cand) = Some r \<Longrightarrow> \<exists>rs. slot_contents s = r # rs"
  by (cases s rule: load_slot.cases) (auto simp: scan_slot_def slot_contents_def split: option.splits if_splits)

lemma scan_slot_size: "length (slot_contents (scan_slot dedup key s cand)) \<le> length (slot_contents s)"
  by (cases s rule: load_slot.cases) (auto simp: scan_slot_def slot_contents_def split: option.splits)

definition slots_size :: "'a slot list \<Rightarrow> nat" where
  "slots_size ss = length (concat (map slot_contents ss))"

lemma merge_scan_chosen:
  "merge_scan dedup key asc ss i cand = (c, ss') \<Longrightarrow>
     length ss' = length ss \<and> slots_size ss' \<le> slots_size ss \<and>
     (c = cand \<or> (\<exists>r j. c = Some (r, i + j) \<and> j < length ss \<and> fst (ss' ! j) = Some r))"
proof (induction ss arbitrary: i cand c ss')
  case Nil
  then show ?case by (simp add: slots_size_def)
next
  case (Cons s ss)
  let ?s = "scan_slot dedup key s cand"
  let ?cand = "scan_cand key asc i (fst ?s) cand"
  obtain ss1 where rec: "merge_scan dedup key asc ss (i + 1) ?cand = (c, ss1)" and ss': "ss' = ?s # ss1"
    using Cons.prems unfolding merge_scan_Cons Let_def by (auto split: prod.splits)
  note IH = Cons.IH[OF rec]
  have "?cand = cand \<or> (\<exists>r. ?cand = Some (r, i) \<and> fst ?s = Some r)"
    by (auto simp: scan_cand_def split: option.split)
  moreover have "slots_size ss' \<le> slots_size (s # ss)"
    using IH scan_slot_size[of dedup key s cand] by (simp add: ss' slots_size_def)
  ultimately show ?case
    using IH by (auto simp: ss' intro: exI[of _ "Suc _"])
qed

lemma drop_current_size:
  "j < length ss \<Longrightarrow> fst (ss ! j) = Some r \<Longrightarrow> slots_size (ss[j := (None, snd (ss ! j))]) < slots_size ss"
proof -
  assume j: "j < length ss" and r: "fst (ss ! j) = Some r"
  have "slots_size (ss[j := s]) = slots_size (take j ss) + length (slot_contents s) + slots_size (drop (Suc j) ss)" for s
    using j by (simp add: slots_size_def upd_conv_take_nth_drop)
  from this[of "ss ! j"] this[of "(None, snd (ss ! j))"] show ?thesis
    using r by (simp add: slot_contents_def)
qed

function (sequential) merge_loop :: "bool \<Rightarrow> ('a \<Rightarrow> string) \<Rightarrow> bool \<Rightarrow> 'a slot list \<Rightarrow> 'a list" where
  "merge_loop dedup key asc slots =
     (case merge_scan dedup key asc slots 0 None of
        (None, _) \<Rightarrow> []
      | (Some (r, j), slots') \<Rightarrow> r # merge_loop dedup key asc (slots'[j := (None, snd (slots' ! j))]))"
  by pat_completeness auto

termination
proof (relation "measure (\<lambda>(dedup, key, asc, slots). slots_size slots)")
  fix dedup :: bool and key :: "'a \<Rightarrow> string" and asc :: bool and slots slots' :: "'a slot list" and c r j and cj :: "'a \<times> nat"
  assume "(c, slots') = merge_scan dedup key asc slots 0 None" "c = Some cj" "(r, j) = cj"
  then have "j < length slots' \<and> slots_size slots' \<le> slots_size slots \<and> fst (slots' ! j) = Some r"
    using merge_scan_chosen[of dedup key asc slots 0 None c slots'] by auto
  then have "slots_size (slots'[j := (None, snd (slots' ! j))]) < slots_size slots"
    using drop_current_size[of j slots' r] by simp
  then show "((dedup, key, asc, slots'[j := (None, snd (slots' ! j))]), dedup, key, asc, slots)
      \<in> measure (\<lambda>(dedup, key, asc, slots). slots_size slots)" by simp
qed auto

declare merge_loop.simps [simp del]

section \<open>Orders of keys\<close>

definition key_before :: "bool \<Rightarrow> string \<Rightarrow> string \<Rightarrow> bool" where
  "key_before asc a b = (if asc then a < b else b < a)"

text \<open>Strictly in order, or just not out of order when keys may repeat.\<close>

definition in_order :: "('k \<Rightarrow> 'k \<Rightarrow> bool) \<Rightarrow> bool \<Rightarrow> 'k \<Rightarrow> 'k \<Rightarrow> bool" where
  "in_order before strict a b = (if strict then before a b else \<not> before b a)"

locale key_order =
  fixes before :: "'k \<Rightarrow> 'k \<Rightarrow> bool"
  assumes irrefl: "\<not> before a a"
    and trans: "before a b \<Longrightarrow> before b c \<Longrightarrow> before a c"
    and total: "a \<noteq> b \<Longrightarrow> before a b \<or> before b a"
begin

lemma asym: "before a b \<Longrightarrow> \<not> before b a"
  using irrefl trans by blast

lemma before_in_order: "before a b \<Longrightarrow> in_order before strict a b"
  using asym by (simp add: in_order_def)

lemma not_before_trans:
  assumes "\<not> before b a" "\<not> before c b"
  shows "\<not> before c a"
proof
  assume ca: "before c a"
  then have "b \<noteq> c" using assms(1) by auto
  then have "before b c" using total assms(2) by blast
  then show False using ca trans assms(1) by blast
qed

lemma in_order_trans: "in_order before strict a b \<Longrightarrow> in_order before strict b c \<Longrightarrow> in_order before strict a c"
  using trans[of a b c] not_before_trans[of b a c] by (simp add: in_order_def split: if_splits)

lemma before_in_order_trans: "before a b \<Longrightarrow> in_order before strict b c \<Longrightarrow> in_order before strict a c"
  using before_in_order in_order_trans by blast

lemma not_before_in_order: "\<not> before b a \<Longrightarrow> (strict \<Longrightarrow> a \<noteq> b) \<Longrightarrow> in_order before strict a b"
  using total by (auto simp: in_order_def)

lemma in_order_Cons:
  "in_order before strict a b \<Longrightarrow> \<forall>x\<in>set xs. in_order before strict b x \<Longrightarrow> \<forall>x\<in>set (b # xs). in_order before strict a x"
  using in_order_trans by (metis set_ConsD)

end

interpretation keys: key_order "key_before asc" for asc
  by unfold_locales (auto simp: key_before_def)

lemma compareStrings_before: "compareStrings c r asc \<longleftrightarrow> key_before asc r c"
  by (simp add: compareStrings_def key_before_def)

abbreviation key_sorted :: "bool \<Rightarrow> ('a \<Rightarrow> string) \<Rightarrow> bool \<Rightarrow> 'a list \<Rightarrow> bool" where
  "key_sorted strict key asc xs \<equiv> sorted_wrt (\<lambda>x y. in_order (key_before asc) strict (key x) (key y)) xs"

section \<open>The merge\<close>

lemma scan_slot_cases:
  obtains "scan_slot dd key s cand = fst (load_slot s)"
  | r rs c k where "dd" "slot_contents s = r # rs" "cand = Some (c, k)" "key c = key r"
      "fst (scan_slot dd key s cand) = None" "slot_contents (scan_slot dd key s cand) = rs"
proof -
  obtain cur src where l: "fst (load_slot s) = (cur, src)" by fastforce
  then have eq: "scan_slot dd key s cand =
      (case (cand, cur) of (Some (c, _), Some r) \<Rightarrow> if dd \<and> key c = key r then None else cur | _ \<Rightarrow> cur, src)"
    by (simp add: scan_slot_def)
  show thesis
  proof (cases "\<exists>c k r. cand = Some (c, k) \<and> cur = Some r \<and> dd \<and> key c = key r")
    case True
    then obtain c k r where cr: "cand = Some (c, k)" "cur = Some r" "dd" "key c = key r" by blast
    have "slot_contents s = r # (case src of None \<Rightarrow> [] | Some rs \<Rightarrow> rs)"
      using load_slot_contents[of s] l cr(2) by (simp add: slot_contents_def)
    note cont = this
    have "scan_slot dd key s cand = (None, src)" unfolding eq unfolding cr(1,2) using cr(3,4) by simp
    then show thesis by (intro that(2)[OF cr(3) cont cr(1,4)]) (simp_all add: slot_contents_def)
  next
    case False
    then have "scan_slot dd key s cand = (cur, src)" by (auto simp: eq split: option.split)
    then show thesis using that(1) l by simp
  qed
qed

lemma load_slot_None: "fst (fst (load_slot s)) = None \<Longrightarrow> slot_contents s = []"
  by (cases s rule: load_slot.cases) (auto simp: slot_contents_def)

lemma scan_step:
  fixes s :: "'a slot" and cand :: "('a \<times> nat) option" and i :: nat
  assumes sorted: "key_sorted dd key asc (slot_contents s)"
  defines "s' \<equiv> scan_slot dd key s cand"
  defines "cand' \<equiv> scan_cand key asc i (fst s') cand"
  shows "key_sorted dd key asc (slot_contents s') \<and> set (slot_contents s') \<subseteq> set (slot_contents s) \<and>
    (cand' = None \<longleftrightarrow> cand = None \<and> slot_contents s' = []) \<and>
    (cand' = cand \<and> (\<forall>c k. cand = Some (c, k) \<longrightarrow> (\<forall>h\<in>set (slot_contents s'). in_order (key_before asc) dd (key c) (key h))) \<or>
     (\<exists>r rs. cand' = Some (r, i) \<and> slot_contents s' = r # rs \<and> (\<forall>c k. cand = Some (c, k) \<longrightarrow> key_before asc (key r) (key c))))"
proof (cases rule: scan_slot_cases[of dd key s cand])
    case (2 r rs c k)
    then have "cand' = cand" by (simp add: cand'_def s'_def scan_cand_def)
    then show ?thesis using 2 sorted by (auto simp: s'_def)
  next
    case 1
    then have cont: "slot_contents s' = slot_contents s" by (simp add: s'_def load_slot_contents)
    show ?thesis
    proof (cases "fst s'")
      case None
      then have "slot_contents s = []" using 1 load_slot_None by (simp add: s'_def)
      then show ?thesis using cont None by (auto simp: cand'_def scan_cand_def split: option.split)
    next
      case (Some r)
      then obtain rs where rs: "slot_contents s = r # rs" using fst_scan_slot unfolding s'_def by metis
      have distinct: "dd \<Longrightarrow> key c \<noteq> key r" if "cand = Some (c, k)" for c k
      proof -
        obtain cur src where "fst (load_slot s) = (cur, src)" by fastforce
        then show "dd \<Longrightarrow> key c \<noteq> key r"
          using Some that unfolding s'_def scan_slot_def by (cases cur) (auto split: if_splits)
      qed
      show ?thesis
      proof (cases cand)
        case None
        then show ?thesis using Some cont rs sorted by (simp add: cand'_def scan_cand_def)
      next
        case cand: (Some ck)
        obtain c k where ck: "ck = (c, k)" by (cases ck)
        show ?thesis
        proof (cases "key_before asc (key r) (key c)")
          case True
          then show ?thesis using Some cand ck cont rs sorted by (simp add: cand'_def scan_cand_def compareStrings_before)
        next
          case False
          then have "in_order (key_before asc) dd (key c) (key r)"
            using distinct cand ck by (intro keys.not_before_in_order) auto
          then have "\<forall>h\<in>set (r # rs). in_order (key_before asc) dd (key c) (key h)"
            using sorted rs keys.in_order_trans by auto
          then show ?thesis
            using Some cand ck cont rs sorted False by (simp add: cand'_def scan_cand_def compareStrings_before)
        qed
      qed
    qed
  qed

lemma merge_scan_order:
  assumes "merge_scan dd key asc ss i cand = (c, ss')" "\<forall>s\<in>set ss. key_sorted dd key asc (slot_contents s)"
    "\<forall>c k. cand = Some (c, k) \<longrightarrow> k < i"
  shows "length ss' = length ss \<and> (\<forall>s\<in>set ss'. key_sorted dd key asc (slot_contents s)) \<and>
    set (concat (map slot_contents ss')) \<subseteq> set (concat (map slot_contents ss)) \<and>
    (c = None \<longleftrightarrow> cand = None \<and> concat (map slot_contents ss') = []) \<and>
    (\<forall>c0 k0. cand = Some (c0, k0) \<longrightarrow> c = cand \<or> (\<exists>r k. c = Some (r, k) \<and> i \<le> k \<and> key_before asc (key r) (key c0))) \<and>
    (\<forall>r k. c = Some (r, k) \<longrightarrow> (\<forall>j<length ss'. i + j \<noteq> k \<longrightarrow>
       (\<forall>h\<in>set (slot_contents (ss' ! j)). in_order (key_before asc) dd (key r) (key h))))"
  using assms
proof (induction ss arbitrary: i cand c ss')
  case Nil
  then show ?case by simp
next
  case (Cons s ss)
  let ?s = "scan_slot dd key s cand"
  let ?cand = "scan_cand key asc i (fst ?s) cand"
  obtain ss1 where rec: "merge_scan dd key asc ss (i + 1) ?cand = (c, ss1)" and ss': "ss' = ?s # ss1"
    using Cons.prems(1) unfolding merge_scan_Cons Let_def by (auto split: prod.splits)
  have "key_sorted dd key asc (slot_contents s)" using Cons.prems(2) by simp
  note step' = scan_step[OF this, of cand i]
  note step = step'[THEN conjunct1] step'[THEN conjunct2, THEN conjunct1]
    step'[THEN conjunct2, THEN conjunct2, THEN conjunct1] step'[THEN conjunct2, THEN conjunct2, THEN conjunct2]
  have "\<forall>c k. ?cand = Some (c, k) \<longrightarrow> k < i + 1"
    using step(4) Cons.prems(3) by fastforce
  then have IH: "length ss1 = length ss" "\<forall>s\<in>set ss1. key_sorted dd key asc (slot_contents s)"
    "set (concat (map slot_contents ss1)) \<subseteq> set (concat (map slot_contents ss))"
    "c = None \<longleftrightarrow> ?cand = None \<and> concat (map slot_contents ss1) = []"
    "\<And>c0 k0. ?cand = Some (c0, k0) \<Longrightarrow> c = ?cand \<or> (\<exists>r k. c = Some (r, k) \<and> i + 1 \<le> k \<and> key_before asc (key r) (key c0))"
    "\<And>r k j h. c = Some (r, k) \<Longrightarrow> j < length ss1 \<Longrightarrow> i + 1 + j \<noteq> k \<Longrightarrow> h \<in> set (slot_contents (ss1 ! j)) \<Longrightarrow>
      in_order (key_before asc) dd (key r) (key h)"
    using Cons.IH[OF rec] Cons.prems(2) by auto
  have chain: "c = cand \<or> (\<exists>r k. c = Some (r, k) \<and> i \<le> k \<and> key_before asc (key r) (key c0))"
    if cand: "cand = Some (c0, k0)" for c0 k0
  proof (cases "?cand = cand")
    case True
    then show ?thesis using IH(5)[of c0 k0] cand Suc_leD[of i] by auto
  next
    case False
    then obtain r0 where r0: "?cand = Some (r0, i)" "key_before asc (key r0) (key c0)"
      using step(4) cand by auto
    from IH(5)[OF r0(1)] show ?thesis
    proof
      assume "c = ?cand"
      then show ?thesis using r0 by simp
    next
      assume "\<exists>r k. c = Some (r, k) \<and> i + 1 \<le> k \<and> key_before asc (key r) (key r0)"
      then obtain r k where "c = Some (r, k)" "i + 1 \<le> k" "key_before asc (key r) (key r0)" by blast
      then show ?thesis using keys.trans[OF _ r0(2)] by auto
    qed
  qed
  have first: "in_order (key_before asc) dd (key r) (key h)"
    if c: "c = Some (r, k)" and k: "i \<noteq> k" and h: "h \<in> set (slot_contents ?s)" for r k h
  proof -
    obtain c0 k0 where c0: "?cand = Some (c0, k0)"
      using step(3) h by (cases ?cand) auto
    have le: "c0 = r \<and> k0 = k \<or> key_before asc (key r) (key c0)" using IH(5)[OF c0] c c0 by auto
    from step(4) have "in_order (key_before asc) dd (key c0) (key h) \<or> (h = c0 \<and> k0 = i)"
      using c0 h step(1) by auto
    then show ?thesis
      using le k keys.before_in_order_trans keys.before_in_order by blast
  qed
  have rest: "in_order (key_before asc) dd (key r) (key h)"
    if "c = Some (r, k)" "j < length ss'" "i + j \<noteq> k" "h \<in> set (slot_contents (ss' ! j))" for r k j h
    using that first IH(6)[of r k "j - 1" h] by (cases j) (auto simp: ss')
  show ?case
    using IH(1-4) step(1,2,3) chain rest by (auto simp: ss')
qed

lemma scan_slot_contents_weak: "slot_contents (scan_slot False key s cand) = slot_contents s"
  by (cases rule: scan_slot_cases[of False key s cand]) (simp_all add: load_slot_contents)

lemma merge_scan_contents:
  "merge_scan False key asc ss i cand = (c, ss') \<Longrightarrow> map slot_contents ss' = map slot_contents ss"
proof (induction ss arbitrary: i cand ss')
  case (Cons s ss)
  then show ?case
    unfolding merge_scan_Cons Let_def by (auto simp: scan_slot_contents_weak split: prod.splits)
qed simp

text \<open>Dropping a duplicate does not change which record comes first for a key.\<close>

lemma find_append: "find P (xs @ ys) = (case find P xs of None \<Rightarrow> find P ys | Some x \<Rightarrow> Some x)"
  by (induction xs) simp_all

lemma find_duplicate: "c \<in> set pre \<Longrightarrow> key c = key r \<Longrightarrow>
    find (\<lambda>x. key x = k) (pre @ r # xs) = find (\<lambda>x. key x = k) (pre @ xs)"
proof (cases "find (\<lambda>x. key x = k) pre")
  case None
  assume "c \<in> set pre" "key c = key r"
  then have "key r \<noteq> k" using None by (auto simp: find_None_iff)
  then show ?thesis using None by (simp add: find_append)
qed (simp add: find_append)

lemma merge_scan_find:
  assumes "merge_scan dd key asc ss i cand = (c, ss')" "\<forall>c k. cand = Some (c, k) \<longrightarrow> c \<in> set pre"
  shows "find (\<lambda>x. key x = k) (pre @ concat (map slot_contents ss')) = find (\<lambda>x. key x = k) (pre @ concat (map slot_contents ss))"
  using assms
proof (induction ss arbitrary: i cand c ss' pre)
  case (Cons s ss)
  let ?s = "scan_slot dd key s cand"
  let ?cand = "scan_cand key asc i (fst ?s) cand"
  obtain ss1 where rec: "merge_scan dd key asc ss (i + 1) ?cand = (c, ss1)" and ss': "ss' = ?s # ss1"
    using Cons.prems(1) unfolding merge_scan_Cons Let_def by (auto split: prod.splits)
  have in_pre: "\<forall>c k. ?cand = Some (c, k) \<longrightarrow> c \<in> set (pre @ slot_contents ?s)"
    using Cons.prems(2) by (auto simp: scan_cand_def slot_contents_def split: option.splits if_splits)
  have "find (\<lambda>x. key x = k) (pre @ slot_contents ?s @ ys) = find (\<lambda>x. key x = k) (pre @ slot_contents s @ ys)" for ys
  proof (cases rule: scan_slot_cases[of dd key s cand])
    case 1
    then show ?thesis by (simp add: load_slot_contents)
  next
    case (2 r rs c' k')
    then show ?thesis using Cons.prems(2) find_duplicate[of c' pre key r k "rs @ ys"] by simp
  qed
  then show ?case
    using Cons.IH[OF rec in_pre] by (simp add: ss')
qed simp

text \<open>Writing the chosen record.\<close>

lemma concat_update:
  assumes "j < length ss" "fst (ss ! j) = Some r"
  shows "slot_contents (ss ! j) = r # slot_contents (None, snd (ss ! j))"
    "mset (concat (map slot_contents ss)) = add_mset r (mset (concat (map slot_contents (ss[j := (None, snd (ss ! j))]))))"
proof -
  show c: "slot_contents (ss ! j) = r # slot_contents (None, snd (ss ! j))"
    using assms(2) by (simp add: slot_contents_def)
  have "ss = take j ss @ ss ! j # drop (Suc j) ss" using assms(1) by (rule id_take_nth_drop)
  then have "concat (map slot_contents ss) =
      concat (map slot_contents (take j ss)) @ slot_contents (ss ! j) @ concat (map slot_contents (drop (Suc j) ss))"
    by (metis concat.simps(2) concat_append list.simps(9) map_append)
  then show "mset (concat (map slot_contents ss)) = add_mset r (mset (concat (map slot_contents (ss[j := (None, snd (ss ! j))]))))"
    using assms(1) by (simp add: upd_conv_take_nth_drop c)
qed

lemma merge_step:
  assumes "merge_scan dd key asc slots 0 None = (Some (r, j), slots')" "\<forall>s\<in>set slots. key_sorted dd key asc (slot_contents s)"
  defines "next \<equiv> slots'[j := (None, snd (slots' ! j))]"
  shows "j < length slots'" "fst (slots' ! j) = Some r" "\<forall>s\<in>set next. key_sorted dd key asc (slot_contents s)"
    "\<forall>h\<in>set (concat (map slot_contents next)). in_order (key_before asc) dd (key r) (key h)"
    "set (concat (map slot_contents next)) \<subseteq> set (concat (map slot_contents slots))" "r \<in> set (concat (map slot_contents slots))"
proof -
  note chosen = merge_scan_chosen[OF assms(1)] and order = merge_scan_order[OF assms(1,2)]
  show j: "j < length slots'" and r: "fst (slots' ! j) = Some r" using chosen by auto
  note u = concat_update[OF j r]
  have sorted: "\<forall>s\<in>set slots'. key_sorted dd key asc (slot_contents s)" using order by simp
  have "key_sorted dd key asc (slot_contents (slots' ! j))" using sorted j by simp
  then have sj: "key_sorted dd key asc (slot_contents (None, snd (slots' ! j)))"
    "\<forall>h\<in>set (slot_contents (None, snd (slots' ! j))). in_order (key_before asc) dd (key r) (key h)"
    unfolding u(1) by simp_all
  show "\<forall>s\<in>set next. key_sorted dd key asc (slot_contents s)"
    using sorted sj(1) set_update_subset_insert[of slots' j] unfolding next_def by blast
  have others: "\<forall>i<length slots'. i \<noteq> j \<longrightarrow> (\<forall>h\<in>set (slot_contents (slots' ! i)). in_order (key_before asc) dd (key r) (key h))"
    using order by simp
  have "in_order (key_before asc) dd (key r) (key h)" if s: "s \<in> set next" and h: "h \<in> set (slot_contents s)" for s h
  proof -
    obtain i where i: "i < length next" "s = next ! i" using s by (auto simp: in_set_conv_nth)
    show ?thesis
    proof (cases "i = j")
      case True
      then show ?thesis using i h sj(2) j by (simp add: next_def)
    next
      case False
      then show ?thesis using i h others by (simp add: next_def)
    qed
  qed
  then show "\<forall>h\<in>set (concat (map slot_contents next)). in_order (key_before asc) dd (key r) (key h)" by auto
  have "set_mset (mset (concat (map slot_contents slots'))) =
      insert r (set_mset (mset (concat (map slot_contents next))))"
    unfolding u(2) next_def by simp
  then have "set (concat (map slot_contents slots')) = insert r (set (concat (map slot_contents next)))" by simp
  then show "set (concat (map slot_contents next)) \<subseteq> set (concat (map slot_contents slots))" "r \<in> set (concat (map slot_contents slots))"
    using order by blast+
qed

lemma merge_loop_correct:
  assumes "\<forall>s\<in>set slots. key_sorted dd key asc (slot_contents s)"
  shows "key_sorted dd key asc (merge_loop dd key asc slots) \<and>
    set (merge_loop dd key asc slots) \<subseteq> set (concat (map slot_contents slots)) \<and>
    (\<not> dd \<longrightarrow> mset (merge_loop dd key asc slots) = mset (concat (map slot_contents slots))) \<and>
    (dd \<longrightarrow> (\<forall>k. find (\<lambda>x. key x = k) (merge_loop dd key asc slots) = find (\<lambda>x. key x = k) (concat (map slot_contents slots))))"
  using assms
proof (induction dd key asc slots rule: merge_loop.induct)
  case (1 dd key asc slots)
  obtain c slots' where scan: "merge_scan dd key asc slots 0 None = (c, slots')" by fastforce
  note find = merge_scan_find[OF scan, where pre = "[]", simplified]
  show ?case
  proof (cases c)
    case None
    have nil: "concat (map slot_contents slots') = []"
      using merge_scan_order[OF scan "1.prems"] None by simp
    have loop: "merge_loop dd key asc slots = []" using scan None by (simp add: merge_loop.simps[of _ _ _ slots])
    have "concat (map slot_contents slots) = []" if "\<not> dd"
      using merge_scan_contents[of key asc slots 0 None c slots'] scan that nil by simp
    then show ?thesis
      unfolding loop using find unfolding nil by auto
  next
    case (Some cj)
    obtain r j where cj: "cj = (r, j)" by (cases cj)
    let ?next = "slots'[j := (None, snd (slots' ! j))]"
    have scan': "merge_scan dd key asc slots 0 None = (Some (r, j), slots')" using scan Some cj by simp
    note step = merge_step[OF scan' "1.prems"]
    have loop: "merge_loop dd key asc slots = r # merge_loop dd key asc ?next"
      by (simp add: merge_loop.simps[of _ _ _ slots] scan')
    note IH = "1.IH"[OF scan'[symmetric] refl refl step(3)]
    have "mset (concat (map slot_contents slots')) = mset (concat (map slot_contents slots))" if "\<not> dd"
      using merge_scan_contents[of key asc slots 0 None] scan that by (cases dd) auto
    then have perm: "\<not> dd \<longrightarrow> mset (r # merge_loop dd key asc ?next) = mset (concat (map slot_contents slots))"
      using IH concat_update(2)[OF step(1,2)] by auto
    have first: "find (\<lambda>x. key x = k) (r # merge_loop dd key asc ?next) = find (\<lambda>x. key x = k) (concat (map slot_contents slots))" if dd for k
    proof -
      have d: "slots' = take j slots' @ slots' ! j # drop (Suc j) slots'" using step(1) by (rule id_take_nth_drop)
      have c': "concat (map slot_contents slots') = concat (map slot_contents (take j slots')) @ r #
          slot_contents (None, snd (slots' ! j)) @ concat (map slot_contents (drop (Suc j) slots'))"
        by (subst d) (simp add: concat_update(1)[OF step(1,2)])
      have n: "concat (map slot_contents ?next) = concat (map slot_contents (take j slots')) @
          slot_contents (None, snd (slots' ! j)) @ concat (map slot_contents (drop (Suc j) slots'))"
        using step(1) by (simp add: upd_conv_take_nth_drop)
      have "\<forall>h\<in>set (concat (map slot_contents ?next)). key h \<noteq> key r"
        using step(4) that keys.irrefl by (metis in_order_def)
      then have skip: "find (\<lambda>x. key x = k) (concat (map slot_contents (take j slots'))) = None" if "key r = k"
        using that unfolding n by (auto simp: find_None_iff)
      have "find (\<lambda>x. key x = k) (concat (map slot_contents slots')) =
          (if key r = k then Some r else find (\<lambda>x. key x = k) (concat (map slot_contents ?next)))"
        unfolding c' n using skip
        by (cases "find (\<lambda>x. key x = k) (concat (map slot_contents (take j slots')))") (auto simp: find_append)
      then show ?thesis using find IH that by simp
    qed
    show ?thesis
      unfolding loop using IH step(4-6) perm first by auto
  qed
qed

section \<open>Sorting a reader\<close>

text \<open>What the consumers of a reader use: the records of the loop and the first error of the queue.\<close>

definition source_error :: "'a source \<Rightarrow> go_error option" where
  "source_error src = (case snd src of [] \<Rightarrow> None | e # _ \<Rightarrow> Some e)"

fun MergeReaders :: "'a source list \<Rightarrow> 'a list result" where
  "MergeReaders [] = Inr []"
| "MergeReaders (cr # arr) =
     (case source_error cr of
        Some e \<Rightarrow> Inl e
      | None \<Rightarrow> and_then (MergeReaders arr) (\<lambda>rest. Inr (fst cr @ rest)))"

definition MergeSortedReaders :: "('a \<Rightarrow> string) \<Rightarrow> 'a source list \<Rightarrow> bool \<Rightarrow> 'a list" where
  "MergeSortedReaders getSortKey sortedReaders ascendingOrder =
     (if length sortedReaders = 0 then []
      else merge_loop False getSortKey ascendingOrder (map (\<lambda>cr. (None, Some (fst cr))) sortedReaders))"

text \<open>Records with the key computed for them (\<open>SortRecord\<close>).\<close>

definition mergeSortedReadersByCalculatedKey :: "(string \<times> 'a) list list \<Rightarrow> bool \<Rightarrow> 'a list" where
  "mergeSortedReadersByCalculatedKey sortedReaders ascendingOrder =
     (if length sortedReaders = 0 then []
      else map snd (merge_loop True fst ascendingOrder (map (\<lambda>rs. (None, Some rs)) sortedReaders)))"

text \<open>Every key of the slice is bound in the map, so no item is missing.\<close>

definition SortAndSaveBufferToFile :: "(string \<rightharpoonup> 'a) \<Rightarrow> string list \<Rightarrow> bool \<Rightarrow> 'a list" where
  "SortAndSaveBufferToFile keysToContentItems allKeys increasingOrder =
     (let allKeys = (if increasingOrder then sort allKeys else rev (sort allKeys))
      in List.map_filter keysToContentItems allKeys)"

fun split_loop :: "nat \<Rightarrow> ('a \<Rightarrow> string result) \<Rightarrow> bool \<Rightarrow> 'a list \<Rightarrow> (string \<rightharpoonup> string \<times> 'a) \<Rightarrow> string list \<Rightarrow>
    (string \<times> 'a) list list result" where
  "split_loop bufferSize getKey asc [] items allKeys =
     Inr (if length allKeys > 0 then [SortAndSaveBufferToFile items allKeys asc] else [])"
| "split_loop bufferSize getKey asc (r # rs) items allKeys =
     (case getKey r of
        Inl e \<Rightarrow> Inl e
      | Inr sortKey \<Rightarrow>
          if items sortKey = None
          then let items = items(sortKey \<mapsto> (sortKey, r)); allKeys = allKeys @ [sortKey]
               in if length allKeys = bufferSize
                  then and_then (split_loop bufferSize getKey asc rs Map.empty [])
                         (\<lambda>rest. Inr (SortAndSaveBufferToFile items allKeys asc # rest))
                  else split_loop bufferSize getKey asc rs items allKeys
          else split_loop bufferSize getKey asc rs items allKeys)"

definition splitReaderToSortedBufferSizeReadersByCalculatedKey ::
    "'a source \<Rightarrow> ('a \<Rightarrow> string result) \<Rightarrow> bool \<Rightarrow> (string \<times> 'a) list list result" where
  "splitReaderToSortedBufferSizeReadersByCalculatedKey reader getKeyFunc ascendingOrder =
     and_then (split_loop MaxBufferSize getKeyFunc ascendingOrder (fst reader) Map.empty []) (\<lambda>splitReaders.
       case source_error reader of Some e \<Rightarrow> Inl e | None \<Rightarrow> Inr splitReaders)"

definition SortContentReaderByCalculatedKey :: "'a source \<Rightarrow> ('a \<Rightarrow> string result) \<Rightarrow> bool \<Rightarrow> 'a list result" where
  "SortContentReaderByCalculatedKey reader getKeyFunc ascendingOrder =
     and_then (splitReaderToSortedBufferSizeReadersByCalculatedKey reader getKeyFunc ascendingOrder)
       (\<lambda>sortedReaders. Inr (mergeSortedReadersByCalculatedKey sortedReaders ascendingOrder))"

definition SortContentReader :: "('a \<Rightarrow> string) \<Rightarrow> 'a source \<Rightarrow> bool \<Rightarrow> 'a list result" where
  "SortContentReader getSortKey reader ascendingOrder =
     SortContentReaderByCalculatedKey reader (\<lambda>r. Inr (getSortKey r)) ascendingOrder"

subsection \<open>One buffer\<close>

text \<open>The keys of a buffer in the order they came, each bound to its record.\<close>

definition buffer_ok :: "(string \<rightharpoonup> string \<times> 'a) \<Rightarrow> string list \<Rightarrow> bool" where
  "buffer_ok items ks \<longleftrightarrow> distinct ks \<and> dom items = set ks \<and> (\<forall>k r. items k = Some r \<longrightarrow> fst r = k)"

definition buffer_records :: "(string \<rightharpoonup> string \<times> 'a) \<Rightarrow> string list \<Rightarrow> (string \<times> 'a) list" where
  "buffer_records items ks = map (\<lambda>k. the (items k)) ks"

lemma map_filter_bound: "\<forall>k\<in>set ks. m k \<noteq> None \<Longrightarrow> List.map_filter m ks = map (\<lambda>k. the (m k)) ks"
  by (induction ks) (auto simp: List.map_filter_def)

lemma SortAndSave_sorted:
  assumes "buffer_ok items ks"
  shows "key_sorted True fst asc (SortAndSaveBufferToFile items ks asc)"
    "set (SortAndSaveBufferToFile items ks asc) = set (buffer_records items ks)"
proof -
  let ?ks = "if asc then sort ks else rev (sort ks)"
  have bound: "\<forall>k\<in>set ?ks. items k \<noteq> None" using assms by (auto simp: buffer_ok_def dom_def split: if_splits)
  then have eq: "SortAndSaveBufferToFile items ks asc = map (\<lambda>k. the (items k)) ?ks"
    by (simp add: SortAndSaveBufferToFile_def map_filter_bound)
  have key: "fst (the (items k)) = k" if "k \<in> set ?ks" for k
    using bound assms that by (auto simp: buffer_ok_def)
  have "sorted_wrt (<) (sort ks)"
    using assms by (simp add: buffer_ok_def strict_sorted_iff)
  then have "sorted_wrt (key_before asc) ?ks"
    by (auto simp: key_before_def[abs_def] sorted_wrt_rev)
  then show "key_sorted True fst asc (SortAndSaveBufferToFile items ks asc)"
    unfolding eq sorted_wrt_map in_order_def if_True
    by (rule sorted_wrt_mono_rel[rotated]) (simp add: key)
  show "set (SortAndSaveBufferToFile items ks asc) = set (buffer_records items ks)"
    unfolding eq by (auto simp: buffer_records_def)
qed

text \<open>Lists whose keys are distinct and whose records agree look up the same record.\<close>

lemma find_unique: "distinct (map key zs) \<Longrightarrow> z \<in> set zs \<Longrightarrow> key z = k \<Longrightarrow> find (\<lambda>x. key x = k) zs = Some z"
proof (induction zs)
  case (Cons a zs)
  have "z = a" if "key a = k"
  proof (rule ccontr)
    assume "z \<noteq> a"
    then have "z \<in> set zs" using Cons.prems(2) by simp
    then have "key a \<in> key ` set zs" using Cons.prems(3) that by (metis image_eqI)
    then show False using Cons.prems(1) by simp
  qed
  then show ?case using Cons by auto
qed simp

lemma find_absent: "\<forall>z\<in>set zs. key z \<noteq> k \<Longrightarrow> find (\<lambda>x. key x = k) zs = None"
  by (auto simp: find_None_iff)

lemma find_set_eq:
  assumes "distinct (map key xs)" "distinct (map key ys)" "set xs = set ys"
  shows "find (\<lambda>x. key x = k) xs = find (\<lambda>x. key x = k) ys"
proof (cases "\<exists>z\<in>set xs. key z = k")
  case True
  then obtain z where "z \<in> set xs" "key z = k" by blast
  then show ?thesis using find_unique[of key xs z] find_unique[of key ys z] assms by simp
next
  case False
  then show ?thesis using assms(3) find_absent[of xs key k] find_absent[of ys key k] by auto
qed

lemma key_sorted_distinct: "key_sorted True key asc xs \<Longrightarrow> distinct (map key xs)"
proof (induction xs)
  case (Cons x xs)
  have "key x \<notin> key ` set xs"
  proof
    assume "key x \<in> key ` set xs"
    then obtain y where "y \<in> set xs" "key y = key x" by force
    then have "key_before asc (key x) (key x)" using Cons.prems by (fastforce simp: in_order_def)
    then show False using keys.irrefl by blast
  qed
  then show ?case using Cons by simp
qed simp

lemma buffer_ok_key: "buffer_ok items ks \<Longrightarrow> items k = Some p \<Longrightarrow> fst p = k"
  unfolding buffer_ok_def by blast

lemma fst_buffer_records: "buffer_ok items ks \<Longrightarrow> map fst (buffer_records items ks) = ks"
proof -
  assume ok: "buffer_ok items ks"
  have "fst (the (items k)) = k" if "k \<in> set ks" for k
  proof -
    have "k \<in> dom items" using ok that by (simp add: buffer_ok_def)
    then obtain p where "items k = Some p" by blast
    then show ?thesis using buffer_ok_key[OF ok] by simp
  qed
  then have "map (\<lambda>k. fst (the (items k))) ks = map (\<lambda>k. k) ks" by (intro map_cong) auto
  then show ?thesis by (simp add: buffer_records_def comp_def)
qed

lemma SortAndSave_find:
  assumes "buffer_ok items ks"
  shows "find (\<lambda>x. fst x = k) (SortAndSaveBufferToFile items ks asc) = find (\<lambda>x. fst x = k) (buffer_records items ks)"
proof (rule find_set_eq)
  show "distinct (map fst (SortAndSaveBufferToFile items ks asc))"
    using SortAndSave_sorted(1)[OF assms] by (rule key_sorted_distinct)
  show "distinct (map fst (buffer_records items ks))"
    using assms by (simp add: fst_buffer_records) (simp add: buffer_ok_def)
  show "set (SortAndSaveBufferToFile items ks asc) = set (buffer_records items ks)"
    by (rule SortAndSave_sorted(2)[OF assms])
qed

lemma buffer_ok_insert:
  assumes "buffer_ok items ks" "items k = None"
  shows "buffer_ok (items(k \<mapsto> (k, r))) (ks @ [k])"
    "buffer_records (items(k \<mapsto> (k, r))) (ks @ [k]) = buffer_records items ks @ [(k, r)]"
proof -
  have "k \<notin> dom items" using assms(2) by (simp add: domIff)
  then have k: "k \<notin> set ks" using assms(1) by (simp add: buffer_ok_def)
  then show "buffer_ok (items(k \<mapsto> (k, r))) (ks @ [k])"
    using assms(1) by (auto simp: buffer_ok_def)
  show "buffer_records (items(k \<mapsto> (k, r))) (ks @ [k]) = buffer_records items ks @ [(k, r)]"
    using k by (auto simp: buffer_records_def intro!: map_cong)
qed

lemma buffer_has:
  assumes "buffer_ok items ks" "items k = Some p"
  shows "p \<in> set (buffer_records items ks)" "fst p = k"
proof -
  have "k \<in> dom items" using assms(2) by auto
  then have "k \<in> set ks" using assms(1) by (simp add: buffer_ok_def)
  then show "p \<in> set (buffer_records items ks)" using assms(2) by (force simp: buffer_records_def)
  show "fst p = k" using assms by (rule buffer_ok_key)
qed

lemma find_append_cong:
  "find P a = find P a' \<Longrightarrow> find P b = find P b' \<Longrightarrow> find P (a @ b) = find P (a' @ b')"
  by (simp add: find_append split: option.split)

lemma split_loop_correct:
  assumes getKey: "getKey = (\<lambda>r. Inr (f r))" and "buffer_ok items ks" "\<forall>p\<in>set (buffer_records items ks). fst p = f (snd p)"
  shows "\<exists>chunks. split_loop n getKey asc rs items ks = Inr chunks \<and>
    (\<forall>c\<in>set chunks. key_sorted True fst asc c) \<and> (\<forall>p\<in>set (concat chunks). fst p = f (snd p)) \<and>
    (\<forall>k. find (\<lambda>x. fst x = k) (concat chunks) = find (\<lambda>x. fst x = k) (buffer_records items ks @ map (\<lambda>r. (f r, r)) rs))"
  using assms(2,3)
proof (induction rs arbitrary: items ks)
  case Nil
  then show ?case
    using SortAndSave_sorted[OF Nil.prems(1), of asc] SortAndSave_find[OF Nil.prems(1), of _ asc]
    by (auto simp: buffer_records_def)
next
  case (Cons r rs)
  show ?case
  proof (cases "items (f r)")
    case (Some p)
    note has = buffer_has[OF Cons.prems(1) Some]
    have "find (\<lambda>x. fst x = k) (buffer_records items ks @ (f r, r) # map (\<lambda>r. (f r, r)) rs) =
        find (\<lambda>x. fst x = k) (buffer_records items ks @ map (\<lambda>r. (f r, r)) rs)" for k
      using has by (intro find_duplicate) auto
    moreover have "split_loop n getKey asc (r # rs) items ks = split_loop n getKey asc rs items ks"
      using Some getKey by simp
    ultimately show ?thesis using Cons.IH[OF Cons.prems] by simp
  next
    case None
    let ?items = "items(f r \<mapsto> (f r, r))" and ?ks = "ks @ [f r]"
    note ins = buffer_ok_insert[OF Cons.prems(1) None, of r]
    have keys: "\<forall>p\<in>set (buffer_records ?items ?ks). fst p = f (snd p)"
      unfolding ins(2) using Cons.prems(2) by auto
    show ?thesis
    proof (cases "length ?ks = n")
      case False
      then have run: "split_loop n getKey asc (r # rs) items ks = split_loop n getKey asc rs ?items ?ks"
        using None getKey by simp
      show ?thesis
        using Cons.IH[OF ins(1) keys] unfolding run ins(2) list.map append_assoc append_Cons append_Nil .
    next
      case True
      have empty: "buffer_ok (Map.empty :: string \<rightharpoonup> string \<times> 'a) []" by (simp add: buffer_ok_def)
      obtain chunks where chunks: "split_loop n getKey asc rs Map.empty [] = Inr chunks"
        "\<forall>c\<in>set chunks. key_sorted True fst asc c" "\<forall>p\<in>set (concat chunks). fst p = f (snd p)"
        "\<forall>k. find (\<lambda>x. fst x = k) (concat chunks) = find (\<lambda>x. fst x = k) (map (\<lambda>r. (f r, r)) rs)"
        using Cons.IH[OF empty] by (auto simp: buffer_records_def)
      let ?c = "SortAndSaveBufferToFile ?items ?ks asc"
      have run: "split_loop n getKey asc (r # rs) items ks = Inr (?c # chunks)"
        using True None chunks(1) getKey by simp
      have "find (\<lambda>x. fst x = k) (?c @ concat chunks) =
          find (\<lambda>x. fst x = k) (buffer_records ?items ?ks @ map (\<lambda>r. (f r, r)) rs)" for k
        using SortAndSave_find[OF ins(1)] chunks(4) by (intro find_append_cong) simp_all
      moreover have "\<forall>p\<in>set ?c. fst p = f (snd p)" unfolding SortAndSave_sorted(2)[OF ins(1)] by (rule keys)
      moreover have "key_sorted True fst asc ?c" by (rule SortAndSave_sorted(1)[OF ins(1)])
      ultimately show ?thesis unfolding run using chunks(2,3) by (auto simp: ins(2))
    qed
  qed
qed

lemma find_snd: "\<forall>p\<in>set ps. fst p = f (snd p) \<Longrightarrow> find (\<lambda>r. f r = k) (map snd ps) = map_option snd (find (\<lambda>p. fst p = k) ps)"
  by (induction ps) auto

lemma find_pair: "find (\<lambda>p. fst p = k) (map (\<lambda>r. (f r, r)) rs) = map_option (\<lambda>r. (f r, r)) (find (\<lambda>r. f r = k) rs)"
  by (induction rs) auto

lemma slot_contents_loaded: "map slot_contents (map (\<lambda>rs. (None, Some rs)) readers) = readers"
  by (simp add: comp_def)

lemma merge_loop_Nil [simp]: "merge_loop dd key asc [] = []"
  by (simp add: merge_loop.simps)

lemma SortContentReaderByCalculatedKey_spec:
  shows "\<exists>out. SortContentReaderByCalculatedKey (rs, []) (\<lambda>r. Inr (f r)) asc = Inr out \<and> key_sorted True f asc out \<and>
    (\<forall>k. find (\<lambda>r. f r = k) out = find (\<lambda>r. f r = k) rs)"
proof -
  have empty: "buffer_ok (Map.empty :: string \<rightharpoonup> string \<times> 'a) []" by (simp add: buffer_ok_def)
  obtain chunks where chunks: "split_loop MaxBufferSize (\<lambda>r. Inr (f r)) asc rs Map.empty [] = Inr chunks"
    "\<forall>c\<in>set chunks. key_sorted True fst asc c" "\<forall>p\<in>set (concat chunks). fst p = f (snd p)"
    "\<forall>k. find (\<lambda>x. fst x = k) (concat chunks) = find (\<lambda>x. fst x = k) (map (\<lambda>r. (f r, r)) rs)"
    using split_loop_correct[OF refl empty, where f = f and n = MaxBufferSize and asc = asc and rs = rs] by (auto simp: buffer_records_def)
  let ?slots = "map (\<lambda>rs. (None, Some rs)) chunks"
  let ?out = "merge_loop True fst asc ?slots"
  have cont: "map slot_contents ?slots = chunks" by (rule slot_contents_loaded)
  have "\<forall>s\<in>set ?slots. key_sorted True fst asc (slot_contents s)" using chunks(2) by simp
  note merged = merge_loop_correct[OF this, unfolded cont]
  have keys: "\<forall>p\<in>set ?out. fst p = f (snd p)" using merged chunks(3) by blast
  have "mergeSortedReadersByCalculatedKey chunks asc = map snd ?out"
    by (simp add: mergeSortedReadersByCalculatedKey_def)
  then have run: "SortContentReaderByCalculatedKey (rs, []) (\<lambda>r. Inr (f r)) asc = Inr (map snd ?out)"
    by (simp add: SortContentReaderByCalculatedKey_def splitReaderToSortedBufferSizeReadersByCalculatedKey_def chunks(1) source_error_def)
  have "sorted_wrt (\<lambda>x y. in_order (key_before asc) True (f (snd x)) (f (snd y))) ?out"
    by (rule sorted_wrt_mono_rel[OF _ merged[THEN conjunct1]]) (use keys in auto)
  then have "key_sorted True f asc (map snd ?out)" by (simp add: sorted_wrt_map)
  moreover have "find (\<lambda>r. f r = k) (map snd ?out) = find (\<lambda>r. f r = k) rs" for k
    unfolding find_snd[of ?out f, OF keys] using merged chunks(4) by (simp add: find_pair option.map_comp comp_def option.map_ident)
  ultimately show ?thesis using run by blast
qed

text \<open>C9: sorting a reader by a computed key gives its records in strict order of their keys: for every
  key exactly the first record of the reader with that key, and no other record.\<close>

theorem SortContentReaderByCalculatedKey_correct:
  "\<exists>out. SortContentReaderByCalculatedKey (rs, []) (\<lambda>r. Inr (f r)) asc = Inr out \<and>
    sorted_wrt (\<lambda>x y. key_before asc (f x) (f y)) out \<and> (\<forall>k. find (\<lambda>r. f r = k) out = find (\<lambda>r. f r = k) rs)"
  using SortContentReaderByCalculatedKey_spec[of rs f asc] by (simp add: in_order_def)

text \<open>Merging readers whose records are in order of their keys gives all their records, in order.\<close>

theorem MergeSortedReaders_correct:
  assumes "\<forall>cr\<in>set readers. sorted_wrt (\<lambda>x y. \<not> key_before asc (key y) (key x)) (fst cr)"
  shows "sorted_wrt (\<lambda>x y. \<not> key_before asc (key y) (key x)) (MergeSortedReaders key readers asc) \<and>
    mset (MergeSortedReaders key readers asc) = mset (concat (map fst readers))"
proof (cases "readers = []")
  case True
  then show ?thesis by (simp add: MergeSortedReaders_def)
next
  case False
  let ?slots = "map (\<lambda>cr. (None, Some (fst cr))) readers"
  have cont: "map slot_contents ?slots = map fst readers" by (simp add: comp_def)
  have "\<forall>s\<in>set ?slots. key_sorted False key asc (slot_contents s)" using assms by (simp add: in_order_def)
  note merged = merge_loop_correct[OF this, unfolded cont]
  then show ?thesis using False by (simp add: MergeSortedReaders_def in_order_def)
qed

theorem MergeSortedReaders_correct_witness:
  "mset (MergeSortedReaders id [([''a'', ''c''], []), ([''b''], [])] True) = {#''a'', ''b'', ''c''#}"
  using MergeSortedReaders_correct[of "[([''a'', ''c''], []), ([''b''], [])]" True id]
  by (simp add: key_before_def add_mset_commute)

end
