(* ===== verification/Items.thy ===== *)
theory Items
  imports Content ArtUtils Specs
begin

text \<open>
  The result items of \<^verbatim>\<open>artifactory/services/utils/searchutil.go\<close> (from line 331 on): their paths and
  sort keys, and the reduction of sorted results to the top or the bottom of each chain of paths.
\<close>

section \<open>Result items\<close>

record Stat =
  Downloaded :: string
  Downloads :: string
  DownloadedBy :: string
  RemoteDownloads :: string

record ResultItem =
  Repo :: string
  Path :: string
  Name :: string
  Created :: string
  Modified :: string
  Updated :: string
  CreatedBy :: string
  ModifiedBy :: string
  Type :: string
  Actual_Md5 :: string
  Actual_Sha1 :: string
  ri_Sha256 :: string
  Depth :: int
  ri_Size :: int
  OriginalMd5 :: string
  Properties :: "Property list"
  Stats :: "Stat list"

definition zero_item :: ResultItem where
  "zero_item = \<lparr>Repo = [], Path = [], Name = [], Created = [], Modified = [], Updated = [], CreatedBy = [],
     ModifiedBy = [], Type = [], Actual_Md5 = [], Actual_Sha1 = [], ri_Sha256 = [], Depth = 0, ri_Size = 0,
     OriginalMd5 = [], Properties = [], Stats = []\<rparr>"

definition appendFolderSuffix :: "string \<Rightarrow> string" where
  "appendFolderSuffix folderPath = (if \<not> has_suffix folderPath ''/'' then folderPath @ ''/'' else folderPath)"

definition GetItemRelativePath :: "ResultItem \<Rightarrow> string" where
  "GetItemRelativePath item =
     (if Path item = ''.'' then path_join [Repo item, Name item]
      else let url = path_join [Repo item, Path item, Name item]
           in if Type item = ''folder'' then appendFolderSuffix url else url)"

definition GetSortKey :: "ResultItem \<Rightarrow> string" where
  "GetSortKey item =
     (if Type item = ''folder'' then appendFolderSuffix (GetItemRelativePath item) else GetItemRelativePath item)"

definition GetItemRelativeLocation :: "ResultItem \<Rightarrow> string" where
  "GetItemRelativeLocation item = path_join [Repo item, Path item] @ ''/''"

fun property_loop :: "Property list \<Rightarrow> string \<Rightarrow> string" where
  "property_loop [] key = []"
| "property_loop (prop # props) key = (if Key prop = key then Value prop else property_loop props key)"

definition GetProperty :: "ResultItem \<Rightarrow> string \<Rightarrow> string" where
  "GetProperty item key = property_loop (Properties item) key"

text \<open>\<open>at_least\<close> is the comparison of the version library.\<close>

definition DisableTransitiveSearchIfNotAllowed :: "(string \<Rightarrow> bool) \<Rightarrow> CommonParams \<Rightarrow> CommonParams" where
  "DisableTransitiveSearchIfNotAllowed at_least params =
     (if Transitive params \<and> \<not> at_least ''7.17.0'' then params\<lparr>Transitive := False\<rparr> else params)"

section \<open>Chains of paths\<close>

text \<open>The loops over the records of a sorted reader. They work on any item with a relative path, a name
  and a type, as the interface of the source has it.\<close>

fun bottom_loop :: "('a \<Rightarrow> string) \<Rightarrow> ('a \<Rightarrow> string) \<Rightarrow> 'a list \<Rightarrow> string \<Rightarrow> 'a list" where
  "bottom_loop relPath name [] temp = []"
| "bottom_loop relPath name (item # items) temp =
     (if name item = ''.'' then bottom_loop relPath name items temp
      else let rPath = relPath item;
               rPath = (if \<not> has_suffix rPath ''/'' then rPath @ ''/'' else rPath)
           in if temp = [] \<or> \<not> has_prefix temp rPath
              then item # bottom_loop relPath name items rPath
              else bottom_loop relPath name items temp)"

fun top_loop :: "('a \<Rightarrow> string) \<Rightarrow> ('a \<Rightarrow> string) \<Rightarrow> ('a \<Rightarrow> string) \<Rightarrow> 'a list \<Rightarrow> string \<Rightarrow> 'a list" where
  "top_loop relPath name type [] prevFolder = []"
| "top_loop relPath name type (item # items) prevFolder =
     (if name item = ''.'' then top_loop relPath name type items prevFolder
      else let rPath = relPath item;
               rPath = (if type item = ''folder'' \<and> \<not> has_suffix rPath ''/'' then rPath @ ''/'' else rPath)
           in if prevFolder = [] \<or> \<not> has_prefix rPath prevFolder
              then item # top_loop relPath name type items (if type item = ''folder'' then rPath else prevFolder)
              else top_loop relPath name type items prevFolder)"

definition FilterBottomChainResults :: "ResultItem source \<Rightarrow> ResultItem list result" where
  "FilterBottomChainResults reader =
     (let out = bottom_loop GetItemRelativePath Name (fst reader) []
      in case source_error reader of Some e \<Rightarrow> Inl e | None \<Rightarrow> Inr out)"

definition FilterTopChainResults :: "ResultItem source \<Rightarrow> ResultItem list result" where
  "FilterTopChainResults reader =
     (let out = top_loop GetItemRelativePath Name Type (fst reader) []
      in case source_error reader of Some e \<Rightarrow> Inl e | None \<Rightarrow> Inr out)"

definition ReduceDirResult ::
    "ResultItem source \<Rightarrow> bool \<Rightarrow> (ResultItem source \<Rightarrow> ResultItem list result) \<Rightarrow> ResultItem list result" where
  "ReduceDirResult searchResults ascendingOrder resultsFilter =
     and_then (SortContentReader GetSortKey searchResults ascendingOrder) (\<lambda>sorted. resultsFilter (sorted, []))"

definition ReduceTopChainDirResult :: "ResultItem source \<Rightarrow> ResultItem list result" where
  "ReduceTopChainDirResult searchResults = ReduceDirResult searchResults True FilterTopChainResults"

definition ReduceBottomChainDirResult :: "ResultItem source \<Rightarrow> ResultItem list result" where
  "ReduceBottomChainDirResult searchResults = ReduceDirResult searchResults False FilterBottomChainResults"

section \<open>Prefixes in sorted lists\<close>

text \<open>Between a string and one it is a prefix of, every string has it as a prefix.\<close>

lemma prefix_between: "(a::string) \<le> b \<Longrightarrow> b \<le> a @ t \<Longrightarrow> has_prefix b a"
proof (induction a arbitrary: b)
  case (Cons x a)
  then show ?case by (cases b) (auto simp: less_eq_list_code)
qed simp

lemma prefix_le: "(a::string) \<le> a @ t"
  by (induction a) auto

text \<open>What the reductions need of an item: a relative path, and a sort key that is this path, ended with
  a slash for a folder.\<close>

locale search_based_item =
  fixes sort_key rel_path name type :: "'a \<Rightarrow> string"
  assumes folder_key: "type x = ''folder'' \<Longrightarrow> sort_key x = appendFolderSuffix (rel_path x)"
    and file_key: "type x \<noteq> ''folder'' \<Longrightarrow> sort_key x = rel_path x"
begin

lemma folder_key_suffix: "type x = ''folder'' \<Longrightarrow> \<exists>p. sort_key x = p @ ''/''"
  using folder_key[of x] by (auto simp: appendFolderSuffix_def has_suffix_iff)

lemma folder_key_nonempty: "type x = ''folder'' \<Longrightarrow> sort_key x \<noteq> []"
  using folder_key_suffix by fastforce

lemma top_path: "(if type x = ''folder'' \<and> \<not> has_suffix (rel_path x) ''/'' then rel_path x @ ''/'' else rel_path x) = sort_key x"
  by (cases "type x = ''folder''") (simp_all add: folder_key file_key appendFolderSuffix_def)

lemma top_loop_Cons:
  "top_loop rel_path name type (x # xs) prev =
     (if name x = ''.'' \<or> (prev \<noteq> [] \<and> has_prefix (sort_key x) prev) then top_loop rel_path name type xs prev
      else x # top_loop rel_path name type xs (if type x = ''folder'' then sort_key x else prev))"
  using top_path[of x] by simp

lemma top_loop_subseq: "subseq (top_loop rel_path name type xs prev) xs"
proof (induction xs arbitrary: prev)
  case (Cons x xs)
  then show ?case unfolding top_loop_Cons by auto
qed simp

lemma top_loop_covers:
  "x \<in> set xs \<Longrightarrow> name x \<noteq> ''.'' \<Longrightarrow> x \<in> set (top_loop rel_path name type xs prev) \<or>
     (prev \<noteq> [] \<and> has_prefix (sort_key x) prev) \<or>
     (\<exists>f\<in>set (top_loop rel_path name type xs prev). type f = ''folder'' \<and> has_prefix (sort_key x) (sort_key f))"
proof (induction xs arbitrary: prev)
  case (Cons y xs)
  show ?case
  proof (cases "x = y")
    case True
    then show ?thesis using Cons.prems(2) unfolding top_loop_Cons by auto
  next
    case False
    then have x: "x \<in> set xs" using Cons.prems(1) by simp
    let ?prev = "if type y = ''folder'' then sort_key y else prev"
    show ?thesis
      unfolding top_loop_Cons using Cons.IH[OF x Cons.prems(2), of prev] Cons.IH[OF x Cons.prems(2), of ?prev]
      by (auto split: if_splits)
  qed
qed simp

text \<open>In sorted input, what is below a kept folder comes right after it, so it is dropped.\<close>

lemma top_loop_below_prev:
  assumes "sorted_wrt (\<lambda>x y. sort_key x \<le> sort_key y) xs" "\<forall>x\<in>set xs. prev \<le> sort_key x" "prev \<noteq> []"
  shows "\<forall>y\<in>set (top_loop rel_path name type xs prev). \<not> has_prefix (sort_key y) prev"
proof -
  have "\<forall>y\<in>set (top_loop rel_path name type xs p). \<not> has_prefix (sort_key y) prev"
    if "prev \<le> p" "\<forall>x\<in>set xs. p \<le> sort_key x" "p = prev \<or> \<not> has_prefix p prev" "p \<noteq> []"
      "sorted_wrt (\<lambda>x y. sort_key x \<le> sort_key y) xs" for p
    using that
  proof (induction xs arbitrary: p)
    case (Cons x xs)
    let ?p = "if type x = ''folder'' then sort_key x else p"
    have le: "prev \<le> ?p" "\<forall>y\<in>set xs. ?p \<le> sort_key y" "?p \<noteq> []"
      using Cons.prems folder_key_nonempty by (auto intro: order_trans)
    have keep: "\<not> has_prefix (sort_key x) prev" if "\<not> has_prefix (sort_key x) p"
    proof
      assume "has_prefix (sort_key x) prev"
      then obtain t where "sort_key x = prev @ t" by (auto simp: has_prefix_iff)
      then have "has_prefix p prev" using prefix_between[of prev p t] Cons.prems(1,2) by simp
      with Cons.prems(3) that \<open>has_prefix (sort_key x) prev\<close> show False by auto
    qed
    show ?case
      unfolding top_loop_Cons using Cons.IH[of p] Cons.IH[of ?p] Cons.prems le keep by auto
  qed simp
  from this[of prev] assms show ?thesis by simp
qed

lemma top_loop_antichain:
  assumes "sorted_wrt (\<lambda>x y. sort_key x \<le> sort_key y) xs"
  shows "sorted_wrt (\<lambda>f y. type f = ''folder'' \<longrightarrow> \<not> has_prefix (sort_key y) (sort_key f)) (top_loop rel_path name type xs prev)"
  using assms
proof (induction xs arbitrary: prev)
  case (Cons x xs)
  let ?p = "if type x = ''folder'' then sort_key x else prev"
  have "\<forall>y\<in>set (top_loop rel_path name type xs (sort_key x)). \<not> has_prefix (sort_key y) (sort_key x)" if "type x = ''folder''"
    using top_loop_below_prev[of xs "sort_key x"] folder_key_nonempty[OF that] Cons.prems by simp
  then show ?case unfolding top_loop_Cons using Cons.IH[of prev] Cons.IH[of ?p] Cons.prems by auto
qed simp

abbreviation dir_path :: "'a \<Rightarrow> string" where
  "dir_path x \<equiv> appendFolderSuffix (rel_path x)"

lemma bottom_loop_Cons:
  "bottom_loop rel_path name (x # xs) temp =
     (if name x = ''.'' \<or> (temp \<noteq> [] \<and> has_prefix temp (dir_path x)) then bottom_loop rel_path name xs temp
      else x # bottom_loop rel_path name xs (dir_path x))"
  by (simp add: appendFolderSuffix_def)

lemma bottom_loop_subseq: "subseq (bottom_loop rel_path name xs temp) xs"
proof (induction xs arbitrary: temp)
  case (Cons x xs)
  then show ?case unfolding bottom_loop_Cons by auto
qed simp

lemma bottom_loop_covers:
  "x \<in> set xs \<Longrightarrow> name x \<noteq> ''.'' \<Longrightarrow> (temp \<noteq> [] \<and> has_prefix temp (dir_path x)) \<or>
     (\<exists>y\<in>set (bottom_loop rel_path name xs temp). has_prefix (dir_path y) (dir_path x))"
proof (induction xs arbitrary: temp)
  case (Cons y xs)
  show ?case
  proof (cases "x = y")
    case True
    then show ?thesis using Cons.prems(2) unfolding bottom_loop_Cons by auto
  next
    case False
    then have x: "x \<in> set xs" using Cons.prems(1) by simp
    show ?thesis
      unfolding bottom_loop_Cons using Cons.IH[OF x Cons.prems(2), of temp] Cons.IH[OF x Cons.prems(2), of "dir_path y"]
      by (auto split: if_splits)
  qed
qed simp

lemma key_dir_path: "sort_key x = dir_path x \<or> (type x \<noteq> ''folder'' \<and> dir_path x = sort_key x @ ''/'')"
  by (cases "type x = ''folder''") (simp_all add: folder_key file_key appendFolderSuffix_def)

text \<open>An item that is not before a folder and is below it has the folder's key as a prefix of its own.\<close>

lemma below_key:
  assumes "type x = ''folder''" "has_prefix (dir_path y) (dir_path x)" "sort_key x \<le> sort_key y"
  shows "has_prefix (sort_key y) (sort_key x)"
proof (cases "sort_key y = dir_path y")
  case True
  then show ?thesis using assms folder_key by simp
next
  case False
  then have y: "dir_path y = sort_key y @ ''/''" using key_dir_path[of y] by auto
  obtain t where t: "sort_key y @ ''/'' = sort_key x @ t" using assms(1,2) folder_key y by (auto simp: has_prefix_iff)
  show ?thesis
  proof (cases t rule: rev_cases)
    case Nil
    then have "sort_key x = sort_key y @ ''/''" using t by simp
    then have "sort_key y = sort_key x" using assms(3) prefix_le[of "sort_key y" "''/''"] by (metis order_antisym)
    then show ?thesis using t by simp
  next
    case (snoc s c)
    then have "sort_key y = sort_key x @ s" using t by (metis append_assoc butlast_snoc)
    then show ?thesis by simp
  qed
qed

lemma bottom_loop_last:
  assumes "sorted_wrt (\<lambda>x y. sort_key y \<le> sort_key x) xs" "\<forall>x\<in>set xs. sort_key x \<le> k" "k = sort_key z"
    "t = dir_path w" "sort_key w \<le> k" "\<forall>x\<in>set xs. sort_key x \<le> sort_key w"
  shows "\<forall>x\<in>set (bottom_loop rel_path name xs t). type x = ''folder'' \<longrightarrow> \<not> has_prefix (dir_path z) (dir_path x)"
  using assms
proof (induction xs arbitrary: t w)
  case (Cons x xs)
  have drop: "has_prefix t (dir_path x)" if "type x = ''folder''" "has_prefix (dir_path z) (dir_path x)"
  proof -
    have "has_prefix (sort_key z) (sort_key x)" using below_key[OF that] Cons.prems(2,3) by simp
    then obtain u where "sort_key z = sort_key x @ u" by (auto simp: has_prefix_iff)
    then have "has_prefix (sort_key w) (sort_key x)"
      using prefix_between[of "sort_key x" "sort_key w" u] Cons.prems(3,5,6) by simp
    then show ?thesis
      using Cons.prems(4) key_dir_path[of w] folder_key[OF that(1)] by (auto simp: has_prefix_iff)
  qed
  have "t \<noteq> []" using Cons.prems(4) by (auto simp: appendFolderSuffix_def has_suffix_def)
  moreover have "\<forall>y\<in>set (bottom_loop rel_path name xs t). type y = ''folder'' \<longrightarrow> \<not> has_prefix (dir_path z) (dir_path y)"
    using Cons.prems by (intro Cons.IH[of t w]) auto
  moreover have "\<forall>y\<in>set (bottom_loop rel_path name xs (dir_path x)). type y = ''folder'' \<longrightarrow> \<not> has_prefix (dir_path z) (dir_path y)"
    using Cons.prems by (intro Cons.IH[of "dir_path x" x]) auto
  ultimately show ?case unfolding bottom_loop_Cons using drop by auto
qed simp

lemma bottom_loop_antichain:
  assumes "sorted_wrt (\<lambda>x y. sort_key y \<le> sort_key x) xs"
  shows "sorted_wrt (\<lambda>y x. type x = ''folder'' \<longrightarrow> \<not> has_prefix (dir_path y) (dir_path x)) (bottom_loop rel_path name xs temp)"
  using assms
proof (induction xs arbitrary: temp)
  case (Cons x xs)
  have "\<forall>y\<in>set (bottom_loop rel_path name xs (dir_path x)). type y = ''folder'' \<longrightarrow> \<not> has_prefix (dir_path x) (dir_path y)"
    using Cons.prems by (intro bottom_loop_last[of xs "sort_key x" x _ x]) auto
  then show ?case unfolding bottom_loop_Cons using Cons.IH Cons.prems by auto
qed simp

end

interpretation result_item: search_based_item GetSortKey GetItemRelativePath Name Type
  by unfold_locales (simp_all add: GetSortKey_def)

section \<open>Properties\<close>

lemma set_subseq: "subseq xs ys \<Longrightarrow> set xs \<subseteq> set ys"
  by (auto elim: list_emb_set)

text \<open>What sorting keeps, without duplicates of keys.\<close>

lemma SortContentReader_sorted:
  obtains out where "SortContentReader key (rs, []) asc = Inr out"
    "sorted_wrt (\<lambda>x y. key_before asc (key x) (key y)) out" "set out \<subseteq> set rs" "key ` set out = key ` set rs"
proof -
  obtain out where out: "SortContentReader key (rs, []) asc = Inr out" "key_sorted True key asc out"
    "\<forall>k. find (\<lambda>r. key r = k) out = find (\<lambda>r. key r = k) rs"
    using SortContentReaderByCalculatedKey_spec[of rs key asc] by (auto simp: SortContentReader_def)
  have mem: "x \<in> set rs" if "x \<in> set out" for x
  proof -
    have "find (\<lambda>r. key r = key x) out = Some x"
      using key_sorted_distinct[OF out(2)] that by (intro find_unique) auto
    then have "find (\<lambda>r. key r = key x) rs = Some x" using out(3) by simp
    then show ?thesis by (auto simp: find_Some_iff)
  qed
  have key: "key x \<in> key ` set out" if x: "x \<in> set rs" for x
  proof -
    have "find (\<lambda>r. key r = key x) out \<noteq> None" using out(3) x by (auto simp: find_None_iff)
    then obtain y where "find (\<lambda>r. key r = key x) out = Some y" by blast
    then have "y \<in> set out" "key y = key x" by (auto simp: find_Some_iff)
    then show ?thesis by (metis image_eqI)
  qed
  have "sorted_wrt (\<lambda>x y. key_before asc (key x) (key y)) out" using out(2) by (simp add: in_order_def)
  then show thesis by (rule that[OF out(1)]) (use mem key in auto)
qed

text \<open>C23: Reducing results to the top of each chain gives a part of the results in which no item lies
  below a folder that stands before it, and in which every result is represented by an item with its path or by a folder
  above it. Exempt are the paths at which a result has the name \<open>.\<close>, the root of a repository, which is left out.\<close>

theorem ReduceTopChainDirResult_correct:
  "\<exists>out. ReduceTopChainDirResult (rs, []) = Inr out \<and> set out \<subseteq> set rs \<and>
    sorted_wrt (\<lambda>f y. Type f = ''folder'' \<longrightarrow> \<not> has_prefix (GetSortKey y) (GetSortKey f)) out \<and>
    (\<forall>x\<in>set rs. (\<forall>y\<in>set rs. GetSortKey y = GetSortKey x \<longrightarrow> Name y \<noteq> ''.'') \<longrightarrow>
       (\<exists>y\<in>set out. GetSortKey y = GetSortKey x \<or> Type y = ''folder'' \<and> has_prefix (GetSortKey x) (GetSortKey y)))"
proof -
  obtain s where s: "SortContentReader GetSortKey (rs, []) True = Inr s"
    "sorted_wrt (\<lambda>x y. key_before True (GetSortKey x) (GetSortKey y)) s" "set s \<subseteq> set rs" "GetSortKey ` set s = GetSortKey ` set rs"
    by (rule SortContentReader_sorted)
  let ?out = "top_loop GetItemRelativePath Name Type s []"
  have sorted: "sorted_wrt (\<lambda>x y. GetSortKey x \<le> GetSortKey y) s"
    by (rule sorted_wrt_mono_rel[OF _ s(2)]) (simp add: key_before_def)
  have run: "ReduceTopChainDirResult (rs, []) = Inr ?out"
    by (simp add: ReduceTopChainDirResult_def ReduceDirResult_def s(1) FilterTopChainResults_def source_error_def)
  have sub: "set ?out \<subseteq> set s" using result_item.top_loop_subseq by (rule set_subseq)
  have cover: "\<exists>y\<in>set ?out. GetSortKey y = GetSortKey x \<or> Type y = ''folder'' \<and> has_prefix (GetSortKey x) (GetSortKey y)"
    if x: "x \<in> set rs" and name: "\<forall>y\<in>set rs. GetSortKey y = GetSortKey x \<longrightarrow> Name y \<noteq> ''.''" for x
  proof -
    obtain z where z: "z \<in> set s" "GetSortKey z = GetSortKey x" using s(4) x by (metis imageE image_eqI)
    then have "Name z \<noteq> ''.''" using name s(3) by auto
    from result_item.top_loop_covers[OF z(1) this, of "[]"] z(2) show ?thesis by auto
  qed
  show ?thesis
    using run sub s(3) result_item.top_loop_antichain[OF sorted] cover by blast
qed

text \<open>Reducing results to the bottom of each chain gives a part of the results in which no folder
  has another item of the part below it, and in which every result (but the entry \<open>.\<close>) is of the part
  or has an item of the part at or below its path.\<close>

theorem ReduceBottomChainDirResult_correct:
  "\<exists>out. ReduceBottomChainDirResult (rs, []) = Inr out \<and> set out \<subseteq> set rs \<and>
    sorted_wrt (\<lambda>y f. Type f = ''folder'' \<longrightarrow>
      \<not> has_prefix (appendFolderSuffix (GetItemRelativePath y)) (appendFolderSuffix (GetItemRelativePath f))) out \<and>
    (\<forall>k\<in>GetSortKey ` set rs. \<exists>x\<in>set rs. GetSortKey x = k \<and> (Name x = ''.'' \<or>
       (\<exists>y\<in>set out. has_prefix (appendFolderSuffix (GetItemRelativePath y)) (appendFolderSuffix (GetItemRelativePath x)))))"
proof -
  obtain s where s: "SortContentReader GetSortKey (rs, []) False = Inr s"
    "sorted_wrt (\<lambda>x y. key_before False (GetSortKey x) (GetSortKey y)) s" "set s \<subseteq> set rs" "GetSortKey ` set s = GetSortKey ` set rs"
    by (rule SortContentReader_sorted)
  let ?out = "bottom_loop GetItemRelativePath Name s []"
  have sorted: "sorted_wrt (\<lambda>x y. GetSortKey y \<le> GetSortKey x) s"
    by (rule sorted_wrt_mono_rel[OF _ s(2)]) (simp add: key_before_def)
  have run: "ReduceBottomChainDirResult (rs, []) = Inr ?out"
    by (simp add: ReduceBottomChainDirResult_def ReduceDirResult_def s(1) FilterBottomChainResults_def source_error_def)
  have sub: "set ?out \<subseteq> set s" using result_item.bottom_loop_subseq by (rule set_subseq)
  have cover: "\<exists>x\<in>set rs. GetSortKey x = k \<and> (Name x = ''.'' \<or>
       (\<exists>y\<in>set ?out. has_prefix (appendFolderSuffix (GetItemRelativePath y)) (appendFolderSuffix (GetItemRelativePath x))))"
    if k: "k \<in> GetSortKey ` set rs" for k
  proof -
    obtain z where z: "z \<in> set s" "GetSortKey z = k" using s(4) k by (metis imageE)
    show ?thesis
      using result_item.bottom_loop_covers[OF z(1), of "[]"] z s(3) by blast
  qed
  show ?thesis
    using run sub s(3) result_item.bottom_loop_antichain[OF sorted] cover by blast
qed

theorem ReduceTopChainDirResult_correct_witness:
  "let a = zero_item\<lparr>Repo := ''r'', Path := ''.'', Name := ''a'', Type := ''folder''\<rparr>;
       b = zero_item\<lparr>Repo := ''r'', Path := ''a'', Name := ''b'', Type := ''file''\<rparr>
   in \<exists>out. ReduceTopChainDirResult ([b, a], []) = Inr out \<and> set out \<subseteq> {a, b} \<and>
        (\<exists>y\<in>set out. GetSortKey y = ''r/a/b'' \<or> Type y = ''folder'' \<and> has_prefix ''r/a/b'' (GetSortKey y))"
proof -
  let ?a = "zero_item\<lparr>Repo := ''r'', Path := ''.'', Name := ''a'', Type := ''folder''\<rparr>"
  let ?b = "zero_item\<lparr>Repo := ''r'', Path := ''a'', Name := ''b'', Type := ''file''\<rparr>"
  have k: "GetSortKey ?b = ''r/a/b''" "Name ?a = ''a''" "Name ?b = ''b''" by code_simp+
  obtain out where out: "ReduceTopChainDirResult ([?b, ?a], []) = Inr out" "set out \<subseteq> set [?b, ?a]"
    "\<forall>x\<in>set [?b, ?a]. (\<forall>y\<in>set [?b, ?a]. GetSortKey y = GetSortKey x \<longrightarrow> Name y \<noteq> ''.'') \<longrightarrow>
       (\<exists>y\<in>set out. GetSortKey y = GetSortKey x \<or> Type y = ''folder'' \<and> has_prefix (GetSortKey x) (GetSortKey y))"
    using ReduceTopChainDirResult_correct[of "[?b, ?a]"] by blast
  have "\<forall>y\<in>set [?b, ?a]. GetSortKey y = GetSortKey ?b \<longrightarrow> Name y \<noteq> ''.''" using k(2,3) by simp
  with out(3) have "\<exists>y\<in>set out. GetSortKey y = GetSortKey ?b \<or> Type y = ''folder'' \<and> has_prefix (GetSortKey ?b) (GetSortKey y)"
    by (meson list.set_intros(1))
  then have "\<exists>y\<in>set out. GetSortKey y = ''r/a/b'' \<or> Type y = ''folder'' \<and> has_prefix ''r/a/b'' (GetSortKey y)"
    unfolding k(1) .
  with out(1,2) show ?thesis unfolding Let_def by auto
qed

theorem ReduceBottomChainDirResult_correct_witness:
  "let a = zero_item\<lparr>Repo := ''r'', Path := ''.'', Name := ''a'', Type := ''folder''\<rparr>
   in \<exists>out. ReduceBottomChainDirResult ([a], []) = Inr out \<and> set out \<subseteq> {a}"
  using ReduceBottomChainDirResult_correct[of "[zero_item\<lparr>Repo := ''r'', Path := ''.'', Name := ''a'', Type := ''folder''\<rparr>]"]
  unfolding Let_def by auto

end
