(* ===== verification/Builds.thy ===== *)
theory Builds
  imports Aql Items
begin

text \<open>
  The builds of a build search, from \<^verbatim>\<open>artifactory/services/utils/artifactoryutils.go\<close>: resolving a
  build identifier, and collecting a build with the builds among its modules, and theirs.

  The server is a parameter: \<open>server query\<close> is what \<open>ExecAqlSaveToFile\<close> gives for an AQL query, an
  error or the reader of its results; \<open>fetch name number project\<close> is the answer of the build REST call
  of \<open>GetBuildInfo\<close>, an error, nothing (status 404), or the modules of the build.
\<close>

section \<open>Build identifiers\<close>

type_synonym aql_server = "string \<Rightarrow> ResultItem source result"

definition LatestBuildNumberKey :: string where
  "LatestBuildNumberKey = ''LATEST''"

definition lastRelease :: string where
  "lastRelease = ''LAST_RELEASE''"

definition aqlSearch :: "aql_server \<Rightarrow> string \<Rightarrow> ResultItem source result" where
  "aqlSearch server aqlQuery = server aqlQuery"

text \<open>The first result whose name has a dash; what precedes the last dash is the number.\<close>

fun latest_loop :: "string \<Rightarrow> ResultItem list \<Rightarrow> string \<times> string" where
  "latest_loop buildName [] = ([], [])"
| "latest_loop buildName (item # items) =
     (let i = last_index_char (Name item) CHR ''-''
      in if i \<noteq> - 1 then (buildName, take (nat i) (Name item)) else latest_loop buildName items)"

definition getLatestBuildNumberFromArtifactory ::
    "aql_server \<Rightarrow> string \<Rightarrow> string \<Rightarrow> string \<Rightarrow> (string \<times> string) result" where
  "getLatestBuildNumberFromArtifactory server buildName buildNumber projectKey =
     (let buildRepo = (if projectKey \<noteq> [] then projectKey else ''artifactory'') @ ''-build-info'';
          aqlBody = CreateAqlQueryForLatestCreated buildRepo buildName
      in and_then (aqlSearch server aqlBody) (\<lambda>reader. Inr (latest_loop buildName (fst reader))))"

definition GetBuildNameAndNumberFromArtifactory ::
    "aql_server \<Rightarrow> string \<Rightarrow> string \<Rightarrow> string \<Rightarrow> (string \<times> string) result" where
  "GetBuildNameAndNumberFromArtifactory server buildName buildNumber projectKey =
     (if buildNumber = LatestBuildNumberKey \<or> buildNumber = lastRelease
      then getLatestBuildNumberFromArtifactory server buildName buildNumber projectKey
      else Inr (buildName, buildNumber))"

definition getBuildNameAndNumberFromBuildIdentifier ::
    "aql_server \<Rightarrow> string \<Rightarrow> string \<Rightarrow> (string \<times> string) result" where
  "getBuildNameAndNumberFromBuildIdentifier server buildIdentifier projectKey =
     and_then (ParseNameAndVersion buildIdentifier True) (\<lambda>(buildName, buildNumber).
       GetBuildNameAndNumberFromArtifactory server buildName buildNumber projectKey)"

section \<open>Aggregated builds\<close>

text \<open>\<open>is_build\<close> tells the module type \<open>Build\<close> of the build-info library.\<close>

record Module =
  mod_Id :: string
  is_build :: bool

type_synonym build_fetch = "string \<Rightarrow> string \<Rightarrow> string \<Rightarrow> Module list option result"

definition GetBuildInfo ::
    "aql_server \<Rightarrow> build_fetch \<Rightarrow> string \<Rightarrow> string \<Rightarrow> string \<Rightarrow> Module list option result" where
  "GetBuildInfo server fetch buildName buildNumber projectKey =
     and_then (GetBuildNameAndNumberFromArtifactory server buildName buildNumber projectKey)
       (\<lambda>(name, number). fetch name number projectKey)"

text \<open>The loop over the modules of a build with the builds collected so far. The recursive call of the
  source is written out: it asks for the build of the module and runs the loop over its modules. A run
  that never ends is \<open>None\<close>.\<close>

partial_function (option) module_loop ::
    "(string \<Rightarrow> string \<Rightarrow> Module list option result) \<Rightarrow> Module list \<Rightarrow> Build list \<Rightarrow> Build list result option" where
  "module_loop info modules aggregatedBuilds =
     (case modules of
        [] \<Rightarrow> Some (Inr aggregatedBuilds)
      | module # rest \<Rightarrow>
          if is_build module
          then (case ParseNameAndVersion (mod_Id module) False of
                  Inl e \<Rightarrow> Some (Inl e)
                | Inr (name, version) \<Rightarrow>
                    (case info name version of
                       Inl e \<Rightarrow> Some (Inl e)
                     | Inr None \<Rightarrow> module_loop info rest aggregatedBuilds
                     | Inr (Some childModules) \<Rightarrow>
                         Option.bind (module_loop info childModules [\<lparr>BuildName = name, BuildNumber = version\<rparr>])
                           (\<lambda>r. case r of
                                  Inl e \<Rightarrow> Some (Inl e)
                                | Inr childAggregatedBuilds \<Rightarrow> module_loop info rest (aggregatedBuilds @ childAggregatedBuilds))))
          else module_loop info rest aggregatedBuilds)"

declare module_loop.simps [code]

definition getAggregatedBuilds ::
    "aql_server \<Rightarrow> build_fetch \<Rightarrow> string \<Rightarrow> string \<Rightarrow> string \<Rightarrow> Build list result option" where
  "getAggregatedBuilds server fetch buildName buildNumber projectKey =
     (let info = (\<lambda>name number. GetBuildInfo server fetch name number projectKey)
      in case info buildName buildNumber of
           Inl e \<Rightarrow> Some (Inl e)
         | Inr None \<Rightarrow> Some (Inr [])
         | Inr (Some modules) \<Rightarrow> module_loop info modules [\<lparr>BuildName = buildName, BuildNumber = buildNumber\<rparr>])"

definition isBuildContained :: "string \<Rightarrow> string \<Rightarrow> Build list \<Rightarrow> bool" where
  "isBuildContained buildName buildNumber builds \<longleftrightarrow>
     list_ex (\<lambda>build. BuildName build = buildName \<and> BuildNumber build = buildNumber) builds"

definition isBuildNameContained :: "string \<Rightarrow> Build list \<Rightarrow> bool" where
  "isBuildNameContained buildName builds \<longleftrightarrow> list_ex (\<lambda>build. BuildName build = buildName) builds"

section \<open>Termination\<close>

text \<open>A published build of which \<open>c\<close>, published as well, is a module.\<close>

inductive submodule :: "(string \<Rightarrow> string \<Rightarrow> Module list option result) \<Rightarrow> Build \<Rightarrow> Build \<Rightarrow> bool" for info where
  submodule: "info (BuildName b) (BuildNumber b) = Inr (Some modules) \<Longrightarrow> m \<in> set modules \<Longrightarrow> is_build m \<Longrightarrow>
    ParseNameAndVersion (mod_Id m) False = Inr (name, version) \<Longrightarrow> info name version = Inr (Some childModules) \<Longrightarrow>
    submodule info b \<lparr>BuildName = name, BuildNumber = version\<rparr>"

inductive_cases submoduleE: "submodule info b c"

definition children :: "(string \<Rightarrow> string \<Rightarrow> Module list option result) \<Rightarrow> Module list \<Rightarrow> Build set" where
  "children info modules = {c. \<exists>m\<in>set modules. is_build m \<and>
     ParseNameAndVersion (mod_Id m) False = Inr (BuildName c, BuildNumber c) \<and>
     (\<exists>ms. info (BuildName c) (BuildNumber c) = Inr (Some ms))}"

lemma children_Nil [simp]: "children info [] = {}"
  by (simp add: children_def)

lemma children_append_Cons: "children info (m # ms) = children info [m] \<union> children info ms"
  by (auto simp: children_def)

lemma children_single:
  "\<not> is_build m \<Longrightarrow> children info [m] = {}"
  "ParseNameAndVersion (mod_Id m) False = Inr (name, version) \<Longrightarrow> info name version = Inr None \<Longrightarrow> children info [m] = {}"
  "is_build m \<Longrightarrow> ParseNameAndVersion (mod_Id m) False = Inr (name, version) \<Longrightarrow> info name version = Inr (Some ms) \<Longrightarrow>
     children info [m] = {\<lparr>BuildName = name, BuildNumber = version\<rparr>}"
  by (auto simp: children_def)

lemma submodule_children:
  "info (BuildName b) (BuildNumber b) = Inr (Some modules) \<Longrightarrow> submodule info b c \<longleftrightarrow> c \<in> children info modules"
  by (cases c) (auto simp: children_def intro: submodule elim!: submoduleE)

lemmas module_loop_Cons = module_loop.simps[of _ "_ # _", simplified]

lemma module_loop_Nil [simp]: "module_loop info [] acc = Some (Inr acc)"
  by (simp add: module_loop.simps)

lemma module_loop_returns:
  assumes "\<And>c ms. c \<in> children info modules \<Longrightarrow> info (BuildName c) (BuildNumber c) = Inr (Some ms) \<Longrightarrow>
    \<exists>r. module_loop info ms [c] = Some r"
  shows "\<exists>r. module_loop info modules acc = Some r"
  using assms
proof (induction modules arbitrary: acc)
  case (Cons m modules)
  have rest: "\<exists>r. module_loop info modules acc = Some r" for acc
    by (rule Cons.IH) (use Cons.prems children_append_Cons[of info m modules] in blast)
  have child: "\<exists>r. module_loop info ms [\<lparr>BuildName = name, BuildNumber = version\<rparr>] = Some r"
    if "is_build m" "ParseNameAndVersion (mod_Id m) False = Inr (name, version)" "info name version = Inr (Some ms)" for name version ms
    using Cons.prems[of "\<lparr>BuildName = name, BuildNumber = version\<rparr>" ms] that
    by (simp add: children_append_Cons[of info m modules] children_single(3)[of m name version info ms, OF that])
  show ?case
  proof (cases "is_build m")
    case False
    then show ?thesis unfolding module_loop_Cons using rest by simp
  next
    case True
    show ?thesis
    proof (cases "ParseNameAndVersion (mod_Id m) False")
      case (Inl e)
      then show ?thesis unfolding module_loop_Cons using True by simp
    next
      case (Inr nv)
      obtain name version where nv: "nv = (name, version)" by (cases nv)
      consider e where "info name version = Inl e" | "info name version = Inr None" | ms where "info name version = Inr (Some ms)"
        by (metis option.exhaust sum.exhaust)
      then show ?thesis
      proof cases
        case 3
        then obtain r where "module_loop info ms [\<lparr>BuildName = name, BuildNumber = version\<rparr>] = Some r"
          using child True Inr nv by blast
        then show ?thesis unfolding module_loop_Cons using True Inr nv 3 rest by (cases r) simp_all
      qed (use True Inr nv rest in \<open>simp_all add: module_loop_Cons\<close>)
    qed
  qed
qed simp

lemma module_loop_terminates:
  assumes rank: "\<And>b c. submodule info b c \<Longrightarrow> rank c < (rank b :: nat)"
  shows "info (BuildName b) (BuildNumber b) = Inr (Some modules) \<Longrightarrow> \<exists>r. module_loop info modules [b] = Some r"
proof (induction "rank b" arbitrary: b modules rule: less_induct)
  case less
  show ?case
    by (rule module_loop_returns) (use less rank submodule_children[of info b modules] in blast)
qed
section \<open>What is collected\<close>

lemma reachable_first_step:
  assumes "\<And>c. R b c \<longleftrightarrow> c \<in> C"
  shows "{x. R\<^sup>*\<^sup>* b x} = insert b {x. \<exists>c\<in>C. R\<^sup>*\<^sup>* c x}"
proof -
  have "R\<^sup>*\<^sup>* b x \<longleftrightarrow> x = b \<or> (\<exists>c. R b c \<and> R\<^sup>*\<^sup>* c x)" for x
    by (metis converse_rtranclpE converse_rtranclp_into_rtranclp rtranclp.rtrancl_refl)
  then show ?thesis using assms by auto
qed

text \<open>What one round of the loop can do, whatever the recursive calls give.\<close>

lemma module_step_cases:
  assumes "(if is_build m
     then (case ParseNameAndVersion (mod_Id m) False of
             Inl e \<Rightarrow> Some (Inl e)
           | Inr (name, version) \<Rightarrow>
               (case info name version of
                  Inl e \<Rightarrow> Some (Inl e)
                | Inr None \<Rightarrow> loop rest acc
                | Inr (Some ms) \<Rightarrow>
                    Option.bind (loop ms [\<lparr>BuildName = name, BuildNumber = version\<rparr>])
                      (\<lambda>r. case r of Inl e \<Rightarrow> Some (Inl e) | Inr child \<Rightarrow> loop rest (acc @ child))))
     else loop rest acc) = Some r"
  obtains (skip) "loop rest acc = Some r" "children info [m] = {}"
    | (error) e where "r = Inl e" "(is_build m \<and> ParseNameAndVersion (mod_Id m) False = Inl e) \<or> (\<exists>n v. info n v = Inl e)"
    | (child_error) name version ms e where "r = Inl e" "info name version = Inr (Some ms)"
        "loop ms [\<lparr>BuildName = name, BuildNumber = version\<rparr>] = Some (Inl e)"
    | (child) name version ms child where "children info [m] = {\<lparr>BuildName = name, BuildNumber = version\<rparr>}"
        "info name version = Inr (Some ms)" "loop ms [\<lparr>BuildName = name, BuildNumber = version\<rparr>] = Some (Inr child)"
        "loop rest (acc @ child) = Some r"
proof (cases "is_build m")
  case False
  then show thesis using assms skip by (simp add: children_single)
next
  case build: True
  show thesis
  proof (cases "ParseNameAndVersion (mod_Id m) False")
    case (Inl e)
    then show thesis using assms build by (intro error[of e]) auto
  next
    case (Inr nv)
    obtain name version where nv: "nv = (name, version)" by (cases nv)
    consider e where "info name version = Inl e" | "info name version = Inr None" | ms where "info name version = Inr (Some ms)"
      by (metis option.exhaust sum.exhaust)
    then show thesis
    proof cases
      case 1
      then show thesis using assms build Inr nv by (intro error[of e]) auto
    next
      case 2
      then show thesis using assms skip build Inr nv by (simp add: children_single)
    next
      case 3
      then obtain y where y: "loop ms [\<lparr>BuildName = name, BuildNumber = version\<rparr>] = Some y"
        using assms build Inr nv by (auto simp: bind_eq_Some_conv)
      show thesis
      proof (cases y)
        case (Inl e)
        then show thesis
          using assms build \<open>_ = Inr nv\<close> nv 3 y by (intro child_error[of e name version ms]) auto
      next
        case (Inr c)
        then show thesis
          using assms build \<open>_ = Inr nv\<close> nv 3 y child[of name version ms c] by (simp add: children_single(3))
      qed
    qed
  qed
qed

lemma module_loop_collects:
  "module_loop info modules acc = Some r \<Longrightarrow>
    (case r of Inl e \<Rightarrow> True
     | Inr builds \<Rightarrow> \<exists>more. builds = acc @ more \<and> set more = {x. \<exists>c\<in>children info modules. (submodule info)\<^sup>*\<^sup>* c x})"
proof (induction rule: module_loop.raw_induct[rotated 1, consumes 1])
  case (1 loop info modules acc r)
  have loop: "\<exists>more. builds = acc @ more \<and> set more = {x. \<exists>c\<in>children info modules. (submodule info)\<^sup>*\<^sup>* c x}"
    if "loop info modules acc = Some (Inr builds)" for modules acc builds
    using 1(1)[OF that] by simp
  show ?case
  proof (cases modules)
    case Nil
    then show ?thesis using 1(2) by auto
  next
    case (Cons m rest)
    have rest: "\<exists>more. builds = acc' @ more \<and> set more = {x. \<exists>c\<in>children info rest. (submodule info)\<^sup>*\<^sup>* c x}"
      if "loop info rest acc' = Some (Inr builds)" for acc' builds using loop[OF that] .
    from 1(2)[unfolded Cons list.case] show ?thesis
    proof (cases rule: module_step_cases[where loop = "loop info"])
      case skip
      then show ?thesis using rest[of acc] unfolding Cons children_append_Cons[of info m rest] by (auto split: sum.split)
    next
      case error
      then show ?thesis by simp
    next
      case child_error
      then show ?thesis by simp
    next
      case (child name version ms child)
      let ?b = "\<lparr>BuildName = name, BuildNumber = version\<rparr>"
      obtain more where more: "child = [?b] @ more" "set more = {x. \<exists>c\<in>children info ms. (submodule info)\<^sup>*\<^sup>* c x}"
        using loop[OF child(3)] by blast
      have "submodule info ?b c \<longleftrightarrow> c \<in> children info ms" for c
        using submodule_children[of info ?b ms c] child(2) by simp
      then have "set child = {x. (submodule info)\<^sup>*\<^sup>* ?b x}"
        using more reachable_first_step[of "submodule info" ?b "children info ms"] by simp
      then show ?thesis
        using child(4) unfolding Cons children_append_Cons[of info m rest] child(1)
        by (cases r) (auto dest!: rest)
    qed
  qed
qed
section \<open>Cycles\<close>

lemma accp_no_cycle: "Wellfounded.accp (\<lambda>d c. R c d) c \<Longrightarrow> \<not> R\<^sup>+\<^sup>+ c c"
proof (induction rule: accp.induct)
  case (accI c)
  show ?case
  proof
    assume "R\<^sup>+\<^sup>+ c c"
    then obtain d where "R c d" "R\<^sup>*\<^sup>* d c" by (meson tranclpD)
    then have "R\<^sup>+\<^sup>+ d d" by (meson rtranclp_into_tranclp1)
    then show False using accI \<open>R c d\<close> by blast
  qed
qed

lemma module_loop_acyclic:
  "module_loop info modules acc = Some r \<Longrightarrow>
    (case r of Inl e \<Rightarrow> True | Inr builds \<Rightarrow> \<forall>c\<in>children info modules. Wellfounded.accp (\<lambda>d c. submodule info c d) c)"
proof (induction rule: module_loop.raw_induct[rotated 1, consumes 1])
  case (1 loop info modules acc r)
  note IH = 1(1)
  show ?case
  proof (cases modules)
    case (Cons m rest)
    from 1(2)[unfolded Cons list.case] show ?thesis
    proof (cases rule: module_step_cases[where loop = "loop info"])
      case skip
      then show ?thesis using IH[of info rest acc r] unfolding Cons children_append_Cons[of info m rest] by (auto split: sum.split)
    next
      case (child name version ms child)
      let ?b = "\<lparr>BuildName = name, BuildNumber = version\<rparr>"
      have "submodule info ?b c \<longleftrightarrow> c \<in> children info ms" for c
        using submodule_children[of info ?b ms c] child(2) by simp
      moreover have "\<forall>c\<in>children info ms. Wellfounded.accp (\<lambda>d c. submodule info c d) c"
        using IH[OF child(3)] by simp
      ultimately have "Wellfounded.accp (\<lambda>d c. submodule info c d) ?b" by - (rule accpI, blast)
      then show ?thesis
        using IH[OF child(4)] unfolding Cons children_append_Cons[of info m rest] child(1) by (auto split: sum.split)
    qed simp_all
  qed (auto split: sum.split)
qed

text \<open>A server that answers every call, on modules whose identifiers have a version.\<close>

definition parsing :: "Module list \<Rightarrow> bool" where
  "parsing modules \<longleftrightarrow> (\<forall>m\<in>set modules. is_build m \<longrightarrow> (\<exists>p. ParseNameAndVersion (mod_Id m) False = Inr p))"

definition answering :: "(string \<Rightarrow> string \<Rightarrow> Module list option result) \<Rightarrow> bool" where
  "answering info \<longleftrightarrow> (\<forall>n v. \<exists>modules. info n v = Inr modules \<and> (\<forall>ms. modules = Some ms \<longrightarrow> parsing ms))"

lemma answeringD: "answering info \<Longrightarrow> info n v \<noteq> Inl e" "answering info \<Longrightarrow> info n v = Inr (Some ms) \<Longrightarrow> parsing ms"
  unfolding answering_def by (metis sum.distinct(1)) (metis sum.inject(2))

lemma module_loop_no_error:
  "module_loop info modules acc = Some r \<Longrightarrow> answering info \<Longrightarrow> parsing modules \<Longrightarrow> \<exists>builds. r = Inr builds"
proof (induction rule: module_loop.raw_induct[rotated 1, consumes 1])
  case (1 loop info modules acc r)
  note IH = 1(1)
  show ?case
  proof (cases modules)
    case (Cons m rest)
    have parsing: "parsing rest" "is_build m \<Longrightarrow> \<exists>p. ParseNameAndVersion (mod_Id m) False = Inr p"
      using 1(4) Cons by (auto simp: parsing_def)
    from 1(2)[unfolded Cons list.case] show ?thesis
    proof (cases rule: module_step_cases[where loop = "loop info"])
      case skip
      then show ?thesis using IH 1(3) parsing by blast
    next
      case (error e)
      then show ?thesis using answeringD(1)[OF 1(3)] parsing(2) by auto
    next
      case (child_error name version ms e)
      then show ?thesis using IH[OF child_error(3) 1(3) answeringD(2)[OF 1(3) child_error(2)]] by simp
    next
      case (child name version ms child)
      then show ?thesis using IH[OF child(4) 1(3) parsing(1)] by simp
    qed
  qed (use 1(2) in auto)
qed

section \<open>Properties\<close>

abbreviation build_info :: "aql_server \<Rightarrow> build_fetch \<Rightarrow> string \<Rightarrow> string \<Rightarrow> string \<Rightarrow> Module list option result" where
  "build_info server fetch projectKey \<equiv> (\<lambda>name number. GetBuildInfo server fetch name number projectKey)"

text \<open>Collecting a build and its transitive builds ends when no build is transitively a module of
  itself, which a rank that every submodule lowers tells.\<close>

theorem getAggregatedBuilds_terminates:
  assumes "\<And>b c. submodule (build_info server fetch projectKey) b c \<Longrightarrow> rank c < (rank b :: nat)"
  shows "\<exists>r. getAggregatedBuilds server fetch buildName buildNumber projectKey = Some r"
proof -
  have "\<exists>r. module_loop (build_info server fetch projectKey) ms [\<lparr>BuildName = buildName, BuildNumber = buildNumber\<rparr>] = Some r"
    if "GetBuildInfo server fetch buildName buildNumber projectKey = Inr (Some ms)" for ms
    by (rule module_loop_terminates[where rank = rank]) (use assms that in simp_all)
  then show ?thesis by (auto simp: getAggregatedBuilds_def split: sum.split option.split)
qed

text \<open>C27: the builds collected are exactly the build itself, when it is published, and the published
  builds that are transitively among its modules.\<close>

theorem getAggregatedBuilds_collects:
  assumes "getAggregatedBuilds server fetch buildName buildNumber projectKey = Some (Inr builds)"
  shows "set builds = (if GetBuildInfo server fetch buildName buildNumber projectKey = Inr None then {}
    else {b. (submodule (build_info server fetch projectKey))\<^sup>*\<^sup>* \<lparr>BuildName = buildName, BuildNumber = buildNumber\<rparr> b})"
proof -
  let ?info = "build_info server fetch projectKey" and ?b = "\<lparr>BuildName = buildName, BuildNumber = buildNumber\<rparr>"
  consider "?info buildName buildNumber = Inr None" "builds = []"
    | ms where "?info buildName buildNumber = Inr (Some ms)" "module_loop ?info ms [?b] = Some (Inr builds)"
    using assms by (auto simp: getAggregatedBuilds_def split: sum.splits option.splits)
  then show ?thesis
  proof cases
    case 2
    have "submodule ?info ?b c \<longleftrightarrow> c \<in> children ?info ms" for c
      using submodule_children[of ?info ?b ms c] 2(1) by simp
    then show ?thesis
      using module_loop_collects[OF 2(2)] 2(1) reachable_first_step[of "submodule ?info" ?b "children ?info ms"] by auto
  qed simp
qed

text \<open>When the build, or a build reached from it, is transitively a module of itself, and the server
  answers, the collection runs forever.\<close>

theorem getAggregatedBuilds_cycle:
  assumes "answering (build_info server fetch projectKey)"
    and "GetBuildInfo server fetch buildName buildNumber projectKey = Inr (Some modules)"
    and "(submodule (build_info server fetch projectKey))\<^sup>*\<^sup>* \<lparr>BuildName = buildName, BuildNumber = buildNumber\<rparr> b"
    and "(submodule (build_info server fetch projectKey))\<^sup>+\<^sup>+ b b"
  shows "getAggregatedBuilds server fetch buildName buildNumber projectKey = None"
proof (rule ccontr)
  let ?info = "build_info server fetch projectKey" and ?b = "\<lparr>BuildName = buildName, BuildNumber = buildNumber\<rparr>"
  assume "getAggregatedBuilds server fetch buildName buildNumber projectKey \<noteq> None"
  then obtain r where r: "module_loop ?info modules [?b] = Some r"
    using assms(2) by (auto simp: getAggregatedBuilds_def)
  then obtain builds where builds: "r = Inr builds"
    using module_loop_no_error assms(1) answeringD(2)[OF assms(1,2)] by blast
  have "submodule ?info ?b c \<longleftrightarrow> c \<in> children ?info modules" for c
    using submodule_children[of ?info ?b modules c] assms(2) by simp
  then have "Wellfounded.accp (\<lambda>d c. submodule ?info c d) ?b"
    using module_loop_acyclic[OF r] builds by - (rule accpI, simp)
  moreover have "(\<lambda>d c. submodule ?info c d)\<^sup>*\<^sup>* b ?b" using assms(3) by (induction) (auto intro: converse_rtranclp_into_rtranclp)
  ultimately have "Wellfounded.accp (\<lambda>d c. submodule ?info c d) b" by (rule accp_downwards)
  then show False using accp_no_cycle[of "submodule ?info" b] assms(4) by simp
qed
text \<open>A build \<open>a/1\<close> with the module \<open>b/2\<close>, and a build \<open>c/1\<close> that is a module of itself.\<close>

definition example_fetch :: build_fetch where
  "example_fetch name number projectKey =
     (if name = ''a'' then Inr (Some [\<lparr>mod_Id = ''b/2'', is_build = True\<rparr>, \<lparr>mod_Id = ''x:y'', is_build = False\<rparr>])
      else if name = ''b'' then Inr (Some [])
      else if name = ''c'' then Inr (Some [\<lparr>mod_Id = ''c/1'', is_build = True\<rparr>])
      else Inr None)"

definition acyclic_fetch :: build_fetch where
  "acyclic_fetch name number projectKey = (if name = ''c'' then Inr None else example_fetch name number projectKey)"

definition no_server :: aql_server where
  "no_server query = Inr ([], [])"

lemma parse_examples:
  "ParseNameAndVersion ''b/2'' False = Inr (''b'', ''2'')" "ParseNameAndVersion ''c/1'' False = Inr (''c'', ''1'')"
  by code_simp+

lemma latest_empty: "GetBuildInfo no_server fetch name number project =
    (if number = ''LATEST'' \<or> number = ''LAST_RELEASE'' then fetch [] [] project else fetch name number project)"
  by (simp add: GetBuildInfo_def GetBuildNameAndNumberFromArtifactory_def getLatestBuildNumberFromArtifactory_def Let_def
      aqlSearch_def no_server_def LatestBuildNumberKey_def lastRelease_def)

theorem getAggregatedBuilds_terminates_witness:
  "\<exists>r. getAggregatedBuilds no_server acyclic_fetch ''a'' ''1'' [] = Some r"
proof (rule getAggregatedBuilds_terminates[where rank = "\<lambda>b. if BuildName b = ''a'' then 1 else 0"])
  fix b c
  assume "submodule (build_info no_server acyclic_fetch []) b c"
  then show "(if BuildName c = ''a'' then 1 else (0::nat)) < (if BuildName b = ''a'' then 1 else 0)"
    by cases (auto simp: latest_empty acyclic_fetch_def example_fetch_def parse_examples split: if_splits)
qed

lemma aggregated_example:
  "getAggregatedBuilds no_server example_fetch ''a'' ''1'' [] =
     Some (Inr [\<lparr>BuildName = ''a'', BuildNumber = ''1''\<rparr>, \<lparr>BuildName = ''b'', BuildNumber = ''2''\<rparr>])"
  by (simp add: getAggregatedBuilds_def latest_empty example_fetch_def module_loop_Cons parse_examples)

theorem getAggregatedBuilds_collects_witness:
  "{\<lparr>BuildName = ''a'', BuildNumber = ''1''\<rparr>, \<lparr>BuildName = ''b'', BuildNumber = ''2''\<rparr>} =
   {b. (submodule (build_info no_server example_fetch []))\<^sup>*\<^sup>* \<lparr>BuildName = ''a'', BuildNumber = ''1''\<rparr> b}"
  using getAggregatedBuilds_collects[OF aggregated_example] by (simp add: latest_empty example_fetch_def)

theorem getAggregatedBuilds_cycle_witness:
  "getAggregatedBuilds no_server example_fetch ''c'' ''1'' [] = None"
proof (rule getAggregatedBuilds_cycle[where b = "\<lparr>BuildName = ''c'', BuildNumber = ''1''\<rparr>"])
  show "answering (build_info no_server example_fetch [])"
    by (auto simp: answering_def latest_empty example_fetch_def parsing_def parse_examples)
  show "GetBuildInfo no_server example_fetch ''c'' ''1'' [] = Inr (Some [\<lparr>mod_Id = ''c/1'', is_build = True\<rparr>])"
    by (simp add: latest_empty example_fetch_def)
  have "submodule (build_info no_server example_fetch []) \<lparr>BuildName = ''c'', BuildNumber = ''1''\<rparr> \<lparr>BuildName = ''c'', BuildNumber = ''1''\<rparr>"
    by (rule submodule) (auto simp: latest_empty example_fetch_def parse_examples)
  then show "(submodule (build_info no_server example_fetch []))\<^sup>+\<^sup>+ \<lparr>BuildName = ''c'', BuildNumber = ''1''\<rparr> \<lparr>BuildName = ''c'', BuildNumber = ''1''\<rparr>"
    by (rule tranclp.r_into_trancl)
qed simp
end
