(* ===== verification/Search.thy ===== *)
theory Search
  imports Builds "HOL-Library.AList"
begin

text \<open>
  The search pipeline of \<^verbatim>\<open>artifactory/services/utils/searchutil.go\<close> and the filtering of its results
  by a build, from \<^verbatim>\<open>artifactory/services/utils/artifactoryutils.go\<close>.

  A Go map from checksums to priorities is an association list without duplicate keys; reading an
  absent key gives 0. The two goroutines of a search by build write different variables and are
  joined before these are read, so they are run one after the other. A nil reader is \<open>None\<close>.
\<close>

section \<open>Properties of the results\<close>

text \<open>The buffer maps a path to the item of \<open>writeOrder\<close> it points to; the fixed-size buffer of the
  source is a parameter.\<close>

fun store_props :: "ResultItem list \<Rightarrow> (string \<times> nat) list \<Rightarrow> ResultItem list \<Rightarrow> ResultItem list" where
  "store_props [] buffer writeOrder = writeOrder"
| "store_props (resultItem # items) buffer writeOrder =
     store_props items buffer
       (case map_of buffer (GetItemRelativePath resultItem) of
          None \<Rightarrow> writeOrder
        | Some i \<Rightarrow> writeOrder[i := (writeOrder ! i)\<lparr>Properties := Properties resultItem\<rparr>])"

definition updateProps :: "ResultItem source \<Rightarrow> (string \<times> nat) list \<Rightarrow> ResultItem list \<Rightarrow> ResultItem list result" where
  "updateProps readerWithProps buffer writeOrder =
     (if length buffer = 0 then Inr []
      else let writeOrder = store_props (fst readerWithProps) buffer writeOrder
           in case source_error readerWithProps of Some e \<Rightarrow> Inl e | None \<Rightarrow> Inr writeOrder)"

fun load_loop :: "nat \<Rightarrow> ResultItem source \<Rightarrow> ResultItem list \<Rightarrow> (string \<times> nat) list \<Rightarrow> ResultItem list \<Rightarrow>
    ResultItem list \<Rightarrow> (ResultItem list \<times> (string \<times> nat) list \<times> ResultItem list) result" where
  "load_loop bufferSize readerWithProps [] buffer writeOrder resultFile = Inr (resultFile, buffer, writeOrder)"
| "load_loop bufferSize readerWithProps (resultItem # items) buffer writeOrder resultFile =
     (let buffer = AList.update (GetItemRelativePath resultItem) (length writeOrder) buffer;
          writeOrder = writeOrder @ [resultItem]
      in if length buffer = bufferSize
         then and_then (updateProps readerWithProps buffer writeOrder) (\<lambda>written.
                load_loop bufferSize readerWithProps items [] [] (resultFile @ written))
         else load_loop bufferSize readerWithProps items buffer writeOrder resultFile)"

text \<open>When the reader fails the function returns the nil reader with the error of the last write, which is nil.\<close>

definition loadMissingProperties :: "nat \<Rightarrow> ResultItem source \<Rightarrow> ResultItem source \<Rightarrow> ResultItem list option result" where
  "loadMissingProperties bufferSize reader readerWithProps =
     and_then (load_loop bufferSize readerWithProps (fst reader) [] [] []) (\<lambda>(resultFile, buffer, writeOrder).
       if source_error reader \<noteq> None then Inr None
       else and_then (updateProps readerWithProps buffer writeOrder) (\<lambda>written. Inr (Some (resultFile @ written))))"

section \<open>Priorities\<close>

type_synonym sha_priorities = "(string \<times> nat) list"

definition priority_of :: "sha_priorities \<Rightarrow> string \<Rightarrow> nat" where
  "priority_of shas sha1 = (case map_of shas sha1 of None \<Rightarrow> 0 | Some p \<Rightarrow> p)"

definition extractSha1FromAqlResponse :: "ResultItem source \<Rightarrow> sha_priorities \<times> go_error option" where
  "extractSha1FromAqlResponse reader =
     (fold (\<lambda>resultItem m. AList.update (Actual_Sha1 resultItem) 2 m) (fst reader) [], source_error reader)"

text \<open>Step 1: the three priority files. A priority of the map is lowered as better matches are found.\<close>

fun priority_loop :: "Build list \<Rightarrow> ResultItem list \<Rightarrow> sha_priorities \<Rightarrow>
    (ResultItem list \<times> ResultItem list \<times> ResultItem list) \<times> sha_priorities" where
  "priority_loop builds [] shas = (([], [], []), shas)"
| "priority_loop builds (resultItem # items) shas =
     (if map_of shas (Actual_Sha1 resultItem) = None then priority_loop builds items shas
      else let (resultBuildName, resultBuildNumber) = getBuildNameAndNumberFromProps (Properties resultItem)
      in if isBuildContained resultBuildName resultBuildNumber builds
      then let ((p0, p1, p2), shas) = priority_loop builds items (AList.update (Actual_Sha1 resultItem) 0 shas)
           in ((resultItem # p0, p1, p2), shas)
      else if isBuildNameContained resultBuildName builds \<and> priority_of shas (Actual_Sha1 resultItem) \<noteq> 0
      then let ((p0, p1, p2), shas) = priority_loop builds items (AList.update (Actual_Sha1 resultItem) 1 shas)
           in ((p0, resultItem # p1, p2), shas)
      else if priority_of shas (Actual_Sha1 resultItem) = 2
      then let ((p0, p1, p2), shas) = priority_loop builds items shas
           in ((p0, p1, resultItem # p2), shas)
      else priority_loop builds items shas)"

text \<open>Step 2: one priority file appended to the results.\<close>

fun append_priority :: "nat \<Rightarrow> ResultItem list \<Rightarrow> sha_priorities \<Rightarrow> ResultItem list \<times> sha_priorities" where
  "append_priority priorityLevel [] shas = ([], shas)"
| "append_priority priorityLevel (resultItem # items) shas =
     (if priority_of shas (Actual_Sha1 resultItem) = priorityLevel
      then let (out, shas) = append_priority priorityLevel items (AList.delete (Actual_Sha1 resultItem) shas)
           in (resultItem # out, shas)
      else append_priority priorityLevel items shas)"

definition filterBuildAqlSearchResults :: "ResultItem source \<Rightarrow> sha_priorities \<Rightarrow> Build list \<Rightarrow> ResultItem list result" where
  "filterBuildAqlSearchResults reader buildArtifactsSha builds =
     (let ((p0, p1, p2), shas) = priority_loop builds (fst reader) buildArtifactsSha
      in case source_error reader of
           Some e \<Rightarrow> Inl e
         | None \<Rightarrow> let (out0, shas) = append_priority 0 p0 shas;
                       (out1, shas) = append_priority 1 p1 shas;
                       (out2, shas) = append_priority 2 p2 shas
                   in Inr (out0 @ out1 @ out2))"

section \<open>Filtering by a build\<close>

definition searchProps :: "aql_server \<Rightarrow> string \<Rightarrow> string \<Rightarrow> string list \<Rightarrow> ResultItem source result" where
  "searchProps server aqlBody filterByPropName filterByPropValues =
     server (createPropsQuery aqlBody filterByPropName filterByPropValues)"

text \<open>The map of a search that could not be made is nil, that of a reader that fails has what was read.\<close>

definition fetchBuildArtifactsOrDependenciesSha1 ::
    "aql_server \<Rightarrow> bool \<Rightarrow> Build list \<Rightarrow> sha_priorities option \<times> go_error option" where
  "fetchBuildArtifactsOrDependenciesSha1 server artifacts builds =
     (let buildQuery = createAqlQueryForBuild (buildIncludeQueryPart [''name'', ''repo'', ''path'', ''actual_sha1'']) artifacts builds
      in case aqlSearch server buildQuery of
           Inl e \<Rightarrow> (None, Some e)
         | Inr reader \<Rightarrow> let (m, err) = extractSha1FromAqlResponse reader in (Some m, err))"

definition nil_reader :: go_error where
  "nil_reader = Panic ''nil pointer dereference''"

text \<open>The maps are merged before the errors are looked at; writing to a nil map panics.\<close>

definition filter_with_sha1s :: "ResultItem source \<Rightarrow> sha_priorities option \<times> go_error option \<Rightarrow>
    sha_priorities option \<times> go_error option \<Rightarrow> Build list \<Rightarrow> ResultItem list result" where
  "filter_with_sha1s reader artifacts dependencies builds =
     (let deps = (case fst dependencies of None \<Rightarrow> [] | Some m \<Rightarrow> m)
      in case fst artifacts of
           None \<Rightarrow> (if deps \<noteq> [] then Inl (Panic ''assignment to entry in nil map'')
                    else case snd artifacts of
                           Some e \<Rightarrow> Inl e
                         | None \<Rightarrow> (case snd dependencies of Some e \<Rightarrow> Inl e
                                    | None \<Rightarrow> filterBuildAqlSearchResults reader [] builds))
         | Some arts \<Rightarrow>
             (let arts = fold (\<lambda>(k, v) m. AList.update k v m) deps arts
              in case snd artifacts of
                   Some e \<Rightarrow> Inl e
                 | None \<Rightarrow> (case snd dependencies of Some e \<Rightarrow> Inl e
                            | None \<Rightarrow> filterBuildAqlSearchResults reader arts builds)))"

definition filter_by_builds :: "aql_server \<Rightarrow> nat \<Rightarrow> CommonParams \<Rightarrow> ResultItem source \<Rightarrow> bool \<Rightarrow> Build list \<Rightarrow>
    ResultItem list result" where
  "filter_by_builds server bufferSize specFile reader itemsAlreadyContainProperties aggregatedBuilds =
     (let artifacts = (if \<not> ExcludeArtifacts specFile then fetchBuildArtifactsOrDependenciesSha1 server True aggregatedBuilds
                       else (Some [], None));
          dependencies = (if IncludeDeps specFile then fetchBuildArtifactsOrDependenciesSha1 server False aggregatedBuilds
                          else (Some [], None))
      in if ExcludeArtifacts specFile \<or> itemsAlreadyContainProperties
         then filter_with_sha1s reader artifacts dependencies aggregatedBuilds
         else and_then (searchProps server (ItemsFind (cp_Aql specFile)) ''build.name'' (map BuildName aggregatedBuilds))
                (\<lambda>readerWithProps. and_then (loadMissingProperties bufferSize reader readerWithProps) (\<lambda>tempReader.
                   case tempReader of
                     None \<Rightarrow> Inl nil_reader
                   | Some items \<Rightarrow> filter_with_sha1s (items, []) artifacts dependencies aggregatedBuilds)))"

definition filterAqlSearchResultsByBuild :: "aql_server \<Rightarrow> build_fetch \<Rightarrow> nat \<Rightarrow> CommonParams \<Rightarrow> ResultItem source \<Rightarrow> bool \<Rightarrow>
    ResultItem list result option" where
  "filterAqlSearchResultsByBuild server fetch bufferSize specFile reader itemsAlreadyContainProperties =
     (case getBuildNameAndNumberFromBuildIdentifier server (cp_Build specFile) (Project specFile) of
        Inl e \<Rightarrow> Some (Inl e)
      | Inr (buildName, buildNumber) \<Rightarrow>
          map_option (\<lambda>r. and_then r (filter_by_builds server bufferSize specFile reader itemsAlreadyContainProperties))
            (getAggregatedBuilds server fetch buildName buildNumber (Project specFile)))"

section \<open>The searches\<close>

text \<open>\<open>None\<close> inside the result is the nil reader: nothing was filtered.\<close>

definition FilterResultsByBuild :: "aql_server \<Rightarrow> build_fetch \<Rightarrow> nat \<Rightarrow> CommonParams \<Rightarrow> RequiredArtifactProps \<Rightarrow>
    ResultItem source \<Rightarrow> ResultItem list option result option" where
  "FilterResultsByBuild server fetch bufferSize specFile requiredArtifactProps reader =
     (case fst (Length (NewMultiSourceContentReader [reader])) of
        Inl e \<Rightarrow> Some (Inl e)
      | Inr len \<Rightarrow>
          if cp_Build specFile \<noteq> [] \<and> len > 0
          then let resultsArtifactsIncludeProperties = (requiredArtifactProps \<noteq> NONE \<and> includePropertiesInAqlForSpec specFile)
               in map_option (\<lambda>r. and_then r (\<lambda>items. Inr (Some items)))
                    (filterAqlSearchResultsByBuild server fetch bufferSize specFile reader resultsArtifactsIncludeProperties)
          else Some (Inr None))"

definition fetchProps :: "aql_server \<Rightarrow> nat \<Rightarrow> CommonParams \<Rightarrow> RequiredArtifactProps \<Rightarrow> ResultItem source \<Rightarrow>
    ResultItem list option result" where
  "fetchProps server bufferSize specFile requiredArtifactProps reader =
     (if \<not> includePropertiesInAqlForSpec specFile \<and> cp_Build specFile = [] \<and> requiredArtifactProps \<noteq> NONE
      then and_then (case requiredArtifactProps of
                       RequiredArtifactProps.ALL \<Rightarrow> searchProps server (ItemsFind (cp_Aql specFile)) ''*'' [''*'']
                     | SYMLINK \<Rightarrow> searchProps server (ItemsFind (cp_Aql specFile)) ''symlink.dest'' [''*'']
                     | NONE \<Rightarrow> Inl nil_reader)
             (loadMissingProperties bufferSize reader)
      else Inr None)"

definition SearchBySpecWithAql :: "aql_server \<Rightarrow> build_fetch \<Rightarrow> nat \<Rightarrow> CommonParams \<Rightarrow> RequiredArtifactProps \<Rightarrow>
    ResultItem source result option" where
  "SearchBySpecWithAql server fetch bufferSize specFile requiredArtifactProps =
     (case aqlSearch server (BuildQueryFromSpecFile specFile requiredArtifactProps) of
        Inl e \<Rightarrow> Some (Inl e)
      | Inr reader \<Rightarrow>
          map_option (\<lambda>filtered. and_then filtered (\<lambda>filteredReader.
              let reader = (case filteredReader of None \<Rightarrow> reader | Some items \<Rightarrow> (items, []))
              in and_then (fetchProps server bufferSize specFile requiredArtifactProps reader) (\<lambda>fetchedProps.
                   Inr (case fetchedProps of None \<Rightarrow> reader | Some items \<Rightarrow> (items, [])))))
            (FilterResultsByBuild server fetch bufferSize specFile requiredArtifactProps reader))"

text \<open>The query is stored in the caller's parameters, which are returned with the reader.\<close>

definition SearchBySpecWithPattern :: "(properties \<Rightarrow> properties) \<Rightarrow> aql_server \<Rightarrow> build_fetch \<Rightarrow> nat \<Rightarrow> CommonParams \<Rightarrow>
    RequiredArtifactProps \<Rightarrow> ResultItem source result option \<times> CommonParams" where
  "SearchBySpecWithPattern iteration server fetch bufferSize specFile requiredArtifactProps =
     (case CreateAqlBodyForSpecWithPattern iteration specFile of
        Inl e \<Rightarrow> (Some (Inl e), specFile)
      | Inr query \<Rightarrow>
          let specFile = specFile\<lparr>cp_Aql := \<lparr>ItemsFind = query\<rparr>\<rparr>
          in (SearchBySpecWithAql server fetch bufferSize specFile requiredArtifactProps, specFile))"

definition getBuildDependenciesForBuildSearch :: "aql_server \<Rightarrow> CommonParams \<Rightarrow> Build list \<Rightarrow> ResultItem source result" where
  "getBuildDependenciesForBuildSearch server specFile builds =
     (let specFile = specFile\<lparr>cp_Aql := \<lparr>ItemsFind = createAqlBodyForBuildDependencies builds\<rparr>\<rparr>
      in aqlSearch server (BuildQueryFromSpecFile specFile RequiredArtifactProps.ALL))"

definition getBuildArtifactsForBuildSearch :: "aql_server \<Rightarrow> CommonParams \<Rightarrow> Build list \<Rightarrow> ResultItem source result" where
  "getBuildArtifactsForBuildSearch server specFile builds =
     (let specFile = specFile\<lparr>cp_Aql := \<lparr>ItemsFind = createAqlBodyForBuildArtifacts builds\<rparr>\<rparr>
      in aqlSearch server (BuildQueryFromSpecFile specFile RequiredArtifactProps.ALL))"

definition mergeArtifactsAndDependenciesReaders ::
    "ResultItem source option \<Rightarrow> ResultItem source option \<Rightarrow> ResultItem list result" where
  "mergeArtifactsAndDependenciesReaders artifactsReader dependenciesReader =
     MergeReaders ((case artifactsReader of None \<Rightarrow> [] | Some r \<Rightarrow> [r]) @ (case dependenciesReader of None \<Rightarrow> [] | Some r \<Rightarrow> [r]))"

text \<open>The end of both branches: the merged items, filtered with their own checksums.\<close>

definition filter_merged :: "ResultItem source option \<Rightarrow> ResultItem source option \<Rightarrow> Build list \<Rightarrow> ResultItem list result" where
  "filter_merged artifactsReader dependenciesReader builds =
     and_then (mergeArtifactsAndDependenciesReaders artifactsReader dependenciesReader) (\<lambda>merged.
       filterBuildAqlSearchResults (merged, []) (fst (extractSha1FromAqlResponse (merged, []))) builds)"

definition filterBuildArtifactsAndDependencies :: "aql_server \<Rightarrow> nat \<Rightarrow> ResultItem source option \<Rightarrow> ResultItem source option \<Rightarrow>
    CommonParams \<Rightarrow> Build list \<Rightarrow> ResultItem list result" where
  "filterBuildArtifactsAndDependencies server bufferSize artifactsReader dependenciesReader specFile builds =
     (if includePropertiesInAqlForSpec specFile then filter_merged artifactsReader dependenciesReader builds
      else and_then (searchProps server (createAqlBodyForBuildArtifacts builds) ''build.name'' (map BuildName builds))
             (\<lambda>readerWithProps.
                case artifactsReader of
                  None \<Rightarrow> Inl nil_reader
                | Some reader \<Rightarrow>
                    and_then (loadMissingProperties bufferSize reader readerWithProps) (\<lambda>sorted.
                      case sorted of
                        None \<Rightarrow> Inl nil_reader
                      | Some items \<Rightarrow> filter_merged (Some (items, [])) dependenciesReader builds)))"

definition SearchBySpecWithBuild :: "aql_server \<Rightarrow> build_fetch \<Rightarrow> nat \<Rightarrow> CommonParams \<Rightarrow> ResultItem list result option" where
  "SearchBySpecWithBuild server fetch bufferSize specFile =
     (case getBuildNameAndNumberFromBuildIdentifier server (cp_Build specFile) (Project specFile) of
        Inl e \<Rightarrow> Some (Inl e)
      | Inr (buildName, buildNumber) \<Rightarrow>
          map_option (\<lambda>r. and_then r (\<lambda>aggregatedBuilds.
              if length aggregatedBuilds = 0 then Inr []
              else and_then (if \<not> ExcludeArtifacts specFile
                             then and_then (getBuildArtifactsForBuildSearch server specFile aggregatedBuilds) (\<lambda>r. Inr (Some r))
                             else Inr None) (\<lambda>artifactsReader.
                   and_then (if IncludeDeps specFile
                             then and_then (getBuildDependenciesForBuildSearch server specFile aggregatedBuilds) (\<lambda>r. Inr (Some r))
                             else Inr None) (\<lambda>dependenciesReader.
                   filterBuildArtifactsAndDependencies server bufferSize artifactsReader dependenciesReader specFile aggregatedBuilds))))
            (getAggregatedBuilds server fetch buildName buildNumber (Project specFile)))"

section \<open>What filtering by a build keeps\<close>

definition full_match :: "Build list \<Rightarrow> ResultItem \<Rightarrow> bool" where
  "full_match builds r = (let (n, v) = getBuildNameAndNumberFromProps (Properties r) in isBuildContained n v builds)"

definition name_match :: "Build list \<Rightarrow> ResultItem \<Rightarrow> bool" where
  "name_match builds r = isBuildNameContained (fst (getBuildNameAndNumberFromProps (Properties r))) builds"

lemma full_name_match: "full_match builds r \<Longrightarrow> name_match builds r"
  by (auto simp: full_match_def name_match_def isBuildContained_def isBuildNameContained_def list_ex_iff split: prod.splits)

text \<open>The first item of each checksum.\<close>

fun first_by_sha1 :: "string set \<Rightarrow> ResultItem list \<Rightarrow> ResultItem list" where
  "first_by_sha1 seen [] = []"
| "first_by_sha1 seen (r # rs) =
     (if Actual_Sha1 r \<in> seen then first_by_sha1 seen rs else r # first_by_sha1 (insert (Actual_Sha1 r) seen) rs)"

text \<open>The priority a checksum ends with.\<close>

definition final_priority :: "Build list \<Rightarrow> ResultItem list \<Rightarrow> nat \<Rightarrow> string \<Rightarrow> nat" where
  "final_priority builds rs p s =
     (if p = 0 \<or> (\<exists>r\<in>set rs. full_match builds r \<and> Actual_Sha1 r = s) then 0
      else if \<exists>r\<in>set rs. name_match builds r \<and> Actual_Sha1 r = s then 1 else p)"

lemma priority_of_update [simp]: "priority_of (AList.update k p shas) s = (if s = k then p else priority_of shas s)"
  by (simp add: priority_of_def update_conv')

lemma priority_of_delete [simp]: "priority_of (AList.delete k shas) s = (if s = k then 0 else priority_of shas s)"
  by (simp add: priority_of_def delete_conv')

lemma map_of_update_None: "map_of (AList.update k p shas) s = None \<longleftrightarrow> s \<noteq> k \<and> map_of shas s = None"
  by (simp add: update_conv')

lemma priority_loop_Cons:
  "priority_loop builds (r # rs) shas =
     (if map_of shas (Actual_Sha1 r) = None then priority_loop builds rs shas
      else if full_match builds r
      then let ((p0, p1, p2), shas) = priority_loop builds rs (AList.update (Actual_Sha1 r) 0 shas) in ((r # p0, p1, p2), shas)
      else if name_match builds r \<and> priority_of shas (Actual_Sha1 r) \<noteq> 0
      then let ((p0, p1, p2), shas) = priority_loop builds rs (AList.update (Actual_Sha1 r) 1 shas) in ((p0, r # p1, p2), shas)
      else if priority_of shas (Actual_Sha1 r) = 2
      then let ((p0, p1, p2), shas) = priority_loop builds rs shas in ((p0, p1, r # p2), shas)
      else priority_loop builds rs shas)"
  by (simp add: full_match_def name_match_def split_def Let_def)

declare priority_loop.simps(2) [simp del]

lemma priority_loop_step_cases:
  assumes "priority_loop builds (r # rs) shas = ((p0, p1, p2), shas')"
  obtains (unknown) "map_of shas (Actual_Sha1 r) = None" "priority_loop builds rs shas = ((p0, p1, p2), shas')"
    | (full) q0 where "map_of shas (Actual_Sha1 r) \<noteq> None" "full_match builds r"
        "priority_loop builds rs (AList.update (Actual_Sha1 r) 0 shas) = ((q0, p1, p2), shas')" "p0 = r # q0"
    | (name) q1 where "map_of shas (Actual_Sha1 r) \<noteq> None" "\<not> full_match builds r" "name_match builds r"
        "priority_of shas (Actual_Sha1 r) \<noteq> 0"
        "priority_loop builds rs (AList.update (Actual_Sha1 r) 1 shas) = ((p0, q1, p2), shas')" "p1 = r # q1"
    | (sha1) q2 where "map_of shas (Actual_Sha1 r) \<noteq> None" "\<not> name_match builds r"
        "priority_of shas (Actual_Sha1 r) = 2" "priority_loop builds rs shas = ((p0, p1, q2), shas')" "p2 = r # q2"
    | (lower) "map_of shas (Actual_Sha1 r) \<noteq> None" "\<not> full_match builds r"
        "name_match builds r \<longrightarrow> priority_of shas (Actual_Sha1 r) = 0" "priority_of shas (Actual_Sha1 r) \<noteq> 2"
        "priority_loop builds rs shas = ((p0, p1, p2), shas')"
  using assms unfolding priority_loop_Cons by (auto simp: Let_def split: if_splits prod.splits)

text \<open>A checksum that is known stays known, and ends with its final priority.\<close>

lemma priority_loop_final:
  "priority_loop builds rs shas = ((p0, p1, p2), shas') \<Longrightarrow> map_of shas s \<noteq> None \<Longrightarrow>
     priority_of shas' s = final_priority builds rs (priority_of shas s) s"
proof (induction rs arbitrary: shas p0 p1 p2)
  case Nil
  then show ?case by (simp add: final_priority_def)
next
  case (Cons r rs)
  have known: "map_of (AList.update (Actual_Sha1 r) p shas) s \<noteq> None" for p using Cons.prems(2) by (simp add: map_of_update_None)
  from Cons.prems(1) show ?case
  proof (cases rule: priority_loop_step_cases)
    case unknown
    then show ?thesis using Cons.IH[OF unknown(2) Cons.prems(2)] Cons.prems(2) by (auto simp: final_priority_def)
  next
    case full
    then show ?thesis using Cons.IH[OF full(3) known] by (cases "s = Actual_Sha1 r") (auto simp: final_priority_def)
  next
    case name
    then show ?thesis using Cons.IH[OF name(5) known] by (cases "s = Actual_Sha1 r") (auto simp: final_priority_def)
  next
    case sha1
    then show ?thesis
      using Cons.IH[OF sha1(4) Cons.prems(2)] full_name_match[of builds r] by (auto simp: final_priority_def)
  next
    case lower
    then show ?thesis using Cons.IH[OF lower(5) Cons.prems(2)] by (auto simp: final_priority_def)
  qed
qed

lemma priority_loop_full:
  "priority_loop builds rs shas = ((p0, p1, p2), shas') \<Longrightarrow>
     p0 = filter (\<lambda>r. map_of shas (Actual_Sha1 r) \<noteq> None \<and> full_match builds r) rs"
proof (induction rs arbitrary: shas p0 p1 p2)
  case (Cons r rs)
  have known: "map_of shas (Actual_Sha1 r) \<noteq> None \<Longrightarrow> map_of (AList.update (Actual_Sha1 r) p shas) s = None \<longleftrightarrow> map_of shas s = None" for p s
    by (auto simp: map_of_update_None)
  from Cons.prems show ?case
  proof (cases rule: priority_loop_step_cases)
    case full
    then show ?thesis using Cons.IH[OF full(3)] known by simp
  next
    case name
    then show ?thesis using Cons.IH[OF name(5)] known by simp
  qed (use Cons.IH full_name_match[of builds r] in auto)
qed simp

text \<open>The second and third file, without the items whose checksum was met again with a better match.\<close>

lemma priority_loop_rest:
  "priority_loop builds rs shas = ((p0, p1, p2), shas') \<Longrightarrow>
     filter (\<lambda>r. priority_of shas' (Actual_Sha1 r) = 1) p1 =
       filter (\<lambda>r. map_of shas (Actual_Sha1 r) \<noteq> None \<and> priority_of shas' (Actual_Sha1 r) = 1 \<and> name_match builds r) rs \<and>
     filter (\<lambda>r. priority_of shas' (Actual_Sha1 r) = 2) p2 =
       filter (\<lambda>r. map_of shas (Actual_Sha1 r) \<noteq> None \<and> priority_of shas' (Actual_Sha1 r) = 2) rs"
proof (induction rs arbitrary: shas p0 p1 p2)
  case (Cons r rs)
  have known: "map_of shas (Actual_Sha1 r) \<noteq> None \<Longrightarrow> map_of (AList.update (Actual_Sha1 r) p shas) s = None \<longleftrightarrow> map_of shas s = None" for p s
    by (auto simp: map_of_update_None)
  note final = priority_loop_final[OF Cons.prems, of "Actual_Sha1 r"]
  from Cons.prems show ?case
  proof (cases rule: priority_loop_step_cases)
    case unknown
    then show ?thesis using Cons.IH[OF unknown(2)] by simp
  next
    case full
    then have "priority_of shas' (Actual_Sha1 r) = 0" using final by (simp add: final_priority_def)
    then show ?thesis using Cons.IH[OF full(3)] known full(1) by simp
  next
    case name
    then have "priority_of shas' (Actual_Sha1 r) \<noteq> 2" using final by (simp add: final_priority_def)
    then show ?thesis using Cons.IH[OF name(5)] known name by simp
  next
    case sha1
    then show ?thesis using Cons.IH[OF sha1(4)] by simp
  next
    case lower
    then have "\<not> (priority_of shas' (Actual_Sha1 r) = 1 \<and> name_match builds r)" "priority_of shas' (Actual_Sha1 r) \<noteq> 2"
      using final by (auto simp: final_priority_def)
    then show ?thesis using Cons.IH[OF lower(5)] by auto
  qed
qed simp

lemma first_by_sha1_drop:
  "s \<in> seen \<Longrightarrow> first_by_sha1 seen (filter (\<lambda>x. Actual_Sha1 x \<noteq> s \<and> P x) xs) = first_by_sha1 seen (filter P xs)"
  by (induction xs arbitrary: seen) auto

lemma append_priority_eq:
  "append_priority level items shas = (out, shas') \<Longrightarrow> level \<noteq> 0 \<Longrightarrow> (\<And>s. s \<in> seen \<Longrightarrow> priority_of shas s \<noteq> level) \<Longrightarrow>
     out = first_by_sha1 seen (filter (\<lambda>r. priority_of shas (Actual_Sha1 r) = level) items)"
proof (induction items arbitrary: shas out seen)
  case (Cons r items)
  show ?case
  proof (cases "priority_of shas (Actual_Sha1 r) = level")
    case True
    then obtain out' where out: "append_priority level items (AList.delete (Actual_Sha1 r) shas) = (out', shas')" "out = r # out'"
      using Cons.prems(1) by (auto split: prod.splits)
    have "out' = first_by_sha1 (insert (Actual_Sha1 r) seen)
        (filter (\<lambda>x. priority_of (AList.delete (Actual_Sha1 r) shas) (Actual_Sha1 x) = level) items)"
      using Cons.prems by (intro Cons.IH[OF out(1)]) auto
    also have "\<dots> = first_by_sha1 (insert (Actual_Sha1 r) seen)
        (filter (\<lambda>x. Actual_Sha1 x \<noteq> Actual_Sha1 r \<and> priority_of shas (Actual_Sha1 x) = level) items)"
      using Cons.prems(2) by (intro arg_cong[where f = "first_by_sha1 _"] filter_cong) auto
    also have "\<dots> = first_by_sha1 (insert (Actual_Sha1 r) seen) (filter (\<lambda>x. priority_of shas (Actual_Sha1 x) = level) items)"
      by (rule first_by_sha1_drop) simp
    finally show ?thesis using True out(2) Cons.prems(3) by auto
  next
    case False
    then show ?thesis using Cons by simp
  qed
qed auto

lemma append_priority_0:
  "append_priority 0 items shas = (out, shas') \<Longrightarrow> out = filter (\<lambda>r. priority_of shas (Actual_Sha1 r) = 0) items"
proof (induction items arbitrary: shas out)
  case (Cons r items)
  show ?case
  proof (cases "priority_of shas (Actual_Sha1 r) = 0")
    case True
    then obtain out' where out: "append_priority 0 items (AList.delete (Actual_Sha1 r) shas) = (out', shas')" "out = r # out'"
      using Cons.prems(1) by (auto split: prod.splits)
    from Cons.IH[OF out(1)] show ?thesis using True out(2) by (auto intro!: filter_cong)
  qed (use Cons in simp)
qed simp

text \<open>Appending the items of one level leaves the priorities of the other levels.\<close>

lemma append_priority_others:
  "append_priority level items shas = (out, shas') \<Longrightarrow> l \<noteq> 0 \<Longrightarrow> l \<noteq> level \<Longrightarrow> priority_of shas' s = l \<longleftrightarrow> priority_of shas s = l"
proof (induction items arbitrary: shas out)
  case (Cons r items)
  show ?case
  proof (cases "priority_of shas (Actual_Sha1 r) = level")
    case True
    then obtain out' where out: "append_priority level items (AList.delete (Actual_Sha1 r) shas) = (out', shas')"
      using Cons.prems(1) by (auto split: prod.splits)
    from Cons.IH[OF this Cons.prems(2,3)] show ?thesis using True Cons.prems(2,3) by auto
  qed (use Cons in simp)
qed simp

text \<open>C32: the items filtered by a build are, of the items whose checksum the map has: first every item
  of one of the builds by name and number; then, for each checksum without such an item, the first
  item of a build of that name; then, for each checksum with neither, its first item.\<close>

theorem filterBuildAqlSearchResults_correct:
  fixes rs :: "ResultItem list"
  assumes "\<And>s p. map_of shas s = Some p \<Longrightarrow> p = 2"
  defines "known \<equiv> filter (\<lambda>r. map_of shas (Actual_Sha1 r) \<noteq> None) rs"
  shows "filterBuildAqlSearchResults (rs, []) shas builds = Inr (
    filter (full_match builds) known @
    first_by_sha1 {} (filter (\<lambda>r. name_match builds r \<and> (\<forall>x\<in>set known. Actual_Sha1 x = Actual_Sha1 r \<longrightarrow> \<not> full_match builds x)) known) @
    first_by_sha1 {} (filter (\<lambda>r. \<forall>x\<in>set known. Actual_Sha1 x = Actual_Sha1 r \<longrightarrow> \<not> name_match builds x) known))"
proof -
  obtain p0 p1 p2 shas' where run: "priority_loop builds rs shas = ((p0, p1, p2), shas')" by (metis surj_pair)
  obtain o0 s0 where o0: "append_priority 0 p0 shas' = (o0, s0)" by (meson surj_pair)
  obtain o1 s1 where o1: "append_priority 1 p1 s0 = (o1, s1)" by (meson surj_pair)
  obtain o2 s2 where o2: "append_priority 2 p2 s1 = (o2, s2)" by (meson surj_pair)
  have result: "filterBuildAqlSearchResults (rs, []) shas builds = Inr (o0 @ o1 @ o2)"
    by (simp add: filterBuildAqlSearchResults_def run o0 o1 o2 source_error_def del: One_nat_def)
  have final: "priority_of shas' (Actual_Sha1 r) =
      (if \<exists>x\<in>set known. Actual_Sha1 x = Actual_Sha1 r \<and> full_match builds x then 0
       else if \<exists>x\<in>set known. Actual_Sha1 x = Actual_Sha1 r \<and> name_match builds x then 1 else 2)"
    if "map_of shas (Actual_Sha1 r) \<noteq> None" for r
  proof -
    have p: "priority_of shas (Actual_Sha1 r) = 2" using assms(1) that by (auto simp: priority_of_def)
    have iff: "(\<exists>x\<in>set rs. P x \<and> Actual_Sha1 x = Actual_Sha1 r) \<longleftrightarrow> (\<exists>x\<in>set known. Actual_Sha1 x = Actual_Sha1 r \<and> P x)" for P
      using that by (auto simp: known_def)
    show ?thesis unfolding priority_loop_final[OF run that] final_priority_def p iff by simp
  qed
  have known: "r \<in> set known \<longleftrightarrow> map_of shas (Actual_Sha1 r) \<noteq> None" if "r \<in> set rs" for r
    using that by (simp add: known_def)
  have "priority_of shas' (Actual_Sha1 r) = 0" if "r \<in> set rs" "map_of shas (Actual_Sha1 r) \<noteq> None" "full_match builds r" for r
    using final[of r] that by (auto simp: known_def)
  then have o0_eq: "o0 = filter (full_match builds) known"
    unfolding append_priority_0[OF o0] priority_loop_full[OF run] known_def filter_filter
    by (intro filter_cong) auto
  have p1_eq: "filter (\<lambda>r. priority_of s0 (Actual_Sha1 r) = 1) p1 =
      filter (\<lambda>r. name_match builds r \<and> (\<forall>x\<in>set known. Actual_Sha1 x = Actual_Sha1 r \<longrightarrow> \<not> full_match builds x)) known"
  proof -
    have s0: "priority_of s0 s = 1 \<longleftrightarrow> priority_of shas' s = 1" for s
      by (rule append_priority_others[OF o0]) simp_all
    have "map_of shas (Actual_Sha1 r) \<noteq> None \<and> priority_of shas' (Actual_Sha1 r) = 1 \<and> name_match builds r \<longleftrightarrow>
        map_of shas (Actual_Sha1 r) \<noteq> None \<and> name_match builds r \<and>
        (\<forall>x\<in>set known. Actual_Sha1 x = Actual_Sha1 r \<longrightarrow> \<not> full_match builds x)" if "r \<in> set rs" for r
      using final[of r] known[OF that] by (cases "map_of shas (Actual_Sha1 r) = None") (auto split: if_splits)
    then show ?thesis
      unfolding s0 priority_loop_rest[OF run, THEN conjunct1] known_def filter_filter
      by (intro filter_cong) (auto simp: known_def)
  qed
  have p2_eq: "filter (\<lambda>r. priority_of s1 (Actual_Sha1 r) = 2) p2 =
      filter (\<lambda>r. \<forall>x\<in>set known. Actual_Sha1 x = Actual_Sha1 r \<longrightarrow> \<not> name_match builds x) known"
  proof -
    have s1: "priority_of s1 s = 2 \<longleftrightarrow> priority_of shas' s = 2" for s
      using append_priority_others[OF o0, of 2 s] append_priority_others[OF o1, of 2 s] by simp
    have "map_of shas (Actual_Sha1 r) \<noteq> None \<and> priority_of shas' (Actual_Sha1 r) = 2 \<longleftrightarrow>
        map_of shas (Actual_Sha1 r) \<noteq> None \<and>
        (\<forall>x\<in>set known. Actual_Sha1 x = Actual_Sha1 r \<longrightarrow> \<not> name_match builds x)" if "r \<in> set rs" for r
      using final[of r] known[OF that] full_name_match[of builds] by (cases "map_of shas (Actual_Sha1 r) = None") (auto split: if_splits)
    then show ?thesis
      unfolding s1 priority_loop_rest[OF run, THEN conjunct2] known_def filter_filter
      by (intro filter_cong) (auto simp: known_def)
  qed
  have "o1 = first_by_sha1 {} (filter (\<lambda>r. priority_of s0 (Actual_Sha1 r) = 1) p1)"
    by (rule append_priority_eq[OF o1]) simp_all
  moreover have "o2 = first_by_sha1 {} (filter (\<lambda>r. priority_of s1 (Actual_Sha1 r) = 2) p2)"
    by (rule append_priority_eq[OF o2]) simp_all
  ultimately show ?thesis unfolding result o0_eq p1_eq p2_eq by simp
qed

definition build_item :: "string \<Rightarrow> string \<Rightarrow> string \<Rightarrow> string \<Rightarrow> ResultItem" where
  "build_item name sha1 build number = zero_item\<lparr>Name := name, Actual_Sha1 := sha1,
     Properties := [\<lparr>Key = ''build.name'', Value = build\<rparr>, \<lparr>Key = ''build.number'', Value = number\<rparr>]\<rparr>"

theorem filterBuildAqlSearchResults_correct_witness:
  "filterBuildAqlSearchResults ([build_item ''x'' ''s'' ''b'' ''0'', build_item ''y'' ''s'' ''b'' ''1'', build_item ''z'' ''s'' ''b'' ''1''], [])
     [(''s'', 2)] [\<lparr>BuildName = ''b'', BuildNumber = ''1''\<rparr>] =
   Inr [build_item ''y'' ''s'' ''b'' ''1'', build_item ''z'' ''s'' ''b'' ''1'']"
proof -
  have m: "full_match [\<lparr>BuildName = ''b'', BuildNumber = ''1''\<rparr>] (build_item ''x'' ''s'' ''b'' ''0'') = False"
    "full_match [\<lparr>BuildName = ''b'', BuildNumber = ''1''\<rparr>] (build_item ''y'' ''s'' ''b'' ''1'')"
    "full_match [\<lparr>BuildName = ''b'', BuildNumber = ''1''\<rparr>] (build_item ''z'' ''s'' ''b'' ''1'')"
    "name_match [\<lparr>BuildName = ''b'', BuildNumber = ''1''\<rparr>] (build_item ''x'' ''s'' ''b'' ''0'')"
    "name_match [\<lparr>BuildName = ''b'', BuildNumber = ''1''\<rparr>] (build_item ''y'' ''s'' ''b'' ''1'')"
    "name_match [\<lparr>BuildName = ''b'', BuildNumber = ''1''\<rparr>] (build_item ''z'' ''s'' ''b'' ''1'')"
    by code_simp+
  have s: "Actual_Sha1 (build_item n s b v) = s" for n s b v by (simp add: build_item_def)
  have p: "map_of [(''s'', 2)] k = Some p \<Longrightarrow> p = (2::nat)" for k p by (simp split: if_splits)
  show ?thesis by (subst filterBuildAqlSearchResults_correct[OF p]) (assumption, simp add: s m)
qed
section \<open>Loading properties\<close>

text \<open>An item with the properties of the last item of \<open>ps\<close> that has its path.\<close>

definition with_props_of :: "ResultItem list \<Rightarrow> ResultItem \<Rightarrow> ResultItem" where
  "with_props_of ps r =
     (case find (\<lambda>p. GetItemRelativePath p = GetItemRelativePath r) (rev ps) of
        None \<Rightarrow> r | Some p \<Rightarrow> r\<lparr>Properties := Properties p\<rparr>)"

lemma path_update_Properties [simp]: "GetItemRelativePath (r\<lparr>Properties := p\<rparr>) = GetItemRelativePath r"
  by (simp add: GetItemRelativePath_def)

lemma with_props_of_Cons:
  "with_props_of (p # ps) r =
     with_props_of ps (if GetItemRelativePath p = GetItemRelativePath r then r\<lparr>Properties := Properties p\<rparr> else r)"
  by (auto simp: with_props_of_def find_append split: option.split)

definition points_to :: "(string \<times> nat) list \<Rightarrow> ResultItem list \<Rightarrow> bool" where
  "points_to buffer items \<longleftrightarrow> distinct (map GetItemRelativePath items) \<and>
     (\<forall>k i. map_of buffer k = Some i \<longleftrightarrow> i < length items \<and> GetItemRelativePath (items ! i) = k)"

lemma points_to_update:
  "points_to buffer items \<Longrightarrow> i < length items \<Longrightarrow> points_to buffer (items[i := (items ! i)\<lparr>Properties := p\<rparr>])"
proof -
  assume a: "points_to buffer items" "i < length items"
  have "map GetItemRelativePath (items[i := (items ! i)\<lparr>Properties := p\<rparr>]) = map GetItemRelativePath items"
    using a(2) by (metis list_update_id map_update path_update_Properties)
  then show ?thesis
    using a unfolding points_to_def by (metis length_list_update nth_map)
qed

lemma store_props_eq: "points_to buffer items \<Longrightarrow> store_props ps buffer items = map (with_props_of ps) items"
proof (induction ps arbitrary: items)
  case Nil
  then show ?case by (simp add: with_props_of_def map_idI)
next
  case (Cons p ps)
  let ?k = "GetItemRelativePath p"
  let ?step = "\<lambda>r. if ?k = GetItemRelativePath r then r\<lparr>Properties := Properties p\<rparr> else r"
  have eq: "map (with_props_of (p # ps)) items = map (with_props_of ps) (map ?step items)"
    by (simp add: with_props_of_Cons)
  show ?case
  proof (cases "map_of buffer ?k")
    case None
    then have "map ?step items = items"
      using Cons.prems by (intro map_idI) (metis in_set_conv_nth option.distinct(1) points_to_def)
    then show ?thesis unfolding eq using None Cons by simp
  next
    case (Some i)
    then have i: "i < length items" "GetItemRelativePath (items ! i) = ?k" "distinct (map GetItemRelativePath items)"
      using Cons.prems by (auto simp: points_to_def)
    have "j = i" if "j < length items" "GetItemRelativePath (items ! j) = ?k" for j
      using that i by (metis length_map nth_eq_iff_index_eq nth_map)
    then have other: "?k \<noteq> GetItemRelativePath (items ! j)" if "j < length items" "j \<noteq> i" for j
      using that by metis
    have "map ?step items ! j = items[i := (items ! i)\<lparr>Properties := Properties p\<rparr>] ! j" if "j < length items" for j
    proof (cases "j = i")
      case True
      then show ?thesis using i(1,2) by simp
    next
      case False
      then show ?thesis using other[OF that False] that by simp
    qed
    then have "map ?step items = items[i := (items ! i)\<lparr>Properties := Properties p\<rparr>]"
      by (intro nth_equalityI) simp_all
    then show ?thesis unfolding eq using Some Cons.IH[OF points_to_update[OF Cons.prems i(1)]] by simp
  qed
qed

lemma points_to_Nil: "points_to buffer [] \<Longrightarrow> buffer = []"
  by (cases buffer) (auto simp: points_to_def split: if_splits)

lemma updateProps_eq: "points_to buffer items \<Longrightarrow> updateProps (ps, []) buffer items = Inr (map (with_props_of ps) items)"
proof (cases "buffer = []")
  case True
  assume "points_to buffer items"
  then have "items = []" using True by (cases items) (auto simp: points_to_def)
  then show ?thesis using True by (simp add: updateProps_def)
next
  case False
  assume "points_to buffer items"
  then show ?thesis using False by (simp add: updateProps_def store_props_eq source_error_def)
qed

lemma points_to_snoc:
  assumes "points_to buffer items" "GetItemRelativePath r \<notin> GetItemRelativePath ` set items"
  shows "points_to (AList.update (GetItemRelativePath r) (length items) buffer) (items @ [r])"
  unfolding points_to_def
proof (intro conjI allI)
  show "distinct (map GetItemRelativePath (items @ [r]))" using assms by (simp add: points_to_def)
  fix k i
  have "GetItemRelativePath (items ! i) \<noteq> GetItemRelativePath r" if "i < length items"
    using assms(2) that by (metis image_eqI nth_mem)
  then show "map_of (AList.update (GetItemRelativePath r) (length items) buffer) k = Some i \<longleftrightarrow>
      i < length (items @ [r]) \<and> GetItemRelativePath ((items @ [r]) ! i) = k"
    using assms(1) by (auto simp: points_to_def update_conv' nth_append less_Suc_eq)
qed

lemma load_loop_eq:
  "points_to buffer items \<Longrightarrow> distinct (map GetItemRelativePath (items @ rs)) \<Longrightarrow>
    \<exists>written buffer' rest. load_loop n (ps, []) rs buffer items written0 = Inr (written, buffer', rest) \<and> points_to buffer' rest \<and>
      written @ map (with_props_of ps) rest = written0 @ map (with_props_of ps) (items @ rs)"
proof (induction rs arbitrary: buffer items written0)
  case (Cons r rs)
  let ?buffer = "AList.update (GetItemRelativePath r) (length items) buffer" and ?items = "items @ [r]"
  have p: "points_to ?buffer ?items" using Cons.prems by (intro points_to_snoc) auto
  show ?case
  proof (cases "length ?buffer = n")
    case True
    have "points_to [] []" by (simp add: points_to_def)
    then show ?thesis
      using Cons.IH[of "[]" "[]" "written0 @ map (with_props_of ps) ?items"] True Cons.prems(2) updateProps_eq[OF p, of ps]
      by (auto simp: Let_def)
  next
    case False
    then show ?thesis using Cons.IH[OF p] Cons.prems(2) by (auto simp: Let_def)
  qed
qed simp

text \<open>Loading the missing properties keeps the items and their order, and gives each item the
  properties that were fetched for its path, whatever the size of the buffer.\<close>

theorem loadMissingProperties_correct:
  assumes "distinct (map GetItemRelativePath rs)"
  shows "loadMissingProperties bufferSize (rs, []) (ps, []) = Inr (Some (map (with_props_of ps) rs))"
proof -
  have "points_to [] []" by (simp add: points_to_def)
  then obtain written buffer' rest where
    run: "load_loop bufferSize (ps, []) rs [] [] [] = Inr (written, buffer', rest)" "points_to buffer' rest"
      "written @ map (with_props_of ps) rest = map (with_props_of ps) rs"
    using load_loop_eq[of "[]" "[]" rs bufferSize ps "[]"] assms by auto
  then show ?thesis by (simp add: loadMissingProperties_def updateProps_eq source_error_def)
qed

theorem loadMissingProperties_correct_witness:
  "loadMissingProperties 1 ([build_item ''x'' ''s'' [] [], build_item ''y'' ''s'' [] []], []) ([build_item ''y'' ''s'' ''b'' ''1''], []) =
     Inr (Some [build_item ''x'' ''s'' [] [], build_item ''y'' ''s'' ''b'' ''1''])"
proof -
  have k: "GetItemRelativePath (build_item ''x'' ''s'' [] []) = ''x''" "GetItemRelativePath (build_item ''y'' ''s'' [] []) = ''y''"
    "GetItemRelativePath (build_item ''y'' ''s'' ''b'' ''1'') = ''y''" by code_simp+
  have "distinct (map GetItemRelativePath [build_item ''x'' ''s'' [] [], build_item ''y'' ''s'' [] []])" by (simp add: k)
  from loadMissingProperties_correct[OF this, of 1 "[build_item ''y'' ''s'' ''b'' ''1'']"] show ?thesis
    by (simp add: with_props_of_def k) (simp add: build_item_def)
qed

text \<open>A search by build that excludes the artifacts and sorts or limits its results dereferences the nil
  reader of the artifacts, when the calls of the server succeed.\<close>

lemma SearchBySpecWithBuild_nil_reader:
  assumes "getBuildNameAndNumberFromBuildIdentifier server (cp_Build specFile) (Project specFile) = Inr (n, v)"
    "getAggregatedBuilds server fetch n v (Project specFile) = Some (Inr (b # bs))"
    "ExcludeArtifacts specFile" "\<not> IncludeDeps specFile" "\<not> includePropertiesInAqlForSpec specFile"
    "searchProps server (createAqlBodyForBuildArtifacts (b # bs)) ''build.name'' (map BuildName (b # bs)) = Inr r"
  shows "SearchBySpecWithBuild server fetch bufferSize specFile = Some (Inl nil_reader)"
  using assms by (simp add: SearchBySpecWithBuild_def filterBuildArtifactsAndDependencies_def)

end
