(* ===== verification/Results.thy ===== *)
theory Results
  imports Items
begin

text \<open>
  The counters and summaries of file operations, \<^verbatim>\<open>artifactory/services/utils/resultutils.go\<close>, and the
  splitting of paths of \<^verbatim>\<open>utils/io/fileutils/files.go\<close>.

  The tasks of an operation are run by the threads of a runner (package \<^verbatim>\<open>parallel\<close>): it runs every task
  once, on a thread with a number below the number of threads, and hands a returned error to the
  errors queue. A run is the sequence of the tasks with their threads in the order in which they
  finish, with the error of the producer at the point where it is added.
\<close>

section \<open>Counters\<close>

record Result =
  SuccessCount :: "nat list"
  TotalCount :: "nat list"

definition NewResult :: "nat \<Rightarrow> Result" where
  "NewResult threads = \<lparr>SuccessCount = replicate threads 0, TotalCount = replicate threads 0\<rparr>"

fun SumIntArray :: "nat list \<Rightarrow> nat" where
  "SumIntArray [] = 0"
| "SumIntArray (i # arr) = i + SumIntArray arr"

text \<open>\<open>counts[i]++\<close>\<close>

definition increment :: "nat list \<Rightarrow> nat \<Rightarrow> nat list result" where
  "increment counts i = (if i < length counts then Inr (counts[i := counts ! i + 1]) else Inl (Panic ''index out of range''))"

text \<open>One task: it counts itself, runs, and counts its success; \<open>run\<close> gives the error of the task or
  whether it is a success.\<close>

datatype 'a task_event = Task nat 'a | ProducerError go_error

type_synonym counters = "Result \<times> go_error ErrorsQueue"

fun run_event :: "('a \<Rightarrow> go_error + bool) \<Rightarrow> 'a task_event \<Rightarrow> counters \<Rightarrow> counters result" where
  "run_event run (ProducerError e) (result, errorsQueue) = Inr (result, AddError e errorsQueue)"
| "run_event run (Task threadId item) (result, errorsQueue) =
     and_then (increment (TotalCount result) threadId) (\<lambda>total.
       let result = result\<lparr>TotalCount := total\<rparr>
       in case run item of
            Inl e \<Rightarrow> Inr (result, AddError e errorsQueue)
          | Inr success \<Rightarrow>
              if success then and_then (increment (SuccessCount result) threadId) (\<lambda>s. Inr (result\<lparr>SuccessCount := s\<rparr>, errorsQueue))
              else Inr (result, errorsQueue))"

definition run_events :: "('a \<Rightarrow> go_error + bool) \<Rightarrow> nat \<Rightarrow> 'a task_event list \<Rightarrow> counters result" where
  "run_events run threads events = fold_result (run_event run) events (NewResult threads, NewErrorsQueue 1)"

section \<open>Paths\<close>

definition str_last_index :: "string \<Rightarrow> string \<Rightarrow> int" where
  "str_last_index s pat = (case filter (\<lambda>i. has_prefix (drop i s) pat) (rev [0..<length s + 1]) of [] \<Rightarrow> - 1 | i # _ \<Rightarrow> int i)"

definition GetFileAndDirFromPath :: "string \<Rightarrow> string \<times> string" where
  "GetFileAndDirFromPath path =
     (let index1 = last_index_char path CHR ''/'';
          index2 = last_index_char path backslash;
          (index, offset) =
            (if index1 \<ge> index2 then (index1, 0)
             else let index3 = str_last_index path [backslash, backslash]
                  in (index2, if index3 \<noteq> - 1 \<and> index2 - index3 = 1 then 1 else 0))
      in if index \<noteq> - 1 then (drop (nat (index + 1)) path, take (nat (index - offset)) path) else (path, []))"

text \<open>On systems other than Windows \<open>filepath.Clean\<close> and \<open>filepath.Join\<close> are those of package \<^verbatim>\<open>path\<close>.\<close>

definition GetLocalPathAndFile :: "string \<Rightarrow> string \<Rightarrow> string \<Rightarrow> bool \<Rightarrow> bool \<Rightarrow> string \<times> string" where
  "GetLocalPathAndFile originalFileName relativePath targetPath flat placeholdersUsed =
     (let (targetFileName, targetDirPath) = GetFileAndDirFromPath targetPath;
          localTargetPath = (if \<not> flat \<and> \<not> placeholdersUsed then path_join [targetDirPath, relativePath] else path_clean targetDirPath);
          fileName = (if targetFileName \<noteq> [] \<and> targetFileName \<noteq> ''.'' then targetFileName else originalFileName)
      in (localTargetPath, fileName))"

section \<open>Summaries\<close>

record ArtifactDetails =
  ArtifactoryPath :: string
  Checksums :: Checksum

text \<open>The fields of the build-info types that are set.\<close>

record BuildArtifact =
  art_Name :: string
  art_Type :: string
  art_Path :: string
  art_Checksum :: Checksum

record BuildDependency =
  dep_Id :: string
  dep_Checksum :: Checksum

definition ToBuildInfoArtifact :: "ArtifactDetails \<Rightarrow> BuildArtifact result" where
  "ToBuildInfoArtifact ad =
     (let filename = fst (GetFileAndDirFromPath (ArtifactoryPath ad));
          i = last_index_char filename CHR ''.'';
          artifact = \<lparr>art_Name = filename, art_Type = (if i \<noteq> - 1 then drop (nat (i + 1)) filename else []),
                      art_Path = [], art_Checksum = Checksums ad\<rparr>;
          j = str_index (ArtifactoryPath ad) ''/''
      in if j \<noteq> - 1 then Inr (artifact\<lparr>art_Path := drop (nat (j + 1)) (ArtifactoryPath ad)\<rparr>)
         else Inl (Err (''artifact path:'' @ [CHR 0x27] @ '' '' @ ArtifactoryPath ad @ [CHR 0x27] @ '' lacks repository name'')))"

text \<open>The dependency has no sha256.\<close>

definition ToBuildInfoDependency :: "ArtifactDetails \<Rightarrow> BuildDependency" where
  "ToBuildInfoDependency ad =
     \<lparr>dep_Id = fst (GetFileAndDirFromPath (ArtifactoryPath ad)), dep_Checksum = (Checksums ad)\<lparr>Sha256 := []\<rparr>\<rparr>"

fun artifacts_loop :: "ArtifactDetails list \<Rightarrow> BuildArtifact list result" where
  "artifacts_loop [] = Inr []"
| "artifacts_loop (ad # ads) =
     and_then (ToBuildInfoArtifact ad) (\<lambda>artifact. and_then (artifacts_loop ads) (\<lambda>rest. Inr (artifact # rest)))"

definition ConvertArtifactsDetailsToBuildInfoArtifacts :: "ArtifactDetails source \<Rightarrow> BuildArtifact list result" where
  "ConvertArtifactsDetailsToBuildInfoArtifacts reader =
     and_then (artifacts_loop (fst reader)) (\<lambda>artifacts. case source_error reader of Some e \<Rightarrow> Inl e | None \<Rightarrow> Inr artifacts)"

definition ConvertArtifactsDetailsToBuildInfoDependencies :: "ArtifactDetails source \<Rightarrow> BuildDependency list result" where
  "ConvertArtifactsDetailsToBuildInfoDependencies reader =
     (let dependencies = map ToBuildInfoDependency (fst reader)
      in case source_error reader of Some e \<Rightarrow> Inl e | None \<Rightarrow> Inr dependencies)"

section \<open>What a run counts\<close>

fun event_error :: "('a \<Rightarrow> go_error + bool) \<Rightarrow> 'a task_event \<Rightarrow> go_error option" where
  "event_error run (ProducerError e) = Some e"
| "event_error run (Task t x) = (case run x of Inl e \<Rightarrow> Some e | Inr _ \<Rightarrow> None)"

definition tasks_of :: "'a task_event list \<Rightarrow> 'a list" where
  "tasks_of events = List.map_filter (\<lambda>e. case e of Task t x \<Rightarrow> Some x | ProducerError _ \<Rightarrow> None) events"

definition on_threads :: "nat \<Rightarrow> 'a task_event list \<Rightarrow> bool" where
  "on_threads threads events \<longleftrightarrow> (\<forall>e\<in>set events. case e of Task t x \<Rightarrow> t < threads | ProducerError _ \<Rightarrow> True)"

lemma on_threads_Cons [simp]:
  "on_threads n [] " "on_threads n (Task t x # events) \<longleftrightarrow> t < n \<and> on_threads n events"
  "on_threads n (ProducerError e # events) \<longleftrightarrow> on_threads n events"
  by (simp_all add: on_threads_def)

lemma tasks_of_Cons [simp]:
  "tasks_of [] = []" "tasks_of (Task t x # events) = x # tasks_of events" "tasks_of (ProducerError e # events) = tasks_of events"
  by (simp_all add: tasks_of_def List.map_filter_def)

lemma SumIntArray_sum_list: "SumIntArray xs = sum_list xs"
  by (induction xs) simp_all

lemma sum_list_increment: "i < length xs \<Longrightarrow> sum_list (xs[i := xs ! i + (1::nat)]) = sum_list xs + 1"
  using member_le_sum_list[OF nth_mem, of i xs] by (simp add: sum_list_update)

definition counts_ok :: "nat \<Rightarrow> Result \<Rightarrow> bool" where
  "counts_ok threads result \<longleftrightarrow> length (TotalCount result) = threads \<and> length (SuccessCount result) = threads"

lemma run_event_counts:
  assumes "counts_ok threads result" "on_threads threads [event]"
  shows "\<exists>result'. run_event run event (result, q) = Inr (result', fold AddError (List.map_filter (event_error run) [event]) q) \<and>
    counts_ok threads result' \<and>
    SumIntArray (TotalCount result') = SumIntArray (TotalCount result) + length (tasks_of [event]) \<and>
    SumIntArray (SuccessCount result') = SumIntArray (SuccessCount result) + length (filter (\<lambda>x. run x = Inr True) (tasks_of [event]))"
proof (cases event)
  case (Task t x)
  then have t: "t < length (TotalCount result)" "t < length (SuccessCount result)" using assms by (auto simp: counts_ok_def)
  show ?thesis
  proof (cases "run x")
    case (Inl e)
    then show ?thesis
      using Task t assms(1)
      by (simp add: increment_def Let_def counts_ok_def SumIntArray_sum_list sum_list_increment[simplified] List.map_filter_def)
  next
    case (Inr b)
    then show ?thesis
      using Task t assms(1)
      by (cases b) (simp_all add: increment_def Let_def counts_ok_def SumIntArray_sum_list sum_list_increment[simplified] List.map_filter_def)
  qed
qed (use assms in \<open>simp add: List.map_filter_def\<close>)

lemma run_events_fold:
  "counts_ok threads result \<Longrightarrow> on_threads threads events \<Longrightarrow>
    \<exists>result'. fold_result (run_event run) events (result, q) = Inr (result', fold AddError (List.map_filter (event_error run) events) q) \<and>
      SumIntArray (TotalCount result') = SumIntArray (TotalCount result) + length (tasks_of events) \<and>
      SumIntArray (SuccessCount result') = SumIntArray (SuccessCount result) + length (filter (\<lambda>x. run x = Inr True) (tasks_of events))"
proof (induction events arbitrary: result q)
  case Nil
  then show ?case by (simp add: List.map_filter_def)
next
  case (Cons event events)
  have on: "on_threads threads [event]" "on_threads threads events"
    using Cons.prems(2) by (cases event; simp)+
  obtain r' where r': "run_event run event (result, q) = Inr (r', fold AddError (List.map_filter (event_error run) [event]) q)"
    "counts_ok threads r'" "SumIntArray (TotalCount r') = SumIntArray (TotalCount result) + length (tasks_of [event])"
    "SumIntArray (SuccessCount r') = SumIntArray (SuccessCount result) + length (filter (\<lambda>x. run x = Inr True) (tasks_of [event]))"
    using run_event_counts[OF Cons.prems(1) on(1)] by blast
  have split: "tasks_of (event # events) = tasks_of [event] @ tasks_of events"
    "List.map_filter (event_error run) (event # events) = List.map_filter (event_error run) [event] @ List.map_filter (event_error run) events"
    by (cases event; simp add: List.map_filter_def)+
  obtain r'' where r'': "fold_result (run_event run) events (r', fold AddError (List.map_filter (event_error run) [event]) q) =
      Inr (r'', fold AddError (List.map_filter (event_error run) events) (fold AddError (List.map_filter (event_error run) [event]) q))"
    "SumIntArray (TotalCount r'') = SumIntArray (TotalCount r') + length (tasks_of events)"
    "SumIntArray (SuccessCount r'') = SumIntArray (SuccessCount r') + length (filter (\<lambda>x. run x = Inr True) (tasks_of events))"
    using Cons.IH[OF r'(2) on(2)] by blast
  show ?case
    unfolding split fold_result.simps r'(1) and_then_simps r''(1) fold_append comp_apply length_append filter_append
    using r'(3,4) r''(2,3) by auto
qed

text \<open>However the tasks are spread over the threads and ordered, the counters add up to the tasks and the
  successes, and the queue holds the first error.\<close>

lemma run_events_counts:
  assumes "on_threads threads events"
  obtains result q where "run_events run threads events = Inr (result, q)"
    "SumIntArray (TotalCount result) = length (tasks_of events)"
    "SumIntArray (SuccessCount result) = length (filter (\<lambda>x. run x = Inr True) (tasks_of events))"
    "fst (GetError q) = (case List.map_filter (event_error run) events of [] \<Rightarrow> None | e # _ \<Rightarrow> Some e)"
proof -
  have start: "counts_ok threads (NewResult threads)" "SumIntArray (TotalCount (NewResult threads)) = 0"
    "SumIntArray (SuccessCount (NewResult threads)) = 0"
    by (simp_all add: counts_ok_def NewResult_def SumIntArray_sum_list sum_list_replicate)
  show thesis
    using run_events_fold[OF start(1) assms, of run "NewErrorsQueue 1"] that start(2,3)
    by (auto simp: run_events_def errors_queue.get_fold_new)
qed

section \<open>Paths\<close>

text \<open>A path is its directory, a slash and its file name.\<close>

lemma GetFileAndDirFromPath_slash:
  assumes "backslash \<notin> set path" "CHR ''/'' \<in> set path"
  shows "path = snd (GetFileAndDirFromPath path) @ CHR ''/'' # fst (GetFileAndDirFromPath path) \<and>
    CHR ''/'' \<notin> set (fst (GetFileAndDirFromPath path))"
proof -
  obtain a b where ab: "path = a @ CHR ''/'' # b" "CHR ''/'' \<notin> set b" "last_index_char path CHR ''/'' = int (length a)"
    using assms(2) by (rule last_index_char_split)
  have "last_index_char path backslash = - 1" using assms(1) by (simp add: last_index_char_def)
  then have "GetFileAndDirFromPath path = (b, a)"
    using ab by (simp add: GetFileAndDirFromPath_def nat_add_distrib)
  then show ?thesis using ab by simp
qed
end
