(* ===== verification/Delete.thy ===== *)
theory Delete
  imports Search Results
begin

text \<open>
  Deletion of artifacts: \<^verbatim>\<open>artifactory/services/utils/deleteutils.go\<close>, \<^verbatim>\<open>artifactory/services/delete.go\<close>
  and the counters of \<^verbatim>\<open>artifactory/services/utils/resultutils.go\<close>.

  The search gives the files and folders to delete; when properties are excluded, the folders with a
  file that must stay are taken out, by one pass over the sorted folders and the sorted files. What
  is left is reduced to the top of each chain and deleted by the threads of a runner.
\<close>

section \<open>Candidates\<close>

text \<open>\<open>find_submatch\<close> compiles a regular expression and gives the groups of its match (package
  \<^verbatim>\<open>regexp\<close>), none when there is no match.\<close>

definition WildcardToDirsPath :: "(string \<Rightarrow> string \<Rightarrow> string list result) \<Rightarrow> string \<Rightarrow> string \<Rightarrow> string result" where
  "WildcardToDirsPath find_submatch deletePattern searchResult =
     (if \<not> has_suffix deletePattern ''/'' then Inl (Err (''delete pattern must end with '' @ quoted ''/''))
      else let regexpPattern = ''^'' @ replace_all ''*'' ''([^/]*|.*)'' deletePattern
           in and_then (find_submatch regexpPattern searchResult) (\<lambda>groups.
                Inr (if length groups > 0 then hd groups else [])))"

text \<open>The loop over the candidates, with the size of the buffer as a parameter: the sorted files of the
  candidates of the requested type, and the other candidates.\<close>

fun filter_loop :: "nat \<Rightarrow> string \<Rightarrow> ResultItem list \<Rightarrow> (string \<rightharpoonup> ResultItem) \<Rightarrow> string list \<Rightarrow>
    ResultItem list list \<times> ResultItem list" where
  "filter_loop bufferSize candidateType [] paths pathsKeys =
     (if length pathsKeys > 0 then [SortAndSaveBufferToFile paths pathsKeys True] else [], [])"
| "filter_loop bufferSize candidateType (candidate # candidates) paths pathsKeys =
     (if Type candidate = candidateType
      then if candidateType = ''folder'' \<and> Name candidate = ''.''
           then filter_loop bufferSize candidateType candidates paths pathsKeys
           else let pathsKeys = pathsKeys @ [GetItemRelativePath candidate];
                    paths = paths(GetItemRelativePath candidate \<mapsto> candidate)
                in if length pathsKeys = bufferSize
                   then let (toBeDeleted, others) = filter_loop bufferSize candidateType candidates Map.empty []
                        in (SortAndSaveBufferToFile paths pathsKeys True # toBeDeleted, others)
                   else filter_loop bufferSize candidateType candidates paths pathsKeys
      else let (toBeDeleted, others) = filter_loop bufferSize candidateType candidates paths pathsKeys
           in (toBeDeleted, candidate # others))"

definition FilterCandidateToBeDeleted :: "nat \<Rightarrow> ResultItem source \<Rightarrow> string \<Rightarrow>
    (ResultItem list list \<times> ResultItem list) result" where
  "FilterCandidateToBeDeleted bufferSize deleteCandidates candidateType =
     (let r = filter_loop bufferSize candidateType (fst deleteCandidates) Map.empty []
      in case source_error deleteCandidates of Some e \<Rightarrow> Inl e | None \<Rightarrow> Inr r)"

text \<open>The loop over the sorted folders and files. \<open>candidate\<close> and \<open>path\<close> are \<open>candidateDirToBeDeleted\<close> and
  its path, which the entry \<open>.\<close> leaves as it was; \<open>location\<close> is that of the file being compared. When the
  files are exhausted the remaining folders are written (\<open>writeRemainCandidate\<close>).\<close>

function (sequential) write_loop :: "ResultItem option \<Rightarrow> string \<Rightarrow> string option \<Rightarrow> ResultItem list \<Rightarrow> ResultItem list \<Rightarrow>
    ResultItem list" where
  "write_loop None path location [] files = []"
| "write_loop None path location (dir # dirs) files =
     write_loop (Some dir) (if Name dir = ''.'' then path else GetItemRelativePath dir) location dirs files"
| "write_loop (Some dir) path None dirs [] = dir # dirs"
| "write_loop (Some dir) path None dirs (artifact # files) =
     write_loop (Some dir) path (Some (GetItemRelativeLocation artifact)) dirs files"
| "write_loop (Some dir) path (Some location) dirs files =
     (if has_prefix location path then write_loop None path (Some location) dirs files
      else if location > path then dir # write_loop None path (Some location) dirs files
      else write_loop (Some dir) path None dirs files)"
  by pat_completeness auto
termination
  by (relation "measure (\<lambda>(candidate, path, location, dirs, files). 2 * length dirs + 2 * length files +
    (if candidate = None then 0 else 1) + (if location = None then 0 else 1))") auto

definition WriteCandidateDirsToBeDeleted :: "ResultItem source list \<Rightarrow> ResultItem source \<Rightarrow> ResultItem list result" where
  "WriteCandidateDirsToBeDeleted candidateDirsReaders filesNotToBeDeleteReader =
     (let dirs = MergeSortedReaders GetSortKey candidateDirsReaders True;
          written = write_loop None [] None dirs (fst filesNotToBeDeleteReader)
      in case source_error filesNotToBeDeleteReader of Some e \<Rightarrow> Inl e | None \<Rightarrow> Inr written)"

section \<open>One pass finds the folders without a kept file\<close>

lemma merge_scan_single:
  "merge_scan False key asc [(None, Some (r # rs))] 0 None = (Some (r, 0), [(Some r, Some rs)])"
  "merge_scan False key asc [(None, Some [])] 0 None = (None, [(None, None)])"
  by simp_all

lemma merge_loop_single: "merge_loop False key asc [(None, Some rs)] = rs"
proof (induction rs)
  case Nil
  then show ?case by (subst merge_loop.simps) (simp only: merge_scan_single prod.case option.case)
next
  case (Cons r rs)
  show ?case
    by (subst merge_loop.simps) (simp only: merge_scan_single prod.case option.case list_update.simps nat.case nth_Cons_0 snd_conv Cons)
qed

text \<open>One reader keeps its order; several are merged by their sort keys.\<close>

lemma MergeSortedReaders_by_path:
  assumes "\<forall>cr\<in>set readers. sorted_wrt (\<lambda>x y. path x \<le> path y) (fst cr)"
    "length readers \<le> 1 \<or> (\<forall>cr\<in>set readers. \<forall>x\<in>set (fst cr). key x = path x)"
  shows "sorted_wrt (\<lambda>x y. (path x :: string) \<le> path y) (MergeSortedReaders key readers True) \<and>
    mset (MergeSortedReaders key readers True) = mset (concat (map fst readers))"
proof (cases "length readers \<le> 1")
  case True
  then consider "readers = []" | cr where "readers = [cr]" by (cases readers) auto
  then show ?thesis using assms(1) by cases (auto simp: MergeSortedReaders_def merge_loop_single)
next
  case False
  let ?slots = "map (\<lambda>cr. (None, Some (fst cr))) readers"
  have cont: "map slot_contents ?slots = map fst readers" by (simp add: comp_def)
  have keys: "\<forall>cr\<in>set readers. \<forall>x\<in>set (fst cr). key x = path x" using assms(2) False by blast
  have "key_sorted False key True (fst cr)" if "cr \<in> set readers" for cr
  proof -
    have "sorted_wrt (\<lambda>x y. path x \<le> path y) (fst cr)" using assms(1) that by blast
    then show ?thesis
      by (rule sorted_wrt_mono_rel[rotated]) (use keys that in \<open>auto simp: in_order_def key_before_def\<close>)
  qed
  then have "\<forall>s\<in>set ?slots. key_sorted False key True (slot_contents s)" by simp
  note merged = merge_loop_correct[OF this, unfolded cont]
  have out: "MergeSortedReaders key readers True = merge_loop False key True ?slots"
    using False by (simp add: MergeSortedReaders_def)
  have "\<forall>x\<in>set (merge_loop False key True ?slots). key x = path x" using merged keys by fastforce
  then have "sorted_wrt (\<lambda>x y. path x \<le> path y) (merge_loop False key True ?slots)"
    by (intro sorted_wrt_mono_rel[OF _ merged[THEN conjunct1]]) (auto simp: in_order_def key_before_def)
  then show ?thesis using merged unfolding out by simp
qed

definition contains_file :: "ResultItem list \<Rightarrow> ResultItem \<Rightarrow> bool" where
  "contains_file files dir \<longleftrightarrow> (\<exists>f\<in>set files. has_prefix (GetItemRelativeLocation f) (GetItemRelativePath dir))"

lemma contains_file_simps [simp]:
  "\<not> contains_file [] dir"
  "contains_file (f # files) dir \<longleftrightarrow> has_prefix (GetItemRelativeLocation f) (GetItemRelativePath dir) \<or> contains_file files dir"
  by (simp_all add: contains_file_def)

text \<open>A folder before the location of a file holds none of the files after it.\<close>

lemma not_contained_later:
  assumes "\<not> has_prefix (GetItemRelativeLocation f) p" "GetItemRelativeLocation f > p"
    "has_prefix (GetItemRelativePath f) (GetItemRelativeLocation f)" "GetItemRelativePath f \<le> GetItemRelativePath g"
    "has_prefix (GetItemRelativePath g) (GetItemRelativeLocation g)"
  shows "\<not> has_prefix (GetItemRelativeLocation g) p"
proof
  assume "has_prefix (GetItemRelativeLocation g) p"
  then obtain t where "GetItemRelativePath g = p @ t" using assms(5) has_prefix_trans by (metis has_prefix_iff)
  moreover have "GetItemRelativeLocation f \<le> GetItemRelativePath f" using assms(3) prefix_le by (auto simp: has_prefix_iff)
  ultimately have "GetItemRelativeLocation f \<le> p @ t" using assms(4) by simp
  then show False using prefix_between[OF less_imp_le[OF assms(2)]] assms(1) by blast
qed

text \<open>The location of a file before a folder is not in the folders after it.\<close>

lemma not_contained_skipped:
  assumes "\<not> has_prefix l p" "\<not> l > p" "p \<le> q"
  shows "\<not> has_prefix l (q :: string)"
proof
  assume "has_prefix l q"
  then have "q \<le> l" using prefix_le by (auto simp: has_prefix_iff)
  moreover have "l \<le> p" using assms(2) by (simp add: not_less)
  ultimately have "l = p" using assms(3) by (meson order_antisym order_trans)
  then show False using assms(1) by simp
qed

definition files_ok :: "ResultItem list \<Rightarrow> bool" where
  "files_ok files \<longleftrightarrow> sorted_wrt (\<lambda>f g. GetItemRelativePath f \<le> GetItemRelativePath g) files \<and>
     (\<forall>f\<in>set files. has_prefix (GetItemRelativePath f) (GetItemRelativeLocation f))"

lemma files_ok_Cons: "files_ok (f # files) \<longleftrightarrow> has_prefix (GetItemRelativePath f) (GetItemRelativeLocation f) \<and>
    (\<forall>g\<in>set files. GetItemRelativePath f \<le> GetItemRelativePath g) \<and> files_ok files"
  by (auto simp: files_ok_def)

abbreviation dirs_ok :: "ResultItem list \<Rightarrow> bool" where
  "dirs_ok dirs \<equiv> sorted_wrt (\<lambda>d e. GetItemRelativePath d \<le> GetItemRelativePath e) dirs \<and> (\<forall>d\<in>set dirs. Name d \<noteq> ''.'')"

text \<open>\<open>current\<close> is the file being compared.\<close>

lemma write_loop_filter:
  assumes "location = map_option GetItemRelativeLocation current"
    "candidate \<noteq> None \<Longrightarrow> path = GetItemRelativePath (the candidate)"
    "dirs_ok (case candidate of None \<Rightarrow> dirs | Some d \<Rightarrow> d # dirs)"
    "files_ok (case current of None \<Rightarrow> files | Some f \<Rightarrow> f # files)"
  shows "write_loop candidate path location dirs files =
    filter (\<lambda>d. \<not> contains_file (case current of None \<Rightarrow> files | Some f \<Rightarrow> f # files) d)
      (case candidate of None \<Rightarrow> dirs | Some d \<Rightarrow> d # dirs)"
  using assms
proof (induction candidate path location dirs files arbitrary: current rule: write_loop.induct)
  case (1 path location files)
  then show ?case by simp
next
  case (2 path location dir dirs files)
  then show ?case using 2(1)[of current] by simp
next
  case (3 dir path dirs)
  then show ?case by simp
next
  case (4 dir path dirs artifact files)
  then show ?case using 4(1)[of "Some artifact"] by simp
next
  case (5 dir path location dirs files)
  obtain f where f: "current = Some f" "location = GetItemRelativeLocation f" using 5(4) by (cases current) auto
  have path: "path = GetItemRelativePath dir" using 5(5) by simp
  have ok: "dirs_ok dirs" "files_ok (f # files)" "\<forall>d\<in>set dirs. GetItemRelativePath dir \<le> GetItemRelativePath d"
    using 5(6,7) f by auto
  consider (drop) "has_prefix location path" | (keep) "\<not> has_prefix location path" "location > path"
    | (skip) "\<not> has_prefix location path" "\<not> location > path" by blast
  then show ?case
  proof cases
    case drop
    then show ?thesis using 5(1)[of current] f path ok by simp
  next
    case keep
    have "\<not> contains_file (f # files) dir"
      using not_contained_later[of f path] keep ok(2) path f(2) by (auto simp: contains_file_def files_ok_Cons files_ok_def)
    then show ?thesis using 5(2)[of current] keep f path ok by simp
  next
    case skip
    then have "\<not> has_prefix (GetItemRelativeLocation f) (GetItemRelativePath d)" if "d \<in> set (dir # dirs)" for d
      using not_contained_skipped[of location path] that ok(3) path f(2) by auto
    then have "filter (\<lambda>d. \<not> contains_file (f # files) d) (dir # dirs) = filter (\<lambda>d. \<not> contains_file files d) (dir # dirs)"
      by (intro filter_cong) simp_all
    moreover have "write_loop (Some dir) path None dirs files = filter (\<lambda>d. \<not> contains_file files d) (dir # dirs)"
      using 5(3)[of None] skip 5(5,6) ok(2) by (simp add: files_ok_Cons)
    ultimately show ?thesis using skip f by simp
  qed
qed


section \<open>Several buffers\<close>

text \<open>With more than one buffer of folders the pass can write a folder that holds a kept file. The
  buffers are sorted by path, the merge compares the sort keys, and for folders at the root of a
  repository these orders differ: the buffer \<open>r/ab\<close>, \<open>r/ab-a\<close> and the buffer \<open>r/ab-b\<close> are merged to \<open>r/ab-b\<close>,
  \<open>r/ab\<close>, \<open>r/ab-a\<close>, and the file \<open>r/ab-a/f\<close> is passed over at the first folder.\<close>

theorem WriteCandidateDirsToBeDeleted_unsafe:
  "let dir = (\<lambda>n. zero_item\<lparr>Repo := ''r'', Path := ''.'', Name := n, Type := ''folder''\<rparr>);
       file = zero_item\<lparr>Repo := ''r'', Path := ''ab-a'', Name := ''f'', Type := ''file''\<rparr>
   in FilterCandidateToBeDeleted 2 ([dir ''ab'', dir ''ab-a'', dir ''ab-b''], []) ''folder'' =
        Inr ([[dir ''ab'', dir ''ab-a''], [dir ''ab-b'']], []) \<and>
      WriteCandidateDirsToBeDeleted [([dir ''ab'', dir ''ab-a''], []), ([dir ''ab-b''], [])] ([file], []) =
        Inr [dir ''ab-b'', dir ''ab'', dir ''ab-a''] \<and>
      has_prefix (GetItemRelativePath file) (GetSortKey (dir ''ab-a''))"
proof -
  let ?dir = "\<lambda>n. zero_item\<lparr>Repo := ''r'', Path := ''.'', Name := n, Type := ''folder''\<rparr>"
  let ?file = "zero_item\<lparr>Repo := ''r'', Path := ''ab-a'', Name := ''f'', Type := ''file''\<rparr>"
  have "FilterCandidateToBeDeleted 2 ([?dir ''ab'', ?dir ''ab-a'', ?dir ''ab-b''], []) ''folder'' =
        Inr ([[?dir ''ab'', ?dir ''ab-a''], [?dir ''ab-b'']], [])" by code_simp
  moreover have "WriteCandidateDirsToBeDeleted [([?dir ''ab'', ?dir ''ab-a''], []), ([?dir ''ab-b''], [])] ([?file], []) =
        Inr [?dir ''ab-b'', ?dir ''ab'', ?dir ''ab-a'']" by code_simp
  moreover have "has_prefix (GetItemRelativePath ?file) (GetSortKey (?dir ''ab-a''))" by code_simp
  ultimately show ?thesis by simp
qed
section \<open>The delete service\<close>

text \<open>The parameters of the searches: the iteration order of a Go map, the server and the buffer size.\<close>

record search_env =
  env_iteration :: "properties \<Rightarrow> properties"
  env_server :: aql_server
  env_fetch :: build_fetch
  env_bufferSize :: nat

abbreviation search_pattern :: "search_env \<Rightarrow> CommonParams \<Rightarrow> RequiredArtifactProps \<Rightarrow> ResultItem source result option \<times> CommonParams" where
  "search_pattern env \<equiv> SearchBySpecWithPattern (env_iteration env) (env_server env) (env_fetch env) (env_bufferSize env)"

definition getSortedArtifactsToNotDelete :: "search_env \<Rightarrow> CommonParams \<Rightarrow> ResultItem list result option" where
  "getSortedArtifactsToNotDelete env specFile =
     (let specFile = specFile\<lparr>cp_Props := ExcludeProps specFile\<rparr>;
          specFile = specFile\<lparr>ExcludeProps := []\<rparr>;
          (tempResults, specFile) = search_pattern env specFile NONE
      in map_option (\<lambda>r. and_then r (\<lambda>tempResults.
           and_then (FilterCandidateToBeDeleted (env_bufferSize env) tempResults ''file'') (\<lambda>(sortedResults, _).
             Inr (MergeSortedReaders GetSortKey (map (\<lambda>items. (items, [])) sortedResults) True)))) tempResults)"

text \<open>\<open>None\<close> inside the result is the nil reader: no folder has to be taken out.\<close>

definition removeNotToBeDeletedDirs :: "search_env \<Rightarrow> CommonParams \<Rightarrow> ResultItem source \<Rightarrow>
    ResultItem list option result option" where
  "removeNotToBeDeletedDirs env specFile deleteCandidates =
     (case fst (Length (NewMultiSourceContentReader [deleteCandidates])) of
        Inl e \<Rightarrow> Some (Inl e)
      | Inr len \<Rightarrow>
          if ExcludeProps specFile = [] \<or> len = 0 then Some (Inr None)
          else case FilterCandidateToBeDeleted (env_bufferSize env) deleteCandidates ''folder'' of
                 Inl e \<Rightarrow> Some (Inl e)
               | Inr (bufferFiles, others) \<Rightarrow>
                   if length bufferFiles > 0
                   then map_option (\<lambda>r. and_then r (\<lambda>artifactsNotToBeDeleted.
                          and_then (WriteCandidateDirsToBeDeleted (map (\<lambda>items. (items, [])) bufferFiles) (artifactsNotToBeDeleted, []))
                            (\<lambda>dirs. Inr (Some (others @ dirs)))))
                        (getSortedArtifactsToNotDelete env specFile)
                   else Some (Inr (Some others)))"

text \<open>For a search by build the error is overwritten by the call of \<open>Length\<close> on the reader, which is then nil.\<close>

definition GetPathsToDelete :: "search_env \<Rightarrow> CommonParams \<Rightarrow> ResultItem source result option" where
  "GetPathsToDelete env deleteParams =
     map_option (\<lambda>r. and_then r (\<lambda>resultItems.
         and_then (fst (Length (NewMultiSourceContentReader [resultItems]))) (\<lambda>len. Inr resultItems)))
       (case GetSpecType deleteParams of
          AQL \<Rightarrow> SearchBySpecWithAql (env_server env) (env_fetch env) (env_bufferSize env) deleteParams NONE
        | WILDCARD \<Rightarrow>
            (let deleteParams = deleteParams\<lparr>IncludeDirs := True\<rparr>;
                 (tempResultItems, deleteParams) = search_pattern env deleteParams NONE
             in Option.bind tempResultItems (\<lambda>temp. case temp of
                  Inl e \<Rightarrow> Some (Inl e)
                | Inr items \<Rightarrow>
                    map_option (\<lambda>r. and_then r (\<lambda>toBeDeletedDirs.
                        and_then (ReduceTopChainDirResult (case toBeDeletedDirs of None \<Rightarrow> items | Some dirs \<Rightarrow> (dirs, [])))
                          (\<lambda>reduced. Inr (reduced, []))))
                      (removeNotToBeDeletedDirs env deleteParams items)))
        | BUILD \<Rightarrow>
            map_option (\<lambda>r. case r of Inl (Panic m) \<Rightarrow> Inl (Panic m) | Inl (Err m) \<Rightarrow> Inl nil_reader | Inr items \<Rightarrow> Inr (items, []))
              (SearchBySpecWithBuild (env_server env) (env_fetch env) (env_bufferSize env) deleteParams))"

text \<open>The task of one item: \<open>build_url\<close> is \<open>BuildArtifactoryUrl\<close> for the server's URL without parameters,
  \<open>send\<close> the DELETE request, with the status code and the error text of the response.\<close>

definition delete_task :: "(string \<Rightarrow> string result) \<Rightarrow> (string \<Rightarrow> (int \<times> string) result) \<Rightarrow> bool \<Rightarrow> ResultItem \<Rightarrow> go_error + bool" where
  "delete_task build_url send dryRun resultItem =
     and_then (build_url (GetItemRelativePath resultItem)) (\<lambda>deletePath.
       if dryRun then Inr False
       else and_then (send deletePath) (\<lambda>(status, message).
              if status \<noteq> 204 then Inl (Err message) else Inr True))"

definition DeleteFiles :: "(string \<Rightarrow> string result) \<Rightarrow> (string \<Rightarrow> (int \<times> string) result) \<Rightarrow> bool \<Rightarrow> nat \<Rightarrow>
    ResultItem task_event list \<Rightarrow> (nat \<times> go_error option) result" where
  "DeleteFiles build_url send dryRun threads events =
     and_then (run_events (delete_task build_url send dryRun) threads events) (\<lambda>(result, errorsQueue).
       Inr (SumIntArray (SuccessCount result), fst (GetError errorsQueue)))"

text \<open>Deleting returns the number of the items for which the server answered 204, none in a dry
  run, and the first error of a task or of the reader, whatever the threads and the order of the tasks.\<close>

theorem DeleteFiles_correct:
  assumes "on_threads threads events"
  shows "DeleteFiles build_url send dryRun threads events =
    Inr (length (filter (\<lambda>item. \<exists>url m. build_url (GetItemRelativePath item) = Inr url \<and> \<not> dryRun \<and> send url = Inr (204, m))
           (tasks_of events)),
         case List.map_filter (event_error (delete_task build_url send dryRun)) events of [] \<Rightarrow> None | e # _ \<Rightarrow> Some e)"
proof -
  have iff: "delete_task build_url send dryRun item = Inr True \<longleftrightarrow>
      (\<exists>url m. build_url (GetItemRelativePath item) = Inr url \<and> \<not> dryRun \<and> send url = Inr (204, m))" for item
    by (auto simp: delete_task_def and_then_eq_Inr split: if_splits)
  obtain result q where "run_events (delete_task build_url send dryRun) threads events = Inr (result, q)"
    "SumIntArray (SuccessCount result) = length (filter (\<lambda>x. delete_task build_url send dryRun x = Inr True) (tasks_of events))"
    "fst (GetError q) = (case List.map_filter (event_error (delete_task build_url send dryRun)) events of [] \<Rightarrow> None | e # _ \<Rightarrow> Some e)"
    using assms by (rule run_events_counts)
  then show ?thesis by (simp add: DeleteFiles_def iff)
qed

theorem DeleteFiles_correct_witness:
  "let f = zero_item\<lparr>Repo := ''r'', Path := ''a'', Name := ''f'', Type := ''file''\<rparr>;
       g = zero_item\<lparr>Repo := ''r'', Path := ''a'', Name := ''g'', Type := ''file''\<rparr>;
       send = (\<lambda>p. if p = ''r/a/f'' then Inr (204, []) else Inr (403, ''forbidden''))
   in DeleteFiles Inr send False 2 [Task 1 f, Task 0 g] = Inr (1, Some (Err ''forbidden''))"
proof -
  let ?f = "zero_item\<lparr>Repo := ''r'', Path := ''a'', Name := ''f'', Type := ''file''\<rparr>"
  let ?g = "zero_item\<lparr>Repo := ''r'', Path := ''a'', Name := ''g'', Type := ''file''\<rparr>"
  have k: "GetItemRelativePath ?f = ''r/a/f''" "GetItemRelativePath ?g = ''r/a/g''" by code_simp+
  show ?thesis
    unfolding Let_def by (subst DeleteFiles_correct) (simp_all add: k delete_task_def List.map_filter_def)
qed

text \<open>A search by build that fails makes the deletion panic.\<close>

lemma GetPathsToDelete_build_error:
  assumes "GetSpecType params = BUILD"
    "SearchBySpecWithBuild (env_server env) (env_fetch env) (env_bufferSize env) params = Some (Inl (Err m))"
  shows "GetPathsToDelete env params = Some (Inl nil_reader)"
  using assms by (simp add: GetPathsToDelete_def)
end
