(* ===== verification/MoveCopy.thy ===== *)
theory MoveCopy
  imports Delete
begin

text \<open>
  Moving and copying artifacts: \<^verbatim>\<open>artifactory/services/movecopy.go\<close>.

  The specs are searched one by one, their results are merged with the index of their spec, a move
  reduces them to the top of each chain, and each item is moved or copied by the threads of a runner.
\<close>

section \<open>Items and parameters\<close>

datatype MoveType = MOVE | COPY

record MoveCopyParams =
  mc_CommonParams :: CommonParams
  Flat :: bool

record MoveResultItem =
  mri_ResultItem :: ResultItem
  FileSpecId :: nat

definition SetIncludeDir :: "bool \<Rightarrow> MoveCopyParams \<Rightarrow> MoveCopyParams" where
  "SetIncludeDir isIncludeDir mc = mc\<lparr>mc_CommonParams := (mc_CommonParams mc)\<lparr>IncludeDirs := isIncludeDir\<rparr>\<rparr>"

definition reduceMovePaths :: "ResultItem source \<Rightarrow> bool \<Rightarrow> bool \<Rightarrow> ResultItem list result" where
  "reduceMovePaths cr flat withPlaceholders =
     (if flat \<or> withPlaceholders then ReduceBottomChainDirResult cr else ReduceTopChainDirResult cr)"

text \<open>The reduction of the merged results works on the items with their spec index.\<close>

definition reduceMoveResultItems :: "MoveResultItem list \<Rightarrow> MoveResultItem list result" where
  "reduceMoveResultItems items =
     and_then (SortContentReader (GetSortKey \<circ> mri_ResultItem) (items, []) True) (\<lambda>sorted.
       Inr (top_loop (GetItemRelativePath \<circ> mri_ResultItem) (Name \<circ> mri_ResultItem) (Type \<circ> mri_ResultItem) sorted []))"

definition getPathsToMove :: "search_env \<Rightarrow> MoveCopyParams \<Rightarrow> ResultItem source result option" where
  "getPathsToMove env moveSpec =
     map_option (\<lambda>r. and_then r (\<lambda>resultItems.
         and_then (fst (Length (NewMultiSourceContentReader [resultItems]))) (\<lambda>len. Inr resultItems)))
     (case GetSpecType (mc_CommonParams moveSpec) of
        BUILD \<Rightarrow> map_option (\<lambda>r. and_then r (\<lambda>items. Inr (items, [])))
                   (SearchBySpecWithBuild (env_server env) (env_fetch env) (env_bufferSize env) (mc_CommonParams moveSpec))
      | AQL \<Rightarrow> SearchBySpecWithAql (env_server env) (env_fetch env) (env_bufferSize env) (mc_CommonParams moveSpec) NONE
      | WILDCARD \<Rightarrow>
          (let moveSpec = SetIncludeDir True moveSpec;
               (tempResultItems, _) = search_pattern env (mc_CommonParams moveSpec) NONE
           in map_option (\<lambda>r. and_then r (\<lambda>temp.
                and_then (IsPlaceholdersUsed (Pattern (mc_CommonParams moveSpec)) (Target (mc_CommonParams moveSpec)))
                  (\<lambda>placeholders. and_then (reduceMovePaths temp (Flat moveSpec) placeholders) (\<lambda>items. Inr (items, [])))))
              tempResultItems))"

text \<open>\<open>mergeReaders\<close>: every item keeps the index of its spec; the first reader that fails ends the merge.\<close>

fun mergeReaders :: "(ResultItem source \<times> nat) list \<Rightarrow> MoveResultItem list result" where
  "mergeReaders [] = Inr []"
| "mergeReaders ((cr, moveSpec) # arr) =
     (let written = map (\<lambda>item. \<lparr>mri_ResultItem = item, FileSpecId = moveSpec\<rparr>) (fst cr)
      in case source_error cr of
           Some e \<Rightarrow> Inl e
         | None \<Rightarrow> and_then (mergeReaders arr) (\<lambda>rest. Inr (written @ rest)))"

section \<open>Destinations\<close>

text \<open>The parameters of \<open>BuildTargetPath\<close>: the translation of a wildcard pattern and its matching.\<close>

type_synonym regexp_env = "(string \<Rightarrow> string) \<times> (string \<Rightarrow> (string \<Rightarrow> string list) option)"

definition getDestinationPath :: "regexp_env \<Rightarrow> string \<Rightarrow> string \<Rightarrow> string \<Rightarrow> string \<Rightarrow> bool \<Rightarrow> string result" where
  "getDestinationPath re specTarget specPattern sourceItemPath sourceItemRelativePath isFlat =
     and_then (BuildTargetPath (fst re) (snd re) specPattern sourceItemRelativePath specTarget True) (\<lambda>(destFile, placeholdersUsed).
       if \<not> isFlat \<and> \<not> placeholdersUsed
       then let destPathLocal = specTarget
            in if str_contains destPathLocal ''/''
               then let (file, dir) = GetFileAndDirFromPath destPathLocal
                    in Inr (TrimPath (dir @ ''/'' @ sourceItemPath @ ''/'' @ file))
               else Inr (TrimPath (destPathLocal @ ''/'' @ sourceItemPath @ ''/''))
       else Inr destFile)"

text \<open>A request to the server: \<open>build_url\<close> is \<open>BuildArtifactoryUrl\<close> with the REST path and the query
  parameters in order of their keys, \<open>post\<close> and \<open>put\<close> send it and give the status code.\<close>

record transfer_env =
  build_url :: "string \<Rightarrow> (string \<times> string) list \<Rightarrow> string result"
  post :: "string \<Rightarrow> int result"
  put :: "string \<Rightarrow> int result"
  mc_DryRun :: bool
  moveType :: MoveType

definition moveOrCopyFile :: "transfer_env \<Rightarrow> string \<Rightarrow> string \<Rightarrow> bool result" where
  "moveOrCopyFile mc sourcePath destPath =
     (let restApi = path_join [''api'', case moveType mc of MOVE \<Rightarrow> ''move'' | COPY \<Rightarrow> ''copy'', sourcePath];
          params = (if mc_DryRun mc then [(''dry'', ''1'')] else []) @ [(''to'', destPath)]
      in and_then (build_url mc restApi params) (\<lambda>requestFullUrl.
         and_then (post mc requestFullUrl) (\<lambda>status. Inr (status = 200))))"

definition createPathInArtifactory :: "transfer_env \<Rightarrow> string \<Rightarrow> bool result" where
  "createPathInArtifactory mc destPath =
     and_then (build_url mc destPath []) (\<lambda>requestFullUrl. and_then (put mc requestFullUrl) (\<lambda>status. Inr (status = 200)))"

definition createPathForMoveAction :: "transfer_env \<Rightarrow> string \<Rightarrow> bool result" where
  "createPathForMoveAction mc destPath = (if mc_DryRun mc then Inr True else createPathInArtifactory mc destPath)"

text \<open>The task of one item: an error, or whether it was moved.\<close>

definition move_task :: "regexp_env \<Rightarrow> transfer_env \<Rightarrow> ResultItem \<Rightarrow> MoveCopyParams \<Rightarrow> go_error + bool" where
  "move_task re mc resultItem params =
     and_then (getDestinationPath re (Target (mc_CommonParams params)) (Pattern (mc_CommonParams params)) (Path resultItem)
                 (GetItemRelativePath resultItem) (Flat params)) (\<lambda>destFile.
     and_then (if has_suffix destFile ''/''
               then if Type resultItem \<noteq> ''folder'' then Inr (destFile @ Name resultItem)
                    else and_then (createPathForMoveAction mc destFile) (\<lambda>_. Inr destFile)
               else Inr destFile) (\<lambda>destFile.
       moveOrCopyFile mc (GetItemRelativePath resultItem) destFile))"

text \<open>\<open>params[resultItem.FileSpecId]\<close> is in range for every merged item.\<close>

definition moveFiles :: "regexp_env \<Rightarrow> transfer_env \<Rightarrow> nat \<Rightarrow> MoveCopyParams list \<Rightarrow> MoveResultItem task_event list \<Rightarrow>
    (nat \<times> nat \<times> go_error option) result" where
  "moveFiles re mc threads params events =
     and_then (run_events (\<lambda>item. and_then (slice_get params (int (FileSpecId item)))
                 (\<lambda>spec. move_task re mc (mri_ResultItem item) spec)) threads events) (\<lambda>(result, errorsQueue).
       let totalSuccess = SumIntArray (SuccessCount result);
           totalFails = SumIntArray (TotalCount result) - totalSuccess
       in Inr (totalSuccess, totalFails, fst (GetError errorsQueue)))"

fun paths_loop :: "search_env \<Rightarrow> nat \<Rightarrow> MoveCopyParams list \<Rightarrow> (ResultItem source \<times> nat) list result option" where
  "paths_loop env i [] = Some (Inr [])"
| "paths_loop env i (moveSpec # moveSpecs) =
     Option.bind (getPathsToMove env moveSpec) (\<lambda>r. case r of
       Inl e \<Rightarrow> Some (Inl e)
     | Inr reader \<Rightarrow> map_option (\<lambda>rest. and_then rest (\<lambda>readers. Inr ((reader, i) # readers))) (paths_loop env (i + 1) moveSpecs))"

text \<open>The wrapper up to the list of items that are moved.\<close>

definition items_to_move :: "search_env \<Rightarrow> MoveType \<Rightarrow> MoveCopyParams list \<Rightarrow> MoveResultItem list result option" where
  "items_to_move env type moveSpecs =
     map_option (\<lambda>r. and_then r (\<lambda>moveReaders. and_then (mergeReaders moveReaders) (\<lambda>merged.
       if type = MOVE then reduceMoveResultItems merged else Inr merged)))
     (paths_loop env 0 moveSpecs)"

text \<open>\<open>schedule\<close> is the order in which the runner finishes the tasks, and their threads.\<close>

definition MoveCopyServiceMoveFilesWrapper :: "search_env \<Rightarrow> regexp_env \<Rightarrow> transfer_env \<Rightarrow> nat \<Rightarrow>
    (MoveResultItem list \<Rightarrow> MoveResultItem task_event list) \<Rightarrow> MoveCopyParams list \<Rightarrow> (nat \<times> nat \<times> go_error option) result option" where
  "MoveCopyServiceMoveFilesWrapper env re mc threads schedule moveSpecs =
     map_option (\<lambda>r. and_then r (\<lambda>items.
       and_then (moveFiles re mc threads moveSpecs (schedule items)) (\<lambda>(successCount, failedCount, err).
         Inr (successCount, failedCount,
              if err = None \<and> failedCount > 0
              then Some (Err (''Failed '' @ (case moveType mc of MOVE \<Rightarrow> ''Moving'' | COPY \<Rightarrow> ''Copying'') @ '' '' @ itoa (int failedCount) @ '' artifacts.''))
              else err))))
     (items_to_move env (moveType mc) moveSpecs)"

section \<open>Properties\<close>

interpretation move_item: search_based_item "GetSortKey \<circ> mri_ResultItem" "GetItemRelativePath \<circ> mri_ResultItem"
    "Name \<circ> mri_ResultItem" "Type \<circ> mri_ResultItem"
  by unfold_locales (simp_all add: GetSortKey_def)

lemma mergeReaders_items:
  "mergeReaders arr = Inr items \<Longrightarrow> x \<in> set items \<Longrightarrow> \<exists>cr. (cr, FileSpecId x) \<in> set arr \<and> mri_ResultItem x \<in> set (fst cr)"
proof (induction arr arbitrary: items)
  case (Cons a arr)
  obtain cr i where a: "a = (cr, i)" by (cases a)
  obtain rest where "mergeReaders arr = Inr rest"
    "items = map (\<lambda>item. \<lparr>mri_ResultItem = item, FileSpecId = i\<rparr>) (fst cr) @ rest"
    using Cons.prems(1) unfolding a by (auto simp: Let_def and_then_eq_Inr split: option.splits)
  then show ?case using Cons.IH Cons.prems(2) unfolding a by fastforce
qed simp

lemma paths_loop_readers:
  "paths_loop env i specs = Some (Inr arr) \<Longrightarrow> (cr, j) \<in> set arr \<Longrightarrow>
     i \<le> j \<and> j < i + length specs \<and> getPathsToMove env (specs ! (j - i)) = Some (Inr cr)"
proof (induction specs arbitrary: i arr)
  case (Cons spec specs)
  obtain y where y: "getPathsToMove env spec = Some y" using Cons.prems(1) by (auto simp: bind_eq_Some_conv)
  obtain reader where reader: "y = Inr reader" using Cons.prems(1) y by (cases y) simp_all
  obtain readers where r: "paths_loop env (i + 1) specs = Some (Inr readers)" "arr = (reader, i) # readers"
    using Cons.prems(1) y reader by (auto simp: and_then_eq_Inr)
  show ?case
  proof (cases "(cr, j) = (reader, i)")
    case True
    then show ?thesis using y reader by simp
  next
    case False
    then have "(cr, j) \<in> set readers" using Cons.prems(2) r(2) by auto
    note IH = Cons.IH[OF r(1) this]
    have "j - i = Suc (j - (i + 1))" using IH by linarith
    then show ?thesis using IH by simp
  qed
qed simp

lemma mergeReaders_all:
  "mergeReaders arr = Inr items \<Longrightarrow> (cr, i) \<in> set arr \<Longrightarrow> x \<in> set (fst cr) \<Longrightarrow> \<lparr>mri_ResultItem = x, FileSpecId = i\<rparr> \<in> set items"
proof (induction arr arbitrary: items)
  case (Cons a arr)
  obtain cr' j where a: "a = (cr', j)" by (cases a)
  obtain rest where "mergeReaders arr = Inr rest"
    "items = map (\<lambda>item. \<lparr>mri_ResultItem = item, FileSpecId = j\<rparr>) (fst cr') @ rest"
    using Cons.prems(1) unfolding a by (auto simp: Let_def and_then_eq_Inr split: option.splits)
  then show ?case using Cons.IH Cons.prems(2,3) unfolding a by auto
qed simp

lemma paths_loop_all:
  "paths_loop env i specs = Some (Inr arr) \<Longrightarrow> j < length specs \<Longrightarrow>
     \<exists>cr. getPathsToMove env (specs ! j) = Some (Inr cr) \<and> (cr, i + j) \<in> set arr"
proof (induction specs arbitrary: i j arr)
  case (Cons spec specs)
  obtain y where y: "getPathsToMove env spec = Some y" using Cons.prems(1) by (auto simp: bind_eq_Some_conv)
  obtain reader where reader: "y = Inr reader" using Cons.prems(1) y by (cases y) simp_all
  obtain readers where r: "paths_loop env (i + 1) specs = Some (Inr readers)" "arr = (reader, i) # readers"
    using Cons.prems(1) y reader by (auto simp: and_then_eq_Inr)
  show ?case
  proof (cases j)
    case (Suc k)
    then show ?thesis using Cons.IH[OF r(1), of k] Cons.prems(2) r(2) by auto
  qed (use y reader r(2) in simp)
qed simp

text \<open>An item is covered by itself or another item with its path, or by a folder above it.\<close>

definition covered :: "ResultItem \<Rightarrow> ResultItem \<Rightarrow> bool" where
  "covered x y \<longleftrightarrow> GetSortKey y = GetSortKey x \<or> Type y = ''folder'' \<and> has_prefix (GetSortKey x) (GetSortKey y)"

lemma reduceMoveResultItems_correct:
  assumes "reduceMoveResultItems items = Inr out"
  shows "set out \<subseteq> set items \<and> sorted_wrt (\<lambda>f y. Type (mri_ResultItem f) = ''folder'' \<longrightarrow>
    \<not> has_prefix (GetSortKey (mri_ResultItem y)) (GetSortKey (mri_ResultItem f))) out \<and>
    (\<forall>x\<in>set items. (\<forall>y\<in>set items. GetSortKey (mri_ResultItem y) = GetSortKey (mri_ResultItem x) \<longrightarrow> Name (mri_ResultItem y) \<noteq> ''.'') \<longrightarrow>
       (\<exists>y\<in>set out. covered (mri_ResultItem x) (mri_ResultItem y)))"
proof -
  let ?key = "GetSortKey \<circ> mri_ResultItem"
  obtain s where s: "SortContentReader ?key (items, []) True = Inr s"
    "sorted_wrt (\<lambda>x y. key_before True (?key x) (?key y)) s" "set s \<subseteq> set items" "?key ` set s = ?key ` set items"
    by (rule SortContentReader_sorted)
  have sorted: "sorted_wrt (\<lambda>x y. ?key x \<le> ?key y) s"
    by (rule sorted_wrt_mono_rel[OF _ s(2)]) (simp add: key_before_def)
  have out: "out = top_loop (GetItemRelativePath \<circ> mri_ResultItem) (Name \<circ> mri_ResultItem) (Type \<circ> mri_ResultItem) s []"
    using assms s(1) by (simp add: reduceMoveResultItems_def)
  have cover: "\<exists>y\<in>set out. covered (mri_ResultItem x) (mri_ResultItem y)"
    if x: "x \<in> set items" and name: "\<forall>y\<in>set items. ?key y = ?key x \<longrightarrow> Name (mri_ResultItem y) \<noteq> ''.''" for x
  proof -
    obtain z where z: "z \<in> set s" "?key z = ?key x" using s(4) x by (metis imageE image_eqI)
    then have "(Name \<circ> mri_ResultItem) z \<noteq> ''.''" using name s(3) by auto
    from move_item.top_loop_covers[OF z(1) this, of "[]"] z(2) show ?thesis unfolding out covered_def by auto
  qed
  show ?thesis
    using set_subseq[OF move_item.top_loop_subseq, of s "[]"] s(3) move_item.top_loop_antichain[OF sorted, of "[]"] cover
    unfolding out by auto
qed

text \<open>C36: every item that is moved or copied is a result of the search of the spec whose index it
  carries, and no item of a move lies below a folder that is moved before it. No result of a search is left out: a copy has
  every result of every spec, and a move has, for every result, an item with its path or a folder above it (when no result with
  this path is the entry \<open>.\<close>, which stands for a whole repository).\<close>

theorem items_to_move_correct:
  assumes "items_to_move env type moveSpecs = Some (Inr items)"
  shows "(\<forall>x\<in>set items. FileSpecId x < length moveSpecs \<and>
      (\<exists>cr. getPathsToMove env (moveSpecs ! FileSpecId x) = Some (Inr cr) \<and> mri_ResultItem x \<in> set (fst cr))) \<and>
    (type = MOVE \<longrightarrow> sorted_wrt (\<lambda>f y. Type (mri_ResultItem f) = ''folder'' \<longrightarrow>
      \<not> has_prefix (GetSortKey (mri_ResultItem y)) (GetSortKey (mri_ResultItem f))) items) \<and>
    (\<forall>i<length moveSpecs. \<exists>cr. getPathsToMove env (moveSpecs ! i) = Some (Inr cr) \<and>
      (\<forall>x\<in>set (fst cr).
         if type = COPY then \<lparr>mri_ResultItem = x, FileSpecId = i\<rparr> \<in> set items
         else (\<forall>spec\<in>set moveSpecs. \<forall>cr. getPathsToMove env spec = Some (Inr cr) \<longrightarrow>
                  (\<forall>y\<in>set (fst cr). GetSortKey y = GetSortKey x \<longrightarrow> Name y \<noteq> ''.'')) \<longrightarrow>
              (\<exists>y\<in>set items. covered x (mri_ResultItem y))))"
proof -
  obtain readers merged where r: "paths_loop env 0 moveSpecs = Some (Inr readers)" "mergeReaders readers = Inr merged"
    "(if type = MOVE then reduceMoveResultItems merged else Inr merged) = Inr items"
    using assms by (auto simp: items_to_move_def and_then_eq_Inr)
  have sub: "set items \<subseteq> set merged"
    using r(3) reduceMoveResultItems_correct[of merged items] by (auto split: if_splits)
  have found: "FileSpecId x < length moveSpecs \<and>
      (\<exists>cr. getPathsToMove env (moveSpecs ! FileSpecId x) = Some (Inr cr) \<and> mri_ResultItem x \<in> set (fst cr))"
    if "x \<in> set merged" for x
    using mergeReaders_items[OF r(2) that] paths_loop_readers[OF r(1)] by fastforce
  have cover: "\<exists>y\<in>set items. covered x (mri_ResultItem y)"
    if x: "\<lparr>mri_ResultItem = x, FileSpecId = i\<rparr> \<in> set merged" and type: "type \<noteq> COPY"
      and names: "\<forall>spec\<in>set moveSpecs. \<forall>cr. getPathsToMove env spec = Some (Inr cr) \<longrightarrow>
        (\<forall>y\<in>set (fst cr). GetSortKey y = GetSortKey x \<longrightarrow> Name y \<noteq> ''.'')" for x i
  proof -
    have "reduceMoveResultItems merged = Inr items" using r(3) type by (cases type) simp_all
    moreover have "Name (mri_ResultItem y) \<noteq> ''.''" if "y \<in> set merged" "GetSortKey (mri_ResultItem y) = GetSortKey x" for y
      using found[OF that(1)] names that(2) nth_mem by blast
    ultimately show ?thesis using reduceMoveResultItems_correct[of merged items] x by fastforce
  qed
  have all: "\<exists>cr. getPathsToMove env (moveSpecs ! i) = Some (Inr cr) \<and>
      (\<forall>x\<in>set (fst cr). \<lparr>mri_ResultItem = x, FileSpecId = i\<rparr> \<in> set merged)" if "i < length moveSpecs" for i
    using paths_loop_all[OF r(1) that] mergeReaders_all[OF r(2)] by fastforce
  have copy: "items = merged" if "type = COPY" using r(3) that by simp
  have "sorted_wrt (\<lambda>f y. Type (mri_ResultItem f) = ''folder'' \<longrightarrow>
      \<not> has_prefix (GetSortKey (mri_ResultItem y)) (GetSortKey (mri_ResultItem f))) items" if "type = MOVE"
    using reduceMoveResultItems_correct[of merged items] r(3) that by simp
  moreover have "\<exists>cr. getPathsToMove env (moveSpecs ! i) = Some (Inr cr) \<and>
      (\<forall>x\<in>set (fst cr).
         if type = COPY then \<lparr>mri_ResultItem = x, FileSpecId = i\<rparr> \<in> set items
         else (\<forall>spec\<in>set moveSpecs. \<forall>cr. getPathsToMove env spec = Some (Inr cr) \<longrightarrow>
                  (\<forall>y\<in>set (fst cr). GetSortKey y = GetSortKey x \<longrightarrow> Name y \<noteq> ''.'')) \<longrightarrow>
              (\<exists>y\<in>set items. covered x (mri_ResultItem y)))" if "i < length moveSpecs" for i
    using all[OF that] cover copy by (metis (no_types, lifting))
  ultimately show ?thesis using found sub by blast
qed

text \<open>The searches find a folder with a file.\<close>

definition found_file :: ResultItem where
  "found_file = zero_item\<lparr>Repo := ''r'', Path := ''a'', Name := ''f'', Type := ''file''\<rparr>"

definition found_folder :: ResultItem where
  "found_folder = zero_item\<lparr>Repo := ''r'', Path := ''.'', Name := ''a'', Type := ''folder''\<rparr>"

definition example_env :: search_env where
  "example_env = \<lparr>env_iteration = id, env_server = (\<lambda>_. Inr ([found_file, found_folder], [])),
     env_fetch = (\<lambda>_ _ _. Inr None), env_bufferSize = 50000\<rparr>"

definition example_spec :: MoveCopyParams where
  "example_spec = \<lparr>mc_CommonParams = zero_params\<lparr>cp_Aql := \<lparr>ItemsFind = ''{}''\<rparr>\<rparr>, Flat = False\<rparr>"

lemma Length_example: "fst (Length (NewMultiSourceContentReader [([x, y], [])])) = Inr 2"
  by (simp add: Length_def NewMultiSourceContentReader_def read_loop.simps NextRecord_def reader_start_def run_records_def
      run_errors_def Let_def Reset_def cr_GetError_def GetError_def NewErrorsQueue_def)

lemma example_paths: "getPathsToMove example_env example_spec = Some (Inr ([found_file, found_folder], []))"
  by (simp add: getPathsToMove_def example_env_def example_spec_def zero_params_def GetSpecType_def SearchBySpecWithAql_def
      aqlSearch_def FilterResultsByBuild_def fetchProps_def Length_example source_error_def)

lemma example_items:
  "items_to_move example_env type [example_spec] =
     Some (if type = MOVE then reduceMoveResultItems [\<lparr>mri_ResultItem = found_file, FileSpecId = 0\<rparr>, \<lparr>mri_ResultItem = found_folder, FileSpecId = 0\<rparr>]
       else Inr [\<lparr>mri_ResultItem = found_file, FileSpecId = 0\<rparr>, \<lparr>mri_ResultItem = found_folder, FileSpecId = 0\<rparr>])"
  by (simp add: items_to_move_def example_paths source_error_def)

theorem items_to_move_correct_witness:
  "(\<exists>items. items_to_move example_env MOVE [example_spec] = Some (Inr items) \<and> \<lparr>mri_ResultItem = found_folder, FileSpecId = 0\<rparr> \<in> set items) \<and>
   (\<exists>items. items_to_move example_env COPY [example_spec] = Some (Inr items) \<and>
      \<lparr>mri_ResultItem = found_file, FileSpecId = 0\<rparr> \<in> set items \<and> \<lparr>mri_ResultItem = found_folder, FileSpecId = 0\<rparr> \<in> set items)"
proof -
  have keys: "\<not> covered found_folder found_file" "Name found_folder \<noteq> ''.''" "Name found_file \<noteq> ''.''" by code_simp+
  obtain items where items: "items_to_move example_env MOVE [example_spec] = Some (Inr items)"
    by (rule SortContentReader_sorted[of "GetSortKey \<circ> mri_ResultItem"
          "[\<lparr>mri_ResultItem = found_file, FileSpecId = 0\<rparr>, \<lparr>mri_ResultItem = found_folder, FileSpecId = 0\<rparr>]" True])
       (simp add: example_items reduceMoveResultItems_def)
  then obtain y where y: "y \<in> set items" "covered found_folder (mri_ResultItem y)"
    using items_to_move_correct[OF items] keys by (auto simp: example_paths)
  have "FileSpecId y = 0 \<and> mri_ResultItem y \<in> {found_file, found_folder}"
    using items_to_move_correct[OF items, THEN conjunct1, THEN bspec, OF y(1)] by (auto simp: example_paths)
  then have "FileSpecId y = 0" "mri_ResultItem y = found_folder" using keys(1) y(2) by auto
  then have "\<lparr>mri_ResultItem = found_folder, FileSpecId = 0\<rparr> \<in> set items" using y(1) by (cases y) simp
  then show ?thesis using items items_to_move_correct[of example_env COPY "[example_spec]"] by (auto simp: example_items example_paths)
qed

text \<open>The successes and failures add up to the tasks.\<close>

lemma moveFiles_counts:
  assumes "on_threads threads events"
  shows "\<exists>s f err. moveFiles re mc threads params events = Inr (s, f, err) \<and> s + f = length (tasks_of events)"
proof -
  let ?run = "\<lambda>item. and_then (slice_get params (int (FileSpecId item))) (\<lambda>spec. move_task re mc (mri_ResultItem item) spec)"
  obtain result q where "run_events ?run threads events = Inr (result, q)"
    "SumIntArray (TotalCount result) = length (tasks_of events)"
    "SumIntArray (SuccessCount result) = length (filter (\<lambda>x. ?run x = Inr True) (tasks_of events))"
    using assms by (rule run_events_counts)
  then show ?thesis by (simp add: moveFiles_def Let_def)
qed
end
