(* ===== verification/Watch.thy ===== *)
theory Watch
  imports Prelude "HOL-Library.AList"
begin

text \<open>
  Xray watches and policies: \<^verbatim>\<open>xray/services/utils/watchbody.go\<close>, the conversion of a response in
  \<^verbatim>\<open>xray/services/watch.go\<close>, and \<^verbatim>\<open>xray/services/utils/policybody.go\<close>.

  A Go map is an association list with distinct keys, in the order in which a range over it sees them;
  this order is arbitrary, and each map is ranged over once. A slice that may be nil is an option.
  Values of type \<open>interface{}\<close> are the JSON values that package \<^verbatim>\<open>encoding/json\<close> decodes, and a failed
  type assertion is a panic.
\<close>

section \<open>Watch parameters\<close>

record WatchPathFilters =
  ExcludePatterns :: "string list option"
  IncludePatterns :: "string list option"

record watchFilters =
  PackageTypes :: "string list"
  Names :: "string list"
  Paths :: "string list"
  MimeTypes :: "string list"
  wf_Properties :: "(string \<times> string) list"

record WatchRepository =
  wr_Name :: string
  wr_BinMgrID :: string
  wr_RepoType :: string
  wr_Filters :: watchFilters

record WatchRepositoriesParams =
  rp_Type :: string
  rp_All :: watchFilters
  Repositories :: "(string \<times> WatchRepository) list"
  rp_Paths :: WatchPathFilters

record WatchBuildsAllParams =
  ba_BinMgrID :: string
  ba_Paths :: WatchPathFilters

record WatchBuildsByNameParams =
  bn_Name :: string
  bn_BinMgrID :: string

record WatchBuildsParams =
  bp_Type :: string
  bp_All :: WatchBuildsAllParams
  ByNames :: "(string \<times> WatchBuildsByNameParams) list"

record AssignedPolicy =
  ap_Name :: string
  ap_Type :: string

record WatchParams =
  w_Name :: string
  Description :: string
  Active :: bool
  w_Repositories :: WatchRepositoriesParams
  w_Builds :: WatchBuildsParams
  Policies :: "AssignedPolicy list"

definition empty_filters :: watchFilters where
  "empty_filters = \<lparr>PackageTypes = [], Names = [], Paths = [], MimeTypes = [], wf_Properties = []\<rparr>"

definition NewWatchParams :: WatchParams where
  "NewWatchParams = \<lparr>w_Name = [], Description = [], Active = False,
     w_Repositories = \<lparr>rp_Type = [], rp_All = empty_filters, Repositories = [],
       rp_Paths = \<lparr>ExcludePatterns = Some [], IncludePatterns = Some []\<rparr>\<rparr>,
     w_Builds = \<lparr>bp_Type = [], bp_All = \<lparr>ba_BinMgrID = [], ba_Paths = \<lparr>ExcludePatterns = None, IncludePatterns = None\<rparr>\<rparr>,
       ByNames = []\<rparr>,
     Policies = []\<rparr>"

definition NewWatchRepository :: "string \<Rightarrow> string \<Rightarrow> string \<Rightarrow> WatchRepository" where
  "NewWatchRepository name binMgrID repoType =
     \<lparr>wr_Name = name, wr_BinMgrID = binMgrID, wr_RepoType = repoType, wr_Filters = empty_filters\<rparr>"

section \<open>The payload\<close>

text \<open>The payload as it is built and, with JSON values in the filters, as it is decoded.\<close>

datatype filter_value = StringValue string | PropertyValue string string | PathsValue WatchPathFilters

datatype json = JNull | JString string | JArray "json list" | JObject "(string \<times> json) list"

record 'v watchFilter =
  f_Type :: string
  f_Value :: 'v

record 'v watchProjectResourcesElement =
  el_Name :: string
  el_BinMgrID :: string
  el_Type :: string
  el_RepoType :: string
  el_Filters :: "'v watchFilter list"

record 'v WatchBody =
  gd_Name :: string
  gd_Description :: string
  gd_Active :: bool
  Resources :: "'v watchProjectResourcesElement list"
  AssignedPolicies :: "AssignedPolicy list"

definition createFilters :: "watchFilters \<Rightarrow> WatchRepositoriesParams \<Rightarrow> filter_value watchFilter list" where
  "createFilters filters repo =
     map (\<lambda>packageType. \<lparr>f_Type = ''package-type'', f_Value = StringValue packageType\<rparr>) (PackageTypes filters) @
     map (\<lambda>name. \<lparr>f_Type = ''regex'', f_Value = StringValue name\<rparr>) (Names filters) @
     map (\<lambda>path. \<lparr>f_Type = ''path-regex'', f_Value = StringValue path\<rparr>) (Paths filters) @
     map (\<lambda>mimeType. \<lparr>f_Type = ''mime-type'', f_Value = StringValue mimeType\<rparr>) (MimeTypes filters) @
     map (\<lambda>(key, val). \<lparr>f_Type = ''property'', f_Value = PropertyValue key val\<rparr>) (wf_Properties filters) @
     (if ExcludePatterns (rp_Paths repo) \<noteq> None \<or> IncludePatterns (rp_Paths repo) \<noteq> None
      then [\<lparr>f_Type = ''path-ant-patterns'', f_Value = PathsValue (rp_Paths repo)\<rparr>] else [])"

definition configureRepositories :: "WatchParams \<Rightarrow> filter_value WatchBody \<Rightarrow> filter_value WatchBody result" where
  "configureRepositories params payloadBody =
     (let repos = w_Repositories params
      in if rp_Type repos = ''all''
      then Inr (payloadBody\<lparr>Resources := Resources payloadBody @
             [\<lparr>el_Name = [], el_BinMgrID = [], el_Type = ''all-repos'', el_RepoType = [], el_Filters = createFilters (rp_All repos) repos\<rparr>]\<rparr>)
      else if rp_Type repos = ''byname''
      then Inr (payloadBody\<lparr>Resources := Resources payloadBody @
             map (\<lambda>(_, repository). \<lparr>el_Name = wr_Name repository, el_BinMgrID = wr_BinMgrID repository, el_Type = ''repository'',
                    el_RepoType = wr_RepoType repository, el_Filters = createFilters (wr_Filters repository) repos\<rparr>) (Repositories repos)\<rparr>)
      else if rp_Type repos = [] then Inr payloadBody
      else Inl (Err ''Invalid Repository Type. Must be all or byname''))"

definition configureBuilds :: "WatchParams \<Rightarrow> filter_value WatchBody \<Rightarrow> filter_value WatchBody result" where
  "configureBuilds params payloadBody =
     (let builds = w_Builds params; paths = ba_Paths (bp_All builds)
      in if bp_Type builds = ''all''
      then Inr (payloadBody\<lparr>Resources := Resources payloadBody @
             [\<lparr>el_Name = ''All Builds'', el_BinMgrID = ba_BinMgrID (bp_All builds), el_Type = ''all-builds'', el_RepoType = [],
               el_Filters = (if ExcludePatterns paths \<noteq> None \<or> IncludePatterns paths \<noteq> None
                             then [\<lparr>f_Type = ''ant-patterns'', f_Value = PathsValue paths\<rparr>] else [])\<rparr>]\<rparr>)
      else if bp_Type builds = ''byname''
      then Inr (payloadBody\<lparr>Resources := Resources payloadBody @
             map (\<lambda>(_, byName). \<lparr>el_Name = bn_Name byName, el_BinMgrID = bn_BinMgrID byName, el_Type = ''build'', el_RepoType = [],
                    el_Filters = []\<rparr>) (ByNames builds)\<rparr>)
      else if bp_Type builds = [] then Inr payloadBody
      else Inl (Err ''Invalid Build Type. Must be all or byname''))"

definition CreateBody :: "WatchParams \<Rightarrow> filter_value WatchBody result" where
  "CreateBody params =
     and_then (configureRepositories params
       \<lparr>gd_Name = w_Name params, gd_Description = Description params, gd_Active = Active params, Resources = [],
        AssignedPolicies = Policies params\<rparr>) (configureBuilds params)"

text \<open>Encoding and decoding a filter value, by the tags of its type.\<close>

definition json_strings :: "string list option \<Rightarrow> json" where
  "json_strings s = (case s of None \<Rightarrow> JNull | Some xs \<Rightarrow> JArray (map JString xs))"

fun json_value :: "filter_value \<Rightarrow> json" where
  "json_value (StringValue s) = JString s"
| "json_value (PropertyValue k v) = JObject [(''key'', JString k), (''value'', JString v)]"
| "json_value (PathsValue p) = JObject [(''ExcludePatterns'', json_strings (ExcludePatterns p)),
                                        (''IncludePatterns'', json_strings (IncludePatterns p))]"

definition json_filters :: "filter_value watchFilter list \<Rightarrow> json watchFilter list" where
  "json_filters filters = map (\<lambda>f. \<lparr>f_Type = f_Type f, f_Value = json_value (f_Value f)\<rparr>) filters"

definition json_body :: "filter_value WatchBody \<Rightarrow> json WatchBody" where
  "json_body body = \<lparr>gd_Name = gd_Name body, gd_Description = gd_Description body, gd_Active = gd_Active body,
     Resources = map (\<lambda>r. \<lparr>el_Name = el_Name r, el_BinMgrID = el_BinMgrID r, el_Type = el_Type r, el_RepoType = el_RepoType r,
                           el_Filters = json_filters (el_Filters r)\<rparr>) (Resources body),
     AssignedPolicies = AssignedPolicies body\<rparr>"

section \<open>Reading a watch\<close>

definition not_of_type :: go_error where
  "not_of_type = Panic ''interface conversion''"

fun as_string :: "json \<Rightarrow> string result" where
  "as_string (JString s) = Inr s"
| "as_string _ = Inl not_of_type"

fun as_object :: "json \<Rightarrow> (string \<times> json) list result" where
  "as_object (JObject kvs) = Inr kvs"
| "as_object _ = Inl not_of_type"

fun as_array :: "json \<Rightarrow> json list result" where
  "as_array (JArray vs) = Inr vs"
| "as_array _ = Inl not_of_type"

text \<open>Appending the strings of the array \<open>pathFilters[key]\<close>, when there is one.\<close>

fun append_strings :: "json list \<Rightarrow> string list option \<Rightarrow> string list option result" where
  "append_strings [] patterns = Inr patterns"
| "append_strings (v # vs) patterns =
     and_then (as_string v) (\<lambda>path. append_strings vs (Some ((case patterns of None \<Rightarrow> [] | Some ps \<Rightarrow> ps) @ [path])))"

definition append_patterns :: "(string \<times> json) list \<Rightarrow> string \<Rightarrow> string list option \<Rightarrow> string list option result" where
  "append_patterns pathFilters key patterns =
     (case map_of pathFilters key of
        None \<Rightarrow> Inr patterns
      | Some v \<Rightarrow> and_then (as_array v) (\<lambda>vs. append_strings vs patterns))"

definition no_patterns :: "string list option \<Rightarrow> bool" where
  "no_patterns patterns \<longleftrightarrow> patterns = None \<or> patterns = Some []"

definition map_entry :: "(string \<times> json) list \<Rightarrow> string \<Rightarrow> json" where
  "map_entry kvs key = (case map_of kvs key of None \<Rightarrow> JNull | Some v \<Rightarrow> v)"

fun unpack_filter :: "json watchFilter \<Rightarrow> watchFilters \<times> WatchPathFilters \<Rightarrow> (watchFilters \<times> WatchPathFilters) result" where
  "unpack_filter flt (output, repos) =
     (if f_Type flt = ''package-type''
      then and_then (as_string (f_Value flt)) (\<lambda>s. Inr (output\<lparr>PackageTypes := PackageTypes output @ [s]\<rparr>, repos))
      else if f_Type flt = ''regex''
      then and_then (as_string (f_Value flt)) (\<lambda>s. Inr (output\<lparr>Names := Names output @ [s]\<rparr>, repos))
      else if f_Type flt = ''path-regex''
      then and_then (as_string (f_Value flt)) (\<lambda>s. Inr (output\<lparr>Paths := Paths output @ [s]\<rparr>, repos))
      else if f_Type flt = ''mime-type''
      then and_then (as_string (f_Value flt)) (\<lambda>s. Inr (output\<lparr>MimeTypes := MimeTypes output @ [s]\<rparr>, repos))
      else if f_Type flt = ''property''
      then and_then (as_object (f_Value flt)) (\<lambda>filterParams.
           and_then (as_string (map_entry filterParams ''key'')) (\<lambda>key.
           and_then (as_string (map_entry filterParams ''value'')) (\<lambda>val.
             Inr (output\<lparr>wf_Properties := AList.update key val (wf_Properties output)\<rparr>, repos))))
      else if f_Type flt = ''path-ant-patterns''
      then and_then (as_object (f_Value flt)) (\<lambda>pathFilters.
           and_then (if no_patterns (ExcludePatterns repos) then append_patterns pathFilters ''ExcludePatterns'' (ExcludePatterns repos)
                     else Inr (ExcludePatterns repos)) (\<lambda>exclude.
           and_then (if no_patterns (IncludePatterns repos) then append_patterns pathFilters ''IncludePatterns'' (IncludePatterns repos)
                     else Inr (IncludePatterns repos)) (\<lambda>incl.
             Inr (output, \<lparr>ExcludePatterns = exclude, IncludePatterns = incl\<rparr>))))
      else Inr (output, repos))"

declare unpack_filter.simps [simp del]

definition unpackFilters :: "json watchFilter list \<Rightarrow> watchFilters \<Rightarrow> WatchPathFilters \<Rightarrow> (watchFilters \<times> WatchPathFilters) result" where
  "unpackFilters filters output repos =
     and_then (fold_result unpack_filter filters (output\<lparr>wf_Properties := []\<rparr>, repos)) (\<lambda>(output, repos).
       Inr (output\<lparr>PackageTypes := sort (PackageTypes output), Names := sort (Names output), Paths := sort (Paths output),
                  MimeTypes := sort (MimeTypes output)\<rparr>, repos))"

definition unpack_build_filter :: "json watchFilter \<Rightarrow> WatchPathFilters \<Rightarrow> WatchPathFilters result" where
  "unpack_build_filter flt paths =
     (if f_Type flt = ''ant-patterns''
      then and_then (as_object (f_Value flt)) (\<lambda>pathFilters.
           and_then (append_patterns pathFilters ''ExcludePatterns'' (ExcludePatterns paths)) (\<lambda>exclude.
           and_then (append_patterns pathFilters ''IncludePatterns'' (IncludePatterns paths)) (\<lambda>incl.
             Inr \<lparr>ExcludePatterns = exclude, IncludePatterns = incl\<rparr>)))
      else Inr paths)"

definition unpack_resource :: "json watchProjectResourcesElement \<Rightarrow> WatchParams \<Rightarrow> WatchParams result" where
  "unpack_resource resource watch =
     (let repos = w_Repositories watch; builds = w_Builds watch
      in if el_Type resource = ''all-repos''
      then and_then (unpackFilters (el_Filters resource) (rp_All repos) (rp_Paths repos)) (\<lambda>(filters, paths).
             Inr (watch\<lparr>w_Repositories := repos\<lparr>rp_Type := ''all'', rp_All := filters, rp_Paths := paths\<rparr>\<rparr>))
      else if el_Type resource = ''repository''
      then let repository = \<lparr>wr_Name = el_Name resource, wr_BinMgrID = el_BinMgrID resource,
                             wr_RepoType = el_RepoType resource, wr_Filters = empty_filters\<rparr>
           in and_then (unpackFilters (el_Filters resource) (wr_Filters repository) (rp_Paths repos)) (\<lambda>(filters, paths).
                Inr (watch\<lparr>w_Repositories := repos\<lparr>rp_Type := ''byname'', rp_Paths := paths,
                  Repositories := AList.update (wr_Name repository) (repository\<lparr>wr_Filters := filters\<rparr>) (Repositories repos)\<rparr>\<rparr>))
      else if el_Type resource = ''all-builds''
      then and_then (fold_result unpack_build_filter (el_Filters resource) (ba_Paths (bp_All builds))) (\<lambda>paths.
             Inr (watch\<lparr>w_Builds := builds\<lparr>bp_Type := ''all'', bp_All := \<lparr>ba_BinMgrID = el_BinMgrID resource, ba_Paths = paths\<rparr>\<rparr>\<rparr>))
      else if el_Type resource = ''build''
      then Inr (watch\<lparr>w_Builds := builds\<lparr>bp_Type := ''byname'',
             ByNames := AList.update (el_Name resource) \<lparr>bn_Name = el_Name resource, bn_BinMgrID = el_BinMgrID resource\<rparr> (ByNames builds)\<rparr>\<rparr>)
      else Inr watch)"

definition sort_patterns :: "WatchPathFilters \<Rightarrow> WatchPathFilters" where
  "sort_patterns paths = \<lparr>ExcludePatterns = map_option sort (ExcludePatterns paths), IncludePatterns = map_option sort (IncludePatterns paths)\<rparr>"

definition UnpackWatchBody :: "json WatchBody \<Rightarrow> WatchParams \<Rightarrow> WatchParams result" where
  "UnpackWatchBody body watch =
     and_then (fold_result unpack_resource (Resources body) watch) (\<lambda>watch.
       Inr (watch\<lparr>w_Repositories := (w_Repositories watch)\<lparr>rp_Paths := sort_patterns (rp_Paths (w_Repositories watch))\<rparr>\<rparr>))"

text \<open>What \<open>Get\<close> makes of a decoded response.\<close>

definition watch_of_body :: "json WatchBody \<Rightarrow> WatchParams result" where
  "watch_of_body body =
     UnpackWatchBody body (NewWatchParams\<lparr>w_Name := gd_Name body, Description := gd_Description body, Active := gd_Active body,
       Policies := AssignedPolicies body\<rparr>)"

section \<open>Policies\<close>

text \<open>A score range is in tenths: \<open>round\<close> is \<open>math.Round(x * 10) / 10\<close> on the floats of the caller.\<close>

record 'f PolicyCriteria =
  MinSeverity :: string
  CvssRange :: "('f \<times> 'f) option"
  AllowedLicenses :: "string list"
  BannedLicenses :: "string list"
  AllowUnknown :: "bool option"
  MultiLicensePermissive :: "bool option"

definition empty_criteria :: "'f PolicyCriteria" where
  "empty_criteria = \<lparr>MinSeverity = [], CvssRange = None, AllowedLicenses = [], BannedLicenses = [], AllowUnknown = None,
     MultiLicensePermissive = None\<rparr>"

definition CreateSeverityPolicyCriteria :: "string \<Rightarrow> 'f PolicyCriteria" where
  "CreateSeverityPolicyCriteria minSeverity = empty_criteria\<lparr>MinSeverity := minSeverity\<rparr>"

definition CreateCvssRangePolicyCriteria :: "('f \<Rightarrow> 'f) \<Rightarrow> 'f \<Rightarrow> 'f \<Rightarrow> 'f PolicyCriteria" where
  "CreateCvssRangePolicyCriteria round' from' to' = empty_criteria\<lparr>CvssRange := Some (round' from', round' to')\<rparr>"

definition CreateLicensePolicyCriteria :: "bool \<Rightarrow> bool \<Rightarrow> bool \<Rightarrow> string list \<Rightarrow> 'f PolicyCriteria" where
  "CreateLicensePolicyCriteria allowedLicenses allowUnknown multiLicensePermissive licenses =
     (let policyCriteria = empty_criteria\<lparr>AllowUnknown := Some allowUnknown, MultiLicensePermissive := Some multiLicensePermissive\<rparr>
      in if allowedLicenses then policyCriteria\<lparr>AllowedLicenses := licenses\<rparr> else policyCriteria\<lparr>BannedLicenses := licenses\<rparr>)"

record PolicyBlockDownload =
  pbd_Active :: "bool option"
  Unscanned :: "bool option"

record PolicyAction =
  Webhooks :: "string list"
  BlockDownload :: PolicyBlockDownload
  BlockReleaseBundleDistribution :: "bool option"
  FailBuild :: "bool option"
  NotifyDeployer :: "bool option"
  NotifyWatchRecipients :: "bool option"
  CustomSeverity :: string

record 'f PolicyRule =
  rule_Name :: string
  Criteria :: "'f PolicyCriteria"
  Actions :: "PolicyAction option"
  Priority :: int

record 'f PolicyParams =
  pp_Name :: string
  pp_Type :: string
  pp_Description :: string
  pp_Rules :: "'f PolicyRule list"

text \<open>The times of the body are those of the zero value until the server sets them.\<close>

record 'f PolicyBody =
  pb_Name :: string
  pb_Type :: string
  pb_Description :: string
  pb_Author :: string
  pb_Rules :: "'f PolicyRule list"

definition NewPolicyParams :: "'f PolicyParams" where
  "NewPolicyParams = \<lparr>pp_Name = [], pp_Type = [], pp_Description = [], pp_Rules = []\<rparr>"

definition CreatePolicyBody :: "'f PolicyParams \<Rightarrow> 'f PolicyBody" where
  "CreatePolicyBody policyParams =
     \<lparr>pb_Name = pp_Name policyParams, pb_Type = pp_Type policyParams, pb_Description = pp_Description policyParams,
      pb_Author = [], pb_Rules = pp_Rules policyParams\<rparr>"

section \<open>Creating and reading a watch\<close>

lemma append_strings_map: "append_strings (map JString ss) (Some ps) = Inr (Some (ps @ ss))"
  by (induction ss arbitrary: ps) simp_all

lemma append_strings_None: "ss \<noteq> [] \<Longrightarrow> append_strings (map JString ss) None = Inr (Some ss)"
  by (cases ss) (simp_all add: append_strings_map)

definition json_filter :: "string \<Rightarrow> filter_value \<Rightarrow> json watchFilter" where
  "json_filter t v = \<lparr>f_Type = t, f_Value = json_value v\<rparr>"

lemma unpack_strings:
  "fold_result unpack_filter (map (\<lambda>s. json_filter ''package-type'' (StringValue s)) ss) (out, repos) =
     Inr (out\<lparr>PackageTypes := PackageTypes out @ ss\<rparr>, repos)"
  "fold_result unpack_filter (map (\<lambda>s. json_filter ''regex'' (StringValue s)) ss) (out, repos) = Inr (out\<lparr>Names := Names out @ ss\<rparr>, repos)"
  "fold_result unpack_filter (map (\<lambda>s. json_filter ''path-regex'' (StringValue s)) ss) (out, repos) = Inr (out\<lparr>Paths := Paths out @ ss\<rparr>, repos)"
  "fold_result unpack_filter (map (\<lambda>s. json_filter ''mime-type'' (StringValue s)) ss) (out, repos) =
     Inr (out\<lparr>MimeTypes := MimeTypes out @ ss\<rparr>, repos)"
  by (induction ss arbitrary: out) (simp_all add: unpack_filter.simps json_filter_def)

lemma update_fresh: "k \<notin> fst ` set kvs \<Longrightarrow> AList.update k v kvs = kvs @ [(k, v)]"
  by (induction kvs) auto

lemma unpack_properties:
  "distinct (map fst (wf_Properties out @ kvs)) \<Longrightarrow>
   fold_result unpack_filter (map (\<lambda>(k, v). json_filter ''property'' (PropertyValue k v)) kvs) (out, repos) =
     Inr (out\<lparr>wf_Properties := wf_Properties out @ kvs\<rparr>, repos)"
proof (induction kvs arbitrary: out)
  case (Cons kv kvs)
  obtain k v where kv: "kv = (k, v)" by (cases kv)
  have "AList.update k v (wf_Properties out) = wf_Properties out @ [(k, v)]"
    using Cons.prems kv by (intro update_fresh) auto
  then show ?case
    using Cons.IH[of "out\<lparr>wf_Properties := wf_Properties out @ [(k, v)]\<rparr>"] Cons.prems
    by (simp add: kv unpack_filter.simps json_filter_def map_entry_def)
qed simp

definition fresh_paths :: WatchPathFilters where
  "fresh_paths = \<lparr>ExcludePatterns = Some [], IncludePatterns = Some []\<rparr>"

lemma unpack_paths:
  assumes "paths = \<lparr>ExcludePatterns = Some ex, IncludePatterns = Some inc\<rparr>" "repos = fresh_paths \<or> repos = paths"
  shows "fold_result unpack_filter [json_filter ''path-ant-patterns'' (PathsValue paths)] (out, repos) = Inr (out, paths)"
  using assms
  by (cases "ex = []"; cases "inc = []")
    (auto simp: unpack_filter.simps json_filter_def json_strings_def append_patterns_def no_patterns_def fresh_paths_def append_strings_map)

text \<open>Filters with sorted lists and one value for each property.\<close>

definition filters_ok :: "watchFilters \<Rightarrow> bool" where
  "filters_ok f \<longleftrightarrow> sorted (PackageTypes f) \<and> sorted (Names f) \<and> sorted (Paths f) \<and> sorted (MimeTypes f) \<and>
     distinct (map fst (wf_Properties f))"

lemma json_filters_create:
  assumes "rp_Paths repo = \<lparr>ExcludePatterns = Some ex, IncludePatterns = Some inc\<rparr>"
  shows "json_filters (createFilters f repo) =
    map (\<lambda>s. json_filter ''package-type'' (StringValue s)) (PackageTypes f) @ map (\<lambda>s. json_filter ''regex'' (StringValue s)) (Names f) @
    map (\<lambda>s. json_filter ''path-regex'' (StringValue s)) (Paths f) @ map (\<lambda>s. json_filter ''mime-type'' (StringValue s)) (MimeTypes f) @
    map (\<lambda>(k, v). json_filter ''property'' (PropertyValue k v)) (wf_Properties f) @ [json_filter ''path-ant-patterns'' (PathsValue (rp_Paths repo))]"
  using assms by (auto simp: json_filters_def createFilters_def json_filter_def comp_def split: prod.split)

lemma unpack_created:
  assumes "filters_ok f" "rp_Paths repo = \<lparr>ExcludePatterns = Some ex, IncludePatterns = Some inc\<rparr>"
    "repos = fresh_paths \<or> repos = rp_Paths repo"
  shows "unpackFilters (json_filters (createFilters f repo)) empty_filters repos = Inr (f, rp_Paths repo)"
proof -
  have "distinct (map fst (wf_Properties empty_filters @ wf_Properties f))" using assms(1) by (simp add: filters_ok_def empty_filters_def)
  then show ?thesis
    using assms(1) unpack_paths[OF assms(2,3)] unfolding unpackFilters_def json_filters_create[OF assms(2)] fold_result_append
    by (simp add: unpack_strings unpack_properties empty_filters_def filters_ok_def sorted_sort_id del: fold_result.simps)
qed
definition repositories_ok :: "WatchRepositoriesParams \<Rightarrow> bool" where
  "repositories_ok r \<longleftrightarrow> (\<exists>ex inc. rp_Paths r = \<lparr>ExcludePatterns = Some ex, IncludePatterns = Some inc\<rparr> \<and> sorted ex \<and> sorted inc \<and>
     (rp_Type r = ''all'' \<and> filters_ok (rp_All r) \<and> Repositories r = [] \<or>
      rp_Type r = ''byname'' \<and> rp_All r = empty_filters \<and> Repositories r \<noteq> [] \<and> distinct (map fst (Repositories r)) \<and>
        (\<forall>(k, w)\<in>set (Repositories r). k = wr_Name w \<and> filters_ok (wr_Filters w)) \<or>
      rp_Type r = [] \<and> rp_All r = empty_filters \<and> Repositories r = [] \<and> ex = [] \<and> inc = []))"

definition builds_ok :: "WatchBuildsParams \<Rightarrow> bool" where
  "builds_ok b \<longleftrightarrow>
     (let none = \<lparr>ExcludePatterns = None, IncludePatterns = None\<rparr>; paths = ba_Paths (bp_All b)
      in bp_Type b = ''all'' \<and> ByNames b = [] \<and>
           (paths = none \<or> (\<exists>ex inc. paths = \<lparr>ExcludePatterns = Some ex, IncludePatterns = Some inc\<rparr> \<and> ex \<noteq> [] \<and> inc \<noteq> [])) \<or>
         bp_Type b = ''byname'' \<and> bp_All b = \<lparr>ba_BinMgrID = [], ba_Paths = none\<rparr> \<and> ByNames b \<noteq> [] \<and>
           distinct (map fst (ByNames b)) \<and> (\<forall>(k, w)\<in>set (ByNames b). k = bn_Name w) \<or>
         bp_Type b = [] \<and> bp_All b = \<lparr>ba_BinMgrID = [], ba_Paths = none\<rparr> \<and> ByNames b = [])"

definition json_resource :: "filter_value watchProjectResourcesElement \<Rightarrow> json watchProjectResourcesElement" where
  "json_resource r = \<lparr>el_Name = el_Name r, el_BinMgrID = el_BinMgrID r, el_Type = el_Type r, el_RepoType = el_RepoType r,
     el_Filters = json_filters (el_Filters r)\<rparr>"

definition repository_resource :: "WatchRepositoriesParams \<Rightarrow> WatchRepository \<Rightarrow> filter_value watchProjectResourcesElement" where
  "repository_resource repos w = \<lparr>el_Name = wr_Name w, el_BinMgrID = wr_BinMgrID w, el_Type = ''repository'',
     el_RepoType = wr_RepoType w, el_Filters = createFilters (wr_Filters w) repos\<rparr>"

definition build_resource :: "WatchBuildsByNameParams \<Rightarrow> filter_value watchProjectResourcesElement" where
  "build_resource b = \<lparr>el_Name = bn_Name b, el_BinMgrID = bn_BinMgrID b, el_Type = ''build'', el_RepoType = [], el_Filters = []\<rparr>"

lemma unpack_repositories:
  assumes "rp_Paths repos = \<lparr>ExcludePatterns = Some ex, IncludePatterns = Some inc\<rparr>"
  shows "ws \<noteq> [] \<Longrightarrow> distinct (map fst (Repositories r0 @ ws)) \<Longrightarrow> \<forall>(k, w)\<in>set ws. k = wr_Name w \<and> filters_ok (wr_Filters w) \<Longrightarrow>
     rp_Paths r0 = fresh_paths \<or> rp_Paths r0 = rp_Paths repos \<Longrightarrow>
     fold_result unpack_resource (map (\<lambda>(_, w). json_resource (repository_resource repos w)) ws) (watch\<lparr>w_Repositories := r0\<rparr>) =
       Inr (watch\<lparr>w_Repositories := r0\<lparr>rp_Type := ''byname'', Repositories := Repositories r0 @ ws, rp_Paths := rp_Paths repos\<rparr>\<rparr>)"
proof (induction ws arbitrary: r0)
  case (Cons kw ws)
  obtain w where kw: "kw = (wr_Name w, w)" "filters_ok (wr_Filters w)" using Cons.prems(3) by (cases kw) auto
  let ?r1 = "r0\<lparr>rp_Type := ''byname'', rp_Paths := rp_Paths repos, Repositories := Repositories r0 @ [(wr_Name w, w)]\<rparr>"
  have "AList.update (wr_Name w) v (Repositories r0) = Repositories r0 @ [(wr_Name w, v)]" for v
    using Cons.prems(2) kw(1) by (intro update_fresh) auto
  then have step: "unpack_resource (json_resource (repository_resource repos w)) (watch\<lparr>w_Repositories := r0\<rparr>) =
      Inr (watch\<lparr>w_Repositories := ?r1\<rparr>)"
    using unpack_created[OF kw(2) assms Cons.prems(4)]
    by (simp add: unpack_resource_def json_resource_def repository_resource_def)
  show ?case
  proof (cases "ws = []")
    case True
    then show ?thesis using step by (simp add: kw(1))
  next
    case False
    have "fold_result unpack_resource (map (\<lambda>(_, w). json_resource (repository_resource repos w)) ws) (watch\<lparr>w_Repositories := ?r1\<rparr>) =
       Inr (watch\<lparr>w_Repositories := ?r1\<lparr>rp_Type := ''byname'', Repositories := Repositories ?r1 @ ws, rp_Paths := rp_Paths repos\<rparr>\<rparr>)"
      using Cons.prems kw(1) False by (intro Cons.IH) auto
    then show ?thesis using step by (simp add: kw(1))
  qed
qed simp

lemma unpack_builds:
  "bs \<noteq> [] \<Longrightarrow> distinct (map fst (ByNames b0 @ bs)) \<Longrightarrow> \<forall>(k, b)\<in>set bs. k = bn_Name b \<Longrightarrow>
     fold_result unpack_resource (map (\<lambda>(_, b). json_resource (build_resource b)) bs) (watch\<lparr>w_Builds := b0\<rparr>) =
       Inr (watch\<lparr>w_Builds := b0\<lparr>bp_Type := ''byname'', ByNames := ByNames b0 @ bs\<rparr>\<rparr>)"
proof (induction bs arbitrary: b0)
  case (Cons kb bs)
  obtain b where kb: "kb = (bn_Name b, b)" using Cons.prems(3) by (cases kb) auto
  let ?b1 = "b0\<lparr>bp_Type := ''byname'', ByNames := ByNames b0 @ [(bn_Name b, b)]\<rparr>"
  have "AList.update (bn_Name b) v (ByNames b0) = ByNames b0 @ [(bn_Name b, v)]" for v
    using Cons.prems(2) kb by (intro update_fresh) auto
  then have step: "unpack_resource (json_resource (build_resource b)) (watch\<lparr>w_Builds := b0\<rparr>) = Inr (watch\<lparr>w_Builds := ?b1\<rparr>)"
    by (simp add: unpack_resource_def json_resource_def build_resource_def)
  show ?case
  proof (cases "bs = []")
    case True
    then show ?thesis using step by (simp add: kb)
  next
    case False
    have "fold_result unpack_resource (map (\<lambda>(_, b). json_resource (build_resource b)) bs) (watch\<lparr>w_Builds := ?b1\<rparr>) =
       Inr (watch\<lparr>w_Builds := ?b1\<lparr>bp_Type := ''byname'', ByNames := ByNames ?b1 @ bs\<rparr>\<rparr>)"
      using Cons.prems kb False by (intro Cons.IH) auto
    then show ?thesis using step by (simp add: kb)
  qed
qed simp

text \<open>The resources of the repositories and of the builds of a payload, as they come back.\<close>

definition repository_resources :: "WatchRepositoriesParams \<Rightarrow> json watchProjectResourcesElement list" where
  "repository_resources r =
     (if rp_Type r = ''all''
      then [json_resource \<lparr>el_Name = [], el_BinMgrID = [], el_Type = ''all-repos'', el_RepoType = [], el_Filters = createFilters (rp_All r) r\<rparr>]
      else if rp_Type r = ''byname'' then map (\<lambda>(_, w). json_resource (repository_resource r w)) (Repositories r)
      else [])"

definition build_resources :: "WatchBuildsParams \<Rightarrow> json watchProjectResourcesElement list" where
  "build_resources b =
     (if bp_Type b = ''all''
      then [json_resource \<lparr>el_Name = ''All Builds'', el_BinMgrID = ba_BinMgrID (bp_All b), el_Type = ''all-builds'', el_RepoType = [],
               el_Filters = (if ExcludePatterns (ba_Paths (bp_All b)) \<noteq> None \<or> IncludePatterns (ba_Paths (bp_All b)) \<noteq> None
                             then [\<lparr>f_Type = ''ant-patterns'', f_Value = PathsValue (ba_Paths (bp_All b))\<rparr>] else [])\<rparr>]
      else if bp_Type b = ''byname'' then map (\<lambda>(_, b). json_resource (build_resource b)) (ByNames b)
      else [])"

lemma CreateBody_json:
  assumes "repositories_ok (w_Repositories p)" "builds_ok (w_Builds p)"
  shows "\<exists>body. CreateBody p = Inr body \<and> json_body body = \<lparr>gd_Name = w_Name p, gd_Description = Description p, gd_Active = Active p,
     Resources = repository_resources (w_Repositories p) @ build_resources (w_Builds p), AssignedPolicies = Policies p\<rparr>"
proof -
  have r: "rp_Type (w_Repositories p) = ''all'' \<or> rp_Type (w_Repositories p) = ''byname'' \<or> rp_Type (w_Repositories p) = []"
    using assms(1) by (auto simp: repositories_ok_def)
  have b: "bp_Type (w_Builds p) = ''all'' \<or> bp_Type (w_Builds p) = ''byname'' \<or> bp_Type (w_Builds p) = []"
    using assms(2) by (auto simp: builds_ok_def Let_def)
  show ?thesis
    using r b
    by (elim disjE) (simp_all add: CreateBody_def configureRepositories_def configureBuilds_def Let_def json_body_def repository_resources_def
        build_resources_def json_resource_def repository_resource_def build_resource_def split_def comp_def)
qed
lemma unpack_repository_resources:
  assumes "repositories_ok r" "w_Repositories watch = w_Repositories NewWatchParams"
  shows "\<exists>paths. fold_result unpack_resource (repository_resources r) watch = Inr (watch\<lparr>w_Repositories := r\<lparr>rp_Paths := paths\<rparr>\<rparr>) \<and>
    sort_patterns paths = rp_Paths r"
proof -
  obtain ex inc where paths: "rp_Paths r = \<lparr>ExcludePatterns = Some ex, IncludePatterns = Some inc\<rparr>" "sorted ex" "sorted inc"
    and cases: "rp_Type r = ''all'' \<and> filters_ok (rp_All r) \<and> Repositories r = [] \<or>
      rp_Type r = ''byname'' \<and> rp_All r = empty_filters \<and> Repositories r \<noteq> [] \<and> distinct (map fst (Repositories r)) \<and>
        (\<forall>(k, w)\<in>set (Repositories r). k = wr_Name w \<and> filters_ok (wr_Filters w)) \<or>
      rp_Type r = [] \<and> rp_All r = empty_filters \<and> Repositories r = [] \<and> ex = [] \<and> inc = []"
    using assms(1) unfolding repositories_ok_def by blast
  have sort: "sort_patterns (rp_Paths r) = rp_Paths r" using paths by (simp add: sort_patterns_def sorted_sort_id)
  have new: "w_Repositories watch = \<lparr>rp_Type = [], rp_All = empty_filters, Repositories = [], rp_Paths = fresh_paths\<rparr>"
    using assms(2) by (simp add: NewWatchParams_def fresh_paths_def)
  have "fold_result unpack_resource (repository_resources r) watch = Inr (watch\<lparr>w_Repositories := r\<rparr>)"
    using cases
  proof (elim disjE)
    assume all: "rp_Type r = ''all'' \<and> filters_ok (rp_All r) \<and> Repositories r = []"
    then have "unpackFilters (json_filters (createFilters (rp_All r) r)) empty_filters fresh_paths = Inr (rp_All r, rp_Paths r)"
      using paths(1) by (intro unpack_created) simp_all
    then show ?thesis using all new by (simp add: repository_resources_def unpack_resource_def json_resource_def)
  next
    assume names: "rp_Type r = ''byname'' \<and> rp_All r = empty_filters \<and> Repositories r \<noteq> [] \<and> distinct (map fst (Repositories r)) \<and>
        (\<forall>(k, w)\<in>set (Repositories r). k = wr_Name w \<and> filters_ok (wr_Filters w))"
    have "fold_result unpack_resource (map (\<lambda>(_, w). json_resource (repository_resource r w)) (Repositories r)) (watch\<lparr>w_Repositories := w_Repositories watch\<rparr>) =
        Inr (watch\<lparr>w_Repositories := (w_Repositories watch)\<lparr>rp_Type := ''byname'', Repositories := Repositories (w_Repositories watch) @ Repositories r, rp_Paths := rp_Paths r\<rparr>\<rparr>)"
      using names new paths(1) by (intro unpack_repositories) auto
    moreover have "watch\<lparr>w_Repositories := w_Repositories watch\<rparr> = watch" by simp
    moreover have "(w_Repositories watch)\<lparr>rp_Type := ''byname'', Repositories := Repositories (w_Repositories watch) @ Repositories r,
        rp_Paths := rp_Paths r\<rparr> = r" using names new by (cases r) simp
    ultimately show ?thesis using names by (simp only: repository_resources_def) simp
  next
    assume none: "rp_Type r = [] \<and> rp_All r = empty_filters \<and> Repositories r = [] \<and> ex = [] \<and> inc = []"
    then have "w_Repositories watch = r" using new paths by (simp add: fresh_paths_def)
    then show ?thesis using none by (simp add: repository_resources_def)
  qed
  then show ?thesis using sort by (intro exI[of _ "rp_Paths r"]) simp
qed

lemma unpack_build_resources:
  assumes "builds_ok b" "w_Builds watch = w_Builds NewWatchParams"
  shows "fold_result unpack_resource (build_resources b) watch = Inr (watch\<lparr>w_Builds := b\<rparr>)"
proof -
  let ?none = "\<lparr>ExcludePatterns = None, IncludePatterns = None\<rparr>"
  have new: "w_Builds watch = \<lparr>bp_Type = [], bp_All = \<lparr>ba_BinMgrID = [], ba_Paths = ?none\<rparr>, ByNames = []\<rparr>"
    using assms(2) by (simp add: NewWatchParams_def)
  have "bp_Type b = ''all'' \<and> ByNames b = [] \<and> (ba_Paths (bp_All b) = ?none \<or>
        (\<exists>ex inc. ba_Paths (bp_All b) = \<lparr>ExcludePatterns = Some ex, IncludePatterns = Some inc\<rparr> \<and> ex \<noteq> [] \<and> inc \<noteq> [])) \<or>
      bp_Type b = ''byname'' \<and> bp_All b = \<lparr>ba_BinMgrID = [], ba_Paths = ?none\<rparr> \<and> ByNames b \<noteq> [] \<and>
        distinct (map fst (ByNames b)) \<and> (\<forall>(k, w)\<in>set (ByNames b). k = bn_Name w) \<or>
      bp_Type b = [] \<and> bp_All b = \<lparr>ba_BinMgrID = [], ba_Paths = ?none\<rparr> \<and> ByNames b = []"
    using assms(1) by (simp add: builds_ok_def Let_def)
  then show ?thesis
  proof (elim disjE)
    assume all: "bp_Type b = ''all'' \<and> ByNames b = [] \<and> (ba_Paths (bp_All b) = ?none \<or>
        (\<exists>ex inc. ba_Paths (bp_All b) = \<lparr>ExcludePatterns = Some ex, IncludePatterns = Some inc\<rparr> \<and> ex \<noteq> [] \<and> inc \<noteq> []))"
    have "fold_result unpack_build_filter
        (json_filters (if ExcludePatterns (ba_Paths (bp_All b)) \<noteq> None \<or> IncludePatterns (ba_Paths (bp_All b)) \<noteq> None
                       then [\<lparr>f_Type = ''ant-patterns'', f_Value = PathsValue (ba_Paths (bp_All b))\<rparr>] else [])) ?none = Inr (ba_Paths (bp_All b))"
      using all by (auto simp: json_filters_def unpack_build_filter_def append_patterns_def json_strings_def append_strings_None)
    then show ?thesis using all new by (simp add: build_resources_def unpack_resource_def json_resource_def)
  next
    assume names: "bp_Type b = ''byname'' \<and> bp_All b = \<lparr>ba_BinMgrID = [], ba_Paths = ?none\<rparr> \<and> ByNames b \<noteq> [] \<and>
        distinct (map fst (ByNames b)) \<and> (\<forall>(k, w)\<in>set (ByNames b). k = bn_Name w)"
    have "fold_result unpack_resource (map (\<lambda>(_, b). json_resource (build_resource b)) (ByNames b)) (watch\<lparr>w_Builds := w_Builds watch\<rparr>) =
        Inr (watch\<lparr>w_Builds := (w_Builds watch)\<lparr>bp_Type := ''byname'', ByNames := ByNames (w_Builds watch) @ ByNames b\<rparr>\<rparr>)"
      using names new by (intro unpack_builds) auto
    moreover have "watch\<lparr>w_Builds := w_Builds watch\<rparr> = watch" by simp
    moreover have "(w_Builds watch)\<lparr>bp_Type := ''byname'', ByNames := ByNames (w_Builds watch) @ ByNames b\<rparr> = b"
      using names new by (cases b) simp
    ultimately show ?thesis using names by (simp only: build_resources_def) simp
  next
    assume none: "bp_Type b = [] \<and> bp_All b = \<lparr>ba_BinMgrID = [], ba_Paths = ?none\<rparr> \<and> ByNames b = []"
    then have "w_Builds watch = b" using new by simp
    then show ?thesis using none by (simp add: build_resources_def)
  qed
qed

section \<open>Properties\<close>

text \<open>A watch that is created and read back is the watch, when its lists are sorted, its maps are keyed
  by name, and its build patterns are both given or both absent.\<close>

theorem CreateBody_roundtrip:
  assumes "repositories_ok (w_Repositories p)" "builds_ok (w_Builds p)"
  shows "\<exists>body. CreateBody p = Inr body \<and> watch_of_body (json_body body) = Inr p"
proof -
  obtain body where body: "CreateBody p = Inr body" "json_body body = \<lparr>gd_Name = w_Name p, gd_Description = Description p,
     gd_Active = Active p, Resources = repository_resources (w_Repositories p) @ build_resources (w_Builds p), AssignedPolicies = Policies p\<rparr>"
    using CreateBody_json[OF assms] by blast
  let ?w0 = "NewWatchParams\<lparr>w_Name := w_Name p, Description := Description p, Active := Active p, Policies := Policies p\<rparr>"
  obtain paths where repos: "fold_result unpack_resource (repository_resources (w_Repositories p)) ?w0 =
      Inr (?w0\<lparr>w_Repositories := (w_Repositories p)\<lparr>rp_Paths := paths\<rparr>\<rparr>)" "sort_patterns paths = rp_Paths (w_Repositories p)"
    using unpack_repository_resources[OF assms(1), of ?w0] by auto
  have builds: "fold_result unpack_resource (build_resources (w_Builds p)) (?w0\<lparr>w_Repositories := (w_Repositories p)\<lparr>rp_Paths := paths\<rparr>\<rparr>) =
      Inr (?w0\<lparr>w_Repositories := (w_Repositories p)\<lparr>rp_Paths := paths\<rparr>, w_Builds := w_Builds p\<rparr>)"
    by (subst unpack_build_resources[OF assms(2)]) simp_all
  show ?thesis
    using body repos builds by (simp add: watch_of_body_def UnpackWatchBody_def fold_result_append)
qed

definition example_watch :: WatchParams where
  "example_watch = NewWatchParams\<lparr>w_Name := ''w'', w_Repositories := \<lparr>rp_Type = ''byname'', rp_All = empty_filters,
     Repositories = [(''a'', \<lparr>wr_Name = ''a'', wr_BinMgrID = ''default'', wr_RepoType = ''local'',
       wr_Filters = \<lparr>PackageTypes = [''Go''], Names = [], Paths = [], MimeTypes = [], wf_Properties = [(''k'', ''v'')]\<rparr>\<rparr>)],
     rp_Paths = \<lparr>ExcludePatterns = Some [''x''], IncludePatterns = Some []\<rparr>\<rparr>\<rparr>"

theorem CreateBody_roundtrip_witness:
  "\<exists>body. CreateBody example_watch = Inr body \<and> watch_of_body (json_body body) = Inr example_watch"
  by (rule CreateBody_roundtrip) (auto simp: example_watch_def repositories_ok_def builds_ok_def NewWatchParams_def filters_ok_def)

text \<open>A payload with only one of the two pattern lists does not read back: the other is null.\<close>

lemma read_back_null_patterns:
  "unpack_build_filter (json_filter ''ant-patterns'' (PathsValue \<lparr>ExcludePatterns = Some [''x''], IncludePatterns = None\<rparr>))
     \<lparr>ExcludePatterns = None, IncludePatterns = None\<rparr> = Inl not_of_type"
  by (simp add: unpack_build_filter_def json_filter_def append_patterns_def json_strings_def)
end
