(* ===== verification/Http.thy ===== *)
theory Http
  imports Retry Encoding Utils
begin

text \<open>
  The HTTP client, \<^verbatim>\<open>http/httpclient/client.go\<close>: requests with their headers, retries and redirects, and
  the upload of a file.

  The library \<^verbatim>\<open>net/http\<close> is a parameter: \<open>http_do\<close> performs a request in a world of type \<open>'w\<close> (the
  network and the servers) and answers or fails; when redirects are blocked (a \<open>CheckRedirect\<close> that
  returns an error) a redirect is a failure that tells its address. As documented, a request that does
  not fail has a response. Closing a body or a file does not fail, and progress bars are left out.
\<close>

section \<open>Requests and responses\<close>

text \<open>Reading a body gives its bytes and then the end or an error.\<close>

record Response =
  StatusCode :: int
  Status :: string
  ResponseHeader :: "string \<Rightarrow> string"
  Body :: "string \<times> string option"

record Request =
  req_Method :: string
  req_URL :: string
  req_Header :: "string \<rightharpoonup> string"
  req_Body :: string

datatype do_result = Answered Response | Failed string "Response option" string

record HttpClientDetails =
  User :: string
  Password :: string
  ApiKey :: string
  AccessToken :: string
  Headers :: "(string \<times> string) list option"

text \<open>The map of headers is a list in the order of its iteration.\<close>

definition Clone :: "HttpClientDetails \<Rightarrow> HttpClientDetails" where
  "Clone details = details\<lparr>Headers := Some (case Headers details of None \<Rightarrow> [] | Some h \<Rightarrow> h)\<rparr>"

record 'w HttpClient =
  http_do :: "bool \<Rightarrow> Request \<Rightarrow> 'w \<Rightarrow> do_result \<times> 'w"
  NewRequest_error :: "string \<Rightarrow> string \<Rightarrow> string option"
  userAgent :: string
  ctx :: "('w \<Rightarrow> bool) option"
  hc_retries :: int
  hc_retryWaitMilliSecs :: int

section \<open>Headers\<close>

text \<open>\<open>Header.Set\<close> writes names in canonical form: the first letter and each letter after a dash in upper
  case, the others in lower case; a name with a byte that no header name may have stays as it is.\<close>

definition header_char :: "char \<Rightarrow> bool" where
  "header_char c \<longleftrightarrow> (CHR ''0'' \<le> c \<and> c \<le> CHR ''9'') \<or> (CHR ''A'' \<le> c \<and> c \<le> CHR ''Z'') \<or>
     (CHR ''a'' \<le> c \<and> c \<le> CHR ''z'') \<or> c \<in> set ''!#$%&*+-.^_|~'' \<or> c = CHR 0x27 \<or> c = CHR 0x60"

fun canonical_loop :: "bool \<Rightarrow> string \<Rightarrow> string" where
  "canonical_loop upper [] = []"
| "canonical_loop upper (c # cs) =
     (if upper \<and> CHR ''a'' \<le> c \<and> c \<le> CHR ''z'' then char_of (of_char c - 32 :: nat)
      else if \<not> upper \<and> CHR ''A'' \<le> c \<and> c \<le> CHR ''Z'' then char_of (of_char c + 32 :: nat)
      else c) # canonical_loop (c = CHR ''-'') cs"

definition CanonicalHeaderKey :: "string \<Rightarrow> string" where
  "CanonicalHeaderKey s = (if list_all header_char s then canonical_loop True s else s)"

definition set_header :: "string \<Rightarrow> string \<Rightarrow> (string \<rightharpoonup> string) \<Rightarrow> (string \<rightharpoonup> string)" where
  "set_header name v header = header(CanonicalHeaderKey name \<mapsto> v)"

definition SetBasicAuth :: "string \<Rightarrow> string \<Rightarrow> (string \<rightharpoonup> string) \<Rightarrow> (string \<rightharpoonup> string)" where
  "SetBasicAuth username password =
     set_header ''Authorization'' (''Basic '' @ base64_encode (username @ '':'' @ password))"

definition IsApiKey :: "string \<Rightarrow> bool" where
  "IsApiKey key \<longleftrightarrow> has_prefix key ''AKCp8'' \<and> length key \<ge> 73"

definition setAuthentication :: "HttpClientDetails \<Rightarrow> (string \<rightharpoonup> string) \<Rightarrow> (string \<rightharpoonup> string)" where
  "setAuthentication details header =
     (if ApiKey details \<noteq> []
      then if User details \<noteq> [] then SetBasicAuth (User details) (ApiKey details) header
           else set_header ''X-JFrog-Art-Api'' (ApiKey details) header
      else if AccessToken details \<noteq> []
      then if IsApiKey (AccessToken details) then SetBasicAuth (User details) (AccessToken details) header
           else set_header ''Authorization'' (''Bearer '' @ AccessToken details) header
      else if Password details \<noteq> [] then SetBasicAuth (User details) (Password details) header
      else header)"

definition addUserAgentHeader :: "string \<Rightarrow> (string \<rightharpoonup> string) \<Rightarrow> (string \<rightharpoonup> string)" where
  "addUserAgentHeader agent = set_header ''User-Agent'' agent"

definition copyHeaders :: "HttpClientDetails \<Rightarrow> (string \<rightharpoonup> string) \<Rightarrow> (string \<rightharpoonup> string)" where
  "copyHeaders details header =
     (case Headers details of None \<Rightarrow> header | Some h \<Rightarrow> fold (\<lambda>(name, v). set_header name v) h header)"

definition setRequestHeaders :: "HttpClientDetails \<Rightarrow> int \<Rightarrow> (string \<rightharpoonup> string) \<Rightarrow> (string \<rightharpoonup> string)" where
  "setRequestHeaders details size' header = set_header ''Content-Length'' (itoa size') (copyHeaders details header)"

section \<open>Checking a response\<close>

definition GenerateResponseError :: "string \<Rightarrow> string \<Rightarrow> string" where
  "GenerateResponseError status body = ''server response: '' @ status @ (if body \<noteq> [] then [CHR 0x0A] @ body else [])"

text \<open>\<open>indent\<close> is \<open>json.Indent\<close>, \<open>None\<close> for a text that is not JSON. An error text that passes through
  \<open>fmt.Errorf\<close> as a format is taken as it is: the model covers texts without a percent sign.\<close>

definition GenerateErrorString :: "(string \<Rightarrow> string option) \<Rightarrow> string \<Rightarrow> string" where
  "GenerateErrorString indent body = (case indent body of None \<Rightarrow> body | Some s \<Rightarrow> s)"

definition CheckResponseStatus :: "Response \<Rightarrow> int list \<Rightarrow> string option" where
  "CheckResponseStatus resp expectedStatusCodes =
     (if StatusCode resp \<in> set expectedStatusCodes then None
      else Some (GenerateResponseError (Status resp) (fst (Body resp))))"

definition CheckResponseStatusWithBody :: "(string \<Rightarrow> string option) \<Rightarrow> Response \<Rightarrow> string \<Rightarrow> int list \<Rightarrow> string option" where
  "CheckResponseStatusWithBody indent resp body expectedStatusCodes =
     (if StatusCode resp \<in> set expectedStatusCodes then None
      else Some (GenerateResponseError (Status resp) (GenerateErrorString indent body)))"

section \<open>Sending\<close>

text \<open>The response, its body, the redirect address and the error of a call.\<close>

type_synonym reply = "Response option \<times> string \<times> string \<times> exec_error option"

definition createReq :: "'w HttpClient \<Rightarrow> string \<Rightarrow> string \<Rightarrow> string option \<Rightarrow> string + Request" where
  "createReq jc meth url content =
     (case NewRequest_error jc meth url of
        Some e \<Rightarrow> Inl e
      | None \<Rightarrow> Inr \<lparr>req_Method = meth, req_URL = url, req_Header = Map.empty,
                     req_Body = (case content of None \<Rightarrow> [] | Some c \<Rightarrow> c)\<rparr>)"

text \<open>\<open>SendPost\<close> is the call that follows the redirect of a POST; \<open>None\<close> when it never returns.\<close>

definition doRequest :: "'w HttpClient \<Rightarrow> (string \<Rightarrow> 'w \<Rightarrow> ((Response option \<times> string \<times> exec_error option) \<times> 'w) option) \<Rightarrow>
    Request \<Rightarrow> bool \<Rightarrow> bool \<Rightarrow> HttpClientDetails \<Rightarrow> 'w \<Rightarrow> (reply \<times> 'w) option" where
  "doRequest jc SendPost req followRedirect closeBody details w =
     (let header = copyHeaders details (addUserAgentHeader (userAgent jc) (setAuthentication details (req_Header req)));
          req = req\<lparr>req_Header := header\<rparr>;
          blocked = \<not> followRedirect \<or> (followRedirect \<and> req_Method req = ''POST'')
      in case http_do jc blocked req w of
           (Answered resp, w) \<Rightarrow> Some ((Some resp, if closeBody then fst (Body resp) else [], [], None), w)
         | (Failed e resp redirectUrl, w) \<Rightarrow>
             if redirectUrl \<noteq> [] \<and> \<not> followRedirect then Some ((resp, [], redirectUrl, Some (HandlerError e)), w)
             else if redirectUrl \<noteq> [] \<and> req_Method req = ''POST''
             then (case SendPost redirectUrl w of
                     None \<Rightarrow> None
                   | Some ((resp, respBody, err), w) \<Rightarrow> Some ((resp, respBody, [], err), w))
             else Some ((resp, [], redirectUrl, Some (HandlerError e)), w))"

text \<open>The state of the retried handler: what it assigns to the results of \<open>Send\<close>, and the world; \<open>None\<close>
  after a call that never returns.\<close>

type_synonym 'w sending = "(Response option \<times> string \<times> string \<times> 'w) option"

text \<open>What the handlers of the client do with a response: no retry below 500.\<close>

definition retry_on_server_error :: "Response option \<Rightarrow> string \<Rightarrow> bool \<times> exec_error option" where
  "retry_on_server_error resp emptyMessage =
     (case resp of
        None \<Rightarrow> (False, Some (HandlerError emptyMessage))
      | Some r \<Rightarrow> if StatusCode r < 500 then (False, None) else (True, None))"

definition send_handler :: "'w HttpClient \<Rightarrow> (string \<Rightarrow> 'w \<Rightarrow> ((Response option \<times> string \<times> exec_error option) \<times> 'w) option) \<Rightarrow>
    string \<Rightarrow> string \<Rightarrow> string option \<Rightarrow> bool \<Rightarrow> bool \<Rightarrow> HttpClientDetails \<Rightarrow> string \<Rightarrow> 'w sending handler" where
  "send_handler jc SendPost meth url content followRedirect closeBody details logMsgPrefix s =
     (case s of
        None \<Rightarrow> ((False, None), None)
      | Some (_, _, _, w) \<Rightarrow>
          case createReq jc meth url content of
            Inl e \<Rightarrow> ((True, Some (HandlerError e)), s)
          | Inr req \<Rightarrow>
              case doRequest jc SendPost req followRedirect closeBody details w of
                None \<Rightarrow> ((False, None), None)
              | Some ((resp, respBody, redirectUrl, err), w) \<Rightarrow>
                  (if err \<noteq> None then (True, err)
                   else retry_on_server_error resp (logMsgPrefix @ ''Received empty response from server''),
                   Some (resp, respBody, redirectUrl, w)))"

definition send_executor :: "'w HttpClient \<Rightarrow> string \<Rightarrow> string \<Rightarrow> string \<Rightarrow> RetryExecutor" where
  "send_executor jc meth url logMsgPrefix =
     \<lparr>MaxRetries = hc_retries jc, RetriesIntervalMilliSecs = hc_retryWaitMilliSecs jc,
      ErrorMessage = ''Failure occurred while sending '' @ meth @ '' request to '' @ url, LogMsgPrefix = logMsgPrefix\<rparr>"

definition send_ctx :: "'w HttpClient \<Rightarrow> ('w sending \<Rightarrow> bool) option" where
  "send_ctx jc = map_option (\<lambda>cancelled s. case s of None \<Rightarrow> False | Some (_, _, _, w) \<Rightarrow> cancelled w) (ctx jc)"

text \<open>\<open>Send\<close> with room for \<open>n\<close> nested redirects of POST requests: the code sends each of them by a new
  \<open>Send\<close>, without a bound. \<open>None\<close> stands for a call that needs more than \<open>n\<close>.\<close>

primrec Send :: "nat \<Rightarrow> 'w HttpClient \<Rightarrow> string \<Rightarrow> string \<Rightarrow> string option \<Rightarrow> bool \<Rightarrow> bool \<Rightarrow> HttpClientDetails \<Rightarrow> string \<Rightarrow>
    'w \<Rightarrow> (reply \<times> 'w) option" where
  "Send 0 jc meth url content followRedirect closeBody details logMsgPrefix w = None"
| "Send (Suc n) jc meth url content followRedirect closeBody details logMsgPrefix w =
     (let SendPost = (\<lambda>redirectUrl w.
            case Send n jc ''POST'' redirectUrl content True True details [] w of
              None \<Rightarrow> None
            | Some ((resp, body, _, err), w) \<Rightarrow> Some ((resp, body, err), w));
          (err, s, _) = Execute (send_executor jc meth url logMsgPrefix) (send_ctx jc)
            (send_handler jc SendPost meth url content followRedirect closeBody details logMsgPrefix) (Some (None, [], [], w))
      in case s of None \<Rightarrow> None | Some (resp, respBody, redirectUrl, w) \<Rightarrow> Some ((resp, respBody, redirectUrl, err), w))"


text \<open>The methods that call \<open>Send\<close> with fixed arguments.\<close>

definition SendGet :: "nat \<Rightarrow> 'w HttpClient \<Rightarrow> string \<Rightarrow> bool \<Rightarrow> HttpClientDetails \<Rightarrow> string \<Rightarrow> 'w \<Rightarrow> (reply \<times> 'w) option" where
  "SendGet n jc url followRedirect = Send n jc ''GET'' url None followRedirect True"

definition sendGetLeaveBodyOpen :: "nat \<Rightarrow> 'w HttpClient \<Rightarrow> string \<Rightarrow> bool \<Rightarrow> HttpClientDetails \<Rightarrow> string \<Rightarrow> 'w \<Rightarrow> (reply \<times> 'w) option" where
  "sendGetLeaveBodyOpen n jc url followRedirect = Send n jc ''GET'' url None followRedirect False"

definition sendGetForFileDownload :: "nat \<Rightarrow> 'w HttpClient \<Rightarrow> string \<Rightarrow> bool \<Rightarrow> HttpClientDetails \<Rightarrow> string \<Rightarrow> 'w \<Rightarrow>
    ((Response option \<times> string \<times> exec_error option) \<times> 'w) option" where
  "sendGetForFileDownload n jc url followRedirect details logMsgPrefix w =
     map_option (\<lambda>((resp, _, redirectUrl, err), w). ((resp, redirectUrl, err), w))
       (sendGetLeaveBodyOpen n jc url followRedirect details logMsgPrefix w)"

text \<open>A body that is sent with every method but \<open>GET\<close> and \<open>HEAD\<close>.\<close>

definition send_body :: "string \<Rightarrow> nat \<Rightarrow> 'w HttpClient \<Rightarrow> string \<Rightarrow> string option \<Rightarrow> HttpClientDetails \<Rightarrow> string \<Rightarrow> 'w \<Rightarrow>
    ((Response option \<times> string \<times> exec_error option) \<times> 'w) option" where
  "send_body meth n jc url content details logMsgPrefix w =
     map_option (\<lambda>((resp, body, _, err), w). ((resp, body, err), w)) (Send n jc meth url content True True details logMsgPrefix w)"

definition SendPost :: "nat \<Rightarrow> 'w HttpClient \<Rightarrow> string \<Rightarrow> string option \<Rightarrow> HttpClientDetails \<Rightarrow> string \<Rightarrow> 'w \<Rightarrow>
    ((Response option \<times> string \<times> exec_error option) \<times> 'w) option" where
  "SendPost = send_body ''POST''"

definition SendPatch :: "nat \<Rightarrow> 'w HttpClient \<Rightarrow> string \<Rightarrow> string option \<Rightarrow> HttpClientDetails \<Rightarrow> string \<Rightarrow> 'w \<Rightarrow>
    ((Response option \<times> string \<times> exec_error option) \<times> 'w) option" where
  "SendPatch = send_body ''PATCH''"

definition SendDelete :: "nat \<Rightarrow> 'w HttpClient \<Rightarrow> string \<Rightarrow> string option \<Rightarrow> HttpClientDetails \<Rightarrow> string \<Rightarrow> 'w \<Rightarrow>
    ((Response option \<times> string \<times> exec_error option) \<times> 'w) option" where
  "SendDelete = send_body ''DELETE''"

definition SendPut :: "nat \<Rightarrow> 'w HttpClient \<Rightarrow> string \<Rightarrow> string option \<Rightarrow> HttpClientDetails \<Rightarrow> string \<Rightarrow> 'w \<Rightarrow>
    ((Response option \<times> string \<times> exec_error option) \<times> 'w) option" where
  "SendPut = send_body ''PUT''"

definition SendHead :: "nat \<Rightarrow> 'w HttpClient \<Rightarrow> string \<Rightarrow> HttpClientDetails \<Rightarrow> string \<Rightarrow> 'w \<Rightarrow>
    ((Response option \<times> string \<times> exec_error option) \<times> 'w) option" where
  "SendHead n jc url = send_body ''HEAD'' n jc url None"

text \<open>\<open>None\<close> as the first component when the response cannot be read.\<close>

definition ReadRemoteFile :: "nat \<Rightarrow> 'w HttpClient \<Rightarrow> string \<Rightarrow> HttpClientDetails \<Rightarrow> 'w \<Rightarrow>
    (((string \<times> string option) option \<times> Response option \<times> exec_error option) \<times> 'w) option" where
  "ReadRemoteFile n jc downloadPath details w =
     (case sendGetForFileDownload n jc downloadPath True details [] w of
        None \<Rightarrow> None
      | Some ((resp, _, err), w) \<Rightarrow>
          Some (case err of
                  Some e \<Rightarrow> (None, None, Some e)
                | None \<Rightarrow> (case resp of
                             None \<Rightarrow> (None, None, None)
                           | Some r \<Rightarrow> if StatusCode r \<noteq> 200 then (None, Some r, None) else (Some (Body r), Some r, None)), w))"

definition IsAcceptRanges :: "nat \<Rightarrow> 'w HttpClient \<Rightarrow> string \<Rightarrow> HttpClientDetails \<Rightarrow> 'w \<Rightarrow>
    ((bool \<times> Response option \<times> exec_error option) \<times> 'w) option" where
  "IsAcceptRanges n jc downloadUrl details w =
     (case SendHead n jc downloadUrl details [] w of
        None \<Rightarrow> None
      | Some ((resp, _, err), w) \<Rightarrow>
          Some (case (err, resp) of
                  (Some e, _) \<Rightarrow> (False, None, Some e)
                | (None, None) \<Rightarrow> (False, None, None)
                | (None, Some r) \<Rightarrow> if StatusCode r \<noteq> 200 then (False, Some r, None)
                                   else (ResponseHeader r ''Accept-Ranges'' = ''bytes'', Some r, None), w))"

section \<open>Uploading a file\<close>

text \<open>\<open>read_file\<close> opens and reads a local file. Without a path the body is the content of a symlink
  file, which is empty, and the size is 0.\<close>

definition UploadFileFromReader :: "(string \<Rightarrow> string option) \<Rightarrow> 'w HttpClient \<Rightarrow> string \<Rightarrow> string \<Rightarrow> HttpClientDetails \<Rightarrow> int \<Rightarrow> 'w \<Rightarrow>
    (Response option \<times> string \<times> exec_error option) \<times> 'w" where
  "UploadFileFromReader indent jc reader url details size' w =
     (case NewRequest_error jc ''PUT'' url of
        Some e \<Rightarrow> ((None, [], Some (HandlerError e)), w)
      | None \<Rightarrow>
          let header = addUserAgentHeader (userAgent jc) (setAuthentication details (setRequestHeaders details size' Map.empty));
              req = \<lparr>req_Method = ''PUT'', req_URL = url, req_Header = header, req_Body = reader\<rparr>
          in case http_do jc False req w of
               (Failed e resp _, w) \<Rightarrow> ((resp, [], Some (HandlerError e)), w)
             | (Answered resp, w) \<Rightarrow>
                 case CheckResponseStatusWithBody indent resp [] [201, 200, 202] of
                   Some e \<Rightarrow> ((Some resp, [], Some (HandlerError e)), w)
                 | None \<Rightarrow> ((Some resp, fst (Body resp), map_option HandlerError (snd (Body resp))), w))"

definition doUploadFile :: "(string \<Rightarrow> string option) \<Rightarrow> (string \<Rightarrow> string + string) \<Rightarrow> 'w HttpClient \<Rightarrow> string \<Rightarrow> string \<Rightarrow>
    HttpClientDetails \<Rightarrow> 'w \<Rightarrow> (Response option \<times> string \<times> exec_error option) \<times> 'w" where
  "doUploadFile indent read_file jc localPath url details w =
     (if localPath = [] then UploadFileFromReader indent jc [] url details 0 w
      else case read_file localPath of
             Inl e \<Rightarrow> ((None, [], Some (HandlerError e)), w)
           | Inr content \<Rightarrow> UploadFileFromReader indent jc content url details (int (length content)) w)"

definition upload_handler :: "(string \<Rightarrow> string option) \<Rightarrow> (string \<Rightarrow> string + string) \<Rightarrow> 'w HttpClient \<Rightarrow> string \<Rightarrow> string \<Rightarrow>
    string \<Rightarrow> HttpClientDetails \<Rightarrow> (Response option \<times> string \<times> 'w) handler" where
  "upload_handler indent read_file jc localPath url logMsgPrefix details =
     (\<lambda>(_, _, w). let ((resp, body, err), w) = doUploadFile indent read_file jc localPath url details w
        in (if err \<noteq> None then (True, err)
            else retry_on_server_error resp (logMsgPrefix @ ''Received empty response from file upload''), (resp, body, w)))"

definition UploadFile :: "(string \<Rightarrow> string option) \<Rightarrow> (string \<Rightarrow> string + string) \<Rightarrow> 'w HttpClient \<Rightarrow> string \<Rightarrow> string \<Rightarrow>
    string \<Rightarrow> HttpClientDetails \<Rightarrow> 'w \<Rightarrow> (Response option \<times> string \<times> exec_error option) \<times> 'w" where
  "UploadFile indent read_file jc localPath url logMsgPrefix details w =
     (let (err, (resp, body, w), _) =
            Execute \<lparr>MaxRetries = hc_retries jc, RetriesIntervalMilliSecs = hc_retryWaitMilliSecs jc,
                     ErrorMessage = ''Failure occurred while uploading to '' @ url, LogMsgPrefix = logMsgPrefix\<rparr> None
              (upload_handler indent read_file jc localPath url logMsgPrefix details) (None, [], w)
      in ((resp, body, err), w))"

section \<open>Retries\<close>

text \<open>A run of an executor without a context whose handler tells whether to retry: it ends with the first
  attempt that asks for none, or after all of them.\<close>

lemma Execute_first:
  assumes "\<forall>i<k. fst (outcome h s i)" "\<not> fst (outcome h s k)" "int k \<le> MaxRetries runner"
  shows "\<exists>tr. Execute runner None h s = (snd (outcome h s k), world_after h s (Suc k), tr) \<and> count_list tr Attempt = Suc k"
proof -
  obtain e t tr where run: "Execute runner None h s = (e, t, tr)" by (metis surj_pair)
  have stops: "stops None h s i \<longleftrightarrow> \<not> fst (outcome h s i)" for i by (simp add: stops_def checkCancelled_def)
  have "find (stops None h s) [0..<nat (MaxRetries runner + 1)] = Some k"
    using assms by (auto simp: find_Some_iff stops intro!: exI[of _ k])
  then show ?thesis using Execute_run_spec(1)[OF run] run assms(2) by (auto simp: run_spec_def)
qed

lemma Execute_all:
  assumes "\<forall>i\<le>nat (MaxRetries runner). fst (outcome h s i)" "MaxRetries runner \<ge> 0"
  shows "\<exists>tr. Execute runner None h s =
      (timeout_error runner (snd (outcome h s (nat (MaxRetries runner)))), world_after h s (Suc (nat (MaxRetries runner))), tr) \<and>
    count_list tr Attempt = Suc (nat (MaxRetries runner))"
proof -
  obtain e t tr where run: "Execute runner None h s = (e, t, tr)" by (metis surj_pair)
  have "find (stops None h s) [0..<nat (MaxRetries runner + 1)] = None"
    using assms by (auto simp: find_None_iff stops_def checkCancelled_def)
  moreover have "nat (MaxRetries runner + 1) = Suc (nat (MaxRetries runner))" using assms(2) by simp
  ultimately show ?thesis using Execute_run_spec(1)[OF run] run by (auto simp: run_spec_def)
qed


text \<open>A request that is sent again and again: the worlds and the answers, when nothing is cancelled.\<close>

definition request_of :: "'w HttpClient \<Rightarrow> HttpClientDetails \<Rightarrow> string \<Rightarrow> string \<Rightarrow> string option \<Rightarrow> Request" where
  "request_of jc details meth url content =
     \<lparr>req_Method = meth, req_URL = url,
      req_Header = copyHeaders details (addUserAgentHeader (userAgent jc) (setAuthentication details Map.empty)),
      req_Body = (case content of None \<Rightarrow> [] | Some c \<Rightarrow> c)\<rparr>"

definition world_sent :: "'w HttpClient \<Rightarrow> bool \<Rightarrow> Request \<Rightarrow> 'w \<Rightarrow> nat \<Rightarrow> 'w" where
  "world_sent jc blocked req w i = ((\<lambda>w. snd (http_do jc blocked req w)) ^^ i) w"

definition answer :: "'w HttpClient \<Rightarrow> bool \<Rightarrow> Request \<Rightarrow> 'w \<Rightarrow> nat \<Rightarrow> do_result" where
  "answer jc blocked req w i = fst (http_do jc blocked req (world_sent jc blocked req w i))"

fun served :: "do_result \<Rightarrow> bool" where
  "served (Answered resp) \<longleftrightarrow> StatusCode resp < 500"
| "served (Failed e resp redirectUrl) \<longleftrightarrow> False"

lemma world_sent_Suc: "world_sent jc blocked req w (Suc i) = snd (http_do jc blocked req (world_sent jc blocked req w i))"
  by (simp add: world_sent_def)

fun reply_of :: "bool \<Rightarrow> do_result \<Rightarrow> Response option \<times> string \<times> string" where
  "reply_of closeBody (Answered resp) = (Some resp, if closeBody then fst (Body resp) else [], [])"
| "reply_of closeBody (Failed e resp redirectUrl) = (resp, [], redirectUrl)"

fun retry_of :: "do_result \<Rightarrow> bool \<times> exec_error option" where
  "retry_of (Answered resp) = (500 \<le> StatusCode resp, None)"
| "retry_of (Failed e resp redirectUrl) = (True, Some (HandlerError e))"

lemma retry_of_served: "fst (retry_of a) \<longleftrightarrow> \<not> served a" "served a \<Longrightarrow> snd (retry_of a) = None"
  by (cases a; auto)+

lemma send_handler_step:
  assumes "meth \<noteq> ''POST''" "NewRequest_error jc meth url = None"
  shows "send_handler jc post' meth url content True closeBody details pre (Some (r, b, u, w)) =
    (let (a, w') = http_do jc False (request_of jc details meth url content) w;
         (resp, body, redirectUrl) = reply_of closeBody a
     in (retry_of a, Some (resp, body, redirectUrl, w')))"
  using assms
  by (auto simp: send_handler_def createReq_def doRequest_def request_of_def retry_on_server_error_def Let_def
      split: prod.split do_result.split)

lemma send_executor_simps [simp]: "MaxRetries (send_executor jc meth url pre) = hc_retries jc"
  by (simp add: send_executor_def)

text \<open>The state of the handler after \<open>k\<close> attempts.\<close>

definition sent_state :: "'w HttpClient \<Rightarrow> bool \<Rightarrow> Request \<Rightarrow> 'w \<Rightarrow> nat \<Rightarrow> Response option \<times> string \<times> string \<times> 'w" where
  "sent_state jc closeBody req w k =
     (let (resp, body, redirectUrl) = (if k = 0 then (None, [], []) else reply_of closeBody (answer jc False req w (k - 1)))
      in (resp, body, redirectUrl, world_sent jc False req w k))"

lemma send_handler_outcomes:
  assumes "meth \<noteq> ''POST''" "NewRequest_error jc meth url = None"
  shows "world_after (send_handler jc post' meth url content True closeBody details pre) (Some (None, [], [], w)) k =
      Some (sent_state jc closeBody (request_of jc details meth url content) w k)"
    "outcome (send_handler jc post' meth url content True closeBody details pre) (Some (None, [], [], w)) k =
      retry_of (answer jc False (request_of jc details meth url content) w k)"
proof -
  let ?h = "send_handler jc post' meth url content True closeBody details pre" and ?req = "request_of jc details meth url content"
  have step: "?h (Some (sent_state jc closeBody ?req w k)) =
      (retry_of (answer jc False ?req w k), Some (sent_state jc closeBody ?req w (Suc k)))" for k
    by (simp add: sent_state_def send_handler_step[OF assms] answer_def world_sent_Suc split: prod.split)
  have world: "world_after ?h (Some (None, [], [], w)) k = Some (sent_state jc closeBody ?req w k)" for k
    by (induction k) (simp_all add: world_after_def step, simp add: sent_state_def world_sent_def)
  show "world_after ?h (Some (None, [], [], w)) k = Some (sent_state jc closeBody ?req w k)" by (rule world)
  show "outcome ?h (Some (None, [], [], w)) k = retry_of (answer jc False ?req w k)" by (simp add: outcome_def world step)
qed

lemma Send_first:
  fixes content :: "string option" and details :: HttpClientDetails
  assumes "ctx jc = None" "meth \<noteq> ''POST''" "NewRequest_error jc meth url = None" "0 \<le> hc_retries jc"
  defines "req \<equiv> request_of jc details meth url content"
  shows "case List.find (\<lambda>i. served (answer jc False req w i)) [0..<Suc (nat (hc_retries jc))] of
      Some k \<Rightarrow> (\<exists>resp. answer jc False req w k = Answered resp \<and>
        Send (Suc n) jc meth url content True closeBody details pre w =
          Some ((Some resp, if closeBody then fst (Body resp) else [], [], None), world_sent jc False req w (Suc k)))
    | None \<Rightarrow> (\<exists>resp body redirectUrl err. Send (Suc n) jc meth url content True closeBody details pre w =
        Some ((resp, body, redirectUrl, Some err), world_sent jc False req w (Suc (nat (hc_retries jc)))))"
proof (cases "List.find (\<lambda>i. served (answer jc False req w i)) [0..<Suc (nat (hc_retries jc))]")
  case None
  let ?h = "send_handler jc (\<lambda>redirectUrl w.
            case Send n jc ''POST'' redirectUrl content True True details [] w of
              None \<Rightarrow> None
            | Some ((resp, body, _, err), w) \<Rightarrow> Some ((resp, body, err), w)) meth url content True closeBody details pre"
  let ?r = "send_executor jc meth url pre"
  note h = send_handler_outcomes[OF assms(2,3), where details = details and content = content, folded req_def]
  have "\<forall>i\<le>nat (MaxRetries ?r). fst (outcome ?h (Some (None, [], [], w)) i)"
    using None by (auto simp: h retry_of_served find_None_iff simp del: upt_Suc)
  moreover have "MaxRetries ?r \<ge> 0" using assms(4) by simp
  ultimately obtain tr where "Execute ?r None ?h (Some (None, [], [], w)) =
      (timeout_error ?r (snd (outcome ?h (Some (None, [], [], w)) (nat (MaxRetries ?r)))),
       world_after ?h (Some (None, [], [], w)) (Suc (nat (MaxRetries ?r))), tr)"
    using Execute_all[of ?r ?h "Some (None, [], [], w)"] by metis
  moreover obtain err where "timeout_error ?r (snd (outcome ?h (Some (None, [], [], w)) (nat (MaxRetries ?r)))) = Some err"
    by (cases "snd (outcome ?h (Some (None, [], [], w)) (nat (MaxRetries ?r)))") (auto simp: timeout_error_def)
  moreover have "nat (MaxRetries ?r) = nat (hc_retries jc)" by simp
  moreover obtain resp body redirectUrl where
      "reply_of closeBody (answer jc False req w (nat (hc_retries jc))) = (resp, body, redirectUrl)" by (metis surj_pair)
  ultimately show ?thesis
    using None assms(1) by (simp add: send_ctx_def h sent_state_def del: upt_Suc)
next
  case (Some k)
  have k: "k \<le> nat (hc_retries jc)" "served (answer jc False req w k)" "\<forall>i<k. \<not> served (answer jc False req w i)"
    using Some by (auto simp: find_Some_iff simp del: upt_Suc)
  then obtain resp where resp: "answer jc False req w k = Answered resp" by (cases "answer jc False req w k") auto
  let ?h = "send_handler jc (\<lambda>redirectUrl w.
            case Send n jc ''POST'' redirectUrl content True True details [] w of
              None \<Rightarrow> None
            | Some ((resp, body, _, err), w) \<Rightarrow> Some ((resp, body, err), w)) meth url content True closeBody details pre"
  note h = send_handler_outcomes[OF assms(2,3), where details = details and content = content, folded req_def]
  obtain tr where run: "Execute (send_executor jc meth url pre) None ?h (Some (None, [], [], w)) =
      (snd (outcome ?h (Some (None, [], [], w)) k), world_after ?h (Some (None, [], [], w)) (Suc k), tr)"
  proof -
    have "\<forall>i<k. fst (outcome ?h (Some (None, [], [], w)) i)" "\<not> fst (outcome ?h (Some (None, [], [], w)) k)"
      using k by (simp_all add: h retry_of_served)
    moreover have "int k \<le> MaxRetries (send_executor jc meth url pre)" using k(1) assms(4) by simp
    ultimately show ?thesis using Execute_first[of k ?h "Some (None, [], [], w)"] that by metis
  qed
  show ?thesis
    using run Some resp k(2) assms(1) by (simp add: send_ctx_def h sent_state_def retry_of_served del: upt_Suc)
qed


text \<open>C28: a request that is no POST, whose redirects are followed and that has no context, is sent again exactly while it fails or the
  server answers with a status of 500 or more, at most \<open>retries\<close> times: the first other answer is
  returned, without an error, and ends the sending; without one there is an error.\<close>

theorem Send_correct:
  fixes content :: "string option" and details :: HttpClientDetails
  assumes "ctx jc = None" "meth \<noteq> ''POST''" "NewRequest_error jc meth url = None" "0 \<le> hc_retries jc"
  defines "req \<equiv> request_of jc details meth url content"
  shows "case List.find (\<lambda>i. served (answer jc False req w i)) [0..<Suc (nat (hc_retries jc))] of
      Some k \<Rightarrow> (\<exists>resp. answer jc False req w k = Answered resp \<and>
        Send (Suc n) jc meth url content True closeBody details pre w =
          Some ((Some resp, if closeBody then fst (Body resp) else [], [], None), world_sent jc False req w (Suc k)))
    | None \<Rightarrow> (\<exists>resp body redirectUrl err. Send (Suc n) jc meth url content True closeBody details pre w =
        Some ((resp, body, redirectUrl, Some err), world_sent jc False req w (Suc (nat (hc_retries jc)))))"
  using Send_first[OF assms(1-4)] unfolding req_def .

definition example_response :: "int \<Rightarrow> Response" where
  "example_response status = \<lparr>StatusCode = status, Status = itoa status, ResponseHeader = (\<lambda>_. []), Body = (''ok'', None)\<rparr>"

definition no_details :: HttpClientDetails where
  "no_details = \<lparr>User = [], Password = [], ApiKey = [], AccessToken = [], Headers = None\<rparr>"

text \<open>A server that answers by the number of the requests it has seen.\<close>

definition counting_client :: "(nat \<Rightarrow> do_result) \<Rightarrow> nat HttpClient" where
  "counting_client ans = \<lparr>http_do = (\<lambda>_ _ w. (ans w, Suc w)), NewRequest_error = (\<lambda>_ _. None), userAgent = ''client'',
     ctx = None, hc_retries = 3, hc_retryWaitMilliSecs = 0\<rparr>"

lemma counting_client_simps [simp]:
  "ctx (counting_client ans) = None" "NewRequest_error (counting_client ans) meth url = None"
  "hc_retries (counting_client ans) = 3" "http_do (counting_client ans) b req w = (ans w, Suc w)"
  by (simp_all add: counting_client_def)

lemma counting_client_answer [simp]: "answer (counting_client ans) b req w i = ans (w + i)"
proof -
  have "world_sent (counting_client ans) b req w i = w + i" by (induction i) (simp_all add: world_sent_def)
  then show ?thesis by (simp add: answer_def)
qed

theorem Send_correct_witness:
  "\<exists>w. Send 1 (counting_client (\<lambda>w. Answered (example_response (if w = 0 then 503 else 404)))) ''GET'' ''u'' None True True
      no_details [] 0 = Some ((Some (example_response 404), ''ok'', [], None), w)"
  using Send_correct[where jc = "counting_client (\<lambda>w. Answered (example_response (if w = 0 then 503 else 404)))" and meth = "''GET''"
      and url = "''u''" and details = no_details and content = None and w = 0 and n = 0 and closeBody = True and pre = "[]"]
  by (auto simp: upt_rec example_response_def split: if_splits)

text \<open>A POST whose server redirects it among the same addresses for ever never returns: every redirect is
  a new \<open>Send\<close>, and no bound is set on them.\<close>

theorem Send_redirect_cycle:
  assumes "url \<in> urls" "0 \<le> hc_retries jc" "\<forall>u\<in>urls. NewRequest_error jc ''POST'' u = None"
    "\<forall>req w. req_Method req = ''POST'' \<and> req_URL req \<in> urls \<longrightarrow>
      (\<exists>e resp u w'. http_do jc True req w = (Failed e resp u, w') \<and> u \<in> urls \<and> u \<noteq> [])"
  shows "Send n jc ''POST'' url content True closeBody details pre w = None"
  using assms(1)
proof (induction n arbitrary: url closeBody pre w)
  case (Suc n)
  let ?p = "\<lambda>redirectUrl w. case Send n jc ''POST'' redirectUrl content True True details [] w of
      None \<Rightarrow> None | Some ((resp, body, _, err), w) \<Rightarrow> Some ((resp, body, err), w)"
  let ?h = "send_handler jc ?p ''POST'' url content True closeBody details pre" and ?s = "Some (None, [], [], w)"
  obtain e resp u w' where "http_do jc True (request_of jc details ''POST'' url content) w = (Failed e resp u, w')" "u \<in> urls" "u \<noteq> []"
    using assms(4)[rule_format, of "request_of jc details ''POST'' url content" w] Suc.prems by (auto simp: request_of_def)
  then have "?h ?s = ((False, None), None)"
    using Suc assms(3) by (simp add: send_handler_def createReq_def doRequest_def request_of_def)
  then have "Execute (send_executor jc ''POST'' url pre) (send_ctx jc) ?h ?s = (None, None, [Attempt])"
    using assms(2) by (simp add: Execute_def retry_loop.simps)
  then show ?case by simp
qed simp

theorem Send_redirect_cycle_witness:
  "Send 7 (counting_client (\<lambda>w. Failed ''redirect'' None (if even w then ''b'' else ''a''))) ''POST'' ''a'' None True True no_details [] 0 = None"
  by (rule Send_redirect_cycle[where urls = "{''a'', ''b''}"]) auto

text \<open>An answer that uploading accepts.\<close>

fun stored :: "do_result \<Rightarrow> bool" where
  "stored (Answered resp) \<longleftrightarrow> StatusCode resp \<in> {200, 201, 202} \<and> snd (Body resp) = None"
| "stored (Failed e resp redirectUrl) \<longleftrightarrow> False"


definition upload_request :: "'w HttpClient \<Rightarrow> HttpClientDetails \<Rightarrow> string \<Rightarrow> string \<Rightarrow> Request" where
  "upload_request jc details url content =
     \<lparr>req_Method = ''PUT'', req_URL = url,
      req_Header = addUserAgentHeader (userAgent jc) (setAuthentication details (setRequestHeaders details (int (length content)) Map.empty)),
      req_Body = content\<rparr>"

definition local_content :: "(string \<Rightarrow> string + string) \<Rightarrow> string \<Rightarrow> string + string" where
  "local_content read_file localPath = (if localPath = [] then Inr [] else read_file localPath)"

lemma doUploadFile_content:
  "local_content read_file localPath = Inr content \<Longrightarrow>
    doUploadFile indent read_file jc localPath url details w = UploadFileFromReader indent jc content url details (int (length content)) w"
  by (auto simp: doUploadFile_def local_content_def split: if_splits)

lemma upload_step:
  assumes "NewRequest_error jc ''PUT'' url = None" "local_content read_file localPath = Inr content"
    "http_do jc False (upload_request jc details url content) w = (a, w')"
  shows "\<exists>resp body err. upload_handler indent read_file jc localPath url pre details (r, b, w) = ((\<not> stored a, err), (resp, body, w')) \<and>
    (stored a \<longrightarrow> err = None \<and> (\<exists>r. a = Answered r \<and> resp = Some r \<and> body = fst (Body r))) \<and>
    (\<not> stored a \<longrightarrow> err \<noteq> None)"
  using assms
  by (cases a) (auto simp: upload_handler_def doUploadFile_content UploadFileFromReader_def upload_request_def Let_def
      retry_on_server_error_def CheckResponseStatusWithBody_def)

text \<open>Uploading sends the file again after every answer that is not 200, 201 or 202, also when its status
  is below 500 and the comment says that it is not retried, up to \<open>retries\<close> times: the first accepted
  answer is returned without an error, and without one there is an error.\<close>

theorem UploadFile_correct:
  fixes content :: string and details :: HttpClientDetails
  assumes "NewRequest_error jc ''PUT'' url = None" "local_content read_file localPath = Inr content" "0 \<le> hc_retries jc"
  defines "req \<equiv> upload_request jc details url content"
  shows "case List.find (\<lambda>i. stored (answer jc False req w i)) [0..<Suc (nat (hc_retries jc))] of
      Some k \<Rightarrow> (\<exists>resp. answer jc False req w k = Answered resp \<and>
        UploadFile indent read_file jc localPath url pre details w =
          ((Some resp, fst (Body resp), None), world_sent jc False req w (Suc k)))
    | None \<Rightarrow> (\<exists>resp body err. UploadFile indent read_file jc localPath url pre details w =
        ((resp, body, Some err), world_sent jc False req w (Suc (nat (hc_retries jc)))))"
proof -
  let ?h = "upload_handler indent read_file jc localPath url pre details" and ?s = "(None, [], w)"
  define runner where "runner = \<lparr>MaxRetries = hc_retries jc, RetriesIntervalMilliSecs = hc_retryWaitMilliSecs jc,
    ErrorMessage = ''Failure occurred while uploading to '' @ url, LogMsgPrefix = pre\<rparr>"
  have step: "\<exists>resp body err. ?h (r, b, world_sent jc False req w i) =
      ((\<not> stored (answer jc False req w i), err), (resp, body, world_sent jc False req w (Suc i))) \<and>
    (stored (answer jc False req w i) \<longrightarrow> err = None \<and>
      (\<exists>r. answer jc False req w i = Answered r \<and> resp = Some r \<and> body = fst (Body r))) \<and>
    (\<not> stored (answer jc False req w i) \<longrightarrow> err \<noteq> None)" for r b i
    unfolding answer_def world_sent_Suc req_def by (intro upload_step[OF assms(1,2)]) simp
  have world: "\<exists>r b. world_after ?h ?s i = (r, b, world_sent jc False req w i)" for i
  proof (induction i)
    case (Suc i)
    then obtain r b where "world_after ?h ?s i = (r, b, world_sent jc False req w i)" by blast
    then show ?case using step[of r b i] by (auto simp: world_after_def)
  qed (simp add: world_after_def world_sent_def)
  have after: "\<exists>resp body err. outcome ?h ?s i = (\<not> stored (answer jc False req w i), err) \<and>
      world_after ?h ?s (Suc i) = (resp, body, world_sent jc False req w (Suc i)) \<and>
      (stored (answer jc False req w i) \<longrightarrow> err = None \<and>
        (\<exists>r. answer jc False req w i = Answered r \<and> resp = Some r \<and> body = fst (Body r))) \<and>
      (\<not> stored (answer jc False req w i) \<longrightarrow> err \<noteq> None)" for i
  proof -
    obtain r b where "world_after ?h ?s i = (r, b, world_sent jc False req w i)" using world by blast
    moreover have "world_after ?h ?s (Suc i) = snd (?h (world_after ?h ?s i))" by (simp add: world_after_def)
    ultimately show ?thesis using step[of r b i] by (auto simp: outcome_def)
  qed
  then have again: "fst (outcome ?h ?s i) \<longleftrightarrow> \<not> stored (answer jc False req w i)" for i by (metis fst_conv)
  have runs: "UploadFile indent read_file jc localPath url pre details w =
      (let (err, (resp, body, w), _) = Execute runner None ?h ?s in ((resp, body, err), w))"
    by (simp add: UploadFile_def runner_def)
  have max: "MaxRetries runner = hc_retries jc" by (simp add: runner_def)
  show ?thesis
  proof (cases "List.find (\<lambda>i. stored (answer jc False req w i)) [0..<Suc (nat (hc_retries jc))]")
    case None
    let ?n = "nat (hc_retries jc)"
    have "\<forall>i\<le>nat (MaxRetries runner). fst (outcome ?h ?s i)"
      using None by (auto simp: again max find_None_iff simp del: upt_Suc)
    then obtain tr where "Execute runner None ?h ?s = (timeout_error runner (snd (outcome ?h ?s ?n)), world_after ?h ?s (Suc ?n), tr)"
      using Execute_all[of runner ?h ?s] assms(3) max by metis
    moreover obtain err where "timeout_error runner (snd (outcome ?h ?s ?n)) = Some err"
      by (cases "snd (outcome ?h ?s ?n)") (auto simp: timeout_error_def)
    ultimately show ?thesis using None after[of ?n] by (auto simp: runs simp del: upt_Suc)
  next
    case (Some k)
    then have k: "int k \<le> MaxRetries runner" "\<forall>i<k. fst (outcome ?h ?s i)" "\<not> fst (outcome ?h ?s k)"
      using assms(3) by (auto simp: again max find_Some_iff simp del: upt_Suc)
    obtain tr where "Execute runner None ?h ?s = (snd (outcome ?h ?s k), world_after ?h ?s (Suc k), tr)"
      using Execute_first[OF k(2,3,1)] by metis
    then show ?thesis using Some k(3) after[of k] by (auto simp: runs again simp del: upt_Suc)
  qed
qed

theorem UploadFile_correct_witness:
  "\<exists>w. UploadFile (\<lambda>_. None) (\<lambda>_. Inr ''data'') (counting_client (\<lambda>w. Answered (example_response (if w = 0 then 403 else 201))))
      ''f'' ''u'' [] no_details 0 = ((Some (example_response 201), ''ok'', None), w)"
  using UploadFile_correct[where jc = "counting_client (\<lambda>w. Answered (example_response (if w = 0 then 403 else 201)))" and localPath = "''f''"
      and url = "''u''" and details = no_details and content = "''data''" and w = 0 and pre = "[]" and read_file = "\<lambda>_. Inr ''data''"
      and indent = "\<lambda>_. None"]
  by (auto simp: upt_rec example_response_def local_content_def split: if_splits)

end
