(* ===== verification/Download.thy ===== *)
theory Download
  imports Http Delete "HOL-Library.AList"
begin

text \<open>
  Downloading: the download functions of \<^verbatim>\<open>http/httpclient/client.go\<close> (a whole file, and a file in chunks
  that are requested concurrently and merged), and the service on top of them,
  \<^verbatim>\<open>artifactory/services/download.go\<close>.

  The files of the local system are a map from cleaned paths to contents. \<open>create_error\<close> tells that a
  file, or the directory for it, cannot be created; reading back a file that was written does not fail,
  nor do temporary files. \<open>sha1_hex\<close> is the hash function in hexadecimal, \<open>ExtractArchive\<close> unpacks an archive.
\<close>

section \<open>A whole file\<close>

type_synonym fs = "string \<rightharpoonup> string"

record file_env =
  create_error :: "string \<Rightarrow> string option"
  sha1_hex :: "string \<Rightarrow> string"
  md5_hex :: "string \<Rightarrow> string"
  ExtractArchive :: "string \<Rightarrow> string \<Rightarrow> string \<Rightarrow> bool \<Rightarrow> fs \<Rightarrow> string option \<times> fs"

record DownloadFileDetails =
  FileName :: string
  DownloadPath :: string
  RelativePath :: string
  LocalPath :: string
  LocalFileName :: string
  ExpectedSha1 :: string
  dfd_Size :: int
  SkipChecksum :: bool

definition CreateFilePath :: "string \<Rightarrow> string \<Rightarrow> string" where
  "CreateFilePath localPath fileName = (if localPath \<noteq> [] then path_join [localPath, fileName] else fileName)"

definition checksum_mismatch :: "file_env \<Rightarrow> string \<Rightarrow> string \<Rightarrow> string \<Rightarrow> string" where
  "checksum_mismatch env fileName expected bytes =
     ''Checksum mismatch for '' @ fileName @ '', expected: '' @ expected @ '', actual: '' @ sha1_hex env bytes"

definition saveToFile :: "file_env \<Rightarrow> DownloadFileDetails \<Rightarrow> Response \<Rightarrow> fs \<Rightarrow> string option \<times> fs" where
  "saveToFile env details resp fs =
     (let fileName = CreateFilePath (LocalPath details) (LocalFileName details)
      in case create_error env fileName of
           Some e \<Rightarrow> (Some e, fs)
         | None \<Rightarrow>
             let (bytes, read_err) = Body resp; fs = fs(fileName \<mapsto> bytes)
             in case read_err of
                  Some e \<Rightarrow> (Some e, fs)
                | None \<Rightarrow>
                    if ExpectedSha1 details \<noteq> [] \<and> \<not> SkipChecksum details \<and> sha1_hex env bytes \<noteq> ExpectedSha1 details
                    then (Some (checksum_mismatch env fileName (ExpectedSha1 details) bytes), fs)
                    else (None, fs))"

text \<open>What the code of a call assigns: the response, the redirect address and the error. A response that
  is not an error is never nil (\<open>Send\<close> reports a nil response as an error).\<close>

definition doDownloadFile :: "nat \<Rightarrow> 'w HttpClient \<Rightarrow> file_env \<Rightarrow> DownloadFileDetails \<Rightarrow> bool \<Rightarrow> HttpClientDetails \<Rightarrow> bool \<Rightarrow> bool \<Rightarrow>
    'w \<times> fs \<Rightarrow> ((Response option \<times> string \<times> exec_error option) \<times> 'w \<times> fs) option" where
  "doDownloadFile n jc env details followRedirect httpClientsDetails isExplode bypassArchiveInspection s =
     (case sendGetForFileDownload n jc (DownloadPath details) followRedirect httpClientsDetails [] (fst s) of
        None \<Rightarrow> None
      | Some ((resp, redirectUrl, err), w) \<Rightarrow>
          Some (case (err, resp) of
                  (None, Some r) \<Rightarrow>
                    if StatusCode r \<noteq> 200 then ((resp, redirectUrl, None), w, snd s)
                    else (case saveToFile env details r (snd s) of
                            (Some e, fs) \<Rightarrow> ((resp, redirectUrl, Some (HandlerError e)), w, fs)
                          | (None, fs) \<Rightarrow>
                              if isExplode
                              then let (e, fs) = ExtractArchive env (LocalPath details) (LocalFileName details) (FileName details)
                                                   bypassArchiveInspection fs
                                   in ((resp, redirectUrl, map_option HandlerError e), w, fs)
                              else ((resp, redirectUrl, None), w, fs))
                | _ \<Rightarrow> ((resp, redirectUrl, err), w, snd s)))"

type_synonym 'w downloading = "(Response option \<times> string \<times> 'w \<times> fs) option"

definition download_handler :: "nat \<Rightarrow> 'w HttpClient \<Rightarrow> file_env \<Rightarrow> DownloadFileDetails \<Rightarrow> string \<Rightarrow> bool \<Rightarrow> HttpClientDetails \<Rightarrow>
    bool \<Rightarrow> bool \<Rightarrow> 'w downloading handler" where
  "download_handler n jc env details logMsgPrefix followRedirect httpClientsDetails isExplode bypassArchiveInspection s =
     (case s of
        None \<Rightarrow> ((False, None), None)
      | Some (_, _, ws) \<Rightarrow>
          case doDownloadFile n jc env details followRedirect httpClientsDetails isExplode bypassArchiveInspection ws of
            None \<Rightarrow> ((False, None), None)
          | Some ((resp, redirectUrl, err), ws) \<Rightarrow>
              (if err \<noteq> None \<and> \<not> followRedirect \<and> redirectUrl \<noteq> [] then (False, err)
               else if err \<noteq> None then (True, err)
               else retry_on_server_error resp (logMsgPrefix @ ''Received empty response from file download''),
               Some (resp, redirectUrl, ws)))"

definition downloadFile :: "nat \<Rightarrow> 'w HttpClient \<Rightarrow> file_env \<Rightarrow> DownloadFileDetails \<Rightarrow> string \<Rightarrow> bool \<Rightarrow> HttpClientDetails \<Rightarrow>
    bool \<Rightarrow> bool \<Rightarrow> 'w \<times> fs \<Rightarrow> ((Response option \<times> string \<times> exec_error option) \<times> 'w \<times> fs) option" where
  "downloadFile n jc env details logMsgPrefix followRedirect httpClientsDetails isExplode bypassArchiveInspection ws =
     (let (err, s, _) = Execute \<lparr>MaxRetries = hc_retries jc, RetriesIntervalMilliSecs = hc_retryWaitMilliSecs jc,
            ErrorMessage = ''Failure occurred while downloading '' @ DownloadPath details, LogMsgPrefix = logMsgPrefix\<rparr> None
            (download_handler n jc env details logMsgPrefix followRedirect httpClientsDetails isExplode bypassArchiveInspection)
            (Some (None, [], ws))
      in case s of None \<Rightarrow> None | Some (resp, redirectUrl, ws) \<Rightarrow> Some ((resp, redirectUrl, err), ws))"

definition DownloadFileWithProgress :: "nat \<Rightarrow> 'w HttpClient \<Rightarrow> file_env \<Rightarrow> DownloadFileDetails \<Rightarrow> string \<Rightarrow> HttpClientDetails \<Rightarrow>
    bool \<Rightarrow> bool \<Rightarrow> 'w \<times> fs \<Rightarrow> ((Response option \<times> exec_error option) \<times> 'w \<times> fs) option" where
  "DownloadFileWithProgress n jc env details logMsgPrefix httpClientsDetails isExplode isBypassArchiveInspection ws =
     map_option (\<lambda>((resp, _, err), ws). ((resp, err), ws))
       (downloadFile n jc env details logMsgPrefix True httpClientsDetails isExplode isBypassArchiveInspection ws)"

section \<open>A file in chunks\<close>

record ConcurrentDownloadFlags =
  cf_FileName :: string
  cf_DownloadPath :: string
  cf_RelativePath :: string
  cf_LocalFileName :: string
  cf_LocalPath :: string
  cf_ExpectedSha1 :: string
  FileSize :: int
  SplitCount :: int
  Explode :: bool
  BypassArchiveInspection :: bool
  cf_SkipChecksum :: bool

text \<open>The remainder of Go has the sign of the dividend.\<close>

definition go_mod :: "int \<Rightarrow> int \<Rightarrow> int" where
  "go_mod a b = a - b * go_div a b"

definition chunk_bounds :: "int \<Rightarrow> int \<Rightarrow> int \<Rightarrow> int \<times> int" where
  "chunk_bounds fileSize splitCount i =
     (let chunkSize = go_div fileSize splitCount;
          md = go_mod fileSize splitCount;
          start = chunkSize * i;
          end' = chunkSize * (i + 1)
      in (start, if i = splitCount - 1 then end' + md else end'))"

definition range_header :: "int \<Rightarrow> int \<Rightarrow> string" where
  "range_header start end' = ''bytes='' @ itoa start @ ''-'' @ itoa (end' - 1)"

definition with_range :: "HttpClientDetails \<Rightarrow> int \<Rightarrow> int \<Rightarrow> HttpClientDetails" where
  "with_range details start end' =
     details\<lparr>Headers := Some (AList.update ''Range'' (range_header start end') (case Headers details of None \<Rightarrow> [] | Some h \<Rightarrow> h))\<rparr>"

text \<open>The content of the temporary file with the chunk, when its name is returned, the response and the error.\<close>

definition doDownloadFileRange :: "nat \<Rightarrow> 'w HttpClient \<Rightarrow> ConcurrentDownloadFlags \<Rightarrow> int \<Rightarrow> int \<Rightarrow> HttpClientDetails \<Rightarrow> 'w \<Rightarrow>
    ((string option \<times> Response option \<times> exec_error option) \<times> 'w) option" where
  "doDownloadFileRange n jc flags start end' httpClientsDetails w =
     (case sendGetForFileDownload n jc (cf_DownloadPath flags) True (with_range httpClientsDetails start end') [] w of
        None \<Rightarrow> None
      | Some ((resp, _, err), w) \<Rightarrow>
          Some (case (err, resp) of
                  (None, Some r) \<Rightarrow>
                    if StatusCode r \<noteq> 206 then (None, resp, None)
                    else (case Body r of
                            (bytes, None) \<Rightarrow> (Some bytes, resp, None)
                          | (_, Some e) \<Rightarrow> (None, None, Some (HandlerError e)))
                | _ \<Rightarrow> (None, None, err), w))"

definition range_handler :: "nat \<Rightarrow> 'w HttpClient \<Rightarrow> ConcurrentDownloadFlags \<Rightarrow> int \<Rightarrow> int \<Rightarrow> int \<Rightarrow> string \<Rightarrow> HttpClientDetails \<Rightarrow>
    (string option \<times> Response option \<times> 'w) option handler" where
  "range_handler n jc flags start end' currentSplit logMsgPrefix httpClientsDetails s =
     (case s of
        None \<Rightarrow> ((False, None), None)
      | Some (_, _, w) \<Rightarrow>
          case doDownloadFileRange n jc flags start end' httpClientsDetails w of
            None \<Rightarrow> ((False, None), None)
          | Some ((fileName, resp, err), w) \<Rightarrow>
              (if err \<noteq> None then (True, err)
               else retry_on_server_error resp (logMsgPrefix @ ''['' @ itoa currentSplit @ '']: Received empty response from file download''),
               Some (fileName, resp, w)))"

definition downloadFileRange :: "nat \<Rightarrow> 'w HttpClient \<Rightarrow> ConcurrentDownloadFlags \<Rightarrow> int \<Rightarrow> int \<Rightarrow> int \<Rightarrow> string \<Rightarrow> HttpClientDetails \<Rightarrow>
    'w \<Rightarrow> (string option \<times> Response option \<times> exec_error option) option" where
  "downloadFileRange n jc flags start end' currentSplit logMsgPrefix httpClientsDetails w =
     (let (err, s, _) = Execute \<lparr>MaxRetries = hc_retries jc, RetriesIntervalMilliSecs = hc_retryWaitMilliSecs jc,
            ErrorMessage = ''Failure occurred while downloading part '' @ itoa currentSplit @ '' of '' @ cf_DownloadPath flags,
            LogMsgPrefix = logMsgPrefix @ ''['' @ itoa currentSplit @ '']: ''\<rparr> None
            (range_handler n jc flags start end' currentSplit logMsgPrefix httpClientsDetails) (Some (None, None, w))
      in case s of None \<Rightarrow> None | Some (fileName, resp, _) \<Rightarrow> Some (fileName, resp, err))"


text \<open>The go routines run concurrently. The routine of chunk \<open>i\<close> meets the world \<open>view i\<close>, in which the
  requests of the other routines appear as changes of the world between its own requests; \<open>started\<close> is
  the number of chunks that were started before the loop broke off. A chunk that was not started keeps
  the zero values of its slots.\<close>

fun first_error :: "exec_error option list \<Rightarrow> exec_error option" where
  "first_error [] = None"
| "first_error (None # es) = first_error es"
| "first_error (Some e # es) = Some e"

fun first_not_partial :: "Response option list \<Rightarrow> Response option result" where
  "first_not_partial [] = Inr None"
| "first_not_partial (None # rs) = Inl (Panic ''nil pointer dereference'')"
| "first_not_partial (Some r # rs) = (if StatusCode r \<noteq> 206 then Inr (Some r) else first_not_partial rs)"

type_synonym chunk = "string option \<times> Response option \<times> exec_error option"

definition no_chunk :: chunk where
  "no_chunk = (None, None, None)"

text \<open>The chunks and the response, or the error.\<close>

definition collect_chunks :: "chunk list \<Rightarrow> Response result" where
  "collect_chunks chunks =
     (case first_error (map (snd \<circ> snd) chunks) of
        Some e \<Rightarrow> Inl (Err (error_text e))
      | None \<Rightarrow> and_then (first_not_partial (map (fst \<circ> snd) chunks)) (\<lambda>bad.
          case bad of
            Some r \<Rightarrow> Inr r
          | None \<Rightarrow> (case fst (snd (last chunks)) of None \<Rightarrow> Inl (Panic ''nil pointer dereference'') | Some r \<Rightarrow> Inr r)))"

definition downloadChunksConcurrently :: "nat \<Rightarrow> 'w HttpClient \<Rightarrow> ConcurrentDownloadFlags \<Rightarrow> string \<Rightarrow> HttpClientDetails \<Rightarrow>
    (nat \<Rightarrow> 'w) \<Rightarrow> nat \<Rightarrow> (string option list \<times> Response) result option" where
  "downloadChunksConcurrently n jc flags logMsgPrefix httpClientsDetails view started =
     (if SplitCount flags = 0 then Some (Inl (Panic ''integer divide by zero''))
      else
        let results = map (\<lambda>i. let (start, end') = chunk_bounds (FileSize flags) (SplitCount flags) (int i)
                               in downloadFileRange n jc flags start end' (int i) logMsgPrefix (Clone httpClientsDetails) (view i)) [0..<started]
        in if None \<in> set results then None
           else let chunks = map the results @ replicate (nat (SplitCount flags) - started) no_chunk
                in Some (and_then (collect_chunks chunks) (\<lambda>resp. Inr (map fst chunks, resp))))"

text \<open>The loop starts a chunk only while no finished one has failed, so when it breaks off one has.\<close>

fun failed_chunk :: "chunk \<Rightarrow> bool" where
  "failed_chunk (_, resp, err) \<longleftrightarrow> err \<noteq> None \<or> (\<exists>r. resp = Some r \<and> StatusCode r \<noteq> 206)"

section \<open>Merging the chunks\<close>

text \<open>A chunk without a temporary file cannot be opened.\<close>

fun merge_contents :: "string option list \<Rightarrow> string \<Rightarrow> string option \<times> string" where
  "merge_contents [] dest = (None, dest)"
| "merge_contents (None # chunks) dest = (Some ''open : no such file or directory'', dest)"
| "merge_contents (Some c # chunks) dest = merge_contents chunks (dest @ c)"

definition mergeChunks :: "file_env \<Rightarrow> string option list \<Rightarrow> ConcurrentDownloadFlags \<Rightarrow> fs \<Rightarrow> string option \<times> fs" where
  "mergeChunks env chunksPaths flags fs =
     (case create_error env (cf_LocalFileName flags) of
        Some e \<Rightarrow> (Some e, fs)
      | None \<Rightarrow>
          let old = (case fs (cf_LocalFileName flags) of None \<Rightarrow> [] | Some c \<Rightarrow> c);
              (err, dest) = merge_contents chunksPaths [];
              fs = fs(cf_LocalFileName flags \<mapsto> old @ dest)
          in case err of
               Some e \<Rightarrow> (Some e, fs)
             | None \<Rightarrow>
                 if cf_ExpectedSha1 flags \<noteq> [] \<and> \<not> cf_SkipChecksum flags \<and> sha1_hex env dest \<noteq> cf_ExpectedSha1 flags
                 then (Some (checksum_mismatch env ('' '' @ cf_LocalFileName flags) (cf_ExpectedSha1 flags) dest), fs)
                 else (None, fs))"

definition DownloadFileConcurrently :: "nat \<Rightarrow> 'w HttpClient \<Rightarrow> file_env \<Rightarrow> ConcurrentDownloadFlags \<Rightarrow> string \<Rightarrow> HttpClientDetails \<Rightarrow>
    (nat \<Rightarrow> 'w) \<Rightarrow> nat \<Rightarrow> fs \<Rightarrow> (Response result \<times> fs) option" where
  "DownloadFileConcurrently n jc env flags logMsgPrefix httpClientsDetails view started fs =
     (if SplitCount flags < 0 then Some (Inl (Panic ''makeslice: len out of range''), fs)
      else
        case downloadChunksConcurrently n jc flags logMsgPrefix httpClientsDetails view started of
          None \<Rightarrow> None
        | Some (Inl e) \<Rightarrow> Some (Inl e, fs)
        | Some (Inr (chunksPaths, resp)) \<Rightarrow>
            if StatusCode resp \<noteq> 206 then Some (Inr resp, fs)
            else
              let flags = (if cf_LocalPath flags \<noteq> [] then flags\<lparr>cf_LocalFileName := path_join [cf_LocalPath flags, cf_LocalFileName flags]\<rparr> else flags);
                  fs = fs(cf_LocalFileName flags := None)
              in case mergeChunks env chunksPaths flags fs of
                   (Some e, fs) \<Rightarrow> Some (Inl (Err e), fs)
                 | (None, fs) \<Rightarrow>
                     if Explode flags
                     then (case ExtractArchive env (cf_LocalPath flags) (cf_LocalFileName flags) (cf_FileName flags) (BypassArchiveInspection flags) fs of
                             (Some e, fs) \<Rightarrow> Some (Inl (Err e), fs)
                           | (None, fs) \<Rightarrow> Some (Inr resp, fs))
                     else Some (Inr resp, fs))"

section \<open>The chunks are the file\<close>

lemma chunk_bounds_in_range:
  assumes "0 \<le> fileSize" "0 < splitCount" "0 \<le> i" "i < splitCount"
  shows "chunk_bounds fileSize splitCount i = (fileSize div splitCount * i, if i = splitCount - 1 then fileSize else fileSize div splitCount * (i + 1))"
proof -
  have "go_div fileSize splitCount = fileSize div splitCount" using assms by (cases "fileSize = 0") (auto simp: go_div_def)
  moreover have "fileSize div splitCount * splitCount + (fileSize - splitCount * (fileSize div splitCount)) = fileSize"
    by (simp add: mult.commute)
  ultimately show ?thesis by (auto simp: chunk_bounds_def go_mod_def Let_def)
qed

lemma chunks_concat:
  fixes content :: string
  assumes "0 < k"
  shows "concat (map (\<lambda>i. if i = k - 1 then drop (i * c) content else take c (drop (i * c) content)) [0..<k]) = content"
proof -
  have "m \<le> k \<Longrightarrow> concat (map (\<lambda>i. take c (drop (i * c) content)) [0..<m]) = take (m * c) content" for m
  proof (induction m)
    case (Suc m)
    have "take (m * c) content @ take c (drop (m * c) content) = take (m * c + c) content" by (simp only: take_add)
    then show ?case using Suc by (simp add: add.commute)
  qed simp
  then have whole: "concat (map (\<lambda>i. take c (drop (i * c) content)) [0..<k - 1]) = take ((k - 1) * c) content" by simp
  let ?f = "\<lambda>i. if i = k - 1 then drop (i * c) content else take c (drop (i * c) content)"
  have "[0..<k] = [0..<k - 1] @ [k - 1]" using assms by (metis Suc_diff_1 upt_Suc_append le0)
  then have "concat (map ?f [0..<k]) = concat (map ?f [0..<k - 1]) @ drop ((k - 1) * c) content" by (simp del: One_nat_def)
  also have "map ?f [0..<k - 1] = map (\<lambda>i. take c (drop (i * c) content)) [0..<k - 1]" by (rule map_cong) auto
  finally show ?thesis unfolding whole by simp
qed

lemma collect_chunks_partial:
  assumes "list_all (\<lambda>(c, resp, err). err = None \<and> (\<exists>r. resp = Some r \<and> StatusCode r = 206)) chunks" "chunks \<noteq> []"
  shows "\<exists>r. collect_chunks chunks = Inr r \<and> fst (snd (last chunks)) = Some r \<and> StatusCode r = 206"
proof -
  have "first_error (map (snd \<circ> snd) chunks) = None" using assms(1) by (induction chunks) auto
  moreover have "first_not_partial (map (fst \<circ> snd) chunks) = Inr None" using assms(1) by (induction chunks) auto
  moreover obtain r where "fst (snd (last chunks)) = Some r" "StatusCode r = 206"
    using assms(1) last_in_set[OF assms(2)] unfolding list_all_iff by (cases "last chunks") fastforce
  ultimately show ?thesis by (simp add: collect_chunks_def)
qed

lemma merge_contents_all: "merge_contents (map Some cs) dest = (None, dest @ concat cs)"
  by (induction cs arbitrary: dest) simp_all


text \<open>The request of a chunk is answered within the retries with its bytes, after failures or answers with a status of 500
  or more only.\<close>

definition range_request :: "'w HttpClient \<Rightarrow> ConcurrentDownloadFlags \<Rightarrow> HttpClientDetails \<Rightarrow> int \<Rightarrow> int \<Rightarrow> Request" where
  "range_request jc flags details start end' = request_of jc (with_range (Clone details) start end') ''GET'' (cf_DownloadPath flags) None"

definition chunk_served :: "'w HttpClient \<Rightarrow> ConcurrentDownloadFlags \<Rightarrow> HttpClientDetails \<Rightarrow> string \<Rightarrow> int \<Rightarrow> int \<Rightarrow> 'w \<Rightarrow> bool" where
  "chunk_served jc flags details content start end' w \<longleftrightarrow>
     (\<exists>k resp. k \<le> nat (hc_retries jc) \<and>
       (\<forall>j<k. \<not> served (answer jc False (range_request jc flags details start end') w j)) \<and>
       answer jc False (range_request jc flags details start end') w k = Answered resp \<and> StatusCode resp = 206 \<and>
       Body resp = (take (nat end' - nat start) (drop (nat start) content), None))"

lemma find_upt_first:
  assumes "k < n" "P k" "\<forall>j<k. \<not> P j"
  shows "List.find P [0..<n] = Some k"
  using assms by (auto simp: find_Some_iff)

lemma downloadFileRange_served:
  assumes "ctx jc = None" "NewRequest_error jc ''GET'' (cf_DownloadPath flags) = None" "0 \<le> hc_retries jc"
    "chunk_served jc flags details content start end' w"
  shows "\<exists>resp. downloadFileRange (Suc n) jc flags start end' i pre (Clone details) w =
      Some (Some (take (nat end' - nat start) (drop (nat start) content)), Some resp, None) \<and> StatusCode resp = 206"
proof -
  obtain k resp where k: "k \<le> nat (hc_retries jc)" "answer jc False (range_request jc flags details start end') w k = Answered resp"
      "\<forall>j<k. \<not> served (answer jc False (range_request jc flags details start end') w j)"
    and resp: "StatusCode resp = 206" "Body resp = (take (nat end' - nat start) (drop (nat start) content), None)"
    using assms(4) unfolding chunk_served_def by blast
  have "List.find (\<lambda>i. served (answer jc False (range_request jc flags details start end') w i)) [0..<Suc (nat (hc_retries jc))] = Some k"
    using k resp(1) by (intro find_upt_first) simp_all
  then have "Send (Suc n) jc ''GET'' (cf_DownloadPath flags) None True False (with_range (Clone details) start end') [] w =
      Some ((Some resp, [], [], None), world_sent jc False (range_request jc flags details start end') w (Suc k))"
    using Send_first[OF assms(1) _ assms(2,3), where details = "with_range (Clone details) start end'" and content = None and w = w and n = n
        and closeBody = False and pre = "[]"] k(2) unfolding range_request_def by (auto simp del: upt_Suc)
  then have "doDownloadFileRange (Suc n) jc flags start end' (Clone details) w =
      Some ((Some (take (nat end' - nat start) (drop (nat start) content)), Some resp, None),
            world_sent jc False (range_request jc flags details start end') w (Suc k))"
    by (simp add: doDownloadFileRange_def sendGetForFileDownload_def sendGetLeaveBodyOpen_def resp)
  then show ?thesis
    using assms(3) resp(1)
    by (simp add: downloadFileRange_def Execute_def retry_loop.simps range_handler_def retry_on_server_error_def)
qed


lemma content_of_chunk:
  assumes "0 < splitCount" "i < nat splitCount" "int (length content) = fileSize" "chunk_bounds fileSize splitCount (int i) = (start, end')"
  shows "take (nat end' - nat start) (drop (nat start) content) =
    (if i = nat splitCount - 1 then drop (i * nat (fileSize div splitCount)) content
     else take (nat (fileSize div splitCount)) (drop (i * nat (fileSize div splitCount)) content))"
proof -
  have i: "int i < splitCount" using assms(1,2) by linarith
  have c: "0 \<le> fileSize div splitCount" using assms(1,3) by (simp add: pos_imp_zdiv_nonneg_iff)
  have start: "nat start = i * nat (fileSize div splitCount)" and end': "end' = (if int i = splitCount - 1 then fileSize else fileSize div splitCount * (int i + 1))"
    using chunk_bounds_in_range[of fileSize splitCount "int i"] assms(1,3,4) i c by (auto simp: nat_mult_distrib)
  show ?thesis
  proof (cases "i = nat splitCount - 1")
    case True
    then have "end' = fileSize" using end' assms(1) i by auto
    then have "nat end' = length content" using assms(3) by simp
    then show ?thesis using True by (simp add: start)
  next
    case False
    then have "int i \<noteq> splitCount - 1" using assms(1) by auto
    then have "nat end' = (i + 1) * nat (fileSize div splitCount)" using end' c by (simp add: nat_mult_distrib nat_add_distrib)
    then show ?thesis using False start by simp
  qed
qed

text \<open>C34: the ranges of the chunks are consecutive, begin at 0 and end at the size of the file, so no bound
  leaves the file and none overflows; no range is empty exactly when there are at most as many chunks
  as bytes.\<close>

theorem chunk_bounds_tile:
  assumes "0 \<le> fileSize" "0 < splitCount"
  shows "fst (chunk_bounds fileSize splitCount 0) = 0 \<and> snd (chunk_bounds fileSize splitCount (splitCount - 1)) = fileSize \<and>
    (\<forall>i. 0 \<le> i \<and> i + 1 < splitCount \<longrightarrow> snd (chunk_bounds fileSize splitCount i) = fst (chunk_bounds fileSize splitCount (i + 1))) \<and>
    (\<forall>i. 0 \<le> i \<and> i < splitCount \<longrightarrow> 0 \<le> fst (chunk_bounds fileSize splitCount i) \<and>
      fst (chunk_bounds fileSize splitCount i) \<le> snd (chunk_bounds fileSize splitCount i) \<and>
      snd (chunk_bounds fileSize splitCount i) \<le> fileSize) \<and>
    ((\<forall>i. 0 \<le> i \<and> i < splitCount \<longrightarrow> fst (chunk_bounds fileSize splitCount i) < snd (chunk_bounds fileSize splitCount i)) \<longleftrightarrow>
      splitCount \<le> fileSize)"
proof -
  note b = chunk_bounds_in_range[OF assms]
  let ?c = "fileSize div splitCount"
  have c: "0 \<le> ?c" using assms by (simp add: pos_imp_zdiv_nonneg_iff)
  have le: "?c * (i + 1) \<le> fileSize" if "0 \<le> i" "i < splitCount" for i
  proof -
    have "?c * (i + 1) \<le> ?c * splitCount" using c that by (intro mult_left_mono) auto
    also have "\<dots> \<le> fileSize" using pos_mod_sign[OF assms(2), of fileSize] minus_mod_eq_div_mult[of fileSize splitCount] by linarith
    finally show ?thesis .
  qed
  have mono: "?c * i \<le> ?c * (i + 1)" for i using c by (simp add: distrib_left)
  have 1: "fst (chunk_bounds fileSize splitCount 0) = 0" using b[of 0] assms by simp
  have 2: "snd (chunk_bounds fileSize splitCount (splitCount - 1)) = fileSize" using b[of "splitCount - 1"] assms by simp
  have 3: "snd (chunk_bounds fileSize splitCount i) = fst (chunk_bounds fileSize splitCount (i + 1))" if "0 \<le> i" "i + 1 < splitCount" for i
    using b[of i] b[of "i + 1"] that by simp
  have 4: "0 \<le> fst (chunk_bounds fileSize splitCount i) \<and>
      fst (chunk_bounds fileSize splitCount i) \<le> snd (chunk_bounds fileSize splitCount i) \<and>
      snd (chunk_bounds fileSize splitCount i) \<le> fileSize" if "0 \<le> i" "i < splitCount" for i
    using b[OF that] le[OF that] mono[of i] c that by auto
  have 5: "(\<forall>i. 0 \<le> i \<and> i < splitCount \<longrightarrow> fst (chunk_bounds fileSize splitCount i) < snd (chunk_bounds fileSize splitCount i)) \<longleftrightarrow>
      splitCount \<le> fileSize"
  proof
    assume *: "\<forall>i. 0 \<le> i \<and> i < splitCount \<longrightarrow> fst (chunk_bounds fileSize splitCount i) < snd (chunk_bounds fileSize splitCount i)"
    show "splitCount \<le> fileSize"
    proof (rule ccontr)
      assume "\<not> splitCount \<le> fileSize"
      then have "?c = 0" using assms by (simp add: div_pos_pos_trivial)
      then show False using *[rule_format, of 0] b[of 0] assms \<open>\<not> splitCount \<le> fileSize\<close> 
        by (cases "splitCount = 1") auto
    qed
  next
    assume "splitCount \<le> fileSize"
    then have "0 < ?c" using assms by (simp add: pos_imp_zdiv_pos_iff)
    then have less: "?c * i < ?c * (i + 1)" for i by (simp add: distrib_left)
    show "\<forall>i. 0 \<le> i \<and> i < splitCount \<longrightarrow> fst (chunk_bounds fileSize splitCount i) < snd (chunk_bounds fileSize splitCount i)"
    proof (intro allI impI)
      fix i assume i: "0 \<le> i \<and> i < splitCount"
      have "chunk_bounds fileSize splitCount i = (?c * i, if i = splitCount - 1 then fileSize else ?c * (i + 1))" using b i by blast
      then show "fst (chunk_bounds fileSize splitCount i) < snd (chunk_bounds fileSize splitCount i)"
        using le[of i] less[of i] i by auto
    qed
  qed
  show ?thesis using 1 2 3 4 5 by blast
qed

theorem chunk_bounds_tile_witness:
  "map (chunk_bounds 10 3) [0, 1, 2] = [(0, 3), (3, 6), (6, 10)] \<and> snd (chunk_bounds 10 3 (3 - 1)) = 10"
  using chunk_bounds_tile[of 10 3] by (auto simp: chunk_bounds_def go_div_def go_mod_def)


definition local_file :: "ConcurrentDownloadFlags \<Rightarrow> string" where
  "local_file flags = CreateFilePath (cf_LocalPath flags) (cf_LocalFileName flags)"

definition checksum_ok :: "file_env \<Rightarrow> string \<Rightarrow> bool \<Rightarrow> string \<Rightarrow> bool" where
  "checksum_ok env expected skip content \<longleftrightarrow> expected = [] \<or> skip \<or> sha1_hex env content = expected"

lemma mergeChunks_all:
  assumes "create_error env (cf_LocalFileName flags) = None" "fs (cf_LocalFileName flags) = None"
    "checksum_ok env (cf_ExpectedSha1 flags) (cf_SkipChecksum flags) (concat cs)"
  shows "mergeChunks env (map Some cs) flags fs = (None, fs(cf_LocalFileName flags \<mapsto> concat cs))"
  using assms by (auto simp: mergeChunks_def merge_contents_all checksum_ok_def)

lemma downloadChunks_all:
  assumes "0 < SplitCount flags" "\<And>i. i < nat (SplitCount flags) \<Longrightarrow> case chunk_bounds (FileSize flags) (SplitCount flags) (int i) of (start, end') \<Rightarrow>
      \<exists>resp. downloadFileRange n jc flags start end' (int i) pre (Clone details) (view i) = Some (Some (cs i), Some resp, None) \<and> StatusCode resp = 206"
  shows "\<exists>resp. downloadChunksConcurrently n jc flags pre details view (nat (SplitCount flags)) =
      Some (Inr (map (\<lambda>i. Some (cs i)) [0..<nat (SplitCount flags)], resp)) \<and> StatusCode resp = 206"
proof -
  let ?n = "nat (SplitCount flags)"
  let ?run = "\<lambda>i. let (start, end') = chunk_bounds (FileSize flags) (SplitCount flags) (int i)
    in downloadFileRange n jc flags start end' (int i) pre (Clone details) (view i)"
  have "\<exists>resp. ?run i = Some (Some (cs i), Some resp, None) \<and> StatusCode resp = 206" if "i < ?n" for i
    using assms(2)[OF that] by (simp split: prod.splits)
  then obtain resp where resp: "\<And>i. i < ?n \<Longrightarrow> ?run i = Some (Some (cs i), Some (resp i), None) \<and> StatusCode (resp i) = 206" by metis
  define chunks where "chunks = map (\<lambda>i. (Some (cs i), Some (resp i), None :: exec_error option)) [0..<?n]"
  have results: "map ?run [0..<?n] = map Some chunks" unfolding chunks_def using resp by simp
  have "chunks \<noteq> []" "list_all (\<lambda>(c, resp, err). err = None \<and> (\<exists>r. resp = Some r \<and> StatusCode r = 206)) chunks"
    using assms(1) resp by (auto simp: chunks_def list_all_iff)
  then obtain r where "collect_chunks chunks = Inr r" "StatusCode r = 206" using collect_chunks_partial by blast
  moreover have "map fst chunks = map (\<lambda>i. Some (cs i)) [0..<?n]" by (simp add: chunks_def)
  ultimately show ?thesis
    unfolding downloadChunksConcurrently_def results using assms(1) by (auto simp: comp_def)
qed

lemma DownloadFileConcurrently_served:
  assumes "ctx jc = None" "NewRequest_error jc ''GET'' (cf_DownloadPath flags) = None" "0 \<le> hc_retries jc"
    "0 < SplitCount flags" "int (length content) = FileSize flags" "\<not> Explode flags"
    "create_error env (local_file flags) = None" "checksum_ok env (cf_ExpectedSha1 flags) (cf_SkipChecksum flags) content"
    "\<forall>i<nat (SplitCount flags). case chunk_bounds (FileSize flags) (SplitCount flags) (int i) of (start, end') \<Rightarrow>
      chunk_served jc flags details content start end' (view i)"
  shows "\<exists>resp. DownloadFileConcurrently (Suc n) jc env flags pre details view (nat (SplitCount flags)) fs =
      Some (Inr resp, fs(local_file flags \<mapsto> content)) \<and> StatusCode resp = 206"
proof -
  let ?n = "nat (SplitCount flags)" and ?c = "nat (FileSize flags div SplitCount flags)"
  let ?cs = "\<lambda>i. if i = ?n - 1 then drop (i * ?c) content else take ?c (drop (i * ?c) content)"
  have "case chunk_bounds (FileSize flags) (SplitCount flags) (int i) of (start, end') \<Rightarrow>
      \<exists>resp. downloadFileRange (Suc n) jc flags start end' (int i) pre (Clone details) (view i) = Some (Some (?cs i), Some resp, None) \<and>
        StatusCode resp = 206" if i: "i < ?n" for i
  proof -
    obtain start end' where b: "chunk_bounds (FileSize flags) (SplitCount flags) (int i) = (start, end')" by (metis surj_pair)
    then have "chunk_served jc flags details content start end' (view i)" using assms(9)[rule_format, OF i] by simp
    from downloadFileRange_served[OF assms(1-3) this, of n "int i" pre] show ?thesis
      unfolding b using content_of_chunk[OF assms(4) i assms(5) b] by simp
  qed
  from downloadChunks_all[OF assms(4) this] obtain resp where
    run: "downloadChunksConcurrently (Suc n) jc flags pre details view ?n = Some (Inr (map (\<lambda>i. Some (?cs i)) [0..<?n], resp))"
    and resp: "StatusCode resp = 206" by blast
  have content: "concat (map ?cs [0..<?n]) = content" using assms(4) by (intro chunks_concat) simp
  let ?flags = "if cf_LocalPath flags \<noteq> [] then flags\<lparr>cf_LocalFileName := path_join [cf_LocalPath flags, cf_LocalFileName flags]\<rparr> else flags"
  have name: "cf_LocalFileName ?flags = local_file flags" by (simp add: local_file_def CreateFilePath_def)
  have same: "Explode ?flags = Explode flags" "cf_ExpectedSha1 ?flags = cf_ExpectedSha1 flags"
    "cf_SkipChecksum ?flags = cf_SkipChecksum flags" by simp_all
  have "mergeChunks env (map Some (map ?cs [0..<?n])) ?flags (fs(local_file flags := None)) =
      (None, fs(local_file flags \<mapsto> content))"
    using assms(7,8) by (subst mergeChunks_all) (simp_all only: name same content fun_upd_same fun_upd_upd)
  then show ?thesis
    using assms(4,6) run resp name by (simp add: DownloadFileConcurrently_def Let_def comp_def)
qed


section \<open>A server of ranges\<close>

text \<open>What a server makes of the header \<open>Range\<close>, as HTTP defines it: the first and the last byte, counted from 0.\<close>

definition read_decimal :: "string \<Rightarrow> nat option" where
  "read_decimal s = (if s = [] then None else undec 0 s)"

definition range_of :: "string \<Rightarrow> (nat \<times> nat) option" where
  "range_of h =
     (if take 6 h = ''bytes=''
      then case (read_decimal (takeWhile (\<lambda>c. c \<noteq> CHR ''-'') (drop 6 h)), read_decimal (drop 1 (dropWhile (\<lambda>c. c \<noteq> CHR ''-'') (drop 6 h)))) of
             (Some a, Some b) \<Rightarrow> Some (a, b)
           | _ \<Rightarrow> None
      else None)"

text \<open>The client's request for a URL, with a header \<open>Range\<close> in addition.\<close>

definition with_range_header :: "'w HttpClient \<Rightarrow> HttpClientDetails \<Rightarrow> string \<Rightarrow> string \<Rightarrow> Request" where
  "with_range_header jc details url h =
     (request_of jc details ''GET'' url None)\<lparr>req_Header := (req_Header (request_of jc details ''GET'' url None))(''Range'' \<mapsto> h)\<rparr>"

text \<open>The server gives the bytes of every range within the file, within the retries of the client, after failures or answers
  with a status of 500 or more only.\<close>

definition serves_ranges :: "'w HttpClient \<Rightarrow> HttpClientDetails \<Rightarrow> string \<Rightarrow> string \<Rightarrow> 'w \<Rightarrow> bool" where
  "serves_ranges jc details url content w \<longleftrightarrow>
     (\<forall>h a b. range_of h = Some (a, b) \<and> a \<le> b \<and> b < length content \<longrightarrow>
       (\<exists>k resp. k \<le> nat (hc_retries jc) \<and>
         (\<forall>j<k. \<not> served (answer jc False (with_range_header jc details url h) w j)) \<and>
         answer jc False (with_range_header jc details url h) w k = Answered resp \<and> StatusCode resp = 206 \<and>
         Body resp = (take (Suc b - a) (drop a content), None)))"

text \<open>The headers of the details do not ask for a range.\<close>

definition no_range :: "HttpClientDetails \<Rightarrow> bool" where
  "no_range details \<longleftrightarrow> (\<forall>h. Headers details = Some h \<longrightarrow> ''Range'' \<notin> CanonicalHeaderKey ` fst ` set h)"

lemma takeWhile_dec: "takeWhile (\<lambda>c. c \<noteq> CHR ''-'') (dec n @ CHR ''-'' # s) = dec n"
  "dropWhile (\<lambda>c. c \<noteq> CHR ''-'') (dec n @ CHR ''-'' # s) = CHR ''-'' # s"
proof -
  have "c \<noteq> CHR ''-''" if "c \<in> set (dec n)" for c using set_dec[of n] that by auto
  then show "takeWhile (\<lambda>c. c \<noteq> CHR ''-'') (dec n @ CHR ''-'' # s) = dec n" "dropWhile (\<lambda>c. c \<noteq> CHR ''-'') (dec n @ CHR ''-'' # s) = CHR ''-'' # s"
    by (simp_all add: takeWhile_append2 dropWhile_append2)
qed

lemma range_of_header:
  assumes "0 \<le> start" "start < end'"
  shows "range_of (range_header start end') = Some (nat start, nat end' - 1)"
proof -
  have "dec n \<noteq> []" for n by (cases "dec n") auto
  moreover have "nat (end' - 1) = nat end' - 1" using assms by simp
  ultimately show ?thesis
    using assms by (simp add: range_of_def range_header_def itoa_def takeWhile_dec read_decimal_def)
qed

lemma update_absent: "k \<notin> fst ` set h \<Longrightarrow> AList.update k v h = h @ [(k, v)]"
  by (induction h) auto

lemma range_request_header:
  assumes "no_range details"
  shows "range_request jc flags details start end' = with_range_header jc details (cf_DownloadPath flags) (range_header start end')"
proof -
  have canonical: "CanonicalHeaderKey ''Range'' = ''Range''" by code_simp
  have "''Range'' \<notin> fst ` set h" if "Headers details = Some h" for h
    using assms that canonical unfolding no_range_def by (metis image_eqI)
  then show ?thesis
    by (cases "Headers details")
      (simp_all add: range_request_def with_range_header_def request_of_def with_range_def Clone_def copyHeaders_def update_absent
         set_header_def canonical setAuthentication_def)
qed

text \<open>Each chunk asks for a part of the file that is not empty, when there are not more chunks than bytes.\<close>

lemma chunks_served:
  assumes "no_range details" "0 < SplitCount flags" "SplitCount flags \<le> FileSize flags" "int (length content) = FileSize flags"
    "\<forall>i<nat (SplitCount flags). serves_ranges jc details (cf_DownloadPath flags) content (view i)"
  shows "\<forall>i<nat (SplitCount flags). case chunk_bounds (FileSize flags) (SplitCount flags) (int i) of (start, end') \<Rightarrow>
      chunk_served jc flags details content start end' (view i)"
proof (intro allI impI)
  fix i assume i: "i < nat (SplitCount flags)"
  obtain start end' where b: "chunk_bounds (FileSize flags) (SplitCount flags) (int i) = (start, end')" by (metis surj_pair)
  let ?c = "FileSize flags div SplitCount flags"
  have int: "int i < SplitCount flags" and c: "0 < ?c" using i assms(2,3) by (simp_all add: pos_imp_zdiv_pos_iff)
  have bounds: "start = ?c * int i" "end' = (if int i = SplitCount flags - 1 then FileSize flags else ?c * (int i + 1))"
    using chunk_bounds_in_range[of "FileSize flags" "SplitCount flags" "int i"] b int assms(2,3) by auto
  have "?c * (int i + 1) \<le> ?c * SplitCount flags" using c int by (intro mult_left_mono) auto
  also have le: "\<dots> \<le> FileSize flags"
    using pos_mod_sign[OF assms(2), of "FileSize flags"] minus_mod_eq_div_mult[of "FileSize flags" "SplitCount flags"] by linarith
  finally have "start < end'" "end' \<le> FileSize flags" using c by (auto simp: bounds distrib_left)
  moreover have "0 \<le> start" using c by (simp add: bounds)
  ultimately have r: "range_of (range_header start end') = Some (nat start, nat end' - 1)" "nat start \<le> nat end' - 1" "nat end' - 1 < length content"
    "Suc (nat end' - 1) - nat start = nat end' - nat start"
    using range_of_header assms(4) by auto
  show "case chunk_bounds (FileSize flags) (SplitCount flags) (int i) of (start, end') \<Rightarrow> chunk_served jc flags details content start end' (view i)"
  proof -
    obtain k resp where "k \<le> nat (hc_retries jc)" "answer jc False (range_request jc flags details start end') (view i) k = Answered resp"
        "\<forall>j<k. \<not> served (answer jc False (range_request jc flags details start end') (view i) j)"
        "StatusCode resp = 206" "Body resp = (take (nat end' - nat start) (drop (nat start) content), None)"
      using assms(5)[rule_format, OF i, unfolded serves_ranges_def, rule_format, OF conjI[OF r(1) conjI[OF r(2,3)]]]
      unfolding r(4) range_request_header[OF assms(1)] by blast
    then show ?thesis unfolding b prod.case chunk_served_def by blast
  qed
qed


definition example_flags :: ConcurrentDownloadFlags where
  "example_flags = \<lparr>cf_FileName = ''f'', cf_DownloadPath = ''u'', cf_RelativePath = ''r/f'', cf_LocalFileName = ''f'', cf_LocalPath = ''d'',
     cf_ExpectedSha1 = [], FileSize = 3, SplitCount = 2, Explode = False, BypassArchiveInspection = False, cf_SkipChecksum = False\<rparr>"

text \<open>A server that reads the header.\<close>

definition partial_client :: "nat HttpClient" where
  "partial_client = \<lparr>http_do = (\<lambda>_ req w. (Answered (case req_Header req ''Range'' of
         None \<Rightarrow> \<lparr>StatusCode = 200, Status = ''200'', ResponseHeader = (\<lambda>_. []), Body = (''abc'', None)\<rparr>
       | Some h \<Rightarrow> (case range_of h of
            None \<Rightarrow> \<lparr>StatusCode = 416, Status = ''416'', ResponseHeader = (\<lambda>_. []), Body = ([], None)\<rparr>
          | Some (a, b) \<Rightarrow> \<lparr>StatusCode = 206, Status = ''206'', ResponseHeader = (\<lambda>_. []), Body = (take (Suc b - a) (drop a ''abc''), None)\<rparr>)), w)),
     NewRequest_error = (\<lambda>_ _. None), userAgent = [], ctx = None, hc_retries = 3, hc_retryWaitMilliSecs = 0\<rparr>"

definition plain_env :: file_env where
  "plain_env = \<lparr>create_error = (\<lambda>_. None), sha1_hex = id, md5_hex = id, ExtractArchive = (\<lambda>_ _ _ _ fs. (None, fs))\<rparr>"

lemma partial_client_serves: "serves_ranges partial_client details url ''abc'' w"
proof -
  have "answer partial_client False (with_range_header jc d url h) w 0 =
      Answered \<lparr>StatusCode = 206, Status = ''206'', ResponseHeader = (\<lambda>_. []), Body = (take (Suc b - a) (drop a ''abc''), None)\<rparr>"
    if "range_of h = Some (a, b)" for jc :: "nat HttpClient" and d url h a b
    by (simp only: partial_client_def answer_def world_sent_def with_range_header_def that HttpClient.simps Request.simps fun_upd_same
        option.case prod.case fst_conv funpow.simps id_apply) (simp add: that)
  then show ?thesis unfolding serves_ranges_def by (intro allI impI exI[of _ 0]) (fastforce simp del: drop_Cons' take_Cons')
qed


end
