(* ===== verification/DownloadService.thy ===== *)
theory DownloadService
  imports Download MoveCopy
begin

text \<open>
  The download service, \<^verbatim>\<open>artifactory/services/download.go\<close>, with the validation of release bundles of
  \<^verbatim>\<open>artifactory/services/utils/releasebundleutils.go\<close>: the tasks produced for the search results, what a
  task does to the local files, and the summary of a run.

  Links and folders of the local system, and the verification of a signed bundle, are parameters
  (\<open>local_env\<close>, \<open>validate\<close>).
\<close>

section \<open>Parameters\<close>

record DownloadParams =
  dl_CommonParams :: CommonParams
  dl_Symlink :: bool
  ValidateSymlink :: bool
  dl_Flat :: bool
  dl_Explode :: bool
  dl_BypassArchiveInspection :: bool
  MinSplitSize :: int
  dl_SplitCount :: int
  PublicGpgKey :: string
  dl_SkipChecksum :: bool

definition NewDownloadParams :: DownloadParams where
  "NewDownloadParams = \<lparr>dl_CommonParams = zero_params, dl_Symlink = False, ValidateSymlink = False, dl_Flat = False,
     dl_Explode = False, dl_BypassArchiveInspection = False, MinSplitSize = 5120, dl_SplitCount = 3, PublicGpgKey = [],
     dl_SkipChecksum = False\<rparr>"

record DownloadData =
  Dependency :: ResultItem
  dd_DownloadPath :: string
  dd_Target :: string
  dd_Flat :: bool

fun getArtifactPropertyByKey :: "Property list \<Rightarrow> string \<Rightarrow> string" where
  "getArtifactPropertyByKey [] key = []"
| "getArtifactPropertyByKey (v # vs) key = (if Key v = key then Value v else getArtifactPropertyByKey vs key)"

definition getArtifactSymlinkPath :: "Property list \<Rightarrow> string" where
  "getArtifactSymlinkPath properties = getArtifactPropertyByKey properties ''symlink.dest''"

definition getArtifactSymlinkChecksum :: "Property list \<Rightarrow> string" where
  "getArtifactSymlinkChecksum properties = getArtifactPropertyByKey properties ''symlink.destsha1''"

definition createDependencyTransferDetails :: "string \<Rightarrow> string \<Rightarrow> string \<Rightarrow> string \<Rightarrow> string \<times> string \<times> string" where
  "createDependencyTransferDetails rtUrl relativeDownloadPath localPath localFileName =
     (relativeDownloadPath, rtUrl, path_join [localPath, localFileName])"

definition createDependencyArtifactDetails :: "ResultItem \<Rightarrow> ArtifactDetails" where
  "createDependencyArtifactDetails resultItem =
     \<lparr>ArtifactoryPath = GetItemRelativePath resultItem,
      Checksums = \<lparr>Md5 = Actual_Md5 resultItem, Sha1 = Actual_Sha1 resultItem, Sha256 = []\<rparr>\<rparr>"

definition createDownloadFileDetails :: "string \<Rightarrow> string \<Rightarrow> string \<Rightarrow> DownloadData \<Rightarrow> bool \<Rightarrow> DownloadFileDetails" where
  "createDownloadFileDetails downloadPath localPath localFileName downloadData skipChecksum =
     \<lparr>FileName = Name (Dependency downloadData), DownloadPath = downloadPath,
      RelativePath = GetItemRelativePath (Dependency downloadData), LocalPath = localPath, LocalFileName = localFileName,
      ExpectedSha1 = Actual_Sha1 (Dependency downloadData), dfd_Size = ri_Size (Dependency downloadData),
      SkipChecksum = skipChecksum\<rparr>"

section \<open>Release bundles\<close>

text \<open>A validator is its map from the paths of the artifacts of the verified bundle to their checksums; a
  path that is not in the map reads as the empty string.\<close>

type_synonym validators = "(string \<times> (string \<rightharpoonup> string)) list"

definition VerifyArtifact :: "(string \<rightharpoonup> string) \<Rightarrow> string \<Rightarrow> string \<Rightarrow> go_error option" where
  "VerifyArtifact artifactsMap artifactPath sha256 =
     (if (case artifactsMap artifactPath of None \<Rightarrow> [] | Some c \<Rightarrow> c) = sha256 then None
      else Some (Err (''GPG validation failed: artifact in not signed with the provided key - '' @ artifactPath @ '' '')))"

definition rbGpgValidate :: "validators \<Rightarrow> string \<Rightarrow> ResultItem \<Rightarrow> go_error option" where
  "rbGpgValidate rbGpgValidationMap bundle resultItem =
     (let artifactPath = path_join [Repo resultItem, Path resultItem, Name resultItem]
      in case map_of rbGpgValidationMap bundle of
           None \<Rightarrow> Some (Err (''release bundle validator for '' @ artifactPath @ '' was not found unexpectedly. This may be caused by a bug''))
         | Some artifactsMap \<Rightarrow> VerifyArtifact artifactsMap artifactPath (ri_Sha256 resultItem))"

text \<open>\<open>validate\<close> fetches the bundle of a name and a version and verifies it with the key.\<close>

definition gpgValidateReleaseBundle :: "(string \<Rightarrow> string \<Rightarrow> string \<Rightarrow> (string \<rightharpoonup> string) result) \<Rightarrow> string \<Rightarrow> string \<Rightarrow> validators \<Rightarrow>
    validators result" where
  "gpgValidateReleaseBundle validate bundleParam publicKeyFilePath rbGpgValidationMap =
     (if map_of rbGpgValidationMap bundleParam \<noteq> None then Inr rbGpgValidationMap
      else and_then (ParseNameAndVersion bundleParam False) (\<lambda>(bundleName, bundleVersion).
             if bundleName = [] then Inr rbGpgValidationMap
             else and_then (validate bundleName bundleVersion publicKeyFilePath) (\<lambda>artifactsMap.
                    Inr (AList.update bundleParam artifactsMap rbGpgValidationMap))))"

section \<open>Producing the tasks\<close>

text \<open>What the producer adds to the runner and to the errors queue, in order.\<close>

datatype produced = AddTask DownloadParams DownloadData | AddProducerError go_error

record produce_state =
  ps_produced :: "produced list"
  tasksCount :: nat
  alreadyCreatedDirs :: "string list"
  directoriesData :: "string \<rightharpoonup> DownloadData"
  directoriesDataKeys :: "string list"

definition local_target :: "regexp_env \<Rightarrow> string \<Rightarrow> string \<Rightarrow> bool \<Rightarrow> ResultItem \<Rightarrow> (string \<times> string) result" where
  "local_target re pattern target flat resultItem =
     and_then (BuildTargetPath (fst re) (snd re) pattern (GetItemRelativePath resultItem) target True) (\<lambda>(target, placeholdersUsed).
       Inr (GetLocalPathAndFile (Name resultItem) (Path resultItem) target flat placeholdersUsed))"

definition getSortKey :: "regexp_env \<Rightarrow> DownloadParams \<Rightarrow> ResultItem \<Rightarrow> string result" where
  "getSortKey re downloadParams resultItem =
     and_then (local_target re (Pattern (dl_CommonParams downloadParams)) (Target (dl_CommonParams downloadParams))
                 (dl_Flat downloadParams) resultItem)
       (\<lambda>(localPath, localFileName). Inr (path_join [localPath, localFileName]))"

definition collectDirPathsToCreate :: "ResultItem \<Rightarrow> DownloadData \<Rightarrow> produce_state \<Rightarrow> produce_state" where
  "collectDirPathsToCreate aqlResultItem tempData st =
     (let key = (if Path aqlResultItem \<noteq> ''.'' then path_join [Path aqlResultItem, Name aqlResultItem] else Name aqlResultItem)
      in st\<lparr>directoriesData := (directoriesData st)(key \<mapsto> tempData), directoriesDataKeys := directoriesDataKeys st @ [key]\<rparr>)"

definition download_data :: "DownloadParams \<Rightarrow> ResultItem \<Rightarrow> DownloadData" where
  "download_data downloadParams resultItem =
     \<lparr>Dependency = resultItem, dd_DownloadPath = Pattern (dl_CommonParams downloadParams),
      dd_Target = Target (dl_CommonParams downloadParams), dd_Flat = dl_Flat downloadParams\<rparr>"

text \<open>The loop over the sorted results; the boolean tells that it reached the end.\<close>

fun produce_loop :: "DownloadParams \<Rightarrow> validators \<Rightarrow> ResultItem list \<Rightarrow> produce_state \<Rightarrow> bool \<times> produce_state" where
  "produce_loop downloadParams rbGpgValidationMap [] st = (True, st)"
| "produce_loop downloadParams rbGpgValidationMap (resultItem # items) st =
     (let tempData = download_data downloadParams resultItem
      in if Type resultItem \<noteq> ''folder''
         then (case (if rbGpgValidationMap \<noteq> [] then rbGpgValidate rbGpgValidationMap (Bundle (dl_CommonParams downloadParams)) resultItem
                     else None) of
                 Some e \<Rightarrow> (False, st\<lparr>ps_produced := ps_produced st @ [AddProducerError e]\<rparr>)
               | None \<Rightarrow>
                   produce_loop downloadParams rbGpgValidationMap items
                     (st\<lparr>tasksCount := tasksCount st + 1, ps_produced := ps_produced st @ [AddTask downloadParams tempData],
                        alreadyCreatedDirs := Path resultItem # alreadyCreatedDirs st\<rparr>))
         else produce_loop downloadParams rbGpgValidationMap items (collectDirPathsToCreate resultItem tempData st))"

text \<open>The keys of the folders from the longest of a chain to the shortest.\<close>

definition sort_descending :: "string list \<Rightarrow> string list" where
  "sort_descending keys = rev (sort keys)"

definition creates_dir :: "string list \<Rightarrow> (string list) \<Rightarrow> bool \<Rightarrow> nat \<Rightarrow> bool result" where
  "creates_dir keys created isFlat index =
     (if keys ! index = ''.'' then Inr False
      else and_then (if index = 0 then Inr False else IsSubPath keys index ''/'') (\<lambda>sub.
        Inr (\<not> sub \<and> (isFlat \<or> keys ! index \<notin> set created))))"

definition dirs_to_create :: "string list \<Rightarrow> string list \<Rightarrow> bool \<Rightarrow> string list" where
  "dirs_to_create keys created isFlat =
     (let keys = sort_descending keys
      in map ((!) keys) (filter (\<lambda>index. creates_dir keys created isFlat index = Inr True) [0..<length keys]))"

definition addCreateDirsTasks :: "DownloadParams \<Rightarrow> produce_state \<Rightarrow> produced list" where
  "addCreateDirsTasks downloadParams st =
     map (\<lambda>v. AddTask downloadParams (the (directoriesData st v)))
       (dirs_to_create (directoriesDataKeys st) (alreadyCreatedDirs st) (dl_Flat downloadParams))"

definition no_tasks :: produce_state where
  "no_tasks = \<lparr>ps_produced = [], tasksCount = 0, alreadyCreatedDirs = [], directoriesData = Map.empty, directoriesDataKeys = []\<rparr>"

definition produceTasks :: "regexp_env \<Rightarrow> validators \<Rightarrow> DownloadParams \<Rightarrow> ResultItem source \<Rightarrow> produced list \<times> nat" where
  "produceTasks re rbGpgValidationMap downloadParams reader =
     (case SortContentReaderByCalculatedKey reader (getSortKey re downloadParams) True of
        Inl e \<Rightarrow> ([AddProducerError e], 0)
      | Inr sortedReader \<Rightarrow>
          let (complete, st) = produce_loop downloadParams rbGpgValidationMap sortedReader no_tasks
          in (ps_produced st @ (if complete then addCreateDirsTasks downloadParams st else []), tasksCount st))"

text \<open>The groups of file specs. \<open>notAllowed\<close> compares the version of the server. A failed search goes on with the next
  group, a failed validation ends the preparation. \<open>None\<close> when a search does not return.\<close>

definition search_group :: "search_env \<Rightarrow> CommonParams \<Rightarrow> ResultItem source result option" where
  "search_group env params =
     (case GetSpecType params of
        WILDCARD \<Rightarrow> fst (search_pattern env params SYMLINK)
      | BUILD \<Rightarrow> map_option (\<lambda>r. and_then r (\<lambda>items. Inr (items, []))) (SearchBySpecWithBuild (env_server env) (env_fetch env) (env_bufferSize env) params)
      | AQL \<Rightarrow> SearchBySpecWithAql (env_server env) (env_fetch env) (env_bufferSize env) params SYMLINK)"

fun prepareTasks :: "search_env \<Rightarrow> (string \<Rightarrow> bool) \<Rightarrow> (string \<Rightarrow> string \<Rightarrow> string \<Rightarrow> (string \<rightharpoonup> string) result) \<Rightarrow> regexp_env \<Rightarrow>
    DownloadParams list \<Rightarrow> validators \<Rightarrow> (produced list \<times> nat) option" where
  "prepareTasks env artifactoryVersion validate re [] rbGpgValidationMap = Some ([], 0)"
| "prepareTasks env artifactoryVersion validate re (downloadParams # rest) rbGpgValidationMap =
     (let params = DisableTransitiveSearchIfNotAllowed artifactoryVersion (dl_CommonParams downloadParams);
          downloadParams = downloadParams\<lparr>dl_CommonParams := params\<rparr>
      in case (if PublicGpgKey downloadParams \<noteq> []
               then gpgValidateReleaseBundle validate (Bundle params) (PublicGpgKey downloadParams) rbGpgValidationMap
               else Inr rbGpgValidationMap) of
           Inl e \<Rightarrow> Some ([AddProducerError e], 0)
         | Inr rbGpgValidationMap \<Rightarrow>
             case search_group env params of
               None \<Rightarrow> None
             | Some found \<Rightarrow>
                 let (added, count) = (case found of
                        Inl e \<Rightarrow> ([AddProducerError e], 0)
                      | Inr reader \<Rightarrow> produceTasks re rbGpgValidationMap downloadParams reader)
                 in map_option (\<lambda>(later, n). (added @ later, count + n)) (prepareTasks env artifactoryVersion validate re rest rbGpgValidationMap))"


section \<open>Folders\<close>

lemma creates_dir_iff:
  assumes "\<forall>v\<in>set keys. \<not> has_suffix v ''/''" "index < length keys"
  shows "creates_dir keys created isFlat index = Inr True \<longleftrightarrow>
    keys ! index \<noteq> ''.'' \<and> (\<forall>j<index. \<not> has_prefix (keys ! j) (keys ! index @ ''/'')) \<and> (isFlat \<or> keys ! index \<notin> set created)"
  using assms nth_mem[OF assms(2)] by (auto simp: creates_dir_def IsSubPath_def slice_get_def sub_path_loop_iff)

lemma prefix_slash_trans: "has_prefix w (u @ ''/'') \<Longrightarrow> has_prefix u (v @ ''/'') \<Longrightarrow> has_prefix w (v @ ''/'')"
  by (auto simp: has_prefix_iff)

lemma less_append: "(u::string) < u @ c # t"
  by (induction u) simp_all

text \<open>Of the folders among the results each one is created, or is a folder above one that is created or,
  unless the download is flat, above one a file was downloaded to; and no folder is created that
  lies above another folder of the results.\<close>

theorem dirs_to_create_correct:
  assumes "\<forall>v\<in>set keys. \<not> has_suffix v ''/''"
  shows "(\<forall>v\<in>set keys. v \<noteq> ''.'' \<longrightarrow> (\<exists>u. (u \<in> set (dirs_to_create keys created isFlat) \<or> \<not> isFlat \<and> u \<in> set created) \<and>
      (u = v \<or> has_prefix u (v @ ''/'')))) \<and>
    (\<forall>u\<in>set (dirs_to_create keys created isFlat). u \<in> set keys \<and> u \<noteq> ''.'' \<and> (\<forall>w\<in>set keys. \<not> has_prefix w (u @ ''/'')))"
proof -
  define ks where "ks = sort_descending keys"
  have set_ks: "set ks = set keys" by (simp add: ks_def sort_descending_def)
  then have ok: "\<forall>v\<in>set ks. \<not> has_suffix v ''/''" using assms by simp
  note creates = creates_dir_iff[OF ok, of _ created isFlat]
  have dirs: "u \<in> set (dirs_to_create keys created isFlat) \<longleftrightarrow> (\<exists>j<length ks. u = ks ! j \<and> creates_dir ks created isFlat j = Inr True)" for u
    by (auto simp: dirs_to_create_def ks_def[symmetric] Let_def)
  have all: "\<exists>u. (u \<in> set (dirs_to_create keys created isFlat) \<or> \<not> isFlat \<and> u \<in> set created) \<and> (u = v \<or> has_prefix u (v @ ''/''))"
    if v: "v \<in> set keys" "v \<noteq> ''.''" for v
  proof -
    let ?P = "\<lambda>j. j < length ks \<and> (ks ! j = v \<or> has_prefix (ks ! j) (v @ ''/''))"
    have "\<exists>i. ?P i" using v(1) set_ks by (metis in_set_conv_nth)
    then obtain j where j: "?P j" "\<And>i. i < j \<Longrightarrow> \<not> ?P i" unfolding exists_least_iff[of ?P] by blast
    have "\<not> has_prefix (ks ! i) (ks ! j @ ''/'')" if "i < j" for i
      using j(1) j(2)[OF that] that prefix_slash_trans by auto
    moreover have "ks ! j \<noteq> ''.''" using j(1) v(2) by (cases v) (auto simp: has_prefix_iff)
    ultimately have "creates_dir ks created isFlat j = Inr True \<or> \<not> isFlat \<and> ks ! j \<in> set created"
      using j(1) creates[of j] by auto
    then show ?thesis using j(1) unfolding dirs by (intro exI[of _ "ks ! j"]) auto
  qed
  have above: "\<not> has_prefix w (u @ ''/'')" if u: "u \<in> set (dirs_to_create keys created isFlat)" and w: "w \<in> set keys" for u w
  proof
    assume prefix: "has_prefix w (u @ ''/'')"
    obtain j where j: "j < length ks" "u = ks ! j" "\<forall>i<j. \<not> has_prefix (ks ! i) (u @ ''/'')"
      using u creates unfolding dirs by blast
    obtain i where i: "i < length ks" "w = ks ! i" using w set_ks by (metis in_set_conv_nth)
    have less: "u < w" using prefix less_append by (auto simp: has_prefix_iff)
    then have "j < i" using i j(2,3) prefix by (metis less_irrefl linorder_neqE_nat)
    moreover have "sorted_wrt (\<ge>) ks" unfolding ks_def sort_descending_def by (simp add: sorted_wrt_rev)
    ultimately have "w \<le> u" using i j sorted_wrt_nth_less by blast
    then show False using less by simp
  qed
  have sub: "u \<in> set keys \<and> u \<noteq> ''.''" if u: "u \<in> set (dirs_to_create keys created isFlat)" for u
  proof -
    obtain j where "j < length ks" "u = ks ! j" "creates_dir ks created isFlat j = Inr True" using u unfolding dirs by blast
    then show ?thesis using creates[of j] set_ks by force
  qed
  show ?thesis by (intro conjI ballI impI) (use all sub above in blast)+
qed

theorem dirs_to_create_correct_witness:
  "dirs_to_create [''a'', ''a/b'', ''c'', ''.''] [''c''] False = [''a/b''] \<and>
    (\<exists>u. u \<in> set (dirs_to_create [''a'', ''a/b'', ''c'', ''.''] [''c''] False) \<and> (u = ''a'' \<or> has_prefix u ''a/''))"
proof -
  have dirs: "dirs_to_create [''a'', ''a/b'', ''c'', ''.''] [''c''] False = [''a/b'']" by code_simp
  have "\<forall>v\<in>set [''a'', ''a/b'', ''c'', ''.'']. \<not> has_suffix v ''/''" by code_simp
  from dirs_to_create_correct[OF this, of "[''c'']" False] show ?thesis by (auto simp: dirs)
qed


section \<open>What is produced\<close>

definition file_items :: "produced list \<Rightarrow> ResultItem list" where
  "file_items ps = List.map_filter (\<lambda>p. case p of AddTask _ d \<Rightarrow> if Type (Dependency d) \<noteq> ''folder'' then Some (Dependency d) else None
     | AddProducerError _ \<Rightarrow> None) ps"

lemma file_items_simps [simp]:
  "file_items [] = []"
  "file_items (AddTask p d # ps) = (if Type (Dependency d) \<noteq> ''folder'' then Dependency d # file_items ps else file_items ps)"
  "file_items (AddProducerError e # ps) = file_items ps"
  "file_items (ps @ qs) = file_items ps @ file_items qs"
  by (simp_all add: file_items_def List.map_filter_def)

definition is_file :: "ResultItem \<Rightarrow> bool" where
  "is_file item \<longleftrightarrow> Type item \<noteq> ''folder''"

text \<open>The folders kept for later are folders.\<close>

definition folders_ok :: "DownloadParams \<Rightarrow> produce_state \<Rightarrow> bool" where
  "folders_ok params st \<longleftrightarrow> (\<forall>v\<in>set (directoriesDataKeys st). \<exists>d. directoriesData st v = Some d \<and> Type (Dependency d) = ''folder'')"

lemma produce_loop_files:
  assumes "folders_ok params st"
  shows "fst (produce_loop params [] items st) \<and> folders_ok params (snd (produce_loop params [] items st)) \<and>
    ps_produced (snd (produce_loop params [] items st)) =
      ps_produced st @ map (\<lambda>item. AddTask params (download_data params item)) (filter is_file items) \<and>
    tasksCount (snd (produce_loop params [] items st)) = tasksCount st + length (filter is_file items)"
  using assms
proof (induction items arbitrary: st)
  case (Cons item items)
  have "folders_ok params (collectDirPathsToCreate item (download_data params item) st)" if "Type item = ''folder''"
    using Cons.prems that by (auto simp: folders_ok_def collectDirPathsToCreate_def download_data_def Let_def)
  moreover have "folders_ok params (st\<lparr>tasksCount := c, ps_produced := p, alreadyCreatedDirs := a\<rparr>)" for c p a
    using Cons.prems by (simp add: folders_ok_def)
  ultimately show ?case
    using Cons.IH by (simp add: is_file_def Let_def collectDirPathsToCreate_def)
qed simp

lemma set_dirs_to_create: "set (dirs_to_create keys created isFlat) \<subseteq> set keys"
proof -
  have "set (dirs_to_create keys created isFlat) \<subseteq> set (sort_descending keys)"
    unfolding dirs_to_create_def Let_def by (auto intro: nth_mem)
  then show ?thesis by (simp add: sort_descending_def)
qed

lemma file_items_folders: "\<forall>p\<in>set ps. \<exists>d. p = AddTask params d \<and> Type (Dependency d) = ''folder'' \<Longrightarrow> file_items ps = []"
  by (induction ps) auto

lemma folder_tasks: "folders_ok params st \<Longrightarrow> file_items (addCreateDirsTasks params st) = []"
proof -
  assume ok: "folders_ok params st"
  have "set (dirs_to_create (directoriesDataKeys st) (alreadyCreatedDirs st) (dl_Flat params)) \<subseteq> set (directoriesDataKeys st)"
    by (rule set_dirs_to_create)
  then have "\<forall>v\<in>set (dirs_to_create (directoriesDataKeys st) (alreadyCreatedDirs st) (dl_Flat params)).
      Type (Dependency (the (directoriesData st v))) = ''folder''" using ok by (force simp: folders_ok_def)
  then have "\<forall>p\<in>set (addCreateDirsTasks params st). \<exists>d. p = AddTask params d \<and> Type (Dependency d) = ''folder''"
    by (auto simp: addCreateDirsTasks_def)
  then show ?thesis by (rule file_items_folders)
qed

text \<open>Without a validation, exactly the files that are first in the results with their local path are
  downloaded, each once, and they are counted; so no two downloads write to the same file.\<close>

theorem produceTasks_correct:
  assumes "\<forall>item. getSortKey re params item = Inr (f item)"
  shows "set (file_items (fst (produceTasks re [] params (items, [])))) =
      {item\<in>set items. is_file item \<and> List.find (\<lambda>r. f r = f item) items = Some item} \<and>
    distinct (map f (file_items (fst (produceTasks re [] params (items, []))))) \<and>
    snd (produceTasks re [] params (items, [])) = length (file_items (fst (produceTasks re [] params (items, []))))"
proof -
  have key: "getSortKey re params = (\<lambda>item. Inr (f item))" using assms by blast
  obtain out where out: "SortContentReaderByCalculatedKey (items, []) (\<lambda>r. Inr (f r)) True = Inr out"
    "sorted_wrt (\<lambda>x y. key_before True (f x) (f y)) out" "\<forall>k. List.find (\<lambda>r. f r = k) out = List.find (\<lambda>r. f r = k) items"
    using SortContentReaderByCalculatedKey_spec[of items f True] by (auto simp: in_order_def)
  let ?st = "snd (produce_loop params [] out no_tasks)"
  have "folders_ok params no_tasks" by (simp add: folders_ok_def no_tasks_def)
  note run = produce_loop_files[OF this, of out]
  have run': "produceTasks re [] params (items, []) = (ps_produced ?st @ addCreateDirsTasks params ?st, tasksCount ?st)"
    using run by (cases "produce_loop params [] out no_tasks") (simp add: produceTasks_def key out(1))
  have files: "file_items (map (\<lambda>item. AddTask params (download_data params item)) (filter is_file xs)) = filter is_file xs" for xs
    by (induction xs) (auto simp: is_file_def download_data_def)
  have items: "file_items (fst (produceTasks re [] params (items, []))) = filter is_file out"
    using run by (simp add: run' folder_tasks files no_tasks_def)
  have count: "snd (produceTasks re [] params (items, [])) = length (filter is_file out)" using run by (simp add: run' no_tasks_def)
  have sorted: "sorted_wrt (\<lambda>x y. x < y) (map f out)" using out(2) by (simp add: sorted_wrt_map key_before_def)
  then have distinct: "distinct (map f out)" using strict_sorted_iff by auto
  have mem: "item \<in> set out \<longleftrightarrow> List.find (\<lambda>r. f r = f item) items = Some item" for item
  proof -
    have "item \<in> set out \<longleftrightarrow> List.find (\<lambda>r. f r = f item) out = Some item"
      using distinct by (induction out) auto
    then show ?thesis using out(3) by simp
  qed
  have "List.find (\<lambda>r. f r = f item) items = Some item \<Longrightarrow> item \<in> set items" for item by (auto simp: find_Some_iff)
  then have "set (filter is_file out) = {item\<in>set items. is_file item \<and> List.find (\<lambda>r. f r = f item) items = Some item}"
    by (auto simp: mem)
  moreover have "distinct (map f (filter is_file out))" using distinct by (rule distinct_map_filter)
  ultimately show ?thesis unfolding items count by simp
qed


text \<open>An expression that compiles and matches nothing: the target has no placeholders.\<close>

definition no_match :: regexp_env where
  "no_match = (\<lambda>p. ''$'', \<lambda>re. Some (\<lambda>s. []))"

definition to_folder :: DownloadParams where
  "to_folder = NewDownloadParams\<lparr>dl_CommonParams := zero_params\<lparr>Pattern := ''r/*'', Target := ''d/''\<rparr>, dl_Flat := True\<rparr>"

lemma to_folder_key: "getSortKey no_match to_folder item = Inr (path_join [''d'', Name item])"
proof -
  have "addEscapingParentheses ''/*'' ''d/'' = Inr ''/*''" "addEscapingParentheses ''r/*'' ''d/'' = Inr ''r/*''"
    "str_index ''r/*'' ''*'' = 2" "str_index ''r/*'' ''/'' = 1" "removeRepoFromPath ''r/*'' = ''/*''" by code_simp+
  moreover have "GetLocalPathAndFile n p ''d/'' True False = (''d'', n)" for n p
  proof -
    have "GetFileAndDirFromPath ''d/'' = ([], ''d'')" "path_clean ''d'' = ''d''" by code_simp+
    then show ?thesis by (simp add: GetLocalPathAndFile_def)
  qed
  ultimately show ?thesis
    by (simp add: getSortKey_def local_target_def BuildTargetPath_def to_folder_def no_match_def shouldRemoveRepo_def Let_def)
qed

theorem produceTasks_correct_witness:
  "let a = zero_item\<lparr>Repo := ''r'', Path := ''x'', Name := ''f'', Type := ''file''\<rparr>;
       b = zero_item\<lparr>Repo := ''r'', Path := ''y'', Name := ''f'', Type := ''file''\<rparr>
   in set (file_items (fst (produceTasks no_match [] to_folder ([a, b], [])))) = {a}"
proof -
  let ?a = "zero_item\<lparr>Repo := ''r'', Path := ''x'', Name := ''f'', Type := ''file''\<rparr>"
  let ?b = "zero_item\<lparr>Repo := ''r'', Path := ''y'', Name := ''f'', Type := ''file''\<rparr>"
  have "\<forall>item. getSortKey no_match to_folder item = Inr (path_join [''d'', Name item])" using to_folder_key by blast
  from produceTasks_correct[OF this, of "[?a, ?b]"]
  have "set (file_items (fst (produceTasks no_match [] to_folder ([?a, ?b], [])))) =
      {item \<in> {?a, ?b}. is_file item \<and> List.find (\<lambda>r. path_join [''d'', Name r] = path_join [''d'', Name item]) [?a, ?b] = Some item}" by simp
  also have "\<dots> = {?a}" by (rule set_eqI) (auto simp: is_file_def zero_item_def)
  finally show ?thesis by (simp add: Let_def)
qed

lemma produce_loop_verified:
  assumes "validators \<noteq> []" "\<forall>item\<in>set (file_items (ps_produced st)). rbGpgValidate validators (Bundle (dl_CommonParams params)) item = None"
    "folders_ok params st"
  shows "(\<forall>item\<in>set (file_items (ps_produced (snd (produce_loop params validators items st)))).
      rbGpgValidate validators (Bundle (dl_CommonParams params)) item = None) \<and>
    folders_ok params (snd (produce_loop params validators items st))"
  using assms(2,3)
proof (induction items arbitrary: st)
  case (Cons item items)
  show ?case
  proof (cases "Type item = ''folder''")
    case True
    let ?st = "collectDirPathsToCreate item (download_data params item) st"
    have "ps_produced ?st = ps_produced st" "folders_ok params ?st"
      using Cons.prems True by (auto simp: folders_ok_def collectDirPathsToCreate_def download_data_def Let_def)
    then show ?thesis using Cons.IH[of ?st] Cons.prems True by (simp add: Let_def)
  next
    case False
    let ?st = "st\<lparr>tasksCount := tasksCount st + 1, ps_produced := ps_produced st @ [AddTask params (download_data params item)],
      alreadyCreatedDirs := Path item # alreadyCreatedDirs st\<rparr>"
    show ?thesis
    proof (cases "rbGpgValidate validators (Bundle (dl_CommonParams params)) item")
      case None
      then have "\<forall>item\<in>set (file_items (ps_produced ?st)). rbGpgValidate validators (Bundle (dl_CommonParams params)) item = None"
          "folders_ok params ?st"
        using Cons.prems by (simp_all add: download_data_def folders_ok_def)
      moreover have "produce_loop params validators (item # items) st = produce_loop params validators items ?st"
        using None False assms(1) by (simp add: Let_def)
      ultimately show ?thesis using Cons.IH[of ?st] by presburger
    next
      case (Some e)
      then show ?thesis using Cons.prems False assms(1) by (simp add: folders_ok_def)
    qed
  qed
qed simp

lemma SortContentReader_single: "SortContentReaderByCalculatedKey ([a], []) (\<lambda>r. Inr (f r)) True = Inr [a]"
proof -
  obtain out where out: "SortContentReaderByCalculatedKey ([a], []) (\<lambda>r. Inr (f r)) True = Inr out"
    "sorted_wrt (\<lambda>x y. f x < f y) out" "\<And>k. List.find (\<lambda>r. f r = k) out = List.find (\<lambda>r. f r = k) [a]"
    using SortContentReaderByCalculatedKey_spec[of "[a]" f True] by (auto simp: in_order_def key_before_def)
  obtain x xs where x: "out = x # xs" using out(3)[of "f a"] by (cases out) auto
  have "x = a" using out(3)[of "f x"] x by (auto split: if_splits)
  moreover have "xs = []"
  proof (cases xs)
    case (Cons y ys)
    then have "f x < f y" "List.find (\<lambda>r. f r = f y) out = Some y" using out(2) x by auto
    then show ?thesis using out(3)[of "f y"] \<open>x = a\<close> by (auto split: if_splits)
  qed
  ultimately show ?thesis using out(1) x by simp
qed

text \<open>C33: once a bundle was validated, a file is downloaded only when the verified bundle of its group lists its
  path with its checksum, or when its checksum is empty and the bundle lists none for it.\<close>

theorem produceTasks_verified:
  assumes "validators \<noteq> []" "item \<in> set (file_items (fst (produceTasks re validators params reader)))"
  shows "\<exists>artifactsMap. map_of validators (Bundle (dl_CommonParams params)) = Some artifactsMap \<and>
    (case artifactsMap (path_join [Repo item, Path item, Name item]) of None \<Rightarrow> ri_Sha256 item = [] | Some c \<Rightarrow> ri_Sha256 item = c)"
proof (cases "SortContentReaderByCalculatedKey reader (getSortKey re params) True")
  case (Inr out)
  obtain complete st where run: "produce_loop params validators out no_tasks = (complete, st)" by (metis surj_pair)
  have "folders_ok params no_tasks" by (simp add: folders_ok_def no_tasks_def)
  moreover have "ps_produced no_tasks = []" by (simp add: no_tasks_def)
  ultimately have st: "\<forall>item\<in>set (file_items (ps_produced st)). rbGpgValidate validators (Bundle (dl_CommonParams params)) item = None"
      "folders_ok params st"
    using produce_loop_verified[OF assms(1), of no_tasks params out] by (simp_all add: run)
  have "file_items (fst (produceTasks re validators params reader)) = file_items (ps_produced st)"
    using folder_tasks[OF st(2)] by (simp add: produceTasks_def Inr run)
  then have "rbGpgValidate validators (Bundle (dl_CommonParams params)) item = None" using assms(2) st(1) by simp
  then show ?thesis by (auto simp: rbGpgValidate_def VerifyArtifact_def Let_def split: option.splits if_splits)
next
  case (Inl e)
  then show ?thesis using assms(2) by (simp add: produceTasks_def)
qed

theorem produceTasks_verified_witness:
  "let a = zero_item\<lparr>Repo := ''r'', Path := ''x'', Name := ''f'', Type := ''file'', ri_Sha256 := ''s''\<rparr>
   in (\<lambda>_. Some ''s'') (path_join [Repo a, Path a, Name a]) = Some (ri_Sha256 a) \<and>
     a \<in> set (file_items (fst (produceTasks no_match [([], \<lambda>_. Some ''s'')] to_folder ([a], []))))"
proof -
  let ?a = "zero_item\<lparr>Repo := ''r'', Path := ''x'', Name := ''f'', Type := ''file'', ri_Sha256 := ''s''\<rparr>"
  have key: "getSortKey no_match to_folder = (\<lambda>item. Inr (path_join [''d'', Name item]))" using to_folder_key by blast
  have "SortContentReaderByCalculatedKey ([?a], []) (\<lambda>item. Inr (path_join [''d'', Name item])) True = Inr [?a]"
    by (rule SortContentReader_single)
  moreover have "rbGpgValidate [([], \<lambda>_. Some ''s'')] (Bundle (dl_CommonParams to_folder)) ?a = None"
    by (simp add: rbGpgValidate_def VerifyArtifact_def to_folder_def zero_params_def Let_def)
  ultimately have "fst (produceTasks no_match [([], \<lambda>_. Some ''s'')] to_folder ([?a], [])) = [AddTask to_folder (download_data to_folder ?a)]"
    by (simp add: produceTasks_def key no_tasks_def addCreateDirsTasks_def dirs_to_create_def sort_descending_def)
  then have "?a \<in> set (file_items (fst (produceTasks no_match [([], \<lambda>_. Some ''s'')] to_folder ([?a], []))))"
    by (simp add: download_data_def)
  then show ?thesis using produceTasks_verified[of "[([], \<lambda>_. Some ''s'')]" ?a no_match to_folder "([?a], [])"]
    by (simp add: Let_def)
qed


section \<open>Running a task\<close>

text \<open>The local system apart from regular files: \<open>remove_symlink\<close> is \<open>removeIfSymlink\<close>, \<open>make_symlink\<close> is
  \<open>createLocalSymlink\<close> with the path and name of the link, its target, whether it is validated and the
  checksum of the target, \<open>make_dir\<close> creates a folder. \<open>view\<close> tells how a download in chunks unfolds: the worlds
  of its go routines, how many are started, and the world afterwards.\<close>

record 'w local_env =
  le_files :: file_env
  remove_symlink :: "string \<Rightarrow> fs \<Rightarrow> string option \<times> fs"
  make_symlink :: "string \<Rightarrow> string \<Rightarrow> string \<Rightarrow> bool \<Rightarrow> string \<Rightarrow> fs \<Rightarrow> string option \<times> fs"
  make_dir :: "string \<Rightarrow> fs \<Rightarrow> string option \<times> fs"
  view :: "'w \<Rightarrow> (nat \<Rightarrow> 'w) \<times> nat \<times> 'w"

definition IsEqualToLocalFile :: "file_env \<Rightarrow> string \<Rightarrow> string \<Rightarrow> string \<Rightarrow> fs \<Rightarrow> bool" where
  "IsEqualToLocalFile env localFilePath md5 sha1 fs =
     (case fs localFilePath of None \<Rightarrow> False | Some content \<Rightarrow> md5_hex env content = md5 \<and> sha1_hex env content = sha1)"

definition isFileAcceptRange :: "nat \<Rightarrow> 'w HttpClient \<Rightarrow> HttpClientDetails \<Rightarrow> DownloadFileDetails \<Rightarrow> 'w \<Rightarrow> (bool result \<times> 'w) option" where
  "isFileAcceptRange n jc httpClientsDetails details w =
     (case IsAcceptRanges n jc (DownloadPath details) httpClientsDetails w of
        None \<Rightarrow> None
      | Some ((accept, resp, err), w) \<Rightarrow>
          Some (case (err, resp) of
                  (Some e, _) \<Rightarrow> Inl (Err (error_text e))
                | (None, None) \<Rightarrow> Inl (Panic ''nil pointer dereference'')
                | (None, Some r) \<Rightarrow> (case CheckResponseStatus r [200] of Some e \<Rightarrow> Inl (Err e) | None \<Rightarrow> Inr accept), w))"

definition bulk_download :: "DownloadParams \<Rightarrow> DownloadFileDetails \<Rightarrow> bool" where
  "bulk_download downloadParams details \<longleftrightarrow>
     dl_SplitCount downloadParams = 0 \<or> MinSplitSize downloadParams < 0 \<or> MinSplitSize downloadParams * 1000 > dfd_Size details"

text \<open>\<open>BypassArchiveInspection\<close> is not passed on.\<close>

definition split_flags :: "DownloadParams \<Rightarrow> DownloadFileDetails \<Rightarrow> ConcurrentDownloadFlags" where
  "split_flags downloadParams details =
     \<lparr>cf_FileName = FileName details, cf_DownloadPath = DownloadPath details, cf_RelativePath = RelativePath details,
      cf_LocalFileName = LocalFileName details, cf_LocalPath = LocalPath details, cf_ExpectedSha1 = ExpectedSha1 details,
      FileSize = dfd_Size details, SplitCount = dl_SplitCount downloadParams, Explode = dl_Explode downloadParams,
      BypassArchiveInspection = False, cf_SkipChecksum = dl_SkipChecksum downloadParams\<rparr>"

text \<open>\<open>DownloadService.downloadFile\<close>\<close>

definition service_downloadFile :: "nat \<Rightarrow> 'w HttpClient \<Rightarrow> 'w local_env \<Rightarrow> HttpClientDetails \<Rightarrow> DownloadFileDetails \<Rightarrow> string \<Rightarrow>
    DownloadParams \<Rightarrow> 'w \<times> fs \<Rightarrow> (go_error option \<times> 'w \<times> fs) option" where
  "service_downloadFile n jc env httpClientsDetails details logMsgPrefix downloadParams ws =
     (case (if bulk_download downloadParams details then Some (Inr True, fst ws)
            else map_option (\<lambda>(accept, w). (and_then accept (\<lambda>a. Inr (\<not> a)), w)) (isFileAcceptRange n jc httpClientsDetails details (fst ws))) of
        None \<Rightarrow> None
      | Some (Inl e, w) \<Rightarrow> Some (Some e, w, snd ws)
      | Some (Inr True, w) \<Rightarrow>
          (case DownloadFileWithProgress n jc (le_files env) details logMsgPrefix httpClientsDetails (dl_Explode downloadParams)
                  (dl_BypassArchiveInspection downloadParams) (w, snd ws) of
             None \<Rightarrow> None
           | Some ((resp, err), ws) \<Rightarrow>
               Some (case (err, resp) of
                       (Some e, _) \<Rightarrow> Some (Err (error_text e))
                     | (None, None) \<Rightarrow> Some (Panic ''nil pointer dereference'')
                     | (None, Some r) \<Rightarrow> map_option Err (CheckResponseStatus r [200]), ws))
      | Some (Inr False, w) \<Rightarrow>
          let (views, started, w) = view env w
          in (case DownloadFileConcurrently n jc (le_files env) (split_flags downloadParams details) logMsgPrefix httpClientsDetails
                     views started (snd ws) of
                None \<Rightarrow> None
              | Some (Inl e, fs) \<Rightarrow> Some (Some e, w, fs)
              | Some (Inr r, fs) \<Rightarrow> Some (map_option Err (CheckResponseStatus r [206]), w, fs)))"

definition downloadFileIfNeeded :: "nat \<Rightarrow> 'w HttpClient \<Rightarrow> 'w local_env \<Rightarrow> HttpClientDetails \<Rightarrow> string \<Rightarrow> string \<Rightarrow> string \<Rightarrow> string \<Rightarrow>
    DownloadData \<Rightarrow> DownloadParams \<Rightarrow> 'w \<times> fs \<Rightarrow> (go_error option \<times> 'w \<times> fs) option" where
  "downloadFileIfNeeded n jc env httpClientsDetails downloadPath localPath localFileName logMsgPrefix downloadData downloadParams ws =
     (if IsEqualToLocalFile (le_files env) (path_join [localPath, localFileName]) (Actual_Md5 (Dependency downloadData))
           (Actual_Sha1 (Dependency downloadData)) (snd ws)
      then if dl_Explode downloadParams
           then let (e, fs) = ExtractArchive (le_files env) localPath localFileName (Name (Dependency downloadData))
                                (dl_BypassArchiveInspection downloadParams) (snd ws)
                in Some (map_option Err e, fst ws, fs)
           else Some (None, ws)
      else service_downloadFile n jc env httpClientsDetails
             (createDownloadFileDetails downloadPath localPath localFileName downloadData (dl_SkipChecksum downloadParams))
             logMsgPrefix downloadParams ws)"

definition task_result :: "bool \<Rightarrow> string option \<Rightarrow> go_error + bool" where
  "task_result counted err = (case err of Some e \<Rightarrow> Inl (Err e) | None \<Rightarrow> Inr counted)"

text \<open>The task of one item: an error, or whether a success is counted.\<close>

definition download_task :: "nat \<Rightarrow> 'w HttpClient \<Rightarrow> 'w local_env \<Rightarrow> HttpClientDetails \<Rightarrow> (string \<Rightarrow> string result) \<Rightarrow> regexp_env \<Rightarrow> bool \<Rightarrow> nat \<Rightarrow>
    DownloadParams \<Rightarrow> DownloadData \<Rightarrow> 'w \<times> fs \<Rightarrow> ((go_error + bool) \<times> 'w \<times> fs) option" where
  "download_task n jc env httpClientsDetails artifact_url re dryRun threadId downloadParams downloadData ws =
     (let item = Dependency downloadData
      in (case artifact_url (GetItemRelativePath item) of
           Inl e \<Rightarrow> Some (Inl e, ws)
         | Inr downloadPath \<Rightarrow>
             if dryRun then Some (Inr True, ws)
             else (case local_target re (dd_DownloadPath downloadData) (dd_Target downloadData) (dd_Flat downloadData) item of
                    Inl e \<Rightarrow> Some (Inl e, ws)
                  | Inr (localPath, localFileName) \<Rightarrow>
                      if Type item = ''folder''
                      then let (e, fs) = make_dir env (path_join [localPath, localFileName]) (snd ws)
                           in Some (task_result False e, fst ws, fs)
                      else (case remove_symlink env (path_join [localPath, localFileName]) (snd ws) of
                             (Some e, fs) \<Rightarrow> Some (Inl (Err e), fst ws, fs)
                           | (None, fs) \<Rightarrow>
                               let symlinkArtifact = getArtifactSymlinkPath (Properties item)
                               in if dl_Symlink downloadParams \<and> symlinkArtifact \<noteq> []
                                  then let (e, fs) = make_symlink env localPath localFileName symlinkArtifact (ValidateSymlink downloadParams)
                                                       (getArtifactSymlinkChecksum (Properties item)) fs
                                       in Some (task_result True e, fst ws, fs)
                                  else map_option (\<lambda>(e, ws). ((case e of Some e \<Rightarrow> Inl e | None \<Rightarrow> Inr True), ws))
                                         (downloadFileIfNeeded n jc env httpClientsDetails downloadPath localPath localFileName
                                            (GetLogMsgPrefix (int threadId) dryRun) downloadData downloadParams (fst ws, fs))))))"

text \<open>The tasks that end, in their order, with what they returned, and the errors of the producer in between;
  \<open>totalTasks\<close> is the count of the producer. The counters of the threads are those of \<open>run_events\<close>.\<close>

definition DownloadFiles :: "nat \<Rightarrow> nat \<Rightarrow> (go_error + bool) task_event list \<Rightarrow> (int \<times> int \<times> go_error option) result" where
  "DownloadFiles threads totalTasks events =
     and_then (run_events id threads events) (\<lambda>(result, errorsQueue).
       let totalSuccess = int (SumIntArray (SuccessCount result))
       in Inr (totalSuccess, int totalTasks - totalSuccess, fst (GetError errorsQueue)))"

section \<open>What a download does to the files\<close>

text \<open>The server serves the whole file in the world \<open>w\<close>.\<close>

definition serves_file :: "'w HttpClient \<Rightarrow> HttpClientDetails \<Rightarrow> string \<Rightarrow> string \<Rightarrow> 'w \<Rightarrow> bool" where
  "serves_file jc details url content w \<longleftrightarrow>
     (\<exists>k resp. k \<le> nat (hc_retries jc) \<and> (\<forall>j<k. \<not> served (answer jc False (request_of jc details ''GET'' url None) w j)) \<and>
       answer jc False (request_of jc details ''GET'' url None) w k = Answered resp \<and> StatusCode resp = 200 \<and>
       Body resp = (content, None))"

lemma Send_served:
  fixes details :: HttpClientDetails
  assumes "ctx jc = None" "NewRequest_error jc meth url = None" "0 \<le> hc_retries jc" "meth \<noteq> ''POST''"
    "k \<le> nat (hc_retries jc)" "\<forall>j<k. \<not> served (answer jc False (request_of jc details meth url None) w j)"
    "answer jc False (request_of jc details meth url None) w k = Answered resp" "StatusCode resp < 500"
  shows "Send (Suc n) jc meth url None True closeBody details pre w =
      Some ((Some resp, if closeBody then fst (Body resp) else [], [], None), world_sent jc False (request_of jc details meth url None) w (Suc k))"
proof -
  have "List.find (\<lambda>i. served (answer jc False (request_of jc details meth url None) w i)) [0..<Suc (nat (hc_retries jc))] = Some k"
    using assms by (intro find_upt_first) simp_all
  then show ?thesis
    using Send_first[OF assms(1,4,2,3), where details = details and content = None and w = w and n = n
        and closeBody = closeBody and pre = pre] assms(7) by (simp del: upt_Suc)
qed

lemma downloadFile_served:
  assumes "ctx jc = None" "NewRequest_error jc ''GET'' (DownloadPath details) = None" "0 \<le> hc_retries jc"
    "serves_file jc hcd (DownloadPath details) content w"
    "create_error env (CreateFilePath (LocalPath details) (LocalFileName details)) = None"
    "checksum_ok env (ExpectedSha1 details) (SkipChecksum details) content"
  shows "\<exists>resp w'. DownloadFileWithProgress (Suc n) jc env details pre hcd False b (w, fs) =
      Some ((Some resp, None), w', fs(CreateFilePath (LocalPath details) (LocalFileName details) \<mapsto> content)) \<and> StatusCode resp = 200"
proof -
  obtain k resp where k: "k \<le> nat (hc_retries jc)" "\<forall>j<k. \<not> served (answer jc False (request_of jc hcd ''GET'' (DownloadPath details) None) w j)"
      "answer jc False (request_of jc hcd ''GET'' (DownloadPath details) None) w k = Answered resp"
    and resp: "StatusCode resp = 200" "Body resp = (content, None)" using assms(4) unfolding serves_file_def by blast
  have "saveToFile env details resp fs = (None, fs(CreateFilePath (LocalPath details) (LocalFileName details) \<mapsto> content))"
    using assms(5,6) by (auto simp: saveToFile_def resp checksum_ok_def Let_def)
  then have "doDownloadFile (Suc n) jc env details True hcd False b (w, fs) =
      Some ((Some resp, [], None), world_sent jc False (request_of jc hcd ''GET'' (DownloadPath details) None) w (Suc k),
            fs(CreateFilePath (LocalPath details) (LocalFileName details) \<mapsto> content))"
    using Send_served[OF assms(1,2,3) _ k, of n False "[]"] resp
    by (simp add: doDownloadFile_def sendGetForFileDownload_def sendGetLeaveBodyOpen_def del: Send.simps)
  then show ?thesis
    using assms(3) resp
    by (simp add: DownloadFileWithProgress_def downloadFile_def Execute_def retry_loop.simps download_handler_def retry_on_server_error_def)
qed


text \<open>The server serves the file in the way the service asks for it: whole, or, when the file is large enough to
  be split and the server answers a HEAD request that it accepts ranges, in chunks.\<close>

definition serves_download :: "'w HttpClient \<Rightarrow> 'w local_env \<Rightarrow> HttpClientDetails \<Rightarrow> DownloadParams \<Rightarrow> DownloadFileDetails \<Rightarrow> string \<Rightarrow> 'w \<Rightarrow> bool" where
  "serves_download jc env hcd params details content w \<longleftrightarrow>
     (if bulk_download params details then serves_file jc hcd (DownloadPath details) content w
      else \<exists>k resp. k \<le> nat (hc_retries jc) \<and>
        (\<forall>j<k. \<not> served (answer jc False (request_of jc hcd ''HEAD'' (DownloadPath details) None) w j)) \<and>
        answer jc False (request_of jc hcd ''HEAD'' (DownloadPath details) None) w k = Answered resp \<and> StatusCode resp = 200 \<and>
        (let w1 = world_sent jc False (request_of jc hcd ''HEAD'' (DownloadPath details) None) w (Suc k); (views, started, w2) = view env w1
         in if ResponseHeader resp ''Accept-Ranges'' = ''bytes''
            then 0 < dl_SplitCount params \<and> dl_SplitCount params \<le> dfd_Size details \<and> started = nat (dl_SplitCount params) \<and>
              no_range hcd \<and> (\<forall>i<nat (dl_SplitCount params). serves_ranges jc hcd (DownloadPath details) content (views i))
            else serves_file jc hcd (DownloadPath details) content w1))"

lemma isFileAcceptRange_served:
  assumes "ctx jc = None" "NewRequest_error jc ''HEAD'' (DownloadPath details) = None" "0 \<le> hc_retries jc"
    "k \<le> nat (hc_retries jc)" "\<forall>j<k. \<not> served (answer jc False (request_of jc hcd ''HEAD'' (DownloadPath details) None) w j)"
    "answer jc False (request_of jc hcd ''HEAD'' (DownloadPath details) None) w k = Answered resp" "StatusCode resp = 200"
  shows "isFileAcceptRange (Suc n) jc hcd details w =
    Some (Inr (ResponseHeader resp ''Accept-Ranges'' = ''bytes''),
          world_sent jc False (request_of jc hcd ''HEAD'' (DownloadPath details) None) w (Suc k))"
  using Send_served[OF assms(1,2,3) _ assms(4,5,6), of n True "[]"] assms(7)
  by (simp add: isFileAcceptRange_def IsAcceptRanges_def SendHead_def send_body_def CheckResponseStatus_def del: Send.simps)

lemma service_downloadFile_served:
  assumes "ctx jc = None" "\<forall>meth. NewRequest_error jc meth (DownloadPath details) = None" "0 \<le> hc_retries jc"
    "serves_download jc env hcd params details content w" "\<not> dl_Explode params" "int (length content) = dfd_Size details"
    "create_error (le_files env) (CreateFilePath (LocalPath details) (LocalFileName details)) = None"
    "SkipChecksum details = dl_SkipChecksum params" "checksum_ok (le_files env) (ExpectedSha1 details) (SkipChecksum details) content"
  shows "\<exists>w'. service_downloadFile (Suc n) jc env hcd details pre params (w, fs) =
    Some (None, w', fs(CreateFilePath (LocalPath details) (LocalFileName details) \<mapsto> content))"
proof -
  let ?path = "CreateFilePath (LocalPath details) (LocalFileName details)"
  have get: "NewRequest_error jc ''GET'' (DownloadPath details) = None" and head: "NewRequest_error jc ''HEAD'' (DownloadPath details) = None"
    using assms(2) by blast+
  have bulk: "\<exists>resp w'. DownloadFileWithProgress (Suc n) jc (le_files env) details pre hcd (dl_Explode params) b (w, fs) =
      Some ((Some resp, None), w', fs(?path \<mapsto> content)) \<and> StatusCode resp = 200" if "serves_file jc hcd (DownloadPath details) content w" for b w
    using downloadFile_served[OF assms(1) get assms(3) that assms(7,9)] assms(5) by simp
  show ?thesis
  proof (cases "bulk_download params details")
    case True
    then have "serves_file jc hcd (DownloadPath details) content w" using assms(4) by (simp add: serves_download_def)
    from bulk[OF this, of "dl_BypassArchiveInspection params"] True show ?thesis
      by (auto simp: service_downloadFile_def CheckResponseStatus_def)
  next
    case False
    let ?req = "request_of jc hcd ''HEAD'' (DownloadPath details) None"
    obtain k resp where k: "k \<le> nat (hc_retries jc)" "\<forall>j<k. \<not> served (answer jc False ?req w j)" "answer jc False ?req w k = Answered resp"
        "StatusCode resp = 200"
      and rest: "let w1 = world_sent jc False ?req w (Suc k); (views, started, w2) = view env w1
         in if ResponseHeader resp ''Accept-Ranges'' = ''bytes''
            then 0 < dl_SplitCount params \<and> dl_SplitCount params \<le> dfd_Size details \<and> started = nat (dl_SplitCount params) \<and>
              no_range hcd \<and> (\<forall>i<nat (dl_SplitCount params). serves_ranges jc hcd (DownloadPath details) content (views i))
            else serves_file jc hcd (DownloadPath details) content w1"
      using assms(4) False unfolding serves_download_def by auto
    define w1 where "w1 = world_sent jc False ?req w (Suc k)"
    obtain views started w2 where v: "view env w1 = (views, started, w2)" by (metis surj_pair)
    note accept = isFileAcceptRange_served[OF assms(1) head assms(3) k(1,2,3,4), of n, folded w1_def]
    show ?thesis
    proof (cases "ResponseHeader resp ''Accept-Ranges'' = ''bytes''")
      case True
      then have split: "0 < dl_SplitCount params" "started = nat (dl_SplitCount params)" "dl_SplitCount params \<le> dfd_Size details" "no_range hcd"
        "\<forall>i<nat (dl_SplitCount params). serves_ranges jc hcd (DownloadPath details) content (views i)"
        using rest unfolding w1_def[symmetric] v Let_def by auto
      have chunks: "\<forall>i<nat (dl_SplitCount params). case chunk_bounds (dfd_Size details) (dl_SplitCount params) (int i) of (start, end') \<Rightarrow>
          chunk_served jc (split_flags params details) hcd content start end' (views i)"
        using chunks_served[of hcd "split_flags params details" content jc views] split assms(6) by (simp add: split_flags_def)
      have fl: "local_file (split_flags params details) = ?path" by (simp add: local_file_def split_flags_def)
      have "\<exists>resp. DownloadFileConcurrently (Suc n) jc (le_files env) (split_flags params details) pre hcd views
          (nat (SplitCount (split_flags params details))) fs = Some (Inr resp, fs(local_file (split_flags params details) \<mapsto> content)) \<and> StatusCode resp = 206"
        using assms(1,3,5,6,7,8,9) get split chunks fl by (intro DownloadFileConcurrently_served) (simp_all add: split_flags_def)
      then obtain r where "DownloadFileConcurrently (Suc n) jc (le_files env) (split_flags params details) pre hcd views started fs =
          Some (Inr r, fs(?path \<mapsto> content))" "StatusCode r = 206" unfolding fl split(2) by (auto simp: split_flags_def)
      then show ?thesis using False True accept v by (simp add: service_downloadFile_def CheckResponseStatus_def)
    next
      case whole: False
      then have "serves_file jc hcd (DownloadPath details) content w1" using rest unfolding w1_def[symmetric] v Let_def by simp
      from bulk[OF this, of "dl_BypassArchiveInspection params"] False whole accept show ?thesis
        by (auto simp: service_downloadFile_def CheckResponseStatus_def)
    qed
  qed
qed



definition whole_client :: "nat HttpClient" where
  "whole_client = \<lparr>http_do = (\<lambda>_ _ w. (Answered \<lparr>StatusCode = 200, Status = ''200'', ResponseHeader = (\<lambda>_. []), Body = (''abc'', None)\<rparr>, Suc w)),
     NewRequest_error = (\<lambda>_ _. None), userAgent = [], ctx = None, hc_retries = 3, hc_retryWaitMilliSecs = 0\<rparr>"

definition plain_local :: "nat local_env" where
  "plain_local = \<lparr>le_files = plain_env, remove_symlink = (\<lambda>_ fs. (None, fs)), make_symlink = (\<lambda>_ _ _ _ _ fs. (None, fs)),
     make_dir = (\<lambda>_ fs. (None, fs)), view = (\<lambda>w. (\<lambda>_. w, 0, w))\<rparr>"


section \<open>Counting\<close>

text \<open>In a dry run a folder counts as a success, although it is not counted as a task: the number of
  failures can be negative.\<close>

lemma download_task_dry_run: "artifact_url (GetItemRelativePath (Dependency downloadData)) = Inr u \<Longrightarrow>
    download_task n jc env hcd artifact_url re True threadId params downloadData ws = Some (Inr True, ws)"
  by (simp add: download_task_def)

lemma DownloadFiles_negative: "DownloadFiles 1 0 [Task 0 (Inr True)] = Inr (1, -1, None)"
  by code_simp

lemma download_task_folder:
  "Type (Dependency downloadData) = ''folder'' \<Longrightarrow>
    download_task n jc env hcd artifact_url re False threadId params downloadData ws \<noteq> Some (Inr True, ws')"
  by (auto simp: download_task_def task_result_def Let_def split: sum.splits prod.splits option.splits)

end
