(* ===== verification/Collect.thy ===== *)
theory Collect
  imports Specs Results
begin

text \<open>
  Collecting the local files of an upload: \<^verbatim>\<open>artifactory/services/fspatterns/utils.go\<close>, the existence
  tests of \<^verbatim>\<open>utils/io/fileutils/files.go\<close>, and \<open>CollectFilesForUpload\<close> of
  \<^verbatim>\<open>artifactory/services/upload.go\<close> with what it calls.

  The local file system is a parameter: \<open>lstat\<close> gives the node of a path, \<open>stat\<close> the node with links
  followed, \<open>list_files\<close> the paths below a root (\<open>ListFilesRecursiveWalkIntoDirSymlink\<close> and \<open>ListFiles\<close>). A path
  without a node does not exist; other errors of \<open>Lstat\<close> and \<open>Stat\<close> are left out. So are the regular
  expressions: \<open>compile\<close> gives the submatches of a path, none when the path does not match.
\<close>

section \<open>The local file system\<close>

datatype node = Regular string | Directory | Link string

record local_fs =
  lstat :: "string \<rightharpoonup> node"
  stat :: "string \<rightharpoonup> node"
  list_files :: "string \<Rightarrow> bool \<Rightarrow> bool \<Rightarrow> bool \<Rightarrow> string list result"

definition GetFileInfo :: "local_fs \<Rightarrow> string \<Rightarrow> bool \<Rightarrow> node option" where
  "GetFileInfo fs path preserveSymLink = (if preserveSymLink then lstat fs path else stat fs path)"

definition IsPathExists :: "local_fs \<Rightarrow> string \<Rightarrow> bool \<Rightarrow> bool" where
  "IsPathExists fs path preserveSymLink \<longleftrightarrow> GetFileInfo fs path preserveSymLink \<noteq> None"

definition IsFileExists :: "local_fs \<Rightarrow> string \<Rightarrow> bool \<Rightarrow> bool" where
  "IsFileExists fs path preserveSymLink =
     (case GetFileInfo fs path preserveSymLink of None \<Rightarrow> False | Some n \<Rightarrow> n \<noteq> Directory)"

definition IsDirExists :: "local_fs \<Rightarrow> string \<Rightarrow> bool \<Rightarrow> bool" where
  "IsDirExists fs path preserveSymLink =
     (case GetFileInfo fs path preserveSymLink of None \<Rightarrow> False | Some n \<Rightarrow> n = Directory)"

fun IsFileSymlink :: "node \<Rightarrow> bool" where
  "IsFileSymlink (Link target) = True"
| "IsFileSymlink _ = False"

definition IsPathSymlink :: "local_fs \<Rightarrow> string \<Rightarrow> bool" where
  "IsPathSymlink fs path = (case lstat fs path of None \<Rightarrow> False | Some n \<Rightarrow> IsFileSymlink n)"

definition no_such_file :: "string \<Rightarrow> go_error" where
  "no_such_file path = Err (''lstat '' @ path @ '': no such file or directory'')"

definition GetFileSymlinkPath :: "local_fs \<Rightarrow> string \<Rightarrow> string result" where
  "GetFileSymlinkPath fs filePath =
     (case lstat fs filePath of
        None \<Rightarrow> Inl (no_such_file filePath)
      | Some (Link target) \<Rightarrow> Inr target
      | Some _ \<Rightarrow> Inr [])"

section \<open>Patterns\<close>

record Artifact =
  a_LocalPath :: string
  TargetPath :: string
  SymlinkTargetPath :: string
  TargetPathInArchive :: string

fun merge_parentheses :: "Parentheses list \<Rightarrow> Parentheses list \<Rightarrow> Parentheses list" where
  "merge_parentheses slice [] = slice"
| "merge_parentheses slice (v # vs) =
     (if v \<in> set slice then merge_parentheses slice vs else merge_parentheses (slice @ [v]) vs)"

definition getPlaceholderParentheses :: "string \<Rightarrow> string \<Rightarrow> string \<Rightarrow> ParenthesesSlice result" where
  "getPlaceholderParentheses pattern target archiveTarget =
     and_then (CreateParenthesesSlice pattern target) (\<lambda>targetParentheses.
     and_then (CreateParenthesesSlice pattern archiveTarget) (\<lambda>archiveTargetParentheses.
       Inr \<lparr>parens = merge_parentheses (parens targetParentheses) (parens archiveTargetParentheses)\<rparr>))"

text \<open>\<open>fspatterns.GetRootPath\<close>\<close>

definition existing_root :: "local_fs \<Rightarrow> (string \<Rightarrow> string) \<Rightarrow> string \<Rightarrow> string \<Rightarrow> string \<Rightarrow> PatternType \<Rightarrow> bool \<Rightarrow> string result" where
  "existing_root fs env pattern target archiveTarget patternType preserveSymLink =
     and_then (getPlaceholderParentheses pattern target archiveTarget) (\<lambda>placeholderParentheses.
       let rootPath = GetRootPath False env pattern patternType placeholderParentheses
       in if \<not> IsPathExists fs rootPath preserveSymLink then Inl (Err (''Path does not exist: '' @ rootPath)) else Inr rootPath)"

record regex_lib =
  EscapeSpecialChars :: "string \<Rightarrow> string"
  WildcardPatternToRegExp :: "string \<Rightarrow> string"
  compile :: "string \<Rightarrow> (string \<Rightarrow> string list) option"

fun exclude_loop :: "regex_lib \<Rightarrow> (string \<Rightarrow> string) \<Rightarrow> PatternType \<Rightarrow> bool \<Rightarrow> string list \<Rightarrow> string \<Rightarrow> string result" where
  "exclude_loop re env patternType recursive [] excludePathPattern = Inr excludePathPattern"
| "exclude_loop re env patternType recursive (singleExclusion # exclusions) excludePathPattern =
     (if length singleExclusion > 0
      then and_then (ConvertLocalPatternToRegexp (EscapeSpecialChars re) (WildcardPatternToRegExp re)
                       (ReplaceTildeWithUserHome False env singleExclusion) patternType) (\<lambda>s.
           let s = (if recursive \<and> has_suffix s ''/'' then s @ ''*'' else s)
           in exclude_loop re env patternType recursive exclusions (excludePathPattern @ ''('' @ s @ '')|''))
      else exclude_loop re env patternType recursive exclusions excludePathPattern)"

definition PrepareExcludePathPattern :: "regex_lib \<Rightarrow> (string \<Rightarrow> string) \<Rightarrow> CommonParams \<Rightarrow> string result" where
  "PrepareExcludePathPattern re env params =
     and_then (exclude_loop re env (cp_GetPatternType params) (Recursive params) (Exclusions params) []) (\<lambda>excludePathPattern.
       Inr (if length excludePathPattern > 0 then butlast excludePathPattern else excludePathPattern))"

definition isPathExcluded :: "regex_lib \<Rightarrow> string \<Rightarrow> string \<Rightarrow> bool result" where
  "isPathExcluded re path excludePathPattern =
     (if length excludePathPattern > 0
      then (case compile re excludePathPattern of
              None \<Rightarrow> Inl (Err ''error parsing regexp'')
            | Some submatches \<Rightarrow> Inr (submatches path \<noteq> []))
      else Inr False)"

text \<open>An error ends the loop with the paths found so far, which the caller drops.\<close>

fun filterFiles :: "regex_lib \<Rightarrow> string list \<Rightarrow> string \<Rightarrow> string list result" where
  "filterFiles re [] excludePathPattern = Inr []"
| "filterFiles re (f # files) excludePathPattern =
     (if f = ''.'' then filterFiles re files excludePathPattern
      else and_then (isPathExcluded re f excludePathPattern) (\<lambda>excludedPath.
           and_then (filterFiles re files excludePathPattern) (\<lambda>rest. Inr (if \<not> excludedPath then f # rest else rest))))"

definition fsp_ListFiles :: "regex_lib \<Rightarrow> local_fs \<Rightarrow> string \<Rightarrow> bool \<Rightarrow> bool \<Rightarrow> bool \<Rightarrow> string \<Rightarrow> string list result" where
  "fsp_ListFiles re fs rootPath isRecursive includeDirs isSymlink excludePathPattern =
     and_then (list_files fs rootPath isRecursive includeDirs (\<not> isSymlink)) (\<lambda>paths. filterFiles re paths excludePathPattern)"

text \<open>The submatches, and whether the path is uploaded as a folder.\<close>

definition SearchPatterns :: "local_fs \<Rightarrow> string \<Rightarrow> bool \<Rightarrow> bool \<Rightarrow> (string \<Rightarrow> string list) \<Rightarrow> string list \<times> bool" where
  "SearchPatterns fs path preserveSymlinks includeDirs FindStringSubmatch =
     (let isDir = IsDirExists fs path False;
          isSymlinkFlow = preserveSymlinks \<and> IsPathSymlink fs path
      in if isDir \<and> \<not> includeDirs \<and> \<not> isSymlinkFlow then ([], isDir)
         else (FindStringSubmatch path, if isSymlinkFlow then False else isDir))"

definition GetSingleFileToUpload :: "local_fs \<Rightarrow> string \<Rightarrow> string \<Rightarrow> bool \<Rightarrow> Artifact result" where
  "GetSingleFileToUpload fs rootPath targetPath flat =
     and_then (GetFileSymlinkPath fs rootPath) (\<lambda>symlinkPath.
       let uploadPath = (if \<not> has_suffix targetPath ''/'' then targetPath
                         else if flat then targetPath @ fst (GetFileAndDirFromPath rootPath)
                         else TrimPath (targetPath @ rootPath))
       in Inr \<lparr>a_LocalPath = rootPath, TargetPath = uploadPath, SymlinkTargetPath = symlinkPath, TargetPathInArchive = []\<rparr>)"

section \<open>Upload parameters\<close>

record UploadParams =
  up_CommonParams :: CommonParams
  Deb :: string
  BuildProps :: string
  up_Symlink :: bool
  ExplodeArchive :: bool
  up_Flat :: bool
  AddVcsProps :: bool
  MinChecksumDeploy :: int
  ChecksumsCalcEnabled :: bool
  Archive :: string
  up_TargetPathInArchive :: string

definition NewUploadParams :: UploadParams where
  "NewUploadParams = \<lparr>up_CommonParams = zero_params, Deb = [], BuildProps = [], up_Symlink = False, ExplodeArchive = False,
     up_Flat = False, AddVcsProps = False, MinChecksumDeploy = 10240, ChecksumsCalcEnabled = True, Archive = [],
     up_TargetPathInArchive = []\<rparr>"

record UploadData =
  ud_Artifact :: Artifact
  ud_TargetProps :: properties
  ud_BuildProps :: string
  IsDir :: bool

text \<open>Parameters of the collection: \<open>vcs\<close> gives the revision, URL and branch for a path (\<open>filepath.Abs\<close>, \<open>filepath.Dir\<close> and
  the cache of \<open>VcsDetails\<close>), \<open>sha1_of\<close> is the SHA1 of a content, \<open>getenv\<close> the environment.\<close>

record collect_env =
  ce_fs :: local_fs
  ce_regex :: regex_lib
  getenv :: "string \<Rightarrow> string"
  vcs :: "string \<Rightarrow> (string \<times> string \<times> string) result"
  sha1_of :: "string \<Rightarrow> string"

definition getVcsProps :: "collect_env \<Rightarrow> string \<Rightarrow> string result" where
  "getVcsProps env path =
     and_then (vcs env path) (\<lambda>(revision, url, branch).
       Inr ((if revision \<noteq> [] then '';vcs.revision='' @ revision else []) @
            (if url \<noteq> [] then '';vcs.url='' @ url else []) @
            (if branch \<noteq> [] then '';vcs.branch='' @ branch else [])))"

text \<open>The SHA1 is that of the file the link leads to.\<close>

definition createProperties :: "collect_env \<Rightarrow> Artifact \<Rightarrow> UploadParams \<Rightarrow> properties" where
  "createProperties env artifact uploadParams =
     (let artifactSymlink = SymlinkTargetPath artifact;
          artifactProps =
            (if up_Symlink uploadParams \<and> length artifactSymlink > 0
             then AddProperty ''symlink.dest'' artifactSymlink
                    (case stat (ce_fs env) (a_LocalPath artifact) of
                       Some (Regular content) \<Rightarrow> AddProperty ''symlink.destsha1'' (sha1_of env content) NewProperties
                     | _ \<Rightarrow> NewProperties)
             else NewProperties)
      in MergeProperties [TargetProps (up_CommonParams uploadParams), Some artifactProps])"

definition convertAntPatternToRegexp :: "collect_env \<Rightarrow> UploadParams \<Rightarrow> string result" where
  "convertAntPatternToRegexp env params =
     and_then (AddEscapingParentheses (Pattern (up_CommonParams params)) (Target (up_CommonParams params)) (up_TargetPathInArchive params))
       (\<lambda>pattern. ConvertLocalPatternToRegexp (EscapeSpecialChars (ce_regex env)) (WildcardPatternToRegExp (ce_regex env)) pattern
                    (cp_GetPatternType (up_CommonParams params)))"

definition convertPatternToRegexp :: "collect_env \<Rightarrow> UploadParams \<Rightarrow> string result" where
  "convertPatternToRegexp env params =
     and_then (ConvertLocalPatternToRegexp (EscapeSpecialChars (ce_regex env)) (WildcardPatternToRegExp (ce_regex env))
                 (Pattern (up_CommonParams params)) (cp_GetPatternType (up_CommonParams params)))
       (\<lambda>pattern. if \<not> Regexp (up_CommonParams params)
                  then AddEscapingParentheses pattern (Target (up_CommonParams params)) (up_TargetPathInArchive params)
                  else Inr pattern)"


section \<open>Collecting\<close>

definition getUploadTarget :: "string \<Rightarrow> string \<Rightarrow> bool \<Rightarrow> bool \<Rightarrow> string" where
  "getUploadTarget rootPath target isFlat placeholdersUsed =
     (if has_suffix target ''/''
      then if isFlat \<or> placeholdersUsed then target @ fst (GetFileAndDirFromPath rootPath)
           else target @ TrimPath rootPath
      else target)"

text \<open>The target of \<open>newUploadTaskData\<close>.\<close>

definition newUploadTaskData :: "collect_env \<Rightarrow> string \<Rightarrow> string list \<Rightarrow> UploadParams \<Rightarrow> bool \<Rightarrow> string result" where
  "newUploadTaskData env path groups uploadParams isRegexp =
     and_then (ReplacePlaceHolders groups (Target (up_CommonParams uploadParams)) isRegexp) (\<lambda>(target, placeholdersUsed).
     and_then (GetFileSymlinkPath (ce_fs env) path) (\<lambda>symlinkPath.
       Inr (getUploadTarget (if up_Symlink uploadParams \<or> symlinkPath = [] then path else symlinkPath) target
              (up_Flat uploadParams) placeholdersUsed)))"

definition createUploadTask :: "collect_env \<Rightarrow> string \<Rightarrow> string \<Rightarrow> bool \<Rightarrow> string list \<Rightarrow> UploadParams \<Rightarrow> bool \<Rightarrow> UploadData result" where
  "createUploadTask env target path isDir groups uploadParams isRegexp =
     and_then (GetFileSymlinkPath (ce_fs env) path) (\<lambda>symlinkPath.
     and_then (ReplacePlaceHolders groups (up_TargetPathInArchive uploadParams) isRegexp) (\<lambda>(targetPathInArchive, _).
       let artifact = \<lparr>a_LocalPath = path, TargetPath = target, SymlinkTargetPath = symlinkPath, TargetPathInArchive = targetPathInArchive\<rparr>;
           props = createProperties env artifact uploadParams
       in and_then (if AddVcsProps uploadParams then getVcsProps env path else Inr []) (\<lambda>vcsProps.
            Inr \<lparr>ud_Artifact = artifact, ud_TargetProps = props, ud_BuildProps = BuildProps uploadParams @ vcsProps, IsDir = isDir\<rparr>)))"

definition skipDirUpload :: "string list \<Rightarrow> string list \<Rightarrow> string \<Rightarrow> string \<Rightarrow> bool \<Rightarrow> bool" where
  "skipDirUpload targetFiles sourceDirs targetDir sourceDir includeDirs \<longleftrightarrow>
     HasPrefix targetFiles (targetDir @ ''/'') \<or>
     includeDirs \<and> length sourceDirs > 0 \<and> HasPrefix sourceDirs (sourceDir @ ''/'')"

text \<open>The loop over the paths: the tasks in order, and the error that ended it.\<close>

fun scan_loop :: "collect_env \<Rightarrow> UploadParams \<Rightarrow> (string \<Rightarrow> string list) \<Rightarrow> string list \<Rightarrow> string list \<Rightarrow> string list \<Rightarrow>
    UploadData list \<times> go_error option" where
  "scan_loop env uploadParams submatches [] uploadedTargets uploadedDirs = ([], None)"
| "scan_loop env uploadParams submatches (path # paths) uploadedTargets uploadedDirs =
     (let includeDirs = IncludeDirs (up_CommonParams uploadParams);
          isRegexp = Regexp (up_CommonParams uploadParams);
          (groups, isDir) = SearchPatterns (ce_fs env) path (up_Symlink uploadParams) includeDirs submatches
      in if length groups > 0
         then (case newUploadTaskData env path groups uploadParams isRegexp of
                 Inl e \<Rightarrow> ([], Some e)
               | Inr target \<Rightarrow>
                   if isDir \<and> skipDirUpload uploadedTargets uploadedDirs target path includeDirs
                   then scan_loop env uploadParams submatches paths uploadedTargets uploadedDirs
                   else (case createUploadTask env target path isDir groups uploadParams isRegexp of
                           Inl e \<Rightarrow> ([], Some e)
                         | Inr task \<Rightarrow>
                             let (tasks, err) = scan_loop env uploadParams submatches paths (uploadedTargets @ [target])
                                   (if isDir then uploadedDirs @ [path] else uploadedDirs)
                             in (task # tasks, err)))
         else scan_loop env uploadParams submatches paths uploadedTargets uploadedDirs)"

definition scanFilesByPattern :: "collect_env \<Rightarrow> UploadParams \<Rightarrow> string \<Rightarrow> UploadData list \<times> go_error option" where
  "scanFilesByPattern env uploadParams rootPath =
     (let common = up_CommonParams uploadParams
      in case and_then (PrepareExcludePathPattern (ce_regex env) (getenv env) common) (\<lambda>excludePathPattern.
                case compile (ce_regex env) (Pattern common) of
                  None \<Rightarrow> Inl (Err ''error parsing regexp'')
                | Some submatches \<Rightarrow>
                    and_then (fsp_ListFiles (ce_regex env) (ce_fs env) rootPath (Recursive common) (IncludeDirs common)
                                (up_Symlink uploadParams) excludePathPattern) (\<lambda>paths. Inr (submatches, paths))) of
           Inl e \<Rightarrow> ([], Some e)
         | Inr (submatches, paths) \<Rightarrow> scan_loop env uploadParams submatches (rev (sort paths)) [] [])"

definition single_file :: "collect_env \<Rightarrow> UploadParams \<Rightarrow> string \<Rightarrow> UploadData result" where
  "single_file env uploadParams rootPath =
     and_then (GetSingleFileToUpload (ce_fs env) rootPath (Target (up_CommonParams uploadParams)) (up_Flat uploadParams)) (\<lambda>artifact.
     and_then (if AddVcsProps uploadParams then getVcsProps env (a_LocalPath artifact) else Inr []) (\<lambda>vcsProps.
       Inr \<lparr>ud_Artifact = artifact, ud_TargetProps = createProperties env artifact uploadParams,
            ud_BuildProps = BuildProps uploadParams @ vcsProps, IsDir = False\<rparr>))"

definition CollectFilesForUpload :: "collect_env \<Rightarrow> UploadParams \<Rightarrow> UploadData list \<times> go_error option" where
  "CollectFilesForUpload env uploadParams =
     (let common = up_CommonParams uploadParams;
          target = (if \<not> str_contains (Target common) ''/'' then Target common @ ''/'' else Target common);
          common = common\<lparr>Target := target\<rparr>
      in if Archive uploadParams \<noteq> [] \<and> has_suffix target ''/''
         then ([], Some (Err (''an archive'' @ [CHR 0x27] @ ''s target cannot be a directory'')))
         else
           let common = common\<lparr>Pattern := ReplaceTildeWithUserHome False (getenv env) (Pattern common)\<rparr>;
               uploadParams = uploadParams\<lparr>up_CommonParams := common\<rparr>
           in case existing_root (ce_fs env) (getenv env) (Pattern common) target (up_TargetPathInArchive uploadParams)
                     (cp_GetPatternType common) (up_Symlink uploadParams) of
                Inl e \<Rightarrow> ([], Some e)
              | Inr rootPath \<Rightarrow>
                  if \<not> IsDirExists (ce_fs env) rootPath (up_Symlink uploadParams) \<or>
                     (IsPathSymlink (ce_fs env) rootPath \<and> up_Symlink uploadParams)
                  then (case single_file env uploadParams rootPath of Inl e \<Rightarrow> ([], Some e) | Inr data \<Rightarrow> ([data], None))
                  else (case (if cp_Ant common then convertAntPatternToRegexp env uploadParams else convertPatternToRegexp env uploadParams) of
                          Inl e \<Rightarrow> ([], Some e)
                        | Inr pattern \<Rightarrow>
                            scanFilesByPattern env (uploadParams\<lparr>up_CommonParams := common\<lparr>Pattern := pattern\<rparr>\<rparr>) rootPath))"

section \<open>What is collected\<close>

lemma HasPrefix_iff: "HasPrefix paths p \<longleftrightarrow> (\<exists>q\<in>set paths. has_prefix q p)"
  by (induction paths) auto


definition local_of :: "UploadData \<Rightarrow> string" where
  "local_of t = a_LocalPath (ud_Artifact t)"

definition target_of :: "UploadData \<Rightarrow> string" where
  "target_of t = TargetPath (ud_Artifact t)"

lemma createUploadTask_fields:
  "createUploadTask env target path isDir groups params isRegexp = Inr t \<Longrightarrow>
    local_of t = path \<and> target_of t = target \<and> IsDir t = isDir"
  by (auto simp: createUploadTask_def and_then_eq_Inr local_of_def target_of_def Let_def split: prod.splits)

text \<open>What the search finds in a path, and where it is uploaded to.\<close>

abbreviation found :: "collect_env \<Rightarrow> UploadParams \<Rightarrow> (string \<Rightarrow> string list) \<Rightarrow> string \<Rightarrow> string list \<times> bool" where
  "found env params submatches path \<equiv> SearchPatterns (ce_fs env) path (up_Symlink params) (IncludeDirs (up_CommonParams params)) submatches"

abbreviation upload_target :: "collect_env \<Rightarrow> UploadParams \<Rightarrow> (string \<Rightarrow> string list) \<Rightarrow> string \<Rightarrow> string result" where
  "upload_target env params submatches path \<equiv>
     newUploadTaskData env path (fst (found env params submatches path)) params (Regexp (up_CommonParams params))"


lemma scan_loop_cases:
  assumes "scan_loop env params submatches (path # paths) targets dirs = (tasks, None)"
  obtains (no_match) "fst (found env params submatches path) = []" "scan_loop env params submatches paths targets dirs = (tasks, None)"
  | (skipped) target where "snd (found env params submatches path)" "upload_target env params submatches path = Inr target"
      "skipDirUpload targets dirs target path (IncludeDirs (up_CommonParams params))"
      "scan_loop env params submatches paths targets dirs = (tasks, None)"
  | (uploaded) task rest where "fst (found env params submatches path) \<noteq> []"
      "upload_target env params submatches path = Inr (target_of task)"
      "local_of task = path" "IsDir task = snd (found env params submatches path)"
      "IsDir task \<Longrightarrow> \<not> skipDirUpload targets dirs (target_of task) path (IncludeDirs (up_CommonParams params))"
      "scan_loop env params submatches paths (targets @ [target_of task]) (if IsDir task then dirs @ [path] else dirs) = (rest, None)"
      "tasks = task # rest"
proof -
  obtain groups isDir where s: "found env params submatches path = (groups, isDir)" by (metis surj_pair)
  show thesis
  proof (cases "groups = []")
    case True
    then show thesis using assms s no_match by (auto simp: Let_def)
  next
    case False
    then obtain target where target: "upload_target env params submatches path = Inr target"
      using assms s by (auto simp: Let_def split: sum.splits)
    show thesis
    proof (cases "isDir \<and> skipDirUpload targets dirs target path (IncludeDirs (up_CommonParams params))")
      case True
      then show thesis using assms s target \<open>groups \<noteq> []\<close> skipped by (auto simp: Let_def)
    next
      case keep: False
      obtain task where task: "createUploadTask env target path isDir groups params (Regexp (up_CommonParams params)) = Inr task"
        using assms s target \<open>groups \<noteq> []\<close> keep by (auto simp: Let_def split: sum.splits)
      obtain rest where "scan_loop env params submatches paths (targets @ [target]) (if isDir then dirs @ [path] else dirs) = (rest, None)"
          "tasks = task # rest"
        using assms s target \<open>groups \<noteq> []\<close> keep task by (auto simp: Let_def split: prod.splits)
      then show thesis using createUploadTask_fields[OF task] s target \<open>groups \<noteq> []\<close> keep by (intro uploaded) auto
    qed
  qed
qed

lemma scan_loop_tasks:
  assumes "scan_loop env params submatches paths targets dirs = (tasks, None)" "t \<in> set tasks"
  shows "local_of t \<in> set paths \<and> fst (found env params submatches (local_of t)) \<noteq> [] \<and>
    upload_target env params submatches (local_of t) = Inr (target_of t) \<and> IsDir t = snd (found env params submatches (local_of t))"
  using assms
proof (induction paths arbitrary: targets dirs tasks)
  case (Cons path paths)
  from Cons.prems(1) show ?case
  proof (cases rule: scan_loop_cases)
    case no_match
    then show ?thesis using Cons.IH Cons.prems(2) by simp
  next
    case (skipped target)
    then show ?thesis using Cons.IH Cons.prems(2) by simp
  next
    case (uploaded task rest)
    then show ?thesis using Cons.IH[OF uploaded(6)] Cons.prems(2) by (cases "t = task") auto
  qed
qed simp

text \<open>What excuses a matched directory from being uploaded: something uploaded earlier lies below it.\<close>

definition covered :: "bool \<Rightarrow> string list \<Rightarrow> string list \<Rightarrow> string \<Rightarrow> string \<Rightarrow> bool" where
  "covered includeDirs targets dirs target path \<longleftrightarrow>
     (\<exists>q\<in>set targets. has_prefix q (target @ ''/'')) \<or> includeDirs \<and> (\<exists>d\<in>set dirs. has_prefix d (path @ ''/''))"

lemma skipDirUpload_iff: "skipDirUpload targets dirs target path b = covered b targets dirs target path"
  by (auto simp: skipDirUpload_def covered_def HasPrefix_iff)

lemma covered_mono: "covered b targets dirs target path \<Longrightarrow> set targets \<subseteq> set targets' \<Longrightarrow> set dirs \<subseteq> set dirs' \<Longrightarrow>
    covered b targets' dirs' target path"
  unfolding covered_def by blast

definition dir_tasks :: "UploadData list \<Rightarrow> UploadData list" where
  "dir_tasks tasks = filter IsDir tasks"

lemma scan_loop_complete:
  assumes "scan_loop env params submatches paths targets dirs = (tasks, None)"
    "path \<in> set paths" "fst (found env params submatches path) \<noteq> []"
  shows "path \<in> local_of ` set tasks \<or>
    snd (found env params submatches path) \<and>
    (\<exists>target. upload_target env params submatches path = Inr target \<and>
      covered (IncludeDirs (up_CommonParams params)) (targets @ map target_of tasks) (dirs @ map local_of (dir_tasks tasks)) target path)"
    (is "_ \<or> ?skip targets dirs tasks")
  using assms
proof (induction paths arbitrary: targets dirs tasks)
  case (Cons p paths)
  from Cons.prems(1) show ?case
  proof (cases rule: scan_loop_cases)
    case no_match
    then show ?thesis using Cons.IH Cons.prems by auto
  next
    case (skipped target)
    show ?thesis
    proof (cases "path = p")
      case True
      then show ?thesis using skipped covered_mono[of _ targets dirs target p] by (auto simp: skipDirUpload_iff)
    next
      case False
      then show ?thesis using Cons.IH[OF skipped(4)] Cons.prems by auto
    qed
  next
    case (uploaded task rest)
    show ?thesis
    proof (cases "path = p")
      case True
      then show ?thesis using uploaded(3,7) by auto
    next
      case False
      then have "path \<in> local_of ` set rest \<or> ?skip (targets @ [target_of task]) (if IsDir task then dirs @ [p] else dirs) rest"
        using Cons.IH[OF uploaded(6)] Cons.prems by auto
      then show ?thesis using uploaded(3,7) by (auto simp: dir_tasks_def)
    qed
  qed
qed simp

lemma below_greater: "has_prefix q (p @ ''/'') \<Longrightarrow> p < (q :: string)"
  by (induction p arbitrary: q) (case_tac q; auto)+

lemma scan_loop_antichain:
  assumes "scan_loop env params submatches paths targets dirs = (tasks, None)" "sorted_wrt (\<ge>) paths"
    "IncludeDirs (up_CommonParams params)"
  shows "(\<forall>t\<in>set (dir_tasks tasks). \<forall>d\<in>set dirs \<union> local_of ` set (dir_tasks tasks). \<not> has_prefix d (local_of t @ ''/''))"
  using assms(1,2)
proof (induction paths arbitrary: targets dirs tasks)
  case (Cons p paths)
  from Cons.prems(1) show ?case
  proof (cases rule: scan_loop_cases)
    case no_match
    then show ?thesis using Cons by simp
  next
    case (skipped target)
    then show ?thesis using Cons by simp
  next
    case (uploaded task rest)
    have later: "\<not> has_prefix (local_of t) (p @ ''/'')" if "t \<in> set rest" for t
      using below_greater[of "local_of t" p] scan_loop_tasks[OF uploaded(6) that] Cons.prems(2) by force
    have self: "\<not> has_prefix p (p @ ''/'')" using below_greater[of p p] by auto
    have now: "\<not> has_prefix d (p @ ''/'')" if "IsDir task" "d \<in> set dirs" for d
      using uploaded(5) that assms(3) by (auto simp: skipDirUpload_iff covered_def)
    have rest: "\<forall>t\<in>set (dir_tasks rest). \<forall>d\<in>set (if IsDir task then dirs @ [p] else dirs) \<union> local_of ` set (dir_tasks rest).
        \<not> has_prefix d (local_of t @ ''/'')"
      using Cons.IH[OF uploaded(6)] Cons.prems(2) by simp
    show ?thesis using rest later self now uploaded(3,7) by (auto simp: dir_tasks_def split: if_splits)
  qed
qed (simp add: dir_tasks_def)


lemma scan_loop_sorted:
  assumes "scan_loop env params submatches paths targets dirs = (tasks, None)" "sorted_wrt (\<ge>) paths"
  shows "sorted_wrt (\<ge>) (map local_of tasks)"
  using assms
proof (induction paths arbitrary: targets dirs tasks)
  case (Cons p paths)
  from Cons.prems(1) show ?case
  proof (cases rule: scan_loop_cases)
    case (uploaded task rest)
    then show ?thesis using Cons.IH[OF uploaded(6)] Cons.prems(2) scan_loop_tasks[OF uploaded(6)] by auto
  qed (use Cons in auto)
qed simp

lemma scanFilesByPattern_scan:
  assumes "scanFilesByPattern env params root = (tasks, None)"
  obtains exclude submatches paths where
    "PrepareExcludePathPattern (ce_regex env) (getenv env) (up_CommonParams params) = Inr exclude"
    "compile (ce_regex env) (Pattern (up_CommonParams params)) = Some submatches"
    "fsp_ListFiles (ce_regex env) (ce_fs env) root (Recursive (up_CommonParams params))
       (IncludeDirs (up_CommonParams params)) (up_Symlink params) exclude = Inr paths"
    "scan_loop env params submatches (rev (sort paths)) [] [] = (tasks, None)"
  using assms unfolding scanFilesByPattern_def Let_def
  by (auto simp: and_then_def split: sum.splits option.splits)

text \<open>C4: the files collected for an upload. When the scan of a root by a pattern ends without an error, every task is
  for a listed path that the pattern matches, with the target that the placeholders of the pattern give; every
  matching path has a task, except a directory below which, by its target or (with \<open>includeDirs\<close>) by its local path,
  something else is uploaded; the tasks come in descending order of their paths, so that with \<open>includeDirs\<close> no folder is
  uploaded that lies above another uploaded folder.
\<close>
theorem scanFilesByPattern_correct:
  assumes "scanFilesByPattern env params root = (tasks, None)"
  shows "\<exists>exclude submatches paths.
    PrepareExcludePathPattern (ce_regex env) (getenv env) (up_CommonParams params) = Inr exclude \<and>
    compile (ce_regex env) (Pattern (up_CommonParams params)) = Some submatches \<and>
    fsp_ListFiles (ce_regex env) (ce_fs env) root (Recursive (up_CommonParams params))
      (IncludeDirs (up_CommonParams params)) (up_Symlink params) exclude = Inr paths \<and>
    (\<forall>t\<in>set tasks. local_of t \<in> set paths \<and> fst (found env params submatches (local_of t)) \<noteq> [] \<and>
       upload_target env params submatches (local_of t) = Inr (target_of t) \<and> IsDir t = snd (found env params submatches (local_of t))) \<and>
    (\<forall>path\<in>set paths. fst (found env params submatches path) \<noteq> [] \<longrightarrow> path \<in> local_of ` set tasks \<or>
       snd (found env params submatches path) \<and>
       (\<exists>target. upload_target env params submatches path = Inr target \<and>
          covered (IncludeDirs (up_CommonParams params)) (map target_of tasks) (map local_of (dir_tasks tasks)) target path)) \<and>
    sorted_wrt (\<ge>) (map local_of tasks) \<and>
    (IncludeDirs (up_CommonParams params) \<longrightarrow>
       (\<forall>t\<in>set (dir_tasks tasks). \<forall>u\<in>set (dir_tasks tasks). \<not> has_prefix (local_of u) (local_of t @ ''/'')))"
proof -
  obtain exclude submatches paths where scan:
      "PrepareExcludePathPattern (ce_regex env) (getenv env) (up_CommonParams params) = Inr exclude"
      "compile (ce_regex env) (Pattern (up_CommonParams params)) = Some submatches"
      "fsp_ListFiles (ce_regex env) (ce_fs env) root (Recursive (up_CommonParams params))
         (IncludeDirs (up_CommonParams params)) (up_Symlink params) exclude = Inr paths"
    and loop: "scan_loop env params submatches (rev (sort paths)) [] [] = (tasks, None)"
    by (rule scanFilesByPattern_scan[OF assms])
  have desc: "sorted_wrt (\<ge>) (rev (sort paths))" by (simp add: sorted_wrt_rev)
  have complete: "path \<in> local_of ` set tasks \<or> snd (found env params submatches path) \<and>
      (\<exists>target. upload_target env params submatches path = Inr target \<and>
        covered (IncludeDirs (up_CommonParams params)) (map target_of tasks) (map local_of (dir_tasks tasks)) target path)"
    if "path \<in> set paths" "fst (found env params submatches path) \<noteq> []" for path
    using scan_loop_complete[OF loop, of path] that by simp
  show ?thesis
  proof (intro exI conjI)
    show "\<forall>path\<in>set paths. fst (found env params submatches path) \<noteq> [] \<longrightarrow> path \<in> local_of ` set tasks \<or>
       snd (found env params submatches path) \<and>
       (\<exists>target. upload_target env params submatches path = Inr target \<and>
          covered (IncludeDirs (up_CommonParams params)) (map target_of tasks) (map local_of (dir_tasks tasks)) target path)"
      using complete by (intro ballI impI)
  qed (use scan scan_loop_tasks[OF loop] scan_loop_sorted[OF loop desc] scan_loop_antichain[OF loop desc] in auto)
qed

text \<open>Three nested paths: the inner folder is uploaded, the outer one is not.\<close>

definition example_fs :: local_fs where
  "example_fs = \<lparr>lstat = (\<lambda>p. if p \<in> {''a'', ''a/b''} then Some Directory else if p = ''a/c'' then Some (Regular ''x'') else None),
     stat = (\<lambda>p. if p \<in> {''a'', ''a/b''} then Some Directory else if p = ''a/c'' then Some (Regular ''x'') else None),
     list_files = (\<lambda>root r d s. Inr [''a'', ''a/b'', ''a/c''])\<rparr>"

definition example_env :: collect_env where
  "example_env = \<lparr>ce_fs = example_fs,
     ce_regex = \<lparr>EscapeSpecialChars = id, WildcardPatternToRegExp = id, compile = (\<lambda>re. Some (\<lambda>p. if has_prefix p re then [p] else []))\<rparr>,
     getenv = (\<lambda>v. []), vcs = (\<lambda>p. Inr ([], [], [])), sha1_of = id\<rparr>"

definition example_params :: UploadParams where
  "example_params = NewUploadParams\<lparr>up_CommonParams :=
     zero_params\<lparr>Pattern := ''a'', Target := ''repo/'', Recursive := True, IncludeDirs := True, Regexp := True\<rparr>\<rparr>"

lemma example_scan:
  "map local_of (fst (scanFilesByPattern example_env example_params ''a'')) = [''a/c'', ''a/b''] \<and>
   map target_of (fst (scanFilesByPattern example_env example_params ''a'')) = [''repo/a/c'', ''repo/a/b''] \<and>
   snd (scanFilesByPattern example_env example_params ''a'') = None"
  by code_simp

lemma scanFilesByPattern_correct_witness:
  "\<exists>tasks. scanFilesByPattern example_env example_params ''a'' = (tasks, None) \<and> tasks \<noteq> [] \<and> sorted_wrt (\<ge>) (map local_of tasks)"
proof -
  obtain tasks where t: "scanFilesByPattern example_env example_params ''a'' = (tasks, None)"
    using example_scan by (metis prod.collapse)
  then show ?thesis using scanFilesByPattern_correct[OF t] example_scan by auto
qed

end
