(* ===== verification/Client.thy ===== *)
theory Client
  imports Download ArtUtils
begin

text \<open>
  The client of the services: \<^verbatim>\<open>http/jfroghttpclient/client.go\<close>, which runs interceptors on the details of a request
  before the methods of \<^verbatim>\<open>Http\<close> and \<^verbatim>\<open>Download\<close>, and the details that \<^verbatim>\<open>auth/servicedetails.go\<close> gives for a request.

  A service passes a pointer to the details of its request; details that are used again hold what the interceptors
  did to them, which \<open>details_after\<close> tells. A body that stays open is not read further.
\<close>

section \<open>Interceptors\<close>

type_synonym interceptor = "HttpClientDetails \<Rightarrow> HttpClientDetails result"

fun runPreRequestInterceptors :: "interceptor list \<Rightarrow> HttpClientDetails \<Rightarrow> HttpClientDetails result" where
  "runPreRequestInterceptors [] details = Inr details"
| "runPreRequestInterceptors (exec # execs) details = and_then (exec details) (runPreRequestInterceptors execs)"

type_synonym 'w http_result = "(Response option \<times> string \<times> go_error option) \<times> 'w"

definition go_reply :: "(Response option \<times> string \<times> exec_error option) \<times> 'w \<Rightarrow> 'w http_result" where
  "go_reply r = (let ((resp, body, err), w) = r in ((resp, body, map_option (\<lambda>e. Err (error_text e)) err), w))"

record 'w JfrogHttpClient =
  httpClient :: "'w HttpClient"
  preRequestInterceptors :: "interceptor list"
  jc_indent :: "string \<Rightarrow> string option"
  jc_redirects :: nat

definition details_after :: "'w JfrogHttpClient \<Rightarrow> HttpClientDetails \<Rightarrow> HttpClientDetails" where
  "details_after rtc details =
     (case runPreRequestInterceptors (preRequestInterceptors rtc) details of Inl e \<Rightarrow> details | Inr d \<Rightarrow> d)"

section \<open>Requests\<close>

text \<open>A call of the wrapped client after the interceptors: it gets the bound of nested redirects, the client, the details
  and an empty prefix of log messages.\<close>

definition jc_send :: "'w JfrogHttpClient \<Rightarrow>
    (nat \<Rightarrow> 'w HttpClient \<Rightarrow> HttpClientDetails \<Rightarrow> string \<Rightarrow> 'w \<Rightarrow> ((Response option \<times> string \<times> exec_error option) \<times> 'w) option) \<Rightarrow>
    HttpClientDetails \<Rightarrow> 'w \<Rightarrow> 'w http_result option" where
  "jc_send rtc call details w =
     (case runPreRequestInterceptors (preRequestInterceptors rtc) details of
        Inl e \<Rightarrow> Some ((None, [], Some e), w)
      | Inr details \<Rightarrow> map_option go_reply (call (jc_redirects rtc) (httpClient rtc) details [] w))"

definition drop_redirect :: "(reply \<times> 'w) option \<Rightarrow> ((Response option \<times> string \<times> exec_error option) \<times> 'w) option" where
  "drop_redirect r = map_option (\<lambda>((resp, body, _, err), w). ((resp, body, err), w)) r"

text \<open>\<open>SendGet\<close> also returns the address of a redirect, which the services drop.\<close>

definition jc_SendGet :: "'w JfrogHttpClient \<Rightarrow> string \<Rightarrow> bool \<Rightarrow> HttpClientDetails \<Rightarrow> 'w \<Rightarrow> 'w http_result option" where
  "jc_SendGet rtc url followRedirect =
     jc_send rtc (\<lambda>n jc details pre w. drop_redirect (SendGet n jc url followRedirect details pre w))"

definition jc_SendPost :: "'w JfrogHttpClient \<Rightarrow> string \<Rightarrow> string option \<Rightarrow> HttpClientDetails \<Rightarrow> 'w \<Rightarrow> 'w http_result option" where
  "jc_SendPost rtc url content = jc_send rtc (\<lambda>n jc details pre w. SendPost n jc url content details pre w)"

text \<open>The body is left open, so none is returned.\<close>

definition SendPostLeaveBodyOpen :: "nat \<Rightarrow> 'w HttpClient \<Rightarrow> string \<Rightarrow> string option \<Rightarrow> HttpClientDetails \<Rightarrow> string \<Rightarrow> 'w \<Rightarrow>
    ((Response option \<times> string \<times> exec_error option) \<times> 'w) option" where
  "SendPostLeaveBodyOpen n jc url content details logMsgPrefix w =
     drop_redirect (Send n jc ''POST'' url content True False details logMsgPrefix w)"

definition jc_SendPostLeaveBodyOpen :: "'w JfrogHttpClient \<Rightarrow> string \<Rightarrow> string option \<Rightarrow> HttpClientDetails \<Rightarrow> 'w \<Rightarrow> 'w http_result option" where
  "jc_SendPostLeaveBodyOpen rtc url content = jc_send rtc (\<lambda>n jc details pre w. SendPostLeaveBodyOpen n jc url content details pre w)"

definition jc_SendPatch :: "'w JfrogHttpClient \<Rightarrow> string \<Rightarrow> string option \<Rightarrow> HttpClientDetails \<Rightarrow> 'w \<Rightarrow> 'w http_result option" where
  "jc_SendPatch rtc url content = jc_send rtc (\<lambda>n jc details pre w. SendPatch n jc url content details pre w)"

definition jc_SendDelete :: "'w JfrogHttpClient \<Rightarrow> string \<Rightarrow> string option \<Rightarrow> HttpClientDetails \<Rightarrow> 'w \<Rightarrow> 'w http_result option" where
  "jc_SendDelete rtc url content = jc_send rtc (\<lambda>n jc details pre w. SendDelete n jc url content details pre w)"

definition jc_SendHead :: "'w JfrogHttpClient \<Rightarrow> string \<Rightarrow> HttpClientDetails \<Rightarrow> 'w \<Rightarrow> 'w http_result option" where
  "jc_SendHead rtc url = jc_send rtc (\<lambda>n jc details pre w. SendHead n jc url details pre w)"

definition jc_SendPut :: "'w JfrogHttpClient \<Rightarrow> string \<Rightarrow> string option \<Rightarrow> HttpClientDetails \<Rightarrow> 'w \<Rightarrow> 'w http_result option" where
  "jc_SendPut rtc url content = jc_send rtc (\<lambda>n jc details pre w. SendPut n jc url content details pre w)"

definition jc_UploadFile :: "'w JfrogHttpClient \<Rightarrow> (string \<Rightarrow> string + string) \<Rightarrow> string \<Rightarrow> string \<Rightarrow> string \<Rightarrow> HttpClientDetails \<Rightarrow> 'w \<Rightarrow> 'w http_result" where
  "jc_UploadFile rtc read_file localPath url logMsgPrefix details w =
     (case runPreRequestInterceptors (preRequestInterceptors rtc) details of
        Inl e \<Rightarrow> ((None, [], Some e), w)
      | Inr details \<Rightarrow> go_reply (UploadFile (jc_indent rtc) read_file (httpClient rtc) localPath url logMsgPrefix details w))"

definition jc_UploadFileFromReader :: "'w JfrogHttpClient \<Rightarrow> string \<Rightarrow> string \<Rightarrow> HttpClientDetails \<Rightarrow> int \<Rightarrow> 'w \<Rightarrow> 'w http_result" where
  "jc_UploadFileFromReader rtc reader url details size' w =
     (case runPreRequestInterceptors (preRequestInterceptors rtc) details of
        Inl e \<Rightarrow> ((None, [], Some e), w)
      | Inr details \<Rightarrow> go_reply (UploadFileFromReader (jc_indent rtc) (httpClient rtc) reader url details size' w))"

text \<open>The size of a remote file is read as a 64-bit integer.\<close>

definition GetRemoteFileDetails :: "(string \<Rightarrow> string option) \<Rightarrow> nat \<Rightarrow> 'w HttpClient \<Rightarrow> string \<Rightarrow> HttpClientDetails \<Rightarrow> 'w \<Rightarrow>
    ((FileDetails \<times> Response) result \<times> 'w) option" where
  "GetRemoteFileDetails indent n jc downloadUrl details w =
     (case SendHead n jc downloadUrl details [] w of
        None \<Rightarrow> None
      | Some ((resp, body, err), w) \<Rightarrow>
          Some (case (err, resp) of
                  (Some e, _) \<Rightarrow> Inl (Err (error_text e))
                | (None, None) \<Rightarrow> Inl (Panic ''nil pointer dereference'')
                | (None, Some r) \<Rightarrow>
                    (case CheckResponseStatusWithBody indent r body [200] of
                       Some e \<Rightarrow> Inl (Err e)
                     | None \<Rightarrow>
                         let contentLength = ResponseHeader r ''Content-Length'';
                             checksum = \<lparr>Md5 = ResponseHeader r ''X-Checksum-Md5'', Sha1 = ResponseHeader r ''X-Checksum-Sha1'',
                                         Sha256 = ResponseHeader r ''X-Checksum-Sha256''\<rparr>
                         in if contentLength = [] then Inr (\<lparr>fd_Checksum = checksum, Size = 0\<rparr>, r)
                            else case atoi contentLength of
                                   None \<Rightarrow> Inl (Err (''strconv.ParseInt: parsing '' @ contentLength))
                                 | Some size' \<Rightarrow> Inr (\<lparr>fd_Checksum = checksum, Size = size'\<rparr>, r)), w))"

section \<open>The details of a service\<close>

record CommonConfigFields =
  ccf_Url :: string
  ccf_User :: string
  ccf_Password :: string
  ccf_ApiKey :: string
  ccf_AccessToken :: string
  ccf_ClientCertPath :: string
  ccf_ClientCertKeyPath :: string
  ccf_Version :: string
  ccf_SshUrl :: string
  ccf_SshKeyPath :: string
  ccf_SshPassphrase :: string
  ccf_SshAuthHeaders :: "(string \<times> string) list option"

definition CreateHttpClientDetails :: "'a CommonConfigFields_scheme \<Rightarrow> HttpClientDetails" where
  "CreateHttpClientDetails ccf =
     \<lparr>User = ccf_User ccf, Password = ccf_Password ccf, ApiKey = ccf_ApiKey ccf, AccessToken = ccf_AccessToken ccf,
      Headers = Some (case ccf_SshAuthHeaders ccf of None \<Rightarrow> [] | Some h \<Rightarrow> h)\<rparr>"

section \<open>Headers\<close>

text \<open>The headers of a request are a list in the order of iteration; this is \<open>AddHeader\<close> of \<^verbatim>\<open>ArtUtils\<close> on it.\<close>

definition set_in_headers :: "string \<Rightarrow> string \<Rightarrow> (string \<times> string) list option \<Rightarrow> (string \<times> string) list option" where
  "set_in_headers name v headers = Some (AList.update name v (case headers of None \<Rightarrow> [] | Some h \<Rightarrow> h))"

definition add_header :: "string \<Rightarrow> string \<Rightarrow> HttpClientDetails \<Rightarrow> HttpClientDetails" where
  "add_header name v details = details\<lparr>Headers := set_in_headers name v (Headers details)\<rparr>"

text \<open>\<open>utils.SetContentType("application/json", &httpClientsDetails.Headers)\<close>.\<close>

definition json_content :: "HttpClientDetails \<Rightarrow> HttpClientDetails" where
  "json_content details = add_header ''Content-Type'' ''application/json'' details"

section \<open>What a request does\<close>

text \<open>When an interceptor fails, nothing is sent.\<close>

lemma interceptor_error:
  "runPreRequestInterceptors (preRequestInterceptors rtc) details = Inl e \<Longrightarrow> jc_send rtc call details w = Some ((None, [], Some e), w)"
  by (simp add: jc_send_def)

lemma runPreRequestInterceptors_append:
  "runPreRequestInterceptors (es @ fs) details = and_then (runPreRequestInterceptors es details) (runPreRequestInterceptors fs)"
proof (induction es arbitrary: details)
  case (Cons e es)
  then show ?case by (cases "e details") simp_all
qed simp

text \<open>The answers of a server to a request that is no POST: the first one below 500 is the result.\<close>


end
