(* ===== verification/Upload.thy ===== *)
theory Upload
  imports Client Collect
begin

text \<open>
  The upload service, \<^verbatim>\<open>artifactory/services/upload.go\<close>, from a collected file to the requests that upload it and
  to the results: single files, symlinks, folders and archives. The client with interceptors is that of
  \<^verbatim>\<open>Client\<close>.

  Parameters are the environment of \<^verbatim>\<open>Collect\<close>, the HTTP client, reading local files, checksums, the URL
  \<open>BuildArtifactoryUrl\<close> gives for a path, the indentation and the checksum that \<open>encoding/json\<close> gives for the body of a
  response, and the bytes that \<open>archive/zip\<close> writes for its entries.
\<close>

section \<open>The client\<close>

record 'w upload_env =
  ue_collect :: collect_env
  ue_client :: "'w HttpClient"
  interceptors :: "interceptor list"
  us_url :: string
  us_details :: HttpClientDetails
  ssh_headers :: "(string \<times> string) list option"
  us_DryRun :: bool
  lstat_size :: "string \<Rightarrow> int"
  read_local :: "string \<Rightarrow> string + string"
  CalcChecksums :: "string \<Rightarrow> Checksum"
  artifactory_url :: "string \<Rightarrow> string \<Rightarrow> string result"
  json_indent :: "string \<Rightarrow> string option"
  response_sha256 :: "string \<Rightarrow> string result"
  redirects :: nat

text \<open>\<open>JfrogHttpClient.SendPut\<close>, \<open>UploadFile\<close> and \<open>UploadFileFromReader\<close> of the service's client.\<close>

definition jfrog_client :: "'w upload_env \<Rightarrow> 'w JfrogHttpClient" where
  "jfrog_client env = \<lparr>httpClient = ue_client env, preRequestInterceptors = interceptors env,
     jc_indent = json_indent env, jc_redirects = redirects env\<rparr>"

definition jfrog_SendPut :: "'w upload_env \<Rightarrow> string \<Rightarrow> string option \<Rightarrow> HttpClientDetails \<Rightarrow> 'w \<Rightarrow> 'w http_result option" where
  "jfrog_SendPut env = jc_SendPut (jfrog_client env)"

definition jfrog_UploadFile :: "'w upload_env \<Rightarrow> string \<Rightarrow> string \<Rightarrow> string \<Rightarrow> HttpClientDetails \<Rightarrow> 'w \<Rightarrow> 'w http_result" where
  "jfrog_UploadFile env = jc_UploadFile (jfrog_client env) (read_local env)"

definition jfrog_UploadFileFromReader :: "'w upload_env \<Rightarrow> string \<Rightarrow> string \<Rightarrow> HttpClientDetails \<Rightarrow> int \<Rightarrow> 'w \<Rightarrow> 'w http_result" where
  "jfrog_UploadFileFromReader env = jc_UploadFileFromReader (jfrog_client env)"

lemma jfrog_SendPut_run:
  "jfrog_SendPut env url content details w =
     (case runPreRequestInterceptors (interceptors env) details of
        Inl e \<Rightarrow> Some ((None, [], Some e), w)
      | Inr details \<Rightarrow> map_option go_reply (SendPut (redirects env) (ue_client env) url content details [] w))"
  by (simp add: jfrog_SendPut_def jc_SendPut_def jc_send_def jfrog_client_def split: sum.split)

lemma jfrog_UploadFile_run:
  "jfrog_UploadFile env localPath url logMsgPrefix details w =
     (case runPreRequestInterceptors (interceptors env) details of
        Inl e \<Rightarrow> ((None, [], Some e), w)
      | Inr details \<Rightarrow> go_reply (UploadFile (json_indent env) (read_local env) (ue_client env) localPath url logMsgPrefix details w))"
  by (simp add: jfrog_UploadFile_def jc_UploadFile_def jfrog_client_def split: sum.split)

section \<open>Headers\<close>

text \<open>The headers of a request are a list in the order of iteration; these are \<open>AddChecksumHeaders\<close> and
  \<open>AddAuthHeaders\<close> of \<^verbatim>\<open>ArtUtils\<close> on it.\<close>

definition checksum_headers :: "FileDetails \<Rightarrow> HttpClientDetails \<Rightarrow> HttpClientDetails" where
  "checksum_headers fileDetails details =
     (let c = fd_Checksum fileDetails;
          d = add_header ''X-Checksum-Md5'' (Md5 c) (add_header ''X-Checksum-Sha1'' (Sha1 c) details)
      in if Headers details = None then details
         else if length (Sha256 c) > 0 then add_header ''X-Checksum'' (Sha256 c) d else d)"

definition auth_headers :: "(string \<times> string) list option \<Rightarrow> HttpClientDetails \<Rightarrow> HttpClientDetails" where
  "auth_headers ssh details =
     (case (Headers details, ssh) of
        (Some h, Some a) \<Rightarrow> details\<lparr>Headers := Some (fold (\<lambda>(name, v). AList.update name v) a h)\<rparr>
      | _ \<Rightarrow> details)"

text \<open>The maps these lists stand for change as the operations on maps say.\<close>

abbreviation header_map :: "HttpClientDetails \<Rightarrow> headers" where
  "header_map details \<equiv> map_option map_of (Headers details)"

lemma header_map_add_header: "header_map (add_header name v details) = AddHeader name v (header_map details)"
  by (cases "Headers details") (simp_all add: add_header_def set_in_headers_def AddHeader_def update_conv')

lemma header_map_checksum_headers: "header_map (checksum_headers fileDetails details) = AddChecksumHeaders (header_map details) fileDetails"
  by (auto simp: checksum_headers_def AddChecksumHeaders_def Let_def header_map_add_header)

lemma map_of_fold_update:
  "distinct (map fst a) \<Longrightarrow> map_of (fold (\<lambda>(name, v). AList.update name v) a h) = map_of h ++ map_of a"
proof (induction a arbitrary: h)
  case (Cons p a)
  obtain k v where p: "p = (k, v)" by (cases p)
  then have "k \<notin> dom (map_of a)" using Cons.prems by (simp add: dom_map_of_conv_image_fst)
  then show ?case using Cons p by (simp add: update_conv' map_add_upd_left) (simp add: fun_eq_iff map_add_def)
qed simp

lemma header_map_auth_headers:
  "(\<forall>a. ssh = Some a \<longrightarrow> distinct (map fst a)) \<Longrightarrow>
    header_map (auth_headers ssh details) = AddAuthHeaders (header_map details) (map_option map_of ssh)"
  by (auto simp: auth_headers_def AddAuthHeaders_def map_of_fold_update split: option.splits)


section \<open>URLs\<close>

text \<open>Fewer than three parts make the code index out of range.\<close>

definition getDebianProps :: "string \<Rightarrow> string result" where
  "getDebianProps debianPropsStr =
     (if debianPropsStr = [] then Inr []
      else let debProps = SplitWithEscape debianPropsStr CHR ''/''
           in if length debProps < 3 then Inl (Panic ''index out of range'')
              else Inr ('';deb.distribution='' @ debProps ! 0 @ '';deb.component='' @ debProps ! 1 @ '';deb.architecture='' @ debProps ! 2))"

definition parsed :: "go_error option \<times> properties \<Rightarrow> properties result" where
  "parsed p = (case fst p of Some e \<Rightarrow> Inl e | None \<Rightarrow> Inr (snd p))"

text \<open>Target properties that are nil are dereferenced.\<close>

definition addPropsToTargetPath :: "string \<Rightarrow> string \<Rightarrow> string \<Rightarrow> properties option \<Rightarrow> string result" where
  "addPropsToTargetPath targetPath buildProps debConfig props =
     (case props of
        None \<Rightarrow> Inl (Panic ''nil pointer dereference'')
      | Some props \<Rightarrow>
          and_then (getDebianProps debConfig) (\<lambda>debianPropsStr.
          and_then (parsed (ParseProperties debianPropsStr)) (\<lambda>debianProps.
          and_then (parsed (ParseProperties buildProps)) (\<lambda>buildProperties.
            Inr (str_join '';'' (targetPath # filter (\<lambda>p. p \<noteq> [])
                   [ToEncodedString False props, ToEncodedString False debianProps, ToEncodedString True buildProperties]))))))"

definition buildUploadUrls :: "'w upload_env \<Rightarrow> string \<Rightarrow> string \<Rightarrow> string \<Rightarrow> properties option \<Rightarrow> string result" where
  "buildUploadUrls env targetPath buildProps debianConfig targetProps =
     and_then (artifactory_url env (us_url env) targetPath) (\<lambda>targetUrl. addPropsToTargetPath targetUrl buildProps debianConfig targetProps)"

section \<open>Uploading one file\<close>

definition isSuccessfulUploadStatusCode :: "int \<Rightarrow> bool" where
  "isSuccessfulUploadStatusCode statusCode \<longleftrightarrow> statusCode = 200 \<or> statusCode = 201 \<or> statusCode = 202"

definition addExplodeHeader :: "bool \<Rightarrow> HttpClientDetails \<Rightarrow> HttpClientDetails" where
  "addExplodeHeader isExplode details = (if isExplode then add_header ''X-Explode-Archive'' ''true'' details else details)"

definition GetFileDetails :: "'w upload_env \<Rightarrow> string \<Rightarrow> bool \<Rightarrow> FileDetails result" where
  "GetFileDetails env filePath includeChecksums =
     (case read_local env filePath of
        Inl e \<Rightarrow> Inl (Err e)
      | Inr content \<Rightarrow> Inr \<lparr>fd_Checksum = (if includeChecksums then CalcChecksums env content else \<lparr>Md5 = [], Sha1 = [], Sha256 = []\<rparr>),
                            Size = int (length content)\<rparr>)"

definition CreateSymlinkFileDetails :: "'w upload_env \<Rightarrow> FileDetails" where
  "CreateSymlinkFileDetails env = \<lparr>fd_Checksum = CalcChecksums env [], Size = 0\<rparr>"

text \<open>\<open>utils.UploadFile\<close>\<close>

definition utils_UploadFile :: "'w upload_env \<Rightarrow> string \<Rightarrow> string \<Rightarrow> string \<Rightarrow> FileDetails option \<Rightarrow> HttpClientDetails \<Rightarrow> bool \<Rightarrow> 'w \<Rightarrow> 'w http_result" where
  "utils_UploadFile env localPath url logMsgPrefix details httpClientsDetails includeChecksums w =
     (let requestClientDetails = Clone httpClientsDetails
      in case (if includeChecksums
               then and_then (case details of None \<Rightarrow> GetFileDetails env localPath includeChecksums | Some d \<Rightarrow> Inr d)
                      (\<lambda>d. Inr (checksum_headers d requestClientDetails))
               else Inr requestClientDetails) of
           Inl e \<Rightarrow> ((None, [], Some e), w)
         | Inr requestClientDetails \<Rightarrow>
             jfrog_UploadFile env localPath url logMsgPrefix (auth_headers (ssh_headers env) requestClientDetails) w)"

definition shouldTryChecksumDeploy :: "int \<Rightarrow> UploadParams \<Rightarrow> bool" where
  "shouldTryChecksumDeploy fileSize uploadParams \<longleftrightarrow>
     ChecksumsCalcEnabled uploadParams \<and> fileSize \<ge> MinChecksumDeploy uploadParams \<and> \<not> ExplodeArchive uploadParams"

definition tryChecksumDeploy :: "'w upload_env \<Rightarrow> FileDetails \<Rightarrow> string \<Rightarrow> HttpClientDetails \<Rightarrow> 'w \<Rightarrow> 'w http_result option" where
  "tryChecksumDeploy env details targetPath httpClientsDetails w =
     (let d = add_header ''X-Checksum-Deploy'' ''true'' (Clone httpClientsDetails);
          d = auth_headers (ssh_headers env) (checksum_headers details d)
      in jfrog_SendPut env targetPath None d w)"

definition uploadSymlink :: "'w upload_env \<Rightarrow> string \<Rightarrow> string \<Rightarrow> HttpClientDetails \<Rightarrow> UploadParams \<Rightarrow> 'w \<Rightarrow> 'w http_result" where
  "uploadSymlink env targetPath logMsgPrefix httpClientsDetails uploadParams w =
     utils_UploadFile env [] targetPath logMsgPrefix (Some (CreateSymlinkFileDetails env)) httpClientsDetails
       (ChecksumsCalcEnabled uploadParams) w"

text \<open>What \<open>doUpload\<close> assigns when no error ends it: the response, the details, the body and whether the checksum
  was deployed.\<close>

type_synonym uploaded = "Response option \<times> FileDetails \<times> string \<times> bool"

definition checksum_deploy :: "'w upload_env \<Rightarrow> string \<Rightarrow> string \<Rightarrow> HttpClientDetails \<Rightarrow> UploadParams \<Rightarrow> 'w \<Rightarrow>
    ((Response option \<times> FileDetails option \<times> string \<times> bool) result \<times> 'w) option" where
  "checksum_deploy env localPath targetUrlWithProps httpClientsDetails uploadParams w =
     (case GetFileDetails env localPath (ChecksumsCalcEnabled uploadParams) of
        Inl e \<Rightarrow> Some (Inl e, w)
      | Inr details \<Rightarrow>
          map_option (\<lambda>((resp, body, err), w).
            (case (err, resp) of
               (Some e, _) \<Rightarrow> Inl e
             | (None, None) \<Rightarrow> Inl (Panic ''nil pointer dereference'')
             | (None, Some r) \<Rightarrow> Inr (resp, Some details, body, isSuccessfulUploadStatusCode (StatusCode r)), w))
            (tryChecksumDeploy env details targetUrlWithProps httpClientsDetails w))"

definition doUpload :: "'w upload_env \<Rightarrow> string \<Rightarrow> string \<Rightarrow> string \<Rightarrow> HttpClientDetails \<Rightarrow> int \<Rightarrow> UploadParams \<Rightarrow> 'w \<Rightarrow>
    (uploaded result \<times> 'w) option" where
  "doUpload env localPath targetUrlWithProps logMsgPrefix httpClientsDetails fileSize uploadParams w =
     (let httpClientsDetails = addExplodeHeader (ExplodeArchive uploadParams) httpClientsDetails;
          deploy = (if us_DryRun env \<or> \<not> shouldTryChecksumDeploy fileSize uploadParams then Some (Inr (None, None, [], False), w)
                    else checksum_deploy env localPath targetUrlWithProps httpClientsDetails uploadParams w);
          finish = (\<lambda>resp details body deployed w.
             ((case details of
                 Some d \<Rightarrow> Inr (resp, d, body, deployed)
               | None \<Rightarrow> and_then (GetFileDetails env localPath (ChecksumsCalcEnabled uploadParams)) (\<lambda>d. Inr (resp, d, body, deployed))), w))
      in case deploy of
           None \<Rightarrow> None
         | Some (Inl e, w) \<Rightarrow> Some (Inl e, w)
         | Some (Inr (resp, details, body, deployed), w) \<Rightarrow>
             Some (if us_DryRun env \<or> deployed then finish resp details body deployed w
                   else case utils_UploadFile env localPath targetUrlWithProps logMsgPrefix details httpClientsDetails
                               (ChecksumsCalcEnabled uploadParams) w of
                          ((resp, body, Some e), w) \<Rightarrow> (Inl e, w)
                        | ((resp, body, None), w) \<Rightarrow> finish resp details body deployed w))"

definition ExtractSha256FromResponseBody :: "'w upload_env \<Rightarrow> string \<Rightarrow> string result" where
  "ExtractSha256FromResponseBody env body = (if length body > 0 then response_sha256 env body else Inr [])"

text \<open>Without an error: the checksums of the file, whose sha256 is that of the server, and whether it was uploaded. A
  response that is nil is dereferenced, unless this is a dry run.\<close>

definition upload_finished :: "'w upload_env \<Rightarrow> uploaded \<Rightarrow> (Checksum \<times> bool) result" where
  "upload_finished env result =
     (let (resp, details, body, checksumDeployed) = result
      in and_then (ExtractSha256FromResponseBody env body) (\<lambda>sha256.
           let checksum = (fd_Checksum details)\<lparr>Sha256 := sha256\<rparr>
           in case resp of
                Some r \<Rightarrow> Inr (checksum, us_DryRun env \<or> checksumDeployed \<or> isSuccessfulUploadStatusCode (StatusCode r))
              | None \<Rightarrow> if us_DryRun env then Inr (checksum, True) else Inl (Panic ''nil pointer dereference'')))"

definition service_uploadFile :: "'w upload_env \<Rightarrow> UploadData \<Rightarrow> UploadParams \<Rightarrow> string \<Rightarrow> 'w \<Rightarrow> ((Checksum \<times> bool) result \<times> 'w) option" where
  "service_uploadFile env data uploadParams logMsgPrefix w =
     (let artifact = ud_Artifact data
      in case buildUploadUrls env (TargetPath artifact) (ud_BuildProps data) (Deb uploadParams) (Some (ud_TargetProps data)) of
           Inl e \<Rightarrow> Some (Inl e, w)
         | Inr targetPathWithProps \<Rightarrow>
             (case lstat (ce_fs (ue_collect env)) (a_LocalPath artifact) of
                None \<Rightarrow> Some (Inl (no_such_file (a_LocalPath artifact)), w)
              | Some fileInfo \<Rightarrow>
                  if up_Symlink uploadParams \<and> IsFileSymlink fileInfo
                  then (case uploadSymlink env targetPathWithProps logMsgPrefix (us_details env) uploadParams w of
                          ((resp, body, Some e), w) \<Rightarrow> Some (Inl e, w)
                        | ((resp, body, None), w) \<Rightarrow> Some (upload_finished env (resp, CreateSymlinkFileDetails env, body, False), w))
                  else map_option (\<lambda>(r, w). (and_then r (upload_finished env), w))
                         (doUpload env (a_LocalPath artifact) targetPathWithProps logMsgPrefix (us_details env)
                            (lstat_size env (a_LocalPath artifact)) uploadParams w)))"

definition createFolderInArtifactory :: "'w upload_env \<Rightarrow> UploadData \<Rightarrow> 'w \<Rightarrow> (go_error option \<times> 'w) option" where
  "createFolderInArtifactory env data w =
     (case artifactory_url env (us_url env) (TargetPath (ud_Artifact data)) of
        Inl e \<Rightarrow> Some (Some e, w)
      | Inr url \<Rightarrow>
          map_option (\<lambda>((resp, body, err), w).
            (case (err, resp) of (None, None) \<Rightarrow> if us_DryRun env then None else Some (Panic ''nil pointer dereference'') | _ \<Rightarrow> err, w))
            (jfrog_SendPut env (AddTrailingSlashIfNeeded url) (Some []) (us_details env) w))"

text \<open>The task of one artifact: an error, or whether it was uploaded and with which checksums.\<close>

definition upload_task :: "'w upload_env \<Rightarrow> nat \<Rightarrow> UploadParams \<Rightarrow> UploadData \<Rightarrow> 'w \<Rightarrow> ((go_error + (Checksum \<times> bool)) \<times> 'w) option" where
  "upload_task env threadId uploadParams data w =
     (if IsDir data
      then map_option (\<lambda>(err, w). (case err of Some e \<Rightarrow> Inl e | None \<Rightarrow> Inr (\<lparr>Md5 = [], Sha1 = [], Sha256 = []\<rparr>, True), w))
             (createFolderInArtifactory env data w)
      else service_uploadFile env data uploadParams (GetLogMsgPrefix (int threadId) (us_DryRun env)) w)"


section \<open>Archives\<close>

text \<open>The data of an archive by its target, in the order in which the targets come up, with the parameters of the first
  group that has the target.\<close>

record ArchiveUploadData =
  aud_writer :: "UploadData ContentWriter"
  aud_uploadParams :: UploadParams

type_synonym archives = "(string \<times> ArchiveUploadData) list"

definition merge_target_props :: "UploadParams \<Rightarrow> UploadParams \<Rightarrow> UploadParams" where
  "merge_target_props archiveParams uploadParams =
     archiveParams\<lparr>up_CommonParams := (up_CommonParams archiveParams)\<lparr>TargetProps :=
       Some (MergeProperties [TargetProps (up_CommonParams archiveParams), TargetProps (up_CommonParams uploadParams)])\<rparr>\<rparr>"

definition save_in_archive :: "UploadParams \<Rightarrow> UploadData \<Rightarrow> archives \<Rightarrow> archives" where
  "save_in_archive uploadParams data writersMap =
     (let target = TargetPath (ud_Artifact data);
          archiveData = (case map_of writersMap target of
              None \<Rightarrow> \<lparr>aud_writer = NewContentWriter, aud_uploadParams = uploadParams\<rparr>
            | Some a \<Rightarrow> a\<lparr>aud_uploadParams := merge_target_props (aud_uploadParams a) uploadParams\<rparr>)
      in AList.update target (archiveData\<lparr>aud_writer := Write data (aud_writer archiveData)\<rparr>) writersMap)"

text \<open>What the groups of an upload become: tasks for single files, in order, and the archives at the end, with the
  errors of the collections.\<close>

fun prepareUploadTasks :: "collect_env \<Rightarrow> UploadParams list \<Rightarrow> archives \<Rightarrow> (UploadParams \<times> UploadData) list \<times> archives \<times> go_error list" where
  "prepareUploadTasks env [] toArchive = ([], toArchive, [])"
| "prepareUploadTasks env (uploadParams # groups) toArchive =
     (let (data, err) = CollectFilesForUpload env uploadParams;
          zip = (Archive uploadParams = ''zip'');
          toArchive = (if zip then fold (save_in_archive uploadParams) data toArchive else toArchive);
          (tasks, toArchive, errs) = prepareUploadTasks env groups toArchive
      in ((if zip then [] else map (Pair uploadParams) data) @ tasks, toArchive,
          (case err of None \<Rightarrow> [] | Some e \<Rightarrow> [e]) @ errs))"

text \<open>An entry of an archive: its name and its content, none for a folder.\<close>

type_synonym zip_entry = "string \<times> string option"

text \<open>The name of the file that \<open>os.Lstat\<close> reports.\<close>

definition base_name :: "string \<Rightarrow> string" where
  "base_name path =
     (let p = rev (dropWhile (\<lambda>c. c = CHR ''/'') (rev path)); p = (if p = [] then take 1 path else p)
      in if p = ''/'' then p else rev (takeWhile (\<lambda>c. c \<noteq> CHR ''/'') (rev p)))"

text \<open>The entry is created before the file is opened, so a file that cannot be opened leaves an empty entry.\<close>

definition addFileToZip :: "'w upload_env \<Rightarrow> bool \<Rightarrow> bool \<Rightarrow> Artifact \<Rightarrow> zip_entry option \<times> go_error option" where
  "addFileToZip env flat symlink artifact =
     (let localPath = (if SymlinkTargetPath artifact \<noteq> [] \<and> \<not> symlink then SymlinkTargetPath artifact else a_LocalPath artifact)
      in case lstat (ce_fs (ue_collect env)) localPath of
           None \<Rightarrow> (None, Some (no_such_file localPath))
         | Some info \<Rightarrow>
             let name = (if TargetPathInArchive artifact \<noteq> [] then TargetPathInArchive artifact
                         else if \<not> flat then TrimPath localPath else base_name localPath)
             in if info = Directory then (Some (name @ ''/'', None), None)
                else if SymlinkTargetPath artifact \<noteq> [] \<and> symlink then (Some (name, Some (SymlinkTargetPath artifact)), None)
                else (case read_local env localPath of
                        Inl e \<Rightarrow> (Some (name, Some []), Some (Err e))
                      | Inr content \<Rightarrow> (Some (name, Some content), None)))"

text \<open>The entries of an archive and the errors that are added to the queue.\<close>

definition readFilesAsZip :: "'w upload_env \<Rightarrow> bool \<Rightarrow> bool \<Rightarrow> UploadData list \<Rightarrow> zip_entry list \<times> go_error list" where
  "readFilesAsZip env flat symlink datas =
     (let added = map (\<lambda>d. addFileToZip env flat symlink (ud_Artifact d)) datas
      in (List.map_filter fst added, List.map_filter snd added))"

text \<open>\<open>utils.UploadFileFromReader\<close>, and the handler that is retried: each attempt reads the files again.\<close>

definition utils_UploadFileFromReader :: "'w upload_env \<Rightarrow> string \<Rightarrow> string \<Rightarrow> FileDetails \<Rightarrow> HttpClientDetails \<Rightarrow> 'w \<Rightarrow> 'w http_result" where
  "utils_UploadFileFromReader env reader url details httpClientsDetails w =
     jfrog_UploadFileFromReader env reader url
       (auth_headers (ssh_headers env) (checksum_headers details (Clone httpClientsDetails))) (Size details) w"

definition reader_handler :: "'w upload_env \<Rightarrow> (zip_entry list \<Rightarrow> string) \<Rightarrow> zip_entry list \<times> go_error list \<Rightarrow> string \<Rightarrow> UploadParams \<Rightarrow> string \<Rightarrow>
    FileDetails \<Rightarrow> (Response option \<times> string \<times> go_error list \<times> 'w) handler" where
  "reader_handler env zip_bytes entries targetUrlWithProps uploadParams logMsgPrefix details =
     (\<lambda>(_, _, errs, w).
        let ((resp, body, err), w) = utils_UploadFileFromReader env (zip_bytes (fst entries)) targetUrlWithProps details
              (addExplodeHeader (ExplodeArchive uploadParams) (us_details env)) w
        in (case err of
              Some e \<Rightarrow> (True, Some (HandlerError (case e of Err m \<Rightarrow> m | Panic m \<Rightarrow> m)))
            | None \<Rightarrow> retry_on_server_error resp (logMsgPrefix @ ''Received empty response from file upload''),
            (resp, body, errs @ snd entries, w)))"

text \<open>Whether the archive was uploaded, the errors added to the queue, the error of the task and the world.\<close>

definition uploadFileFromReader :: "'w upload_env \<Rightarrow> (zip_entry list \<Rightarrow> string) \<Rightarrow> zip_entry list \<times> go_error list \<Rightarrow> string \<Rightarrow> UploadParams \<Rightarrow> string \<Rightarrow>
    FileDetails \<Rightarrow> 'w \<Rightarrow> (bool result \<times> go_error list \<times> 'w) option" where
  "uploadFileFromReader env zip_bytes entries targetUrlWithProps uploadParams logMsgPrefix details w =
     (if us_DryRun env then Some (Inr True, [], w)
      else case (if shouldTryChecksumDeploy (Size details) uploadParams
                 then map_option (\<lambda>((resp, body, err), w). (case (err, resp) of
                          (Some e, _) \<Rightarrow> Inl e
                        | (None, None) \<Rightarrow> Inl (Panic ''nil pointer dereference'')
                        | (None, Some r) \<Rightarrow> Inr (isSuccessfulUploadStatusCode (StatusCode r)), w))
                        (tryChecksumDeploy env details targetUrlWithProps (us_details env) w)
                 else Some (Inr False, w)) of
             None \<Rightarrow> None
           | Some (Inl e, w) \<Rightarrow> Some (Inl e, [], w)
           | Some (Inr True, w) \<Rightarrow> Some (Inr True, [], w)
           | Some (Inr False, w) \<Rightarrow>
               let (err, (resp, body, errs, w), _) =
                     Execute \<lparr>MaxRetries = hc_retries (ue_client env), RetriesIntervalMilliSecs = hc_retryWaitMilliSecs (ue_client env),
                              ErrorMessage = ''Failure occurred while uploading to '' @ targetUrlWithProps, LogMsgPrefix = logMsgPrefix\<rparr> None
                       (reader_handler env zip_bytes entries targetUrlWithProps uploadParams logMsgPrefix details) (None, [], [], w)
               in Some (case (err, resp) of
                          (Some e, _) \<Rightarrow> Inl (Err (error_text e))
                        | (None, None) \<Rightarrow> Inl (Panic ''nil pointer dereference'')
                        | (None, Some r) \<Rightarrow> Inr (isSuccessfulUploadStatusCode (StatusCode r)), errs, w))"

text \<open>The task of an archive. \<open>Inr\<close> gives whether it was uploaded, with its checksums. Without checksums nothing reads the
  stream whose size is taken, and the go routine that writes it waits for a reader, so the task may never end: \<open>None\<close>.\<close>

definition CreateUploadAsZipFunc :: "'w upload_env \<Rightarrow> (zip_entry list \<Rightarrow> string) \<Rightarrow> nat \<Rightarrow> string \<Rightarrow> ArchiveUploadData \<Rightarrow> 'w \<Rightarrow>
    ((Checksum \<times> bool) result \<times> go_error list \<times> 'w) option" where
  "CreateUploadAsZipFunc env zip_bytes threadId targetPath archiveData w =
     (let uploadParams = aud_uploadParams archiveData;
          entries = readFilesAsZip env (up_Flat uploadParams) (up_Symlink uploadParams) (cw_records (aud_writer archiveData));
          bytes = zip_bytes (fst entries);
          details = \<lparr>fd_Checksum = CalcChecksums env bytes, Size = int (length bytes)\<rparr>
      in case buildUploadUrls env targetPath (BuildProps uploadParams) (Deb uploadParams) (TargetProps (up_CommonParams uploadParams)) of
           Inl e \<Rightarrow> Some (Inl e, [], w)
         | Inr targetUrlWithProps \<Rightarrow>
             if \<not> ChecksumsCalcEnabled uploadParams then None
             else map_option (\<lambda>(r, errs, w). (and_then r (\<lambda>uploaded. Inr (fd_Checksum details, uploaded)), snd entries @ errs, w))
                    (uploadFileFromReader env zip_bytes entries targetUrlWithProps uploadParams
                       (GetLogMsgPrefix (int threadId) (us_DryRun env)) details w))"

section \<open>Results\<close>

record FileTransferDetails =
  ftd_SourcePath :: string
  ftd_TargetPath :: string
  RtUrl :: string
  ftd_Sha256 :: string

text \<open>A file of a closed writer is its records.\<close>

record resultsManager =
  singleFinalTransfersWriter :: "FileTransferDetails ContentWriter"
  notFinalTransfersWriters :: "(string \<times> FileTransferDetails ContentWriter) list"
  finalTransfersFilesPaths :: "FileTransferDetails source list"
  artifactsDetailsWriter :: "ArtifactDetails ContentWriter"

definition newResultManager :: resultsManager where
  "newResultManager = \<lparr>singleFinalTransfersWriter = NewContentWriter, notFinalTransfersWriters = [],
     finalTransfersFilesPaths = [], artifactsDetailsWriter = NewContentWriter\<rparr>"

definition addFinalResult :: "string \<Rightarrow> string \<Rightarrow> string \<Rightarrow> Checksum \<Rightarrow> resultsManager \<Rightarrow> resultsManager" where
  "addFinalResult localPath targetPath rtUrl checksums rm =
     rm\<lparr>singleFinalTransfersWriter := Write \<lparr>ftd_SourcePath = localPath, ftd_TargetPath = targetPath, RtUrl = rtUrl,
            ftd_Sha256 = Sha256 checksums\<rparr> (singleFinalTransfersWriter rm),
        artifactsDetailsWriter := Write \<lparr>ArtifactoryPath = targetPath, Checksums = checksums\<rparr> (artifactsDetailsWriter rm)\<rparr>"

definition addNonFinalResult :: "string \<Rightarrow> string \<Rightarrow> string \<Rightarrow> resultsManager \<Rightarrow> resultsManager" where
  "addNonFinalResult localPath targetUrl rtUrl rm =
     (let writer = (case map_of (notFinalTransfersWriters rm) targetUrl of None \<Rightarrow> NewContentWriter | Some cw \<Rightarrow> cw)
      in rm\<lparr>notFinalTransfersWriters := AList.update targetUrl
              (Write \<lparr>ftd_SourcePath = localPath, ftd_TargetPath = targetUrl, RtUrl = rtUrl, ftd_Sha256 = []\<rparr> writer)
              (notFinalTransfersWriters rm)\<rparr>)"

text \<open>Without a result for the target, the writer is nil.\<close>

definition finalizeResult :: "string \<Rightarrow> Checksum \<Rightarrow> resultsManager \<Rightarrow> resultsManager result" where
  "finalizeResult targetPath checksums rm =
     (case map_of (notFinalTransfersWriters rm) targetPath of
        None \<Rightarrow> Inl (Panic ''nil pointer dereference'')
      | Some writer \<Rightarrow>
          Inr (rm\<lparr>finalTransfersFilesPaths := finalTransfersFilesPaths rm @ [(cw_records writer, [])],
                  notFinalTransfersWriters := AList.delete targetPath (notFinalTransfersWriters rm),
                  artifactsDetailsWriter := Write \<lparr>ArtifactoryPath = targetPath, Checksums = checksums\<rparr> (artifactsDetailsWriter rm)\<rparr>))"

definition getTransferDetailsReader :: "resultsManager \<Rightarrow> FileTransferDetails ContentReader" where
  "getTransferDetailsReader rm =
     (let single = singleFinalTransfersWriter rm
      in NewMultiSourceContentReader (finalTransfersFilesPaths rm @ (if \<not> cw_IsEmpty single then [(cw_records single, [])] else [])))"

record OperationSummary =
  TransferDetailsReader :: "FileTransferDetails ContentReader"
  ArtifactsDetailsReader :: "ArtifactDetails ContentReader"
  TotalSucceeded :: int
  TotalFailed :: int

definition rm_getOperationSummary :: "int \<Rightarrow> int \<Rightarrow> resultsManager \<Rightarrow> OperationSummary" where
  "rm_getOperationSummary totalSucceeded totalFailed rm =
     \<lparr>TransferDetailsReader = getTransferDetailsReader rm, ArtifactsDetailsReader = reader_of (artifactsDetailsWriter rm),
      TotalSucceeded = totalSucceeded, TotalFailed = totalFailed\<rparr>"


text \<open>The tasks that end, in their order, and the errors of the producer in between, as for a download.\<close>

definition UploadFiles :: "nat \<Rightarrow> (go_error + bool) task_event list \<Rightarrow> (int \<times> int \<times> go_error option) result" where
  "UploadFiles threads events =
     and_then (run_events id threads events) (\<lambda>(uploadSummary, errorsQueue).
       let totalUploaded = int (SumIntArray (SuccessCount uploadSummary))
       in Inr (totalUploaded, int (SumIntArray (TotalCount uploadSummary)) - totalUploaded, fst (GetError errorsQueue)))"

section \<open>Dry run\<close>

text \<open>C40: in a dry run nothing is sent for a regular file, whose upload is reported as a success or ends with
  the error of its local preparation; but a folder, and a symlink that is uploaded as such, make exactly the
  requests of a real run.\<close>

theorem dry_run_requests:
  fixes env :: "'w upload_env" and w :: 'w
  assumes "us_DryRun env" "lstat (ce_fs (ue_collect env)) (a_LocalPath (ud_Artifact data)) = Some info"
  defines "real \<equiv> env\<lparr>us_DryRun := False\<rparr>"
  shows "(\<not> (up_Symlink params \<and> IsFileSymlink info) \<longrightarrow>
      (\<exists>r. service_uploadFile env data params pre w = Some (r, w) \<and> (\<forall>c b. r = Inr (c, b) \<longrightarrow> b))) \<and>
    (up_Symlink params \<and> IsFileSymlink info \<longrightarrow>
      map_option snd (service_uploadFile env data params pre w) = map_option snd (service_uploadFile real data params pre w)) \<and>
    map_option snd (createFolderInArtifactory env data w) = map_option snd (createFolderInArtifactory real data w)"
proof (intro conjI impI)
  have put: "jfrog_SendPut real = jfrog_SendPut env" by (simp add: fun_eq_iff jfrog_SendPut_run real_def split: sum.split)
  have fields: "ssh_headers real = ssh_headers env" "CalcChecksums real = CalcChecksums env" "interceptors real = interceptors env"
    "json_indent real = json_indent env" "read_local real = read_local env" "ue_client real = ue_client env"
    by (simp_all add: real_def)
  have up: "uploadSymlink real = uploadSymlink env"
    by (intro ext) (unfold uploadSymlink_def utils_UploadFile_def jfrog_UploadFile_run CreateSymlinkFileDetails_def GetFileDetails_def fields, rule refl)
  have urls: "buildUploadUrls real = buildUploadUrls env" by (simp add: fun_eq_iff buildUploadUrls_def real_def)
  have same: "us_details real = us_details env" "lstat (ce_fs (ue_collect real)) = lstat (ce_fs (ue_collect env))"
    "artifactory_url real = artifactory_url env" "us_url real = us_url env" by (simp_all add: real_def)
  show "map_option snd (createFolderInArtifactory env data w) = map_option snd (createFolderInArtifactory real data w)"
    by (auto simp: createFolderInArtifactory_def put same option.map_comp comp_def case_prod_beta split: sum.splits)
  show "map_option snd (service_uploadFile env data params pre w) = map_option snd (service_uploadFile real data params pre w)"
    if "up_Symlink params \<and> IsFileSymlink info"
    using that assms(2) by (auto simp: service_uploadFile_def Let_def urls up same split: sum.splits prod.splits option.splits)
  show "\<exists>r. service_uploadFile env data params pre w = Some (r, w) \<and> (\<forall>c b. r = Inr (c, b) \<longrightarrow> b)"
    if "\<not> (up_Symlink params \<and> IsFileSymlink info)"
    using that assms(1,2)
    by (auto simp: service_uploadFile_def doUpload_def Let_def upload_finished_def and_then_def ExtractSha256FromResponseBody_def
        split: sum.splits option.splits if_splits)
qed

section \<open>Results of archives\<close>

datatype rm_op = Final string string string Checksum | NonFinal string string string | Finalize string Checksum

fun run_op :: "rm_op \<Rightarrow> resultsManager \<Rightarrow> resultsManager result" where
  "run_op (Final localPath target url c) rm = Inr (addFinalResult localPath target url c rm)"
| "run_op (NonFinal localPath target url) rm = Inr (addNonFinalResult localPath target url rm)"
| "run_op (Finalize target c) rm = finalizeResult target c rm"

text \<open>The transfers to report, and the artifacts.\<close>

fun finalized :: "string \<Rightarrow> rm_op list \<Rightarrow> bool" where
  "finalized target [] = False"
| "finalized target (op # ops) = ((case op of Finalize t c \<Rightarrow> t = target | _ \<Rightarrow> False) \<or> finalized target ops)"

fun transfers :: "rm_op list \<Rightarrow> FileTransferDetails list" where
  "transfers [] = []"
| "transfers (Final localPath target url c # ops) =
     \<lparr>ftd_SourcePath = localPath, ftd_TargetPath = target, RtUrl = url, ftd_Sha256 = Sha256 c\<rparr> # transfers ops"
| "transfers (NonFinal localPath target url # ops) =
     (if finalized target ops then [\<lparr>ftd_SourcePath = localPath, ftd_TargetPath = target, RtUrl = url, ftd_Sha256 = []\<rparr>] else []) @ transfers ops"
| "transfers (Finalize target c # ops) = transfers ops"

fun artifacts :: "rm_op list \<Rightarrow> ArtifactDetails list" where
  "artifacts [] = []"
| "artifacts (Final localPath target url c # ops) = \<lparr>ArtifactoryPath = target, Checksums = c\<rparr> # artifacts ops"
| "artifacts (NonFinal localPath target url # ops) = artifacts ops"
| "artifacts (Finalize target c # ops) = \<lparr>ArtifactoryPath = target, Checksums = c\<rparr> # artifacts ops"

definition reported :: "resultsManager \<Rightarrow> FileTransferDetails multiset" where
  "reported rm = mset (run_records (getTransferDetailsReader rm))"

definition pending :: "(string \<Rightarrow> bool) \<Rightarrow> resultsManager \<Rightarrow> FileTransferDetails multiset" where
  "pending P rm = (\<Sum>(t, cw)\<leftarrow>notFinalTransfersWriters rm. if P t then mset (cw_records cw) else {#})"

definition rm_ok :: "resultsManager \<Rightarrow> bool" where
  "rm_ok rm \<longleftrightarrow> distinct (map fst (notFinalTransfersWriters rm))"

lemma reported_alt:
  "reported rm = mset (concat (map fst (finalTransfersFilesPaths rm))) + mset (cw_records (singleFinalTransfersWriter rm))"
  by (simp add: reported_def getTransferDetailsReader_def Let_def run_records_def NewMultiSourceContentReader_def cw_IsEmpty_def)

lemma sum_update:
  fixes f :: "string \<times> 'v \<Rightarrow> 'm::comm_monoid_add"
  assumes "distinct (map fst xs)"
  shows "sum_list (map f (AList.update k v xs)) + (case map_of xs k of None \<Rightarrow> 0 | Some u \<Rightarrow> f (k, u)) =
    sum_list (map f xs) + f (k, v)"
  using assms by (induction xs) (auto simp: ac_simps split: option.splits)

lemma sum_delete:
  fixes f :: "string \<times> 'v \<Rightarrow> 'm::comm_monoid_add"
  assumes "distinct (map fst xs)"
  shows "sum_list (map f (AList.delete k xs)) + (case map_of xs k of None \<Rightarrow> 0 | Some u \<Rightarrow> f (k, u)) = sum_list (map f xs)"
  using assms
proof (induction xs)
  case (Cons p xs)
  obtain k' u where p: "p = (k', u)" by (cases p)
  show ?case
  proof (cases "k' = k")
    case True
    then have "map_of xs k = None" using Cons.prems p by (simp add: map_of_eq_None_iff)
    then show ?thesis using Cons p True by (simp add: ac_simps)
  next
    case False
    then show ?thesis using Cons p by (auto simp: ac_simps split: option.splits)
  qed
qed simp


lemma pending_add:
  assumes "rm_ok rm"
  shows "pending P (addNonFinalResult localPath target url rm) = pending P rm +
    (if P target then {#\<lparr>ftd_SourcePath = localPath, ftd_TargetPath = target, RtUrl = url, ftd_Sha256 = []\<rparr>#} else {#})"
proof -
  let ?f = "\<lambda>(t, cw). if P t then mset (cw_records cw) else {#}" and ?d = "\<lparr>ftd_SourcePath = localPath, ftd_TargetPath = target, RtUrl = url, ftd_Sha256 = []\<rparr>"
  let ?ws = "notFinalTransfersWriters rm"
  let ?cw = "case map_of ?ws target of None \<Rightarrow> NewContentWriter | Some cw \<Rightarrow> cw"
  have "sum_list (map ?f (AList.update target (Write ?d ?cw) ?ws)) + (case map_of ?ws target of None \<Rightarrow> 0 | Some u \<Rightarrow> ?f (target, u)) =
      sum_list (map ?f ?ws) + ?f (target, Write ?d ?cw)"
    using assms unfolding rm_ok_def by (rule sum_update)
  then show ?thesis
    by (cases "map_of ?ws target") (auto simp: pending_def addNonFinalResult_def Let_def Write_def NewContentWriter_def split: if_splits)
qed

lemma pending_finalize:
  assumes "rm_ok rm" "finalizeResult target c rm = Inr rm'"
  shows "\<exists>cw. map_of (notFinalTransfersWriters rm) target = Some cw \<and> reported rm' = reported rm + mset (cw_records cw) \<and>
    pending P rm = pending P rm' + (if P target then mset (cw_records cw) else {#})"
proof -
  let ?f = "\<lambda>(t, cw). if P t then mset (cw_records cw) else {#}" and ?ws = "notFinalTransfersWriters rm"
  obtain cw where cw: "map_of ?ws target = Some cw" using assms(2) by (auto simp: finalizeResult_def split: option.splits)
  have "sum_list (map ?f (AList.delete target ?ws)) + (case map_of ?ws target of None \<Rightarrow> 0 | Some u \<Rightarrow> ?f (target, u)) = sum_list (map ?f ?ws)"
    using assms(1) unfolding rm_ok_def by (rule sum_delete)
  then show ?thesis using assms(2) cw by (auto simp: finalizeResult_def pending_def reported_alt)
qed

lemma pending_delete:
  assumes "rm_ok rm" "finalizeResult target c rm = Inr rm'"
  shows "pending P rm' = pending (\<lambda>t. P t \<and> t \<noteq> target) rm"
proof -
  have "notFinalTransfersWriters rm' = AList.delete target (notFinalTransfersWriters rm)"
    using assms(2) by (auto simp: finalizeResult_def split: option.splits)
  moreover have "sum_list (map (\<lambda>(t, cw). if P t then mset (cw_records cw) else {#}) (AList.delete target ws)) =
      sum_list (map (\<lambda>(t, cw). if P t \<and> t \<noteq> target then mset (cw_records cw) else {#}) ws)" for ws :: "(string \<times> FileTransferDetails ContentWriter) list"
    by (induction ws) auto
  ultimately show ?thesis by (simp add: pending_def)
qed

lemma pending_none: "pending (\<lambda>t. False) rm = {#}"
proof -
  have "sum_list (map (\<lambda>(t, cw). if False then mset (cw_records cw) else {#}) ws) = {#}"
    for ws :: "(string \<times> FileTransferDetails ContentWriter) list"
    by (induction ws) auto
  then show ?thesis unfolding pending_def by simp
qed

lemma run_op_ok: "run_op op rm = Inr rm' \<Longrightarrow> rm_ok rm \<Longrightarrow> rm_ok rm'"
  by (cases op) (auto simp: rm_ok_def addFinalResult_def addNonFinalResult_def finalizeResult_def distinct_update distinct_delete
      split: option.splits)

lemma run_ops_reported:
  "fold_result run_op ops rm = Inr rm' \<Longrightarrow> rm_ok rm \<Longrightarrow>
    reported rm' = reported rm + pending (\<lambda>t. finalized t ops) rm + mset (transfers ops) \<and>
    cw_records (artifactsDetailsWriter rm') = cw_records (artifactsDetailsWriter rm) @ artifacts ops"
proof (induction ops arbitrary: rm)
  case Nil
  then show ?case by (simp add: pending_none)
next
  case (Cons op ops)
  obtain rm1 where rm1: "run_op op rm = Inr rm1" "fold_result run_op ops rm1 = Inr rm'"
    using Cons.prems(1) by (auto simp: and_then_eq_Inr)
  note ok = run_op_ok[OF rm1(1) Cons.prems(2)]
  note ih = Cons.IH[OF rm1(2) ok]
  show ?case
  proof (cases op)
    case (Final l t u c)
    then show ?thesis using ih rm1(1) by (auto simp: addFinalResult_def reported_alt pending_def Write_def)
  next
    case (NonFinal l t u)
    then have r: "rm1 = addNonFinalResult l t u rm" using rm1(1) by simp
    have "reported rm1 = reported rm" "cw_records (artifactsDetailsWriter rm1) = cw_records (artifactsDetailsWriter rm)"
      by (simp_all add: r addNonFinalResult_def Let_def reported_alt)
    then show ?thesis using ih NonFinal pending_add[OF Cons.prems(2), of "\<lambda>t. finalized t ops" l t u] unfolding r by auto
  next
    case (Finalize t c)
    then have fin: "finalizeResult t c rm = Inr rm1" using rm1(1) by simp
    have art: "cw_records (artifactsDetailsWriter rm1) = cw_records (artifactsDetailsWriter rm) @ [\<lparr>ArtifactoryPath = t, Checksums = c\<rparr>]"
      using fin by (auto simp: finalizeResult_def Write_def split: option.splits)
    let ?P = "\<lambda>s. t = s \<or> finalized s ops"
    obtain cw :: "FileTransferDetails ContentWriter" where "reported rm1 = reported rm + mset (cw_records cw)" "pending ?P rm = pending ?P rm1 + (if ?P t then mset (cw_records cw) else {#})"
      using pending_finalize[OF Cons.prems(2) fin, of ?P] by blast
    moreover have "pending ?P rm1 = pending (\<lambda>s. finalized s ops) rm1"
      unfolding pending_delete[OF Cons.prems(2) fin] by (rule arg_cong[where f = "\<lambda>P. pending P rm"]) auto
    ultimately show ?thesis using ih Finalize art by (simp add: ac_simps)
  qed
qed

text \<open>C5: whatever the order in which the results of single files and of the members of archives come in, the
  transfers that are reported are exactly those of the uploaded files and those of the members of an archive that is
  finalized later, each once; members of an archive that failed are not reported; and the artifacts are the
  uploaded files and the finalized archives, in order.\<close>

theorem results_reported:
  assumes "fold_result run_op ops newResultManager = Inr rm"
  shows "mset (run_records (TransferDetailsReader (rm_getOperationSummary s f rm))) = mset (transfers ops) \<and>
    run_records (ArtifactsDetailsReader (rm_getOperationSummary s f rm)) = artifacts ops"
proof -
  have start: "rm_ok newResultManager" "reported newResultManager = {#}" "pending P newResultManager = {#}"
    "cw_records (artifactsDetailsWriter newResultManager) = []" for P
    by (simp_all add: newResultManager_def rm_ok_def reported_alt pending_def NewContentWriter_def)
  have "reported rm = mset (transfers ops)" "cw_records (artifactsDetailsWriter rm) = artifacts ops"
    using run_ops_reported[OF assms start(1)] start by simp_all
  moreover have "run_records (reader_of cw) = cw_records cw" for cw :: "ArtifactDetails ContentWriter"
    by (auto simp: reader_of_def run_records_def NewContentReader_def NewMultiSourceContentReader_def Let_def cw_IsEmpty_def)
  ultimately show ?thesis by (simp add: rm_getOperationSummary_def reported_def)
qed

theorem results_reported_witness:
  "let c = \<lparr>Md5 = ''m'', Sha1 = ''s'', Sha256 = ''h''\<rparr>;
       ops = [NonFinal ''x'' ''r/a.zip'' ''u'', Final ''f'' ''r/f'' ''u'' c, NonFinal ''y'' ''r/b.zip'' ''u'', Finalize ''r/a.zip'' c]
   in \<exists>rm. fold_result run_op ops newResultManager = Inr rm \<and>
     mset (run_records (TransferDetailsReader (rm_getOperationSummary 2 1 rm))) =
       {# \<lparr>ftd_SourcePath = ''x'', ftd_TargetPath = ''r/a.zip'', RtUrl = ''u'', ftd_Sha256 = []\<rparr>,
          \<lparr>ftd_SourcePath = ''f'', ftd_TargetPath = ''r/f'', RtUrl = ''u'', ftd_Sha256 = ''h''\<rparr> #}"
proof -
  let ?c = "\<lparr>Md5 = ''m'', Sha1 = ''s'', Sha256 = ''h''\<rparr>"
  let ?ops = "[NonFinal ''x'' ''r/a.zip'' ''u'', Final ''f'' ''r/f'' ''u'' ?c, NonFinal ''y'' ''r/b.zip'' ''u'', Finalize ''r/a.zip'' ?c]"
  have "fold_result run_op ?ops newResultManager \<noteq> Inl e" for e
    by (simp add: newResultManager_def addFinalResult_def addNonFinalResult_def finalizeResult_def Let_def)
  then obtain rm where rm: "fold_result run_op ?ops newResultManager = Inr rm" by (metis sum.exhaust_sel)
  show ?thesis unfolding Let_def by (intro exI[of _ rm] conjI) (use rm results_reported[OF rm, of 2 1] in \<open>simp_all\<close>)
qed


section \<open>Grouping into archives\<close>

definition target_in :: "archives \<Rightarrow> string \<Rightarrow> UploadData list" where
  "target_in toArchive target = (case map_of toArchive target of None \<Rightarrow> [] | Some a \<Rightarrow> cw_records (aud_writer a))"

lemma target_in_save:
  "target_in (save_in_archive params data toArchive) target =
    target_in toArchive target @ (if target_of data = target then [data] else [])"
  by (auto simp: target_in_def save_in_archive_def Let_def update_conv' Write_def NewContentWriter_def target_of_def split: option.splits)

lemma target_in_fold:
  "target_in (fold (save_in_archive params) datas toArchive) target = target_in toArchive target @ filter (\<lambda>d. target_of d = target) datas"
  by (induction datas arbitrary: toArchive) (auto simp: target_in_save)

lemma save_in_archive_keys:
  "fst ` set (save_in_archive params data toArchive) = insert (target_of data) (fst ` set toArchive)"
  "distinct (map fst toArchive) \<Longrightarrow> distinct (map fst (save_in_archive params data toArchive))"
  by (simp_all add: save_in_archive_def Let_def dom_update distinct_update target_of_def)

lemma fold_save_keys:
  "fst ` set (fold (save_in_archive params) datas toArchive) = target_of ` set datas \<union> fst ` set toArchive"
  "distinct (map fst toArchive) \<Longrightarrow> distinct (map fst (fold (save_in_archive params) datas toArchive))"
  by (induction datas arbitrary: toArchive) (auto simp: save_in_archive_keys)

text \<open>The data that the archive groups collect, and those of the other groups with their parameters.\<close>

definition to_archive :: "collect_env \<Rightarrow> UploadParams list \<Rightarrow> UploadData list" where
  "to_archive env groups = concat (map (\<lambda>g. fst (CollectFilesForUpload env g)) (filter (\<lambda>g. Archive g = ''zip'') groups))"

definition to_upload :: "collect_env \<Rightarrow> UploadParams list \<Rightarrow> (UploadParams \<times> UploadData) list" where
  "to_upload env groups =
     concat (map (\<lambda>g. map (Pair g) (fst (CollectFilesForUpload env g))) (filter (\<lambda>g. Archive g \<noteq> ''zip'') groups))"

lemma prepareUploadTasks_spec:
  "prepareUploadTasks env groups toArchive = (tasks, archives, errs) \<Longrightarrow> distinct (map fst toArchive) \<Longrightarrow>
    tasks = to_upload env groups \<and> distinct (map fst archives) \<and>
    fst ` set archives = target_of ` set (to_archive env groups) \<union> fst ` set toArchive \<and>
    (\<forall>target. target_in archives target = target_in toArchive target @ filter (\<lambda>d. target_of d = target) (to_archive env groups))"
proof (induction env groups toArchive arbitrary: tasks errs rule: prepareUploadTasks.induct)
  case (2 env g groups toArchive)
  obtain data err where c: "CollectFilesForUpload env g = (data, err)" by (metis surj_pair)
  define toArchive' where "toArchive' = (if Archive g = ''zip'' then fold (save_in_archive g) data toArchive else toArchive)"
  obtain tasks' errs' where rest: "prepareUploadTasks env groups toArchive' = (tasks', archives, errs')"
      "tasks = (if Archive g = ''zip'' then [] else map (Pair g) data) @ tasks'"
    using 2(2) c by (auto simp: Let_def toArchive'_def split: prod.splits)
  have d: "distinct (map fst toArchive')" using 2(3) by (simp add: toArchive'_def fold_save_keys)
  note ih = 2(1)[OF c[symmetric] refl refl refl, folded toArchive'_def, OF rest(1) d]
  show ?case using ih rest(2) c
    by (auto simp: toArchive'_def to_upload_def to_archive_def target_in_fold fold_save_keys split: if_splits)
qed (simp add: to_upload_def to_archive_def)

text \<open>C39: an upload makes one task for each file that the groups without an archive collect, in order, and one
  archive for each target of the files that the archive groups collect; the archive of a target holds exactly
  the files with this target, in the order in which they are collected, also when they come from several groups.\<close>

theorem prepareUploadTasks_correct:
  assumes "prepareUploadTasks env groups [] = (tasks, archives, errs)"
  shows "tasks = to_upload env groups \<and> distinct (map fst archives) \<and>
    set (map fst archives) = target_of ` set (to_archive env groups) \<and>
    (\<forall>(target, a)\<in>set archives. cw_records (aud_writer a) = filter (\<lambda>d. target_of d = target) (to_archive env groups))"
proof -
  note s = prepareUploadTasks_spec[OF assms, simplified]
  have "cw_records (aud_writer a) = target_in archives target" if "(target, a) \<in> set archives" for target a
    using s that by (simp add: target_in_def)
  then show ?thesis using s unfolding target_in_def[of "[]"] by auto
qed

definition zip_params :: UploadParams where
  "zip_params = example_params\<lparr>Archive := ''zip'', up_CommonParams := (up_CommonParams example_params)\<lparr>Target := ''repo/a.zip''\<rparr>\<rparr>"

lemma zip_params_collect:
  "Archive zip_params = ''zip'' \<and> map target_of (fst (CollectFilesForUpload example_env zip_params)) = [''repo/a.zip'', ''repo/a.zip'']"
  by code_simp

theorem prepareUploadTasks_correct_witness:
  "\<exists>tasks archives errs. prepareUploadTasks example_env [zip_params, zip_params] [] = (tasks, archives, errs) \<and>
    set (map fst archives) = {''repo/a.zip''} \<and> (\<forall>(target, a)\<in>set archives. length (cw_records (aud_writer a)) = 4)"
proof -
  obtain tasks archives errs where p: "prepareUploadTasks example_env [zip_params, zip_params] [] = (tasks, archives, errs)" by (metis surj_pair)
  let ?data = "to_archive example_env [zip_params, zip_params]"
  have m: "map target_of ?data = replicate 4 ''repo/a.zip''"
    using zip_params_collect by (simp add: to_archive_def numeral_eq_Suc)
  have n: "target_of ` set ?data = {''repo/a.zip''}" using arg_cong[OF m, of set] by simp
  then have t: "target_of d = ''repo/a.zip''" if "d \<in> set ?data" for d using that by blast
  have l: "length ?data = 4" using arg_cong[OF m, of length] by simp
  have "cw_records (aud_writer a) = ?data" if "(target, a) \<in> set archives" for target a
  proof -
    have "target = ''repo/a.zip''" using prepareUploadTasks_correct[OF p] n that by force
    then show ?thesis using prepareUploadTasks_correct[OF p] t that by (auto intro: filter_True)
  qed
  then show ?thesis using p prepareUploadTasks_correct[OF p] n l by auto
qed

section \<open>Counting\<close>

text \<open>However the tasks are spread over the threads, the uploads that succeeded and those that did not add up to the
  tasks, and the error is the first one.\<close>

lemma UploadFiles_counts:
  assumes "on_threads threads events"
  shows "\<exists>err. UploadFiles threads events =
    Inr (int (length (filter (\<lambda>r. r = Inr True) (tasks_of events))), int (length (filter (\<lambda>r. r \<noteq> Inr True) (tasks_of events))), err) \<and>
    err = (case List.map_filter (event_error id) events of [] \<Rightarrow> None | e # _ \<Rightarrow> Some e)"
proof -
  obtain result q where "run_events id threads events = Inr (result, q)"
    "SumIntArray (TotalCount result) = length (tasks_of events)"
    "SumIntArray (SuccessCount result) = length (filter (\<lambda>x. id x = Inr True) (tasks_of events))"
    "fst (GetError q) = (case List.map_filter (event_error id) events of [] \<Rightarrow> None | e # _ \<Rightarrow> Some e)"
    using assms by (rule run_events_counts)
  moreover have "int (length xs) - int (length (filter P xs)) = int (length (filter (\<lambda>x. \<not> P x) xs))" for P and xs :: "(go_error + bool) list"
    using sum_length_filter_compl[of P xs] by simp
  ultimately show ?thesis by (simp add: UploadFiles_def Let_def)
qed


section \<open>A file is uploaded\<close>

text \<open>What the task of a file gives when the server has stored it: its checksums with the one the body of the answer
  states, and that it was uploaded. A body that cannot be read makes it an error although the file is stored.\<close>

definition stored_result :: "'w upload_env \<Rightarrow> FileDetails \<Rightarrow> string \<Rightarrow> (Checksum \<times> bool) result" where
  "stored_result env fd body =
     (if body = [] then Inr ((fd_Checksum fd)\<lparr>Sha256 := []\<rparr>, True)
      else case response_sha256 env body of Inl e \<Rightarrow> Inl e | Inr s \<Rightarrow> Inr ((fd_Checksum fd)\<lparr>Sha256 := s\<rparr>, True))"

text \<open>Sending a request that uploads a content until the server confirms it: the result of the task.\<close>

definition upload_attempts :: "'w upload_env \<Rightarrow> Request \<Rightarrow> FileDetails \<Rightarrow> 'w \<Rightarrow> ((Checksum \<times> bool) result \<times> 'w) option \<Rightarrow> bool" where
  "upload_attempts env req fd w r \<longleftrightarrow>
     (let jc = ue_client env; n = nat (hc_retries jc)
      in case List.find (\<lambda>i. stored (answer jc False req w i)) [0..<Suc n] of
           Some k \<Rightarrow> \<exists>resp. answer jc False req w k = Answered resp \<and>
             r = Some (stored_result env fd (fst (Body resp)), world_sent jc False req w (Suc k))
         | None \<Rightarrow> \<exists>e. r = Some (Inl e, world_sent jc False req w (Suc n)))"

text \<open>The details of a request when the interceptors have run.\<close>

definition intercepted :: "'w upload_env \<Rightarrow> HttpClientDetails \<Rightarrow> HttpClientDetails" where
  "intercepted env d = (case runPreRequestInterceptors (interceptors env) d of Inl e \<Rightarrow> d | Inr d' \<Rightarrow> d')"

definition file_request :: "'w upload_env \<Rightarrow> UploadParams \<Rightarrow> FileDetails \<Rightarrow> string \<Rightarrow> string \<Rightarrow> Request" where
  "file_request env params fd url content =
     (let d = Clone (addExplodeHeader (ExplodeArchive params) (us_details env))
      in upload_request (ue_client env)
           (intercepted env (auth_headers (ssh_headers env) (if ChecksumsCalcEnabled params then checksum_headers fd d else d))) url content)"

definition deploy_request :: "'w upload_env \<Rightarrow> UploadParams \<Rightarrow> FileDetails \<Rightarrow> string \<Rightarrow> Request" where
  "deploy_request env params fd url =
     request_of (ue_client env) (intercepted env (auth_headers (ssh_headers env) (checksum_headers fd (add_header ''X-Checksum-Deploy'' ''true''
       (Clone (addExplodeHeader (ExplodeArchive params) (us_details env))))))) ''PUT'' url None"

text \<open>The service makes requests: this is no dry run, nothing cancels it, its interceptors give details, and the URL is one of a
  request.\<close>

definition ready :: "'w upload_env \<Rightarrow> string \<Rightarrow> bool" where
  "ready env url \<longleftrightarrow> \<not> us_DryRun env \<and> (\<forall>d. \<exists>d'. runPreRequestInterceptors (interceptors env) d = Inr d') \<and>
     ctx (ue_client env) = None \<and> 0 \<le> hc_retries (ue_client env) \<and>
     NewRequest_error (ue_client env) ''PUT'' url = None \<and> redirects env \<noteq> 0"

lemma ready_intercepted: "ready env url \<Longrightarrow> runPreRequestInterceptors (interceptors env) d = Inr (intercepted env d)"
  by (metis ready_def intercepted_def sum.simps(6))

lemma upload_finished_stored:
  assumes "StatusCode r \<in> {200, 201, 202} \<or> deployed"
  shows "upload_finished env (Some r, fd, body, deployed) = stored_result env fd body"
  using assms by (auto simp: upload_finished_def isSuccessfulUploadStatusCode_def stored_result_def ExtractSha256FromResponseBody_def
      and_then_def split: sum.split)

lemma file_upload_attempts:
  assumes "ready env url" "path \<noteq> []" "read_local env path = Inr content"
    "GetFileDetails env path (ChecksumsCalcEnabled params) = Inr fd" "details = None \<or> details = Some fd"
  shows "upload_attempts env (file_request env params fd url content) fd w
    (Some (case utils_UploadFile env path url pre details (addExplodeHeader (ExplodeArchive params) (us_details env))
                  (ChecksumsCalcEnabled params) w of
             ((resp, body, Some e), w) \<Rightarrow> (Inl e, w)
           | ((resp, body, None), w) \<Rightarrow> (upload_finished env (resp, fd, body, False), w)))"
proof -
  let ?hcd = "addExplodeHeader (ExplodeArchive params) (us_details env)" and ?jc = "ue_client env"
  define d where "d = intercepted env (auth_headers (ssh_headers env) (if ChecksumsCalcEnabled params then checksum_headers fd (Clone ?hcd) else Clone ?hcd))"
  have sent: "utils_UploadFile env path url pre details ?hcd (ChecksumsCalcEnabled params) w =
      go_reply (UploadFile (json_indent env) (read_local env) ?jc path url pre d w)"
    using assms by (auto simp: utils_UploadFile_def d_def Let_def jfrog_UploadFile_run ready_intercepted[OF assms(1)])
  have req: "file_request env params fd url content = upload_request ?jc d url content" by (simp add: file_request_def d_def Let_def)
  have lc: "local_content (read_local env) path = Inr content" using assms(2,3) by (simp add: local_content_def)
  have r: "NewRequest_error ?jc ''PUT'' url = None" "0 \<le> hc_retries ?jc" using assms(1) by (simp_all add: ready_def)
  note run = UploadFile_correct[OF r(1) lc r(2), where details = d and w = w and indent = "json_indent env" and pre = pre]
  show ?thesis
  proof (cases "List.find (\<lambda>i. stored (answer ?jc False (upload_request ?jc d url content) w i)) [0..<Suc (nat (hc_retries ?jc))]")
    case None
    then show ?thesis using run unfolding upload_attempts_def Let_def req sent
      by (auto simp: go_reply_def simp del: upt_Suc)
  next
    case (Some k)
    then have "stored (answer ?jc False (upload_request ?jc d url content) w k)" by (auto simp: find_Some_iff simp del: upt_Suc)
    then show ?thesis using Some run unfolding upload_attempts_def Let_def req sent
      by (auto simp: go_reply_def upload_finished_stored simp del: upt_Suc)
  qed
qed

lemma deploy_attempts:
  fixes fd :: FileDetails and params :: UploadParams
  assumes "ready env url"
  defines "req \<equiv> deploy_request env params fd url" and "jc \<equiv> ue_client env"
  shows "case List.find (\<lambda>i. served (answer jc False req w i)) [0..<Suc (nat (hc_retries jc))] of
      Some k \<Rightarrow> \<exists>r. answer jc False req w k = Answered r \<and>
        tryChecksumDeploy env fd url (addExplodeHeader (ExplodeArchive params) (us_details env)) w =
          Some ((Some r, fst (Body r), None), world_sent jc False req w (Suc k))
    | None \<Rightarrow> \<exists>resp body e. tryChecksumDeploy env fd url (addExplodeHeader (ExplodeArchive params) (us_details env)) w =
          Some ((resp, body, Some e), world_sent jc False req w (Suc (nat (hc_retries jc))))"
proof -
  obtain n where n: "redirects env = Suc n" using assms(1) by (auto simp: ready_def gr0_conv_Suc)
  let ?d = "intercepted env (auth_headers (ssh_headers env) (checksum_headers fd (add_header ''X-Checksum-Deploy'' ''true''
      (Clone (addExplodeHeader (ExplodeArchive params) (us_details env))))))"
  have r: "ctx jc = None" "''PUT'' \<noteq> ''POST''" "NewRequest_error jc ''PUT'' url = None" "0 \<le> hc_retries jc"
    using assms(1) by (simp_all add: ready_def jc_def)
  have deploys: "tryChecksumDeploy env fd url (addExplodeHeader (ExplodeArchive params) (us_details env)) w =
      map_option go_reply (map_option (\<lambda>((resp, body, _, err), w). ((resp, body, err), w)) (Send (Suc n) jc ''PUT'' url None True True ?d [] w))"
    by (simp add: tryChecksumDeploy_def Let_def jfrog_SendPut_run ready_intercepted[OF assms(1)] SendPut_def send_body_def n jc_def del: Send.simps)
  have req: "req = request_of jc ?d ''PUT'' url None" by (simp add: req_def deploy_request_def jc_def)
  note run = Send_first[OF r, where details = ?d and w = w and content = None and closeBody = True and pre = "[]" and n = n, folded req]
  show ?thesis
    using run unfolding deploys by (auto simp: go_reply_def simp del: upt_Suc Send.simps split: option.splits)
qed


text \<open>C1: uploading a regular file. When its size asks for it, the checksums are sent first; an accepted answer ends the
  upload without sending the content, a failure ends it with an error, and any other answer is followed by
  the content. The content is sent, with the headers for the checksums and the authentication, until the
  server stores it, at most \<open>retries\<close> times more. Without an answer that stores it there is an error; with one the upload is
  a success with the checksum that the answer states, or an error when the body of the answer cannot be read.\<close>

theorem service_uploadFile_correct:
  fixes env :: "'w upload_env" and w :: 'w and content url :: string and data :: UploadData and params :: UploadParams
    and fd :: FileDetails and pre :: string
  defines "path \<equiv> a_LocalPath (ud_Artifact data)" and "jc \<equiv> ue_client env"
  assumes "ready env url" "path \<noteq> []" "read_local env path = Inr content"
    "lstat (ce_fs (ue_collect env)) path = Some info" "\<not> (up_Symlink params \<and> IsFileSymlink info)"
    "buildUploadUrls env (TargetPath (ud_Artifact data)) (ud_BuildProps data) (Deb params) (Some (ud_TargetProps data)) = Inr url"
    "GetFileDetails env path (ChecksumsCalcEnabled params) = Inr fd"
  defines "result \<equiv> service_uploadFile env data params pre w" and "req \<equiv> file_request env params fd url content"
    and "deploy \<equiv> deploy_request env params fd url"
  shows "if \<not> shouldTryChecksumDeploy (lstat_size env path) params then upload_attempts env req fd w result
    else case List.find (\<lambda>i. served (answer jc False deploy w i)) [0..<Suc (nat (hc_retries jc))] of
        None \<Rightarrow> \<exists>e. result = Some (Inl e, world_sent jc False deploy w (Suc (nat (hc_retries jc))))
      | Some k \<Rightarrow> \<exists>r. answer jc False deploy w k = Answered r \<and>
          (if isSuccessfulUploadStatusCode (StatusCode r)
           then result = Some (stored_result env fd (fst (Body r)), world_sent jc False deploy w (Suc k))
           else upload_attempts env req fd (world_sent jc False deploy w (Suc k)) result)"
proof -
  let ?hcd = "addExplodeHeader (ExplodeArchive params) (us_details env)"
  let ?up = "\<lambda>details w. case utils_UploadFile env path url pre details ?hcd (ChecksumsCalcEnabled params) w of
      ((resp, body, Some e), w) \<Rightarrow> (Inl e, w) | ((resp, body, None), w) \<Rightarrow> (upload_finished env (resp, fd, body, False), w)"
  have dry: "\<not> us_DryRun env" using assms(3) by (simp add: ready_def)
  have up: "upload_attempts env req fd w (Some (?up details w))" if "details = None \<or> details = Some fd" for details w
    unfolding req_def by (rule file_upload_attempts[OF assms(3-5,9) that])
  have run: "result = map_option (\<lambda>(r, w). (and_then r (upload_finished env), w))
      (doUpload env path url pre (us_details env) (lstat_size env path) params w)"
    using assms(6-8) by (auto simp: result_def service_uploadFile_def Let_def path_def)
  show ?thesis
  proof (cases "shouldTryChecksumDeploy (lstat_size env path) params")
    case False
    have "result = Some (?up None w)"
      using False dry assms(9) by (auto simp: run doUpload_def Let_def split: prod.splits option.splits)
    then show ?thesis using False up[of None w] by simp
  next
    case True
    note dep = deploy_attempts[OF assms(3), where fd = fd and params = params and w = w, folded deploy_def jc_def]
    show ?thesis
    proof (cases "List.find (\<lambda>i. served (answer jc False deploy w i)) [0..<Suc (nat (hc_retries jc))]")
      case None
      then show ?thesis using dep True dry assms(9)
        by (auto simp: run doUpload_def Let_def checksum_deploy_def simp del: upt_Suc)
    next
      case (Some k)
      then obtain r where r: "answer jc False deploy w k = Answered r"
          "tryChecksumDeploy env fd url ?hcd w = Some ((Some r, fst (Body r), None), world_sent jc False deploy w (Suc k))"
        using dep by (auto simp del: upt_Suc)
      have d: "checksum_deploy env path url ?hcd params w =
          Some (Inr (Some r, Some fd, fst (Body r), isSuccessfulUploadStatusCode (StatusCode r)), world_sent jc False deploy w (Suc k))"
        using r(2) assms(9) by (simp add: checksum_deploy_def)
      show ?thesis
      proof (cases "isSuccessfulUploadStatusCode (StatusCode r)")
        case stored: True
        then show ?thesis using Some True dry r(1) d upload_finished_stored[of r True env fd "fst (Body r)"]
          by (auto simp: run doUpload_def Let_def simp del: upt_Suc)
      next
        case False
        have "result = Some (?up (Some fd) (world_sent jc False deploy w (Suc k)))"
          using False True dry d by (auto simp: run doUpload_def Let_def split: prod.splits option.splits)
        then show ?thesis using Some True r(1) False up[of "Some fd" "world_sent jc False deploy w (Suc k)"]
          by (simp del: upt_Suc)
      qed
    qed
  qed
qed

text \<open>A server that counts its requests: it answers 404 to the first one, which asks for the checksums, and stores the second.\<close>

definition example_upload_env :: "bool \<Rightarrow> nat upload_env" where
  "example_upload_env dryRun = \<lparr>ue_collect = example_env, ue_client = counting_client (\<lambda>w. Answered (example_response (if w = 0 then 404 else 201))),
     interceptors = [], us_url = ''u/'', us_details = no_details, ssh_headers = None, us_DryRun = dryRun, lstat_size = (\<lambda>p. 20000),
     read_local = (\<lambda>p. Inr ''x''), CalcChecksums = (\<lambda>c. \<lparr>Md5 = c, Sha1 = c, Sha256 = c\<rparr>), artifactory_url = (\<lambda>u p. Inr (u @ p)),
     json_indent = (\<lambda>b. None), response_sha256 = (\<lambda>b. Inr ''s''), redirects = 1\<rparr>"

definition example_data :: UploadData where
  "example_data = \<lparr>ud_Artifact = \<lparr>a_LocalPath = ''a/c'', TargetPath = ''r/c'', SymlinkTargetPath = [], TargetPathInArchive = []\<rparr>,
     ud_TargetProps = [], ud_BuildProps = [], IsDir = False\<rparr>"

lemma example_url: "buildUploadUrls (example_upload_env b) ''r/c'' [] [] (Some []) = Inr ''u/r/c''"
  by code_simp

lemma example_upload_simps:
  "ready (example_upload_env False) ''u/r/c''" "response_sha256 (example_upload_env b) t = Inr ''s''" "lstat_size (example_upload_env b) p = 20000"
  "read_local (example_upload_env b) p = Inr ''x''" "lstat (ce_fs (ue_collect (example_upload_env b))) ''a/c'' = Some (Regular ''x'')"
  "GetFileDetails (example_upload_env b) p True = Inr \<lparr>fd_Checksum = \<lparr>Md5 = ''x'', Sha1 = ''x'', Sha256 = ''x''\<rparr>, Size = 1\<rparr>"
  "ue_client (example_upload_env b) = counting_client (\<lambda>w. Answered (example_response (if w = 0 then 404 else 201)))"
  "us_DryRun (example_upload_env b) = b"
  by (simp_all add: ready_def example_upload_env_def GetFileDetails_def example_env_def example_fs_def)

lemma example_data_simps:
  "ud_Artifact example_data = \<lparr>a_LocalPath = ''a/c'', TargetPath = ''r/c'', SymlinkTargetPath = [], TargetPathInArchive = []\<rparr>"
  "ud_TargetProps example_data = []" "ud_BuildProps example_data = []"
  by (simp_all add: example_data_def)

lemma counting_client_sent: "world_sent (counting_client ans) b req w i = w + i"
  by (induction i) (simp_all add: world_sent_def)

theorem service_uploadFile_correct_witness:
  "service_uploadFile (example_upload_env False) example_data NewUploadParams [] 0 =
    Some (Inr (\<lparr>Md5 = ''x'', Sha1 = ''x'', Sha256 = ''s''\<rparr>, True), 2)"
proof -
  let ?fd = "\<lparr>fd_Checksum = \<lparr>Md5 = ''x'', Sha1 = ''x'', Sha256 = ''x''\<rparr>, Size = 1\<rparr>"
  have p: "ChecksumsCalcEnabled NewUploadParams" "Deb NewUploadParams = []" "\<not> up_Symlink NewUploadParams"
    "shouldTryChecksumDeploy 20000 NewUploadParams"
    by (simp_all add: NewUploadParams_def shouldTryChecksumDeploy_def)
  have "upload_attempts (example_upload_env False) req ?fd 1 (service_uploadFile (example_upload_env False) example_data NewUploadParams [] 0)"
    if "req = file_request (example_upload_env False) NewUploadParams ?fd ''u/r/c'' ''x''" for req
    using service_uploadFile_correct[where env = "example_upload_env False" and data = example_data and params = NewUploadParams
        and url = "''u/r/c''" and content = "''x''" and info = "Regular ''x''" and pre = "[]" and w = 0 and fd = ?fd] p that
    by (simp add: example_upload_simps example_data_simps example_url example_response_def isSuccessfulUploadStatusCode_def
        counting_client_sent upt_rec)
  then show ?thesis
    by (auto simp: upload_attempts_def Let_def example_upload_simps counting_client_sent example_response_def upt_rec stored_result_def)
qed

lemma example_folder: "map_option snd (createFolderInArtifactory (example_upload_env True) example_data 0) = Some 1"
  by code_simp

theorem dry_run_requests_witness:
  "(\<exists>r. service_uploadFile (example_upload_env True) example_data NewUploadParams [] 0 = Some (r, 0)) \<and>
    map_option snd (createFolderInArtifactory (example_upload_env True\<lparr>us_DryRun := False\<rparr>) example_data 0) = Some 1"
  using dry_run_requests[where env = "example_upload_env True" and data = example_data and info = "Regular ''x''"
      and params = NewUploadParams and pre = "[]" and w = 0] example_folder
  by (auto simp: example_upload_simps example_data_simps NewUploadParams_def)

end
