(* ===== verification/Git.thy ===== *)
theory Git
  imports Collect
begin

text \<open>
  Version control details: the reading of a \<^verbatim>\<open>.git\<close> directory (\<^verbatim>\<open>utils/git.go\<close>), the masking of credentials
  (\<^verbatim>\<open>utils/regexputils.go\<close>) and the cache of details by directory (\<^verbatim>\<open>utils/vcsdetails.go\<close>).

  Files are read through the local file system of \<^verbatim>\<open>Collect\<close>. Parameters are the process \<^verbatim>\<open>git rev-parse\<close> and the short
  name of a reference that \<^verbatim>\<open>go-git\<close> gives. The message of the commit is read after the details and does not change
  them, so it is left out. A line is assumed to fit in the buffer of the scanner.
\<close>

section \<open>Lines\<close>

text \<open>The white space of package unicode in UTF-8. The bytes of one space are at an end of a text exactly when the text
  starts, or ends, with this space.\<close>

definition white_spaces :: "string list" where
  "white_spaces =
     map (\<lambda>c. [c]) [CHR '' '', CHR 0x09, CHR 0x0A, CHR 0x0B, CHR 0x0C, CHR 0x0D] @
     [[CHR 0xC2, CHR 0x85], [CHR 0xC2, CHR 0xA0], [CHR 0xE1, CHR 0x9A, CHR 0x80]] @
     map (\<lambda>n. [CHR 0xE2, CHR 0x80, char_of n]) ([0x80..<0x8B] @ [0xA8, 0xA9, 0xAF :: nat]) @
     [[CHR 0xE2, CHR 0x81, CHR 0x9F], [CHR 0xE3, CHR 0x80, CHR 0x80]]"

lemma drop_prefix_shorter: "has_prefix s p \<Longrightarrow> p \<noteq> [] \<Longrightarrow> length (drop (length p) s) < length s"
  by (cases s; cases p) (simp_all add: has_prefix_def)

function trim_start :: "string list \<Rightarrow> string \<Rightarrow> string" where
  "trim_start spaces s =
     (case List.find (\<lambda>p. p \<noteq> [] \<and> has_prefix s p) spaces of
        None \<Rightarrow> s
      | Some p \<Rightarrow> trim_start spaces (drop (length p) s))"
  by pat_completeness auto

termination trim_start
  by (relation "measure (length \<circ> snd)") (auto simp: find_Some_iff dest!: drop_prefix_shorter)

declare trim_start.simps [simp del]

definition TrimSpace :: "string \<Rightarrow> string" where
  "TrimSpace s = rev (trim_start (map rev white_spaces) (rev (trim_start white_spaces s)))"

lemma TrimSpace_example: "TrimSpace (CHR 0xC2 # CHR 0xA0 # '' a b'' @ [CHR 0x09, CHR 0xE3, CHR 0x80, CHR 0x80]) = ''a b''"
  by code_simp

text \<open>\<open>bufio.ScanLines\<close>: no line after the last line feed, and the carriage return before a line feed is dropped.\<close>

definition scan_lines :: "string \<Rightarrow> string list" where
  "scan_lines content =
     (let ls = split_char CHR 0x0A content
      in map (\<lambda>l. trim_suffix l [CHR 0x0D]) (if last ls = [] then butlast ls else ls))"

text \<open>\<open>strings.SplitAfter(text, sep)[1]\<close> for a separator of one byte.\<close>

definition second_after :: "char \<Rightarrow> string \<Rightarrow> string result" where
  "second_after sep text =
     (case split_char sep text of
        _ # second # rest \<Rightarrow> Inr (if rest = [] then second else second @ [sep])
      | _ \<Rightarrow> Inl (Panic ''index out of range''))"

section \<open>Credentials\<close>

text \<open>The first match of \<^verbatim>\<open>(http|https|git)://.+@\<close> in a line: at the leftmost position, up to the last \<open>@\<close> that has a
  byte before it.\<close>

definition credentials_at :: "string \<Rightarrow> string \<Rightarrow> string option" where
  "credentials_at protocol s =
     (let p = protocol @ ''://''
      in if has_prefix s p
         then let rest = drop (length p) s; j = last_index_char rest CHR ''@''
              in if j \<ge> 1 then Some (p @ take (nat j + 1) rest) else None
         else None)"

definition credentials_here :: "string \<Rightarrow> string option" where
  "credentials_here s =
     (case credentials_at ''http'' s of
        Some m \<Rightarrow> Some m
      | None \<Rightarrow> (case credentials_at ''https'' s of Some m \<Rightarrow> Some m | None \<Rightarrow> credentials_at ''git'' s))"

fun FindCredentials :: "string \<Rightarrow> string" where
  "FindCredentials [] = []"
| "FindCredentials (c # s) = (case credentials_here (c # s) of Some m \<Rightarrow> m | None \<Rightarrow> FindCredentials s)"

definition replace_first :: "string \<Rightarrow> string \<Rightarrow> string \<Rightarrow> string" where
  "replace_first s old new =
     (case find_sub old s of None \<Rightarrow> s | Some i \<Rightarrow> take i s @ new @ drop (i + length old) s)"

definition RemoveCredentials :: "string \<Rightarrow> string \<Rightarrow> string" where
  "RemoveCredentials line credentialsPart = replace_first line credentialsPart (hd (split_str ''//'' credentialsPart) @ ''//'')"

definition mask_url :: "string \<Rightarrow> string" where
  "mask_url originUrl =
     (let matchedResult = FindCredentials originUrl
      in if matchedResult = [] then originUrl else RemoveCredentials originUrl matchedResult)"

section \<open>Reading a git directory\<close>

record git_env =
  ge_fs :: local_fs
  git_common_dir :: "string \<Rightarrow> string + string"
  ref_short :: "string \<Rightarrow> string"
  path_dir :: "string \<Rightarrow> string"

definition open_lines :: "git_env \<Rightarrow> string \<Rightarrow> string list result" where
  "open_lines env path =
     (case stat (ge_fs env) path of
        None \<Rightarrow> Inl (Err (''open '' @ path @ '': no such file or directory''))
      | Some (Regular content) \<Rightarrow> Inr (scan_lines content)
      | Some _ \<Rightarrow> Inl (Err (''read '' @ path @ '': is a directory'')))"

text \<open>The path that is read: of a submodule or a worktree it is the one git tells.\<close>

definition handleSubmoduleIfNeeded :: "git_env \<Rightarrow> string \<Rightarrow> string result" where
  "handleSubmoduleIfNeeded env path =
     (if \<not> IsFileExists (ge_fs env) path False then Inr path
      else case git_common_dir env (path_dir env path) of
             Inl e \<Rightarrow> Inl (Err e)
           | Inr stdout \<Rightarrow>
               let resolvedGitPath = TrimSpace stdout
               in if \<not> IsDirExists (ge_fs env) resolvedGitPath False
                  then Inl (Err (''path found in .git file '' @ [CHR 0x27] @ path @ [CHR 0x27] @ '' does not exist: '' @
                                 [CHR 0x27] @ resolvedGitPath @ [CHR 0x27]))
                  else Inr resolvedGitPath)"

fun origin_url :: "string list \<Rightarrow> bool \<Rightarrow> string result" where
  "origin_url [] IsNextLineUrl = Inr []"
| "origin_url (line # ls) IsNextLineUrl =
     (let text = TrimSpace line
      in if IsNextLineUrl \<and> has_prefix text ''url'' then and_then (second_after CHR ''='' text) (\<lambda>u. Inr (TrimSpace u))
         else origin_url ls (IsNextLineUrl \<or> line = ''[remote '' @ [CHR 0x22] @ ''origin'' @ [CHR 0x22] @ '']''))"

definition readUrl :: "git_env \<Rightarrow> string \<Rightarrow> string result" where
  "readUrl env path =
     and_then (open_lines env (path_join [path, ''config''])) (\<lambda>ls.
     and_then (origin_url ls False) (\<lambda>originUrl.
       Inr (mask_url (if \<not> has_suffix originUrl ''.git'' then originUrl @ ''.git'' else originUrl))))"

fun head_loop :: "string list \<Rightarrow> string \<Rightarrow> (string \<times> string) result" where
  "head_loop [] revision = Inr (revision, [])"
| "head_loop (text # ls) revision =
     (if has_prefix text ''ref'' then and_then (second_after CHR '':'' text) (\<lambda>r. Inr (revision, TrimSpace r))
      else head_loop ls text)"

definition getRevisionAndBranchPath :: "git_env \<Rightarrow> string \<Rightarrow> (string \<times> string) result" where
  "getRevisionAndBranchPath env path = and_then (open_lines env (path_join [path, ''HEAD''])) (\<lambda>ls. head_loop ls [])"

definition readRevisionFromRef :: "git_env \<Rightarrow> string \<Rightarrow> string result" where
  "readRevisionFromRef env refPath =
     and_then (open_lines env refPath) (\<lambda>ls. Inr (case ls of [] \<Rightarrow> [] | text # _ \<Rightarrow> TrimSpace text))"

fun packed_loop :: "string \<Rightarrow> string list \<Rightarrow> string result" where
  "packed_loop ref [] = Inr []"
| "packed_loop ref (line # ls) =
     (if has_suffix line ref
      then (case split_char CHR '' '' line of
              [revision, _] \<Rightarrow> Inr revision
            | _ \<Rightarrow> Inl (Err (''failed fetching revision for ref :'' @ ref @ '' - Unexpected line structure in packed-refs file'')))
      else packed_loop ref ls)"

definition readRevisionFromPackedRef :: "git_env \<Rightarrow> string \<Rightarrow> string \<Rightarrow> string result" where
  "readRevisionFromPackedRef env path ref =
     (let packedRefPath = path_join [path, ''packed-refs'']
      in if IsFileExists (ge_fs env) packedRefPath False
         then and_then (open_lines env packedRefPath) (packed_loop ref) else Inr [])"

text \<open>The revision and the branch.\<close>

definition readRevisionAndBranch :: "git_env \<Rightarrow> string \<Rightarrow> (string \<times> string) result" where
  "readRevisionAndBranch env path =
     and_then (getRevisionAndBranchPath env path) (\<lambda>(revision, ref).
       let branch = (if ref \<noteq> [] then ref_short env ref else [])
       in if revision \<noteq> [] then Inr (revision, branch)
          else let refPath = path_join [path, ref]
               in and_then (if IsFileExists (ge_fs env) refPath False then readRevisionFromRef env refPath
                            else readRevisionFromPackedRef env path ref) (\<lambda>revision. Inr (revision, branch)))"

record vcsDetails =
  vd_url :: string
  vd_revision :: string
  vd_branch :: string

definition empty_details :: vcsDetails where
  "empty_details = \<lparr>vd_url = [], vd_revision = [], vd_branch = []\<rparr>"

definition ReadConfig :: "git_env \<Rightarrow> string \<Rightarrow> vcsDetails result" where
  "ReadConfig env path =
     (if path = [] then Inl (Err ''.git path must be defined'')
      else if \<not> IsPathExists (ge_fs env) path False then Inl (Err ''.git path must exist in order to collect vcs details'')
      else and_then (handleSubmoduleIfNeeded env path) (\<lambda>path.
           and_then (readRevisionAndBranch env path) (\<lambda>(revision, branch).
           and_then (readUrl env path) (\<lambda>url. Inr \<lparr>vd_url = url, vd_revision = revision, vd_branch = branch\<rparr>))))"

section \<open>The details of a directory\<close>

definition NewGitManager :: "string \<Rightarrow> string" where
  "NewGitManager path = path_join [path, ''.git'']"

definition extractGitDetails :: "git_env \<Rightarrow> string \<Rightarrow> vcsDetails result" where
  "extractGitDetails env path = ReadConfig env (NewGitManager path)"

definition tryGetGitDetails :: "git_env \<Rightarrow> string \<Rightarrow> vcsDetails result" where
  "tryGetGitDetails env path =
     (if IsPathExists (ge_fs env) (path_join [path, ''.git'']) False then extractGitDetails env path else Inr empty_details)"

section \<open>The cache\<close>

text \<open>\<open>vcsDir\<close> keeps a nil pointer for a directory without an upstream \<^verbatim>\<open>.git\<close>.\<close>

record VcsCache =
  vcsRootDir :: "string \<rightharpoonup> vcsDetails"
  vcsDir :: "string \<rightharpoonup> vcsDetails option"
  vcsDirSize :: int

definition MaxEntries :: int where
  "MaxEntries = 10000"

definition NewVcsDetails :: VcsCache where
  "NewVcsDetails = \<lparr>vcsRootDir = Map.empty, vcsDir = Map.empty, vcsDirSize = 0\<rparr>"

definition searchCache :: "VcsCache \<Rightarrow> string \<Rightarrow> vcsDetails option option" where
  "searchCache vc path =
     (case vcsDir vc path of
        Some d \<Rightarrow> Some d
      | None \<Rightarrow> (case vcsRootDir vc path of Some d \<Rightarrow> Some (Some d) | None \<Rightarrow> None))"

definition clearCacheIfExceedsMax :: "VcsCache \<Rightarrow> VcsCache" where
  "clearCacheIfExceedsMax vc = (if vcsDirSize vc > MaxEntries then vc\<lparr>vcsDir := Map.empty, vcsDirSize := 0\<rparr> else vc)"

definition store_dirs :: "string list \<Rightarrow> vcsDetails option \<Rightarrow> VcsCache \<Rightarrow> VcsCache" where
  "store_dirs subPaths result vc =
     (if length subPaths > 0
      then let vc = clearCacheIfExceedsMax vc
           in vc\<lparr>vcsDir := fold (\<lambda>v m. m(v \<mapsto> result)) subPaths (vcsDir vc), vcsDirSize := vcsDirSize vc + int (length subPaths)\<rparr>
      else vc)"

text \<open>The directory and those above it, as the loop goes through them.\<close>

definition sub_paths :: "string \<Rightarrow> string list" where
  "sub_paths path = (let keys = split_char CHR ''/'' path in map (\<lambda>i. str_join ''/'' (take i keys)) (rev [1..<Suc (length keys)]))"

text \<open>The loop: the details found, the directories without an entry and the cache.\<close>

fun vcs_loop :: "git_env \<Rightarrow> VcsCache \<Rightarrow> string list \<Rightarrow> string list \<Rightarrow> (vcsDetails option \<times> string list \<times> VcsCache) result" where
  "vcs_loop env vc [] subPaths = Inr (None, subPaths, vc)"
| "vcs_loop env vc (subPath # rest) subPaths =
     (case searchCache vc subPath of
        Some d \<Rightarrow> Inr (d, subPaths, vc)
      | None \<Rightarrow>
          and_then (tryGetGitDetails env subPath) (\<lambda>d.
            if vd_revision d \<noteq> [] \<or> vd_url d \<noteq> [] \<or> vd_branch d \<noteq> []
            then Inr (Some d, subPaths, vc\<lparr>vcsRootDir := (vcsRootDir vc)(subPath \<mapsto> d)\<rparr>)
            else vcs_loop env vc rest (subPaths @ [subPath])))"

definition GetVcsDetails :: "git_env \<Rightarrow> string \<Rightarrow> VcsCache \<Rightarrow> vcsDetails result \<times> VcsCache" where
  "GetVcsDetails env path vc =
     (case vcs_loop env vc (sub_paths path) [] of
        Inl e \<Rightarrow> (Inl e, vc)
      | Inr (result, subPaths, vc) \<Rightarrow>
          (Inr (case result of None \<Rightarrow> empty_details | Some d \<Rightarrow> d), store_dirs subPaths result vc))"


section \<open>The nearest directory with details\<close>

text \<open>What the search promises: the details of the nearest of a list of directories that has any.\<close>

fun nearest :: "('k \<Rightarrow> 'v option result) \<Rightarrow> 'k list \<Rightarrow> 'v option result" where
  "nearest own [] = Inr None"
| "nearest own (k # ks) = and_then (own k) (\<lambda>d. if d = None then nearest own ks else Inr d)"

lemma nearest_append: "(\<And>k. k \<in> set ks \<Longrightarrow> own k = Inr None) \<Longrightarrow> nearest own (ks @ ls) = nearest own ls"
  by (induction ks) auto

locale ancestor_search =
  fixes ancestors :: "'k \<Rightarrow> 'k list" and own :: "'k \<Rightarrow> 'v option result"
  assumes ancestors_nth: "i < length (ancestors k) \<Longrightarrow> ancestors (ancestors k ! i) = drop i (ancestors k)"
begin

text \<open>Directories that have no details themselves share the answer of the first one that follows.\<close>

lemma nearest_passed:
  assumes "ancestors k = ks @ ls" "\<And>j. j \<in> set ks \<Longrightarrow> own j = Inr None" "j \<in> set ks"
  shows "nearest own (ancestors j) = nearest own ls"
proof -
  obtain i where i: "i < length ks" "j = ks ! i" using assms(3) by (metis in_set_conv_nth)
  then have "ancestors j = drop i ks @ ls"
    using ancestors_nth[of i k] assms(1) by (simp add: nth_append)
  then show ?thesis using nearest_append[of "drop i ks" own ls] assms(2) by (simp add: in_set_dropD)
qed

lemma nearest_member:
  assumes "ancestors k = ks @ j # ls" "\<And>i. i \<in> set ks \<Longrightarrow> own i = Inr None"
  shows "nearest own (ancestors k) = nearest own (ancestors j)" "ancestors j = j # ls"
proof -
  show "ancestors j = j # ls" using ancestors_nth[of "length ks" k] assms(1) by simp
  then show "nearest own (ancestors k) = nearest own (ancestors j)" using nearest_append[of ks own] assms by simp
qed

end

text \<open>The directories above a directory.\<close>

lemma sub_paths_alt:
  "sub_paths path = map (\<lambda>i. str_join ''/'' (take i (split_char CHR ''/'' path))) (rev [1..<Suc (length (split_char CHR ''/'' path))])"
  by (simp add: sub_paths_def Let_def)

lemma split_char_length [simp]: "Suc 0 \<le> length (split_char c s)"
  by (simp add: Suc_le_eq)

lemma sub_paths_nth:
  "i < length (sub_paths path) \<Longrightarrow>
    sub_paths path ! i = str_join ''/'' (take (length (split_char CHR ''/'' path) - i) (split_char CHR ''/'' path))"
  by (simp add: sub_paths_alt rev_nth del: upt_Suc) (simp add: nth_upt Suc_diff_Suc)

lemma length_sub_paths: "length (sub_paths path) = length (split_char CHR ''/'' path)"
  by (simp add: sub_paths_alt)

lemma split_sub_path:
  assumes "0 < n" "n \<le> length (split_char CHR ''/'' path)"
  shows "split_char CHR ''/'' (str_join ''/'' (take n (split_char CHR ''/'' path))) = take n (split_char CHR ''/'' path)"
  using assms split_char_no_sep[of _ "CHR ''/''" path] by (intro split_char_join) (auto dest: in_set_takeD)

lemma sub_paths_drop:
  assumes "i < length (sub_paths path)"
  shows "sub_paths (sub_paths path ! i) = drop i (sub_paths path)"
proof -
  let ?keys = "split_char CHR ''/'' path"
  note len = length_sub_paths
  have n: "0 < length ?keys - i" using assms len by simp
  note s = split_sub_path[OF n diff_le_self]
  show ?thesis
  proof (rule nth_equalityI)
    show "length (sub_paths (sub_paths path ! i)) = length (drop i (sub_paths path))"
      using s assms len by (simp add: sub_paths_nth)
  next
    fix j assume j: "j < length (sub_paths (sub_paths path ! i))"
    have "sub_paths (sub_paths path ! i) ! j = str_join ''/'' (take (length ?keys - i - j) ?keys)"
      by (subst sub_paths_nth[OF j]) (simp add: sub_paths_nth[OF assms] s min.absorb1 min.absorb2)
    moreover have "j < length ?keys - i" using j s assms len by (simp add: sub_paths_nth)
    ultimately show "sub_paths (sub_paths path ! i) ! j = drop i (sub_paths path) ! j"
      using assms len by (simp add: sub_paths_nth add.commute)
  qed
qed

definition own_details :: "git_env \<Rightarrow> string \<Rightarrow> vcsDetails option result" where
  "own_details env path =
     and_then (tryGetGitDetails env path) (\<lambda>d. Inr (if vd_revision d \<noteq> [] \<or> vd_url d \<noteq> [] \<or> vd_branch d \<noteq> [] then Some d else None))"

interpretation vcs: ancestor_search sub_paths "own_details env" for env
  by unfold_locales (rule sub_paths_drop)


section \<open>The cache is transparent\<close>

definition cache_ok :: "git_env \<Rightarrow> VcsCache \<Rightarrow> bool" where
  "cache_ok env vc \<longleftrightarrow>
     (\<forall>p d. vcsDir vc p = Some d \<longrightarrow> nearest (own_details env) (sub_paths p) = Inr d) \<and>
     (\<forall>p d. vcsRootDir vc p = Some d \<longrightarrow> nearest (own_details env) (sub_paths p) = Inr (Some d))"

definition size_ok :: "nat \<Rightarrow> VcsCache \<Rightarrow> bool" where
  "size_ok bound vc \<longleftrightarrow> finite (dom (vcsDir vc)) \<and> vcsDirSize vc = int (card (dom (vcsDir vc))) \<and> vcsDirSize vc \<le> MaxEntries + int bound"

lemma searchCache_nearest: "cache_ok env vc \<Longrightarrow> searchCache vc p = Some d \<Longrightarrow> nearest (own_details env) (sub_paths p) = Inr d"
  unfolding cache_ok_def searchCache_def by (cases "vcsDir vc p"; cases "vcsRootDir vc p") auto

lemma distinct_sub_paths: "distinct (sub_paths path)"
proof -
  have "inj_on (\<lambda>i. str_join ''/'' (take i (split_char CHR ''/'' path))) {1..<Suc (length (split_char CHR ''/'' path))}"
  proof (rule inj_onI)
    fix i j assume i: "i \<in> {1..<Suc (length (split_char CHR ''/'' path))}" and j: "j \<in> {1..<Suc (length (split_char CHR ''/'' path))}"
      and eq: "str_join ''/'' (take i (split_char CHR ''/'' path)) = str_join ''/'' (take j (split_char CHR ''/'' path))"
    have "take i (split_char CHR ''/'' path) = take j (split_char CHR ''/'' path)"
      using split_sub_path[of i path] split_sub_path[of j path] i j arg_cong[OF eq, of "split_char CHR ''/''"] by simp
    then have "length (take i (split_char CHR ''/'' path)) = length (take j (split_char CHR ''/'' path))" by simp
    then show "i = j" using i j by simp
  qed
  then show ?thesis unfolding sub_paths_alt by (simp add: distinct_map del: upt_Suc)
qed

text \<open>The loop finds what an uncached search finds, from any cache that agrees with it.\<close>

lemma vcs_loop_nearest:
  assumes "cache_ok env vc" "sub_paths path = subPaths @ rest" "\<And>p. p \<in> set subPaths \<Longrightarrow> own_details env p = Inr None \<and> searchCache vc p = None"
  shows "case vcs_loop env vc rest subPaths of
      Inl e \<Rightarrow> nearest (own_details env) (sub_paths path) = Inl e
    | Inr (result, dirs, vc') \<Rightarrow> nearest (own_details env) (sub_paths path) = Inr result \<and>
        (\<exists>ls. sub_paths path = dirs @ ls \<and> nearest (own_details env) ls = Inr result) \<and>
        (\<forall>p\<in>set dirs. own_details env p = Inr None \<and> searchCache vc p = None) \<and>
        vcsDir vc' = vcsDir vc \<and> vcsDirSize vc' = vcsDirSize vc \<and> cache_ok env vc'"
  using assms
proof (induction rest arbitrary: subPaths)
  case Nil
  have "nearest (own_details env) (sub_paths path) = nearest (own_details env) []"
    using nearest_append[of subPaths "own_details env" "[]"] Nil.prems by auto
  then show ?case using Nil.prems by (auto intro!: exI[of _ "[]"])
next
  case (Cons p rest)
  have passed: "own_details env q = Inr None" if "q \<in> set subPaths" for q using Cons.prems(3)[OF that] by blast
  note here = vcs.nearest_member[OF Cons.prems(2) passed]
  have at_p: "nearest (own_details env) (sub_paths path) = nearest (own_details env) (p # rest)"
    using nearest_append[of subPaths "own_details env" "p # rest"] passed Cons.prems(2) by simp
  show ?case
  proof (cases "searchCache vc p")
    case (Some d)
    then have "nearest (own_details env) (sub_paths p) = Inr d" using searchCache_nearest[OF Cons.prems(1)] by blast
    then show ?thesis using Some Cons.prems here by (auto intro!: exI[of _ "p # rest"])
  next
    case miss: None
    show ?thesis
    proof (cases "tryGetGitDetails env p")
      case (Inl e)
      then show ?thesis using miss at_p by (simp add: own_details_def)
    next
      case (Inr d)
      show ?thesis
      proof (cases "vd_revision d \<noteq> [] \<or> vd_url d \<noteq> [] \<or> vd_branch d \<noteq> []")
        case True
        then have own: "own_details env p = Inr (Some d)" using Inr by (simp add: own_details_def)
        have "nearest (own_details env) (sub_paths p) = Inr (Some d)" using own here(2) by simp
        then have "cache_ok env (vc\<lparr>vcsRootDir := (vcsRootDir vc)(p \<mapsto> d)\<rparr>)" using Cons.prems(1) by (auto simp: cache_ok_def)
        then show ?thesis using miss Inr True at_p own Cons.prems by (auto intro!: exI[of _ "p # rest"])
      next
        case False
        then have own: "own_details env p = Inr None" using Inr by (simp add: own_details_def)
        have loop: "vcs_loop env vc (p # rest) subPaths = vcs_loop env vc rest (subPaths @ [p])" using miss Inr False by simp
        show ?thesis unfolding loop by (rule Cons.IH) (use Cons.prems own miss in auto)
      qed
    qed
  qed
qed

lemma fold_update_map: "fold (\<lambda>v m. m(v \<mapsto> r)) ps m = (\<lambda>v. if v \<in> set ps then Some r else m v)"
  by (induction ps arbitrary: m) auto

lemma clear_ok: "cache_ok env vc \<Longrightarrow> cache_ok env (clearCacheIfExceedsMax vc)"
  "size_ok bound vc \<Longrightarrow> size_ok 0 (clearCacheIfExceedsMax vc)"
  "searchCache vc p = None \<Longrightarrow> searchCache (clearCacheIfExceedsMax vc) p = None"
  by (auto simp: cache_ok_def size_ok_def clearCacheIfExceedsMax_def searchCache_def MaxEntries_def split: option.splits)

lemma searchCache_member: "p \<in> dom (vcsDir vc) \<Longrightarrow> searchCache vc p \<noteq> None"
  by (auto simp: searchCache_def)

lemma store_dirs_ok:
  assumes "cache_ok env vc" "sub_paths path = dirs @ ls" "nearest (own_details env) ls = Inr result"
    "\<forall>p\<in>set dirs. own_details env p = Inr None"
  shows "cache_ok env (store_dirs dirs result vc)"
proof -
  have "nearest (own_details env) (sub_paths p) = Inr result" if "p \<in> set dirs" for p
    using vcs.nearest_passed[OF assms(2), of env p] assms(3,4) that by simp
  then show ?thesis using clear_ok(1)[OF assms(1)] assms(1)
    by (cases "dirs = []") (auto simp: store_dirs_def Let_def cache_ok_def fold_update_map split: if_splits)
qed

lemma store_dirs_size:
  assumes "size_ok bound vc" "distinct dirs" "\<forall>p\<in>set dirs. searchCache vc p = None" "length dirs \<le> bound"
  shows "size_ok bound (store_dirs dirs result vc)"
proof (cases "dirs = []")
  case True
  then show ?thesis using assms(1) by (simp add: store_dirs_def)
next
  case False
  define vc1 where "vc1 = clearCacheIfExceedsMax vc"
  have s: "finite (dom (vcsDir vc1))" "vcsDirSize vc1 = int (card (dom (vcsDir vc1)))" "vcsDirSize vc1 \<le> MaxEntries"
    using clear_ok(2)[OF assms(1)] by (auto simp: vc1_def size_ok_def)
  have disjoint: "set dirs \<inter> dom (vcsDir vc1) = {}"
    using assms(3) clear_ok(3)[of vc] searchCache_member[of _ vc1] unfolding vc1_def by fastforce
  have dom: "dom (vcsDir (store_dirs dirs result vc)) = set dirs \<union> dom (vcsDir vc1)"
    using False by (auto simp: store_dirs_def Let_def fold_update_map vc1_def split: if_splits)
  have "card (set dirs \<union> dom (vcsDir vc1)) = length dirs + card (dom (vcsDir vc1))"
    using disjoint s(1) assms(2) by (simp add: card_Un_disjoint distinct_card)
  then show ?thesis using s False assms(4) unfolding size_ok_def dom by (simp add: store_dirs_def Let_def vc1_def)
qed

lemma GetVcsDetails_step:
  assumes "cache_ok env vc" "size_ok bound vc" "length (sub_paths path) \<le> bound"
  shows "fst (GetVcsDetails env path vc) =
      and_then (nearest (own_details env) (sub_paths path)) (\<lambda>d. Inr (case d of None \<Rightarrow> empty_details | Some d \<Rightarrow> d)) \<and>
    cache_ok env (snd (GetVcsDetails env path vc)) \<and> size_ok bound (snd (GetVcsDetails env path vc))"
proof (cases "vcs_loop env vc (sub_paths path) []")
  case (Inl e)
  then show ?thesis using vcs_loop_nearest[OF assms(1), of path "[]" "sub_paths path"] assms(1,2) by (simp add: GetVcsDetails_def)
next
  case (Inr r)
  obtain result dirs vc' where r: "r = (result, dirs, vc')" by (cases r)
  obtain ls where run: "nearest (own_details env) (sub_paths path) = Inr result" "sub_paths path = dirs @ ls"
      "nearest (own_details env) ls = Inr result" "\<forall>p\<in>set dirs. own_details env p = Inr None \<and> searchCache vc p = None"
      "vcsDir vc' = vcsDir vc" "vcsDirSize vc' = vcsDirSize vc" "cache_ok env vc'"
    using vcs_loop_nearest[OF assms(1), of path "[]" "sub_paths path"] Inr r by auto
  have dirs: "distinct dirs" "length dirs \<le> bound" using distinct_sub_paths[of path] run(2) assms(3) by auto
  have "cache_ok env (store_dirs dirs result vc')" using store_dirs_ok[OF run(7,2,3)] run(4) by blast
  moreover have "size_ok bound (store_dirs dirs result vc) "
    using store_dirs_size[OF assms(2) dirs(1) _ dirs(2)] run(4) by blast
  moreover have "vcsDir (store_dirs dirs result vc') = vcsDir (store_dirs dirs result vc)"
    "vcsDirSize (store_dirs dirs result vc') = vcsDirSize (store_dirs dirs result vc)"
    using run(5,6) by (simp_all add: store_dirs_def clearCacheIfExceedsMax_def Let_def)
  ultimately show ?thesis using Inr r run(1) by (simp add: GetVcsDetails_def size_ok_def)
qed


section \<open>Sequences of lookups\<close>

text \<open>The caches that lookups of paths of at most \<open>bound\<close> parts produce, with the lookups made and their answers.\<close>

inductive vcs_reachable :: "git_env \<Rightarrow> nat \<Rightarrow> (string \<times> vcsDetails result) list \<Rightarrow> VcsCache \<Rightarrow> bool" for env bound where
  new: "vcs_reachable env bound [] NewVcsDetails"
| lookup: "vcs_reachable env bound answers vc \<Longrightarrow> length (split_char CHR ''/'' path) \<le> bound \<Longrightarrow>
     vcs_reachable env bound ((path, fst (GetVcsDetails env path vc)) # answers) (snd (GetVcsDetails env path vc))"

definition uncached_details :: "git_env \<Rightarrow> string \<Rightarrow> vcsDetails result" where
  "uncached_details env path =
     and_then (nearest (own_details env) (sub_paths path)) (\<lambda>d. Inr (case d of None \<Rightarrow> empty_details | Some d \<Rightarrow> d))"

lemma vcs_reachable_ok:
  "vcs_reachable env bound answers vc \<Longrightarrow>
    cache_ok env vc \<and> size_ok bound vc \<and> (\<forall>(path, answer) \<in> set answers. answer = uncached_details env path)"
proof (induction rule: vcs_reachable.induct)
  case new
  then show ?case by (simp add: cache_ok_def size_ok_def NewVcsDetails_def MaxEntries_def)
next
  case (lookup answers vc path)
  then show ?case
    using GetVcsDetails_step[of env vc bound path] by (simp add: uncached_details_def length_sub_paths)
qed

text \<open>C10: the cache of version control details is transparent: after any sequence of lookups of paths of at most
  \<open>bound\<close> parts, every answer given is the one of a search from the directory upwards without a cache (the nearest
  directory whose \<^verbatim>\<open>.git\<close> gives details, empty details if there is none, the error of a \<^verbatim>\<open>.git\<close> that cannot be read);
  the counter is the number of entries of the directory cache, and never passes the maximum by more than one path.\<close>

theorem GetVcsDetails_transparent:
  assumes "vcs_reachable env bound answers vc"
  shows "(\<forall>(path, answer) \<in> set answers. answer = uncached_details env path) \<and>
    (length (split_char CHR ''/'' path) \<le> bound \<longrightarrow> fst (GetVcsDetails env path vc) = uncached_details env path) \<and>
    vcsDirSize vc = int (card (dom (vcsDir vc))) \<and> vcsDirSize vc \<le> MaxEntries + int bound"
  using vcs_reachable_ok[OF assms] GetVcsDetails_step[of env vc bound path]
  by (simp add: uncached_details_def length_sub_paths size_ok_def)

section \<open>Masking\<close>

lemma credentials_at_match:
  assumes "cred \<noteq> []" "CHR ''@'' \<notin> set host"
  shows "credentials_at protocol (protocol @ ''://'' @ cred @ ''@'' @ host) = Some (protocol @ ''://'' @ cred @ ''@'')"
proof -
  have "last_index_char (cred @ ''@'' @ host) CHR ''@'' = int (length cred)"
    using last_index_char_last[OF assms(2), of cred] by simp
  moreover have "1 \<le> int (length cred)" using assms(1) by (cases cred) auto
  ultimately show ?thesis
    using has_prefix_append[of "protocol @ ''://''" "cred @ ''@'' @ host"] by (simp add: credentials_at_def Let_def nat_add_distrib)
qed

lemma FindCredentials_match:
  assumes "protocol \<in> {''http'', ''https'', ''git''}" "cred \<noteq> []" "CHR ''@'' \<notin> set host"
  shows "FindCredentials (protocol @ ''://'' @ cred @ ''@'' @ host) = protocol @ ''://'' @ cred @ ''@''"
proof -
  have "credentials_here (protocol @ ''://'' @ cred @ ''@'' @ host) = Some (protocol @ ''://'' @ cred @ ''@'')"
    using assms(1) credentials_at_match[OF assms(2,3), of protocol]
    by (auto simp: credentials_here_def) (auto simp: credentials_at_def split: option.splits)
  then show ?thesis by (cases protocol) (simp_all)
qed

lemma replace_first_prefix: "old \<noteq> [] \<Longrightarrow> replace_first (old @ s) old new = new @ s"
  using has_prefix_append[of old s] by (cases old) (auto simp: replace_first_def)

lemma RemoveCredentials_match:
  assumes "protocol \<in> {''http'', ''https'', ''git''}"
  shows "RemoveCredentials (protocol @ ''://'' @ cred @ ''@'' @ host) (protocol @ ''://'' @ cred @ ''@'') = protocol @ ''://'' @ host"
proof -
  have "hd (split_str ''//'' (protocol @ ''://'' @ cred @ ''@'')) = protocol @ '':''"
    using assms by (subst split_str.simps) auto
  then show ?thesis
    using replace_first_prefix[of "protocol @ ''://'' @ cred @ ''@''" host] assms by (auto simp: RemoveCredentials_def)
qed

lemma mask_url_match:
  assumes "protocol \<in> {''http'', ''https'', ''git''}" "cred \<noteq> []" "CHR ''@'' \<notin> set host"
  shows "mask_url (protocol @ ''://'' @ cred @ ''@'' @ host) = protocol @ ''://'' @ host"
  using FindCredentials_match[OF assms] RemoveCredentials_match[OF assms(1)] by (simp add: mask_url_def Let_def)

lemma credentials_at_no_at: "CHR ''@'' \<notin> set s \<Longrightarrow> credentials_at p s = None"
  by (auto simp: credentials_at_def Let_def last_index_char_def dest: in_set_dropD)

lemma mask_url_no_at: "CHR ''@'' \<notin> set url \<Longrightarrow> mask_url url = url"
proof -
  assume "CHR ''@'' \<notin> set url"
  then have "FindCredentials url = []"
    by (induction url) (simp_all add: credentials_here_def credentials_at_no_at)
  then show ?thesis by (simp add: mask_url_def)
qed

text \<open>The origin in the configuration.\<close>

lemma origin_url_skip:
  "(\<And>l. l \<in> set pre \<Longrightarrow> \<not> has_prefix (TrimSpace l) ''url'') \<Longrightarrow> origin_url (pre @ ls) True = origin_url ls True"
  by (induction pre) (auto simp: Let_def)

lemma origin_url_before:
  "''[remote \"origin\"]'' \<notin> set pre \<Longrightarrow> origin_url (pre @ ls) False = origin_url ls False"
  by (induction pre) (auto simp: Let_def)

lemma origin_url_found:
  assumes "TrimSpace line = ''url = '' @ url" "CHR ''='' \<notin> set url" "TrimSpace ('' '' @ url) = url"
  shows "origin_url (line # ls) True = Inr url"
proof -
  have "split_char CHR ''='' (''url = '' @ url) = [''url '', '' '' @ url]"
    using split_char_join[of "[''url '', '' '' @ url]" "CHR ''=''"] assms(2) by simp
  then show ?thesis using assms(1,3) by (simp add: second_after_def)
qed

lemma has_suffix_mid:
  assumes "c \<notin> set p"
  shows "has_suffix (a @ c # s) p \<longleftrightarrow> has_suffix s p"
proof
  assume "has_suffix (a @ c # s) p"
  then obtain t where "a @ c # s = t @ p" by (auto simp: has_suffix_iff)
  then obtain us where us: "a = t @ us \<and> us @ c # s = p \<or> a @ us = t \<and> c # s = us @ p"
    by (auto simp: append_eq_append_conv2)
  then have "c # s = us @ p" using assms by auto
  then show "has_suffix s p" using assms by (cases us) (auto simp: has_suffix_iff)
next
  assume "has_suffix s p"
  then obtain t where "s = t @ p" by (auto simp: has_suffix_iff)
  then show "has_suffix (a @ c # s) p" using has_suffix_append[of "a @ c # t" p] by simp
qed

text \<open>C15: the credentials that a configuration keeps in the URL of the remote \<open>origin\<close> do not reach the details, when the URL
  has no character \<open>=\<close> and a protocol the code knows: whatever follows and whatever sections stand before, the URL read is the one of the first \<open>url\<close> line after the section's
  heading, without what stands between the protocol and the host, and with the ending \<^verbatim>\<open>.git\<close>.\<close>

theorem readUrl_masks_credentials:
  assumes "open_lines env (path_join [path, ''config'']) = Inr (pre @ ''[remote \"origin\"]'' # mid @ line # post)"
    and "''[remote \"origin\"]'' \<notin> set pre" "\<And>l. l \<in> set mid \<Longrightarrow> \<not> has_prefix (TrimSpace l) ''url''"
    and "TrimSpace line = ''url = '' @ url" "TrimSpace ('' '' @ url) = url" "CHR ''='' \<notin> set url"
    and "url = protocol @ ''://'' @ cred @ ''@'' @ host"
    and "protocol \<in> {''http'', ''https'', ''git''}" "cred \<noteq> []" "CHR ''@'' \<notin> set host"
  shows "readUrl env path = Inr (protocol @ ''://'' @ host @ (if has_suffix host ''.git'' then [] else ''.git''))"
proof -
  have "origin_url (pre @ ''[remote \"origin\"]'' # mid @ line # post) False = Inr url"
    using origin_url_before[OF assms(2)] origin_url_skip[OF assms(3)] origin_url_found[OF assms(4,6,5)] by (simp add: Let_def)
  then have "readUrl env path = Inr (mask_url (if has_suffix url ''.git'' then url else url @ ''.git''))"
    using assms(1) by (simp add: readUrl_def)
  moreover have "has_suffix url ''.git'' = has_suffix host ''.git''"
    unfolding assms(7) using has_suffix_mid[of "CHR ''@''" "''.git''" "protocol @ ''://'' @ cred" host] by simp
  moreover have "mask_url url = protocol @ ''://'' @ host" "mask_url (url @ ''.git'') = protocol @ ''://'' @ host @ ''.git''"
    using mask_url_match[OF assms(8,9,10)] mask_url_match[OF assms(8,9), of "host @ ''.git''"] assms(7,10) by simp_all
  ultimately show ?thesis by simp
qed

definition example_config :: "string list" where
  "example_config = [''[core]'', ''[remote \"origin\"]'', '' url = http://u:p@h/r'', ''fetch = x'']"

definition example_git :: git_env where
  "example_git = \<lparr>ge_fs = \<lparr>lstat = Map.empty,
      stat = (\<lambda>p. if p = ''r/.git/config'' then Some (Regular (str_join [CHR 0x0A] (example_config @ [[]]))) else None),
      list_files = (\<lambda>_ _ _ _. Inr [])\<rparr>,
    git_common_dir = (\<lambda>d. Inl ''no git''), ref_short = (\<lambda>r. r), path_dir = (\<lambda>p. p)\<rparr>"

theorem readUrl_masks_credentials_witness: "readUrl example_git ''r/.git'' = Inr ''http://h/r.git''"
proof -
  have "path_join [''r/.git'', ''config''] = ''r/.git/config''" by code_simp
  moreover have "scan_lines (str_join [CHR 0x0A] (example_config @ [[]])) = example_config"
  proof -
    have "split_char CHR 0x0A (str_join [CHR 0x0A] (example_config @ [[]])) = example_config @ [[]]"
      by (rule split_char_join) (simp_all add: example_config_def)
    then have "scan_lines (str_join [CHR 0x0A] (example_config @ [[]])) = map (\<lambda>l. trim_suffix l [CHR 0x0D]) example_config"
      by (simp add: scan_lines_def)
    then show ?thesis by (simp add: example_config_def trim_suffix_def has_suffix_single)
  qed
  ultimately have lines: "open_lines example_git (path_join [''r/.git'', ''config'']) =
      Inr ([''[core]''] @ ''[remote \"origin\"]'' # [] @ '' url = http://u:p@h/r'' # [''fetch = x''])"
    by (simp add: open_lines_def example_git_def) (simp add: example_config_def)
  have trims: "TrimSpace '' url = http://u:p@h/r'' = ''url = '' @ ''http://u:p@h/r''"
    "TrimSpace ('' '' @ ''http://u:p@h/r'') = ''http://u:p@h/r''" by code_simp+
  have "readUrl example_git ''r/.git'' =
      Inr (''http'' @ ''://'' @ ''h/r'' @ (if has_suffix ''h/r'' ''.git'' then [] else ''.git''))"
    by (rule readUrl_masks_credentials[OF lines _ _ trims, where cred = "''u:p''"]) simp_all
  moreover have "has_suffix ''h/r'' ''.git'' = False" by code_simp
  ultimately show ?thesis by simp
qed

text \<open>With the character \<open>=\<close> in the credentials the URL ends at it, before the \<open>@\<close> by which credentials are recognised: a part
  of them reaches the details.\<close>

lemma credentials_with_equals:
  assumes "TrimSpace line = ''url = '' @ a @ ''='' @ b" "TrimSpace ('' '' @ a @ ''='') = a @ ''=''"
    and "CHR ''='' \<notin> set a" "CHR ''='' \<notin> set b" "CHR ''@'' \<notin> set a"
  shows "origin_url (line # ls) True = Inr (a @ ''='')" "mask_url (a @ ''=.git'') = a @ ''=.git''"
proof -
  have "split_char CHR ''='' (''url = '' @ a @ ''='' @ b) = [''url '', '' '' @ a, b]"
    using split_char_join[of "[''url '', '' '' @ a, b]" "CHR ''=''"] assms(3,4) by simp
  then show "origin_url (line # ls) True = Inr (a @ ''='')" using assms(1,2) by (simp add: second_after_def)
  show "mask_url (a @ ''=.git'') = a @ ''=.git''" using assms(5) by (intro mask_url_no_at) simp
qed

lemma credentials_with_equals_example: "origin_url ['' url = http://u:p=x@h/r''] True = Inr ''http://u:p=''"
proof -
  have "TrimSpace '' url = http://u:p=x@h/r'' = ''url = '' @ ''http://u:p'' @ ''='' @ ''x@h/r''"
    "TrimSpace ('' '' @ ''http://u:p'' @ ''='') = ''http://u:p'' @ ''=''" by code_simp+
  from credentials_with_equals(1)[OF this] show ?thesis by simp
qed

theorem GetVcsDetails_transparent_witness:
  "fst (GetVcsDetails example_git ''r/x'' (snd (GetVcsDetails example_git ''r/y/z'' NewVcsDetails))) = uncached_details example_git ''r/x''"
proof -
  have "vcs_reachable example_git 3 [(''r/y/z'', fst (GetVcsDetails example_git ''r/y/z'' NewVcsDetails))]
      (snd (GetVcsDetails example_git ''r/y/z'' NewVcsDetails))"
    by (rule vcs_reachable.lookup[OF vcs_reachable.new]) simp
  from GetVcsDetails_transparent[OF this, of "''r/x''"] show ?thesis by simp
qed

text \<open>The search of an absolute path does not end at the root of the file system: the last directory it tries is the empty
  string, and the \<^verbatim>\<open>.git\<close> of that one is the \<^verbatim>\<open>.git\<close> of the working directory.\<close>

lemma absolute_path_last: "\<exists>ps. sub_paths (CHR ''/'' # path) = ps @ [[]]"
proof
  show "sub_paths (CHR ''/'' # path) =
      map (\<lambda>i. str_join ''/'' (take i (split_char CHR ''/'' (CHR ''/'' # path)))) (rev [2..<Suc (length (split_char CHR ''/'' (CHR ''/'' # path)))]) @ [[]]"
  proof -
    have "[1..<Suc (length (split_char CHR ''/'' (CHR ''/'' # path)))] = 1 # [2..<Suc (length (split_char CHR ''/'' (CHR ''/'' # path)))]"
      by (simp add: upt_conv_Cons numeral_2_eq_2 del: upt_Suc)
    then show ?thesis unfolding sub_paths_alt by simp
  qed
qed

lemma absolute_path_working_directory:
  assumes "\<And>p. p \<in> set (sub_paths (CHR ''/'' # path)) \<Longrightarrow> p \<noteq> [] \<Longrightarrow> \<not> IsPathExists (ge_fs env) (path_join [p, ''.git'']) False"
    and "IsPathExists (ge_fs env) ''.git'' False" "ReadConfig env ''.git'' = Inr d" "vd_url d \<noteq> []"
  shows "uncached_details env (CHR ''/'' # path) = Inr d"
proof -
  obtain ps where ps: "sub_paths (CHR ''/'' # path) = ps @ [[]]" using absolute_path_last by blast
  have d: "distinct (ps @ [[]])" using distinct_sub_paths[of "CHR ''/'' # path"] ps by simp
  have "own_details env p = Inr None" if "p \<in> set ps" for p
  proof -
    have "\<not> IsPathExists (ge_fs env) (path_join [p, ''.git'']) False" using that d ps by (intro assms(1)) auto
    then show ?thesis by (simp add: own_details_def tryGetGitDetails_def empty_details_def)
  qed
  then have "nearest (own_details env) (sub_paths (CHR ''/'' # path)) = nearest (own_details env) [[]]"
    unfolding ps by (rule nearest_append)
  moreover have "path_join [[], ''.git''] = ''.git''" by code_simp
  ultimately show ?thesis using assms(2-4)
    by (simp add: uncached_details_def own_details_def tryGetGitDetails_def extractGitDetails_def NewGitManager_def)
qed

end
