(* ===== verification/Service.thy ===== *)
theory Service
  imports Client Json
begin

text \<open>
  What the services of the REST interfaces share: the client and the details they are made with, a request with a JSON
  body, and the check of the answer by \<open>CheckResponseStatusWithBody\<close>. The parser of JSON is a field
  of the service.
\<close>

record 'w service =
  sv_client :: "'w JfrogHttpClient"
  sv_details :: CommonConfigFields
  sv_parse :: "string \<Rightarrow> jvalue result"

definition sv_url :: "'w service \<Rightarrow> string" where
  "sv_url sv = ccf_Url (sv_details sv)"

definition details_of :: "'w service \<Rightarrow> HttpClientDetails" where
  "details_of sv = CreateHttpClientDetails (sv_details sv)"

text \<open>The error of a call, the error for a status that is not expected, or the response and its body.\<close>

definition checked :: "'w service \<Rightarrow> int list \<Rightarrow> Response option \<times> string \<times> go_error option \<Rightarrow> (Response \<times> string) result" where
  "checked sv expected reply =
     (case reply of
        (_, _, Some e) \<Rightarrow> Inl e
      | (None, _, None) \<Rightarrow> Inl (Panic ''nil pointer dereference'')
      | (Some r, body, None) \<Rightarrow>
          (case CheckResponseStatusWithBody (jc_indent (sv_client sv)) r body expected of
             Some e \<Rightarrow> Inl (Err e) | None \<Rightarrow> Inr (r, body)))"

lemma checked_simps [simp]:
  "checked sv expected (resp, body, Some e) = Inl e"
  "StatusCode r \<in> set expected \<Longrightarrow> checked sv expected (Some r, body, None) = Inr (r, body)"
  by (simp_all add: checked_def CheckResponseStatusWithBody_def split: option.split)

lemma checked_InrD: "checked sv expected (resp, body, err) = Inr (r, b) \<Longrightarrow> resp = Some r \<and> b = body \<and> err = None \<and> StatusCode r \<in> set expected"
  by (auto simp: checked_def CheckResponseStatusWithBody_def split: option.splits if_splits)

lemma checked_unexpected:
  "StatusCode r \<notin> set expected \<Longrightarrow> checked sv expected (Some r, body, None) =
    Inl (Err (GenerateResponseError (Status r) (GenerateErrorString (jc_indent (sv_client sv)) body)))"
  by (simp add: checked_def CheckResponseStatusWithBody_def)

text \<open>Go on with the checked answer of a call that may not return.\<close>

definition after_reply :: "'w http_result option \<Rightarrow> (Response option \<times> string \<times> go_error option \<Rightarrow> 'w \<Rightarrow> 'a option) \<Rightarrow> 'a option" where
  "after_reply r f = (case r of None \<Rightarrow> None | Some (reply, w) \<Rightarrow> f reply w)"

lemma after_reply_simps [simp]:
  "after_reply None f = None"
  "after_reply (Some (reply, w)) f = f reply w"
  by (simp_all add: after_reply_def)

text \<open>The details with a JSON body, and a call whose answer is only checked.\<close>

definition json_details :: "'w service \<Rightarrow> HttpClientDetails" where
  "json_details rs = json_content (details_of rs)"

definition finished :: "'w service \<Rightarrow> int list \<Rightarrow> 'w http_result option \<Rightarrow> (go_error option \<times> 'w) option" where
  "finished rs expected reply =
     after_reply reply (\<lambda>r w. Some (case checked rs expected r of Inl e \<Rightarrow> Some e | Inr _ \<Rightarrow> None, w))"

section \<open>Requests that are answered at once\<close>

text \<open>A request of any method whose first answer is below 500 is sent once.\<close>

lemma Send_answered:
  assumes "NewRequest_error jc meth url = None" "0 \<le> hc_retries jc" "StatusCode r < 500"
    and "http_do jc (meth = ''POST'') (request_of jc details meth url content) w = (Answered r, w')"
  shows "Send (Suc n) jc meth url content True closeBody details pre w =
    Some ((Some r, if closeBody then fst (Body r) else [], [], None), w')"
proof -
  have step: "send_handler jc post' meth url content True closeBody details pre (Some (None, [], [], w)) =
      ((False, None), Some (Some r, if closeBody then fst (Body r) else [], [], w'))" for post'
    using assms
    by (simp add: send_handler_def createReq_def doRequest_def request_of_def retry_on_server_error_def)
  have "Execute (send_executor jc meth url pre) c (send_handler jc post' meth url content True closeBody details pre) (Some (None, [], [], w)) =
      (None, Some (Some r, if closeBody then fst (Body r) else [], [], w'), [Attempt])" for c post'
    unfolding Execute_def using assms(2) by (subst retry_loop.simps) (simp only: step, simp)
  then show ?thesis by (simp add: Let_def)
qed

definition ready_client :: "'w JfrogHttpClient \<Rightarrow> string \<Rightarrow> string \<Rightarrow> bool" where
  "ready_client rtc meth url \<longleftrightarrow> NewRequest_error (httpClient rtc) meth url = None \<and> 0 \<le> hc_retries (httpClient rtc) \<and>
     0 < jc_redirects rtc \<and> preRequestInterceptors rtc = []"

lemma answered:
  assumes "ready_client rtc meth url" "StatusCode r < 500"
    and "http_do (httpClient rtc) (meth = ''POST'') (request_of (httpClient rtc) d meth url content) w = (Answered r, w')"
  shows "meth = ''GET'' \<Longrightarrow> content = None \<Longrightarrow> jc_SendGet rtc url True d w = Some ((Some r, fst (Body r), None), w')"
    "meth = ''POST'' \<Longrightarrow> jc_SendPost rtc url content d w = Some ((Some r, fst (Body r), None), w')"
    "meth = ''PUT'' \<Longrightarrow> jc_SendPut rtc url content d w = Some ((Some r, fst (Body r), None), w')"
    "meth = ''DELETE'' \<Longrightarrow> jc_SendDelete rtc url content d w = Some ((Some r, fst (Body r), None), w')"
    "meth = ''PATCH'' \<Longrightarrow> jc_SendPatch rtc url content d w = Some ((Some r, fst (Body r), None), w')"
proof -
  obtain n where n: "jc_redirects rtc = Suc n" using assms(1) by (cases "jc_redirects rtc") (auto simp: ready_client_def)
  have i: "preRequestInterceptors rtc = []" using assms(1) by (simp add: ready_client_def)
  have send: "Send (Suc n) (httpClient rtc) meth url content True True d [] w = Some ((Some r, fst (Body r), [], None), w')"
    using Send_answered[OF _ _ assms(2,3), where closeBody = True] assms(1) by (simp add: ready_client_def)
  note ds = jc_send_def n i go_reply_def drop_redirect_def send_body_def
  show "meth = ''GET'' \<Longrightarrow> content = None \<Longrightarrow> jc_SendGet rtc url True d w = Some ((Some r, fst (Body r), None), w')"
    using send by (simp add: jc_SendGet_def SendGet_def ds del: Send.simps)
  show "meth = ''POST'' \<Longrightarrow> jc_SendPost rtc url content d w = Some ((Some r, fst (Body r), None), w')"
    using send by (simp add: jc_SendPost_def SendPost_def ds del: Send.simps)
  show "meth = ''PUT'' \<Longrightarrow> jc_SendPut rtc url content d w = Some ((Some r, fst (Body r), None), w')"
    using send by (simp add: jc_SendPut_def SendPut_def ds del: Send.simps)
  show "meth = ''DELETE'' \<Longrightarrow> jc_SendDelete rtc url content d w = Some ((Some r, fst (Body r), None), w')"
    using send by (simp add: jc_SendDelete_def SendDelete_def ds del: Send.simps)
  show "meth = ''PATCH'' \<Longrightarrow> jc_SendPatch rtc url content d w = Some ((Some r, fst (Body r), None), w')"
    using send by (simp add: jc_SendPatch_def SendPatch_def ds del: Send.simps)
qed

text \<open>A service whose server answers by the number of the requests it has seen.\<close>

definition example_service :: "(nat \<Rightarrow> do_result) \<Rightarrow> nat service" where
  "example_service ans =
     \<lparr>sv_client = \<lparr>httpClient = counting_client ans, preRequestInterceptors = [], jc_indent = (\<lambda>_. None), jc_redirects = 1\<rparr>,
      sv_details = \<lparr>ccf_Url = ''u/'', ccf_User = [], ccf_Password = [], ccf_ApiKey = [], ccf_AccessToken = [],
                    ccf_ClientCertPath = [], ccf_ClientCertKeyPath = [], ccf_Version = [], ccf_SshUrl = [], ccf_SshKeyPath = [],
                    ccf_SshPassphrase = [], ccf_SshAuthHeaders = None\<rparr>,
      sv_parse = (\<lambda>body. Inr (ObjV [(''status'', StrV body)]))\<rparr>"

lemma example_service_simps [simp]:
  "httpClient (sv_client (example_service ans)) = counting_client ans" "sv_url (example_service ans) = ''u/''"
  "preRequestInterceptors (sv_client (example_service ans)) = []" "sv_parse (example_service ans) b = Inr (ObjV [(''status'', StrV b)])"
  "jc_indent (sv_client (example_service ans)) = (\<lambda>_. None)"
  by (simp_all add: example_service_def sv_url_def)

lemma example_ready [simp]: "ready_client (sv_client (example_service ans)) meth url"
  by (simp add: ready_client_def) (simp add: example_service_def)

lemma example_answered:
  assumes "ans w = Answered r" "StatusCode r < 500"
  shows "jc_SendGet (sv_client (example_service ans)) url True d w = Some ((Some r, fst (Body r), None), Suc w)"
    "jc_SendPost (sv_client (example_service ans)) url content d w = Some ((Some r, fst (Body r), None), Suc w)"
    "jc_SendPut (sv_client (example_service ans)) url content d w = Some ((Some r, fst (Body r), None), Suc w)"
    "jc_SendDelete (sv_client (example_service ans)) url content d w = Some ((Some r, fst (Body r), None), Suc w)"
  by (rule answered[OF example_ready assms(2)]; simp add: assms(1))+

end
