(* ===== verification/Scan.thy ===== *)
theory Scan
  imports Service "HOL-Library.AList"
begin

text \<open>
  Xray graph scans, \<^verbatim>\<open>xray/services/scan.go\<close> and \<^verbatim>\<open>xray/services/utils/graph.go\<close>: the request of a scan, waiting for its
  results, and flattening a graph of dependencies.

  A graph is a list of nodes in which a pointer is an index; one outside is nil. Nodes may be shared and may form
  cycles. The answer of a scan is kept as the members of its JSON object, of which the service reads the status.
\<close>

section \<open>Graphs\<close>

record GraphNode =
  gn_Id :: string
  gn_Sha256 :: string
  gn_Sha1 :: string
  gn_Path :: string
  gn_Licenses :: "string list"
  gn_Properties :: "(string \<times> string) list"
  gn_Nodes :: "nat list"
  gn_OtherComponentIds :: "(string \<times> int) list"
  gn_Parent :: "nat option"
  gn_ChildrenExist :: bool

definition new_node :: "string \<Rightarrow> GraphNode" where
  "new_node i = \<lparr>gn_Id = i, gn_Sha256 = [], gn_Sha1 = [], gn_Path = [], gn_Licenses = [], gn_Properties = [], gn_Nodes = [],
     gn_OtherComponentIds = [], gn_Parent = None, gn_ChildrenExist = False\<rparr>"

type_synonym graph = "GraphNode list"

definition component_id :: "string \<times> int \<Rightarrow> jvalue" where
  "component_id c = ObjV (omit_string ''component_id'' (fst c) @ omit_int ''origin'' (snd c))"

text \<open>The JSON value of a node. A path of more pointers than there are nodes goes round a cycle, which the encoder
  reports.\<close>

fun node_value :: "nat \<Rightarrow> graph \<Rightarrow> nat \<Rightarrow> jvalue result" and node_values :: "nat \<Rightarrow> graph \<Rightarrow> nat list \<Rightarrow> jvalue list result" where
  "node_value 0 g a = Inl (Err ''json: unsupported value: encountered a cycle'')"
| "node_value (Suc n) g a =
     (if a \<ge> length g then Inr Null
      else let node = g ! a
           in and_then (node_values n g (gn_Nodes node)) (\<lambda>nodes.
                Inr (ObjV (omit_string ''component_id'' (gn_Id node) @ omit_string ''sha256'' (gn_Sha256 node) @
                  omit_string ''sha1'' (gn_Sha1 node) @ omit_string ''path'' (gn_Path node) @
                  omit_list ''licenses'' StrV (gn_Licenses node) @
                  (if gn_Properties node = [] then []
                   else [(''properties'', ObjV (map (\<lambda>(k, v). (k, StrV v)) (sort_key fst (gn_Properties node))))]) @
                  (if nodes = [] then [] else [(''nodes'', ArrV nodes)]) @
                  omit_list ''other_component_ids'' component_id (gn_OtherComponentIds node)))))"
| "node_values n g [] = Inr []"
| "node_values n g (a # as) =
     and_then (node_value n g a) (\<lambda>v. and_then (node_values n g as) (\<lambda>vs. Inr (v # vs)))"

definition graph_value :: "graph \<Rightarrow> nat \<Rightarrow> jvalue result" where
  "graph_value g a = node_value (Suc (length g)) g a"

text \<open>Whether a node has the id of one of its ancestors. A chain of more parents than there are nodes never ends, which is
  \<open>None\<close>.\<close>

fun parent_loop :: "nat \<Rightarrow> graph \<Rightarrow> string \<Rightarrow> nat option \<Rightarrow> bool option" where
  "parent_loop n g i None = Some False"
| "parent_loop 0 g i (Some p) = None"
| "parent_loop (Suc n) g i (Some p) =
     (if p \<ge> length g then Some False
      else if i = gn_Id (g ! p) then Some True else parent_loop n g i (gn_Parent (g ! p)))"

definition NodeHasLoop :: "graph \<Rightarrow> nat \<Rightarrow> bool option" where
  "NodeHasLoop g a = parent_loop (Suc (length g)) g (gn_Id (g ! a)) (gn_Parent (g ! a))"

section \<open>Flattening\<close>

text \<open>The nodes collected so far: their ids, with \<open>ChildrenExist\<close>. The list of pointers holds what the loops of the
  recursive calls have still to visit.\<close>

type_synonym dependencies = "(string \<times> bool) list"

definition unmarked :: "graph \<Rightarrow> dependencies \<Rightarrow> nat set" where
  "unmarked g deps = {a. a < length g \<and> gn_Nodes (g ! a) \<noteq> [] \<and> map_of deps (gn_Id (g ! a)) \<noteq> Some True}"

definition known :: "GraphNode \<Rightarrow> dependencies \<Rightarrow> bool" where
  "known node deps \<longleftrightarrow>
     (case map_of deps (gn_Id node) of None \<Rightarrow> False | Some childrenExist \<Rightarrow> length (gn_Nodes node) = 0 \<or> childrenExist)"

function (sequential) populateUniqueDependencies :: "graph \<Rightarrow> nat list \<Rightarrow> dependencies \<Rightarrow> dependencies result" where
  "populateUniqueDependencies g [] allDependencies = Inr allDependencies"
| "populateUniqueDependencies g (a # stack) allDependencies =
     (if a \<ge> length g then Inl (Panic ''nil pointer dereference'')
      else if known (g ! a) allDependencies then populateUniqueDependencies g stack allDependencies
      else populateUniqueDependencies g (gn_Nodes (g ! a) @ stack)
             (AList.update (gn_Id (g ! a)) (length (gn_Nodes (g ! a)) > 0) allDependencies))"
  by pat_completeness auto

lemma finite_unmarked [simp]: "finite (unmarked g deps)"
  by (rule finite_subset[of _ "{..<length g}"]) (auto simp: unmarked_def)

lemma unmarked_leaf: "map_of deps i \<noteq> Some True \<Longrightarrow> unmarked g (AList.update i False deps) = unmarked g deps"
  by (auto simp: unmarked_def update_conv')

lemma unmarked_less:
  assumes "a < length g" "gn_Nodes (g ! a) \<noteq> []" "map_of deps (gn_Id (g ! a)) \<noteq> Some True"
  shows "card (unmarked g (AList.update (gn_Id (g ! a)) True deps)) < card (unmarked g deps)"
  using assms by (intro psubset_card_mono) (auto simp: unmarked_def update_conv')

termination populateUniqueDependencies
proof (relation "measures [\<lambda>(g, stack, deps). card (unmarked g deps), \<lambda>(g, stack, deps). length stack]", goal_cases)
  case (3 g a stack deps)
  show ?case
  proof (cases "gn_Nodes (g ! a)")
    case Nil
    then have "map_of deps (gn_Id (g ! a)) \<noteq> Some True" using 3 by (auto simp: known_def)
    then show ?thesis using Nil by (simp add: unmarked_leaf)
  next
    case Cons
    then have "map_of deps (gn_Id (g ! a)) \<noteq> Some True" using 3 by (auto simp: known_def)
    then show ?thesis using Cons 3 unmarked_less[of a g deps] by simp
  qed
qed auto

text \<open>A flat graph: the root, then a node for each id; the order of a map is open, here it is that of the first visits.\<close>

definition FlattenGraph :: "graph \<Rightarrow> nat list \<Rightarrow> graph result" where
  "FlattenGraph g roots =
     and_then (populateUniqueDependencies g roots []) (\<lambda>allDependencies.
       Inr ((new_node ''root'')\<lparr>gn_Nodes := map Suc [0..<length allDependencies]\<rparr> #
            map (\<lambda>(i, childrenExist). (new_node i)\<lparr>gn_ChildrenExist := childrenExist\<rparr>) allDependencies))"

section \<open>Scanning\<close>

record XrayGraphScanParams =
  sp_RepoPath :: string
  sp_ProjectKey :: string
  sp_Watches :: "string list"
  sp_ScanType :: string
  sp_Graph :: "graph \<times> nat"

definition createScanGraphQueryParams :: "XrayGraphScanParams \<Rightarrow> string" where
  "createScanGraphQueryParams scanParams =
     (let params = (if sp_ProjectKey scanParams \<noteq> [] then [''project='' @ sp_ProjectKey scanParams]
                    else if sp_RepoPath scanParams \<noteq> [] then [''repo_path='' @ sp_RepoPath scanParams]
                    else if length (sp_Watches scanParams) > 0
                    then map (\<lambda>watch. ''watch='' @ watch) (filter (\<lambda>watch. watch \<noteq> []) (sp_Watches scanParams)) else []);
          params = (if sp_ScanType scanParams \<noteq> [] then params @ [''scan_type='' @ sp_ScanType scanParams] else params)
      in if length params = 0 then [] else ''?'' @ str_join ''&'' params)"

definition scanGraphAPI :: string where
  "scanGraphAPI = ''api/v1/scan/graph''"

definition ScanGraph :: "'w service \<Rightarrow> XrayGraphScanParams \<Rightarrow> 'w \<Rightarrow> (string result \<times> 'w) option" where
  "ScanGraph ss scanParams w =
     (case graph_value (fst (sp_Graph scanParams)) (snd (sp_Graph scanParams)) of
        Inl e \<Rightarrow> Some (Inl e, w)
      | Inr requestBody \<Rightarrow>
          let url = sv_url ss @ scanGraphAPI @ createScanGraphQueryParams scanParams
          in after_reply (jc_SendPost (sv_client ss) url (Some (Marshal requestBody)) (json_content (details_of ss)) w) (\<lambda>reply w.
               Some (case checked ss [200, 201] reply of
                       Inl e \<Rightarrow>
                         (case reply of
                            (Some r, body, None) \<Rightarrow>
                              (case and_then (sv_parse ss body) (\<lambda>v. and_then (read_struct v) (read_string ''error'')) of
                                 Inr msg \<Rightarrow> Inl (Err msg) | Inl e' \<Rightarrow> Inl e)
                          | _ \<Rightarrow> Inl e)
                     | Inr (r, body) \<Rightarrow> and_then (sv_parse ss body) (\<lambda>v. and_then (read_struct v) (read_string ''scan_id'')), w)))"

text \<open>The timeout and the interval in nanoseconds.\<close>

definition defaultMaxWaitMinutes :: int where
  "defaultMaxWaitMinutes = 45 * 60 * 1000000000"

definition defaultSyncSleepInterval :: int where
  "defaultSyncSleepInterval = 5 * 1000000000"

definition results_url :: "'w service \<Rightarrow> string \<Rightarrow> bool \<Rightarrow> bool \<Rightarrow> string" where
  "results_url ss scanId includeVulnerabilities includeLicenses =
     (let endPoint = sv_url ss @ scanGraphAPI @ ''/'' @ scanId
      in if includeVulnerabilities
         then endPoint @ ''?include_vulnerabilities=true'' @ (if includeLicenses then ''&include_licenses=true'' else [])
         else if includeLicenses then endPoint @ ''?include_licenses=true'' else endPoint)"

text \<open>One poll. The state holds the details, which the calls share, and the world; \<open>None\<close> after a call that never returns.\<close>

fun err_text :: "go_error \<Rightarrow> string" where
  "err_text (Err m) = m"
| "err_text (Panic m) = m"

definition scan_action :: "'w service \<Rightarrow> string \<Rightarrow> ((HttpClientDetails \<times> 'w) option, string) polling_action" where
  "scan_action ss endPoint s =
     (case s of
        None \<Rightarrow> ((True, None, None), None)
      | Some (details, w) \<Rightarrow>
          (case jc_SendGet (sv_client ss) endPoint True details w of
             None \<Rightarrow> ((True, None, None), None)
           | Some (reply, w) \<Rightarrow>
               (case checked ss [200, 202] reply of
                  Inl e \<Rightarrow> (True, None, Some (HandlerError (err_text e)))
                | Inr (r, body) \<Rightarrow> if StatusCode r = 200 then (True, Some body, None) else (False, None, None),
                Some (details_after (sv_client ss) details, w))))"

definition scan_polling :: PollingExecutor where
  "scan_polling = \<lparr>Timeout = defaultMaxWaitMinutes, PollingInterval = defaultSyncSleepInterval,
     MsgPrefix = ''Get Dependencies Scan results... ''\<rparr>"

text \<open>Of the response the status is decoded, which is what the result depends on; another member of a wrong type is an error in the
  code and not here.\<close>

definition scan_response :: "'w service \<Rightarrow> string \<Rightarrow> members result" where
  "scan_response ss body =
     (case and_then (sv_parse ss body) read_struct of
        Inl e \<Rightarrow> Inl (Err (''couldn'' @ [CHR 0x27] @ ''t parse JFrog Xray server response: '' @ err_text e))
      | Inr ms \<Rightarrow>
          and_then (read_string ''status'' ms) (\<lambda>status.
            if status = ''failed''
            then Inl (Err (''received a failure status from JFrog Xray server:'' @ [CHR 0x0A] @
                           GenerateErrorString (jc_indent (sv_client ss)) body))
            else Inr ms))"

definition GetScanGraphResults :: "bool \<Rightarrow> (int \<Rightarrow> int \<Rightarrow> int) \<Rightarrow> 'w service \<Rightarrow> string \<Rightarrow> bool \<Rightarrow> bool \<Rightarrow> 'w \<Rightarrow> (members result \<times> 'w) option" where
  "GetScanGraphResults read_after float_quotient ss scanId includeVulnerabilities includeLicenses w =
     (case PollingExecute read_after float_quotient scan_polling
             (scan_action ss (results_url ss scanId includeVulnerabilities includeLicenses)) (Some (json_content (details_of ss), w)) of
        (body, err, None) \<Rightarrow> None
      | (body, err, Some (details, w)) \<Rightarrow>
          Some (case err of
                  Some e \<Rightarrow> Inl (Err (error_text e))
                | None \<Rightarrow> scan_response ss (case body of None \<Rightarrow> [] | Some b \<Rightarrow> b), w))"

section \<open>Flattening keeps every component\<close>

definition edges :: "graph \<Rightarrow> (nat \<times> nat) set" where
  "edges g = {(a, c). a < length g \<and> c \<in> set (gn_Nodes (g ! a))}"

definition reached :: "graph \<Rightarrow> nat list \<Rightarrow> nat set" where
  "reached g roots = (edges g)\<^sup>* `` set roots"

text \<open>What is known of a child: its id and whether it has children.\<close>

definition shape :: "graph \<Rightarrow> nat \<Rightarrow> string \<times> bool" where
  "shape g a = (gn_Id (g ! a), gn_Nodes (g ! a) \<noteq> [])"

text \<open>No nil pointer, and nodes of the same id that have children have children of the same shapes.\<close>

definition consistent :: "graph \<Rightarrow> nat list \<Rightarrow> bool" where
  "consistent g roots \<longleftrightarrow>
     (\<forall>a\<in>reached g roots. a < length g) \<and>
     (\<forall>a\<in>reached g roots. \<forall>b\<in>reached g roots. gn_Id (g ! a) = gn_Id (g ! b) \<longrightarrow> gn_Nodes (g ! a) \<noteq> [] \<longrightarrow> gn_Nodes (g ! b) \<noteq> [] \<longrightarrow>
        shape g ` set (gn_Nodes (g ! a)) = shape g ` set (gn_Nodes (g ! b)))"

definition covered :: "graph \<Rightarrow> dependencies \<Rightarrow> nat \<Rightarrow> bool" where
  "covered g deps a \<longleftrightarrow> map_of deps (gn_Id (g ! a)) \<noteq> None \<and> (gn_Nodes (g ! a) \<noteq> [] \<longrightarrow> map_of deps (gn_Id (g ! a)) = Some True)"

definition flat_inv :: "graph \<Rightarrow> nat list \<Rightarrow> nat list \<Rightarrow> dependencies \<Rightarrow> bool" where
  "flat_inv g roots stack deps \<longleftrightarrow>
     set stack \<subseteq> reached g roots \<and> distinct (map fst deps) \<and>
     (\<forall>i e. map_of deps i = Some e \<longrightarrow> (\<exists>a\<in>reached g roots. gn_Id (g ! a) = i \<and> (e \<longrightarrow> gn_Nodes (g ! a) \<noteq> []))) \<and>
     (\<forall>i. map_of deps i = Some True \<longrightarrow> (\<exists>a\<in>reached g roots. gn_Id (g ! a) = i \<and> gn_Nodes (g ! a) \<noteq> [] \<and>
        (\<forall>c\<in>set (gn_Nodes (g ! a)). covered g deps c \<or> c \<in> set stack))) \<and>
     (\<forall>r\<in>set roots. covered g deps r \<or> r \<in> set stack)"

lemma known_iff: "known (g ! a) deps \<longleftrightarrow> covered g deps a"
  by (auto simp: known_def covered_def split: option.splits)

lemma covered_update:
  "covered g deps c \<Longrightarrow> \<not> covered g deps a \<Longrightarrow> covered g (AList.update (gn_Id (g ! a)) (length (gn_Nodes (g ! a)) > 0) deps) c"
  by (auto simp: covered_def update_conv')

lemma covered_updated: "covered g (AList.update (gn_Id (g ! a)) (length (gn_Nodes (g ! a)) > 0) deps) a"
  by (simp add: covered_def update_conv')

lemma reached_child: "a \<in> reached g roots \<Longrightarrow> a < length g \<Longrightarrow> c \<in> set (gn_Nodes (g ! a)) \<Longrightarrow> c \<in> reached g roots"
  by (auto simp: reached_def edges_def intro: rtrancl_into_rtrancl)

lemma flat_inv_known: "flat_inv g roots (a # stack) deps \<Longrightarrow> covered g deps a \<Longrightarrow> flat_inv g roots stack deps"
  unfolding flat_inv_def by (intro conjI allI ballI impI; (elim conjE)) (auto, metis)

lemma flat_inv_visit:
  assumes inv: "flat_inv g roots (a # stack) deps" and a: "a < length g" "\<not> covered g deps a"
  shows "flat_inv g roots (gn_Nodes (g ! a) @ stack) (AList.update (gn_Id (g ! a)) (length (gn_Nodes (g ! a)) > 0) deps)"
    (is "flat_inv g roots ?stack ?deps")
proof -
  note cov = covered_update[OF _ a(2)] and here = covered_updated[of g a deps]
  have reach: "a \<in> reached g roots" "set stack \<subseteq> reached g roots" using inv by (auto simp: flat_inv_def)
  have pending: "covered g ?deps c \<or> c \<in> set ?stack" if "covered g deps c \<or> c \<in> set (a # stack)" for c
    using that cov here by auto
  have "set ?stack \<subseteq> reached g roots" using reach reached_child[OF reach(1) a(1)] by auto
  moreover have "distinct (map fst ?deps)" using inv by (simp add: flat_inv_def distinct_update)
  moreover have "\<exists>b\<in>reached g roots. gn_Id (g ! b) = i \<and> (e \<longrightarrow> gn_Nodes (g ! b) \<noteq> [])" if "map_of ?deps i = Some e" for i e
    using that inv reach(1) by (cases "i = gn_Id (g ! a)") (auto simp: update_conv' flat_inv_def)
  moreover have "\<exists>b\<in>reached g roots. gn_Id (g ! b) = i \<and> gn_Nodes (g ! b) \<noteq> [] \<and>
      (\<forall>c\<in>set (gn_Nodes (g ! b)). covered g ?deps c \<or> c \<in> set ?stack)" if "map_of ?deps i = Some True" for i
  proof (cases "i = gn_Id (g ! a)")
    case True
    then have "gn_Nodes (g ! a) \<noteq> []" using that by (simp add: update_conv')
    then show ?thesis using True reach(1) by (intro bexI[of _ a]) auto
  next
    case False
    then have "map_of deps i = Some True" using that by (simp add: update_conv')
    then obtain b where "b \<in> reached g roots" "gn_Id (g ! b) = i" "gn_Nodes (g ! b) \<noteq> []"
        "\<forall>c\<in>set (gn_Nodes (g ! b)). covered g deps c \<or> c \<in> set (a # stack)"
      using inv unfolding flat_inv_def by blast
    then show ?thesis using pending by blast
  qed
  moreover have "\<forall>r\<in>set roots. covered g ?deps r \<or> r \<in> set ?stack" using inv pending by (simp add: flat_inv_def)
  ultimately show ?thesis by (simp add: flat_inv_def)
qed

lemma populate_inv:
  assumes "consistent g roots" "flat_inv g roots stack deps"
  shows "\<exists>deps'. populateUniqueDependencies g stack deps = Inr deps' \<and> flat_inv g roots [] deps'"
  using assms
proof (induction g stack deps rule: populateUniqueDependencies.induct)
  case (2 g a stack deps)
  have "a \<in> reached g roots" using 2(4) by (simp add: flat_inv_def)
  then have a: "a < length g" using 2(3) by (simp add: consistent_def)
  show ?case
  proof (cases "known (g ! a) deps")
    case True
    then have "flat_inv g roots stack deps" using flat_inv_known[OF 2(4)] by (simp add: known_iff)
    then show ?thesis using 2(1)[OF _ True 2(3)] a True by simp
  next
    case False
    then have "flat_inv g roots (gn_Nodes (g ! a) @ stack) (AList.update (gn_Id (g ! a)) (length (gn_Nodes (g ! a)) > 0) deps)"
      using flat_inv_visit[OF 2(4) a] by (simp add: known_iff)
    then show ?thesis using 2(2)[OF _ False 2(3)] a False by simp
  qed
qed simp

lemma covered_all:
  assumes "consistent g roots" "flat_inv g roots [] deps" "a \<in> reached g roots"
  shows "covered g deps a"
proof -
  obtain r where "r \<in> set roots" "(r, a) \<in> (edges g)\<^sup>*" using assms(3) by (auto simp: reached_def)
  from this(2,1) show ?thesis
  proof (induction rule: rtrancl_induct)
    case base
    then show ?case using assms(2) by (simp add: flat_inv_def)
  next
    case (step a c)
    then have a: "a \<in> reached g roots" "c \<in> set (gn_Nodes (g ! a))" by (auto simp: reached_def edges_def)
    then have "map_of deps (gn_Id (g ! a)) = Some True" using step by (auto simp: covered_def)
    then obtain b where b: "b \<in> reached g roots" "gn_Id (g ! b) = gn_Id (g ! a)" "gn_Nodes (g ! b) \<noteq> []"
        "\<forall>c\<in>set (gn_Nodes (g ! b)). covered g deps c"
      using assms(2) unfolding flat_inv_def by auto
    have "gn_Nodes (g ! a) \<noteq> []" using a(2) by auto
    then have "shape g ` set (gn_Nodes (g ! a)) = shape g ` set (gn_Nodes (g ! b))"
      using assms(1) a(1) b(1-3) unfolding consistent_def by metis
    then have "shape g c \<in> shape g ` set (gn_Nodes (g ! b))" using imageI[OF a(2), of "shape g"] by simp
    then obtain c' where "c' \<in> set (gn_Nodes (g ! b))" "shape g c' = shape g c" by (metis imageE)
    moreover have "covered g deps c'" using b(4) calculation(1) by blast
    ultimately show ?case by (simp add: covered_def shape_def)
  qed
qed

text \<open>C11: a graph without nil pointers, in which nodes of the same id that have children have children of the same shapes,
  is flattened to one node for each id that occurs in it and no other, cycles and shared nodes included; a node is
  marked exactly when some node of its id has children.\<close>

theorem FlattenGraph_complete:
  assumes "consistent g roots"
  shows "\<exists>nodes. FlattenGraph g roots = Inr ((new_node ''root'')\<lparr>gn_Nodes := map Suc [0..<length nodes]\<rparr> # nodes) \<and>
    distinct (map gn_Id nodes) \<and> set (map gn_Id nodes) = (\<lambda>a. gn_Id (g ! a)) ` reached g roots \<and>
    (\<forall>node\<in>set nodes. gn_ChildrenExist node \<longleftrightarrow> (\<exists>a\<in>reached g roots. gn_Id (g ! a) = gn_Id node \<and> gn_Nodes (g ! a) \<noteq> []))"
proof -
  have start: "flat_inv g roots roots []" by (auto simp: flat_inv_def reached_def)
  obtain deps where run: "populateUniqueDependencies g roots [] = Inr deps" and inv: "flat_inv g roots [] deps"
    using populate_inv[OF assms start] by blast
  note cov = covered_all[OF assms inv]
  let ?node = "\<lambda>(i, childrenExist). (new_node i)\<lparr>gn_ChildrenExist := childrenExist\<rparr>"
  have ids: "map gn_Id (map ?node deps) = map fst deps" by (simp add: new_node_def split_beta')
  have "set (map fst deps) = (\<lambda>a. gn_Id (g ! a)) ` reached g roots"
  proof
    show "set (map fst deps) \<subseteq> (\<lambda>a. gn_Id (g ! a)) ` reached g roots"
    proof
      fix i assume "i \<in> set (map fst deps)"
      then obtain e where "map_of deps i = Some e" by (metis map_of_eq_None_iff not_None_eq set_map)
      then show "i \<in> (\<lambda>a. gn_Id (g ! a)) ` reached g roots" using inv unfolding flat_inv_def by blast
    qed
    show "(\<lambda>a. gn_Id (g ! a)) ` reached g roots \<subseteq> set (map fst deps)"
      using cov by (auto simp: covered_def map_of_eq_None_iff)
  qed
  moreover have "gn_ChildrenExist node \<longleftrightarrow> (\<exists>a\<in>reached g roots. gn_Id (g ! a) = gn_Id node \<and> gn_Nodes (g ! a) \<noteq> [])"
    if member: "node \<in> set (map ?node deps)" for node
  proof -
    obtain i e where node: "(i, e) \<in> set deps" "node = (new_node i)\<lparr>gn_ChildrenExist := e\<rparr>" using member by auto
    then have e: "map_of deps i = Some e" using inv by (simp add: flat_inv_def)
    have "e \<longleftrightarrow> (\<exists>a\<in>reached g roots. gn_Id (g ! a) = i \<and> gn_Nodes (g ! a) \<noteq> [])"
    proof
      assume e
      then show "\<exists>a\<in>reached g roots. gn_Id (g ! a) = i \<and> gn_Nodes (g ! a) \<noteq> []" using e inv unfolding flat_inv_def by blast
    next
      assume "\<exists>a\<in>reached g roots. gn_Id (g ! a) = i \<and> gn_Nodes (g ! a) \<noteq> []"
      then show e using cov e by (auto simp: covered_def)
    qed
    then show ?thesis using node(2) by (simp add: new_node_def)
  qed
  moreover have "distinct (map fst deps)" using inv by (simp add: flat_inv_def)
  ultimately have "distinct (map gn_Id (map ?node deps)) \<and> set (map gn_Id (map ?node deps)) = (\<lambda>a. gn_Id (g ! a)) ` reached g roots \<and>
      (\<forall>node\<in>set (map ?node deps). gn_ChildrenExist node \<longleftrightarrow> (\<exists>a\<in>reached g roots. gn_Id (g ! a) = gn_Id node \<and> gn_Nodes (g ! a) \<noteq> []))"
    unfolding ids by blast
  moreover have "FlattenGraph g roots =
      Inr ((new_node ''root'')\<lparr>gn_Nodes := map Suc [0..<length (map ?node deps)]\<rparr> # map ?node deps)"
    using run by (simp add: FlattenGraph_def)
  ultimately show ?thesis by blast
qed


text \<open>A node with a child; the child points back to the node.\<close>

definition example_graph :: graph where
  "example_graph = [(new_node ''a'')\<lparr>gn_Nodes := [1]\<rparr>, (new_node ''b'')\<lparr>gn_Nodes := [0]\<rparr>]"

theorem FlattenGraph_complete_witness:
  "\<exists>nodes. FlattenGraph example_graph [0] = Inr ((new_node ''root'')\<lparr>gn_Nodes := map Suc [0..<length nodes]\<rparr> # nodes) \<and>
    distinct (map gn_Id nodes) \<and> set (map gn_Id nodes) = (\<lambda>a. gn_Id (example_graph ! a)) ` reached example_graph [0] \<and>
    (\<forall>node\<in>set nodes. gn_ChildrenExist node \<longleftrightarrow>
      (\<exists>a\<in>reached example_graph [0]. gn_Id (example_graph ! a) = gn_Id node \<and> gn_Nodes (example_graph ! a) \<noteq> []))"
proof (rule FlattenGraph_complete)
  have "edges example_graph \<subseteq> {0, 1} \<times> {0, 1}" by (auto simp: edges_def example_graph_def new_node_def less_Suc_eq)
  then have "reached example_graph [0] \<subseteq> {0, 1}" unfolding reached_def by (auto elim: rtranclE)
  then have two: "a = 0 \<or> a = 1" if "a \<in> reached example_graph [0]" for a using that by auto
  have "a = b" if "gn_Id (example_graph ! a) = gn_Id (example_graph ! b)" "a = 0 \<or> a = 1" "b = 0 \<or> b = 1" for a b
    using that by (auto simp: example_graph_def new_node_def)
  moreover have "a < length example_graph" if "a = 0 \<or> a = 1" for a using that by (auto simp: example_graph_def)
  ultimately show "consistent example_graph [0]" using two unfolding consistent_def by metis
qed

text \<open>A graph cut at a depth: \<open>x\<close> occurs with a child \<open>b\<close> that was cut, and again with the whole \<open>b\<close>. The component
  \<open>d\<close> below it is lost.\<close>

lemma FlattenGraph_loses_component:
  "let g = [(new_node ''x'')\<lparr>gn_Nodes := [1]\<rparr>, new_node ''b'', (new_node ''x'')\<lparr>gn_Nodes := [3]\<rparr>, (new_node ''b'')\<lparr>gn_Nodes := [4]\<rparr>, new_node ''d'']
   in map_option (map gn_Id) (case FlattenGraph g [0, 2] of Inl e \<Rightarrow> None | Inr nodes \<Rightarrow> Some nodes) = Some [''root'', ''x'', ''b'']"
  by code_simp

section \<open>Waiting for the results\<close>

text \<open>C14: the results of a scan are asked for again while the server answers that it is not ready, with the details that the
  interceptors leave; the first other answer ends the waiting and decides: an error, or the answer the body holds,
  which is an error when the scan has failed.\<close>

theorem GetScanGraphResults_waits:
  fixes ws :: "nat \<Rightarrow> 'w" and ds :: "nat \<Rightarrow> HttpClientDetails"
  assumes "ds 0 = json_content (details_of ss)" "\<And>j. ds (Suc j) = details_after (sv_client ss) (ds j)"
    and "\<And>j. j < k \<Longrightarrow> \<exists>r b. StatusCode r = 202 \<and>
      jc_SendGet (sv_client ss) (results_url ss scanId v l) True (ds j) (ws j) = Some ((Some r, b, None), ws (Suc j))"
    and "jc_SendGet (sv_client ss) (results_url ss scanId v l) True (ds k) (ws k) = Some (reply, ws (Suc k))"
    and "\<And>r. fst reply = Some r \<Longrightarrow> StatusCode r \<noteq> 202"
    and "int k \<le> float_quotient defaultMaxWaitMinutes defaultSyncSleepInterval"
  shows "GetScanGraphResults True float_quotient ss scanId v l (ws 0) =
    Some (case checked ss [200] reply of Inl e \<Rightarrow> Inl (Err (err_text e)) | Inr (r, body) \<Rightarrow> scan_response ss body, ws (Suc k))"
proof -
  let ?a = "scan_action ss (results_url ss scanId v l)" and ?s = "Some (json_content (details_of ss), ws 0)"
  have world: "poll_world ?a ?s j = Some (ds j, ws j)" if "j \<le> k" for j
    using that
  proof (induction j)
    case 0
    then show ?case using assms(1) by (simp add: poll_world_def)
  next
    case (Suc j)
    then obtain r b where "StatusCode r = 202"
        "jc_SendGet (sv_client ss) (results_url ss scanId v l) True (ds j) (ws j) = Some ((Some r, b, None), ws (Suc j))"
      using assms(3)[of j] by auto
    then show ?case using Suc assms(2)[of j] by (simp add: poll_world_def scan_action_def)
  qed
  have pending: "\<not> fst (poll ?a ?s j)" if less: "j < k" for j
  proof -
    obtain r b where "StatusCode r = 202"
        "jc_SendGet (sv_client ss) (results_url ss scanId v l) True (ds j) (ws j) = Some ((Some r, b, None), ws (Suc j))"
      using assms(3)[OF less] by auto
    then show ?thesis using less by (simp add: poll_def world scan_action_def)
  qed
  obtain resp body err where reply: "reply = (resp, body, err)" by (cases reply)
  have codes: "checked ss [200, 202] reply = checked ss [200] reply"
    using assms(5) reply by (auto simp: checked_def CheckResponseStatusWithBody_def split: option.split)
  have last: "?a (Some (ds k, ws k)) =
      (case checked ss [200] reply of Inl e \<Rightarrow> (True, None, Some (HandlerError (err_text e))) | Inr (r, body) \<Rightarrow> (True, Some body, None),
       Some (ds (Suc k), ws (Suc k)))"
    using assms(2,4) codes checked_InrD[of ss "[200]" resp body err] reply
    by (auto simp: scan_action_def split: sum.split)
  then have stop: "fst (poll ?a ?s k)" by (simp add: poll_def world split: sum.split)
  have final: "poll_world ?a ?s (Suc k) = Some (ds (Suc k), ws (Suc k))"
    using world[of k] last by (simp add: poll_world_def)
  show ?thesis
    using PollingExecute_correct[OF stop, of float_quotient scan_polling] pending assms(6) last
    by (auto simp: GetScanGraphResults_def scan_polling_def final poll_def world split: sum.split)
qed

theorem GetScanGraphResults_waits_witness:
  "GetScanGraphResults True (\<lambda>x y. x div y) (example_service (\<lambda>w. Answered (example_response (if w < 2 then 202 else 200)))) ''s'' True True 0 =
    Some (Inr [(''status'', StrV ''ok'')], 3)"
proof -
  let ?ans = "\<lambda>w::nat. Answered (example_response (if w < 2 then 202 else 200))"
  let ?ss = "example_service ?ans"
  have get: "jc_SendGet (sv_client ?ss) url True d w = Some ((Some (example_response (if w < 2 then 202 else 200)), ''ok'', None), Suc w)"
    for url d w
    using example_answered(1)[of ?ans w "example_response (if w < 2 then 202 else 200)" url d] by (simp add: example_response_def)
  have "GetScanGraphResults True (\<lambda>x y. x div y) ?ss ''s'' True True 0 =
      Some (case checked ?ss [200] (Some (example_response 200), ''ok'', None) of
        Inl e \<Rightarrow> Inl (Err (err_text e)) | Inr (r, body) \<Rightarrow> scan_response ?ss body, Suc 2)"
  proof (rule GetScanGraphResults_waits[of "\<lambda>_. json_content (details_of ?ss)" ?ss 2 "''s''" True True "\<lambda>j. j"])
    fix j :: nat assume "j < 2"
    then show "\<exists>r b. StatusCode r = 202 \<and> jc_SendGet (sv_client ?ss) (results_url ?ss ''s'' True True) True (json_content (details_of ?ss)) j =
        Some ((Some r, b, None), Suc j)"
      unfolding get by (simp add: example_response_def)
  next
    show "jc_SendGet (sv_client ?ss) (results_url ?ss ''s'' True True) True (json_content (details_of ?ss)) 2 =
        Some ((Some (example_response 200), ''ok'', None), Suc 2)"
      unfolding get by simp
  qed (auto simp: details_after_def example_response_def defaultMaxWaitMinutes_def defaultSyncSleepInterval_def)
  also have "\<dots> = Some (scan_response ?ss ''ok'', 3)" by (simp add: example_response_def)
  also have "scan_response ?ss ''ok'' = Inr [(''status'', StrV ''ok'')]"
    by (simp add: scan_response_def read_string_once field_values_def)
  finally show ?thesis .
qed

end
