(* ===== verification/Distribution.thy ===== *)
theory Distribution
  imports Service Aql
begin

text \<open>
  Release bundles, \<^verbatim>\<open>distribution/services\<close>: creating, updating, signing, distributing and deleting them, and the two
  loops that wait for the server. The translation of wildcards to a regular expression (\<^verbatim>\<open>gofrog\<close>) is a parameter. A state of a
  distribution is kept with the members of the JSON object it is read from.
\<close>

record 'w dist_service =
  dist :: "'w service"
  ds_DryRun :: bool
  ds_Sync :: bool
  ds_AutoCreateRepo :: bool
  ds_MaxWaitMinutes :: int

abbreviation dist_url :: "'w dist_service \<Rightarrow> string" where
  "dist_url dr \<equiv> sv_url (dist dr)"

text \<open>The error of a call, if any, and the world after it; \<open>None\<close> for a call that never returns.\<close>

type_synonym 'w outcome = "(go_error option \<times> 'w) option"

definition error_of :: "'a result \<Rightarrow> go_error option" where
  "error_of r = (case r of Inl e \<Rightarrow> Some e | Inr _ \<Rightarrow> None)"

lemma error_of_simps [simp]: "error_of (Inl e) = Some e" "error_of (Inr x) = None"
  by (simp_all add: error_of_def)

section \<open>Bodies\<close>

record DistributionCommonParams =
  dp_SiteName :: string
  dp_CityName :: string
  dp_CountryCodes :: "string list"

record DistributionParams =
  DistributionRules :: "DistributionCommonParams list"
  dp_Name :: string
  dp_Version :: string

definition rule_value :: "DistributionCommonParams \<Rightarrow> jvalue" where
  "rule_value spec = ObjV (omit_string ''site_name'' (dp_SiteName spec) @ omit_string ''city_name'' (dp_CityName spec) @
     omit_list ''country_codes'' StrV (dp_CountryCodes spec))"

text \<open>Without rules the slice is nil.\<close>

definition body_members :: "bool \<Rightarrow> DistributionCommonParams list \<Rightarrow> bool \<Rightarrow> members" where
  "body_members dryRun rules autoCreate =
     [(''dry_run'', BoolV dryRun), (''distribution_rules'', slice_value rule_value (if rules = [] then None else Some rules))] @
     omit_bool ''auto_create_missing_repositories'' autoCreate"

section \<open>The status of a distribution\<close>

record DistributionStatusParams =
  st_Name :: string
  st_Version :: string
  st_TrackerId :: string

definition checkParameters :: "DistributionStatusParams \<Rightarrow> go_error option" where
  "checkParameters p =
     (let err = (if st_Name p = [] \<and> (st_Version p \<noteq> [] \<or> st_TrackerId p \<noteq> []) then Some (Err ''missing distribution name parameter'') else None)
      in if st_Version p = [] \<and> st_TrackerId p \<noteq> [] then Some (Err ''missing distribution version parameter'') else err)"

definition BuildUrlForGetStatus :: "string \<Rightarrow> string \<Rightarrow> string \<Rightarrow> string \<Rightarrow> string" where
  "BuildUrlForGetStatus url name version trackerId =
     (let url = url @ ''api/v1/release_bundle''
      in if name = [] then url @ ''/distribution''
         else let url = url @ ''/'' @ name
              in if version = [] then url @ ''/distribution''
                 else let url = url @ ''/'' @ version @ ''/distribution''
                      in if trackerId \<noteq> [] then url @ ''/'' @ trackerId else url)"

text \<open>Of a response the status is decoded, and its members are kept as they are: that another member may have a wrong type, which is
  an error in the code, is not modelled.\<close>

type_synonym status_response = "string \<times> members"

fun status_list :: "jvalue list \<Rightarrow> status_response list result" where
  "status_list [] = Inr []"
| "status_list (v # vs) =
     and_then (read_struct v) (\<lambda>ms. and_then (read_string ''status'' ms) (\<lambda>status.
       and_then (status_list vs) (\<lambda>rs. Inr ((status, ms) # rs))))"

text \<open>One object is put into brackets.\<close>

definition read_status :: "'w service \<Rightarrow> string \<Rightarrow> status_response list result" where
  "read_status sv body =
     (let stringBody = (if \<not> has_prefix body ''['' then ''['' @ body @ '']'' else body)
      in and_then (sv_parse sv stringBody) (\<lambda>v.
           case v of ArrV vs \<Rightarrow> status_list vs | Null \<Rightarrow> Inr [] | _ \<Rightarrow> Inl (Err ''json: cannot unmarshal'')))"

definition execGetStatus :: "'w service \<Rightarrow> DistributionStatusParams \<Rightarrow> 'w \<Rightarrow> (status_response list result \<times> 'w) option" where
  "execGetStatus sv p w =
     after_reply (jc_SendGet (sv_client sv) (BuildUrlForGetStatus (sv_url sv) (st_Name p) (st_Version p) (st_TrackerId p)) True (details_of sv) w)
       (\<lambda>reply w. Some (and_then (checked sv [200] reply) (\<lambda>(r, body). read_status sv body), w))"

definition GetStatus :: "'w service \<Rightarrow> DistributionStatusParams \<Rightarrow> 'w \<Rightarrow> (status_response list result \<times> 'w) option" where
  "GetStatus sv p w = (case checkParameters p of Some e \<Rightarrow> Some (Inl e, w) | None \<Rightarrow> execGetStatus sv p w)"

section \<open>Distributing\<close>

definition execDistribute :: "'w dist_service \<Rightarrow> string \<Rightarrow> string \<Rightarrow> jvalue \<Rightarrow> 'w \<Rightarrow> (string result \<times> 'w) option" where
  "execDistribute dr name version distribution w =
     (let sv = dist dr; url = sv_url sv @ ''api/v1/distribution/'' @ name @ ''/'' @ version
      in after_reply (jc_SendPost (sv_client sv) url (Some (Marshal distribution)) (json_content (details_of sv)) w) (\<lambda>reply w.
           Some (and_then (checked sv [200, 202] reply) (\<lambda>(r, body).
                 and_then (sv_parse sv body) (\<lambda>v. and_then (read_struct v) (read_field conv_number [] ''id''))), w)))"

text \<open>The minutes to wait. They are an integer without bound here: the product with 60 that the code forms wraps around from
  \<open>2 ^ 63 div 60\<close> minutes on.\<close>

definition max_wait :: "'w dist_service \<Rightarrow> int" where
  "max_wait dr = (if ds_MaxWaitMinutes dr \<ge> 1 then ds_MaxWaitMinutes dr else 60)"

definition wait_executor :: "'w dist_service \<Rightarrow> DistributionParams \<Rightarrow> RetryExecutor" where
  "wait_executor dr p = \<lparr>MaxRetries = go_div (max_wait dr * 60) 10, RetriesIntervalMilliSecs = 10 * 1000, ErrorMessage = [],
     LogMsgPrefix = ''Sync: Distributing '' @ dp_Name p @ ''/'' @ dp_Version p @ ''...''\<rparr>"

definition failed_error :: "'w service \<Rightarrow> status_response list \<Rightarrow> string" where
  "failed_error sv rs =
     ''Distribution failed: '' @ GenerateErrorString (jc_indent (sv_client sv)) (Marshal (ArrV (map (\<lambda>(_, ms). ObjV ms) rs)))"

text \<open>What one answer means for the waiting: whether to ask again and the error, or a panic for an empty list.\<close>

definition judge :: "'w service \<Rightarrow> status_response list result \<Rightarrow> (bool \<times> exec_error option) + go_error" where
  "judge sv reply =
     (case reply of
        Inl (Panic m) \<Rightarrow> Inr (Panic m)
      | Inl (Err m) \<Rightarrow> Inl (False, Some (HandlerError m))
      | Inr [] \<Rightarrow> Inr (Panic ''index out of range'')
      | Inr ((status, ms) # rs) \<Rightarrow>
          Inl (if status = ''Failed'' then (False, Some (HandlerError (failed_error sv ((status, ms) # rs))))
               else if status = ''Completed'' then (False, None)
               else (True, None)))"

text \<open>The state of the handler: the panic that ended it, if any, and the world; \<open>None\<close> after a call that never returns.\<close>

definition status_handler :: "'w service \<Rightarrow> DistributionStatusParams \<Rightarrow> (go_error option \<times> 'w) option handler" where
  "status_handler sv p s =
     (case s of
        None \<Rightarrow> ((False, None), None)
      | Some (panicked, w) \<Rightarrow>
          (case GetStatus sv p w of
             None \<Rightarrow> ((False, None), None)
           | Some (reply, w) \<Rightarrow>
               (case judge sv reply of
                  Inr e \<Rightarrow> ((False, None), Some (Some e, w))
                | Inl verdict \<Rightarrow> (verdict, Some (None, w)))))"

definition waitForDistribution :: "'w dist_service \<Rightarrow> DistributionParams \<Rightarrow> string \<Rightarrow> 'w \<Rightarrow> 'w outcome" where
  "waitForDistribution dr p trackerId w =
     (let (err, s, _) = Execute (wait_executor dr p) None
            (status_handler (dist dr) \<lparr>st_Name = dp_Name p, st_Version = dp_Version p, st_TrackerId = trackerId\<rparr>) (Some (None, w))
      in case s of
           None \<Rightarrow> None
         | Some (Some e, w) \<Rightarrow> Some (Some e, w)
         | Some (None, w) \<Rightarrow> Some (map_option (\<lambda>e. Err (error_text e)) err, w))"

definition Distribute :: "'w dist_service \<Rightarrow> DistributionParams \<Rightarrow> 'w \<Rightarrow> 'w outcome" where
  "Distribute dr p w =
     (case execDistribute dr (dp_Name p) (dp_Version p)
             (ObjV (body_members (ds_DryRun dr) (DistributionRules p) (ds_AutoCreateRepo dr))) w of
        None \<Rightarrow> None
      | Some (Inl e, w) \<Rightarrow> Some (Some e, w)
      | Some (Inr trackerId, w) \<Rightarrow>
          if \<not> ds_Sync dr \<or> ds_DryRun dr then Some (None, w) else waitForDistribution dr p trackerId w)"

section \<open>Deleting\<close>

record DeleteDistributionParams =
  dd_Params :: DistributionParams
  DeleteFromDistribution :: bool
  dd_Sync :: bool
  dd_MaxWaitMinutes :: int

definition deletion_url :: "'w dist_service \<Rightarrow> string \<Rightarrow> string \<Rightarrow> string" where
  "deletion_url dr name version = dist_url dr @ ''api/v1/release_bundle/'' @ name @ ''/'' @ version @ ''/distribution''"

text \<open>The loop asks every ten seconds; the calls share the details.\<close>

function deletion_loop :: "'w dist_service \<Rightarrow> string \<Rightarrow> string \<Rightarrow> int \<Rightarrow> HttpClientDetails \<Rightarrow> 'w \<Rightarrow> 'w outcome" where
  "deletion_loop dr name version timeElapsed details w =
     (if timeElapsed < max_wait dr * 60
      then (case jc_SendGet (sv_client (dist dr)) (deletion_url dr name version) True details w of
              None \<Rightarrow> None
            | Some ((resp, _, Some e), w) \<Rightarrow> Some (Some e, w)
            | Some ((None, _, None), w) \<Rightarrow> Some (Some (Panic ''nil pointer dereference''), w)
            | Some ((Some r, _, None), w) \<Rightarrow>
                if StatusCode r = 404 then Some (None, w)
                else if StatusCode r \<noteq> 200
                then Some (Some (Err (''Error while waiting to deletion: status code '' @ itoa (StatusCode r) @ ''.'')), w)
                else deletion_loop dr name version (timeElapsed + 10) (details_after (sv_client (dist dr)) details) w)
      else Some (Some (Err ''Timeout for sync deletion. ''), w))"
  by pat_completeness auto
termination
  by (relation "measure (\<lambda>(dr, name, version, t, details, w). nat (max_wait dr * 60 - t))") auto

declare deletion_loop.simps [simp del]

definition waitForDeletion :: "'w dist_service \<Rightarrow> string \<Rightarrow> string \<Rightarrow> 'w \<Rightarrow> 'w outcome" where
  "waitForDeletion dr name version w = deletion_loop dr name version 0 (details_of (dist dr)) w"

definition finish_deletion :: "'w dist_service \<Rightarrow> string \<Rightarrow> string \<Rightarrow> int list \<Rightarrow> 'w http_result option \<Rightarrow> 'w outcome" where
  "finish_deletion dr name version expected sent =
     after_reply sent (\<lambda>reply w.
       case checked (dist dr) expected reply of
         Inl e \<Rightarrow> Some (Some e, w)
       | Inr _ \<Rightarrow> if ds_Sync dr then waitForDeletion dr name version w else Some (None, w))"

definition execDeleteDistribute :: "'w dist_service \<Rightarrow> string \<Rightarrow> string \<Rightarrow> jvalue \<Rightarrow> 'w \<Rightarrow> 'w outcome" where
  "execDeleteDistribute dr name version deleteDistribution w =
     (let sv = dist dr; url = sv_url sv @ ''api/v1/distribution/'' @ name @ ''/'' @ version @ ''/delete''
      in finish_deletion dr name version [200, 202]
           (jc_SendPost (sv_client sv) url (Some (Marshal deleteDistribution)) (json_content (details_of sv)) w))"

definition with_sync :: "DeleteDistributionParams \<Rightarrow> 'w dist_service \<Rightarrow> 'w dist_service" where
  "with_sync p dr = dr\<lparr>ds_Sync := dd_Sync p, ds_MaxWaitMinutes := dd_MaxWaitMinutes p\<rparr>"

definition DeleteDistribution :: "'w dist_service \<Rightarrow> DeleteDistributionParams \<Rightarrow> 'w \<Rightarrow> 'w outcome" where
  "DeleteDistribution dr p w =
     execDeleteDistribute (with_sync p dr) (dp_Name (dd_Params p)) (dp_Version (dd_Params p))
       (ObjV (body_members (ds_DryRun dr) (DistributionRules (dd_Params p)) False @
              [(''on_success'', StrV (if DeleteFromDistribution p then ''delete'' else ''keep''))])) w"

definition execDeleteLocalDistribution :: "'w dist_service \<Rightarrow> string \<Rightarrow> string \<Rightarrow> 'w \<Rightarrow> 'w outcome" where
  "execDeleteLocalDistribution dlr name version w =
     (if ds_DryRun dlr then Some (None, w)
      else let sv = dist dlr; url = sv_url sv @ ''api/v1/release_bundle/'' @ name @ ''/'' @ version
           in finish_deletion dlr name version [204] (jc_SendDelete (sv_client sv) url None (json_content (details_of sv)) w))"

definition DeleteLocalDistribution :: "'w dist_service \<Rightarrow> DeleteDistributionParams \<Rightarrow> 'w \<Rightarrow> 'w outcome" where
  "DeleteLocalDistribution dlr p w =
     execDeleteLocalDistribution (with_sync p dlr) (dp_Name (dd_Params p)) (dp_Version (dd_Params p)) w"


section \<open>Bundles\<close>

record ReleaseBundleParams =
  rb_SpecFiles :: "CommonParams list"
  rb_Name :: string
  rb_Version :: string
  rb_SignImmediately :: bool
  rb_StoringRepository :: string
  rb_Description :: string
  rb_ReleaseNotes :: string
  rb_ReleaseNotesSyntax :: string
  rb_GpgPassphrase :: string

definition NewReleaseBundleParams :: "string \<Rightarrow> string \<Rightarrow> ReleaseBundleParams" where
  "NewReleaseBundleParams name version =
     \<lparr>rb_SpecFiles = [], rb_Name = name, rb_Version = version, rb_SignImmediately = False, rb_StoringRepository = [], rb_Description = [],
      rb_ReleaseNotes = [], rb_ReleaseNotesSyntax = [], rb_GpgPassphrase = []\<rparr>"

text \<open>Updating signs immediately by default.\<close>

definition NewUpdateReleaseBundleParams :: "string \<Rightarrow> string \<Rightarrow> ReleaseBundleParams" where
  "NewUpdateReleaseBundleParams name version = (NewReleaseBundleParams name version)\<lparr>rb_SignImmediately := True\<rparr>"

record PathMapping =
  pm_Input :: string
  pm_Output :: string

record BundleQuery =
  bq_Aql :: string
  bq_PathMappings :: "PathMapping list"
  bq_AddedProps :: "(string \<times> string list) list"

record ReleaseBundleBody =
  rbb_DryRun :: bool
  rbb_SignImmediately :: bool
  rbb_StoringRepository :: string
  rbb_Description :: string
  rbb_ReleaseNotes :: "(string \<times> string) option"
  rbb_Queries :: "BundleQuery list"

text \<open>\<open>iteration\<close> is the order in which the properties of a specification are ranged over, as in \<^verbatim>\<open>Aql\<close>.\<close>

definition createAql :: "(properties \<Rightarrow> properties) \<Rightarrow> CommonParams \<Rightarrow> string result" where
  "createAql iteration specFile =
     and_then (if GetSpecType specFile \<noteq> AQL
               then and_then (CreateAqlBodyForSpecWithPattern iteration specFile) (\<lambda>query. Inr (specFile\<lparr>cp_Aql := \<lparr>ItemsFind = query\<rparr>\<rparr>))
               else Inr specFile) (\<lambda>specFile. Inr (BuildQueryFromSpecFile specFile NONE))"

definition digit :: "char \<Rightarrow> bool" where
  "digit c \<longleftrightarrow> CHR ''0'' \<le> c \<and> c \<le> CHR ''9''"

text \<open>A digit in curly brackets becomes a dollar sign and the digit.\<close>

fun rest_groups :: "string \<Rightarrow> string" where
  "rest_groups (a # d # b # s) =
     (if a = CHR 0x7B \<and> digit d \<and> b = CHR 0x7D then CHR ''$'' # d # rest_groups s else a # rest_groups (d # b # s))"
| "rest_groups s = s"

definition createPathMappings :: "(string \<Rightarrow> string) \<Rightarrow> CommonParams \<Rightarrow> PathMapping list" where
  "createPathMappings wildcardToRegExp specFile =
     (if length (Target specFile) = 0 then []
      else [\<lparr>pm_Input = wildcardToRegExp (Pattern specFile), pm_Output = rest_groups (Target specFile)\<rparr>])"

definition createAddedProps :: "CommonParams \<Rightarrow> (string \<times> string list) list" where
  "createAddedProps specFile = (case TargetProps specFile of None \<Rightarrow> [] | Some props \<Rightarrow> ToMap props)"

fun bundle_queries :: "(properties \<Rightarrow> properties) \<Rightarrow> (string \<Rightarrow> string) \<Rightarrow> CommonParams list \<Rightarrow> BundleQuery list result" where
  "bundle_queries iteration wildcardToRegExp [] = Inr []"
| "bundle_queries iteration wildcardToRegExp (specFile # specs) =
     and_then (createAql iteration specFile) (\<lambda>aql.
     and_then (bundle_queries iteration wildcardToRegExp specs) (\<lambda>qs.
       Inr (\<lparr>bq_Aql = aql, bq_PathMappings = createPathMappings wildcardToRegExp specFile, bq_AddedProps = createAddedProps specFile\<rparr> # qs)))"

definition CreateBundleBody :: "(properties \<Rightarrow> properties) \<Rightarrow> (string \<Rightarrow> string) \<Rightarrow> ReleaseBundleParams \<Rightarrow> bool \<Rightarrow> ReleaseBundleBody result" where
  "CreateBundleBody iteration wildcardToRegExp p dryRun =
     and_then (bundle_queries iteration wildcardToRegExp (rb_SpecFiles p)) (\<lambda>bundleQueries.
       Inr \<lparr>rbb_DryRun = dryRun, rbb_SignImmediately = rb_SignImmediately p, rbb_StoringRepository = rb_StoringRepository p,
            rbb_Description = rb_Description p,
            rbb_ReleaseNotes = (if rb_ReleaseNotes p \<noteq> [] then Some (rb_ReleaseNotesSyntax p, rb_ReleaseNotes p) else None),
            rbb_Queries = bundleQueries\<rparr>)"

definition query_value :: "BundleQuery \<Rightarrow> jvalue" where
  "query_value q = ObjV ([(''aql'', StrV (bq_Aql q))] @
     omit_list ''mappings'' (\<lambda>m. ObjV [(''input'', StrV (pm_Input m)), (''output'', StrV (pm_Output m))]) (bq_PathMappings q) @
     omit_list ''added_props'' (\<lambda>(k, vs). ObjV [(''key'', StrV k), (''values'', ArrV (map StrV vs))]) (bq_AddedProps q))"

definition bundle_members :: "ReleaseBundleBody \<Rightarrow> members" where
  "bundle_members body =
     [(''dry_run'', BoolV (rbb_DryRun body)), (''sign_immediately'', BoolV (rbb_SignImmediately body))] @
     omit_string ''storing_repository'' (rbb_StoringRepository body) @ omit_string ''description'' (rbb_Description body) @
     omit_pointer ''release_notes'' (\<lambda>(syntax, content). ObjV (omit_string ''syntax'' syntax @ omit_string ''content'' content)) (rbb_ReleaseNotes body) @
     [(''spec'', ObjV [(''queries'', slice_value query_value (if rbb_Queries body = [] then None else Some (rbb_Queries body)))])]"

record Sha256Summary =
  ss_sha256 :: string
  ss_succeeded :: bool

definition NewSha256Summary :: Sha256Summary where
  "NewSha256Summary = \<lparr>ss_sha256 = [], ss_succeeded = False\<rparr>"

definition signed_summary :: "Response \<Rightarrow> Sha256Summary" where
  "signed_summary r = \<lparr>ss_sha256 = ResponseHeader r ''X-Checksum-Sha256'', ss_succeeded = True\<rparr>"

definition AddGpgPassphraseHeader :: "string \<Rightarrow> HttpClientDetails \<Rightarrow> HttpClientDetails" where
  "AddGpgPassphraseHeader gpgPassphrase details =
     (if gpgPassphrase \<noteq> [] then add_header ''X-GPG-PASSPHRASE'' gpgPassphrase details else details)"

type_synonym 'w summary_outcome = "((Sha256Summary option \<times> go_error option) \<times> 'w) option"

text \<open>An answer with a status that is expected fills in the summary, if there is one.\<close>

definition summarize :: "bool \<Rightarrow> (Response \<times> string) result \<Rightarrow> Sha256Summary option \<times> go_error option" where
  "summarize sign result =
     (case result of
        Inl e \<Rightarrow> (if sign then Some NewSha256Summary else None, Some e)
      | Inr (r, _) \<Rightarrow> (if sign then Some (signed_summary r) else None, None))"

definition created :: "'w dist_service \<Rightarrow> Response option \<times> string \<times> go_error option \<Rightarrow> (Response \<times> string) result" where
  "created cb reply =
     (case reply of
        (_, _, Some e) \<Rightarrow> Inl e
      | (None, _, None) \<Rightarrow> Inl (Panic ''nil pointer dereference'')
      | (Some r, body, None) \<Rightarrow>
          if StatusCode r = 201 \<or> (StatusCode r = 200 \<and> ds_DryRun cb) then Inr (r, body)
          else Inl (Err (''Distribution response: '' @ Status r @ [CHR 0x0A] @ GenerateErrorString (jc_indent (sv_client (dist cb))) body)))"

definition CreateReleaseBundle :: "(properties \<Rightarrow> properties) \<Rightarrow> (string \<Rightarrow> string) \<Rightarrow> 'w dist_service \<Rightarrow> ReleaseBundleParams \<Rightarrow> 'w \<Rightarrow> 'w summary_outcome" where
  "CreateReleaseBundle iteration wildcardToRegExp cb p w =
     (case CreateBundleBody iteration wildcardToRegExp p (ds_DryRun cb) of
        Inl e \<Rightarrow> Some ((None, Some e), w)
      | Inr body \<Rightarrow>
          let content = Marshal (ObjV ([(''name'', StrV (rb_Name p)), (''version'', StrV (rb_Version p))] @ bundle_members body));
              url = dist_url cb @ ''api/v1/release_bundle'';
              details = json_content (AddGpgPassphraseHeader (rb_GpgPassphrase p) (details_of (dist cb)))
          in after_reply (jc_SendPost (sv_client (dist cb)) url (Some content) details w) (\<lambda>reply w.
               Some (summarize (rbb_SignImmediately body) (created cb reply), w)))"

definition UpdateReleaseBundle :: "(properties \<Rightarrow> properties) \<Rightarrow> (string \<Rightarrow> string) \<Rightarrow> 'w dist_service \<Rightarrow> ReleaseBundleParams \<Rightarrow> 'w \<Rightarrow> 'w summary_outcome" where
  "UpdateReleaseBundle iteration wildcardToRegExp ur p w =
     (case CreateBundleBody iteration wildcardToRegExp p (ds_DryRun ur) of
        Inl e \<Rightarrow> Some ((None, Some e), w)
      | Inr body \<Rightarrow>
          let url = dist_url ur @ ''api/v1/release_bundle/'' @ rb_Name p @ ''/'' @ rb_Version p;
              details = json_content (AddGpgPassphraseHeader (rb_GpgPassphrase p) (details_of (dist ur)))
          in after_reply (jc_SendPut (sv_client (dist ur)) url (Some (Marshal (ObjV (bundle_members body)))) details w) (\<lambda>reply w.
               Some (summarize (rbb_SignImmediately body) (checked (dist ur) [200] reply), w)))"

record SignBundleParams =
  sb_Name :: string
  sb_Version :: string
  sb_StoringRepository :: string
  sb_GpgPassphrase :: string

definition SignReleaseBundle :: "'w dist_service \<Rightarrow> SignBundleParams \<Rightarrow> 'w \<Rightarrow> 'w summary_outcome" where
  "SignReleaseBundle sb p w =
     (let content = Marshal (ObjV (omit_string ''storing_repository'' (sb_StoringRepository p)));
          url = dist_url sb @ ''api/v1/release_bundle/'' @ sb_Name p @ ''/'' @ sb_Version p @ ''/sign'';
          details = AddGpgPassphraseHeader (sb_GpgPassphrase p) (json_content (details_of (dist sb)))
      in after_reply (jc_SendPost (sv_client (dist sb)) url (Some content) details w) (\<lambda>reply w.
           Some (summarize True (checked (dist sb) [200] reply), w)))"

definition SetSigningKey :: "'w dist_service \<Rightarrow> string \<Rightarrow> string \<Rightarrow> 'w \<Rightarrow> 'w outcome" where
  "SetSigningKey ssk publicKey privateKey w =
     (let content = Marshal (ObjV (omit_string ''public_key'' publicKey @ omit_string ''private_key'' privateKey));
          url = dist_url ssk @ ''/api/v1/keys/pgp''
      in after_reply (jc_SendPut (sv_client (dist ssk)) url (Some content) (json_content (details_of (dist ssk))) w) (\<lambda>reply w.
           Some (error_of (checked (dist ssk) [200] reply), w)))"

section \<open>Placeholders of a target\<close>

text \<open>A target of texts without an opening bracket and of numbered groups.\<close>

fun render_target :: "(string + char) list \<Rightarrow> string" where
  "render_target [] = []"
| "render_target (Inl s # ps) = s @ render_target ps"
| "render_target (Inr d # ps) = [CHR 0x7B, d, CHR 0x7D] @ render_target ps"

fun render_output :: "(string + char) list \<Rightarrow> string" where
  "render_output [] = []"
| "render_output (Inl s # ps) = s @ render_output ps"
| "render_output (Inr d # ps) = [CHR ''$'', d] @ render_output ps"

fun target_piece :: "string + char \<Rightarrow> bool" where
  "target_piece (Inl s) \<longleftrightarrow> CHR 0x7B \<notin> set s"
| "target_piece (Inr d) \<longleftrightarrow> digit d"

lemma rest_groups_other: "c \<noteq> CHR 0x7B \<Longrightarrow> rest_groups (c # s) = c # rest_groups s"
  by (cases s rule: rest_groups.cases; cases s) auto

lemma rest_groups_literal: "CHR 0x7B \<notin> set s \<Longrightarrow> rest_groups (s @ t) = s @ rest_groups t"
  by (induction s) (auto simp: rest_groups_other)

text \<open>The output of the path mapping of a specification is its target with every numbered placeholder in the notation
  of the REST interface and everything else as it is; without a target there is no mapping.\<close>

theorem createPathMappings_correct:
  assumes "Target specFile = render_target ps" "list_all target_piece ps"
  shows "createPathMappings toRegExp specFile =
    (if render_target ps = [] then [] else [\<lparr>pm_Input = toRegExp (Pattern specFile), pm_Output = render_output ps\<rparr>])"
proof -
  have "list_all target_piece ps \<Longrightarrow> rest_groups (render_target ps) = render_output ps"
    by (induction ps rule: render_target.induct) (simp_all add: rest_groups_literal)
  then show ?thesis using assms by (simp add: createPathMappings_def)
qed

theorem createPathMappings_correct_witness:
  "createPathMappings (\<lambda>p. p) (zero_params\<lparr>Pattern := ''r/(*)'', Target := ''t/'' @ [CHR 0x7B, CHR ''1'', CHR 0x7D] @ ''.x''\<rparr>) =
    [\<lparr>pm_Input = ''r/(*)'', pm_Output = ''t/$1.x''\<rparr>]"
  using createPathMappings_correct[of "zero_params\<lparr>Pattern := ''r/(*)'', Target := ''t/'' @ [CHR 0x7B, CHR ''1'', CHR 0x7D] @ ''.x''\<rparr>"
      "[Inl ''t/'', Inr CHR ''1'', Inl ''.x'']" "\<lambda>p. p"]
  by (simp add: digit_def zero_params_def)

section \<open>Waiting\<close>

definition pending :: "status_response list result \<Rightarrow> bool" where
  "pending reply \<longleftrightarrow> (\<exists>status ms rs. reply = Inr ((status, ms) # rs) \<and> status \<noteq> ''Failed'' \<and> status \<noteq> ''Completed'')"

definition completed :: "status_response list result \<Rightarrow> bool" where
  "completed reply \<longleftrightarrow> (\<exists>ms rs. reply = Inr ((''Completed'', ms) # rs))"

lemma judge_pending: "pending reply \<Longrightarrow> judge sv reply = Inl (True, None)"
  by (auto simp: pending_def judge_def)

lemma judge_decided:
  assumes "\<not> pending reply"
  shows "(\<exists>e. judge sv reply = Inr e) \<and> \<not> completed reply \<or> (\<exists>err. judge sv reply = Inl (False, err) \<and> (err = None \<longleftrightarrow> completed reply))"
proof (cases reply)
  case (Inl e)
  then show ?thesis by (cases e) (auto simp: judge_def completed_def)
next
  case (Inr rs)
  then show ?thesis using assms by (cases rs) (auto simp: judge_def completed_def pending_def)
qed

lemma max_wait_pos: "1 \<le> max_wait dr"
  by (simp add: max_wait_def)

lemma wait_executor_retries: "MaxRetries (wait_executor dr p) = max_wait dr * 6"
proof -
  have "(max_wait dr * 60) div 10 = max_wait dr * 6" by presburger
  then show ?thesis using max_wait_pos[of dr] by (simp add: wait_executor_def go_div_def)
qed

definition status_params :: "DistributionParams \<Rightarrow> string \<Rightarrow> DistributionStatusParams" where
  "status_params p trackerId = \<lparr>st_Name = dp_Name p, st_Version = dp_Version p, st_TrackerId = trackerId\<rparr>"

lemma waitForDistribution_first:
  fixes dr :: "'w dist_service" and ws :: "nat \<Rightarrow> 'w" and replies :: "nat \<Rightarrow> status_response list result"
  defines "n \<equiv> nat (max_wait dr * 6)"
  assumes "\<And>j. j \<le> n \<Longrightarrow> GetStatus (dist dr) (status_params p trackerId) (ws j) = Some (replies j, ws (Suc j))"
  shows "case List.find (\<lambda>j. \<not> pending (replies j)) [0..<Suc n] of
      Some k \<Rightarrow> \<exists>err. waitForDistribution dr p trackerId (ws 0) = Some (err, ws (Suc k)) \<and> (err = None \<longleftrightarrow> completed (replies k))
    | None \<Rightarrow> \<exists>e. waitForDistribution dr p trackerId (ws 0) = Some (Some e, ws (Suc n))"
proof -
  let ?h = "status_handler (dist dr) (status_params p trackerId)" and ?s = "Some (None, ws 0)" and ?r = "wait_executor dr p"
  have retries: "MaxRetries ?r = int n" using max_wait_pos[of dr] by (simp add: n_def wait_executor_retries)
  have step: "?h (Some (None, ws j)) = (case judge (dist dr) (replies j) of
      Inr e \<Rightarrow> ((False, None), Some (Some e, ws (Suc j))) | Inl verdict \<Rightarrow> (verdict, Some (None, ws (Suc j))))" if "j \<le> n" for j
    using assms(2)[OF that] by (simp add: status_handler_def)
  have world: "world_after ?h ?s j = Some (None, ws j)" if "\<forall>i<j. pending (replies i)" "j \<le> Suc n" for j
    using that
  proof (induction j)
    case (Suc j)
    then show ?case using step[of j] judge_pending[of "replies j" "dist dr"] by (simp add: world_after_def)
  qed (simp add: world_after_def)
  have out: "outcome ?h ?s j = fst (?h (Some (None, ws j)))" if "\<forall>i<j. pending (replies i)" "j \<le> n" for j
    using world[of j] that by (simp add: outcome_def)
  show ?thesis
  proof (cases "List.find (\<lambda>j. \<not> pending (replies j)) [0..<Suc n]")
    case None
    then have p: "\<forall>i\<le>n. pending (replies i)" by (auto simp: find_None_iff simp del: upt_Suc)
    have "fst (outcome ?h ?s i)" if "i \<le> n" for i
      using out[of i] step[of i] judge_pending[of "replies i" "dist dr"] p that by simp
    then obtain tr where "Execute ?r None ?h ?s =
        (timeout_error ?r (snd (outcome ?h ?s (nat (MaxRetries ?r)))), world_after ?h ?s (Suc (nat (MaxRetries ?r))), tr)"
      using Execute_all[of ?r ?h ?s] retries by auto
    moreover have "world_after ?h ?s (Suc n) = Some (None, ws (Suc n))" using world[of "Suc n"] p by auto
    moreover obtain err where "timeout_error ?r (snd (outcome ?h ?s (nat (MaxRetries ?r)))) = Some err"
      by (cases "snd (outcome ?h ?s (nat (MaxRetries ?r)))") (auto simp: timeout_error_def)
    ultimately show ?thesis using None by (simp add: waitForDistribution_def retries status_params_def[symmetric] del: upt_Suc)
  next
    case (Some k)
    then have k: "k \<le> n" "\<not> pending (replies k)" "\<forall>i<k. pending (replies i)"
      by (auto simp: find_Some_iff simp del: upt_Suc)
    have before: "\<forall>i<k. fst (outcome ?h ?s i)"
    proof (intro allI impI)
      fix i assume i: "i < k"
      then have "outcome ?h ?s i = fst (?h (Some (None, ws i)))" using out[of i] k by simp
      then show "fst (outcome ?h ?s i)" using step[of i] judge_pending[of "replies i" "dist dr"] i k by simp
    qed
    have here: "outcome ?h ?s k = fst (?h (Some (None, ws k)))" "world_after ?h ?s (Suc k) = snd (?h (Some (None, ws k)))"
      using out[of k] world[of k] k by (simp_all add: world_after_def)
    have "\<not> fst (outcome ?h ?s k)"
      using here(1) step[OF k(1)] judge_decided[OF k(2), of "dist dr"] by auto
    then obtain tr where run: "Execute ?r None ?h ?s = (snd (outcome ?h ?s k), world_after ?h ?s (Suc k), tr)"
      using Execute_first[OF before, of ?r] k(1) retries by auto
    show ?thesis
      using Some run here step[OF k(1)] judge_decided[OF k(2), of "dist dr"]
      by (auto simp: waitForDistribution_def status_params_def[symmetric] simp del: upt_Suc)
  qed
qed

text \<open>C12: a synchronous distribution succeeds exactly when the first answer about its state that is not pending says that
  it is completed; any other such answer is an error (or the panic of an empty list), and after six answers for each
  minute of the waiting time and one more there is an error. A dry run and an asynchronous distribution do not wait.\<close>

theorem Distribute_correct:
  fixes ws :: "nat \<Rightarrow> 'w" and replies :: "nat \<Rightarrow> status_response list result"
  assumes "execDistribute dr (dp_Name p) (dp_Version p) (ObjV (body_members (ds_DryRun dr) (DistributionRules p) (ds_AutoCreateRepo dr))) w =
      Some (Inr trackerId, ws 0)"
    and "\<And>j. j \<le> nat (max_wait dr * 6) \<Longrightarrow> GetStatus (dist dr) (status_params p trackerId) (ws j) = Some (replies j, ws (Suc j))"
  shows "if ds_Sync dr \<and> \<not> ds_DryRun dr
    then case List.find (\<lambda>j. \<not> pending (replies j)) [0..<Suc (nat (max_wait dr * 6))] of
        Some k \<Rightarrow> \<exists>err. Distribute dr p w = Some (err, ws (Suc k)) \<and> (err = None \<longleftrightarrow> completed (replies k))
      | None \<Rightarrow> \<exists>e. Distribute dr p w = Some (Some e, ws (Suc (nat (max_wait dr * 6))))
    else Distribute dr p w = Some (None, ws 0)"
proof -
  have run: "Distribute dr p w = (if \<not> ds_Sync dr \<or> ds_DryRun dr then Some (None, ws 0) else waitForDistribution dr p trackerId (ws 0))"
    using assms(1) by (simp add: Distribute_def)
  show ?thesis
  proof (cases "ds_Sync dr \<and> \<not> ds_DryRun dr")
    case True
    then have wait: "Distribute dr p w = waitForDistribution dr p trackerId (ws 0)" using run by simp
    show ?thesis unfolding if_P[OF True] wait by (rule waitForDistribution_first[of dr p trackerId ws replies]) (rule assms(2))
  next
    case False
    then show ?thesis unfolding if_not_P[OF False] using run by auto
  qed
qed

section \<open>Waiting for a deletion\<close>

text \<open>An answer that means that the bundle is still there, and the error of another answer.\<close>

definition still_there :: "Response option \<times> string \<times> go_error option \<Rightarrow> bool" where
  "still_there reply \<longleftrightarrow> (\<exists>r body. reply = (Some r, body, None) \<and> StatusCode r = 200)"

definition gone :: "Response option \<times> string \<times> go_error option \<Rightarrow> bool" where
  "gone reply \<longleftrightarrow> (\<exists>r body. reply = (Some r, body, None) \<and> StatusCode r = 404)"

definition details_seq :: "'w dist_service \<Rightarrow> nat \<Rightarrow> HttpClientDetails" where
  "details_seq dr j = (details_after (sv_client (dist dr)) ^^ j) (details_of (dist dr))"

lemma deletion_loop_first:
  fixes ws :: "nat \<Rightarrow> 'w" and replies :: "nat \<Rightarrow> Response option \<times> string \<times> go_error option"
  assumes "\<And>j. j < n + i \<Longrightarrow>
      jc_SendGet (sv_client (dist dr)) (deletion_url dr name version) True (details_seq dr j) (ws j) = Some (replies j, ws (Suc j))"
    and "int (n + i) = max_wait dr * 6"
  shows "case List.find (\<lambda>j. \<not> still_there (replies j)) [i..<n + i] of
      Some k \<Rightarrow> \<exists>err. deletion_loop dr name version (int i * 10) (details_seq dr i) (ws i) = Some (err, ws (Suc k)) \<and> (err = None \<longleftrightarrow> gone (replies k))
    | None \<Rightarrow> deletion_loop dr name version (int i * 10) (details_seq dr i) (ws i) = Some (Some (Err ''Timeout for sync deletion. ''), ws (n + i))"
  using assms
proof (induction n arbitrary: i)
  case 0
  then show ?case by (subst deletion_loop.simps) simp
next
  case (Suc n)
  have t: "int i * 10 < max_wait dr * 60" using Suc.prems(2) by linarith
  obtain resp body err where reply: "replies i = (resp, body, err)" by (metis surj_pair)
  have get: "jc_SendGet (sv_client (dist dr)) (deletion_url dr name version) True (details_seq dr i) (ws i) = Some ((resp, body, err), ws (Suc i))"
    using Suc.prems(1)[of i] reply by simp
  show ?case
  proof (cases "still_there (replies i)")
    case True
    then obtain r where r: "resp = Some r" "err = None" "StatusCode r = 200" using reply by (auto simp: still_there_def)
    have next_loop: "deletion_loop dr name version (int i * 10) (details_seq dr i) (ws i) =
        deletion_loop dr name version (int (Suc i) * 10) (details_seq dr (Suc i)) (ws (Suc i))"
      using t get r by (subst deletion_loop.simps) (simp add: details_seq_def add.commute)
    have next_find: "List.find (\<lambda>j. \<not> still_there (replies j)) [i..<Suc n + i] = List.find (\<lambda>j. \<not> still_there (replies j)) [Suc i..<n + Suc i]"
    proof -
      have "[i..<Suc n + i] = i # [Suc i..<n + Suc i]" by (simp add: upt_conv_Cons del: upt_Suc)
      then show ?thesis using True by simp
    qed
    have n: "Suc n + i = n + Suc i" by simp
    show ?thesis unfolding next_loop next_find unfolding n by (rule Suc.IH) (use Suc.prems in auto)
  next
    case False
    then have "List.find (\<lambda>j. \<not> still_there (replies j)) [i..<Suc n + i] = Some i" by (simp add: upt_conv_Cons del: upt_Suc)
    moreover have "\<exists>e. deletion_loop dr name version (int i * 10) (details_seq dr i) (ws i) = Some (e, ws (Suc i)) \<and> (e = None \<longleftrightarrow> gone (replies i))"
    proof (cases "err = None \<and> resp \<noteq> None")
      case True
      then obtain r where r: "resp = Some r" "err = None" by auto
      then have "StatusCode r \<noteq> 200" using False reply by (auto simp: still_there_def)
      then show ?thesis using t get r reply by (subst deletion_loop.simps) (auto simp: gone_def)
    next
      case False
      then show ?thesis using t get reply by (subst deletion_loop.simps) (auto simp: gone_def split: option.split)
    qed
    ultimately show ?thesis by simp
  qed
qed

text \<open>C13: a synchronous deletion that the server accepts waits until the bundle is gone: it succeeds exactly when the first
  answer that does not find the bundle is 404; with six answers for each minute of the waiting time that find it
  there is the timeout error, and nothing further is sent.\<close>

theorem DeleteDistribution_waits:
  fixes dr :: "'w dist_service" and params :: DeleteDistributionParams and ws :: "nat \<Rightarrow> 'w"
    and replies :: "nat \<Rightarrow> Response option \<times> string \<times> go_error option"
  defines "run \<equiv> with_sync params dr"
  defines "n \<equiv> nat (max_wait run * 6)"
  assumes "dd_Sync params"
    and "jc_SendPost (sv_client (dist dr)) (sv_url (dist dr) @ ''api/v1/distribution/'' @ dp_Name (dd_Params params) @ ''/'' @ dp_Version (dd_Params params) @ ''/delete'')
        (Some (Marshal (ObjV (body_members (ds_DryRun dr) (DistributionRules (dd_Params params)) False @
           [(''on_success'', StrV (if DeleteFromDistribution params then ''delete'' else ''keep''))]))))
        (json_content (details_of (dist dr))) w = Some (sent, ws 0)"
    and "checked (dist dr) [200, 202] sent = Inr accepted"
    and "\<And>j. j < n \<Longrightarrow> jc_SendGet (sv_client (dist dr)) (deletion_url run (dp_Name (dd_Params params)) (dp_Version (dd_Params params))) True
        (details_seq run j) (ws j) = Some (replies j, ws (Suc j))"
  shows "case List.find (\<lambda>j. \<not> still_there (replies j)) [0..<n] of
      Some k \<Rightarrow> \<exists>err. DeleteDistribution dr params w = Some (err, ws (Suc k)) \<and> (err = None \<longleftrightarrow> gone (replies k))
    | None \<Rightarrow> DeleteDistribution dr params w = Some (Some (Err ''Timeout for sync deletion. ''), ws n)"
proof -
  have run: "dist run = dist dr" "ds_Sync run" using assms(3) by (simp_all add: run_def with_sync_def)
  have "int n = max_wait run * 6" using max_wait_pos[of run] by (simp add: n_def)
  then have loop: "case List.find (\<lambda>j. \<not> still_there (replies j)) [0..<n] of
      Some k \<Rightarrow> \<exists>err. deletion_loop run (dp_Name (dd_Params params)) (dp_Version (dd_Params params)) 0 (details_seq run 0) (ws 0) = Some (err, ws (Suc k)) \<and>
        (err = None \<longleftrightarrow> gone (replies k))
    | None \<Rightarrow> deletion_loop run (dp_Name (dd_Params params)) (dp_Version (dd_Params params)) 0 (details_seq run 0) (ws 0) =
        Some (Some (Err ''Timeout for sync deletion. ''), ws n)"
    using deletion_loop_first[of n 0 run "dp_Name (dd_Params params)" "dp_Version (dd_Params params)" ws replies] assms(6) run
    by (cases "List.find (\<lambda>j. \<not> still_there (replies j)) [0..<n]") simp_all
  have "DeleteDistribution dr params w = waitForDeletion run (dp_Name (dd_Params params)) (dp_Version (dd_Params params)) (ws 0)"
    using assms(4,5) run by (simp add: DeleteDistribution_def execDeleteDistribute_def finish_deletion_def run_def[symmetric] Let_def)
  also have "\<dots> = deletion_loop run (dp_Name (dd_Params params)) (dp_Version (dd_Params params)) 0 (details_seq run 0) (ws 0)"
    by (simp add: waitForDeletion_def details_seq_def)
  finally have deletion: "DeleteDistribution dr params w =
      deletion_loop run (dp_Name (dd_Params params)) (dp_Version (dd_Params params)) 0 (details_seq run 0) (ws 0)" .
  show ?thesis unfolding deletion by (rule loop)
qed

definition example_params :: DistributionParams where
  "example_params = \<lparr>DistributionRules = [], dp_Name = ''n'', dp_Version = ''1''\<rparr>"

definition text_response :: "string \<Rightarrow> Response" where
  "text_response body = \<lparr>StatusCode = 200, Status = ''200 OK'', ResponseHeader = (\<lambda>_. []), Body = (body, None)\<rparr>"

definition example_dist :: "nat dist_service" where
  "example_dist = \<lparr>dist = (example_service (\<lambda>w. Answered (text_response (if w < 2 then ''w'' else ''d''))))
      \<lparr>sv_parse := (\<lambda>b. Inr (if has_prefix b ''['' then ArrV [ObjV [(''status'', StrV (if b = ''[d]'' then ''Completed'' else ''In progress''))]]
                           else ObjV [(''id'', NumV ''7'')]))\<rparr>,
     ds_DryRun = False, ds_Sync = True, ds_AutoCreateRepo = False, ds_MaxWaitMinutes = 1\<rparr>"

theorem Distribute_correct_witness: "\<exists>err. Distribute example_dist example_params 0 = Some (err, 3) \<and> err = None"
proof -
  let ?ans = "\<lambda>w::nat. Answered (text_response (if w < 2 then ''w'' else ''d''))"
  let ?replies = "\<lambda>j::nat. Inr [(if j = 0 then ''In progress'' else ''Completed'',
      [(''status'', StrV (if j = 0 then ''In progress'' else ''Completed''))])] :: status_response list result"
  have fields: "ds_Sync example_dist" "\<not> ds_DryRun example_dist" "max_wait example_dist = 1"
    "sv_client (dist example_dist) = sv_client (example_service ?ans)"
    by (simp_all add: example_dist_def max_wait_def)
  have text_simps: "StatusCode (text_response b) = 200" "fst (Body (text_response b)) = b" for b by (simp_all add: text_response_def)
  have post: "jc_SendPost (sv_client (dist example_dist)) url content d 0 = Some ((Some (text_response ''w''), ''w'', None), 1)" for url content d
    using example_answered(2)[of ?ans 0 "text_response ''w''" url content d] by (simp add: fields text_simps)
  have get: "jc_SendGet (sv_client (dist example_dist)) url True d (Suc j) =
      Some ((Some (text_response (if j = 0 then ''w'' else ''d'')), if j = 0 then ''w'' else ''d'', None), Suc (Suc j))" for url d j
    using example_answered(1)[of ?ans "Suc j" "text_response (if j = 0 then ''w'' else ''d'')" url d] by (simp add: fields text_simps)
  have parse: "sv_parse (dist example_dist) ''w'' = Inr (ObjV [(''id'', NumV ''7'')])"
    "sv_parse (dist example_dist) ''[w]'' = Inr (ArrV [ObjV [(''status'', StrV ''In progress'')]])"
    "sv_parse (dist example_dist) ''[d]'' = Inr (ArrV [ObjV [(''status'', StrV ''Completed'')]])"
    by (simp_all add: example_dist_def)
  have exec: "execDistribute example_dist name version body 0 = Some (Inr ''7'', 1)" for name version body
    by (simp add: execDistribute_def post text_simps parse read_field_def field_values_def)
  have status: "GetStatus (dist example_dist) (status_params example_params ''7'') (Suc j) = Some (?replies j, Suc (Suc j))" for j
    by (simp add: GetStatus_def checkParameters_def status_params_def example_params_def execGetStatus_def get text_simps read_status_def parse
        read_string_once field_values_def)
  have "List.find (\<lambda>j. \<not> pending (?replies j)) [0..<Suc (nat (max_wait example_dist * 6))] = Some 1"
    by (auto simp: fields find_Some_iff pending_def nth_append intro!: exI[of _ 1])
  then show ?thesis
    using Distribute_correct[of example_dist example_params 0 "''7''" "\<lambda>j. Suc j" ?replies] fields exec status
    by (simp add: completed_def numeral_3_eq_3 del: upt_Suc)
qed

definition example_deletion :: DeleteDistributionParams where
  "example_deletion = \<lparr>dd_Params = example_params, DeleteFromDistribution = True, dd_Sync = True, dd_MaxWaitMinutes = 1\<rparr>"

definition deleting_dist :: "bool \<Rightarrow> nat dist_service" where
  "deleting_dist dryRun = \<lparr>dist = example_service (\<lambda>w. Answered (example_response (if w = 2 \<and> \<not> dryRun then 404 else 200))),
     ds_DryRun = dryRun, ds_Sync = False, ds_AutoCreateRepo = False, ds_MaxWaitMinutes = 0\<rparr>"

lemma deleting_dist_get:
  "jc_SendGet (sv_client (dist (deleting_dist b))) url True d w =
    Some ((Some (example_response (if w = 2 \<and> \<not> b then 404 else 200)), ''ok'', None), Suc w)"
  using example_answered(1)[of "\<lambda>w. Answered (example_response (if w = 2 \<and> \<not> b then 404 else 200))" w "example_response (if w = 2 \<and> \<not> b then 404 else 200)" url d]
  by (simp add: deleting_dist_def example_response_def)

lemma deleting_dist_post:
  "jc_SendPost (sv_client (dist (deleting_dist b))) url content d 0 = Some ((Some (example_response 200), ''ok'', None), 1)"
  using example_answered(2)[of "\<lambda>w. Answered (example_response (if w = 2 \<and> \<not> b then 404 else 200))" 0 "example_response 200" url content d]
  by (simp add: deleting_dist_def example_response_def)

lemma deleting_dist_wait: "max_wait (with_sync example_deletion (deleting_dist b)) = 1"
  by (simp add: max_wait_def with_sync_def example_deletion_def)

lemma checked_example: "checked sv [200, 202] (Some (example_response 200), ''ok'', None) = Inr (example_response 200, ''ok'')"
  by (simp add: example_response_def)

theorem DeleteDistribution_waits_witness: "\<exists>err. DeleteDistribution (deleting_dist False) example_deletion 0 = Some (err, 3) \<and> err = None"
proof -
  let ?replies = "\<lambda>j::nat. (Some (example_response (if j = 1 then 404 else 200)), ''ok'', None) :: Response option \<times> string \<times> go_error option"
  have "dd_Sync example_deletion" by (simp add: example_deletion_def)
  moreover have "jc_SendGet (sv_client (dist (deleting_dist False))) url True d (Suc j) = Some (?replies j, Suc (Suc j))" for url d j
    by (simp add: deleting_dist_get)
  moreover have "List.find (\<lambda>j. \<not> still_there (?replies j)) [0..<6] = Some 1"
    by (auto simp: find_Some_iff still_there_def example_response_def intro!: exI[of _ 1])
  moreover have "gone (?replies 1)" by (simp add: gone_def example_response_def)
  ultimately show ?thesis
    using DeleteDistribution_waits[of example_deletion "deleting_dist False" 0 "(Some (example_response 200), ''ok'', None)" "\<lambda>j. Suc j"
        "(example_response 200, ''ok'')" ?replies]
    by (simp add: deleting_dist_wait deleting_dist_post checked_example numeral_3_eq_3)
qed

text \<open>A dry run that asks for synchronous deletion waits like a real one, for a bundle that nothing deletes, and fails.\<close>

lemma DeleteDistribution_dry_run: "DeleteDistribution (deleting_dist True) example_deletion 0 = Some (Some (Err ''Timeout for sync deletion. ''), 7)"
proof -
  let ?run = "with_sync example_deletion (deleting_dist True)"
  have client: "dist ?run = dist (deleting_dist True)" by (simp add: with_sync_def)
  have loop: "deletion_loop ?run name version t d w =
      (if t < 60 then deletion_loop ?run name version (t + 10) (details_after (sv_client (dist ?run)) d) (Suc w)
       else Some (Some (Err ''Timeout for sync deletion. ''), w))" for name version t d w
    by (subst deletion_loop.simps) (simp add: deleting_dist_wait client deleting_dist_get example_response_def)
  have "deletion_loop ?run name version 0 d 1 = Some (Some (Err ''Timeout for sync deletion. ''), 7)" for name version d
    by (simp add: loop[of _ _ 0] loop[of _ _ 10] loop[of _ _ 20] loop[of _ _ 30] loop[of _ _ 40] loop[of _ _ 50] loop[of _ _ 60])
  then show ?thesis
    by (simp add: DeleteDistribution_def execDeleteDistribute_def finish_deletion_def client deleting_dist_post checked_example waitForDeletion_def)
      (simp add: with_sync_def example_deletion_def)
qed

end
