(* ===== verification/PropsService.thy ===== *)
theory PropsService
  imports Delete Service
begin

text \<open>
  The properties service, \<^verbatim>\<open>artifactory/services/props.go\<close>: setting and deleting properties of search results, one
  request for each item, and reading the properties of an item.

  The threads and the requests are those of \<^verbatim>\<open>Delete\<close>: \<open>build_url\<close> is \<open>BuildArtifactoryUrl\<close> for the server's URL without
  parameters, \<open>put\<close> and \<open>delete\<close> send a request, with the status code and the error text of the response. The items of a run have addresses of their own and
  each is sent once, so that a function of the address gives the answers of any server over the run.
\<close>

section \<open>The requests\<close>

record props_server =
  ps_build_url :: "string \<Rightarrow> string result"
  sendPutRequest :: "string \<Rightarrow> (int \<times> string) result"
  sendDeleteRequest :: "string \<Rightarrow> (int \<times> string) result"

text \<open>The value of the parameter \<open>properties\<close>.\<close>

definition encoded_param :: "string \<Rightarrow> bool \<Rightarrow> string result" where
  "encoded_param props isDelete =
     (if \<not> isDelete
      then (case ParseProperties props of
              (Some e, _) \<Rightarrow> Inl e
            | (None, ps) \<Rightarrow> Inr (ToEncodedString True ps))
      else Inr (trim_suffix (concat (map (\<lambda>prop. query_escape prop @ '','') (split_char CHR '','' props))) '',''))"

definition setPropertiesURL :: "string \<Rightarrow> string \<Rightarrow> string" where
  "setPropertiesURL url encodedParam = url @ ''?properties='' @ encodedParam @ ''&recursive=0''"

definition storage_path :: "ResultItem \<Rightarrow> string" where
  "storage_path resultItem = path_join [''api'', ''storage'', GetItemRelativePath resultItem]"

definition setPropsTask :: "props_server \<Rightarrow> bool \<Rightarrow> string \<Rightarrow> ResultItem \<Rightarrow> go_error + bool" where
  "setPropsTask server isDelete encodedParam resultItem =
     and_then (ps_build_url server (storage_path resultItem)) (\<lambda>url.
     and_then ((if isDelete then sendDeleteRequest server else sendPutRequest server) (setPropertiesURL url encodedParam)) (\<lambda>(status, message).
       if status \<noteq> 204 then Inl (Err message) else Inr True))"

text \<open>The number of successes and the error. Properties that cannot be parsed send nothing.\<close>

definition performRequest :: "props_server \<Rightarrow> nat \<Rightarrow> string \<Rightarrow> bool \<Rightarrow> ResultItem task_event list \<Rightarrow> (nat \<times> go_error option) result" where
  "performRequest server threads props isDelete events =
     (case encoded_param props isDelete of
        Inl e \<Rightarrow> Inr (0, Some e)
      | Inr encodedParam \<Rightarrow>
          and_then (run_events (setPropsTask server isDelete encodedParam) threads events) (\<lambda>(result, errorsQueue).
            Inr (SumIntArray (SuccessCount result), fst (GetError errorsQueue))))"

definition service_SetProps :: "props_server \<Rightarrow> nat \<Rightarrow> string \<Rightarrow> ResultItem task_event list \<Rightarrow> (nat \<times> go_error option) result" where
  "service_SetProps server threads props events = performRequest server threads props False events"

definition DeleteProps :: "props_server \<Rightarrow> nat \<Rightarrow> string \<Rightarrow> ResultItem task_event list \<Rightarrow> (nat \<times> go_error option) result" where
  "DeleteProps server threads props events = performRequest server threads props True events"

section \<open>Reading\<close>

fun conv_strings :: "jvalue list \<Rightarrow> string list option" where
  "conv_strings [] = Some []"
| "conv_strings (v # vs) =
     (case (if v = Null then Some [] else conv_string v, conv_strings vs) of (Some s, Some ss) \<Rightarrow> Some (s # ss) | _ \<Rightarrow> None)"

fun conv_properties :: "members \<Rightarrow> (string \<times> string list) list option" where
  "conv_properties [] = Some []"
| "conv_properties ((k, v) # ms) =
     (case ((case v of ArrV vs \<Rightarrow> conv_strings vs | Null \<Rightarrow> Some [] | _ \<Rightarrow> None), conv_properties ms) of
        (Some vs, Some ps) \<Rightarrow> Some ((k, vs) # ps) | _ \<Rightarrow> None)"

record ItemProperties =
  ip_Properties :: "(string \<times> string list) list"
  ip_Uri :: string

text \<open>\<open>None\<close> for an item without properties.\<close>

definition GetItemProperties :: "'w service \<Rightarrow> (string \<Rightarrow> string result) \<Rightarrow> string \<Rightarrow> 'w \<Rightarrow> (ItemProperties option result \<times> 'w) option" where
  "GetItemProperties ps build_url relativePath w =
     (case build_url (path_join [''api'', ''storage'', relativePath]) of
        Inl e \<Rightarrow> Some (Inl e, w)
      | Inr url \<Rightarrow>
          after_reply (jc_SendGet (sv_client ps) (url @ ''?properties'') True (details_of ps) w) (\<lambda>reply w.
            Some (case reply of
                    (Some r, body, None) \<Rightarrow>
                      if StatusCode r = 404 \<and> str_contains body ''No properties could be found'' then Inr None
                      else and_then (checked ps [200] reply) (\<lambda>(r, body).
                           and_then (sv_parse ps body) (\<lambda>v. and_then (read_struct v) (\<lambda>ms.
                           and_then (read_field (\<lambda>v. case v of ObjV ps \<Rightarrow> conv_properties ps | _ \<Rightarrow> None) [] ''properties'' ms) (\<lambda>props.
                           and_then (read_string ''uri'' ms) (\<lambda>uri.
                             Inr (Some \<lparr>ip_Properties = props, ip_Uri = uri\<rparr>))))))
                  | _ \<Rightarrow> map_sum id (\<lambda>_. None) (checked ps [200] reply), w)))"

section \<open>What setting and deleting do\<close>

text \<open>The items whose request the server answers with 204.\<close>

definition done_item :: "props_server \<Rightarrow> bool \<Rightarrow> string \<Rightarrow> ResultItem \<Rightarrow> bool" where
  "done_item server isDelete encodedParam item \<longleftrightarrow>
     (\<exists>url m. ps_build_url server (storage_path item) = Inr url \<and>
       (if isDelete then sendDeleteRequest server else sendPutRequest server) (setPropertiesURL url encodedParam) = Inr (204, m))"

lemma setPropsTask_done: "setPropsTask server isDelete encodedParam item = Inr True \<longleftrightarrow> done_item server isDelete encodedParam item"
  by (auto simp: setPropsTask_def done_item_def and_then_eq_Inr split: if_splits)

lemma performRequest_counts:
  assumes "on_threads threads events" "encoded_param props isDelete = Inr encodedParam"
  shows "performRequest server threads props isDelete events =
    Inr (length (filter (done_item server isDelete encodedParam) (tasks_of events)),
         case List.map_filter (event_error (setPropsTask server isDelete encodedParam)) events of [] \<Rightarrow> None | e # _ \<Rightarrow> Some e)"
proof -
  obtain result q where "run_events (setPropsTask server isDelete encodedParam) threads events = Inr (result, q)"
    "SumIntArray (SuccessCount result) = length (filter (\<lambda>x. setPropsTask server isDelete encodedParam x = Inr True) (tasks_of events))"
    "fst (GetError q) = (case List.map_filter (event_error (setPropsTask server isDelete encodedParam)) events of [] \<Rightarrow> None | e # _ \<Rightarrow> Some e)"
    using assms(1) by (rule run_events_counts)
  then show ?thesis using assms(2) by (simp add: performRequest_def setPropsTask_done)
qed

lemma writable_values:
  assumes "wf_properties ps" "list_all writable ps" "k \<in> fst ` set ps"
  shows "values_of ps k \<noteq> []" "v \<in> set (values_of ps k) \<Longrightarrow> \<not> has_suffix v [backslash]"
proof -
  obtain vs where "(k, vs) \<in> set ps" using assms(3) by auto
  then have "map_of ps k = Some vs" using assms(1) by (simp add: wf_properties_def)
  then have "values_of ps k = vs" by (simp add: values_of_def)
  moreover have "writable (k, vs)" using assms(2) \<open>(k, vs) \<in> set ps\<close> by (auto simp: list_all_iff)
  ultimately show "values_of ps k \<noteq> []" "v \<in> set (values_of ps k) \<Longrightarrow> \<not> has_suffix v [backslash]" by (auto simp: writable_def)
qed

text \<open>C24: setting properties that are written as a property string sends one PUT for each search result, whatever the
  threads and the order; its parameter decodes to the properties, with their values, by increasing key. The number
  returned is that of the results for which the server answered 204, the error the first one of a task or the reader.\<close>

theorem service_SetProps_correct:
  assumes "on_threads threads events" "ps \<noteq> []" "wf_properties ps" "list_all writable ps"
  shows "\<exists>encodedParam. map (\<lambda>p. map_option (\<lambda>(k, v). (k, splitWhileIgnoringBackslashPrefixSeparators v CHR '','')) (decode_pair p))
        (split_char CHR '';'' encodedParam) = map (\<lambda>k. Some (k, values_of ps k)) (getSortedKeys ps) \<and>
    service_SetProps server threads (render_properties ps) events =
      Inr (length (filter (done_item server False encodedParam) (tasks_of events)),
           case List.map_filter (event_error (setPropsTask server False encodedParam)) events of [] \<Rightarrow> None | e # _ \<Rightarrow> Some e)"
proof -
  have "encoded_param (render_properties ps) False = Inr (ToEncodedString True ps)"
    using ParseProperties_rendered[OF assms(3,4)] by (simp add: encoded_param_def)
  then have "service_SetProps server threads (render_properties ps) events =
      Inr (length (filter (done_item server False (ToEncodedString True ps)) (tasks_of events)),
           case List.map_filter (event_error (setPropsTask server False (ToEncodedString True ps))) events of [] \<Rightarrow> None | e # _ \<Rightarrow> Some e)"
    using performRequest_counts[OF assms(1)] unfolding service_SetProps_def by blast
  moreover have "map (\<lambda>p. map_option (\<lambda>(k, v). (k, splitWhileIgnoringBackslashPrefixSeparators v CHR '','')) (decode_pair p))
        (split_char CHR '';'' (ToEncodedString True ps)) = map (\<lambda>k. Some (k, values_of ps k)) (getSortedKeys ps)"
    using ToEncodedString_decodes[OF assms(2)] writable_values[OF assms(3,4)] by blast
  ultimately show ?thesis by blast
qed

text \<open>The names of properties to delete are sent as they are written, each escaped.\<close>

lemma delete_param: "encoded_param props True = Inr (str_join '','' (map query_escape (split_char CHR '','' props)))"
proof -
  have "ws \<noteq> [] \<Longrightarrow> concat (map (\<lambda>w. f w @ '','') ws) = str_join '','' (map f ws) @ '',''" for ws :: "string list" and f :: "string \<Rightarrow> string"
    by (induction ws rule: induct_list012) simp_all
  then show ?thesis by (simp add: encoded_param_def)
qed

theorem service_SetProps_correct_witness:
  "\<exists>encodedParam. split_char CHR '';'' encodedParam \<noteq> [] \<and>
    service_SetProps \<lparr>ps_build_url = Inr, sendPutRequest = (\<lambda>u. Inr (204, [])), sendDeleteRequest = (\<lambda>u. Inr (204, []))\<rparr> 2
      (render_properties [(''a'', [''x''])]) [Task 1 zero_item, Task 0 zero_item] = Inr (2, None)"
proof -
  let ?server = "\<lparr>ps_build_url = Inr, sendPutRequest = (\<lambda>u. Inr (204, [])), sendDeleteRequest = (\<lambda>u. Inr (204, []))\<rparr>"
  have "on_threads 2 [Task 1 zero_item, Task 0 zero_item]" by simp
  moreover have "wf_properties [(''a'', [''x''])]" "list_all writable [(''a'', [''x''])]"
    by (simp_all add: wf_properties_def writable_def has_suffix_single)
  moreover have "done_item ?server False e zero_item" for e by (simp add: done_item_def)
  moreover have "setPropsTask ?server False e zero_item = Inr True" for e by (simp add: setPropsTask_def)
  ultimately show ?thesis
    using service_SetProps_correct[of 2 "[Task 1 zero_item, Task 0 zero_item]" "[(''a'', [''x''])]" ?server]
    by (auto simp: List.map_filter_def)
qed

end
