(* ===== verification/GitLfs.thy ===== *)
theory GitLfs
  imports Delete
begin

text \<open>
  Cleaning up after Git LFS, \<^verbatim>\<open>artifactory/services/gitlfsclean.go\<close>: the files of an LFS repository in Artifactory that no
  matching reference of the local Git repository points to.

  Parameters are the search of \<^verbatim>\<open>Search\<close>, regular expressions, \<open>url.Parse\<close>, and what \<open>go-git\<close> reads: the options of a
  configuration and the references with the files of their commits. A commit that is reached over an annotated tag is
  part of the latter.
\<close>

record git_file =
  gf_Size :: int
  gf_Lines :: "string list result"

record git_ref =
  ref_name :: string
  hash_reference :: bool
  commit_files :: "git_file list result"

record url_parts =
  u_Scheme :: string
  u_Host :: string
  u_Path :: string
  u_String :: string

record lfs_env =
  le_search :: search_env
  match_string :: "string \<Rightarrow> string \<Rightarrow> bool result"
  parse_url :: "string \<Rightarrow> url_parts result"
  read_config :: "string \<Rightarrow> (string list \<Rightarrow> string) result"
  references :: "string \<Rightarrow> git_ref list result"
  getwd :: "string result"

section \<open>The pattern of references\<close>

definition meta_char :: "char \<Rightarrow> bool" where
  "meta_char c \<longleftrightarrow> c \<in> set ''.+*?()|[]^$'' \<or> c = backslash \<or> c = CHR 0x7B \<or> c = CHR 0x7D"

definition QuoteMeta :: "string \<Rightarrow> string" where
  "QuoteMeta s = concat (map (\<lambda>c. if meta_char c then [backslash, c] else [c]) s)"

text \<open>The replacer goes through the text once: a comma becomes a bar, a quoted asterisk any text.\<close>

fun replacer :: "string \<Rightarrow> string" where
  "replacer [] = []"
| "replacer [a] = (if a = CHR '','' then ''|'' else [a])"
| "replacer (a # b # s) =
     (if a = CHR '','' then ''|'' @ replacer (b # s)
      else if a = backslash \<and> b = CHR ''*'' then ''.*'' @ replacer s
      else a # replacer (b # s))"

definition getRefsRegex :: "string \<Rightarrow> string" where
  "getRefsRegex refs = replacer (QuoteMeta refs)"

definition ref_regex_char :: "char \<Rightarrow> string" where
  "ref_regex_char c =
     (if c = CHR '','' then ''|'' else if c = CHR ''*'' then ''.*'' else if meta_char c then [backslash, c] else [c])"

lemma replacer_Cons:
  "a \<noteq> CHR '','' \<Longrightarrow> \<not> (a = backslash \<and> s \<noteq> [] \<and> hd s = CHR ''*'') \<Longrightarrow> replacer (a # s) = a # replacer s"
  by (cases s) auto

lemma replacer_comma: "replacer (CHR '','' # s) = CHR ''|'' # replacer s"
  by (cases s) auto

lemma QuoteMeta_hd: "QuoteMeta s \<noteq> [] \<Longrightarrow> hd (QuoteMeta s) \<noteq> CHR ''*''"
  by (cases s) (auto simp: QuoteMeta_def meta_char_def)

text \<open>Every character of the references is translated on its own.\<close>

lemma getRefsRegex_chars: "getRefsRegex refs = concat (map ref_regex_char refs)"
proof (induction refs)
  case Nil
  then show ?case by (simp add: getRefsRegex_def QuoteMeta_def)
next
  case (Cons c refs)
  have tail: "QuoteMeta (c # refs) = (if meta_char c then [backslash, c] else [c]) @ QuoteMeta refs" by (simp add: QuoteMeta_def)
  have "replacer (c # QuoteMeta refs) = c # replacer (QuoteMeta refs)" if "c \<noteq> CHR '',''"
    using that QuoteMeta_hd[of refs] by (intro replacer_Cons) auto
  moreover have "\<not> meta_char CHR '',''" by (simp add: meta_char_def)
  moreover have "meta_char CHR ''*''" by (simp add: meta_char_def)
  ultimately show ?case
    using Cons by (auto simp: getRefsRegex_def tail ref_regex_char_def replacer_comma)
qed

section \<open>Detecting the repository\<close>

definition extractRepo :: "lfs_env \<Rightarrow> string \<Rightarrow> string \<Rightarrow> string \<Rightarrow> string list \<Rightarrow> string result" where
  "extractRepo env gitPath configFile rtUrl option' =
     and_then (and_then (read_config env (path_join [gitPath, configFile])) (\<lambda>conf. parse_url env (conf option'))) (\<lambda>lfsUrl.
     and_then (parse_url env rtUrl) (\<lambda>configured.
       let mismatch = Inl (Err (''configured Git LFS URL '' @ [CHR 0x22] @ u_String lfsUrl @ [CHR 0x22] @
                                '' does not match provided URL '' @ [CHR 0x22] @ u_String configured @ [CHR 0x22]))
       in if u_Scheme configured \<noteq> u_Scheme lfsUrl \<or> u_Host configured \<noteq> u_Host lfsUrl then mismatch
          else let configuredPath = path_clean (''/'' @ u_Path configured @ ''/api/lfs'') @ ''/'';
                   lfsUrlPath = path_clean (u_Path lfsUrl)
               in if has_prefix lfsUrlPath configuredPath then Inr (drop (length configuredPath) lfsUrlPath) else mismatch))"

definition detectRepo :: "lfs_env \<Rightarrow> string \<Rightarrow> string \<Rightarrow> string result" where
  "detectRepo env gitPath rtUrl =
     (case extractRepo env gitPath ''.lfsconfig'' rtUrl [''lfs'', ''url''] of
        Inr repo \<Rightarrow> Inr repo
      | Inl (Panic m) \<Rightarrow> Inl (Panic m)
      | Inl (Err e1) \<Rightarrow>
          (case extractRepo env gitPath ''.git/config'' rtUrl [''remote'', ''origin'', ''lfsurl''] of
             Inr repo \<Rightarrow> Inr repo
           | Inl (Panic m) \<Rightarrow> Inl (Panic m)
           | Inl (Err e2) \<Rightarrow>
               Inl (Err (''Cannot detect Git LFS repository from .lfsconfig: '' @ e1 @ ''Cannot detect Git LFS repository from .git/config: '' @ e2 @
                         ''You may want to try passing the --repo option manually''))))"

section \<open>The files Git points to\<close>

definition alnum :: "char \<Rightarrow> bool" where
  "alnum c \<longleftrightarrow> (CHR ''0'' \<le> c \<and> c \<le> CHR ''9'') \<or> (CHR ''A'' \<le> c \<and> c \<le> CHR ''Z'') \<or> (CHR ''a'' \<le> c \<and> c \<le> CHR ''z'')"

text \<open>The line matches \<^verbatim>\<open>^oid sha256:[[:alnum:]]{64}$\<close>.\<close>

definition pointer_line :: "string \<Rightarrow> bool" where
  "pointer_line line \<longleftrightarrow> has_prefix line ''oid sha256:'' \<and> length line = 75 \<and> list_all alnum (drop 11 line)"

text \<open>The first line that starts with \<open>oid \<close> decides.\<close>

definition collectLfsFileFromGit :: "git_file \<Rightarrow> string list \<Rightarrow> string list result" where
  "collectLfsFileFromGit f results =
     (if gf_Size f > 1024 then Inr results
      else and_then (gf_Lines f) (\<lambda>lines.
             case List.find (\<lambda>line. has_prefix line ''oid '') lines of
               None \<Rightarrow> Inr results
             | Some line \<Rightarrow>
                 if pointer_line line then Inr (List.insert (drop (nat (str_index line '':'' + 1)) line) results) else Inr results))"

definition collect_ref :: "lfs_env \<Rightarrow> string \<Rightarrow> git_ref \<Rightarrow> string list \<Rightarrow> string list result" where
  "collect_ref env refMatch ref results =
     (if \<not> hash_reference ref then Inr results
      else and_then (match_string env refMatch (ref_name ref)) (\<lambda>matches.
             if \<not> matches then Inr results
             else and_then (commit_files ref) (\<lambda>files. fold_result collectLfsFileFromGit files results)))"

definition getLfsFilesFromGit :: "lfs_env \<Rightarrow> string \<Rightarrow> string \<Rightarrow> string list result" where
  "getLfsFilesFromGit env path refMatch = and_then (references env path) (\<lambda>refs. fold_result (collect_ref env refMatch) refs [])"

section \<open>The files to delete\<close>

definition findFilesToDelete :: "ResultItem source \<Rightarrow> string list \<Rightarrow> ResultItem list" where
  "findFilesToDelete artifactoryLfsFiles gitLfsFiles = filter (\<lambda>resultItem. Name resultItem \<notin> set gitLfsFiles) (fst artifactoryLfsFiles)"

record GitLfsCleanParams =
  glp_Refs :: string
  glp_Repo :: string
  glp_GitPath :: string

definition searchLfsFilesInArtifactory :: "lfs_env \<Rightarrow> string \<Rightarrow> ResultItem source result option" where
  "searchLfsFilesInArtifactory env repo = fst (search_pattern (le_search env) (zero_params\<lparr>Pattern := repo, Recursive := True\<rparr>) NONE)"

definition GetUnreferencedGitLfsFiles :: "lfs_env \<Rightarrow> string \<Rightarrow> GitLfsCleanParams \<Rightarrow> ResultItem list result option" where
  "GetUnreferencedGitLfsFiles env rtUrl p =
     (case (if glp_GitPath p = [] then getwd env else Inr (glp_GitPath p)) of
        Inl e \<Rightarrow> Some (Inl e)
      | Inr gitPath \<Rightarrow>
          (case (if glp_Repo p = [] then detectRepo env gitPath rtUrl else Inr (glp_Repo p)) of
             Inl e \<Rightarrow> Some (Inl e)
           | Inr repo \<Rightarrow>
               map_option (\<lambda>found. and_then found (\<lambda>artifactoryLfsFiles.
                   and_then (getLfsFilesFromGit env gitPath (getRefsRegex (glp_Refs p))) (\<lambda>gitLfsFiles.
                     Inr (findFilesToDelete artifactoryLfsFiles gitLfsFiles))))
                 (searchLfsFilesInArtifactory env repo)))"

section \<open>No referenced file is deleted\<close>

text \<open>The object a pointer file stands for: its lines, in a file of at most a kilobyte, name it in the first line that
  starts with \<open>oid \<close>.\<close>

definition points_at :: "git_file \<Rightarrow> string \<Rightarrow> bool" where
  "points_at f oid \<longleftrightarrow> gf_Size f \<le> 1024 \<and> length oid = 64 \<and> list_all alnum oid \<and>
     (\<exists>before after. gf_Lines f = Inr (before @ (''oid sha256:'' @ oid) # after) \<and> (\<forall>l\<in>set before. \<not> has_prefix l ''oid ''))"

definition referenced :: "lfs_env \<Rightarrow> string \<Rightarrow> string \<Rightarrow> string \<Rightarrow> bool" where
  "referenced env path refMatch oid \<longleftrightarrow>
     (\<exists>refs ref files f. references env path = Inr refs \<and> ref \<in> set refs \<and> hash_reference ref \<and>
        match_string env refMatch (ref_name ref) = Inr True \<and> commit_files ref = Inr files \<and> f \<in> set files \<and> points_at f oid)"

lemma pointer_line_oid:
  assumes "pointer_line line"
  obtains oid where "line = ''oid sha256:'' @ oid" "length oid = 64" "list_all alnum oid" "drop (nat (str_index line '':'' + 1)) line = oid"
proof -
  obtain oid where line: "line = ''oid sha256:'' @ oid" using assms by (auto simp: pointer_line_def has_prefix_iff)
  have "str_index line '':'' = 10" unfolding line by (simp add: str_index_def)
  then show thesis using that line assms by (simp add: pointer_line_def)
qed

lemma points_at_find:
  assumes "gf_Lines f = Inr lines"
  shows "points_at f oid \<longleftrightarrow> gf_Size f \<le> 1024 \<and>
    (\<exists>line. List.find (\<lambda>l. has_prefix l ''oid '') lines = Some line \<and> pointer_line line \<and> drop (nat (str_index line '':'' + 1)) line = oid)"
proof
  assume "points_at f oid"
  then obtain before after where l: "lines = before @ (''oid sha256:'' @ oid) # after" "\<forall>l\<in>set before. \<not> has_prefix l ''oid ''"
    and o: "gf_Size f \<le> 1024" "length oid = 64" "list_all alnum oid"
    using assms by (auto simp: points_at_def)
  have p: "pointer_line (''oid sha256:'' @ oid)" using o by (simp add: pointer_line_def)
  have "find (\<lambda>l. has_prefix l ''oid '') lines = Some (''oid sha256:'' @ oid)"
    unfolding l(1) using l(2) by (induction before) auto
  moreover have "drop (nat (str_index (''oid sha256:'' @ oid) '':'' + 1)) (''oid sha256:'' @ oid) = oid" by (simp add: str_index_def)
  ultimately show "gf_Size f \<le> 1024 \<and> (\<exists>line. find (\<lambda>l. has_prefix l ''oid '') lines = Some line \<and> pointer_line line \<and>
      drop (nat (str_index line '':'' + 1)) line = oid)"
    using p o by blast
next
  assume r: "gf_Size f \<le> 1024 \<and> (\<exists>line. find (\<lambda>l. has_prefix l ''oid '') lines = Some line \<and> pointer_line line \<and>
      drop (nat (str_index line '':'' + 1)) line = oid)"
  then obtain line where line: "find (\<lambda>l. has_prefix l ''oid '') lines = Some line" "pointer_line line"
      "drop (nat (str_index line '':'' + 1)) line = oid" by blast
  obtain oid' where "line = ''oid sha256:'' @ oid'" "length oid' = 64" "list_all alnum oid'" "drop (nat (str_index line '':'' + 1)) line = oid'"
    using pointer_line_oid[OF line(2)] by blast
  moreover obtain i where "i < length lines" "lines ! i = line" "\<forall>j<i. \<not> has_prefix (lines ! j) ''oid ''"
    using line(1) by (auto simp: find_Some_iff)
  then have "lines = take i lines @ line # drop (Suc i) lines" "\<forall>l\<in>set (take i lines). \<not> has_prefix l ''oid ''"
    by (auto simp: id_take_nth_drop[symmetric] in_set_conv_nth)
  ultimately show "points_at f oid" using r line(3) assms unfolding points_at_def by metis
qed

lemma collect_file:
  assumes "collectLfsFileFromGit f results = Inr results'"
  shows "set results' = set results \<union> {oid. points_at f oid}"
proof (cases "gf_Size f > 1024")
  case True
  then show ?thesis using assms by (auto simp: collectLfsFileFromGit_def points_at_def)
next
  case False
  then obtain lines where lines: "gf_Lines f = Inr lines" using assms by (auto simp: collectLfsFileFromGit_def and_then_eq_Inr)
  show ?thesis
    using assms False unfolding points_at_find[OF lines]
    by (auto simp: collectLfsFileFromGit_def lines split: option.splits if_splits)
qed

lemma collect_files: "fold_result collectLfsFileFromGit files results = Inr results' \<Longrightarrow> set results' = set results \<union> {oid. \<exists>f\<in>set files. points_at f oid}"
proof (induction files arbitrary: results)
  case (Cons f files)
  then obtain r where "collectLfsFileFromGit f results = Inr r" "fold_result collectLfsFileFromGit files r = Inr results'"
    by (auto simp: and_then_eq_Inr)
  then show ?case using Cons.IH[of r] collect_file[of f results r] by auto
qed simp

definition ref_points :: "lfs_env \<Rightarrow> string \<Rightarrow> git_ref \<Rightarrow> string \<Rightarrow> bool" where
  "ref_points env refMatch ref oid \<longleftrightarrow> hash_reference ref \<and> match_string env refMatch (ref_name ref) = Inr True \<and>
     (\<exists>files. commit_files ref = Inr files \<and> (\<exists>f\<in>set files. points_at f oid))"

lemma collect_ref_set: "collect_ref env refMatch ref results = Inr results' \<Longrightarrow> set results' = set results \<union> {oid. ref_points env refMatch ref oid}"
  using collect_files by (fastforce simp: collect_ref_def ref_points_def and_then_eq_Inr split: if_splits)

lemma collect_refs: "fold_result (collect_ref env refMatch) refs results = Inr results' \<Longrightarrow>
    set results' = set results \<union> {oid. \<exists>ref\<in>set refs. ref_points env refMatch ref oid}"
proof (induction refs arbitrary: results)
  case (Cons ref refs)
  then obtain r where "collect_ref env refMatch ref results = Inr r" "fold_result (collect_ref env refMatch) refs r = Inr results'"
    by (auto simp: and_then_eq_Inr)
  then show ?case using Cons.IH[of r] collect_ref_set[of env refMatch ref results r] by auto
qed simp

lemma getLfsFilesFromGit_set: "getLfsFilesFromGit env path refMatch = Inr results \<Longrightarrow> set results = {oid. referenced env path refMatch oid}"
  using collect_refs by (fastforce simp: getLfsFilesFromGit_def referenced_def ref_points_def and_then_eq_Inr)

text \<open>C25: the files offered for deletion are exactly the search results whose name is no object that a pointer file in a
  commit of a matching reference stands for, in order: no object that is still referenced is deleted, and an error in reading the
  Git repository deletes nothing.\<close>

theorem GetUnreferencedGitLfsFiles_safe:
  assumes "GetUnreferencedGitLfsFiles env rtUrl p = Some (Inr items)"
  shows "\<exists>gitPath repo found errs. (glp_GitPath p = gitPath \<or> glp_GitPath p = [] \<and> getwd env = Inr gitPath) \<and>
    (glp_Repo p = repo \<or> glp_Repo p = [] \<and> detectRepo env gitPath rtUrl = Inr repo) \<and>
    searchLfsFilesInArtifactory env repo = Some (Inr (found, errs)) \<and>
    items = filter (\<lambda>item. \<not> referenced env gitPath (concat (map ref_regex_char (glp_Refs p))) (Name item)) found"
proof -
  obtain gitPath where git: "(if glp_GitPath p = [] then getwd env else Inr (glp_GitPath p)) = Inr gitPath"
    using assms by (auto simp: GetUnreferencedGitLfsFiles_def split: sum.splits)
  obtain repo where repo: "(if glp_Repo p = [] then detectRepo env gitPath rtUrl else Inr (glp_Repo p)) = Inr repo"
    using assms git by (auto simp: GetUnreferencedGitLfsFiles_def split: sum.splits)
  obtain found errs lfs where run: "searchLfsFilesInArtifactory env repo = Some (Inr (found, errs))"
      "getLfsFilesFromGit env gitPath (getRefsRegex (glp_Refs p)) = Inr lfs" "items = findFilesToDelete (found, errs) lfs"
    using assms git repo unfolding GetUnreferencedGitLfsFiles_def by (auto simp: and_then_eq_Inr)
  have "items = filter (\<lambda>item. \<not> referenced env gitPath (concat (map ref_regex_char (glp_Refs p))) (Name item)) found"
    using run(3) getLfsFilesFromGit_set[OF run(2)] by (simp add: findFilesToDelete_def getRefsRegex_chars)
  moreover have "glp_GitPath p = gitPath \<or> glp_GitPath p = [] \<and> getwd env = Inr gitPath" using git by (auto split: if_splits)
  moreover have "glp_Repo p = repo \<or> glp_Repo p = [] \<and> detectRepo env gitPath rtUrl = Inr repo" using repo by (auto split: if_splits)
  ultimately show ?thesis using run(1) by blast
qed

definition example_oid :: string where
  "example_oid = replicate 64 CHR ''a''"

definition lfs_item :: "string \<Rightarrow> ResultItem" where
  "lfs_item name = zero_item\<lparr>Repo := ''lfs'', Path := ''objects'', Name := name, Type := ''file''\<rparr>"

definition example_lfs :: lfs_env where
  "example_lfs = \<lparr>le_search = \<lparr>env_iteration = id, env_server = (\<lambda>_. Inr ([lfs_item example_oid, lfs_item ''b''], [])),
       env_fetch = (\<lambda>_ _ _. Inr None), env_bufferSize = 50000\<rparr>,
     match_string = (\<lambda>_ _. Inr True), parse_url = (\<lambda>u. Inl (Err u)), read_config = (\<lambda>p. Inl (Err p)),
     references = (\<lambda>_. Inr [\<lparr>ref_name = ''refs/heads/main'', hash_reference = True,
       commit_files = Inr [\<lparr>gf_Size = 130, gf_Lines = Inr [''version 1'', ''oid sha256:'' @ example_oid]\<rparr>]\<rparr>]),
     getwd = Inr ''w''\<rparr>"

definition example_clean :: GitLfsCleanParams where
  "example_clean = \<lparr>glp_Refs = ''refs/heads/*'', glp_Repo = ''lfs'', glp_GitPath = ''g''\<rparr>"

lemma Length_two: "fst (Length (NewMultiSourceContentReader [([x, y], [])])) = Inr 2"
  by (simp add: Length_def NewMultiSourceContentReader_def read_loop.simps NextRecord_def reader_start_def run_records_def
      run_errors_def Let_def Reset_def cr_GetError_def GetError_def NewErrorsQueue_def)

lemma example_clean_items: "GetUnreferencedGitLfsFiles example_lfs ''u'' example_clean = Some (Inr [lfs_item ''b''])"
proof -
  have "\<not> isl (CreateAqlBodyForSpecWithPattern id (zero_params\<lparr>Pattern := ''lfs'', Recursive := True\<rparr>))" by code_simp
  then obtain query where query: "CreateAqlBodyForSpecWithPattern id (zero_params\<lparr>Pattern := ''lfs'', Recursive := True\<rparr>) = Inr query"
    by (metis isl_def sum.exhaust)
  have search: "searchLfsFilesInArtifactory example_lfs ''lfs'' = Some (Inr ([lfs_item example_oid, lfs_item ''b''], []))"
    by (simp add: searchLfsFilesInArtifactory_def SearchBySpecWithPattern_def example_lfs_def query)
      (simp add: SearchBySpecWithAql_def aqlSearch_def FilterResultsByBuild_def Length_two fetchProps_def zero_params_def source_error_def)
  have oid: "length example_oid = 64" "list_all alnum example_oid" by (simp_all add: example_oid_def alnum_def list_all_iff)
  have "getLfsFilesFromGit example_lfs ''g'' r = Inr [example_oid]" for r
    using oid by (simp add: getLfsFilesFromGit_def example_lfs_def collect_ref_def collectLfsFileFromGit_def pointer_line_def str_index_def)
  moreover have "''b'' \<noteq> example_oid"
  proof
    assume b: "''b'' = example_oid"
    have "CHR ''b'' \<notin> set example_oid" by (simp add: example_oid_def)
    then show False unfolding b[symmetric] by simp
  qed
  ultimately show ?thesis
    by (simp add: GetUnreferencedGitLfsFiles_def example_clean_def search findFilesToDelete_def lfs_item_def)
qed

theorem GetUnreferencedGitLfsFiles_safe_witness:
  "\<not> referenced example_lfs ''g'' (concat (map ref_regex_char ''refs/heads/*'')) ''b''"
proof -
  have "''b'' = Name (lfs_item ''b'')" by (simp add: lfs_item_def)
  moreover have "lfs_item ''b'' \<in> set [lfs_item ''b'']" by simp
  ultimately show ?thesis
    using GetUnreferencedGitLfsFiles_safe[OF example_clean_items] unfolding example_clean_def by fastforce
qed

end
