(* ===== verification/Auth.thy ===== *)
theory Auth
  imports Client Json Encoding "HOL-Library.Word"
begin

text \<open>
  Authentication: reading access tokens, \<^verbatim>\<open>auth/authutils.go\<close>, authentication over SSH, \<^verbatim>\<open>auth/sshlogin.go\<close>, and
  the refresh of SSH tokens by concurrent requests, \<^verbatim>\<open>auth/servicedetails.go\<close>.

  The parser of JSON is a parameter, as are the SSH agent, the keys and the connections of package \<^verbatim>\<open>ssh\<close>; the clock is
  an argument.
\<close>

section \<open>Access tokens\<close>

text \<open>\<open>base64.RawStdEncoding.DecodeString\<close>: line breaks are skipped and padding is an error.\<close>

definition raw_std_decode :: "string \<Rightarrow> string option" where
  "raw_std_decode s =
     (let t = filter (\<lambda>c. c \<noteq> CHR 0x0D \<and> c \<noteq> CHR 0x0A) s
      in if CHR ''='' \<in> set t \<or> length t mod 4 = 1 then None
         else base64_decode (t @ replicate ((4 - length t mod 4) mod 4) CHR ''=''))"

record TokenPayload =
  tp_Subject :: string
  tp_Scope :: string
  tp_Issuer :: string
  tp_ExpirationTime :: int
  tp_IssuedAt :: int
  tp_JwtId :: string
  tp_Audience :: string
  tp_AudienceArray :: "string list"

fun conv_int :: "jvalue \<Rightarrow> int option" where
  "conv_int (NumV n) = atoi n"
| "conv_int _ = None"

fun conv_list :: "(jvalue \<Rightarrow> 'a option) \<Rightarrow> 'a \<Rightarrow> jvalue list \<Rightarrow> 'a list option" where
  "conv_list conv dflt [] = Some []"
| "conv_list conv dflt (v # vs) =
     (case (if v = Null then Some dflt else conv v, conv_list conv dflt vs) of (Some x, Some xs) \<Rightarrow> Some (x # xs) | _ \<Rightarrow> None)"

definition conv_array :: "(jvalue \<Rightarrow> 'a option) \<Rightarrow> 'a \<Rightarrow> jvalue \<Rightarrow> 'a list option" where
  "conv_array conv dflt v = (case v of ArrV vs \<Rightarrow> conv_list conv dflt vs | _ \<Rightarrow> None)"

definition read_payload :: "members \<Rightarrow> TokenPayload result" where
  "read_payload ms =
     and_then (read_string ''sub'' ms) (\<lambda>sub'. and_then (read_string ''scp'' ms) (\<lambda>scp. and_then (read_string ''iss'' ms) (\<lambda>iss.
     and_then (read_field conv_int 0 ''exp'' ms) (\<lambda>exp'. and_then (read_field conv_int 0 ''iat'' ms) (\<lambda>iat.
     and_then (read_string ''jti'' ms) (\<lambda>jti. and_then (read_string ''Audience'' ms) (\<lambda>audience.
     and_then (read_field (conv_array conv_string []) [] ''AudienceArray'' ms) (\<lambda>audiences.
       Inr \<lparr>tp_Subject = sub', tp_Scope = scp, tp_Issuer = iss, tp_ExpirationTime = exp', tp_IssuedAt = iat, tp_JwtId = jti,
            tp_Audience = audience, tp_AudienceArray = audiences\<rparr>))))))))"

text \<open>The audience is read again, from a map of all members: the last one with the name counts.\<close>

definition setAudienceManually :: "TokenPayload \<Rightarrow> members \<Rightarrow> TokenPayload result" where
  "setAudienceManually tokenPayload allValues =
     (case map_of (rev allValues) ''aud'' of
        None \<Rightarrow> Inr tokenPayload
      | Some (StrV s) \<Rightarrow> Inr (tokenPayload\<lparr>tp_Audience := s\<rparr>)
      | Some (ArrV vs) \<Rightarrow>
          Inr (tokenPayload\<lparr>tp_AudienceArray := tp_AudienceArray tokenPayload @ List.map_filter conv_string vs\<rparr>)
      | Some _ \<Rightarrow> Inl (Err ''failed extracting audience from payload. Audience is of unexpected type''))"

definition extractPayloadFromAccessToken :: "(string \<Rightarrow> jvalue result) \<Rightarrow> string \<Rightarrow> TokenPayload result" where
  "extractPayloadFromAccessToken parse token =
     (case split_char CHR ''.'' token of
        [header, part, signature] \<Rightarrow>
          (case raw_std_decode part of
             None \<Rightarrow> Inl (Err ''illegal base64 data'')
           | Some payload \<Rightarrow>
               (case and_then (parse payload) (\<lambda>v. and_then (read_struct v) (\<lambda>ms. map_sum id (\<lambda>p. (p, ms)) (read_payload ms))) of
                  Inl (Err e) \<Rightarrow> Inl (Err (''failed extracting payload from the provided access-token. '' @ e))
                | Inl e \<Rightarrow> Inl e
                | Inr (p, ms) \<Rightarrow> setAudienceManually p ms))
      | _ \<Rightarrow> Inl (Err ''couldn't extract payload from Access Token''))"

text \<open>An empty name when there is none; the warnings are not modelled.\<close>

definition ExtractUsernameFromAccessToken :: "(string \<Rightarrow> jvalue result) \<Rightarrow> string \<Rightarrow> string" where
  "ExtractUsernameFromAccessToken parse token =
     (if IsApiKey token then []
      else case extractPayloadFromAccessToken parse token of
             Inl e \<Rightarrow> []
           | Inr p \<Rightarrow>
               if tp_Subject p = [] \<or> last_index_char (tp_Subject p) CHR ''/'' < 0 then []
               else drop (nat (last_index_char (tp_Subject p) CHR ''/'' + 1)) (tp_Subject p))"

text \<open>Arithmetic on 64-bit integers wraps around.\<close>

definition int64 :: "int \<Rightarrow> int" where
  "int64 i = sint (word_of_int i :: 64 word)"

definition ExtractExpiryFromAccessToken :: "(string \<Rightarrow> jvalue result) \<Rightarrow> string \<Rightarrow> int result" where
  "ExtractExpiryFromAccessToken parse token =
     map_sum id (\<lambda>p. int64 (tp_ExpirationTime p - tp_IssuedAt p)) (extractPayloadFromAccessToken parse token)"

definition GetTokenMinutesLeft :: "(string \<Rightarrow> jvalue result) \<Rightarrow> int \<Rightarrow> string \<Rightarrow> int result" where
  "GetTokenMinutesLeft parse now token =
     map_sum id (\<lambda>p. let left = int64 (tp_ExpirationTime p - now) in if left < 0 then 0 else left div 60)
       (extractPayloadFromAccessToken parse token)"

definition ExtractSubjectFromAccessToken :: "(string \<Rightarrow> jvalue result) \<Rightarrow> string \<Rightarrow> string result" where
  "ExtractSubjectFromAccessToken parse token = map_sum id tp_Subject (extractPayloadFromAccessToken parse token)"

section \<open>Tokens as they are written\<close>

text \<open>The encoding that \<open>raw_std_decode\<close> reads.\<close>

definition raw_std_encode :: "string \<Rightarrow> string" where
  "raw_std_encode s = takeWhile (\<lambda>c. c \<noteq> CHR ''='') (base64_encode s)"

lemma base64_char_plain: "n < 64 \<Longrightarrow> base64_char n \<noteq> CHR ''='' \<and> base64_char n \<noteq> CHR ''.'' \<and> base64_char n \<noteq> CHR 0x0D \<and> base64_char n \<noteq> CHR 0x0A"
proof -
  have "\<forall>n\<in>set [0..<64]. base64_char n \<noteq> CHR ''='' \<and> base64_char n \<noteq> CHR ''.'' \<and> base64_char n \<noteq> CHR 0x0D \<and> base64_char n \<noteq> CHR 0x0A"
    by code_simp
  then show "n < 64 \<Longrightarrow> ?thesis" by simp
qed

definition plain64 :: "string \<Rightarrow> bool" where
  "plain64 t \<longleftrightarrow> (\<forall>c\<in>set t. c \<noteq> CHR ''='' \<and> c \<noteq> CHR ''.'' \<and> c \<noteq> CHR 0x0D \<and> c \<noteq> CHR 0x0A)"

lemma base64_padding:
  "list_all (\<lambda>a. a < 256) as \<Longrightarrow> \<exists>t k. base64_bytes as = t @ replicate k CHR ''='' \<and> plain64 t \<and> k \<le> 2 \<and> length t mod 4 = (4 - k) mod 4"
proof (induction as rule: base64_bytes.induct)
  case 1
  have "base64_bytes [] = [] @ replicate 0 CHR ''=''" by simp
  then show ?case by (intro exI[of _ "[]"] exI[of _ 0]) (simp add: plain64_def)
next
  case (2 a)
  then have "plain64 [base64_char (a div 4), base64_char (a mod 4 * 16)]"
    using base64_sum[of 0 0] by (simp add: plain64_def base64_char_plain)
  then show ?case
    by (intro exI[of _ "[base64_char (a div 4), base64_char (a mod 4 * 16)]"] exI[of _ 2]) (simp add: numeral_2_eq_2)
next
  case (3 a b)
  then have "plain64 [base64_char (a div 4), base64_char (a mod 4 * 16 + b div 16), base64_char (b mod 16 * 4)]"
    using base64_sum[of b 0] by (simp add: plain64_def base64_char_plain)
  then show ?case
    by (intro exI[of _ "[base64_char (a div 4), base64_char (a mod 4 * 16 + b div 16), base64_char (b mod 16 * 4)]"] exI[of _ 1]) simp
next
  case (4 a b c s)
  then obtain t k where t: "base64_bytes s = t @ replicate k CHR ''=''" "plain64 t" "k \<le> 2" "length t mod 4 = (4 - k) mod 4" by auto
  let ?q = "[base64_char (a div 4), base64_char (a mod 4 * 16 + b div 16), base64_char (b mod 16 * 4 + c div 64), base64_char (c mod 64)]"
  have "plain64 ?q" using 4 base64_sum[of b c] by (simp add: plain64_def base64_char_plain)
  then have "plain64 (?q @ t)" using t(2) by (auto simp: plain64_def)
  moreover have "length (?q @ t) mod 4 = (4 - k) mod 4" using t(4) by simp
  ultimately show ?case using t(1,3) by (intro exI[of _ "?q @ t"] exI[of _ k]) simp
qed

lemma raw_std_encode_plain: "plain64 (raw_std_encode s)" and raw_std_decode_encode [simp]: "raw_std_decode (raw_std_encode s) = Some s"
proof -
  have "list_all (\<lambda>a. a < 256) (map of_char s :: nat list)" by (simp add: list_all_iff of_char_256)
  then obtain t k where t: "base64_encode s = t @ replicate k CHR ''=''" "plain64 t" "k \<le> 2" "length t mod 4 = (4 - k) mod 4"
    using base64_padding unfolding base64_encode_def by blast
  have enc: "raw_std_encode s = t" using t(2) unfolding raw_std_encode_def t(1)
    by (cases k) (auto simp: takeWhile_append takeWhile_eq_all_conv plain64_def)
  show "plain64 (raw_std_encode s)" using t(2) enc by simp
  have "filter (\<lambda>c. c \<noteq> CHR 0x0D \<and> c \<noteq> CHR 0x0A) t = t" using t(2) by (auto simp: filter_id_conv plain64_def)
  moreover have "CHR ''='' \<notin> set t" using t(2) by (auto simp: plain64_def)
  moreover have "k = 0 \<or> k = 1 \<or> k = 2" using t(3) by auto
  then have "length t mod 4 \<noteq> 1" "(4 - length t mod 4) mod 4 = k" using t(4) by auto
  ultimately show "raw_std_decode (raw_std_encode s) = Some s"
    using base64_decode_encode[of s] t(1) unfolding enc raw_std_decode_def by (simp add: Let_def)
qed

lemma raw_std_encode_no_dot: "CHR ''.'' \<notin> set (raw_std_encode s)"
  using raw_std_encode_plain[of s] by (auto simp: plain64_def)

text \<open>The members of a token's payload. The audience is a text or a list of texts.\<close>

definition payload_members :: "TokenPayload \<Rightarrow> members" where
  "payload_members p =
     omit_string ''sub'' (tp_Subject p) @ omit_string ''scp'' (tp_Scope p) @ omit_string ''iss'' (tp_Issuer p) @
     omit_int ''exp'' (tp_ExpirationTime p) @ omit_int ''iat'' (tp_IssuedAt p) @ omit_string ''jti'' (tp_JwtId p) @
     (if tp_AudienceArray p \<noteq> [] then [(''aud'', ArrV (map StrV (tp_AudienceArray p)))] else omit_string ''aud'' (tp_Audience p))"

definition token_of :: "string \<Rightarrow> TokenPayload \<Rightarrow> string \<Rightarrow> string" where
  "token_of header p signature = header @ ''.'' @ raw_std_encode (Marshal (ObjV (payload_members p))) @ ''.'' @ signature"

definition issuable :: "TokenPayload \<Rightarrow> bool" where
  "issuable p \<longleftrightarrow> 0 \<le> tp_ExpirationTime p \<and> tp_ExpirationTime p < 2 ^ 63 \<and> 0 \<le> tp_IssuedAt p \<and> tp_IssuedAt p < 2 ^ 63 \<and>
     (tp_Audience p = [] \<or> tp_AudienceArray p = [])"

lemma field_values_omit_int [json_simps]:
  "field_values name (omit_int k i) = (if map fold_char k = map fold_char name \<and> i \<noteq> 0 then [NumV (itoa i)] else [])"
  by (simp add: omit_int_def json_simps)

lemma read_int_field:
  "field_values name ms = (if i = 0 then [] else [NumV (itoa i)]) \<Longrightarrow> 0 \<le> i \<Longrightarrow> i < 2 ^ 63 \<Longrightarrow> read_field conv_int 0 name ms = Inr i"
  using atoi_dec[of "nat i"] by (simp add: read_field_def itoa_def)

lemma read_payload_members:
  assumes "issuable p"
  shows "read_payload (payload_members p) = Inr (p\<lparr>tp_Audience := [], tp_AudienceArray := []\<rparr>)"
proof -
  have names: "map fold_char ''sub'' = ''sub''" "map fold_char ''scp'' = ''scp''" "map fold_char ''iss'' = ''iss''" "map fold_char ''exp'' = ''exp''"
    "map fold_char ''iat'' = ''iat''" "map fold_char ''jti'' = ''jti''" "map fold_char ''aud'' = ''aud''"
    "map fold_char ''Audience'' = ''audience''" "map fold_char ''AudienceArray'' = ''audiencearray''"
    by code_simp+
  have aud: "field_values n (if b then [(''aud'', v)] else omit_string ''aud'' s) = []" if "map fold_char n \<noteq> ''aud''" for n b v s
    using that names by (auto simp: json_simps)
  have "read_string ''sub'' (payload_members p) = Inr (tp_Subject p)" "read_string ''scp'' (payload_members p) = Inr (tp_Scope p)"
    "read_string ''iss'' (payload_members p) = Inr (tp_Issuer p)" "read_string ''jti'' (payload_members p) = Inr (tp_JwtId p)"
    by (rule read_string_field; simp add: payload_members_def json_simps names aud del: list.map)+
  moreover have "read_field conv_int 0 ''exp'' (payload_members p) = Inr (tp_ExpirationTime p)"
    "read_field conv_int 0 ''iat'' (payload_members p) = Inr (tp_IssuedAt p)"
    using assms by (intro read_int_field; simp add: payload_members_def json_simps names aud issuable_def del: list.map)+
  moreover have "field_values ''Audience'' (payload_members p) = []" "field_values ''AudienceArray'' (payload_members p) = []"
    by (simp_all add: payload_members_def json_simps names aud del: list.map)
  ultimately show ?thesis by (simp add: read_payload_def read_string_def read_field_def)
qed

lemma setAudienceManually_members:
  assumes "issuable p"
  shows "setAudienceManually (p\<lparr>tp_Audience := [], tp_AudienceArray := []\<rparr>) (payload_members p) = Inr p"
proof -
  have strings: "List.map_filter conv_string (map StrV ss) = ss" for ss by (induction ss) (simp_all add: List.map_filter_simps)
  have "map_of (rev (payload_members p)) ''aud'' =
      (if tp_AudienceArray p \<noteq> [] then Some (ArrV (map StrV (tp_AudienceArray p)))
       else if tp_Audience p \<noteq> [] then Some (StrV (tp_Audience p)) else None)"
    by (simp add: payload_members_def omit_string_def omit_int_def)
  then show ?thesis using assms by (auto simp: setAudienceManually_def strings issuable_def)
qed

lemma split_token:
  assumes "CHR ''.'' \<notin> set header" "CHR ''.'' \<notin> set part" "CHR ''.'' \<notin> set signature"
  shows "split_char CHR ''.'' (header @ ''.'' @ part @ ''.'' @ signature) = [header, part, signature]"
  using split_char_join[of "[header, part, signature]" "CHR ''.''"] assms by simp

lemma base64_unbytes_chars: "base64_unbytes s = Some bs \<Longrightarrow> c \<in> set s \<Longrightarrow> c = CHR ''='' \<or> base64_val c \<noteq> None"
  by (induction s arbitrary: bs rule: base64_unbytes.induct) (auto split: option.splits if_splits)

lemma raw_std_decode_url: "CHR ''-'' \<in> set part \<or> CHR ''_'' \<in> set part \<Longrightarrow> raw_std_decode part = None"
proof -
  assume "CHR ''-'' \<in> set part \<or> CHR ''_'' \<in> set part"
  moreover have "base64_val CHR ''-'' = None" "base64_val CHR ''_'' = None" by code_simp+
  ultimately obtain c where c: "c \<in> set part" "base64_val c = None" "c \<noteq> CHR ''=''" "c \<noteq> CHR 0x0D" "c \<noteq> CHR 0x0A" by fastforce
  have "base64_unbytes (filter (\<lambda>c. c \<noteq> CHR 0x0D \<and> c \<noteq> CHR 0x0A) part @ pad) = None" for pad
    using c base64_unbytes_chars[of "filter (\<lambda>c. c \<noteq> CHR 0x0D \<and> c \<noteq> CHR 0x0A) part @ pad" _ c] by fastforce
  then show ?thesis by (simp add: raw_std_decode_def Let_def base64_decode_def)
qed

lemma extractPayloadFromAccessToken_token:
  assumes "issuable p" "CHR ''.'' \<notin> set header" "CHR ''.'' \<notin> set signature"
    and "parse (Marshal (ObjV (payload_members p))) = Inr (ObjV (payload_members p))"
  shows "extractPayloadFromAccessToken parse (token_of header p signature) = Inr p"
  using assms read_payload_members[OF assms(1)] setAudienceManually_members[OF assms(1)]
  by (simp add: token_of_def extractPayloadFromAccessToken_def split_token[simplified] raw_std_encode_no_dot)

text \<open>C26: a token whose payload is written in the unpadded standard encoding is read back as it was issued, with both forms of
  audience, and the name of its user is the last part of the subject; but a payload in the URL-safe encoding that JSON web tokens
  use is refused as soon as a character needs it.\<close>

theorem extractPayloadFromAccessToken_roundtrip:
  assumes "issuable p" "CHR ''.'' \<notin> set header" "CHR ''.'' \<notin> set signature"
    and "parse (Marshal (ObjV (payload_members p))) = Inr (ObjV (payload_members p))"
  shows "extractPayloadFromAccessToken parse (token_of header p signature) = Inr p \<and>
    (tp_Subject p = scope @ ''/'' @ name \<and> CHR ''/'' \<notin> set name \<and> \<not> IsApiKey (token_of header p signature) \<longrightarrow>
      ExtractUsernameFromAccessToken parse (token_of header p signature) = name) \<and>
    (CHR ''-'' \<in> set part \<or> CHR ''_'' \<in> set part \<longrightarrow> CHR ''.'' \<notin> set part \<longrightarrow>
      extractPayloadFromAccessToken parse (header @ ''.'' @ part @ ''.'' @ signature) = Inl (Err ''illegal base64 data''))"
proof -
  note payload = extractPayloadFromAccessToken_token[of p header signature parse, OF assms]
  have "ExtractUsernameFromAccessToken parse (token_of header p signature) = name"
    if "tp_Subject p = scope @ ''/'' @ name" "CHR ''/'' \<notin> set name" "\<not> IsApiKey (token_of header p signature)"
    using payload that last_index_char_last[OF that(2), of scope]
    by (simp add: ExtractUsernameFromAccessToken_def nat_add_distrib)
  moreover have "extractPayloadFromAccessToken parse (header @ ''.'' @ part @ ''.'' @ signature) = Inl (Err ''illegal base64 data'')"
    if "CHR ''-'' \<in> set part \<or> CHR ''_'' \<in> set part" "CHR ''.'' \<notin> set part"
    using split_token[OF assms(2) that(2) assms(3)] raw_std_decode_url[OF that(1)]
    by (simp add: extractPayloadFromAccessToken_def)
  ultimately show ?thesis using payload by blast
qed

definition example_payload :: TokenPayload where
  "example_payload = \<lparr>tp_Subject = ''a/users/u'', tp_Scope = [], tp_Issuer = ''i'', tp_ExpirationTime = 3600, tp_IssuedAt = 0, tp_JwtId = [],
     tp_Audience = [], tp_AudienceArray = [''x'', ''y'']\<rparr>"

theorem extractPayloadFromAccessToken_roundtrip_witness:
  "extractPayloadFromAccessToken (\<lambda>_. Inr (ObjV (payload_members example_payload))) (token_of ''h'' example_payload ''s'') = Inr example_payload"
  by (rule conjunct1[OF extractPayloadFromAccessToken_roundtrip[of example_payload "''h''" "''s''"]])
    (simp_all add: issuable_def example_payload_def)

end
