(* ===== verification/Ssh.thy ===== *)
theory Ssh
  imports Auth
begin

text \<open>
  Authentication over SSH, \<^verbatim>\<open>auth/sshlogin.go\<close>, and its use by a service, \<^verbatim>\<open>auth/servicedetails.go\<close>: the details of the
  service are shared by all requests, each request has its own headers, and an interceptor of each request replaces a token
  that is about to expire, under one mutex.

  Parameters are the agent, the keys and the connections of package \<^verbatim>\<open>ssh\<close>, the file system, the scheme that
  \<open>url.Parse\<close> finds, the parser of JSON and the clock.
\<close>

section \<open>The URL\<close>

text \<open>The greedy groups of \<^verbatim>\<open>^(.+)://(.+):([0-9].+)/$\<close>: the last place where the rest still matches.\<close>

definition port_at :: "string \<Rightarrow> nat \<Rightarrow> bool" where
  "port_at s j \<longleftrightarrow> 0 < j \<and> j + 3 < length s \<and> s ! j = CHR '':'' \<and> is_digit (s ! (j + 1)) \<and> last s = CHR ''/''"

definition host_port :: "string \<Rightarrow> (string \<times> string) option" where
  "host_port s = map_option (\<lambda>j. (take j s, butlast (drop (j + 1) s))) (List.find (port_at s) (rev [0..<length s]))"

definition scheme_at :: "string \<Rightarrow> nat \<Rightarrow> bool" where
  "scheme_at s i \<longleftrightarrow> 0 < i \<and> has_prefix (drop i s) ''://''"

definition parseUrl :: "string \<Rightarrow> (string \<times> string \<times> int) result" where
  "parseUrl url =
     (let places = rev [0..<length url]
      in if CHR 0x0A \<in> set url then Inr ([], [], 0)
         else case List.find (\<lambda>i. scheme_at url i \<and> host_port (drop (i + 3) url) \<noteq> None) places of
           Some i \<Rightarrow>
             (let (host, port) = the (host_port (drop (i + 3) url))
              in case atoi port of
                   Some n \<Rightarrow> Inr (take i url, host, n)
                 | None \<Rightarrow> Inl (Err (''URL: '' @ url @ '' is invalid. Expecting ssh://<host>:<port> or http(s)://...'')))
         | None \<Rightarrow>
             (case List.find (\<lambda>i. scheme_at url i \<and> i + 3 < length url) places of
                Some i \<Rightarrow> Inr (take i url, drop (i + 3) url, 80)
              | None \<Rightarrow> Inr ([], [], 0)))"

section \<open>Authentication\<close>

datatype 'a key_result = Key 'a | PassphraseMissing string | BadKey string

record ('a, 'w) ssh_env =
  ssh_windows :: bool
  ssh_getenv :: "string \<Rightarrow> string"
  sshAuthAgent :: "'w \<Rightarrow> 'a result \<times> 'w"
  ssh_run :: "'a \<Rightarrow> string \<Rightarrow> string \<Rightarrow> 'w \<Rightarrow> string result \<times> 'w"
  ssh_ReadFile :: "string \<Rightarrow> string result"
  ParsePrivateKey :: "string \<Rightarrow> string option \<Rightarrow> 'a key_result"
  ssh_sleep :: "int \<Rightarrow> 'w \<Rightarrow> 'w"
  ssh_parse :: "string \<Rightarrow> jvalue result"
  url_scheme :: "string \<Rightarrow> string option"

type_synonym header_list = "(string \<times> string) list"

text \<open>Strings of a map; \<open>null\<close> is the empty string.\<close>

fun conv_headers :: "header_list \<Rightarrow> members \<Rightarrow> header_list option" where
  "conv_headers hs [] = Some hs"
| "conv_headers hs ((k, v) # ms) =
     (case (if v = Null then Some [] else conv_string v) of Some s \<Rightarrow> conv_headers (AList.update k s hs) ms | None \<Rightarrow> None)"

text \<open>Repeated members add to a map that is there; \<open>null\<close> sets it to nil.\<close>

definition read_headers :: "members \<Rightarrow> header_list option result" where
  "read_headers ms =
     fold_result (\<lambda>v hs. case v of
         Null \<Rightarrow> Inr None
       | ObjV m \<Rightarrow> (case conv_headers (case hs of None \<Rightarrow> [] | Some h \<Rightarrow> h) m of
                      Some h \<Rightarrow> Inr (Some h) | None \<Rightarrow> Inl (Err ''json: cannot unmarshal''))
       | _ \<Rightarrow> Inl (Err ''json: cannot unmarshal'')) (field_values ''Headers'' ms) None"

text \<open>The user is \<open>admin\<close>, the command \<open>jfrog-authenticate\<close>; its output holds the headers and the URL.\<close>

definition getSshHeaders :: "('a, 'w) ssh_env \<Rightarrow> 'a \<Rightarrow> string \<Rightarrow> int \<Rightarrow> 'w \<Rightarrow> (header_list option \<times> string) result \<times> 'w" where
  "getSshHeaders env sshAuth host port w =
     (let (out, w) = ssh_run env sshAuth (host @ '':'' @ itoa port) ''jfrog-authenticate'' w
      in (and_then out (\<lambda>buf. and_then (ssh_parse env buf) (\<lambda>v. and_then (read_struct v) (\<lambda>ms.
          and_then (read_string ''Href'' ms) (\<lambda>href. and_then (read_headers ms) (\<lambda>headers.
            Inr (headers, AddTrailingSlashIfNeeded href)))))), w))"

definition IsEncrypted :: "('a, 'w) ssh_env \<Rightarrow> string \<Rightarrow> bool result" where
  "IsEncrypted env buffer =
     (case ParsePrivateKey env buffer None of Key k \<Rightarrow> Inr False | PassphraseMissing e \<Rightarrow> Inr True | BadKey e \<Rightarrow> Inl (Err e))"

definition readSshKeyAndPassphrase :: "('a, 'w) ssh_env \<Rightarrow> string \<Rightarrow> string \<Rightarrow> (string \<times> string) result" where
  "readSshKeyAndPassphrase env sshKeyPath sshPassphrase =
     and_then (ssh_ReadFile env (ReplaceTildeWithUserHome (ssh_windows env) (ssh_getenv env) sshKeyPath)) (\<lambda>sshKey.
       if sshPassphrase = []
       then and_then (IsEncrypted env sshKey) (\<lambda>encryptedKey.
              if encryptedKey then Inl (Err ''SSH Key is encrypted but no passphrase was specified.'') else Inr (sshKey, sshPassphrase))
       else Inr (sshKey, sshPassphrase))"

definition sshAuthPublicKey :: "('a, 'w) ssh_env \<Rightarrow> string \<Rightarrow> string \<Rightarrow> 'a result" where
  "sshAuthPublicKey env sshKey sshPassphrase =
     (case ParsePrivateKey env sshKey (if sshPassphrase = [] then None else Some sshPassphrase) of
        Key k \<Rightarrow> Inr k | PassphraseMissing e \<Rightarrow> Inl (Err e) | BadKey e \<Rightarrow> Inl (Err e))"

text \<open>The agent first; when it or the connection with it fails, the key.\<close>

definition auth_agent :: "('a, 'w) ssh_env \<Rightarrow> string \<Rightarrow> int \<Rightarrow> 'w \<Rightarrow> (header_list option \<times> string) result \<times> 'w" where
  "auth_agent env host port w =
     (case sshAuthAgent env w of (Inl e, w) \<Rightarrow> (Inl e, w) | (Inr sshAuth, w) \<Rightarrow> getSshHeaders env sshAuth host port w)"

definition auth_key :: "('a, 'w) ssh_env \<Rightarrow> string \<Rightarrow> string \<Rightarrow> string \<Rightarrow> int \<Rightarrow> 'w \<Rightarrow> (header_list option \<times> string) result \<times> 'w" where
  "auth_key env sshKeyPath sshPassphrase host port w =
     (if sshKeyPath = [] then (Inl (Err ''SSH key not specified.''), w)
      else case and_then (readSshKeyAndPassphrase env sshKeyPath sshPassphrase) (\<lambda>(sshKey, passphrase). sshAuthPublicKey env sshKey passphrase) of
             Inl e \<Rightarrow> (Inl e, w)
           | Inr sshAuth \<Rightarrow> getSshHeaders env sshAuth host port w)"

definition SshAuthentication :: "('a, 'w) ssh_env \<Rightarrow> string \<Rightarrow> string \<Rightarrow> string \<Rightarrow> 'w \<Rightarrow> (header_list option \<times> string) result \<times> 'w" where
  "SshAuthentication env url sshKeyPath sshPassphrase w =
     (case parseUrl url of
        Inl e \<Rightarrow> (Inl e, w)
      | Inr (_, host, port) \<Rightarrow>
          (case auth_agent env host port w of
             (Inr r, w) \<Rightarrow> (Inr r, w)
           | (Inl (Panic m), w) \<Rightarrow> (Inl (Panic m), w)
           | (Inl (Err e), w) \<Rightarrow> auth_key env sshKeyPath sshPassphrase host port w))"

section \<open>The details of a service\<close>

text \<open>The interceptors of a service: the refresh of the token, and others.\<close>

datatype pre_request = SshTokenRefresh | OtherInterceptor nat

record ServiceFields = CommonConfigFields +
  ccf_PreRequestInterceptors :: "pre_request list"

definition IsSshUrl :: "('a, 'w) ssh_env \<Rightarrow> string \<Rightarrow> bool" where
  "IsSshUrl env urlPath = (case url_scheme env urlPath of None \<Rightarrow> False | Some s \<Rightarrow> map fold_char s = ''ssh'')"

definition IsSshAuthHeaderSet :: "'b CommonConfigFields_scheme \<Rightarrow> bool" where
  "IsSshAuthHeaderSet ccf \<longleftrightarrow> (case ccf_SshAuthHeaders ccf of None \<Rightarrow> False | Some h \<Rightarrow> h \<noteq> [])"

definition IsSshAuthentication :: "('a, 'w) ssh_env \<Rightarrow> 'b CommonConfigFields_scheme \<Rightarrow> bool" where
  "IsSshAuthentication env ccf \<longleftrightarrow> IsSshUrl env (ccf_Url ccf) \<or> ccf_SshUrl ccf \<noteq> []"

definition AuthenticateSsh :: "('a, 'w) ssh_env \<Rightarrow> 'b CommonConfigFields_scheme \<Rightarrow> string \<Rightarrow> string \<Rightarrow> 'w \<Rightarrow>
    go_error option \<times> 'b CommonConfigFields_scheme \<times> 'w" where
  "AuthenticateSsh env ccf sshKeyPath sshPassphrase w =
     (let ccf = (if ccf_SshUrl ccf = [] then ccf\<lparr>ccf_SshUrl := ccf_Url ccf\<rparr> else ccf)
      in case SshAuthentication env (ccf_SshUrl ccf) sshKeyPath sshPassphrase w of
           (Inl e, w) \<Rightarrow> (Some e, ccf, w)
         | (Inr (sshHeaders, baseUrl), w) \<Rightarrow> (None, ccf\<lparr>ccf_Url := baseUrl, ccf_SshAuthHeaders := sshHeaders\<rparr>, w))"

definition InitSsh :: "('a, 'w) ssh_env \<Rightarrow> ServiceFields \<Rightarrow> 'w \<Rightarrow> go_error option \<times> ServiceFields \<times> 'w" where
  "InitSsh env ccf w =
     (if \<not> IsSshAuthentication env ccf then (None, ccf, w)
      else case (if IsSshAuthHeaderSet ccf then (None, ccf, w)
                 else AuthenticateSsh env ccf (ccf_SshKeyPath ccf) (ccf_SshPassphrase ccf) w) of
             (Some e, ccf, w) \<Rightarrow> (Some e, ccf, w)
           | (None, ccf, w) \<Rightarrow>
               (None, ccf\<lparr>ccf_PreRequestInterceptors := ccf_PreRequestInterceptors ccf @ [SshTokenRefresh]\<rparr>, w))"

section \<open>The refresh of a token\<close>

text \<open>A value of a map of headers, empty when it is not there.\<close>

definition authorization :: "header_list option \<Rightarrow> string" where
  "authorization headers =
     (case headers of None \<Rightarrow> [] | Some h \<Rightarrow> (case map_of h ''Authorization'' of None \<Rightarrow> [] | Some v \<Rightarrow> v))"

text \<open>What a request decides with its own token: it is done, with or without an error, or the token is to be replaced.\<close>

definition check_token :: "('a, 'w) ssh_env \<Rightarrow> int \<Rightarrow> 'b CommonConfigFields_scheme \<Rightarrow> HttpClientDetails \<Rightarrow> go_error option + int" where
  "check_token env now ccf details =
     (if \<not> IsSshAuthentication env ccf then Inl None
      else case GetTokenMinutesLeft (ssh_parse env) now (authorization (Headers details)) of
             Inl e \<Rightarrow> Inl (Some e)
           | Inr timeLeft \<Rightarrow> if timeLeft > 10 then Inl None else Inr timeLeft)"

text \<open>\<open>utils.MergeMaps\<close>: writing to a nil map panics.\<close>

definition merge_headers :: "header_list option \<Rightarrow> header_list option \<Rightarrow> header_list option result" where
  "merge_headers src dst =
     (case (src, dst) of
        (None, _) \<Rightarrow> Inr dst
      | (Some [], _) \<Rightarrow> Inr dst
      | (Some h, None) \<Rightarrow> Inl (Panic ''assignment to entry in nil map'')
      | (Some h, Some d) \<Rightarrow> Inr (Some (AList.merge d h)))"

text \<open>The part under the mutex.\<close>

definition refresh_locked :: "('a, 'w) ssh_env \<Rightarrow> 'b CommonConfigFields_scheme \<Rightarrow> HttpClientDetails \<Rightarrow> int \<Rightarrow> 'w \<Rightarrow>
    go_error option \<times> 'b CommonConfigFields_scheme \<times> HttpClientDetails \<times> 'w" where
  "refresh_locked env ccf details timeLeft w =
     (case (if authorization (ccf_SshAuthHeaders ccf) = authorization (Headers details)
            then AuthenticateSsh env ccf (ccf_SshKeyPath ccf) (ccf_SshPassphrase ccf)
                   (if timeLeft \<noteq> 0 then ssh_sleep env 15 w else w)
            else (None, ccf, w)) of
        (Some e, ccf, w) \<Rightarrow> (Some e, ccf, details, w)
      | (None, ccf, w) \<Rightarrow>
          (case merge_headers (ccf_SshAuthHeaders ccf) (Headers details) of
             Inl e \<Rightarrow> (Some e, ccf, details, w)
           | Inr h \<Rightarrow> (None, ccf, details\<lparr>Headers := h\<rparr>, w)))"

definition SshTokenRefreshPreRequestInterceptor :: "('a, 'w) ssh_env \<Rightarrow> int \<Rightarrow> 'b CommonConfigFields_scheme \<Rightarrow> HttpClientDetails \<Rightarrow> 'w \<Rightarrow>
    go_error option \<times> 'b CommonConfigFields_scheme \<times> HttpClientDetails \<times> 'w" where
  "SshTokenRefreshPreRequestInterceptor env now ccf details w =
     (case check_token env now ccf details of
        Inl err \<Rightarrow> (err, ccf, details, w)
      | Inr timeLeft \<Rightarrow> refresh_locked env ccf details timeLeft w)"

text \<open>\<open>RunPreRequestFunctions\<close>; the other interceptors are given by their number.\<close>

fun RunPreRequestFunctions :: "('a, 'w) ssh_env \<Rightarrow> (nat \<Rightarrow> ServiceFields \<Rightarrow> HttpClientDetails \<Rightarrow> 'w \<Rightarrow> go_error option \<times> ServiceFields \<times> HttpClientDetails \<times> 'w) \<Rightarrow>
    int \<Rightarrow> pre_request list \<Rightarrow> ServiceFields \<Rightarrow> HttpClientDetails \<Rightarrow> 'w \<Rightarrow> go_error option \<times> ServiceFields \<times> HttpClientDetails \<times> 'w" where
  "RunPreRequestFunctions env others now [] ccf details w = (None, ccf, details, w)"
| "RunPreRequestFunctions env others now (i # is) ccf details w =
     (case (case i of SshTokenRefresh \<Rightarrow> SshTokenRefreshPreRequestInterceptor env now ccf details w
                    | OtherInterceptor k \<Rightarrow> others k ccf details w) of
        (Some e, ccf, details, w) \<Rightarrow> (Some e, ccf, details, w)
      | (None, ccf, details, w) \<Rightarrow> RunPreRequestFunctions env others now is ccf details w)"

section \<open>Requests that run at the same time\<close>

text \<open>
  A request is about to check its token, waits for the mutex with the minutes that were left, or has been sent. The steps
  under the mutex are one step of the system: only they write the details of the service. A request may be sent again, and
  the world may go on between the steps.
\<close>

datatype phase = Checking | WaitingFor int | Sent "go_error option"

record 'w ssh_system =
  sys_details :: ServiceFields
  sys_world :: 'w
  sys_requests :: "nat \<rightharpoonup> HttpClientDetails \<times> phase"
  sys_replaced :: "string list"

text \<open>The call of \<open>refresh_locked\<close> authenticates, successfully.\<close>

definition renews :: "('a, 'w) ssh_env \<Rightarrow> ServiceFields \<Rightarrow> HttpClientDetails \<Rightarrow> int \<Rightarrow> 'w \<Rightarrow> bool" where
  "renews env ccf details timeLeft w \<longleftrightarrow>
     authorization (ccf_SshAuthHeaders ccf) = authorization (Headers details) \<and>
     fst (AuthenticateSsh env ccf (ccf_SshKeyPath ccf) (ccf_SshPassphrase ccf) (if timeLeft \<noteq> 0 then ssh_sleep env 15 w else w)) = None"

inductive ssh_step :: "('a, 'w) ssh_env \<Rightarrow> ('w \<Rightarrow> 'w \<Rightarrow> bool) \<Rightarrow> 'w ssh_system \<Rightarrow> 'w ssh_system \<Rightarrow> bool" for env goes_on where
  create: "sys_requests s t = None \<Longrightarrow>
    ssh_step env goes_on s (s\<lparr>sys_requests := (sys_requests s)(t \<mapsto> (CreateHttpClientDetails (sys_details s), Checking))\<rparr>)"
| checked: "sys_requests s t = Some (d, Checking) \<Longrightarrow> check_token env now (sys_details s) d = Inl err \<Longrightarrow>
    ssh_step env goes_on s (s\<lparr>sys_requests := (sys_requests s)(t \<mapsto> (d, Sent err))\<rparr>)"
| expires: "sys_requests s t = Some (d, Checking) \<Longrightarrow> check_token env now (sys_details s) d = Inr timeLeft \<Longrightarrow>
    ssh_step env goes_on s (s\<lparr>sys_requests := (sys_requests s)(t \<mapsto> (d, WaitingFor timeLeft))\<rparr>)"
| refresh: "sys_requests s t = Some (d, WaitingFor timeLeft) \<Longrightarrow>
    refresh_locked env (sys_details s) d timeLeft (sys_world s) = (err, ccf, d', w) \<Longrightarrow>
    ssh_step env goes_on s (s\<lparr>sys_details := ccf, sys_world := w, sys_requests := (sys_requests s)(t \<mapsto> (d', Sent err)),
      sys_replaced := (if renews env (sys_details s) d timeLeft (sys_world s) then [authorization (Headers d)] else []) @ sys_replaced s\<rparr>)"
| again: "sys_requests s t = Some (d, Sent err) \<Longrightarrow>
    ssh_step env goes_on s (s\<lparr>sys_requests := (sys_requests s)(t \<mapsto> (d, Checking))\<rparr>)"
| other: "goes_on (sys_world s) w \<Longrightarrow> ssh_step env goes_on s (s\<lparr>sys_world := w\<rparr>)"

inductive ssh_reachable :: "('a, 'w) ssh_env \<Rightarrow> ('w \<Rightarrow> 'w \<Rightarrow> bool) \<Rightarrow> 'w ssh_system \<Rightarrow> 'w ssh_system \<Rightarrow> bool" for env goes_on s0 where
  start: "ssh_reachable env goes_on s0 s0"
| step: "ssh_reachable env goes_on s0 s \<Longrightarrow> ssh_step env goes_on s s' \<Longrightarrow> ssh_reachable env goes_on s0 s'"

text \<open>The server never issues a token twice.\<close>

definition fresh_tokens :: "('a, 'w) ssh_env \<Rightarrow> ('w \<Rightarrow> 'w \<Rightarrow> bool) \<Rightarrow> ('w \<Rightarrow> string set) \<Rightarrow> bool" where
  "fresh_tokens env goes_on issued \<longleftrightarrow>
     (\<forall>url k p w r w'. SshAuthentication env url k p w = (r, w') \<longrightarrow> issued w \<subseteq> issued w' \<and>
       (\<forall>h u. r = Inr (h, u) \<longrightarrow> authorization h \<in> issued w' - issued w)) \<and>
     (\<forall>n w. issued w \<subseteq> issued (ssh_sleep env n w)) \<and> (\<forall>w w'. goes_on w w' \<longrightarrow> issued w \<subseteq> issued w')"

abbreviation current_token :: "'w ssh_system \<Rightarrow> string" where
  "current_token s \<equiv> authorization (ccf_SshAuthHeaders (sys_details s))"

definition tokens_once :: "('w \<Rightarrow> string set) \<Rightarrow> 'w ssh_system \<Rightarrow> bool" where
  "tokens_once issued s \<longleftrightarrow>
     distinct (sys_replaced s) \<and> current_token s \<notin> set (sys_replaced s) \<and> insert (current_token s) (set (sys_replaced s)) \<subseteq> issued (sys_world s) \<and>
     (\<forall>t d ph. sys_requests s t = Some (d, ph) \<longrightarrow> authorization (Headers d) \<in> insert (current_token s) (set (sys_replaced s)))"

lemma authorization_merge:
  assumes "merge_headers src dst = Inr h"
  shows "authorization h = authorization src \<or> authorization h = authorization dst"
proof -
  consider "h = dst" | hs d where "src = Some hs" "dst = Some d" "h = Some (AList.merge d hs)"
    using assms by (auto simp: merge_headers_def simp del: merge_simps split: option.splits list.splits)
  then show ?thesis
  proof cases
    case 2
    then show ?thesis by (auto simp: authorization_def merge_conv' map_add_def split: option.splits)
  qed simp
qed

lemma AuthenticateSsh_cases:
  assumes "fresh_tokens env goes_on issued" "AuthenticateSsh env ccf k p w = (err, ccf', w')"
  shows "issued w \<subseteq> issued w'"
    "err = None \<Longrightarrow> authorization (ccf_SshAuthHeaders ccf') \<in> issued w' - issued w"
    "err \<noteq> None \<Longrightarrow> ccf_SshAuthHeaders ccf' = ccf_SshAuthHeaders ccf"
  using assms unfolding fresh_tokens_def AuthenticateSsh_def by (auto simp: Let_def split: prod.splits sum.splits if_splits; blast)+

text \<open>What happens under the mutex.\<close>

lemma refresh_locked_cases:
  assumes "fresh_tokens env goes_on issued" "refresh_locked env ccf d n w = (err, ccf', d', w')"
  shows "issued w \<subseteq> issued w'"
    "renews env ccf d n w \<Longrightarrow> authorization (ccf_SshAuthHeaders ccf') \<in> issued w' - issued w"
    "\<not> renews env ccf d n w \<Longrightarrow> ccf_SshAuthHeaders ccf' = ccf_SshAuthHeaders ccf"
    "authorization (Headers d') \<in> {authorization (Headers d), authorization (ccf_SshAuthHeaders ccf')}"
proof -
  let ?w = "if n \<noteq> 0 then ssh_sleep env 15 w else w"
  obtain err1 ccf1 w1 where auth: "AuthenticateSsh env ccf (ccf_SshKeyPath ccf) (ccf_SshPassphrase ccf) ?w = (err1, ccf1, w1)" by (metis prod_cases3)
  note auth' = AuthenticateSsh_cases[OF assms(1) auth]
  have sleep: "issued w \<subseteq> issued ?w" using assms(1) by (simp add: fresh_tokens_def)
  have end': "ccf' = (if c then ccf1 else ccf) \<and> w' = (if c then w1 else w) \<and>
      (Headers d' = Headers d \<or> merge_headers (ccf_SshAuthHeaders ccf') (Headers d) = Inr (Headers d'))"
    if "c = (authorization (ccf_SshAuthHeaders ccf) = authorization (Headers d))" for c
    using assms(2) auth that unfolding refresh_locked_def by (auto split: option.splits sum.splits if_splits)
  show "issued w \<subseteq> issued w'" using end' auth'(1) sleep by auto
  show "renews env ccf d n w \<Longrightarrow> authorization (ccf_SshAuthHeaders ccf') \<in> issued w' - issued w"
    using end' auth auth'(2) sleep by (auto simp: renews_def)
  show "\<not> renews env ccf d n w \<Longrightarrow> ccf_SshAuthHeaders ccf' = ccf_SshAuthHeaders ccf"
    using end' auth auth'(3) by (auto simp: renews_def)
  show "authorization (Headers d') \<in> {authorization (Headers d), authorization (ccf_SshAuthHeaders ccf')}"
    using end' authorization_merge[of "ccf_SshAuthHeaders ccf'" "Headers d" "Headers d'"] by auto
qed

lemma tokens_once_step:
  assumes "fresh_tokens env goes_on issued" "ssh_step env goes_on s s'" "tokens_once issued s"
  shows "tokens_once issued s'"
  using assms(2)
proof cases
  case (create t)
  moreover have "authorization (Headers (CreateHttpClientDetails (sys_details s))) = current_token s"
    by (simp add: CreateHttpClientDetails_def authorization_def split: option.split)
  ultimately show ?thesis using assms(3) by (auto simp: tokens_once_def)
next
  case (refresh t d n err ccf d' w)
  note cases = refresh_locked_cases[OF assms(1) refresh(3)]
  let ?new = "authorization (ccf_SshAuthHeaders ccf)"
  have own: "authorization (Headers d) \<in> insert (current_token s) (set (sys_replaced s))"
    using assms(3) refresh(2) by (auto simp: tokens_once_def)
  show ?thesis
  proof (cases "renews env (sys_details s) d n (sys_world s)")
    case True
    then have "authorization (Headers d) = current_token s" by (simp add: renews_def)
    moreover have "?new \<in> issued w - issued (sys_world s)" using cases(2) True by simp
    ultimately show ?thesis using assms(3) refresh cases(1,4) True by (auto simp: tokens_once_def split: if_splits)
  next
    case False
    then have "?new = current_token s" using cases(3) by simp
    then show ?thesis using assms(3) refresh cases(1,4) False own by (auto simp: tokens_once_def split: if_splits)
  qed
next
  case (other w)
  then have "issued (sys_world s) \<subseteq> issued w" using assms(1) by (auto simp: fresh_tokens_def)
  then show ?thesis using other assms(3) by (auto simp: tokens_once_def)
qed (use assms(3) in \<open>auto simp: tokens_once_def split: if_splits\<close>)

text \<open>C16: however requests with an expiring SSH token interleave, each token is replaced at most once - by the first request
  that gets the mutex, the others take over the new token - and every request holds the current token or one that was
  replaced, provided the server issues no token twice.\<close>

theorem SshTokenRefresh_once:
  assumes "fresh_tokens env goes_on issued" "ssh_reachable env goes_on s0 s"
    and "sys_requests s0 = Map.empty" "sys_replaced s0 = []" "current_token s0 \<in> issued (sys_world s0)"
  shows "distinct (sys_replaced s) \<and> current_token s \<notin> set (sys_replaced s) \<and>
    (\<forall>t d ph. sys_requests s t = Some (d, ph) \<longrightarrow> authorization (Headers d) = current_token s \<or> authorization (Headers d) \<in> set (sys_replaced s))"
proof -
  from assms(2) have "tokens_once issued s"
  proof induction
    case start
    then show ?case using assms(3-5) by (simp add: tokens_once_def)
  next
    case (step s s')
    then show ?case using tokens_once_step[OF assms(1)] by blast
  qed
  then show ?thesis by (auto simp: tokens_once_def)
qed

text \<open>A server whose tokens are numbered and expire after 100 seconds.\<close>

definition example_token :: "nat \<Rightarrow> string" where
  "example_token n = token_of ''h'' example_payload (dec n)"

definition example_ssh :: "(unit, nat) ssh_env" where
  "example_ssh = \<lparr>ssh_windows = False, ssh_getenv = (\<lambda>_. []), sshAuthAgent = (\<lambda>w. (Inr (), w)),
     ssh_run = (\<lambda>_ _ _ w. (Inr (example_token w), Suc w)), ssh_ReadFile = Inr, ParsePrivateKey = (\<lambda>k p. Key ()), ssh_sleep = (\<lambda>_ w. w),
     ssh_parse = (\<lambda>s. if CHR ''.'' \<in> set s then Inr (ObjV [(''Href'', StrV ''u''), (''Headers'', ObjV [(''Authorization'', StrV s)])])
                     else Inr (ObjV (payload_members example_payload))),
     url_scheme = (\<lambda>_. Some ''ssh'')\<rparr>"

lemma example_ssh_simps [simp]:
  "sshAuthAgent example_ssh w = (Inr (), w)" "ssh_run example_ssh a h c w = (Inr (example_token w), Suc w)" "ssh_sleep example_ssh n w = w"
  "url_scheme example_ssh u = Some ''ssh''"
  by (simp_all add: example_ssh_def)

definition example_details :: "nat \<Rightarrow> ServiceFields" where
  "example_details n = \<lparr>ccf_Url = ''ssh://h'', ccf_User = [], ccf_Password = [], ccf_ApiKey = [], ccf_AccessToken = [],
     ccf_ClientCertPath = [], ccf_ClientCertKeyPath = [], ccf_Version = [], ccf_SshUrl = ''ssh://h'', ccf_SshKeyPath = [], ccf_SshPassphrase = [],
     ccf_SshAuthHeaders = Some [(''Authorization'', example_token n)], ccf_PreRequestInterceptors = [SshTokenRefresh]\<rparr>"

lemma example_token_dot: "CHR ''.'' \<in> set (example_token n)"
  by (simp add: example_token_def token_of_def)

lemma example_token_inject: "example_token m = example_token n \<longleftrightarrow> m = n"
  by (simp add: example_token_def token_of_def)

lemma example_headers:
  "getSshHeaders example_ssh a host port w = (Inr (Some [(''Authorization'', example_token w)], ''u/''), Suc w)"
proof -
  have names: "map fold_char ''Href'' = ''href''" "map fold_char ''Headers'' = ''headers''" by code_simp+
  have "read_string ''Href'' [(''Href'', StrV ''u''), (''Headers'', v)] = Inr ''u''" for v
    by (rule read_string_once) (simp add: json_simps names del: list.map)
  then show ?thesis
    using example_token_dot[of w]
    by (simp add: getSshHeaders_def example_ssh_def read_headers_def json_simps names AddTrailingSlashIfNeeded_def has_suffix_single del: list.map)
qed

lemma example_authentication:
  "SshAuthentication example_ssh url k p w =
    (case parseUrl url of Inl e \<Rightarrow> (Inl e, w) | Inr _ \<Rightarrow> (Inr (Some [(''Authorization'', example_token w)], ''u/''), Suc w))"
  by (simp add: SshAuthentication_def auth_agent_def example_headers split: sum.split)

lemma example_fresh: "fresh_tokens example_ssh (\<lambda>_ _. False) (\<lambda>w. example_token ` {..<w})"
  by (auto simp: fresh_tokens_def example_authentication authorization_def example_token_inject split: sum.splits)

lemma example_expires: "check_token example_ssh 3540 (example_details n) (CreateHttpClientDetails (example_details n)) = Inr 1"
proof -
  have dots: "CHR ''.'' \<notin> set ''h''" "CHR ''.'' \<notin> set (dec n)" for n using set_dec[of n] by auto
  have "CHR ''.'' \<notin> set (Marshal (ObjV (payload_members example_payload)))"
    by (simp add: payload_members_def example_payload_def omit_string_def omit_int_def json_string_def escape_char_def itoa_def
        dec.simps digit_char_def)
  then have "extractPayloadFromAccessToken (ssh_parse example_ssh) (example_token n) = Inr example_payload"
    unfolding example_token_def
    by (intro extractPayloadFromAccessToken_token dots) (simp_all add: issuable_def example_payload_def example_ssh_def)
  then show ?thesis
    by (simp add: check_token_def IsSshAuthentication_def example_details_def CreateHttpClientDetails_def authorization_def
        GetTokenMinutesLeft_def) (simp add: example_payload_def int64_def)
qed

text \<open>Two requests find the token expiring; the first to get the mutex replaces it, the second takes over the new one.\<close>

definition example_system :: "nat ssh_system" where
  "example_system = \<lparr>sys_details = example_details 0, sys_world = 1, sys_requests = Map.empty, sys_replaced = []\<rparr>"

abbreviation request_with :: "nat \<Rightarrow> HttpClientDetails" where
  "request_with n \<equiv> CreateHttpClientDetails (example_details n)"

lemma example_refreshes:
  "refresh_locked example_ssh (example_details 0) (request_with 0) 1 1 = (None, (example_details 1)\<lparr>ccf_Url := ''u/''\<rparr>, request_with 1, 2)"
  "renews example_ssh (example_details 0) (request_with 0) 1 1"
  "refresh_locked example_ssh ((example_details 1)\<lparr>ccf_Url := ''u/''\<rparr>) (request_with 0) 1 2 =
    (None, (example_details 1)\<lparr>ccf_Url := ''u/''\<rparr>, request_with 1, 2)"
  "\<not> renews example_ssh ((example_details 1)\<lparr>ccf_Url := ''u/''\<rparr>) (request_with 0) 1 2"
proof -
  have url: "parseUrl ''ssh://h'' = Inr (''ssh'', ''h'', 80)" by code_simp
  note defs = refresh_locked_def renews_def AuthenticateSsh_def example_authentication authorization_def merge_headers_def
    CreateHttpClientDetails_def example_details_def url example_token_inject
  show "refresh_locked example_ssh (example_details 0) (request_with 0) 1 1 = (None, (example_details 1)\<lparr>ccf_Url := ''u/''\<rparr>, request_with 1, 2)"
    "renews example_ssh (example_details 0) (request_with 0) 1 1"
    "refresh_locked example_ssh ((example_details 1)\<lparr>ccf_Url := ''u/''\<rparr>) (request_with 0) 1 2 =
      (None, (example_details 1)\<lparr>ccf_Url := ''u/''\<rparr>, request_with 1, 2)"
    "\<not> renews example_ssh ((example_details 1)\<lparr>ccf_Url := ''u/''\<rparr>) (request_with 0) 1 2"
    by (simp_all add: defs)
qed

theorem SshTokenRefresh_once_witness:
  "\<exists>s. ssh_reachable example_ssh (\<lambda>_ _. False) example_system s \<and> sys_replaced s = [example_token 0] \<and> current_token s = example_token 1 \<and>
    sys_requests s = [0 \<mapsto> (request_with 1, Sent None), 1 \<mapsto> (request_with 1, Sent None)] \<and> distinct (sys_replaced s)"
proof -
  let ?step = "ssh_step example_ssh (\<lambda>_ _. False)"
  let ?reach = "ssh_reachable example_ssh (\<lambda>_ _. False) example_system"
  let ?s = "\<lambda>d w r l. \<lparr>sys_details = d, sys_world = w, sys_requests = r, sys_replaced = l\<rparr> :: nat ssh_system"
  let ?d0 = "example_details 0" and ?d1 = "(example_details 1)\<lparr>ccf_Url := ''u/''\<rparr>"
  let ?wait = "(request_with 0, WaitingFor 1)" and ?sent = "(request_with 1, Sent None)"
  have own: "authorization (Headers (request_with 0)) = example_token 0"
    by (simp add: CreateHttpClientDetails_def authorization_def example_details_def)
  have "?reach (?s ?d0 1 Map.empty [])" using ssh_reachable.start[of example_ssh _ example_system] by (simp add: example_system_def)
  moreover have "?step (?s ?d0 1 Map.empty []) (?s ?d0 1 [0 \<mapsto> (request_with 0, Checking)] [])"
    using ssh_step.create[of "?s ?d0 1 Map.empty []" 0 example_ssh] by simp
  moreover have "?step (?s ?d0 1 [0 \<mapsto> (request_with 0, Checking)] []) (?s ?d0 1 [0 \<mapsto> ?wait] [])"
    using ssh_step.expires[of "?s ?d0 1 [0 \<mapsto> (request_with 0, Checking)] []" 0 _ example_ssh 3540 1] example_expires by simp
  moreover have "?step (?s ?d0 1 [0 \<mapsto> ?wait] []) (?s ?d0 1 [0 \<mapsto> ?wait, 1 \<mapsto> (request_with 0, Checking)] [])"
    using ssh_step.create[of "?s ?d0 1 [0 \<mapsto> ?wait] []" 1 example_ssh] by simp
  moreover have "?step (?s ?d0 1 [0 \<mapsto> ?wait, 1 \<mapsto> (request_with 0, Checking)] []) (?s ?d0 1 [0 \<mapsto> ?wait, 1 \<mapsto> ?wait] [])"
    using ssh_step.expires[of "?s ?d0 1 [0 \<mapsto> ?wait, 1 \<mapsto> (request_with 0, Checking)] []" 1 _ example_ssh 3540 1] example_expires by simp
  moreover have "?step (?s ?d0 1 [0 \<mapsto> ?wait, 1 \<mapsto> ?wait] []) (?s ?d1 2 [0 \<mapsto> ?wait, 1 \<mapsto> ?sent] [example_token 0])"
    using ssh_step.refresh[of "?s ?d0 1 [0 \<mapsto> ?wait, 1 \<mapsto> ?wait] []" 1 "request_with 0" 1 example_ssh None ?d1 "request_with 1" 2]
      example_refreshes(1,2) own
    by (simp del: One_nat_def)
  moreover have "?step (?s ?d1 2 [0 \<mapsto> ?wait, 1 \<mapsto> ?sent] [example_token 0]) (?s ?d1 2 [0 \<mapsto> ?sent, 1 \<mapsto> ?sent] [example_token 0])"
    using ssh_step.refresh[of "?s ?d1 2 [0 \<mapsto> ?wait, 1 \<mapsto> ?sent] [example_token 0]" 0 "request_with 0" 1 example_ssh None ?d1 "request_with 1" 2]
      example_refreshes(3,4) by (simp add: fun_upd_twist del: One_nat_def)
  ultimately have reach: "?reach (?s ?d1 2 [0 \<mapsto> ?sent, 1 \<mapsto> ?sent] [example_token 0])"
    by (meson ssh_reachable.step)
  have "current_token example_system \<in> example_token ` {..<sys_world example_system}"
    by (simp add: example_system_def example_details_def authorization_def)
  then have "distinct [example_token 0]"
    using SshTokenRefresh_once[OF example_fresh reach] by (simp add: example_system_def)
  then show ?thesis using reach by (intro exI[of _ "?s ?d1 2 [0 \<mapsto> ?sent, 1 \<mapsto> ?sent] [example_token 0]"])
    (simp add: example_details_def authorization_def)
qed

end
