(* ===== verification/Url.thy ===== *)
theory Url
  imports Encoding "HOL-Library.AList"
begin

text \<open>
  The URLs of requests: \<open>BuildArtifactoryUrl\<close> of \<^verbatim>\<open>artifactory/services/utils/artifactoryutils.go\<close> with what it uses of
  package \<^verbatim>\<open>net/url\<close>. Reading and printing an authority (host, port and user) and a fragment are parameters.

  The services take the URL of a path as a parameter \<open>build_url\<close>; it is \<open>BuildArtifactoryUrl\<close> of the server's URL.
\<close>

section \<open>Escapes\<close>

definition unhex :: "char \<Rightarrow> nat option" where
  "unhex c = List.find (\<lambda>n. ''0123456789abcdef'' ! n = c \<or> ''0123456789ABCDEF'' ! n = c) [0..<16]"

text \<open>\<open>url.PathUnescape\<close>, and for a query \<open>url.QueryUnescape\<close>.\<close>

fun unescape :: "bool \<Rightarrow> string \<Rightarrow> string option" where
  "unescape isQuery [] = Some []"
| "unescape isQuery (c # s) =
     (if c = CHR ''%''
      then (case s of
              a # b # r \<Rightarrow> (case (unhex a, unhex b) of
                              (Some x, Some y) \<Rightarrow> map_option (Cons (char_of (16 * x + y))) (unescape isQuery r)
                            | _ \<Rightarrow> None)
            | _ \<Rightarrow> None)
      else map_option (Cons (if isQuery \<and> c = CHR ''+'' then CHR '' '' else c)) (unescape isQuery s))"

definition path_char :: "char \<Rightarrow> bool" where
  "path_char c \<longleftrightarrow> unreserved c \<or> c \<in> set ''$&+,/:;=@''"

definition path_escape :: "string \<Rightarrow> string" where
  "path_escape s = concat (map (\<lambda>c. if path_char c then [c] else [CHR ''%'', hex_char (of_char c div 16), hex_char (of_char c mod 16)]) s)"

text \<open>A path that is written with these characters is printed as it was read.\<close>

definition valid_encoded :: "string \<Rightarrow> bool" where
  "valid_encoded s \<longleftrightarrow> list_all (\<lambda>c. path_char c \<or> c \<in> set ''!()*[]%'' \<or> c = CHR 0x27) s"

section \<open>Reading and printing\<close>

record url_env =
  url_authority :: "string \<Rightarrow> string result"
  url_fragment :: "string \<Rightarrow> string result"

record URL =
  url_Scheme :: string
  url_Opaque :: string
  url_Host :: "string option"
  url_Path :: string
  url_ForceQuery :: bool
  url_RawQuery :: string
  url_Fragment :: string

definition letter :: "char \<Rightarrow> bool" where
  "letter c \<longleftrightarrow> (CHR ''A'' \<le> c \<and> c \<le> CHR ''Z'') \<or> (CHR ''a'' \<le> c \<and> c \<le> CHR ''z'')"

fun scheme_loop :: "string \<Rightarrow> string \<Rightarrow> string \<Rightarrow> (string \<times> string) result" where
  "scheme_loop rawURL seen [] = Inr ([], rawURL)"
| "scheme_loop rawURL seen (c # s) =
     (if letter c then scheme_loop rawURL (seen @ [c]) s
      else if (CHR ''0'' \<le> c \<and> c \<le> CHR ''9'') \<or> c \<in> set ''+-.'' then (if seen = [] then Inr ([], rawURL) else scheme_loop rawURL (seen @ [c]) s)
      else if c = CHR '':'' then (if seen = [] then Inl (Err ''missing protocol scheme'') else Inr (seen, s))
      else Inr ([], rawURL))"

definition to_lower :: "string \<Rightarrow> string" where
  "to_lower s = map (\<lambda>c. if CHR ''A'' \<le> c \<and> c \<le> CHR ''Z'' then char_of (of_char c + 32 :: nat) else c) s"

text \<open>\<open>strings.Cut\<close>: what follows the separator is empty when there is none.\<close>

definition cut :: "char \<Rightarrow> string \<Rightarrow> string \<times> string" where
  "cut c s = (takeWhile (\<lambda>x. x \<noteq> c) s, drop 1 (dropWhile (\<lambda>x. x \<noteq> c) s))"

text \<open>The path as \<open>EscapedPath\<close> prints it.\<close>

definition set_path :: "string \<Rightarrow> string result" where
  "set_path p =
     (case unescape False p of
        None \<Rightarrow> Inl (Err ''invalid URL escape'')
      | Some s \<Rightarrow> Inr (if s = ''*'' then s else if valid_encoded p then p else path_escape s))"

definition parse_hier :: "url_env \<Rightarrow> string \<Rightarrow> string \<Rightarrow> (string option \<times> string) result" where
  "parse_hier env scheme rest =
     (if has_prefix rest ''//'' \<and> (scheme \<noteq> [] \<or> \<not> has_prefix rest ''///'')
      then let (authority, path) = (takeWhile (\<lambda>c. c \<noteq> CHR ''/'') (drop 2 rest), dropWhile (\<lambda>c. c \<noteq> CHR ''/'') (drop 2 rest))
           in and_then (url_authority env authority) (\<lambda>host. and_then (set_path path) (\<lambda>path. Inr (Some host, path)))
      else map_sum id (Pair None) (set_path rest))"

definition url_Parse :: "url_env \<Rightarrow> string \<Rightarrow> URL result" where
  "url_Parse env rawURL =
     (let (u, frag) = cut CHR ''#'' rawURL
      in if list_ex (\<lambda>c. (of_char c :: nat) < 32 \<or> (of_char c :: nat) = 127) u then Inl (Err ''invalid control character in URL'')
         else and_then (if u = ''*'' then Inr \<lparr>url_Scheme = [], url_Opaque = [], url_Host = None, url_Path = ''*'', url_ForceQuery = False,
                                           url_RawQuery = [], url_Fragment = []\<rparr>
                        else and_then (scheme_loop u [] u) (\<lambda>(scheme, rest).
                          let scheme = to_lower scheme;
                              force = (has_suffix rest ''?'' \<and> length (filter (\<lambda>c. c = CHR ''?'') rest) = 1);
                              (rest, query) = (if force then (butlast rest, []) else cut CHR ''?'' rest);
                              url = (\<lambda>opaque host path. \<lparr>url_Scheme = scheme, url_Opaque = opaque, url_Host = host, url_Path = path,
                                      url_ForceQuery = force, url_RawQuery = query, url_Fragment = []\<rparr>)
                          in if \<not> has_prefix rest ''/'' \<and> scheme \<noteq> [] then Inr (url rest None [])
                             else if \<not> has_prefix rest ''/'' \<and> CHR '':'' \<in> set (takeWhile (\<lambda>c. c \<noteq> CHR ''/'') rest)
                             then Inl (Err ''first path segment in URL cannot contain colon'')
                             else map_sum id (\<lambda>(host, path). url [] host path) (parse_hier env scheme rest))) (\<lambda>url.
                if frag = [] then Inr url else map_sum id (\<lambda>f. url\<lparr>url_Fragment := f\<rparr>) (url_fragment env frag)))"

text \<open>A colon in the first segment of a path that stands alone is kept from looking like the end of a scheme.\<close>

definition dot_segment :: "string \<Rightarrow> string" where
  "dot_segment p = (if CHR '':'' \<in> set (takeWhile (\<lambda>c. c \<noteq> CHR ''/'') p) then ''./'' @ p else p)"

definition path_string :: "string \<Rightarrow> string" where
  "path_string path = dot_segment (if path = ''*'' then path else path_escape path)"

definition url_String :: "URL \<Rightarrow> string" where
  "url_String u =
     (let start = (if url_Scheme u = [] then [] else url_Scheme u @ '':'') @
                  (if url_Opaque u \<noteq> [] then []
                   else case url_Host u of
                          None \<Rightarrow> []
                        | Some h \<Rightarrow> if h = [] \<and> (url_Scheme u = [] \<or> url_Path u = []) then [] else ''//'' @ h)
      in start @ (if url_Opaque u \<noteq> [] then url_Opaque u else if start = [] then dot_segment (url_Path u) else url_Path u) @
         (if url_ForceQuery u \<or> url_RawQuery u \<noteq> [] then ''?'' @ url_RawQuery u else []) @
         (if url_Fragment u = [] then [] else ''#'' @ url_Fragment u))"

section \<open>Queries\<close>

type_synonym query_values = "(string \<times> string list) list"

text \<open>\<open>Query\<close> drops what it cannot read.\<close>

definition add_value :: "string \<Rightarrow> string \<Rightarrow> query_values \<Rightarrow> query_values" where
  "add_value k v vs = AList.update k ((case map_of vs k of None \<Rightarrow> [] | Some ws \<Rightarrow> ws) @ [v]) vs"

definition query_step :: "string \<Rightarrow> query_values \<Rightarrow> query_values" where
  "query_step part vs =
     (if part = [] \<or> CHR '';'' \<in> set part then vs
      else case (unescape True (fst (cut CHR ''='' part)), unescape True (snd (cut CHR ''='' part))) of
             (Some k, Some v) \<Rightarrow> add_value k v vs | _ \<Rightarrow> vs)"

definition Query :: "string \<Rightarrow> query_values" where
  "Query q = fold query_step (split_char CHR ''&'' q) []"

definition Encode :: "query_values \<Rightarrow> string" where
  "Encode vs =
     str_join ''&'' (concat (map (\<lambda>k. map (\<lambda>v. query_escape k @ ''='' @ query_escape v) (the (map_of vs k))) (sort (map fst vs))))"

definition BuildArtifactoryUrl :: "url_env \<Rightarrow> string \<Rightarrow> string \<Rightarrow> (string \<times> string) list \<Rightarrow> string result" where
  "BuildArtifactoryUrl env baseUrl path params =
     and_then (url_Parse env (baseUrl @ path_string path)) (\<lambda>parsedUrl.
       let q = fold (\<lambda>(k, v). AList.update k [v]) params (Query (url_RawQuery parsedUrl))
       in Inr (replace_all '';'' (query_escape '';'') (url_String (parsedUrl\<lparr>url_RawQuery := Encode q\<rparr>))))"

section \<open>What a server reads\<close>

lemma unhex_hex: "n < 16 \<Longrightarrow> unhex (hex_char n) = Some n"
proof -
  have "\<forall>n\<in>set [0..<16]. unhex (hex_char n) = Some n" by code_simp
  then show "n < 16 \<Longrightarrow> unhex (hex_char n) = Some n" by simp
qed

lemma unescape_hex: "unescape b (CHR ''%'' # hex_char (of_char c div 16) # hex_char (of_char c mod 16) # t) = map_option (Cons c) (unescape b t)"
  by (simp add: unhex_hex of_char_div_16 of_char_div_mod)

lemma path_char_special:
  "\<not> path_char CHR ''%''" "\<not> path_char CHR ''?''" "\<not> path_char CHR ''#''" "path_char CHR '';''" "path_char CHR '':''" "path_char CHR ''/''" "path_char CHR ''.''"
  by (simp_all add: path_char_def unreserved_def)

lemma path_char_printable: "path_char c \<Longrightarrow> 32 \<le> (of_char c :: nat) \<and> (of_char c :: nat) \<noteq> 127"
  by (auto simp: path_char_def unreserved_def less_eq_char_def)

lemma unescape_char: "path_char c \<Longrightarrow> unescape False (c # s) = map_option (Cons c) (unescape False s)"
  using path_char_special(1) by auto

lemma unescape_plain: "list_all path_char p \<Longrightarrow> unescape False (p @ t) = map_option ((@) p) (unescape False t)"
  by (cases "unescape False t"; induction p) (simp_all add: unescape_char del: unescape.simps(2))

text \<open>The path with all semicolons escaped, as it is sent.\<close>

definition sent_path :: "string \<Rightarrow> string" where
  "sent_path s = replace_char CHR '';'' ''%3B'' (path_escape s)"

lemma path_escape_simps: "path_escape [] = []"
  "path_escape (c # s) = (if path_char c then [c] else [CHR ''%'', hex_char (of_char c div 16), hex_char (of_char c mod 16)]) @ path_escape s"
  by (simp_all add: path_escape_def)

lemma hex_char_path: "n < 16 \<Longrightarrow> path_char (hex_char n)"
  by (simp add: path_char_def hex_char_unreserved)

lemma hex_char_plain: "n < 16 \<Longrightarrow> hex_char n \<noteq> CHR '';'' \<and> hex_char n \<noteq> CHR '':'' \<and> hex_char n \<noteq> CHR ''/''"
proof -
  have "\<forall>n\<in>set [0..<16]. hex_char n \<noteq> CHR '';'' \<and> hex_char n \<noteq> CHR '':'' \<and> hex_char n \<noteq> CHR ''/''" by code_simp
  then show "n < 16 \<Longrightarrow> ?thesis" by simp
qed

lemma char_hex: "path_char (hex_char (of_char c div 16))" "path_char (hex_char (of_char c mod 16))"
    "hex_char (of_char c div 16) \<noteq> CHR '';''" "hex_char (of_char c mod 16) \<noteq> CHR '';''"
    "hex_char (of_char c div 16) \<noteq> CHR '':''" "hex_char (of_char c mod 16) \<noteq> CHR '':''"
    "hex_char (of_char c div 16) \<noteq> CHR ''/''" "hex_char (of_char c mod 16) \<noteq> CHR ''/''"
  using hex_char_path[OF of_char_div_16] hex_char_path[of "of_char c mod 16"] hex_char_plain[OF of_char_div_16[of c]]
    hex_char_plain[of "of_char c mod 16"] by simp_all

lemma path_escape_chars: "c \<in> set (path_escape s) \<Longrightarrow> path_char c \<or> c = CHR ''%''"
  by (induction s) (auto simp: path_escape_simps char_hex split: if_splits)

lemma path_escape_segment:
  "takeWhile (\<lambda>c. c \<noteq> CHR ''/'') (path_escape s) = path_escape (takeWhile (\<lambda>c. c \<noteq> CHR ''/'') s)"
  "CHR '':'' \<in> set (path_escape s) \<longleftrightarrow> CHR '':'' \<in> set s"
  using path_char_special by (induction s) (auto simp: path_escape_simps char_hex dest!: sym[of "CHR '':''"])

lemma unescape_sent_path: "unescape False (sent_path s) = Some s"
proof (induction s)
  case (Cons c s)
  have "unescape False (''%3B'' @ t) = map_option (Cons CHR '';'') (unescape False t)" for t
    using unescape_hex[of False "CHR '';''" t] by (simp add: hex_char_def)
  then show ?case
    using Cons path_char_special by (auto simp: sent_path_def path_escape_simps char_hex unescape_hex unescape_char simp del: unescape.simps(2))
qed (simp add: sent_path_def path_escape_simps)

text \<open>A base URL as a server is configured: a scheme in lower case, an authority, and a path without escapes.\<close>

definition base_url :: "url_env \<Rightarrow> string \<Rightarrow> string \<Rightarrow> string \<Rightarrow> bool" where
  "base_url env scheme authority p \<longleftrightarrow>
     scheme \<noteq> [] \<and> list_all (\<lambda>c. CHR ''a'' \<le> c \<and> c \<le> CHR ''z'') scheme \<and>
     authority \<noteq> [] \<and> list_all (\<lambda>c. 32 \<le> (of_char c :: nat) \<and> (of_char c :: nat) \<noteq> 127 \<and> c \<notin> set ''/?#;'') authority \<and>
     url_authority env authority = Inr authority \<and>
     has_prefix p ''/'' \<and> list_all (\<lambda>c. path_char c \<and> c \<noteq> CHR '';'') p"

lemma scheme_loop_letters:
  "list_all (\<lambda>c. CHR ''a'' \<le> c \<and> c \<le> CHR ''z'') s \<Longrightarrow> seen @ s \<noteq> [] \<Longrightarrow> scheme_loop raw seen (s @ CHR '':'' # r) = Inr (seen @ s, r)"
  by (induction s arbitrary: seen) (auto simp: letter_def)

lemma lower_letter: "CHR ''a'' \<le> c \<Longrightarrow> \<not> (CHR ''A'' \<le> c \<and> c \<le> CHR ''Z'')" for c :: char
  by (auto simp: less_eq_char_def)

lemma cut_absent: "c \<notin> set s \<Longrightarrow> cut c s = (s, [])"
proof -
  assume "c \<notin> set s"
  then have "\<forall>x\<in>set s. x \<noteq> c" by auto
  then have "dropWhile (\<lambda>x. x \<noteq> c) s = []" "takeWhile (\<lambda>x. x \<noteq> c) s = s" by simp_all
  then show ?thesis unfolding cut_def by (simp only: drop_Nil)
qed

lemma lower_letter_plain: "CHR ''a'' \<le> c \<Longrightarrow> c \<le> CHR ''z'' \<Longrightarrow> path_char c \<and> c \<noteq> CHR '';''" for c :: char
  by (auto simp: path_char_def unreserved_def less_eq_char_def)

lemma base_chars:
  assumes "base_url env scheme authority p" "c \<in> set (scheme @ ''://'' @ authority @ p)"
  shows "c \<noteq> CHR ''?''" "c \<noteq> CHR ''#''" "c \<noteq> CHR '';''" "32 \<le> (of_char c :: nat)" "(of_char c :: nat) \<noteq> 127"
proof -
  let ?ok = "c \<noteq> CHR ''?'' \<and> c \<noteq> CHR ''#'' \<and> c \<noteq> CHR '';'' \<and> 32 \<le> (of_char c :: nat) \<and> (of_char c :: nat) \<noteq> 127"
  have scheme: "\<forall>c\<in>set scheme. CHR ''a'' \<le> c \<and> c \<le> CHR ''z''"
    and authority: "\<forall>c\<in>set authority. 32 \<le> (of_char c :: nat) \<and> (of_char c :: nat) \<noteq> 127 \<and> c \<notin> set ''/?#;''"
    and path: "\<forall>c\<in>set p. path_char c \<and> c \<noteq> CHR '';''"
    using assms(1) unfolding base_url_def list_all_iff by blast+
  have plain: ?ok if "path_char c" "c \<noteq> CHR '';''"
    using that path_char_special(2,3) path_char_printable[of c] by metis
  consider "c \<in> set scheme" | "c = CHR '':''" | "c = CHR ''/''" | "c \<in> set authority" | "c \<in> set p" using assms(2) by auto
  then have ?ok
  proof cases
    case 1
    then show ?thesis using plain lower_letter_plain scheme by blast
  next
    case 5
    then show ?thesis using plain path by blast
  next
    case 4
    then have "32 \<le> (of_char c :: nat) \<and> (of_char c :: nat) \<noteq> 127 \<and> c \<notin> set ''/?#;''" using authority by blast
    then show ?thesis by simp
  qed simp_all
  then show "c \<noteq> CHR ''?''" "c \<noteq> CHR ''#''" "c \<noteq> CHR '';''" "32 \<le> (of_char c :: nat)" "(of_char c :: nat) \<noteq> 127" by blast+
qed

text \<open>A path after the base is read as it is written when it has no character that ends it.\<close>

lemma url_Parse_base:
  assumes "base_url env scheme authority p" "valid_encoded e" "unescape False e \<noteq> None"
    and "\<And>c. c \<in> set e \<Longrightarrow> c \<noteq> CHR ''?'' \<and> c \<noteq> CHR ''#'' \<and> 32 \<le> (of_char c :: nat) \<and> (of_char c :: nat) \<noteq> 127"
  shows "url_Parse env (scheme @ ''://'' @ authority @ p @ e) =
    Inr \<lparr>url_Scheme = scheme, url_Opaque = [], url_Host = Some authority, url_Path = p @ e, url_ForceQuery = False, url_RawQuery = [],
         url_Fragment = []\<rparr>"
proof -
  note b = assms(1)[unfolded base_url_def]
  let ?raw = "scheme @ ''://'' @ authority @ p @ e"
  have chars: "c \<noteq> CHR ''?''" "c \<noteq> CHR ''#''" "32 \<le> (of_char c :: nat)" "(of_char c :: nat) \<noteq> 127" if "c \<in> set ?raw" for c
    using base_chars[OF assms(1), of c] assms(4)[of c] that unfolding set_append by blast+
  have "cut CHR ''#'' ?raw = (?raw, [])" using chars(2) by (intro cut_absent) blast
  moreover have "\<not> list_ex (\<lambda>c. (of_char c :: nat) < 32 \<or> (of_char c :: nat) = 127) ?raw"
    using chars(3,4) unfolding list_ex_iff by (metis not_less)
  moreover have "?raw \<noteq> ''*''" using b by (cases scheme) auto
  moreover have "scheme_loop ?raw [] ?raw = Inr (scheme, ''//'' @ authority @ p @ e)"
    using b scheme_loop_letters[of scheme "[]"] by simp
  moreover have "(if CHR ''A'' \<le> c \<and> c \<le> CHR ''Z'' then char_of (of_char c + 32 :: nat) else c) = c" if "c \<in> set scheme" for c
  proof -
    have "CHR ''a'' \<le> c" using that b unfolding list_all_iff by blast
    then show ?thesis using lower_letter[of c] by (simp only: if_False)
  qed
  then have "to_lower scheme = scheme" unfolding to_lower_def by (rule map_idI)
  moreover have rest: "CHR ''?'' \<notin> set (''//'' @ authority @ p @ e)" using chars(1) by auto
  then have "\<not> has_suffix (''//'' @ authority @ p @ e) ''?''" unfolding has_suffix_iff by (metis in_set_conv_decomp)
  moreover have "cut CHR ''?'' (''//'' @ authority @ p @ e) = (''//'' @ authority @ p @ e, [])" using rest by (intro cut_absent)
  moreover have "parse_hier env scheme (''//'' @ authority @ p @ e) = Inr (Some authority, p @ e)"
  proof -
    obtain q where q: "p = CHR ''/'' # q" using b by (auto simp: str_simps)
    have "CHR ''/'' \<notin> set authority" using b by (auto simp: list_all_iff)
    then have split: "takeWhile (\<lambda>c. c \<noteq> CHR ''/'') (authority @ p @ e) = authority" "dropWhile (\<lambda>c. c \<noteq> CHR ''/'') (authority @ p @ e) = p @ e"
      by (auto simp: q takeWhile_append dropWhile_append takeWhile_eq_all_conv dropWhile_eq_Nil_conv)
    obtain t where "unescape False e = Some t" using assms(3) by blast
    moreover have path: "list_all path_char p" using b unfolding list_all_iff by blast
    ultimately have "unescape False (p @ e) = Some (p @ t)" using unescape_plain[of p e] by simp
    moreover have "p @ t \<noteq> ''*''" by (simp add: q)
    moreover have "valid_encoded (p @ e)"
      using assms(2) path unfolding valid_encoded_def list_all_iff by auto
    ultimately show ?thesis using b split by (simp add: parse_hier_def set_path_def)
  qed
  ultimately show ?thesis using b by (simp add: url_Parse_def)
qed

section \<open>The query of the parameters\<close>

lemma unescape_query: "unescape True (query_escape s) = Some s"
proof -
  have step: "unescape True (query_escape_char c @ t) = map_option (Cons c) (unescape True t)" for c t
  proof -
    consider "unreserved c" | "\<not> unreserved c" "c = CHR '' ''" | "\<not> unreserved c" "c \<noteq> CHR '' ''" by blast
    then show ?thesis
    proof cases
      case 1
      then have "c \<noteq> CHR ''%''" "c \<noteq> CHR ''+''" using not_unreserved by metis+
      then show ?thesis using 1 by (simp add: query_escape_char_def)
    next
      case 3
      then show ?thesis using unescape_hex[of True c t] by (simp add: query_escape_char_def del: unescape.simps(2))
    qed (simp add: query_escape_char_def)
  qed
  show ?thesis by (induction s) (simp_all add: query_escape_def step)
qed

lemma query_step_param:
  "k \<notin> fst ` set vs \<Longrightarrow> query_step (query_escape k @ ''='' @ query_escape v) vs = vs @ [(k, [v])]"
proof -
  assume k: "k \<notin> fst ` set vs"
  have eq: "CHR ''='' \<notin> set (query_escape k)" by simp
  then have "takeWhile (\<lambda>x. x \<noteq> CHR ''='') (query_escape k) = query_escape k" "dropWhile (\<lambda>x. x \<noteq> CHR ''='') (query_escape k) = []"
    unfolding takeWhile_eq_all_conv dropWhile_eq_Nil_conv by metis+
  then have "cut CHR ''='' (query_escape k @ ''='' @ query_escape v) = (query_escape k, query_escape v)"
    unfolding cut_def takeWhile_append dropWhile_append using eq by auto
  moreover have "map_of vs k = None" using k by (simp add: map_of_eq_None_iff)
  moreover have "AList.update k [v] vs = vs @ [(k, [v])]" using k by (induction vs) auto
  ultimately show ?thesis by (simp add: query_step_def unescape_query add_value_def)
qed

lemma query_steps:
  "distinct (map fst vs @ map fst kvs) \<Longrightarrow>
    fold query_step (map (\<lambda>(k, v). query_escape k @ ''='' @ query_escape v) kvs) vs = vs @ map (\<lambda>(k, v). (k, [v])) kvs"
proof (induction kvs arbitrary: vs)
  case (Cons kv kvs)
  obtain k v where kv: "kv = (k, v)" by fastforce
  have "k \<notin> fst ` set vs" using Cons(2) kv by auto
  then show ?case using Cons(1)[of "vs @ [(k, [v])]"] Cons(2) kv query_step_param[of k vs v] by simp
qed simp

lemma query_escape_no_amp: "CHR ''&'' \<notin> set (query_escape s)" "CHR '';'' \<notin> set (query_escape s)"
  using query_escape_set[of _ s] not_unreserved by fastforce+

definition rendered_params :: "(string \<times> string) list \<Rightarrow> string" where
  "rendered_params kvs = str_join ''&'' (map (\<lambda>(k, v). query_escape k @ ''='' @ query_escape v) kvs)"

lemma Query_rendered: "distinct (map fst kvs) \<Longrightarrow> Query (rendered_params kvs) = map (\<lambda>(k, v). (k, [v])) kvs"
proof (cases "kvs = []")
  case True
  then show ?thesis by (simp add: Query_def rendered_params_def query_step_def)
next
  case False
  assume "distinct (map fst kvs)"
  moreover have "split_char CHR ''&'' (rendered_params kvs) = map (\<lambda>(k, v). query_escape k @ ''='' @ query_escape v) kvs"
    unfolding rendered_params_def using False query_escape_no_amp by (intro split_char_join) auto
  ultimately show ?thesis using query_steps[of "[]" kvs] by (simp add: Query_def)
qed

lemma fold_update_distinct:
  "distinct (map fst vs @ map fst kvs) \<Longrightarrow> fold (\<lambda>(k, v). AList.update k [v]) kvs vs = vs @ map (\<lambda>(k, v). (k, [v])) kvs"
proof (induction kvs arbitrary: vs)
  case (Cons kv kvs)
  obtain k v where kv: "kv = (k, v)" by fastforce
  have "k \<notin> fst ` set vs" using Cons(2) kv by auto
  then have "AList.update k [v] vs = vs @ [(k, [v])]" by (induction vs) auto
  then show ?case using Cons(1)[of "vs @ [(k, [v])]"] Cons(2) kv by simp
qed simp

lemma Encode_params:
  assumes "distinct (map fst kvs)"
  shows "Encode (map (\<lambda>(k, v). (k, [v])) kvs) = rendered_params (sort_key fst kvs)"
proof -
  have keys: "map fst (map (\<lambda>(k, v). (k, [v])) kvs) = map fst kvs" by (simp add: comp_def case_prod_unfold)
  have "sort (map fst kvs) = map fst (sort_key fst kvs)" using assms
    by (intro sorted_distinct_set_unique) (simp_all add: distinct_map)
  moreover have "the (map_of (map (\<lambda>(k, v). (k, [v])) kvs) (fst kv)) = [snd kv]" if "kv \<in> set (sort_key fst kvs)" for kv
  proof -
    have "(fst kv, [snd kv]) \<in> set (map (\<lambda>(k, v). (k, [v])) kvs)" using that by (auto simp: image_iff case_prod_unfold)
    then show ?thesis using assms keys by (simp del: map_map)
  qed
  ultimately have "map (\<lambda>k. map (\<lambda>v. query_escape k @ ''='' @ query_escape v) (the (map_of (map (\<lambda>(k, v). (k, [v])) kvs) k))) (sort (map fst kvs)) =
      map (\<lambda>kv. [query_escape (fst kv) @ ''='' @ query_escape (snd kv)]) (sort_key fst kvs)"
    by simp
  then show ?thesis unfolding Encode_def keys rendered_params_def by (simp add: case_prod_unfold)
qed

section \<open>The URL of a path\<close>

lemma unescape_path_escape: "unescape False (path_escape s) = Some s"
  by (induction s) (simp_all add: path_escape_simps unescape_hex unescape_char del: unescape.simps(2))

abbreviation dot :: "string \<Rightarrow> string" where
  "dot path \<equiv> if CHR '':'' \<in> set (takeWhile (\<lambda>c. c \<noteq> CHR ''/'') path) then ''./'' else []"

lemma path_string_eq: "path_string path = dot path @ (if path = ''*'' then ''*'' else path_escape path)"
  by (simp add: path_string_def dot_segment_def path_escape_segment)

lemma path_string_chars: "c \<in> set (path_string path) \<Longrightarrow> path_char c \<or> c = CHR ''%'' \<or> c = CHR ''*''"
proof -
  assume "c \<in> set (path_string path)"
  then have "c = CHR ''.'' \<or> c = CHR ''/'' \<or> c = CHR ''*'' \<or> c \<in> set (path_escape path)" by (auto simp: path_string_eq split: if_splits)
  then show ?thesis using path_escape_chars[of c path] path_char_special(6,7) by blast
qed

lemma unescape_dot: "unescape False s = Some t \<Longrightarrow> unescape False (dot path @ s) = Some (dot path @ t)"
  by simp

lemma path_string_sent:
  shows "valid_encoded (path_string path)" "unescape False (path_string path) \<noteq> None"
    "c \<in> set (path_string path) \<Longrightarrow> c \<noteq> CHR ''?'' \<and> c \<noteq> CHR ''#'' \<and> 32 \<le> (of_char c :: nat) \<and> (of_char c :: nat) \<noteq> 127"
    "unescape False (replace_char CHR '';'' ''%3B'' (path_string path)) = Some (dot path @ path)"
proof -
  show "valid_encoded (path_string path)"
    unfolding valid_encoded_def list_all_iff using path_string_chars[of _ path] by auto
  have rest: "unescape False (if path = ''*'' then ''*'' else path_escape path) = Some path" by (simp add: unescape_path_escape)
  show "unescape False (path_string path) \<noteq> None"
    unfolding path_string_eq unescape_dot[OF rest] by simp
  have "c \<noteq> CHR ''?'' \<and> c \<noteq> CHR ''#'' \<and> 32 \<le> (of_char c :: nat) \<and> (of_char c :: nat) \<noteq> 127" if "path_char c" for c
    using that path_char_special(2,3) path_char_printable[of c] by metis
  moreover have "c \<noteq> CHR ''?'' \<and> c \<noteq> CHR ''#'' \<and> 32 \<le> (of_char c :: nat) \<and> (of_char c :: nat) \<noteq> 127" if "c = CHR ''%'' \<or> c = CHR ''*''" for c
    using that by (elim disjE) simp_all
  ultimately show "c \<in> set (path_string path) \<Longrightarrow> c \<noteq> CHR ''?'' \<and> c \<noteq> CHR ''#'' \<and> 32 \<le> (of_char c :: nat) \<and> (of_char c :: nat) \<noteq> 127"
    using path_string_chars[of c path] by blast
  have "replace_char CHR '';'' ''%3B'' (path_string path) = dot path @ (if path = ''*'' then ''*'' else sent_path path)"
    by (simp add: path_string_eq sent_path_def)
  then show "unescape False (replace_char CHR '';'' ''%3B'' (path_string path)) = Some (dot path @ path)"
    using unescape_dot[of "if path = ''*'' then ''*'' else sent_path path" path path] unescape_sent_path[of path] by simp
qed

lemma replace_char_absent: "c \<notin> set s \<Longrightarrow> replace_char c new s = s"
  by (induction s) auto

lemma replace_char_set: "x \<in> set (replace_char c new s) \<Longrightarrow> x \<in> set s \<and> x \<noteq> c \<or> x \<in> set new"
  by (induction s) (auto split: if_splits)

lemma rendered_params_chars: "c \<in> set (rendered_params kvs) \<Longrightarrow> c \<noteq> CHR '';'' \<and> c \<noteq> CHR ''#''"
proof -
  have esc: "c \<in> set (query_escape s) \<Longrightarrow> c \<noteq> CHR '';'' \<and> c \<noteq> CHR ''#''" for s
    using query_escape_set[of c s] not_unreserved by (auto simp: unreserved_def)
  have join: "c \<in> set (str_join sep ws) \<Longrightarrow> c \<in> set sep \<or> (\<exists>w\<in>set ws. c \<in> set w)" for sep ws
    by (induction ws rule: induct_list012) auto
  show "c \<in> set (rendered_params kvs) \<Longrightarrow> c \<noteq> CHR '';'' \<and> c \<noteq> CHR ''#''"
    unfolding rendered_params_def using join[of "''&''"] esc by fastforce
qed

lemma rendered_params_Nil: "rendered_params kvs = [] \<longleftrightarrow> kvs = []"
  by (induction kvs rule: induct_list012) (auto simp: rendered_params_def)

text \<open>C18: the URL of a path is the base URL, the escaped path and the query of the parameters, and a server that splits and
  unescapes it reads exactly the path - behind \<open>./\<close> when its first segment has a colon - and the parameters in order of their
  keys: no character of a path or a parameter can end the path, add a parameter or separate properties.\<close>

theorem BuildArtifactoryUrl_decodes:
  assumes "base_url env scheme authority p" "distinct (map fst params)"
  shows "\<exists>e q. BuildArtifactoryUrl env (scheme @ ''://'' @ authority @ p) path params =
      Inr (scheme @ ''://'' @ authority @ p @ e @ (if params = [] then [] else ''?'' @ q)) \<and>
    set e \<inter> {CHR ''?'', CHR ''#'', CHR '';''} = {} \<and>
    unescape False e = Some ((if CHR '':'' \<in> set (takeWhile (\<lambda>c. c \<noteq> CHR ''/'') path) then ''./'' else []) @ path) \<and>
    CHR ''#'' \<notin> set q \<and> CHR '';'' \<notin> set q \<and> Query q = map (\<lambda>(k, v). (k, [v])) (sort_key fst params)"
proof -
  let ?base = "scheme @ ''://'' @ authority @ p"
  let ?e = "path_string path" and ?q = "rendered_params (sort_key fst params)"
  let ?escaped = "replace_char CHR '';'' ''%3B'' ?e"
  have parsed: "url_Parse env (?base @ ?e) =
    Inr \<lparr>url_Scheme = scheme, url_Opaque = [], url_Host = Some authority, url_Path = p @ ?e, url_ForceQuery = False, url_RawQuery = [],
         url_Fragment = []\<rparr>"
    using url_Parse_base[OF assms(1) path_string_sent(1-3)] by simp
  have query: "Encode (fold (\<lambda>(k, v). AList.update k [v]) params (Query [])) = ?q"
    using fold_update_distinct[of "[]" params] assms(2) by (simp add: Encode_params Query_def query_step_def)
  have "sort_key fst params = [] \<longleftrightarrow> params = []" by (metis length_0_conv length_sort)
  then have empty: "?q = [] \<longleftrightarrow> params = []" by (simp add: rendered_params_Nil)
  have semicolons: "CHR '';'' \<notin> set ?base" "CHR '';'' \<notin> set ?q" "CHR ''#'' \<notin> set ?q"
    using base_chars(3)[OF assms(1)] rendered_params_chars by blast+
  have "query_escape '';'' = ''%3B''" by code_simp
  moreover have "replace_char CHR '';'' ''%3B'' (?base @ ?e @ r) = ?base @ ?escaped @ r" if "CHR '';'' \<notin> set r" for r
    using replace_char_absent[OF semicolons(1)] replace_char_absent[OF that] by simp
  moreover have "CHR '';'' \<notin> set (if params = [] then [] else ''?'' @ ?q)" using semicolons(2) by simp
  moreover have "url_String (\<lparr>url_Scheme = scheme, url_Opaque = [], url_Host = Some authority, url_Path = p @ ?e, url_ForceQuery = False,
      url_RawQuery = ?q, url_Fragment = []\<rparr>) = ?base @ ?e @ (if params = [] then [] else ''?'' @ ?q)"
    using assms(1) empty unfolding base_url_def by (simp add: url_String_def)
  ultimately have "BuildArtifactoryUrl env ?base path params = Inr (?base @ ?escaped @ (if params = [] then [] else ''?'' @ ?q))"
    using parsed query by (simp add: BuildArtifactoryUrl_def replace_all_single Let_def del: append_assoc)
  moreover have "Query ?q = map (\<lambda>(k, v). (k, [v])) (sort_key fst params)"
    using assms(2) by (intro Query_rendered) (simp add: distinct_map)
  moreover have "set ?escaped \<inter> {CHR ''?'', CHR ''#'', CHR '';''} = {}"
    using replace_char_set[of _ "CHR '';''" "''%3B''" ?e] path_string_sent(3)[of _ path] by fastforce
  ultimately show ?thesis using path_string_sent(4) semicolons by (intro exI[of _ ?escaped] exI[of _ ?q]) auto
qed

theorem BuildArtifactoryUrl_decodes_witness:
  "\<exists>e q. BuildArtifactoryUrl \<lparr>url_authority = Inr, url_fragment = Inr\<rparr> ''https://h/a/'' ''r/x;y?z'' [(''to'', ''b&c''), (''dry'', ''1'')] =
      Inr (''https://h/a/'' @ e @ ''?'' @ q) \<and> unescape False e = Some ''r/x;y?z'' \<and> Query q = [(''dry'', [''1'']), (''to'', [''b&c''])]"
proof -
  have "base_url \<lparr>url_authority = Inr, url_fragment = Inr\<rparr> ''https'' ''h'' ''/a/''"
    by (simp add: base_url_def path_char_def unreserved_def)
  moreover have "sort_key fst [(''to'', ''b&c''), (''dry'', ''1'')] = [(''dry'', ''1''), (''to'', ''b&c'')]"
    by (simp add: less_char_def less_eq_char_def)
  ultimately show ?thesis
    using BuildArtifactoryUrl_decodes[of "\<lparr>url_authority = Inr, url_fragment = Inr\<rparr>" "''https''" "''h''" "''/a/''"
        "[(''to'', ''b&c''), (''dry'', ''1'')]" "''r/x;y?z''"] by auto
qed

end
