(* ===== verification/Connection.thy ===== *)
theory Connection
  imports Service Auth Url JsonParser
begin

text \<open>
  Connections that are opened again when they are lost, \<^verbatim>\<open>http/httpclient/retryableconnection.go\<close>, and the build scan of
  Xray that reads its result from one, \<^verbatim>\<open>artifactory/services/xrayscan.go\<close>.

  A response's body is a stream: its lines with the times at which they arrive, counted from the connection, and how it
  ends. A pause of the length of the timeout does not count as longer. Durations are in nanoseconds.
\<close>

section \<open>Reading with a timeout\<close>

datatype stream_end = Eof int | Broken int string | Silent

record stream =
  st_lines :: "(int \<times> string) list"
  st_end :: stream_end
  st_close_error :: "string option"

text \<open>The reader and the timeout race: the time of the last read, the result, and the error that comes first. Lines are
  joined without their ends.\<close>

fun read_stream :: "int \<Rightarrow> int \<Rightarrow> string \<Rightarrow> (int \<times> string) list \<Rightarrow> stream_end \<Rightarrow> int \<times> string \<times> string option" where
  "read_stream timeout lastRead result ((t, line) # lines) e =
     (if lastRead + timeout < t then (lastRead, result, Some ''read timeout'') else read_stream timeout t (result @ line) lines e)"
| "read_stream timeout lastRead result [] (Eof t) =
     (if lastRead + timeout < t then (lastRead, result, Some ''read timeout'') else (lastRead, result, None))"
| "read_stream timeout lastRead result [] (Broken t e) =
     (if lastRead + timeout < t then (lastRead, result, Some ''read timeout'') else (lastRead, result, Some e))"
| "read_stream timeout lastRead result [] Silent = (lastRead, result, Some ''read timeout'')"

text \<open>The result, whether the connection was stable, and the error. There may be no response or no body.\<close>

definition monitor_start :: "int \<Rightarrow> int \<Rightarrow> stream option \<Rightarrow> string \<times> bool \<times> string option" where
  "monitor_start readTimeout stableConnectionWindow resp =
     (case resp of
        None \<Rightarrow> ([], False, Some ''missing response body'')
      | Some s \<Rightarrow>
          (let (lastRead, result, err) = read_stream readTimeout 0 [] (st_lines s) (st_end s);
               wasStable = (stableConnectionWindow > 0 \<and> stableConnectionWindow < lastRead)
           in (result, wasStable, case err of Some e \<Rightarrow> Some e | None \<Rightarrow> st_close_error s)))"

section \<open>Connecting again\<close>

record 'w RetryableConnection =
  ReadTimeout :: int
  RetriesNum :: int
  StableConnectionWindow :: int
  SleepBetweenRetries :: int
  ConnectHandler :: "'w \<Rightarrow> (stream option result \<times> 'w) option"
  ErrorHandler :: "(string \<Rightarrow> string option) option"
  rt_sleep :: "int \<Rightarrow> 'w \<Rightarrow> 'w"

text \<open>One turn of the loop: the content, or a failure on a connection that was stable or not; \<open>None\<close> when the handler
  does not return. A panic of the handler ends the loop.\<close>

datatype outcome = Content string | Lost bool | Panics string

definition attempt :: "'w RetryableConnection \<Rightarrow> 'w \<Rightarrow> (outcome \<times> 'w) option" where
  "attempt rt w =
     (case ConnectHandler rt w of
        None \<Rightarrow> None
      | Some (Inl (Panic m), w) \<Rightarrow> Some (Panics m, w)
      | Some (Inl (Err e), w) \<Rightarrow> Some (Lost False, rt_sleep rt (SleepBetweenRetries rt) w)
      | Some (Inr resp, w) \<Rightarrow>
          (let (result, wasStable, err) = monitor_start (ReadTimeout rt) (StableConnectionWindow rt) resp;
               err = (case err of Some e \<Rightarrow> Some e
                      | None \<Rightarrow> (case ErrorHandler rt of None \<Rightarrow> None | Some h \<Rightarrow> h result))
           in Some (case err of
                      Some e \<Rightarrow> (Lost wasStable, rt_sleep rt (SleepBetweenRetries rt) w)
                    | None \<Rightarrow> (Content result, w))))"

text \<open>\<open>checkErrors\<close>: a failure of a stable connection starts the count again.\<close>

definition checkErrors :: "bool \<Rightarrow> int \<Rightarrow> int" where
  "checkErrors stableConnection retryCounter = (if stableConnection then 0 else retryCounter + 1)"

partial_function (option) do_loop :: "'w RetryableConnection \<Rightarrow> int \<Rightarrow> 'w \<Rightarrow> (string result \<times> 'w) option" where
  "do_loop rt retry w =
     (if RetriesNum rt = -1 \<or> retry \<le> RetriesNum rt
      then (case attempt rt w of
              None \<Rightarrow> None
            | Some (Panics m, w) \<Rightarrow> Some (Inl (Panic m), w)
            | Some (Content result, w) \<Rightarrow> Some (Inr result, w)
            | Some (Lost wasStable, w) \<Rightarrow> do_loop rt (checkErrors wasStable retry) w)
      else Some (Inl (Err ''connection error: exhausted retries''), w))"

declare do_loop.simps [code]

definition Do :: "'w RetryableConnection \<Rightarrow> 'w \<Rightarrow> (string result \<times> 'w) option" where
  "Do rt w = do_loop rt 0 w"

section \<open>When it returns\<close>

text \<open>The world and the counter before the turn \<open>k\<close>, when all turns before it fail.\<close>

definition turn_world :: "'w RetryableConnection \<Rightarrow> 'w \<Rightarrow> nat \<Rightarrow> 'w" where
  "turn_world rt w k = ((\<lambda>w. case attempt rt w of Some (_, w') \<Rightarrow> w' | None \<Rightarrow> w) ^^ k) w"

definition turn :: "'w RetryableConnection \<Rightarrow> 'w \<Rightarrow> nat \<Rightarrow> outcome option" where
  "turn rt w k = map_option fst (attempt rt (turn_world rt w k))"

text \<open>The failures since the last one of a stable connection.\<close>

fun failures :: "'w RetryableConnection \<Rightarrow> 'w \<Rightarrow> nat \<Rightarrow> int" where
  "failures rt w 0 = 0"
| "failures rt w (Suc k) = (if turn rt w k = Some (Lost True) then 0 else failures rt w k + 1)"

definition lost :: "outcome option \<Rightarrow> bool" where
  "lost r \<longleftrightarrow> (\<exists>wasStable. r = Some (Lost wasStable))"

definition exhausted :: "'w RetryableConnection \<Rightarrow> 'w \<Rightarrow> nat \<Rightarrow> bool" where
  "exhausted rt w k \<longleftrightarrow> RetriesNum rt \<noteq> -1 \<and> failures rt w k > RetriesNum rt"

text \<open>The loop ends before or in this turn.\<close>

definition ends :: "'w RetryableConnection \<Rightarrow> 'w \<Rightarrow> nat \<Rightarrow> bool" where
  "ends rt w k \<longleftrightarrow> exhausted rt w k \<or> \<not> lost (turn rt w k)"

definition ending :: "'w RetryableConnection \<Rightarrow> 'w \<Rightarrow> nat \<Rightarrow> (string result \<times> 'w) option" where
  "ending rt w k =
     (if exhausted rt w k then Some (Inl (Err ''connection error: exhausted retries''), turn_world rt w k)
      else case turn rt w k of
             Some (Content s) \<Rightarrow> Some (Inr s, turn_world rt w (Suc k))
           | Some (Panics m) \<Rightarrow> Some (Inl (Panic m), turn_world rt w (Suc k))
           | _ \<Rightarrow> None)"

lemma turn_world_Suc: "turn_world rt w (Suc k) = (case attempt rt (turn_world rt w k) of Some (_, w') \<Rightarrow> w' | None \<Rightarrow> turn_world rt w k)"
  by (simp add: turn_world_def split: option.split)

lemma do_loop_turn:
  "do_loop rt (failures rt w k) (turn_world rt w k) =
     (if ends rt w k then ending rt w k else do_loop rt (failures rt w (Suc k)) (turn_world rt w (Suc k)))"
  by (subst do_loop.simps)
    (auto simp: ends_def ending_def exhausted_def lost_def turn_def turn_world_Suc checkErrors_def split: option.splits outcome.splits)

lemma do_loop_start: "\<forall>i<k. \<not> ends rt w i \<Longrightarrow> Do rt w = do_loop rt (failures rt w k) (turn_world rt w k)"
proof (induction k)
  case 0
  then show ?case by (simp add: Do_def turn_world_def)
next
  case (Suc k)
  then have "\<not> ends rt w k" "Do rt w = do_loop rt (failures rt w k) (turn_world rt w k)" by simp_all
  then show ?case using do_loop_turn[of rt w k] by simp
qed

text \<open>A loop that returns has a turn that ends it.\<close>

lemma do_loop_ends:
  "do_loop rt retry w' = Some y \<Longrightarrow> retry = failures rt w k \<Longrightarrow> w' = turn_world rt w k \<Longrightarrow> \<exists>i. ends rt w i"
proof (induction arbitrary: k rule: do_loop.raw_induct[rotated 1, consumes 1])
  case (1 loop rt retry w' y)
  show ?case
  proof (cases "ends rt w k")
    case False
    then obtain s where s: "turn rt w k = Some (Lost s)" "\<not> exhausted rt w k" by (auto simp: ends_def lost_def)
    then obtain w1 where "attempt rt w' = Some (Lost s, w1)" using 1(4) by (auto simp: turn_def)
    moreover have "checkErrors s retry = failures rt w (Suc k)" using s(1) 1(3) by (simp add: checkErrors_def)
    moreover have "w1 = turn_world rt w (Suc k)" using calculation(1) 1(4) by (simp add: turn_world_Suc)
    ultimately show ?thesis using 1(1)[of rt "checkErrors s retry" w1 y "Suc k"] 1(2,3) s(2) by (simp add: exhausted_def not_less)
  qed blast
qed

lemma Do_ending: "Do rt w = (if \<exists>k. ends rt w k then ending rt w (LEAST k. ends rt w k) else None)"
proof (cases "\<exists>k. ends rt w k")
  case True
  then have least: "ends rt w (LEAST k. ends rt w k)" by (auto intro: LeastI_ex)
  have "\<forall>i<LEAST k. ends rt w k. \<not> ends rt w i" using not_less_Least by blast
  from do_loop_start[OF this] least show ?thesis using True do_loop_turn[of rt w "LEAST k. ends rt w k"] by simp
next
  case False
  have "do_loop rt 0 w = do_loop rt (failures rt w 0) (turn_world rt w 0)" by (simp add: turn_world_def)
  then show ?thesis using False do_loop_ends[of rt 0 w _ w 0] unfolding Do_def by (cases "do_loop rt 0 w") (auto simp: turn_world_def)
qed

lemma not_stable: "StableConnectionWindow rt \<le> 0 \<Longrightarrow> turn rt w k \<noteq> Some (Lost True)"
  by (auto simp: turn_def attempt_def monitor_start_def Let_def split: option.splits sum.splits go_error.splits prod.splits)

lemma failures_count: "StableConnectionWindow rt \<le> 0 \<Longrightarrow> failures rt w k = int k"
  by (induction k) (simp_all add: not_stable)

lemma ending_returns: "ends rt w k \<Longrightarrow> turn rt w k \<noteq> None \<Longrightarrow> ending rt w k \<noteq> None"
  by (auto simp: ends_def ending_def lost_def split: option.split outcome.split)

text \<open>C17: the connection is tried until a turn ends it - a content without errors, or more consecutive failures than there are
  retries, where a failure of a stable connection starts the count again - and gives that turn's result; when no turn ends it, it
  never returns. With a bound on the retries and no window for stable connections there are at most as many attempts as retries
  and one more.\<close>

theorem Do_correct:
  "Do rt w = (if \<exists>k. ends rt w k then ending rt w (LEAST k. ends rt w k) else None) \<and>
    (StableConnectionWindow rt \<le> 0 \<and> 0 \<le> RetriesNum rt \<and> (\<forall>w. ConnectHandler rt w \<noteq> None) \<longrightarrow>
      Do rt w \<noteq> None \<and> int (LEAST k. ends rt w k) \<le> RetriesNum rt + 1)"
proof -
  have "Do rt w \<noteq> None \<and> int (LEAST k. ends rt w k) \<le> RetriesNum rt + 1"
    if bounded: "StableConnectionWindow rt \<le> 0" "0 \<le> RetriesNum rt" "\<forall>w. ConnectHandler rt w \<noteq> None"
  proof -
    have ends: "ends rt w (nat (RetriesNum rt + 1))" using bounded by (simp add: ends_def exhausted_def failures_count)
    then have "(LEAST k. ends rt w k) \<le> nat (RetriesNum rt + 1)" by (rule Least_le)
    moreover have "turn rt w k \<noteq> None" for k
      using bounded(3) by (auto simp: turn_def attempt_def Let_def split: option.splits sum.splits go_error.splits prod.splits)
    ultimately show ?thesis using Do_ending[of rt w] ending_returns[OF LeastI[of "ends rt w", OF ends]] ends bounded(2) by auto
  qed
  then show ?thesis using Do_ending[of rt w] by (intro conjI impI) simp_all
qed

text \<open>A server that is silent for the first two connections.\<close>

definition example_connection :: "nat RetryableConnection" where
  "example_connection = \<lparr>ReadTimeout = 90, RetriesNum = 2, StableConnectionWindow = 0, SleepBetweenRetries = 15,
     ConnectHandler = (\<lambda>w. Some (Inr (Some \<lparr>st_lines = [(30, ''a''), (60, ''b'')], st_end = (if w < 2 then Silent else Eof 61),
                                            st_close_error = None\<rparr>), Suc w)),
     ErrorHandler = None, rt_sleep = (\<lambda>_ w. w)\<rparr>"

lemma example_attempt: "attempt example_connection w = Some (if w < 2 then Lost False else Content ''ab'', Suc w)"
  by (simp add: attempt_def example_connection_def monitor_start_def)

lemma example_Do: "Do example_connection 0 = Some (Inr ''ab'', 3)"
  by (simp add: Do_def do_loop.simps[of example_connection] example_attempt checkErrors_def) (simp add: example_connection_def)

theorem Do_correct_witness: "int (LEAST k. ends example_connection 0 k) \<le> 3 \<and> Do example_connection 0 = Some (Inr ''ab'', 3)"
  using Do_correct[of example_connection 0] example_Do by (simp add: example_connection_def)

section \<open>The build scan\<close>

text \<open>A service with what reads the body of a response over time, what waits, and the name of the client.\<close>

record 'w scan_service = "'w service" +
  ss_url :: url_env
  ss_stream :: "Response \<Rightarrow> stream option"
  ss_sleep :: "int \<Rightarrow> 'w \<Rightarrow> 'w"
  ss_UserAgent :: string

definition jc_Send :: "'w JfrogHttpClient \<Rightarrow> string \<Rightarrow> string \<Rightarrow> string option \<Rightarrow> bool \<Rightarrow> bool \<Rightarrow> HttpClientDetails \<Rightarrow> 'w \<Rightarrow> 'w http_result option" where
  "jc_Send rtc meth url content followRedirect closeBody =
     jc_send rtc (\<lambda>n jc details pre w. drop_redirect (Send n jc meth url content followRedirect closeBody details pre w))"

record XrayScanParams =
  xsp_BuildName :: string
  xsp_BuildNumber :: string
  xsp_ProjectKey :: string

definition scan_body :: "string \<Rightarrow> XrayScanParams \<Rightarrow> members" where
  "scan_body agent p =
     omit_string ''buildName'' (xsp_BuildName p) @ omit_string ''buildNumber'' (xsp_BuildNumber p) @
     omit_string ''project'' (xsp_ProjectKey p) @ omit_string ''context'' agent"

text \<open>The statuses of the errors in a response; \<open>None\<close> for a slice that is nil.\<close>

definition conv_status :: "jvalue \<Rightarrow> int option" where
  "conv_status v = (case v of ObjV ms \<Rightarrow> (case read_field conv_int 0 ''status'' ms of Inr n \<Rightarrow> Some n | Inl e \<Rightarrow> None) | _ \<Rightarrow> None)"

definition read_errors :: "members \<Rightarrow> int list option result" where
  "read_errors = read_field (\<lambda>v. map_option Some (conv_array conv_status 0 v)) None ''errors''"

definition isFatalScanError :: "int list \<Rightarrow> bool" where
  "isFatalScanError statuses \<longleftrightarrow> list_ex (\<lambda>s. s = -1) statuses"

definition checkForXrayResponseError :: "(string \<Rightarrow> jvalue result) \<Rightarrow> string \<Rightarrow> bool \<Rightarrow> string option" where
  "checkForXrayResponseError parse content ignoreFatalError =
     (case and_then (parse content) (\<lambda>v. and_then (read_struct v) read_errors) of
        Inl (Err e) \<Rightarrow> Some e
      | Inl (Panic e) \<Rightarrow> Some e
      | Inr None \<Rightarrow> None
      | Inr (Some statuses) \<Rightarrow>
          if ignoreFatalError \<and> isFatalScanError statuses then None else Some (''Server response: '' @ content))"

definition execScanRequest :: "('w, 'b) scan_service_scheme \<Rightarrow> string \<Rightarrow> string \<Rightarrow> 'w \<Rightarrow> (stream option result \<times> 'w) option" where
  "execScanRequest ps url content w =
     after_reply (jc_Send (sv_client ps) ''POST'' url (Some content) True False
         (add_header ''X-Accel-Buffering'' ''no'' (json_content (CreateHttpClientDetails (sv_details ps)))) w) (\<lambda>reply w.
       Some (map_sum id (\<lambda>(r, _). ss_stream ps r) (checked (service.truncate ps) [200] reply), w))"

text \<open>Durations in nanoseconds: a timeout of 90 seconds, a stable connection after 100, a pause of 15 between retries.\<close>

definition scan_connection :: "('w, 'b) scan_service_scheme \<Rightarrow> string \<Rightarrow> string \<Rightarrow> 'w RetryableConnection" where
  "scan_connection ps url content =
     \<lparr>ReadTimeout = 90 * 10 ^ 9, RetriesNum = 10, StableConnectionWindow = 100 * 10 ^ 9, SleepBetweenRetries = 15 * 10 ^ 9,
      ConnectHandler = execScanRequest ps url content,
      ErrorHandler = Some (\<lambda>content. checkForXrayResponseError (sv_parse ps) content True), rt_sleep = ss_sleep ps\<rparr>"

definition ScanBuild :: "('w, 'b) scan_service_scheme \<Rightarrow> XrayScanParams \<Rightarrow> 'w \<Rightarrow> (string result \<times> 'w) option" where
  "ScanBuild ps scanParams w =
     (case BuildArtifactoryUrl (ss_url ps) (ccf_Url (sv_details ps)) ''api/xray/scanBuild'' [] of
        Inl e \<Rightarrow> Some (Inl e, w)
      | Inr requestFullUrl \<Rightarrow>
          Do (scan_connection ps requestFullUrl (Marshal (ObjV (scan_body (ss_UserAgent ps) scanParams)))) w)"

lemma read_stream_complete:
  "read_stream timeout lastRead result lines e = (l, r, None) \<Longrightarrow> r = result @ concat (map snd lines) \<and> (\<exists>t. e = Eof t)"
  by (induction timeout lastRead result lines e rule: read_stream.induct) (auto split: if_splits)

text \<open>A content is all that a stream sent until it ended, and passed the check for errors.\<close>

lemma Do_content:
  assumes "Do rt w = Some (Inr content, w')"
  shows "\<exists>w1 w2 s t. ConnectHandler rt w1 = Some (Inr (Some s), w2) \<and> content = concat (map snd (st_lines s)) \<and> st_end s = Eof t \<and>
    (\<forall>h. ErrorHandler rt = Some h \<longrightarrow> h content = None)"
proof -
  obtain k where "ending rt w k = Some (Inr content, w')" using assms unfolding Do_ending by (auto split: if_splits)
  then obtain w1 where "attempt rt w1 = Some (Content content, w')"
    by (auto simp: ending_def turn_def turn_world_Suc split: if_splits option.splits outcome.splits)
  then show ?thesis
    by (auto simp: attempt_def monitor_start_def Let_def dest!: read_stream_complete split: option.splits sum.splits go_error.splits prod.splits)
qed

text \<open>C19: a build scan that succeeds was answered with 200 on a connection that came to its end - lost and silent connections are
  tried again - and its content is all lines of this connection, joined without their line ends. It parses to a JSON object (or to
  \<open>null\<close>, which is read as an empty one) with no errors, or with a fatal error among them, which is not tried again.\<close>

theorem ScanBuild_result:
  assumes "ScanBuild ps scanParams w = Some (Inr content, w')"
  shows "\<exists>url w1 w2 s t v ms errors.
    BuildArtifactoryUrl (ss_url ps) (ccf_Url (sv_details ps)) ''api/xray/scanBuild'' [] = Inr url \<and>
    execScanRequest ps url (Marshal (ObjV (scan_body (ss_UserAgent ps) scanParams))) w1 = Some (Inr (Some s), w2) \<and>
    content = concat (map snd (st_lines s)) \<and> st_end s = Eof t \<and>
    sv_parse ps content = Inr v \<and> (v = ObjV ms \<or> v = Null \<and> ms = []) \<and>
    read_errors ms = Inr errors \<and> (errors = None \<or> -1 \<in> set (the errors))"
proof -
  obtain url where url: "BuildArtifactoryUrl (ss_url ps) (ccf_Url (sv_details ps)) ''api/xray/scanBuild'' [] = Inr url"
      "Do (scan_connection ps url (Marshal (ObjV (scan_body (ss_UserAgent ps) scanParams)))) w = Some (Inr content, w')"
    using assms by (auto simp: ScanBuild_def split: sum.splits)
  from Do_content[OF url(2)] obtain w1 w2 s t where s:
      "execScanRequest ps url (Marshal (ObjV (scan_body (ss_UserAgent ps) scanParams))) w1 = Some (Inr (Some s), w2)"
      "content = concat (map snd (st_lines s))" "st_end s = Eof t" "checkForXrayResponseError (sv_parse ps) content True = None"
    by (auto simp: scan_connection_def)
  then obtain v ms errors where v: "sv_parse ps content = Inr v" "read_struct v = Inr ms" "read_errors ms = Inr errors" "errors = None \<or> -1 \<in> set (the errors)"
    by (auto simp: checkForXrayResponseError_def and_then_def isFatalScanError_def list_ex_iff split: sum.splits go_error.splits option.splits if_splits)
  have "v = ObjV ms \<or> v = Null \<and> ms = []" using v(2) by (cases v) (simp_all add: read_struct_def)
  then show ?thesis using url(1) s v by blast
qed

text \<open>A server that is silent first and then reports a fatal error, in two lines.\<close>

definition example_stream :: stream where
  "example_stream = \<lparr>st_lines = [(30, []), (60, []), (70, ''{\"errors\":''), (72, '' [{\"status\": -1}]}'')], st_end = Eof 73, st_close_error = None\<rparr>"

definition example_answer :: string where
  "example_answer = ''{\"errors\": [{\"status\": -1}]}''"

lemma example_content: "Unmarshal example_answer = Inr (ObjV [(''errors'', ArrV [ObjV [(''status'', NumV ''-1'')]])])"
  by code_simp

definition example_scan :: "nat scan_service" where
  "example_scan = service.extend
     (example_service (\<lambda>_. Answered (example_response 200))\<lparr>sv_parse := Unmarshal\<rparr>)
     \<lparr>ss_url = \<lparr>url_authority = Inr, url_fragment = Inr\<rparr>, ss_stream = (\<lambda>r. Some example_stream), ss_sleep = (\<lambda>_ w. w), ss_UserAgent = ''a''\<rparr>"

lemma jc_Send_answered:
  assumes "ready_client rtc meth url" "StatusCode r < 500"
    and "http_do (httpClient rtc) (meth = ''POST'') (request_of (httpClient rtc) d meth url content) w = (Answered r, w')"
  shows "jc_Send rtc meth url content True closeBody d w = Some ((Some r, if closeBody then fst (Body r) else [], None), w')"
proof -
  obtain n where n: "jc_redirects rtc = Suc n" using assms(1) by (cases "jc_redirects rtc") (auto simp: ready_client_def)
  have "Send (Suc n) (httpClient rtc) meth url content True closeBody d [] w = Some ((Some r, if closeBody then fst (Body r) else [], [], None), w')"
    using Send_answered[OF _ _ assms(2,3)] assms(1) by (simp add: ready_client_def)
  then show ?thesis using assms(1) by (simp add: jc_Send_def jc_send_def n go_reply_def drop_redirect_def ready_client_def del: Send.simps)
qed

lemma example_scan_simps [simp]:
  "sv_client example_scan = sv_client (example_service (\<lambda>_. Answered (example_response 200)))"
  "sv_parse example_scan = Unmarshal" "ss_stream example_scan r = Some example_stream" "ss_sleep example_scan n w = w"
  by (simp_all add: example_scan_def service.defs)

lemma example_scan_request: "execScanRequest example_scan url content w = Some (Inr (Some example_stream), Suc w)"
  using jc_Send_answered[of "sv_client (example_service (\<lambda>_. Answered (example_response 200)))" "''POST''" url "example_response 200" _ "Some content" w "Suc w" False]
  by (simp add: execScanRequest_def example_response_def)

lemma example_ScanBuild:
  "ScanBuild example_scan \<lparr>xsp_BuildName = ''b'', xsp_BuildNumber = ''1'', xsp_ProjectKey = []\<rparr> 0 = Some (Inr example_answer, 1)"
proof -
  have url: "BuildArtifactoryUrl (ss_url example_scan) (ccf_Url (sv_details example_scan)) ''api/xray/scanBuild'' [] = Inr ''u/api/xray/scanBuild''"
    by code_simp
  have "map fold_char ''errors'' = ''errors''" "map fold_char ''status'' = ''status''" "atoi ''-1'' = Some (-1)" by code_simp+
  then have "checkForXrayResponseError Unmarshal example_answer True = None"
    by (simp add: checkForXrayResponseError_def example_content read_errors_def read_field_def json_simps conv_array_def conv_status_def
        isFatalScanError_def del: list.map)
  then show ?thesis
    by (simp add: ScanBuild_def url Do_def do_loop.simps[of _ 0] scan_connection_def attempt_def example_scan_request monitor_start_def
        example_stream_def example_answer_def)
qed

theorem ScanBuild_result_witness:
  "example_answer = concat (map snd (st_lines example_stream)) \<and>
   (\<exists>ms errors. Unmarshal example_answer = Inr (ObjV ms) \<and> read_errors ms = Inr errors \<and> (errors = None \<or> -1 \<in> set (the errors)))"
proof -
  obtain v ms errors where "example_answer = concat (map snd (st_lines example_stream))" "Unmarshal example_answer = Inr v"
    "v = ObjV ms \<or> v = Null \<and> ms = []" "read_errors ms = Inr errors" "errors = None \<or> -1 \<in> set (the errors)"
    using ScanBuild_result[OF example_ScanBuild] unfolding example_scan_request example_scan_simps option.inject sum.inject prod.inject by blast
  moreover from this have "v \<noteq> Null" using example_content by auto
  ultimately show ?thesis by blast
qed

end
