(* ===== verification/Codec.thy ===== *)
theory Codec
  imports Json Auth
begin

text \<open>
  Structs as JSON objects: a struct is written from the table of its fields, where a field with the option
  \<open>omitempty\<close> has no value when it is empty, and read by name. A table whose names differ in more than the case of their
  letters is read back as it was written.
\<close>

named_theorems table_reads \<open>reading a field or a struct of a table\<close>

type_synonym field_table = "(string \<times> jvalue option) list"

definition table_members :: "field_table \<Rightarrow> members" where
  "table_members fs = List.map_filter (\<lambda>(k, v). map_option (Pair k) v) fs"

definition distinct_names :: "field_table \<Rightarrow> bool" where
  "distinct_names fs \<longleftrightarrow> distinct (map (map fold_char) (map fst fs))"

definition folded :: "field_table \<Rightarrow> string list" where
  "folded fs = map (map fold_char) (map fst fs)"

lemma distinct_names_folded: "distinct_names fs \<longleftrightarrow> distinct (folded fs)"
  by (simp add: distinct_names_def folded_def)

lemma distinct_names_extend:
  "distinct_names fs \<Longrightarrow> folded gs = folded fs @ ns \<Longrightarrow> distinct ns \<Longrightarrow> list_all (\<lambda>n. n \<notin> set (folded fs)) ns \<Longrightarrow> distinct_names gs"
  by (auto simp: distinct_names_folded list_all_iff)

lemma folded_append: "folded (fs @ gs) = folded fs @ folded gs"
  by (simp add: folded_def)

section \<open>Values of fields\<close>

definition opt_string :: "string \<Rightarrow> jvalue option" where
  "opt_string s = (if s = [] then None else Some (StrV s))"

definition opt_int :: "int \<Rightarrow> jvalue option" where
  "opt_int i = (if i = 0 then None else Some (NumV (itoa i)))"

definition opt_flag :: "bool \<Rightarrow> jvalue option" where
  "opt_flag b = (if b then Some (BoolV b) else None)"

definition opt_list :: "('a \<Rightarrow> jvalue) \<Rightarrow> 'a list \<Rightarrow> jvalue option" where
  "opt_list f xs = (if xs = [] then None else Some (ArrV (map f xs)))"

text \<open>A pointer, for example to a boolean.\<close>

definition opt_ptr :: "('a \<Rightarrow> jvalue) \<Rightarrow> 'a option \<Rightarrow> jvalue option" where
  "opt_ptr f p = map_option f p"

definition int_value :: "int \<Rightarrow> jvalue" where
  "int_value i = NumV (itoa i)"

definition machine_int :: "int \<Rightarrow> bool" where
  "machine_int i \<longleftrightarrow> - (2 ^ 63) \<le> i \<and> i < 2 ^ 63"

section \<open>Reading\<close>

definition read_int :: "string \<Rightarrow> members \<Rightarrow> int result" where
  "read_int = read_field conv_int 0"

definition read_flag :: "string \<Rightarrow> members \<Rightarrow> bool result" where
  "read_flag = read_field conv_bool False"

definition read_ptr :: "(jvalue \<Rightarrow> 'a option) \<Rightarrow> string \<Rightarrow> members \<Rightarrow> 'a option result" where
  "read_ptr conv = read_field (\<lambda>v. map_option Some (conv v)) None"

definition read_list :: "(jvalue \<Rightarrow> 'a option) \<Rightarrow> 'a \<Rightarrow> string \<Rightarrow> members \<Rightarrow> 'a list result" where
  "read_list conv dflt = read_field (conv_array conv dflt) []"

definition read_strings :: "string \<Rightarrow> members \<Rightarrow> string list result" where
  "read_strings = read_list conv_string []"

text \<open>A struct inside a value.\<close>

definition conv_struct :: "(members \<Rightarrow> 'a result) \<Rightarrow> jvalue \<Rightarrow> 'a option" where
  "conv_struct rd v = (case v of ObjV ms \<Rightarrow> (case rd ms of Inr x \<Rightarrow> Some x | Inl e \<Rightarrow> None) | _ \<Rightarrow> None)"

section \<open>Reading what was written\<close>

lemma table_members_simps [simp]:
  "table_members [] = []"
  "table_members ((k, v) # fs) = (case v of None \<Rightarrow> [] | Some j \<Rightarrow> [(k, j)]) @ table_members fs"
  by (simp_all add: table_members_def List.map_filter_simps split: option.split)

lemma field_values_other: "map fold_char k \<notin> set (map (map fold_char) (map fst fs)) \<Longrightarrow> field_values k (table_members fs) = []"
  by (induction fs) (auto simp: json_simps split: option.split)

lemma field_values_table:
  "distinct_names fs \<Longrightarrow> (k, v) \<in> set fs \<Longrightarrow> field_values k (table_members fs) = (case v of None \<Rightarrow> [] | Some j \<Rightarrow> [j])"
proof (induction fs)
  case (Cons f fs)
  obtain k' v' where f: "f = (k', v')" by fastforce
  show ?case
  proof (cases "f = (k, v)")
    case True
    then have "field_values k (table_members fs) = []" using Cons(2) f by (intro field_values_other) (auto simp: distinct_names_def)
    then show ?thesis using True by (simp add: json_simps split: option.split)
  next
    case False
    then have kv: "(k, v) \<in> set fs" using Cons(3) by simp
    then have "map fold_char k \<noteq> map fold_char k'" using Cons(2) f by (force simp: distinct_names_def)
    then show ?thesis using Cons kv f by (simp add: json_simps distinct_names_def split: option.split)
  qed
qed simp

lemma read_field_table:
  assumes "distinct_names fs" "(k, v) \<in> set fs" "case v of None \<Rightarrow> x = dflt | Some j \<Rightarrow> j \<noteq> Null \<and> conv j = Some x"
  shows "read_field conv dflt k (table_members fs) = Inr x"
  using field_values_table[OF assms(1,2)] assms(3) by (auto simp: read_field_def split: option.splits)

lemma atoi_itoa: "machine_int i \<Longrightarrow> atoi (itoa i) = Some i"
proof (cases "i < 0")
  case False
  then show "machine_int i \<Longrightarrow> ?thesis" using atoi_dec[of "nat i"] by (simp add: itoa_def machine_int_def)
next
  case True
  assume "machine_int i"
  then show ?thesis using True undec_dec[of "nat (- i)"] dec_not_Nil by (auto simp: atoi_def itoa_def machine_int_def)
qed

lemma conv_list_map: "(\<And>x. x \<in> set xs \<Longrightarrow> f x \<noteq> Null \<and> conv (f x) = Some x) \<Longrightarrow> conv_list conv dflt (map f xs) = Some xs"
  by (induction xs) auto

text \<open>The readers on tables, one for each kind of field.\<close>

lemma read_table [table_reads]:
  assumes "distinct_names fs"
  shows "(k, opt_string s) \<in> set fs \<Longrightarrow> read_string k (table_members fs) = Inr s"
    "(k, Some (StrV s)) \<in> set fs \<Longrightarrow> read_string k (table_members fs) = Inr s"
    "(k, opt_int i) \<in> set fs \<Longrightarrow> machine_int i \<Longrightarrow> read_int k (table_members fs) = Inr i"
    "(k, opt_flag b) \<in> set fs \<Longrightarrow> read_flag k (table_members fs) = Inr b"
    "(k, Some (BoolV b)) \<in> set fs \<Longrightarrow> read_flag k (table_members fs) = Inr b"
    "(k, opt_ptr BoolV p) \<in> set fs \<Longrightarrow> read_ptr conv_bool k (table_members fs) = Inr p"
    "(k, opt_ptr int_value q) \<in> set fs \<Longrightarrow> pred_option machine_int q \<Longrightarrow> read_ptr conv_int k (table_members fs) = Inr q"
    "(k, opt_list StrV ss) \<in> set fs \<Longrightarrow> read_strings k (table_members fs) = Inr ss"
  unfolding read_string_def read_int_def read_flag_def read_ptr_def read_strings_def read_list_def
  by (erule read_field_table[OF assms];
      auto simp: opt_string_def opt_int_def opt_flag_def opt_ptr_def opt_list_def int_value_def atoi_itoa conv_array_def conv_list_map
        split: option.splits)+

lemma read_table_list:
  assumes "distinct_names fs" "(k, opt_list f xs) \<in> set fs" "\<And>x. x \<in> set xs \<Longrightarrow> f x \<noteq> Null \<and> conv (f x) = Some x"
  shows "read_list conv dflt k (table_members fs) = Inr xs"
  unfolding read_list_def using assms(3)
  by (intro read_field_table[OF assms(1,2)]) (auto simp: opt_list_def conv_array_def conv_list_map)

lemma read_table_ptr:
  assumes "distinct_names fs" "(k, opt_ptr f p) \<in> set fs" "\<And>x. p = Some x \<Longrightarrow> f x \<noteq> Null \<and> conv (f x) = Some x"
  shows "read_ptr conv k (table_members fs) = Inr p"
  unfolding read_ptr_def using assms(3)
  by (intro read_field_table[OF assms(1,2)]) (auto simp: opt_ptr_def split: option.splits)

end
