(* ===== verification/Repository.thy ===== *)
theory Repository
  imports Service Codec Url
begin

text \<open>
  Repositories: the request that creates or updates one and the parameters that all kinds share, \<^verbatim>\<open>artifactory/services/repository.go\<close>,
  and reading repositories, \<^verbatim>\<open>artifactory/services/repositories.go\<close>.

  A struct has the table of its fields and a reader of its members. Slices are lists: with the option \<open>omitempty\<close> an empty
  slice is not written.
\<close>

section \<open>Parameters of all repositories\<close>

record RepositoryBaseParams =
  rb_Rclass :: string
  rb_Key :: string
  rb_ProjectKey :: string
  rb_Environments :: "string list"
  rb_PackageType :: string
  rb_Description :: string
  rb_Notes :: string
  rb_IncludesPattern :: string
  rb_ExcludesPattern :: string
  rb_RepoLayoutRef :: string

definition RepositoryBaseParams_table :: "RepositoryBaseParams \<Rightarrow> field_table" where
  "RepositoryBaseParams_table p =
     [(''rclass'', opt_string (rb_Rclass p)), (''key'', opt_string (rb_Key p)),
      (''projectKey'', opt_string (rb_ProjectKey p)), (''environments'', opt_list StrV (rb_Environments p)),
      (''packageType'', opt_string (rb_PackageType p)), (''description'', opt_string (rb_Description p)),
      (''notes'', opt_string (rb_Notes p)), (''includesPattern'', opt_string (rb_IncludesPattern p)),
      (''excludesPattern'', opt_string (rb_ExcludesPattern p)), (''repoLayoutRef'', opt_string (rb_RepoLayoutRef p))]"

definition read_RepositoryBaseParams :: "members \<Rightarrow> RepositoryBaseParams result" where
  "read_RepositoryBaseParams ms =
     and_then (read_string ''rclass'' ms) (\<lambda>x0. and_then (read_string ''key'' ms) (\<lambda>x1.
     and_then (read_string ''projectKey'' ms) (\<lambda>x2. and_then (read_strings ''environments'' ms) (\<lambda>x3.
     and_then (read_string ''packageType'' ms) (\<lambda>x4. and_then (read_string ''description'' ms) (\<lambda>x5.
     and_then (read_string ''notes'' ms) (\<lambda>x6. and_then (read_string ''includesPattern'' ms) (\<lambda>x7.
     and_then (read_string ''excludesPattern'' ms) (\<lambda>x8.
     and_then (read_string ''repoLayoutRef'' ms) (\<lambda>x9.
       Inr \<lparr>rb_Rclass = x0, rb_Key = x1, rb_ProjectKey = x2, rb_Environments = x3, rb_PackageType = x4,
            rb_Description = x5, rb_Notes = x6, rb_IncludesPattern = x7, rb_ExcludesPattern = x8,
            rb_RepoLayoutRef = x9\<rparr>))))))))))"

lemma read_RepositoryBaseParams_table [table_reads]:
  assumes "distinct_names fs"
  shows "set (RepositoryBaseParams_table p) \<subseteq> set fs \<Longrightarrow> read_RepositoryBaseParams (table_members fs) = Inr p"
  by (cases p) (auto simp: read_RepositoryBaseParams_def RepositoryBaseParams_table_def dest!: table_reads[OF assms])

record AdditionalRepositoryBaseParams =
  ab_BlackedOut :: "bool option"
  ab_XrayIndex :: "bool option"
  ab_PropertySets :: "string list"
  ab_DownloadRedirect :: "bool option"
  ab_PriorityResolution :: "bool option"

definition AdditionalRepositoryBaseParams_table :: "AdditionalRepositoryBaseParams \<Rightarrow> field_table" where
  "AdditionalRepositoryBaseParams_table p =
     [(''blackedOut'', opt_ptr BoolV (ab_BlackedOut p)), (''xrayIndex'', opt_ptr BoolV (ab_XrayIndex p)),
      (''propertySets'', opt_list StrV (ab_PropertySets p)),
      (''downloadRedirect'', opt_ptr BoolV (ab_DownloadRedirect p)),
      (''priorityResolution'', opt_ptr BoolV (ab_PriorityResolution p))]"

definition read_AdditionalRepositoryBaseParams :: "members \<Rightarrow> AdditionalRepositoryBaseParams result" where
  "read_AdditionalRepositoryBaseParams ms =
     and_then (read_ptr conv_bool ''blackedOut'' ms) (\<lambda>x0.
     and_then (read_ptr conv_bool ''xrayIndex'' ms) (\<lambda>x1.
     and_then (read_strings ''propertySets'' ms) (\<lambda>x2.
     and_then (read_ptr conv_bool ''downloadRedirect'' ms) (\<lambda>x3.
     and_then (read_ptr conv_bool ''priorityResolution'' ms) (\<lambda>x4.
       Inr \<lparr>ab_BlackedOut = x0, ab_XrayIndex = x1, ab_PropertySets = x2, ab_DownloadRedirect = x3,
            ab_PriorityResolution = x4\<rparr>)))))"

lemma read_AdditionalRepositoryBaseParams_table [table_reads]:
  assumes "distinct_names fs"
  shows "set (AdditionalRepositoryBaseParams_table p) \<subseteq> set fs \<Longrightarrow> read_AdditionalRepositoryBaseParams (table_members fs) = Inr p"
  by (cases p) (auto simp: read_AdditionalRepositoryBaseParams_def AdditionalRepositoryBaseParams_table_def dest!: table_reads[OF assms])

record CargoRepositoryParams =
  cg_CargoAnonymousAccess :: "bool option"

definition CargoRepositoryParams_table :: "CargoRepositoryParams \<Rightarrow> field_table" where
  "CargoRepositoryParams_table p =
     [(''cargoAnonymousAccess'', opt_ptr BoolV (cg_CargoAnonymousAccess p))]"

definition read_CargoRepositoryParams :: "members \<Rightarrow> CargoRepositoryParams result" where
  "read_CargoRepositoryParams ms =
     and_then (read_ptr conv_bool ''cargoAnonymousAccess'' ms) (\<lambda>x0.
       Inr \<lparr>cg_CargoAnonymousAccess = x0\<rparr>)"

lemma read_CargoRepositoryParams_table [table_reads]:
  assumes "distinct_names fs"
  shows "set (CargoRepositoryParams_table p) \<subseteq> set fs \<Longrightarrow> read_CargoRepositoryParams (table_members fs) = Inr p"
  by (cases p) (auto simp: read_CargoRepositoryParams_def CargoRepositoryParams_table_def dest!: table_reads[OF assms])

record DebianRepositoryParams =
  db_DebianTrivialLayout :: "bool option"
  db_OptionalIndexCompressionFormats :: "string list"

definition DebianRepositoryParams_table :: "DebianRepositoryParams \<Rightarrow> field_table" where
  "DebianRepositoryParams_table p =
     [(''debianTrivialLayout'', opt_ptr BoolV (db_DebianTrivialLayout p)),
      (''optionalIndexCompressionFormats'', opt_list StrV (db_OptionalIndexCompressionFormats p))]"

definition read_DebianRepositoryParams :: "members \<Rightarrow> DebianRepositoryParams result" where
  "read_DebianRepositoryParams ms =
     and_then (read_ptr conv_bool ''debianTrivialLayout'' ms) (\<lambda>x0.
     and_then (read_strings ''optionalIndexCompressionFormats'' ms) (\<lambda>x1.
       Inr \<lparr>db_DebianTrivialLayout = x0, db_OptionalIndexCompressionFormats = x1\<rparr>))"

lemma read_DebianRepositoryParams_table [table_reads]:
  assumes "distinct_names fs"
  shows "set (DebianRepositoryParams_table p) \<subseteq> set fs \<Longrightarrow> read_DebianRepositoryParams (table_members fs) = Inr p"
  by (cases p) (auto simp: read_DebianRepositoryParams_def DebianRepositoryParams_table_def dest!: table_reads[OF assms])

record DockerRepositoryParams =
  dk_MaxUniqueTags :: "int option"
  dk_DockerApiVersion :: string
  dk_BlockPushingSchema1 :: "bool option"
  dk_DockerTagRetention :: "int option"

definition DockerRepositoryParams_table :: "DockerRepositoryParams \<Rightarrow> field_table" where
  "DockerRepositoryParams_table p =
     [(''maxUniqueTags'', opt_ptr int_value (dk_MaxUniqueTags p)),
      (''dockerApiVersion'', opt_string (dk_DockerApiVersion p)),
      (''blockPushingSchema1'', opt_ptr BoolV (dk_BlockPushingSchema1 p)),
      (''dockerTagRetention'', opt_ptr int_value (dk_DockerTagRetention p))]"

definition read_DockerRepositoryParams :: "members \<Rightarrow> DockerRepositoryParams result" where
  "read_DockerRepositoryParams ms =
     and_then (read_ptr conv_int ''maxUniqueTags'' ms) (\<lambda>x0.
     and_then (read_string ''dockerApiVersion'' ms) (\<lambda>x1.
     and_then (read_ptr conv_bool ''blockPushingSchema1'' ms) (\<lambda>x2.
     and_then (read_ptr conv_int ''dockerTagRetention'' ms) (\<lambda>x3.
       Inr \<lparr>dk_MaxUniqueTags = x0, dk_DockerApiVersion = x1, dk_BlockPushingSchema1 = x2,
            dk_DockerTagRetention = x3\<rparr>))))"

definition DockerRepositoryParams_ok :: "DockerRepositoryParams \<Rightarrow> bool" where
  "DockerRepositoryParams_ok p \<longleftrightarrow>
     pred_option machine_int (dk_MaxUniqueTags p) \<and> pred_option machine_int (dk_DockerTagRetention p)"

lemma read_DockerRepositoryParams_table [table_reads]:
  assumes "distinct_names fs"
  shows "set (DockerRepositoryParams_table p) \<subseteq> set fs \<Longrightarrow> DockerRepositoryParams_ok p \<Longrightarrow> read_DockerRepositoryParams (table_members fs) = Inr p"
  by (cases p) (auto simp: read_DockerRepositoryParams_def DockerRepositoryParams_table_def DockerRepositoryParams_ok_def dest!: table_reads[OF assms])

record JavaPackageManagersRepositoryParams =
  jv_MaxUniqueSnapshots :: "int option"
  jv_HandleReleases :: "bool option"
  jv_HandleSnapshots :: "bool option"
  jv_SuppressPomConsistencyChecks :: "bool option"
  jv_SnapshotVersionBehavior :: string
  jv_ChecksumPolicyType :: string

definition JavaPackageManagersRepositoryParams_table :: "JavaPackageManagersRepositoryParams \<Rightarrow> field_table" where
  "JavaPackageManagersRepositoryParams_table p =
     [(''maxUniqueSnapshots'', opt_ptr int_value (jv_MaxUniqueSnapshots p)),
      (''handleReleases'', opt_ptr BoolV (jv_HandleReleases p)),
      (''handleSnapshots'', opt_ptr BoolV (jv_HandleSnapshots p)),
      (''suppressPomConsistencyChecks'', opt_ptr BoolV (jv_SuppressPomConsistencyChecks p)),
      (''snapshotVersionBehavior'', opt_string (jv_SnapshotVersionBehavior p)),
      (''checksumPolicyType'', opt_string (jv_ChecksumPolicyType p))]"

definition read_JavaPackageManagersRepositoryParams :: "members \<Rightarrow> JavaPackageManagersRepositoryParams result" where
  "read_JavaPackageManagersRepositoryParams ms =
     and_then (read_ptr conv_int ''maxUniqueSnapshots'' ms) (\<lambda>x0.
     and_then (read_ptr conv_bool ''handleReleases'' ms) (\<lambda>x1.
     and_then (read_ptr conv_bool ''handleSnapshots'' ms) (\<lambda>x2.
     and_then (read_ptr conv_bool ''suppressPomConsistencyChecks'' ms) (\<lambda>x3.
     and_then (read_string ''snapshotVersionBehavior'' ms) (\<lambda>x4.
     and_then (read_string ''checksumPolicyType'' ms) (\<lambda>x5.
       Inr \<lparr>jv_MaxUniqueSnapshots = x0, jv_HandleReleases = x1, jv_HandleSnapshots = x2,
            jv_SuppressPomConsistencyChecks = x3, jv_SnapshotVersionBehavior = x4,
            jv_ChecksumPolicyType = x5\<rparr>))))))"

definition JavaPackageManagersRepositoryParams_ok :: "JavaPackageManagersRepositoryParams \<Rightarrow> bool" where
  "JavaPackageManagersRepositoryParams_ok p \<longleftrightarrow>
     pred_option machine_int (jv_MaxUniqueSnapshots p)"

lemma read_JavaPackageManagersRepositoryParams_table [table_reads]:
  assumes "distinct_names fs"
  shows "set (JavaPackageManagersRepositoryParams_table p) \<subseteq> set fs \<Longrightarrow> JavaPackageManagersRepositoryParams_ok p \<Longrightarrow> read_JavaPackageManagersRepositoryParams (table_members fs) = Inr p"
  by (cases p) (auto simp: read_JavaPackageManagersRepositoryParams_def JavaPackageManagersRepositoryParams_table_def JavaPackageManagersRepositoryParams_ok_def dest!: table_reads[OF assms])

record KeyPairRefsRepositoryParams =
  kp_PrimaryKeyPairRef :: string
  kp_SecondaryKeyPairRef :: string

definition KeyPairRefsRepositoryParams_table :: "KeyPairRefsRepositoryParams \<Rightarrow> field_table" where
  "KeyPairRefsRepositoryParams_table p =
     [(''primaryKeyPairRef'', opt_string (kp_PrimaryKeyPairRef p)),
      (''secondaryKeyPairRef'', opt_string (kp_SecondaryKeyPairRef p))]"

definition read_KeyPairRefsRepositoryParams :: "members \<Rightarrow> KeyPairRefsRepositoryParams result" where
  "read_KeyPairRefsRepositoryParams ms =
     and_then (read_string ''primaryKeyPairRef'' ms) (\<lambda>x0.
     and_then (read_string ''secondaryKeyPairRef'' ms) (\<lambda>x1.
       Inr \<lparr>kp_PrimaryKeyPairRef = x0, kp_SecondaryKeyPairRef = x1\<rparr>))"

lemma read_KeyPairRefsRepositoryParams_table [table_reads]:
  assumes "distinct_names fs"
  shows "set (KeyPairRefsRepositoryParams_table p) \<subseteq> set fs \<Longrightarrow> read_KeyPairRefsRepositoryParams (table_members fs) = Inr p"
  by (cases p) (auto simp: read_KeyPairRefsRepositoryParams_def KeyPairRefsRepositoryParams_table_def dest!: table_reads[OF assms])

record NugetRepositoryParams =
  ng_MaxUniqueSnapshots :: "int option"
  ng_ForceNugetAuthentication :: "bool option"

definition NugetRepositoryParams_table :: "NugetRepositoryParams \<Rightarrow> field_table" where
  "NugetRepositoryParams_table p =
     [(''maxUniqueSnapshots'', opt_ptr int_value (ng_MaxUniqueSnapshots p)),
      (''forceNugetAuthentication'', opt_ptr BoolV (ng_ForceNugetAuthentication p))]"

definition read_NugetRepositoryParams :: "members \<Rightarrow> NugetRepositoryParams result" where
  "read_NugetRepositoryParams ms =
     and_then (read_ptr conv_int ''maxUniqueSnapshots'' ms) (\<lambda>x0.
     and_then (read_ptr conv_bool ''forceNugetAuthentication'' ms) (\<lambda>x1.
       Inr \<lparr>ng_MaxUniqueSnapshots = x0, ng_ForceNugetAuthentication = x1\<rparr>))"

definition NugetRepositoryParams_ok :: "NugetRepositoryParams \<Rightarrow> bool" where
  "NugetRepositoryParams_ok p \<longleftrightarrow>
     pred_option machine_int (ng_MaxUniqueSnapshots p)"

lemma read_NugetRepositoryParams_table [table_reads]:
  assumes "distinct_names fs"
  shows "set (NugetRepositoryParams_table p) \<subseteq> set fs \<Longrightarrow> NugetRepositoryParams_ok p \<Longrightarrow> read_NugetRepositoryParams (table_members fs) = Inr p"
  by (cases p) (auto simp: read_NugetRepositoryParams_def NugetRepositoryParams_table_def NugetRepositoryParams_ok_def dest!: table_reads[OF assms])

record RpmRepositoryParams =
  rp_YumRootDepth :: "int option"
  rp_CalculateYumMetadata :: "bool option"
  rp_EnableFileListsIndexing :: "bool option"
  rp_YumGroupFileNames :: string

definition RpmRepositoryParams_table :: "RpmRepositoryParams \<Rightarrow> field_table" where
  "RpmRepositoryParams_table p =
     [(''yumRootDepth'', opt_ptr int_value (rp_YumRootDepth p)),
      (''calculateYumMetadata'', opt_ptr BoolV (rp_CalculateYumMetadata p)),
      (''enableFileListsIndexing'', opt_ptr BoolV (rp_EnableFileListsIndexing p)),
      (''yumGroupFileNames'', opt_string (rp_YumGroupFileNames p))]"

definition read_RpmRepositoryParams :: "members \<Rightarrow> RpmRepositoryParams result" where
  "read_RpmRepositoryParams ms =
     and_then (read_ptr conv_int ''yumRootDepth'' ms) (\<lambda>x0.
     and_then (read_ptr conv_bool ''calculateYumMetadata'' ms) (\<lambda>x1.
     and_then (read_ptr conv_bool ''enableFileListsIndexing'' ms) (\<lambda>x2.
     and_then (read_string ''yumGroupFileNames'' ms) (\<lambda>x3.
       Inr \<lparr>rp_YumRootDepth = x0, rp_CalculateYumMetadata = x1, rp_EnableFileListsIndexing = x2,
            rp_YumGroupFileNames = x3\<rparr>))))"

definition RpmRepositoryParams_ok :: "RpmRepositoryParams \<Rightarrow> bool" where
  "RpmRepositoryParams_ok p \<longleftrightarrow>
     pred_option machine_int (rp_YumRootDepth p)"

lemma read_RpmRepositoryParams_table [table_reads]:
  assumes "distinct_names fs"
  shows "set (RpmRepositoryParams_table p) \<subseteq> set fs \<Longrightarrow> RpmRepositoryParams_ok p \<Longrightarrow> read_RpmRepositoryParams (table_members fs) = Inr p"
  by (cases p) (auto simp: read_RpmRepositoryParams_def RpmRepositoryParams_table_def RpmRepositoryParams_ok_def dest!: table_reads[OF assms])

section \<open>Package types\<close>

text \<open>The package types for which there are constructors of parameters.\<close>

datatype package =
    Alpine | Bower | Cargo | Chef | Cocoapods | Composer | Conan | Conda | Cran | Debian | Docker | Gems |
    Generic | Gitlfs | Go | Gradle | Helm | Ivy | Maven | Npm | Nuget | Opkg | P2 | Puppet | Pypi | Rpm |
    Sbt | Swift | Vagrant | Vcs | Yum

text \<open>The zero values of the structs.\<close>

definition zero_RepositoryBaseParams :: RepositoryBaseParams where
  "zero_RepositoryBaseParams =
     \<lparr>rb_Rclass = [], rb_Key = [], rb_ProjectKey = [], rb_Environments = [], rb_PackageType = [],
      rb_Description = [], rb_Notes = [], rb_IncludesPattern = [], rb_ExcludesPattern = [],
      rb_RepoLayoutRef = []\<rparr>"

definition zero_AdditionalRepositoryBaseParams :: AdditionalRepositoryBaseParams where
  "zero_AdditionalRepositoryBaseParams =
     \<lparr>ab_BlackedOut = None, ab_XrayIndex = None, ab_PropertySets = [], ab_DownloadRedirect = None,
      ab_PriorityResolution = None\<rparr>"

definition zero_CargoRepositoryParams :: CargoRepositoryParams where
  "zero_CargoRepositoryParams =
     \<lparr>cg_CargoAnonymousAccess = None\<rparr>"

definition zero_DebianRepositoryParams :: DebianRepositoryParams where
  "zero_DebianRepositoryParams =
     \<lparr>db_DebianTrivialLayout = None, db_OptionalIndexCompressionFormats = []\<rparr>"

definition zero_DockerRepositoryParams :: DockerRepositoryParams where
  "zero_DockerRepositoryParams =
     \<lparr>dk_MaxUniqueTags = None, dk_DockerApiVersion = [], dk_BlockPushingSchema1 = None,
      dk_DockerTagRetention = None\<rparr>"

definition zero_JavaPackageManagersRepositoryParams :: JavaPackageManagersRepositoryParams where
  "zero_JavaPackageManagersRepositoryParams =
     \<lparr>jv_MaxUniqueSnapshots = None, jv_HandleReleases = None, jv_HandleSnapshots = None,
      jv_SuppressPomConsistencyChecks = None, jv_SnapshotVersionBehavior = [], jv_ChecksumPolicyType = []\<rparr>"

definition zero_KeyPairRefsRepositoryParams :: KeyPairRefsRepositoryParams where
  "zero_KeyPairRefsRepositoryParams =
     \<lparr>kp_PrimaryKeyPairRef = [], kp_SecondaryKeyPairRef = []\<rparr>"

definition zero_NugetRepositoryParams :: NugetRepositoryParams where
  "zero_NugetRepositoryParams =
     \<lparr>ng_MaxUniqueSnapshots = None, ng_ForceNugetAuthentication = None\<rparr>"

definition zero_RpmRepositoryParams :: RpmRepositoryParams where
  "zero_RpmRepositoryParams =
     \<lparr>rp_YumRootDepth = None, rp_CalculateYumMetadata = None, rp_EnableFileListsIndexing = None,
      rp_YumGroupFileNames = []\<rparr>"

text \<open>The names of the fields without the case of their letters.\<close>

lemma RepositoryBaseParams_folded: "folded (RepositoryBaseParams_table p) =
    [''rclass'', ''key'', ''projectkey'', ''environments'', ''packagetype'', ''description'', ''notes'',
     ''includespattern'', ''excludespattern'', ''repolayoutref'']"
  unfolding RepositoryBaseParams_table_def folded_append 
  unfolding folded_def list.map fst_conv append.simps by code_simp

lemma AdditionalRepositoryBaseParams_folded: "folded (AdditionalRepositoryBaseParams_table p) =
    [''blackedout'', ''xrayindex'', ''propertysets'', ''downloadredirect'', ''priorityresolution'']"
  unfolding AdditionalRepositoryBaseParams_table_def folded_append 
  unfolding folded_def list.map fst_conv append.simps by code_simp

lemma CargoRepositoryParams_folded: "folded (CargoRepositoryParams_table p) =
    [''cargoanonymousaccess'']"
  unfolding CargoRepositoryParams_table_def folded_append 
  unfolding folded_def list.map fst_conv append.simps by code_simp

lemma DebianRepositoryParams_folded: "folded (DebianRepositoryParams_table p) =
    [''debiantriviallayout'', ''optionalindexcompressionformats'']"
  unfolding DebianRepositoryParams_table_def folded_append 
  unfolding folded_def list.map fst_conv append.simps by code_simp

lemma DockerRepositoryParams_folded: "folded (DockerRepositoryParams_table p) =
    [''maxuniquetags'', ''dockerapiversion'', ''blockpushingschema1'', ''dockertagretention'']"
  unfolding DockerRepositoryParams_table_def folded_append 
  unfolding folded_def list.map fst_conv append.simps by code_simp

lemma JavaPackageManagersRepositoryParams_folded: "folded (JavaPackageManagersRepositoryParams_table p) =
    [''maxuniquesnapshots'', ''handlereleases'', ''handlesnapshots'', ''suppresspomconsistencychecks'',
     ''snapshotversionbehavior'', ''checksumpolicytype'']"
  unfolding JavaPackageManagersRepositoryParams_table_def folded_append 
  unfolding folded_def list.map fst_conv append.simps by code_simp

lemma KeyPairRefsRepositoryParams_folded: "folded (KeyPairRefsRepositoryParams_table p) =
    [''primarykeypairref'', ''secondarykeypairref'']"
  unfolding KeyPairRefsRepositoryParams_table_def folded_append 
  unfolding folded_def list.map fst_conv append.simps by code_simp

lemma NugetRepositoryParams_folded: "folded (NugetRepositoryParams_table p) =
    [''maxuniquesnapshots'', ''forcenugetauthentication'']"
  unfolding NugetRepositoryParams_table_def folded_append 
  unfolding folded_def list.map fst_conv append.simps by code_simp

lemma RpmRepositoryParams_folded: "folded (RpmRepositoryParams_table p) =
    [''yumrootdepth'', ''calculateyummetadata'', ''enablefilelistsindexing'', ''yumgroupfilenames'']"
  unfolding RpmRepositoryParams_table_def folded_append 
  unfolding folded_def list.map fst_conv append.simps by code_simp

(*TAIL*)
section \<open>Creating and updating\<close>

text \<open>\<open>url.PathEscape\<close>.\<close>

definition segment_char :: "char \<Rightarrow> bool" where
  "segment_char c \<longleftrightarrow> unreserved c \<or> c \<in> set ''$&+:=@''"

definition PathEscape :: "string \<Rightarrow> string" where
  "PathEscape s = concat (map (\<lambda>c. if segment_char c then [c] else [CHR ''%'', hex_char (of_char c div 16), hex_char (of_char c mod 16)]) s)"

definition repository_url :: "'w service \<Rightarrow> string \<Rightarrow> string" where
  "repository_url rs repoKey = sv_url rs @ ''api/repositories/'' @ PathEscape repoKey"

definition repo_performRequest :: "'w service \<Rightarrow> bool \<Rightarrow> field_table \<Rightarrow> string \<Rightarrow> 'w \<Rightarrow> (go_error option \<times> 'w) option" where
  "repo_performRequest rs isUpdate params repoKey w =
     (let content = Some (Marshal (ObjV (table_members params)))
      in finished rs [200]
           (if isUpdate then jc_SendPost (sv_client rs) (repository_url rs repoKey) content (json_details rs) w
            else jc_SendPut (sv_client rs) (repository_url rs repoKey) content (json_details rs) w))"

section \<open>Reading repositories\<close>

record RepositoryDetails =
  rd_Key :: string
  rd_Rclass :: string
  rd_Type :: string
  rd_Description :: string
  rd_Url :: string
  rd_PackageType :: string

definition read_RepositoryDetails :: "members \<Rightarrow> RepositoryDetails result" where
  "read_RepositoryDetails ms =
     and_then (read_string ''Key'' ms) (\<lambda>key. and_then (read_string ''Rclass'' ms) (\<lambda>rclass.
     and_then (read_string ''Type'' ms) (\<lambda>type. and_then (read_string ''Description'' ms) (\<lambda>description.
     and_then (read_string ''Url'' ms) (\<lambda>url. and_then (read_string ''PackageType'' ms) (\<lambda>packageType.
       Inr \<lparr>rd_Key = key, rd_Rclass = rclass, rd_Type = type, rd_Description = description, rd_Url = url, rd_PackageType = packageType\<rparr>))))))"

text \<open>All repositories have a type, a single one has a class.\<close>

definition GetRepoType :: "RepositoryDetails \<Rightarrow> string" where
  "GetRepoType rd = (if rd_Rclass rd \<noteq> [] then rd_Rclass rd else rd_Type rd)"

definition repos_sendGet :: "'w service \<Rightarrow> string \<Rightarrow> 'w \<Rightarrow> (string result \<times> 'w) option" where
  "repos_sendGet rs api w =
     after_reply (jc_SendGet (sv_client rs) (sv_url rs @ api) True (details_of rs) w)
       (\<lambda>reply w. Some (map_sum id snd (checked rs [200] reply), w))"

text \<open>The details go to a struct of the caller, which is empty before.\<close>

definition repos_Get :: "'w service \<Rightarrow> (members \<Rightarrow> 'a result) \<Rightarrow> string \<Rightarrow> 'w \<Rightarrow> ('a result \<times> 'w) option" where
  "repos_Get rs rd repoKey w =
     map_option (\<lambda>(body, w). (and_then body (\<lambda>body. and_then (sv_parse rs body) (\<lambda>v. and_then (read_struct v) rd)), w))
       (repos_sendGet rs (''api/repositories/'' @ repoKey) w)"

definition repos_IsExists :: "'w service \<Rightarrow> string \<Rightarrow> 'w \<Rightarrow> (bool result \<times> 'w) option" where
  "repos_IsExists rs repoKey w =
     after_reply (jc_SendGet (sv_client rs) (sv_url rs @ ''api/repositories/'' @ repoKey) True (details_of rs) w)
       (\<lambda>reply w. Some (case reply of
            (_, _, Some e) \<Rightarrow> Inl e
          | (None, _, None) \<Rightarrow> Inl (Panic ''nil pointer dereference'')
          | (Some r, _, None) \<Rightarrow> Inr (StatusCode r = 200), w))"

text \<open>The result of \<open>null\<close> is a nil pointer.\<close>

definition repos_GetWithFilter :: "'w service \<Rightarrow> string \<Rightarrow> string \<Rightarrow> 'w \<Rightarrow> (RepositoryDetails list option result \<times> 'w) option" where
  "repos_GetWithFilter rs repoType packageType w =
     map_option (\<lambda>(body, w). (and_then body (\<lambda>body. and_then (sv_parse rs body) (\<lambda>v.
          if v = Null then Inr None
          else case conv_array (conv_struct read_RepositoryDetails)
                      \<lparr>rd_Key = [], rd_Rclass = [], rd_Type = [], rd_Description = [], rd_Url = [], rd_PackageType = []\<rparr> v of
                 None \<Rightarrow> Inl (Err ''json: cannot unmarshal'') | Some ds \<Rightarrow> Inr (Some ds))), w))
       (repos_sendGet rs (''api/repositories?type='' @ repoType @ ''&packageType='' @ packageType) w)"

definition repos_GetAll :: "'w service \<Rightarrow> 'w \<Rightarrow> (RepositoryDetails list option result \<times> 'w) option" where
  "repos_GetAll rs = repos_GetWithFilter rs [] []"

definition repos_Create :: "'w service \<Rightarrow> field_table \<Rightarrow> string \<Rightarrow> 'w \<Rightarrow> (go_error option \<times> 'w) option" where
  "repos_Create rs params repoName = repo_performRequest rs False params repoName"

definition repos_Update :: "'w service \<Rightarrow> field_table \<Rightarrow> string \<Rightarrow> 'w \<Rightarrow> (go_error option \<times> 'w) option" where
  "repos_Update rs params repoName = repo_performRequest rs True params repoName"

end
