(* ===== verification/LocalRepository.thy ===== *)
theory LocalRepository
  imports Repository
begin

text \<open>
  Local repositories, \<^verbatim>\<open>artifactory/services/localrepository.go\<close>: the parameters of each package type with their JSON, and the
  requests that create and update them.
\<close>

section \<open>Parameters\<close>

record LocalRepositoryBaseParams =
  lr_base :: RepositoryBaseParams
  lr_additional :: AdditionalRepositoryBaseParams
  lr_keyPairRefs :: KeyPairRefsRepositoryParams
  lr_ArchiveBrowsingEnabled :: "bool option"

definition LocalRepositoryBaseParams_table :: "LocalRepositoryBaseParams \<Rightarrow> field_table" where
  "LocalRepositoryBaseParams_table p =
     RepositoryBaseParams_table (lr_base p) @
     AdditionalRepositoryBaseParams_table (lr_additional p) @
     KeyPairRefsRepositoryParams_table (lr_keyPairRefs p) @
     [(''archiveBrowsingEnabled'', opt_ptr BoolV (lr_ArchiveBrowsingEnabled p))]"

definition read_LocalRepositoryBaseParams :: "members \<Rightarrow> LocalRepositoryBaseParams result" where
  "read_LocalRepositoryBaseParams ms =
     and_then (read_RepositoryBaseParams ms) (\<lambda>x0.
     and_then (read_AdditionalRepositoryBaseParams ms) (\<lambda>x1.
     and_then (read_KeyPairRefsRepositoryParams ms) (\<lambda>x2.
     and_then (read_ptr conv_bool ''archiveBrowsingEnabled'' ms) (\<lambda>x3.
       Inr \<lparr>lr_base = x0, lr_additional = x1, lr_keyPairRefs = x2, lr_ArchiveBrowsingEnabled = x3\<rparr>))))"

lemma read_LocalRepositoryBaseParams_table [table_reads]:
  assumes "distinct_names fs"
  shows "set (LocalRepositoryBaseParams_table p) \<subseteq> set fs \<Longrightarrow> read_LocalRepositoryBaseParams (table_members fs) = Inr p"
  by (cases p) (auto simp: read_LocalRepositoryBaseParams_def LocalRepositoryBaseParams_table_def dest!: table_reads[OF assms])

definition zero_LocalRepositoryBaseParams :: LocalRepositoryBaseParams where
  "zero_LocalRepositoryBaseParams =
     \<lparr>lr_base = zero_RepositoryBaseParams, lr_additional = zero_AdditionalRepositoryBaseParams,
      lr_keyPairRefs = zero_KeyPairRefsRepositoryParams, lr_ArchiveBrowsingEnabled = None\<rparr>"

lemma LocalRepositoryBaseParams_folded: "folded (LocalRepositoryBaseParams_table p) =
    [''rclass'', ''key'', ''projectkey'', ''environments'', ''packagetype'', ''description'', ''notes'',
     ''includespattern'', ''excludespattern'', ''repolayoutref'', ''blackedout'', ''xrayindex'', ''propertysets'',
     ''downloadredirect'', ''priorityresolution'', ''primarykeypairref'', ''secondarykeypairref'',
     ''archivebrowsingenabled'']"
  unfolding LocalRepositoryBaseParams_table_def folded_append RepositoryBaseParams_folded AdditionalRepositoryBaseParams_folded KeyPairRefsRepositoryParams_folded
  unfolding folded_def list.map fst_conv append.simps by code_simp

lemma LocalRepositoryBaseParams_names: "distinct_names (LocalRepositoryBaseParams_table p)"
  unfolding distinct_names_folded LocalRepositoryBaseParams_folded by simp

record CargoLocalRepositoryParams =
  cargol_base :: LocalRepositoryBaseParams
  cargol_cargo :: CargoRepositoryParams

definition CargoLocalRepositoryParams_table :: "CargoLocalRepositoryParams \<Rightarrow> field_table" where
  "CargoLocalRepositoryParams_table p =
     LocalRepositoryBaseParams_table (cargol_base p) @
     CargoRepositoryParams_table (cargol_cargo p)"

definition read_CargoLocalRepositoryParams :: "members \<Rightarrow> CargoLocalRepositoryParams result" where
  "read_CargoLocalRepositoryParams ms =
     and_then (read_LocalRepositoryBaseParams ms) (\<lambda>x0.
     and_then (read_CargoRepositoryParams ms) (\<lambda>x1.
       Inr \<lparr>cargol_base = x0, cargol_cargo = x1\<rparr>))"

lemma read_CargoLocalRepositoryParams_table [table_reads]:
  assumes "distinct_names fs"
  shows "set (CargoLocalRepositoryParams_table p) \<subseteq> set fs \<Longrightarrow> read_CargoLocalRepositoryParams (table_members fs) = Inr p"
  by (cases p) (auto simp: read_CargoLocalRepositoryParams_def CargoLocalRepositoryParams_table_def dest!: table_reads[OF assms])

definition zero_CargoLocalRepositoryParams :: CargoLocalRepositoryParams where
  "zero_CargoLocalRepositoryParams =
     \<lparr>cargol_base = zero_LocalRepositoryBaseParams, cargol_cargo = zero_CargoRepositoryParams\<rparr>"

lemma CargoLocalRepositoryParams_folded: "folded (CargoLocalRepositoryParams_table p) =
    [''rclass'', ''key'', ''projectkey'', ''environments'', ''packagetype'', ''description'', ''notes'',
     ''includespattern'', ''excludespattern'', ''repolayoutref'', ''blackedout'', ''xrayindex'', ''propertysets'',
     ''downloadredirect'', ''priorityresolution'', ''primarykeypairref'', ''secondarykeypairref'',
     ''archivebrowsingenabled'', ''cargoanonymousaccess'']"
  unfolding CargoLocalRepositoryParams_table_def folded_append LocalRepositoryBaseParams_folded CargoRepositoryParams_folded
  unfolding folded_def list.map fst_conv append.simps by code_simp

lemma CargoLocalRepositoryParams_names: "distinct_names (CargoLocalRepositoryParams_table p)"
  by (rule distinct_names_extend[OF LocalRepositoryBaseParams_names, where ns = "[''cargoanonymousaccess'']"])
    (simp_all add: CargoLocalRepositoryParams_folded LocalRepositoryBaseParams_folded)

record DebianLocalRepositoryParams =
  debianl_base :: LocalRepositoryBaseParams
  debianl_debian :: DebianRepositoryParams

definition DebianLocalRepositoryParams_table :: "DebianLocalRepositoryParams \<Rightarrow> field_table" where
  "DebianLocalRepositoryParams_table p =
     LocalRepositoryBaseParams_table (debianl_base p) @
     DebianRepositoryParams_table (debianl_debian p)"

definition read_DebianLocalRepositoryParams :: "members \<Rightarrow> DebianLocalRepositoryParams result" where
  "read_DebianLocalRepositoryParams ms =
     and_then (read_LocalRepositoryBaseParams ms) (\<lambda>x0.
     and_then (read_DebianRepositoryParams ms) (\<lambda>x1.
       Inr \<lparr>debianl_base = x0, debianl_debian = x1\<rparr>))"

lemma read_DebianLocalRepositoryParams_table [table_reads]:
  assumes "distinct_names fs"
  shows "set (DebianLocalRepositoryParams_table p) \<subseteq> set fs \<Longrightarrow> read_DebianLocalRepositoryParams (table_members fs) = Inr p"
  by (cases p) (auto simp: read_DebianLocalRepositoryParams_def DebianLocalRepositoryParams_table_def dest!: table_reads[OF assms])

definition zero_DebianLocalRepositoryParams :: DebianLocalRepositoryParams where
  "zero_DebianLocalRepositoryParams =
     \<lparr>debianl_base = zero_LocalRepositoryBaseParams, debianl_debian = zero_DebianRepositoryParams\<rparr>"

lemma DebianLocalRepositoryParams_folded: "folded (DebianLocalRepositoryParams_table p) =
    [''rclass'', ''key'', ''projectkey'', ''environments'', ''packagetype'', ''description'', ''notes'',
     ''includespattern'', ''excludespattern'', ''repolayoutref'', ''blackedout'', ''xrayindex'', ''propertysets'',
     ''downloadredirect'', ''priorityresolution'', ''primarykeypairref'', ''secondarykeypairref'',
     ''archivebrowsingenabled'', ''debiantriviallayout'', ''optionalindexcompressionformats'']"
  unfolding DebianLocalRepositoryParams_table_def folded_append LocalRepositoryBaseParams_folded DebianRepositoryParams_folded
  unfolding folded_def list.map fst_conv append.simps by code_simp

lemma DebianLocalRepositoryParams_names: "distinct_names (DebianLocalRepositoryParams_table p)"
  by (rule distinct_names_extend[OF LocalRepositoryBaseParams_names, where ns = "[''debiantriviallayout'', ''optionalindexcompressionformats'']"])
    (simp_all add: DebianLocalRepositoryParams_folded LocalRepositoryBaseParams_folded)

record DockerLocalRepositoryParams =
  dockerl_base :: LocalRepositoryBaseParams
  dockerl_docker :: DockerRepositoryParams

definition DockerLocalRepositoryParams_table :: "DockerLocalRepositoryParams \<Rightarrow> field_table" where
  "DockerLocalRepositoryParams_table p =
     LocalRepositoryBaseParams_table (dockerl_base p) @
     DockerRepositoryParams_table (dockerl_docker p)"

definition read_DockerLocalRepositoryParams :: "members \<Rightarrow> DockerLocalRepositoryParams result" where
  "read_DockerLocalRepositoryParams ms =
     and_then (read_LocalRepositoryBaseParams ms) (\<lambda>x0.
     and_then (read_DockerRepositoryParams ms) (\<lambda>x1.
       Inr \<lparr>dockerl_base = x0, dockerl_docker = x1\<rparr>))"

definition DockerLocalRepositoryParams_ok :: "DockerLocalRepositoryParams \<Rightarrow> bool" where
  "DockerLocalRepositoryParams_ok p \<longleftrightarrow>
     DockerRepositoryParams_ok (dockerl_docker p)"

lemma read_DockerLocalRepositoryParams_table [table_reads]:
  assumes "distinct_names fs"
  shows "set (DockerLocalRepositoryParams_table p) \<subseteq> set fs \<Longrightarrow> DockerLocalRepositoryParams_ok p \<Longrightarrow> read_DockerLocalRepositoryParams (table_members fs) = Inr p"
  by (cases p) (auto simp: read_DockerLocalRepositoryParams_def DockerLocalRepositoryParams_table_def DockerLocalRepositoryParams_ok_def dest!: table_reads[OF assms])

definition zero_DockerLocalRepositoryParams :: DockerLocalRepositoryParams where
  "zero_DockerLocalRepositoryParams =
     \<lparr>dockerl_base = zero_LocalRepositoryBaseParams, dockerl_docker = zero_DockerRepositoryParams\<rparr>"

lemma DockerLocalRepositoryParams_folded: "folded (DockerLocalRepositoryParams_table p) =
    [''rclass'', ''key'', ''projectkey'', ''environments'', ''packagetype'', ''description'', ''notes'',
     ''includespattern'', ''excludespattern'', ''repolayoutref'', ''blackedout'', ''xrayindex'', ''propertysets'',
     ''downloadredirect'', ''priorityresolution'', ''primarykeypairref'', ''secondarykeypairref'',
     ''archivebrowsingenabled'', ''maxuniquetags'', ''dockerapiversion'', ''blockpushingschema1'',
     ''dockertagretention'']"
  unfolding DockerLocalRepositoryParams_table_def folded_append LocalRepositoryBaseParams_folded DockerRepositoryParams_folded
  unfolding folded_def list.map fst_conv append.simps by code_simp

lemma DockerLocalRepositoryParams_names: "distinct_names (DockerLocalRepositoryParams_table p)"
  by (rule distinct_names_extend[OF LocalRepositoryBaseParams_names, where ns = "[''maxuniquetags'', ''dockerapiversion'', ''blockpushingschema1'', ''dockertagretention'']"])
    (simp_all add: DockerLocalRepositoryParams_folded LocalRepositoryBaseParams_folded)

record GradleLocalRepositoryParams =
  gradlel_base :: LocalRepositoryBaseParams
  gradlel_java :: JavaPackageManagersRepositoryParams

definition GradleLocalRepositoryParams_table :: "GradleLocalRepositoryParams \<Rightarrow> field_table" where
  "GradleLocalRepositoryParams_table p =
     LocalRepositoryBaseParams_table (gradlel_base p) @
     JavaPackageManagersRepositoryParams_table (gradlel_java p)"

definition read_GradleLocalRepositoryParams :: "members \<Rightarrow> GradleLocalRepositoryParams result" where
  "read_GradleLocalRepositoryParams ms =
     and_then (read_LocalRepositoryBaseParams ms) (\<lambda>x0.
     and_then (read_JavaPackageManagersRepositoryParams ms) (\<lambda>x1.
       Inr \<lparr>gradlel_base = x0, gradlel_java = x1\<rparr>))"

definition GradleLocalRepositoryParams_ok :: "GradleLocalRepositoryParams \<Rightarrow> bool" where
  "GradleLocalRepositoryParams_ok p \<longleftrightarrow>
     JavaPackageManagersRepositoryParams_ok (gradlel_java p)"

lemma read_GradleLocalRepositoryParams_table [table_reads]:
  assumes "distinct_names fs"
  shows "set (GradleLocalRepositoryParams_table p) \<subseteq> set fs \<Longrightarrow> GradleLocalRepositoryParams_ok p \<Longrightarrow> read_GradleLocalRepositoryParams (table_members fs) = Inr p"
  by (cases p) (auto simp: read_GradleLocalRepositoryParams_def GradleLocalRepositoryParams_table_def GradleLocalRepositoryParams_ok_def dest!: table_reads[OF assms])

definition zero_GradleLocalRepositoryParams :: GradleLocalRepositoryParams where
  "zero_GradleLocalRepositoryParams =
     \<lparr>gradlel_base = zero_LocalRepositoryBaseParams,
      gradlel_java = zero_JavaPackageManagersRepositoryParams\<rparr>"

lemma GradleLocalRepositoryParams_folded: "folded (GradleLocalRepositoryParams_table p) =
    [''rclass'', ''key'', ''projectkey'', ''environments'', ''packagetype'', ''description'', ''notes'',
     ''includespattern'', ''excludespattern'', ''repolayoutref'', ''blackedout'', ''xrayindex'', ''propertysets'',
     ''downloadredirect'', ''priorityresolution'', ''primarykeypairref'', ''secondarykeypairref'',
     ''archivebrowsingenabled'', ''maxuniquesnapshots'', ''handlereleases'', ''handlesnapshots'',
     ''suppresspomconsistencychecks'', ''snapshotversionbehavior'', ''checksumpolicytype'']"
  unfolding GradleLocalRepositoryParams_table_def folded_append LocalRepositoryBaseParams_folded JavaPackageManagersRepositoryParams_folded
  unfolding folded_def list.map fst_conv append.simps by code_simp

lemma GradleLocalRepositoryParams_names: "distinct_names (GradleLocalRepositoryParams_table p)"
  by (rule distinct_names_extend[OF LocalRepositoryBaseParams_names, where ns = "[''maxuniquesnapshots'', ''handlereleases'', ''handlesnapshots'', ''suppresspomconsistencychecks'', ''snapshotversionbehavior'', ''checksumpolicytype'']"])
    (simp_all add: GradleLocalRepositoryParams_folded LocalRepositoryBaseParams_folded)

record IvyLocalRepositoryParams =
  ivyl_base :: LocalRepositoryBaseParams
  ivyl_java :: JavaPackageManagersRepositoryParams

definition IvyLocalRepositoryParams_table :: "IvyLocalRepositoryParams \<Rightarrow> field_table" where
  "IvyLocalRepositoryParams_table p =
     LocalRepositoryBaseParams_table (ivyl_base p) @
     JavaPackageManagersRepositoryParams_table (ivyl_java p)"

definition read_IvyLocalRepositoryParams :: "members \<Rightarrow> IvyLocalRepositoryParams result" where
  "read_IvyLocalRepositoryParams ms =
     and_then (read_LocalRepositoryBaseParams ms) (\<lambda>x0.
     and_then (read_JavaPackageManagersRepositoryParams ms) (\<lambda>x1.
       Inr \<lparr>ivyl_base = x0, ivyl_java = x1\<rparr>))"

definition IvyLocalRepositoryParams_ok :: "IvyLocalRepositoryParams \<Rightarrow> bool" where
  "IvyLocalRepositoryParams_ok p \<longleftrightarrow>
     JavaPackageManagersRepositoryParams_ok (ivyl_java p)"

lemma read_IvyLocalRepositoryParams_table [table_reads]:
  assumes "distinct_names fs"
  shows "set (IvyLocalRepositoryParams_table p) \<subseteq> set fs \<Longrightarrow> IvyLocalRepositoryParams_ok p \<Longrightarrow> read_IvyLocalRepositoryParams (table_members fs) = Inr p"
  by (cases p) (auto simp: read_IvyLocalRepositoryParams_def IvyLocalRepositoryParams_table_def IvyLocalRepositoryParams_ok_def dest!: table_reads[OF assms])

definition zero_IvyLocalRepositoryParams :: IvyLocalRepositoryParams where
  "zero_IvyLocalRepositoryParams =
     \<lparr>ivyl_base = zero_LocalRepositoryBaseParams, ivyl_java = zero_JavaPackageManagersRepositoryParams\<rparr>"

lemma IvyLocalRepositoryParams_folded: "folded (IvyLocalRepositoryParams_table p) =
    [''rclass'', ''key'', ''projectkey'', ''environments'', ''packagetype'', ''description'', ''notes'',
     ''includespattern'', ''excludespattern'', ''repolayoutref'', ''blackedout'', ''xrayindex'', ''propertysets'',
     ''downloadredirect'', ''priorityresolution'', ''primarykeypairref'', ''secondarykeypairref'',
     ''archivebrowsingenabled'', ''maxuniquesnapshots'', ''handlereleases'', ''handlesnapshots'',
     ''suppresspomconsistencychecks'', ''snapshotversionbehavior'', ''checksumpolicytype'']"
  unfolding IvyLocalRepositoryParams_table_def folded_append LocalRepositoryBaseParams_folded JavaPackageManagersRepositoryParams_folded
  unfolding folded_def list.map fst_conv append.simps by code_simp

lemma IvyLocalRepositoryParams_names: "distinct_names (IvyLocalRepositoryParams_table p)"
  by (rule distinct_names_extend[OF LocalRepositoryBaseParams_names, where ns = "[''maxuniquesnapshots'', ''handlereleases'', ''handlesnapshots'', ''suppresspomconsistencychecks'', ''snapshotversionbehavior'', ''checksumpolicytype'']"])
    (simp_all add: IvyLocalRepositoryParams_folded LocalRepositoryBaseParams_folded)

record MavenLocalRepositoryParams =
  mavenl_base :: LocalRepositoryBaseParams
  mavenl_java :: JavaPackageManagersRepositoryParams

definition MavenLocalRepositoryParams_table :: "MavenLocalRepositoryParams \<Rightarrow> field_table" where
  "MavenLocalRepositoryParams_table p =
     LocalRepositoryBaseParams_table (mavenl_base p) @
     JavaPackageManagersRepositoryParams_table (mavenl_java p)"

definition read_MavenLocalRepositoryParams :: "members \<Rightarrow> MavenLocalRepositoryParams result" where
  "read_MavenLocalRepositoryParams ms =
     and_then (read_LocalRepositoryBaseParams ms) (\<lambda>x0.
     and_then (read_JavaPackageManagersRepositoryParams ms) (\<lambda>x1.
       Inr \<lparr>mavenl_base = x0, mavenl_java = x1\<rparr>))"

definition MavenLocalRepositoryParams_ok :: "MavenLocalRepositoryParams \<Rightarrow> bool" where
  "MavenLocalRepositoryParams_ok p \<longleftrightarrow>
     JavaPackageManagersRepositoryParams_ok (mavenl_java p)"

lemma read_MavenLocalRepositoryParams_table [table_reads]:
  assumes "distinct_names fs"
  shows "set (MavenLocalRepositoryParams_table p) \<subseteq> set fs \<Longrightarrow> MavenLocalRepositoryParams_ok p \<Longrightarrow> read_MavenLocalRepositoryParams (table_members fs) = Inr p"
  by (cases p) (auto simp: read_MavenLocalRepositoryParams_def MavenLocalRepositoryParams_table_def MavenLocalRepositoryParams_ok_def dest!: table_reads[OF assms])

definition zero_MavenLocalRepositoryParams :: MavenLocalRepositoryParams where
  "zero_MavenLocalRepositoryParams =
     \<lparr>mavenl_base = zero_LocalRepositoryBaseParams,
      mavenl_java = zero_JavaPackageManagersRepositoryParams\<rparr>"

lemma MavenLocalRepositoryParams_folded: "folded (MavenLocalRepositoryParams_table p) =
    [''rclass'', ''key'', ''projectkey'', ''environments'', ''packagetype'', ''description'', ''notes'',
     ''includespattern'', ''excludespattern'', ''repolayoutref'', ''blackedout'', ''xrayindex'', ''propertysets'',
     ''downloadredirect'', ''priorityresolution'', ''primarykeypairref'', ''secondarykeypairref'',
     ''archivebrowsingenabled'', ''maxuniquesnapshots'', ''handlereleases'', ''handlesnapshots'',
     ''suppresspomconsistencychecks'', ''snapshotversionbehavior'', ''checksumpolicytype'']"
  unfolding MavenLocalRepositoryParams_table_def folded_append LocalRepositoryBaseParams_folded JavaPackageManagersRepositoryParams_folded
  unfolding folded_def list.map fst_conv append.simps by code_simp

lemma MavenLocalRepositoryParams_names: "distinct_names (MavenLocalRepositoryParams_table p)"
  by (rule distinct_names_extend[OF LocalRepositoryBaseParams_names, where ns = "[''maxuniquesnapshots'', ''handlereleases'', ''handlesnapshots'', ''suppresspomconsistencychecks'', ''snapshotversionbehavior'', ''checksumpolicytype'']"])
    (simp_all add: MavenLocalRepositoryParams_folded LocalRepositoryBaseParams_folded)

record NugetLocalRepositoryParams =
  nugetl_base :: LocalRepositoryBaseParams
  nugetl_nuget :: NugetRepositoryParams

definition NugetLocalRepositoryParams_table :: "NugetLocalRepositoryParams \<Rightarrow> field_table" where
  "NugetLocalRepositoryParams_table p =
     LocalRepositoryBaseParams_table (nugetl_base p) @
     NugetRepositoryParams_table (nugetl_nuget p)"

definition read_NugetLocalRepositoryParams :: "members \<Rightarrow> NugetLocalRepositoryParams result" where
  "read_NugetLocalRepositoryParams ms =
     and_then (read_LocalRepositoryBaseParams ms) (\<lambda>x0.
     and_then (read_NugetRepositoryParams ms) (\<lambda>x1.
       Inr \<lparr>nugetl_base = x0, nugetl_nuget = x1\<rparr>))"

definition NugetLocalRepositoryParams_ok :: "NugetLocalRepositoryParams \<Rightarrow> bool" where
  "NugetLocalRepositoryParams_ok p \<longleftrightarrow>
     NugetRepositoryParams_ok (nugetl_nuget p)"

lemma read_NugetLocalRepositoryParams_table [table_reads]:
  assumes "distinct_names fs"
  shows "set (NugetLocalRepositoryParams_table p) \<subseteq> set fs \<Longrightarrow> NugetLocalRepositoryParams_ok p \<Longrightarrow> read_NugetLocalRepositoryParams (table_members fs) = Inr p"
  by (cases p) (auto simp: read_NugetLocalRepositoryParams_def NugetLocalRepositoryParams_table_def NugetLocalRepositoryParams_ok_def dest!: table_reads[OF assms])

definition zero_NugetLocalRepositoryParams :: NugetLocalRepositoryParams where
  "zero_NugetLocalRepositoryParams =
     \<lparr>nugetl_base = zero_LocalRepositoryBaseParams, nugetl_nuget = zero_NugetRepositoryParams\<rparr>"

lemma NugetLocalRepositoryParams_folded: "folded (NugetLocalRepositoryParams_table p) =
    [''rclass'', ''key'', ''projectkey'', ''environments'', ''packagetype'', ''description'', ''notes'',
     ''includespattern'', ''excludespattern'', ''repolayoutref'', ''blackedout'', ''xrayindex'', ''propertysets'',
     ''downloadredirect'', ''priorityresolution'', ''primarykeypairref'', ''secondarykeypairref'',
     ''archivebrowsingenabled'', ''maxuniquesnapshots'', ''forcenugetauthentication'']"
  unfolding NugetLocalRepositoryParams_table_def folded_append LocalRepositoryBaseParams_folded NugetRepositoryParams_folded
  unfolding folded_def list.map fst_conv append.simps by code_simp

lemma NugetLocalRepositoryParams_names: "distinct_names (NugetLocalRepositoryParams_table p)"
  by (rule distinct_names_extend[OF LocalRepositoryBaseParams_names, where ns = "[''maxuniquesnapshots'', ''forcenugetauthentication'']"])
    (simp_all add: NugetLocalRepositoryParams_folded LocalRepositoryBaseParams_folded)

record RpmLocalRepositoryParams =
  rpml_base :: LocalRepositoryBaseParams
  rpml_rpm :: RpmRepositoryParams

definition RpmLocalRepositoryParams_table :: "RpmLocalRepositoryParams \<Rightarrow> field_table" where
  "RpmLocalRepositoryParams_table p =
     LocalRepositoryBaseParams_table (rpml_base p) @
     RpmRepositoryParams_table (rpml_rpm p)"

definition read_RpmLocalRepositoryParams :: "members \<Rightarrow> RpmLocalRepositoryParams result" where
  "read_RpmLocalRepositoryParams ms =
     and_then (read_LocalRepositoryBaseParams ms) (\<lambda>x0. and_then (read_RpmRepositoryParams ms) (\<lambda>x1.
       Inr \<lparr>rpml_base = x0, rpml_rpm = x1\<rparr>))"

definition RpmLocalRepositoryParams_ok :: "RpmLocalRepositoryParams \<Rightarrow> bool" where
  "RpmLocalRepositoryParams_ok p \<longleftrightarrow>
     RpmRepositoryParams_ok (rpml_rpm p)"

lemma read_RpmLocalRepositoryParams_table [table_reads]:
  assumes "distinct_names fs"
  shows "set (RpmLocalRepositoryParams_table p) \<subseteq> set fs \<Longrightarrow> RpmLocalRepositoryParams_ok p \<Longrightarrow> read_RpmLocalRepositoryParams (table_members fs) = Inr p"
  by (cases p) (auto simp: read_RpmLocalRepositoryParams_def RpmLocalRepositoryParams_table_def RpmLocalRepositoryParams_ok_def dest!: table_reads[OF assms])

definition zero_RpmLocalRepositoryParams :: RpmLocalRepositoryParams where
  "zero_RpmLocalRepositoryParams =
     \<lparr>rpml_base = zero_LocalRepositoryBaseParams, rpml_rpm = zero_RpmRepositoryParams\<rparr>"

lemma RpmLocalRepositoryParams_folded: "folded (RpmLocalRepositoryParams_table p) =
    [''rclass'', ''key'', ''projectkey'', ''environments'', ''packagetype'', ''description'', ''notes'',
     ''includespattern'', ''excludespattern'', ''repolayoutref'', ''blackedout'', ''xrayindex'', ''propertysets'',
     ''downloadredirect'', ''priorityresolution'', ''primarykeypairref'', ''secondarykeypairref'',
     ''archivebrowsingenabled'', ''yumrootdepth'', ''calculateyummetadata'', ''enablefilelistsindexing'',
     ''yumgroupfilenames'']"
  unfolding RpmLocalRepositoryParams_table_def folded_append LocalRepositoryBaseParams_folded RpmRepositoryParams_folded
  unfolding folded_def list.map fst_conv append.simps by code_simp

lemma RpmLocalRepositoryParams_names: "distinct_names (RpmLocalRepositoryParams_table p)"
  by (rule distinct_names_extend[OF LocalRepositoryBaseParams_names, where ns = "[''yumrootdepth'', ''calculateyummetadata'', ''enablefilelistsindexing'', ''yumgroupfilenames'']"])
    (simp_all add: RpmLocalRepositoryParams_folded LocalRepositoryBaseParams_folded)

record SbtLocalRepositoryParams =
  sbtl_base :: LocalRepositoryBaseParams
  sbtl_java :: JavaPackageManagersRepositoryParams

definition SbtLocalRepositoryParams_table :: "SbtLocalRepositoryParams \<Rightarrow> field_table" where
  "SbtLocalRepositoryParams_table p =
     LocalRepositoryBaseParams_table (sbtl_base p) @
     JavaPackageManagersRepositoryParams_table (sbtl_java p)"

definition read_SbtLocalRepositoryParams :: "members \<Rightarrow> SbtLocalRepositoryParams result" where
  "read_SbtLocalRepositoryParams ms =
     and_then (read_LocalRepositoryBaseParams ms) (\<lambda>x0.
     and_then (read_JavaPackageManagersRepositoryParams ms) (\<lambda>x1.
       Inr \<lparr>sbtl_base = x0, sbtl_java = x1\<rparr>))"

definition SbtLocalRepositoryParams_ok :: "SbtLocalRepositoryParams \<Rightarrow> bool" where
  "SbtLocalRepositoryParams_ok p \<longleftrightarrow>
     JavaPackageManagersRepositoryParams_ok (sbtl_java p)"

lemma read_SbtLocalRepositoryParams_table [table_reads]:
  assumes "distinct_names fs"
  shows "set (SbtLocalRepositoryParams_table p) \<subseteq> set fs \<Longrightarrow> SbtLocalRepositoryParams_ok p \<Longrightarrow> read_SbtLocalRepositoryParams (table_members fs) = Inr p"
  by (cases p) (auto simp: read_SbtLocalRepositoryParams_def SbtLocalRepositoryParams_table_def SbtLocalRepositoryParams_ok_def dest!: table_reads[OF assms])

definition zero_SbtLocalRepositoryParams :: SbtLocalRepositoryParams where
  "zero_SbtLocalRepositoryParams =
     \<lparr>sbtl_base = zero_LocalRepositoryBaseParams, sbtl_java = zero_JavaPackageManagersRepositoryParams\<rparr>"

lemma SbtLocalRepositoryParams_folded: "folded (SbtLocalRepositoryParams_table p) =
    [''rclass'', ''key'', ''projectkey'', ''environments'', ''packagetype'', ''description'', ''notes'',
     ''includespattern'', ''excludespattern'', ''repolayoutref'', ''blackedout'', ''xrayindex'', ''propertysets'',
     ''downloadredirect'', ''priorityresolution'', ''primarykeypairref'', ''secondarykeypairref'',
     ''archivebrowsingenabled'', ''maxuniquesnapshots'', ''handlereleases'', ''handlesnapshots'',
     ''suppresspomconsistencychecks'', ''snapshotversionbehavior'', ''checksumpolicytype'']"
  unfolding SbtLocalRepositoryParams_table_def folded_append LocalRepositoryBaseParams_folded JavaPackageManagersRepositoryParams_folded
  unfolding folded_def list.map fst_conv append.simps by code_simp

lemma SbtLocalRepositoryParams_names: "distinct_names (SbtLocalRepositoryParams_table p)"
  by (rule distinct_names_extend[OF LocalRepositoryBaseParams_names, where ns = "[''maxuniquesnapshots'', ''handlereleases'', ''handlesnapshots'', ''suppresspomconsistencychecks'', ''snapshotversionbehavior'', ''checksumpolicytype'']"])
    (simp_all add: SbtLocalRepositoryParams_folded LocalRepositoryBaseParams_folded)

record YumLocalRepositoryParams =
  yuml_base :: LocalRepositoryBaseParams
  yuml_rpm :: RpmRepositoryParams

definition YumLocalRepositoryParams_table :: "YumLocalRepositoryParams \<Rightarrow> field_table" where
  "YumLocalRepositoryParams_table p =
     LocalRepositoryBaseParams_table (yuml_base p) @
     RpmRepositoryParams_table (yuml_rpm p)"

definition read_YumLocalRepositoryParams :: "members \<Rightarrow> YumLocalRepositoryParams result" where
  "read_YumLocalRepositoryParams ms =
     and_then (read_LocalRepositoryBaseParams ms) (\<lambda>x0. and_then (read_RpmRepositoryParams ms) (\<lambda>x1.
       Inr \<lparr>yuml_base = x0, yuml_rpm = x1\<rparr>))"

definition YumLocalRepositoryParams_ok :: "YumLocalRepositoryParams \<Rightarrow> bool" where
  "YumLocalRepositoryParams_ok p \<longleftrightarrow>
     RpmRepositoryParams_ok (yuml_rpm p)"

lemma read_YumLocalRepositoryParams_table [table_reads]:
  assumes "distinct_names fs"
  shows "set (YumLocalRepositoryParams_table p) \<subseteq> set fs \<Longrightarrow> YumLocalRepositoryParams_ok p \<Longrightarrow> read_YumLocalRepositoryParams (table_members fs) = Inr p"
  by (cases p) (auto simp: read_YumLocalRepositoryParams_def YumLocalRepositoryParams_table_def YumLocalRepositoryParams_ok_def dest!: table_reads[OF assms])

definition zero_YumLocalRepositoryParams :: YumLocalRepositoryParams where
  "zero_YumLocalRepositoryParams =
     \<lparr>yuml_base = zero_LocalRepositoryBaseParams, yuml_rpm = zero_RpmRepositoryParams\<rparr>"

lemma YumLocalRepositoryParams_folded: "folded (YumLocalRepositoryParams_table p) =
    [''rclass'', ''key'', ''projectkey'', ''environments'', ''packagetype'', ''description'', ''notes'',
     ''includespattern'', ''excludespattern'', ''repolayoutref'', ''blackedout'', ''xrayindex'', ''propertysets'',
     ''downloadredirect'', ''priorityresolution'', ''primarykeypairref'', ''secondarykeypairref'',
     ''archivebrowsingenabled'', ''yumrootdepth'', ''calculateyummetadata'', ''enablefilelistsindexing'',
     ''yumgroupfilenames'']"
  unfolding YumLocalRepositoryParams_table_def folded_append LocalRepositoryBaseParams_folded RpmRepositoryParams_folded
  unfolding folded_def list.map fst_conv append.simps by code_simp

lemma YumLocalRepositoryParams_names: "distinct_names (YumLocalRepositoryParams_table p)"
  by (rule distinct_names_extend[OF LocalRepositoryBaseParams_names, where ns = "[''yumrootdepth'', ''calculateyummetadata'', ''enablefilelistsindexing'', ''yumgroupfilenames'']"])
    (simp_all add: YumLocalRepositoryParams_folded LocalRepositoryBaseParams_folded)

section \<open>Any local repository\<close>

text \<open>A struct without fields of its own is the base.\<close>

datatype LocalRepositoryParams =
    PlainLocal LocalRepositoryBaseParams
  | CargoLocal CargoLocalRepositoryParams
  | DebianLocal DebianLocalRepositoryParams
  | DockerLocal DockerLocalRepositoryParams
  | GradleLocal GradleLocalRepositoryParams
  | IvyLocal IvyLocalRepositoryParams
  | MavenLocal MavenLocalRepositoryParams
  | NugetLocal NugetLocalRepositoryParams
  | RpmLocal RpmLocalRepositoryParams
  | SbtLocal SbtLocalRepositoryParams
  | YumLocal YumLocalRepositoryParams

fun local_base :: "LocalRepositoryParams \<Rightarrow> LocalRepositoryBaseParams" where
  "local_base (PlainLocal p) = p"
| "local_base (CargoLocal p) = cargol_base p"
| "local_base (DebianLocal p) = debianl_base p"
| "local_base (DockerLocal p) = dockerl_base p"
| "local_base (GradleLocal p) = gradlel_base p"
| "local_base (IvyLocal p) = ivyl_base p"
| "local_base (MavenLocal p) = mavenl_base p"
| "local_base (NugetLocal p) = nugetl_base p"
| "local_base (RpmLocal p) = rpml_base p"
| "local_base (SbtLocal p) = sbtl_base p"
| "local_base (YumLocal p) = yuml_base p"

fun local_table :: "LocalRepositoryParams \<Rightarrow> field_table" where
  "local_table (PlainLocal p) = LocalRepositoryBaseParams_table p"
| "local_table (CargoLocal p) = CargoLocalRepositoryParams_table p"
| "local_table (DebianLocal p) = DebianLocalRepositoryParams_table p"
| "local_table (DockerLocal p) = DockerLocalRepositoryParams_table p"
| "local_table (GradleLocal p) = GradleLocalRepositoryParams_table p"
| "local_table (IvyLocal p) = IvyLocalRepositoryParams_table p"
| "local_table (MavenLocal p) = MavenLocalRepositoryParams_table p"
| "local_table (NugetLocal p) = NugetLocalRepositoryParams_table p"
| "local_table (RpmLocal p) = RpmLocalRepositoryParams_table p"
| "local_table (SbtLocal p) = SbtLocalRepositoryParams_table p"
| "local_table (YumLocal p) = YumLocalRepositoryParams_table p"

fun local_ok :: "LocalRepositoryParams \<Rightarrow> bool" where
  "local_ok (PlainLocal p) = True"
| "local_ok (CargoLocal p) = True"
| "local_ok (DebianLocal p) = True"
| "local_ok (DockerLocal p) = DockerLocalRepositoryParams_ok p"
| "local_ok (GradleLocal p) = GradleLocalRepositoryParams_ok p"
| "local_ok (IvyLocal p) = IvyLocalRepositoryParams_ok p"
| "local_ok (MavenLocal p) = MavenLocalRepositoryParams_ok p"
| "local_ok (NugetLocal p) = NugetLocalRepositoryParams_ok p"
| "local_ok (RpmLocal p) = RpmLocalRepositoryParams_ok p"
| "local_ok (SbtLocal p) = SbtLocalRepositoryParams_ok p"
| "local_ok (YumLocal p) = YumLocalRepositoryParams_ok p"

text \<open>Reading into a struct of the type that the first argument has.\<close>

fun read_local :: "LocalRepositoryParams \<Rightarrow> members \<Rightarrow> LocalRepositoryParams result" where
  "read_local (PlainLocal _) ms = map_sum id PlainLocal (read_LocalRepositoryBaseParams ms)"
| "read_local (CargoLocal _) ms = map_sum id CargoLocal (read_CargoLocalRepositoryParams ms)"
| "read_local (DebianLocal _) ms = map_sum id DebianLocal (read_DebianLocalRepositoryParams ms)"
| "read_local (DockerLocal _) ms = map_sum id DockerLocal (read_DockerLocalRepositoryParams ms)"
| "read_local (GradleLocal _) ms = map_sum id GradleLocal (read_GradleLocalRepositoryParams ms)"
| "read_local (IvyLocal _) ms = map_sum id IvyLocal (read_IvyLocalRepositoryParams ms)"
| "read_local (MavenLocal _) ms = map_sum id MavenLocal (read_MavenLocalRepositoryParams ms)"
| "read_local (NugetLocal _) ms = map_sum id NugetLocal (read_NugetLocalRepositoryParams ms)"
| "read_local (RpmLocal _) ms = map_sum id RpmLocal (read_RpmLocalRepositoryParams ms)"
| "read_local (SbtLocal _) ms = map_sum id SbtLocal (read_SbtLocalRepositoryParams ms)"
| "read_local (YumLocal _) ms = map_sum id YumLocal (read_YumLocalRepositoryParams ms)"

definition NewLocalRepositoryBaseParams :: LocalRepositoryBaseParams where
  "NewLocalRepositoryBaseParams = zero_LocalRepositoryBaseParams\<lparr>lr_base := zero_RepositoryBaseParams\<lparr>rb_Rclass := ''local''\<rparr>\<rparr>"

definition NewLocalRepositoryPackageParams :: "string \<Rightarrow> LocalRepositoryBaseParams" where
  "NewLocalRepositoryPackageParams packageType =
     zero_LocalRepositoryBaseParams\<lparr>lr_base := zero_RepositoryBaseParams\<lparr>rb_Rclass := ''local'', rb_PackageType := packageType\<rparr>\<rparr>"

fun NewLocalRepositoryParams :: "package \<Rightarrow> LocalRepositoryParams option" where
  "NewLocalRepositoryParams Alpine = Some (PlainLocal (NewLocalRepositoryPackageParams ''alpine''))"
| "NewLocalRepositoryParams Bower = Some (PlainLocal (NewLocalRepositoryPackageParams ''bower''))"
| "NewLocalRepositoryParams Cargo = Some (CargoLocal (zero_CargoLocalRepositoryParams\<lparr>cargol_base := NewLocalRepositoryPackageParams ''cargo''\<rparr>))"
| "NewLocalRepositoryParams Chef = Some (PlainLocal (NewLocalRepositoryPackageParams ''chef''))"
| "NewLocalRepositoryParams Cocoapods = Some (PlainLocal (NewLocalRepositoryPackageParams ''cocoapods''))"
| "NewLocalRepositoryParams Composer = Some (PlainLocal (NewLocalRepositoryPackageParams ''composer''))"
| "NewLocalRepositoryParams Conan = Some (PlainLocal (NewLocalRepositoryPackageParams ''conan''))"
| "NewLocalRepositoryParams Conda = Some (PlainLocal (NewLocalRepositoryPackageParams ''conda''))"
| "NewLocalRepositoryParams Cran = Some (PlainLocal (NewLocalRepositoryPackageParams ''cran''))"
| "NewLocalRepositoryParams Debian = Some (DebianLocal (zero_DebianLocalRepositoryParams\<lparr>debianl_base := NewLocalRepositoryPackageParams ''debian''\<rparr>))"
| "NewLocalRepositoryParams Docker = Some (DockerLocal (zero_DockerLocalRepositoryParams\<lparr>dockerl_base := NewLocalRepositoryPackageParams ''docker''\<rparr>))"
| "NewLocalRepositoryParams Gems = Some (PlainLocal (NewLocalRepositoryPackageParams ''gems''))"
| "NewLocalRepositoryParams Generic = Some (PlainLocal (NewLocalRepositoryPackageParams ''generic''))"
| "NewLocalRepositoryParams Gitlfs = Some (PlainLocal (NewLocalRepositoryPackageParams ''gitlfs''))"
| "NewLocalRepositoryParams Go = Some (PlainLocal (NewLocalRepositoryPackageParams ''go''))"
| "NewLocalRepositoryParams Gradle = Some (GradleLocal (zero_GradleLocalRepositoryParams\<lparr>gradlel_base := NewLocalRepositoryPackageParams ''gradle''\<rparr>))"
| "NewLocalRepositoryParams Helm = Some (PlainLocal (NewLocalRepositoryPackageParams ''helm''))"
| "NewLocalRepositoryParams Ivy = Some (IvyLocal (zero_IvyLocalRepositoryParams\<lparr>ivyl_base := NewLocalRepositoryPackageParams ''ivy''\<rparr>))"
| "NewLocalRepositoryParams Maven = Some (MavenLocal (zero_MavenLocalRepositoryParams\<lparr>mavenl_base := NewLocalRepositoryPackageParams ''maven''\<rparr>))"
| "NewLocalRepositoryParams Npm = Some (PlainLocal (NewLocalRepositoryPackageParams ''npm''))"
| "NewLocalRepositoryParams Nuget = Some (NugetLocal (zero_NugetLocalRepositoryParams\<lparr>nugetl_base := NewLocalRepositoryPackageParams ''nuget''\<rparr>))"
| "NewLocalRepositoryParams Opkg = Some (PlainLocal (NewLocalRepositoryPackageParams ''opkg''))"
| "NewLocalRepositoryParams Puppet = Some (PlainLocal (NewLocalRepositoryPackageParams ''puppet''))"
| "NewLocalRepositoryParams Pypi = Some (PlainLocal (NewLocalRepositoryPackageParams ''pypi''))"
| "NewLocalRepositoryParams Rpm = Some (RpmLocal (zero_RpmLocalRepositoryParams\<lparr>rpml_base := NewLocalRepositoryPackageParams ''rpm''\<rparr>))"
| "NewLocalRepositoryParams Sbt = Some (SbtLocal (zero_SbtLocalRepositoryParams\<lparr>sbtl_base := NewLocalRepositoryPackageParams ''sbt''\<rparr>))"
| "NewLocalRepositoryParams Swift = Some (PlainLocal (NewLocalRepositoryPackageParams ''swift''))"
| "NewLocalRepositoryParams Vagrant = Some (PlainLocal (NewLocalRepositoryPackageParams ''vagrant''))"
| "NewLocalRepositoryParams Yum = Some (YumLocal (zero_YumLocalRepositoryParams\<lparr>yuml_base := NewLocalRepositoryPackageParams ''yum''\<rparr>))"
| "NewLocalRepositoryParams _ = None"

text \<open>The methods of the service, one for each struct.\<close>

definition LocalRepositoryService :: "'w service \<Rightarrow> bool \<Rightarrow> LocalRepositoryParams \<Rightarrow> 'w \<Rightarrow> (go_error option \<times> 'w) option" where
  "LocalRepositoryService rs isUpdate params = repo_performRequest rs isUpdate (local_table params) (rb_Key (lr_base (local_base params)))"

lemma read_local_shown:
  assumes "distinct_names fs"
  shows "set (local_table p) \<subseteq> set fs \<Longrightarrow> local_ok p \<Longrightarrow> read_local p (table_members fs) = Inr p"
  by (cases p) (simp_all add: read_LocalRepositoryBaseParams_table[OF assms]
    read_CargoLocalRepositoryParams_table[OF assms]
    read_DebianLocalRepositoryParams_table[OF assms]
    read_DockerLocalRepositoryParams_table[OF assms]
    read_GradleLocalRepositoryParams_table[OF assms]
    read_IvyLocalRepositoryParams_table[OF assms]
    read_MavenLocalRepositoryParams_table[OF assms]
    read_NugetLocalRepositoryParams_table[OF assms]
    read_RpmLocalRepositoryParams_table[OF assms]
    read_SbtLocalRepositoryParams_table[OF assms]
    read_YumLocalRepositoryParams_table[OF assms])

lemma local_names: "distinct_names (local_table p)"
  by (cases p) (simp_all add: LocalRepositoryBaseParams_names
    CargoLocalRepositoryParams_names
    DebianLocalRepositoryParams_names
    DockerLocalRepositoryParams_names
    GradleLocalRepositoryParams_names
    IvyLocalRepositoryParams_names
    MavenLocalRepositoryParams_names
    NugetLocalRepositoryParams_names
    RpmLocalRepositoryParams_names
    SbtLocalRepositoryParams_names
    YumLocalRepositoryParams_names)

end
