(* ===== verification/RemoteRepository.thy ===== *)
theory RemoteRepository
  imports Repository
begin

text \<open>
  Remote repositories, \<^verbatim>\<open>artifactory/services/remoterepository.go\<close>: the parameters of each package type with their JSON, and the
  requests that create and update them.
\<close>

section \<open>Parameters\<close>

record ContentSynchronisationStatistics =
  cst_Enabled :: "bool option"

definition ContentSynchronisationStatistics_table :: "ContentSynchronisationStatistics \<Rightarrow> field_table" where
  "ContentSynchronisationStatistics_table p =
     [(''enabled'', opt_ptr BoolV (cst_Enabled p))]"

definition read_ContentSynchronisationStatistics :: "members \<Rightarrow> ContentSynchronisationStatistics result" where
  "read_ContentSynchronisationStatistics ms =
     and_then (read_ptr conv_bool ''enabled'' ms) (\<lambda>x0.
       Inr \<lparr>cst_Enabled = x0\<rparr>)"

lemma read_ContentSynchronisationStatistics_table [table_reads]:
  assumes "distinct_names fs"
  shows "set (ContentSynchronisationStatistics_table p) \<subseteq> set fs \<Longrightarrow> read_ContentSynchronisationStatistics (table_members fs) = Inr p"
  by (cases p) (auto simp: read_ContentSynchronisationStatistics_def ContentSynchronisationStatistics_table_def dest!: table_reads[OF assms])

lemma ContentSynchronisationStatistics_names: "distinct_names (ContentSynchronisationStatistics_table p)"
  unfolding distinct_names_def ContentSynchronisationStatistics_table_def list.map fst_conv by code_simp

lemma read_ContentSynchronisationStatistics_ptr [table_reads]:
  assumes "distinct_names fs"
  shows "(k, opt_ptr (\<lambda>x. ObjV (table_members (ContentSynchronisationStatistics_table x))) q) \<in> set fs \<Longrightarrow>
    read_ptr (conv_struct read_ContentSynchronisationStatistics) k (table_members fs) = Inr q"
  by (erule read_table_ptr[OF assms]) (auto simp: conv_struct_def read_ContentSynchronisationStatistics_table[OF ContentSynchronisationStatistics_names subset_refl])

record ContentSynchronisationProperties =
  csp_Enabled :: "bool option"

definition ContentSynchronisationProperties_table :: "ContentSynchronisationProperties \<Rightarrow> field_table" where
  "ContentSynchronisationProperties_table p =
     [(''enabled'', opt_ptr BoolV (csp_Enabled p))]"

definition read_ContentSynchronisationProperties :: "members \<Rightarrow> ContentSynchronisationProperties result" where
  "read_ContentSynchronisationProperties ms =
     and_then (read_ptr conv_bool ''enabled'' ms) (\<lambda>x0.
       Inr \<lparr>csp_Enabled = x0\<rparr>)"

lemma read_ContentSynchronisationProperties_table [table_reads]:
  assumes "distinct_names fs"
  shows "set (ContentSynchronisationProperties_table p) \<subseteq> set fs \<Longrightarrow> read_ContentSynchronisationProperties (table_members fs) = Inr p"
  by (cases p) (auto simp: read_ContentSynchronisationProperties_def ContentSynchronisationProperties_table_def dest!: table_reads[OF assms])

lemma ContentSynchronisationProperties_names: "distinct_names (ContentSynchronisationProperties_table p)"
  unfolding distinct_names_def ContentSynchronisationProperties_table_def list.map fst_conv by code_simp

lemma read_ContentSynchronisationProperties_ptr [table_reads]:
  assumes "distinct_names fs"
  shows "(k, opt_ptr (\<lambda>x. ObjV (table_members (ContentSynchronisationProperties_table x))) q) \<in> set fs \<Longrightarrow>
    read_ptr (conv_struct read_ContentSynchronisationProperties) k (table_members fs) = Inr q"
  by (erule read_table_ptr[OF assms]) (auto simp: conv_struct_def read_ContentSynchronisationProperties_table[OF ContentSynchronisationProperties_names subset_refl])

record ContentSynchronisationSource =
  css_OriginAbsenceDetection :: "bool option"

definition ContentSynchronisationSource_table :: "ContentSynchronisationSource \<Rightarrow> field_table" where
  "ContentSynchronisationSource_table p =
     [(''originAbsenceDetection'', opt_ptr BoolV (css_OriginAbsenceDetection p))]"

definition read_ContentSynchronisationSource :: "members \<Rightarrow> ContentSynchronisationSource result" where
  "read_ContentSynchronisationSource ms =
     and_then (read_ptr conv_bool ''originAbsenceDetection'' ms) (\<lambda>x0.
       Inr \<lparr>css_OriginAbsenceDetection = x0\<rparr>)"

lemma read_ContentSynchronisationSource_table [table_reads]:
  assumes "distinct_names fs"
  shows "set (ContentSynchronisationSource_table p) \<subseteq> set fs \<Longrightarrow> read_ContentSynchronisationSource (table_members fs) = Inr p"
  by (cases p) (auto simp: read_ContentSynchronisationSource_def ContentSynchronisationSource_table_def dest!: table_reads[OF assms])

lemma ContentSynchronisationSource_names: "distinct_names (ContentSynchronisationSource_table p)"
  unfolding distinct_names_def ContentSynchronisationSource_table_def list.map fst_conv by code_simp

lemma read_ContentSynchronisationSource_ptr [table_reads]:
  assumes "distinct_names fs"
  shows "(k, opt_ptr (\<lambda>x. ObjV (table_members (ContentSynchronisationSource_table x))) q) \<in> set fs \<Longrightarrow>
    read_ptr (conv_struct read_ContentSynchronisationSource) k (table_members fs) = Inr q"
  by (erule read_table_ptr[OF assms]) (auto simp: conv_struct_def read_ContentSynchronisationSource_table[OF ContentSynchronisationSource_names subset_refl])

record ContentSynchronisation =
  cs_Enabled :: "bool option"
  cs_Statistics :: "ContentSynchronisationStatistics option"
  cs_Properties :: "ContentSynchronisationProperties option"
  cs_Source :: "ContentSynchronisationSource option"

definition ContentSynchronisation_table :: "ContentSynchronisation \<Rightarrow> field_table" where
  "ContentSynchronisation_table p =
     [(''enabled'', opt_ptr BoolV (cs_Enabled p)),
      (''statistics'', opt_ptr (\<lambda>x. ObjV (table_members (ContentSynchronisationStatistics_table x))) (cs_Statistics p)),
      (''properties'', opt_ptr (\<lambda>x. ObjV (table_members (ContentSynchronisationProperties_table x))) (cs_Properties p)),
      (''source'', opt_ptr (\<lambda>x. ObjV (table_members (ContentSynchronisationSource_table x))) (cs_Source p))]"

definition read_ContentSynchronisation :: "members \<Rightarrow> ContentSynchronisation result" where
  "read_ContentSynchronisation ms =
     and_then (read_ptr conv_bool ''enabled'' ms) (\<lambda>x0.
     and_then (read_ptr (conv_struct read_ContentSynchronisationStatistics) ''statistics'' ms) (\<lambda>x1.
     and_then (read_ptr (conv_struct read_ContentSynchronisationProperties) ''properties'' ms) (\<lambda>x2.
     and_then (read_ptr (conv_struct read_ContentSynchronisationSource) ''source'' ms) (\<lambda>x3.
       Inr \<lparr>cs_Enabled = x0, cs_Statistics = x1, cs_Properties = x2, cs_Source = x3\<rparr>))))"

lemma read_ContentSynchronisation_table [table_reads]:
  assumes "distinct_names fs"
  shows "set (ContentSynchronisation_table p) \<subseteq> set fs \<Longrightarrow> read_ContentSynchronisation (table_members fs) = Inr p"
  by (cases p) (auto simp: read_ContentSynchronisation_def ContentSynchronisation_table_def dest!: table_reads[OF assms])

lemma ContentSynchronisation_names: "distinct_names (ContentSynchronisation_table p)"
  unfolding distinct_names_def ContentSynchronisation_table_def list.map fst_conv by code_simp

lemma read_ContentSynchronisation_ptr [table_reads]:
  assumes "distinct_names fs"
  shows "(k, opt_ptr (\<lambda>x. ObjV (table_members (ContentSynchronisation_table x))) q) \<in> set fs \<Longrightarrow>
    read_ptr (conv_struct read_ContentSynchronisation) k (table_members fs) = Inr q"
  by (erule read_table_ptr[OF assms]) (auto simp: conv_struct_def read_ContentSynchronisation_table[OF ContentSynchronisation_names subset_refl])

record RemoteRepositoryBaseParams =
  rr_base :: RepositoryBaseParams
  rr_additional :: AdditionalRepositoryBaseParams
  rr_Url :: string
  rr_Username :: string
  rr_Password :: string
  rr_Proxy :: string
  rr_HardFail :: "bool option"
  rr_Offline :: "bool option"
  rr_StoreArtifactsLocally :: "bool option"
  rr_SocketTimeoutMillis :: int
  rr_LocalAddress :: string
  rr_RetrievalCachePeriodSecs :: int
  rr_MetadataRetrievalTimeoutSecs :: int
  rr_MissedRetrievalCachePeriodSecs :: int
  rr_UnusedArtifactsCleanupPeriodHours :: int
  rr_AssumedOfflinePeriodSecs :: int
  rr_ShareConfiguration :: "bool option"
  rr_SynchronizeProperties :: "bool option"
  rr_BlockMismatchingMimeTypes :: "bool option"
  rr_MismatchingMimeTypesOverrideList :: string
  rr_AllowAnyHostAuth :: "bool option"
  rr_EnableCookieManagement :: "bool option"
  rr_BypassHeadRequests :: "bool option"
  rr_ClientTlsCertificate :: string
  rr_ContentSynchronisation :: "ContentSynchronisation option"
  rr_QueryParams :: string

definition RemoteRepositoryBaseParams_table :: "RemoteRepositoryBaseParams \<Rightarrow> field_table" where
  "RemoteRepositoryBaseParams_table p =
     RepositoryBaseParams_table (rr_base p) @
     AdditionalRepositoryBaseParams_table (rr_additional p) @
     [(''url'', Some (StrV (rr_Url p))), (''username'', opt_string (rr_Username p)),
      (''password'', opt_string (rr_Password p)), (''proxy'', opt_string (rr_Proxy p)),
      (''hardFail'', opt_ptr BoolV (rr_HardFail p)), (''offline'', opt_ptr BoolV (rr_Offline p)),
      (''storeArtifactsLocally'', opt_ptr BoolV (rr_StoreArtifactsLocally p)),
      (''socketTimeoutMillis'', opt_int (rr_SocketTimeoutMillis p)),
      (''localAddress'', opt_string (rr_LocalAddress p)),
      (''retrievalCachePeriodSecs'', opt_int (rr_RetrievalCachePeriodSecs p)),
      (''metadataRetrievalTimeoutSecs'', opt_int (rr_MetadataRetrievalTimeoutSecs p)),
      (''missedRetrievalCachePeriodSecs'', opt_int (rr_MissedRetrievalCachePeriodSecs p)),
      (''unusedArtifactsCleanupPeriodHours'', opt_int (rr_UnusedArtifactsCleanupPeriodHours p)),
      (''assumedOfflinePeriodSecs'', opt_int (rr_AssumedOfflinePeriodSecs p)),
      (''shareConfiguration'', opt_ptr BoolV (rr_ShareConfiguration p)),
      (''synchronizeProperties'', opt_ptr BoolV (rr_SynchronizeProperties p)),
      (''blockMismatchingMimeTypes'', opt_ptr BoolV (rr_BlockMismatchingMimeTypes p)),
      (''mismatchingMimeTypesOverrideList'', opt_string (rr_MismatchingMimeTypesOverrideList p)),
      (''allowAnyHostAuth'', opt_ptr BoolV (rr_AllowAnyHostAuth p)),
      (''enableCookieManagement'', opt_ptr BoolV (rr_EnableCookieManagement p)),
      (''bypassHeadRequests'', opt_ptr BoolV (rr_BypassHeadRequests p)),
      (''clientTlsCertificate'', opt_string (rr_ClientTlsCertificate p)),
      (''contentSynchronisation'', opt_ptr (\<lambda>x. ObjV (table_members (ContentSynchronisation_table x))) (rr_ContentSynchronisation p)),
      (''queryParams'', opt_string (rr_QueryParams p))]"

definition read_RemoteRepositoryBaseParams :: "members \<Rightarrow> RemoteRepositoryBaseParams result" where
  "read_RemoteRepositoryBaseParams ms =
     and_then (read_RepositoryBaseParams ms) (\<lambda>x0.
     and_then (read_AdditionalRepositoryBaseParams ms) (\<lambda>x1. and_then (read_string ''url'' ms) (\<lambda>x2.
     and_then (read_string ''username'' ms) (\<lambda>x3. and_then (read_string ''password'' ms) (\<lambda>x4.
     and_then (read_string ''proxy'' ms) (\<lambda>x5. and_then (read_ptr conv_bool ''hardFail'' ms) (\<lambda>x6.
     and_then (read_ptr conv_bool ''offline'' ms) (\<lambda>x7.
     and_then (read_ptr conv_bool ''storeArtifactsLocally'' ms) (\<lambda>x8.
     and_then (read_int ''socketTimeoutMillis'' ms) (\<lambda>x9.
     and_then (read_string ''localAddress'' ms) (\<lambda>x10.
     and_then (read_int ''retrievalCachePeriodSecs'' ms) (\<lambda>x11.
     and_then (read_int ''metadataRetrievalTimeoutSecs'' ms) (\<lambda>x12.
     and_then (read_int ''missedRetrievalCachePeriodSecs'' ms) (\<lambda>x13.
     and_then (read_int ''unusedArtifactsCleanupPeriodHours'' ms) (\<lambda>x14.
     and_then (read_int ''assumedOfflinePeriodSecs'' ms) (\<lambda>x15.
     and_then (read_ptr conv_bool ''shareConfiguration'' ms) (\<lambda>x16.
     and_then (read_ptr conv_bool ''synchronizeProperties'' ms) (\<lambda>x17.
     and_then (read_ptr conv_bool ''blockMismatchingMimeTypes'' ms) (\<lambda>x18.
     and_then (read_string ''mismatchingMimeTypesOverrideList'' ms) (\<lambda>x19.
     and_then (read_ptr conv_bool ''allowAnyHostAuth'' ms) (\<lambda>x20.
     and_then (read_ptr conv_bool ''enableCookieManagement'' ms) (\<lambda>x21.
     and_then (read_ptr conv_bool ''bypassHeadRequests'' ms) (\<lambda>x22.
     and_then (read_string ''clientTlsCertificate'' ms) (\<lambda>x23.
     and_then (read_ptr (conv_struct read_ContentSynchronisation) ''contentSynchronisation'' ms) (\<lambda>x24.
     and_then (read_string ''queryParams'' ms) (\<lambda>x25.
       Inr \<lparr>rr_base = x0, rr_additional = x1, rr_Url = x2, rr_Username = x3, rr_Password = x4, rr_Proxy = x5,
            rr_HardFail = x6, rr_Offline = x7, rr_StoreArtifactsLocally = x8, rr_SocketTimeoutMillis = x9,
            rr_LocalAddress = x10, rr_RetrievalCachePeriodSecs = x11, rr_MetadataRetrievalTimeoutSecs = x12,
            rr_MissedRetrievalCachePeriodSecs = x13, rr_UnusedArtifactsCleanupPeriodHours = x14,
            rr_AssumedOfflinePeriodSecs = x15, rr_ShareConfiguration = x16, rr_SynchronizeProperties = x17,
            rr_BlockMismatchingMimeTypes = x18, rr_MismatchingMimeTypesOverrideList = x19, rr_AllowAnyHostAuth = x20,
            rr_EnableCookieManagement = x21, rr_BypassHeadRequests = x22, rr_ClientTlsCertificate = x23,
            rr_ContentSynchronisation = x24, rr_QueryParams = x25\<rparr>))))))))))))))))))))))))))"

definition RemoteRepositoryBaseParams_ok :: "RemoteRepositoryBaseParams \<Rightarrow> bool" where
  "RemoteRepositoryBaseParams_ok p \<longleftrightarrow>
     machine_int (rr_SocketTimeoutMillis p) \<and> machine_int (rr_RetrievalCachePeriodSecs p) \<and>
     machine_int (rr_MetadataRetrievalTimeoutSecs p) \<and> machine_int (rr_MissedRetrievalCachePeriodSecs p) \<and>
     machine_int (rr_UnusedArtifactsCleanupPeriodHours p) \<and> machine_int (rr_AssumedOfflinePeriodSecs p)"

lemma read_RemoteRepositoryBaseParams_table [table_reads]:
  assumes "distinct_names fs"
  shows "set (RemoteRepositoryBaseParams_table p) \<subseteq> set fs \<Longrightarrow> RemoteRepositoryBaseParams_ok p \<Longrightarrow> read_RemoteRepositoryBaseParams (table_members fs) = Inr p"
  by (cases p) (auto simp: read_RemoteRepositoryBaseParams_def RemoteRepositoryBaseParams_table_def RemoteRepositoryBaseParams_ok_def dest!: table_reads[OF assms])

definition zero_RemoteRepositoryBaseParams :: RemoteRepositoryBaseParams where
  "zero_RemoteRepositoryBaseParams =
     \<lparr>rr_base = zero_RepositoryBaseParams, rr_additional = zero_AdditionalRepositoryBaseParams, rr_Url = [],
      rr_Username = [], rr_Password = [], rr_Proxy = [], rr_HardFail = None, rr_Offline = None,
      rr_StoreArtifactsLocally = None, rr_SocketTimeoutMillis = 0, rr_LocalAddress = [],
      rr_RetrievalCachePeriodSecs = 0, rr_MetadataRetrievalTimeoutSecs = 0, rr_MissedRetrievalCachePeriodSecs = 0,
      rr_UnusedArtifactsCleanupPeriodHours = 0, rr_AssumedOfflinePeriodSecs = 0, rr_ShareConfiguration = None,
      rr_SynchronizeProperties = None, rr_BlockMismatchingMimeTypes = None, rr_MismatchingMimeTypesOverrideList = [],
      rr_AllowAnyHostAuth = None, rr_EnableCookieManagement = None, rr_BypassHeadRequests = None,
      rr_ClientTlsCertificate = [], rr_ContentSynchronisation = None, rr_QueryParams = []\<rparr>"

lemma RemoteRepositoryBaseParams_folded: "folded (RemoteRepositoryBaseParams_table p) =
    [''rclass'', ''key'', ''projectkey'', ''environments'', ''packagetype'', ''description'', ''notes'',
     ''includespattern'', ''excludespattern'', ''repolayoutref'', ''blackedout'', ''xrayindex'', ''propertysets'',
     ''downloadredirect'', ''priorityresolution'', ''url'', ''username'', ''password'', ''proxy'', ''hardfail'',
     ''offline'', ''storeartifactslocally'', ''sockettimeoutmillis'', ''localaddress'', ''retrievalcacheperiodsecs'',
     ''metadataretrievaltimeoutsecs'', ''missedretrievalcacheperiodsecs'', ''unusedartifactscleanupperiodhours'',
     ''assumedofflineperiodsecs'', ''shareconfiguration'', ''synchronizeproperties'', ''blockmismatchingmimetypes'',
     ''mismatchingmimetypesoverridelist'', ''allowanyhostauth'', ''enablecookiemanagement'', ''bypassheadrequests'',
     ''clienttlscertificate'', ''contentsynchronisation'', ''queryparams'']"
  unfolding RemoteRepositoryBaseParams_table_def folded_append RepositoryBaseParams_folded AdditionalRepositoryBaseParams_folded
  unfolding folded_def list.map fst_conv append.simps by code_simp

lemma RemoteRepositoryBaseParams_names: "distinct_names (RemoteRepositoryBaseParams_table p)"
  unfolding distinct_names_folded RemoteRepositoryBaseParams_folded by simp

record JavaPackageManagersRemoteRepositoryParams =
  jr_RemoteRepoChecksumPolicyType :: string
  jr_MaxUniqueSnapshots :: int
  jr_FetchJarsEagerly :: "bool option"
  jr_SuppressPomConsistencyChecks :: "bool option"
  jr_FetchSourcesEagerly :: "bool option"
  jr_HandleReleases :: "bool option"
  jr_HandleSnapshots :: "bool option"
  jr_RejectInvalidJars :: "bool option"

definition JavaPackageManagersRemoteRepositoryParams_table :: "JavaPackageManagersRemoteRepositoryParams \<Rightarrow> field_table" where
  "JavaPackageManagersRemoteRepositoryParams_table p =
     [(''remoteRepoChecksumPolicyType'', opt_string (jr_RemoteRepoChecksumPolicyType p)),
      (''maxUniqueSnapshots'', opt_int (jr_MaxUniqueSnapshots p)),
      (''fetchJarsEagerly'', opt_ptr BoolV (jr_FetchJarsEagerly p)),
      (''suppressPomConsistencyChecks'', opt_ptr BoolV (jr_SuppressPomConsistencyChecks p)),
      (''fetchSourcesEagerly'', opt_ptr BoolV (jr_FetchSourcesEagerly p)),
      (''handleReleases'', opt_ptr BoolV (jr_HandleReleases p)),
      (''handleSnapshots'', opt_ptr BoolV (jr_HandleSnapshots p)),
      (''rejectInvalidJars'', opt_ptr BoolV (jr_RejectInvalidJars p))]"

definition read_JavaPackageManagersRemoteRepositoryParams :: "members \<Rightarrow> JavaPackageManagersRemoteRepositoryParams result" where
  "read_JavaPackageManagersRemoteRepositoryParams ms =
     and_then (read_string ''remoteRepoChecksumPolicyType'' ms) (\<lambda>x0.
     and_then (read_int ''maxUniqueSnapshots'' ms) (\<lambda>x1.
     and_then (read_ptr conv_bool ''fetchJarsEagerly'' ms) (\<lambda>x2.
     and_then (read_ptr conv_bool ''suppressPomConsistencyChecks'' ms) (\<lambda>x3.
     and_then (read_ptr conv_bool ''fetchSourcesEagerly'' ms) (\<lambda>x4.
     and_then (read_ptr conv_bool ''handleReleases'' ms) (\<lambda>x5.
     and_then (read_ptr conv_bool ''handleSnapshots'' ms) (\<lambda>x6.
     and_then (read_ptr conv_bool ''rejectInvalidJars'' ms) (\<lambda>x7.
       Inr \<lparr>jr_RemoteRepoChecksumPolicyType = x0, jr_MaxUniqueSnapshots = x1, jr_FetchJarsEagerly = x2,
            jr_SuppressPomConsistencyChecks = x3, jr_FetchSourcesEagerly = x4, jr_HandleReleases = x5,
            jr_HandleSnapshots = x6, jr_RejectInvalidJars = x7\<rparr>))))))))"

definition JavaPackageManagersRemoteRepositoryParams_ok :: "JavaPackageManagersRemoteRepositoryParams \<Rightarrow> bool" where
  "JavaPackageManagersRemoteRepositoryParams_ok p \<longleftrightarrow>
     machine_int (jr_MaxUniqueSnapshots p)"

lemma read_JavaPackageManagersRemoteRepositoryParams_table [table_reads]:
  assumes "distinct_names fs"
  shows "set (JavaPackageManagersRemoteRepositoryParams_table p) \<subseteq> set fs \<Longrightarrow> JavaPackageManagersRemoteRepositoryParams_ok p \<Longrightarrow> read_JavaPackageManagersRemoteRepositoryParams (table_members fs) = Inr p"
  by (cases p) (auto simp: read_JavaPackageManagersRemoteRepositoryParams_def JavaPackageManagersRemoteRepositoryParams_table_def JavaPackageManagersRemoteRepositoryParams_ok_def dest!: table_reads[OF assms])

definition zero_JavaPackageManagersRemoteRepositoryParams :: JavaPackageManagersRemoteRepositoryParams where
  "zero_JavaPackageManagersRemoteRepositoryParams =
     \<lparr>jr_RemoteRepoChecksumPolicyType = [], jr_MaxUniqueSnapshots = 0, jr_FetchJarsEagerly = None,
      jr_SuppressPomConsistencyChecks = None, jr_FetchSourcesEagerly = None, jr_HandleReleases = None,
      jr_HandleSnapshots = None, jr_RejectInvalidJars = None\<rparr>"

record VcsGitRemoteRepositoryParams =
  vg_VcsType :: string
  vg_VcsGitProvider :: string
  vg_VcsGitDownloadUrl :: string

definition VcsGitRemoteRepositoryParams_table :: "VcsGitRemoteRepositoryParams \<Rightarrow> field_table" where
  "VcsGitRemoteRepositoryParams_table p =
     [(''vcsType'', opt_string (vg_VcsType p)), (''vcsGitProvider'', opt_string (vg_VcsGitProvider p)),
      (''vcsGitDownloadUrl'', opt_string (vg_VcsGitDownloadUrl p))]"

definition read_VcsGitRemoteRepositoryParams :: "members \<Rightarrow> VcsGitRemoteRepositoryParams result" where
  "read_VcsGitRemoteRepositoryParams ms =
     and_then (read_string ''vcsType'' ms) (\<lambda>x0. and_then (read_string ''vcsGitProvider'' ms) (\<lambda>x1.
     and_then (read_string ''vcsGitDownloadUrl'' ms) (\<lambda>x2.
       Inr \<lparr>vg_VcsType = x0, vg_VcsGitProvider = x1, vg_VcsGitDownloadUrl = x2\<rparr>)))"

lemma read_VcsGitRemoteRepositoryParams_table [table_reads]:
  assumes "distinct_names fs"
  shows "set (VcsGitRemoteRepositoryParams_table p) \<subseteq> set fs \<Longrightarrow> read_VcsGitRemoteRepositoryParams (table_members fs) = Inr p"
  by (cases p) (auto simp: read_VcsGitRemoteRepositoryParams_def VcsGitRemoteRepositoryParams_table_def dest!: table_reads[OF assms])

definition zero_VcsGitRemoteRepositoryParams :: VcsGitRemoteRepositoryParams where
  "zero_VcsGitRemoteRepositoryParams =
     \<lparr>vg_VcsType = [], vg_VcsGitProvider = [], vg_VcsGitDownloadUrl = []\<rparr>"

record BowerRemoteRepositoryParams =
  bowerr_base :: RemoteRepositoryBaseParams
  bowerr_vcsGit :: VcsGitRemoteRepositoryParams
  bowerr_BowerRegistryUrl :: string

definition BowerRemoteRepositoryParams_table :: "BowerRemoteRepositoryParams \<Rightarrow> field_table" where
  "BowerRemoteRepositoryParams_table p =
     RemoteRepositoryBaseParams_table (bowerr_base p) @
     VcsGitRemoteRepositoryParams_table (bowerr_vcsGit p) @
     [(''bowerRegistryUrl'', opt_string (bowerr_BowerRegistryUrl p))]"

definition read_BowerRemoteRepositoryParams :: "members \<Rightarrow> BowerRemoteRepositoryParams result" where
  "read_BowerRemoteRepositoryParams ms =
     and_then (read_RemoteRepositoryBaseParams ms) (\<lambda>x0.
     and_then (read_VcsGitRemoteRepositoryParams ms) (\<lambda>x1.
     and_then (read_string ''bowerRegistryUrl'' ms) (\<lambda>x2.
       Inr \<lparr>bowerr_base = x0, bowerr_vcsGit = x1, bowerr_BowerRegistryUrl = x2\<rparr>)))"

definition BowerRemoteRepositoryParams_ok :: "BowerRemoteRepositoryParams \<Rightarrow> bool" where
  "BowerRemoteRepositoryParams_ok p \<longleftrightarrow>
     RemoteRepositoryBaseParams_ok (bowerr_base p)"

lemma read_BowerRemoteRepositoryParams_table [table_reads]:
  assumes "distinct_names fs"
  shows "set (BowerRemoteRepositoryParams_table p) \<subseteq> set fs \<Longrightarrow> BowerRemoteRepositoryParams_ok p \<Longrightarrow> read_BowerRemoteRepositoryParams (table_members fs) = Inr p"
  by (cases p) (auto simp: read_BowerRemoteRepositoryParams_def BowerRemoteRepositoryParams_table_def BowerRemoteRepositoryParams_ok_def dest!: table_reads[OF assms])

definition zero_BowerRemoteRepositoryParams :: BowerRemoteRepositoryParams where
  "zero_BowerRemoteRepositoryParams =
     \<lparr>bowerr_base = zero_RemoteRepositoryBaseParams, bowerr_vcsGit = zero_VcsGitRemoteRepositoryParams,
      bowerr_BowerRegistryUrl = []\<rparr>"

lemma VcsGitRemoteRepositoryParams_folded: "folded (VcsGitRemoteRepositoryParams_table p) =
    [''vcstype'', ''vcsgitprovider'', ''vcsgitdownloadurl'']"
  unfolding VcsGitRemoteRepositoryParams_table_def folded_append 
  unfolding folded_def list.map fst_conv append.simps by code_simp

lemma BowerRemoteRepositoryParams_folded: "folded (BowerRemoteRepositoryParams_table p) =
    [''rclass'', ''key'', ''projectkey'', ''environments'', ''packagetype'', ''description'', ''notes'',
     ''includespattern'', ''excludespattern'', ''repolayoutref'', ''blackedout'', ''xrayindex'', ''propertysets'',
     ''downloadredirect'', ''priorityresolution'', ''url'', ''username'', ''password'', ''proxy'', ''hardfail'',
     ''offline'', ''storeartifactslocally'', ''sockettimeoutmillis'', ''localaddress'', ''retrievalcacheperiodsecs'',
     ''metadataretrievaltimeoutsecs'', ''missedretrievalcacheperiodsecs'', ''unusedartifactscleanupperiodhours'',
     ''assumedofflineperiodsecs'', ''shareconfiguration'', ''synchronizeproperties'', ''blockmismatchingmimetypes'',
     ''mismatchingmimetypesoverridelist'', ''allowanyhostauth'', ''enablecookiemanagement'', ''bypassheadrequests'',
     ''clienttlscertificate'', ''contentsynchronisation'', ''queryparams'', ''vcstype'', ''vcsgitprovider'',
     ''vcsgitdownloadurl'', ''bowerregistryurl'']"
  unfolding BowerRemoteRepositoryParams_table_def folded_append RemoteRepositoryBaseParams_folded VcsGitRemoteRepositoryParams_folded
  unfolding folded_def list.map fst_conv append.simps by code_simp

lemma BowerRemoteRepositoryParams_names: "distinct_names (BowerRemoteRepositoryParams_table p)"
  by (rule distinct_names_extend[OF RemoteRepositoryBaseParams_names, where ns = "[''vcstype'', ''vcsgitprovider'', ''vcsgitdownloadurl'', ''bowerregistryurl'']"])
    (simp_all add: BowerRemoteRepositoryParams_folded RemoteRepositoryBaseParams_folded)

record CargoRemoteRepositoryParams =
  cargor_base :: RemoteRepositoryBaseParams
  cargor_cargo :: CargoRepositoryParams
  cargor_GitRegistryUrl :: string

definition CargoRemoteRepositoryParams_table :: "CargoRemoteRepositoryParams \<Rightarrow> field_table" where
  "CargoRemoteRepositoryParams_table p =
     RemoteRepositoryBaseParams_table (cargor_base p) @
     CargoRepositoryParams_table (cargor_cargo p) @
     [(''gitRegistryUrl'', opt_string (cargor_GitRegistryUrl p))]"

definition read_CargoRemoteRepositoryParams :: "members \<Rightarrow> CargoRemoteRepositoryParams result" where
  "read_CargoRemoteRepositoryParams ms =
     and_then (read_RemoteRepositoryBaseParams ms) (\<lambda>x0.
     and_then (read_CargoRepositoryParams ms) (\<lambda>x1.
     and_then (read_string ''gitRegistryUrl'' ms) (\<lambda>x2.
       Inr \<lparr>cargor_base = x0, cargor_cargo = x1, cargor_GitRegistryUrl = x2\<rparr>)))"

definition CargoRemoteRepositoryParams_ok :: "CargoRemoteRepositoryParams \<Rightarrow> bool" where
  "CargoRemoteRepositoryParams_ok p \<longleftrightarrow>
     RemoteRepositoryBaseParams_ok (cargor_base p)"

lemma read_CargoRemoteRepositoryParams_table [table_reads]:
  assumes "distinct_names fs"
  shows "set (CargoRemoteRepositoryParams_table p) \<subseteq> set fs \<Longrightarrow> CargoRemoteRepositoryParams_ok p \<Longrightarrow> read_CargoRemoteRepositoryParams (table_members fs) = Inr p"
  by (cases p) (auto simp: read_CargoRemoteRepositoryParams_def CargoRemoteRepositoryParams_table_def CargoRemoteRepositoryParams_ok_def dest!: table_reads[OF assms])

definition zero_CargoRemoteRepositoryParams :: CargoRemoteRepositoryParams where
  "zero_CargoRemoteRepositoryParams =
     \<lparr>cargor_base = zero_RemoteRepositoryBaseParams, cargor_cargo = zero_CargoRepositoryParams,
      cargor_GitRegistryUrl = []\<rparr>"

lemma CargoRemoteRepositoryParams_folded: "folded (CargoRemoteRepositoryParams_table p) =
    [''rclass'', ''key'', ''projectkey'', ''environments'', ''packagetype'', ''description'', ''notes'',
     ''includespattern'', ''excludespattern'', ''repolayoutref'', ''blackedout'', ''xrayindex'', ''propertysets'',
     ''downloadredirect'', ''priorityresolution'', ''url'', ''username'', ''password'', ''proxy'', ''hardfail'',
     ''offline'', ''storeartifactslocally'', ''sockettimeoutmillis'', ''localaddress'', ''retrievalcacheperiodsecs'',
     ''metadataretrievaltimeoutsecs'', ''missedretrievalcacheperiodsecs'', ''unusedartifactscleanupperiodhours'',
     ''assumedofflineperiodsecs'', ''shareconfiguration'', ''synchronizeproperties'', ''blockmismatchingmimetypes'',
     ''mismatchingmimetypesoverridelist'', ''allowanyhostauth'', ''enablecookiemanagement'', ''bypassheadrequests'',
     ''clienttlscertificate'', ''contentsynchronisation'', ''queryparams'', ''cargoanonymousaccess'',
     ''gitregistryurl'']"
  unfolding CargoRemoteRepositoryParams_table_def folded_append RemoteRepositoryBaseParams_folded CargoRepositoryParams_folded
  unfolding folded_def list.map fst_conv append.simps by code_simp

lemma CargoRemoteRepositoryParams_names: "distinct_names (CargoRemoteRepositoryParams_table p)"
  by (rule distinct_names_extend[OF RemoteRepositoryBaseParams_names, where ns = "[''cargoanonymousaccess'', ''gitregistryurl'']"])
    (simp_all add: CargoRemoteRepositoryParams_folded RemoteRepositoryBaseParams_folded)

record CocoapodsRemoteRepositoryParams =
  cocoapodsr_base :: RemoteRepositoryBaseParams
  cocoapodsr_vcsGit :: VcsGitRemoteRepositoryParams
  cocoapodsr_PodsSpecsRepoUrl :: string

definition CocoapodsRemoteRepositoryParams_table :: "CocoapodsRemoteRepositoryParams \<Rightarrow> field_table" where
  "CocoapodsRemoteRepositoryParams_table p =
     RemoteRepositoryBaseParams_table (cocoapodsr_base p) @
     VcsGitRemoteRepositoryParams_table (cocoapodsr_vcsGit p) @
     [(''podsSpecsRepoUrl'', opt_string (cocoapodsr_PodsSpecsRepoUrl p))]"

definition read_CocoapodsRemoteRepositoryParams :: "members \<Rightarrow> CocoapodsRemoteRepositoryParams result" where
  "read_CocoapodsRemoteRepositoryParams ms =
     and_then (read_RemoteRepositoryBaseParams ms) (\<lambda>x0.
     and_then (read_VcsGitRemoteRepositoryParams ms) (\<lambda>x1.
     and_then (read_string ''podsSpecsRepoUrl'' ms) (\<lambda>x2.
       Inr \<lparr>cocoapodsr_base = x0, cocoapodsr_vcsGit = x1, cocoapodsr_PodsSpecsRepoUrl = x2\<rparr>)))"

definition CocoapodsRemoteRepositoryParams_ok :: "CocoapodsRemoteRepositoryParams \<Rightarrow> bool" where
  "CocoapodsRemoteRepositoryParams_ok p \<longleftrightarrow>
     RemoteRepositoryBaseParams_ok (cocoapodsr_base p)"

lemma read_CocoapodsRemoteRepositoryParams_table [table_reads]:
  assumes "distinct_names fs"
  shows "set (CocoapodsRemoteRepositoryParams_table p) \<subseteq> set fs \<Longrightarrow> CocoapodsRemoteRepositoryParams_ok p \<Longrightarrow> read_CocoapodsRemoteRepositoryParams (table_members fs) = Inr p"
  by (cases p) (auto simp: read_CocoapodsRemoteRepositoryParams_def CocoapodsRemoteRepositoryParams_table_def CocoapodsRemoteRepositoryParams_ok_def dest!: table_reads[OF assms])

definition zero_CocoapodsRemoteRepositoryParams :: CocoapodsRemoteRepositoryParams where
  "zero_CocoapodsRemoteRepositoryParams =
     \<lparr>cocoapodsr_base = zero_RemoteRepositoryBaseParams,
      cocoapodsr_vcsGit = zero_VcsGitRemoteRepositoryParams, cocoapodsr_PodsSpecsRepoUrl = []\<rparr>"

lemma CocoapodsRemoteRepositoryParams_folded: "folded (CocoapodsRemoteRepositoryParams_table p) =
    [''rclass'', ''key'', ''projectkey'', ''environments'', ''packagetype'', ''description'', ''notes'',
     ''includespattern'', ''excludespattern'', ''repolayoutref'', ''blackedout'', ''xrayindex'', ''propertysets'',
     ''downloadredirect'', ''priorityresolution'', ''url'', ''username'', ''password'', ''proxy'', ''hardfail'',
     ''offline'', ''storeartifactslocally'', ''sockettimeoutmillis'', ''localaddress'', ''retrievalcacheperiodsecs'',
     ''metadataretrievaltimeoutsecs'', ''missedretrievalcacheperiodsecs'', ''unusedartifactscleanupperiodhours'',
     ''assumedofflineperiodsecs'', ''shareconfiguration'', ''synchronizeproperties'', ''blockmismatchingmimetypes'',
     ''mismatchingmimetypesoverridelist'', ''allowanyhostauth'', ''enablecookiemanagement'', ''bypassheadrequests'',
     ''clienttlscertificate'', ''contentsynchronisation'', ''queryparams'', ''vcstype'', ''vcsgitprovider'',
     ''vcsgitdownloadurl'', ''podsspecsrepourl'']"
  unfolding CocoapodsRemoteRepositoryParams_table_def folded_append RemoteRepositoryBaseParams_folded VcsGitRemoteRepositoryParams_folded
  unfolding folded_def list.map fst_conv append.simps by code_simp

lemma CocoapodsRemoteRepositoryParams_names: "distinct_names (CocoapodsRemoteRepositoryParams_table p)"
  by (rule distinct_names_extend[OF RemoteRepositoryBaseParams_names, where ns = "[''vcstype'', ''vcsgitprovider'', ''vcsgitdownloadurl'', ''podsspecsrepourl'']"])
    (simp_all add: CocoapodsRemoteRepositoryParams_folded RemoteRepositoryBaseParams_folded)

record ComposerRemoteRepositoryParams =
  composerr_base :: RemoteRepositoryBaseParams
  composerr_vcsGit :: VcsGitRemoteRepositoryParams
  composerr_ComposerRegistryUrl :: string

definition ComposerRemoteRepositoryParams_table :: "ComposerRemoteRepositoryParams \<Rightarrow> field_table" where
  "ComposerRemoteRepositoryParams_table p =
     RemoteRepositoryBaseParams_table (composerr_base p) @
     VcsGitRemoteRepositoryParams_table (composerr_vcsGit p) @
     [(''composerRegistryUrl'', opt_string (composerr_ComposerRegistryUrl p))]"

definition read_ComposerRemoteRepositoryParams :: "members \<Rightarrow> ComposerRemoteRepositoryParams result" where
  "read_ComposerRemoteRepositoryParams ms =
     and_then (read_RemoteRepositoryBaseParams ms) (\<lambda>x0.
     and_then (read_VcsGitRemoteRepositoryParams ms) (\<lambda>x1.
     and_then (read_string ''composerRegistryUrl'' ms) (\<lambda>x2.
       Inr \<lparr>composerr_base = x0, composerr_vcsGit = x1, composerr_ComposerRegistryUrl = x2\<rparr>)))"

definition ComposerRemoteRepositoryParams_ok :: "ComposerRemoteRepositoryParams \<Rightarrow> bool" where
  "ComposerRemoteRepositoryParams_ok p \<longleftrightarrow>
     RemoteRepositoryBaseParams_ok (composerr_base p)"

lemma read_ComposerRemoteRepositoryParams_table [table_reads]:
  assumes "distinct_names fs"
  shows "set (ComposerRemoteRepositoryParams_table p) \<subseteq> set fs \<Longrightarrow> ComposerRemoteRepositoryParams_ok p \<Longrightarrow> read_ComposerRemoteRepositoryParams (table_members fs) = Inr p"
  by (cases p) (auto simp: read_ComposerRemoteRepositoryParams_def ComposerRemoteRepositoryParams_table_def ComposerRemoteRepositoryParams_ok_def dest!: table_reads[OF assms])

definition zero_ComposerRemoteRepositoryParams :: ComposerRemoteRepositoryParams where
  "zero_ComposerRemoteRepositoryParams =
     \<lparr>composerr_base = zero_RemoteRepositoryBaseParams, composerr_vcsGit = zero_VcsGitRemoteRepositoryParams,
      composerr_ComposerRegistryUrl = []\<rparr>"

lemma ComposerRemoteRepositoryParams_folded: "folded (ComposerRemoteRepositoryParams_table p) =
    [''rclass'', ''key'', ''projectkey'', ''environments'', ''packagetype'', ''description'', ''notes'',
     ''includespattern'', ''excludespattern'', ''repolayoutref'', ''blackedout'', ''xrayindex'', ''propertysets'',
     ''downloadredirect'', ''priorityresolution'', ''url'', ''username'', ''password'', ''proxy'', ''hardfail'',
     ''offline'', ''storeartifactslocally'', ''sockettimeoutmillis'', ''localaddress'', ''retrievalcacheperiodsecs'',
     ''metadataretrievaltimeoutsecs'', ''missedretrievalcacheperiodsecs'', ''unusedartifactscleanupperiodhours'',
     ''assumedofflineperiodsecs'', ''shareconfiguration'', ''synchronizeproperties'', ''blockmismatchingmimetypes'',
     ''mismatchingmimetypesoverridelist'', ''allowanyhostauth'', ''enablecookiemanagement'', ''bypassheadrequests'',
     ''clienttlscertificate'', ''contentsynchronisation'', ''queryparams'', ''vcstype'', ''vcsgitprovider'',
     ''vcsgitdownloadurl'', ''composerregistryurl'']"
  unfolding ComposerRemoteRepositoryParams_table_def folded_append RemoteRepositoryBaseParams_folded VcsGitRemoteRepositoryParams_folded
  unfolding folded_def list.map fst_conv append.simps by code_simp

lemma ComposerRemoteRepositoryParams_names: "distinct_names (ComposerRemoteRepositoryParams_table p)"
  by (rule distinct_names_extend[OF RemoteRepositoryBaseParams_names, where ns = "[''vcstype'', ''vcsgitprovider'', ''vcsgitdownloadurl'', ''composerregistryurl'']"])
    (simp_all add: ComposerRemoteRepositoryParams_folded RemoteRepositoryBaseParams_folded)

record DebianRemoteRepositoryParams =
  debianr_base :: RemoteRepositoryBaseParams
  debianr_ListRemoteFolderItems :: "bool option"

definition DebianRemoteRepositoryParams_table :: "DebianRemoteRepositoryParams \<Rightarrow> field_table" where
  "DebianRemoteRepositoryParams_table p =
     RemoteRepositoryBaseParams_table (debianr_base p) @
     [(''listRemoteFolderItems'', opt_ptr BoolV (debianr_ListRemoteFolderItems p))]"

definition read_DebianRemoteRepositoryParams :: "members \<Rightarrow> DebianRemoteRepositoryParams result" where
  "read_DebianRemoteRepositoryParams ms =
     and_then (read_RemoteRepositoryBaseParams ms) (\<lambda>x0.
     and_then (read_ptr conv_bool ''listRemoteFolderItems'' ms) (\<lambda>x1.
       Inr \<lparr>debianr_base = x0, debianr_ListRemoteFolderItems = x1\<rparr>))"

definition DebianRemoteRepositoryParams_ok :: "DebianRemoteRepositoryParams \<Rightarrow> bool" where
  "DebianRemoteRepositoryParams_ok p \<longleftrightarrow>
     RemoteRepositoryBaseParams_ok (debianr_base p)"

lemma read_DebianRemoteRepositoryParams_table [table_reads]:
  assumes "distinct_names fs"
  shows "set (DebianRemoteRepositoryParams_table p) \<subseteq> set fs \<Longrightarrow> DebianRemoteRepositoryParams_ok p \<Longrightarrow> read_DebianRemoteRepositoryParams (table_members fs) = Inr p"
  by (cases p) (auto simp: read_DebianRemoteRepositoryParams_def DebianRemoteRepositoryParams_table_def DebianRemoteRepositoryParams_ok_def dest!: table_reads[OF assms])

definition zero_DebianRemoteRepositoryParams :: DebianRemoteRepositoryParams where
  "zero_DebianRemoteRepositoryParams =
     \<lparr>debianr_base = zero_RemoteRepositoryBaseParams, debianr_ListRemoteFolderItems = None\<rparr>"

lemma DebianRemoteRepositoryParams_folded: "folded (DebianRemoteRepositoryParams_table p) =
    [''rclass'', ''key'', ''projectkey'', ''environments'', ''packagetype'', ''description'', ''notes'',
     ''includespattern'', ''excludespattern'', ''repolayoutref'', ''blackedout'', ''xrayindex'', ''propertysets'',
     ''downloadredirect'', ''priorityresolution'', ''url'', ''username'', ''password'', ''proxy'', ''hardfail'',
     ''offline'', ''storeartifactslocally'', ''sockettimeoutmillis'', ''localaddress'', ''retrievalcacheperiodsecs'',
     ''metadataretrievaltimeoutsecs'', ''missedretrievalcacheperiodsecs'', ''unusedartifactscleanupperiodhours'',
     ''assumedofflineperiodsecs'', ''shareconfiguration'', ''synchronizeproperties'', ''blockmismatchingmimetypes'',
     ''mismatchingmimetypesoverridelist'', ''allowanyhostauth'', ''enablecookiemanagement'', ''bypassheadrequests'',
     ''clienttlscertificate'', ''contentsynchronisation'', ''queryparams'', ''listremotefolderitems'']"
  unfolding DebianRemoteRepositoryParams_table_def folded_append RemoteRepositoryBaseParams_folded
  unfolding folded_def list.map fst_conv append.simps by code_simp

lemma DebianRemoteRepositoryParams_names: "distinct_names (DebianRemoteRepositoryParams_table p)"
  by (rule distinct_names_extend[OF RemoteRepositoryBaseParams_names, where ns = "[''listremotefolderitems'']"])
    (simp_all add: DebianRemoteRepositoryParams_folded RemoteRepositoryBaseParams_folded)

record DockerRemoteRepositoryParams =
  dockerr_base :: RemoteRepositoryBaseParams
  dockerr_ExternalDependenciesEnabled :: "bool option"
  dockerr_ExternalDependenciesPatterns :: "string list"
  dockerr_EnableTokenAuthentication :: "bool option"
  dockerr_BlockPushingSchema1 :: "bool option"

definition DockerRemoteRepositoryParams_table :: "DockerRemoteRepositoryParams \<Rightarrow> field_table" where
  "DockerRemoteRepositoryParams_table p =
     RemoteRepositoryBaseParams_table (dockerr_base p) @
     [(''externalDependenciesEnabled'', opt_ptr BoolV (dockerr_ExternalDependenciesEnabled p)),
      (''externalDependenciesPatterns'', opt_list StrV (dockerr_ExternalDependenciesPatterns p)),
      (''enableTokenAuthentication'', opt_ptr BoolV (dockerr_EnableTokenAuthentication p)),
      (''blockPushingSchema1'', opt_ptr BoolV (dockerr_BlockPushingSchema1 p))]"

definition read_DockerRemoteRepositoryParams :: "members \<Rightarrow> DockerRemoteRepositoryParams result" where
  "read_DockerRemoteRepositoryParams ms =
     and_then (read_RemoteRepositoryBaseParams ms) (\<lambda>x0.
     and_then (read_ptr conv_bool ''externalDependenciesEnabled'' ms) (\<lambda>x1.
     and_then (read_strings ''externalDependenciesPatterns'' ms) (\<lambda>x2.
     and_then (read_ptr conv_bool ''enableTokenAuthentication'' ms) (\<lambda>x3.
     and_then (read_ptr conv_bool ''blockPushingSchema1'' ms) (\<lambda>x4.
       Inr \<lparr>dockerr_base = x0, dockerr_ExternalDependenciesEnabled = x1,
            dockerr_ExternalDependenciesPatterns = x2, dockerr_EnableTokenAuthentication = x3,
            dockerr_BlockPushingSchema1 = x4\<rparr>)))))"

definition DockerRemoteRepositoryParams_ok :: "DockerRemoteRepositoryParams \<Rightarrow> bool" where
  "DockerRemoteRepositoryParams_ok p \<longleftrightarrow>
     RemoteRepositoryBaseParams_ok (dockerr_base p)"

lemma read_DockerRemoteRepositoryParams_table [table_reads]:
  assumes "distinct_names fs"
  shows "set (DockerRemoteRepositoryParams_table p) \<subseteq> set fs \<Longrightarrow> DockerRemoteRepositoryParams_ok p \<Longrightarrow> read_DockerRemoteRepositoryParams (table_members fs) = Inr p"
  by (cases p) (auto simp: read_DockerRemoteRepositoryParams_def DockerRemoteRepositoryParams_table_def DockerRemoteRepositoryParams_ok_def dest!: table_reads[OF assms])

definition zero_DockerRemoteRepositoryParams :: DockerRemoteRepositoryParams where
  "zero_DockerRemoteRepositoryParams =
     \<lparr>dockerr_base = zero_RemoteRepositoryBaseParams, dockerr_ExternalDependenciesEnabled = None,
      dockerr_ExternalDependenciesPatterns = [], dockerr_EnableTokenAuthentication = None,
      dockerr_BlockPushingSchema1 = None\<rparr>"

lemma DockerRemoteRepositoryParams_folded: "folded (DockerRemoteRepositoryParams_table p) =
    [''rclass'', ''key'', ''projectkey'', ''environments'', ''packagetype'', ''description'', ''notes'',
     ''includespattern'', ''excludespattern'', ''repolayoutref'', ''blackedout'', ''xrayindex'', ''propertysets'',
     ''downloadredirect'', ''priorityresolution'', ''url'', ''username'', ''password'', ''proxy'', ''hardfail'',
     ''offline'', ''storeartifactslocally'', ''sockettimeoutmillis'', ''localaddress'', ''retrievalcacheperiodsecs'',
     ''metadataretrievaltimeoutsecs'', ''missedretrievalcacheperiodsecs'', ''unusedartifactscleanupperiodhours'',
     ''assumedofflineperiodsecs'', ''shareconfiguration'', ''synchronizeproperties'', ''blockmismatchingmimetypes'',
     ''mismatchingmimetypesoverridelist'', ''allowanyhostauth'', ''enablecookiemanagement'', ''bypassheadrequests'',
     ''clienttlscertificate'', ''contentsynchronisation'', ''queryparams'', ''externaldependenciesenabled'',
     ''externaldependenciespatterns'', ''enabletokenauthentication'', ''blockpushingschema1'']"
  unfolding DockerRemoteRepositoryParams_table_def folded_append RemoteRepositoryBaseParams_folded
  unfolding folded_def list.map fst_conv append.simps by code_simp

lemma DockerRemoteRepositoryParams_names: "distinct_names (DockerRemoteRepositoryParams_table p)"
  by (rule distinct_names_extend[OF RemoteRepositoryBaseParams_names, where ns = "[''externaldependenciesenabled'', ''externaldependenciespatterns'', ''enabletokenauthentication'', ''blockpushingschema1'']"])
    (simp_all add: DockerRemoteRepositoryParams_folded RemoteRepositoryBaseParams_folded)

record GemsRemoteRepositoryParams =
  gemsr_base :: RemoteRepositoryBaseParams
  gemsr_ListRemoteFolderItems :: "bool option"

definition GemsRemoteRepositoryParams_table :: "GemsRemoteRepositoryParams \<Rightarrow> field_table" where
  "GemsRemoteRepositoryParams_table p =
     RemoteRepositoryBaseParams_table (gemsr_base p) @
     [(''listRemoteFolderItems'', opt_ptr BoolV (gemsr_ListRemoteFolderItems p))]"

definition read_GemsRemoteRepositoryParams :: "members \<Rightarrow> GemsRemoteRepositoryParams result" where
  "read_GemsRemoteRepositoryParams ms =
     and_then (read_RemoteRepositoryBaseParams ms) (\<lambda>x0.
     and_then (read_ptr conv_bool ''listRemoteFolderItems'' ms) (\<lambda>x1.
       Inr \<lparr>gemsr_base = x0, gemsr_ListRemoteFolderItems = x1\<rparr>))"

definition GemsRemoteRepositoryParams_ok :: "GemsRemoteRepositoryParams \<Rightarrow> bool" where
  "GemsRemoteRepositoryParams_ok p \<longleftrightarrow>
     RemoteRepositoryBaseParams_ok (gemsr_base p)"

lemma read_GemsRemoteRepositoryParams_table [table_reads]:
  assumes "distinct_names fs"
  shows "set (GemsRemoteRepositoryParams_table p) \<subseteq> set fs \<Longrightarrow> GemsRemoteRepositoryParams_ok p \<Longrightarrow> read_GemsRemoteRepositoryParams (table_members fs) = Inr p"
  by (cases p) (auto simp: read_GemsRemoteRepositoryParams_def GemsRemoteRepositoryParams_table_def GemsRemoteRepositoryParams_ok_def dest!: table_reads[OF assms])

definition zero_GemsRemoteRepositoryParams :: GemsRemoteRepositoryParams where
  "zero_GemsRemoteRepositoryParams =
     \<lparr>gemsr_base = zero_RemoteRepositoryBaseParams, gemsr_ListRemoteFolderItems = None\<rparr>"

lemma GemsRemoteRepositoryParams_folded: "folded (GemsRemoteRepositoryParams_table p) =
    [''rclass'', ''key'', ''projectkey'', ''environments'', ''packagetype'', ''description'', ''notes'',
     ''includespattern'', ''excludespattern'', ''repolayoutref'', ''blackedout'', ''xrayindex'', ''propertysets'',
     ''downloadredirect'', ''priorityresolution'', ''url'', ''username'', ''password'', ''proxy'', ''hardfail'',
     ''offline'', ''storeartifactslocally'', ''sockettimeoutmillis'', ''localaddress'', ''retrievalcacheperiodsecs'',
     ''metadataretrievaltimeoutsecs'', ''missedretrievalcacheperiodsecs'', ''unusedartifactscleanupperiodhours'',
     ''assumedofflineperiodsecs'', ''shareconfiguration'', ''synchronizeproperties'', ''blockmismatchingmimetypes'',
     ''mismatchingmimetypesoverridelist'', ''allowanyhostauth'', ''enablecookiemanagement'', ''bypassheadrequests'',
     ''clienttlscertificate'', ''contentsynchronisation'', ''queryparams'', ''listremotefolderitems'']"
  unfolding GemsRemoteRepositoryParams_table_def folded_append RemoteRepositoryBaseParams_folded
  unfolding folded_def list.map fst_conv append.simps by code_simp

lemma GemsRemoteRepositoryParams_names: "distinct_names (GemsRemoteRepositoryParams_table p)"
  by (rule distinct_names_extend[OF RemoteRepositoryBaseParams_names, where ns = "[''listremotefolderitems'']"])
    (simp_all add: GemsRemoteRepositoryParams_folded RemoteRepositoryBaseParams_folded)

record GenericRemoteRepositoryParams =
  genericr_base :: RemoteRepositoryBaseParams
  genericr_ListRemoteFolderItems :: "bool option"

definition GenericRemoteRepositoryParams_table :: "GenericRemoteRepositoryParams \<Rightarrow> field_table" where
  "GenericRemoteRepositoryParams_table p =
     RemoteRepositoryBaseParams_table (genericr_base p) @
     [(''listRemoteFolderItems'', opt_ptr BoolV (genericr_ListRemoteFolderItems p))]"

definition read_GenericRemoteRepositoryParams :: "members \<Rightarrow> GenericRemoteRepositoryParams result" where
  "read_GenericRemoteRepositoryParams ms =
     and_then (read_RemoteRepositoryBaseParams ms) (\<lambda>x0.
     and_then (read_ptr conv_bool ''listRemoteFolderItems'' ms) (\<lambda>x1.
       Inr \<lparr>genericr_base = x0, genericr_ListRemoteFolderItems = x1\<rparr>))"

definition GenericRemoteRepositoryParams_ok :: "GenericRemoteRepositoryParams \<Rightarrow> bool" where
  "GenericRemoteRepositoryParams_ok p \<longleftrightarrow>
     RemoteRepositoryBaseParams_ok (genericr_base p)"

lemma read_GenericRemoteRepositoryParams_table [table_reads]:
  assumes "distinct_names fs"
  shows "set (GenericRemoteRepositoryParams_table p) \<subseteq> set fs \<Longrightarrow> GenericRemoteRepositoryParams_ok p \<Longrightarrow> read_GenericRemoteRepositoryParams (table_members fs) = Inr p"
  by (cases p) (auto simp: read_GenericRemoteRepositoryParams_def GenericRemoteRepositoryParams_table_def GenericRemoteRepositoryParams_ok_def dest!: table_reads[OF assms])

definition zero_GenericRemoteRepositoryParams :: GenericRemoteRepositoryParams where
  "zero_GenericRemoteRepositoryParams =
     \<lparr>genericr_base = zero_RemoteRepositoryBaseParams, genericr_ListRemoteFolderItems = None\<rparr>"

lemma GenericRemoteRepositoryParams_folded: "folded (GenericRemoteRepositoryParams_table p) =
    [''rclass'', ''key'', ''projectkey'', ''environments'', ''packagetype'', ''description'', ''notes'',
     ''includespattern'', ''excludespattern'', ''repolayoutref'', ''blackedout'', ''xrayindex'', ''propertysets'',
     ''downloadredirect'', ''priorityresolution'', ''url'', ''username'', ''password'', ''proxy'', ''hardfail'',
     ''offline'', ''storeartifactslocally'', ''sockettimeoutmillis'', ''localaddress'', ''retrievalcacheperiodsecs'',
     ''metadataretrievaltimeoutsecs'', ''missedretrievalcacheperiodsecs'', ''unusedartifactscleanupperiodhours'',
     ''assumedofflineperiodsecs'', ''shareconfiguration'', ''synchronizeproperties'', ''blockmismatchingmimetypes'',
     ''mismatchingmimetypesoverridelist'', ''allowanyhostauth'', ''enablecookiemanagement'', ''bypassheadrequests'',
     ''clienttlscertificate'', ''contentsynchronisation'', ''queryparams'', ''listremotefolderitems'']"
  unfolding GenericRemoteRepositoryParams_table_def folded_append RemoteRepositoryBaseParams_folded
  unfolding folded_def list.map fst_conv append.simps by code_simp

lemma GenericRemoteRepositoryParams_names: "distinct_names (GenericRemoteRepositoryParams_table p)"
  by (rule distinct_names_extend[OF RemoteRepositoryBaseParams_names, where ns = "[''listremotefolderitems'']"])
    (simp_all add: GenericRemoteRepositoryParams_folded RemoteRepositoryBaseParams_folded)

record GoRemoteRepositoryParams =
  gor_base :: RemoteRepositoryBaseParams
  gor_VcsGitProvider :: string

definition GoRemoteRepositoryParams_table :: "GoRemoteRepositoryParams \<Rightarrow> field_table" where
  "GoRemoteRepositoryParams_table p =
     RemoteRepositoryBaseParams_table (gor_base p) @
     [(''vcsGitProvider'', opt_string (gor_VcsGitProvider p))]"

definition read_GoRemoteRepositoryParams :: "members \<Rightarrow> GoRemoteRepositoryParams result" where
  "read_GoRemoteRepositoryParams ms =
     and_then (read_RemoteRepositoryBaseParams ms) (\<lambda>x0.
     and_then (read_string ''vcsGitProvider'' ms) (\<lambda>x1.
       Inr \<lparr>gor_base = x0, gor_VcsGitProvider = x1\<rparr>))"

definition GoRemoteRepositoryParams_ok :: "GoRemoteRepositoryParams \<Rightarrow> bool" where
  "GoRemoteRepositoryParams_ok p \<longleftrightarrow>
     RemoteRepositoryBaseParams_ok (gor_base p)"

lemma read_GoRemoteRepositoryParams_table [table_reads]:
  assumes "distinct_names fs"
  shows "set (GoRemoteRepositoryParams_table p) \<subseteq> set fs \<Longrightarrow> GoRemoteRepositoryParams_ok p \<Longrightarrow> read_GoRemoteRepositoryParams (table_members fs) = Inr p"
  by (cases p) (auto simp: read_GoRemoteRepositoryParams_def GoRemoteRepositoryParams_table_def GoRemoteRepositoryParams_ok_def dest!: table_reads[OF assms])

definition zero_GoRemoteRepositoryParams :: GoRemoteRepositoryParams where
  "zero_GoRemoteRepositoryParams =
     \<lparr>gor_base = zero_RemoteRepositoryBaseParams, gor_VcsGitProvider = []\<rparr>"

lemma GoRemoteRepositoryParams_folded: "folded (GoRemoteRepositoryParams_table p) =
    [''rclass'', ''key'', ''projectkey'', ''environments'', ''packagetype'', ''description'', ''notes'',
     ''includespattern'', ''excludespattern'', ''repolayoutref'', ''blackedout'', ''xrayindex'', ''propertysets'',
     ''downloadredirect'', ''priorityresolution'', ''url'', ''username'', ''password'', ''proxy'', ''hardfail'',
     ''offline'', ''storeartifactslocally'', ''sockettimeoutmillis'', ''localaddress'', ''retrievalcacheperiodsecs'',
     ''metadataretrievaltimeoutsecs'', ''missedretrievalcacheperiodsecs'', ''unusedartifactscleanupperiodhours'',
     ''assumedofflineperiodsecs'', ''shareconfiguration'', ''synchronizeproperties'', ''blockmismatchingmimetypes'',
     ''mismatchingmimetypesoverridelist'', ''allowanyhostauth'', ''enablecookiemanagement'', ''bypassheadrequests'',
     ''clienttlscertificate'', ''contentsynchronisation'', ''queryparams'', ''vcsgitprovider'']"
  unfolding GoRemoteRepositoryParams_table_def folded_append RemoteRepositoryBaseParams_folded
  unfolding folded_def list.map fst_conv append.simps by code_simp

lemma GoRemoteRepositoryParams_names: "distinct_names (GoRemoteRepositoryParams_table p)"
  by (rule distinct_names_extend[OF RemoteRepositoryBaseParams_names, where ns = "[''vcsgitprovider'']"])
    (simp_all add: GoRemoteRepositoryParams_folded RemoteRepositoryBaseParams_folded)

record GradleRemoteRepositoryParams =
  gradler_base :: RemoteRepositoryBaseParams
  gradler_java :: JavaPackageManagersRemoteRepositoryParams

definition GradleRemoteRepositoryParams_table :: "GradleRemoteRepositoryParams \<Rightarrow> field_table" where
  "GradleRemoteRepositoryParams_table p =
     RemoteRepositoryBaseParams_table (gradler_base p) @
     JavaPackageManagersRemoteRepositoryParams_table (gradler_java p)"

definition read_GradleRemoteRepositoryParams :: "members \<Rightarrow> GradleRemoteRepositoryParams result" where
  "read_GradleRemoteRepositoryParams ms =
     and_then (read_RemoteRepositoryBaseParams ms) (\<lambda>x0.
     and_then (read_JavaPackageManagersRemoteRepositoryParams ms) (\<lambda>x1.
       Inr \<lparr>gradler_base = x0, gradler_java = x1\<rparr>))"

definition GradleRemoteRepositoryParams_ok :: "GradleRemoteRepositoryParams \<Rightarrow> bool" where
  "GradleRemoteRepositoryParams_ok p \<longleftrightarrow>
     RemoteRepositoryBaseParams_ok (gradler_base p) \<and>
     JavaPackageManagersRemoteRepositoryParams_ok (gradler_java p)"

lemma read_GradleRemoteRepositoryParams_table [table_reads]:
  assumes "distinct_names fs"
  shows "set (GradleRemoteRepositoryParams_table p) \<subseteq> set fs \<Longrightarrow> GradleRemoteRepositoryParams_ok p \<Longrightarrow> read_GradleRemoteRepositoryParams (table_members fs) = Inr p"
  by (cases p) (auto simp: read_GradleRemoteRepositoryParams_def GradleRemoteRepositoryParams_table_def GradleRemoteRepositoryParams_ok_def dest!: table_reads[OF assms])

definition zero_GradleRemoteRepositoryParams :: GradleRemoteRepositoryParams where
  "zero_GradleRemoteRepositoryParams =
     \<lparr>gradler_base = zero_RemoteRepositoryBaseParams,
      gradler_java = zero_JavaPackageManagersRemoteRepositoryParams\<rparr>"

lemma JavaPackageManagersRemoteRepositoryParams_folded: "folded (JavaPackageManagersRemoteRepositoryParams_table p) =
    [''remoterepochecksumpolicytype'', ''maxuniquesnapshots'', ''fetchjarseagerly'',
     ''suppresspomconsistencychecks'', ''fetchsourceseagerly'', ''handlereleases'', ''handlesnapshots'',
     ''rejectinvalidjars'']"
  unfolding JavaPackageManagersRemoteRepositoryParams_table_def folded_append 
  unfolding folded_def list.map fst_conv append.simps by code_simp

lemma GradleRemoteRepositoryParams_folded: "folded (GradleRemoteRepositoryParams_table p) =
    [''rclass'', ''key'', ''projectkey'', ''environments'', ''packagetype'', ''description'', ''notes'',
     ''includespattern'', ''excludespattern'', ''repolayoutref'', ''blackedout'', ''xrayindex'', ''propertysets'',
     ''downloadredirect'', ''priorityresolution'', ''url'', ''username'', ''password'', ''proxy'', ''hardfail'',
     ''offline'', ''storeartifactslocally'', ''sockettimeoutmillis'', ''localaddress'', ''retrievalcacheperiodsecs'',
     ''metadataretrievaltimeoutsecs'', ''missedretrievalcacheperiodsecs'', ''unusedartifactscleanupperiodhours'',
     ''assumedofflineperiodsecs'', ''shareconfiguration'', ''synchronizeproperties'', ''blockmismatchingmimetypes'',
     ''mismatchingmimetypesoverridelist'', ''allowanyhostauth'', ''enablecookiemanagement'', ''bypassheadrequests'',
     ''clienttlscertificate'', ''contentsynchronisation'', ''queryparams'', ''remoterepochecksumpolicytype'',
     ''maxuniquesnapshots'', ''fetchjarseagerly'', ''suppresspomconsistencychecks'', ''fetchsourceseagerly'',
     ''handlereleases'', ''handlesnapshots'', ''rejectinvalidjars'']"
  unfolding GradleRemoteRepositoryParams_table_def folded_append RemoteRepositoryBaseParams_folded JavaPackageManagersRemoteRepositoryParams_folded
  unfolding folded_def list.map fst_conv append.simps by code_simp

lemma GradleRemoteRepositoryParams_names: "distinct_names (GradleRemoteRepositoryParams_table p)"
  by (rule distinct_names_extend[OF RemoteRepositoryBaseParams_names, where ns = "[''remoterepochecksumpolicytype'', ''maxuniquesnapshots'', ''fetchjarseagerly'', ''suppresspomconsistencychecks'', ''fetchsourceseagerly'', ''handlereleases'', ''handlesnapshots'', ''rejectinvalidjars'']"])
    (simp_all add: GradleRemoteRepositoryParams_folded RemoteRepositoryBaseParams_folded)

record HelmRemoteRepositoryParams =
  helmr_base :: RemoteRepositoryBaseParams
  helmr_ChartsBaseUrl :: string
  helmr_ExternalDependenciesEnabled :: bool
  helmr_ExternalDependenciesPatterns :: "string list"

definition HelmRemoteRepositoryParams_table :: "HelmRemoteRepositoryParams \<Rightarrow> field_table" where
  "HelmRemoteRepositoryParams_table p =
     RemoteRepositoryBaseParams_table (helmr_base p) @
     [(''chartsBaseUrl'', opt_string (helmr_ChartsBaseUrl p)),
      (''externalDependenciesEnabled'', opt_flag (helmr_ExternalDependenciesEnabled p)),
      (''externalDependenciesPatterns'', opt_list StrV (helmr_ExternalDependenciesPatterns p))]"

definition read_HelmRemoteRepositoryParams :: "members \<Rightarrow> HelmRemoteRepositoryParams result" where
  "read_HelmRemoteRepositoryParams ms =
     and_then (read_RemoteRepositoryBaseParams ms) (\<lambda>x0.
     and_then (read_string ''chartsBaseUrl'' ms) (\<lambda>x1.
     and_then (read_flag ''externalDependenciesEnabled'' ms) (\<lambda>x2.
     and_then (read_strings ''externalDependenciesPatterns'' ms) (\<lambda>x3.
       Inr \<lparr>helmr_base = x0, helmr_ChartsBaseUrl = x1, helmr_ExternalDependenciesEnabled = x2,
            helmr_ExternalDependenciesPatterns = x3\<rparr>))))"

definition HelmRemoteRepositoryParams_ok :: "HelmRemoteRepositoryParams \<Rightarrow> bool" where
  "HelmRemoteRepositoryParams_ok p \<longleftrightarrow>
     RemoteRepositoryBaseParams_ok (helmr_base p)"

lemma read_HelmRemoteRepositoryParams_table [table_reads]:
  assumes "distinct_names fs"
  shows "set (HelmRemoteRepositoryParams_table p) \<subseteq> set fs \<Longrightarrow> HelmRemoteRepositoryParams_ok p \<Longrightarrow> read_HelmRemoteRepositoryParams (table_members fs) = Inr p"
  by (cases p) (auto simp: read_HelmRemoteRepositoryParams_def HelmRemoteRepositoryParams_table_def HelmRemoteRepositoryParams_ok_def dest!: table_reads[OF assms])

definition zero_HelmRemoteRepositoryParams :: HelmRemoteRepositoryParams where
  "zero_HelmRemoteRepositoryParams =
     \<lparr>helmr_base = zero_RemoteRepositoryBaseParams, helmr_ChartsBaseUrl = [],
      helmr_ExternalDependenciesEnabled = False, helmr_ExternalDependenciesPatterns = []\<rparr>"

lemma HelmRemoteRepositoryParams_folded: "folded (HelmRemoteRepositoryParams_table p) =
    [''rclass'', ''key'', ''projectkey'', ''environments'', ''packagetype'', ''description'', ''notes'',
     ''includespattern'', ''excludespattern'', ''repolayoutref'', ''blackedout'', ''xrayindex'', ''propertysets'',
     ''downloadredirect'', ''priorityresolution'', ''url'', ''username'', ''password'', ''proxy'', ''hardfail'',
     ''offline'', ''storeartifactslocally'', ''sockettimeoutmillis'', ''localaddress'', ''retrievalcacheperiodsecs'',
     ''metadataretrievaltimeoutsecs'', ''missedretrievalcacheperiodsecs'', ''unusedartifactscleanupperiodhours'',
     ''assumedofflineperiodsecs'', ''shareconfiguration'', ''synchronizeproperties'', ''blockmismatchingmimetypes'',
     ''mismatchingmimetypesoverridelist'', ''allowanyhostauth'', ''enablecookiemanagement'', ''bypassheadrequests'',
     ''clienttlscertificate'', ''contentsynchronisation'', ''queryparams'', ''chartsbaseurl'',
     ''externaldependenciesenabled'', ''externaldependenciespatterns'']"
  unfolding HelmRemoteRepositoryParams_table_def folded_append RemoteRepositoryBaseParams_folded
  unfolding folded_def list.map fst_conv append.simps by code_simp

lemma HelmRemoteRepositoryParams_names: "distinct_names (HelmRemoteRepositoryParams_table p)"
  by (rule distinct_names_extend[OF RemoteRepositoryBaseParams_names, where ns = "[''chartsbaseurl'', ''externaldependenciesenabled'', ''externaldependenciespatterns'']"])
    (simp_all add: HelmRemoteRepositoryParams_folded RemoteRepositoryBaseParams_folded)

record IvyRemoteRepositoryParams =
  ivyr_base :: RemoteRepositoryBaseParams
  ivyr_java :: JavaPackageManagersRemoteRepositoryParams

definition IvyRemoteRepositoryParams_table :: "IvyRemoteRepositoryParams \<Rightarrow> field_table" where
  "IvyRemoteRepositoryParams_table p =
     RemoteRepositoryBaseParams_table (ivyr_base p) @
     JavaPackageManagersRemoteRepositoryParams_table (ivyr_java p)"

definition read_IvyRemoteRepositoryParams :: "members \<Rightarrow> IvyRemoteRepositoryParams result" where
  "read_IvyRemoteRepositoryParams ms =
     and_then (read_RemoteRepositoryBaseParams ms) (\<lambda>x0.
     and_then (read_JavaPackageManagersRemoteRepositoryParams ms) (\<lambda>x1.
       Inr \<lparr>ivyr_base = x0, ivyr_java = x1\<rparr>))"

definition IvyRemoteRepositoryParams_ok :: "IvyRemoteRepositoryParams \<Rightarrow> bool" where
  "IvyRemoteRepositoryParams_ok p \<longleftrightarrow>
     RemoteRepositoryBaseParams_ok (ivyr_base p) \<and> JavaPackageManagersRemoteRepositoryParams_ok (ivyr_java p)"

lemma read_IvyRemoteRepositoryParams_table [table_reads]:
  assumes "distinct_names fs"
  shows "set (IvyRemoteRepositoryParams_table p) \<subseteq> set fs \<Longrightarrow> IvyRemoteRepositoryParams_ok p \<Longrightarrow> read_IvyRemoteRepositoryParams (table_members fs) = Inr p"
  by (cases p) (auto simp: read_IvyRemoteRepositoryParams_def IvyRemoteRepositoryParams_table_def IvyRemoteRepositoryParams_ok_def dest!: table_reads[OF assms])

definition zero_IvyRemoteRepositoryParams :: IvyRemoteRepositoryParams where
  "zero_IvyRemoteRepositoryParams =
     \<lparr>ivyr_base = zero_RemoteRepositoryBaseParams,
      ivyr_java = zero_JavaPackageManagersRemoteRepositoryParams\<rparr>"

lemma IvyRemoteRepositoryParams_folded: "folded (IvyRemoteRepositoryParams_table p) =
    [''rclass'', ''key'', ''projectkey'', ''environments'', ''packagetype'', ''description'', ''notes'',
     ''includespattern'', ''excludespattern'', ''repolayoutref'', ''blackedout'', ''xrayindex'', ''propertysets'',
     ''downloadredirect'', ''priorityresolution'', ''url'', ''username'', ''password'', ''proxy'', ''hardfail'',
     ''offline'', ''storeartifactslocally'', ''sockettimeoutmillis'', ''localaddress'', ''retrievalcacheperiodsecs'',
     ''metadataretrievaltimeoutsecs'', ''missedretrievalcacheperiodsecs'', ''unusedartifactscleanupperiodhours'',
     ''assumedofflineperiodsecs'', ''shareconfiguration'', ''synchronizeproperties'', ''blockmismatchingmimetypes'',
     ''mismatchingmimetypesoverridelist'', ''allowanyhostauth'', ''enablecookiemanagement'', ''bypassheadrequests'',
     ''clienttlscertificate'', ''contentsynchronisation'', ''queryparams'', ''remoterepochecksumpolicytype'',
     ''maxuniquesnapshots'', ''fetchjarseagerly'', ''suppresspomconsistencychecks'', ''fetchsourceseagerly'',
     ''handlereleases'', ''handlesnapshots'', ''rejectinvalidjars'']"
  unfolding IvyRemoteRepositoryParams_table_def folded_append RemoteRepositoryBaseParams_folded JavaPackageManagersRemoteRepositoryParams_folded
  unfolding folded_def list.map fst_conv append.simps by code_simp

lemma IvyRemoteRepositoryParams_names: "distinct_names (IvyRemoteRepositoryParams_table p)"
  by (rule distinct_names_extend[OF RemoteRepositoryBaseParams_names, where ns = "[''remoterepochecksumpolicytype'', ''maxuniquesnapshots'', ''fetchjarseagerly'', ''suppresspomconsistencychecks'', ''fetchsourceseagerly'', ''handlereleases'', ''handlesnapshots'', ''rejectinvalidjars'']"])
    (simp_all add: IvyRemoteRepositoryParams_folded RemoteRepositoryBaseParams_folded)

record MavenRemoteRepositoryParams =
  mavenr_base :: RemoteRepositoryBaseParams
  mavenr_java :: JavaPackageManagersRemoteRepositoryParams

definition MavenRemoteRepositoryParams_table :: "MavenRemoteRepositoryParams \<Rightarrow> field_table" where
  "MavenRemoteRepositoryParams_table p =
     RemoteRepositoryBaseParams_table (mavenr_base p) @
     JavaPackageManagersRemoteRepositoryParams_table (mavenr_java p)"

definition read_MavenRemoteRepositoryParams :: "members \<Rightarrow> MavenRemoteRepositoryParams result" where
  "read_MavenRemoteRepositoryParams ms =
     and_then (read_RemoteRepositoryBaseParams ms) (\<lambda>x0.
     and_then (read_JavaPackageManagersRemoteRepositoryParams ms) (\<lambda>x1.
       Inr \<lparr>mavenr_base = x0, mavenr_java = x1\<rparr>))"

definition MavenRemoteRepositoryParams_ok :: "MavenRemoteRepositoryParams \<Rightarrow> bool" where
  "MavenRemoteRepositoryParams_ok p \<longleftrightarrow>
     RemoteRepositoryBaseParams_ok (mavenr_base p) \<and>
     JavaPackageManagersRemoteRepositoryParams_ok (mavenr_java p)"

lemma read_MavenRemoteRepositoryParams_table [table_reads]:
  assumes "distinct_names fs"
  shows "set (MavenRemoteRepositoryParams_table p) \<subseteq> set fs \<Longrightarrow> MavenRemoteRepositoryParams_ok p \<Longrightarrow> read_MavenRemoteRepositoryParams (table_members fs) = Inr p"
  by (cases p) (auto simp: read_MavenRemoteRepositoryParams_def MavenRemoteRepositoryParams_table_def MavenRemoteRepositoryParams_ok_def dest!: table_reads[OF assms])

definition zero_MavenRemoteRepositoryParams :: MavenRemoteRepositoryParams where
  "zero_MavenRemoteRepositoryParams =
     \<lparr>mavenr_base = zero_RemoteRepositoryBaseParams,
      mavenr_java = zero_JavaPackageManagersRemoteRepositoryParams\<rparr>"

lemma MavenRemoteRepositoryParams_folded: "folded (MavenRemoteRepositoryParams_table p) =
    [''rclass'', ''key'', ''projectkey'', ''environments'', ''packagetype'', ''description'', ''notes'',
     ''includespattern'', ''excludespattern'', ''repolayoutref'', ''blackedout'', ''xrayindex'', ''propertysets'',
     ''downloadredirect'', ''priorityresolution'', ''url'', ''username'', ''password'', ''proxy'', ''hardfail'',
     ''offline'', ''storeartifactslocally'', ''sockettimeoutmillis'', ''localaddress'', ''retrievalcacheperiodsecs'',
     ''metadataretrievaltimeoutsecs'', ''missedretrievalcacheperiodsecs'', ''unusedartifactscleanupperiodhours'',
     ''assumedofflineperiodsecs'', ''shareconfiguration'', ''synchronizeproperties'', ''blockmismatchingmimetypes'',
     ''mismatchingmimetypesoverridelist'', ''allowanyhostauth'', ''enablecookiemanagement'', ''bypassheadrequests'',
     ''clienttlscertificate'', ''contentsynchronisation'', ''queryparams'', ''remoterepochecksumpolicytype'',
     ''maxuniquesnapshots'', ''fetchjarseagerly'', ''suppresspomconsistencychecks'', ''fetchsourceseagerly'',
     ''handlereleases'', ''handlesnapshots'', ''rejectinvalidjars'']"
  unfolding MavenRemoteRepositoryParams_table_def folded_append RemoteRepositoryBaseParams_folded JavaPackageManagersRemoteRepositoryParams_folded
  unfolding folded_def list.map fst_conv append.simps by code_simp

lemma MavenRemoteRepositoryParams_names: "distinct_names (MavenRemoteRepositoryParams_table p)"
  by (rule distinct_names_extend[OF RemoteRepositoryBaseParams_names, where ns = "[''remoterepochecksumpolicytype'', ''maxuniquesnapshots'', ''fetchjarseagerly'', ''suppresspomconsistencychecks'', ''fetchsourceseagerly'', ''handlereleases'', ''handlesnapshots'', ''rejectinvalidjars'']"])
    (simp_all add: MavenRemoteRepositoryParams_folded RemoteRepositoryBaseParams_folded)

record NugetRemoteRepositoryParams =
  nugetr_base :: RemoteRepositoryBaseParams
  nugetr_FeedContextPath :: string
  nugetr_DownloadContextPath :: string
  nugetr_V3FeedUrl :: string
  nugetr_ForceNugetAuthentication :: "bool option"

definition NugetRemoteRepositoryParams_table :: "NugetRemoteRepositoryParams \<Rightarrow> field_table" where
  "NugetRemoteRepositoryParams_table p =
     RemoteRepositoryBaseParams_table (nugetr_base p) @
     [(''feedContextPath'', opt_string (nugetr_FeedContextPath p)),
      (''downloadContextPath'', opt_string (nugetr_DownloadContextPath p)),
      (''v3FeedUrl'', opt_string (nugetr_V3FeedUrl p)),
      (''forceNugetAuthentication'', opt_ptr BoolV (nugetr_ForceNugetAuthentication p))]"

definition read_NugetRemoteRepositoryParams :: "members \<Rightarrow> NugetRemoteRepositoryParams result" where
  "read_NugetRemoteRepositoryParams ms =
     and_then (read_RemoteRepositoryBaseParams ms) (\<lambda>x0.
     and_then (read_string ''feedContextPath'' ms) (\<lambda>x1.
     and_then (read_string ''downloadContextPath'' ms) (\<lambda>x2.
     and_then (read_string ''v3FeedUrl'' ms) (\<lambda>x3.
     and_then (read_ptr conv_bool ''forceNugetAuthentication'' ms) (\<lambda>x4.
       Inr \<lparr>nugetr_base = x0, nugetr_FeedContextPath = x1, nugetr_DownloadContextPath = x2,
            nugetr_V3FeedUrl = x3, nugetr_ForceNugetAuthentication = x4\<rparr>)))))"

definition NugetRemoteRepositoryParams_ok :: "NugetRemoteRepositoryParams \<Rightarrow> bool" where
  "NugetRemoteRepositoryParams_ok p \<longleftrightarrow>
     RemoteRepositoryBaseParams_ok (nugetr_base p)"

lemma read_NugetRemoteRepositoryParams_table [table_reads]:
  assumes "distinct_names fs"
  shows "set (NugetRemoteRepositoryParams_table p) \<subseteq> set fs \<Longrightarrow> NugetRemoteRepositoryParams_ok p \<Longrightarrow> read_NugetRemoteRepositoryParams (table_members fs) = Inr p"
  by (cases p) (auto simp: read_NugetRemoteRepositoryParams_def NugetRemoteRepositoryParams_table_def NugetRemoteRepositoryParams_ok_def dest!: table_reads[OF assms])

definition zero_NugetRemoteRepositoryParams :: NugetRemoteRepositoryParams where
  "zero_NugetRemoteRepositoryParams =
     \<lparr>nugetr_base = zero_RemoteRepositoryBaseParams, nugetr_FeedContextPath = [],
      nugetr_DownloadContextPath = [], nugetr_V3FeedUrl = [], nugetr_ForceNugetAuthentication = None\<rparr>"

lemma NugetRemoteRepositoryParams_folded: "folded (NugetRemoteRepositoryParams_table p) =
    [''rclass'', ''key'', ''projectkey'', ''environments'', ''packagetype'', ''description'', ''notes'',
     ''includespattern'', ''excludespattern'', ''repolayoutref'', ''blackedout'', ''xrayindex'', ''propertysets'',
     ''downloadredirect'', ''priorityresolution'', ''url'', ''username'', ''password'', ''proxy'', ''hardfail'',
     ''offline'', ''storeartifactslocally'', ''sockettimeoutmillis'', ''localaddress'', ''retrievalcacheperiodsecs'',
     ''metadataretrievaltimeoutsecs'', ''missedretrievalcacheperiodsecs'', ''unusedartifactscleanupperiodhours'',
     ''assumedofflineperiodsecs'', ''shareconfiguration'', ''synchronizeproperties'', ''blockmismatchingmimetypes'',
     ''mismatchingmimetypesoverridelist'', ''allowanyhostauth'', ''enablecookiemanagement'', ''bypassheadrequests'',
     ''clienttlscertificate'', ''contentsynchronisation'', ''queryparams'', ''feedcontextpath'',
     ''downloadcontextpath'', ''v3feedurl'', ''forcenugetauthentication'']"
  unfolding NugetRemoteRepositoryParams_table_def folded_append RemoteRepositoryBaseParams_folded
  unfolding folded_def list.map fst_conv append.simps by code_simp

lemma NugetRemoteRepositoryParams_names: "distinct_names (NugetRemoteRepositoryParams_table p)"
  by (rule distinct_names_extend[OF RemoteRepositoryBaseParams_names, where ns = "[''feedcontextpath'', ''downloadcontextpath'', ''v3feedurl'', ''forcenugetauthentication'']"])
    (simp_all add: NugetRemoteRepositoryParams_folded RemoteRepositoryBaseParams_folded)

record P2RemoteRepositoryParams =
  p2r_base :: RemoteRepositoryBaseParams
  p2r_ListRemoteFolderItems :: "bool option"

definition P2RemoteRepositoryParams_table :: "P2RemoteRepositoryParams \<Rightarrow> field_table" where
  "P2RemoteRepositoryParams_table p =
     RemoteRepositoryBaseParams_table (p2r_base p) @
     [(''listRemoteFolderItems'', opt_ptr BoolV (p2r_ListRemoteFolderItems p))]"

definition read_P2RemoteRepositoryParams :: "members \<Rightarrow> P2RemoteRepositoryParams result" where
  "read_P2RemoteRepositoryParams ms =
     and_then (read_RemoteRepositoryBaseParams ms) (\<lambda>x0.
     and_then (read_ptr conv_bool ''listRemoteFolderItems'' ms) (\<lambda>x1.
       Inr \<lparr>p2r_base = x0, p2r_ListRemoteFolderItems = x1\<rparr>))"

definition P2RemoteRepositoryParams_ok :: "P2RemoteRepositoryParams \<Rightarrow> bool" where
  "P2RemoteRepositoryParams_ok p \<longleftrightarrow>
     RemoteRepositoryBaseParams_ok (p2r_base p)"

lemma read_P2RemoteRepositoryParams_table [table_reads]:
  assumes "distinct_names fs"
  shows "set (P2RemoteRepositoryParams_table p) \<subseteq> set fs \<Longrightarrow> P2RemoteRepositoryParams_ok p \<Longrightarrow> read_P2RemoteRepositoryParams (table_members fs) = Inr p"
  by (cases p) (auto simp: read_P2RemoteRepositoryParams_def P2RemoteRepositoryParams_table_def P2RemoteRepositoryParams_ok_def dest!: table_reads[OF assms])

definition zero_P2RemoteRepositoryParams :: P2RemoteRepositoryParams where
  "zero_P2RemoteRepositoryParams =
     \<lparr>p2r_base = zero_RemoteRepositoryBaseParams, p2r_ListRemoteFolderItems = None\<rparr>"

lemma P2RemoteRepositoryParams_folded: "folded (P2RemoteRepositoryParams_table p) =
    [''rclass'', ''key'', ''projectkey'', ''environments'', ''packagetype'', ''description'', ''notes'',
     ''includespattern'', ''excludespattern'', ''repolayoutref'', ''blackedout'', ''xrayindex'', ''propertysets'',
     ''downloadredirect'', ''priorityresolution'', ''url'', ''username'', ''password'', ''proxy'', ''hardfail'',
     ''offline'', ''storeartifactslocally'', ''sockettimeoutmillis'', ''localaddress'', ''retrievalcacheperiodsecs'',
     ''metadataretrievaltimeoutsecs'', ''missedretrievalcacheperiodsecs'', ''unusedartifactscleanupperiodhours'',
     ''assumedofflineperiodsecs'', ''shareconfiguration'', ''synchronizeproperties'', ''blockmismatchingmimetypes'',
     ''mismatchingmimetypesoverridelist'', ''allowanyhostauth'', ''enablecookiemanagement'', ''bypassheadrequests'',
     ''clienttlscertificate'', ''contentsynchronisation'', ''queryparams'', ''listremotefolderitems'']"
  unfolding P2RemoteRepositoryParams_table_def folded_append RemoteRepositoryBaseParams_folded
  unfolding folded_def list.map fst_conv append.simps by code_simp

lemma P2RemoteRepositoryParams_names: "distinct_names (P2RemoteRepositoryParams_table p)"
  by (rule distinct_names_extend[OF RemoteRepositoryBaseParams_names, where ns = "[''listremotefolderitems'']"])
    (simp_all add: P2RemoteRepositoryParams_folded RemoteRepositoryBaseParams_folded)

record PypiRemoteRepositoryParams =
  pypir_base :: RemoteRepositoryBaseParams
  pypir_PypiRegistryUrl :: string
  pypir_PypiRepositorySuffix :: string

definition PypiRemoteRepositoryParams_table :: "PypiRemoteRepositoryParams \<Rightarrow> field_table" where
  "PypiRemoteRepositoryParams_table p =
     RemoteRepositoryBaseParams_table (pypir_base p) @
     [(''pyPIRegistryUrl'', opt_string (pypir_PypiRegistryUrl p)),
      (''pyPIRepositorySuffix'', opt_string (pypir_PypiRepositorySuffix p))]"

definition read_PypiRemoteRepositoryParams :: "members \<Rightarrow> PypiRemoteRepositoryParams result" where
  "read_PypiRemoteRepositoryParams ms =
     and_then (read_RemoteRepositoryBaseParams ms) (\<lambda>x0.
     and_then (read_string ''pyPIRegistryUrl'' ms) (\<lambda>x1.
     and_then (read_string ''pyPIRepositorySuffix'' ms) (\<lambda>x2.
       Inr \<lparr>pypir_base = x0, pypir_PypiRegistryUrl = x1, pypir_PypiRepositorySuffix = x2\<rparr>)))"

definition PypiRemoteRepositoryParams_ok :: "PypiRemoteRepositoryParams \<Rightarrow> bool" where
  "PypiRemoteRepositoryParams_ok p \<longleftrightarrow>
     RemoteRepositoryBaseParams_ok (pypir_base p)"

lemma read_PypiRemoteRepositoryParams_table [table_reads]:
  assumes "distinct_names fs"
  shows "set (PypiRemoteRepositoryParams_table p) \<subseteq> set fs \<Longrightarrow> PypiRemoteRepositoryParams_ok p \<Longrightarrow> read_PypiRemoteRepositoryParams (table_members fs) = Inr p"
  by (cases p) (auto simp: read_PypiRemoteRepositoryParams_def PypiRemoteRepositoryParams_table_def PypiRemoteRepositoryParams_ok_def dest!: table_reads[OF assms])

definition zero_PypiRemoteRepositoryParams :: PypiRemoteRepositoryParams where
  "zero_PypiRemoteRepositoryParams =
     \<lparr>pypir_base = zero_RemoteRepositoryBaseParams, pypir_PypiRegistryUrl = [],
      pypir_PypiRepositorySuffix = []\<rparr>"

lemma PypiRemoteRepositoryParams_folded: "folded (PypiRemoteRepositoryParams_table p) =
    [''rclass'', ''key'', ''projectkey'', ''environments'', ''packagetype'', ''description'', ''notes'',
     ''includespattern'', ''excludespattern'', ''repolayoutref'', ''blackedout'', ''xrayindex'', ''propertysets'',
     ''downloadredirect'', ''priorityresolution'', ''url'', ''username'', ''password'', ''proxy'', ''hardfail'',
     ''offline'', ''storeartifactslocally'', ''sockettimeoutmillis'', ''localaddress'', ''retrievalcacheperiodsecs'',
     ''metadataretrievaltimeoutsecs'', ''missedretrievalcacheperiodsecs'', ''unusedartifactscleanupperiodhours'',
     ''assumedofflineperiodsecs'', ''shareconfiguration'', ''synchronizeproperties'', ''blockmismatchingmimetypes'',
     ''mismatchingmimetypesoverridelist'', ''allowanyhostauth'', ''enablecookiemanagement'', ''bypassheadrequests'',
     ''clienttlscertificate'', ''contentsynchronisation'', ''queryparams'', ''pypiregistryurl'',
     ''pypirepositorysuffix'']"
  unfolding PypiRemoteRepositoryParams_table_def folded_append RemoteRepositoryBaseParams_folded
  unfolding folded_def list.map fst_conv append.simps by code_simp

lemma PypiRemoteRepositoryParams_names: "distinct_names (PypiRemoteRepositoryParams_table p)"
  by (rule distinct_names_extend[OF RemoteRepositoryBaseParams_names, where ns = "[''pypiregistryurl'', ''pypirepositorysuffix'']"])
    (simp_all add: PypiRemoteRepositoryParams_folded RemoteRepositoryBaseParams_folded)

record RpmRemoteRepositoryParams =
  rpmr_base :: RemoteRepositoryBaseParams
  rpmr_ListRemoteFolderItems :: "bool option"

definition RpmRemoteRepositoryParams_table :: "RpmRemoteRepositoryParams \<Rightarrow> field_table" where
  "RpmRemoteRepositoryParams_table p =
     RemoteRepositoryBaseParams_table (rpmr_base p) @
     [(''listRemoteFolderItems'', opt_ptr BoolV (rpmr_ListRemoteFolderItems p))]"

definition read_RpmRemoteRepositoryParams :: "members \<Rightarrow> RpmRemoteRepositoryParams result" where
  "read_RpmRemoteRepositoryParams ms =
     and_then (read_RemoteRepositoryBaseParams ms) (\<lambda>x0.
     and_then (read_ptr conv_bool ''listRemoteFolderItems'' ms) (\<lambda>x1.
       Inr \<lparr>rpmr_base = x0, rpmr_ListRemoteFolderItems = x1\<rparr>))"

definition RpmRemoteRepositoryParams_ok :: "RpmRemoteRepositoryParams \<Rightarrow> bool" where
  "RpmRemoteRepositoryParams_ok p \<longleftrightarrow>
     RemoteRepositoryBaseParams_ok (rpmr_base p)"

lemma read_RpmRemoteRepositoryParams_table [table_reads]:
  assumes "distinct_names fs"
  shows "set (RpmRemoteRepositoryParams_table p) \<subseteq> set fs \<Longrightarrow> RpmRemoteRepositoryParams_ok p \<Longrightarrow> read_RpmRemoteRepositoryParams (table_members fs) = Inr p"
  by (cases p) (auto simp: read_RpmRemoteRepositoryParams_def RpmRemoteRepositoryParams_table_def RpmRemoteRepositoryParams_ok_def dest!: table_reads[OF assms])

definition zero_RpmRemoteRepositoryParams :: RpmRemoteRepositoryParams where
  "zero_RpmRemoteRepositoryParams =
     \<lparr>rpmr_base = zero_RemoteRepositoryBaseParams, rpmr_ListRemoteFolderItems = None\<rparr>"

lemma RpmRemoteRepositoryParams_folded: "folded (RpmRemoteRepositoryParams_table p) =
    [''rclass'', ''key'', ''projectkey'', ''environments'', ''packagetype'', ''description'', ''notes'',
     ''includespattern'', ''excludespattern'', ''repolayoutref'', ''blackedout'', ''xrayindex'', ''propertysets'',
     ''downloadredirect'', ''priorityresolution'', ''url'', ''username'', ''password'', ''proxy'', ''hardfail'',
     ''offline'', ''storeartifactslocally'', ''sockettimeoutmillis'', ''localaddress'', ''retrievalcacheperiodsecs'',
     ''metadataretrievaltimeoutsecs'', ''missedretrievalcacheperiodsecs'', ''unusedartifactscleanupperiodhours'',
     ''assumedofflineperiodsecs'', ''shareconfiguration'', ''synchronizeproperties'', ''blockmismatchingmimetypes'',
     ''mismatchingmimetypesoverridelist'', ''allowanyhostauth'', ''enablecookiemanagement'', ''bypassheadrequests'',
     ''clienttlscertificate'', ''contentsynchronisation'', ''queryparams'', ''listremotefolderitems'']"
  unfolding RpmRemoteRepositoryParams_table_def folded_append RemoteRepositoryBaseParams_folded
  unfolding folded_def list.map fst_conv append.simps by code_simp

lemma RpmRemoteRepositoryParams_names: "distinct_names (RpmRemoteRepositoryParams_table p)"
  by (rule distinct_names_extend[OF RemoteRepositoryBaseParams_names, where ns = "[''listremotefolderitems'']"])
    (simp_all add: RpmRemoteRepositoryParams_folded RemoteRepositoryBaseParams_folded)

record SbtRemoteRepositoryParams =
  sbtr_base :: RemoteRepositoryBaseParams
  sbtr_java :: JavaPackageManagersRemoteRepositoryParams

definition SbtRemoteRepositoryParams_table :: "SbtRemoteRepositoryParams \<Rightarrow> field_table" where
  "SbtRemoteRepositoryParams_table p =
     RemoteRepositoryBaseParams_table (sbtr_base p) @
     JavaPackageManagersRemoteRepositoryParams_table (sbtr_java p)"

definition read_SbtRemoteRepositoryParams :: "members \<Rightarrow> SbtRemoteRepositoryParams result" where
  "read_SbtRemoteRepositoryParams ms =
     and_then (read_RemoteRepositoryBaseParams ms) (\<lambda>x0.
     and_then (read_JavaPackageManagersRemoteRepositoryParams ms) (\<lambda>x1.
       Inr \<lparr>sbtr_base = x0, sbtr_java = x1\<rparr>))"

definition SbtRemoteRepositoryParams_ok :: "SbtRemoteRepositoryParams \<Rightarrow> bool" where
  "SbtRemoteRepositoryParams_ok p \<longleftrightarrow>
     RemoteRepositoryBaseParams_ok (sbtr_base p) \<and> JavaPackageManagersRemoteRepositoryParams_ok (sbtr_java p)"

lemma read_SbtRemoteRepositoryParams_table [table_reads]:
  assumes "distinct_names fs"
  shows "set (SbtRemoteRepositoryParams_table p) \<subseteq> set fs \<Longrightarrow> SbtRemoteRepositoryParams_ok p \<Longrightarrow> read_SbtRemoteRepositoryParams (table_members fs) = Inr p"
  by (cases p) (auto simp: read_SbtRemoteRepositoryParams_def SbtRemoteRepositoryParams_table_def SbtRemoteRepositoryParams_ok_def dest!: table_reads[OF assms])

definition zero_SbtRemoteRepositoryParams :: SbtRemoteRepositoryParams where
  "zero_SbtRemoteRepositoryParams =
     \<lparr>sbtr_base = zero_RemoteRepositoryBaseParams,
      sbtr_java = zero_JavaPackageManagersRemoteRepositoryParams\<rparr>"

lemma SbtRemoteRepositoryParams_folded: "folded (SbtRemoteRepositoryParams_table p) =
    [''rclass'', ''key'', ''projectkey'', ''environments'', ''packagetype'', ''description'', ''notes'',
     ''includespattern'', ''excludespattern'', ''repolayoutref'', ''blackedout'', ''xrayindex'', ''propertysets'',
     ''downloadredirect'', ''priorityresolution'', ''url'', ''username'', ''password'', ''proxy'', ''hardfail'',
     ''offline'', ''storeartifactslocally'', ''sockettimeoutmillis'', ''localaddress'', ''retrievalcacheperiodsecs'',
     ''metadataretrievaltimeoutsecs'', ''missedretrievalcacheperiodsecs'', ''unusedartifactscleanupperiodhours'',
     ''assumedofflineperiodsecs'', ''shareconfiguration'', ''synchronizeproperties'', ''blockmismatchingmimetypes'',
     ''mismatchingmimetypesoverridelist'', ''allowanyhostauth'', ''enablecookiemanagement'', ''bypassheadrequests'',
     ''clienttlscertificate'', ''contentsynchronisation'', ''queryparams'', ''remoterepochecksumpolicytype'',
     ''maxuniquesnapshots'', ''fetchjarseagerly'', ''suppresspomconsistencychecks'', ''fetchsourceseagerly'',
     ''handlereleases'', ''handlesnapshots'', ''rejectinvalidjars'']"
  unfolding SbtRemoteRepositoryParams_table_def folded_append RemoteRepositoryBaseParams_folded JavaPackageManagersRemoteRepositoryParams_folded
  unfolding folded_def list.map fst_conv append.simps by code_simp

lemma SbtRemoteRepositoryParams_names: "distinct_names (SbtRemoteRepositoryParams_table p)"
  by (rule distinct_names_extend[OF RemoteRepositoryBaseParams_names, where ns = "[''remoterepochecksumpolicytype'', ''maxuniquesnapshots'', ''fetchjarseagerly'', ''suppresspomconsistencychecks'', ''fetchsourceseagerly'', ''handlereleases'', ''handlesnapshots'', ''rejectinvalidjars'']"])
    (simp_all add: SbtRemoteRepositoryParams_folded RemoteRepositoryBaseParams_folded)

record VcsRemoteRepositoryParams =
  vcsr_base :: RemoteRepositoryBaseParams
  vcsr_vcsGit :: VcsGitRemoteRepositoryParams
  vcsr_MaxUniqueSnapshots :: int

definition VcsRemoteRepositoryParams_table :: "VcsRemoteRepositoryParams \<Rightarrow> field_table" where
  "VcsRemoteRepositoryParams_table p =
     RemoteRepositoryBaseParams_table (vcsr_base p) @
     VcsGitRemoteRepositoryParams_table (vcsr_vcsGit p) @
     [(''maxUniqueSnapshots'', opt_int (vcsr_MaxUniqueSnapshots p))]"

definition read_VcsRemoteRepositoryParams :: "members \<Rightarrow> VcsRemoteRepositoryParams result" where
  "read_VcsRemoteRepositoryParams ms =
     and_then (read_RemoteRepositoryBaseParams ms) (\<lambda>x0.
     and_then (read_VcsGitRemoteRepositoryParams ms) (\<lambda>x1.
     and_then (read_int ''maxUniqueSnapshots'' ms) (\<lambda>x2.
       Inr \<lparr>vcsr_base = x0, vcsr_vcsGit = x1, vcsr_MaxUniqueSnapshots = x2\<rparr>)))"

definition VcsRemoteRepositoryParams_ok :: "VcsRemoteRepositoryParams \<Rightarrow> bool" where
  "VcsRemoteRepositoryParams_ok p \<longleftrightarrow>
     RemoteRepositoryBaseParams_ok (vcsr_base p) \<and> machine_int (vcsr_MaxUniqueSnapshots p)"

lemma read_VcsRemoteRepositoryParams_table [table_reads]:
  assumes "distinct_names fs"
  shows "set (VcsRemoteRepositoryParams_table p) \<subseteq> set fs \<Longrightarrow> VcsRemoteRepositoryParams_ok p \<Longrightarrow> read_VcsRemoteRepositoryParams (table_members fs) = Inr p"
  by (cases p) (auto simp: read_VcsRemoteRepositoryParams_def VcsRemoteRepositoryParams_table_def VcsRemoteRepositoryParams_ok_def dest!: table_reads[OF assms])

definition zero_VcsRemoteRepositoryParams :: VcsRemoteRepositoryParams where
  "zero_VcsRemoteRepositoryParams =
     \<lparr>vcsr_base = zero_RemoteRepositoryBaseParams, vcsr_vcsGit = zero_VcsGitRemoteRepositoryParams,
      vcsr_MaxUniqueSnapshots = 0\<rparr>"

lemma VcsRemoteRepositoryParams_folded: "folded (VcsRemoteRepositoryParams_table p) =
    [''rclass'', ''key'', ''projectkey'', ''environments'', ''packagetype'', ''description'', ''notes'',
     ''includespattern'', ''excludespattern'', ''repolayoutref'', ''blackedout'', ''xrayindex'', ''propertysets'',
     ''downloadredirect'', ''priorityresolution'', ''url'', ''username'', ''password'', ''proxy'', ''hardfail'',
     ''offline'', ''storeartifactslocally'', ''sockettimeoutmillis'', ''localaddress'', ''retrievalcacheperiodsecs'',
     ''metadataretrievaltimeoutsecs'', ''missedretrievalcacheperiodsecs'', ''unusedartifactscleanupperiodhours'',
     ''assumedofflineperiodsecs'', ''shareconfiguration'', ''synchronizeproperties'', ''blockmismatchingmimetypes'',
     ''mismatchingmimetypesoverridelist'', ''allowanyhostauth'', ''enablecookiemanagement'', ''bypassheadrequests'',
     ''clienttlscertificate'', ''contentsynchronisation'', ''queryparams'', ''vcstype'', ''vcsgitprovider'',
     ''vcsgitdownloadurl'', ''maxuniquesnapshots'']"
  unfolding VcsRemoteRepositoryParams_table_def folded_append RemoteRepositoryBaseParams_folded VcsGitRemoteRepositoryParams_folded
  unfolding folded_def list.map fst_conv append.simps by code_simp

lemma VcsRemoteRepositoryParams_names: "distinct_names (VcsRemoteRepositoryParams_table p)"
  by (rule distinct_names_extend[OF RemoteRepositoryBaseParams_names, where ns = "[''vcstype'', ''vcsgitprovider'', ''vcsgitdownloadurl'', ''maxuniquesnapshots'']"])
    (simp_all add: VcsRemoteRepositoryParams_folded RemoteRepositoryBaseParams_folded)

record YumRemoteRepositoryParams =
  yumr_base :: RemoteRepositoryBaseParams
  yumr_ListRemoteFolderItems :: "bool option"

definition YumRemoteRepositoryParams_table :: "YumRemoteRepositoryParams \<Rightarrow> field_table" where
  "YumRemoteRepositoryParams_table p =
     RemoteRepositoryBaseParams_table (yumr_base p) @
     [(''listRemoteFolderItems'', opt_ptr BoolV (yumr_ListRemoteFolderItems p))]"

definition read_YumRemoteRepositoryParams :: "members \<Rightarrow> YumRemoteRepositoryParams result" where
  "read_YumRemoteRepositoryParams ms =
     and_then (read_RemoteRepositoryBaseParams ms) (\<lambda>x0.
     and_then (read_ptr conv_bool ''listRemoteFolderItems'' ms) (\<lambda>x1.
       Inr \<lparr>yumr_base = x0, yumr_ListRemoteFolderItems = x1\<rparr>))"

definition YumRemoteRepositoryParams_ok :: "YumRemoteRepositoryParams \<Rightarrow> bool" where
  "YumRemoteRepositoryParams_ok p \<longleftrightarrow>
     RemoteRepositoryBaseParams_ok (yumr_base p)"

lemma read_YumRemoteRepositoryParams_table [table_reads]:
  assumes "distinct_names fs"
  shows "set (YumRemoteRepositoryParams_table p) \<subseteq> set fs \<Longrightarrow> YumRemoteRepositoryParams_ok p \<Longrightarrow> read_YumRemoteRepositoryParams (table_members fs) = Inr p"
  by (cases p) (auto simp: read_YumRemoteRepositoryParams_def YumRemoteRepositoryParams_table_def YumRemoteRepositoryParams_ok_def dest!: table_reads[OF assms])

definition zero_YumRemoteRepositoryParams :: YumRemoteRepositoryParams where
  "zero_YumRemoteRepositoryParams =
     \<lparr>yumr_base = zero_RemoteRepositoryBaseParams, yumr_ListRemoteFolderItems = None\<rparr>"

lemma YumRemoteRepositoryParams_folded: "folded (YumRemoteRepositoryParams_table p) =
    [''rclass'', ''key'', ''projectkey'', ''environments'', ''packagetype'', ''description'', ''notes'',
     ''includespattern'', ''excludespattern'', ''repolayoutref'', ''blackedout'', ''xrayindex'', ''propertysets'',
     ''downloadredirect'', ''priorityresolution'', ''url'', ''username'', ''password'', ''proxy'', ''hardfail'',
     ''offline'', ''storeartifactslocally'', ''sockettimeoutmillis'', ''localaddress'', ''retrievalcacheperiodsecs'',
     ''metadataretrievaltimeoutsecs'', ''missedretrievalcacheperiodsecs'', ''unusedartifactscleanupperiodhours'',
     ''assumedofflineperiodsecs'', ''shareconfiguration'', ''synchronizeproperties'', ''blockmismatchingmimetypes'',
     ''mismatchingmimetypesoverridelist'', ''allowanyhostauth'', ''enablecookiemanagement'', ''bypassheadrequests'',
     ''clienttlscertificate'', ''contentsynchronisation'', ''queryparams'', ''listremotefolderitems'']"
  unfolding YumRemoteRepositoryParams_table_def folded_append RemoteRepositoryBaseParams_folded
  unfolding folded_def list.map fst_conv append.simps by code_simp

lemma YumRemoteRepositoryParams_names: "distinct_names (YumRemoteRepositoryParams_table p)"
  by (rule distinct_names_extend[OF RemoteRepositoryBaseParams_names, where ns = "[''listremotefolderitems'']"])
    (simp_all add: YumRemoteRepositoryParams_folded RemoteRepositoryBaseParams_folded)

section \<open>Any remote repository\<close>

text \<open>A struct without fields of its own is the base.\<close>

datatype RemoteRepositoryParams =
    PlainRemote RemoteRepositoryBaseParams
  | BowerRemote BowerRemoteRepositoryParams
  | CargoRemote CargoRemoteRepositoryParams
  | CocoapodsRemote CocoapodsRemoteRepositoryParams
  | ComposerRemote ComposerRemoteRepositoryParams
  | DebianRemote DebianRemoteRepositoryParams
  | DockerRemote DockerRemoteRepositoryParams
  | GemsRemote GemsRemoteRepositoryParams
  | GenericRemote GenericRemoteRepositoryParams
  | GoRemote GoRemoteRepositoryParams
  | GradleRemote GradleRemoteRepositoryParams
  | HelmRemote HelmRemoteRepositoryParams
  | IvyRemote IvyRemoteRepositoryParams
  | MavenRemote MavenRemoteRepositoryParams
  | NugetRemote NugetRemoteRepositoryParams
  | P2Remote P2RemoteRepositoryParams
  | PypiRemote PypiRemoteRepositoryParams
  | RpmRemote RpmRemoteRepositoryParams
  | SbtRemote SbtRemoteRepositoryParams
  | VcsRemote VcsRemoteRepositoryParams
  | YumRemote YumRemoteRepositoryParams

fun remote_base :: "RemoteRepositoryParams \<Rightarrow> RemoteRepositoryBaseParams" where
  "remote_base (PlainRemote p) = p"
| "remote_base (BowerRemote p) = bowerr_base p"
| "remote_base (CargoRemote p) = cargor_base p"
| "remote_base (CocoapodsRemote p) = cocoapodsr_base p"
| "remote_base (ComposerRemote p) = composerr_base p"
| "remote_base (DebianRemote p) = debianr_base p"
| "remote_base (DockerRemote p) = dockerr_base p"
| "remote_base (GemsRemote p) = gemsr_base p"
| "remote_base (GenericRemote p) = genericr_base p"
| "remote_base (GoRemote p) = gor_base p"
| "remote_base (GradleRemote p) = gradler_base p"
| "remote_base (HelmRemote p) = helmr_base p"
| "remote_base (IvyRemote p) = ivyr_base p"
| "remote_base (MavenRemote p) = mavenr_base p"
| "remote_base (NugetRemote p) = nugetr_base p"
| "remote_base (P2Remote p) = p2r_base p"
| "remote_base (PypiRemote p) = pypir_base p"
| "remote_base (RpmRemote p) = rpmr_base p"
| "remote_base (SbtRemote p) = sbtr_base p"
| "remote_base (VcsRemote p) = vcsr_base p"
| "remote_base (YumRemote p) = yumr_base p"

fun remote_table :: "RemoteRepositoryParams \<Rightarrow> field_table" where
  "remote_table (PlainRemote p) = RemoteRepositoryBaseParams_table p"
| "remote_table (BowerRemote p) = BowerRemoteRepositoryParams_table p"
| "remote_table (CargoRemote p) = CargoRemoteRepositoryParams_table p"
| "remote_table (CocoapodsRemote p) = CocoapodsRemoteRepositoryParams_table p"
| "remote_table (ComposerRemote p) = ComposerRemoteRepositoryParams_table p"
| "remote_table (DebianRemote p) = DebianRemoteRepositoryParams_table p"
| "remote_table (DockerRemote p) = DockerRemoteRepositoryParams_table p"
| "remote_table (GemsRemote p) = GemsRemoteRepositoryParams_table p"
| "remote_table (GenericRemote p) = GenericRemoteRepositoryParams_table p"
| "remote_table (GoRemote p) = GoRemoteRepositoryParams_table p"
| "remote_table (GradleRemote p) = GradleRemoteRepositoryParams_table p"
| "remote_table (HelmRemote p) = HelmRemoteRepositoryParams_table p"
| "remote_table (IvyRemote p) = IvyRemoteRepositoryParams_table p"
| "remote_table (MavenRemote p) = MavenRemoteRepositoryParams_table p"
| "remote_table (NugetRemote p) = NugetRemoteRepositoryParams_table p"
| "remote_table (P2Remote p) = P2RemoteRepositoryParams_table p"
| "remote_table (PypiRemote p) = PypiRemoteRepositoryParams_table p"
| "remote_table (RpmRemote p) = RpmRemoteRepositoryParams_table p"
| "remote_table (SbtRemote p) = SbtRemoteRepositoryParams_table p"
| "remote_table (VcsRemote p) = VcsRemoteRepositoryParams_table p"
| "remote_table (YumRemote p) = YumRemoteRepositoryParams_table p"

fun remote_ok :: "RemoteRepositoryParams \<Rightarrow> bool" where
  "remote_ok (PlainRemote p) = RemoteRepositoryBaseParams_ok p"
| "remote_ok (BowerRemote p) = BowerRemoteRepositoryParams_ok p"
| "remote_ok (CargoRemote p) = CargoRemoteRepositoryParams_ok p"
| "remote_ok (CocoapodsRemote p) = CocoapodsRemoteRepositoryParams_ok p"
| "remote_ok (ComposerRemote p) = ComposerRemoteRepositoryParams_ok p"
| "remote_ok (DebianRemote p) = DebianRemoteRepositoryParams_ok p"
| "remote_ok (DockerRemote p) = DockerRemoteRepositoryParams_ok p"
| "remote_ok (GemsRemote p) = GemsRemoteRepositoryParams_ok p"
| "remote_ok (GenericRemote p) = GenericRemoteRepositoryParams_ok p"
| "remote_ok (GoRemote p) = GoRemoteRepositoryParams_ok p"
| "remote_ok (GradleRemote p) = GradleRemoteRepositoryParams_ok p"
| "remote_ok (HelmRemote p) = HelmRemoteRepositoryParams_ok p"
| "remote_ok (IvyRemote p) = IvyRemoteRepositoryParams_ok p"
| "remote_ok (MavenRemote p) = MavenRemoteRepositoryParams_ok p"
| "remote_ok (NugetRemote p) = NugetRemoteRepositoryParams_ok p"
| "remote_ok (P2Remote p) = P2RemoteRepositoryParams_ok p"
| "remote_ok (PypiRemote p) = PypiRemoteRepositoryParams_ok p"
| "remote_ok (RpmRemote p) = RpmRemoteRepositoryParams_ok p"
| "remote_ok (SbtRemote p) = SbtRemoteRepositoryParams_ok p"
| "remote_ok (VcsRemote p) = VcsRemoteRepositoryParams_ok p"
| "remote_ok (YumRemote p) = YumRemoteRepositoryParams_ok p"

text \<open>Reading into a struct of the type that the first argument has.\<close>

fun read_remote :: "RemoteRepositoryParams \<Rightarrow> members \<Rightarrow> RemoteRepositoryParams result" where
  "read_remote (PlainRemote _) ms = map_sum id PlainRemote (read_RemoteRepositoryBaseParams ms)"
| "read_remote (BowerRemote _) ms = map_sum id BowerRemote (read_BowerRemoteRepositoryParams ms)"
| "read_remote (CargoRemote _) ms = map_sum id CargoRemote (read_CargoRemoteRepositoryParams ms)"
| "read_remote (CocoapodsRemote _) ms = map_sum id CocoapodsRemote (read_CocoapodsRemoteRepositoryParams ms)"
| "read_remote (ComposerRemote _) ms = map_sum id ComposerRemote (read_ComposerRemoteRepositoryParams ms)"
| "read_remote (DebianRemote _) ms = map_sum id DebianRemote (read_DebianRemoteRepositoryParams ms)"
| "read_remote (DockerRemote _) ms = map_sum id DockerRemote (read_DockerRemoteRepositoryParams ms)"
| "read_remote (GemsRemote _) ms = map_sum id GemsRemote (read_GemsRemoteRepositoryParams ms)"
| "read_remote (GenericRemote _) ms = map_sum id GenericRemote (read_GenericRemoteRepositoryParams ms)"
| "read_remote (GoRemote _) ms = map_sum id GoRemote (read_GoRemoteRepositoryParams ms)"
| "read_remote (GradleRemote _) ms = map_sum id GradleRemote (read_GradleRemoteRepositoryParams ms)"
| "read_remote (HelmRemote _) ms = map_sum id HelmRemote (read_HelmRemoteRepositoryParams ms)"
| "read_remote (IvyRemote _) ms = map_sum id IvyRemote (read_IvyRemoteRepositoryParams ms)"
| "read_remote (MavenRemote _) ms = map_sum id MavenRemote (read_MavenRemoteRepositoryParams ms)"
| "read_remote (NugetRemote _) ms = map_sum id NugetRemote (read_NugetRemoteRepositoryParams ms)"
| "read_remote (P2Remote _) ms = map_sum id P2Remote (read_P2RemoteRepositoryParams ms)"
| "read_remote (PypiRemote _) ms = map_sum id PypiRemote (read_PypiRemoteRepositoryParams ms)"
| "read_remote (RpmRemote _) ms = map_sum id RpmRemote (read_RpmRemoteRepositoryParams ms)"
| "read_remote (SbtRemote _) ms = map_sum id SbtRemote (read_SbtRemoteRepositoryParams ms)"
| "read_remote (VcsRemote _) ms = map_sum id VcsRemote (read_VcsRemoteRepositoryParams ms)"
| "read_remote (YumRemote _) ms = map_sum id YumRemote (read_YumRemoteRepositoryParams ms)"

definition NewRemoteRepositoryBaseParams :: RemoteRepositoryBaseParams where
  "NewRemoteRepositoryBaseParams = zero_RemoteRepositoryBaseParams\<lparr>rr_base := zero_RepositoryBaseParams\<lparr>rb_Rclass := ''remote''\<rparr>\<rparr>"

definition NewRemoteRepositoryPackageParams :: "string \<Rightarrow> RemoteRepositoryBaseParams" where
  "NewRemoteRepositoryPackageParams packageType =
     zero_RemoteRepositoryBaseParams\<lparr>rr_base := zero_RepositoryBaseParams\<lparr>rb_Rclass := ''remote'', rb_PackageType := packageType\<rparr>\<rparr>"

fun NewRemoteRepositoryParams :: "package \<Rightarrow> RemoteRepositoryParams option" where
  "NewRemoteRepositoryParams Alpine = Some (PlainRemote (NewRemoteRepositoryPackageParams ''alpine''))"
| "NewRemoteRepositoryParams Bower = Some (BowerRemote (zero_BowerRemoteRepositoryParams\<lparr>bowerr_base := NewRemoteRepositoryPackageParams ''bower''\<rparr>))"
| "NewRemoteRepositoryParams Cargo = Some (CargoRemote (zero_CargoRemoteRepositoryParams\<lparr>cargor_base := NewRemoteRepositoryPackageParams ''cargo''\<rparr>))"
| "NewRemoteRepositoryParams Chef = Some (PlainRemote (NewRemoteRepositoryPackageParams ''chef''))"
| "NewRemoteRepositoryParams Cocoapods = Some (CocoapodsRemote (zero_CocoapodsRemoteRepositoryParams\<lparr>cocoapodsr_base := NewRemoteRepositoryPackageParams ''cocoapods''\<rparr>))"
| "NewRemoteRepositoryParams Composer = Some (ComposerRemote (zero_ComposerRemoteRepositoryParams\<lparr>composerr_base := NewRemoteRepositoryPackageParams ''composer''\<rparr>))"
| "NewRemoteRepositoryParams Conan = Some (PlainRemote (NewRemoteRepositoryPackageParams ''conan''))"
| "NewRemoteRepositoryParams Conda = Some (PlainRemote (NewRemoteRepositoryPackageParams ''conda''))"
| "NewRemoteRepositoryParams Cran = Some (PlainRemote (NewRemoteRepositoryPackageParams ''cran''))"
| "NewRemoteRepositoryParams Debian = Some (DebianRemote (zero_DebianRemoteRepositoryParams\<lparr>debianr_base := NewRemoteRepositoryPackageParams ''debian''\<rparr>))"
| "NewRemoteRepositoryParams Docker = Some (DockerRemote (zero_DockerRemoteRepositoryParams\<lparr>dockerr_base := NewRemoteRepositoryPackageParams ''docker''\<rparr>))"
| "NewRemoteRepositoryParams Gems = Some (GemsRemote (zero_GemsRemoteRepositoryParams\<lparr>gemsr_base := NewRemoteRepositoryPackageParams ''gems''\<rparr>))"
| "NewRemoteRepositoryParams Generic = Some (GenericRemote (zero_GenericRemoteRepositoryParams\<lparr>genericr_base := NewRemoteRepositoryPackageParams ''generic''\<rparr>))"
| "NewRemoteRepositoryParams Gitlfs = Some (PlainRemote (NewRemoteRepositoryPackageParams ''gitlfs''))"
| "NewRemoteRepositoryParams Go = Some (GoRemote (zero_GoRemoteRepositoryParams\<lparr>gor_base := NewRemoteRepositoryPackageParams ''go''\<rparr>))"
| "NewRemoteRepositoryParams Gradle = Some (GradleRemote (zero_GradleRemoteRepositoryParams\<lparr>gradler_base := NewRemoteRepositoryPackageParams ''gradle''\<rparr>))"
| "NewRemoteRepositoryParams Helm = Some (HelmRemote (zero_HelmRemoteRepositoryParams\<lparr>helmr_base := NewRemoteRepositoryPackageParams ''helm''\<rparr>))"
| "NewRemoteRepositoryParams Ivy = Some (IvyRemote (zero_IvyRemoteRepositoryParams\<lparr>ivyr_base := NewRemoteRepositoryPackageParams ''ivy''\<rparr>))"
| "NewRemoteRepositoryParams Maven = Some (MavenRemote (zero_MavenRemoteRepositoryParams\<lparr>mavenr_base := NewRemoteRepositoryPackageParams ''maven''\<rparr>))"
| "NewRemoteRepositoryParams Npm = Some (PlainRemote (NewRemoteRepositoryPackageParams ''npm''))"
| "NewRemoteRepositoryParams Nuget = Some (NugetRemote (zero_NugetRemoteRepositoryParams\<lparr>nugetr_base := NewRemoteRepositoryPackageParams ''nuget''\<rparr>))"
| "NewRemoteRepositoryParams Opkg = Some (PlainRemote (NewRemoteRepositoryPackageParams ''opkg''))"
| "NewRemoteRepositoryParams P2 = Some (P2Remote (zero_P2RemoteRepositoryParams\<lparr>p2r_base := NewRemoteRepositoryPackageParams ''p2''\<rparr>))"
| "NewRemoteRepositoryParams Puppet = Some (PlainRemote (NewRemoteRepositoryPackageParams ''puppet''))"
| "NewRemoteRepositoryParams Pypi = Some (PypiRemote (zero_PypiRemoteRepositoryParams\<lparr>pypir_base := NewRemoteRepositoryPackageParams ''pypi''\<rparr>))"
| "NewRemoteRepositoryParams Rpm = Some (RpmRemote (zero_RpmRemoteRepositoryParams\<lparr>rpmr_base := NewRemoteRepositoryPackageParams ''rpm''\<rparr>))"
| "NewRemoteRepositoryParams Sbt = Some (SbtRemote (zero_SbtRemoteRepositoryParams\<lparr>sbtr_base := NewRemoteRepositoryPackageParams ''sbt''\<rparr>))"
| "NewRemoteRepositoryParams Swift = Some (PlainRemote (NewRemoteRepositoryPackageParams ''swift''))"
| "NewRemoteRepositoryParams Vcs = Some (VcsRemote (zero_VcsRemoteRepositoryParams\<lparr>vcsr_base := NewRemoteRepositoryPackageParams ''vcs''\<rparr>))"
| "NewRemoteRepositoryParams Yum = Some (YumRemote (zero_YumRemoteRepositoryParams\<lparr>yumr_base := NewRemoteRepositoryPackageParams ''yum''\<rparr>))"
| "NewRemoteRepositoryParams _ = None"

text \<open>The methods of the service, one for each struct.\<close>

definition RemoteRepositoryService :: "'w service \<Rightarrow> bool \<Rightarrow> RemoteRepositoryParams \<Rightarrow> 'w \<Rightarrow> (go_error option \<times> 'w) option" where
  "RemoteRepositoryService rs isUpdate params = repo_performRequest rs isUpdate (remote_table params) (rb_Key (rr_base (remote_base params)))"

lemma read_remote_shown:
  assumes "distinct_names fs"
  shows "set (remote_table p) \<subseteq> set fs \<Longrightarrow> remote_ok p \<Longrightarrow> read_remote p (table_members fs) = Inr p"
  by (cases p) (simp_all add: read_RemoteRepositoryBaseParams_table[OF assms]
    read_BowerRemoteRepositoryParams_table[OF assms]
    read_CargoRemoteRepositoryParams_table[OF assms]
    read_CocoapodsRemoteRepositoryParams_table[OF assms]
    read_ComposerRemoteRepositoryParams_table[OF assms]
    read_DebianRemoteRepositoryParams_table[OF assms]
    read_DockerRemoteRepositoryParams_table[OF assms]
    read_GemsRemoteRepositoryParams_table[OF assms]
    read_GenericRemoteRepositoryParams_table[OF assms]
    read_GoRemoteRepositoryParams_table[OF assms]
    read_GradleRemoteRepositoryParams_table[OF assms]
    read_HelmRemoteRepositoryParams_table[OF assms]
    read_IvyRemoteRepositoryParams_table[OF assms]
    read_MavenRemoteRepositoryParams_table[OF assms]
    read_NugetRemoteRepositoryParams_table[OF assms]
    read_P2RemoteRepositoryParams_table[OF assms]
    read_PypiRemoteRepositoryParams_table[OF assms]
    read_RpmRemoteRepositoryParams_table[OF assms]
    read_SbtRemoteRepositoryParams_table[OF assms]
    read_VcsRemoteRepositoryParams_table[OF assms]
    read_YumRemoteRepositoryParams_table[OF assms])

lemma remote_names: "distinct_names (remote_table p)"
  by (cases p) (simp_all add: RemoteRepositoryBaseParams_names
    BowerRemoteRepositoryParams_names
    CargoRemoteRepositoryParams_names
    CocoapodsRemoteRepositoryParams_names
    ComposerRemoteRepositoryParams_names
    DebianRemoteRepositoryParams_names
    DockerRemoteRepositoryParams_names
    GemsRemoteRepositoryParams_names
    GenericRemoteRepositoryParams_names
    GoRemoteRepositoryParams_names
    GradleRemoteRepositoryParams_names
    HelmRemoteRepositoryParams_names
    IvyRemoteRepositoryParams_names
    MavenRemoteRepositoryParams_names
    NugetRemoteRepositoryParams_names
    P2RemoteRepositoryParams_names
    PypiRemoteRepositoryParams_names
    RpmRemoteRepositoryParams_names
    SbtRemoteRepositoryParams_names
    VcsRemoteRepositoryParams_names
    YumRemoteRepositoryParams_names)

end
