(* ===== verification/VirtualRepository.thy ===== *)
theory VirtualRepository
  imports Repository
begin

text \<open>
  Virtual repositories, \<^verbatim>\<open>artifactory/services/virtualrepository.go\<close>: the parameters of each package type with their JSON, and the
  requests that create and update them.
\<close>

section \<open>Parameters\<close>

record VirtualRepositoryBaseParams =
  vr_base :: RepositoryBaseParams
  vr_keyPairRefs :: KeyPairRefsRepositoryParams
  vr_Repositories :: "string list"
  vr_ArtifactoryRequestsCanRetrieveRemoteArtifacts :: "bool option"
  vr_DefaultDeploymentRepo :: string

definition VirtualRepositoryBaseParams_table :: "VirtualRepositoryBaseParams \<Rightarrow> field_table" where
  "VirtualRepositoryBaseParams_table p =
     RepositoryBaseParams_table (vr_base p) @
     KeyPairRefsRepositoryParams_table (vr_keyPairRefs p) @
     [(''repositories'', opt_list StrV (vr_Repositories p)),
      (''artifactoryRequestsCanRetrieveRemoteArtifacts'', opt_ptr BoolV (vr_ArtifactoryRequestsCanRetrieveRemoteArtifacts p)),
      (''defaultDeploymentRepo'', opt_string (vr_DefaultDeploymentRepo p))]"

definition read_VirtualRepositoryBaseParams :: "members \<Rightarrow> VirtualRepositoryBaseParams result" where
  "read_VirtualRepositoryBaseParams ms =
     and_then (read_RepositoryBaseParams ms) (\<lambda>x0.
     and_then (read_KeyPairRefsRepositoryParams ms) (\<lambda>x1.
     and_then (read_strings ''repositories'' ms) (\<lambda>x2.
     and_then (read_ptr conv_bool ''artifactoryRequestsCanRetrieveRemoteArtifacts'' ms) (\<lambda>x3.
     and_then (read_string ''defaultDeploymentRepo'' ms) (\<lambda>x4.
       Inr \<lparr>vr_base = x0, vr_keyPairRefs = x1, vr_Repositories = x2,
            vr_ArtifactoryRequestsCanRetrieveRemoteArtifacts = x3, vr_DefaultDeploymentRepo = x4\<rparr>)))))"

lemma read_VirtualRepositoryBaseParams_table [table_reads]:
  assumes "distinct_names fs"
  shows "set (VirtualRepositoryBaseParams_table p) \<subseteq> set fs \<Longrightarrow> read_VirtualRepositoryBaseParams (table_members fs) = Inr p"
  by (cases p) (auto simp: read_VirtualRepositoryBaseParams_def VirtualRepositoryBaseParams_table_def dest!: table_reads[OF assms])

definition zero_VirtualRepositoryBaseParams :: VirtualRepositoryBaseParams where
  "zero_VirtualRepositoryBaseParams =
     \<lparr>vr_base = zero_RepositoryBaseParams, vr_keyPairRefs = zero_KeyPairRefsRepositoryParams,
      vr_Repositories = [], vr_ArtifactoryRequestsCanRetrieveRemoteArtifacts = None,
      vr_DefaultDeploymentRepo = []\<rparr>"

lemma VirtualRepositoryBaseParams_folded: "folded (VirtualRepositoryBaseParams_table p) =
    [''rclass'', ''key'', ''projectkey'', ''environments'', ''packagetype'', ''description'', ''notes'',
     ''includespattern'', ''excludespattern'', ''repolayoutref'', ''primarykeypairref'', ''secondarykeypairref'',
     ''repositories'', ''artifactoryrequestscanretrieveremoteartifacts'', ''defaultdeploymentrepo'']"
  unfolding VirtualRepositoryBaseParams_table_def folded_append RepositoryBaseParams_folded KeyPairRefsRepositoryParams_folded
  unfolding folded_def list.map fst_conv append.simps by code_simp

lemma VirtualRepositoryBaseParams_names: "distinct_names (VirtualRepositoryBaseParams_table p)"
  unfolding distinct_names_folded VirtualRepositoryBaseParams_folded by simp

record CommonJavaVirtualRepositoryParams =
  cj_PomRepositoryReferencesCleanupPolicy :: string
  cj_KeyPair :: string

definition CommonJavaVirtualRepositoryParams_table :: "CommonJavaVirtualRepositoryParams \<Rightarrow> field_table" where
  "CommonJavaVirtualRepositoryParams_table p =
     [(''pomRepositoryReferencesCleanupPolicy'', opt_string (cj_PomRepositoryReferencesCleanupPolicy p)),
      (''keyPair'', opt_string (cj_KeyPair p))]"

definition read_CommonJavaVirtualRepositoryParams :: "members \<Rightarrow> CommonJavaVirtualRepositoryParams result" where
  "read_CommonJavaVirtualRepositoryParams ms =
     and_then (read_string ''pomRepositoryReferencesCleanupPolicy'' ms) (\<lambda>x0.
     and_then (read_string ''keyPair'' ms) (\<lambda>x1.
       Inr \<lparr>cj_PomRepositoryReferencesCleanupPolicy = x0, cj_KeyPair = x1\<rparr>))"

lemma read_CommonJavaVirtualRepositoryParams_table [table_reads]:
  assumes "distinct_names fs"
  shows "set (CommonJavaVirtualRepositoryParams_table p) \<subseteq> set fs \<Longrightarrow> read_CommonJavaVirtualRepositoryParams (table_members fs) = Inr p"
  by (cases p) (auto simp: read_CommonJavaVirtualRepositoryParams_def CommonJavaVirtualRepositoryParams_table_def dest!: table_reads[OF assms])

definition zero_CommonJavaVirtualRepositoryParams :: CommonJavaVirtualRepositoryParams where
  "zero_CommonJavaVirtualRepositoryParams =
     \<lparr>cj_PomRepositoryReferencesCleanupPolicy = [], cj_KeyPair = []\<rparr>"

record CommonCacheVirtualRepositoryParams =
  cc_VirtualRetrievalCachePeriodSecs :: int

definition CommonCacheVirtualRepositoryParams_table :: "CommonCacheVirtualRepositoryParams \<Rightarrow> field_table" where
  "CommonCacheVirtualRepositoryParams_table p =
     [(''virtualRetrievalCachePeriodSecs'', opt_int (cc_VirtualRetrievalCachePeriodSecs p))]"

definition read_CommonCacheVirtualRepositoryParams :: "members \<Rightarrow> CommonCacheVirtualRepositoryParams result" where
  "read_CommonCacheVirtualRepositoryParams ms =
     and_then (read_int ''virtualRetrievalCachePeriodSecs'' ms) (\<lambda>x0.
       Inr \<lparr>cc_VirtualRetrievalCachePeriodSecs = x0\<rparr>)"

definition CommonCacheVirtualRepositoryParams_ok :: "CommonCacheVirtualRepositoryParams \<Rightarrow> bool" where
  "CommonCacheVirtualRepositoryParams_ok p \<longleftrightarrow>
     machine_int (cc_VirtualRetrievalCachePeriodSecs p)"

lemma read_CommonCacheVirtualRepositoryParams_table [table_reads]:
  assumes "distinct_names fs"
  shows "set (CommonCacheVirtualRepositoryParams_table p) \<subseteq> set fs \<Longrightarrow> CommonCacheVirtualRepositoryParams_ok p \<Longrightarrow> read_CommonCacheVirtualRepositoryParams (table_members fs) = Inr p"
  by (cases p) (auto simp: read_CommonCacheVirtualRepositoryParams_def CommonCacheVirtualRepositoryParams_table_def CommonCacheVirtualRepositoryParams_ok_def dest!: table_reads[OF assms])

definition zero_CommonCacheVirtualRepositoryParams :: CommonCacheVirtualRepositoryParams where
  "zero_CommonCacheVirtualRepositoryParams =
     \<lparr>cc_VirtualRetrievalCachePeriodSecs = 0\<rparr>"

record AlpineVirtualRepositoryParams =
  alpinev_base :: VirtualRepositoryBaseParams
  alpinev_cache :: CommonCacheVirtualRepositoryParams

definition AlpineVirtualRepositoryParams_table :: "AlpineVirtualRepositoryParams \<Rightarrow> field_table" where
  "AlpineVirtualRepositoryParams_table p =
     VirtualRepositoryBaseParams_table (alpinev_base p) @
     CommonCacheVirtualRepositoryParams_table (alpinev_cache p)"

definition read_AlpineVirtualRepositoryParams :: "members \<Rightarrow> AlpineVirtualRepositoryParams result" where
  "read_AlpineVirtualRepositoryParams ms =
     and_then (read_VirtualRepositoryBaseParams ms) (\<lambda>x0.
     and_then (read_CommonCacheVirtualRepositoryParams ms) (\<lambda>x1.
       Inr \<lparr>alpinev_base = x0, alpinev_cache = x1\<rparr>))"

definition AlpineVirtualRepositoryParams_ok :: "AlpineVirtualRepositoryParams \<Rightarrow> bool" where
  "AlpineVirtualRepositoryParams_ok p \<longleftrightarrow>
     CommonCacheVirtualRepositoryParams_ok (alpinev_cache p)"

lemma read_AlpineVirtualRepositoryParams_table [table_reads]:
  assumes "distinct_names fs"
  shows "set (AlpineVirtualRepositoryParams_table p) \<subseteq> set fs \<Longrightarrow> AlpineVirtualRepositoryParams_ok p \<Longrightarrow> read_AlpineVirtualRepositoryParams (table_members fs) = Inr p"
  by (cases p) (auto simp: read_AlpineVirtualRepositoryParams_def AlpineVirtualRepositoryParams_table_def AlpineVirtualRepositoryParams_ok_def dest!: table_reads[OF assms])

definition zero_AlpineVirtualRepositoryParams :: AlpineVirtualRepositoryParams where
  "zero_AlpineVirtualRepositoryParams =
     \<lparr>alpinev_base = zero_VirtualRepositoryBaseParams,
      alpinev_cache = zero_CommonCacheVirtualRepositoryParams\<rparr>"

lemma CommonCacheVirtualRepositoryParams_folded: "folded (CommonCacheVirtualRepositoryParams_table p) =
    [''virtualretrievalcacheperiodsecs'']"
  unfolding CommonCacheVirtualRepositoryParams_table_def folded_append 
  unfolding folded_def list.map fst_conv append.simps by code_simp

lemma AlpineVirtualRepositoryParams_folded: "folded (AlpineVirtualRepositoryParams_table p) =
    [''rclass'', ''key'', ''projectkey'', ''environments'', ''packagetype'', ''description'', ''notes'',
     ''includespattern'', ''excludespattern'', ''repolayoutref'', ''primarykeypairref'', ''secondarykeypairref'',
     ''repositories'', ''artifactoryrequestscanretrieveremoteartifacts'', ''defaultdeploymentrepo'',
     ''virtualretrievalcacheperiodsecs'']"
  unfolding AlpineVirtualRepositoryParams_table_def folded_append VirtualRepositoryBaseParams_folded CommonCacheVirtualRepositoryParams_folded
  unfolding folded_def list.map fst_conv append.simps by code_simp

lemma AlpineVirtualRepositoryParams_names: "distinct_names (AlpineVirtualRepositoryParams_table p)"
  by (rule distinct_names_extend[OF VirtualRepositoryBaseParams_names, where ns = "[''virtualretrievalcacheperiodsecs'']"])
    (simp_all add: AlpineVirtualRepositoryParams_folded VirtualRepositoryBaseParams_folded)

record BowerVirtualRepositoryParams =
  bowerv_base :: VirtualRepositoryBaseParams
  bowerv_ExternalDependenciesEnabled :: "bool option"
  bowerv_ExternalDependenciesPatterns :: "string list"
  bowerv_ExternalDependenciesRemoteRepo :: string

definition BowerVirtualRepositoryParams_table :: "BowerVirtualRepositoryParams \<Rightarrow> field_table" where
  "BowerVirtualRepositoryParams_table p =
     VirtualRepositoryBaseParams_table (bowerv_base p) @
     [(''externalDependenciesEnabled'', opt_ptr BoolV (bowerv_ExternalDependenciesEnabled p)),
      (''externalDependenciesPatterns'', opt_list StrV (bowerv_ExternalDependenciesPatterns p)),
      (''externalDependenciesRemoteRepo'', opt_string (bowerv_ExternalDependenciesRemoteRepo p))]"

definition read_BowerVirtualRepositoryParams :: "members \<Rightarrow> BowerVirtualRepositoryParams result" where
  "read_BowerVirtualRepositoryParams ms =
     and_then (read_VirtualRepositoryBaseParams ms) (\<lambda>x0.
     and_then (read_ptr conv_bool ''externalDependenciesEnabled'' ms) (\<lambda>x1.
     and_then (read_strings ''externalDependenciesPatterns'' ms) (\<lambda>x2.
     and_then (read_string ''externalDependenciesRemoteRepo'' ms) (\<lambda>x3.
       Inr \<lparr>bowerv_base = x0, bowerv_ExternalDependenciesEnabled = x1,
            bowerv_ExternalDependenciesPatterns = x2, bowerv_ExternalDependenciesRemoteRepo = x3\<rparr>))))"

lemma read_BowerVirtualRepositoryParams_table [table_reads]:
  assumes "distinct_names fs"
  shows "set (BowerVirtualRepositoryParams_table p) \<subseteq> set fs \<Longrightarrow> read_BowerVirtualRepositoryParams (table_members fs) = Inr p"
  by (cases p) (auto simp: read_BowerVirtualRepositoryParams_def BowerVirtualRepositoryParams_table_def dest!: table_reads[OF assms])

definition zero_BowerVirtualRepositoryParams :: BowerVirtualRepositoryParams where
  "zero_BowerVirtualRepositoryParams =
     \<lparr>bowerv_base = zero_VirtualRepositoryBaseParams, bowerv_ExternalDependenciesEnabled = None,
      bowerv_ExternalDependenciesPatterns = [], bowerv_ExternalDependenciesRemoteRepo = []\<rparr>"

lemma BowerVirtualRepositoryParams_folded: "folded (BowerVirtualRepositoryParams_table p) =
    [''rclass'', ''key'', ''projectkey'', ''environments'', ''packagetype'', ''description'', ''notes'',
     ''includespattern'', ''excludespattern'', ''repolayoutref'', ''primarykeypairref'', ''secondarykeypairref'',
     ''repositories'', ''artifactoryrequestscanretrieveremoteartifacts'', ''defaultdeploymentrepo'',
     ''externaldependenciesenabled'', ''externaldependenciespatterns'', ''externaldependenciesremoterepo'']"
  unfolding BowerVirtualRepositoryParams_table_def folded_append VirtualRepositoryBaseParams_folded
  unfolding folded_def list.map fst_conv append.simps by code_simp

lemma BowerVirtualRepositoryParams_names: "distinct_names (BowerVirtualRepositoryParams_table p)"
  by (rule distinct_names_extend[OF VirtualRepositoryBaseParams_names, where ns = "[''externaldependenciesenabled'', ''externaldependenciespatterns'', ''externaldependenciesremoterepo'']"])
    (simp_all add: BowerVirtualRepositoryParams_folded VirtualRepositoryBaseParams_folded)

record ChefVirtualRepositoryParams =
  chefv_base :: VirtualRepositoryBaseParams
  chefv_cache :: CommonCacheVirtualRepositoryParams

definition ChefVirtualRepositoryParams_table :: "ChefVirtualRepositoryParams \<Rightarrow> field_table" where
  "ChefVirtualRepositoryParams_table p =
     VirtualRepositoryBaseParams_table (chefv_base p) @
     CommonCacheVirtualRepositoryParams_table (chefv_cache p)"

definition read_ChefVirtualRepositoryParams :: "members \<Rightarrow> ChefVirtualRepositoryParams result" where
  "read_ChefVirtualRepositoryParams ms =
     and_then (read_VirtualRepositoryBaseParams ms) (\<lambda>x0.
     and_then (read_CommonCacheVirtualRepositoryParams ms) (\<lambda>x1.
       Inr \<lparr>chefv_base = x0, chefv_cache = x1\<rparr>))"

definition ChefVirtualRepositoryParams_ok :: "ChefVirtualRepositoryParams \<Rightarrow> bool" where
  "ChefVirtualRepositoryParams_ok p \<longleftrightarrow>
     CommonCacheVirtualRepositoryParams_ok (chefv_cache p)"

lemma read_ChefVirtualRepositoryParams_table [table_reads]:
  assumes "distinct_names fs"
  shows "set (ChefVirtualRepositoryParams_table p) \<subseteq> set fs \<Longrightarrow> ChefVirtualRepositoryParams_ok p \<Longrightarrow> read_ChefVirtualRepositoryParams (table_members fs) = Inr p"
  by (cases p) (auto simp: read_ChefVirtualRepositoryParams_def ChefVirtualRepositoryParams_table_def ChefVirtualRepositoryParams_ok_def dest!: table_reads[OF assms])

definition zero_ChefVirtualRepositoryParams :: ChefVirtualRepositoryParams where
  "zero_ChefVirtualRepositoryParams =
     \<lparr>chefv_base = zero_VirtualRepositoryBaseParams,
      chefv_cache = zero_CommonCacheVirtualRepositoryParams\<rparr>"

lemma ChefVirtualRepositoryParams_folded: "folded (ChefVirtualRepositoryParams_table p) =
    [''rclass'', ''key'', ''projectkey'', ''environments'', ''packagetype'', ''description'', ''notes'',
     ''includespattern'', ''excludespattern'', ''repolayoutref'', ''primarykeypairref'', ''secondarykeypairref'',
     ''repositories'', ''artifactoryrequestscanretrieveremoteartifacts'', ''defaultdeploymentrepo'',
     ''virtualretrievalcacheperiodsecs'']"
  unfolding ChefVirtualRepositoryParams_table_def folded_append VirtualRepositoryBaseParams_folded CommonCacheVirtualRepositoryParams_folded
  unfolding folded_def list.map fst_conv append.simps by code_simp

lemma ChefVirtualRepositoryParams_names: "distinct_names (ChefVirtualRepositoryParams_table p)"
  by (rule distinct_names_extend[OF VirtualRepositoryBaseParams_names, where ns = "[''virtualretrievalcacheperiodsecs'']"])
    (simp_all add: ChefVirtualRepositoryParams_folded VirtualRepositoryBaseParams_folded)

record ConanVirtualRepositoryParams =
  conanv_base :: VirtualRepositoryBaseParams
  conanv_cache :: CommonCacheVirtualRepositoryParams

definition ConanVirtualRepositoryParams_table :: "ConanVirtualRepositoryParams \<Rightarrow> field_table" where
  "ConanVirtualRepositoryParams_table p =
     VirtualRepositoryBaseParams_table (conanv_base p) @
     CommonCacheVirtualRepositoryParams_table (conanv_cache p)"

definition read_ConanVirtualRepositoryParams :: "members \<Rightarrow> ConanVirtualRepositoryParams result" where
  "read_ConanVirtualRepositoryParams ms =
     and_then (read_VirtualRepositoryBaseParams ms) (\<lambda>x0.
     and_then (read_CommonCacheVirtualRepositoryParams ms) (\<lambda>x1.
       Inr \<lparr>conanv_base = x0, conanv_cache = x1\<rparr>))"

definition ConanVirtualRepositoryParams_ok :: "ConanVirtualRepositoryParams \<Rightarrow> bool" where
  "ConanVirtualRepositoryParams_ok p \<longleftrightarrow>
     CommonCacheVirtualRepositoryParams_ok (conanv_cache p)"

lemma read_ConanVirtualRepositoryParams_table [table_reads]:
  assumes "distinct_names fs"
  shows "set (ConanVirtualRepositoryParams_table p) \<subseteq> set fs \<Longrightarrow> ConanVirtualRepositoryParams_ok p \<Longrightarrow> read_ConanVirtualRepositoryParams (table_members fs) = Inr p"
  by (cases p) (auto simp: read_ConanVirtualRepositoryParams_def ConanVirtualRepositoryParams_table_def ConanVirtualRepositoryParams_ok_def dest!: table_reads[OF assms])

definition zero_ConanVirtualRepositoryParams :: ConanVirtualRepositoryParams where
  "zero_ConanVirtualRepositoryParams =
     \<lparr>conanv_base = zero_VirtualRepositoryBaseParams,
      conanv_cache = zero_CommonCacheVirtualRepositoryParams\<rparr>"

lemma ConanVirtualRepositoryParams_folded: "folded (ConanVirtualRepositoryParams_table p) =
    [''rclass'', ''key'', ''projectkey'', ''environments'', ''packagetype'', ''description'', ''notes'',
     ''includespattern'', ''excludespattern'', ''repolayoutref'', ''primarykeypairref'', ''secondarykeypairref'',
     ''repositories'', ''artifactoryrequestscanretrieveremoteartifacts'', ''defaultdeploymentrepo'',
     ''virtualretrievalcacheperiodsecs'']"
  unfolding ConanVirtualRepositoryParams_table_def folded_append VirtualRepositoryBaseParams_folded CommonCacheVirtualRepositoryParams_folded
  unfolding folded_def list.map fst_conv append.simps by code_simp

lemma ConanVirtualRepositoryParams_names: "distinct_names (ConanVirtualRepositoryParams_table p)"
  by (rule distinct_names_extend[OF VirtualRepositoryBaseParams_names, where ns = "[''virtualretrievalcacheperiodsecs'']"])
    (simp_all add: ConanVirtualRepositoryParams_folded VirtualRepositoryBaseParams_folded)

record CondaVirtualRepositoryParams =
  condav_base :: VirtualRepositoryBaseParams
  condav_cache :: CommonCacheVirtualRepositoryParams

definition CondaVirtualRepositoryParams_table :: "CondaVirtualRepositoryParams \<Rightarrow> field_table" where
  "CondaVirtualRepositoryParams_table p =
     VirtualRepositoryBaseParams_table (condav_base p) @
     CommonCacheVirtualRepositoryParams_table (condav_cache p)"

definition read_CondaVirtualRepositoryParams :: "members \<Rightarrow> CondaVirtualRepositoryParams result" where
  "read_CondaVirtualRepositoryParams ms =
     and_then (read_VirtualRepositoryBaseParams ms) (\<lambda>x0.
     and_then (read_CommonCacheVirtualRepositoryParams ms) (\<lambda>x1.
       Inr \<lparr>condav_base = x0, condav_cache = x1\<rparr>))"

definition CondaVirtualRepositoryParams_ok :: "CondaVirtualRepositoryParams \<Rightarrow> bool" where
  "CondaVirtualRepositoryParams_ok p \<longleftrightarrow>
     CommonCacheVirtualRepositoryParams_ok (condav_cache p)"

lemma read_CondaVirtualRepositoryParams_table [table_reads]:
  assumes "distinct_names fs"
  shows "set (CondaVirtualRepositoryParams_table p) \<subseteq> set fs \<Longrightarrow> CondaVirtualRepositoryParams_ok p \<Longrightarrow> read_CondaVirtualRepositoryParams (table_members fs) = Inr p"
  by (cases p) (auto simp: read_CondaVirtualRepositoryParams_def CondaVirtualRepositoryParams_table_def CondaVirtualRepositoryParams_ok_def dest!: table_reads[OF assms])

definition zero_CondaVirtualRepositoryParams :: CondaVirtualRepositoryParams where
  "zero_CondaVirtualRepositoryParams =
     \<lparr>condav_base = zero_VirtualRepositoryBaseParams,
      condav_cache = zero_CommonCacheVirtualRepositoryParams\<rparr>"

lemma CondaVirtualRepositoryParams_folded: "folded (CondaVirtualRepositoryParams_table p) =
    [''rclass'', ''key'', ''projectkey'', ''environments'', ''packagetype'', ''description'', ''notes'',
     ''includespattern'', ''excludespattern'', ''repolayoutref'', ''primarykeypairref'', ''secondarykeypairref'',
     ''repositories'', ''artifactoryrequestscanretrieveremoteartifacts'', ''defaultdeploymentrepo'',
     ''virtualretrievalcacheperiodsecs'']"
  unfolding CondaVirtualRepositoryParams_table_def folded_append VirtualRepositoryBaseParams_folded CommonCacheVirtualRepositoryParams_folded
  unfolding folded_def list.map fst_conv append.simps by code_simp

lemma CondaVirtualRepositoryParams_names: "distinct_names (CondaVirtualRepositoryParams_table p)"
  by (rule distinct_names_extend[OF VirtualRepositoryBaseParams_names, where ns = "[''virtualretrievalcacheperiodsecs'']"])
    (simp_all add: CondaVirtualRepositoryParams_folded VirtualRepositoryBaseParams_folded)

record CranVirtualRepositoryParams =
  cranv_base :: VirtualRepositoryBaseParams
  cranv_cache :: CommonCacheVirtualRepositoryParams

definition CranVirtualRepositoryParams_table :: "CranVirtualRepositoryParams \<Rightarrow> field_table" where
  "CranVirtualRepositoryParams_table p =
     VirtualRepositoryBaseParams_table (cranv_base p) @
     CommonCacheVirtualRepositoryParams_table (cranv_cache p)"

definition read_CranVirtualRepositoryParams :: "members \<Rightarrow> CranVirtualRepositoryParams result" where
  "read_CranVirtualRepositoryParams ms =
     and_then (read_VirtualRepositoryBaseParams ms) (\<lambda>x0.
     and_then (read_CommonCacheVirtualRepositoryParams ms) (\<lambda>x1.
       Inr \<lparr>cranv_base = x0, cranv_cache = x1\<rparr>))"

definition CranVirtualRepositoryParams_ok :: "CranVirtualRepositoryParams \<Rightarrow> bool" where
  "CranVirtualRepositoryParams_ok p \<longleftrightarrow>
     CommonCacheVirtualRepositoryParams_ok (cranv_cache p)"

lemma read_CranVirtualRepositoryParams_table [table_reads]:
  assumes "distinct_names fs"
  shows "set (CranVirtualRepositoryParams_table p) \<subseteq> set fs \<Longrightarrow> CranVirtualRepositoryParams_ok p \<Longrightarrow> read_CranVirtualRepositoryParams (table_members fs) = Inr p"
  by (cases p) (auto simp: read_CranVirtualRepositoryParams_def CranVirtualRepositoryParams_table_def CranVirtualRepositoryParams_ok_def dest!: table_reads[OF assms])

definition zero_CranVirtualRepositoryParams :: CranVirtualRepositoryParams where
  "zero_CranVirtualRepositoryParams =
     \<lparr>cranv_base = zero_VirtualRepositoryBaseParams,
      cranv_cache = zero_CommonCacheVirtualRepositoryParams\<rparr>"

lemma CranVirtualRepositoryParams_folded: "folded (CranVirtualRepositoryParams_table p) =
    [''rclass'', ''key'', ''projectkey'', ''environments'', ''packagetype'', ''description'', ''notes'',
     ''includespattern'', ''excludespattern'', ''repolayoutref'', ''primarykeypairref'', ''secondarykeypairref'',
     ''repositories'', ''artifactoryrequestscanretrieveremoteartifacts'', ''defaultdeploymentrepo'',
     ''virtualretrievalcacheperiodsecs'']"
  unfolding CranVirtualRepositoryParams_table_def folded_append VirtualRepositoryBaseParams_folded CommonCacheVirtualRepositoryParams_folded
  unfolding folded_def list.map fst_conv append.simps by code_simp

lemma CranVirtualRepositoryParams_names: "distinct_names (CranVirtualRepositoryParams_table p)"
  by (rule distinct_names_extend[OF VirtualRepositoryBaseParams_names, where ns = "[''virtualretrievalcacheperiodsecs'']"])
    (simp_all add: CranVirtualRepositoryParams_folded VirtualRepositoryBaseParams_folded)

record DebianVirtualRepositoryParams =
  debianv_base :: VirtualRepositoryBaseParams
  debianv_cache :: CommonCacheVirtualRepositoryParams
  debianv_DebianDefaultArchitectures :: string
  debianv_OptionalIndexCompressionFormats :: "string list"

definition DebianVirtualRepositoryParams_table :: "DebianVirtualRepositoryParams \<Rightarrow> field_table" where
  "DebianVirtualRepositoryParams_table p =
     VirtualRepositoryBaseParams_table (debianv_base p) @
     CommonCacheVirtualRepositoryParams_table (debianv_cache p) @
     [(''debianDefaultArchitectures'', opt_string (debianv_DebianDefaultArchitectures p)),
      (''optionalIndexCompressionFormats'', opt_list StrV (debianv_OptionalIndexCompressionFormats p))]"

definition read_DebianVirtualRepositoryParams :: "members \<Rightarrow> DebianVirtualRepositoryParams result" where
  "read_DebianVirtualRepositoryParams ms =
     and_then (read_VirtualRepositoryBaseParams ms) (\<lambda>x0.
     and_then (read_CommonCacheVirtualRepositoryParams ms) (\<lambda>x1.
     and_then (read_string ''debianDefaultArchitectures'' ms) (\<lambda>x2.
     and_then (read_strings ''optionalIndexCompressionFormats'' ms) (\<lambda>x3.
       Inr \<lparr>debianv_base = x0, debianv_cache = x1, debianv_DebianDefaultArchitectures = x2,
            debianv_OptionalIndexCompressionFormats = x3\<rparr>))))"

definition DebianVirtualRepositoryParams_ok :: "DebianVirtualRepositoryParams \<Rightarrow> bool" where
  "DebianVirtualRepositoryParams_ok p \<longleftrightarrow>
     CommonCacheVirtualRepositoryParams_ok (debianv_cache p)"

lemma read_DebianVirtualRepositoryParams_table [table_reads]:
  assumes "distinct_names fs"
  shows "set (DebianVirtualRepositoryParams_table p) \<subseteq> set fs \<Longrightarrow> DebianVirtualRepositoryParams_ok p \<Longrightarrow> read_DebianVirtualRepositoryParams (table_members fs) = Inr p"
  by (cases p) (auto simp: read_DebianVirtualRepositoryParams_def DebianVirtualRepositoryParams_table_def DebianVirtualRepositoryParams_ok_def dest!: table_reads[OF assms])

definition zero_DebianVirtualRepositoryParams :: DebianVirtualRepositoryParams where
  "zero_DebianVirtualRepositoryParams =
     \<lparr>debianv_base = zero_VirtualRepositoryBaseParams,
      debianv_cache = zero_CommonCacheVirtualRepositoryParams, debianv_DebianDefaultArchitectures = [],
      debianv_OptionalIndexCompressionFormats = []\<rparr>"

lemma DebianVirtualRepositoryParams_folded: "folded (DebianVirtualRepositoryParams_table p) =
    [''rclass'', ''key'', ''projectkey'', ''environments'', ''packagetype'', ''description'', ''notes'',
     ''includespattern'', ''excludespattern'', ''repolayoutref'', ''primarykeypairref'', ''secondarykeypairref'',
     ''repositories'', ''artifactoryrequestscanretrieveremoteartifacts'', ''defaultdeploymentrepo'',
     ''virtualretrievalcacheperiodsecs'', ''debiandefaultarchitectures'', ''optionalindexcompressionformats'']"
  unfolding DebianVirtualRepositoryParams_table_def folded_append VirtualRepositoryBaseParams_folded CommonCacheVirtualRepositoryParams_folded
  unfolding folded_def list.map fst_conv append.simps by code_simp

lemma DebianVirtualRepositoryParams_names: "distinct_names (DebianVirtualRepositoryParams_table p)"
  by (rule distinct_names_extend[OF VirtualRepositoryBaseParams_names, where ns = "[''virtualretrievalcacheperiodsecs'', ''debiandefaultarchitectures'', ''optionalindexcompressionformats'']"])
    (simp_all add: DebianVirtualRepositoryParams_folded VirtualRepositoryBaseParams_folded)

record DockerVirtualRepositoryParams =
  dockerv_base :: VirtualRepositoryBaseParams
  dockerv_ResolveDockerTagsByTimestamp :: "bool option"

definition DockerVirtualRepositoryParams_table :: "DockerVirtualRepositoryParams \<Rightarrow> field_table" where
  "DockerVirtualRepositoryParams_table p =
     VirtualRepositoryBaseParams_table (dockerv_base p) @
     [(''resolveDockerTagsByTimestamp'', opt_ptr BoolV (dockerv_ResolveDockerTagsByTimestamp p))]"

definition read_DockerVirtualRepositoryParams :: "members \<Rightarrow> DockerVirtualRepositoryParams result" where
  "read_DockerVirtualRepositoryParams ms =
     and_then (read_VirtualRepositoryBaseParams ms) (\<lambda>x0.
     and_then (read_ptr conv_bool ''resolveDockerTagsByTimestamp'' ms) (\<lambda>x1.
       Inr \<lparr>dockerv_base = x0, dockerv_ResolveDockerTagsByTimestamp = x1\<rparr>))"

lemma read_DockerVirtualRepositoryParams_table [table_reads]:
  assumes "distinct_names fs"
  shows "set (DockerVirtualRepositoryParams_table p) \<subseteq> set fs \<Longrightarrow> read_DockerVirtualRepositoryParams (table_members fs) = Inr p"
  by (cases p) (auto simp: read_DockerVirtualRepositoryParams_def DockerVirtualRepositoryParams_table_def dest!: table_reads[OF assms])

definition zero_DockerVirtualRepositoryParams :: DockerVirtualRepositoryParams where
  "zero_DockerVirtualRepositoryParams =
     \<lparr>dockerv_base = zero_VirtualRepositoryBaseParams, dockerv_ResolveDockerTagsByTimestamp = None\<rparr>"

lemma DockerVirtualRepositoryParams_folded: "folded (DockerVirtualRepositoryParams_table p) =
    [''rclass'', ''key'', ''projectkey'', ''environments'', ''packagetype'', ''description'', ''notes'',
     ''includespattern'', ''excludespattern'', ''repolayoutref'', ''primarykeypairref'', ''secondarykeypairref'',
     ''repositories'', ''artifactoryrequestscanretrieveremoteartifacts'', ''defaultdeploymentrepo'',
     ''resolvedockertagsbytimestamp'']"
  unfolding DockerVirtualRepositoryParams_table_def folded_append VirtualRepositoryBaseParams_folded
  unfolding folded_def list.map fst_conv append.simps by code_simp

lemma DockerVirtualRepositoryParams_names: "distinct_names (DockerVirtualRepositoryParams_table p)"
  by (rule distinct_names_extend[OF VirtualRepositoryBaseParams_names, where ns = "[''resolvedockertagsbytimestamp'']"])
    (simp_all add: DockerVirtualRepositoryParams_folded VirtualRepositoryBaseParams_folded)

record GoVirtualRepositoryParams =
  gov_base :: VirtualRepositoryBaseParams
  gov_ExternalDependenciesEnabled :: "bool option"
  gov_ExternalDependenciesPatterns :: "string list"

definition GoVirtualRepositoryParams_table :: "GoVirtualRepositoryParams \<Rightarrow> field_table" where
  "GoVirtualRepositoryParams_table p =
     VirtualRepositoryBaseParams_table (gov_base p) @
     [(''externalDependenciesEnabled'', opt_ptr BoolV (gov_ExternalDependenciesEnabled p)),
      (''externalDependenciesPatterns'', opt_list StrV (gov_ExternalDependenciesPatterns p))]"

definition read_GoVirtualRepositoryParams :: "members \<Rightarrow> GoVirtualRepositoryParams result" where
  "read_GoVirtualRepositoryParams ms =
     and_then (read_VirtualRepositoryBaseParams ms) (\<lambda>x0.
     and_then (read_ptr conv_bool ''externalDependenciesEnabled'' ms) (\<lambda>x1.
     and_then (read_strings ''externalDependenciesPatterns'' ms) (\<lambda>x2.
       Inr \<lparr>gov_base = x0, gov_ExternalDependenciesEnabled = x1,
            gov_ExternalDependenciesPatterns = x2\<rparr>)))"

lemma read_GoVirtualRepositoryParams_table [table_reads]:
  assumes "distinct_names fs"
  shows "set (GoVirtualRepositoryParams_table p) \<subseteq> set fs \<Longrightarrow> read_GoVirtualRepositoryParams (table_members fs) = Inr p"
  by (cases p) (auto simp: read_GoVirtualRepositoryParams_def GoVirtualRepositoryParams_table_def dest!: table_reads[OF assms])

definition zero_GoVirtualRepositoryParams :: GoVirtualRepositoryParams where
  "zero_GoVirtualRepositoryParams =
     \<lparr>gov_base = zero_VirtualRepositoryBaseParams, gov_ExternalDependenciesEnabled = None,
      gov_ExternalDependenciesPatterns = []\<rparr>"

lemma GoVirtualRepositoryParams_folded: "folded (GoVirtualRepositoryParams_table p) =
    [''rclass'', ''key'', ''projectkey'', ''environments'', ''packagetype'', ''description'', ''notes'',
     ''includespattern'', ''excludespattern'', ''repolayoutref'', ''primarykeypairref'', ''secondarykeypairref'',
     ''repositories'', ''artifactoryrequestscanretrieveremoteartifacts'', ''defaultdeploymentrepo'',
     ''externaldependenciesenabled'', ''externaldependenciespatterns'']"
  unfolding GoVirtualRepositoryParams_table_def folded_append VirtualRepositoryBaseParams_folded
  unfolding folded_def list.map fst_conv append.simps by code_simp

lemma GoVirtualRepositoryParams_names: "distinct_names (GoVirtualRepositoryParams_table p)"
  by (rule distinct_names_extend[OF VirtualRepositoryBaseParams_names, where ns = "[''externaldependenciesenabled'', ''externaldependenciespatterns'']"])
    (simp_all add: GoVirtualRepositoryParams_folded VirtualRepositoryBaseParams_folded)

record GradleVirtualRepositoryParams =
  gradlev_base :: VirtualRepositoryBaseParams
  gradlev_java :: CommonJavaVirtualRepositoryParams

definition GradleVirtualRepositoryParams_table :: "GradleVirtualRepositoryParams \<Rightarrow> field_table" where
  "GradleVirtualRepositoryParams_table p =
     VirtualRepositoryBaseParams_table (gradlev_base p) @
     CommonJavaVirtualRepositoryParams_table (gradlev_java p)"

definition read_GradleVirtualRepositoryParams :: "members \<Rightarrow> GradleVirtualRepositoryParams result" where
  "read_GradleVirtualRepositoryParams ms =
     and_then (read_VirtualRepositoryBaseParams ms) (\<lambda>x0.
     and_then (read_CommonJavaVirtualRepositoryParams ms) (\<lambda>x1.
       Inr \<lparr>gradlev_base = x0, gradlev_java = x1\<rparr>))"

lemma read_GradleVirtualRepositoryParams_table [table_reads]:
  assumes "distinct_names fs"
  shows "set (GradleVirtualRepositoryParams_table p) \<subseteq> set fs \<Longrightarrow> read_GradleVirtualRepositoryParams (table_members fs) = Inr p"
  by (cases p) (auto simp: read_GradleVirtualRepositoryParams_def GradleVirtualRepositoryParams_table_def dest!: table_reads[OF assms])

definition zero_GradleVirtualRepositoryParams :: GradleVirtualRepositoryParams where
  "zero_GradleVirtualRepositoryParams =
     \<lparr>gradlev_base = zero_VirtualRepositoryBaseParams,
      gradlev_java = zero_CommonJavaVirtualRepositoryParams\<rparr>"

lemma CommonJavaVirtualRepositoryParams_folded: "folded (CommonJavaVirtualRepositoryParams_table p) =
    [''pomrepositoryreferencescleanuppolicy'', ''keypair'']"
  unfolding CommonJavaVirtualRepositoryParams_table_def folded_append 
  unfolding folded_def list.map fst_conv append.simps by code_simp

lemma GradleVirtualRepositoryParams_folded: "folded (GradleVirtualRepositoryParams_table p) =
    [''rclass'', ''key'', ''projectkey'', ''environments'', ''packagetype'', ''description'', ''notes'',
     ''includespattern'', ''excludespattern'', ''repolayoutref'', ''primarykeypairref'', ''secondarykeypairref'',
     ''repositories'', ''artifactoryrequestscanretrieveremoteartifacts'', ''defaultdeploymentrepo'',
     ''pomrepositoryreferencescleanuppolicy'', ''keypair'']"
  unfolding GradleVirtualRepositoryParams_table_def folded_append VirtualRepositoryBaseParams_folded CommonJavaVirtualRepositoryParams_folded
  unfolding folded_def list.map fst_conv append.simps by code_simp

lemma GradleVirtualRepositoryParams_names: "distinct_names (GradleVirtualRepositoryParams_table p)"
  by (rule distinct_names_extend[OF VirtualRepositoryBaseParams_names, where ns = "[''pomrepositoryreferencescleanuppolicy'', ''keypair'']"])
    (simp_all add: GradleVirtualRepositoryParams_folded VirtualRepositoryBaseParams_folded)

record HelmVirtualRepositoryParams =
  helmv_base :: VirtualRepositoryBaseParams
  helmv_cache :: CommonCacheVirtualRepositoryParams

definition HelmVirtualRepositoryParams_table :: "HelmVirtualRepositoryParams \<Rightarrow> field_table" where
  "HelmVirtualRepositoryParams_table p =
     VirtualRepositoryBaseParams_table (helmv_base p) @
     CommonCacheVirtualRepositoryParams_table (helmv_cache p)"

definition read_HelmVirtualRepositoryParams :: "members \<Rightarrow> HelmVirtualRepositoryParams result" where
  "read_HelmVirtualRepositoryParams ms =
     and_then (read_VirtualRepositoryBaseParams ms) (\<lambda>x0.
     and_then (read_CommonCacheVirtualRepositoryParams ms) (\<lambda>x1.
       Inr \<lparr>helmv_base = x0, helmv_cache = x1\<rparr>))"

definition HelmVirtualRepositoryParams_ok :: "HelmVirtualRepositoryParams \<Rightarrow> bool" where
  "HelmVirtualRepositoryParams_ok p \<longleftrightarrow>
     CommonCacheVirtualRepositoryParams_ok (helmv_cache p)"

lemma read_HelmVirtualRepositoryParams_table [table_reads]:
  assumes "distinct_names fs"
  shows "set (HelmVirtualRepositoryParams_table p) \<subseteq> set fs \<Longrightarrow> HelmVirtualRepositoryParams_ok p \<Longrightarrow> read_HelmVirtualRepositoryParams (table_members fs) = Inr p"
  by (cases p) (auto simp: read_HelmVirtualRepositoryParams_def HelmVirtualRepositoryParams_table_def HelmVirtualRepositoryParams_ok_def dest!: table_reads[OF assms])

definition zero_HelmVirtualRepositoryParams :: HelmVirtualRepositoryParams where
  "zero_HelmVirtualRepositoryParams =
     \<lparr>helmv_base = zero_VirtualRepositoryBaseParams,
      helmv_cache = zero_CommonCacheVirtualRepositoryParams\<rparr>"

lemma HelmVirtualRepositoryParams_folded: "folded (HelmVirtualRepositoryParams_table p) =
    [''rclass'', ''key'', ''projectkey'', ''environments'', ''packagetype'', ''description'', ''notes'',
     ''includespattern'', ''excludespattern'', ''repolayoutref'', ''primarykeypairref'', ''secondarykeypairref'',
     ''repositories'', ''artifactoryrequestscanretrieveremoteartifacts'', ''defaultdeploymentrepo'',
     ''virtualretrievalcacheperiodsecs'']"
  unfolding HelmVirtualRepositoryParams_table_def folded_append VirtualRepositoryBaseParams_folded CommonCacheVirtualRepositoryParams_folded
  unfolding folded_def list.map fst_conv append.simps by code_simp

lemma HelmVirtualRepositoryParams_names: "distinct_names (HelmVirtualRepositoryParams_table p)"
  by (rule distinct_names_extend[OF VirtualRepositoryBaseParams_names, where ns = "[''virtualretrievalcacheperiodsecs'']"])
    (simp_all add: HelmVirtualRepositoryParams_folded VirtualRepositoryBaseParams_folded)

record IvyVirtualRepositoryParams =
  ivyv_base :: VirtualRepositoryBaseParams
  ivyv_java :: CommonJavaVirtualRepositoryParams

definition IvyVirtualRepositoryParams_table :: "IvyVirtualRepositoryParams \<Rightarrow> field_table" where
  "IvyVirtualRepositoryParams_table p =
     VirtualRepositoryBaseParams_table (ivyv_base p) @
     CommonJavaVirtualRepositoryParams_table (ivyv_java p)"

definition read_IvyVirtualRepositoryParams :: "members \<Rightarrow> IvyVirtualRepositoryParams result" where
  "read_IvyVirtualRepositoryParams ms =
     and_then (read_VirtualRepositoryBaseParams ms) (\<lambda>x0.
     and_then (read_CommonJavaVirtualRepositoryParams ms) (\<lambda>x1.
       Inr \<lparr>ivyv_base = x0, ivyv_java = x1\<rparr>))"

lemma read_IvyVirtualRepositoryParams_table [table_reads]:
  assumes "distinct_names fs"
  shows "set (IvyVirtualRepositoryParams_table p) \<subseteq> set fs \<Longrightarrow> read_IvyVirtualRepositoryParams (table_members fs) = Inr p"
  by (cases p) (auto simp: read_IvyVirtualRepositoryParams_def IvyVirtualRepositoryParams_table_def dest!: table_reads[OF assms])

definition zero_IvyVirtualRepositoryParams :: IvyVirtualRepositoryParams where
  "zero_IvyVirtualRepositoryParams =
     \<lparr>ivyv_base = zero_VirtualRepositoryBaseParams, ivyv_java = zero_CommonJavaVirtualRepositoryParams\<rparr>"

lemma IvyVirtualRepositoryParams_folded: "folded (IvyVirtualRepositoryParams_table p) =
    [''rclass'', ''key'', ''projectkey'', ''environments'', ''packagetype'', ''description'', ''notes'',
     ''includespattern'', ''excludespattern'', ''repolayoutref'', ''primarykeypairref'', ''secondarykeypairref'',
     ''repositories'', ''artifactoryrequestscanretrieveremoteartifacts'', ''defaultdeploymentrepo'',
     ''pomrepositoryreferencescleanuppolicy'', ''keypair'']"
  unfolding IvyVirtualRepositoryParams_table_def folded_append VirtualRepositoryBaseParams_folded CommonJavaVirtualRepositoryParams_folded
  unfolding folded_def list.map fst_conv append.simps by code_simp

lemma IvyVirtualRepositoryParams_names: "distinct_names (IvyVirtualRepositoryParams_table p)"
  by (rule distinct_names_extend[OF VirtualRepositoryBaseParams_names, where ns = "[''pomrepositoryreferencescleanuppolicy'', ''keypair'']"])
    (simp_all add: IvyVirtualRepositoryParams_folded VirtualRepositoryBaseParams_folded)

record MavenVirtualRepositoryParams =
  mavenv_base :: VirtualRepositoryBaseParams
  mavenv_java :: CommonJavaVirtualRepositoryParams
  mavenv_ForceMavenAuthentication :: "bool option"

definition MavenVirtualRepositoryParams_table :: "MavenVirtualRepositoryParams \<Rightarrow> field_table" where
  "MavenVirtualRepositoryParams_table p =
     VirtualRepositoryBaseParams_table (mavenv_base p) @
     CommonJavaVirtualRepositoryParams_table (mavenv_java p) @
     [(''forceMavenAuthentication'', opt_ptr BoolV (mavenv_ForceMavenAuthentication p))]"

definition read_MavenVirtualRepositoryParams :: "members \<Rightarrow> MavenVirtualRepositoryParams result" where
  "read_MavenVirtualRepositoryParams ms =
     and_then (read_VirtualRepositoryBaseParams ms) (\<lambda>x0.
     and_then (read_CommonJavaVirtualRepositoryParams ms) (\<lambda>x1.
     and_then (read_ptr conv_bool ''forceMavenAuthentication'' ms) (\<lambda>x2.
       Inr \<lparr>mavenv_base = x0, mavenv_java = x1, mavenv_ForceMavenAuthentication = x2\<rparr>)))"

lemma read_MavenVirtualRepositoryParams_table [table_reads]:
  assumes "distinct_names fs"
  shows "set (MavenVirtualRepositoryParams_table p) \<subseteq> set fs \<Longrightarrow> read_MavenVirtualRepositoryParams (table_members fs) = Inr p"
  by (cases p) (auto simp: read_MavenVirtualRepositoryParams_def MavenVirtualRepositoryParams_table_def dest!: table_reads[OF assms])

definition zero_MavenVirtualRepositoryParams :: MavenVirtualRepositoryParams where
  "zero_MavenVirtualRepositoryParams =
     \<lparr>mavenv_base = zero_VirtualRepositoryBaseParams, mavenv_java = zero_CommonJavaVirtualRepositoryParams,
      mavenv_ForceMavenAuthentication = None\<rparr>"

lemma MavenVirtualRepositoryParams_folded: "folded (MavenVirtualRepositoryParams_table p) =
    [''rclass'', ''key'', ''projectkey'', ''environments'', ''packagetype'', ''description'', ''notes'',
     ''includespattern'', ''excludespattern'', ''repolayoutref'', ''primarykeypairref'', ''secondarykeypairref'',
     ''repositories'', ''artifactoryrequestscanretrieveremoteartifacts'', ''defaultdeploymentrepo'',
     ''pomrepositoryreferencescleanuppolicy'', ''keypair'', ''forcemavenauthentication'']"
  unfolding MavenVirtualRepositoryParams_table_def folded_append VirtualRepositoryBaseParams_folded CommonJavaVirtualRepositoryParams_folded
  unfolding folded_def list.map fst_conv append.simps by code_simp

lemma MavenVirtualRepositoryParams_names: "distinct_names (MavenVirtualRepositoryParams_table p)"
  by (rule distinct_names_extend[OF VirtualRepositoryBaseParams_names, where ns = "[''pomrepositoryreferencescleanuppolicy'', ''keypair'', ''forcemavenauthentication'']"])
    (simp_all add: MavenVirtualRepositoryParams_folded VirtualRepositoryBaseParams_folded)

record NpmVirtualRepositoryParams =
  npmv_base :: VirtualRepositoryBaseParams
  npmv_cache :: CommonCacheVirtualRepositoryParams
  npmv_ExternalDependenciesEnabled :: "bool option"
  npmv_ExternalDependenciesPatterns :: "string list"
  npmv_ExternalDependenciesRemoteRepo :: string

definition NpmVirtualRepositoryParams_table :: "NpmVirtualRepositoryParams \<Rightarrow> field_table" where
  "NpmVirtualRepositoryParams_table p =
     VirtualRepositoryBaseParams_table (npmv_base p) @
     CommonCacheVirtualRepositoryParams_table (npmv_cache p) @
     [(''externalDependenciesEnabled'', opt_ptr BoolV (npmv_ExternalDependenciesEnabled p)),
      (''externalDependenciesPatterns'', opt_list StrV (npmv_ExternalDependenciesPatterns p)),
      (''externalDependenciesRemoteRepo'', opt_string (npmv_ExternalDependenciesRemoteRepo p))]"

definition read_NpmVirtualRepositoryParams :: "members \<Rightarrow> NpmVirtualRepositoryParams result" where
  "read_NpmVirtualRepositoryParams ms =
     and_then (read_VirtualRepositoryBaseParams ms) (\<lambda>x0.
     and_then (read_CommonCacheVirtualRepositoryParams ms) (\<lambda>x1.
     and_then (read_ptr conv_bool ''externalDependenciesEnabled'' ms) (\<lambda>x2.
     and_then (read_strings ''externalDependenciesPatterns'' ms) (\<lambda>x3.
     and_then (read_string ''externalDependenciesRemoteRepo'' ms) (\<lambda>x4.
       Inr \<lparr>npmv_base = x0, npmv_cache = x1, npmv_ExternalDependenciesEnabled = x2,
            npmv_ExternalDependenciesPatterns = x3, npmv_ExternalDependenciesRemoteRepo = x4\<rparr>)))))"

definition NpmVirtualRepositoryParams_ok :: "NpmVirtualRepositoryParams \<Rightarrow> bool" where
  "NpmVirtualRepositoryParams_ok p \<longleftrightarrow>
     CommonCacheVirtualRepositoryParams_ok (npmv_cache p)"

lemma read_NpmVirtualRepositoryParams_table [table_reads]:
  assumes "distinct_names fs"
  shows "set (NpmVirtualRepositoryParams_table p) \<subseteq> set fs \<Longrightarrow> NpmVirtualRepositoryParams_ok p \<Longrightarrow> read_NpmVirtualRepositoryParams (table_members fs) = Inr p"
  by (cases p) (auto simp: read_NpmVirtualRepositoryParams_def NpmVirtualRepositoryParams_table_def NpmVirtualRepositoryParams_ok_def dest!: table_reads[OF assms])

definition zero_NpmVirtualRepositoryParams :: NpmVirtualRepositoryParams where
  "zero_NpmVirtualRepositoryParams =
     \<lparr>npmv_base = zero_VirtualRepositoryBaseParams, npmv_cache = zero_CommonCacheVirtualRepositoryParams,
      npmv_ExternalDependenciesEnabled = None, npmv_ExternalDependenciesPatterns = [],
      npmv_ExternalDependenciesRemoteRepo = []\<rparr>"

lemma NpmVirtualRepositoryParams_folded: "folded (NpmVirtualRepositoryParams_table p) =
    [''rclass'', ''key'', ''projectkey'', ''environments'', ''packagetype'', ''description'', ''notes'',
     ''includespattern'', ''excludespattern'', ''repolayoutref'', ''primarykeypairref'', ''secondarykeypairref'',
     ''repositories'', ''artifactoryrequestscanretrieveremoteartifacts'', ''defaultdeploymentrepo'',
     ''virtualretrievalcacheperiodsecs'', ''externaldependenciesenabled'', ''externaldependenciespatterns'',
     ''externaldependenciesremoterepo'']"
  unfolding NpmVirtualRepositoryParams_table_def folded_append VirtualRepositoryBaseParams_folded CommonCacheVirtualRepositoryParams_folded
  unfolding folded_def list.map fst_conv append.simps by code_simp

lemma NpmVirtualRepositoryParams_names: "distinct_names (NpmVirtualRepositoryParams_table p)"
  by (rule distinct_names_extend[OF VirtualRepositoryBaseParams_names, where ns = "[''virtualretrievalcacheperiodsecs'', ''externaldependenciesenabled'', ''externaldependenciespatterns'', ''externaldependenciesremoterepo'']"])
    (simp_all add: NpmVirtualRepositoryParams_folded VirtualRepositoryBaseParams_folded)

record NugetVirtualRepositoryParams =
  nugetv_base :: VirtualRepositoryBaseParams
  nugetv_ForceNugetAuthentication :: "bool option"

definition NugetVirtualRepositoryParams_table :: "NugetVirtualRepositoryParams \<Rightarrow> field_table" where
  "NugetVirtualRepositoryParams_table p =
     VirtualRepositoryBaseParams_table (nugetv_base p) @
     [(''forceNugetAuthentication'', opt_ptr BoolV (nugetv_ForceNugetAuthentication p))]"

definition read_NugetVirtualRepositoryParams :: "members \<Rightarrow> NugetVirtualRepositoryParams result" where
  "read_NugetVirtualRepositoryParams ms =
     and_then (read_VirtualRepositoryBaseParams ms) (\<lambda>x0.
     and_then (read_ptr conv_bool ''forceNugetAuthentication'' ms) (\<lambda>x1.
       Inr \<lparr>nugetv_base = x0, nugetv_ForceNugetAuthentication = x1\<rparr>))"

lemma read_NugetVirtualRepositoryParams_table [table_reads]:
  assumes "distinct_names fs"
  shows "set (NugetVirtualRepositoryParams_table p) \<subseteq> set fs \<Longrightarrow> read_NugetVirtualRepositoryParams (table_members fs) = Inr p"
  by (cases p) (auto simp: read_NugetVirtualRepositoryParams_def NugetVirtualRepositoryParams_table_def dest!: table_reads[OF assms])

definition zero_NugetVirtualRepositoryParams :: NugetVirtualRepositoryParams where
  "zero_NugetVirtualRepositoryParams =
     \<lparr>nugetv_base = zero_VirtualRepositoryBaseParams, nugetv_ForceNugetAuthentication = None\<rparr>"

lemma NugetVirtualRepositoryParams_folded: "folded (NugetVirtualRepositoryParams_table p) =
    [''rclass'', ''key'', ''projectkey'', ''environments'', ''packagetype'', ''description'', ''notes'',
     ''includespattern'', ''excludespattern'', ''repolayoutref'', ''primarykeypairref'', ''secondarykeypairref'',
     ''repositories'', ''artifactoryrequestscanretrieveremoteartifacts'', ''defaultdeploymentrepo'',
     ''forcenugetauthentication'']"
  unfolding NugetVirtualRepositoryParams_table_def folded_append VirtualRepositoryBaseParams_folded
  unfolding folded_def list.map fst_conv append.simps by code_simp

lemma NugetVirtualRepositoryParams_names: "distinct_names (NugetVirtualRepositoryParams_table p)"
  by (rule distinct_names_extend[OF VirtualRepositoryBaseParams_names, where ns = "[''forcenugetauthentication'']"])
    (simp_all add: NugetVirtualRepositoryParams_folded VirtualRepositoryBaseParams_folded)

record P2VirtualRepositoryParams =
  p2v_base :: VirtualRepositoryBaseParams
  p2v_P2Urls :: "string list"

definition P2VirtualRepositoryParams_table :: "P2VirtualRepositoryParams \<Rightarrow> field_table" where
  "P2VirtualRepositoryParams_table p =
     VirtualRepositoryBaseParams_table (p2v_base p) @
     [(''p2Urls'', opt_list StrV (p2v_P2Urls p))]"

definition read_P2VirtualRepositoryParams :: "members \<Rightarrow> P2VirtualRepositoryParams result" where
  "read_P2VirtualRepositoryParams ms =
     and_then (read_VirtualRepositoryBaseParams ms) (\<lambda>x0. and_then (read_strings ''p2Urls'' ms) (\<lambda>x1.
       Inr \<lparr>p2v_base = x0, p2v_P2Urls = x1\<rparr>))"

lemma read_P2VirtualRepositoryParams_table [table_reads]:
  assumes "distinct_names fs"
  shows "set (P2VirtualRepositoryParams_table p) \<subseteq> set fs \<Longrightarrow> read_P2VirtualRepositoryParams (table_members fs) = Inr p"
  by (cases p) (auto simp: read_P2VirtualRepositoryParams_def P2VirtualRepositoryParams_table_def dest!: table_reads[OF assms])

definition zero_P2VirtualRepositoryParams :: P2VirtualRepositoryParams where
  "zero_P2VirtualRepositoryParams =
     \<lparr>p2v_base = zero_VirtualRepositoryBaseParams, p2v_P2Urls = []\<rparr>"

lemma P2VirtualRepositoryParams_folded: "folded (P2VirtualRepositoryParams_table p) =
    [''rclass'', ''key'', ''projectkey'', ''environments'', ''packagetype'', ''description'', ''notes'',
     ''includespattern'', ''excludespattern'', ''repolayoutref'', ''primarykeypairref'', ''secondarykeypairref'',
     ''repositories'', ''artifactoryrequestscanretrieveremoteartifacts'', ''defaultdeploymentrepo'', ''p2urls'']"
  unfolding P2VirtualRepositoryParams_table_def folded_append VirtualRepositoryBaseParams_folded
  unfolding folded_def list.map fst_conv append.simps by code_simp

lemma P2VirtualRepositoryParams_names: "distinct_names (P2VirtualRepositoryParams_table p)"
  by (rule distinct_names_extend[OF VirtualRepositoryBaseParams_names, where ns = "[''p2urls'']"])
    (simp_all add: P2VirtualRepositoryParams_folded VirtualRepositoryBaseParams_folded)

record RpmVirtualRepositoryParams =
  rpmv_base :: VirtualRepositoryBaseParams
  rpmv_cache :: CommonCacheVirtualRepositoryParams

definition RpmVirtualRepositoryParams_table :: "RpmVirtualRepositoryParams \<Rightarrow> field_table" where
  "RpmVirtualRepositoryParams_table p =
     VirtualRepositoryBaseParams_table (rpmv_base p) @
     CommonCacheVirtualRepositoryParams_table (rpmv_cache p)"

definition read_RpmVirtualRepositoryParams :: "members \<Rightarrow> RpmVirtualRepositoryParams result" where
  "read_RpmVirtualRepositoryParams ms =
     and_then (read_VirtualRepositoryBaseParams ms) (\<lambda>x0.
     and_then (read_CommonCacheVirtualRepositoryParams ms) (\<lambda>x1.
       Inr \<lparr>rpmv_base = x0, rpmv_cache = x1\<rparr>))"

definition RpmVirtualRepositoryParams_ok :: "RpmVirtualRepositoryParams \<Rightarrow> bool" where
  "RpmVirtualRepositoryParams_ok p \<longleftrightarrow>
     CommonCacheVirtualRepositoryParams_ok (rpmv_cache p)"

lemma read_RpmVirtualRepositoryParams_table [table_reads]:
  assumes "distinct_names fs"
  shows "set (RpmVirtualRepositoryParams_table p) \<subseteq> set fs \<Longrightarrow> RpmVirtualRepositoryParams_ok p \<Longrightarrow> read_RpmVirtualRepositoryParams (table_members fs) = Inr p"
  by (cases p) (auto simp: read_RpmVirtualRepositoryParams_def RpmVirtualRepositoryParams_table_def RpmVirtualRepositoryParams_ok_def dest!: table_reads[OF assms])

definition zero_RpmVirtualRepositoryParams :: RpmVirtualRepositoryParams where
  "zero_RpmVirtualRepositoryParams =
     \<lparr>rpmv_base = zero_VirtualRepositoryBaseParams,
      rpmv_cache = zero_CommonCacheVirtualRepositoryParams\<rparr>"

lemma RpmVirtualRepositoryParams_folded: "folded (RpmVirtualRepositoryParams_table p) =
    [''rclass'', ''key'', ''projectkey'', ''environments'', ''packagetype'', ''description'', ''notes'',
     ''includespattern'', ''excludespattern'', ''repolayoutref'', ''primarykeypairref'', ''secondarykeypairref'',
     ''repositories'', ''artifactoryrequestscanretrieveremoteartifacts'', ''defaultdeploymentrepo'',
     ''virtualretrievalcacheperiodsecs'']"
  unfolding RpmVirtualRepositoryParams_table_def folded_append VirtualRepositoryBaseParams_folded CommonCacheVirtualRepositoryParams_folded
  unfolding folded_def list.map fst_conv append.simps by code_simp

lemma RpmVirtualRepositoryParams_names: "distinct_names (RpmVirtualRepositoryParams_table p)"
  by (rule distinct_names_extend[OF VirtualRepositoryBaseParams_names, where ns = "[''virtualretrievalcacheperiodsecs'']"])
    (simp_all add: RpmVirtualRepositoryParams_folded VirtualRepositoryBaseParams_folded)

record SbtVirtualRepositoryParams =
  sbtv_base :: VirtualRepositoryBaseParams
  sbtv_java :: CommonJavaVirtualRepositoryParams

definition SbtVirtualRepositoryParams_table :: "SbtVirtualRepositoryParams \<Rightarrow> field_table" where
  "SbtVirtualRepositoryParams_table p =
     VirtualRepositoryBaseParams_table (sbtv_base p) @
     CommonJavaVirtualRepositoryParams_table (sbtv_java p)"

definition read_SbtVirtualRepositoryParams :: "members \<Rightarrow> SbtVirtualRepositoryParams result" where
  "read_SbtVirtualRepositoryParams ms =
     and_then (read_VirtualRepositoryBaseParams ms) (\<lambda>x0.
     and_then (read_CommonJavaVirtualRepositoryParams ms) (\<lambda>x1.
       Inr \<lparr>sbtv_base = x0, sbtv_java = x1\<rparr>))"

lemma read_SbtVirtualRepositoryParams_table [table_reads]:
  assumes "distinct_names fs"
  shows "set (SbtVirtualRepositoryParams_table p) \<subseteq> set fs \<Longrightarrow> read_SbtVirtualRepositoryParams (table_members fs) = Inr p"
  by (cases p) (auto simp: read_SbtVirtualRepositoryParams_def SbtVirtualRepositoryParams_table_def dest!: table_reads[OF assms])

definition zero_SbtVirtualRepositoryParams :: SbtVirtualRepositoryParams where
  "zero_SbtVirtualRepositoryParams =
     \<lparr>sbtv_base = zero_VirtualRepositoryBaseParams, sbtv_java = zero_CommonJavaVirtualRepositoryParams\<rparr>"

lemma SbtVirtualRepositoryParams_folded: "folded (SbtVirtualRepositoryParams_table p) =
    [''rclass'', ''key'', ''projectkey'', ''environments'', ''packagetype'', ''description'', ''notes'',
     ''includespattern'', ''excludespattern'', ''repolayoutref'', ''primarykeypairref'', ''secondarykeypairref'',
     ''repositories'', ''artifactoryrequestscanretrieveremoteartifacts'', ''defaultdeploymentrepo'',
     ''pomrepositoryreferencescleanuppolicy'', ''keypair'']"
  unfolding SbtVirtualRepositoryParams_table_def folded_append VirtualRepositoryBaseParams_folded CommonJavaVirtualRepositoryParams_folded
  unfolding folded_def list.map fst_conv append.simps by code_simp

lemma SbtVirtualRepositoryParams_names: "distinct_names (SbtVirtualRepositoryParams_table p)"
  by (rule distinct_names_extend[OF VirtualRepositoryBaseParams_names, where ns = "[''pomrepositoryreferencescleanuppolicy'', ''keypair'']"])
    (simp_all add: SbtVirtualRepositoryParams_folded VirtualRepositoryBaseParams_folded)

record YumVirtualRepositoryParams =
  yumv_base :: VirtualRepositoryBaseParams
  yumv_cache :: CommonCacheVirtualRepositoryParams

definition YumVirtualRepositoryParams_table :: "YumVirtualRepositoryParams \<Rightarrow> field_table" where
  "YumVirtualRepositoryParams_table p =
     VirtualRepositoryBaseParams_table (yumv_base p) @
     CommonCacheVirtualRepositoryParams_table (yumv_cache p)"

definition read_YumVirtualRepositoryParams :: "members \<Rightarrow> YumVirtualRepositoryParams result" where
  "read_YumVirtualRepositoryParams ms =
     and_then (read_VirtualRepositoryBaseParams ms) (\<lambda>x0.
     and_then (read_CommonCacheVirtualRepositoryParams ms) (\<lambda>x1.
       Inr \<lparr>yumv_base = x0, yumv_cache = x1\<rparr>))"

definition YumVirtualRepositoryParams_ok :: "YumVirtualRepositoryParams \<Rightarrow> bool" where
  "YumVirtualRepositoryParams_ok p \<longleftrightarrow>
     CommonCacheVirtualRepositoryParams_ok (yumv_cache p)"

lemma read_YumVirtualRepositoryParams_table [table_reads]:
  assumes "distinct_names fs"
  shows "set (YumVirtualRepositoryParams_table p) \<subseteq> set fs \<Longrightarrow> YumVirtualRepositoryParams_ok p \<Longrightarrow> read_YumVirtualRepositoryParams (table_members fs) = Inr p"
  by (cases p) (auto simp: read_YumVirtualRepositoryParams_def YumVirtualRepositoryParams_table_def YumVirtualRepositoryParams_ok_def dest!: table_reads[OF assms])

definition zero_YumVirtualRepositoryParams :: YumVirtualRepositoryParams where
  "zero_YumVirtualRepositoryParams =
     \<lparr>yumv_base = zero_VirtualRepositoryBaseParams,
      yumv_cache = zero_CommonCacheVirtualRepositoryParams\<rparr>"

lemma YumVirtualRepositoryParams_folded: "folded (YumVirtualRepositoryParams_table p) =
    [''rclass'', ''key'', ''projectkey'', ''environments'', ''packagetype'', ''description'', ''notes'',
     ''includespattern'', ''excludespattern'', ''repolayoutref'', ''primarykeypairref'', ''secondarykeypairref'',
     ''repositories'', ''artifactoryrequestscanretrieveremoteartifacts'', ''defaultdeploymentrepo'',
     ''virtualretrievalcacheperiodsecs'']"
  unfolding YumVirtualRepositoryParams_table_def folded_append VirtualRepositoryBaseParams_folded CommonCacheVirtualRepositoryParams_folded
  unfolding folded_def list.map fst_conv append.simps by code_simp

lemma YumVirtualRepositoryParams_names: "distinct_names (YumVirtualRepositoryParams_table p)"
  by (rule distinct_names_extend[OF VirtualRepositoryBaseParams_names, where ns = "[''virtualretrievalcacheperiodsecs'']"])
    (simp_all add: YumVirtualRepositoryParams_folded VirtualRepositoryBaseParams_folded)

section \<open>Any virtual repository\<close>

text \<open>A struct without fields of its own is the base.\<close>

datatype VirtualRepositoryParams =
    PlainVirtual VirtualRepositoryBaseParams
  | AlpineVirtual AlpineVirtualRepositoryParams
  | BowerVirtual BowerVirtualRepositoryParams
  | ChefVirtual ChefVirtualRepositoryParams
  | ConanVirtual ConanVirtualRepositoryParams
  | CondaVirtual CondaVirtualRepositoryParams
  | CranVirtual CranVirtualRepositoryParams
  | DebianVirtual DebianVirtualRepositoryParams
  | DockerVirtual DockerVirtualRepositoryParams
  | GoVirtual GoVirtualRepositoryParams
  | GradleVirtual GradleVirtualRepositoryParams
  | HelmVirtual HelmVirtualRepositoryParams
  | IvyVirtual IvyVirtualRepositoryParams
  | MavenVirtual MavenVirtualRepositoryParams
  | NpmVirtual NpmVirtualRepositoryParams
  | NugetVirtual NugetVirtualRepositoryParams
  | P2Virtual P2VirtualRepositoryParams
  | RpmVirtual RpmVirtualRepositoryParams
  | SbtVirtual SbtVirtualRepositoryParams
  | YumVirtual YumVirtualRepositoryParams

fun virtual_base :: "VirtualRepositoryParams \<Rightarrow> VirtualRepositoryBaseParams" where
  "virtual_base (PlainVirtual p) = p"
| "virtual_base (AlpineVirtual p) = alpinev_base p"
| "virtual_base (BowerVirtual p) = bowerv_base p"
| "virtual_base (ChefVirtual p) = chefv_base p"
| "virtual_base (ConanVirtual p) = conanv_base p"
| "virtual_base (CondaVirtual p) = condav_base p"
| "virtual_base (CranVirtual p) = cranv_base p"
| "virtual_base (DebianVirtual p) = debianv_base p"
| "virtual_base (DockerVirtual p) = dockerv_base p"
| "virtual_base (GoVirtual p) = gov_base p"
| "virtual_base (GradleVirtual p) = gradlev_base p"
| "virtual_base (HelmVirtual p) = helmv_base p"
| "virtual_base (IvyVirtual p) = ivyv_base p"
| "virtual_base (MavenVirtual p) = mavenv_base p"
| "virtual_base (NpmVirtual p) = npmv_base p"
| "virtual_base (NugetVirtual p) = nugetv_base p"
| "virtual_base (P2Virtual p) = p2v_base p"
| "virtual_base (RpmVirtual p) = rpmv_base p"
| "virtual_base (SbtVirtual p) = sbtv_base p"
| "virtual_base (YumVirtual p) = yumv_base p"

fun virtual_table :: "VirtualRepositoryParams \<Rightarrow> field_table" where
  "virtual_table (PlainVirtual p) = VirtualRepositoryBaseParams_table p"
| "virtual_table (AlpineVirtual p) = AlpineVirtualRepositoryParams_table p"
| "virtual_table (BowerVirtual p) = BowerVirtualRepositoryParams_table p"
| "virtual_table (ChefVirtual p) = ChefVirtualRepositoryParams_table p"
| "virtual_table (ConanVirtual p) = ConanVirtualRepositoryParams_table p"
| "virtual_table (CondaVirtual p) = CondaVirtualRepositoryParams_table p"
| "virtual_table (CranVirtual p) = CranVirtualRepositoryParams_table p"
| "virtual_table (DebianVirtual p) = DebianVirtualRepositoryParams_table p"
| "virtual_table (DockerVirtual p) = DockerVirtualRepositoryParams_table p"
| "virtual_table (GoVirtual p) = GoVirtualRepositoryParams_table p"
| "virtual_table (GradleVirtual p) = GradleVirtualRepositoryParams_table p"
| "virtual_table (HelmVirtual p) = HelmVirtualRepositoryParams_table p"
| "virtual_table (IvyVirtual p) = IvyVirtualRepositoryParams_table p"
| "virtual_table (MavenVirtual p) = MavenVirtualRepositoryParams_table p"
| "virtual_table (NpmVirtual p) = NpmVirtualRepositoryParams_table p"
| "virtual_table (NugetVirtual p) = NugetVirtualRepositoryParams_table p"
| "virtual_table (P2Virtual p) = P2VirtualRepositoryParams_table p"
| "virtual_table (RpmVirtual p) = RpmVirtualRepositoryParams_table p"
| "virtual_table (SbtVirtual p) = SbtVirtualRepositoryParams_table p"
| "virtual_table (YumVirtual p) = YumVirtualRepositoryParams_table p"

fun virtual_ok :: "VirtualRepositoryParams \<Rightarrow> bool" where
  "virtual_ok (PlainVirtual p) = True"
| "virtual_ok (AlpineVirtual p) = AlpineVirtualRepositoryParams_ok p"
| "virtual_ok (BowerVirtual p) = True"
| "virtual_ok (ChefVirtual p) = ChefVirtualRepositoryParams_ok p"
| "virtual_ok (ConanVirtual p) = ConanVirtualRepositoryParams_ok p"
| "virtual_ok (CondaVirtual p) = CondaVirtualRepositoryParams_ok p"
| "virtual_ok (CranVirtual p) = CranVirtualRepositoryParams_ok p"
| "virtual_ok (DebianVirtual p) = DebianVirtualRepositoryParams_ok p"
| "virtual_ok (DockerVirtual p) = True"
| "virtual_ok (GoVirtual p) = True"
| "virtual_ok (GradleVirtual p) = True"
| "virtual_ok (HelmVirtual p) = HelmVirtualRepositoryParams_ok p"
| "virtual_ok (IvyVirtual p) = True"
| "virtual_ok (MavenVirtual p) = True"
| "virtual_ok (NpmVirtual p) = NpmVirtualRepositoryParams_ok p"
| "virtual_ok (NugetVirtual p) = True"
| "virtual_ok (P2Virtual p) = True"
| "virtual_ok (RpmVirtual p) = RpmVirtualRepositoryParams_ok p"
| "virtual_ok (SbtVirtual p) = True"
| "virtual_ok (YumVirtual p) = YumVirtualRepositoryParams_ok p"

text \<open>Reading into a struct of the type that the first argument has.\<close>

fun read_virtual :: "VirtualRepositoryParams \<Rightarrow> members \<Rightarrow> VirtualRepositoryParams result" where
  "read_virtual (PlainVirtual _) ms = map_sum id PlainVirtual (read_VirtualRepositoryBaseParams ms)"
| "read_virtual (AlpineVirtual _) ms = map_sum id AlpineVirtual (read_AlpineVirtualRepositoryParams ms)"
| "read_virtual (BowerVirtual _) ms = map_sum id BowerVirtual (read_BowerVirtualRepositoryParams ms)"
| "read_virtual (ChefVirtual _) ms = map_sum id ChefVirtual (read_ChefVirtualRepositoryParams ms)"
| "read_virtual (ConanVirtual _) ms = map_sum id ConanVirtual (read_ConanVirtualRepositoryParams ms)"
| "read_virtual (CondaVirtual _) ms = map_sum id CondaVirtual (read_CondaVirtualRepositoryParams ms)"
| "read_virtual (CranVirtual _) ms = map_sum id CranVirtual (read_CranVirtualRepositoryParams ms)"
| "read_virtual (DebianVirtual _) ms = map_sum id DebianVirtual (read_DebianVirtualRepositoryParams ms)"
| "read_virtual (DockerVirtual _) ms = map_sum id DockerVirtual (read_DockerVirtualRepositoryParams ms)"
| "read_virtual (GoVirtual _) ms = map_sum id GoVirtual (read_GoVirtualRepositoryParams ms)"
| "read_virtual (GradleVirtual _) ms = map_sum id GradleVirtual (read_GradleVirtualRepositoryParams ms)"
| "read_virtual (HelmVirtual _) ms = map_sum id HelmVirtual (read_HelmVirtualRepositoryParams ms)"
| "read_virtual (IvyVirtual _) ms = map_sum id IvyVirtual (read_IvyVirtualRepositoryParams ms)"
| "read_virtual (MavenVirtual _) ms = map_sum id MavenVirtual (read_MavenVirtualRepositoryParams ms)"
| "read_virtual (NpmVirtual _) ms = map_sum id NpmVirtual (read_NpmVirtualRepositoryParams ms)"
| "read_virtual (NugetVirtual _) ms = map_sum id NugetVirtual (read_NugetVirtualRepositoryParams ms)"
| "read_virtual (P2Virtual _) ms = map_sum id P2Virtual (read_P2VirtualRepositoryParams ms)"
| "read_virtual (RpmVirtual _) ms = map_sum id RpmVirtual (read_RpmVirtualRepositoryParams ms)"
| "read_virtual (SbtVirtual _) ms = map_sum id SbtVirtual (read_SbtVirtualRepositoryParams ms)"
| "read_virtual (YumVirtual _) ms = map_sum id YumVirtual (read_YumVirtualRepositoryParams ms)"

definition NewVirtualRepositoryBaseParams :: VirtualRepositoryBaseParams where
  "NewVirtualRepositoryBaseParams = zero_VirtualRepositoryBaseParams\<lparr>vr_base := zero_RepositoryBaseParams\<lparr>rb_Rclass := ''virtual''\<rparr>\<rparr>"

definition NewVirtualRepositoryPackageParams :: "string \<Rightarrow> VirtualRepositoryBaseParams" where
  "NewVirtualRepositoryPackageParams packageType =
     zero_VirtualRepositoryBaseParams\<lparr>vr_base := zero_RepositoryBaseParams\<lparr>rb_Rclass := ''virtual'', rb_PackageType := packageType\<rparr>\<rparr>"

fun NewVirtualRepositoryParams :: "package \<Rightarrow> VirtualRepositoryParams option" where
  "NewVirtualRepositoryParams Alpine = Some (AlpineVirtual (zero_AlpineVirtualRepositoryParams\<lparr>alpinev_base := NewVirtualRepositoryPackageParams ''alpine''\<rparr>))"
| "NewVirtualRepositoryParams Bower = Some (BowerVirtual (zero_BowerVirtualRepositoryParams\<lparr>bowerv_base := NewVirtualRepositoryPackageParams ''bower''\<rparr>))"
| "NewVirtualRepositoryParams Chef = Some (ChefVirtual (zero_ChefVirtualRepositoryParams\<lparr>chefv_base := NewVirtualRepositoryPackageParams ''chef''\<rparr>))"
| "NewVirtualRepositoryParams Conan = Some (ConanVirtual (zero_ConanVirtualRepositoryParams\<lparr>conanv_base := NewVirtualRepositoryPackageParams ''conan''\<rparr>))"
| "NewVirtualRepositoryParams Conda = Some (CondaVirtual (zero_CondaVirtualRepositoryParams\<lparr>condav_base := NewVirtualRepositoryPackageParams ''conda''\<rparr>))"
| "NewVirtualRepositoryParams Cran = Some (CranVirtual (zero_CranVirtualRepositoryParams\<lparr>cranv_base := NewVirtualRepositoryPackageParams ''cran''\<rparr>))"
| "NewVirtualRepositoryParams Debian = Some (DebianVirtual (zero_DebianVirtualRepositoryParams\<lparr>debianv_base := NewVirtualRepositoryPackageParams ''debian''\<rparr>))"
| "NewVirtualRepositoryParams Docker = Some (DockerVirtual (zero_DockerVirtualRepositoryParams\<lparr>dockerv_base := NewVirtualRepositoryPackageParams ''docker''\<rparr>))"
| "NewVirtualRepositoryParams Gems = Some (PlainVirtual (NewVirtualRepositoryPackageParams ''gems''))"
| "NewVirtualRepositoryParams Generic = Some (PlainVirtual (NewVirtualRepositoryPackageParams ''generic''))"
| "NewVirtualRepositoryParams Gitlfs = Some (PlainVirtual (NewVirtualRepositoryPackageParams ''gitlfs''))"
| "NewVirtualRepositoryParams Go = Some (GoVirtual (zero_GoVirtualRepositoryParams\<lparr>gov_base := NewVirtualRepositoryPackageParams ''go''\<rparr>))"
| "NewVirtualRepositoryParams Gradle = Some (GradleVirtual (zero_GradleVirtualRepositoryParams\<lparr>gradlev_base := NewVirtualRepositoryPackageParams ''gradle''\<rparr>))"
| "NewVirtualRepositoryParams Helm = Some (HelmVirtual (zero_HelmVirtualRepositoryParams\<lparr>helmv_base := NewVirtualRepositoryPackageParams ''helm''\<rparr>))"
| "NewVirtualRepositoryParams Ivy = Some (IvyVirtual (zero_IvyVirtualRepositoryParams\<lparr>ivyv_base := NewVirtualRepositoryPackageParams ''ivy''\<rparr>))"
| "NewVirtualRepositoryParams Maven = Some (MavenVirtual (zero_MavenVirtualRepositoryParams\<lparr>mavenv_base := NewVirtualRepositoryPackageParams ''maven''\<rparr>))"
| "NewVirtualRepositoryParams Npm = Some (NpmVirtual (zero_NpmVirtualRepositoryParams\<lparr>npmv_base := NewVirtualRepositoryPackageParams ''npm''\<rparr>))"
| "NewVirtualRepositoryParams Nuget = Some (NugetVirtual (zero_NugetVirtualRepositoryParams\<lparr>nugetv_base := NewVirtualRepositoryPackageParams ''nuget''\<rparr>))"
| "NewVirtualRepositoryParams P2 = Some (P2Virtual (zero_P2VirtualRepositoryParams\<lparr>p2v_base := NewVirtualRepositoryPackageParams ''p2''\<rparr>))"
| "NewVirtualRepositoryParams Puppet = Some (PlainVirtual (NewVirtualRepositoryPackageParams ''puppet''))"
| "NewVirtualRepositoryParams Pypi = Some (PlainVirtual (NewVirtualRepositoryPackageParams ''pypi''))"
| "NewVirtualRepositoryParams Rpm = Some (RpmVirtual (zero_RpmVirtualRepositoryParams\<lparr>rpmv_base := NewVirtualRepositoryPackageParams ''rpm''\<rparr>))"
| "NewVirtualRepositoryParams Sbt = Some (SbtVirtual (zero_SbtVirtualRepositoryParams\<lparr>sbtv_base := NewVirtualRepositoryPackageParams ''sbt''\<rparr>))"
| "NewVirtualRepositoryParams Swift = Some (PlainVirtual (NewVirtualRepositoryPackageParams ''swift''))"
| "NewVirtualRepositoryParams Yum = Some (YumVirtual (zero_YumVirtualRepositoryParams\<lparr>yumv_base := NewVirtualRepositoryPackageParams ''yum''\<rparr>))"
| "NewVirtualRepositoryParams _ = None"

text \<open>The methods of the service, one for each struct.\<close>

definition VirtualRepositoryService :: "'w service \<Rightarrow> bool \<Rightarrow> VirtualRepositoryParams \<Rightarrow> 'w \<Rightarrow> (go_error option \<times> 'w) option" where
  "VirtualRepositoryService rs isUpdate params = repo_performRequest rs isUpdate (virtual_table params) (rb_Key (vr_base (virtual_base params)))"

lemma read_virtual_shown:
  assumes "distinct_names fs"
  shows "set (virtual_table p) \<subseteq> set fs \<Longrightarrow> virtual_ok p \<Longrightarrow> read_virtual p (table_members fs) = Inr p"
  by (cases p) (simp_all add: read_VirtualRepositoryBaseParams_table[OF assms]
    read_AlpineVirtualRepositoryParams_table[OF assms]
    read_BowerVirtualRepositoryParams_table[OF assms]
    read_ChefVirtualRepositoryParams_table[OF assms]
    read_ConanVirtualRepositoryParams_table[OF assms]
    read_CondaVirtualRepositoryParams_table[OF assms]
    read_CranVirtualRepositoryParams_table[OF assms]
    read_DebianVirtualRepositoryParams_table[OF assms]
    read_DockerVirtualRepositoryParams_table[OF assms]
    read_GoVirtualRepositoryParams_table[OF assms]
    read_GradleVirtualRepositoryParams_table[OF assms]
    read_HelmVirtualRepositoryParams_table[OF assms]
    read_IvyVirtualRepositoryParams_table[OF assms]
    read_MavenVirtualRepositoryParams_table[OF assms]
    read_NpmVirtualRepositoryParams_table[OF assms]
    read_NugetVirtualRepositoryParams_table[OF assms]
    read_P2VirtualRepositoryParams_table[OF assms]
    read_RpmVirtualRepositoryParams_table[OF assms]
    read_SbtVirtualRepositoryParams_table[OF assms]
    read_YumVirtualRepositoryParams_table[OF assms])

lemma virtual_names: "distinct_names (virtual_table p)"
  by (cases p) (simp_all add: VirtualRepositoryBaseParams_names
    AlpineVirtualRepositoryParams_names
    BowerVirtualRepositoryParams_names
    ChefVirtualRepositoryParams_names
    ConanVirtualRepositoryParams_names
    CondaVirtualRepositoryParams_names
    CranVirtualRepositoryParams_names
    DebianVirtualRepositoryParams_names
    DockerVirtualRepositoryParams_names
    GoVirtualRepositoryParams_names
    GradleVirtualRepositoryParams_names
    HelmVirtualRepositoryParams_names
    IvyVirtualRepositoryParams_names
    MavenVirtualRepositoryParams_names
    NpmVirtualRepositoryParams_names
    NugetVirtualRepositoryParams_names
    P2VirtualRepositoryParams_names
    RpmVirtualRepositoryParams_names
    SbtVirtualRepositoryParams_names
    YumVirtualRepositoryParams_names)

end
