(* ===== verification/FederatedRepository.thy ===== *)
theory FederatedRepository
  imports Repository
begin

text \<open>
  Federated repositories, \<^verbatim>\<open>artifactory/services/federatedrepository.go\<close>: the parameters of each package type with their JSON, and the
  requests that create and update them.
\<close>

section \<open>Parameters\<close>

record FederatedRepositoryMember =
  fm_Url :: string
  fm_Enabled :: "bool option"

definition FederatedRepositoryMember_table :: "FederatedRepositoryMember \<Rightarrow> field_table" where
  "FederatedRepositoryMember_table p =
     [(''url'', Some (StrV (fm_Url p))), (''enabled'', opt_ptr BoolV (fm_Enabled p))]"

definition read_FederatedRepositoryMember :: "members \<Rightarrow> FederatedRepositoryMember result" where
  "read_FederatedRepositoryMember ms =
     and_then (read_string ''url'' ms) (\<lambda>x0. and_then (read_ptr conv_bool ''enabled'' ms) (\<lambda>x1.
       Inr \<lparr>fm_Url = x0, fm_Enabled = x1\<rparr>))"

lemma read_FederatedRepositoryMember_table [table_reads]:
  assumes "distinct_names fs"
  shows "set (FederatedRepositoryMember_table p) \<subseteq> set fs \<Longrightarrow> read_FederatedRepositoryMember (table_members fs) = Inr p"
  by (cases p) (auto simp: read_FederatedRepositoryMember_def FederatedRepositoryMember_table_def dest!: table_reads[OF assms])

lemma FederatedRepositoryMember_names: "distinct_names (FederatedRepositoryMember_table p)"
  unfolding distinct_names_def FederatedRepositoryMember_table_def list.map fst_conv by code_simp

lemma read_FederatedRepositoryMember_list [table_reads]:
  assumes "distinct_names fs"
  shows "(k, opt_list (\<lambda>x. ObjV (table_members (FederatedRepositoryMember_table x))) xs) \<in> set fs \<Longrightarrow>
    read_list (conv_struct read_FederatedRepositoryMember) \<lparr>fm_Url = [], fm_Enabled = None\<rparr> k (table_members fs) = Inr xs"
  by (erule read_table_list[OF assms]) (auto simp: conv_struct_def read_FederatedRepositoryMember_table[OF FederatedRepositoryMember_names subset_refl] list_all_iff)

record FederatedRepositoryBaseParams =
  fr_base :: RepositoryBaseParams
  fr_additional :: AdditionalRepositoryBaseParams
  fr_keyPairRefs :: KeyPairRefsRepositoryParams
  fr_ArchiveBrowsingEnabled :: "bool option"
  fr_Members :: "FederatedRepositoryMember list"

definition FederatedRepositoryBaseParams_table :: "FederatedRepositoryBaseParams \<Rightarrow> field_table" where
  "FederatedRepositoryBaseParams_table p =
     RepositoryBaseParams_table (fr_base p) @
     AdditionalRepositoryBaseParams_table (fr_additional p) @
     KeyPairRefsRepositoryParams_table (fr_keyPairRefs p) @
     [(''archiveBrowsingEnabled'', opt_ptr BoolV (fr_ArchiveBrowsingEnabled p)),
      (''members'', opt_list (\<lambda>x. ObjV (table_members (FederatedRepositoryMember_table x))) (fr_Members p))]"

definition read_FederatedRepositoryBaseParams :: "members \<Rightarrow> FederatedRepositoryBaseParams result" where
  "read_FederatedRepositoryBaseParams ms =
     and_then (read_RepositoryBaseParams ms) (\<lambda>x0.
     and_then (read_AdditionalRepositoryBaseParams ms) (\<lambda>x1.
     and_then (read_KeyPairRefsRepositoryParams ms) (\<lambda>x2.
     and_then (read_ptr conv_bool ''archiveBrowsingEnabled'' ms) (\<lambda>x3.
     and_then (read_list (conv_struct read_FederatedRepositoryMember) \<lparr>fm_Url = [], fm_Enabled = None\<rparr> ''members'' ms) (\<lambda>x4.
       Inr \<lparr>fr_base = x0, fr_additional = x1, fr_keyPairRefs = x2, fr_ArchiveBrowsingEnabled = x3,
            fr_Members = x4\<rparr>)))))"

lemma read_FederatedRepositoryBaseParams_table [table_reads]:
  assumes "distinct_names fs"
  shows "set (FederatedRepositoryBaseParams_table p) \<subseteq> set fs \<Longrightarrow> read_FederatedRepositoryBaseParams (table_members fs) = Inr p"
  by (cases p) (auto simp: read_FederatedRepositoryBaseParams_def FederatedRepositoryBaseParams_table_def dest!: table_reads[OF assms])

definition zero_FederatedRepositoryBaseParams :: FederatedRepositoryBaseParams where
  "zero_FederatedRepositoryBaseParams =
     \<lparr>fr_base = zero_RepositoryBaseParams, fr_additional = zero_AdditionalRepositoryBaseParams,
      fr_keyPairRefs = zero_KeyPairRefsRepositoryParams, fr_ArchiveBrowsingEnabled = None, fr_Members = []\<rparr>"

lemma FederatedRepositoryBaseParams_folded: "folded (FederatedRepositoryBaseParams_table p) =
    [''rclass'', ''key'', ''projectkey'', ''environments'', ''packagetype'', ''description'', ''notes'',
     ''includespattern'', ''excludespattern'', ''repolayoutref'', ''blackedout'', ''xrayindex'', ''propertysets'',
     ''downloadredirect'', ''priorityresolution'', ''primarykeypairref'', ''secondarykeypairref'',
     ''archivebrowsingenabled'', ''members'']"
  unfolding FederatedRepositoryBaseParams_table_def folded_append RepositoryBaseParams_folded AdditionalRepositoryBaseParams_folded KeyPairRefsRepositoryParams_folded
  unfolding folded_def list.map fst_conv append.simps by code_simp

lemma FederatedRepositoryBaseParams_names: "distinct_names (FederatedRepositoryBaseParams_table p)"
  unfolding distinct_names_folded FederatedRepositoryBaseParams_folded by simp

record CargoFederatedRepositoryParams =
  cargof_base :: FederatedRepositoryBaseParams
  cargof_cargo :: CargoRepositoryParams

definition CargoFederatedRepositoryParams_table :: "CargoFederatedRepositoryParams \<Rightarrow> field_table" where
  "CargoFederatedRepositoryParams_table p =
     FederatedRepositoryBaseParams_table (cargof_base p) @
     CargoRepositoryParams_table (cargof_cargo p)"

definition read_CargoFederatedRepositoryParams :: "members \<Rightarrow> CargoFederatedRepositoryParams result" where
  "read_CargoFederatedRepositoryParams ms =
     and_then (read_FederatedRepositoryBaseParams ms) (\<lambda>x0.
     and_then (read_CargoRepositoryParams ms) (\<lambda>x1.
       Inr \<lparr>cargof_base = x0, cargof_cargo = x1\<rparr>))"

lemma read_CargoFederatedRepositoryParams_table [table_reads]:
  assumes "distinct_names fs"
  shows "set (CargoFederatedRepositoryParams_table p) \<subseteq> set fs \<Longrightarrow> read_CargoFederatedRepositoryParams (table_members fs) = Inr p"
  by (cases p) (auto simp: read_CargoFederatedRepositoryParams_def CargoFederatedRepositoryParams_table_def dest!: table_reads[OF assms])

definition zero_CargoFederatedRepositoryParams :: CargoFederatedRepositoryParams where
  "zero_CargoFederatedRepositoryParams =
     \<lparr>cargof_base = zero_FederatedRepositoryBaseParams, cargof_cargo = zero_CargoRepositoryParams\<rparr>"

lemma CargoFederatedRepositoryParams_folded: "folded (CargoFederatedRepositoryParams_table p) =
    [''rclass'', ''key'', ''projectkey'', ''environments'', ''packagetype'', ''description'', ''notes'',
     ''includespattern'', ''excludespattern'', ''repolayoutref'', ''blackedout'', ''xrayindex'', ''propertysets'',
     ''downloadredirect'', ''priorityresolution'', ''primarykeypairref'', ''secondarykeypairref'',
     ''archivebrowsingenabled'', ''members'', ''cargoanonymousaccess'']"
  unfolding CargoFederatedRepositoryParams_table_def folded_append FederatedRepositoryBaseParams_folded CargoRepositoryParams_folded
  unfolding folded_def list.map fst_conv append.simps by code_simp

lemma CargoFederatedRepositoryParams_names: "distinct_names (CargoFederatedRepositoryParams_table p)"
  by (rule distinct_names_extend[OF FederatedRepositoryBaseParams_names, where ns = "[''cargoanonymousaccess'']"])
    (simp_all add: CargoFederatedRepositoryParams_folded FederatedRepositoryBaseParams_folded)

record DebianFederatedRepositoryParams =
  debianf_base :: FederatedRepositoryBaseParams
  debianf_debian :: DebianRepositoryParams

definition DebianFederatedRepositoryParams_table :: "DebianFederatedRepositoryParams \<Rightarrow> field_table" where
  "DebianFederatedRepositoryParams_table p =
     FederatedRepositoryBaseParams_table (debianf_base p) @
     DebianRepositoryParams_table (debianf_debian p)"

definition read_DebianFederatedRepositoryParams :: "members \<Rightarrow> DebianFederatedRepositoryParams result" where
  "read_DebianFederatedRepositoryParams ms =
     and_then (read_FederatedRepositoryBaseParams ms) (\<lambda>x0.
     and_then (read_DebianRepositoryParams ms) (\<lambda>x1.
       Inr \<lparr>debianf_base = x0, debianf_debian = x1\<rparr>))"

lemma read_DebianFederatedRepositoryParams_table [table_reads]:
  assumes "distinct_names fs"
  shows "set (DebianFederatedRepositoryParams_table p) \<subseteq> set fs \<Longrightarrow> read_DebianFederatedRepositoryParams (table_members fs) = Inr p"
  by (cases p) (auto simp: read_DebianFederatedRepositoryParams_def DebianFederatedRepositoryParams_table_def dest!: table_reads[OF assms])

definition zero_DebianFederatedRepositoryParams :: DebianFederatedRepositoryParams where
  "zero_DebianFederatedRepositoryParams =
     \<lparr>debianf_base = zero_FederatedRepositoryBaseParams, debianf_debian = zero_DebianRepositoryParams\<rparr>"

lemma DebianFederatedRepositoryParams_folded: "folded (DebianFederatedRepositoryParams_table p) =
    [''rclass'', ''key'', ''projectkey'', ''environments'', ''packagetype'', ''description'', ''notes'',
     ''includespattern'', ''excludespattern'', ''repolayoutref'', ''blackedout'', ''xrayindex'', ''propertysets'',
     ''downloadredirect'', ''priorityresolution'', ''primarykeypairref'', ''secondarykeypairref'',
     ''archivebrowsingenabled'', ''members'', ''debiantriviallayout'', ''optionalindexcompressionformats'']"
  unfolding DebianFederatedRepositoryParams_table_def folded_append FederatedRepositoryBaseParams_folded DebianRepositoryParams_folded
  unfolding folded_def list.map fst_conv append.simps by code_simp

lemma DebianFederatedRepositoryParams_names: "distinct_names (DebianFederatedRepositoryParams_table p)"
  by (rule distinct_names_extend[OF FederatedRepositoryBaseParams_names, where ns = "[''debiantriviallayout'', ''optionalindexcompressionformats'']"])
    (simp_all add: DebianFederatedRepositoryParams_folded FederatedRepositoryBaseParams_folded)

record DockerFederatedRepositoryParams =
  dockerf_base :: FederatedRepositoryBaseParams
  dockerf_docker :: DockerRepositoryParams

definition DockerFederatedRepositoryParams_table :: "DockerFederatedRepositoryParams \<Rightarrow> field_table" where
  "DockerFederatedRepositoryParams_table p =
     FederatedRepositoryBaseParams_table (dockerf_base p) @
     DockerRepositoryParams_table (dockerf_docker p)"

definition read_DockerFederatedRepositoryParams :: "members \<Rightarrow> DockerFederatedRepositoryParams result" where
  "read_DockerFederatedRepositoryParams ms =
     and_then (read_FederatedRepositoryBaseParams ms) (\<lambda>x0.
     and_then (read_DockerRepositoryParams ms) (\<lambda>x1.
       Inr \<lparr>dockerf_base = x0, dockerf_docker = x1\<rparr>))"

definition DockerFederatedRepositoryParams_ok :: "DockerFederatedRepositoryParams \<Rightarrow> bool" where
  "DockerFederatedRepositoryParams_ok p \<longleftrightarrow>
     DockerRepositoryParams_ok (dockerf_docker p)"

lemma read_DockerFederatedRepositoryParams_table [table_reads]:
  assumes "distinct_names fs"
  shows "set (DockerFederatedRepositoryParams_table p) \<subseteq> set fs \<Longrightarrow> DockerFederatedRepositoryParams_ok p \<Longrightarrow> read_DockerFederatedRepositoryParams (table_members fs) = Inr p"
  by (cases p) (auto simp: read_DockerFederatedRepositoryParams_def DockerFederatedRepositoryParams_table_def DockerFederatedRepositoryParams_ok_def dest!: table_reads[OF assms])

definition zero_DockerFederatedRepositoryParams :: DockerFederatedRepositoryParams where
  "zero_DockerFederatedRepositoryParams =
     \<lparr>dockerf_base = zero_FederatedRepositoryBaseParams, dockerf_docker = zero_DockerRepositoryParams\<rparr>"

lemma DockerFederatedRepositoryParams_folded: "folded (DockerFederatedRepositoryParams_table p) =
    [''rclass'', ''key'', ''projectkey'', ''environments'', ''packagetype'', ''description'', ''notes'',
     ''includespattern'', ''excludespattern'', ''repolayoutref'', ''blackedout'', ''xrayindex'', ''propertysets'',
     ''downloadredirect'', ''priorityresolution'', ''primarykeypairref'', ''secondarykeypairref'',
     ''archivebrowsingenabled'', ''members'', ''maxuniquetags'', ''dockerapiversion'', ''blockpushingschema1'',
     ''dockertagretention'']"
  unfolding DockerFederatedRepositoryParams_table_def folded_append FederatedRepositoryBaseParams_folded DockerRepositoryParams_folded
  unfolding folded_def list.map fst_conv append.simps by code_simp

lemma DockerFederatedRepositoryParams_names: "distinct_names (DockerFederatedRepositoryParams_table p)"
  by (rule distinct_names_extend[OF FederatedRepositoryBaseParams_names, where ns = "[''maxuniquetags'', ''dockerapiversion'', ''blockpushingschema1'', ''dockertagretention'']"])
    (simp_all add: DockerFederatedRepositoryParams_folded FederatedRepositoryBaseParams_folded)

record GradleFederatedRepositoryParams =
  gradlef_base :: FederatedRepositoryBaseParams
  gradlef_java :: JavaPackageManagersRepositoryParams

definition GradleFederatedRepositoryParams_table :: "GradleFederatedRepositoryParams \<Rightarrow> field_table" where
  "GradleFederatedRepositoryParams_table p =
     FederatedRepositoryBaseParams_table (gradlef_base p) @
     JavaPackageManagersRepositoryParams_table (gradlef_java p)"

definition read_GradleFederatedRepositoryParams :: "members \<Rightarrow> GradleFederatedRepositoryParams result" where
  "read_GradleFederatedRepositoryParams ms =
     and_then (read_FederatedRepositoryBaseParams ms) (\<lambda>x0.
     and_then (read_JavaPackageManagersRepositoryParams ms) (\<lambda>x1.
       Inr \<lparr>gradlef_base = x0, gradlef_java = x1\<rparr>))"

definition GradleFederatedRepositoryParams_ok :: "GradleFederatedRepositoryParams \<Rightarrow> bool" where
  "GradleFederatedRepositoryParams_ok p \<longleftrightarrow>
     JavaPackageManagersRepositoryParams_ok (gradlef_java p)"

lemma read_GradleFederatedRepositoryParams_table [table_reads]:
  assumes "distinct_names fs"
  shows "set (GradleFederatedRepositoryParams_table p) \<subseteq> set fs \<Longrightarrow> GradleFederatedRepositoryParams_ok p \<Longrightarrow> read_GradleFederatedRepositoryParams (table_members fs) = Inr p"
  by (cases p) (auto simp: read_GradleFederatedRepositoryParams_def GradleFederatedRepositoryParams_table_def GradleFederatedRepositoryParams_ok_def dest!: table_reads[OF assms])

definition zero_GradleFederatedRepositoryParams :: GradleFederatedRepositoryParams where
  "zero_GradleFederatedRepositoryParams =
     \<lparr>gradlef_base = zero_FederatedRepositoryBaseParams,
      gradlef_java = zero_JavaPackageManagersRepositoryParams\<rparr>"

lemma GradleFederatedRepositoryParams_folded: "folded (GradleFederatedRepositoryParams_table p) =
    [''rclass'', ''key'', ''projectkey'', ''environments'', ''packagetype'', ''description'', ''notes'',
     ''includespattern'', ''excludespattern'', ''repolayoutref'', ''blackedout'', ''xrayindex'', ''propertysets'',
     ''downloadredirect'', ''priorityresolution'', ''primarykeypairref'', ''secondarykeypairref'',
     ''archivebrowsingenabled'', ''members'', ''maxuniquesnapshots'', ''handlereleases'', ''handlesnapshots'',
     ''suppresspomconsistencychecks'', ''snapshotversionbehavior'', ''checksumpolicytype'']"
  unfolding GradleFederatedRepositoryParams_table_def folded_append FederatedRepositoryBaseParams_folded JavaPackageManagersRepositoryParams_folded
  unfolding folded_def list.map fst_conv append.simps by code_simp

lemma GradleFederatedRepositoryParams_names: "distinct_names (GradleFederatedRepositoryParams_table p)"
  by (rule distinct_names_extend[OF FederatedRepositoryBaseParams_names, where ns = "[''maxuniquesnapshots'', ''handlereleases'', ''handlesnapshots'', ''suppresspomconsistencychecks'', ''snapshotversionbehavior'', ''checksumpolicytype'']"])
    (simp_all add: GradleFederatedRepositoryParams_folded FederatedRepositoryBaseParams_folded)

record IvyFederatedRepositoryParams =
  ivyf_base :: FederatedRepositoryBaseParams
  ivyf_java :: JavaPackageManagersRepositoryParams

definition IvyFederatedRepositoryParams_table :: "IvyFederatedRepositoryParams \<Rightarrow> field_table" where
  "IvyFederatedRepositoryParams_table p =
     FederatedRepositoryBaseParams_table (ivyf_base p) @
     JavaPackageManagersRepositoryParams_table (ivyf_java p)"

definition read_IvyFederatedRepositoryParams :: "members \<Rightarrow> IvyFederatedRepositoryParams result" where
  "read_IvyFederatedRepositoryParams ms =
     and_then (read_FederatedRepositoryBaseParams ms) (\<lambda>x0.
     and_then (read_JavaPackageManagersRepositoryParams ms) (\<lambda>x1.
       Inr \<lparr>ivyf_base = x0, ivyf_java = x1\<rparr>))"

definition IvyFederatedRepositoryParams_ok :: "IvyFederatedRepositoryParams \<Rightarrow> bool" where
  "IvyFederatedRepositoryParams_ok p \<longleftrightarrow>
     JavaPackageManagersRepositoryParams_ok (ivyf_java p)"

lemma read_IvyFederatedRepositoryParams_table [table_reads]:
  assumes "distinct_names fs"
  shows "set (IvyFederatedRepositoryParams_table p) \<subseteq> set fs \<Longrightarrow> IvyFederatedRepositoryParams_ok p \<Longrightarrow> read_IvyFederatedRepositoryParams (table_members fs) = Inr p"
  by (cases p) (auto simp: read_IvyFederatedRepositoryParams_def IvyFederatedRepositoryParams_table_def IvyFederatedRepositoryParams_ok_def dest!: table_reads[OF assms])

definition zero_IvyFederatedRepositoryParams :: IvyFederatedRepositoryParams where
  "zero_IvyFederatedRepositoryParams =
     \<lparr>ivyf_base = zero_FederatedRepositoryBaseParams,
      ivyf_java = zero_JavaPackageManagersRepositoryParams\<rparr>"

lemma IvyFederatedRepositoryParams_folded: "folded (IvyFederatedRepositoryParams_table p) =
    [''rclass'', ''key'', ''projectkey'', ''environments'', ''packagetype'', ''description'', ''notes'',
     ''includespattern'', ''excludespattern'', ''repolayoutref'', ''blackedout'', ''xrayindex'', ''propertysets'',
     ''downloadredirect'', ''priorityresolution'', ''primarykeypairref'', ''secondarykeypairref'',
     ''archivebrowsingenabled'', ''members'', ''maxuniquesnapshots'', ''handlereleases'', ''handlesnapshots'',
     ''suppresspomconsistencychecks'', ''snapshotversionbehavior'', ''checksumpolicytype'']"
  unfolding IvyFederatedRepositoryParams_table_def folded_append FederatedRepositoryBaseParams_folded JavaPackageManagersRepositoryParams_folded
  unfolding folded_def list.map fst_conv append.simps by code_simp

lemma IvyFederatedRepositoryParams_names: "distinct_names (IvyFederatedRepositoryParams_table p)"
  by (rule distinct_names_extend[OF FederatedRepositoryBaseParams_names, where ns = "[''maxuniquesnapshots'', ''handlereleases'', ''handlesnapshots'', ''suppresspomconsistencychecks'', ''snapshotversionbehavior'', ''checksumpolicytype'']"])
    (simp_all add: IvyFederatedRepositoryParams_folded FederatedRepositoryBaseParams_folded)

record MavenFederatedRepositoryParams =
  mavenf_base :: FederatedRepositoryBaseParams
  mavenf_java :: JavaPackageManagersRepositoryParams

definition MavenFederatedRepositoryParams_table :: "MavenFederatedRepositoryParams \<Rightarrow> field_table" where
  "MavenFederatedRepositoryParams_table p =
     FederatedRepositoryBaseParams_table (mavenf_base p) @
     JavaPackageManagersRepositoryParams_table (mavenf_java p)"

definition read_MavenFederatedRepositoryParams :: "members \<Rightarrow> MavenFederatedRepositoryParams result" where
  "read_MavenFederatedRepositoryParams ms =
     and_then (read_FederatedRepositoryBaseParams ms) (\<lambda>x0.
     and_then (read_JavaPackageManagersRepositoryParams ms) (\<lambda>x1.
       Inr \<lparr>mavenf_base = x0, mavenf_java = x1\<rparr>))"

definition MavenFederatedRepositoryParams_ok :: "MavenFederatedRepositoryParams \<Rightarrow> bool" where
  "MavenFederatedRepositoryParams_ok p \<longleftrightarrow>
     JavaPackageManagersRepositoryParams_ok (mavenf_java p)"

lemma read_MavenFederatedRepositoryParams_table [table_reads]:
  assumes "distinct_names fs"
  shows "set (MavenFederatedRepositoryParams_table p) \<subseteq> set fs \<Longrightarrow> MavenFederatedRepositoryParams_ok p \<Longrightarrow> read_MavenFederatedRepositoryParams (table_members fs) = Inr p"
  by (cases p) (auto simp: read_MavenFederatedRepositoryParams_def MavenFederatedRepositoryParams_table_def MavenFederatedRepositoryParams_ok_def dest!: table_reads[OF assms])

definition zero_MavenFederatedRepositoryParams :: MavenFederatedRepositoryParams where
  "zero_MavenFederatedRepositoryParams =
     \<lparr>mavenf_base = zero_FederatedRepositoryBaseParams,
      mavenf_java = zero_JavaPackageManagersRepositoryParams\<rparr>"

lemma MavenFederatedRepositoryParams_folded: "folded (MavenFederatedRepositoryParams_table p) =
    [''rclass'', ''key'', ''projectkey'', ''environments'', ''packagetype'', ''description'', ''notes'',
     ''includespattern'', ''excludespattern'', ''repolayoutref'', ''blackedout'', ''xrayindex'', ''propertysets'',
     ''downloadredirect'', ''priorityresolution'', ''primarykeypairref'', ''secondarykeypairref'',
     ''archivebrowsingenabled'', ''members'', ''maxuniquesnapshots'', ''handlereleases'', ''handlesnapshots'',
     ''suppresspomconsistencychecks'', ''snapshotversionbehavior'', ''checksumpolicytype'']"
  unfolding MavenFederatedRepositoryParams_table_def folded_append FederatedRepositoryBaseParams_folded JavaPackageManagersRepositoryParams_folded
  unfolding folded_def list.map fst_conv append.simps by code_simp

lemma MavenFederatedRepositoryParams_names: "distinct_names (MavenFederatedRepositoryParams_table p)"
  by (rule distinct_names_extend[OF FederatedRepositoryBaseParams_names, where ns = "[''maxuniquesnapshots'', ''handlereleases'', ''handlesnapshots'', ''suppresspomconsistencychecks'', ''snapshotversionbehavior'', ''checksumpolicytype'']"])
    (simp_all add: MavenFederatedRepositoryParams_folded FederatedRepositoryBaseParams_folded)

record NugetFederatedRepositoryParams =
  nugetf_base :: FederatedRepositoryBaseParams
  nugetf_nuget :: NugetRepositoryParams

definition NugetFederatedRepositoryParams_table :: "NugetFederatedRepositoryParams \<Rightarrow> field_table" where
  "NugetFederatedRepositoryParams_table p =
     FederatedRepositoryBaseParams_table (nugetf_base p) @
     NugetRepositoryParams_table (nugetf_nuget p)"

definition read_NugetFederatedRepositoryParams :: "members \<Rightarrow> NugetFederatedRepositoryParams result" where
  "read_NugetFederatedRepositoryParams ms =
     and_then (read_FederatedRepositoryBaseParams ms) (\<lambda>x0.
     and_then (read_NugetRepositoryParams ms) (\<lambda>x1.
       Inr \<lparr>nugetf_base = x0, nugetf_nuget = x1\<rparr>))"

definition NugetFederatedRepositoryParams_ok :: "NugetFederatedRepositoryParams \<Rightarrow> bool" where
  "NugetFederatedRepositoryParams_ok p \<longleftrightarrow>
     NugetRepositoryParams_ok (nugetf_nuget p)"

lemma read_NugetFederatedRepositoryParams_table [table_reads]:
  assumes "distinct_names fs"
  shows "set (NugetFederatedRepositoryParams_table p) \<subseteq> set fs \<Longrightarrow> NugetFederatedRepositoryParams_ok p \<Longrightarrow> read_NugetFederatedRepositoryParams (table_members fs) = Inr p"
  by (cases p) (auto simp: read_NugetFederatedRepositoryParams_def NugetFederatedRepositoryParams_table_def NugetFederatedRepositoryParams_ok_def dest!: table_reads[OF assms])

definition zero_NugetFederatedRepositoryParams :: NugetFederatedRepositoryParams where
  "zero_NugetFederatedRepositoryParams =
     \<lparr>nugetf_base = zero_FederatedRepositoryBaseParams, nugetf_nuget = zero_NugetRepositoryParams\<rparr>"

lemma NugetFederatedRepositoryParams_folded: "folded (NugetFederatedRepositoryParams_table p) =
    [''rclass'', ''key'', ''projectkey'', ''environments'', ''packagetype'', ''description'', ''notes'',
     ''includespattern'', ''excludespattern'', ''repolayoutref'', ''blackedout'', ''xrayindex'', ''propertysets'',
     ''downloadredirect'', ''priorityresolution'', ''primarykeypairref'', ''secondarykeypairref'',
     ''archivebrowsingenabled'', ''members'', ''maxuniquesnapshots'', ''forcenugetauthentication'']"
  unfolding NugetFederatedRepositoryParams_table_def folded_append FederatedRepositoryBaseParams_folded NugetRepositoryParams_folded
  unfolding folded_def list.map fst_conv append.simps by code_simp

lemma NugetFederatedRepositoryParams_names: "distinct_names (NugetFederatedRepositoryParams_table p)"
  by (rule distinct_names_extend[OF FederatedRepositoryBaseParams_names, where ns = "[''maxuniquesnapshots'', ''forcenugetauthentication'']"])
    (simp_all add: NugetFederatedRepositoryParams_folded FederatedRepositoryBaseParams_folded)

record RpmFederatedRepositoryParams =
  rpmf_base :: FederatedRepositoryBaseParams
  rpmf_rpm :: RpmRepositoryParams

definition RpmFederatedRepositoryParams_table :: "RpmFederatedRepositoryParams \<Rightarrow> field_table" where
  "RpmFederatedRepositoryParams_table p =
     FederatedRepositoryBaseParams_table (rpmf_base p) @
     RpmRepositoryParams_table (rpmf_rpm p)"

definition read_RpmFederatedRepositoryParams :: "members \<Rightarrow> RpmFederatedRepositoryParams result" where
  "read_RpmFederatedRepositoryParams ms =
     and_then (read_FederatedRepositoryBaseParams ms) (\<lambda>x0.
     and_then (read_RpmRepositoryParams ms) (\<lambda>x1.
       Inr \<lparr>rpmf_base = x0, rpmf_rpm = x1\<rparr>))"

definition RpmFederatedRepositoryParams_ok :: "RpmFederatedRepositoryParams \<Rightarrow> bool" where
  "RpmFederatedRepositoryParams_ok p \<longleftrightarrow>
     RpmRepositoryParams_ok (rpmf_rpm p)"

lemma read_RpmFederatedRepositoryParams_table [table_reads]:
  assumes "distinct_names fs"
  shows "set (RpmFederatedRepositoryParams_table p) \<subseteq> set fs \<Longrightarrow> RpmFederatedRepositoryParams_ok p \<Longrightarrow> read_RpmFederatedRepositoryParams (table_members fs) = Inr p"
  by (cases p) (auto simp: read_RpmFederatedRepositoryParams_def RpmFederatedRepositoryParams_table_def RpmFederatedRepositoryParams_ok_def dest!: table_reads[OF assms])

definition zero_RpmFederatedRepositoryParams :: RpmFederatedRepositoryParams where
  "zero_RpmFederatedRepositoryParams =
     \<lparr>rpmf_base = zero_FederatedRepositoryBaseParams, rpmf_rpm = zero_RpmRepositoryParams\<rparr>"

lemma RpmFederatedRepositoryParams_folded: "folded (RpmFederatedRepositoryParams_table p) =
    [''rclass'', ''key'', ''projectkey'', ''environments'', ''packagetype'', ''description'', ''notes'',
     ''includespattern'', ''excludespattern'', ''repolayoutref'', ''blackedout'', ''xrayindex'', ''propertysets'',
     ''downloadredirect'', ''priorityresolution'', ''primarykeypairref'', ''secondarykeypairref'',
     ''archivebrowsingenabled'', ''members'', ''yumrootdepth'', ''calculateyummetadata'',
     ''enablefilelistsindexing'', ''yumgroupfilenames'']"
  unfolding RpmFederatedRepositoryParams_table_def folded_append FederatedRepositoryBaseParams_folded RpmRepositoryParams_folded
  unfolding folded_def list.map fst_conv append.simps by code_simp

lemma RpmFederatedRepositoryParams_names: "distinct_names (RpmFederatedRepositoryParams_table p)"
  by (rule distinct_names_extend[OF FederatedRepositoryBaseParams_names, where ns = "[''yumrootdepth'', ''calculateyummetadata'', ''enablefilelistsindexing'', ''yumgroupfilenames'']"])
    (simp_all add: RpmFederatedRepositoryParams_folded FederatedRepositoryBaseParams_folded)

record SbtFederatedRepositoryParams =
  sbtf_base :: FederatedRepositoryBaseParams
  sbtf_java :: JavaPackageManagersRepositoryParams

definition SbtFederatedRepositoryParams_table :: "SbtFederatedRepositoryParams \<Rightarrow> field_table" where
  "SbtFederatedRepositoryParams_table p =
     FederatedRepositoryBaseParams_table (sbtf_base p) @
     JavaPackageManagersRepositoryParams_table (sbtf_java p)"

definition read_SbtFederatedRepositoryParams :: "members \<Rightarrow> SbtFederatedRepositoryParams result" where
  "read_SbtFederatedRepositoryParams ms =
     and_then (read_FederatedRepositoryBaseParams ms) (\<lambda>x0.
     and_then (read_JavaPackageManagersRepositoryParams ms) (\<lambda>x1.
       Inr \<lparr>sbtf_base = x0, sbtf_java = x1\<rparr>))"

definition SbtFederatedRepositoryParams_ok :: "SbtFederatedRepositoryParams \<Rightarrow> bool" where
  "SbtFederatedRepositoryParams_ok p \<longleftrightarrow>
     JavaPackageManagersRepositoryParams_ok (sbtf_java p)"

lemma read_SbtFederatedRepositoryParams_table [table_reads]:
  assumes "distinct_names fs"
  shows "set (SbtFederatedRepositoryParams_table p) \<subseteq> set fs \<Longrightarrow> SbtFederatedRepositoryParams_ok p \<Longrightarrow> read_SbtFederatedRepositoryParams (table_members fs) = Inr p"
  by (cases p) (auto simp: read_SbtFederatedRepositoryParams_def SbtFederatedRepositoryParams_table_def SbtFederatedRepositoryParams_ok_def dest!: table_reads[OF assms])

definition zero_SbtFederatedRepositoryParams :: SbtFederatedRepositoryParams where
  "zero_SbtFederatedRepositoryParams =
     \<lparr>sbtf_base = zero_FederatedRepositoryBaseParams,
      sbtf_java = zero_JavaPackageManagersRepositoryParams\<rparr>"

lemma SbtFederatedRepositoryParams_folded: "folded (SbtFederatedRepositoryParams_table p) =
    [''rclass'', ''key'', ''projectkey'', ''environments'', ''packagetype'', ''description'', ''notes'',
     ''includespattern'', ''excludespattern'', ''repolayoutref'', ''blackedout'', ''xrayindex'', ''propertysets'',
     ''downloadredirect'', ''priorityresolution'', ''primarykeypairref'', ''secondarykeypairref'',
     ''archivebrowsingenabled'', ''members'', ''maxuniquesnapshots'', ''handlereleases'', ''handlesnapshots'',
     ''suppresspomconsistencychecks'', ''snapshotversionbehavior'', ''checksumpolicytype'']"
  unfolding SbtFederatedRepositoryParams_table_def folded_append FederatedRepositoryBaseParams_folded JavaPackageManagersRepositoryParams_folded
  unfolding folded_def list.map fst_conv append.simps by code_simp

lemma SbtFederatedRepositoryParams_names: "distinct_names (SbtFederatedRepositoryParams_table p)"
  by (rule distinct_names_extend[OF FederatedRepositoryBaseParams_names, where ns = "[''maxuniquesnapshots'', ''handlereleases'', ''handlesnapshots'', ''suppresspomconsistencychecks'', ''snapshotversionbehavior'', ''checksumpolicytype'']"])
    (simp_all add: SbtFederatedRepositoryParams_folded FederatedRepositoryBaseParams_folded)

record YumFederatedRepositoryParams =
  yumf_base :: FederatedRepositoryBaseParams
  yumf_rpm :: RpmRepositoryParams

definition YumFederatedRepositoryParams_table :: "YumFederatedRepositoryParams \<Rightarrow> field_table" where
  "YumFederatedRepositoryParams_table p =
     FederatedRepositoryBaseParams_table (yumf_base p) @
     RpmRepositoryParams_table (yumf_rpm p)"

definition read_YumFederatedRepositoryParams :: "members \<Rightarrow> YumFederatedRepositoryParams result" where
  "read_YumFederatedRepositoryParams ms =
     and_then (read_FederatedRepositoryBaseParams ms) (\<lambda>x0.
     and_then (read_RpmRepositoryParams ms) (\<lambda>x1.
       Inr \<lparr>yumf_base = x0, yumf_rpm = x1\<rparr>))"

definition YumFederatedRepositoryParams_ok :: "YumFederatedRepositoryParams \<Rightarrow> bool" where
  "YumFederatedRepositoryParams_ok p \<longleftrightarrow>
     RpmRepositoryParams_ok (yumf_rpm p)"

lemma read_YumFederatedRepositoryParams_table [table_reads]:
  assumes "distinct_names fs"
  shows "set (YumFederatedRepositoryParams_table p) \<subseteq> set fs \<Longrightarrow> YumFederatedRepositoryParams_ok p \<Longrightarrow> read_YumFederatedRepositoryParams (table_members fs) = Inr p"
  by (cases p) (auto simp: read_YumFederatedRepositoryParams_def YumFederatedRepositoryParams_table_def YumFederatedRepositoryParams_ok_def dest!: table_reads[OF assms])

definition zero_YumFederatedRepositoryParams :: YumFederatedRepositoryParams where
  "zero_YumFederatedRepositoryParams =
     \<lparr>yumf_base = zero_FederatedRepositoryBaseParams, yumf_rpm = zero_RpmRepositoryParams\<rparr>"

lemma YumFederatedRepositoryParams_folded: "folded (YumFederatedRepositoryParams_table p) =
    [''rclass'', ''key'', ''projectkey'', ''environments'', ''packagetype'', ''description'', ''notes'',
     ''includespattern'', ''excludespattern'', ''repolayoutref'', ''blackedout'', ''xrayindex'', ''propertysets'',
     ''downloadredirect'', ''priorityresolution'', ''primarykeypairref'', ''secondarykeypairref'',
     ''archivebrowsingenabled'', ''members'', ''yumrootdepth'', ''calculateyummetadata'',
     ''enablefilelistsindexing'', ''yumgroupfilenames'']"
  unfolding YumFederatedRepositoryParams_table_def folded_append FederatedRepositoryBaseParams_folded RpmRepositoryParams_folded
  unfolding folded_def list.map fst_conv append.simps by code_simp

lemma YumFederatedRepositoryParams_names: "distinct_names (YumFederatedRepositoryParams_table p)"
  by (rule distinct_names_extend[OF FederatedRepositoryBaseParams_names, where ns = "[''yumrootdepth'', ''calculateyummetadata'', ''enablefilelistsindexing'', ''yumgroupfilenames'']"])
    (simp_all add: YumFederatedRepositoryParams_folded FederatedRepositoryBaseParams_folded)

section \<open>Any federated repository\<close>

text \<open>A struct without fields of its own is the base.\<close>

datatype FederatedRepositoryParams =
    PlainFederated FederatedRepositoryBaseParams
  | CargoFederated CargoFederatedRepositoryParams
  | DebianFederated DebianFederatedRepositoryParams
  | DockerFederated DockerFederatedRepositoryParams
  | GradleFederated GradleFederatedRepositoryParams
  | IvyFederated IvyFederatedRepositoryParams
  | MavenFederated MavenFederatedRepositoryParams
  | NugetFederated NugetFederatedRepositoryParams
  | RpmFederated RpmFederatedRepositoryParams
  | SbtFederated SbtFederatedRepositoryParams
  | YumFederated YumFederatedRepositoryParams

fun federated_base :: "FederatedRepositoryParams \<Rightarrow> FederatedRepositoryBaseParams" where
  "federated_base (PlainFederated p) = p"
| "federated_base (CargoFederated p) = cargof_base p"
| "federated_base (DebianFederated p) = debianf_base p"
| "federated_base (DockerFederated p) = dockerf_base p"
| "federated_base (GradleFederated p) = gradlef_base p"
| "federated_base (IvyFederated p) = ivyf_base p"
| "federated_base (MavenFederated p) = mavenf_base p"
| "federated_base (NugetFederated p) = nugetf_base p"
| "federated_base (RpmFederated p) = rpmf_base p"
| "federated_base (SbtFederated p) = sbtf_base p"
| "federated_base (YumFederated p) = yumf_base p"

fun federated_table :: "FederatedRepositoryParams \<Rightarrow> field_table" where
  "federated_table (PlainFederated p) = FederatedRepositoryBaseParams_table p"
| "federated_table (CargoFederated p) = CargoFederatedRepositoryParams_table p"
| "federated_table (DebianFederated p) = DebianFederatedRepositoryParams_table p"
| "federated_table (DockerFederated p) = DockerFederatedRepositoryParams_table p"
| "federated_table (GradleFederated p) = GradleFederatedRepositoryParams_table p"
| "federated_table (IvyFederated p) = IvyFederatedRepositoryParams_table p"
| "federated_table (MavenFederated p) = MavenFederatedRepositoryParams_table p"
| "federated_table (NugetFederated p) = NugetFederatedRepositoryParams_table p"
| "federated_table (RpmFederated p) = RpmFederatedRepositoryParams_table p"
| "federated_table (SbtFederated p) = SbtFederatedRepositoryParams_table p"
| "federated_table (YumFederated p) = YumFederatedRepositoryParams_table p"

fun federated_ok :: "FederatedRepositoryParams \<Rightarrow> bool" where
  "federated_ok (PlainFederated p) = True"
| "federated_ok (CargoFederated p) = True"
| "federated_ok (DebianFederated p) = True"
| "federated_ok (DockerFederated p) = DockerFederatedRepositoryParams_ok p"
| "federated_ok (GradleFederated p) = GradleFederatedRepositoryParams_ok p"
| "federated_ok (IvyFederated p) = IvyFederatedRepositoryParams_ok p"
| "federated_ok (MavenFederated p) = MavenFederatedRepositoryParams_ok p"
| "federated_ok (NugetFederated p) = NugetFederatedRepositoryParams_ok p"
| "federated_ok (RpmFederated p) = RpmFederatedRepositoryParams_ok p"
| "federated_ok (SbtFederated p) = SbtFederatedRepositoryParams_ok p"
| "federated_ok (YumFederated p) = YumFederatedRepositoryParams_ok p"

text \<open>Reading into a struct of the type that the first argument has.\<close>

fun read_federated :: "FederatedRepositoryParams \<Rightarrow> members \<Rightarrow> FederatedRepositoryParams result" where
  "read_federated (PlainFederated _) ms = map_sum id PlainFederated (read_FederatedRepositoryBaseParams ms)"
| "read_federated (CargoFederated _) ms = map_sum id CargoFederated (read_CargoFederatedRepositoryParams ms)"
| "read_federated (DebianFederated _) ms = map_sum id DebianFederated (read_DebianFederatedRepositoryParams ms)"
| "read_federated (DockerFederated _) ms = map_sum id DockerFederated (read_DockerFederatedRepositoryParams ms)"
| "read_federated (GradleFederated _) ms = map_sum id GradleFederated (read_GradleFederatedRepositoryParams ms)"
| "read_federated (IvyFederated _) ms = map_sum id IvyFederated (read_IvyFederatedRepositoryParams ms)"
| "read_federated (MavenFederated _) ms = map_sum id MavenFederated (read_MavenFederatedRepositoryParams ms)"
| "read_federated (NugetFederated _) ms = map_sum id NugetFederated (read_NugetFederatedRepositoryParams ms)"
| "read_federated (RpmFederated _) ms = map_sum id RpmFederated (read_RpmFederatedRepositoryParams ms)"
| "read_federated (SbtFederated _) ms = map_sum id SbtFederated (read_SbtFederatedRepositoryParams ms)"
| "read_federated (YumFederated _) ms = map_sum id YumFederated (read_YumFederatedRepositoryParams ms)"

definition NewFederatedRepositoryBaseParams :: FederatedRepositoryBaseParams where
  "NewFederatedRepositoryBaseParams = zero_FederatedRepositoryBaseParams\<lparr>fr_base := zero_RepositoryBaseParams\<lparr>rb_Rclass := ''federated''\<rparr>\<rparr>"

definition NewFederatedRepositoryPackageParams :: "string \<Rightarrow> FederatedRepositoryBaseParams" where
  "NewFederatedRepositoryPackageParams packageType =
     zero_FederatedRepositoryBaseParams\<lparr>fr_base := zero_RepositoryBaseParams\<lparr>rb_Rclass := ''federated'', rb_PackageType := packageType\<rparr>\<rparr>"

fun NewFederatedRepositoryParams :: "package \<Rightarrow> FederatedRepositoryParams option" where
  "NewFederatedRepositoryParams Alpine = Some (PlainFederated (NewFederatedRepositoryPackageParams ''alpine''))"
| "NewFederatedRepositoryParams Bower = Some (PlainFederated (NewFederatedRepositoryPackageParams ''bower''))"
| "NewFederatedRepositoryParams Cargo = Some (CargoFederated (zero_CargoFederatedRepositoryParams\<lparr>cargof_base := NewFederatedRepositoryPackageParams ''cargo''\<rparr>))"
| "NewFederatedRepositoryParams Chef = Some (PlainFederated (NewFederatedRepositoryPackageParams ''chef''))"
| "NewFederatedRepositoryParams Cocoapods = Some (PlainFederated (NewFederatedRepositoryPackageParams ''cocoapods''))"
| "NewFederatedRepositoryParams Composer = Some (PlainFederated (NewFederatedRepositoryPackageParams ''composer''))"
| "NewFederatedRepositoryParams Conan = Some (PlainFederated (NewFederatedRepositoryPackageParams ''conan''))"
| "NewFederatedRepositoryParams Conda = Some (PlainFederated (NewFederatedRepositoryPackageParams ''conda''))"
| "NewFederatedRepositoryParams Cran = Some (PlainFederated (NewFederatedRepositoryPackageParams ''cran''))"
| "NewFederatedRepositoryParams Debian = Some (DebianFederated (zero_DebianFederatedRepositoryParams\<lparr>debianf_base := NewFederatedRepositoryPackageParams ''debian''\<rparr>))"
| "NewFederatedRepositoryParams Docker = Some (DockerFederated (zero_DockerFederatedRepositoryParams\<lparr>dockerf_base := NewFederatedRepositoryPackageParams ''docker''\<rparr>))"
| "NewFederatedRepositoryParams Gems = Some (PlainFederated (NewFederatedRepositoryPackageParams ''gems''))"
| "NewFederatedRepositoryParams Generic = Some (PlainFederated (NewFederatedRepositoryPackageParams ''generic''))"
| "NewFederatedRepositoryParams Gitlfs = Some (PlainFederated (NewFederatedRepositoryPackageParams ''gitlfs''))"
| "NewFederatedRepositoryParams Go = Some (PlainFederated (NewFederatedRepositoryPackageParams ''go''))"
| "NewFederatedRepositoryParams Gradle = Some (GradleFederated (zero_GradleFederatedRepositoryParams\<lparr>gradlef_base := NewFederatedRepositoryPackageParams ''gradle''\<rparr>))"
| "NewFederatedRepositoryParams Helm = Some (PlainFederated (NewFederatedRepositoryPackageParams ''helm''))"
| "NewFederatedRepositoryParams Ivy = Some (IvyFederated (zero_IvyFederatedRepositoryParams\<lparr>ivyf_base := NewFederatedRepositoryPackageParams ''ivy''\<rparr>))"
| "NewFederatedRepositoryParams Maven = Some (MavenFederated (zero_MavenFederatedRepositoryParams\<lparr>mavenf_base := NewFederatedRepositoryPackageParams ''maven''\<rparr>))"
| "NewFederatedRepositoryParams Npm = Some (PlainFederated (NewFederatedRepositoryPackageParams ''npm''))"
| "NewFederatedRepositoryParams Nuget = Some (NugetFederated (zero_NugetFederatedRepositoryParams\<lparr>nugetf_base := NewFederatedRepositoryPackageParams ''nuget''\<rparr>))"
| "NewFederatedRepositoryParams Opkg = Some (PlainFederated (NewFederatedRepositoryPackageParams ''opkg''))"
| "NewFederatedRepositoryParams Puppet = Some (PlainFederated (NewFederatedRepositoryPackageParams ''puppet''))"
| "NewFederatedRepositoryParams Pypi = Some (PlainFederated (NewFederatedRepositoryPackageParams ''pypi''))"
| "NewFederatedRepositoryParams Rpm = Some (RpmFederated (zero_RpmFederatedRepositoryParams\<lparr>rpmf_base := NewFederatedRepositoryPackageParams ''rpm''\<rparr>))"
| "NewFederatedRepositoryParams Sbt = Some (SbtFederated (zero_SbtFederatedRepositoryParams\<lparr>sbtf_base := NewFederatedRepositoryPackageParams ''sbt''\<rparr>))"
| "NewFederatedRepositoryParams Swift = Some (PlainFederated (NewFederatedRepositoryPackageParams ''swift''))"
| "NewFederatedRepositoryParams Vagrant = Some (PlainFederated (NewFederatedRepositoryPackageParams ''vagrant''))"
| "NewFederatedRepositoryParams Yum = Some (YumFederated (zero_YumFederatedRepositoryParams\<lparr>yumf_base := NewFederatedRepositoryPackageParams ''yum''\<rparr>))"
| "NewFederatedRepositoryParams _ = None"

text \<open>The methods of the service, one for each struct.\<close>

definition FederatedRepositoryService :: "'w service \<Rightarrow> bool \<Rightarrow> FederatedRepositoryParams \<Rightarrow> 'w \<Rightarrow> (go_error option \<times> 'w) option" where
  "FederatedRepositoryService rs isUpdate params = repo_performRequest rs isUpdate (federated_table params) (rb_Key (fr_base (federated_base params)))"

lemma read_federated_shown:
  assumes "distinct_names fs"
  shows "set (federated_table p) \<subseteq> set fs \<Longrightarrow> federated_ok p \<Longrightarrow> read_federated p (table_members fs) = Inr p"
  by (cases p) (simp_all add: read_FederatedRepositoryBaseParams_table[OF assms]
    read_CargoFederatedRepositoryParams_table[OF assms]
    read_DebianFederatedRepositoryParams_table[OF assms]
    read_DockerFederatedRepositoryParams_table[OF assms]
    read_GradleFederatedRepositoryParams_table[OF assms]
    read_IvyFederatedRepositoryParams_table[OF assms]
    read_MavenFederatedRepositoryParams_table[OF assms]
    read_NugetFederatedRepositoryParams_table[OF assms]
    read_RpmFederatedRepositoryParams_table[OF assms]
    read_SbtFederatedRepositoryParams_table[OF assms]
    read_YumFederatedRepositoryParams_table[OF assms])

lemma federated_names: "distinct_names (federated_table p)"
  by (cases p) (simp_all add: FederatedRepositoryBaseParams_names
    CargoFederatedRepositoryParams_names
    DebianFederatedRepositoryParams_names
    DockerFederatedRepositoryParams_names
    GradleFederatedRepositoryParams_names
    IvyFederatedRepositoryParams_names
    MavenFederatedRepositoryParams_names
    NugetFederatedRepositoryParams_names
    RpmFederatedRepositoryParams_names
    SbtFederatedRepositoryParams_names
    YumFederatedRepositoryParams_names)

end
