(* ===== verification/Rest.thy ===== *)
theory Rest
  imports Service Codec JsonParser "HOL-Library.Multiset"
begin

text \<open>
  What the administrative services share: requests whose answer is read or only checked, entities that may not exist
  (status 404), forms, and arrays of entities.
\<close>

section \<open>Answers\<close>

definition answered_body :: "'w service \<Rightarrow> int list \<Rightarrow> (string \<Rightarrow> 'a result) \<Rightarrow> 'w http_result option \<Rightarrow> ('a result \<times> 'w) option" where
  "answered_body sv expected f reply =
     after_reply reply (\<lambda>r w. Some (and_then (checked sv expected r) (\<lambda>(_, body). f body), w))"

text \<open>The body into an empty struct.\<close>

definition decoded :: "'w service \<Rightarrow> (jvalue \<Rightarrow> 'a result) \<Rightarrow> string \<Rightarrow> 'a result" where
  "decoded sv rd body = and_then (sv_parse sv body) rd"

definition read_as :: "(members \<Rightarrow> 'a result) \<Rightarrow> jvalue \<Rightarrow> 'a result" where
  "read_as rd v = and_then (read_struct v) rd"

definition get_decoded :: "'w service \<Rightarrow> string \<Rightarrow> (jvalue \<Rightarrow> 'a result) \<Rightarrow> 'w \<Rightarrow> ('a result \<times> 'w) option" where
  "get_decoded sv url rd w =
     answered_body sv [200] (decoded sv rd) (jc_SendGet (sv_client sv) url True (details_of sv) w)"

text \<open>An entity that is not found is a nil pointer.\<close>

definition get_optional :: "'w service \<Rightarrow> string \<Rightarrow> (jvalue \<Rightarrow> 'a result) \<Rightarrow> 'w \<Rightarrow> ('a option result \<times> 'w) option" where
  "get_optional sv url rd w =
     after_reply (jc_SendGet (sv_client sv) url True (details_of sv) w) (\<lambda>reply w.
       Some (case reply of
               (_, _, Some e) \<Rightarrow> Inl e
             | (None, _, None) \<Rightarrow> Inl (Panic ''nil pointer dereference'')
             | (Some r, body, None) \<Rightarrow>
                 if StatusCode r = 404 then Inr None
                 else and_then (checked sv [200] reply) (\<lambda>(_, body). map_sum id Some (decoded sv rd body)), w))"

text \<open>Slices; \<open>null\<close> is the nil slice.\<close>

definition read_array :: "(jvalue \<Rightarrow> 'a option) \<Rightarrow> 'a \<Rightarrow> jvalue \<Rightarrow> 'a list result" where
  "read_array conv dflt v =
     (if v = Null then Inr []
      else case conv_array conv dflt v of None \<Rightarrow> Inl (Err ''json: cannot unmarshal'') | Some xs \<Rightarrow> Inr xs)"

text \<open>The content of the request is a struct.\<close>

definition document :: "field_table \<Rightarrow> string" where
  "document t = Marshal (ObjV (table_members t))"

text \<open>Services that set the headers of their details as a whole.\<close>

definition json_headers :: "'w service \<Rightarrow> HttpClientDetails" where
  "json_headers sv =
     (details_of sv)\<lparr>Headers := Some [(''Content-Type'', ''application/json''), (''Accept'', ''application/json'')]\<rparr>"

text \<open>\<open>%t\<close> of package fmt.\<close>

definition bool_text :: "bool \<Rightarrow> string" where
  "bool_text b = (if b then ''true'' else ''false'')"

section \<open>Slices and maps\<close>

text \<open>Pointers to slices, and slices that may be nil; a member \<open>null\<close> leaves both as they are.\<close>

definition read_slice :: "string \<Rightarrow> members \<Rightarrow> string list option result" where
  "read_slice = read_ptr (conv_array conv_string [])"

lemma read_table_slices [table_reads]:
  assumes "distinct_names fs"
  shows "(k, opt_ptr (\<lambda>ss. ArrV (map StrV ss)) q) \<in> set fs \<Longrightarrow> read_slice k (table_members fs) = Inr q"
    "(k, Some (slice_value StrV q)) \<in> set fs \<Longrightarrow> read_slice k (table_members fs) = Inr q"
    "(k, Some (int_value i)) \<in> set fs \<Longrightarrow> machine_int i \<Longrightarrow> read_int k (table_members fs) = Inr i"
proof -
  show "(k, opt_ptr (\<lambda>ss. ArrV (map StrV ss)) q) \<in> set fs \<Longrightarrow> read_slice k (table_members fs) = Inr q"
    unfolding read_slice_def by (erule read_table_ptr[OF assms]) (simp add: conv_array_def conv_list_map)
  show "(k, Some (slice_value StrV q)) \<in> set fs \<Longrightarrow> read_slice k (table_members fs) = Inr q"
    unfolding read_slice_def read_ptr_def read_field_def using field_values_table[OF assms, of k]
    by (cases q) (auto simp: slice_value_def conv_array_def conv_list_map)
  show "(k, Some (int_value i)) \<in> set fs \<Longrightarrow> machine_int i \<Longrightarrow> read_int k (table_members fs) = Inr i"
    unfolding read_int_def by (erule read_field_table[OF assms]) (simp add: int_value_def atoi_itoa)
qed

text \<open>A map from strings to slices, written in the order of its keys. Its value here is canonical when it is in this order.\<close>

type_synonym string_lists = "(string \<times> string list option) list"

definition map_value :: "string_lists \<Rightarrow> jvalue" where
  "map_value m = ObjV (map (\<lambda>k. (k, slice_value StrV (the (map_of m k)))) (sort (map fst m)))"

definition canonical :: "string_lists \<Rightarrow> bool" where
  "canonical m \<longleftrightarrow> sort (map fst m) = map fst m \<and> distinct (map fst m)"

definition opt_map :: "string_lists \<Rightarrow> jvalue option" where
  "opt_map m = (if m = [] then None else Some (map_value m))"

fun conv_lists :: "members \<Rightarrow> string_lists \<Rightarrow> string_lists option" where
  "conv_lists [] m = Some m"
| "conv_lists ((k, v) # ms) m =
     (if v = Null then conv_lists ms (AList.update k None m)
      else case conv_array conv_string [] v of None \<Rightarrow> None | Some xs \<Rightarrow> conv_lists ms (AList.update k (Some xs) m))"

definition conv_map :: "jvalue \<Rightarrow> string_lists option" where
  "conv_map v = (case v of ObjV ms \<Rightarrow> conv_lists ms [] | _ \<Rightarrow> None)"

definition read_map :: "string \<Rightarrow> members \<Rightarrow> string_lists result" where
  "read_map = read_field conv_map []"

lemma update_new: "k \<notin> fst ` set m \<Longrightarrow> AList.update k v m = m @ [(k, v)]"
  by (induction m) auto

lemma conv_lists_written:
  "distinct (map fst (n @ m)) \<Longrightarrow> conv_lists (map (\<lambda>(k, v). (k, slice_value StrV v)) m) n = Some (n @ m)"
proof (induction m arbitrary: n)
  case (Cons kv m)
  obtain k v where kv: "kv = (k, v)" by fastforce
  then have "AList.update k w n = n @ [(k, w)]" for w using Cons(2) by (intro update_new) auto
  moreover have "distinct (map fst ((n @ [(k, v)]) @ m))" using Cons(2) kv by auto
  ultimately show ?case using Cons(1)[of "n @ [(k, v)]"] kv
    by (cases v) (simp_all add: slice_value_def conv_array_def conv_list_map)
qed simp

lemma conv_map_written: "canonical m \<Longrightarrow> conv_map (map_value m) = Some m"
proof -
  assume c: "canonical m"
  have "map (\<lambda>k. (k, slice_value StrV (the (map_of m k)))) (map fst m) = map (\<lambda>(k, v). (k, slice_value StrV v)) m"
    using c by (auto simp: canonical_def)
  then show ?thesis using c conv_lists_written[of "[]" m] unfolding conv_map_def map_value_def canonical_def
    by (simp del: map_map)
qed

lemma map_value_not_Null: "map_value m \<noteq> Null"
  by (simp add: map_value_def)

lemma read_map_table [table_reads]:
  assumes "distinct_names fs"
  shows "(k, opt_map m) \<in> set fs \<Longrightarrow> canonical m \<Longrightarrow> read_map k (table_members fs) = Inr m"
  unfolding read_map_def
  by (erule read_field_table[OF assms]) (auto simp: opt_map_def conv_map_written map_value_not_Null)

section \<open>Entities that are written and read\<close>

text \<open>The values of a table whose text has few levels; the parser accepts it.\<close>

definition writable_table :: "nat \<Rightarrow> field_table \<Rightarrow> bool" where
  "writable_table d t \<longleftrightarrow> list_all (\<lambda>(k, v). pred_option (writable d) v) t"

lemma writable_struct: "writable_table d t \<Longrightarrow> writable (Suc d) (ObjV (table_members t))"
  by (induction t) (auto simp: writable_table_def split: option.splits)

lemma writable_document: "writable_table d t \<Longrightarrow> d < maxNestingDepth \<Longrightarrow> Unmarshal (document t) = Inr (ObjV (table_members t))"
  unfolding document_def by (rule Unmarshal_Marshal) (rule writable_mono[OF writable_struct], simp_all add: Suc_le_eq)

lemma writable_table_simps [simp]:
  "writable_table d []"
  "writable_table d ((k, v) # t) \<longleftrightarrow> pred_option (writable d) v \<and> writable_table d t"
  "writable_table d (t @ u) \<longleftrightarrow> writable_table d t \<and> writable_table d u"
  by (simp_all add: writable_table_def)

lemma writable_pointer: "(\<And>x. p = Some x \<Longrightarrow> writable d (f x)) \<Longrightarrow> pred_option (writable d) (opt_ptr f p)"
  by (cases p) (simp_all add: opt_ptr_def)

lemma writable_list: "(\<And>x. x \<in> set xs \<Longrightarrow> writable d (f x)) \<Longrightarrow> writable (Suc d) (ArrV (map f xs))"
  by (simp add: list_all_iff)

lemma writable_strings: "writable (Suc d) (ArrV (map StrV ss))"
  by (rule writable_list) simp

lemma writable_slice [simp]: "writable (Suc d) (slice_value StrV q)"
  by (cases q) (auto simp: slice_value_def list_all_iff)

lemma writable_map: "writable (Suc (Suc d)) (map_value m)"
  using writable_slice by (auto simp: map_value_def list_all_iff)

lemma writable_fields [simp]:
  "pred_option (writable d) (opt_string s)" "pred_option (writable d) (opt_int i)" "pred_option (writable d) (opt_flag b)"
  "pred_option (writable d) (opt_ptr BoolV p)" "pred_option (writable d) (opt_ptr int_value q)"
  "pred_option (writable (Suc d)) (opt_list StrV ss)" "pred_option (writable (Suc d)) (opt_ptr (\<lambda>ss. ArrV (map StrV ss)) r)"
  "pred_option (writable (Suc d)) (Some (slice_value StrV t))" "pred_option (writable (Suc (Suc d))) (opt_map m)"
  "pred_option (writable d) (Some (StrV s))" "pred_option (writable d) (Some (BoolV b))" "pred_option (writable d) (Some (int_value i))"
proof -
  show "pred_option (writable (Suc d)) (opt_list StrV ss)" by (simp add: opt_list_def writable_strings del: writable.simps)
  show "pred_option (writable (Suc d)) (opt_ptr (\<lambda>ss. ArrV (map StrV ss)) r)" by (rule writable_pointer) (rule writable_strings)
  show "pred_option (writable (Suc d)) (Some (slice_value StrV t))" by (simp add: writable_slice)
  show "pred_option (writable (Suc (Suc d))) (opt_map m)" by (simp add: opt_map_def writable_map)
qed (simp_all add: opt_string_def opt_int_def opt_flag_def opt_ptr_def int_value_def is_number_itoa option.pred_map comp_def option.pred_True)

lemma writable_nested [simp]:
  "(\<And>x. p = Some x \<Longrightarrow> writable_table d (f x)) \<Longrightarrow> pred_option (writable (Suc d)) (opt_ptr (\<lambda>x. ObjV (table_members (f x))) p)"
  by (rule writable_pointer) (rule writable_struct)

section \<open>Documents of entities\<close>

text \<open>A document shows an entry: of its members, those with the names of fields are the fields of the entry, in any order.\<close>

definition presents :: "field_table \<Rightarrow> members \<Rightarrow> bool" where
  "presents fs ms \<longleftrightarrow> mset (filter (\<lambda>(k, v). map fold_char k \<in> set (folded fs)) ms) = mset (table_members fs)"

lemma table_members_known: "m \<in> set (table_members fs) \<Longrightarrow> map fold_char (fst m) \<in> set (folded fs)"
  by (induction fs) (auto simp: folded_def split: option.splits)

lemma presents_table: "presents fs (table_members fs)"
proof -
  have "filter (\<lambda>(k, v). map fold_char k \<in> set (folded fs)) (table_members fs) = table_members fs"
    using table_members_known by (intro filter_True) fastforce
  then show ?thesis by (simp add: presents_def)
qed

text \<open>A table is read as well from a document that shows it, when no member comes twice.\<close>

definition shows_table :: "field_table \<Rightarrow> members \<Rightarrow> bool" where
  "shows_table fs ms \<longleftrightarrow> presents fs ms \<and> distinct (map (\<lambda>(k, v). map fold_char k) ms)"

lemma table_members_iff: "(k, j) \<in> set (table_members fs) \<longleftrightarrow> (k, Some j) \<in> set fs"
  by (induction fs) (auto split: option.splits)

lemma table_members_append: "table_members (fs @ gs) = table_members fs @ table_members gs"
  by (induction fs) auto

lemma presents_member:
  assumes "presents fs ms"
  shows "(k, Some j) \<in> set fs \<Longrightarrow> (k, j) \<in> set ms"
    "(k, j) \<in> set ms \<Longrightarrow> map fold_char k \<in> set (folded fs) \<Longrightarrow> (k, Some j) \<in> set fs"
proof -
  have "set (filter (\<lambda>(k, v). map fold_char k \<in> set (folded fs)) ms) = set (table_members fs)"
    using assms unfolding presents_def by (metis set_mset_mset)
  then have "(k, j) \<in> set ms \<and> map fold_char k \<in> set (folded fs) \<longleftrightarrow> (k, Some j) \<in> set fs" for k j
    by (auto simp: table_members_iff[symmetric] set_eq_iff)
  then show "(k, Some j) \<in> set fs \<Longrightarrow> (k, j) \<in> set ms"
    "(k, j) \<in> set ms \<Longrightarrow> map fold_char k \<in> set (folded fs) \<Longrightarrow> (k, Some j) \<in> set fs" by auto
qed

lemma shows_table_extends:
  assumes "distinct_names fs" "shows_table fs ms"
  shows "\<exists>gs. distinct_names gs \<and> set fs \<subseteq> set gs \<and> table_members gs = ms"
proof (intro exI conjI)
  let ?none = "filter (\<lambda>(k, v). v = None) fs"
  let ?gs = "map (\<lambda>(k, v). (k, Some v)) ms @ ?none"
  have p: "presents fs ms" using assms(2) by (simp add: shows_table_def)
  have "table_members (map (\<lambda>(k, v). (k, Some v)) ms) = ms" by (induction ms) auto
  moreover have "table_members (filter (\<lambda>(k, v). v = None) gs) = []" for gs by (induction gs) auto
  ultimately show "table_members ?gs = ms" by (simp add: table_members_append)
  show "set fs \<subseteq> set ?gs"
  proof
    fix f assume f: "f \<in> set fs"
    obtain k v where kv: "f = (k, v)" by fastforce
    then show "f \<in> set ?gs" using f presents_member(1)[OF p, of k] by (cases v) force+
  qed
  have inj: "inj_on (\<lambda>f. map fold_char (fst f)) (set fs)"
    using assms(1) unfolding distinct_names_def map_map comp_def by (simp add: distinct_map)
  have "map fold_char k \<noteq> map fold_char l" if "(k, v) \<in> set ms" "(l, None) \<in> set fs" for k v l
  proof
    assume same: "map fold_char k = map fold_char l"
    have "map fold_char l \<in> set (folded fs)" using that(2) unfolding folded_def by (metis fst_conv image_eqI set_map)
    then have "(k, Some v) \<in> set fs" using presents_member(2)[OF p that(1)] same by simp
    then show False using inj_onD[OF inj _ _ that(2), of "(k, Some v)"] same by simp
  qed
  moreover have "distinct (map (map fold_char) (map fst ?none))"
    using assms(1) unfolding distinct_names_def by (simp add: distinct_map inj_on_def)
  moreover have names: "map (map fold_char) (map fst (map (\<lambda>(k, v). (k, Some v)) ms)) = map (\<lambda>(k, v). map fold_char k) ms" by auto
  moreover have "distinct (map (\<lambda>(k, v). map fold_char k) ms)" using assms(2) by (simp add: shows_table_def)
  ultimately show "distinct_names ?gs" unfolding distinct_names_def map_append names distinct_append by auto
qed

text \<open>A part of a table is shown with it; members that are shown are those of a table with the same names.\<close>

lemma folded_inj: "distinct_names fs \<Longrightarrow> inj_on (\<lambda>f. map fold_char (fst f)) (set fs)"
  unfolding distinct_names_def map_map comp_def by (simp add: distinct_map)

lemma table_members_distinct:
  assumes "distinct_names fs"
  shows "distinct (map (\<lambda>(k, v). map fold_char k) (table_members fs))"
  using assms
proof (induction fs)
  case (Cons f fs)
  have "map fold_char k \<in> set (folded fs)" if "(k, v) \<in> set (table_members fs)" for k v
    using table_members_known[OF that] by simp
  then show ?case using Cons by (cases f) (auto simp: distinct_names_folded folded_def split: option.split)
qed simp

lemma shows_subtable:
  assumes "set fs \<subseteq> set gs" "distinct_names fs" "distinct_names gs"
  shows "shows_table fs (table_members gs)"
proof -
  let ?known = "filter (\<lambda>(k, v). map fold_char k \<in> set (folded fs)) (table_members gs)"
  have "(k, Some j) \<in> set fs" if member: "(k, Some j) \<in> set gs" and known: "map fold_char k \<in> set (folded fs)" for k j
  proof -
    obtain f where "f \<in> set fs" "map fold_char (fst f) = map fold_char k" using known by (auto simp: folded_def)
    then show ?thesis using inj_onD[OF folded_inj[OF assms(3)], of f "(k, Some j)"] member assms(1) by auto
  qed
  then have "set ?known = set (table_members fs)"
    using assms(1) table_members_known[of _ fs] by (auto simp: table_members_iff)
  moreover have "distinct (table_members fs)" "distinct (table_members gs)"
    using table_members_distinct[OF assms(2)] table_members_distinct[OF assms(3)] unfolding distinct_map by simp_all
  ultimately have "mset ?known = mset (table_members fs)" using set_eq_iff_mset_eq_distinct[of ?known "table_members fs"] by (simp del: mset_filter set_filter)
  then show ?thesis using table_members_distinct[OF assms(3)] by (simp add: shows_table_def presents_def)
qed

lemma table_members_shown:
  assumes "map fst fs = map fst gs" "presents gs ms" "set (table_members fs) \<subseteq> set ms"
  shows "set (table_members fs) \<subseteq> set (table_members gs)"
proof
  fix m assume m: "m \<in> set (table_members fs)"
  obtain k j where kj: "m = (k, j)" by fastforce
  have "map fold_char k \<in> set (folded gs)" using table_members_known[OF m] assms(1) kj by (simp add: folded_def)
  then show "m \<in> set (table_members gs)" using presents_member(2)[OF assms(2), of k j] m assms(3) kj
    by (simp add: table_members_iff subset_iff)
qed

end
