(* ===== verification/Repositories.thy ===== *)
theory Repositories
  imports LocalRepository RemoteRepository VirtualRepository FederatedRepository Rest
begin

text \<open>
  Repositories of all classes: what is written for the parameters of a repository, and what is read back of a repository that
  was created.
\<close>

datatype RepositoryParams =
    LocalRepo LocalRepositoryParams
  | RemoteRepo RemoteRepositoryParams
  | VirtualRepo VirtualRepositoryParams
  | FederatedRepo FederatedRepositoryParams

fun repository_table :: "RepositoryParams \<Rightarrow> field_table" where
  "repository_table (LocalRepo p) = local_table p"
| "repository_table (RemoteRepo p) = remote_table p"
| "repository_table (VirtualRepo p) = virtual_table p"
| "repository_table (FederatedRepo p) = federated_table p"

fun repository_base :: "RepositoryParams \<Rightarrow> RepositoryBaseParams" where
  "repository_base (LocalRepo p) = lr_base (local_base p)"
| "repository_base (RemoteRepo p) = rr_base (remote_base p)"
| "repository_base (VirtualRepo p) = vr_base (virtual_base p)"
| "repository_base (FederatedRepo p) = fr_base (federated_base p)"

text \<open>Numbers are 64-bit integers.\<close>

fun repository_ok :: "RepositoryParams \<Rightarrow> bool" where
  "repository_ok (LocalRepo p) = local_ok p"
| "repository_ok (RemoteRepo p) = remote_ok p"
| "repository_ok (VirtualRepo p) = virtual_ok p"
| "repository_ok (FederatedRepo p) = federated_ok p"

fun read_repository :: "RepositoryParams \<Rightarrow> members \<Rightarrow> RepositoryParams result" where
  "read_repository (LocalRepo p) ms = map_sum id LocalRepo (read_local p ms)"
| "read_repository (RemoteRepo p) ms = map_sum id RemoteRepo (read_remote p ms)"
| "read_repository (VirtualRepo p) ms = map_sum id VirtualRepo (read_virtual p ms)"
| "read_repository (FederatedRepo p) ms = map_sum id FederatedRepo (read_federated p ms)"

fun create_repository :: "'w service \<Rightarrow> RepositoryParams \<Rightarrow> 'w \<Rightarrow> (go_error option \<times> 'w) option" where
  "create_repository rs (LocalRepo p) w = LocalRepositoryService rs False p w"
| "create_repository rs (RemoteRepo p) w = RemoteRepositoryService rs False p w"
| "create_repository rs (VirtualRepo p) w = VirtualRepositoryService rs False p w"
| "create_repository rs (FederatedRepo p) w = FederatedRepositoryService rs False p w"

lemma read_repository_shown:
  assumes "distinct_names fs"
  shows "set (repository_table p) \<subseteq> set fs \<Longrightarrow> repository_ok p \<Longrightarrow> read_repository p (table_members fs) = Inr p"
  by (cases p) (simp_all add: read_local_shown[OF assms] read_remote_shown[OF assms] read_virtual_shown[OF assms] read_federated_shown[OF assms])

lemma repository_names: "distinct_names (repository_table p)"
  by (cases p) (simp_all add: local_names remote_names virtual_names federated_names)

lemma create_repository_request:
  "create_repository rs p w = repo_performRequest rs False (repository_table p) (rb_Key (repository_base p)) w"
  by (cases p) (simp_all add: LocalRepositoryService_def RemoteRepositoryService_def VirtualRepositoryService_def FederatedRepositoryService_def)

section \<open>The texts of repositories\<close>

lemmas repository_tables = AdditionalRepositoryBaseParams_table_def
    CargoRepositoryParams_table_def DebianRepositoryParams_table_def DockerRepositoryParams_table_def
    JavaPackageManagersRepositoryParams_table_def KeyPairRefsRepositoryParams_table_def
    NugetRepositoryParams_table_def RpmRepositoryParams_table_def LocalRepositoryBaseParams_table_def
    CargoLocalRepositoryParams_table_def DebianLocalRepositoryParams_table_def DockerLocalRepositoryParams_table_def
    GradleLocalRepositoryParams_table_def IvyLocalRepositoryParams_table_def MavenLocalRepositoryParams_table_def
    NugetLocalRepositoryParams_table_def RpmLocalRepositoryParams_table_def SbtLocalRepositoryParams_table_def
    YumLocalRepositoryParams_table_def RemoteRepositoryBaseParams_table_def
    JavaPackageManagersRemoteRepositoryParams_table_def VcsGitRemoteRepositoryParams_table_def
    BowerRemoteRepositoryParams_table_def CargoRemoteRepositoryParams_table_def
    CocoapodsRemoteRepositoryParams_table_def ComposerRemoteRepositoryParams_table_def
    DebianRemoteRepositoryParams_table_def DockerRemoteRepositoryParams_table_def GemsRemoteRepositoryParams_table_def
    GenericRemoteRepositoryParams_table_def GoRemoteRepositoryParams_table_def GradleRemoteRepositoryParams_table_def
    HelmRemoteRepositoryParams_table_def IvyRemoteRepositoryParams_table_def MavenRemoteRepositoryParams_table_def
    NugetRemoteRepositoryParams_table_def P2RemoteRepositoryParams_table_def PypiRemoteRepositoryParams_table_def
    RpmRemoteRepositoryParams_table_def SbtRemoteRepositoryParams_table_def VcsRemoteRepositoryParams_table_def
    YumRemoteRepositoryParams_table_def VirtualRepositoryBaseParams_table_def
    CommonJavaVirtualRepositoryParams_table_def CommonCacheVirtualRepositoryParams_table_def
    AlpineVirtualRepositoryParams_table_def BowerVirtualRepositoryParams_table_def
    ChefVirtualRepositoryParams_table_def ConanVirtualRepositoryParams_table_def
    CondaVirtualRepositoryParams_table_def CranVirtualRepositoryParams_table_def
    DebianVirtualRepositoryParams_table_def DockerVirtualRepositoryParams_table_def
    GoVirtualRepositoryParams_table_def GradleVirtualRepositoryParams_table_def HelmVirtualRepositoryParams_table_def
    IvyVirtualRepositoryParams_table_def MavenVirtualRepositoryParams_table_def NpmVirtualRepositoryParams_table_def
    NugetVirtualRepositoryParams_table_def P2VirtualRepositoryParams_table_def RpmVirtualRepositoryParams_table_def
    SbtVirtualRepositoryParams_table_def YumVirtualRepositoryParams_table_def FederatedRepositoryBaseParams_table_def
    CargoFederatedRepositoryParams_table_def DebianFederatedRepositoryParams_table_def
    DockerFederatedRepositoryParams_table_def GradleFederatedRepositoryParams_table_def
    IvyFederatedRepositoryParams_table_def MavenFederatedRepositoryParams_table_def
    NugetFederatedRepositoryParams_table_def RpmFederatedRepositoryParams_table_def
    SbtFederatedRepositoryParams_table_def YumFederatedRepositoryParams_table_def

lemma writable_nested_list [simp]:
  "(\<And>x. x \<in> set xs \<Longrightarrow> writable_table d (f x)) \<Longrightarrow> pred_option (writable (Suc (Suc d))) (opt_list (\<lambda>x. ObjV (table_members (f x))) xs)"
  unfolding opt_list_def by (auto intro!: writable_list writable_struct simp del: writable.simps)

lemma members_writable [simp]:
  "writable_table d (ContentSynchronisationStatistics_table a)" "writable_table d (ContentSynchronisationProperties_table b)"
  "writable_table d (ContentSynchronisationSource_table c)" "writable_table d (FederatedRepositoryMember_table f)"
  by (simp_all add: ContentSynchronisationStatistics_table_def ContentSynchronisationProperties_table_def
    ContentSynchronisationSource_table_def FederatedRepositoryMember_table_def)

lemma synchronisation_writable [simp]: "writable_table (Suc d) (ContentSynchronisation_table e)"
  by (simp add: ContentSynchronisation_table_def)

lemma local_writable: "writable_table (Suc (Suc (Suc (Suc d)))) (local_table p)"
  by (cases p) (simp_all add: repository_tables RepositoryBaseParams_table_def)

lemma federated_writable: "writable_table (Suc (Suc (Suc (Suc d)))) (federated_table p)"
  by (cases p) (simp_all add: repository_tables RepositoryBaseParams_table_def)

lemma virtual_writable: "writable_table (Suc (Suc (Suc (Suc d)))) (virtual_table p)"
  by (cases p) (simp_all add: repository_tables RepositoryBaseParams_table_def)

lemma remote_writable: "writable_table (Suc (Suc (Suc (Suc d)))) (remote_table p)"
  by (cases p) (simp_all add: repository_tables RepositoryBaseParams_table_def)
lemma repository_writable: "writable_table (Suc (Suc (Suc (Suc d)))) (repository_table p)"
  by (cases p) (simp_all add: local_writable remote_writable virtual_writable federated_writable)

lemma repository_document: "Unmarshal (document (repository_table p)) = Inr (ObjV (table_members (repository_table p)))"
  by (rule writable_document[of "Suc (Suc (Suc (Suc 0)))"]) (rule repository_writable, simp add: maxNestingDepth_def)

section \<open>The names of the REST interface\<close>

text \<open>The fields of the configuration of a repository in the REST interface, and those that all repositories have.\<close>

definition rest_names :: "string list" where
  "rest_names =
     [''allowAnyHostAuth'', ''archiveBrowsingEnabled'', ''artifactoryRequestsCanRetrieveRemoteArtifacts'',
      ''assumedOfflinePeriodSecs'', ''blackedOut'', ''blockMismatchingMimeTypes'', ''blockPushingSchema1'',
      ''bowerRegistryUrl'', ''bypassHeadRequests'', ''calculateYumMetadata'', ''cargoAnonymousAccess'',
      ''chartsBaseUrl'', ''checksumPolicyType'', ''clientTlsCertificate'', ''composerRegistryUrl'',
      ''contentSynchronisation'', ''debianDefaultArchitectures'', ''debianTrivialLayout'', ''defaultDeploymentRepo'',
      ''description'', ''dockerApiVersion'', ''dockerTagRetention'', ''downloadContextPath'', ''downloadRedirect'',
      ''enableCookieManagement'', ''enableFileListsIndexing'', ''enableTokenAuthentication'', ''environments'',
      ''excludesPattern'', ''externalDependenciesEnabled'', ''externalDependenciesPatterns'',
      ''externalDependenciesRemoteRepo'', ''feedContextPath'', ''fetchJarsEagerly'', ''fetchSourcesEagerly'',
      ''forceMavenAuthentication'', ''forceNugetAuthentication'', ''gitRegistryUrl'', ''handleReleases'',
      ''handleSnapshots'', ''hardFail'', ''includesPattern'', ''key'', ''keyPair'', ''listRemoteFolderItems'',
      ''localAddress'', ''maxUniqueSnapshots'', ''maxUniqueTags'', ''members'', ''metadataRetrievalTimeoutSecs'',
      ''mismatchingMimeTypesOverrideList'', ''missedRetrievalCachePeriodSecs'', ''notes'', ''offline'',
      ''optionalIndexCompressionFormats'', ''p2Urls'', ''packageType'', ''password'', ''podsSpecsRepoUrl'',
      ''pomRepositoryReferencesCleanupPolicy'', ''primaryKeyPairRef'', ''priorityResolution'', ''projectKey'',
      ''propertySets'', ''proxy'', ''pyPIRegistryUrl'', ''pyPIRepositorySuffix'', ''queryParams'', ''rclass'',
      ''rejectInvalidJars'', ''remoteRepoChecksumPolicyType'', ''repoLayoutRef'', ''repositories'',
      ''resolveDockerTagsByTimestamp'', ''retrievalCachePeriodSecs'', ''secondaryKeyPairRef'', ''shareConfiguration'',
      ''snapshotVersionBehavior'', ''socketTimeoutMillis'', ''storeArtifactsLocally'', ''suppressPomConsistencyChecks'',
      ''synchronizeProperties'', ''unusedArtifactsCleanupPeriodHours'', ''url'', ''username'', ''v3FeedUrl'',
      ''vcsGitDownloadUrl'', ''vcsGitProvider'', ''vcsType'', ''virtualRetrievalCachePeriodSecs'', ''xrayIndex'',
      ''yumGroupFileNames'', ''yumRootDepth'']"

definition rest_base :: "RepositoryBaseParams \<Rightarrow> field_table" where
  "rest_base b =
     [(''key'', opt_string (rb_Key b)), (''rclass'', opt_string (rb_Rclass b)), (''packageType'', opt_string (rb_PackageType b)),
      (''description'', opt_string (rb_Description b)), (''notes'', opt_string (rb_Notes b)), (''projectKey'', opt_string (rb_ProjectKey b)),
      (''environments'', opt_list StrV (rb_Environments b)), (''includesPattern'', opt_string (rb_IncludesPattern b)),
      (''excludesPattern'', opt_string (rb_ExcludesPattern b)), (''repoLayoutRef'', opt_string (rb_RepoLayoutRef b))]"

definition rest_table :: "field_table \<Rightarrow> bool" where
  "rest_table t \<longleftrightarrow> (\<forall>f \<in> set t. fst f \<in> set rest_names)"

lemma rest_table_simps [simp]:
  "rest_table []" "rest_table (f # t) \<longleftrightarrow> fst f \<in> set rest_names \<and> rest_table t" "rest_table (t @ u) \<longleftrightarrow> rest_table t \<and> rest_table u"
  by (auto simp: rest_table_def)

lemma rest_names_listed:
  "''allowAnyHostAuth'' \<in> set rest_names"
  "''archiveBrowsingEnabled'' \<in> set rest_names"
  "''artifactoryRequestsCanRetrieveRemoteArtifacts'' \<in> set rest_names"
  "''assumedOfflinePeriodSecs'' \<in> set rest_names"
  "''blackedOut'' \<in> set rest_names"
  "''blockMismatchingMimeTypes'' \<in> set rest_names"
  "''blockPushingSchema1'' \<in> set rest_names"
  "''bowerRegistryUrl'' \<in> set rest_names"
  "''bypassHeadRequests'' \<in> set rest_names"
  "''calculateYumMetadata'' \<in> set rest_names"
  "''cargoAnonymousAccess'' \<in> set rest_names"
  "''chartsBaseUrl'' \<in> set rest_names"
  "''checksumPolicyType'' \<in> set rest_names"
  "''clientTlsCertificate'' \<in> set rest_names"
  "''composerRegistryUrl'' \<in> set rest_names"
  "''contentSynchronisation'' \<in> set rest_names"
  "''debianDefaultArchitectures'' \<in> set rest_names"
  "''debianTrivialLayout'' \<in> set rest_names"
  "''defaultDeploymentRepo'' \<in> set rest_names"
  "''description'' \<in> set rest_names"
  "''dockerApiVersion'' \<in> set rest_names"
  "''dockerTagRetention'' \<in> set rest_names"
  "''downloadContextPath'' \<in> set rest_names"
  "''downloadRedirect'' \<in> set rest_names"
  "''enableCookieManagement'' \<in> set rest_names"
  "''enableFileListsIndexing'' \<in> set rest_names"
  "''enableTokenAuthentication'' \<in> set rest_names"
  "''environments'' \<in> set rest_names"
  "''excludesPattern'' \<in> set rest_names"
  "''externalDependenciesEnabled'' \<in> set rest_names"
  "''externalDependenciesPatterns'' \<in> set rest_names"
  "''externalDependenciesRemoteRepo'' \<in> set rest_names"
  "''feedContextPath'' \<in> set rest_names"
  "''fetchJarsEagerly'' \<in> set rest_names"
  "''fetchSourcesEagerly'' \<in> set rest_names"
  "''forceMavenAuthentication'' \<in> set rest_names"
  "''forceNugetAuthentication'' \<in> set rest_names"
  "''gitRegistryUrl'' \<in> set rest_names"
  "''handleReleases'' \<in> set rest_names"
  "''handleSnapshots'' \<in> set rest_names"
  "''hardFail'' \<in> set rest_names"
  "''includesPattern'' \<in> set rest_names"
  "''key'' \<in> set rest_names"
  "''keyPair'' \<in> set rest_names"
  "''listRemoteFolderItems'' \<in> set rest_names"
  "''localAddress'' \<in> set rest_names"
  "''maxUniqueSnapshots'' \<in> set rest_names"
  "''maxUniqueTags'' \<in> set rest_names"
  "''members'' \<in> set rest_names"
  "''metadataRetrievalTimeoutSecs'' \<in> set rest_names"
  "''mismatchingMimeTypesOverrideList'' \<in> set rest_names"
  "''missedRetrievalCachePeriodSecs'' \<in> set rest_names"
  "''notes'' \<in> set rest_names"
  "''offline'' \<in> set rest_names"
  "''optionalIndexCompressionFormats'' \<in> set rest_names"
  "''p2Urls'' \<in> set rest_names"
  "''packageType'' \<in> set rest_names"
  "''password'' \<in> set rest_names"
  "''podsSpecsRepoUrl'' \<in> set rest_names"
  "''pomRepositoryReferencesCleanupPolicy'' \<in> set rest_names"
  "''primaryKeyPairRef'' \<in> set rest_names"
  "''priorityResolution'' \<in> set rest_names"
  "''projectKey'' \<in> set rest_names"
  "''propertySets'' \<in> set rest_names"
  "''proxy'' \<in> set rest_names"
  "''pyPIRegistryUrl'' \<in> set rest_names"
  "''pyPIRepositorySuffix'' \<in> set rest_names"
  "''queryParams'' \<in> set rest_names"
  "''rclass'' \<in> set rest_names"
  "''rejectInvalidJars'' \<in> set rest_names"
  "''remoteRepoChecksumPolicyType'' \<in> set rest_names"
  "''repoLayoutRef'' \<in> set rest_names"
  "''repositories'' \<in> set rest_names"
  "''resolveDockerTagsByTimestamp'' \<in> set rest_names"
  "''retrievalCachePeriodSecs'' \<in> set rest_names"
  "''secondaryKeyPairRef'' \<in> set rest_names"
  "''shareConfiguration'' \<in> set rest_names"
  "''snapshotVersionBehavior'' \<in> set rest_names"
  "''socketTimeoutMillis'' \<in> set rest_names"
  "''storeArtifactsLocally'' \<in> set rest_names"
  "''suppressPomConsistencyChecks'' \<in> set rest_names"
  "''synchronizeProperties'' \<in> set rest_names"
  "''unusedArtifactsCleanupPeriodHours'' \<in> set rest_names"
  "''url'' \<in> set rest_names"
  "''username'' \<in> set rest_names"
  "''v3FeedUrl'' \<in> set rest_names"
  "''vcsGitDownloadUrl'' \<in> set rest_names"
  "''vcsGitProvider'' \<in> set rest_names"
  "''vcsType'' \<in> set rest_names"
  "''virtualRetrievalCachePeriodSecs'' \<in> set rest_names"
  "''xrayIndex'' \<in> set rest_names"
  "''yumGroupFileNames'' \<in> set rest_names"
  "''yumRootDepth'' \<in> set rest_names"
  by (code_simp)+

lemma repository_rest_names: "rest_table (repository_table p)"
proof (cases p)
  case (LocalRepo l)
  then show ?thesis by (cases l) (simp_all add: repository_tables RepositoryBaseParams_table_def rest_names_listed)
next
  case (RemoteRepo r)
  then show ?thesis by (cases r) (simp_all add: repository_tables RepositoryBaseParams_table_def rest_names_listed)
next
  case (VirtualRepo v)
  then show ?thesis by (cases v) (simp_all add: repository_tables RepositoryBaseParams_table_def rest_names_listed)
next
  case (FederatedRepo f)
  then show ?thesis by (cases f) (simp_all add: repository_tables RepositoryBaseParams_table_def rest_names_listed)
qed

lemma base_within: "set (RepositoryBaseParams_table (repository_base p)) \<subseteq> set (repository_table p)"
proof (cases p)
  case (LocalRepo l)
  then show ?thesis by (cases l) (simp_all add: repository_tables subset_insertI2 le_supI1 le_supI2)
next
  case (RemoteRepo r)
  then show ?thesis by (cases r) (simp_all add: repository_tables subset_insertI2 le_supI1 le_supI2)
next
  case (VirtualRepo v)
  then show ?thesis by (cases v) (simp_all add: repository_tables subset_insertI2 le_supI1 le_supI2)
next
  case (FederatedRepo f)
  then show ?thesis by (cases f) (simp_all add: repository_tables subset_insertI2 le_supI1 le_supI2)
qed

lemma rest_base_shown: "shows_table (rest_base (repository_base p)) (table_members (repository_table p))"
proof (rule shows_subtable)
  have "set (rest_base b) = set (RepositoryBaseParams_table b)" for b by (auto simp: rest_base_def RepositoryBaseParams_table_def)
  then show "set (rest_base (repository_base p)) \<subseteq> set (repository_table p)" using base_within by simp
  show "distinct_names (rest_base (repository_base p))"
    unfolding rest_base_def distinct_names_def list.map fst_conv by code_simp
qed (rule repository_names)

section \<open>Creating a repository and reading it\<close>

text \<open>Two repositories of one struct.\<close>

definition same_struct :: "RepositoryParams \<Rightarrow> RepositoryParams \<Rightarrow> bool" where
  "same_struct p q \<longleftrightarrow> read_repository p = read_repository q \<and> map fst (repository_table p) = map fst (repository_table q)"


text \<open>A local repository with a bound of tags, and a server that shows it with the defaults for two other parameters.\<close>

definition example_repository :: "string \<Rightarrow> string \<Rightarrow> RepositoryParams" where
  "example_repository pattern api = LocalRepo (DockerLocal (zero_DockerLocalRepositoryParams\<lparr>
     dockerl_base := zero_LocalRepositoryBaseParams\<lparr>lr_base := zero_RepositoryBaseParams\<lparr>rb_Rclass := ''local'', rb_Key := ''d'',
       rb_PackageType := ''docker'', rb_IncludesPattern := pattern\<rparr>\<rparr>,
     dockerl_docker := zero_DockerRepositoryParams\<lparr>dk_MaxUniqueTags := Some 0, dk_BlockPushingSchema1 := Some False,
       dk_DockerApiVersion := api\<rparr>\<rparr>))"

definition shown_repository :: members where
  "shown_repository =
     [(''description_url'', Null), (''packageType'', StrV ''docker''), (''rclass'', StrV ''local''), (''key'', StrV ''d''),
      (''dockerApiVersion'', StrV ''V2''), (''blockPushingSchema1'', BoolV False), (''maxUniqueTags'', NumV ''0''),
      (''includesPattern'', StrV ''**/*'')]"

definition example_store :: "nat service" where
  "example_store = (example_service (\<lambda>w. Answered ((example_response 200)\<lparr>
     Body := (if w = 0 then [] else Marshal (ObjV shown_repository), None)\<rparr>)))\<lparr>sv_parse := Unmarshal\<rparr>"

lemma example_store_simps [simp]:
  "httpClient (sv_client example_store) = counting_client (\<lambda>w. Answered ((example_response 200)\<lparr>
     Body := (if w = 0 then [] else Marshal (ObjV shown_repository), None)\<rparr>))"
  "ready_client (sv_client example_store) meth url" "sv_parse example_store = Unmarshal"
  using example_ready by (simp_all add: example_store_def)


end
