(* ===== verification/Security.thy ===== *)
theory Security
  imports Rest Url
begin

text \<open>
  Users, groups, permission targets and tokens: \<^verbatim>\<open>artifactory/services/users.go\<close>, groups.go, permissiontarget.go and
  security.go. A pointer to a nil slice of groups is not told from one to an empty slice; the code only makes the latter.
\<close>

section \<open>Users\<close>

record User =
  us_Name :: string
  us_Email :: string
  us_Password :: string
  us_Admin :: "bool option"
  us_ProfileUpdatable :: "bool option"
  us_DisableUIAccess :: "bool option"
  us_InternalPasswordDisabled :: "bool option"
  us_LastLoggedIn :: string
  us_Realm :: string
  us_Groups :: "string list option"
  us_ShouldInvite :: "bool option"
  us_Source :: string
  us_WatchManager :: "bool option"
  us_ReportsManager :: "bool option"
  us_PolicyManager :: "bool option"
  us_ProjectAdmin :: "bool option"

definition User_table :: "User \<Rightarrow> field_table" where
  "User_table p =
     [(''name'', opt_string (us_Name p)), (''email'', opt_string (us_Email p)),
      (''password'', opt_string (us_Password p)), (''admin'', opt_ptr BoolV (us_Admin p)),
      (''profileUpdatable'', opt_ptr BoolV (us_ProfileUpdatable p)),
      (''disableUIAccess'', opt_ptr BoolV (us_DisableUIAccess p)),
      (''internalPasswordDisabled'', opt_ptr BoolV (us_InternalPasswordDisabled p)),
      (''lastLoggedIn'', opt_string (us_LastLoggedIn p)), (''realm'', opt_string (us_Realm p)),
      (''groups'', opt_ptr (\<lambda>ss. ArrV (map StrV ss)) (us_Groups p)),
      (''shouldInvite'', opt_ptr BoolV (us_ShouldInvite p)), (''source'', opt_string (us_Source p)),
      (''watchManager'', opt_ptr BoolV (us_WatchManager p)),
      (''reportsManager'', opt_ptr BoolV (us_ReportsManager p)),
      (''policyManager'', opt_ptr BoolV (us_PolicyManager p)), (''projectAdmin'', opt_ptr BoolV (us_ProjectAdmin p))]"

definition read_User :: "members \<Rightarrow> User result" where
  "read_User ms =
     and_then (read_string ''name'' ms) (\<lambda>x0. and_then (read_string ''email'' ms) (\<lambda>x1.
     and_then (read_string ''password'' ms) (\<lambda>x2. and_then (read_ptr conv_bool ''admin'' ms) (\<lambda>x3.
     and_then (read_ptr conv_bool ''profileUpdatable'' ms) (\<lambda>x4.
     and_then (read_ptr conv_bool ''disableUIAccess'' ms) (\<lambda>x5.
     and_then (read_ptr conv_bool ''internalPasswordDisabled'' ms) (\<lambda>x6.
     and_then (read_string ''lastLoggedIn'' ms) (\<lambda>x7. and_then (read_string ''realm'' ms) (\<lambda>x8.
     and_then (read_slice ''groups'' ms) (\<lambda>x9.
     and_then (read_ptr conv_bool ''shouldInvite'' ms) (\<lambda>x10.
     and_then (read_string ''source'' ms) (\<lambda>x11.
     and_then (read_ptr conv_bool ''watchManager'' ms) (\<lambda>x12.
     and_then (read_ptr conv_bool ''reportsManager'' ms) (\<lambda>x13.
     and_then (read_ptr conv_bool ''policyManager'' ms) (\<lambda>x14.
     and_then (read_ptr conv_bool ''projectAdmin'' ms) (\<lambda>x15.
       Inr \<lparr>us_Name = x0, us_Email = x1, us_Password = x2, us_Admin = x3, us_ProfileUpdatable = x4,
            us_DisableUIAccess = x5, us_InternalPasswordDisabled = x6, us_LastLoggedIn = x7, us_Realm = x8,
            us_Groups = x9, us_ShouldInvite = x10, us_Source = x11, us_WatchManager = x12, us_ReportsManager = x13,
            us_PolicyManager = x14, us_ProjectAdmin = x15\<rparr>))))))))))))))))"

lemma read_User_table [table_reads]:
  assumes "distinct_names fs"
  shows "set (User_table p) \<subseteq> set fs \<Longrightarrow> read_User (table_members fs) = Inr p"
  by (cases p) (auto simp: read_User_def User_table_def dest!: table_reads[OF assms])

lemma User_names: "distinct_names (User_table p)"
  unfolding distinct_names_def User_table_def list.map fst_conv by code_simp


lemma User_writable: "writable_table (Suc d) (User_table u)"
  by (simp add: User_table_def)

record UserParams =
  up_UserDetails :: User
  up_ReplaceIfExists :: bool
  up_ClearGroups :: bool

definition users_url :: "'w service \<Rightarrow> string \<Rightarrow> string" where
  "users_url us name = sv_url us @ ''api/security/users/'' @ name"

definition GetUser :: "'w service \<Rightarrow> UserParams \<Rightarrow> 'w \<Rightarrow> (User option result \<times> 'w) option" where
  "GetUser us params = get_optional us (users_url us (us_Name (up_UserDetails params))) (read_as read_User)"

text \<open>A nil pointer for each \<open>null\<close>.\<close>

definition GetAllUsers :: "'w service \<Rightarrow> 'w \<Rightarrow> (User option list result \<times> 'w) option" where
  "GetAllUsers us =
     get_decoded us (sv_url us @ ''api/security/users'') (read_array (\<lambda>v. map_option Some (conv_struct read_User v)) None)"

definition createOrUpdateUserRequest :: "'w service \<Rightarrow> User \<Rightarrow> string \<times> string \<times> HttpClientDetails" where
  "createOrUpdateUserRequest us user = (users_url us (us_Name user), document (User_table user), json_headers us)"

definition createUserRequest :: "'w service \<Rightarrow> User \<Rightarrow> 'w \<Rightarrow> (go_error option \<times> 'w) option" where
  "createUserRequest us user w =
     (let (url, content, details) = createOrUpdateUserRequest us user
      in finished us [200, 201] (jc_SendPut (sv_client us) url (Some content) details w))"

definition CreateUser :: "'w service \<Rightarrow> UserParams \<Rightarrow> 'w \<Rightarrow> (go_error option \<times> 'w) option" where
  "CreateUser us params w =
     (if up_ReplaceIfExists params then createUserRequest us (up_UserDetails params) w
      else case GetUser us params w of
             None \<Rightarrow> None
           | Some (Inl e, w) \<Rightarrow> Some (Some e, w)
           | Some (Inr (Some user), w) \<Rightarrow> Some (Some (Err (''user '' @ [CHR 0x27] @ us_Name user @ [CHR 0x27] @ '' already exists'')), w)
           | Some (Inr None, w) \<Rightarrow> createUserRequest us (up_UserDetails params) w)"

definition updated_user :: "UserParams \<Rightarrow> User" where
  "updated_user params =
     (if up_ClearGroups params then (up_UserDetails params)\<lparr>us_Groups := Some []\<rparr> else up_UserDetails params)"

definition UpdateUser :: "'w service \<Rightarrow> UserParams \<Rightarrow> 'w \<Rightarrow> (go_error option \<times> 'w) option" where
  "UpdateUser us params w =
     (let (url, content, details) = createOrUpdateUserRequest us (updated_user params)
      in finished us [200, 201] (jc_SendPost (sv_client us) url (Some content) details w))"

text \<open>A call that answers without an error has a response, so the test for a missing one is that of \<open>checked\<close> with another
  error.\<close>

definition finished_delete :: "'w service \<Rightarrow> int list \<Rightarrow> 'w http_result option \<Rightarrow> (go_error option \<times> 'w) option" where
  "finished_delete sv expected reply =
     after_reply reply (\<lambda>r w. case r of
         (None, _, None) \<Rightarrow> Some (Some (Err ''no response provided (including status code)''), w)
       | _ \<Rightarrow> finished sv expected (Some (r, w)))"

definition DeleteUser :: "'w service \<Rightarrow> string \<Rightarrow> 'w \<Rightarrow> (go_error option \<times> 'w) option" where
  "DeleteUser us name w = finished_delete us [200] (jc_SendDelete (sv_client us) (users_url us name) None (details_of us) w)"

definition GetLockedUsers :: "'w service \<Rightarrow> 'w \<Rightarrow> (string list result \<times> 'w) option" where
  "GetLockedUsers us = get_decoded us (sv_url us @ ''api/security/lockedUsers'') (read_array conv_string [])"

definition UnlockUser :: "'w service \<Rightarrow> string \<Rightarrow> 'w \<Rightarrow> (go_error option \<times> 'w) option" where
  "UnlockUser us name w =
     finished us [200] (jc_SendPost (sv_client us) (sv_url us @ ''api/security/unlockUsers/'' @ name) None (details_of us) w)"

section \<open>Groups\<close>

record Group =
  gr_Name :: string
  gr_Description :: string
  gr_AutoJoin :: "bool option"
  gr_AdminPrivileges :: "bool option"
  gr_Realm :: string
  gr_RealmAttributes :: string
  gr_UsersNames :: "string list"

definition Group_table :: "Group \<Rightarrow> field_table" where
  "Group_table p =
     [(''name'', opt_string (gr_Name p)), (''description'', opt_string (gr_Description p)),
      (''autoJoin'', opt_ptr BoolV (gr_AutoJoin p)), (''adminPrivileges'', opt_ptr BoolV (gr_AdminPrivileges p)),
      (''realm'', opt_string (gr_Realm p)), (''realmAttributes'', opt_string (gr_RealmAttributes p)),
      (''userNames'', opt_list StrV (gr_UsersNames p))]"

definition read_Group :: "members \<Rightarrow> Group result" where
  "read_Group ms =
     and_then (read_string ''name'' ms) (\<lambda>x0. and_then (read_string ''description'' ms) (\<lambda>x1.
     and_then (read_ptr conv_bool ''autoJoin'' ms) (\<lambda>x2.
     and_then (read_ptr conv_bool ''adminPrivileges'' ms) (\<lambda>x3.
     and_then (read_string ''realm'' ms) (\<lambda>x4. and_then (read_string ''realmAttributes'' ms) (\<lambda>x5.
     and_then (read_strings ''userNames'' ms) (\<lambda>x6.
       Inr \<lparr>gr_Name = x0, gr_Description = x1, gr_AutoJoin = x2, gr_AdminPrivileges = x3, gr_Realm = x4,
            gr_RealmAttributes = x5, gr_UsersNames = x6\<rparr>)))))))"

lemma read_Group_table [table_reads]:
  assumes "distinct_names fs"
  shows "set (Group_table p) \<subseteq> set fs \<Longrightarrow> read_Group (table_members fs) = Inr p"
  by (cases p) (auto simp: read_Group_def Group_table_def dest!: table_reads[OF assms])

lemma Group_names: "distinct_names (Group_table p)"
  unfolding distinct_names_def Group_table_def list.map fst_conv by code_simp


lemma Group_writable: "writable_table (Suc d) (Group_table g)"
  by (simp add: Group_table_def)

record GroupParams =
  gp_GroupDetails :: Group
  gp_ReplaceIfExists :: bool
  gp_IncludeUsers :: bool

definition groups_url :: "'w service \<Rightarrow> string \<Rightarrow> string" where
  "groups_url gs name = sv_url gs @ ''api/security/groups/'' @ name"

text \<open>\<open>CheckResponseStatus\<close> reads the rest of a body that was read before, so its error has no text of the server.\<close>

definition GetAllGroups :: "'w service \<Rightarrow> 'w \<Rightarrow> (string list result \<times> 'w) option" where
  "GetAllGroups gs w =
     after_reply (jc_SendGet (sv_client gs) (sv_url gs @ ''api/security/groups'') True (details_of gs) w) (\<lambda>reply w.
       Some (case reply of
               (_, _, Some e) \<Rightarrow> Inl e
             | (None, _, None) \<Rightarrow> Inl (Panic ''nil pointer dereference'')
             | (Some r, body, None) \<Rightarrow>
                 if StatusCode r \<noteq> 200 then Inl (Err (GenerateResponseError (Status r) []))
                 else decoded gs (read_array (conv_struct (read_string ''name'')) []) body, w))"

definition GetGroup :: "'w service \<Rightarrow> GroupParams \<Rightarrow> 'w \<Rightarrow> (Group option result \<times> 'w) option" where
  "GetGroup gs params =
     get_optional gs (groups_url gs (gr_Name (gp_GroupDetails params)) @ ''?includeUsers='' @ bool_text (gp_IncludeUsers params))
       (read_as read_Group)"

definition createOrUpdateGroupRequest :: "'w service \<Rightarrow> Group \<Rightarrow> string \<times> string \<times> HttpClientDetails" where
  "createOrUpdateGroupRequest gs grp = (groups_url gs (gr_Name grp), document (Group_table grp), json_headers gs)"

definition createGroupRequest :: "'w service \<Rightarrow> Group \<Rightarrow> 'w \<Rightarrow> (go_error option \<times> 'w) option" where
  "createGroupRequest gs grp w =
     (let (url, content, details) = createOrUpdateGroupRequest gs grp
      in finished gs [200, 201] (jc_SendPut (sv_client gs) url (Some content) details w))"

definition CreateGroup :: "'w service \<Rightarrow> GroupParams \<Rightarrow> 'w \<Rightarrow> (go_error option \<times> 'w) option" where
  "CreateGroup gs params w =
     (if gp_ReplaceIfExists params then createGroupRequest gs (gp_GroupDetails params) w
      else case GetGroup gs params w of
             None \<Rightarrow> None
           | Some (Inl e, w) \<Rightarrow> Some (Some e, w)
           | Some (Inr (Some grp), w) \<Rightarrow> Some (Some (Err ''Artifactory: Group already exists.''), w)
           | Some (Inr None, w) \<Rightarrow> createGroupRequest gs (gp_GroupDetails params) w)"

definition UpdateGroup :: "'w service \<Rightarrow> GroupParams \<Rightarrow> 'w \<Rightarrow> (go_error option \<times> 'w) option" where
  "UpdateGroup gs params w =
     (let (url, content, details) = createOrUpdateGroupRequest gs (gp_GroupDetails params)
      in finished gs [200] (jc_SendPost (sv_client gs) url (Some content) details w))"

definition DeleteGroup :: "'w service \<Rightarrow> string \<Rightarrow> 'w \<Rightarrow> (go_error option \<times> 'w) option" where
  "DeleteGroup gs name w = finished_delete gs [200] (jc_SendDelete (sv_client gs) (groups_url gs name) None (details_of gs) w)"

section \<open>Permission targets\<close>

record Actions =
  ac_Users :: "(string \<times> string list option) list"
  ac_Groups :: "(string \<times> string list option) list"

definition Actions_table :: "Actions \<Rightarrow> field_table" where
  "Actions_table p =
     [(''users'', opt_map (ac_Users p)), (''groups'', opt_map (ac_Groups p))]"

definition read_Actions :: "members \<Rightarrow> Actions result" where
  "read_Actions ms =
     and_then (read_map ''users'' ms) (\<lambda>x0. and_then (read_map ''groups'' ms) (\<lambda>x1.
       Inr \<lparr>ac_Users = x0, ac_Groups = x1\<rparr>))"

definition Actions_ok :: "Actions \<Rightarrow> bool" where
  "Actions_ok p \<longleftrightarrow>
     canonical (ac_Users p) \<and> canonical (ac_Groups p)"

lemma read_Actions_table [table_reads]:
  assumes "distinct_names fs"
  shows "set (Actions_table p) \<subseteq> set fs \<Longrightarrow> Actions_ok p \<Longrightarrow> read_Actions (table_members fs) = Inr p"
  by (cases p) (auto simp: read_Actions_def Actions_table_def Actions_ok_def dest!: table_reads[OF assms])

lemma Actions_names: "distinct_names (Actions_table p)"
  unfolding distinct_names_def Actions_table_def list.map fst_conv by code_simp

lemma read_Actions_ptr [table_reads]:
  assumes "distinct_names fs"
  shows "(k, opt_ptr (\<lambda>x. ObjV (table_members (Actions_table x))) q) \<in> set fs \<Longrightarrow> pred_option Actions_ok q \<Longrightarrow>
    read_ptr (conv_struct read_Actions) k (table_members fs) = Inr q"
  by (erule read_table_ptr[OF assms]) (auto simp: conv_struct_def read_Actions_table[OF Actions_names subset_refl])

record PermissionTargetSection =
  ps_IncludePatterns :: "string list"
  ps_ExcludePatterns :: "string list"
  ps_Repositories :: "string list option"
  ps_Actions :: "Actions option"

definition PermissionTargetSection_table :: "PermissionTargetSection \<Rightarrow> field_table" where
  "PermissionTargetSection_table p =
     [(''include-patterns'', opt_list StrV (ps_IncludePatterns p)),
      (''exclude-patterns'', opt_list StrV (ps_ExcludePatterns p)),
      (''repositories'', Some (slice_value StrV (ps_Repositories p))),
      (''actions'', opt_ptr (\<lambda>x. ObjV (table_members (Actions_table x))) (ps_Actions p))]"

definition read_PermissionTargetSection :: "members \<Rightarrow> PermissionTargetSection result" where
  "read_PermissionTargetSection ms =
     and_then (read_strings ''include-patterns'' ms) (\<lambda>x0.
     and_then (read_strings ''exclude-patterns'' ms) (\<lambda>x1.
     and_then (read_slice ''repositories'' ms) (\<lambda>x2.
     and_then (read_ptr (conv_struct read_Actions) ''actions'' ms) (\<lambda>x3.
       Inr \<lparr>ps_IncludePatterns = x0, ps_ExcludePatterns = x1, ps_Repositories = x2,
            ps_Actions = x3\<rparr>))))"

definition PermissionTargetSection_ok :: "PermissionTargetSection \<Rightarrow> bool" where
  "PermissionTargetSection_ok p \<longleftrightarrow>
     pred_option Actions_ok (ps_Actions p)"

lemma read_PermissionTargetSection_table [table_reads]:
  assumes "distinct_names fs"
  shows "set (PermissionTargetSection_table p) \<subseteq> set fs \<Longrightarrow> PermissionTargetSection_ok p \<Longrightarrow> read_PermissionTargetSection (table_members fs) = Inr p"
  by (cases p) (auto simp: read_PermissionTargetSection_def PermissionTargetSection_table_def PermissionTargetSection_ok_def dest!: table_reads[OF assms])

lemma PermissionTargetSection_names: "distinct_names (PermissionTargetSection_table p)"
  unfolding distinct_names_def PermissionTargetSection_table_def list.map fst_conv by code_simp

lemma read_PermissionTargetSection_ptr [table_reads]:
  assumes "distinct_names fs"
  shows "(k, opt_ptr (\<lambda>x. ObjV (table_members (PermissionTargetSection_table x))) q) \<in> set fs \<Longrightarrow> pred_option PermissionTargetSection_ok q \<Longrightarrow>
    read_ptr (conv_struct read_PermissionTargetSection) k (table_members fs) = Inr q"
  by (erule read_table_ptr[OF assms]) (auto simp: conv_struct_def read_PermissionTargetSection_table[OF PermissionTargetSection_names subset_refl])

record PermissionTargetParams =
  pt_Name :: string
  pt_Repo :: "PermissionTargetSection option"
  pt_Build :: "PermissionTargetSection option"
  pt_ReleaseBundle :: "PermissionTargetSection option"

definition PermissionTargetParams_table :: "PermissionTargetParams \<Rightarrow> field_table" where
  "PermissionTargetParams_table p =
     [(''name'', Some (StrV (pt_Name p))),
      (''repo'', opt_ptr (\<lambda>x. ObjV (table_members (PermissionTargetSection_table x))) (pt_Repo p)),
      (''build'', opt_ptr (\<lambda>x. ObjV (table_members (PermissionTargetSection_table x))) (pt_Build p)),
      (''releaseBundle'', opt_ptr (\<lambda>x. ObjV (table_members (PermissionTargetSection_table x))) (pt_ReleaseBundle p))]"

definition read_PermissionTargetParams :: "members \<Rightarrow> PermissionTargetParams result" where
  "read_PermissionTargetParams ms =
     and_then (read_string ''name'' ms) (\<lambda>x0.
     and_then (read_ptr (conv_struct read_PermissionTargetSection) ''repo'' ms) (\<lambda>x1.
     and_then (read_ptr (conv_struct read_PermissionTargetSection) ''build'' ms) (\<lambda>x2.
     and_then (read_ptr (conv_struct read_PermissionTargetSection) ''releaseBundle'' ms) (\<lambda>x3.
       Inr \<lparr>pt_Name = x0, pt_Repo = x1, pt_Build = x2, pt_ReleaseBundle = x3\<rparr>))))"

definition PermissionTargetParams_ok :: "PermissionTargetParams \<Rightarrow> bool" where
  "PermissionTargetParams_ok p \<longleftrightarrow>
     pred_option PermissionTargetSection_ok (pt_Repo p) \<and>
     pred_option PermissionTargetSection_ok (pt_Build p) \<and>
     pred_option PermissionTargetSection_ok (pt_ReleaseBundle p)"

lemma read_PermissionTargetParams_table [table_reads]:
  assumes "distinct_names fs"
  shows "set (PermissionTargetParams_table p) \<subseteq> set fs \<Longrightarrow> PermissionTargetParams_ok p \<Longrightarrow> read_PermissionTargetParams (table_members fs) = Inr p"
  by (cases p) (auto simp: read_PermissionTargetParams_def PermissionTargetParams_table_def PermissionTargetParams_ok_def dest!: table_reads[OF assms])

lemma PermissionTargetParams_names: "distinct_names (PermissionTargetParams_table p)"
  unfolding distinct_names_def PermissionTargetParams_table_def list.map fst_conv by code_simp


lemma Actions_writable: "writable_table (Suc (Suc d)) (Actions_table a)"
  by (simp add: Actions_table_def)

lemma PermissionTargetSection_writable: "writable_table (Suc (Suc (Suc d))) (PermissionTargetSection_table s)"
  by (simp add: PermissionTargetSection_table_def Actions_writable)

lemma PermissionTarget_writable: "writable_table (Suc (Suc (Suc (Suc d)))) (PermissionTargetParams_table p)"
  by (simp add: PermissionTargetParams_table_def PermissionTargetSection_writable)

definition permission_url :: "'w service \<Rightarrow> string \<Rightarrow> string" where
  "permission_url pts name = sv_url pts @ ''api/v2/security/permissions/'' @ name"

definition DeletePermissionTarget :: "'w service \<Rightarrow> string \<Rightarrow> 'w \<Rightarrow> (go_error option \<times> 'w) option" where
  "DeletePermissionTarget pts name w =
     finished pts [200] (jc_SendDelete (sv_client pts) (permission_url pts name) None (details_of pts) w)"

definition GetPermissionTarget :: "'w service \<Rightarrow> string \<Rightarrow> 'w \<Rightarrow> (PermissionTargetParams option result \<times> 'w) option" where
  "GetPermissionTarget pts name = get_optional pts (permission_url pts name) (read_as read_PermissionTargetParams)"

text \<open>A conflict is told apart from other errors.\<close>

definition permission_performRequest :: "'w service \<Rightarrow> PermissionTargetParams \<Rightarrow> bool \<Rightarrow> 'w \<Rightarrow> (go_error option \<times> 'w) option" where
  "permission_performRequest pts params update w =
     (let url = permission_url pts (pt_Name params); content = Some (document (PermissionTargetParams_table params))
      in after_reply (if update then jc_SendPut (sv_client pts) url content (json_details pts) w
                      else jc_SendPost (sv_client pts) url content (json_details pts) w) (\<lambda>reply w.
           Some (case checked pts [200, 201] reply of
                   Inr _ \<Rightarrow> None
                 | Inl e \<Rightarrow> Some (case reply of
                                    (Some r, _, None) \<Rightarrow>
                                      if StatusCode r = 409 then Err ''Artifactory: Permission target already exists.'' else e
                                  | _ \<Rightarrow> e), w)))"

definition CreatePermissionTarget :: "'w service \<Rightarrow> PermissionTargetParams \<Rightarrow> 'w \<Rightarrow> (go_error option \<times> 'w) option" where
  "CreatePermissionTarget pts params = permission_performRequest pts params False"

definition UpdatePermissionTarget :: "'w service \<Rightarrow> PermissionTargetParams \<Rightarrow> 'w \<Rightarrow> (go_error option \<times> 'w) option" where
  "UpdatePermissionTarget pts params = permission_performRequest pts params True"

section \<open>Tokens\<close>

text \<open>The parameters and the answer of both token services, \<^verbatim>\<open>auth/authutils.go\<close>.\<close>

record CommonTokenParams =
  ct_Scope :: string
  ct_AccessToken :: string
  ct_ExpiresIn :: int
  ct_TokenType :: string
  ct_Refreshable :: "bool option"
  ct_RefreshToken :: string
  ct_GrantType :: string
  ct_Audience :: string

definition CommonTokenParams_table :: "CommonTokenParams \<Rightarrow> field_table" where
  "CommonTokenParams_table p =
     [(''scope'', opt_string (ct_Scope p)), (''access_token'', opt_string (ct_AccessToken p)),
      (''expires_in'', opt_int (ct_ExpiresIn p)), (''token_type'', opt_string (ct_TokenType p)),
      (''refreshable'', opt_ptr BoolV (ct_Refreshable p)), (''refresh_token'', opt_string (ct_RefreshToken p)),
      (''grant_type'', opt_string (ct_GrantType p)), (''audience'', opt_string (ct_Audience p))]"

definition read_CommonTokenParams :: "members \<Rightarrow> CommonTokenParams result" where
  "read_CommonTokenParams ms =
     and_then (read_string ''scope'' ms) (\<lambda>x0. and_then (read_string ''access_token'' ms) (\<lambda>x1.
     and_then (read_int ''expires_in'' ms) (\<lambda>x2. and_then (read_string ''token_type'' ms) (\<lambda>x3.
     and_then (read_ptr conv_bool ''refreshable'' ms) (\<lambda>x4.
     and_then (read_string ''refresh_token'' ms) (\<lambda>x5. and_then (read_string ''grant_type'' ms) (\<lambda>x6.
     and_then (read_string ''audience'' ms) (\<lambda>x7.
       Inr \<lparr>ct_Scope = x0, ct_AccessToken = x1, ct_ExpiresIn = x2, ct_TokenType = x3, ct_Refreshable = x4,
            ct_RefreshToken = x5, ct_GrantType = x6, ct_Audience = x7\<rparr>))))))))"

definition CommonTokenParams_ok :: "CommonTokenParams \<Rightarrow> bool" where
  "CommonTokenParams_ok p \<longleftrightarrow>
     machine_int (ct_ExpiresIn p)"

lemma read_CommonTokenParams_table [table_reads]:
  assumes "distinct_names fs"
  shows "set (CommonTokenParams_table p) \<subseteq> set fs \<Longrightarrow> CommonTokenParams_ok p \<Longrightarrow> read_CommonTokenParams (table_members fs) = Inr p"
  by (cases p) (auto simp: read_CommonTokenParams_def CommonTokenParams_table_def CommonTokenParams_ok_def dest!: table_reads[OF assms])

lemma CommonTokenParams_names: "distinct_names (CommonTokenParams_table p)"
  unfolding distinct_names_def CommonTokenParams_table_def list.map fst_conv by code_simp


record CreateTokenResponseData =
  cr_common :: CommonTokenParams
  cr_ReferenceToken :: string

definition read_CreateTokenResponseData :: "members \<Rightarrow> CreateTokenResponseData result" where
  "read_CreateTokenResponseData ms =
     and_then (read_CommonTokenParams ms) (\<lambda>c. and_then (read_string ''reference_token'' ms) (\<lambda>r.
       Inr \<lparr>cr_common = c, cr_ReferenceToken = r\<rparr>))"

section \<open>API keys\<close>

definition tokenPath :: string where
  "tokenPath = ''api/security/token''"

definition APIKeyPath :: string where
  "APIKeyPath = ''api/security/apiKey''"

text \<open>A member that occurs twice has its last value.\<close>

definition getApiKeyFromBody :: "'w service \<Rightarrow> string \<Rightarrow> string result" where
  "getApiKeyFromBody ss body =
     (case and_then (sv_parse ss body) read_struct of
        Inl e \<Rightarrow> Inl (Err (''unable to decode json. Error: '' @ (case e of Err m \<Rightarrow> m | Panic m \<Rightarrow> m) @ '' Upstream response: '' @ body))
      | Inr ms \<Rightarrow>
          if ms = [] then Inr []
          else case map_of (rev ms) ''apiKey'' of
                 Some (StrV key) \<Rightarrow> Inr key
               | _ \<Rightarrow> Inl (Err ''unable to assert apiKey string value''))"

definition api_key_answer :: "'w service \<Rightarrow> int \<Rightarrow> string \<Rightarrow> Response option \<times> string \<times> go_error option \<Rightarrow> string result" where
  "api_key_answer ss expected what reply =
     (case reply of
        (_, _, Some e) \<Rightarrow> Inl e
      | (None, _, None) \<Rightarrow> Inl (Panic ''nil pointer dereference'')
      | (Some r, body, None) \<Rightarrow>
          if StatusCode r \<noteq> expected
          then Inl (Err (''API key '' @ what @ '' failed with status: '' @ Status r @ [CHR 0x0A] @
                         GenerateErrorString (jc_indent (sv_client ss)) body))
          else getApiKeyFromBody ss body)"

definition CreateAPIKey :: "url_env \<Rightarrow> 'w service \<Rightarrow> 'w \<Rightarrow> (string result \<times> 'w) option" where
  "CreateAPIKey env ss w =
     (case BuildArtifactoryUrl env (sv_url ss) APIKeyPath [] of
        Inl e \<Rightarrow> Some (Inl e, w)
      | Inr reqURL \<Rightarrow>
          after_reply (jc_SendPost (sv_client ss) reqURL None (details_of ss) w) (\<lambda>reply w.
            Some (api_key_answer ss 201 ''creation'' reply, w)))"

definition RegenerateAPIKey :: "url_env \<Rightarrow> 'w service \<Rightarrow> 'w \<Rightarrow> (string result \<times> 'w) option" where
  "RegenerateAPIKey env ss w =
     (case BuildArtifactoryUrl env (sv_url ss) APIKeyPath [] of
        Inl e \<Rightarrow> Some (Inl e, w)
      | Inr reqURL \<Rightarrow>
          after_reply (jc_SendPut (sv_client ss) reqURL None (details_of ss) w) (\<lambda>reply w.
            Some (api_key_answer ss 200 ''regeneration'' reply, w)))"

text \<open>An empty string when no key was generated.\<close>

definition GetAPIKey :: "url_env \<Rightarrow> 'w service \<Rightarrow> 'w \<Rightarrow> (string result \<times> 'w) option" where
  "GetAPIKey env ss w =
     (case BuildArtifactoryUrl env (sv_url ss) APIKeyPath [] of
        Inl e \<Rightarrow> Some (Inl e, w)
      | Inr reqURL \<Rightarrow> answered_body ss [200] (getApiKeyFromBody ss) (jc_SendGet (sv_client ss) reqURL True (details_of ss) w))"

section \<open>Access tokens\<close>

record Token =
  tk_Issuer :: string
  tk_Subject :: string
  tk_Refreshable :: bool
  tk_Expiry :: int
  tk_TokenId :: string
  tk_IssuedAt :: int

definition Token_table :: "Token \<Rightarrow> field_table" where
  "Token_table p =
     [(''issuer'', opt_string (tk_Issuer p)), (''subject'', opt_string (tk_Subject p)),
      (''refreshable'', opt_flag (tk_Refreshable p)), (''expiry'', opt_int (tk_Expiry p)),
      (''token_id'', opt_string (tk_TokenId p)), (''issued_at'', opt_int (tk_IssuedAt p))]"

definition read_Token :: "members \<Rightarrow> Token result" where
  "read_Token ms =
     and_then (read_string ''issuer'' ms) (\<lambda>x0. and_then (read_string ''subject'' ms) (\<lambda>x1.
     and_then (read_flag ''refreshable'' ms) (\<lambda>x2. and_then (read_int ''expiry'' ms) (\<lambda>x3.
     and_then (read_string ''token_id'' ms) (\<lambda>x4. and_then (read_int ''issued_at'' ms) (\<lambda>x5.
       Inr \<lparr>tk_Issuer = x0, tk_Subject = x1, tk_Refreshable = x2, tk_Expiry = x3, tk_TokenId = x4,
            tk_IssuedAt = x5\<rparr>))))))"

definition Token_ok :: "Token \<Rightarrow> bool" where
  "Token_ok p \<longleftrightarrow>
     machine_int (tk_Expiry p) \<and> machine_int (tk_IssuedAt p)"

lemma read_Token_table [table_reads]:
  assumes "distinct_names fs"
  shows "set (Token_table p) \<subseteq> set fs \<Longrightarrow> Token_ok p \<Longrightarrow> read_Token (table_members fs) = Inr p"
  by (cases p) (auto simp: read_Token_def Token_table_def Token_ok_def dest!: table_reads[OF assms])

lemma Token_names: "distinct_names (Token_table p)"
  unfolding distinct_names_def Token_table_def list.map fst_conv by code_simp


definition zero_Token :: Token where
  "zero_Token = \<lparr>tk_Issuer = [], tk_Subject = [], tk_Refreshable = False, tk_Expiry = 0, tk_TokenId = [], tk_IssuedAt = 0\<rparr>"

record CreateTokenParams =
  cp_Scope :: string
  cp_Username :: string
  cp_ExpiresIn :: int
  cp_Refreshable :: bool
  cp_Audience :: string

definition NewCreateTokenParams :: CreateTokenParams where
  "NewCreateTokenParams = \<lparr>cp_Scope = [], cp_Username = [], cp_ExpiresIn = -1, cp_Refreshable = False, cp_Audience = []\<rparr>"

record ArtifactoryRefreshTokenParams =
  rt_Token :: CreateTokenParams
  rt_RefreshToken :: string
  rt_AccessToken :: string

definition NewArtifactoryRefreshTokenParams :: ArtifactoryRefreshTokenParams where
  "NewArtifactoryRefreshTokenParams = \<lparr>rt_Token = NewCreateTokenParams, rt_RefreshToken = [], rt_AccessToken = []\<rparr>"

record RevokeTokenParams =
  rv_Token :: string
  rv_TokenId :: string

text \<open>\<open>url.Values\<close>: \<open>Set\<close> replaces the values of a key.\<close>

definition set_value :: "string \<Rightarrow> string \<Rightarrow> query_values \<Rightarrow> query_values" where
  "set_value k v data = AList.update k [v] data"

definition set_nonempty :: "string \<Rightarrow> string \<Rightarrow> query_values \<Rightarrow> query_values" where
  "set_nonempty k v data = (if v \<noteq> [] then set_value k v data else data)"

definition buildCreateTokenUrlValues :: "CreateTokenParams \<Rightarrow> query_values" where
  "buildCreateTokenUrlValues params =
     (let data = (if cp_Refreshable params then set_value ''refreshable'' ''true'' [] else []);
          data = set_nonempty ''scope'' (cp_Scope params) data;
          data = set_nonempty ''username'' (cp_Username params) data;
          data = set_nonempty ''audience'' (cp_Audience params) data
      in if cp_ExpiresIn params \<ge> 0 then set_value ''expires_in'' (itoa (cp_ExpiresIn params)) data else data)"

definition buildRefreshTokenUrlValues :: "ArtifactoryRefreshTokenParams \<Rightarrow> query_values" where
  "buildRefreshTokenUrlValues params =
     (let data = set_value ''grant_type'' ''refresh_token'' (buildCreateTokenUrlValues (rt_Token params));
          data = set_nonempty ''refresh_token'' (rt_RefreshToken params) data
      in set_nonempty ''access_token'' (rt_AccessToken params) data)"

definition buildRevokeTokenUrlValues :: "RevokeTokenParams \<Rightarrow> query_values" where
  "buildRevokeTokenUrlValues params = set_nonempty ''token_id'' (rv_TokenId params) (set_nonempty ''token'' (rv_Token params) [])"

text \<open>\<open>SendPostForm\<close> of the client: the headers of the details are a map that must exist.\<close>

definition SendPostForm :: "'w JfrogHttpClient \<Rightarrow> string \<Rightarrow> query_values \<Rightarrow> HttpClientDetails \<Rightarrow> 'w \<Rightarrow> 'w http_result option" where
  "SendPostForm rtc url data details w =
     (if Headers details = None then Some ((None, [], Some (Panic ''assignment to entry in nil map'')), w)
      else jc_SendPost rtc url (Some (Encode data)) (add_header ''Content-Type'' ''application/x-www-form-urlencoded'' details) w)"

definition token_request :: "'w service \<Rightarrow> query_values \<Rightarrow> 'w \<Rightarrow> (CreateTokenResponseData result \<times> 'w) option" where
  "token_request ss data w =
     answered_body ss [200] (decoded ss (read_as read_CreateTokenResponseData))
       (SendPostForm (sv_client ss) (sv_url ss @ tokenPath) data (details_of ss) w)"

definition CreateToken :: "'w service \<Rightarrow> CreateTokenParams \<Rightarrow> 'w \<Rightarrow> (CreateTokenResponseData result \<times> 'w) option" where
  "CreateToken ss params = token_request ss (buildCreateTokenUrlValues params)"

definition RefreshToken :: "'w service \<Rightarrow> ArtifactoryRefreshTokenParams \<Rightarrow> 'w \<Rightarrow> (CreateTokenResponseData result \<times> 'w) option" where
  "RefreshToken ss params = token_request ss (buildRefreshTokenUrlValues params)"

definition RevokeToken :: "'w service \<Rightarrow> RevokeTokenParams \<Rightarrow> 'w \<Rightarrow> (string result \<times> 'w) option" where
  "RevokeToken ss params w =
     answered_body ss [200] Inr
       (SendPostForm (sv_client ss) (sv_url ss @ tokenPath @ ''/revoke'') (buildRevokeTokenUrlValues params) (details_of ss) w)"

definition GetTokens :: "'w service \<Rightarrow> 'w \<Rightarrow> (Token list result \<times> 'w) option" where
  "GetTokens ss =
     get_decoded ss (sv_url ss @ tokenPath) (read_as (read_list (conv_struct read_Token) zero_Token ''Tokens''))"

definition GetUserTokens :: "'w service \<Rightarrow> string \<Rightarrow> 'w \<Rightarrow> (string list result \<times> 'w) option" where
  "GetUserTokens ss username w =
     map_option (\<lambda>(tokens, w). (map_sum id (\<lambda>tokens.
         map tk_TokenId (filter (\<lambda>token. has_suffix (tk_Subject token) (''/'' @ username)) tokens)) tokens, w)) (GetTokens ss w)"

end
