(* ===== verification/Access.thy ===== *)
theory Access
  imports Security
begin

text \<open>
  Projects and access tokens of the Access service: \<^verbatim>\<open>access/services/project.go\<close> and \<^verbatim>\<open>access/services/accesstoken.go\<close>.

  A number of type float64 is the text that package json writes for it, empty for zero. Reading it gives the number nearest to a
  text: \<open>float_text\<close> is a parameter, and fails for texts out of range.
\<close>

section \<open>Projects\<close>

definition opt_float :: "string \<Rightarrow> jvalue option" where
  "opt_float f = (if f = [] then None else Some (NumV f))"

definition conv_float :: "(string \<Rightarrow> string option) \<Rightarrow> jvalue \<Rightarrow> string option" where
  "conv_float float_text v = (case v of NumV n \<Rightarrow> float_text n | _ \<Rightarrow> None)"

text \<open>A number that is written and read back.\<close>

definition exact_float :: "(string \<Rightarrow> string option) \<Rightarrow> string \<Rightarrow> bool" where
  "exact_float float_text f \<longleftrightarrow> f = [] \<or> (is_number f \<and> float_text f = Some f)"

lemma read_float_table:
  "distinct_names fs \<Longrightarrow> (k, opt_float f) \<in> set fs \<Longrightarrow> exact_float float_text f \<Longrightarrow>
    read_field (conv_float float_text) [] k (table_members fs) = Inr f"
  by (erule read_field_table) (auto simp: opt_float_def conv_float_def exact_float_def)

record AdminPrivileges =
  ap_ManageMembers :: "bool option"
  ap_ManageResources :: "bool option"
  ap_IndexResources :: "bool option"

definition AdminPrivileges_table :: "AdminPrivileges \<Rightarrow> field_table" where
  "AdminPrivileges_table p =
     [(''manage_members'', opt_ptr BoolV (ap_ManageMembers p)),
      (''manage_resources'', opt_ptr BoolV (ap_ManageResources p)),
      (''index_resources'', opt_ptr BoolV (ap_IndexResources p))]"

definition read_AdminPrivileges :: "members \<Rightarrow> AdminPrivileges result" where
  "read_AdminPrivileges ms =
     and_then (read_ptr conv_bool ''manage_members'' ms) (\<lambda>x0.
     and_then (read_ptr conv_bool ''manage_resources'' ms) (\<lambda>x1.
     and_then (read_ptr conv_bool ''index_resources'' ms) (\<lambda>x2.
       Inr \<lparr>ap_ManageMembers = x0, ap_ManageResources = x1, ap_IndexResources = x2\<rparr>)))"

lemma read_AdminPrivileges_table [table_reads]:
  assumes "distinct_names fs"
  shows "set (AdminPrivileges_table p) \<subseteq> set fs \<Longrightarrow> read_AdminPrivileges (table_members fs) = Inr p"
  by (cases p) (auto simp: read_AdminPrivileges_def AdminPrivileges_table_def dest!: table_reads[OF assms])

lemma AdminPrivileges_names: "distinct_names (AdminPrivileges_table p)"
  unfolding distinct_names_def AdminPrivileges_table_def list.map fst_conv by code_simp

lemma read_AdminPrivileges_ptr [table_reads]:
  assumes "distinct_names fs"
  shows "(k, opt_ptr (\<lambda>x. ObjV (table_members (AdminPrivileges_table x))) q) \<in> set fs \<Longrightarrow>
    read_ptr (conv_struct read_AdminPrivileges) k (table_members fs) = Inr q"
  by (erule read_table_ptr[OF assms]) (auto simp: conv_struct_def read_AdminPrivileges_table[OF AdminPrivileges_names subset_refl])

record Project =
  pj_DisplayName :: string
  pj_Description :: string
  pj_AdminPrivileges :: "AdminPrivileges option"
  pj_SoftLimit :: "bool option"
  pj_StorageQuotaBytes :: string
  pj_ProjectKey :: string

definition Project_table :: "Project \<Rightarrow> field_table" where
  "Project_table p =
     [(''display_name'', opt_string (pj_DisplayName p)), (''description'', opt_string (pj_Description p)),
      (''admin_privileges'', opt_ptr (\<lambda>x. ObjV (table_members (AdminPrivileges_table x))) (pj_AdminPrivileges p)),
      (''soft_limit'', opt_ptr BoolV (pj_SoftLimit p)), (''storage_quota_bytes'', opt_float (pj_StorageQuotaBytes p)),
      (''project_key'', opt_string (pj_ProjectKey p))]"

definition read_Project :: "(string \<Rightarrow> string option) \<Rightarrow> members \<Rightarrow> Project result" where
  "read_Project float_text ms =
     and_then (read_string ''display_name'' ms) (\<lambda>x0. and_then (read_string ''description'' ms) (\<lambda>x1.
     and_then (read_ptr (conv_struct read_AdminPrivileges) ''admin_privileges'' ms) (\<lambda>x2.
     and_then (read_ptr conv_bool ''soft_limit'' ms) (\<lambda>x3.
     and_then (read_field (conv_float float_text) [] ''storage_quota_bytes'' ms) (\<lambda>x4.
     and_then (read_string ''project_key'' ms) (\<lambda>x5.
       Inr \<lparr>pj_DisplayName = x0, pj_Description = x1, pj_AdminPrivileges = x2, pj_SoftLimit = x3,
            pj_StorageQuotaBytes = x4, pj_ProjectKey = x5\<rparr>))))))"

lemma Project_names: "distinct_names (Project_table p)"
  unfolding distinct_names_def Project_table_def list.map fst_conv by code_simp


definition Project_ok :: "(string \<Rightarrow> string option) \<Rightarrow> Project \<Rightarrow> bool" where
  "Project_ok float_text p \<longleftrightarrow> exact_float float_text (pj_StorageQuotaBytes p)"

lemma read_Project_table:
  assumes "distinct_names fs"
  shows "set (Project_table p) \<subseteq> set fs \<Longrightarrow> Project_ok float_text p \<Longrightarrow> read_Project float_text (table_members fs) = Inr p"
  by (cases p) (auto simp: read_Project_def Project_table_def Project_ok_def dest!: table_reads[OF assms] read_float_table[OF assms])

lemma AdminPrivileges_writable: "writable_table d (AdminPrivileges_table a)"
  by (simp add: AdminPrivileges_table_def)

lemma Project_writable: "Project_ok float_text p \<Longrightarrow> writable_table (Suc d) (Project_table p)"
  by (auto simp: Project_table_def AdminPrivileges_writable Project_ok_def exact_float_def opt_float_def)

record ProjectGroup =
  pg_Name :: string
  pg_Roles :: "string list option"

definition ProjectGroup_table :: "ProjectGroup \<Rightarrow> field_table" where
  "ProjectGroup_table p =
     [(''name'', Some (StrV (pg_Name p))), (''roles'', Some (slice_value StrV (pg_Roles p)))]"

definition read_ProjectGroup :: "members \<Rightarrow> ProjectGroup result" where
  "read_ProjectGroup ms =
     and_then (read_string ''name'' ms) (\<lambda>x0. and_then (read_slice ''roles'' ms) (\<lambda>x1.
       Inr \<lparr>pg_Name = x0, pg_Roles = x1\<rparr>))"

lemma read_ProjectGroup_table [table_reads]:
  assumes "distinct_names fs"
  shows "set (ProjectGroup_table p) \<subseteq> set fs \<Longrightarrow> read_ProjectGroup (table_members fs) = Inr p"
  by (cases p) (auto simp: read_ProjectGroup_def ProjectGroup_table_def dest!: table_reads[OF assms])

lemma ProjectGroup_names: "distinct_names (ProjectGroup_table p)"
  unfolding distinct_names_def ProjectGroup_table_def list.map fst_conv by code_simp


text \<open>The service holds the conversion of numbers.\<close>

definition getProjectsBaseUrl :: "'w service \<Rightarrow> string" where
  "getProjectsBaseUrl ps = sv_url ps @ ''api/v1/projects''"

definition project_url :: "'w service \<Rightarrow> string \<Rightarrow> string" where
  "project_url ps projectKey = getProjectsBaseUrl ps @ ''/'' @ projectKey"

definition GetProject :: "(string \<Rightarrow> string option) \<Rightarrow> 'w service \<Rightarrow> string \<Rightarrow> 'w \<Rightarrow> (Project option result \<times> 'w) option" where
  "GetProject float_text ps projectKey = get_optional ps (project_url ps projectKey) (read_as (read_Project float_text))"

definition zero_Project :: Project where
  "zero_Project =
     \<lparr>pj_DisplayName = [], pj_Description = [], pj_AdminPrivileges = None, pj_SoftLimit = None, pj_StorageQuotaBytes = [], pj_ProjectKey = []\<rparr>"

definition GetAllProjects :: "(string \<Rightarrow> string option) \<Rightarrow> 'w service \<Rightarrow> 'w \<Rightarrow> (Project list result \<times> 'w) option" where
  "GetAllProjects float_text ps =
     get_decoded ps (getProjectsBaseUrl ps) (read_array (conv_struct (read_Project float_text)) zero_Project)"

definition createOrUpdateRequest :: "'w service \<Rightarrow> Project \<Rightarrow> string \<times> HttpClientDetails" where
  "createOrUpdateRequest ps project = (document (Project_table project), json_headers ps)"

text \<open>An existing project is never replaced.\<close>

definition CreateProject :: "(string \<Rightarrow> string option) \<Rightarrow> 'w service \<Rightarrow> Project \<Rightarrow> 'w \<Rightarrow> (go_error option \<times> 'w) option" where
  "CreateProject float_text ps details w =
     (case GetProject float_text ps (pj_ProjectKey details) w of
        None \<Rightarrow> None
      | Some (Inl e, w) \<Rightarrow> Some (Some e, w)
      | Some (Inr (Some project), w) \<Rightarrow>
          Some (Some (Err (''project '' @ [CHR 0x27] @ pj_ProjectKey project @ [CHR 0x27] @ '' already exists'')), w)
      | Some (Inr None, w) \<Rightarrow>
          (let (content, httpDetails) = createOrUpdateRequest ps details
           in finished ps [200, 201] (jc_SendPost (sv_client ps) (getProjectsBaseUrl ps) (Some content) httpDetails w)))"

definition UpdateProject :: "'w service \<Rightarrow> Project \<Rightarrow> 'w \<Rightarrow> (go_error option \<times> 'w) option" where
  "UpdateProject ps details w =
     (let (content, httpDetails) = createOrUpdateRequest ps details
      in finished ps [200, 201] (jc_SendPut (sv_client ps) (project_url ps (pj_ProjectKey details)) (Some content) httpDetails w))"

definition DeleteProject :: "'w service \<Rightarrow> string \<Rightarrow> 'w \<Rightarrow> (go_error option \<times> 'w) option" where
  "DeleteProject ps projectKey w =
     finished_delete ps [204] (jc_SendDelete (sv_client ps) (project_url ps projectKey) None (details_of ps) w)"

definition AssignRepo :: "'w service \<Rightarrow> string \<Rightarrow> string \<Rightarrow> bool \<Rightarrow> 'w \<Rightarrow> (go_error option \<times> 'w) option" where
  "AssignRepo ps repoName projectKey isForce w =
     finished ps [200, 204]
       (jc_SendPut (sv_client ps) (getProjectsBaseUrl ps @ ''/_/attach/repositories/'' @ repoName @ ''/'' @ projectKey @ ''?force='' @
          bool_text isForce) None (details_of ps) w)"

definition UnassignRepo :: "'w service \<Rightarrow> string \<Rightarrow> 'w \<Rightarrow> (go_error option \<times> 'w) option" where
  "UnassignRepo ps repoName w =
     finished ps [200, 204]
       (jc_SendDelete (sv_client ps) (getProjectsBaseUrl ps @ ''/_/attach/repositories/'' @ repoName) None (details_of ps) w)"

definition project_groups_url :: "'w service \<Rightarrow> string \<Rightarrow> string" where
  "project_groups_url ps projectKey = project_url ps projectKey @ ''/groups''"

definition read_ProjectGroups :: "members \<Rightarrow> ProjectGroup list result" where
  "read_ProjectGroups = read_list (conv_struct read_ProjectGroup) \<lparr>pg_Name = [], pg_Roles = None\<rparr> ''members''"

definition GetProjectGroups :: "'w service \<Rightarrow> string \<Rightarrow> 'w \<Rightarrow> (ProjectGroup list option result \<times> 'w) option" where
  "GetProjectGroups ps projectKey = get_optional ps (project_groups_url ps projectKey) (read_as read_ProjectGroups)"

definition GetProjectGroup :: "'w service \<Rightarrow> string \<Rightarrow> string \<Rightarrow> 'w \<Rightarrow> (ProjectGroup option result \<times> 'w) option" where
  "GetProjectGroup ps projectKey groupName =
     get_optional ps (project_groups_url ps projectKey @ ''/'' @ groupName) (read_as read_ProjectGroup)"

definition UpdateProjectGroup :: "'w service \<Rightarrow> string \<Rightarrow> string \<Rightarrow> ProjectGroup \<Rightarrow> 'w \<Rightarrow> (go_error option \<times> 'w) option" where
  "UpdateProjectGroup ps projectKey groupName grp w =
     finished ps [200]
       (jc_SendPut (sv_client ps) (project_groups_url ps projectKey @ ''/'' @ groupName) (Some (document (ProjectGroup_table grp)))
          (json_headers ps) w)"

definition DeleteExistingProjectGroup :: "'w service \<Rightarrow> string \<Rightarrow> string \<Rightarrow> 'w \<Rightarrow> (go_error option \<times> 'w) option" where
  "DeleteExistingProjectGroup ps projectKey groupName w =
     finished ps [204] (jc_SendDelete (sv_client ps) (project_groups_url ps projectKey @ ''/'' @ groupName) None (details_of ps) w)"

section \<open>Access tokens\<close>

record AccessTokenParams =
  at_common :: CommonTokenParams
  at_IncludeReferenceToken :: "bool option"

definition AccessTokenParams_table :: "AccessTokenParams \<Rightarrow> field_table" where
  "AccessTokenParams_table p =
     CommonTokenParams_table (at_common p) @ [(''include_reference_token'', opt_ptr BoolV (at_IncludeReferenceToken p))]"

text \<open>The token of the service comes before the one in the parameters.\<close>

definition addAccessTokenAuthorizationHeader :: "'w service \<Rightarrow> AccessTokenParams \<Rightarrow> HttpClientDetails \<Rightarrow> HttpClientDetails result" where
  "addAccessTokenAuthorizationHeader ps params details =
     (let access = ccf_AccessToken (sv_details ps);
          access = (if access = [] then ct_AccessToken (at_common params) else access)
      in if access = [] then Inl (Err ''failed: adding accessToken authorization, but No accessToken was provided. '')
         else Inr (add_header ''Authorization'' (''Bearer '' @ access) details))"

definition createAccessToken :: "'w service \<Rightarrow> AccessTokenParams \<Rightarrow> 'w \<Rightarrow> (CreateTokenResponseData result \<times> 'w) option" where
  "createAccessToken ps params w =
     (case addAccessTokenAuthorizationHeader ps params (json_details ps) of
        Inl e \<Rightarrow> Some (Inl e, w)
      | Inr details \<Rightarrow>
          answered_body ps [200] (decoded ps (read_as read_CreateTokenResponseData))
            (jc_SendPost (sv_client ps) (sv_url ps @ ''api/v1/tokens'') (Some (document (AccessTokenParams_table params))) details w))"

definition createRefreshTokenRequestParams :: "AccessTokenParams \<Rightarrow> AccessTokenParams result" where
  "createRefreshTokenRequestParams p =
     (if ct_RefreshToken (at_common p) = []
      then Inl (Err ''error: trying to refresh token, but 'refresh_token' field wasn't provided. '')
      else Inr (p\<lparr>at_common := (at_common p)\<lparr>ct_GrantType := ''refresh_token'', ct_Refreshable := Some True\<rparr>\<rparr>))"

definition RefreshAccessToken :: "'w service \<Rightarrow> AccessTokenParams \<Rightarrow> 'w \<Rightarrow> (CreateTokenResponseData result \<times> 'w) option" where
  "RefreshAccessToken ps token w =
     (case createRefreshTokenRequestParams token of Inl e \<Rightarrow> Some (Inl e, w) | Inr params \<Rightarrow> createAccessToken ps params w)"

text \<open>A token is created with the parameters it is asked for.\<close>

definition CreateAccessToken :: "'w service \<Rightarrow> AccessTokenParams \<Rightarrow> 'w \<Rightarrow> (CreateTokenResponseData result \<times> 'w) option" where
  "CreateAccessToken ps params = createAccessToken ps params"

end
