(* ===== verification/Directory.thy ===== *)
theory Directory
  imports Access
begin

text \<open>
  Users, groups, permission targets and projects as directories: the services look up, create, change and remove named
  entries. Over a server that keeps documents, every sequence of calls behaves as on a map from names to
  entries: this composes the requests, their JSON and the answers.

  The server is described by its documents, the members it shows for each name: it answers a GET with a text of the
  document or with status 404, and makes the documented change for each other request. What it keeps of a document is up to it: it may
  leave fields out, fill in defaults, order the members and add ones that the client does not know. Names go into addresses
  as they are, so they are made of unreserved characters here.
\<close>

section \<open>Abstract directories\<close>

datatype 'e entry_op = Lookup string | Create 'e | Change 'e | Remove string

datatype 'e op_result = Found "'e option" | Done | Refused

type_synonym 'e directory_map = "string \<Rightarrow> 'e option"

text \<open>\<open>keep\<close> is what is kept of an entry.\<close>

fun directory_op :: "('e \<Rightarrow> string) \<Rightarrow> ('e \<Rightarrow> 'e) \<Rightarrow> ('e \<Rightarrow> 'e \<Rightarrow> 'e) \<Rightarrow> 'e entry_op \<Rightarrow> 'e directory_map \<Rightarrow> 'e op_result \<times> 'e directory_map" where
  "directory_op key keep merge (Lookup n) d = (Found (d n), d)"
| "directory_op key keep merge (Create e) d = (if d (key e) = None then (Done, d(key e \<mapsto> keep e)) else (Refused, d))"
| "directory_op key keep merge (Change e) d =
     (case d (key e) of None \<Rightarrow> (Refused, d) | Some old \<Rightarrow> (Done, d(key e \<mapsto> keep (merge old e))))"
| "directory_op key keep merge (Remove n) d = (if d n = None then (Refused, d) else (Done, d(n := None)))"

fun directory_run :: "('e \<Rightarrow> string) \<Rightarrow> ('e \<Rightarrow> 'e) \<Rightarrow> ('e \<Rightarrow> 'e \<Rightarrow> 'e) \<Rightarrow> 'e entry_op list \<Rightarrow> 'e directory_map \<Rightarrow> 'e op_result list \<times> 'e directory_map" where
  "directory_run key keep merge [] d = ([], d)"
| "directory_run key keep merge (x # xs) d =
     (let (r, d) = directory_op key keep merge x d; (rs, d) = directory_run key keep merge xs d in (r # rs, d))"

section \<open>The calls of a service\<close>

record ('e, 'w) directory_client =
  dc_lookup :: "string \<Rightarrow> 'w \<Rightarrow> ('e option result \<times> 'w) option"
  dc_create :: "'e \<Rightarrow> 'w \<Rightarrow> (go_error option \<times> 'w) option"
  dc_change :: "'e \<Rightarrow> 'w \<Rightarrow> (go_error option \<times> 'w) option"
  dc_remove :: "string \<Rightarrow> 'w \<Rightarrow> (go_error option \<times> 'w) option"

definition outcome :: "(go_error option \<times> 'w) option \<Rightarrow> ('e op_result \<times> 'w) option" where
  "outcome r = map_option (\<lambda>(err, w). (if err = None then Done else Refused, w)) r"

fun client_op :: "('e, 'w) directory_client \<Rightarrow> 'e entry_op \<Rightarrow> 'w \<Rightarrow> ('e op_result \<times> 'w) option" where
  "client_op c (Lookup n) w =
     map_option (\<lambda>(r, w). (case r of Inl e \<Rightarrow> Refused | Inr x \<Rightarrow> Found x, w)) (dc_lookup c n w)"
| "client_op c (Create e) w = outcome (dc_create c e w)"
| "client_op c (Change e) w = outcome (dc_change c e w)"
| "client_op c (Remove n) w = outcome (dc_remove c n w)"

fun client_run :: "('e, 'w) directory_client \<Rightarrow> 'e entry_op list \<Rightarrow> 'w \<Rightarrow> ('e op_result list \<times> 'w) option" where
  "client_run c [] w = Some ([], w)"
| "client_run c (x # xs) w =
     (case client_op c x w of
        None \<Rightarrow> None
      | Some (r, w) \<Rightarrow> map_option (\<lambda>(rs, w). (r # rs, w)) (client_run c xs w))"

definition plain_name :: "string \<Rightarrow> bool" where
  "plain_name n \<longleftrightarrow> n \<noteq> [] \<and> list_all unreserved n"

fun op_ok :: "('e \<Rightarrow> bool) \<Rightarrow> 'e entry_op \<Rightarrow> bool" where
  "op_ok ok (Create e) = ok e"
| "op_ok ok (Change e) = ok e"
| "op_ok ok (Lookup n) = plain_name n"
| "op_ok ok (Remove n) = plain_name n"

text \<open>What a service promises: each of its calls is that of a map, as far as the entries of the world are concerned.\<close>

locale directory =
  fixes client :: "('e, 'w) directory_client" and key :: "'e \<Rightarrow> string" and keep :: "'e \<Rightarrow> 'e" and merge :: "'e \<Rightarrow> 'e \<Rightarrow> 'e"
    and ok :: "'e \<Rightarrow> bool" and entries :: "'w \<Rightarrow> 'e directory_map" and good :: "'w \<Rightarrow> bool"
  assumes lookup: "good w \<Longrightarrow> plain_name n \<Longrightarrow> \<exists>w'. dc_lookup client n w = Some (Inr (entries w n), w') \<and> good w' \<and> entries w' = entries w"
    and create_new: "good w \<Longrightarrow> ok e \<Longrightarrow> entries w (key e) = None \<Longrightarrow>
      \<exists>w'. dc_create client e w = Some (None, w') \<and> good w' \<and> entries w' = (entries w)(key e \<mapsto> keep e)"
    and create_known: "good w \<Longrightarrow> ok e \<Longrightarrow> entries w (key e) = Some old \<Longrightarrow>
      \<exists>err w'. dc_create client e w = Some (Some err, w') \<and> good w' \<and> entries w' = entries w"
    and change_known: "good w \<Longrightarrow> ok e \<Longrightarrow> entries w (key e) = Some old \<Longrightarrow>
      \<exists>w'. dc_change client e w = Some (None, w') \<and> good w' \<and> entries w' = (entries w)(key e \<mapsto> keep (merge old e))"
    and change_new: "good w \<Longrightarrow> ok e \<Longrightarrow> entries w (key e) = None \<Longrightarrow>
      \<exists>err w'. dc_change client e w = Some (Some err, w') \<and> good w' \<and> entries w' = entries w"
    and remove_known: "good w \<Longrightarrow> plain_name n \<Longrightarrow> entries w n = Some old \<Longrightarrow>
      \<exists>w'. dc_remove client n w = Some (None, w') \<and> good w' \<and> entries w' = (entries w)(n := None)"
    and remove_new: "good w \<Longrightarrow> plain_name n \<Longrightarrow> entries w n = None \<Longrightarrow>
      \<exists>err w'. dc_remove client n w = Some (Some err, w') \<and> good w' \<and> entries w' = entries w"
begin

lemma step:
  assumes "good w" "op_ok ok x"
  shows "\<exists>w'. client_op client x w = Some (fst (directory_op key keep merge x (entries w)), w') \<and> good w' \<and>
    entries w' = snd (directory_op key keep merge x (entries w))"
proof (cases x)
  case (Lookup n)
  then show ?thesis using lookup[OF assms(1), of n] assms(2) by auto
next
  case (Create e)
  show ?thesis
  proof (cases "entries w (key e)")
    case None
    then show ?thesis using create_new[OF assms(1) _ None] assms(2) Create by (auto simp: outcome_def)
  next
    case (Some old)
    then show ?thesis using create_known[OF assms(1) _ Some] assms(2) Create by (auto simp: outcome_def)
  qed
next
  case (Change e)
  show ?thesis
  proof (cases "entries w (key e)")
    case None
    then show ?thesis using change_new[OF assms(1) _ None] assms(2) Change by (auto simp: outcome_def)
  next
    case (Some old)
    then show ?thesis using change_known[OF assms(1) _ Some] assms(2) Change by (auto simp: outcome_def)
  qed
next
  case (Remove n)
  then show ?thesis using remove_new[OF assms(1), of n] remove_known[OF assms(1), of n] assms(2)
    by (cases "entries w n") (auto simp: outcome_def)
qed

lemma run:
  assumes "good w" "list_all (op_ok ok) xs"
  shows "\<exists>w'. client_run client xs w = Some (fst (directory_run key keep merge xs (entries w)), w') \<and> good w' \<and>
    entries w' = snd (directory_run key keep merge xs (entries w))"
  using assms
proof (induction xs arbitrary: w)
  case (Cons x xs)
  obtain w1 where w1: "client_op client x w = Some (fst (directory_op key keep merge x (entries w)), w1)" "good w1"
    "entries w1 = snd (directory_op key keep merge x (entries w))"
    using step[OF Cons(2), of x] Cons(3) by auto
  then show ?case using Cons(1)[OF w1(2)] Cons(3) by (auto simp: Let_def split_beta)
qed simp

end

section \<open>Servers that keep documents\<close>

text \<open>A request and its answer.\<close>

definition answers :: "'w service \<Rightarrow> string \<Rightarrow> string \<Rightarrow> HttpClientDetails \<Rightarrow> string option \<Rightarrow> 'w \<Rightarrow> Response \<Rightarrow> 'w \<Rightarrow> bool" where
  "answers sv meth url details content w r w' \<longleftrightarrow>
     ready_client (sv_client sv) meth url \<and> StatusCode r < 500 \<and>
     http_do (httpClient (sv_client sv)) (meth = ''POST'') (request_of (httpClient (sv_client sv)) details meth url content) w =
       (Answered r, w')"

definition serves :: "'w service \<Rightarrow> ('w \<Rightarrow> string \<Rightarrow> members option) \<Rightarrow> string \<Rightarrow> string \<Rightarrow> bool" where
  "serves sv docs url n \<longleftrightarrow>
     (\<forall>w. \<exists>r w'. answers sv ''GET'' url (details_of sv) None w r w' \<and> docs w' = docs w \<and>
        (case docs w n of
           None \<Rightarrow> StatusCode r = 404
         | Some ms \<Rightarrow> StatusCode r = 200 \<and> Unmarshal (fst (Body r)) = Inr (ObjV ms)))"

text \<open>A document that is sent changes the one of the name, or is refused.\<close>

definition accepts :: "'w service \<Rightarrow> ('w \<Rightarrow> string \<Rightarrow> members option) \<Rightarrow> string \<Rightarrow> string \<Rightarrow> HttpClientDetails \<Rightarrow> int list \<Rightarrow>
    (members option \<Rightarrow> members \<Rightarrow> members option) \<Rightarrow> string \<Rightarrow> members \<Rightarrow> bool" where
  "accepts sv docs meth url details codes change n ms \<longleftrightarrow>
     (\<forall>w. \<exists>r w'. answers sv meth url details (Some (Marshal (ObjV ms))) w r w' \<and>
        (case change (docs w n) ms of
           None \<Rightarrow> StatusCode r \<notin> set codes \<and> docs w' = docs w
         | Some new \<Rightarrow> StatusCode r \<in> set codes \<and> docs w' = (docs w)(n \<mapsto> new)))"

definition deletes :: "'w service \<Rightarrow> ('w \<Rightarrow> string \<Rightarrow> members option) \<Rightarrow> string \<Rightarrow> int \<Rightarrow> string \<Rightarrow> bool" where
  "deletes sv docs url code n \<longleftrightarrow>
     (\<forall>w. \<exists>r w'. answers sv ''DELETE'' url (details_of sv) None w r w' \<and>
        (case docs w n of
           None \<Rightarrow> StatusCode r \<noteq> code \<and> docs w' = docs w
         | Some ms \<Rightarrow> StatusCode r = code \<and> docs w' = (docs w)(n := None)))"

text \<open>What is made of the old and the sent document: it replaces the old one, needs one, or must be the first.\<close>

definition put_document :: "members option \<Rightarrow> members \<Rightarrow> members option" where
  "put_document old ms = Some ms"

definition replace_known :: "members option \<Rightarrow> members \<Rightarrow> members option" where
  "replace_known old ms = map_option (\<lambda>_. ms) old"

definition add_new :: "members option \<Rightarrow> members \<Rightarrow> members option" where
  "add_new old ms = (if old = None then Some ms else None)"

text \<open>A partial update: the members that are sent take the place of those with their names.\<close>

definition merge_members :: "members \<Rightarrow> members \<Rightarrow> members" where
  "merge_members ms ns = filter (\<lambda>(k, v). k \<notin> fst ` set ns) ms @ ns"

definition merge_known :: "members option \<Rightarrow> members \<Rightarrow> members option" where
  "merge_known old ms = map_option (\<lambda>old. merge_members old ms) old"

text \<open>The server keeps a document in its own form.\<close>

definition kept_as :: "(members \<Rightarrow> members) \<Rightarrow> (members option \<Rightarrow> members \<Rightarrow> members option) \<Rightarrow> members option \<Rightarrow> members \<Rightarrow> members option" where
  "kept_as form change old ms = map_option form (change old ms)"

lemma answers_checked:
  assumes "answers sv meth url d content w r w'"
  shows "StatusCode r \<in> set codes \<Longrightarrow> checked sv codes (Some r, fst (Body r), None) = Inr (r, fst (Body r))"
    "StatusCode r \<notin> set codes \<Longrightarrow> \<exists>e. checked sv codes (Some r, fst (Body r), None) = Inl e"
  by (simp_all add: checked_unexpected)

text \<open>The call for a request with a document.\<close>

lemma accepted:
  assumes "accepts sv docs meth url details codes change n ms"
    and "meth = ''PUT'' \<and> call = jc_SendPut \<or> meth = ''POST'' \<and> call = jc_SendPost"
  shows "\<exists>w'. (case change (docs w n) ms of
      None \<Rightarrow> \<exists>e. finished sv codes (call (sv_client sv) url (Some (Marshal (ObjV ms))) details w) = Some (Some e, w') \<and> docs w' = docs w
    | Some new \<Rightarrow> finished sv codes (call (sv_client sv) url (Some (Marshal (ObjV ms))) details w) = Some (None, w') \<and>
        docs w' = (docs w)(n \<mapsto> new))"
proof -
  obtain r w' where a: "answers sv meth url details (Some (Marshal (ObjV ms))) w r w'"
    and d: "case change (docs w n) ms of
           None \<Rightarrow> StatusCode r \<notin> set codes \<and> docs w' = docs w
         | Some new \<Rightarrow> StatusCode r \<in> set codes \<and> docs w' = (docs w)(n \<mapsto> new)"
    using assms(1) unfolding accepts_def by blast
  have "call (sv_client sv) url (Some (Marshal (ObjV ms))) details w = Some ((Some r, fst (Body r), None), w')"
    using a assms(2) answered(2,3)[of "sv_client sv" meth url r details "Some (Marshal (ObjV ms))" w w'] by (auto simp: answers_def)
  then show ?thesis using d answers_checked[OF a, of codes]
    by (intro exI[of _ w']) (auto simp: finished_def split: option.splits)
qed

lemma deleted:
  assumes "deletes sv docs url code n" "fin = finished \<or> fin = finished_delete"
  shows "\<exists>w'. (case docs w n of
      None \<Rightarrow> \<exists>e. fin sv [code] (jc_SendDelete (sv_client sv) url None (details_of sv) w) = Some (Some e, w') \<and> docs w' = docs w
    | Some ms \<Rightarrow> fin sv [code] (jc_SendDelete (sv_client sv) url None (details_of sv) w) = Some (None, w') \<and>
        docs w' = (docs w)(n := None))"
proof -
  obtain r w' where a: "answers sv ''DELETE'' url (details_of sv) None w r w'"
    and d: "case docs w n of None \<Rightarrow> StatusCode r \<noteq> code \<and> docs w' = docs w
         | Some ms \<Rightarrow> StatusCode r = code \<and> docs w' = (docs w)(n := None)"
    using assms(1) unfolding deletes_def by blast
  have "jc_SendDelete (sv_client sv) url None (details_of sv) w = Some ((Some r, fst (Body r), None), w')"
    using a answered(4)[of "sv_client sv" "''DELETE''" url r "details_of sv" None w w'] by (simp add: answers_def)
  then show ?thesis using d answers_checked[OF a, of "[code]"] assms(2)
    by (intro exI[of _ w']) (auto simp: finished_def finished_delete_def split: option.splits)
qed

section \<open>Entries and their documents\<close>

definition entries_of :: "(members \<Rightarrow> 'e result) \<Rightarrow> ('w \<Rightarrow> string \<Rightarrow> members option) \<Rightarrow> 'w \<Rightarrow> 'e directory_map" where
  "entries_of rd docs w n =
     (case docs w n of None \<Rightarrow> None | Some ms \<Rightarrow> (case rd ms of Inr e \<Rightarrow> Some e | Inl _ \<Rightarrow> None))"

definition well_kept :: "('e \<Rightarrow> field_table) \<Rightarrow> ('e \<Rightarrow> bool) \<Rightarrow> ('e \<Rightarrow> string) \<Rightarrow> ('w \<Rightarrow> string \<Rightarrow> members option) \<Rightarrow> 'w \<Rightarrow> bool" where
  "well_kept tab ok key docs w \<longleftrightarrow>
     (\<forall>n ms. docs w n = Some ms \<longrightarrow> (\<exists>e. ok e \<and> key e = n \<and> presents (tab e) ms))"

text \<open>The form in which documents are kept is one of entries, too: that of the document of an entry shows what is kept of the
  entry.\<close>

definition keeps :: "('e \<Rightarrow> field_table) \<Rightarrow> ('e \<Rightarrow> bool) \<Rightarrow> ('e \<Rightarrow> string) \<Rightarrow> ('e \<Rightarrow> 'e) \<Rightarrow> (members \<Rightarrow> members) \<Rightarrow> bool" where
  "keeps tab ok key keep form \<longleftrightarrow>
     (\<forall>e ms. ok e \<and> presents (tab e) ms \<longrightarrow> ok (keep e) \<and> key (keep e) = key e \<and> presents (tab (keep e)) (form ms))"

text \<open>The struct of an entry with its reader.\<close>

locale entry_codec =
  fixes tab :: "'e \<Rightarrow> field_table" and rd :: "members \<Rightarrow> 'e result" and ok :: "'e \<Rightarrow> bool" and key :: "'e \<Rightarrow> string"
  assumes read_same: "ok e \<Longrightarrow> presents (tab e) ms \<Longrightarrow> rd ms = Inr e"
begin

lemma kept:
  assumes "well_kept tab ok key docs w"
  shows "docs w n = Some ms \<Longrightarrow> \<exists>e. entries_of rd docs w n = Some e \<and> ok e \<and> key e = n \<and> presents (tab e) ms"
    and "entries_of rd docs w n = None \<longleftrightarrow> docs w n = None"
proof -
  show k: "docs w n = Some ms \<Longrightarrow> \<exists>e. entries_of rd docs w n = Some e \<and> ok e \<and> key e = n \<and> presents (tab e) ms" for ms
    using assms read_same unfolding well_kept_def entries_of_def by fastforce
  then show "entries_of rd docs w n = None \<longleftrightarrow> docs w n = None"
    by (cases "docs w n") (auto simp: entries_of_def)
qed

lemma keep_same:
  "well_kept tab ok key docs w \<Longrightarrow> docs w' = docs w \<Longrightarrow> well_kept tab ok key docs w' \<and> entries_of rd docs w' = entries_of rd docs w"
  by (simp add: well_kept_def entries_of_def fun_eq_iff)

lemma keep_update:
  assumes "well_kept tab ok key docs w" "docs w' = (docs w)(key e \<mapsto> ms)" "ok e" "presents (tab e) ms"
  shows "well_kept tab ok key docs w' \<and> entries_of rd docs w' = (entries_of rd docs w)(key e \<mapsto> e)"
  using assms read_same[OF assms(3,4)] by (auto simp: well_kept_def entries_of_def fun_eq_iff)

lemma keep_delete:
  assumes "well_kept tab ok key docs w" "docs w' = (docs w)(n := None)"
  shows "well_kept tab ok key docs w' \<and> entries_of rd docs w' = (entries_of rd docs w)(n := None)"
  using assms by (auto simp: well_kept_def entries_of_def fun_eq_iff)

lemma looked_up:
  assumes "sv_parse sv = Unmarshal" "serves sv docs url n" "well_kept tab ok key docs w"
  shows "\<exists>w'. get_optional sv url (read_as rd) w = Some (Inr (entries_of rd docs w n), w') \<and> docs w' = docs w"
proof -
  obtain r w' where a: "answers sv ''GET'' url (details_of sv) None w r w'" and d: "docs w' = docs w"
    "case docs w n of None \<Rightarrow> StatusCode r = 404 | Some ms \<Rightarrow> StatusCode r = 200 \<and> Unmarshal (fst (Body r)) = Inr (ObjV ms)"
    using assms(2) unfolding serves_def by blast
  have get: "jc_SendGet (sv_client sv) url True (details_of sv) w = Some ((Some r, fst (Body r), None), w')"
    using a answered(1)[of "sv_client sv" "''GET''" url r "details_of sv" None w w'] by (simp add: answers_def)
  show ?thesis
  proof (cases "docs w n")
    case None
    then show ?thesis using get d by (simp add: get_optional_def entries_of_def)
  next
    case (Some ms)
    then obtain e where e: "entries_of rd docs w n = Some e" "rd ms = Inr e"
      using kept(1)[OF assms(3) Some] read_same by blast
    then show ?thesis using get d Some assms(1) by (simp add: get_optional_def decoded_def read_as_def)
  qed
qed

end

text \<open>The members of a table with distinct names, in any order, give the same values to the fields.\<close>

lemma field_values_short: "distinct_names fs \<Longrightarrow> length (field_values k (table_members fs)) \<le> 1"
proof (cases "map fold_char k \<in> set (map (map fold_char) (map fst fs))")
  case True
  assume d: "distinct_names fs"
  from True obtain k' v where k': "(k', v) \<in> set fs" "map fold_char k = map fold_char k'" by auto
  then have "field_values k (table_members fs) = field_values k' (table_members fs)" by (simp add: field_values_def)
  then show ?thesis using field_values_table[OF d k'(1)] by (simp split: option.split)
next
  case False
  then show ?thesis using field_values_other[OF False] by simp
qed

lemma field_values_presents:
  assumes "distinct_names fs" "presents fs ms" "k \<in> set (map fst fs)"
  shows "field_values k ms = field_values k (table_members fs)"
proof -
  let ?known = "\<lambda>(k, v). map fold_char k \<in> set (folded fs)"
  have "map fold_char k \<in> set (folded fs)" using assms(3) by (auto simp: folded_def)
  then have "filter (\<lambda>(k', v). map fold_char k' = map fold_char k) ms =
      filter (\<lambda>(k', v). map fold_char k' = map fold_char k) (filter ?known ms)"
    by (auto simp: filter_filter intro!: filter_cong)
  then have "mset (field_values k ms) = mset (field_values k (table_members fs))"
    using assms(2) unfolding presents_def field_values_def mset_map by (metis mset_filter)
  then show ?thesis using field_values_short[OF assms(1), of k]
    by (cases "field_values k (table_members fs)") (auto simp: length_Suc_conv)
qed

section \<open>Partial updates\<close>

text \<open>The fields with a value in the second table override those of the first one.\<close>

definition override :: "field_table \<Rightarrow> field_table \<Rightarrow> field_table" where
  "override fs gs = map2 (\<lambda>(k, v) (_, w). (k, case w of None \<Rightarrow> v | Some j \<Rightarrow> Some j)) fs gs"

lemma override_simps [simp]:
  "override [] [] = []"
  "override ((k, v) # fs) ((k', w) # gs) = (k, case w of None \<Rightarrow> v | Some j \<Rightarrow> Some j) # override fs gs"
  by (simp_all add: override_def)

lemma table_members_keys: "m \<in> set (table_members fs) \<Longrightarrow> fst m \<in> fst ` set fs"
  by (induction fs) (auto split: option.splits)

lemma distinct_names_keys: "distinct_names fs \<Longrightarrow> distinct (map fst fs)"
  by (auto simp: distinct_names_def distinct_map intro: inj_on_imageI2)

lemma merge_tables:
  "map fst fs = map fst gs \<Longrightarrow> distinct (map fst fs) \<Longrightarrow>
    mset (merge_members (table_members fs) (table_members gs)) = mset (table_members (override fs gs))"
proof (induction fs arbitrary: gs)
  case (Cons f fs)
  then obtain k v w gs' where gs: "f = (k, v)" "gs = (k, w) # gs'" "map fst fs = map fst gs'" "distinct (map fst fs)" "k \<notin> set (map fst fs)"
    by (cases f; cases gs) auto
  have fresh: "k \<notin> fst ` set (table_members gs')" "k \<notin> fst ` set (table_members fs)"
    using gs(3,5) table_members_keys[of _ gs'] table_members_keys[of _ fs] unfolding set_map[symmetric] by fastforce+
  have drop_k: "filter (\<lambda>(k', v). k' \<noteq> k \<and> k' \<notin> fst ` set ns) (table_members fs) = filter (\<lambda>(k', v). k' \<notin> fst ` set ns) (table_members fs)" for ns :: members
    using fresh(2) by (intro filter_cong) force+
  have IH: "mset (filter (\<lambda>(k, v). k \<notin> fst ` set (table_members gs')) (table_members fs)) + mset (table_members gs') =
      mset (table_members (override fs gs'))"
    using Cons(1)[OF gs(3,4)] by (simp add: merge_members_def)
  show ?case
  proof (cases w)
    case None
    then show ?thesis using gs IH fresh(1) by (auto simp: merge_members_def split: option.split)
  next
    case (Some j)
    then show ?thesis using gs IH drop_k[of "table_members gs'"]
      by (auto simp: merge_members_def split: option.split)
  qed
qed (simp add: merge_members_def)

lemma merge_presents:
  assumes "map fst fs = map fst gs" "distinct_names fs" "presents fs ms"
  shows "presents (override fs gs) (merge_members ms (table_members gs))"
proof -
  let ?known = "\<lambda>(k, v). map fold_char k \<in> set (folded fs)" and ?fresh = "\<lambda>(k, v). k \<notin> fst ` set (table_members gs)"
  have "map fst (override fs gs) = map fst fs" using assms(1)
    by (induction fs gs rule: list_induct2') (auto simp: override_def)
  then have names: "folded (override fs gs) = folded fs" "folded gs = folded fs" using assms(1) by (simp_all add: folded_def)
  have sent: "filter ?known (table_members gs) = table_members gs"
    using table_members_known[of _ gs] unfolding names(2) by (intro filter_True) fastforce
  have "filter ?known (filter ?fresh ms) = filter ?fresh (filter ?known ms)" by (simp add: filter_filter conj_commute split_def)
  then have "mset (filter ?known (filter ?fresh ms)) = mset (filter ?fresh (table_members fs))"
    using assms(3) unfolding presents_def by (metis mset_filter)
  then have "mset (filter ?known (merge_members ms (table_members gs))) = mset (merge_members (table_members fs) (table_members gs))"
    unfolding merge_members_def filter_append mset_append sent by simp
  then show ?thesis
    using merge_tables[OF assms(1) distinct_names_keys[OF assms(2)]] unfolding presents_def names by simp
qed

lemmas readers = read_string_def read_ptr_def read_slice_def read_strings_def read_list_def read_int_def read_flag_def read_map_def read_field_def

text \<open>The value of a field after an update.\<close>

definition newer :: "'a option \<Rightarrow> 'a option \<Rightarrow> 'a option" where
  "newer old new = (case new of None \<Rightarrow> old | Some x \<Rightarrow> Some x)"

definition newer_list :: "'a list \<Rightarrow> 'a list \<Rightarrow> 'a list" where
  "newer_list old new = (if new = [] then old else new)"

lemma newer_fields:
  "(case opt_string t of None \<Rightarrow> opt_string s | Some j \<Rightarrow> Some j) = opt_string (newer_list s t)"
  "(case opt_ptr f q of None \<Rightarrow> opt_ptr f p | Some j \<Rightarrow> Some j) = opt_ptr f (newer p q)"
  "(case opt_list g ys of None \<Rightarrow> opt_list g xs | Some j \<Rightarrow> Some j) = opt_list g (newer_list xs ys)"
  by (simp_all add: opt_string_def opt_ptr_def opt_list_def newer_def newer_list_def split: option.split)

section \<open>The calls of the services\<close>

definition exists_check :: "('e option result \<times> 'w) option \<Rightarrow> ('e \<Rightarrow> go_error) \<Rightarrow> ('w \<Rightarrow> (go_error option \<times> 'w) option) \<Rightarrow> (go_error option \<times> 'w) option" where
  "exists_check found err create =
     (case found of
        None \<Rightarrow> None
      | Some (Inl e, w) \<Rightarrow> Some (Some e, w)
      | Some (Inr (Some x), w) \<Rightarrow> Some (Some (err x), w)
      | Some (Inr None, w) \<Rightarrow> create w)"

context entry_codec
begin

abbreviation "kept_well \<equiv> well_kept tab ok key"

abbreviation "all_entries \<equiv> entries_of rd"

lemma looked_up_entry:
  assumes "sv_parse sv = Unmarshal" "serves sv docs url n" "kept_well docs w"
  shows "\<exists>w'. get_optional sv url (read_as rd) w = Some (Inr (all_entries docs w n), w') \<and> kept_well docs w' \<and> all_entries docs w' = all_entries docs w"
  using looked_up[OF assms] keep_same[OF assms(3)] by blast

lemma accepted_entry:
  assumes "accepts sv docs meth url details codes (kept_as form change) (key e) (table_members (tab e))"
    and "meth = ''PUT'' \<and> call = jc_SendPut \<or> meth = ''POST'' \<and> call = jc_SendPost"
    and "kept_well docs w" "change (docs w (key e)) (table_members (tab e)) = Some new" "ok e'" "key e' = key e"
    and "presents (tab e') new" "keeps tab ok key keep form"
  shows "\<exists>w'. finished sv codes (call (sv_client sv) url (Some (document (tab e))) details w) = Some (None, w') \<and>
    kept_well docs w' \<and> all_entries docs w' = (all_entries docs w)(key e \<mapsto> keep e')"
proof -
  have keep: "ok (keep e')" "key (keep e') = key e" "presents (tab (keep e')) (form new)"
    using assms(5-8) by (auto simp: keeps_def)
  obtain w' where w': "finished sv codes (call (sv_client sv) url (Some (document (tab e))) details w) = Some (None, w')"
    "docs w' = (docs w)(key (keep e') \<mapsto> form new)"
    using accepted[OF assms(1,2), of w, folded document_def] unfolding kept_as_def assms(4) keep(2) option.map option.case by blast
  show ?thesis using w'(1) keep_update[OF assms(3) w'(2) keep(1,3)] keep(2) by (intro exI[of _ w']) simp
qed

lemma refused_entry:
  assumes "accepts sv docs meth url details codes (kept_as form change) (key e) (table_members (tab e))"
    and "meth = ''PUT'' \<and> call = jc_SendPut \<or> meth = ''POST'' \<and> call = jc_SendPost"
    and "kept_well docs w" "change (docs w (key e)) (table_members (tab e)) = None"
  shows "\<exists>er w'. finished sv codes (call (sv_client sv) url (Some (document (tab e))) details w) = Some (Some er, w') \<and>
    kept_well docs w' \<and> all_entries docs w' = all_entries docs w"
proof -
  obtain er w' where w': "finished sv codes (call (sv_client sv) url (Some (document (tab e))) details w) = Some (Some er, w')"
    "docs w' = docs w"
    using accepted[OF assms(1,2), of w, folded document_def] unfolding kept_as_def assms(4) option.map option.case by blast
  show ?thesis using w'(1) keep_same[OF assms(3) w'(2)] by (intro exI[of _ er] exI[of _ w']) simp
qed

lemma removed_known:
  assumes "deletes sv docs url code n" "fin = finished \<or> fin = finished_delete" "kept_well docs w" "all_entries docs w n = Some old"
  shows "\<exists>w'. fin sv [code] (jc_SendDelete (sv_client sv) url None (details_of sv) w) = Some (None, w') \<and> kept_well docs w' \<and>
    all_entries docs w' = (all_entries docs w)(n := None)"
proof -
  obtain ms where ms: "docs w n = Some ms" using kept(2)[OF assms(3), of n] assms(4) by (cases "docs w n") simp_all
  obtain w' where w': "fin sv [code] (jc_SendDelete (sv_client sv) url None (details_of sv) w) = Some (None, w')" "docs w' = (docs w)(n := None)"
    using deleted[OF assms(1,2), of w] unfolding ms option.case by blast
  show ?thesis using w'(1) keep_delete[OF assms(3) w'(2)] by blast
qed

lemma removed_new:
  assumes "deletes sv docs url code n" "fin = finished \<or> fin = finished_delete" "kept_well docs w" "all_entries docs w n = None"
  shows "\<exists>er w'. fin sv [code] (jc_SendDelete (sv_client sv) url None (details_of sv) w) = Some (Some er, w') \<and> kept_well docs w' \<and>
    all_entries docs w' = all_entries docs w"
proof -
  have none: "docs w n = None" using kept(2)[OF assms(3), of n] assms(4) by simp
  obtain er w' where w': "fin sv [code] (jc_SendDelete (sv_client sv) url None (details_of sv) w) = Some (Some er, w')" "docs w' = docs w"
    using deleted[OF assms(1,2), of w] unfolding none option.case by blast
  show ?thesis using w'(1) keep_same[OF assms(3) w'(2)] by blast
qed

lemma created_new:
  assumes "sv_parse sv = Unmarshal" "serves sv docs url (key e)" "kept_well docs w" "ok e"
    and "accepts sv docs meth curl details codes (kept_as form put_document) (key e) (table_members (tab e))"
    and "meth = ''PUT'' \<and> call = jc_SendPut \<or> meth = ''POST'' \<and> call = jc_SendPost"
    and "all_entries docs w (key e) = None" "keeps tab ok key keep form"
  shows "\<exists>w'. exists_check (get_optional sv url (read_as rd) w) err
      (\<lambda>w. finished sv codes (call (sv_client sv) curl (Some (document (tab e))) details w)) = Some (None, w') \<and> kept_well docs w' \<and>
    all_entries docs w' = (all_entries docs w)(key e \<mapsto> keep e)"
proof -
  obtain w1 where w1: "get_optional sv url (read_as rd) w = Some (Inr None, w1)" "kept_well docs w1" "all_entries docs w1 = all_entries docs w"
    using looked_up_entry[OF assms(1-3)] assms(7) by auto
  show ?thesis
    using accepted_entry[OF assms(5,6) w1(2) _ assms(4) refl presents_table assms(8)] w1 by (auto simp: exists_check_def put_document_def)
qed

lemma created_known:
  assumes "sv_parse sv = Unmarshal" "serves sv docs url n" "kept_well docs w" "all_entries docs w n = Some old"
  shows "\<exists>er w'. exists_check (get_optional sv url (read_as rd) w) err create = Some (Some er, w') \<and> kept_well docs w' \<and>
    all_entries docs w' = all_entries docs w"
  using looked_up_entry[OF assms(1-3)] assms(4) by (auto simp: exists_check_def)

lemma changed_known:
  assumes "kept_well docs w" "all_entries docs w (key e) = Some old"
  obtains ms where "docs w (key e) = Some ms" "ok old" "key old = key e" "presents (tab old) ms"
  using kept[OF assms(1), of "key e"] assms(2) by (cases "docs w (key e)") auto

end

end
