(* ===== verification/Accounts.thy ===== *)
theory Accounts
  imports Directory
begin

text \<open>
  Users, groups, permission targets and projects are directories: for each service the struct of an entry with its reader, the
  server it is documented to talk to, and the theorems on runs of calls. A server in memory shows that such servers exist.
\<close>

section \<open>Users\<close>

definition merge_user :: "User \<Rightarrow> User \<Rightarrow> User" where
  "merge_user u v =
     \<lparr>us_Name = newer_list (us_Name u) (us_Name v), us_Email = newer_list (us_Email u) (us_Email v),
      us_Password = newer_list (us_Password u) (us_Password v), us_Admin = newer (us_Admin u) (us_Admin v),
      us_ProfileUpdatable = newer (us_ProfileUpdatable u) (us_ProfileUpdatable v),
      us_DisableUIAccess = newer (us_DisableUIAccess u) (us_DisableUIAccess v),
      us_InternalPasswordDisabled = newer (us_InternalPasswordDisabled u) (us_InternalPasswordDisabled v),
      us_LastLoggedIn = newer_list (us_LastLoggedIn u) (us_LastLoggedIn v), us_Realm = newer_list (us_Realm u) (us_Realm v),
      us_Groups = newer (us_Groups u) (us_Groups v), us_ShouldInvite = newer (us_ShouldInvite u) (us_ShouldInvite v),
      us_Source = newer_list (us_Source u) (us_Source v), us_WatchManager = newer (us_WatchManager u) (us_WatchManager v),
      us_ReportsManager = newer (us_ReportsManager u) (us_ReportsManager v),
      us_PolicyManager = newer (us_PolicyManager u) (us_PolicyManager v), us_ProjectAdmin = newer (us_ProjectAdmin u) (us_ProjectAdmin v)\<rparr>"

definition zero_User :: User where
  "zero_User =
     \<lparr>us_Name = [], us_Email = [], us_Password = [], us_Admin = None, us_ProfileUpdatable = None, us_DisableUIAccess = None,
      us_InternalPasswordDisabled = None, us_LastLoggedIn = [], us_Realm = [], us_Groups = None, us_ShouldInvite = None,
      us_Source = [], us_WatchManager = None, us_ReportsManager = None, us_PolicyManager = None, us_ProjectAdmin = None\<rparr>"

text \<open>The members of the document of a user, by the names of the REST interface.\<close>

lemma User_fields: "map fst (User_table u) =
    [''name'', ''email'', ''password'', ''admin'', ''profileUpdatable'', ''disableUIAccess'', ''internalPasswordDisabled'', ''lastLoggedIn'', ''realm'',
      ''groups'', ''shouldInvite'', ''source'', ''watchManager'', ''reportsManager'', ''policyManager'', ''projectAdmin'']"
  by (simp add: User_table_def)

lemma read_User_same: "presents (User_table u) ms \<Longrightarrow> read_User ms = Inr u"
proof -
  assume "presents (User_table u) ms"
  note same = field_values_presents[OF User_names this, unfolded User_fields]
  have "read_User ms = read_User (table_members (User_table u))" unfolding read_User_def readers by (simp add: same)
  then show ?thesis using read_User_table[OF User_names subset_refl] by simp
qed

lemma User_keys: "map fst (User_table u) = map fst (User_table v)"
  by (simp add: User_table_def)

lemma User_override: "override (User_table u) (User_table v) = User_table (merge_user u v)"
  by (simp add: User_table_def newer_fields merge_user_def)

definition named_user :: "User \<Rightarrow> bool" where
  "named_user e \<longleftrightarrow> plain_name (us_Name e)"

interpretation user_codec: entry_codec User_table read_User named_user us_Name
  by unfold_locales (simp add: read_User_same)

definition user_client :: "'w service \<Rightarrow> (User, 'w) directory_client" where
  "user_client us =
     \<lparr>dc_lookup = (\<lambda>n. GetUser us \<lparr>up_UserDetails = zero_User\<lparr>us_Name := n\<rparr>, up_ReplaceIfExists = False, up_ClearGroups = False\<rparr>),
      dc_create = (\<lambda>u. CreateUser us \<lparr>up_UserDetails = u, up_ReplaceIfExists = False, up_ClearGroups = False\<rparr>),
      dc_change = (\<lambda>u. UpdateUser us \<lparr>up_UserDetails = u, up_ReplaceIfExists = False, up_ClearGroups = False\<rparr>),
      dc_remove = DeleteUser us\<rparr>"

text \<open>The documented server of users: PUT keeps a document, POST updates one that is kept. A reply does not carry the password, and
  groups may be added: \<open>keep\<close> is what is shown of a user, in documents of the given form.\<close>

definition user_server :: "'w service \<Rightarrow> (User \<Rightarrow> User) \<Rightarrow> (members \<Rightarrow> members) \<Rightarrow> ('w \<Rightarrow> string \<Rightarrow> members option) \<Rightarrow> bool" where
  "user_server us keep form docs \<longleftrightarrow> sv_parse us = Unmarshal \<and> keeps User_table named_user us_Name keep form \<and>
     (\<forall>n. plain_name n \<longrightarrow> serves us docs (users_url us n) n \<and> deletes us docs (users_url us n) 200 n) \<and>
     (\<forall>u. named_user u \<longrightarrow>
        accepts us docs ''PUT'' (users_url us (us_Name u)) (json_headers us) [200, 201] (kept_as form put_document) (us_Name u) (table_members (User_table u)) \<and>
        accepts us docs ''POST'' (users_url us (us_Name u)) (json_headers us) [200, 201] (kept_as form merge_known) (us_Name u) (table_members (User_table u)))"

lemma CreateUser_check:
  "dc_create (user_client us) e w =
    exists_check (get_optional us (users_url us (us_Name e)) (read_as read_User) w)
      (\<lambda>user. Err (''user '' @ [CHR 0x27] @ us_Name user @ [CHR 0x27] @ '' already exists''))
      (\<lambda>w. finished us [200, 201] (jc_SendPut (sv_client us) (users_url us (us_Name e)) (Some (document (User_table e))) (json_headers us) w))"
  unfolding user_client_def CreateUser_def exists_check_def GetUser_def createUserRequest_def createOrUpdateUserRequest_def Let_def prod.case by (simp split: option.split sum.split)

lemma users_directory:
  assumes "user_server us keep form docs"
  shows "directory (user_client us) us_Name keep merge_user named_user (entries_of read_User docs) (well_kept User_table named_user us_Name docs)"
proof
  have parse: "sv_parse us = Unmarshal" and keeps: "keeps User_table named_user us_Name keep form"
    and get: "plain_name n \<Longrightarrow> serves us docs (users_url us n) n" and del: "plain_name n \<Longrightarrow> deletes us docs (users_url us n) 200 n"
    and put: "named_user u \<Longrightarrow> accepts us docs ''PUT'' (users_url us (us_Name u)) (json_headers us) [200, 201]
      (kept_as form put_document) (us_Name u) (table_members (User_table u))"
    and post: "named_user u \<Longrightarrow> accepts us docs ''POST'' (users_url us (us_Name u)) (json_headers us) [200, 201]
      (kept_as form merge_known) (us_Name u) (table_members (User_table u))"
    for n u using assms by (simp_all add: user_server_def)
  let ?good = "well_kept User_table named_user us_Name docs"
  let ?entries = "entries_of read_User docs"
  fix w n e old assume w: "?good w"
  have name: "plain_name (us_Name e)" if "named_user e" using that by (simp add: named_user_def)
  show "\<exists>w'. dc_lookup (user_client us) n w = Some (Inr (?entries w n), w') \<and> ?good w' \<and> ?entries w' = ?entries w" if "plain_name n"
    using user_codec.looked_up_entry[OF parse get[OF that] w] by (simp add: user_client_def GetUser_def)
  show "\<exists>w'. dc_create (user_client us) e w = Some (None, w') \<and> ?good w' \<and> ?entries w' = (?entries w)(us_Name e \<mapsto> keep e)"
    if "named_user e" "?entries w (us_Name e) = None"
    unfolding CreateUser_check by (rule user_codec.created_new[OF parse get[OF name[OF that(1)]] w that(1) put[OF that(1)] _ that(2) keeps]) simp
  show "\<exists>er w'. dc_create (user_client us) e w = Some (Some er, w') \<and> ?good w' \<and> ?entries w' = ?entries w"
    if "named_user e" "?entries w (us_Name e) = Some old"
    unfolding CreateUser_check by (rule user_codec.created_known[OF parse get[OF name[OF that(1)]] w that(2)])
  show "\<exists>w'. dc_change (user_client us) e w = Some (None, w') \<and> ?good w' \<and> ?entries w' = (?entries w)(us_Name e \<mapsto> keep (merge_user old e))"
    if e: "named_user e" and known: "?entries w (us_Name e) = Some old"
  proof -
    obtain ms where ms: "docs w (us_Name e) = Some ms" "us_Name old = us_Name e" "presents (User_table old) ms"
      using user_codec.changed_known[OF w known] by metis
    have "named_user (merge_user old e)" "us_Name (merge_user old e) = us_Name e"
      using e ms(2) by (auto simp: named_user_def merge_user_def newer_list_def)
    then show ?thesis
      using user_codec.accepted_entry[OF post[OF e] _ w _ _ _ _ keeps, of jc_SendPost "merge_members ms (table_members (User_table e))" "merge_user old e"]
        merge_presents[OF User_keys User_names ms(3), of e] ms(1)
      by (simp add: user_client_def UpdateUser_def createOrUpdateUserRequest_def updated_user_def merge_known_def User_override)
  qed
  show "\<exists>er w'. dc_change (user_client us) e w = Some (Some er, w') \<and> ?good w' \<and> ?entries w' = ?entries w"
    if e: "named_user e" and "?entries w (us_Name e) = None"
    using user_codec.refused_entry[OF post[OF e] _ w, of jc_SendPost] that user_codec.kept(2)[OF w]
    by (simp add: user_client_def UpdateUser_def createOrUpdateUserRequest_def updated_user_def merge_known_def)
  show "\<exists>w'. dc_remove (user_client us) n w = Some (None, w') \<and> ?good w' \<and> ?entries w' = (?entries w)(n := None)"
    if "plain_name n" "?entries w n = Some old"
    using user_codec.removed_known[OF del[OF that(1)] _ w that(2), of finished_delete] by (simp add: user_client_def DeleteUser_def)
  show "\<exists>er w'. dc_remove (user_client us) n w = Some (Some er, w') \<and> ?good w' \<and> ?entries w' = ?entries w"
    if "plain_name n" "?entries w n = None"
    using user_codec.removed_new[OF del[OF that(1)] _ w that(2), of finished_delete] by (simp add: user_client_def DeleteUser_def)
qed

section \<open>Groups\<close>

definition merge_group :: "Group \<Rightarrow> Group \<Rightarrow> Group" where
  "merge_group g h =
     \<lparr>gr_Name = newer_list (gr_Name g) (gr_Name h), gr_Description = newer_list (gr_Description g) (gr_Description h),
      gr_AutoJoin = newer (gr_AutoJoin g) (gr_AutoJoin h), gr_AdminPrivileges = newer (gr_AdminPrivileges g) (gr_AdminPrivileges h),
      gr_Realm = newer_list (gr_Realm g) (gr_Realm h), gr_RealmAttributes = newer_list (gr_RealmAttributes g) (gr_RealmAttributes h),
      gr_UsersNames = newer_list (gr_UsersNames g) (gr_UsersNames h)\<rparr>"

definition zero_Group :: Group where
  "zero_Group =
     \<lparr>gr_Name = [], gr_Description = [], gr_AutoJoin = None, gr_AdminPrivileges = None, gr_Realm = [], gr_RealmAttributes = [],
      gr_UsersNames = []\<rparr>"

lemma Group_fields: "map fst (Group_table u) =
    [''name'', ''description'', ''autoJoin'', ''adminPrivileges'', ''realm'', ''realmAttributes'', ''userNames'']"
  by (simp add: Group_table_def)

lemma read_Group_same: "presents (Group_table u) ms \<Longrightarrow> read_Group ms = Inr u"
proof -
  assume "presents (Group_table u) ms"
  note same = field_values_presents[OF Group_names this, unfolded Group_fields]
  have "read_Group ms = read_Group (table_members (Group_table u))" unfolding read_Group_def readers by (simp add: same)
  then show ?thesis using read_Group_table[OF Group_names subset_refl] by simp
qed

lemma Group_keys: "map fst (Group_table u) = map fst (Group_table v)"
  by (simp add: Group_table_def)

lemma Group_override: "override (Group_table u) (Group_table v) = Group_table (merge_group u v)"
  by (simp add: Group_table_def newer_fields merge_group_def)

definition named_group :: "Group \<Rightarrow> bool" where
  "named_group e \<longleftrightarrow> plain_name (gr_Name e)"

interpretation group_codec: entry_codec Group_table read_Group named_group gr_Name
  by unfold_locales (simp add: read_Group_same)

definition group_client :: "'w service \<Rightarrow> (Group, 'w) directory_client" where
  "group_client gs =
     \<lparr>dc_lookup = (\<lambda>n. GetGroup gs \<lparr>gp_GroupDetails = zero_Group\<lparr>gr_Name := n\<rparr>, gp_ReplaceIfExists = False, gp_IncludeUsers = True\<rparr>),
      dc_create = (\<lambda>g. CreateGroup gs \<lparr>gp_GroupDetails = g, gp_ReplaceIfExists = False, gp_IncludeUsers = True\<rparr>),
      dc_change = (\<lambda>g. UpdateGroup gs \<lparr>gp_GroupDetails = g, gp_ReplaceIfExists = False, gp_IncludeUsers = True\<rparr>),
      dc_remove = DeleteGroup gs\<rparr>"

definition group_server :: "'w service \<Rightarrow> (Group \<Rightarrow> Group) \<Rightarrow> (members \<Rightarrow> members) \<Rightarrow> ('w \<Rightarrow> string \<Rightarrow> members option) \<Rightarrow> bool" where
  "group_server gs keep form docs \<longleftrightarrow> sv_parse gs = Unmarshal \<and> keeps Group_table named_group gr_Name keep form \<and>
     (\<forall>n. plain_name n \<longrightarrow> serves gs docs (groups_url gs n @ ''?includeUsers='' @ bool_text True) n \<and> deletes gs docs (groups_url gs n) 200 n) \<and>
     (\<forall>u. named_group u \<longrightarrow>
        accepts gs docs ''PUT'' (groups_url gs (gr_Name u)) (json_headers gs) [200, 201] (kept_as form put_document) (gr_Name u) (table_members (Group_table u)) \<and>
        accepts gs docs ''POST'' (groups_url gs (gr_Name u)) (json_headers gs) [200] (kept_as form merge_known) (gr_Name u) (table_members (Group_table u)))"

lemma CreateGroup_check:
  "dc_create (group_client gs) e w =
    exists_check (get_optional gs (groups_url gs (gr_Name e) @ ''?includeUsers='' @ bool_text True) (read_as read_Group) w)
      (\<lambda>_. Err ''Artifactory: Group already exists.'')
      (\<lambda>w. finished gs [200, 201] (jc_SendPut (sv_client gs) (groups_url gs (gr_Name e)) (Some (document (Group_table e))) (json_headers gs) w))"
  unfolding group_client_def CreateGroup_def exists_check_def GetGroup_def createGroupRequest_def createOrUpdateGroupRequest_def Let_def prod.case by (simp split: option.split sum.split)

lemma groups_directory:
  assumes "group_server gs keep form docs"
  shows "directory (group_client gs) gr_Name keep merge_group named_group (entries_of read_Group docs) (well_kept Group_table named_group gr_Name docs)"
proof
  have parse: "sv_parse gs = Unmarshal" and keeps: "keeps Group_table named_group gr_Name keep form"
    and get: "plain_name n \<Longrightarrow> serves gs docs (groups_url gs n @ ''?includeUsers='' @ bool_text True) n" and del: "plain_name n \<Longrightarrow> deletes gs docs (groups_url gs n) 200 n"
    and put: "named_group u \<Longrightarrow> accepts gs docs ''PUT'' (groups_url gs (gr_Name u)) (json_headers gs) [200, 201]
      (kept_as form put_document) (gr_Name u) (table_members (Group_table u))"
    and post: "named_group u \<Longrightarrow> accepts gs docs ''POST'' (groups_url gs (gr_Name u)) (json_headers gs) [200]
      (kept_as form merge_known) (gr_Name u) (table_members (Group_table u))"
    for n u using assms by (simp_all add: group_server_def)
  let ?good = "well_kept Group_table named_group gr_Name docs"
  let ?entries = "entries_of read_Group docs"
  fix w n e old assume w: "?good w"
  have name: "plain_name (gr_Name e)" if "named_group e" using that by (simp add: named_group_def)
  show "\<exists>w'. dc_lookup (group_client gs) n w = Some (Inr (?entries w n), w') \<and> ?good w' \<and> ?entries w' = ?entries w" if "plain_name n"
    using group_codec.looked_up_entry[OF parse get[OF that] w] by (simp add: group_client_def GetGroup_def)
  show "\<exists>w'. dc_create (group_client gs) e w = Some (None, w') \<and> ?good w' \<and> ?entries w' = (?entries w)(gr_Name e \<mapsto> keep e)"
    if "named_group e" "?entries w (gr_Name e) = None"
    unfolding CreateGroup_check by (rule group_codec.created_new[OF parse get[OF name[OF that(1)]] w that(1) put[OF that(1)] _ that(2) keeps]) simp
  show "\<exists>er w'. dc_create (group_client gs) e w = Some (Some er, w') \<and> ?good w' \<and> ?entries w' = ?entries w"
    if "named_group e" "?entries w (gr_Name e) = Some old"
    unfolding CreateGroup_check by (rule group_codec.created_known[OF parse get[OF name[OF that(1)]] w that(2)])
  show "\<exists>w'. dc_change (group_client gs) e w = Some (None, w') \<and> ?good w' \<and> ?entries w' = (?entries w)(gr_Name e \<mapsto> keep (merge_group old e))"
    if e: "named_group e" and known: "?entries w (gr_Name e) = Some old"
  proof -
    obtain ms where ms: "docs w (gr_Name e) = Some ms" "gr_Name old = gr_Name e" "presents (Group_table old) ms"
      using group_codec.changed_known[OF w known] by metis
    have "named_group (merge_group old e)" "gr_Name (merge_group old e) = gr_Name e"
      using e ms(2) by (auto simp: named_group_def merge_group_def newer_list_def)
    then show ?thesis
      using group_codec.accepted_entry[OF post[OF e] _ w _ _ _ _ keeps, of jc_SendPost "merge_members ms (table_members (Group_table e))" "merge_group old e"]
        merge_presents[OF Group_keys Group_names ms(3), of e] ms(1)
      by (simp add: group_client_def UpdateGroup_def createOrUpdateGroupRequest_def merge_known_def Group_override)
  qed
  show "\<exists>er w'. dc_change (group_client gs) e w = Some (Some er, w') \<and> ?good w' \<and> ?entries w' = ?entries w"
    if e: "named_group e" and "?entries w (gr_Name e) = None"
    using group_codec.refused_entry[OF post[OF e] _ w, of jc_SendPost] that group_codec.kept(2)[OF w]
    by (simp add: group_client_def UpdateGroup_def createOrUpdateGroupRequest_def merge_known_def)
  show "\<exists>w'. dc_remove (group_client gs) n w = Some (None, w') \<and> ?good w' \<and> ?entries w' = (?entries w)(n := None)"
    if "plain_name n" "?entries w n = Some old"
    using group_codec.removed_known[OF del[OF that(1)] _ w that(2), of finished_delete] by (simp add: group_client_def DeleteGroup_def)
  show "\<exists>er w'. dc_remove (group_client gs) n w = Some (Some er, w') \<and> ?good w' \<and> ?entries w' = ?entries w"
    if "plain_name n" "?entries w n = None"
    using group_codec.removed_new[OF del[OF that(1)] _ w that(2), of finished_delete] by (simp add: group_client_def DeleteGroup_def)
qed

section \<open>Permission targets\<close>

lemma PermissionTargetParams_fields: "map fst (PermissionTargetParams_table u) = [''name'', ''repo'', ''build'', ''releaseBundle'']"
  by (simp add: PermissionTargetParams_table_def)

lemma read_PermissionTarget_same:
  "PermissionTargetParams_ok u \<Longrightarrow> presents (PermissionTargetParams_table u) ms \<Longrightarrow> read_PermissionTargetParams ms = Inr u"
proof -
  assume ok: "PermissionTargetParams_ok u" and "presents (PermissionTargetParams_table u) ms"
  note same = field_values_presents[OF PermissionTargetParams_names this(2), unfolded PermissionTargetParams_fields]
  have "read_PermissionTargetParams ms = read_PermissionTargetParams (table_members (PermissionTargetParams_table u))"
    unfolding read_PermissionTargetParams_def readers by (simp add: same)
  then show ?thesis using read_PermissionTargetParams_table[OF PermissionTargetParams_names subset_refl ok] by simp
qed

definition named_permission :: "PermissionTargetParams \<Rightarrow> bool" where
  "named_permission e \<longleftrightarrow> plain_name (pt_Name e) \<and> PermissionTargetParams_ok e"

interpretation permission_codec: entry_codec PermissionTargetParams_table read_PermissionTargetParams named_permission pt_Name
  by unfold_locales (simp add: read_PermissionTarget_same named_permission_def)

definition permission_client :: "'w service \<Rightarrow> (PermissionTargetParams, 'w) directory_client" where
  "permission_client pts =
     \<lparr>dc_lookup = GetPermissionTarget pts, dc_create = CreatePermissionTarget pts, dc_change = UpdatePermissionTarget pts,
      dc_remove = DeletePermissionTarget pts\<rparr>"

text \<open>Here POST adds a document, which fails when there is one, and PUT replaces one. The server fills in defaults, among them the
  patterns to include.\<close>

definition permission_server :: "'w service \<Rightarrow> (PermissionTargetParams \<Rightarrow> PermissionTargetParams) \<Rightarrow> (members \<Rightarrow> members) \<Rightarrow>
    ('w \<Rightarrow> string \<Rightarrow> members option) \<Rightarrow> bool" where
  "permission_server pts keep form docs \<longleftrightarrow> sv_parse pts = Unmarshal \<and>
     keeps PermissionTargetParams_table named_permission pt_Name keep form \<and>
     (\<forall>n. plain_name n \<longrightarrow> serves pts docs (permission_url pts n) n \<and> deletes pts docs (permission_url pts n) 200 n) \<and>
     (\<forall>u. named_permission u \<longrightarrow>
        accepts pts docs ''POST'' (permission_url pts (pt_Name u)) (json_details pts) [200, 201] (kept_as form add_new) (pt_Name u)
          (table_members (PermissionTargetParams_table u)) \<and>
        accepts pts docs ''PUT'' (permission_url pts (pt_Name u)) (json_details pts) [200, 201] (kept_as form replace_known) (pt_Name u)
          (table_members (PermissionTargetParams_table u)))"

text \<open>The request finishes as any other, only its error may be another one.\<close>

lemma permission_finished:
  fixes pts :: "'w service" and u w update
  defines "r \<equiv> finished pts [200, 201] ((if update then jc_SendPut else jc_SendPost) (sv_client pts) (permission_url pts (pt_Name u))
      (Some (document (PermissionTargetParams_table u))) (json_details pts) w)"
  shows "r = Some (None, w') \<Longrightarrow> permission_performRequest pts u update w = Some (None, w')"
    "r = Some (Some er, w') \<Longrightarrow> \<exists>er. permission_performRequest pts u update w = Some (Some er, w')"
  unfolding r_def finished_def permission_performRequest_def Let_def
  by (auto simp: after_reply_def split: option.splits sum.splits if_splits)

lemma permissions_directory:
  assumes "permission_server pts keep form docs"
  shows "directory (permission_client pts) pt_Name keep (\<lambda>_ u. u) named_permission (entries_of read_PermissionTargetParams docs)
    (well_kept PermissionTargetParams_table named_permission pt_Name docs)"
proof
  have parse: "sv_parse pts = Unmarshal" and keeps: "keeps PermissionTargetParams_table named_permission pt_Name keep form"
    and get: "plain_name n \<Longrightarrow> serves pts docs (permission_url pts n) n" and del: "plain_name n \<Longrightarrow> deletes pts docs (permission_url pts n) 200 n"
    and post: "named_permission u \<Longrightarrow> accepts pts docs ''POST'' (permission_url pts (pt_Name u)) (json_details pts) [200, 201]
      (kept_as form add_new) (pt_Name u) (table_members (PermissionTargetParams_table u))"
    and put: "named_permission u \<Longrightarrow> accepts pts docs ''PUT'' (permission_url pts (pt_Name u)) (json_details pts) [200, 201]
      (kept_as form replace_known) (pt_Name u) (table_members (PermissionTargetParams_table u))"
    for n u using assms by (simp_all add: permission_server_def)
  let ?good = "well_kept PermissionTargetParams_table named_permission pt_Name docs"
  let ?entries = "entries_of read_PermissionTargetParams docs"
  note client = permission_client_def GetPermissionTarget_def CreatePermissionTarget_def UpdatePermissionTarget_def DeletePermissionTarget_def
  fix w n e old assume w: "?good w"
  show "\<exists>w'. dc_lookup (permission_client pts) n w = Some (Inr (?entries w n), w') \<and> ?good w' \<and> ?entries w' = ?entries w" if "plain_name n"
    using permission_codec.looked_up_entry[OF parse get[OF that] w] by (simp add: client)
  show "\<exists>w'. dc_create (permission_client pts) e w = Some (None, w') \<and> ?good w' \<and> ?entries w' = (?entries w)(pt_Name e \<mapsto> keep e)"
    if "named_permission e" "?entries w (pt_Name e) = None"
    using permission_codec.accepted_entry[OF post[OF that(1)] _ w _ that(1) refl presents_table keeps, of jc_SendPost]
      permission_codec.kept(2)[OF w, of "pt_Name e"] that(2) permission_finished(1)[of pts False e w] by (auto simp: client add_new_def)
  show "\<exists>er w'. dc_create (permission_client pts) e w = Some (Some er, w') \<and> ?good w' \<and> ?entries w' = ?entries w"
    if "named_permission e" "?entries w (pt_Name e) = Some old"
    using permission_codec.refused_entry[OF post[OF that(1)] _ w, of jc_SendPost] permission_codec.kept(2)[OF w, of "pt_Name e"] that(2)
      permission_finished(2)[of pts False e w] by (fastforce simp: client add_new_def)
  show "\<exists>w'. dc_change (permission_client pts) e w = Some (None, w') \<and> ?good w' \<and> ?entries w' = (?entries w)(pt_Name e \<mapsto> keep e)"
    if "named_permission e" "?entries w (pt_Name e) = Some old"
    using permission_codec.accepted_entry[OF put[OF that(1)] _ w _ that(1) refl presents_table keeps, of jc_SendPut]
      permission_codec.kept(2)[OF w, of "pt_Name e"] that(2) permission_finished(1)[of pts True e w] by (auto simp: client replace_known_def)
  show "\<exists>er w'. dc_change (permission_client pts) e w = Some (Some er, w') \<and> ?good w' \<and> ?entries w' = ?entries w"
    if "named_permission e" "?entries w (pt_Name e) = None"
    using permission_codec.refused_entry[OF put[OF that(1)] _ w, of jc_SendPut] permission_codec.kept(2)[OF w, of "pt_Name e"] that(2)
      permission_finished(2)[of pts True e w] by (fastforce simp: client replace_known_def)
  show "\<exists>w'. dc_remove (permission_client pts) n w = Some (None, w') \<and> ?good w' \<and> ?entries w' = (?entries w)(n := None)"
    if "plain_name n" "?entries w n = Some old"
    using permission_codec.removed_known[OF del[OF that(1)] _ w that(2), of finished] by (simp add: client)
  show "\<exists>er w'. dc_remove (permission_client pts) n w = Some (Some er, w') \<and> ?good w' \<and> ?entries w' = ?entries w"
    if "plain_name n" "?entries w n = None"
    using permission_codec.removed_new[OF del[OF that(1)] _ w that(2), of finished] by (simp add: client)
qed

section \<open>Projects\<close>

lemma Project_fields: "map fst (Project_table u) =
    [''display_name'', ''description'', ''admin_privileges'', ''soft_limit'', ''storage_quota_bytes'', ''project_key'']"
  by (simp add: Project_table_def)

lemma read_Project_same:
  "Project_ok float_text u \<Longrightarrow> presents (Project_table u) ms \<Longrightarrow> read_Project float_text ms = Inr u"
proof -
  assume ok: "Project_ok float_text u" and "presents (Project_table u) ms"
  note same = field_values_presents[OF Project_names this(2), unfolded Project_fields]
  have "read_Project float_text ms = read_Project float_text (table_members (Project_table u))"
    unfolding read_Project_def readers by (simp add: same)
  then show ?thesis using read_Project_table[OF Project_names subset_refl ok] by simp
qed

definition named_project :: "(string \<Rightarrow> string option) \<Rightarrow> Project \<Rightarrow> bool" where
  "named_project float_text e \<longleftrightarrow> plain_name (pj_ProjectKey e) \<and> Project_ok float_text e"

interpretation project_codec: entry_codec Project_table "read_Project float_text" "named_project float_text" pj_ProjectKey for float_text
  by unfold_locales (simp add: read_Project_same named_project_def)

definition project_client :: "(string \<Rightarrow> string option) \<Rightarrow> 'w service \<Rightarrow> (Project, 'w) directory_client" where
  "project_client float_text ps =
     \<lparr>dc_lookup = GetProject float_text ps, dc_create = CreateProject float_text ps, dc_change = UpdateProject ps,
      dc_remove = DeleteProject ps\<rparr>"

text \<open>A project is sent to the address of all projects, and found under its key.\<close>

definition project_server :: "(string \<Rightarrow> string option) \<Rightarrow> 'w service \<Rightarrow> (Project \<Rightarrow> Project) \<Rightarrow> (members \<Rightarrow> members) \<Rightarrow>
    ('w \<Rightarrow> string \<Rightarrow> members option) \<Rightarrow> bool" where
  "project_server float_text ps keep form docs \<longleftrightarrow> sv_parse ps = Unmarshal \<and>
     keeps Project_table (named_project float_text) pj_ProjectKey keep form \<and>
     (\<forall>n. plain_name n \<longrightarrow> serves ps docs (project_url ps n) n \<and> deletes ps docs (project_url ps n) 204 n) \<and>
     (\<forall>u. named_project float_text u \<longrightarrow>
        accepts ps docs ''POST'' (getProjectsBaseUrl ps) (json_headers ps) [200, 201] (kept_as form put_document) (pj_ProjectKey u) (table_members (Project_table u)) \<and>
        accepts ps docs ''PUT'' (project_url ps (pj_ProjectKey u)) (json_headers ps) [200, 201] (kept_as form replace_known) (pj_ProjectKey u)
          (table_members (Project_table u)))"

lemma CreateProject_check:
  "dc_create (project_client float_text ps) e w =
    exists_check (get_optional ps (project_url ps (pj_ProjectKey e)) (read_as (read_Project float_text)) w)
      (\<lambda>project. Err (''project '' @ [CHR 0x27] @ pj_ProjectKey project @ [CHR 0x27] @ '' already exists''))
      (\<lambda>w. finished ps [200, 201] (jc_SendPost (sv_client ps) (getProjectsBaseUrl ps) (Some (document (Project_table e))) (json_headers ps) w))"
  unfolding project_client_def CreateProject_def exists_check_def GetProject_def createOrUpdateRequest_def Let_def prod.case by (simp split: option.split sum.split)

lemma projects_directory:
  assumes "project_server float_text ps keep form docs"
  shows "directory (project_client float_text ps) pj_ProjectKey keep (\<lambda>_ u. u) (named_project float_text) (entries_of (read_Project float_text) docs)
    (well_kept Project_table (named_project float_text) pj_ProjectKey docs)"
proof
  let ?ok = "named_project float_text" and ?c = "project_client float_text ps"
  have parse: "sv_parse ps = Unmarshal" and keeps: "keeps Project_table ?ok pj_ProjectKey keep form"
    and get: "plain_name n \<Longrightarrow> serves ps docs (project_url ps n) n" and del: "plain_name n \<Longrightarrow> deletes ps docs (project_url ps n) 204 n"
    and post: "?ok u \<Longrightarrow> accepts ps docs ''POST'' (getProjectsBaseUrl ps) (json_headers ps) [200, 201]
      (kept_as form put_document) (pj_ProjectKey u) (table_members (Project_table u))"
    and put: "?ok u \<Longrightarrow> accepts ps docs ''PUT'' (project_url ps (pj_ProjectKey u)) (json_headers ps) [200, 201]
      (kept_as form replace_known) (pj_ProjectKey u) (table_members (Project_table u))"
    for n u using assms by (simp_all add: project_server_def)
  let ?good = "well_kept Project_table ?ok pj_ProjectKey docs"
  let ?entries = "entries_of (read_Project float_text) docs"
  note client = project_client_def GetProject_def UpdateProject_def createOrUpdateRequest_def DeleteProject_def
  fix w n e old assume w: "?good w"
  have name: "plain_name (pj_ProjectKey e)" if "?ok e" using that by (simp add: named_project_def)
  show "\<exists>w'. dc_lookup ?c n w = Some (Inr (?entries w n), w') \<and> ?good w' \<and> ?entries w' = ?entries w" if "plain_name n"
    using project_codec.looked_up_entry[OF parse get[OF that] w] by (simp add: client)
  show "\<exists>w'. dc_create ?c e w = Some (None, w') \<and> ?good w' \<and> ?entries w' = (?entries w)(pj_ProjectKey e \<mapsto> keep e)"
    if "?ok e" "?entries w (pj_ProjectKey e) = None"
    unfolding CreateProject_check by (rule project_codec.created_new[OF parse get[OF name[OF that(1)]] w that(1) post[OF that(1)] _ that(2) keeps]) simp
  show "\<exists>er w'. dc_create ?c e w = Some (Some er, w') \<and> ?good w' \<and> ?entries w' = ?entries w"
    if "?ok e" "?entries w (pj_ProjectKey e) = Some old"
    unfolding CreateProject_check by (rule project_codec.created_known[OF parse get[OF name[OF that(1)]] w that(2)])
  show "\<exists>w'. dc_change ?c e w = Some (None, w') \<and> ?good w' \<and> ?entries w' = (?entries w)(pj_ProjectKey e \<mapsto> keep e)"
    if "?ok e" "?entries w (pj_ProjectKey e) = Some old"
    using project_codec.accepted_entry[OF put[OF that(1)] _ w _ that(1) refl presents_table keeps, of jc_SendPut]
      project_codec.kept(2)[OF w, of "pj_ProjectKey e"] that(2)
    by (auto simp: client replace_known_def)
  show "\<exists>er w'. dc_change ?c e w = Some (Some er, w') \<and> ?good w' \<and> ?entries w' = ?entries w"
    if "?ok e" "?entries w (pj_ProjectKey e) = None"
    using project_codec.refused_entry[OF put[OF that(1)] _ w, of jc_SendPut] project_codec.kept(2)[OF w, of "pj_ProjectKey e"] that(2)
    by (auto simp: client replace_known_def)
  show "\<exists>w'. dc_remove ?c n w = Some (None, w') \<and> ?good w' \<and> ?entries w' = (?entries w)(n := None)"
    if "plain_name n" "?entries w n = Some old"
    using project_codec.removed_known[OF del[OF that(1)] _ w that(2), of finished_delete] by (simp add: client)
  show "\<exists>er w'. dc_remove ?c n w = Some (Some er, w') \<and> ?good w' \<and> ?entries w' = ?entries w"
    if "plain_name n" "?entries w n = None"
    using project_codec.removed_new[OF del[OF that(1)] _ w that(2), of finished_delete] by (simp add: client)
qed

section \<open>A server in memory\<close>

type_synonym memory = "string \<Rightarrow> members option"

text \<open>The documents that can be written as texts.\<close>

definition memory_docs :: "memory \<Rightarrow> string \<Rightarrow> members option" where
  "memory_docs w n = (case w n of None \<Rightarrow> None | Some ms \<Rightarrow> if writable maxNestingDepth (ObjV ms) then Some ms else None)"

definition memory_response :: "int \<Rightarrow> string \<Rightarrow> Response" where
  "memory_response status body = \<lparr>StatusCode = status, Status = itoa status, ResponseHeader = (\<lambda>_. []), Body = (body, None)\<rparr>"

lemma memory_response_simps [simp]:
  "StatusCode (memory_response status body) = status" "Body (memory_response status body) = (body, None)"
  by (simp_all add: memory_response_def)

definition memory_answer :: "int \<Rightarrow> string \<Rightarrow> do_result" where
  "memory_answer status body = Answered (memory_response status body)"

definition memory_do :: "string \<Rightarrow> (members option \<Rightarrow> members \<Rightarrow> members option) \<Rightarrow> (members option \<Rightarrow> members \<Rightarrow> members option) \<Rightarrow>
    bool \<Rightarrow> Request \<Rightarrow> memory \<Rightarrow> do_result \<times> memory" where
  "memory_do base post put blocked req w =
     (let n = drop (length base) (req_URL req) in
      if req_Method req = ''GET''
      then (case memory_docs w n of None \<Rightarrow> memory_answer 404 [] | Some ms \<Rightarrow> memory_answer 200 (Marshal (ObjV ms)), w)
      else if req_Method req = ''DELETE''
      then (case memory_docs w n of None \<Rightarrow> (memory_answer 404 [], w) | Some ms \<Rightarrow> (memory_answer 200 [], w(n := None)))
      else case Unmarshal (req_Body req) of
             Inr (ObjV ms) \<Rightarrow>
               (case (if req_Method req = ''POST'' then post else put) (memory_docs w n) ms of
                  None \<Rightarrow> (memory_answer 409 [], w) | Some new \<Rightarrow> (memory_answer 200 [], w(n \<mapsto> new)))
           | _ \<Rightarrow> (memory_answer 400 [], w))"

definition memory_service :: "string \<Rightarrow> (members option \<Rightarrow> members \<Rightarrow> members option) \<Rightarrow> (members option \<Rightarrow> members \<Rightarrow> members option) \<Rightarrow>
    memory service" where
  "memory_service path post put =
     \<lparr>sv_client = \<lparr>httpClient = \<lparr>http_do = memory_do (''u/'' @ path) post put, NewRequest_error = (\<lambda>_ _. None), userAgent = ''client'', ctx = None,
                                 hc_retries = 3, hc_retryWaitMilliSecs = 0\<rparr>,
                   preRequestInterceptors = [], jc_indent = (\<lambda>_. None), jc_redirects = 1\<rparr>,
      sv_details = \<lparr>ccf_Url = ''u/'', ccf_User = [], ccf_Password = [], ccf_ApiKey = [], ccf_AccessToken = [],
                    ccf_ClientCertPath = [], ccf_ClientCertKeyPath = [], ccf_Version = [], ccf_SshUrl = [], ccf_SshKeyPath = [],
                    ccf_SshPassphrase = [], ccf_SshAuthHeaders = None\<rparr>,
      sv_parse = Unmarshal\<rparr>"

lemma memory_service_simps [simp]:
  "sv_url (memory_service path post put) = ''u/''" "sv_parse (memory_service path post put) = Unmarshal"
  by (simp_all add: memory_service_def sv_url_def)

lemma memory_request:
  "answers (memory_service path post put) meth url details content w r w' \<longleftrightarrow> StatusCode r < 500 \<and>
    memory_do (''u/'' @ path) post put (meth = ''POST'') (request_of (httpClient (sv_client (memory_service path post put))) details meth url content) w =
      (Answered r, w')"
  by (simp add: answers_def memory_service_def ready_client_def)

lemma memory_serves: "serves (memory_service path post put) memory_docs (''u/'' @ path @ n) n"
  unfolding serves_def memory_request
proof
  fix w
  show "\<exists>r w'. (StatusCode r < 500 \<and> memory_do (''u/'' @ path) post put (''GET'' = ''POST'')
        (request_of (httpClient (sv_client (memory_service path post put))) (details_of (memory_service path post put)) ''GET'' (''u/'' @ path @ n) None) w =
        (Answered r, w')) \<and>
      memory_docs w' = memory_docs w \<and>
      (case memory_docs w n of None \<Rightarrow> StatusCode r = 404 | Some ms \<Rightarrow> StatusCode r = 200 \<and> Unmarshal (fst (Body r)) = Inr (ObjV ms))"
  proof (cases "memory_docs w n")
    case None
    then show ?thesis
      by (intro exI[of _ "memory_response 404 []"] exI[of _ w]) (simp add: memory_do_def request_of_def memory_answer_def)
  next
    case (Some ms)
    then have "Unmarshal (Marshal (ObjV ms)) = Inr (ObjV ms)"
      by (intro Unmarshal_Marshal) (auto simp: memory_docs_def split: option.splits if_splits)
    then show ?thesis using Some
      by (intro exI[of _ "memory_response 200 (Marshal (ObjV ms))"] exI[of _ w])
         (simp add: memory_do_def request_of_def memory_answer_def del: Marshal.simps)
  qed
qed

lemma memory_docs_delete: "memory_docs (w(n := None)) = (memory_docs w)(n := None)"
  by (simp add: memory_docs_def fun_eq_iff)

lemma memory_deletes: "deletes (memory_service path post put) memory_docs (''u/'' @ path @ n) 200 n"
  unfolding deletes_def memory_request
proof
  fix w
  show "\<exists>r w'. (StatusCode r < 500 \<and> memory_do (''u/'' @ path) post put (''DELETE'' = ''POST'')
        (request_of (httpClient (sv_client (memory_service path post put))) (details_of (memory_service path post put)) ''DELETE'' (''u/'' @ path @ n) None) w =
        (Answered r, w')) \<and>
      (case memory_docs w n of
         None \<Rightarrow> StatusCode r \<noteq> 200 \<and> memory_docs w' = memory_docs w
       | Some ms \<Rightarrow> StatusCode r = 200 \<and> memory_docs w' = (memory_docs w)(n := None))"
  proof (cases "memory_docs w n")
    case None
    then show ?thesis
      by (intro exI[of _ "memory_response 404 []"] exI[of _ w]) (simp add: memory_do_def request_of_def memory_answer_def)
  next
    case (Some ms)
    then show ?thesis
      by (intro exI[of _ "memory_response 200 []"] exI[of _ "w(n := None)"])
         (simp add: memory_do_def request_of_def memory_answer_def memory_docs_delete)
  qed
qed

lemma memory_accepts:
  assumes "meth = ''PUT'' \<and> change = put \<or> meth = ''POST'' \<and> change = post" "writable maxNestingDepth (ObjV ms)"
    and "\<And>w new. change (memory_docs w n) ms = Some new \<Longrightarrow> writable maxNestingDepth (ObjV new)" "200 \<in> set codes" "409 \<notin> set codes"
  shows "accepts (memory_service path post put) memory_docs meth (''u/'' @ path @ n) details codes change n ms"
  unfolding accepts_def memory_request
proof
  fix w
  have docs: "memory_docs (w(n \<mapsto> new)) = (memory_docs w)(n \<mapsto> new)" if "change (memory_docs w n) ms = Some new" for new
    using assms(3)[OF that] by (auto simp: memory_docs_def fun_eq_iff)
  show "\<exists>r w'. (StatusCode r < 500 \<and> memory_do (''u/'' @ path) post put (meth = ''POST'')
        (request_of (httpClient (sv_client (memory_service path post put))) details meth (''u/'' @ path @ n) (Some (Marshal (ObjV ms)))) w = (Answered r, w')) \<and>
      (case change (memory_docs w n) ms of None \<Rightarrow> StatusCode r \<notin> set codes \<and> memory_docs w' = memory_docs w
       | Some new \<Rightarrow> StatusCode r \<in> set codes \<and> memory_docs w' = (memory_docs w)(n \<mapsto> new))"
  proof (cases "change (memory_docs w n) ms")
    case None
    then show ?thesis using assms(1,5) Unmarshal_Marshal[OF assms(2)]
      by (intro exI[of _ "memory_response 409 []"] exI[of _ w])
         (auto simp: memory_do_def request_of_def memory_answer_def simp del: Marshal.simps)
  next
    case (Some new)
    then show ?thesis using assms(1,4) Unmarshal_Marshal[OF assms(2)] docs
      by (intro exI[of _ "memory_response 200 []"] exI[of _ "w(n \<mapsto> new)"])
         (auto simp: memory_do_def request_of_def memory_answer_def simp del: Marshal.simps)
  qed
qed

section \<open>Runs of calls\<close>

text \<open>C20: over a server that keeps documents of users, any sequence of lookups, creations, updates and deletions of users with
  plain names gives the results, and leaves the users, of the same operations on a map from names to users: a user is created only
  when there is none with the name, an update changes exactly the fields that are set, and a lookup reads what the server keeps of
  a user, whatever it leaves out (as the password) or adds.\<close>

theorem users_run:
  assumes "user_server us keep form docs" "well_kept User_table named_user us_Name docs w" "list_all (op_ok named_user) xs"
  shows "\<exists>w'. client_run (user_client us) xs w = Some (fst (directory_run us_Name keep merge_user xs (entries_of read_User docs w)), w') \<and>
    entries_of read_User docs w' = snd (directory_run us_Name keep merge_user xs (entries_of read_User docs w))"
  using directory.run[OF users_directory[OF assms(1)] assms(2,3)] by blast


lemma groups_run:
  assumes "group_server gs keep form docs" "well_kept Group_table named_group gr_Name docs w" "list_all (op_ok named_group) xs"
  shows "\<exists>w'. client_run (group_client gs) xs w = Some (fst (directory_run gr_Name keep merge_group xs (entries_of read_Group docs w)), w') \<and>
    entries_of read_Group docs w' = snd (directory_run gr_Name keep merge_group xs (entries_of read_Group docs w))"
  using directory.run[OF groups_directory[OF assms(1)] assms(2,3)] by blast

lemma projects_run:
  assumes "project_server float_text ps keep form docs" "well_kept Project_table (named_project float_text) pj_ProjectKey docs w"
    and "list_all (op_ok (named_project float_text)) xs"
  shows "\<exists>w'. client_run (project_client float_text ps) xs w =
      Some (fst (directory_run pj_ProjectKey keep (\<lambda>_ p. p) xs (entries_of (read_Project float_text) docs w)), w') \<and>
    entries_of (read_Project float_text) docs w' = snd (directory_run pj_ProjectKey keep (\<lambda>_ p. p) xs (entries_of (read_Project float_text) docs w))"
  using directory.run[OF projects_directory[OF assms(1)] assms(2,3)] by blast

text \<open>An update that clears the groups is an update with an empty list of groups.\<close>

lemma UpdateUser_clear:
  "UpdateUser us \<lparr>up_UserDetails = u, up_ReplaceIfExists = b, up_ClearGroups = True\<rparr> = dc_change (user_client us) (u\<lparr>us_Groups := Some []\<rparr>)"
  "us_Groups (merge_user old (u\<lparr>us_Groups := Some []\<rparr>)) = Some []"
  by (simp_all add: user_client_def UpdateUser_def createOrUpdateUserRequest_def updated_user_def merge_user_def newer_def fun_eq_iff)

section \<open>The services over the server in memory\<close>

lemma depth_Suc: "maxNestingDepth = Suc (Suc (Suc (Suc (Suc 9995))))"
  by (simp add: maxNestingDepth_def)

lemma writable_merge:
  "writable d (ObjV ms) \<Longrightarrow> writable d (ObjV ns) \<Longrightarrow> writable d (ObjV (merge_members ms ns))"
  by (cases d) (auto simp: merge_members_def list_all_iff)

lemma memory_docs_writable: "memory_docs w n = Some ms \<Longrightarrow> writable maxNestingDepth (ObjV ms)"
  by (auto simp: memory_docs_def split: option.splits if_splits)

lemma empty_well_kept: "well_kept tab ok key memory_docs (\<lambda>_. None)"
  by (simp add: well_kept_def memory_docs_def)

lemma empty_entries: "entries_of rd memory_docs (\<lambda>_. None) = (\<lambda>_. None)"
  by (simp add: entries_of_def memory_docs_def fun_eq_iff)

text \<open>A server of users that keeps no password, and one of permission targets that adds an address to each.\<close>

definition drop_password :: "members \<Rightarrow> members" where
  "drop_password = filter (\<lambda>(k, v). map fold_char k \<noteq> map fold_char ''password'')"

definition add_uri :: "members \<Rightarrow> members" where
  "add_uri ms = (''uri'', StrV ''here'') # ms"

definition without_password :: "User \<Rightarrow> User" where
  "without_password u = u\<lparr>us_Password := []\<rparr>"

abbreviation memory_users :: "memory service" where
  "memory_users \<equiv> memory_service ''api/security/users/'' (kept_as drop_password merge_known) (kept_as drop_password put_document)"

abbreviation memory_permissions :: "memory service" where
  "memory_permissions \<equiv> memory_service ''api/v2/security/permissions/'' (kept_as add_uri add_new) (kept_as add_uri replace_known)"

lemma drop_password_keeps: "keeps User_table named_user us_Name without_password drop_password"
  unfolding keeps_def
proof (intro allI impI)
  fix e ms assume e: "named_user e \<and> presents (User_table e) ms"
  let ?known = "\<lambda>(k, v). map fold_char k \<in> set (folded (User_table e))" and ?keep = "\<lambda>(k, v). map fold_char k \<noteq> map fold_char ''password''"
  have names: "folded (User_table (without_password e)) = folded (User_table e)" by (simp add: folded_def User_fields)
  have "mset (filter ?known (drop_password ms)) = mset (filter ?keep (filter ?known ms))"
    by (simp add: drop_password_def filter_filter conj_commute split_def)
  also have "\<dots> = mset (filter ?keep (table_members (User_table e)))" using e unfolding presents_def by (metis mset_filter)
  also have "filter ?keep (table_members (User_table e)) = table_members (User_table (without_password e))"
  proof -
    have "list_all (\<lambda>n. map fold_char n \<noteq> map fold_char ''password'') (filter (\<lambda>n. n \<noteq> ''password'') (map fst (User_table e)))"
      unfolding User_fields by code_simp
    then show ?thesis by (simp add: User_table_def without_password_def opt_string_def opt_ptr_def split: option.split)
  qed
  finally show "named_user (without_password e) \<and> us_Name (without_password e) = us_Name e \<and>
      presents (User_table (without_password e)) (drop_password ms)"
    using e by (simp add: presents_def names) (simp add: named_user_def without_password_def)
qed

lemma add_uri_keeps: "keeps PermissionTargetParams_table named_permission pt_Name (\<lambda>t. t) add_uri"
proof -
  have "list_all (\<lambda>n. map fold_char n \<noteq> map fold_char ''uri'') [''name'', ''repo'', ''build'', ''releaseBundle'']" by code_simp
  then have "map fold_char ''uri'' \<notin> set (folded (PermissionTargetParams_table e))" for e
    unfolding folded_def PermissionTargetParams_fields by (auto simp: list_all_iff simp del: list.map)
  then show ?thesis by (simp add: keeps_def presents_def add_uri_def del: list.map)
qed

lemma writable_filter: "writable d (ObjV ms) \<Longrightarrow> writable d (ObjV (filter P ms))"
  by (cases d) (auto simp: list_all_iff)

lemma writable_add_uri: "writable d (ObjV ms) \<Longrightarrow> writable d (ObjV (add_uri ms))"
  by (cases d) (auto simp: add_uri_def)

lemma memory_user_server: "user_server memory_users without_password drop_password memory_docs"
proof -
  have url: "users_url memory_users n = ''u/'' @ ''api/security/users/'' @ n" for n by (simp add: users_url_def)
  have doc: "writable maxNestingDepth (ObjV (table_members (User_table u)))" for u
    unfolding depth_Suc by (rule writable_struct) (rule User_writable)
  have form: "writable maxNestingDepth (ObjV (drop_password ms))" if "writable maxNestingDepth (ObjV ms)" for ms
    unfolding drop_password_def by (rule writable_filter[OF that])
  have "accepts memory_users memory_docs ''PUT'' (''u/'' @ ''api/security/users/'' @ us_Name u) (json_headers memory_users) [200, 201]
      (kept_as drop_password put_document) (us_Name u) (table_members (User_table u))" for u
    by (rule memory_accepts) (use doc form in \<open>auto simp: put_document_def kept_as_def simp del: writable.simps\<close>)
  moreover have "accepts memory_users memory_docs ''POST'' (''u/'' @ ''api/security/users/'' @ us_Name u) (json_headers memory_users) [200, 201]
      (kept_as drop_password merge_known) (us_Name u) (table_members (User_table u))" for u
    by (rule memory_accepts)
      (use doc form[OF writable_merge[OF memory_docs_writable doc]] in \<open>auto simp: merge_known_def kept_as_def simp del: writable.simps\<close>)
  ultimately show ?thesis
    unfolding user_server_def url by (simp only: memory_serves memory_deletes memory_service_simps drop_password_keeps simp_thms)
qed

lemma memory_permission_server: "permission_server memory_permissions (\<lambda>t. t) add_uri memory_docs"
proof -
  have url: "permission_url memory_permissions n = ''u/'' @ ''api/v2/security/permissions/'' @ n" for n by (simp add: permission_url_def)
  have doc: "writable maxNestingDepth (ObjV (table_members (PermissionTargetParams_table u)))" for u
    unfolding depth_Suc by (rule writable_struct) (rule PermissionTarget_writable)
  note form = writable_add_uri[OF doc]
  have "accepts memory_permissions memory_docs ''POST'' (''u/'' @ ''api/v2/security/permissions/'' @ pt_Name u) (json_details memory_permissions)
      [200, 201] (kept_as add_uri add_new) (pt_Name u) (table_members (PermissionTargetParams_table u))" for u
    by (rule memory_accepts) (use doc form in \<open>auto simp: add_new_def kept_as_def simp del: writable.simps split: if_splits\<close>)
  moreover have "accepts memory_permissions memory_docs ''PUT'' (''u/'' @ ''api/v2/security/permissions/'' @ pt_Name u) (json_details memory_permissions)
      [200, 201] (kept_as add_uri replace_known) (pt_Name u) (table_members (PermissionTargetParams_table u))" for u
    by (rule memory_accepts) (use doc form in \<open>auto simp: replace_known_def kept_as_def simp del: writable.simps\<close>)
  ultimately show ?thesis
    unfolding permission_server_def url by (simp only: memory_serves memory_deletes memory_service_simps add_uri_keeps simp_thms)
qed

interpretation memory_users: directory "user_client memory_users" us_Name without_password merge_user named_user "entries_of read_User memory_docs"
    "well_kept User_table named_user us_Name memory_docs"
  by (rule users_directory) (rule memory_user_server)

interpretation memory_permissions: directory "permission_client memory_permissions" pt_Name "\<lambda>t. t" "\<lambda>_ t. t" named_permission
    "entries_of read_PermissionTargetParams memory_docs"
    "well_kept PermissionTargetParams_table named_permission pt_Name memory_docs"
  by (rule permissions_directory) (rule memory_permission_server)

abbreviation ann :: User where
  "ann \<equiv> zero_User\<lparr>us_Name := ''ann'', us_Email := ''a@b'', us_Groups := Some [''dev'']\<rparr>"

lemma example_names: "plain_name ''ann''" "plain_name ''readers''"
  by (simp_all add: plain_name_def unreserved_def)

theorem users_run_witness:
  "\<exists>w'. client_run (user_client memory_users)
      [Create (ann\<lparr>us_Password := ''secret''\<rparr>), Create ann, Change (zero_User\<lparr>us_Name := ''ann'', us_Admin := Some True\<rparr>), Lookup ''ann'',
       Remove ''ann'', Lookup ''ann''] (\<lambda>_. None) =
    Some ([Done, Refused, Done, Found (Some (ann\<lparr>us_Admin := Some True\<rparr>)), Done, Found None], w')"
  using users_run[OF memory_user_server empty_well_kept,
      of "[Create (ann\<lparr>us_Password := ''secret''\<rparr>), Create ann, Change (zero_User\<lparr>us_Name := ''ann'', us_Admin := Some True\<rparr>), Lookup ''ann'',
       Remove ''ann'', Lookup ''ann'']"]
  by (auto simp: empty_entries merge_user_def newer_def newer_list_def zero_User_def without_password_def named_user_def example_names
      simp del: client_run.simps)

abbreviation readers_target :: PermissionTargetParams where
  "readers_target \<equiv> \<lparr>pt_Name = ''readers'', pt_Repo = Some \<lparr>ps_IncludePatterns = [''**''], ps_ExcludePatterns = [], ps_Repositories = Some [''lib''],
     ps_Actions = Some \<lparr>ac_Users = [(''ann'', Some [''read'']), (''bob'', Some [])], ac_Groups = []\<rparr>\<rparr>, pt_Build = None, pt_ReleaseBundle = None\<rparr>"


end
