(* ===== verification/Storage.thy ===== *)
theory Storage
  imports Rest Url Git
begin

text \<open>
  Storage and system services of Artifactory: storage.go with \<open>utils/storageutils.go\<close>, system.go and ping.go of
  \<^verbatim>\<open>artifactory/services\<close>. A struct that is only read has a zero value for the elements of an array that are \<open>null\<close>.
\<close>

section \<open>Requests on a path\<close>

definition rest_url :: "url_env \<Rightarrow> 'w service \<Rightarrow> string \<Rightarrow> (string \<times> string) list \<Rightarrow> string result" where
  "rest_url env s path params = BuildArtifactoryUrl env (sv_url s) path params"

definition with_content :: "string \<Rightarrow> 'w service \<Rightarrow> HttpClientDetails" where
  "with_content contentType s = add_header ''Content-Type'' contentType (details_of s)"

text \<open>A request that needs a URL first.\<close>

definition at_url :: "'a result \<Rightarrow> ('a \<Rightarrow> 'w \<Rightarrow> (go_error option \<times> 'w) option) \<Rightarrow> 'w \<Rightarrow> (go_error option \<times> 'w) option" where
  "at_url url f w = (case url of Inl e \<Rightarrow> Some (Some e, w) | Inr u \<Rightarrow> f u w)"

lemma at_url_simps [simp]:
  "at_url (Inl e) f w = Some (Some e, w)"
  "at_url (Inr u) f w = f u w"
  by (simp_all add: at_url_def)

section \<open>Storage\<close>

record FolderInfoChildren =
  fc_Uri :: string
  fc_Folder :: bool

definition read_FolderInfoChildren :: "members \<Rightarrow> FolderInfoChildren result" where
  "read_FolderInfoChildren ms =
     and_then (read_string ''uri'' ms) (\<lambda>x0. and_then (read_flag ''folder'' ms) (\<lambda>x1.
       Inr \<lparr>fc_Uri = x0, fc_Folder = x1\<rparr>))"

definition zero_FolderInfoChildren :: FolderInfoChildren where
  "zero_FolderInfoChildren =
     \<lparr>fc_Uri = [], fc_Folder = False\<rparr>"

record FolderInfo =
  fi_Uri :: string
  fi_Repo :: string
  fi_Path :: string
  fi_Created :: string
  fi_CreatedBy :: string
  fi_LastModified :: string
  fi_ModifiedBy :: string
  fi_LastUpdated :: string
  fi_Children :: "FolderInfoChildren list"

definition read_FolderInfo :: "members \<Rightarrow> FolderInfo result" where
  "read_FolderInfo ms =
     and_then (read_string ''uri'' ms) (\<lambda>x0. and_then (read_string ''repo'' ms) (\<lambda>x1.
     and_then (read_string ''path'' ms) (\<lambda>x2. and_then (read_string ''created'' ms) (\<lambda>x3.
     and_then (read_string ''createdBy'' ms) (\<lambda>x4. and_then (read_string ''lastModified'' ms) (\<lambda>x5.
     and_then (read_string ''modifiedBy'' ms) (\<lambda>x6. and_then (read_string ''lastUpdated'' ms) (\<lambda>x7.
     and_then (read_list (conv_struct read_FolderInfoChildren) zero_FolderInfoChildren ''children'' ms) (\<lambda>x8.
       Inr \<lparr>fi_Uri = x0, fi_Repo = x1, fi_Path = x2, fi_Created = x3, fi_CreatedBy = x4, fi_LastModified = x5,
            fi_ModifiedBy = x6, fi_LastUpdated = x7, fi_Children = x8\<rparr>)))))))))"

definition zero_FolderInfo :: FolderInfo where
  "zero_FolderInfo =
     \<lparr>fi_Uri = [], fi_Repo = [], fi_Path = [], fi_Created = [], fi_CreatedBy = [], fi_LastModified = [],
      fi_ModifiedBy = [], fi_LastUpdated = [], fi_Children = []\<rparr>"

record MetadataTimestamps =
  mt_Properties :: string

definition read_MetadataTimestamps :: "members \<Rightarrow> MetadataTimestamps result" where
  "read_MetadataTimestamps ms =
     and_then (read_string ''properties'' ms) (\<lambda>x0.
       Inr \<lparr>mt_Properties = x0\<rparr>)"

definition zero_MetadataTimestamps :: MetadataTimestamps where
  "zero_MetadataTimestamps =
     \<lparr>mt_Properties = []\<rparr>"

record FileListFile =
  ff_Uri :: string
  ff_Size :: string
  ff_LastModified :: string
  ff_Folder :: bool
  ff_Sha1 :: string
  ff_Sha2 :: string
  ff_MetadataTimestamps :: MetadataTimestamps

definition read_FileListFile :: "members \<Rightarrow> FileListFile result" where
  "read_FileListFile ms =
     and_then (read_string ''uri'' ms) (\<lambda>x0. and_then (read_field conv_number [] ''size'' ms) (\<lambda>x1.
     and_then (read_string ''lastModified'' ms) (\<lambda>x2. and_then (read_flag ''folder'' ms) (\<lambda>x3.
     and_then (read_string ''sha1'' ms) (\<lambda>x4. and_then (read_string ''sha2'' ms) (\<lambda>x5.
     and_then (read_field (conv_struct read_MetadataTimestamps) zero_MetadataTimestamps ''mdTimestamps'' ms) (\<lambda>x6.
       Inr \<lparr>ff_Uri = x0, ff_Size = x1, ff_LastModified = x2, ff_Folder = x3, ff_Sha1 = x4, ff_Sha2 = x5,
            ff_MetadataTimestamps = x6\<rparr>)))))))"

definition zero_FileListFile :: FileListFile where
  "zero_FileListFile =
     \<lparr>ff_Uri = [], ff_Size = [], ff_LastModified = [], ff_Folder = False, ff_Sha1 = [], ff_Sha2 = [],
      ff_MetadataTimestamps = zero_MetadataTimestamps\<rparr>"

record FileListResponse =
  fl_Uri :: string
  fl_Created :: string
  fl_Files :: "FileListFile list"

definition read_FileListResponse :: "members \<Rightarrow> FileListResponse result" where
  "read_FileListResponse ms =
     and_then (read_string ''uri'' ms) (\<lambda>x0. and_then (read_string ''created'' ms) (\<lambda>x1.
     and_then (read_list (conv_struct read_FileListFile) zero_FileListFile ''files'' ms) (\<lambda>x2.
       Inr \<lparr>fl_Uri = x0, fl_Created = x1, fl_Files = x2\<rparr>)))"

definition zero_FileListResponse :: FileListResponse where
  "zero_FileListResponse =
     \<lparr>fl_Uri = [], fl_Created = [], fl_Files = []\<rparr>"

record BinariesSummary =
  bs_BinariesCount :: string
  bs_BinariesSize :: string
  bs_ArtifactsSize :: string
  bs_Optimization :: string
  bs_ItemsCount :: string
  bs_ArtifactsCount :: string

definition read_BinariesSummary :: "members \<Rightarrow> BinariesSummary result" where
  "read_BinariesSummary ms =
     and_then (read_string ''binariesCount'' ms) (\<lambda>x0.
     and_then (read_string ''binariesSize'' ms) (\<lambda>x1.
     and_then (read_string ''artifactsSize'' ms) (\<lambda>x2.
     and_then (read_string ''optimization'' ms) (\<lambda>x3. and_then (read_string ''itemsCount'' ms) (\<lambda>x4.
     and_then (read_string ''artifactsCount'' ms) (\<lambda>x5.
       Inr \<lparr>bs_BinariesCount = x0, bs_BinariesSize = x1, bs_ArtifactsSize = x2, bs_Optimization = x3,
            bs_ItemsCount = x4, bs_ArtifactsCount = x5\<rparr>))))))"

definition zero_BinariesSummary :: BinariesSummary where
  "zero_BinariesSummary =
     \<lparr>bs_BinariesCount = [], bs_BinariesSize = [], bs_ArtifactsSize = [], bs_Optimization = [],
      bs_ItemsCount = [], bs_ArtifactsCount = []\<rparr>"

record RepositorySummary =
  rs_RepoKey :: string
  rs_RepoType :: string
  rs_FoldersCount :: string
  rs_FilesCount :: string
  rs_UsedSpace :: string
  rs_UsedSpaceInBytes :: string
  rs_ItemsCount :: string
  rs_PackageType :: string
  rs_ProjectKey :: string
  rs_Percentage :: string

definition read_RepositorySummary :: "members \<Rightarrow> RepositorySummary result" where
  "read_RepositorySummary ms =
     and_then (read_string ''repoKey'' ms) (\<lambda>x0. and_then (read_string ''repoType'' ms) (\<lambda>x1.
     and_then (read_field conv_number [] ''foldersCount'' ms) (\<lambda>x2.
     and_then (read_field conv_number [] ''filesCount'' ms) (\<lambda>x3.
     and_then (read_string ''usedSpace'' ms) (\<lambda>x4.
     and_then (read_field conv_number [] ''usedSpaceInBytes'' ms) (\<lambda>x5.
     and_then (read_field conv_number [] ''itemsCount'' ms) (\<lambda>x6.
     and_then (read_string ''packageType'' ms) (\<lambda>x7. and_then (read_string ''projectKey'' ms) (\<lambda>x8.
     and_then (read_string ''percentage'' ms) (\<lambda>x9.
       Inr \<lparr>rs_RepoKey = x0, rs_RepoType = x1, rs_FoldersCount = x2, rs_FilesCount = x3, rs_UsedSpace = x4,
            rs_UsedSpaceInBytes = x5, rs_ItemsCount = x6, rs_PackageType = x7, rs_ProjectKey = x8,
            rs_Percentage = x9\<rparr>))))))))))"

definition zero_RepositorySummary :: RepositorySummary where
  "zero_RepositorySummary =
     \<lparr>rs_RepoKey = [], rs_RepoType = [], rs_FoldersCount = [], rs_FilesCount = [], rs_UsedSpace = [],
      rs_UsedSpaceInBytes = [], rs_ItemsCount = [], rs_PackageType = [], rs_ProjectKey = [],
      rs_Percentage = []\<rparr>"

record FileStoreSummary =
  fs_StorageType :: string
  fs_StorageDirectory :: string
  fs_TotalSpace :: string
  fs_UsedSpace :: string
  fs_FreeSpace :: string

definition read_FileStoreSummary :: "members \<Rightarrow> FileStoreSummary result" where
  "read_FileStoreSummary ms =
     and_then (read_string ''storageType'' ms) (\<lambda>x0.
     and_then (read_string ''storageDirectory'' ms) (\<lambda>x1.
     and_then (read_string ''totalSpace'' ms) (\<lambda>x2. and_then (read_string ''usedSpace'' ms) (\<lambda>x3.
     and_then (read_string ''freeSpace'' ms) (\<lambda>x4.
       Inr \<lparr>fs_StorageType = x0, fs_StorageDirectory = x1, fs_TotalSpace = x2, fs_UsedSpace = x3,
            fs_FreeSpace = x4\<rparr>)))))"

definition zero_FileStoreSummary :: FileStoreSummary where
  "zero_FileStoreSummary =
     \<lparr>fs_StorageType = [], fs_StorageDirectory = [], fs_TotalSpace = [], fs_UsedSpace = [],
      fs_FreeSpace = []\<rparr>"

record StorageInfo =
  si_BinariesSummary :: BinariesSummary
  si_RepositoriesSummaryList :: "RepositorySummary list"
  si_FileStoreSummary :: FileStoreSummary

text \<open>Embedded structs with a name of their own are members like any other.\<close>

definition read_StorageInfo :: "members \<Rightarrow> StorageInfo result" where
  "read_StorageInfo ms =
     and_then (read_field (conv_struct read_BinariesSummary) zero_BinariesSummary ''binariesSummary'' ms) (\<lambda>x0.
     and_then (read_list (conv_struct read_RepositorySummary) zero_RepositorySummary ''repositoriesSummaryList'' ms) (\<lambda>x1.
     and_then (read_field (conv_struct read_FileStoreSummary) zero_FileStoreSummary ''fileStoreSummary'' ms) (\<lambda>x2.
       Inr \<lparr>si_BinariesSummary = x0, si_RepositoriesSummaryList = x1, si_FileStoreSummary = x2\<rparr>)))"

definition FindRepositoryWithKey :: "StorageInfo \<Rightarrow> string \<Rightarrow> RepositorySummary result" where
  "FindRepositoryWithKey si key =
     (case List.find (\<lambda>rs. rs_RepoKey rs = key) (si_RepositoriesSummaryList si) of
        Some rs \<Rightarrow> Inr rs
      | None \<Rightarrow> Inl (Err (''Failed to locate repository with key: '' @ key)))"

definition StorageRestApi :: string where
  "StorageRestApi = ''api/storage/''"

definition FolderInfo_request :: "url_env \<Rightarrow> 'w service \<Rightarrow> string \<Rightarrow> 'w \<Rightarrow> (FolderInfo result \<times> 'w) option" where
  "FolderInfo_request env s relativePath w =
     (case rest_url env s (path_join [StorageRestApi, relativePath]) [] of
        Inl e \<Rightarrow> Some (Inl e, w)
      | Inr url \<Rightarrow> get_decoded s url (read_as read_FolderInfo) w)"

record FileListParams =
  lp_Deep :: bool
  lp_Depth :: int
  lp_ListFolders :: bool
  lp_MetadataTimestamps :: bool
  lp_IncludeRootPath :: bool

definition addParamIfTrue :: "string \<Rightarrow> bool \<Rightarrow> (string \<times> string) list" where
  "addParamIfTrue paramName b = (if b then [(paramName, ''1'')] else [])"

definition list_params :: "FileListParams \<Rightarrow> (string \<times> string) list" where
  "list_params p =
     [(''list'', ''true'')] @ addParamIfTrue ''deep'' (lp_Deep p) @ addParamIfTrue ''listFolders'' (lp_ListFolders p) @
     addParamIfTrue ''mdTimestamps'' (lp_MetadataTimestamps p) @ addParamIfTrue ''includeRootPath'' (lp_IncludeRootPath p) @
     (if 0 < lp_Depth p then [(''depth'', itoa (lp_Depth p))] else [])"

definition FileList :: "url_env \<Rightarrow> 'w service \<Rightarrow> string \<Rightarrow> FileListParams \<Rightarrow> 'w \<Rightarrow> (FileListResponse result \<times> 'w) option" where
  "FileList env s relativePath optionalParams w =
     (case rest_url env s (path_join [StorageRestApi, relativePath]) (list_params optionalParams) of
        Inl e \<Rightarrow> Some (Inl e, w)
      | Inr url \<Rightarrow> get_decoded s url (read_as read_FileListResponse) w)"

definition StorageInfo_request :: "'w service \<Rightarrow> 'w \<Rightarrow> (StorageInfo result \<times> 'w) option" where
  "StorageInfo_request s = get_decoded s (sv_url s @ ''api/storageinfo'') (read_as read_StorageInfo)"

definition StorageInfoRefresh :: "'w service \<Rightarrow> 'w \<Rightarrow> (go_error option \<times> 'w) option" where
  "StorageInfoRefresh s w =
     finished s [202] (jc_SendPost (sv_client s) (sv_url s @ ''api/storageinfo/calculate'') None (details_of s) w)"

section \<open>System\<close>

definition apiSystem :: string where
  "apiSystem = ''api/system/''"

definition system_sendGet :: "'w service \<Rightarrow> string \<Rightarrow> 'w \<Rightarrow> (string result \<times> 'w) option" where
  "system_sendGet ss endpoint w =
     after_reply (jc_SendGet (sv_client ss) (sv_url ss @ apiSystem @ endpoint) True (details_of ss) w) (\<lambda>(resp, body, err) w.
       Some (case (err, resp) of
               (Some e, _) \<Rightarrow> Inl e
             | (None, None) \<Rightarrow> Inl (Panic ''nil pointer dereference'')
             | (None, Some r) \<Rightarrow>
                 (case CheckResponseStatusWithBody (jc_indent (sv_client ss)) r body [200, 201] of
                    Some e \<Rightarrow> Inl (Err (''failed while attempting to get Artifactory '' @ endpoint @ '':'' @ [CHR 0x0A] @ e))
                  | None \<Rightarrow> Inr body), w))"

definition sendEmptyPost :: "'w service \<Rightarrow> string \<Rightarrow> 'w \<Rightarrow> (go_error option \<times> 'w) option" where
  "sendEmptyPost ss endpoint w =
     finished ss [200, 201] (jc_SendPost (sv_client ss) (sv_url ss @ apiSystem @ endpoint) None (details_of ss) w)"

text \<open>The answer of \<open>sendGet\<close>, read by a function.\<close>

definition got :: "(string \<Rightarrow> 'a result) \<Rightarrow> (string result \<times> 'w) option \<Rightarrow> ('a result \<times> 'w) option" where
  "got f = map_option (\<lambda>(r, w). (and_then r f, w))"

definition version_answer :: "'w service \<Rightarrow> string \<Rightarrow> string result" where
  "version_answer ss body =
     (case decoded ss (read_as (read_string ''version'')) body of
        Inl (Err e) \<Rightarrow> Inl (Err (''couldn't parse Artifactory server response: '' @ e))
      | Inl e \<Rightarrow> Inl e
      | Inr version \<Rightarrow> Inr (TrimSpace version))"

definition GetVersion :: "'w service \<Rightarrow> 'w \<Rightarrow> (string result \<times> 'w) option" where
  "GetVersion ss w = got (version_answer ss) (system_sendGet ss ''version'' w)"

definition GetServiceId :: "'w service \<Rightarrow> 'w \<Rightarrow> (string result \<times> 'w) option" where
  "GetServiceId ss = system_sendGet ss ''service_id''"

record status_node =
  nd_Id :: string
  nd_State :: string

definition read_status_node :: "members \<Rightarrow> status_node result" where
  "read_status_node ms = and_then (read_string ''id'' ms) (\<lambda>i. and_then (read_string ''state'' ms) (\<lambda>s. Inr \<lparr>nd_Id = i, nd_State = s\<rparr>))"

definition artifactoryStatus :: "members \<Rightarrow> status_node list result" where
  "artifactoryStatus = read_list (conv_struct read_status_node) \<lparr>nd_Id = [], nd_State = []\<rparr> ''nodes''"

definition running_nodes :: "status_node list \<Rightarrow> string list" where
  "running_nodes nodes = map (\<lambda>n. TrimSpace (nd_Id n)) (filter (\<lambda>n. nd_State n = ''RUNNING'') nodes)"

definition GetRunningNodes :: "'w service \<Rightarrow> 'w \<Rightarrow> (string list result \<times> 'w) option" where
  "GetRunningNodes ss w =
     got (\<lambda>body. map_sum id running_nodes (decoded ss (read_as artifactoryStatus) body)) (system_sendGet ss ''status'' w)"

definition GetConfigDescriptor :: "'w service \<Rightarrow> 'w \<Rightarrow> (string result \<times> 'w) option" where
  "GetConfigDescriptor ss = system_sendGet ss ''configuration''"

definition ActivateKeyEncryption :: "'w service \<Rightarrow> 'w \<Rightarrow> (go_error option \<times> 'w) option" where
  "ActivateKeyEncryption ss = sendEmptyPost ss ''encrypt''"

text \<open>The flag tells whether the keys were encrypted before.\<close>

definition DeactivateKeyEncryption :: "'w service \<Rightarrow> 'w \<Rightarrow> ((bool \<times> go_error option) \<times> 'w) option" where
  "DeactivateKeyEncryption ss w =
     after_reply (jc_SendPost (sv_client ss) (sv_url ss @ apiSystem @ ''decrypt'') None (details_of ss) w) (\<lambda>reply w.
       Some (case reply of
               (_, _, Some e) \<Rightarrow> (False, Some e)
             | (None, _, None) \<Rightarrow> (False, Some (Panic ''nil pointer dereference''))
             | (Some r, _, None) \<Rightarrow>
                 if StatusCode r = 409 then (False, None)
                 else case checked ss [200, 201] reply of Inl e \<Rightarrow> (False, Some e) | Inr _ \<Rightarrow> (True, None), w))"

text \<open>The body is returned with the error of an unexpected status.\<close>

definition Ping :: "url_env \<Rightarrow> 'w service \<Rightarrow> 'w \<Rightarrow> ((string \<times> go_error option) \<times> 'w) option" where
  "Ping env ps w =
     (case rest_url env ps ''api/system/ping'' [] of
        Inl e \<Rightarrow> Some (([], Some e), w)
      | Inr url \<Rightarrow>
          after_reply (jc_SendGet (sv_client ps) url True (details_of ps) w) (\<lambda>reply w.
            Some (case reply of
                    (_, _, Some e) \<Rightarrow> ([], Some e)
                  | (_, body, None) \<Rightarrow> (body, case checked ps [200] reply of Inl e \<Rightarrow> Some e | Inr _ \<Rightarrow> None), w)))"

end
