(* ===== verification/Admin.thy ===== *)
theory Admin
  imports Storage Distribution Repository
begin

text \<open>
  Administrative services of Artifactory: export.go, import.go, promote.go, dockerpromote.go, discardBuilds.go, distribute.go,
  buildinfo.go, federation.go, deleterepository.go, readfile.go and the replication services, all of
  \<^verbatim>\<open>artifactory/services\<close>.

  A time is the number of nanoseconds since an epoch; the clock and the format of a date are parameters.
\<close>

section \<open>Export and import\<close>

record ExportBody =
  ex_ExportPath :: string
  ex_IncludeMetadata :: "bool option"
  ex_CreateArchive :: "bool option"
  ex_Verbose :: "bool option"
  ex_M2 :: "bool option"
  ex_ExcludeContent :: "bool option"

definition ExportBody_table :: "ExportBody \<Rightarrow> field_table" where
  "ExportBody_table p =
     [(''exportPath'', opt_string (ex_ExportPath p)), (''includeMetadata'', opt_ptr BoolV (ex_IncludeMetadata p)),
      (''createArchive'', opt_ptr BoolV (ex_CreateArchive p)), (''verbose'', opt_ptr BoolV (ex_Verbose p)),
      (''m2'', opt_ptr BoolV (ex_M2 p)), (''excludeContent'', opt_ptr BoolV (ex_ExcludeContent p))]"

definition NewExportParams :: "string \<Rightarrow> ExportBody" where
  "NewExportParams exportPath =
     \<lparr>ex_ExportPath = exportPath, ex_IncludeMetadata = None, ex_CreateArchive = None, ex_Verbose = None, ex_M2 = None,
      ex_ExcludeContent = None\<rparr>"

text \<open>A dry run only prints the parameters.\<close>

definition Export :: "bool \<Rightarrow> 'w service \<Rightarrow> ExportBody \<Rightarrow> 'w \<Rightarrow> (go_error option \<times> 'w) option" where
  "Export dryRun drs exportParams w =
     (if dryRun then Some (None, w)
      else finished drs [200]
             (jc_SendPost (sv_client drs) (sv_url drs @ ''api/export/system'') (Some (document (ExportBody_table exportParams)))
                (json_details drs) w))"

record ImportBody =
  im_ImportPath :: string
  im_IncludeMetadata :: "bool option"
  im_Verbose :: "bool option"
  im_FailOnError :: "bool option"
  im_FailIfEmpty :: "bool option"

definition ImportBody_table :: "ImportBody \<Rightarrow> field_table" where
  "ImportBody_table p =
     [(''importPath'', opt_string (im_ImportPath p)), (''includeMetadata'', opt_ptr BoolV (im_IncludeMetadata p)),
      (''verbose'', opt_ptr BoolV (im_Verbose p)), (''failOnError'', opt_ptr BoolV (im_FailOnError p)),
      (''failIfEmpty'', opt_ptr BoolV (im_FailIfEmpty p))]"

definition NewImportParams :: "string \<Rightarrow> ImportBody" where
  "NewImportParams importPath =
     \<lparr>im_ImportPath = importPath, im_IncludeMetadata = None, im_Verbose = None, im_FailOnError = None, im_FailIfEmpty = None\<rparr>"

definition Import :: "bool \<Rightarrow> 'w service \<Rightarrow> ImportBody \<Rightarrow> 'w \<Rightarrow> (go_error option \<times> 'w) option" where
  "Import dryRun drs importParams w =
     (if dryRun then Some (None, w)
      else finished drs [200]
             (jc_SendPost (sv_client drs) (sv_url drs @ ''api/import/system'') (Some (document (ImportBody_table importParams)))
                (json_details drs) w))"

section \<open>Promotion\<close>

record PromotionParams =
  pr_BuildName :: string
  pr_BuildNumber :: string
  pr_ProjectKey :: string
  pr_TargetRepo :: string
  pr_Status :: string
  pr_Comment :: string
  pr_Copy :: bool
  pr_FailFast :: bool
  pr_IncludeDependencies :: bool
  pr_SourceRepo :: string
  pr_Properties :: string

record BuildPromotionBody =
  pb_Comment :: string
  pb_SourceRepo :: string
  pb_TargetRepo :: string
  pb_Status :: string
  pb_IncludeDependencies :: "bool option"
  pb_Copy :: "bool option"
  pb_FailFast :: bool
  pb_DryRun :: "bool option"
  pb_Properties :: "(string \<times> string list) list"

definition BuildPromotionBody_table :: "BuildPromotionBody \<Rightarrow> field_table" where
  "BuildPromotionBody_table p =
     [(''comment'', opt_string (pb_Comment p)), (''sourceRepo'', opt_string (pb_SourceRepo p)),
      (''targetRepo'', opt_string (pb_TargetRepo p)), (''status'', opt_string (pb_Status p)),
      (''dependencies'', opt_ptr BoolV (pb_IncludeDependencies p)), (''copy'', opt_ptr BoolV (pb_Copy p)),
      (''failFast'', Some (BoolV (pb_FailFast p))), (''dryRun'', opt_ptr BoolV (pb_DryRun p)),
      (''properties'', opt_map (map (\<lambda>(k, vs). (k, Some vs)) (pb_Properties p)))]"

definition promotion_body :: "bool \<Rightarrow> PromotionParams \<Rightarrow> properties \<Rightarrow> BuildPromotionBody" where
  "promotion_body dryRun p props =
     \<lparr>pb_Comment = pr_Comment p, pb_SourceRepo = pr_SourceRepo p, pb_TargetRepo = pr_TargetRepo p, pb_Status = pr_Status p,
      pb_IncludeDependencies = Some (pr_IncludeDependencies p), pb_Copy = Some (pr_Copy p), pb_FailFast = pr_FailFast p,
      pb_DryRun = Some dryRun, pb_Properties = ToMap props\<rparr>"

definition promotion_url :: "url_env \<Rightarrow> 'w service \<Rightarrow> PromotionParams \<Rightarrow> string result" where
  "promotion_url env ps p =
     rest_url env ps (path_join [''api/build/promote/'', pr_BuildName p, pr_BuildNumber p])
       (if pr_ProjectKey p \<noteq> [] then [(''project'', pr_ProjectKey p)] else [])"

text \<open>In a dry run the server is told so.\<close>

definition BuildPromote :: "url_env \<Rightarrow> bool \<Rightarrow> 'w service \<Rightarrow> PromotionParams \<Rightarrow> 'w \<Rightarrow> (go_error option \<times> 'w) option" where
  "BuildPromote env dryRun ps p =
     at_url (promotion_url env ps p) (\<lambda>url w.
       case ParseProperties (pr_Properties p) of
         (Some e, _) \<Rightarrow> Some (Some e, w)
       | (None, props) \<Rightarrow>
           finished ps [200]
             (jc_SendPost (sv_client ps) url (Some (document (BuildPromotionBody_table (promotion_body dryRun p props))))
                (with_content ''application/vnd.org.jfrog.artifactory.build.PromotionRequest+json'' ps) w))"

record DockerPromoteParams =
  dp_SourceRepo :: string
  dp_TargetRepo :: string
  dp_SourceDockerImage :: string
  dp_TargetDockerImage :: string
  dp_SourceTag :: string
  dp_TargetTag :: string
  dp_Copy :: bool

definition NewDockerPromoteParams :: "string \<Rightarrow> string \<Rightarrow> string \<Rightarrow> DockerPromoteParams" where
  "NewDockerPromoteParams sourceDockerImage sourceRepo targetRepo =
     \<lparr>dp_SourceRepo = sourceRepo, dp_TargetRepo = targetRepo, dp_SourceDockerImage = sourceDockerImage, dp_TargetDockerImage = [],
      dp_SourceTag = [], dp_TargetTag = [], dp_Copy = False\<rparr>"

definition DockerPromoteBody_table :: "DockerPromoteParams \<Rightarrow> field_table" where
  "DockerPromoteBody_table p =
     [(''targetRepo'', Some (StrV (dp_TargetRepo p))), (''dockerRepository'', Some (StrV (dp_SourceDockerImage p))),
      (''targetDockerRepository'', Some (StrV (dp_TargetDockerImage p))), (''tag'', Some (StrV (dp_SourceTag p))),
      (''targetTag'', Some (StrV (dp_TargetTag p))), (''copy'', Some (BoolV (dp_Copy p)))]"

definition PromoteDocker :: "url_env \<Rightarrow> 'w service \<Rightarrow> DockerPromoteParams \<Rightarrow> 'w \<Rightarrow> (go_error option \<times> 'w) option" where
  "PromoteDocker env ps p =
     at_url (rest_url env ps (path_join [''api/docker'', dp_SourceRepo p, ''v2'', ''promote'']) []) (\<lambda>url w.
       finished ps [200] (jc_SendPost (sv_client ps) url (Some (document (DockerPromoteBody_table p))) (json_details ps) w))"

section \<open>Builds\<close>

record DiscardBuildsParams =
  db_DeleteArtifacts :: bool
  db_BuildName :: string
  db_ProjectKey :: string
  db_MaxDays :: string
  db_MaxBuilds :: string
  db_ExcludeBuilds :: string
  db_Async :: bool

definition day :: int where
  "day = 24 * 3600 * 10 ^ 9"

text \<open>A duration is a machine integer of 64 bits.\<close>

definition calculateMinimumBuildDate :: "(int \<Rightarrow> string) \<Rightarrow> int \<Rightarrow> string \<Rightarrow> string result" where
  "calculateMinimumBuildDate format startingDate maxDaysString =
     (case atoi maxDaysString of
        None \<Rightarrow> Inl (Err (''strconv.Atoi: parsing '' @ maxDaysString))
      | Some maxDays \<Rightarrow> Inr (format (startingDate + int64 (- day * maxDays))))"

definition discard_date :: "(int \<Rightarrow> string) \<Rightarrow> int \<Rightarrow> DiscardBuildsParams \<Rightarrow> string result" where
  "discard_date format now p = (if db_MaxDays p \<noteq> [] then calculateMinimumBuildDate format now (db_MaxDays p) else Inr [])"

definition excluded_builds :: "string \<Rightarrow> string list" where
  "excluded_builds s = (if s \<noteq> [] then split_char CHR '','' s else [])"

definition DiscardBuildsBody_table :: "string \<Rightarrow> DiscardBuildsParams \<Rightarrow> field_table" where
  "DiscardBuildsBody_table date p =
     [(''minimumBuildDate'', opt_string date), (''count'', opt_string (db_MaxBuilds p)),
      (''buildNumbersNotToBeDiscarded'', opt_list StrV (excluded_builds (db_ExcludeBuilds p))),
      (''deleteBuildArtifacts'', Some (BoolV (db_DeleteArtifacts p)))]"

definition discard_query :: "DiscardBuildsParams \<Rightarrow> string" where
  "discard_query p = ''?async='' @ bool_text (db_Async p) @ (if db_ProjectKey p \<noteq> [] then ''&project='' @ db_ProjectKey p else [])"

definition DiscardBuilds :: "url_env \<Rightarrow> (int \<Rightarrow> string) \<Rightarrow> ('w \<Rightarrow> int) \<Rightarrow> 'w service \<Rightarrow> DiscardBuildsParams \<Rightarrow> 'w \<Rightarrow> (go_error option \<times> 'w) option" where
  "DiscardBuilds env format now ds p =
     at_url (rest_url env ds (path_join [''api/build/retention/'', db_BuildName p]) []) (\<lambda>url w.
       case discard_date format (now w) p of
         Inl e \<Rightarrow> Some (Some e, w)
       | Inr date \<Rightarrow>
           finished ds [204]
             (jc_SendPost (sv_client ds) (url @ discard_query p) (Some (document (DiscardBuildsBody_table date p))) (json_details ds) w))"

record BuildDistributionParams =
  bd_SourceRepos :: string
  bd_TargetRepo :: string
  bd_GpgPassphrase :: string
  bd_Publish :: bool
  bd_OverrideExistingFiles :: bool
  bd_Async :: bool
  bd_BuildName :: string
  bd_BuildNumber :: string

definition BuildDistributionBody_table :: "bool \<Rightarrow> BuildDistributionParams \<Rightarrow> field_table" where
  "BuildDistributionBody_table dryRun p =
     [(''sourceRepos'', opt_list StrV (excluded_builds (bd_SourceRepos p))), (''targetRepo'', opt_string (bd_TargetRepo p)),
      (''gpgPassphrase'', opt_string (bd_GpgPassphrase p)), (''publish'', Some (BoolV (bd_Publish p))),
      (''overrideExistingFiles'', opt_ptr BoolV (Some (bd_OverrideExistingFiles p))), (''async'', opt_ptr BoolV (Some (bd_Async p))),
      (''dryRun'', opt_ptr BoolV (Some dryRun))]"

definition BuildDistribute :: "url_env \<Rightarrow> bool \<Rightarrow> 'w service \<Rightarrow> BuildDistributionParams \<Rightarrow> 'w \<Rightarrow> (go_error option \<times> 'w) option" where
  "BuildDistribute env dryRun ds p =
     at_url (rest_url env ds (path_join [''api/build/distribute/'', bd_BuildName p, bd_BuildNumber p]) []) (\<lambda>url w.
       finished ds [200]
         (jc_SendPost (sv_client ds) url (Some (document (BuildDistributionBody_table dryRun p))) (json_details ds) w))"

text \<open>The build info is a struct of another module, here its text. The summary is returned in every case.\<close>

definition PublishBuildInfo :: "bool \<Rightarrow> 'w service \<Rightarrow> string \<Rightarrow> string \<Rightarrow> 'w \<Rightarrow> ((Sha256Summary \<times> go_error option) \<times> 'w) option" where
  "PublishBuildInfo dryRun bis content projectKey w =
     (if dryRun then Some ((NewSha256Summary, None), w)
      else after_reply (jc_SendPut (sv_client bis) (sv_url bis @ ''api/build'' @ GetProjectQueryParam projectKey) (Some content)
                          (with_content ''application/vnd.org.jfrog.artifactory+json'' bis) w) (\<lambda>reply w.
             Some (case checked bis [200, 201, 204] reply of
                     Inl e \<Rightarrow> (NewSha256Summary, Some e)
                   | Inr (r, _) \<Rightarrow> (signed_summary r, None), w)))"

section \<open>Repositories\<close>

definition DeleteRepository :: "'w service \<Rightarrow> string \<Rightarrow> 'w \<Rightarrow> (go_error option \<times> 'w) option" where
  "DeleteRepository drs repoKey w =
     finished drs [200] (jc_SendDelete (sv_client drs) (sv_url drs @ ''api/repositories/'' @ repoKey) None (details_of drs) w)"

definition federation_request :: "'w service \<Rightarrow> string \<Rightarrow> 'w \<Rightarrow> (go_error option \<times> 'w) option" where
  "federation_request fs path w =
     finished fs [200] (jc_SendPost (sv_client fs) (sv_url fs @ ''api/federation/'' @ path) None (json_details fs) w)"

definition ConvertLocalToFederated :: "'w service \<Rightarrow> string \<Rightarrow> 'w \<Rightarrow> (go_error option \<times> 'w) option" where
  "ConvertLocalToFederated fs repoKey = federation_request fs (''migrate/'' @ PathEscape repoKey)"

definition TriggerFederatedFullSyncAll :: "'w service \<Rightarrow> string \<Rightarrow> 'w \<Rightarrow> (go_error option \<times> 'w) option" where
  "TriggerFederatedFullSyncAll fs repoKey = federation_request fs (''fullSync/'' @ PathEscape repoKey)"

definition TriggerFederatedFullSyncMirror :: "'w service \<Rightarrow> string \<Rightarrow> string \<Rightarrow> 'w \<Rightarrow> (go_error option \<times> 'w) option" where
  "TriggerFederatedFullSyncMirror fs repoKey mirrorUrl =
     federation_request fs (''fullSync/'' @ PathEscape repoKey @ ''?mirror='' @ query_escape mirrorUrl)"

text \<open>The body of a remote file, with the error it ends with.\<close>

definition jc_ReadRemoteFile :: "'w JfrogHttpClient \<Rightarrow> string \<Rightarrow> HttpClientDetails \<Rightarrow> 'w \<Rightarrow>
    (((string \<times> string option) option \<times> Response option \<times> go_error option) \<times> 'w) option" where
  "jc_ReadRemoteFile rtc downloadPath details w =
     (case runPreRequestInterceptors (preRequestInterceptors rtc) details of
        Inl e \<Rightarrow> Some ((None, None, Some e), w)
      | Inr details \<Rightarrow>
          map_option (\<lambda>((body, resp, err), w). ((body, resp, map_option (\<lambda>e. Err (error_text e)) err), w))
            (Http.ReadRemoteFile (jc_redirects rtc) (httpClient rtc) downloadPath details w))"

definition readfile_ReadRemoteFile :: "url_env \<Rightarrow> 'w service \<Rightarrow> string \<Rightarrow> 'w \<Rightarrow> ((string \<times> string option) option result \<times> 'w) option" where
  "readfile_ReadRemoteFile env ds downloadPath w =
     (case rest_url env ds downloadPath [] of
        Inl e \<Rightarrow> Some (Inl e, w)
      | Inr url \<Rightarrow>
          (case jc_ReadRemoteFile (sv_client ds) url (details_of ds) w of
             None \<Rightarrow> None
           | Some ((body, resp, err), w) \<Rightarrow>
               Some (case (err, resp) of
                       (Some e, _) \<Rightarrow> Inl e
                     | (None, None) \<Rightarrow> Inl (Panic ''nil pointer dereference'')
                     | (None, Some r) \<Rightarrow> (case CheckResponseStatus r [200] of Some e \<Rightarrow> Inl (Err e) | None \<Rightarrow> Inr body), w)))"

section \<open>Replications\<close>

record replicationBody =
  rb_Username :: string
  rb_Password :: string
  rb_URL :: string
  rb_CronExp :: string
  rb_RepoKey :: string
  rb_EnableEventReplication :: bool
  rb_SocketTimeoutMillis :: int
  rb_Enabled :: bool
  rb_SyncDeletes :: bool
  rb_SyncProperties :: bool
  rb_SyncStatistics :: bool
  rb_PathPrefix :: string
  rb_IncludePathPrefixPattern :: string

definition replicationBody_table :: "replicationBody \<Rightarrow> field_table" where
  "replicationBody_table p =
     [(''username'', Some (StrV (rb_Username p))), (''password'', Some (StrV (rb_Password p))),
      (''url'', Some (StrV (rb_URL p))), (''cronExp'', Some (StrV (rb_CronExp p))),
      (''repoKey'', Some (StrV (rb_RepoKey p))),
      (''enableEventReplication'', Some (BoolV (rb_EnableEventReplication p))),
      (''socketTimeoutMillis'', Some (int_value (rb_SocketTimeoutMillis p))),
      (''enabled'', Some (BoolV (rb_Enabled p))), (''syncDeletes'', Some (BoolV (rb_SyncDeletes p))),
      (''syncProperties'', Some (BoolV (rb_SyncProperties p))),
      (''syncStatistics'', Some (BoolV (rb_SyncStatistics p))), (''pathPrefix'', Some (StrV (rb_PathPrefix p))),
      (''includePathPrefixPattern'', Some (StrV (rb_IncludePathPrefixPattern p)))]"

definition read_replicationBody :: "members \<Rightarrow> replicationBody result" where
  "read_replicationBody ms =
     and_then (read_string ''username'' ms) (\<lambda>x0. and_then (read_string ''password'' ms) (\<lambda>x1.
     and_then (read_string ''url'' ms) (\<lambda>x2. and_then (read_string ''cronExp'' ms) (\<lambda>x3.
     and_then (read_string ''repoKey'' ms) (\<lambda>x4.
     and_then (read_flag ''enableEventReplication'' ms) (\<lambda>x5.
     and_then (read_int ''socketTimeoutMillis'' ms) (\<lambda>x6. and_then (read_flag ''enabled'' ms) (\<lambda>x7.
     and_then (read_flag ''syncDeletes'' ms) (\<lambda>x8. and_then (read_flag ''syncProperties'' ms) (\<lambda>x9.
     and_then (read_flag ''syncStatistics'' ms) (\<lambda>x10.
     and_then (read_string ''pathPrefix'' ms) (\<lambda>x11.
     and_then (read_string ''includePathPrefixPattern'' ms) (\<lambda>x12.
       Inr \<lparr>rb_Username = x0, rb_Password = x1, rb_URL = x2, rb_CronExp = x3, rb_RepoKey = x4,
            rb_EnableEventReplication = x5, rb_SocketTimeoutMillis = x6, rb_Enabled = x7, rb_SyncDeletes = x8,
            rb_SyncProperties = x9, rb_SyncStatistics = x10, rb_PathPrefix = x11,
            rb_IncludePathPrefixPattern = x12\<rparr>)))))))))))))"

definition replicationBody_ok :: "replicationBody \<Rightarrow> bool" where
  "replicationBody_ok p \<longleftrightarrow>
     machine_int (rb_SocketTimeoutMillis p)"

lemma read_replicationBody_table [table_reads]:
  assumes "distinct_names fs"
  shows "set (replicationBody_table p) \<subseteq> set fs \<Longrightarrow> replicationBody_ok p \<Longrightarrow> read_replicationBody (table_members fs) = Inr p"
  by (cases p) (auto simp: read_replicationBody_def replicationBody_table_def replicationBody_ok_def dest!: table_reads[OF assms])

text \<open>The proxy is written and read under different names.\<close>

record ReplicationParams =
  rp_Username :: string
  rp_Password :: string
  rp_Url :: string
  rp_CronExp :: string
  rp_RepoKey :: string
  rp_Proxy :: string
  rp_EnableEventReplication :: bool
  rp_SocketTimeoutMillis :: int
  rp_Enabled :: bool
  rp_SyncDeletes :: bool
  rp_SyncProperties :: bool
  rp_SyncStatistics :: bool
  rp_PathPrefix :: string
  rp_IncludePathPrefixPattern :: string

record UpdateReplicationBody =
  ur_body :: replicationBody
  ur_Proxy :: string

record GetReplicationBody =
  gr_body :: replicationBody
  gr_ProxyRef :: string

definition UpdateReplicationBody_table :: "UpdateReplicationBody \<Rightarrow> field_table" where
  "UpdateReplicationBody_table b = replicationBody_table (ur_body b) @ [(''proxy'', Some (StrV (ur_Proxy b)))]"

definition read_GetReplicationBody :: "members \<Rightarrow> GetReplicationBody result" where
  "read_GetReplicationBody ms =
     and_then (read_replicationBody ms) (\<lambda>b. and_then (read_string ''proxyRef'' ms) (\<lambda>p. Inr \<lparr>gr_body = b, gr_ProxyRef = p\<rparr>))"

definition CreateUpdateReplicationBody :: "ReplicationParams \<Rightarrow> UpdateReplicationBody" where
  "CreateUpdateReplicationBody p =
     \<lparr>ur_body =
        \<lparr>rb_Username = rp_Username p, rb_Password = rp_Password p, rb_URL = rp_Url p, rb_CronExp = rp_CronExp p,
         rb_RepoKey = rp_RepoKey p, rb_EnableEventReplication = rp_EnableEventReplication p,
         rb_SocketTimeoutMillis = rp_SocketTimeoutMillis p, rb_Enabled = rp_Enabled p, rb_SyncDeletes = rp_SyncDeletes p,
         rb_SyncProperties = rp_SyncProperties p, rb_SyncStatistics = rp_SyncStatistics p, rb_PathPrefix = rp_PathPrefix p,
         rb_IncludePathPrefixPattern = rp_IncludePathPrefixPattern p\<rparr>,
      ur_Proxy = rp_Proxy p\<rparr>"

definition CreateReplicationParams :: "GetReplicationBody \<Rightarrow> ReplicationParams" where
  "CreateReplicationParams body =
     (let b = gr_body body
      in \<lparr>rp_Username = rb_Username b, rp_Password = rb_Password b, rp_Url = rb_URL b, rp_CronExp = rb_CronExp b,
          rp_RepoKey = rb_RepoKey b, rp_Proxy = gr_ProxyRef body, rp_EnableEventReplication = rb_EnableEventReplication b,
          rp_SocketTimeoutMillis = rb_SocketTimeoutMillis b, rp_Enabled = rb_Enabled b, rp_SyncDeletes = rb_SyncDeletes b,
          rp_SyncProperties = rb_SyncProperties b, rp_SyncStatistics = rb_SyncStatistics b, rp_PathPrefix = rb_PathPrefix b,
          rp_IncludePathPrefixPattern = rb_IncludePathPrefixPattern b\<rparr>)"

definition replication_url :: "'w service \<Rightarrow> string \<Rightarrow> string" where
  "replication_url rs repoKey = sv_url rs @ ''api/replications/'' @ repoKey"

definition replication_content :: "UpdateReplicationBody \<Rightarrow> string" where
  "replication_content params = document (UpdateReplicationBody_table params)"

definition replication_details :: "'w service \<Rightarrow> HttpClientDetails" where
  "replication_details = with_content ''application/vnd.org.jfrog.artifactory.replications.ReplicationConfigRequest+json''"

definition CreateReplication :: "'w service \<Rightarrow> ReplicationParams \<Rightarrow> 'w \<Rightarrow> (go_error option \<times> 'w) option" where
  "CreateReplication rs p w =
     (let params = CreateUpdateReplicationBody p
      in finished rs [200, 201]
           (jc_SendPut (sv_client rs) (replication_url rs (rb_RepoKey (ur_body params))) (Some (replication_content params))
              (replication_details rs) w))"

definition UpdateReplication :: "'w service \<Rightarrow> ReplicationParams \<Rightarrow> 'w \<Rightarrow> (go_error option \<times> 'w) option" where
  "UpdateReplication rs p w =
     (let params = CreateUpdateReplicationBody p
      in finished rs [200, 201]
           (jc_SendPost (sv_client rs) (replication_url rs (rb_RepoKey (ur_body params))) (Some (replication_content params))
              (replication_details rs) w))"

definition zero_GetReplicationBody :: GetReplicationBody where
  "zero_GetReplicationBody =
     \<lparr>gr_body =
        \<lparr>rb_Username = [], rb_Password = [], rb_URL = [], rb_CronExp = [], rb_RepoKey = [], rb_EnableEventReplication = False,
         rb_SocketTimeoutMillis = 0, rb_Enabled = False, rb_SyncDeletes = False, rb_SyncProperties = False,
         rb_SyncStatistics = False, rb_PathPrefix = [], rb_IncludePathPrefixPattern = []\<rparr>,
      gr_ProxyRef = []\<rparr>"

definition GetReplication :: "'w service \<Rightarrow> string \<Rightarrow> 'w \<Rightarrow> (ReplicationParams list result \<times> 'w) option" where
  "GetReplication drs repoKey =
     get_decoded drs (replication_url drs repoKey)
       (\<lambda>v. map_sum id (map CreateReplicationParams) (read_array (conv_struct read_GetReplicationBody) zero_GetReplicationBody v))"

definition DeleteReplication :: "'w service \<Rightarrow> string \<Rightarrow> 'w \<Rightarrow> (go_error option \<times> 'w) option" where
  "DeleteReplication drs repoKey w =
     finished drs [200] (jc_SendDelete (sv_client drs) (replication_url drs repoKey) None (details_of drs) w)"

section \<open>What the services do\<close>

text \<open>The document of a replication, with the name that the server uses for its proxy, is read back.\<close>

definition stored_replication :: "UpdateReplicationBody \<Rightarrow> field_table" where
  "stored_replication b = replicationBody_table (ur_body b) @ [(''proxyRef'', Some (StrV (ur_Proxy b)))]"

lemma stored_replication_names: "distinct_names (stored_replication b)"
  unfolding distinct_names_def stored_replication_def replicationBody_table_def list.map append.simps fst_conv by code_simp

lemma replication_read_back:
  assumes "machine_int (rp_SocketTimeoutMillis p)"
  shows "conv_struct read_GetReplicationBody (ObjV (table_members (stored_replication (CreateUpdateReplicationBody p)))) =
      Some \<lparr>gr_body = ur_body (CreateUpdateReplicationBody p), gr_ProxyRef = rp_Proxy p\<rparr>"
    and "CreateReplicationParams \<lparr>gr_body = ur_body (CreateUpdateReplicationBody p), gr_ProxyRef = rp_Proxy p\<rparr> = p"
proof -
  let ?b = "CreateUpdateReplicationBody p"
  have "replicationBody_ok (ur_body ?b)" using assms by (simp add: replicationBody_ok_def CreateUpdateReplicationBody_def)
  then have "read_replicationBody (table_members (stored_replication ?b)) = Inr (ur_body ?b)"
    by (intro read_replicationBody_table[OF stored_replication_names]) (auto simp: stored_replication_def)
  moreover have "read_string ''proxyRef'' (table_members (stored_replication ?b)) = Inr (rp_Proxy p)"
    by (rule table_reads[OF stored_replication_names]) (simp add: stored_replication_def CreateUpdateReplicationBody_def)
  ultimately show "conv_struct read_GetReplicationBody (ObjV (table_members (stored_replication ?b))) =
      Some \<lparr>gr_body = ur_body ?b, gr_ProxyRef = rp_Proxy p\<rparr>"
    by (simp add: conv_struct_def read_GetReplicationBody_def)
  show "CreateReplicationParams \<lparr>gr_body = ur_body ?b, gr_ProxyRef = rp_Proxy p\<rparr> = p"
    by (cases p) (simp add: CreateReplicationParams_def CreateUpdateReplicationBody_def)
qed

lemma int64_self: "machine_int i \<Longrightarrow> int64 i = i"
  by (simp add: int64_def machine_int_def signed_of_int signed_take_bit_int_eq_self)

lemma int64_wrap: "int64 (i + 2 ^ 64) = int64 i"
proof -
  have "(word_of_int (i + 2 ^ 64) :: 64 word) = word_of_int i" by (rule iffD2[OF word_of_int_eq_iff]) (simp add: take_bit_eq_mod)
  then show ?thesis unfolding int64_def by (rule arg_cong)
qed

text \<open>C29: the date before which builds are discarded is the given number of days before now, up to 106751 days. More days do
  not fit in a duration of 64 bits: up to 213503 days the date lies after now, so that no build is recent enough to be kept.\<close>

theorem calculateMinimumBuildDate_correct:
  assumes "atoi maxDays = Some d" "0 \<le> d" "d \<le> 213503"
  shows "calculateMinimumBuildDate format now maxDays =
      Inr (format (if d \<le> 106751 then now - d * day else now + (2 ^ 64 - d * day))) \<and> 0 < 2 ^ 64 - d * day"
proof -
  have "int64 (- day * d) = (if d \<le> 106751 then - (d * day) else 2 ^ 64 - d * day)"
  proof (cases "d \<le> 106751")
    case True
    then show ?thesis using assms(2) int64_self[of "- day * d"] by (simp add: day_def machine_int_def)
  next
    case False
    then show ?thesis using assms(3) int64_wrap[of "- day * d"] int64_self[of "- day * d + 2 ^ 64"]
      by (simp add: day_def machine_int_def)
  qed
  then show ?thesis using assms by (simp add: calculateMinimumBuildDate_def day_def)
qed

definition side :: "int \<Rightarrow> string" where
  "side t = (if t \<le> 0 then ''past'' else ''future'')"

theorem calculateMinimumBuildDate_witness:
  "calculateMinimumBuildDate side 0 ''30'' = Inr ''past'' \<and> calculateMinimumBuildDate side 0 ''106752'' = Inr ''future''"
proof -
  have "atoi ''30'' = Some 30" "atoi ''106752'' = Some 106752" 
    using atoi_dec[of 30] atoi_dec[of 106752] by (simp_all add: dec.simps digit_char_def)
  note calculateMinimumBuildDate_correct[OF this(1), of side 0] calculateMinimumBuildDate_correct[OF this(2), of side 0]
  moreover have "side (0 - 30 * day) = ''past''" "side (0 + (2 ^ 64 - 106752 * day)) = ''future''" by (simp_all add: day_def side_def)
  ultimately show ?thesis by (simp split: if_splits)
qed

end
