(* ===== verification/GoPublish.thy ===== *)
theory GoPublish
  imports Upload Url
begin

text \<open>
  Publishing a Go module, \<^verbatim>\<open>artifactory/services/go\<close>: three files are uploaded one after the other with the same details,
  whose headers each upload changes. The comparison of versions is a parameter, as is the version of the server. The file
  that holds the transfers is its records, and writing it does not fail.
\<close>

record GoParams =
  gp_ZipPath :: string
  gp_ModPath :: string
  gp_InfoPath :: string
  gp_Version :: string
  gp_Props :: string
  gp_TargetRepo :: string
  gp_ModuleId :: string

definition ArtifactoryMinSupportedVersion :: string where
  "ArtifactoryMinSupportedVersion = ''6.10.0''"

definition verifyCompatibleVersion :: "(string \<Rightarrow> string \<Rightarrow> bool) \<Rightarrow> string \<Rightarrow> go_error option" where
  "verifyCompatibleVersion at_least artifactoryVersion =
     (if at_least artifactoryVersion ArtifactoryMinSupportedVersion then None
      else Some (Err (''Unsupported version of Artifactory: '' @ artifactoryVersion @ [CHR 0x0A] @
             ''Supports Artifactory version '' @ ArtifactoryMinSupportedVersion @ '' and above'')))"

definition CreateUrlPath :: "string \<Rightarrow> string \<Rightarrow> string \<Rightarrow> string result" where
  "CreateUrlPath pathInArtifactory props goApiUrl =
     (case ParseProperties props of
        (Some e, _) \<Rightarrow> Inl e
      | (None, properties) \<Rightarrow>
          Inr (trim_suffix (str_join '';'' [goApiUrl @ pathInArtifactory, ToEncodedString True properties]) '';''))"

definition addGoVersion :: "string \<Rightarrow> string \<Rightarrow> string" where
  "addGoVersion version urlPath = urlPath @ '';go.version='' @ query_escape version"

text \<open>The details of the command and the world.\<close>

type_synonym 'w go_state = "HttpClientDetails \<times> 'w"

definition go_upload :: "'w upload_env \<Rightarrow> string \<Rightarrow> string \<Rightarrow> string \<Rightarrow> string \<Rightarrow> string \<Rightarrow> 'w go_state \<Rightarrow>
    FileTransferDetails result \<times> 'w go_state" where
  "go_upload env localPath pathInArtifactory version props goApiUrl st =
     (case CreateUrlPath pathInArtifactory props goApiUrl of
        Inl e \<Rightarrow> (Inl e, st)
      | Inr url \<Rightarrow>
          (case GetFileDetails env localPath True of
             Inl e \<Rightarrow> (Inl e, st)
           | Inr fileDetails \<Rightarrow>
               let details = checksum_headers fileDetails (fst st);
                   ((resp, body, err), w) = jfrog_UploadFile env localPath (addGoVersion version url) [] details (snd st);
                   st = (details_after (jfrog_client env) details, w)
               in (case (err, resp) of
                     (Some e, _) \<Rightarrow> Inl e
                   | (None, None) \<Rightarrow> Inl (Panic ''nil pointer dereference'')
                   | (None, Some r) \<Rightarrow>
                       (case CheckResponseStatusWithBody (json_indent env) r body [201] of
                          Some e \<Rightarrow> Inl (Err e)
                        | None \<Rightarrow> Inr \<lparr>ftd_SourcePath = localPath, ftd_TargetPath = pathInArtifactory,
                                       RtUrl = replace_all ''api/go/'' [] goApiUrl,
                                       ftd_Sha256 = ResponseHeader r ''X-Checksum-Sha256''\<rparr>), st)))"

text \<open>The number of files that were uploaded, the number of those that were not, and the transfers so far.\<close>

definition go_uploadFile :: "'w upload_env \<Rightarrow> GoParams \<Rightarrow> string \<Rightarrow> string \<Rightarrow> string \<Rightarrow> string \<Rightarrow> FileTransferDetails list \<Rightarrow> 'w go_state \<Rightarrow>
    (int \<times> int \<times> FileTransferDetails list \<times> go_error option) \<times> 'w go_state" where
  "go_uploadFile env params filePath moduleId ext goApiUrl filesDetails st =
     (let pathInArtifactory = str_join ''/'' [gp_TargetRepo params, moduleId, ''@v'', gp_Version params @ ext];
          (r, st) = go_upload env filePath pathInArtifactory (gp_Version params) (gp_Props params) goApiUrl st
      in (case r of Inl e \<Rightarrow> (0, 1, filesDetails, Some e) | Inr details \<Rightarrow> (1, 0, filesDetails @ [details], None), st))"

record go_summary =
  gs_succeeded :: int
  gs_failed :: int
  gs_transfers :: "FileTransferDetails list"

definition GoPublishCommand_PublishPackage :: "url_env \<Rightarrow> (string \<Rightarrow> string \<Rightarrow> bool) \<Rightarrow> string \<Rightarrow> 'w upload_env \<Rightarrow> GoParams \<Rightarrow> 'w \<Rightarrow>
    go_summary result \<times> 'w" where
  "GoPublishCommand_PublishPackage urls at_least artifactoryVersion env params w =
     (case BuildArtifactoryUrl urls (us_url env) ''api/go/'' [] of
        Inl e \<Rightarrow> (Inl e, w)
      | Inr goApiUrl \<Rightarrow>
          let moduleId = hd (split_char CHR '':'' (gp_ModuleId params));
              ((s1, f1, files, err), st) = go_uploadFile env params (gp_ZipPath params) moduleId ''.zip'' goApiUrl [] (us_details env, w)
          in case err of
               Some e \<Rightarrow> (Inl e, snd st)
             | None \<Rightarrow>
                 let ((s2, f2, files, err), st) = go_uploadFile env params (gp_ModPath params) moduleId ''.mod'' goApiUrl files st
                 in case err of
                      Some e \<Rightarrow> (Inl e, snd st)
                    | None \<Rightarrow>
                        if at_least artifactoryVersion ArtifactoryMinSupportedVersion \<and> gp_InfoPath params \<noteq> []
                        then let ((s3, f3, files, err), st) = go_uploadFile env params (gp_InfoPath params) moduleId ''.info'' goApiUrl files st
                             in case err of
                                  Some e \<Rightarrow> (Inl e, snd st)
                                | None \<Rightarrow> (Inr \<lparr>gs_succeeded = s1 + s2 + s3, gs_failed = f1 + f2 + f3, gs_transfers = files\<rparr>, snd st)
                        else (Inr \<lparr>gs_succeeded = s1 + s2, gs_failed = f1 + f2, gs_transfers = files\<rparr>, snd st))"

definition GoService_PublishPackage :: "url_env \<Rightarrow> (string \<Rightarrow> string \<Rightarrow> bool) \<Rightarrow> string result \<Rightarrow> 'w upload_env \<Rightarrow> GoParams \<Rightarrow> 'w \<Rightarrow>
    go_summary result \<times> 'w" where
  "GoService_PublishPackage urls at_least artifactoryVersion env params w =
     (case artifactoryVersion of
        Inl e \<Rightarrow> (Inl e, w)
      | Inr v \<Rightarrow> (case verifyCompatibleVersion at_least v of
                    Some e \<Rightarrow> (Inl e, w)
                  | None \<Rightarrow> GoPublishCommand_PublishPackage urls at_least v env params w))"

section \<open>The files of a module\<close>

definition module_files :: "GoParams \<Rightarrow> (string \<times> string) list" where
  "module_files p =
     [(gp_ZipPath p, ''.zip''), (gp_ModPath p, ''.mod'')] @ (if gp_InfoPath p \<noteq> [] then [(gp_InfoPath p, ''.info'')] else [])"

fun upload_each :: "(string \<times> string \<Rightarrow> 'w go_state \<Rightarrow> FileTransferDetails result \<times> 'w go_state) \<Rightarrow> (string \<times> string) list \<Rightarrow> 'w go_state \<Rightarrow>
    FileTransferDetails list result \<times> 'w go_state" where
  "upload_each up [] st = (Inr [], st)"
| "upload_each up (f # fs) st =
     (let (r, st) = up f st
      in case r of
           Inl e \<Rightarrow> (Inl e, st)
         | Inr d \<Rightarrow> let (r, st) = upload_each up fs st in (map_sum id ((#) d) r, st))"

definition target_path :: "GoParams \<Rightarrow> string \<Rightarrow> string" where
  "target_path p ext = str_join ''/'' [gp_TargetRepo p, hd (split_char CHR '':'' (gp_ModuleId p)), ''@v'', gp_Version p @ ext]"

lemma go_uploadFile_eq:
  "go_uploadFile env p f (hd (split_char CHR '':'' (gp_ModuleId p))) ext url files st =
     (let (r, st) = go_upload env f (target_path p ext) (gp_Version p) (gp_Props p) url st
      in (case r of Inl e \<Rightarrow> (0, 1, files, Some e) | Inr d \<Rightarrow> (1, 0, files @ [d], None), st))"
  by (simp add: go_uploadFile_def target_path_def)

text \<open>Publishing uploads the zip file, the mod file and, if there is one, the info file of the module in this order to
  their paths in the repository and stops at the first that fails; a summary counts exactly the files that were uploaded.\<close>

lemma PublishPackage_correct:
  assumes "at_least v ArtifactoryMinSupportedVersion" "BuildArtifactoryUrl urls (us_url env) ''api/go/'' [] = Inr url"
  shows "GoService_PublishPackage urls at_least (Inr v) env p w =
    (let (r, (_, w)) = upload_each (\<lambda>(f, ext). go_upload env f (target_path p ext) (gp_Version p) (gp_Props p) url) (module_files p) (us_details env, w)
     in (map_sum id (\<lambda>files. \<lparr>gs_succeeded = int (length files), gs_failed = 0, gs_transfers = files\<rparr>) r, w))"
  using assms
  by (simp add: GoService_PublishPackage_def verifyCompatibleVersion_def GoPublishCommand_PublishPackage_def go_uploadFile_eq
      module_files_def Let_def split_def split: sum.split)

end
