(* ===== verification/SearchService.thy ===== *)
theory SearchService
  imports Delete
begin

text \<open>
  The search service, \<^verbatim>\<open>artifactory/services/search.go\<close>: the search that the kind of the specification asks for.
\<close>

text \<open>The version of the server may not be known; \<open>at_least\<close> compares it.\<close>

definition SearchBySpecFiles :: "search_env \<Rightarrow> (string \<Rightarrow> bool) result \<Rightarrow> CommonParams \<Rightarrow> RequiredArtifactProps \<Rightarrow> ResultItem source result option" where
  "SearchBySpecFiles env at_least searchParams requiredArtifactProps =
     (case at_least of
        Inl e \<Rightarrow> Some (Inl e)
      | Inr at_least \<Rightarrow>
          let params = DisableTransitiveSearchIfNotAllowed at_least searchParams
          in (case GetSpecType params of
                WILDCARD \<Rightarrow> fst (search_pattern env params requiredArtifactProps)
              | BUILD \<Rightarrow> map_option (\<lambda>r. and_then r (\<lambda>items. Inr (items, [])))
                           (SearchBySpecWithBuild (env_server env) (env_fetch env) (env_bufferSize env) params)
              | AQL \<Rightarrow> SearchBySpecWithAql (env_server env) (env_fetch env) (env_bufferSize env) params requiredArtifactProps))"

definition SearchService_Search :: "search_env \<Rightarrow> (string \<Rightarrow> bool) result \<Rightarrow> CommonParams \<Rightarrow> ResultItem source result option" where
  "SearchService_Search env at_least searchParams = SearchBySpecFiles env at_least searchParams RequiredArtifactProps.ALL"

end
