(* ===== verification/Pipeline.thy ===== *)
theory Pipeline
  imports Rest Url Git
begin

text \<open>
  The services of JFrog Pipelines, \<^verbatim>\<open>pipelines/services\<close>: integrations, pipeline sources, runs, synchronisation and system info.

  A time is the text that it is read to; reading one is the parameter \<open>parse_time\<close>, which fails for a text that is not in the
  format of RFC 3339. A repository that is not found is a nil pointer, whose use is a panic.
\<close>

section \<open>Requests\<close>

definition constructPipelinesURL :: "url_env \<Rightarrow> (string \<times> string) list \<Rightarrow> string \<Rightarrow> string \<Rightarrow> string result" where
  "constructPipelinesURL env qParams apiURL apiPath =
     and_then (url_Parse env (apiURL @ apiPath)) (\<lambda>uri.
       let queryString = fold (\<lambda>(k, v). AList.update k [v]) qParams (Query (url_RawQuery uri))
       in Inr (url_String (uri\<lparr>url_RawQuery := Encode queryString\<rparr>)))"

text \<open>The headers of the service override those of the request.\<close>

definition merged_headers :: "'w service \<Rightarrow> HttpClientDetails" where
  "merged_headers is =
     (let own = (case Headers (details_of is) of None \<Rightarrow> [] | Some h \<Rightarrow> h)
      in (details_of is)\<lparr>Headers := Some (fold (\<lambda>(k, v). AList.update k v) own
           [(''Content-Type'', ''application/json''), (''Accept'', ''application/json'')])\<rparr>)"

text \<open>Some unexpected answers have an error of their own.\<close>

definition checked_special :: "'w service \<Rightarrow> int list \<Rightarrow> (Response \<Rightarrow> string \<Rightarrow> string option) \<Rightarrow> Response option \<times> string \<times> go_error option \<Rightarrow>
    (Response \<times> string) result" where
  "checked_special is expected special reply =
     (case checked is expected reply of
        Inr x \<Rightarrow> Inr x
      | Inl e \<Rightarrow> (case reply of
                    (Some r, body, None) \<Rightarrow> (case special r body of Some m \<Rightarrow> Inl (Err m) | None \<Rightarrow> Inl e)
                  | _ \<Rightarrow> Inl e))"

definition special_body :: "'w service \<Rightarrow> int list \<Rightarrow> (Response \<Rightarrow> string \<Rightarrow> string option) \<Rightarrow> (string \<Rightarrow> 'a result) \<Rightarrow> 'w http_result option \<Rightarrow>
    ('a result \<times> 'w) option" where
  "special_body is expected special f reply =
     after_reply reply (\<lambda>r w. Some (and_then (checked_special is expected special r) (\<lambda>(_, body). f body), w))"

section \<open>Integrations\<close>

record Integration =
  in_Name :: string
  in_MasterIntegrationId :: int
  in_MasterIntegrationName :: string
  in_ProjectId :: int
  in_Environments :: "string list"
  in_Id :: int

definition Integration_table :: "Integration \<Rightarrow> field_table" where
  "Integration_table p =
     [(''name'', opt_string (in_Name p)), (''masterIntegrationId'', opt_int (in_MasterIntegrationId p)),
      (''masterIntegrationName'', opt_string (in_MasterIntegrationName p)), (''projectId'', opt_int (in_ProjectId p)),
      (''environments'', opt_list StrV (in_Environments p)), (''id'', opt_int (in_Id p))]"

definition read_Integration :: "members \<Rightarrow> Integration result" where
  "read_Integration ms =
     and_then (read_string ''name'' ms) (\<lambda>x0. and_then (read_int ''masterIntegrationId'' ms) (\<lambda>x1.
     and_then (read_string ''masterIntegrationName'' ms) (\<lambda>x2.
     and_then (read_int ''projectId'' ms) (\<lambda>x3. and_then (read_strings ''environments'' ms) (\<lambda>x4.
     and_then (read_int ''id'' ms) (\<lambda>x5.
       Inr \<lparr>in_Name = x0, in_MasterIntegrationId = x1, in_MasterIntegrationName = x2, in_ProjectId = x3,
            in_Environments = x4, in_Id = x5\<rparr>))))))"

definition Integration_ok :: "Integration \<Rightarrow> bool" where
  "Integration_ok p \<longleftrightarrow>
     machine_int (in_MasterIntegrationId p) \<and> machine_int (in_ProjectId p) \<and> machine_int (in_Id p)"

lemma read_Integration_table [table_reads]:
  assumes "distinct_names fs"
  shows "set (Integration_table p) \<subseteq> set fs \<Longrightarrow> Integration_ok p \<Longrightarrow> read_Integration (table_members fs) = Inr p"
  by (cases p) (auto simp: read_Integration_def Integration_table_def Integration_ok_def dest!: table_reads[OF assms])

record jsonValues =
  jv_Label :: string
  jv_Value :: string

definition jsonValues_table :: "jsonValues \<Rightarrow> field_table" where
  "jsonValues_table v = [(''label'', opt_string (jv_Label v)), (''value'', opt_string (jv_Value v))]"

record IntegrationCreation =
  ic_Integration :: Integration
  ic_FormJSONValues :: "jsonValues list"

definition IntegrationCreation_table :: "IntegrationCreation \<Rightarrow> field_table" where
  "IntegrationCreation_table c =
     Integration_table (ic_Integration c) @
     [(''formJSONValues'', opt_list (\<lambda>v. ObjV (table_members (jsonValues_table v))) (ic_FormJSONValues c))]"

definition integrationsRestApi :: string where
  "integrationsRestApi = ''api/v1/projectIntegrations/''"

text \<open>The id of the integration; the code returns -1 with an error.\<close>

definition createIntegration :: "'w service \<Rightarrow> IntegrationCreation \<Rightarrow> 'w \<Rightarrow> (int result \<times> 'w) option" where
  "createIntegration is integration w =
     special_body is [200, 201]
       (\<lambda>r _. if StatusCode r = 409 then Some ''Pipelines: Integration already exists.''
              else if StatusCode r = 401 then Some ''Pipelines: Integration failed, received 401 Unauthorized.'' else None)
       (\<lambda>body. map_sum id in_Id (decoded is (read_as read_Integration) body))
       (jc_SendPost (sv_client is) (sv_url is @ integrationsRestApi) (Some (document (IntegrationCreation_table integration)))
          (merged_headers is) w)"

definition new_integration :: "string \<Rightarrow> int \<Rightarrow> string \<Rightarrow> (string \<times> string) list \<Rightarrow> IntegrationCreation" where
  "new_integration name masterId masterName values =
     \<lparr>ic_Integration = \<lparr>in_Name = name, in_MasterIntegrationId = masterId, in_MasterIntegrationName = masterName, in_ProjectId = 1,
        in_Environments = [], in_Id = 0\<rparr>,
      ic_FormJSONValues = map (\<lambda>(l, v). \<lparr>jv_Label = l, jv_Value = v\<rparr>) values\<rparr>"

definition CreateGithubIntegration :: "'w service \<Rightarrow> string \<Rightarrow> string \<Rightarrow> 'w \<Rightarrow> (int result \<times> 'w) option" where
  "CreateGithubIntegration is integrationName token =
     createIntegration is (new_integration integrationName 20 ''github'' [(''url'', ''https://api.github.com''), (''token'', token)])"

definition CreateGithubEnterpriseIntegration :: "'w service \<Rightarrow> string \<Rightarrow> string \<Rightarrow> string \<Rightarrow> 'w \<Rightarrow> (int result \<times> 'w) option" where
  "CreateGithubEnterpriseIntegration is integrationName url token =
     createIntegration is (new_integration integrationName 15 ''githubEnterprise'' [(''url'', url), (''token'', token)])"

definition CreateBitbucketIntegration :: "'w service \<Rightarrow> string \<Rightarrow> string \<Rightarrow> string \<Rightarrow> 'w \<Rightarrow> (int result \<times> 'w) option" where
  "CreateBitbucketIntegration is integrationName username token =
     createIntegration is (new_integration integrationName 16 ''bitbucket''
       [(''url'', ''https://api.bitbucket.org''), (''username'', username), (''token'', token)])"

definition CreateBitbucketServerIntegration :: "'w service \<Rightarrow> string \<Rightarrow> string \<Rightarrow> string \<Rightarrow> string \<Rightarrow> 'w \<Rightarrow> (int result \<times> 'w) option" where
  "CreateBitbucketServerIntegration is integrationName url username passwordOrToken =
     createIntegration is (new_integration integrationName 90 ''bitbucketServerBasic''
       [(''url'', url), (''username'', username), (''password'', passwordOrToken)])"

definition CreateGitlabIntegration :: "'w service \<Rightarrow> string \<Rightarrow> string \<Rightarrow> string \<Rightarrow> 'w \<Rightarrow> (int result \<times> 'w) option" where
  "CreateGitlabIntegration is integrationName url token =
     createIntegration is (new_integration integrationName 21 ''gitlab'' [(''url'', url), (''token'', token)])"

definition CreateArtifactoryIntegration :: "'w service \<Rightarrow> string \<Rightarrow> string \<Rightarrow> string \<Rightarrow> string \<Rightarrow> 'w \<Rightarrow> (int result \<times> 'w) option" where
  "CreateArtifactoryIntegration is integrationName url user apikey =
     createIntegration is (new_integration integrationName 98 ''artifactory''
       [(''url'', trim_suffix url ''/''), (''user'', user), (''apikey'', apikey)])"

definition DeleteIntegration :: "'w service \<Rightarrow> int \<Rightarrow> 'w \<Rightarrow> (go_error option \<times> 'w) option" where
  "DeleteIntegration is integrationId w =
     finished is [200]
       (jc_SendDelete (sv_client is) (sv_url is @ integrationsRestApi @ itoa integrationId) None (details_of is) w)"

definition GetIntegrationById :: "'w service \<Rightarrow> int \<Rightarrow> 'w \<Rightarrow> (Integration result \<times> 'w) option" where
  "GetIntegrationById is integrationId =
     get_decoded is (sv_url is @ integrationsRestApi @ itoa integrationId) (read_as read_Integration)"

definition zero_Integration :: Integration where
  "zero_Integration =
     \<lparr>in_Name = [], in_MasterIntegrationId = 0, in_MasterIntegrationName = [], in_ProjectId = 0, in_Environments = [], in_Id = 0\<rparr>"

definition GetAllIntegrations :: "'w service \<Rightarrow> 'w \<Rightarrow> (Integration list result \<times> 'w) option" where
  "GetAllIntegrations is =
     get_decoded is (sv_url is @ integrationsRestApi) (read_array (conv_struct read_Integration) zero_Integration)"

definition GetIntegrationByName :: "'w service \<Rightarrow> string \<Rightarrow> 'w \<Rightarrow> (Integration result \<times> 'w) option" where
  "GetIntegrationByName is name w =
     map_option (\<lambda>(r, w). (and_then r (\<lambda>integrations.
         case List.find (\<lambda>i. in_Name i = name) integrations of
           Some i \<Rightarrow> Inr i
         | None \<Rightarrow> Inl (Err ''integration with provided name was not found in pipelines'')), w))
       (GetAllIntegrations is w)"

section \<open>Pipeline sources\<close>

record Source =
  so_ProjectId :: int
  so_ProjectIntegrationId :: int
  so_RepositoryFullName :: string
  so_Branch :: string
  so_FileFilter :: string
  so_IsMultiBranch :: bool
  so_BranchExcludePattern :: string
  so_BranchIncludePattern :: string
  so_Id :: int
  so_Name :: string

definition Source_table :: "Source \<Rightarrow> field_table" where
  "Source_table p =
     [(''projectId'', opt_int (so_ProjectId p)), (''projectIntegrationId'', opt_int (so_ProjectIntegrationId p)),
      (''repositoryFullName'', opt_string (so_RepositoryFullName p)), (''branch'', opt_string (so_Branch p)),
      (''fileFilter'', opt_string (so_FileFilter p)), (''isMultiBranch'', opt_flag (so_IsMultiBranch p)),
      (''branchExcludePattern'', opt_string (so_BranchExcludePattern p)),
      (''branchIncludePattern'', opt_string (so_BranchIncludePattern p)), (''id'', opt_int (so_Id p)),
      (''name'', opt_string (so_Name p))]"

definition read_Source :: "members \<Rightarrow> Source result" where
  "read_Source ms =
     and_then (read_int ''projectId'' ms) (\<lambda>x0. and_then (read_int ''projectIntegrationId'' ms) (\<lambda>x1.
     and_then (read_string ''repositoryFullName'' ms) (\<lambda>x2.
     and_then (read_string ''branch'' ms) (\<lambda>x3. and_then (read_string ''fileFilter'' ms) (\<lambda>x4.
     and_then (read_flag ''isMultiBranch'' ms) (\<lambda>x5.
     and_then (read_string ''branchExcludePattern'' ms) (\<lambda>x6.
     and_then (read_string ''branchIncludePattern'' ms) (\<lambda>x7. and_then (read_int ''id'' ms) (\<lambda>x8.
     and_then (read_string ''name'' ms) (\<lambda>x9.
       Inr \<lparr>so_ProjectId = x0, so_ProjectIntegrationId = x1, so_RepositoryFullName = x2, so_Branch = x3,
            so_FileFilter = x4, so_IsMultiBranch = x5, so_BranchExcludePattern = x6, so_BranchIncludePattern = x7,
            so_Id = x8, so_Name = x9\<rparr>))))))))))"

definition Source_ok :: "Source \<Rightarrow> bool" where
  "Source_ok p \<longleftrightarrow>
     machine_int (so_ProjectId p) \<and> machine_int (so_ProjectIntegrationId p) \<and> machine_int (so_Id p)"

lemma read_Source_table [table_reads]:
  assumes "distinct_names fs"
  shows "set (Source_table p) \<subseteq> set fs \<Longrightarrow> Source_ok p \<Longrightarrow> read_Source (table_members fs) = Inr p"
  by (cases p) (auto simp: read_Source_def Source_table_def Source_ok_def dest!: table_reads[OF assms])

definition SourcesRestApi :: string where
  "SourcesRestApi = ''api/v1/pipelinesources/''"

definition doAddSource :: "'w service \<Rightarrow> Source \<Rightarrow> 'w \<Rightarrow> (int result \<times> 'w) option" where
  "doAddSource ss source w =
     special_body ss [200]
       (\<lambda>r body. if StatusCode r = 404 \<and> str_contains body ''source already exists''
                 then Some ''Pipelines: Pipeline Source already exists.'' else None)
       (\<lambda>body. map_sum id so_Id (decoded ss (read_as read_Source) body))
       (jc_SendPost (sv_client ss) (sv_url ss @ SourcesRestApi) (Some (document (Source_table source))) (merged_headers ss) w)"

definition AddSource :: "'w service \<Rightarrow> int \<Rightarrow> string \<Rightarrow> string \<Rightarrow> string \<Rightarrow> string \<Rightarrow> 'w \<Rightarrow> (int result \<times> 'w) option" where
  "AddSource ss projectIntegrationId repositoryFullName branch fileFilter name =
     doAddSource ss \<lparr>so_ProjectId = 1, so_ProjectIntegrationId = projectIntegrationId, so_RepositoryFullName = repositoryFullName,
       so_Branch = branch, so_FileFilter = fileFilter, so_IsMultiBranch = False, so_BranchExcludePattern = [],
       so_BranchIncludePattern = [], so_Id = 0, so_Name = name\<rparr>"

definition GetSource :: "'w service \<Rightarrow> int \<Rightarrow> 'w \<Rightarrow> (Source result \<times> 'w) option" where
  "GetSource ss sourceId = get_decoded ss (sv_url ss @ SourcesRestApi @ itoa sourceId) (read_as read_Source)"

definition zero_Source :: Source where
  "zero_Source = \<lparr>so_ProjectId = 0, so_ProjectIntegrationId = 0, so_RepositoryFullName = [], so_Branch = [], so_FileFilter = [],
     so_IsMultiBranch = False, so_BranchExcludePattern = [], so_BranchIncludePattern = [], so_Id = 0, so_Name = []\<rparr>"

definition GetSourceByFilter :: "url_env \<Rightarrow> 'w service \<Rightarrow> (string \<times> string) list \<Rightarrow> 'w \<Rightarrow> (Source list result \<times> 'w) option" where
  "GetSourceByFilter env ss queryParams w =
     (case constructPipelinesURL env queryParams (sv_url ss) SourcesRestApi of
        Inl e \<Rightarrow> Some (Inl e, w)
      | Inr url \<Rightarrow> get_decoded ss url (read_array (conv_struct read_Source) zero_Source) w)"

definition DeleteSource :: "'w service \<Rightarrow> int \<Rightarrow> 'w \<Rightarrow> (go_error option \<times> 'w) option" where
  "DeleteSource ss sourceId w =
     finished ss [200] (jc_SendDelete (sv_client ss) (sv_url ss @ SourcesRestApi @ itoa sourceId) None (details_of ss) w)"

section \<open>Answers with times\<close>

definition conv_time :: "(string \<Rightarrow> string option) \<Rightarrow> jvalue \<Rightarrow> string option" where
  "conv_time parse_time v = (case v of StrV s \<Rightarrow> parse_time s | _ \<Rightarrow> None)"

definition zero_time :: string where
  "zero_time = ''0001-01-01T00:00:00Z''"

record StaticPropertyBag =
  sb_TriggeredByUserName :: string
  sb_SignedPipelinesEnabled :: "bool option"

definition read_StaticPropertyBag :: "members \<Rightarrow> StaticPropertyBag result" where
  "read_StaticPropertyBag ms =
     and_then (read_string ''triggeredByUserName'' ms) (\<lambda>x0.
     and_then (read_ptr conv_bool ''signedPipelinesEnabled'' ms) (\<lambda>x1.
       Inr \<lparr>sb_TriggeredByUserName = x0, sb_SignedPipelinesEnabled = x1\<rparr>))"

definition zero_StaticPropertyBag :: StaticPropertyBag where
  "zero_StaticPropertyBag =
     \<lparr>sb_TriggeredByUserName = [], sb_SignedPipelinesEnabled = None\<rparr>"

record Run =
  rn_ID :: int
  rn_RunNumber :: int
  rn_CreatedAt :: string
  rn_StartedAt :: string
  rn_EndedAt :: string
  rn_StatusCode :: int
  rn_StaticPropertyBag :: StaticPropertyBag
  rn_DurationSeconds :: int

definition read_Run :: "(string \<Rightarrow> string option) \<Rightarrow> members \<Rightarrow> Run result" where
  "read_Run parse_time ms =
     and_then (read_int ''id'' ms) (\<lambda>x0. and_then (read_int ''runNumber'' ms) (\<lambda>x1.
     and_then (read_field (conv_time parse_time) zero_time ''createdAt'' ms) (\<lambda>x2.
     and_then (read_field (conv_time parse_time) zero_time ''startedAt'' ms) (\<lambda>x3.
     and_then (read_field (conv_time parse_time) zero_time ''endedAt'' ms) (\<lambda>x4.
     and_then (read_int ''statusCode'' ms) (\<lambda>x5.
     and_then (read_field (conv_struct read_StaticPropertyBag) zero_StaticPropertyBag ''staticPropertyBag'' ms) (\<lambda>x6.
     and_then (read_int ''durationSeconds'' ms) (\<lambda>x7.
       Inr \<lparr>rn_ID = x0, rn_RunNumber = x1, rn_CreatedAt = x2, rn_StartedAt = x3, rn_EndedAt = x4,
            rn_StatusCode = x5, rn_StaticPropertyBag = x6, rn_DurationSeconds = x7\<rparr>))))))))"

definition zero_Run :: Run where
  "zero_Run =
     \<lparr>rn_ID = 0, rn_RunNumber = 0, rn_CreatedAt = zero_time, rn_StartedAt = zero_time, rn_EndedAt = zero_time,
      rn_StatusCode = 0, rn_StaticPropertyBag = zero_StaticPropertyBag, rn_DurationSeconds = 0\<rparr>"

record Pipelines =
  pl_ID :: int
  pl_Name :: string
  pl_LatestCompletedRunID :: int
  pl_PipelineSourceBranch :: string
  pl_ProjectID :: int
  pl_LatestRunID :: int
  pl_PipelineSourceID :: int
  pl_Run :: Run

definition read_Pipelines :: "(string \<Rightarrow> string option) \<Rightarrow> members \<Rightarrow> Pipelines result" where
  "read_Pipelines parse_time ms =
     and_then (read_int ''id'' ms) (\<lambda>x0. and_then (read_string ''name'' ms) (\<lambda>x1.
     and_then (read_int ''latestCompletedRunId'' ms) (\<lambda>x2.
     and_then (read_string ''pipelineSourceBranch'' ms) (\<lambda>x3.
     and_then (read_int ''projectId'' ms) (\<lambda>x4. and_then (read_int ''latestRunId'' ms) (\<lambda>x5.
     and_then (read_int ''pipelineSourceId'' ms) (\<lambda>x6.
     and_then (read_field (conv_struct (read_Run parse_time)) zero_Run ''run'' ms) (\<lambda>x7.
       Inr \<lparr>pl_ID = x0, pl_Name = x1, pl_LatestCompletedRunID = x2, pl_PipelineSourceBranch = x3,
            pl_ProjectID = x4, pl_LatestRunID = x5, pl_PipelineSourceID = x6, pl_Run = x7\<rparr>))))))))"

definition zero_Pipelines :: Pipelines where
  "zero_Pipelines =
     \<lparr>pl_ID = 0, pl_Name = [], pl_LatestCompletedRunID = 0, pl_PipelineSourceBranch = [], pl_ProjectID = 0,
      pl_LatestRunID = 0, pl_PipelineSourceID = 0, pl_Run = zero_Run\<rparr>"

record PipelineRunStatusResponse =
  ps_TotalCount :: int
  ps_Pipelines :: "Pipelines list"

definition read_PipelineRunStatusResponse :: "(string \<Rightarrow> string option) \<Rightarrow> members \<Rightarrow> PipelineRunStatusResponse result" where
  "read_PipelineRunStatusResponse parse_time ms =
     and_then (read_int ''totalCount'' ms) (\<lambda>x0.
     and_then (read_list (conv_struct (read_Pipelines parse_time)) zero_Pipelines ''pipelines'' ms) (\<lambda>x1.
       Inr \<lparr>ps_TotalCount = x0, ps_Pipelines = x1\<rparr>))"

definition zero_PipelineRunStatusResponse :: PipelineRunStatusResponse where
  "zero_PipelineRunStatusResponse =
     \<lparr>ps_TotalCount = 0, ps_Pipelines = []\<rparr>"

record CommitData =
  cd_CommitSha :: string
  cd_Committer :: string
  cd_CommitMsg :: string
  cd_Source :: string

definition read_CommitData :: "members \<Rightarrow> CommitData result" where
  "read_CommitData ms =
     and_then (read_string ''commitSha'' ms) (\<lambda>x0. and_then (read_string ''committer'' ms) (\<lambda>x1.
     and_then (read_string ''commitMsg'' ms) (\<lambda>x2. and_then (read_string ''source'' ms) (\<lambda>x3.
       Inr \<lparr>cd_CommitSha = x0, cd_Committer = x1, cd_CommitMsg = x2, cd_Source = x3\<rparr>))))"

definition zero_CommitData :: CommitData where
  "zero_CommitData =
     \<lparr>cd_CommitSha = [], cd_Committer = [], cd_CommitMsg = [], cd_Source = []\<rparr>"

record PipelineSyncStatus =
  ss_CommitData :: CommitData
  ss_ID :: int
  ss_ProjectID :: int
  ss_PipelineSourceID :: int
  ss_PipelineSourceBranch :: string
  ss_IsSyncing :: "bool option"
  ss_LastSyncStatusCode :: int
  ss_LastSyncStartedAt :: string
  ss_LastSyncEndedAt :: string
  ss_LastSyncLogs :: string
  ss_IsMissingConfig :: "bool option"
  ss_TriggeredByResourceVersionID :: int
  ss_CreatedAt :: string
  ss_UpdatedAt :: string

definition read_PipelineSyncStatus :: "(string \<Rightarrow> string option) \<Rightarrow> members \<Rightarrow> PipelineSyncStatus result" where
  "read_PipelineSyncStatus parse_time ms =
     and_then (read_field (conv_struct read_CommitData) zero_CommitData ''commitData'' ms) (\<lambda>x0.
     and_then (read_int ''id'' ms) (\<lambda>x1. and_then (read_int ''projectId'' ms) (\<lambda>x2.
     and_then (read_int ''pipelineSourceId'' ms) (\<lambda>x3.
     and_then (read_string ''pipelineSourceBranch'' ms) (\<lambda>x4.
     and_then (read_ptr conv_bool ''isSyncing'' ms) (\<lambda>x5.
     and_then (read_int ''lastSyncStatusCode'' ms) (\<lambda>x6.
     and_then (read_field (conv_time parse_time) zero_time ''lastSyncStartedAt'' ms) (\<lambda>x7.
     and_then (read_field (conv_time parse_time) zero_time ''lastSyncEndedAt'' ms) (\<lambda>x8.
     and_then (read_string ''lastSyncLogs'' ms) (\<lambda>x9.
     and_then (read_ptr conv_bool ''isMissingConfig'' ms) (\<lambda>x10.
     and_then (read_int ''triggeredByResourceVersionId'' ms) (\<lambda>x11.
     and_then (read_field (conv_time parse_time) zero_time ''createdAt'' ms) (\<lambda>x12.
     and_then (read_field (conv_time parse_time) zero_time ''updatedAt'' ms) (\<lambda>x13.
       Inr \<lparr>ss_CommitData = x0, ss_ID = x1, ss_ProjectID = x2, ss_PipelineSourceID = x3,
            ss_PipelineSourceBranch = x4, ss_IsSyncing = x5, ss_LastSyncStatusCode = x6, ss_LastSyncStartedAt = x7,
            ss_LastSyncEndedAt = x8, ss_LastSyncLogs = x9, ss_IsMissingConfig = x10,
            ss_TriggeredByResourceVersionID = x11, ss_CreatedAt = x12, ss_UpdatedAt = x13\<rparr>))))))))))))))"

definition zero_PipelineSyncStatus :: PipelineSyncStatus where
  "zero_PipelineSyncStatus =
     \<lparr>ss_CommitData = zero_CommitData, ss_ID = 0, ss_ProjectID = 0, ss_PipelineSourceID = 0,
      ss_PipelineSourceBranch = [], ss_IsSyncing = None, ss_LastSyncStatusCode = 0, ss_LastSyncStartedAt = zero_time,
      ss_LastSyncEndedAt = zero_time, ss_LastSyncLogs = [], ss_IsMissingConfig = None,
      ss_TriggeredByResourceVersionID = 0, ss_CreatedAt = zero_time, ss_UpdatedAt = zero_time\<rparr>"

record PipelineResources =
  rs_ValuesYmlPropertyBag :: jvalue
  rs_PipelinesYmlPropertyBag :: jvalue
  rs_ID :: int
  rs_Name :: jvalue
  rs_ProjectID :: int
  rs_ProjectIntegrationID :: int
  rs_RepositoryFullName :: string
  rs_ConfigFolder :: string
  rs_IsMultiBranch :: "bool option"
  rs_IsInternal :: jvalue
  rs_Branch :: jvalue
  rs_BranchExcludePattern :: string
  rs_BranchIncludePattern :: string
  rs_FileFilter :: string
  rs_Environments :: jvalue
  rs_IsSyncing :: "bool option"
  rs_LastSyncStatusCode :: int
  rs_LastSyncStartedAt :: string
  rs_LastSyncEndedAt :: string
  rs_LastSyncLogs :: string
  rs_ResourceID :: int
  rs_CreatedBy :: int
  rs_UpdatedBy :: int
  rs_TemplateID :: jvalue
  rs_AccessResourceNamePrefix :: string
  rs_CreatedAt :: string
  rs_UpdatedAt :: string

definition read_PipelineResources :: "(string \<Rightarrow> string option) \<Rightarrow> members \<Rightarrow> PipelineResources result" where
  "read_PipelineResources parse_time ms =
     and_then (read_field Some Null ''valuesYmlPropertyBag'' ms) (\<lambda>x0.
     and_then (read_field Some Null ''pipelinesYmlPropertyBag'' ms) (\<lambda>x1.
     and_then (read_int ''id'' ms) (\<lambda>x2. and_then (read_field Some Null ''name'' ms) (\<lambda>x3.
     and_then (read_int ''projectId'' ms) (\<lambda>x4. and_then (read_int ''projectIntegrationId'' ms) (\<lambda>x5.
     and_then (read_string ''repositoryFullName'' ms) (\<lambda>x6.
     and_then (read_string ''configFolder'' ms) (\<lambda>x7.
     and_then (read_ptr conv_bool ''isMultiBranch'' ms) (\<lambda>x8.
     and_then (read_field Some Null ''isInternal'' ms) (\<lambda>x9.
     and_then (read_field Some Null ''branch'' ms) (\<lambda>x10.
     and_then (read_string ''branchExcludePattern'' ms) (\<lambda>x11.
     and_then (read_string ''branchIncludePattern'' ms) (\<lambda>x12.
     and_then (read_string ''fileFilter'' ms) (\<lambda>x13.
     and_then (read_field Some Null ''environments'' ms) (\<lambda>x14.
     and_then (read_ptr conv_bool ''isSyncing'' ms) (\<lambda>x15.
     and_then (read_int ''lastSyncStatusCode'' ms) (\<lambda>x16.
     and_then (read_field (conv_time parse_time) zero_time ''lastSyncStartedAt'' ms) (\<lambda>x17.
     and_then (read_field (conv_time parse_time) zero_time ''lastSyncEndedAt'' ms) (\<lambda>x18.
     and_then (read_string ''lastSyncLogs'' ms) (\<lambda>x19. and_then (read_int ''resourceId'' ms) (\<lambda>x20.
     and_then (read_int ''createdBy'' ms) (\<lambda>x21. and_then (read_int ''updatedBy'' ms) (\<lambda>x22.
     and_then (read_field Some Null ''templateId'' ms) (\<lambda>x23.
     and_then (read_string ''accessResourceNamePrefix'' ms) (\<lambda>x24.
     and_then (read_field (conv_time parse_time) zero_time ''createdAt'' ms) (\<lambda>x25.
     and_then (read_field (conv_time parse_time) zero_time ''updatedAt'' ms) (\<lambda>x26.
       Inr \<lparr>rs_ValuesYmlPropertyBag = x0, rs_PipelinesYmlPropertyBag = x1, rs_ID = x2, rs_Name = x3,
            rs_ProjectID = x4, rs_ProjectIntegrationID = x5, rs_RepositoryFullName = x6, rs_ConfigFolder = x7,
            rs_IsMultiBranch = x8, rs_IsInternal = x9, rs_Branch = x10, rs_BranchExcludePattern = x11,
            rs_BranchIncludePattern = x12, rs_FileFilter = x13, rs_Environments = x14, rs_IsSyncing = x15,
            rs_LastSyncStatusCode = x16, rs_LastSyncStartedAt = x17, rs_LastSyncEndedAt = x18, rs_LastSyncLogs = x19,
            rs_ResourceID = x20, rs_CreatedBy = x21, rs_UpdatedBy = x22, rs_TemplateID = x23,
            rs_AccessResourceNamePrefix = x24, rs_CreatedAt = x25,
            rs_UpdatedAt = x26\<rparr>)))))))))))))))))))))))))))"

definition zero_PipelineResources :: PipelineResources where
  "zero_PipelineResources =
     \<lparr>rs_ValuesYmlPropertyBag = Null, rs_PipelinesYmlPropertyBag = Null, rs_ID = 0, rs_Name = Null,
      rs_ProjectID = 0, rs_ProjectIntegrationID = 0, rs_RepositoryFullName = [], rs_ConfigFolder = [],
      rs_IsMultiBranch = None, rs_IsInternal = Null, rs_Branch = Null, rs_BranchExcludePattern = [],
      rs_BranchIncludePattern = [], rs_FileFilter = [], rs_Environments = Null, rs_IsSyncing = None,
      rs_LastSyncStatusCode = 0, rs_LastSyncStartedAt = zero_time, rs_LastSyncEndedAt = zero_time,
      rs_LastSyncLogs = [], rs_ResourceID = 0, rs_CreatedBy = 0, rs_UpdatedBy = 0, rs_TemplateID = Null,
      rs_AccessResourceNamePrefix = [], rs_CreatedAt = zero_time, rs_UpdatedAt = zero_time\<rparr>"

section \<open>Runs\<close>

definition GetRunStatus :: "(string \<Rightarrow> string option) \<Rightarrow> url_env \<Rightarrow> 'w service \<Rightarrow> string \<Rightarrow> string \<Rightarrow> bool \<Rightarrow> 'w \<Rightarrow>
    (PipelineRunStatusResponse result \<times> 'w) option" where
  "GetRunStatus parse_time env rs branch pipeName isMultiBranch w =
     (let queryParams = (if isMultiBranch then [(''pipelineSourceBranch'', branch)] else []) @
            (if pipeName \<noteq> [] then [(''name'', pipeName)] else [])
      in case constructPipelinesURL env queryParams (sv_url rs) ''api/v1/search/pipelines/'' of
           Inl e \<Rightarrow> Some (Inl e, w)
         | Inr uri \<Rightarrow> get_decoded rs uri (read_as (read_PipelineRunStatusResponse parse_time)) w)"

text \<open>The text of the request is put together from the names as they are.\<close>

definition trigger_payload :: "string \<Rightarrow> string \<Rightarrow> bool \<Rightarrow> string" where
  "trigger_payload branch pipeline isMultiBranch =
     (let q = [CHR 0x22]; nl = [CHR 0x0A]; tab = [CHR 0x09];
          name = q @ ''pipelineName'' @ q @ '': '' @ q @ TrimSpace pipeline @ q @ nl @ tab @ tab @ ''}''
      in if isMultiBranch
         then ''{'' @ nl @ tab @ ''    '' @ q @ ''branchName'' @ q @ '': '' @ q @ TrimSpace branch @ q @ '','' @ nl @ tab @ tab @ name
         else ''{'' @ nl @ tab @ tab @ name)"

text \<open>A POST request with a JSON text, to a path of the service.\<close>

definition post_to :: "url_env \<Rightarrow> 'w service \<Rightarrow> string \<Rightarrow> string \<Rightarrow> 'w \<Rightarrow> (go_error option \<times> 'w) option" where
  "post_to env rs apiPath content w =
     (case constructPipelinesURL env [] (sv_url rs) apiPath of
        Inl e \<Rightarrow> Some (Some e, w)
      | Inr uri \<Rightarrow> finished rs [200] (jc_SendPost (sv_client rs) uri (Some content) (json_details rs) w))"

definition TriggerPipelineRun :: "url_env \<Rightarrow> 'w service \<Rightarrow> string \<Rightarrow> string \<Rightarrow> bool \<Rightarrow> 'w \<Rightarrow> (go_error option \<times> 'w) option" where
  "TriggerPipelineRun env rs branch pipeline isMultiBranch =
     post_to env rs ''api/v1/pipelines/trigger'' (trigger_payload branch pipeline isMultiBranch)"

definition CancelRun :: "url_env \<Rightarrow> 'w service \<Rightarrow> int \<Rightarrow> 'w \<Rightarrow> (go_error option \<times> 'w) option" where
  "CancelRun env rs runID =
     post_to env rs (''api/v1/runs/'' @ itoa runID @ ''/cancel'') (''{'' @ [CHR 0x0A, CHR 0x09, CHR 0x09] @ ''}'')"

section \<open>Synchronisation\<close>

text \<open>The first resource with the name of the repository. The code logs whether it is multi-branch, and so reads the pointer.\<close>

definition find_resource :: "string \<Rightarrow> PipelineResources list \<Rightarrow> PipelineResources option result" where
  "find_resource repoName p =
     (case List.find (\<lambda>res. rs_RepositoryFullName res = repoName) p of
        None \<Rightarrow> Inr None
      | Some res \<Rightarrow> if rs_IsMultiBranch res = None then Inl (Panic ''nil pointer dereference'') else Inr (Some res))"

definition GetPipelineResource :: "(string \<Rightarrow> string option) \<Rightarrow> url_env \<Rightarrow> 'w service \<Rightarrow> string \<Rightarrow> 'w \<Rightarrow> (PipelineResources option result \<times> 'w) option" where
  "GetPipelineResource parse_time env ss repoName w =
     (case constructPipelinesURL env [] (sv_url ss) ''api/v1/pipelineSources'' of
        Inl e \<Rightarrow> Some (Inl e, w)
      | Inr uri \<Rightarrow>
          get_decoded ss uri (\<lambda>v. and_then (read_array (conv_struct (read_PipelineResources parse_time)) zero_PipelineResources v)
            (find_resource repoName)) w)"

definition SyncPipelineSource :: "(string \<Rightarrow> string option) \<Rightarrow> url_env \<Rightarrow> 'w service \<Rightarrow> string \<Rightarrow> string \<Rightarrow> 'w \<Rightarrow> (go_error option \<times> 'w) option" where
  "SyncPipelineSource parse_time env ss branch repoName w =
     (case GetPipelineResource parse_time env ss repoName w of
        None \<Rightarrow> None
      | Some (Inl e, w) \<Rightarrow> Some (Some e, w)
      | Some (Inr None, w) \<Rightarrow> Some (Some (Panic ''nil pointer dereference''), w)
      | Some (Inr (Some res), w) \<Rightarrow>
           (case constructPipelinesURL env [(''sync'', ''true''), (''branch'', branch)] (sv_url ss)
                   (path_join [''api/v1/pipelineSources'', itoa (rs_ID res)]) of
              Inl e \<Rightarrow> Some (Some e, w)
            | Inr uri \<Rightarrow> finished ss [200] (jc_SendGet (sv_client ss) uri True (details_of ss) w)))"

definition GetSyncPipelineResourceStatus :: "(string \<Rightarrow> string option) \<Rightarrow> url_env \<Rightarrow> 'w service \<Rightarrow> string \<Rightarrow> string \<Rightarrow> 'w \<Rightarrow>
    (PipelineSyncStatus list result \<times> 'w) option" where
  "GetSyncPipelineResourceStatus parse_time env ss repoName branch w =
     (case GetPipelineResource parse_time env ss repoName w of
        None \<Rightarrow> None
      | Some (Inl (Err e), w) \<Rightarrow> Some (Inl (Err (''unable to fetch resourceID for '' @ [CHR 0x27] @ repoName @ [CHR 0x27] @ ''. Second error: '' @ e)), w)
      | Some (Inl e, w) \<Rightarrow> Some (Inl e, w)
      | Some (Inr None, w) \<Rightarrow> Some (Inl (Panic ''nil pointer dereference''), w)
      | Some (Inr (Some res), w) \<Rightarrow>
           let queryParams = (if rs_IsMultiBranch res = Some True then [(''pipelineSourceBranches'', branch)] else []) @
                 [(''pipelineSourceIds'', itoa (rs_ID res))]
           in case constructPipelinesURL env queryParams (sv_url ss) ''api/v1/pipelineSyncStatuses'' of
                Inl e \<Rightarrow> Some (Inl e, w)
              | Inr uri \<Rightarrow> get_decoded ss uri (read_array (conv_struct (read_PipelineSyncStatus parse_time)) zero_PipelineSyncStatus) w)"

section \<open>System info\<close>

definition read_system_info :: "members \<Rightarrow> (string \<times> string) result" where
  "read_system_info ms = and_then (read_string ''serviceId'' ms) (\<lambda>i. and_then (read_string ''version'' ms) (\<lambda>v. Inr (i, v)))"

definition GetSystemInfo :: "'w service \<Rightarrow> 'w \<Rightarrow> ((string \<times> string) result \<times> 'w) option" where
  "GetSystemInfo ss w =
     after_reply (jc_SendGet (sv_client ss) (sv_url ss @ ''api/v1/system/info'') True (details_of ss) w) (\<lambda>reply w.
       Some (case reply of
               (_, _, Some e) \<Rightarrow> Inl e
             | (None, _, None) \<Rightarrow> Inl (Panic ''nil pointer dereference'')
             | (Some r, body, None) \<Rightarrow>
                 (case CheckResponseStatusWithBody (jc_indent (sv_client ss)) r body [200] of
                    Some e \<Rightarrow> Inl (Err (if StatusCode r = 404 then ''Pipelines: Pipelines is not available at the moment.''
                                        else ''failed while attempting to get Pipelines version:'' @ [CHR 0x0A] @ e))
                  | None \<Rightarrow> (case decoded ss (read_as read_system_info) body of
                               Inl (Err e) \<Rightarrow> Inl (Err (''couldn't parse Pipelines server response: '' @ e))
                             | r \<Rightarrow> r)), w))"

section \<open>The text of a trigger\<close>

lemma read_name: "plain_string k \<Longrightarrow> skip_ws s = CHR 0x22 # k @ CHR 0x22 # t \<Longrightarrow> parse_value d s = Some (StrV k, t)"
  by (simp add: parse_value.simps[of d s] string_rest_plain)

lemma skip_ws_Cons_simps:
  "json_space c \<Longrightarrow> skip_ws (c # s) = skip_ws s"
  "\<not> json_space c \<Longrightarrow> skip_ws (c # s) = c # s"
  by (simp_all add: skip_ws_def)

lemma spaces: "json_space CHR '' ''" "json_space CHR 0x09" "json_space CHR 0x0A" "\<not> json_space CHR 0x22" "\<not> json_space CHR ''}''"
  "\<not> json_space CHR ''{''" "\<not> json_space CHR '':''" "\<not> json_space CHR '',''"
  by (simp_all add: json_space_def)

lemma last_member:
  assumes "plain_string k" "plain_string v" "skip_ws s = CHR 0x22 # k @ [CHR 0x22] @ '': '' @ [CHR 0x22] @ v @ [CHR 0x22] @ t" "skip_ws t = CHR ''}'' # u"
  shows "object_members d s = Some ([(k, StrV v)], u)"
proof -
  have "parse_value d ('' '' @ CHR 0x22 # v @ CHR 0x22 # t) = Some (StrV v, t)"
    by (rule read_name[OF assms(2)]) (simp add: skip_ws_Cons_simps spaces)
  then show ?thesis using assms string_rest_plain[OF assms(1)]
    by (simp add: object_members.simps[of d s]) (simp add: skip_ws_Cons_simps spaces)
qed

lemma first_member:
  assumes "plain_string k" "plain_string v" "skip_ws s = CHR 0x22 # k @ [CHR 0x22] @ '': '' @ [CHR 0x22] @ v @ [CHR 0x22] @ '','' @ u"
    and "object_members d u = Some (ms, r)"
  shows "object_members d s = Some ((k, StrV v) # ms, r)"
proof -
  have v: "parse_value d ('' '' @ CHR 0x22 # v @ CHR 0x22 # '','' @ u) = Some (StrV v, '','' @ u)"
    by (rule read_name[OF assms(2)]) (simp add: skip_ws_Cons_simps spaces)
  have "length (skip_ws s) \<le> length s" by (rule skip_ws_le)
  then have "length u < length s" using assms(3) by simp
  then show ?thesis using assms v string_rest_plain[OF assms(1)]
    by (simp add: object_members.simps[of d s]) (simp add: skip_ws_Cons_simps spaces)
qed

lemma object_text:
  assumes "object_members 9999 s = Some (ms, [])" "skip_ws s = CHR 0x22 # t"
  shows "Unmarshal (CHR ''{'' # s) = Inr (ObjV ms)"
proof -
  have "parse_value 10000 (CHR ''{'' # s) = Some (ObjV ms, [])"
    using assms by (simp add: parse_value.simps[of 10000 "CHR ''{'' # s"] skip_ws_Cons_simps spaces)
  then show ?thesis by (simp add: Unmarshal_def maxNestingDepth_def skip_ws_def)
qed

lemma member_names: "plain_string ''branchName''" "plain_string ''pipelineName''"
  by (simp_all add: plain_string_def)

text \<open>C30: the text that triggers a run is an object with the names of the pipeline and, for a source with several branches, of the
  branch, without the white space around them, if the names have no quotes, backslashes and control characters. The names are
  not escaped, and others may add members of their own.\<close>

theorem trigger_payload_read:
  assumes "plain_string (TrimSpace branch)" "plain_string (TrimSpace pipeline)"
  shows "Unmarshal (trigger_payload branch pipeline isMultiBranch) =
    Inr (ObjV ((if isMultiBranch then [(''branchName'', StrV (TrimSpace branch))] else []) @ [(''pipelineName'', StrV (TrimSpace pipeline))]))"
proof -
  let ?q = "[CHR 0x22]" and ?nl = "[CHR 0x0A]" and ?tab = "[CHR 0x09]"
  let ?name = "?q @ ''pipelineName'' @ ?q @ '': '' @ ?q @ TrimSpace pipeline @ ?q @ ?nl @ ?tab @ ?tab @ ''}''"
  have name: "object_members 9999 (?nl @ ?tab @ ?tab @ ?name) = Some ([(''pipelineName'', StrV (TrimSpace pipeline))], [])"
    by (rule last_member[OF member_names(2) assms(2)], simp add: skip_ws_Cons_simps spaces, simp add: skip_ws_Cons_simps spaces)
  let ?both = "?nl @ ?tab @ ''    '' @ ?q @ ''branchName'' @ ?q @ '': '' @ ?q @ TrimSpace branch @ ?q @ '','' @ ?nl @ ?tab @ ?tab @ ?name"
  have both: "object_members 9999 ?both =
      Some ([(''branchName'', StrV (TrimSpace branch)), (''pipelineName'', StrV (TrimSpace pipeline))], [])"
    by (rule first_member[OF member_names(1) assms(1) _ name]) (simp add: skip_ws_Cons_simps spaces)
  show ?thesis
  proof (cases isMultiBranch)
    case True
    have "trigger_payload branch pipeline isMultiBranch = CHR ''{'' # ?both" using True by (simp add: trigger_payload_def Let_def)
    moreover have "Unmarshal (CHR ''{'' # ?both) =
        Inr (ObjV [(''branchName'', StrV (TrimSpace branch)), (''pipelineName'', StrV (TrimSpace pipeline))])"
      by (rule object_text[OF both]) (simp add: skip_ws_Cons_simps spaces)
    ultimately show ?thesis using True by (simp only: if_True append.simps)
  next
    case False
    have "trigger_payload branch pipeline isMultiBranch = CHR ''{'' # ?nl @ ?tab @ ?tab @ ?name"
      using False by (simp add: trigger_payload_def Let_def)
    moreover have "Unmarshal (CHR ''{'' # ?nl @ ?tab @ ?tab @ ?name) = Inr (ObjV [(''pipelineName'', StrV (TrimSpace pipeline))])"
      by (rule object_text[OF name]) (simp add: skip_ws_Cons_simps spaces)
    ultimately show ?thesis using False by (simp only: if_False append.simps)
  qed
qed

theorem trigger_payload_witness:
  "Unmarshal (trigger_payload '' main'' ''build '' True) = Inr (ObjV [(''branchName'', StrV ''main''), (''pipelineName'', StrV ''build'')])"
proof -
  have "TrimSpace '' main'' = ''main''" "TrimSpace ''build '' = ''build''" by code_simp+
  then show ?thesis using trigger_payload_read[of "'' main''" "''build ''" True] by (simp add: plain_string_def)
qed

lemma trigger_payload_injection:
  "Unmarshal (trigger_payload [] (''a'' @ [CHR 0x22] @ '','' @ [CHR 0x22] @ ''branchName'' @ [CHR 0x22] @ '':'' @ [CHR 0x22] @ ''b'') False) =
    Inr (ObjV [(''pipelineName'', StrV ''a''), (''branchName'', StrV ''b'')])"
  by code_simp

end
