(* ===== verification/XrayResults.thy ===== *)
theory XrayResults
  imports Rest Scan Git Access
begin

text \<open>
  What Xray is asked for, \<^verbatim>\<open>xray/services\<close>: the struct of a scan's results (scan.go), scans of builds (buildscan.go), summaries
  (summary.go), reports (report.go), the index of builds (binMgr.go) and the version (version.go), with that of JFrog Distribution, \<^verbatim>\<open>distribution/services/version.go\<close>.

  Numbers of type float64 and float32 are texts, as in \<^verbatim>\<open>Access\<close>. Fields that JSON leaves out are left out here. A service that
  returns a zero struct with an error is taken to return the error.
\<close>

section \<open>Results of a scan\<close>

text \<open>A map of structs; the last member with a name counts.\<close>

fun conv_members :: "(jvalue \<Rightarrow> 'a option) \<Rightarrow> 'a \<Rightarrow> members \<Rightarrow> (string \<times> 'a) list \<Rightarrow> (string \<times> 'a) list option" where
  "conv_members conv dflt [] m = Some m"
| "conv_members conv dflt ((k, v) # ms) m =
     (if v = Null then conv_members conv dflt ms (AList.update k dflt m)
      else case conv v of None \<Rightarrow> None | Some x \<Rightarrow> conv_members conv dflt ms (AList.update k x m))"

definition conv_dict :: "(jvalue \<Rightarrow> 'a option) \<Rightarrow> 'a \<Rightarrow> jvalue \<Rightarrow> (string \<times> 'a) list option" where
  "conv_dict conv dflt v = (case v of ObjV ms \<Rightarrow> conv_members conv dflt ms [] | _ \<Rightarrow> None)"

record ImpactPathNode =
  ip_ComponentId :: string
  ip_FullPath :: string

definition read_ImpactPathNode :: "members \<Rightarrow> ImpactPathNode result" where
  "read_ImpactPathNode ms =
     and_then (read_string ''component_id'' ms) (\<lambda>x0. and_then (read_string ''full_path'' ms) (\<lambda>x1.
       Inr \<lparr>ip_ComponentId = x0, ip_FullPath = x1\<rparr>))"

definition zero_ImpactPathNode :: ImpactPathNode where
  "zero_ImpactPathNode =
     \<lparr>ip_ComponentId = [], ip_FullPath = []\<rparr>"

record Component =
  cm_FixedVersions :: "string list"
  cm_ImpactPaths :: "ImpactPathNode list list"
  cm_Cpes :: "string list"

definition read_Component :: "members \<Rightarrow> Component result" where
  "read_Component ms =
     and_then (read_strings ''fixed_versions'' ms) (\<lambda>x0.
     and_then (read_list (conv_array (conv_struct read_ImpactPathNode) zero_ImpactPathNode) [] ''impact_paths'' ms) (\<lambda>x1.
     and_then (read_strings ''cpes'' ms) (\<lambda>x2.
       Inr \<lparr>cm_FixedVersions = x0, cm_ImpactPaths = x1, cm_Cpes = x2\<rparr>)))"

definition zero_Component :: Component where
  "zero_Component =
     \<lparr>cm_FixedVersions = [], cm_ImpactPaths = [], cm_Cpes = []\<rparr>"

record Cve =
  cv_Id :: string
  cv_CvssV2Score :: string
  cv_CvssV2Vector :: string
  cv_CvssV3Score :: string
  cv_CvssV3Vector :: string

definition read_Cve :: "members \<Rightarrow> Cve result" where
  "read_Cve ms =
     and_then (read_string ''cve'' ms) (\<lambda>x0. and_then (read_string ''cvss_v2_score'' ms) (\<lambda>x1.
     and_then (read_string ''cvss_v2_vector'' ms) (\<lambda>x2.
     and_then (read_string ''cvss_v3_score'' ms) (\<lambda>x3.
     and_then (read_string ''cvss_v3_vector'' ms) (\<lambda>x4.
       Inr \<lparr>cv_Id = x0, cv_CvssV2Score = x1, cv_CvssV2Vector = x2, cv_CvssV3Score = x3,
            cv_CvssV3Vector = x4\<rparr>)))))"

definition zero_Cve :: Cve where
  "zero_Cve =
     \<lparr>cv_Id = [], cv_CvssV2Score = [], cv_CvssV2Vector = [], cv_CvssV3Score = [], cv_CvssV3Vector = []\<rparr>"

record JfrogResearchSeverityReason =
  jr_Name :: string
  jr_Description :: string
  jr_IsPositive :: bool

definition read_JfrogResearchSeverityReason :: "members \<Rightarrow> JfrogResearchSeverityReason result" where
  "read_JfrogResearchSeverityReason ms =
     and_then (read_string ''name'' ms) (\<lambda>x0. and_then (read_string ''description'' ms) (\<lambda>x1.
     and_then (read_flag ''is_positive'' ms) (\<lambda>x2.
       Inr \<lparr>jr_Name = x0, jr_Description = x1, jr_IsPositive = x2\<rparr>)))"

definition zero_JfrogResearchSeverityReason :: JfrogResearchSeverityReason where
  "zero_JfrogResearchSeverityReason =
     \<lparr>jr_Name = [], jr_Description = [], jr_IsPositive = False\<rparr>"

record ExtendedInformation =
  ei_ShortDescription :: string
  ei_FullDescription :: string
  ei_JfrogResearchSeverity :: string
  ei_JfrogResearchSeverityReasons :: "JfrogResearchSeverityReason list"
  ei_Remediation :: string

definition read_ExtendedInformation :: "members \<Rightarrow> ExtendedInformation result" where
  "read_ExtendedInformation ms =
     and_then (read_string ''short_description'' ms) (\<lambda>x0.
     and_then (read_string ''full_description'' ms) (\<lambda>x1.
     and_then (read_string ''jfrog_research_severity'' ms) (\<lambda>x2.
     and_then (read_list (conv_struct read_JfrogResearchSeverityReason) zero_JfrogResearchSeverityReason ''jfrog_research_severity_reasons'' ms) (\<lambda>x3.
     and_then (read_string ''remediation'' ms) (\<lambda>x4.
       Inr \<lparr>ei_ShortDescription = x0, ei_FullDescription = x1, ei_JfrogResearchSeverity = x2,
            ei_JfrogResearchSeverityReasons = x3, ei_Remediation = x4\<rparr>)))))"

definition zero_ExtendedInformation :: ExtendedInformation where
  "zero_ExtendedInformation =
     \<lparr>ei_ShortDescription = [], ei_FullDescription = [], ei_JfrogResearchSeverity = [],
      ei_JfrogResearchSeverityReasons = [], ei_Remediation = []\<rparr>"

record Violation =
  vi_Summary :: string
  vi_Severity :: string
  vi_ViolationType :: string
  vi_Components :: "(string \<times> Component) list"
  vi_WatchName :: string
  vi_IssueId :: string
  vi_Cves :: "Cve list"
  vi_References :: "string list"
  vi_FailBuild :: bool
  vi_LicenseKey :: string
  vi_LicenseName :: string
  vi_IgnoreUrl :: string
  vi_RiskReason :: string
  vi_IsEol :: "bool option"
  vi_EolMessage :: string
  vi_LatestVersion :: string
  vi_NewerVersions :: "int option"
  vi_Cadence :: "string option"
  vi_Commits :: "int option"
  vi_Committers :: "int option"
  vi_ExtendedInformation :: "ExtendedInformation option"

definition read_Violation :: "(string \<Rightarrow> string option) \<Rightarrow> members \<Rightarrow> Violation result" where
  "read_Violation float_text ms =
     and_then (read_string ''summary'' ms) (\<lambda>x0. and_then (read_string ''severity'' ms) (\<lambda>x1.
     and_then (read_string ''type'' ms) (\<lambda>x2.
     and_then (read_field (conv_dict (conv_struct read_Component) zero_Component) [] ''components'' ms) (\<lambda>x3.
     and_then (read_string ''watch_name'' ms) (\<lambda>x4. and_then (read_string ''issue_id'' ms) (\<lambda>x5.
     and_then (read_list (conv_struct read_Cve) zero_Cve ''cves'' ms) (\<lambda>x6.
     and_then (read_strings ''references'' ms) (\<lambda>x7. and_then (read_flag ''fail_build'' ms) (\<lambda>x8.
     and_then (read_string ''license_key'' ms) (\<lambda>x9.
     and_then (read_string ''license_name'' ms) (\<lambda>x10.
     and_then (read_string ''ignore_url'' ms) (\<lambda>x11. and_then (read_string ''risk_reason'' ms) (\<lambda>x12.
     and_then (read_ptr conv_bool ''is_eol'' ms) (\<lambda>x13.
     and_then (read_string ''eol_message'' ms) (\<lambda>x14.
     and_then (read_string ''latest_version'' ms) (\<lambda>x15.
     and_then (read_ptr conv_int ''newer_versions'' ms) (\<lambda>x16.
     and_then (read_ptr (conv_float float_text) ''cadence'' ms) (\<lambda>x17.
     and_then (read_ptr conv_int ''commits'' ms) (\<lambda>x18.
     and_then (read_ptr conv_int ''committers'' ms) (\<lambda>x19.
     and_then (read_ptr (conv_struct read_ExtendedInformation) ''extended_information'' ms) (\<lambda>x20.
       Inr \<lparr>vi_Summary = x0, vi_Severity = x1, vi_ViolationType = x2, vi_Components = x3, vi_WatchName = x4,
            vi_IssueId = x5, vi_Cves = x6, vi_References = x7, vi_FailBuild = x8, vi_LicenseKey = x9,
            vi_LicenseName = x10, vi_IgnoreUrl = x11, vi_RiskReason = x12, vi_IsEol = x13, vi_EolMessage = x14,
            vi_LatestVersion = x15, vi_NewerVersions = x16, vi_Cadence = x17, vi_Commits = x18, vi_Committers = x19,
            vi_ExtendedInformation = x20\<rparr>)))))))))))))))))))))"

definition zero_Violation :: Violation where
  "zero_Violation =
     \<lparr>vi_Summary = [], vi_Severity = [], vi_ViolationType = [], vi_Components = [], vi_WatchName = [],
      vi_IssueId = [], vi_Cves = [], vi_References = [], vi_FailBuild = False, vi_LicenseKey = [],
      vi_LicenseName = [], vi_IgnoreUrl = [], vi_RiskReason = [], vi_IsEol = None, vi_EolMessage = [],
      vi_LatestVersion = [], vi_NewerVersions = None, vi_Cadence = None, vi_Commits = None, vi_Committers = None,
      vi_ExtendedInformation = None\<rparr>"

record Vulnerability =
  vu_Cves :: "Cve list"
  vu_Summary :: string
  vu_Severity :: string
  vu_Components :: "(string \<times> Component) list"
  vu_IssueId :: string
  vu_References :: "string list"
  vu_ExtendedInformation :: "ExtendedInformation option"

definition read_Vulnerability :: "members \<Rightarrow> Vulnerability result" where
  "read_Vulnerability ms =
     and_then (read_list (conv_struct read_Cve) zero_Cve ''cves'' ms) (\<lambda>x0.
     and_then (read_string ''summary'' ms) (\<lambda>x1. and_then (read_string ''severity'' ms) (\<lambda>x2.
     and_then (read_field (conv_dict (conv_struct read_Component) zero_Component) [] ''components'' ms) (\<lambda>x3.
     and_then (read_string ''issue_id'' ms) (\<lambda>x4. and_then (read_strings ''references'' ms) (\<lambda>x5.
     and_then (read_ptr (conv_struct read_ExtendedInformation) ''extended_information'' ms) (\<lambda>x6.
       Inr \<lparr>vu_Cves = x0, vu_Summary = x1, vu_Severity = x2, vu_Components = x3, vu_IssueId = x4,
            vu_References = x5, vu_ExtendedInformation = x6\<rparr>)))))))"

definition zero_Vulnerability :: Vulnerability where
  "zero_Vulnerability =
     \<lparr>vu_Cves = [], vu_Summary = [], vu_Severity = [], vu_Components = [], vu_IssueId = [],
      vu_References = [], vu_ExtendedInformation = None\<rparr>"

section \<open>Scans of builds\<close>

record XrayBuildParams =
  xb_BuildName :: string
  xb_BuildNumber :: string
  xb_Project :: string
  xb_Rescan :: bool

definition XrayBuildParams_table :: "XrayBuildParams \<Rightarrow> field_table" where
  "XrayBuildParams_table p =
     [(''build_name'', opt_string (xb_BuildName p)), (''build_number'', opt_string (xb_BuildNumber p)),
      (''project'', opt_string (xb_Project p)), (''rescan'', opt_flag (xb_Rescan p))]"

record BuildScanResponse =
  br_Status :: string
  br_MoreDetailsUrl :: string
  br_FailBuild :: bool
  br_Violations :: "Violation list"
  br_Vulnerabilities :: "Vulnerability list"
  br_Info :: string

definition read_BuildScanResponse :: "(string \<Rightarrow> string option) \<Rightarrow> members \<Rightarrow> BuildScanResponse result" where
  "read_BuildScanResponse float_text ms =
     and_then (read_string ''status'' ms) (\<lambda>x0. and_then (read_string ''more_details_url'' ms) (\<lambda>x1.
     and_then (read_flag ''fail_build'' ms) (\<lambda>x2.
     and_then (read_list (conv_struct (read_Violation float_text)) zero_Violation ''violations'' ms) (\<lambda>x3.
     and_then (read_list (conv_struct read_Vulnerability) zero_Vulnerability ''vulnerabilities'' ms) (\<lambda>x4.
     and_then (read_string ''info'' ms) (\<lambda>x5.
       Inr \<lparr>br_Status = x0, br_MoreDetailsUrl = x1, br_FailBuild = x2, br_Violations = x3,
            br_Vulnerabilities = x4, br_Info = x5\<rparr>))))))"

definition zero_BuildScanResponse :: BuildScanResponse where
  "zero_BuildScanResponse =
     \<lparr>br_Status = [], br_MoreDetailsUrl = [], br_FailBuild = False, br_Violations = [],
      br_Vulnerabilities = [], br_Info = []\<rparr>"

definition buildScanAPI :: string where
  "buildScanAPI = ''api/v2/ci/build''"

definition xrayScanBuildNotSelectedForIndexing :: string where
  "xrayScanBuildNotSelectedForIndexing = ''is not selected for indexing''"

text \<open>The quotation marks of the source are three bytes each.\<close>

definition XrayScanBuildNoFailBuildPolicy :: string where
  "XrayScanBuildNoFailBuildPolicy =
     ''No Xray '' @ [CHR 0xE2, CHR 0x80, CHR 0x9C] @ ''Fail build in case of a violation'' @ [CHR 0xE2, CHR 0x80, CHR 0x9D] @
     '' policy rule has been defined on this build''"

definition scan_info :: "string \<Rightarrow> go_error option" where
  "scan_info info =
     (if str_contains info xrayScanBuildNotSelectedForIndexing \<or> str_contains info XrayScanBuildNoFailBuildPolicy
      then Some (Err info) else None)"

definition BuildScan_Scan :: "'w service \<Rightarrow> XrayBuildParams \<Rightarrow> 'w \<Rightarrow> (go_error option \<times> 'w) option" where
  "BuildScan_Scan bs params w =
     map_option (\<lambda>(r, w). (case r of Inl e \<Rightarrow> Some e | Inr info \<Rightarrow> scan_info info, w))
       (answered_body bs [200, 201] (decoded bs (read_as (read_string ''info'')))
          (jc_SendPost (sv_client bs) (sv_url bs @ buildScanAPI) (Some (document (XrayBuildParams_table params))) (json_details bs) w))"

definition build_results_url :: "'w service \<Rightarrow> XrayBuildParams \<Rightarrow> bool \<Rightarrow> string" where
  "build_results_url bs params includeVulnerabilities =
     (let endPoint = sv_url bs @ buildScanAPI @ ''/'' @ xb_BuildName params @ ''/'' @ xb_BuildNumber params;
          queryParams = (if xb_Project params \<noteq> [] then [''projectKey='' @ xb_Project params] else []) @
            (if includeVulnerabilities then [''include_vulnerabilities=true''] else [])
      in if queryParams \<noteq> [] then endPoint @ ''?'' @ str_join ''&'' queryParams else endPoint)"

definition build_polling :: "XrayBuildParams \<Rightarrow> PollingExecutor" where
  "build_polling params =
     \<lparr>Timeout = defaultMaxWaitMinutes, PollingInterval = defaultSyncSleepInterval,
      MsgPrefix = ''Get Build Scan results for Build: '' @ xb_BuildName params @ ''/'' @ xb_BuildNumber params @ ''...''\<rparr>"

definition build_response :: "(string \<Rightarrow> string option) \<Rightarrow> 'w service \<Rightarrow> string \<Rightarrow> BuildScanResponse result" where
  "build_response float_text bs body =
     and_then (decoded bs (read_as (read_BuildScanResponse float_text)) body) (\<lambda>r.
       if br_Status r = ''failed'' then Inl (Err ''Xray build scan failed'') else Inr r)"

text \<open>The poll is that of a graph scan.\<close>

definition GetBuildScanResults :: "(string \<Rightarrow> string option) \<Rightarrow> bool \<Rightarrow> (int \<Rightarrow> int \<Rightarrow> int) \<Rightarrow> 'w service \<Rightarrow> XrayBuildParams \<Rightarrow> bool \<Rightarrow> 'w \<Rightarrow>
    (BuildScanResponse result \<times> 'w) option" where
  "GetBuildScanResults float_text read_after float_quotient bs params includeVulnerabilities w =
     (case PollingExecute read_after float_quotient (build_polling params)
             (scan_action bs (build_results_url bs params includeVulnerabilities)) (Some (json_content (details_of bs), w)) of
        (body, err, None) \<Rightarrow> None
      | (body, err, Some (details, w)) \<Rightarrow>
          Some (case err of
                  Some e \<Rightarrow> Inl (Err (error_text e))
                | None \<Rightarrow> build_response float_text bs (case body of None \<Rightarrow> [] | Some b \<Rightarrow> b), w))"

section \<open>Summaries\<close>

record SummaryComponent =
  sc_ComponentId :: string
  sc_FixedVersions :: "string list"

definition read_SummaryComponent :: "members \<Rightarrow> SummaryComponent result" where
  "read_SummaryComponent ms =
     and_then (read_string ''component_id'' ms) (\<lambda>x0.
     and_then (read_strings ''fixed_versions'' ms) (\<lambda>x1.
       Inr \<lparr>sc_ComponentId = x0, sc_FixedVersions = x1\<rparr>))"

definition zero_SummaryComponent :: SummaryComponent where
  "zero_SummaryComponent =
     \<lparr>sc_ComponentId = [], sc_FixedVersions = []\<rparr>"

record SummaryCve =
  su_Id :: string
  su_CvssV2Score :: string
  su_CvssV3Score :: string
  su_Cwe :: "string list"

definition read_SummaryCve :: "members \<Rightarrow> SummaryCve result" where
  "read_SummaryCve ms =
     and_then (read_string ''cve'' ms) (\<lambda>x0. and_then (read_string ''cvss_v2'' ms) (\<lambda>x1.
     and_then (read_string ''cvss_v3'' ms) (\<lambda>x2. and_then (read_strings ''cwe'' ms) (\<lambda>x3.
       Inr \<lparr>su_Id = x0, su_CvssV2Score = x1, su_CvssV3Score = x2, su_Cwe = x3\<rparr>))))"

definition zero_SummaryCve :: SummaryCve where
  "zero_SummaryCve =
     \<lparr>su_Id = [], su_CvssV2Score = [], su_CvssV3Score = [], su_Cwe = []\<rparr>"

record Error =
  er_Error :: string
  er_Identifier :: string

definition read_Error :: "members \<Rightarrow> Error result" where
  "read_Error ms =
     and_then (read_string ''error'' ms) (\<lambda>x0. and_then (read_string ''identifier'' ms) (\<lambda>x1.
       Inr \<lparr>er_Error = x0, er_Identifier = x1\<rparr>))"

definition zero_Error :: Error where
  "zero_Error =
     \<lparr>er_Error = [], er_Identifier = []\<rparr>"

record SummaryLicense =
  sl_Components :: "string list"
  sl_FullName :: string
  sl_MoreInfoUrl :: "string list"
  sl_Name :: string

definition read_SummaryLicense :: "members \<Rightarrow> SummaryLicense result" where
  "read_SummaryLicense ms =
     and_then (read_strings ''components'' ms) (\<lambda>x0. and_then (read_string ''full_name'' ms) (\<lambda>x1.
     and_then (read_strings ''more_info_url'' ms) (\<lambda>x2. and_then (read_string ''name'' ms) (\<lambda>x3.
       Inr \<lparr>sl_Components = x0, sl_FullName = x1, sl_MoreInfoUrl = x2, sl_Name = x3\<rparr>))))"

definition zero_SummaryLicense :: SummaryLicense where
  "zero_SummaryLicense =
     \<lparr>sl_Components = [], sl_FullName = [], sl_MoreInfoUrl = [], sl_Name = []\<rparr>"

record Issue =
  is_IssueId :: string
  is_Summary :: string
  is_Description :: string
  is_IssueType :: string
  is_Severity :: string
  is_Provider :: string
  is_Cves :: "SummaryCve list"
  is_Created :: string
  is_ImpactPath :: "string list"
  is_Components :: "SummaryComponent list"
  is_ComponentPhysicalPaths :: "string list"

definition read_Issue :: "members \<Rightarrow> Issue result" where
  "read_Issue ms =
     and_then (read_string ''issue_id'' ms) (\<lambda>x0. and_then (read_string ''summary'' ms) (\<lambda>x1.
     and_then (read_string ''description'' ms) (\<lambda>x2. and_then (read_string ''issue_type'' ms) (\<lambda>x3.
     and_then (read_string ''severity'' ms) (\<lambda>x4. and_then (read_string ''provider'' ms) (\<lambda>x5.
     and_then (read_list (conv_struct read_SummaryCve) zero_SummaryCve ''cves'' ms) (\<lambda>x6.
     and_then (read_string ''created'' ms) (\<lambda>x7. and_then (read_strings ''impact_path'' ms) (\<lambda>x8.
     and_then (read_list (conv_struct read_SummaryComponent) zero_SummaryComponent ''components'' ms) (\<lambda>x9.
     and_then (read_strings ''component_physical_paths'' ms) (\<lambda>x10.
       Inr \<lparr>is_IssueId = x0, is_Summary = x1, is_Description = x2, is_IssueType = x3, is_Severity = x4,
            is_Provider = x5, is_Cves = x6, is_Created = x7, is_ImpactPath = x8, is_Components = x9,
            is_ComponentPhysicalPaths = x10\<rparr>)))))))))))"

definition zero_Issue :: Issue where
  "zero_Issue =
     \<lparr>is_IssueId = [], is_Summary = [], is_Description = [], is_IssueType = [], is_Severity = [],
      is_Provider = [], is_Cves = [], is_Created = [], is_ImpactPath = [], is_Components = [],
      is_ComponentPhysicalPaths = []\<rparr>"

record SummaryResponse =
  sr_Issues :: "Issue list"
  sr_Errors :: "Error list"

definition read_SummaryResponse :: "members \<Rightarrow> SummaryResponse result" where
  "read_SummaryResponse ms =
     and_then (read_list (conv_struct read_Issue) zero_Issue ''Issues'' ms) (\<lambda>x0.
     and_then (read_list (conv_struct read_Error) zero_Error ''Errors'' ms) (\<lambda>x1.
       Inr \<lparr>sr_Issues = x0, sr_Errors = x1\<rparr>))"

definition zero_SummaryResponse :: SummaryResponse where
  "zero_SummaryResponse =
     \<lparr>sr_Issues = [], sr_Errors = []\<rparr>"

record General =
  ge_ComponentId :: string
  ge_Name :: string
  ge_Path :: string
  ge_PkgType :: string
  ge_Sha256 :: string

definition read_General :: "members \<Rightarrow> General result" where
  "read_General ms =
     and_then (read_string ''component_id'' ms) (\<lambda>x0. and_then (read_string ''name'' ms) (\<lambda>x1.
     and_then (read_string ''path'' ms) (\<lambda>x2. and_then (read_string ''pkg_type'' ms) (\<lambda>x3.
     and_then (read_string ''sha256'' ms) (\<lambda>x4.
       Inr \<lparr>ge_ComponentId = x0, ge_Name = x1, ge_Path = x2, ge_PkgType = x3, ge_Sha256 = x4\<rparr>)))))"

definition zero_General :: General where
  "zero_General =
     \<lparr>ge_ComponentId = [], ge_Name = [], ge_Path = [], ge_PkgType = [], ge_Sha256 = []\<rparr>"

record XrayArtifact =
  ar_General :: General
  ar_Issues :: "Issue list"
  ar_Licenses :: "SummaryLicense list"

definition read_XrayArtifact :: "members \<Rightarrow> XrayArtifact result" where
  "read_XrayArtifact ms =
     and_then (read_field (conv_struct read_General) zero_General ''general'' ms) (\<lambda>x0.
     and_then (read_list (conv_struct read_Issue) zero_Issue ''issues'' ms) (\<lambda>x1.
     and_then (read_list (conv_struct read_SummaryLicense) zero_SummaryLicense ''licenses'' ms) (\<lambda>x2.
       Inr \<lparr>ar_General = x0, ar_Issues = x1, ar_Licenses = x2\<rparr>)))"

definition zero_XrayArtifact :: XrayArtifact where
  "zero_XrayArtifact =
     \<lparr>ar_General = zero_General, ar_Issues = [], ar_Licenses = []\<rparr>"

record ArtifactSummaryResponse =
  as_Artifacts :: "XrayArtifact list"
  as_Errors :: "Error list"

definition read_ArtifactSummaryResponse :: "members \<Rightarrow> ArtifactSummaryResponse result" where
  "read_ArtifactSummaryResponse ms =
     and_then (read_list (conv_struct read_XrayArtifact) zero_XrayArtifact ''artifacts'' ms) (\<lambda>x0.
     and_then (read_list (conv_struct read_Error) zero_Error ''errors'' ms) (\<lambda>x1.
       Inr \<lparr>as_Artifacts = x0, as_Errors = x1\<rparr>))"

definition zero_ArtifactSummaryResponse :: ArtifactSummaryResponse where
  "zero_ArtifactSummaryResponse =
     \<lparr>as_Artifacts = [], as_Errors = []\<rparr>"

record ArtifactSummaryParams =
  asp_Checksums :: "string list"
  asp_Paths :: "string list"

definition ArtifactSummaryParams_table :: "ArtifactSummaryParams \<Rightarrow> field_table" where
  "ArtifactSummaryParams_table p =
     [(''checksums'', opt_list StrV (asp_Checksums p)), (''paths'', opt_list StrV (asp_Paths p))]"

definition getSummaryUrl :: "'w service \<Rightarrow> string" where
  "getSummaryUrl ss = sv_url ss @ ''api/v2/summary/''"

definition summary_error :: "string \<Rightarrow> Error list \<Rightarrow> go_error option" where
  "summary_error what errors =
     (case errors of
        [] \<Rightarrow> None
      | e # _ \<Rightarrow> Some (Err (''Getting '' @ what @ '': '' @ er_Identifier e @ '' failed with error: '' @ er_Error e)))"

definition with_errors :: "('r \<Rightarrow> go_error option) \<Rightarrow> 'r result \<Rightarrow> 'r result" where
  "with_errors f r = and_then r (\<lambda>x. case f x of Some e \<Rightarrow> Inl e | None \<Rightarrow> Inr x)"

definition GetBuildSummary :: "'w service \<Rightarrow> XrayBuildParams \<Rightarrow> 'w \<Rightarrow> (SummaryResponse result \<times> 'w) option" where
  "GetBuildSummary ss params w =
     (let url = getSummaryUrl ss @ ''build?build_name='' @ xb_BuildName params @ ''&build_number='' @ xb_BuildNumber params @
            (if xb_Project params \<noteq> [] then ''&projectKey='' @ xb_Project params else [])
      in map_option (\<lambda>(r, w). (with_errors (\<lambda>r. summary_error ''build-summary for build'' (sr_Errors r)) r, w))
           (get_decoded ss url (read_as read_SummaryResponse) w))"

definition GetArtifactSummary :: "'w service \<Rightarrow> ArtifactSummaryParams \<Rightarrow> 'w \<Rightarrow> (ArtifactSummaryResponse result \<times> 'w) option" where
  "GetArtifactSummary ss params w =
     map_option (\<lambda>(r, w). (with_errors (\<lambda>r. summary_error ''artifact-summary for artifact'' (as_Errors r)) r, w))
       (answered_body ss [200] (decoded ss (read_as read_ArtifactSummaryResponse))
          (jc_SendPost (sv_client ss) (getSummaryUrl ss @ ''artifact'') (Some (document (ArtifactSummaryParams_table params))) (json_details ss) w))"

section \<open>Reports\<close>

record ReportDetails =
  rd_Id :: int
  rd_Name :: string
  rd_Type :: string
  rd_Status :: string
  rd_TotalArtifacts :: int
  rd_ProcessedArtifacts :: int
  rd_Progress :: int
  rd_RowCount :: int
  rd_StartTime :: string
  rd_EndTime :: string
  rd_Author :: string

definition read_ReportDetails :: "members \<Rightarrow> ReportDetails result" where
  "read_ReportDetails ms =
     and_then (read_int ''id'' ms) (\<lambda>x0. and_then (read_string ''name'' ms) (\<lambda>x1.
     and_then (read_string ''report_type'' ms) (\<lambda>x2. and_then (read_string ''status'' ms) (\<lambda>x3.
     and_then (read_int ''total_artifacts'' ms) (\<lambda>x4.
     and_then (read_int ''num_of_processed_artifacts'' ms) (\<lambda>x5.
     and_then (read_int ''progress'' ms) (\<lambda>x6. and_then (read_int ''number_of_rows'' ms) (\<lambda>x7.
     and_then (read_string ''start_time'' ms) (\<lambda>x8. and_then (read_string ''end_time'' ms) (\<lambda>x9.
     and_then (read_string ''author'' ms) (\<lambda>x10.
       Inr \<lparr>rd_Id = x0, rd_Name = x1, rd_Type = x2, rd_Status = x3, rd_TotalArtifacts = x4,
            rd_ProcessedArtifacts = x5, rd_Progress = x6, rd_RowCount = x7, rd_StartTime = x8, rd_EndTime = x9,
            rd_Author = x10\<rparr>)))))))))))"

definition zero_ReportDetails :: ReportDetails where
  "zero_ReportDetails =
     \<lparr>rd_Id = 0, rd_Name = [], rd_Type = [], rd_Status = [], rd_TotalArtifacts = 0, rd_ProcessedArtifacts = 0,
      rd_Progress = 0, rd_RowCount = 0, rd_StartTime = [], rd_EndTime = [], rd_Author = []\<rparr>"

record ReportCve =
  rc_Id :: string
  rc_CvssV2Score :: string
  rc_CvssV2Vector :: string
  rc_CvssV3Score :: string
  rc_CvssV3Vector :: string

definition read_ReportCve :: "(string \<Rightarrow> string option) \<Rightarrow> members \<Rightarrow> ReportCve result" where
  "read_ReportCve float_text ms =
     and_then (read_string ''cve'' ms) (\<lambda>x0.
     and_then (read_field (conv_float float_text) [] ''cvss_v2_score'' ms) (\<lambda>x1.
     and_then (read_string ''cvss_v2_vector'' ms) (\<lambda>x2.
     and_then (read_field (conv_float float_text) [] ''cvss_v3_score'' ms) (\<lambda>x3.
     and_then (read_string ''cvss_v3_vector'' ms) (\<lambda>x4.
       Inr \<lparr>rc_Id = x0, rc_CvssV2Score = x1, rc_CvssV2Vector = x2, rc_CvssV3Score = x3,
            rc_CvssV3Vector = x4\<rparr>)))))"

definition zero_ReportCve :: ReportCve where
  "zero_ReportCve =
     \<lparr>rc_Id = [], rc_CvssV2Score = [], rc_CvssV2Vector = [], rc_CvssV3Score = [], rc_CvssV3Vector = []\<rparr>"

record Row =
  rw_Cves :: "ReportCve list"
  rw_Cvsv2MaxScore :: string
  rw_Cvsv3MaxScore :: string
  rw_Summary :: string
  rw_Severity :: string
  rw_SeveritySource :: string
  rw_VulnerableComponent :: string
  rw_ImpactedArtifact :: string
  rw_ImpactPath :: "string list"
  rw_Path :: string
  rw_FixedVersions :: "string list"
  rw_Published :: string
  rw_IssueId :: string
  rw_PackageType :: string
  rw_Provider :: string
  rw_Description :: string
  rw_References :: "string list"
  rw_ExternalAdvisorySource :: string
  rw_ExternalAdvisorySeverity :: string

definition read_Row :: "(string \<Rightarrow> string option) \<Rightarrow> members \<Rightarrow> Row result" where
  "read_Row float_text ms =
     and_then (read_list (conv_struct (read_ReportCve float_text)) zero_ReportCve ''cves'' ms) (\<lambda>x0.
     and_then (read_field (conv_float float_text) [] ''cvss2_max_score'' ms) (\<lambda>x1.
     and_then (read_field (conv_float float_text) [] ''cvss3_max_score'' ms) (\<lambda>x2.
     and_then (read_string ''summary'' ms) (\<lambda>x3. and_then (read_string ''severity'' ms) (\<lambda>x4.
     and_then (read_string ''severity_source'' ms) (\<lambda>x5.
     and_then (read_string ''vulnerable_component'' ms) (\<lambda>x6.
     and_then (read_string ''impacted_artifact'' ms) (\<lambda>x7.
     and_then (read_strings ''impact_path'' ms) (\<lambda>x8. and_then (read_string ''path'' ms) (\<lambda>x9.
     and_then (read_strings ''fixed_versions'' ms) (\<lambda>x10.
     and_then (read_string ''published'' ms) (\<lambda>x11. and_then (read_string ''issue_id'' ms) (\<lambda>x12.
     and_then (read_string ''package_type'' ms) (\<lambda>x13. and_then (read_string ''provider'' ms) (\<lambda>x14.
     and_then (read_string ''description'' ms) (\<lambda>x15.
     and_then (read_strings ''references'' ms) (\<lambda>x16.
     and_then (read_string ''external_advisory_source'' ms) (\<lambda>x17.
     and_then (read_string ''external_advisory_severity'' ms) (\<lambda>x18.
       Inr \<lparr>rw_Cves = x0, rw_Cvsv2MaxScore = x1, rw_Cvsv3MaxScore = x2, rw_Summary = x3, rw_Severity = x4,
            rw_SeveritySource = x5, rw_VulnerableComponent = x6, rw_ImpactedArtifact = x7, rw_ImpactPath = x8,
            rw_Path = x9, rw_FixedVersions = x10, rw_Published = x11, rw_IssueId = x12, rw_PackageType = x13,
            rw_Provider = x14, rw_Description = x15, rw_References = x16, rw_ExternalAdvisorySource = x17,
            rw_ExternalAdvisorySeverity = x18\<rparr>)))))))))))))))))))"

definition zero_Row :: Row where
  "zero_Row =
     \<lparr>rw_Cves = [], rw_Cvsv2MaxScore = [], rw_Cvsv3MaxScore = [], rw_Summary = [], rw_Severity = [],
      rw_SeveritySource = [], rw_VulnerableComponent = [], rw_ImpactedArtifact = [], rw_ImpactPath = [],
      rw_Path = [], rw_FixedVersions = [], rw_Published = [], rw_IssueId = [], rw_PackageType = [], rw_Provider = [],
      rw_Description = [], rw_References = [], rw_ExternalAdvisorySource = [],
      rw_ExternalAdvisorySeverity = []\<rparr>"

record ReportContent =
  rn_TotalRows :: int
  rn_Rows :: "Row list"

definition read_ReportContent :: "(string \<Rightarrow> string option) \<Rightarrow> members \<Rightarrow> ReportContent result" where
  "read_ReportContent float_text ms =
     and_then (read_int ''total_rows'' ms) (\<lambda>x0.
     and_then (read_list (conv_struct (read_Row float_text)) zero_Row ''rows'' ms) (\<lambda>x1.
       Inr \<lparr>rn_TotalRows = x0, rn_Rows = x1\<rparr>))"

definition zero_ReportContent :: ReportContent where
  "zero_ReportContent =
     \<lparr>rn_TotalRows = 0, rn_Rows = []\<rparr>"

record ReportResponse =
  rr_ReportId :: int
  rr_Status :: string

definition read_ReportResponse :: "members \<Rightarrow> ReportResponse result" where
  "read_ReportResponse ms =
     and_then (read_int ''report_id'' ms) (\<lambda>x0. and_then (read_string ''status'' ms) (\<lambda>x1.
       Inr \<lparr>rr_ReportId = x0, rr_Status = x1\<rparr>))"

definition zero_ReportResponse :: ReportResponse where
  "zero_ReportResponse =
     \<lparr>rr_ReportId = 0, rr_Status = []\<rparr>"

record Filter =
  fi_HasRemediation :: "bool option"
  fi_MinScore :: string
  fi_MaxScore :: string
  fi_Severity :: "string list"

record ReportRequestParams =
  rq_Name :: string
  rq_Filters :: Filter
  rq_Resources :: "(string \<times> string list) list"

text \<open>Structs are written even when they are empty.\<close>

definition struct_value :: "field_table \<Rightarrow> jvalue" where
  "struct_value t = ObjV (table_members t)"

definition ReportRequestParams_table :: "ReportRequestParams \<Rightarrow> field_table" where
  "ReportRequestParams_table p =
     [(''name'', opt_string (rq_Name p)),
      (''filters'', Some (struct_value
         [(''has_remediation'', opt_ptr BoolV (fi_HasRemediation (rq_Filters p))),
          (''cvss_score'', Some (struct_value [(''min_score'', opt_float (fi_MinScore (rq_Filters p))),
             (''max_score'', opt_float (fi_MaxScore (rq_Filters p)))])),
          (''severities'', opt_list StrV (fi_Severity (rq_Filters p)))])),
      (''resources'', Some (struct_value
         [(''repositories'', opt_list (\<lambda>(n, patterns). struct_value
             [(''name'', opt_string n), (''include_path_patterns'', opt_list StrV patterns)]) (rq_Resources p))]))]"

definition ReportsAPI :: string where
  "ReportsAPI = ''api/v1/reports''"

definition VulnerabilitiesAPI :: string where
  "VulnerabilitiesAPI = ReportsAPI @ ''/vulnerabilities''"

definition Report_Vulnerabilities :: "'w service \<Rightarrow> ReportRequestParams \<Rightarrow> 'w \<Rightarrow> (ReportResponse result \<times> 'w) option" where
  "Report_Vulnerabilities rs req w =
     answered_body rs [200] (decoded rs (read_as read_ReportResponse))
       (jc_SendPost (sv_client rs) (sv_url rs @ ''/'' @ VulnerabilitiesAPI) (Some (document (ReportRequestParams_table req))) (json_details rs) w)"

definition Report_Details :: "'w service \<Rightarrow> string \<Rightarrow> 'w \<Rightarrow> (ReportDetails result \<times> 'w) option" where
  "Report_Details rs reportId w =
     answered_body rs [200] (decoded rs (read_as read_ReportDetails))
       (jc_SendGet (sv_client rs) (sv_url rs @ ''/'' @ ReportsAPI @ ''/'' @ reportId) True (json_details rs) w)"

record ReportContentRequestParams =
  rp_ReportId :: string
  rp_Direction :: string
  rp_PageNum :: int
  rp_NumRows :: int
  rp_OrderBy :: string

definition content_url :: "'w service \<Rightarrow> ReportContentRequestParams \<Rightarrow> string" where
  "content_url rs request =
     sv_url rs @ ''/'' @ VulnerabilitiesAPI @ ''/'' @ rp_ReportId request @ ''?direction='' @ rp_Direction request @
     ''&page_num='' @ itoa (rp_PageNum request) @ ''&num_of_rows='' @ itoa (rp_NumRows request) @ ''&order_by='' @ rp_OrderBy request"

definition Report_Content :: "(string \<Rightarrow> string option) \<Rightarrow> 'w service \<Rightarrow> ReportContentRequestParams \<Rightarrow> 'w \<Rightarrow> (ReportContent result \<times> 'w) option" where
  "Report_Content float_text rs request w =
     answered_body rs [200] (decoded rs (read_as (read_ReportContent float_text)))
       (jc_SendPost (sv_client rs) (content_url rs request) None (json_details rs) w)"

definition Report_Delete :: "'w service \<Rightarrow> string \<Rightarrow> 'w \<Rightarrow> (go_error option \<times> 'w) option" where
  "Report_Delete rs reportId w =
     finished rs [200] (jc_SendDelete (sv_client rs) (sv_url rs @ ''/'' @ ReportsAPI @ ''/'' @ reportId) None (json_details rs) w)"

section \<open>Index and version\<close>

definition xray_url :: "'w service \<Rightarrow> string" where
  "xray_url s = AddTrailingSlashIfNeeded (sv_url s)"

definition AddBuildsToIndexing :: "'w service \<Rightarrow> string list option \<Rightarrow> 'w \<Rightarrow> (go_error option \<times> 'w) option" where
  "AddBuildsToIndexing s buildNames w =
     finished s [200, 201]
       (jc_SendPost (sv_client s) (xray_url s @ ''api/v1/binMgr/builds'') (Some (document [(''names'', Some (slice_value StrV buildNames))]))
          (json_details s) w)"

text \<open>The version of a product, whose name and member differ.\<close>

definition product_version :: "string \<Rightarrow> (members \<Rightarrow> string result) \<Rightarrow> 'w service \<Rightarrow> string \<Rightarrow> 'w \<Rightarrow> (string result \<times> 'w) option" where
  "product_version product version vs path w =
     after_reply (jc_SendGet (sv_client vs) (sv_url vs @ path) True (details_of vs) w) (\<lambda>reply w.
       Some (case reply of
               (_, _, Some e) \<Rightarrow> Inl e
             | (None, _, None) \<Rightarrow> Inl (Panic ''nil pointer dereference'')
             | (Some r, body, None) \<Rightarrow>
                 (case CheckResponseStatusWithBody (jc_indent (sv_client vs)) r body [200] of
                    Some e \<Rightarrow> Inl (Err (''failed while attempting to get '' @ product @ '' version:'' @ [CHR 0x0A] @ e))
                  | None \<Rightarrow> (case decoded vs (read_as version) body of
                               Inl (Err e) \<Rightarrow> Inl (Err (''couldn't parse '' @ product @ '' server response: '' @ e))
                             | Inl e \<Rightarrow> Inl e
                             | Inr v \<Rightarrow> Inr (TrimSpace v))), w))"

definition Xray_GetVersion :: "'w service \<Rightarrow> 'w \<Rightarrow> (string result \<times> 'w) option" where
  "Xray_GetVersion vs =
     product_version ''Xray'' (\<lambda>ms. and_then (read_string ''xray_version'' ms) (\<lambda>v. and_then (read_string ''xray_revision'' ms) (\<lambda>_. Inr v)))
       vs ''api/v1/system/version''"

definition GetDistributionVersion :: "'w service \<Rightarrow> 'w \<Rightarrow> (string result \<times> 'w) option" where
  "GetDistributionVersion vs = product_version ''Distribution'' (read_string ''version'') vs ''api/v1/system/info''"

end
