(* ===== verification/XrayAdmin.thy ===== *)
theory XrayAdmin
  imports Watch Access XrayResults
begin

text \<open>
  The requests on watches and policies, \<^verbatim>\<open>xray/services/watch.go\<close> and policy.go, with the JSON of the payloads that
  \<^verbatim>\<open>Watch\<close> builds. The times of a policy are read by a parameter and not kept; the bounds of a score range are texts.
\<close>

section \<open>Structs and arrays of structs\<close>

lemma read_struct_of:
  assumes "distinct_names fs" "(k, Some (ObjV (table_members t))) \<in> set fs" "rd (table_members t) = Inr x"
  shows "read_field (conv_struct rd) dflt k (table_members fs) = Inr x"
  by (rule read_field_table[OF assms(1,2)]) (use assms(3) in \<open>simp add: conv_struct_def\<close>)

lemma read_structs_of:
  assumes "distinct_names fs" "(k, opt_list (\<lambda>x. ObjV (table_members (t x))) xs) \<in> set fs"
    and "\<And>x. x \<in> set xs \<Longrightarrow> rd (table_members (t x)) = Inr (f x)"
  shows "read_list (conv_struct rd) dflt k (table_members fs) = Inr (map f xs)"
proof -
  have "conv_list (conv_struct rd) dflt (map (\<lambda>x. ObjV (table_members (t x))) xs) = Some (map f xs)"
    using assms(3) by (induction xs) (auto simp: conv_struct_def)
  then show ?thesis unfolding read_list_def
    by (intro read_field_table[OF assms(1,2)]) (auto simp: opt_list_def conv_array_def)
qed

section \<open>Documents that a server shows in its own form\<close>

text \<open>A value is shown by another one: members may come in any order, at every level, and objects may have more members as long as
  these have no name that is known to the client. Some members are shown as they are, as a whole.\<close>

function shows_value :: "string list \<Rightarrow> string list \<Rightarrow> jvalue \<Rightarrow> jvalue \<Rightarrow> bool" where
  "shows_value given whole (ObjV fs) u =
     (case u of
        ObjV ms \<Rightarrow>
          distinct (map (\<lambda>(k, v). map fold_char k) fs) \<and> distinct (map (\<lambda>(k, v). map fold_char k) ms) \<and>
          (\<forall>(k, v) \<in> set fs. case map_of ms k of
             None \<Rightarrow> False
           | Some u \<Rightarrow> if map fold_char k \<in> set whole then u = v else shows_value given whole v u) \<and>
          (\<forall>(k, u) \<in> set ms. k \<in> fst ` set fs \<or> map fold_char k \<notin> set (map (map fold_char) given))
      | _ \<Rightarrow> False)"
| "shows_value given whole (ArrV xs) u =
     (case u of
        ArrV ys \<Rightarrow> length xs = length ys \<and> (\<forall>(x, y) \<in> set (zip xs ys). shows_value given whole x y)
      | _ \<Rightarrow> False)"
| "shows_value given whole Null u = (u = Null)"
| "shows_value given whole (BoolV b) u = (u = BoolV b)"
| "shows_value given whole (NumV n) u = (u = NumV n)"
| "shows_value given whole (StrV s) u = (u = StrV s)"
  by pat_completeness auto

lemma size_member: "(k, v) \<in> set fs \<Longrightarrow> size v < size_list (size_prod (\<lambda>_. 0) size) fs"
  by (induction fs) auto

termination shows_value
  by (relation "measure (\<lambda>(_, _, v, _). size v)") (auto dest: size_member set_zip_leftD size_list_estimation'[of _ _ _ size] simp: less_Suc_eq_le)

definition same_reading :: "string list \<Rightarrow> string list \<Rightarrow> (jvalue \<Rightarrow> 'a) \<Rightarrow> bool" where
  "same_reading given whole conv \<longleftrightarrow> (\<forall>v u. shows_value given whole v u \<longrightarrow> conv u = conv v)"

definition same_members :: "string list \<Rightarrow> string list \<Rightarrow> (members \<Rightarrow> 'a) \<Rightarrow> bool" where
  "same_members given whole rd \<longleftrightarrow> (\<forall>fs ms. shows_value given whole (ObjV fs) (ObjV ms) \<longrightarrow> rd ms = rd fs)"

lemma field_values_distinct:
  "distinct (map (\<lambda>(k, v). map fold_char k) ms) \<Longrightarrow> (k, v) \<in> set ms \<Longrightarrow> map fold_char k = map fold_char name \<Longrightarrow> field_values name ms = [v]"
proof (induction ms)
  case (Cons m ms)
  have other: "field_values name ns = []" if "map fold_char name \<notin> (\<lambda>(k, v). map fold_char k) ` set ns" for ns
    using that by (force simp: field_values_def filter_empty_conv)
  then show ?case
  proof (cases "m = (k, v)")
    case True
    then show ?thesis using other[of ms] Cons(2,4) by (simp add: json_simps)
  next
    case False
    then have "(k, v) \<in> set ms" using Cons(3) by auto
    moreover from this have "map fold_char (fst m) \<noteq> map fold_char name" using Cons(2,4) by (cases m) force
    ultimately show ?thesis using Cons(1,2,4) by (cases m) (simp add: json_simps)
  qed
qed simp

lemma shown_field:
  assumes "shows_value given whole (ObjV fs) (ObjV ms)" "name \<in> set given"
  shows "field_values name fs = [] \<and> field_values name ms = [] \<or>
    (\<exists>v u. field_values name fs = [v] \<and> field_values name ms = [u] \<and>
       (if map fold_char name \<in> set whole then u = v else shows_value given whole v u))"
proof (cases "\<exists>k v. (k, v) \<in> set fs \<and> map fold_char k = map fold_char name")
  case True
  then obtain k v where kv: "(k, v) \<in> set fs" "map fold_char k = map fold_char name" by blast
  then obtain u where u: "map_of ms k = Some u" "if map fold_char k \<in> set whole then u = v else shows_value given whole v u"
    using assms(1) by (fastforce split: option.splits)
  have "field_values name fs = [v]" "field_values name ms = [u]"
    using assms(1) kv map_of_SomeD[OF u(1)] field_values_distinct by auto
  then show ?thesis using u(2) kv(2) by auto
next
  case False
  have "map fold_char k \<noteq> map fold_char name" if "(k, u) \<in> set ms" for k u
    using assms False that by fastforce
  then show ?thesis using False by (auto simp: field_values_def filter_empty_conv)
qed

lemma shows_Null: "shows_value given whole v u \<Longrightarrow> u = Null \<longleftrightarrow> v = Null"
  by (cases v) (auto split: jvalue.splits)

lemma read_field_shown:
  assumes "name \<in> set given" "same_reading given whole conv \<or> map fold_char name \<in> set whole"
  shows "same_members given whole (read_field conv dflt name)"
  unfolding same_members_def
proof (intro allI impI)
  fix fs ms assume shown: "shows_value given whole (ObjV fs) (ObjV ms)"
  show "read_field conv dflt name ms = read_field conv dflt name fs"
  proof (cases "field_values name fs = [] \<and> field_values name ms = []")
    case True
    then show ?thesis by (simp add: read_field_def)
  next
    case False
    then obtain v u where vu: "field_values name fs = [v]" "field_values name ms = [u]"
      "if map fold_char name \<in> set whole then u = v else shows_value given whole v u"
      using shown_field[OF shown assms(1)] by blast
    have "u = v \<or> (u = Null \<longleftrightarrow> v = Null) \<and> conv u = conv v"
    proof (cases "map fold_char name \<in> set whole")
      case False
      then have "shows_value given whole v u" using vu(3) by simp
      then show ?thesis using shows_Null[of given whole v u] assms(2) False unfolding same_reading_def by blast
    qed (use vu(3) in simp)
    then show ?thesis using vu(1,2) by (auto simp: read_field_def)
  qed
qed

lemma shows_object:
  assumes "shows_value given whole (ObjV fs) u"
  shows "\<exists>ms. u = ObjV ms"
proof (cases u)
  case (ObjV ms)
  then show ?thesis by (rule exI)
qed (use assms in simp_all)

lemma shows_array:
  assumes "shows_value given whole (ArrV xs) u"
  shows "\<exists>ys. u = ArrV ys \<and> length xs = length ys \<and> (\<forall>(x, y) \<in> set (zip xs ys). shows_value given whole x y)"
proof (cases u)
  case (ArrV ys)
  have "length xs = length ys \<and> (\<forall>(x, y) \<in> set (zip xs ys). shows_value given whole x y)"
    using assms unfolding ArrV shows_value.simps(2) jvalue.case by assumption
  then show ?thesis using ArrV by blast
qed (use assms in simp_all)

lemma scalars_shown: "same_reading given whole conv_string" "same_reading given whole conv_bool" "same_reading given whole conv_int"
proof -
  have "conv_string u = conv_string v \<and> conv_bool u = conv_bool v \<and> conv_int u = conv_int v" if vu: "shows_value given whole v u" for v u
  proof (cases v)
    case (ObjV fs)
    then obtain ms where "u = ObjV ms" using vu shows_object by blast
    then show ?thesis using ObjV by simp
  next
    case (ArrV xs)
    then obtain ys where "u = ArrV ys" using vu shows_array by blast
    then show ?thesis using ArrV by simp
  qed (use vu in simp_all)
  then show "same_reading given whole conv_string" "same_reading given whole conv_bool" "same_reading given whole conv_int"
    by (simp_all add: same_reading_def)
qed

lemma struct_shown:
  assumes "same_members given whole rd"
  shows "same_reading given whole (conv_struct rd)"
  unfolding same_reading_def
proof (intro allI impI)
  fix v u assume v: "shows_value given whole v u"
  show "conv_struct rd u = conv_struct rd v"
  proof (cases v)
    case (ObjV fs)
    then obtain ms where "u = ObjV ms" using v shows_object by blast
    moreover from this have "rd ms = rd fs" using v ObjV assms unfolding same_members_def by blast
    ultimately show ?thesis using ObjV by (simp add: conv_struct_def)
  qed (use v in \<open>auto simp: conv_struct_def split: jvalue.splits\<close>)
qed

lemma array_shown:
  assumes "same_reading given whole conv"
  shows "same_reading given whole (conv_array conv dflt)"
proof -
  have "conv_list conv dflt ys = conv_list conv dflt xs"
    if "length xs = length ys" "\<forall>(x, y) \<in> set (zip xs ys). shows_value given whole x y" for xs ys
    using that
  proof (induction xs ys rule: list_induct2)
    case (Cons x xs y ys)
    then show ?case using assms shows_Null[of given whole x y] unfolding same_reading_def by (cases "x = Null") auto
  qed simp
  then have arrays: "conv_array conv dflt u = conv_array conv dflt (ArrV xs)" if "shows_value given whole (ArrV xs) u" for xs u
    using shows_array[OF that] by (auto simp: conv_array_def)
  have "conv_array conv dflt u = conv_array conv dflt v" if "shows_value given whole v u" for v u
  proof (cases v)
    case (ArrV xs)
    then show ?thesis using arrays that by simp
  next
    case (ObjV fs)
    then show ?thesis using that shows_object by (fastforce simp: conv_array_def)
  qed (use that in \<open>simp_all add: conv_array_def\<close>)
  then show ?thesis by (simp add: same_reading_def)
qed

section \<open>The JSON of a watch\<close>

fun filter_json :: "filter_value \<Rightarrow> jvalue" where
  "filter_json (StringValue s) = StrV s"
| "filter_json (PropertyValue k v) = ObjV [(''key'', StrV k), (''value'', StrV v)]"
| "filter_json (PathsValue p) = ObjV [(''ExcludePatterns'', slice_value StrV (ExcludePatterns p)),
                                      (''IncludePatterns'', slice_value StrV (IncludePatterns p))]"

definition watchFilter_table :: "filter_value watchFilter \<Rightarrow> field_table" where
  "watchFilter_table f = [(''type'', Some (StrV (f_Type f))), (''value'', Some (filter_json (f_Value f)))]"

definition element_table :: "filter_value watchProjectResourcesElement \<Rightarrow> field_table" where
  "element_table e =
     [(''name'', opt_string (el_Name e)), (''bin_mgr_id'', opt_string (el_BinMgrID e)), (''type'', Some (StrV (el_Type e))),
      (''repo_type'', opt_string (el_RepoType e)),
      (''filters'', opt_list (\<lambda>f. ObjV (table_members (watchFilter_table f))) (el_Filters e))]"

definition AssignedPolicy_table :: "AssignedPolicy \<Rightarrow> field_table" where
  "AssignedPolicy_table p = [(''name'', Some (StrV (ap_Name p))), (''type'', Some (StrV (ap_Type p)))]"

text \<open>The general data has no id when a watch is written. The slice of resources is never nil.\<close>

definition general_table :: "'v WatchBody \<Rightarrow> field_table" where
  "general_table b =
     [(''name'', opt_string (gd_Name b)), (''description'', Some (StrV (gd_Description b))), (''active'', Some (BoolV (gd_Active b)))]"

definition resources_table :: "filter_value WatchBody \<Rightarrow> field_table" where
  "resources_table b = [(''resources'', Some (ArrV (map (\<lambda>e. ObjV (table_members (element_table e))) (Resources b))))]"

definition watch_table :: "filter_value WatchBody \<Rightarrow> field_table" where
  "watch_table b =
     [(''general_data'', Some (ObjV (table_members (general_table b)))),
      (''project_resources'', Some (ObjV (table_members (resources_table b)))),
      (''assigned_policies'', opt_list (\<lambda>p. ObjV (table_members (AssignedPolicy_table p))) (AssignedPolicies b))]"

text \<open>A value of type \<open>interface{}\<close>. Booleans and numbers fail every assertion of the code, as nil does. The last member with a
  name counts.\<close>

fun json_of :: "jvalue \<Rightarrow> Watch.json" where
  "json_of (StrV s) = Watch.JString s"
| "json_of (ArrV vs) = Watch.JArray (map json_of vs)"
| "json_of (ObjV ms) = Watch.JObject (fold (\<lambda>(k, v). AList.update k v) (map (\<lambda>(k, v). (k, json_of v)) ms) [])"
| "json_of _ = Watch.JNull"

definition read_watchFilter :: "members \<Rightarrow> Watch.json watchFilter result" where
  "read_watchFilter ms =
     and_then (read_string ''type'' ms) (\<lambda>t. and_then (read_field (\<lambda>v. Some (json_of v)) Watch.JNull ''value'' ms) (\<lambda>v.
       Inr \<lparr>f_Type = t, f_Value = v\<rparr>))"

definition read_element :: "members \<Rightarrow> Watch.json watchProjectResourcesElement result" where
  "read_element ms =
     and_then (read_string ''name'' ms) (\<lambda>x0. and_then (read_string ''bin_mgr_id'' ms) (\<lambda>x1.
     and_then (read_string ''type'' ms) (\<lambda>x2. and_then (read_string ''repo_type'' ms) (\<lambda>x3.
     and_then (read_list (conv_struct read_watchFilter) \<lparr>f_Type = [], f_Value = Watch.JNull\<rparr> ''filters'' ms) (\<lambda>x4.
       Inr \<lparr>el_Name = x0, el_BinMgrID = x1, el_Type = x2, el_RepoType = x3, el_Filters = x4\<rparr>)))))"

definition read_AssignedPolicy :: "members \<Rightarrow> AssignedPolicy result" where
  "read_AssignedPolicy ms =
     and_then (read_string ''name'' ms) (\<lambda>x0. and_then (read_string ''type'' ms) (\<lambda>x1. Inr \<lparr>ap_Name = x0, ap_Type = x1\<rparr>))"

definition read_general :: "members \<Rightarrow> (string \<times> string \<times> bool) result" where
  "read_general ms =
     and_then (read_string ''id'' ms) (\<lambda>_. and_then (read_string ''name'' ms) (\<lambda>x0. and_then (read_string ''description'' ms) (\<lambda>x1.
     and_then (read_flag ''active'' ms) (\<lambda>x2. Inr (x0, x1, x2)))))"

definition read_resources :: "members \<Rightarrow> Watch.json watchProjectResourcesElement list result" where
  "read_resources =
     read_list (conv_struct read_element) \<lparr>el_Name = [], el_BinMgrID = [], el_Type = [], el_RepoType = [], el_Filters = []\<rparr> ''resources''"

definition read_WatchBody :: "members \<Rightarrow> Watch.json WatchBody result" where
  "read_WatchBody ms =
     and_then (read_field (conv_struct read_general) ([], [], False) ''general_data'' ms) (\<lambda>(name, description, active).
     and_then (read_field (conv_struct read_resources) [] ''project_resources'' ms) (\<lambda>resources.
     and_then (read_list (conv_struct read_AssignedPolicy) \<lparr>ap_Name = [], ap_Type = []\<rparr> ''assigned_policies'' ms) (\<lambda>policies.
       Inr \<lparr>gd_Name = name, gd_Description = description, gd_Active = active, Resources = resources, AssignedPolicies = policies\<rparr>)))"

section \<open>Requests on watches\<close>

definition getWatchURL :: "'w service \<Rightarrow> string" where
  "getWatchURL xws = xray_url xws @ ''api/v2/watches''"

definition Watch_Delete :: "'w service \<Rightarrow> string \<Rightarrow> 'w \<Rightarrow> (go_error option \<times> 'w) option" where
  "Watch_Delete xws watchName w =
     finished xws [200] (jc_SendDelete (sv_client xws) (getWatchURL xws @ ''/'' @ watchName) None (details_of xws) w)"

text \<open>A status that tells of a conflict has an error of its own.\<close>

definition unless_conflict :: "string \<Rightarrow> 'w service \<Rightarrow> 'w http_result option \<Rightarrow> (go_error option \<times> 'w) option" where
  "unless_conflict message s reply =
     after_reply reply (\<lambda>r w.
       Some (case checked s [200, 201] r of
               Inr _ \<Rightarrow> None
             | Inl e \<Rightarrow> (case r of
                           (Some resp, _, None) \<Rightarrow> Some (if StatusCode resp = 409 then Err message else e)
                         | _ \<Rightarrow> Some e), w))"

definition Watch_Create :: "'w service \<Rightarrow> WatchParams \<Rightarrow> 'w \<Rightarrow> (go_error option \<times> 'w) option" where
  "Watch_Create xws params w =
     (case CreateBody params of
        Inl e \<Rightarrow> Some (Some e, w)
      | Inr payloadBody \<Rightarrow>
          unless_conflict ''Xray: Watch already exists.'' xws
            (jc_SendPost (sv_client xws) (getWatchURL xws) (Some (document (watch_table payloadBody))) (json_details xws) w))"

definition Watch_Update :: "'w service \<Rightarrow> WatchParams \<Rightarrow> 'w \<Rightarrow> (go_error option \<times> 'w) option" where
  "Watch_Update xws params w =
     (case CreateBody params of
        Inl e \<Rightarrow> Some (Some e, w)
      | Inr payloadBody \<Rightarrow>
          finished xws [200, 201]
            (jc_SendPut (sv_client xws) (getWatchURL xws @ ''/'' @ w_Name params)
               (Some (document (watch_table (payloadBody\<lparr>gd_Name := []\<rparr>)))) (json_details xws) w))"

definition watch_answer :: "'w service \<Rightarrow> string \<Rightarrow> string \<Rightarrow> WatchParams result" where
  "watch_answer xws watchName body =
     (case decoded xws (read_as read_WatchBody) body of
        Inl e \<Rightarrow> Inl (Err (''failed unmarshalling watch '' @ watchName))
      | Inr watch \<Rightarrow> watch_of_body watch)"

definition Watch_Get :: "'w service \<Rightarrow> string \<Rightarrow> 'w \<Rightarrow> (WatchParams result \<times> 'w) option" where
  "Watch_Get xws watchName w =
     answered_body xws [200] (watch_answer xws watchName)
       (jc_SendGet (sv_client xws) (getWatchURL xws @ ''/'' @ watchName) True (details_of xws) w)"

section \<open>Requests on policies\<close>

definition PolicyCriteria_table :: "string PolicyCriteria \<Rightarrow> field_table" where
  "PolicyCriteria_table c =
     [(''min_severity'', opt_string (MinSeverity c)),
      (''cvss_range'', opt_ptr (\<lambda>(f, t). ObjV (table_members [(''from'', opt_float f), (''to'', opt_float t)])) (CvssRange c)),
      (''allowed_licenses'', opt_list StrV (AllowedLicenses c)), (''banned_licenses'', opt_list StrV (BannedLicenses c)),
      (''allow_unknown'', opt_ptr BoolV (AllowUnknown c)), (''multi_license_permissive'', opt_ptr BoolV (MultiLicensePermissive c))]"

definition BlockDownload_table :: "PolicyBlockDownload \<Rightarrow> field_table" where
  "BlockDownload_table b = [(''active'', opt_ptr BoolV (pbd_Active b)), (''unscanned'', opt_ptr BoolV (Unscanned b))]"

definition PolicyAction_table :: "PolicyAction \<Rightarrow> field_table" where
  "PolicyAction_table a =
     [(''webhooks'', opt_list StrV (Webhooks a)), (''block_download'', Some (ObjV (table_members (BlockDownload_table (BlockDownload a))))),
      (''block_release_bundle_distribution'', opt_ptr BoolV (BlockReleaseBundleDistribution a)),
      (''fail_build'', opt_ptr BoolV (FailBuild a)), (''notify_deployer'', opt_ptr BoolV (NotifyDeployer a)),
      (''notify_watch_recipients'', opt_ptr BoolV (NotifyWatchRecipients a)), (''custom_severity'', opt_string (CustomSeverity a))]"

definition PolicyRule_table :: "string PolicyRule \<Rightarrow> field_table" where
  "PolicyRule_table r =
     [(''name'', opt_string (rule_Name r)), (''criteria'', Some (ObjV (table_members (PolicyCriteria_table (Criteria r))))),
      (''actions'', opt_ptr (\<lambda>a. ObjV (table_members (PolicyAction_table a))) (Actions r)), (''priority'', opt_int (Priority r))]"

text \<open>The zero times are written, as structs are never empty.\<close>

definition zero_date :: string where
  "zero_date = ''0001-01-01T00:00:00Z''"

definition policy_table :: "string PolicyBody \<Rightarrow> field_table" where
  "policy_table b =
     [(''name'', opt_string (pb_Name b)), (''type'', opt_string (pb_Type b)), (''description'', opt_string (pb_Description b)),
      (''author'', opt_string (pb_Author b)), (''rules'', opt_list (\<lambda>r. ObjV (table_members (PolicyRule_table r))) (pb_Rules b)),
      (''created'', Some (StrV zero_date)), (''modified'', Some (StrV zero_date))]"

definition read_range :: "(string \<Rightarrow> string option) \<Rightarrow> members \<Rightarrow> (string \<times> string) result" where
  "read_range float_text ms =
     and_then (read_field (conv_float float_text) [] ''from'' ms) (\<lambda>f.
     and_then (read_field (conv_float float_text) [] ''to'' ms) (\<lambda>t. Inr (f, t)))"

definition read_PolicyCriteria :: "(string \<Rightarrow> string option) \<Rightarrow> members \<Rightarrow> string PolicyCriteria result" where
  "read_PolicyCriteria float_text ms =
     and_then (read_string ''min_severity'' ms) (\<lambda>x0. and_then (read_ptr (conv_struct (read_range float_text)) ''cvss_range'' ms) (\<lambda>x1.
     and_then (read_strings ''allowed_licenses'' ms) (\<lambda>x2. and_then (read_strings ''banned_licenses'' ms) (\<lambda>x3.
     and_then (read_ptr conv_bool ''allow_unknown'' ms) (\<lambda>x4. and_then (read_ptr conv_bool ''multi_license_permissive'' ms) (\<lambda>x5.
       Inr \<lparr>MinSeverity = x0, CvssRange = x1, AllowedLicenses = x2, BannedLicenses = x3, AllowUnknown = x4,
            MultiLicensePermissive = x5\<rparr>))))))"

definition read_BlockDownload :: "members \<Rightarrow> PolicyBlockDownload result" where
  "read_BlockDownload ms =
     and_then (read_ptr conv_bool ''active'' ms) (\<lambda>x0. and_then (read_ptr conv_bool ''unscanned'' ms) (\<lambda>x1.
       Inr \<lparr>pbd_Active = x0, Unscanned = x1\<rparr>))"

definition read_PolicyAction :: "members \<Rightarrow> PolicyAction result" where
  "read_PolicyAction ms =
     and_then (read_strings ''webhooks'' ms) (\<lambda>x0.
     and_then (read_field (conv_struct read_BlockDownload) \<lparr>pbd_Active = None, Unscanned = None\<rparr> ''block_download'' ms) (\<lambda>x1.
     and_then (read_ptr conv_bool ''block_release_bundle_distribution'' ms) (\<lambda>x2. and_then (read_ptr conv_bool ''fail_build'' ms) (\<lambda>x3.
     and_then (read_ptr conv_bool ''notify_deployer'' ms) (\<lambda>x4. and_then (read_ptr conv_bool ''notify_watch_recipients'' ms) (\<lambda>x5.
     and_then (read_string ''custom_severity'' ms) (\<lambda>x6.
       Inr \<lparr>Webhooks = x0, BlockDownload = x1, BlockReleaseBundleDistribution = x2, FailBuild = x3, NotifyDeployer = x4,
            NotifyWatchRecipients = x5, CustomSeverity = x6\<rparr>)))))))"

definition read_PolicyRule :: "(string \<Rightarrow> string option) \<Rightarrow> members \<Rightarrow> string PolicyRule result" where
  "read_PolicyRule float_text ms =
     and_then (read_string ''name'' ms) (\<lambda>x0.
     and_then (read_field (conv_struct (read_PolicyCriteria float_text)) empty_criteria ''criteria'' ms) (\<lambda>x1.
     and_then (read_ptr (conv_struct read_PolicyAction) ''actions'' ms) (\<lambda>x2. and_then (read_int ''priority'' ms) (\<lambda>x3.
       Inr \<lparr>rule_Name = x0, Criteria = x1, Actions = x2, Priority = x3\<rparr>))))"

definition conv_date :: "(string \<Rightarrow> bool) \<Rightarrow> jvalue \<Rightarrow> unit option" where
  "conv_date is_date v = (case v of StrV s \<Rightarrow> if is_date s then Some () else None | _ \<Rightarrow> None)"

definition read_policy :: "(string \<Rightarrow> string option) \<Rightarrow> (string \<Rightarrow> bool) \<Rightarrow> members \<Rightarrow> string PolicyParams result" where
  "read_policy float_text is_date ms =
     and_then (read_string ''name'' ms) (\<lambda>x0. and_then (read_string ''type'' ms) (\<lambda>x1. and_then (read_string ''description'' ms) (\<lambda>x2.
     and_then (read_string ''author'' ms) (\<lambda>_.
     and_then (read_list (conv_struct (read_PolicyRule float_text))
       \<lparr>rule_Name = [], Criteria = empty_criteria, Actions = None, Priority = 0\<rparr> ''rules'' ms) (\<lambda>x3.
     and_then (read_field (conv_date is_date) () ''created'' ms) (\<lambda>_. and_then (read_field (conv_date is_date) () ''modified'' ms) (\<lambda>_.
       Inr \<lparr>pp_Name = x0, pp_Type = x1, pp_Description = x2, pp_Rules = x3\<rparr>)))))))"

definition getPolicyURL :: "'w service \<Rightarrow> string" where
  "getPolicyURL xps = xray_url xps @ ''api/v2/policies''"

definition Policy_Delete :: "'w service \<Rightarrow> string \<Rightarrow> 'w \<Rightarrow> (go_error option \<times> 'w) option" where
  "Policy_Delete xps policyName w =
     finished xps [200] (jc_SendDelete (sv_client xps) (getPolicyURL xps @ ''/'' @ policyName) None (json_details xps) w)"

definition Policy_Create :: "'w service \<Rightarrow> string PolicyParams \<Rightarrow> 'w \<Rightarrow> (go_error option \<times> 'w) option" where
  "Policy_Create xps params w =
     unless_conflict ''Xray: Policy already exists.'' xps
       (jc_SendPost (sv_client xps) (getPolicyURL xps) (Some (document (policy_table (CreatePolicyBody params)))) (json_details xps) w)"

definition Policy_Update :: "'w service \<Rightarrow> string PolicyParams \<Rightarrow> 'w \<Rightarrow> (go_error option \<times> 'w) option" where
  "Policy_Update xps params w =
     finished xps [200, 201]
       (jc_SendPut (sv_client xps) (getPolicyURL xps @ ''/'' @ pp_Name params)
          (Some (document (policy_table (CreatePolicyBody params)))) (json_details xps) w)"

definition policy_answer :: "(string \<Rightarrow> string option) \<Rightarrow> (string \<Rightarrow> bool) \<Rightarrow> 'w service \<Rightarrow> string \<Rightarrow> string \<Rightarrow> string PolicyParams result" where
  "policy_answer float_text is_date xps policyName body =
     (case decoded xps (read_as (read_policy float_text is_date)) body of
        Inl e \<Rightarrow> Inl (Err (''failed unmarshalling policy '' @ policyName))
      | Inr policy \<Rightarrow> Inr policy)"

definition Policy_Get :: "(string \<Rightarrow> string option) \<Rightarrow> (string \<Rightarrow> bool) \<Rightarrow> 'w service \<Rightarrow> string \<Rightarrow> 'w \<Rightarrow> (string PolicyParams result \<times> 'w) option" where
  "Policy_Get float_text is_date xps policyName w =
     answered_body xps [200] (policy_answer float_text is_date xps policyName)
       (jc_SendGet (sv_client xps) (getPolicyURL xps @ ''/'' @ policyName) True (details_of xps) w)"

section \<open>Reading back\<close>

lemma table_names:
  "distinct_names (watchFilter_table f)" "distinct_names (element_table e)" "distinct_names (AssignedPolicy_table p)"
  "distinct_names (resources_table b)" "distinct_names (watch_table b)" "distinct_names (PolicyCriteria_table c)"
  "distinct_names (BlockDownload_table d)" "distinct_names (PolicyAction_table a)" "distinct_names (PolicyRule_table r)"
  "distinct_names (policy_table pb)" "distinct_names [(''from'', x), (''to'', y)]"
  "distinct_names ((''id'', None) # general_table b')"
  unfolding distinct_names_def watchFilter_table_def element_table_def AssignedPolicy_table_def resources_table_def watch_table_def
    PolicyCriteria_table_def BlockDownload_table_def PolicyAction_table_def PolicyRule_table_def policy_table_def general_table_def
    list.map fst_conv by code_simp+

lemma json_of_strings: "json_of (slice_value StrV s) = json_strings s"
  by (cases s) (simp_all add: slice_value_def json_strings_def)

lemma json_of_filter: "json_of (filter_json v) = json_value v"
  by (cases v) (simp_all add: json_of_strings)

lemma filter_json_not_Null: "filter_json v \<noteq> Null"
  by (cases v) simp_all

lemma read_arrays_of:
  assumes "distinct_names fs" "(k, Some (ArrV (map (\<lambda>x. ObjV (table_members (t x))) xs))) \<in> set fs"
    and "\<And>x. x \<in> set xs \<Longrightarrow> rd (table_members (t x)) = Inr (f x)"
  shows "read_list (conv_struct rd) dflt k (table_members fs) = Inr (map f xs)"
proof -
  have "conv_list (conv_struct rd) dflt (map (\<lambda>x. ObjV (table_members (t x))) xs) = Some (map f xs)"
    using assms(3) by (induction xs) (auto simp: conv_struct_def)
  then show ?thesis unfolding read_list_def by (intro read_field_table[OF assms(1,2)]) (auto simp: conv_array_def)
qed

definition json_element :: "filter_value watchProjectResourcesElement \<Rightarrow> Watch.json watchProjectResourcesElement" where
  "json_element r = \<lparr>el_Name = el_Name r, el_BinMgrID = el_BinMgrID r, el_Type = el_Type r, el_RepoType = el_RepoType r,
     el_Filters = json_filters (el_Filters r)\<rparr>"

lemma read_watchFilter_written:
  "read_watchFilter (table_members (watchFilter_table f)) = Inr \<lparr>f_Type = f_Type f, f_Value = json_value (f_Value f)\<rparr>"
proof -
  have "read_field (\<lambda>v. Some (json_of v)) Watch.JNull ''value'' (table_members (watchFilter_table f)) = Inr (json_value (f_Value f))"
    by (rule read_field_table[OF table_names(1), of _ "Some (filter_json (f_Value f))"])
       (simp_all add: watchFilter_table_def json_of_filter filter_json_not_Null)
  moreover have "read_string ''type'' (table_members (watchFilter_table f)) = Inr (f_Type f)"
    by (rule table_reads[OF table_names(1)]) (simp add: watchFilter_table_def)
  ultimately show ?thesis by (simp add: read_watchFilter_def)
qed

lemma read_element_written: "read_element (table_members (element_table e)) = Inr (json_element e)"
proof -
  note r = table_reads[OF table_names(2)[of e]]
  have "read_list (conv_struct read_watchFilter) d ''filters'' (table_members (element_table e)) = Inr (json_filters (el_Filters e))" for d
    unfolding json_filters_def
    by (rule read_structs_of[OF table_names(2)]) (simp add: element_table_def, simp add: read_watchFilter_written)
  moreover have "read_string ''name'' (table_members (element_table e)) = Inr (el_Name e)" by (rule r) (simp add: element_table_def)
  moreover have "read_string ''bin_mgr_id'' (table_members (element_table e)) = Inr (el_BinMgrID e)" by (rule r) (simp add: element_table_def)
  moreover have "read_string ''type'' (table_members (element_table e)) = Inr (el_Type e)" by (rule r) (simp add: element_table_def)
  moreover have "read_string ''repo_type'' (table_members (element_table e)) = Inr (el_RepoType e)" by (rule r) (simp add: element_table_def)
  ultimately show ?thesis by (simp add: read_element_def json_element_def)
qed

lemma read_general_written: "read_general (table_members (general_table b)) = Inr (gd_Name b, gd_Description b, gd_Active b)"
proof -
  note r = table_reads[OF table_names(12)[of b]]
  have t: "table_members (general_table b) = table_members ((''id'', None) # general_table b)" by simp
  have "read_string ''id'' (table_members ((''id'', None) # general_table b)) = Inr []" by (rule r(1)) (simp add: opt_string_def)
  moreover have "read_string ''name'' (table_members ((''id'', None) # general_table b)) = Inr (gd_Name b)" by (rule r) (simp add: general_table_def)
  moreover have "read_string ''description'' (table_members ((''id'', None) # general_table b)) = Inr (gd_Description b)"
    by (rule r) (simp add: general_table_def)
  moreover have "read_flag ''active'' (table_members ((''id'', None) # general_table b)) = Inr (gd_Active b)" by (rule r) (simp add: general_table_def)
  ultimately show ?thesis unfolding t by (simp add: read_general_def)
qed

lemma read_AssignedPolicy_written: "read_AssignedPolicy (table_members (AssignedPolicy_table p)) = Inr p"
proof -
  note r = table_reads[OF table_names(3)[of p]]
  have "read_string ''name'' (table_members (AssignedPolicy_table p)) = Inr (ap_Name p)" by (rule r) (simp add: AssignedPolicy_table_def)
  moreover have "read_string ''type'' (table_members (AssignedPolicy_table p)) = Inr (ap_Type p)" by (rule r) (simp add: AssignedPolicy_table_def)
  ultimately show ?thesis by (simp add: read_AssignedPolicy_def)
qed

lemma read_WatchBody_written: "read_WatchBody (table_members (watch_table b)) = Inr (json_body b)"
proof -
  have "read_resources (table_members (resources_table b)) = Inr (map json_element (Resources b))"
    unfolding read_resources_def
    by (rule read_arrays_of[OF table_names(4), where t = element_table]) (simp add: resources_table_def, rule read_element_written)
  then have "read_field (conv_struct read_resources) [] ''project_resources'' (table_members (watch_table b)) = Inr (map json_element (Resources b))"
    by (intro read_struct_of[OF table_names(5)]) (simp_all add: watch_table_def)
  moreover have "read_field (conv_struct read_general) ([], [], False) ''general_data'' (table_members (watch_table b)) =
      Inr (gd_Name b, gd_Description b, gd_Active b)"
    by (rule read_struct_of[OF table_names(5), where t = "general_table b"]) (simp add: watch_table_def, rule read_general_written)
  moreover have "read_list (conv_struct read_AssignedPolicy) d ''assigned_policies'' (table_members (watch_table b)) = Inr (map id (AssignedPolicies b))" for d
    by (rule read_structs_of[OF table_names(5)]) (simp add: watch_table_def, simp add: read_AssignedPolicy_written)
  ultimately show ?thesis by (simp add: read_WatchBody_def json_body_def json_element_def cong: list.map_cong)
qed

lemma writable_structs:
  "(\<And>x. x \<in> set xs \<Longrightarrow> writable_table d (t x)) \<Longrightarrow> writable (Suc (Suc d)) (ArrV (map (\<lambda>x. ObjV (table_members (t x))) xs))"
  by (rule writable_list) (rule writable_struct)

lemma writable_opt_list: "writable (Suc d) (ArrV (map f xs)) \<Longrightarrow> pred_option (writable (Suc d)) (opt_list f xs)"
  by (simp add: opt_list_def del: writable.simps)

lemma writable_scalars: "writable d (StrV s)" "writable d (BoolV b)"
  by simp_all

lemma filter_writable: "writable_table (Suc (Suc d)) (watchFilter_table f)"
  using writable_slice[of d] by (cases "f_Value f") (simp_all add: watchFilter_table_def)

lemma element_writable: "writable_table (Suc (Suc (Suc (Suc d)))) (element_table e)"
proof -
  have "pred_option (writable (Suc (Suc (Suc (Suc d))))) (opt_list (\<lambda>f. ObjV (table_members (watchFilter_table f))) (el_Filters e))"
    by (intro writable_opt_list writable_structs filter_writable)
  then show ?thesis by (simp add: element_table_def writable_scalars del: writable.simps)
qed

lemma watch_writable: "writable_table (Suc (Suc (Suc (Suc (Suc (Suc (Suc d))))))) (watch_table b)"
proof -
  let ?d = "Suc (Suc (Suc (Suc d)))"
  have "writable (Suc (Suc ?d)) (ArrV (map (\<lambda>e. ObjV (table_members (element_table e))) (Resources b)))"
    by (intro writable_structs element_writable)
  then have "writable (Suc (Suc (Suc ?d))) (ObjV (table_members (resources_table b)))"
    by (intro writable_struct) (simp add: resources_table_def del: writable.simps)
  moreover have "writable (Suc (Suc (Suc ?d))) (ObjV (table_members (general_table b)))"
    by (intro writable_struct) (simp add: general_table_def)
  moreover have "pred_option (writable (Suc (Suc (Suc ?d)))) (opt_list (\<lambda>p. ObjV (table_members (AssignedPolicy_table p))) (AssignedPolicies b))"
    by (intro writable_opt_list writable_structs) (simp add: AssignedPolicy_table_def)
  ultimately show ?thesis by (simp add: watch_table_def del: writable.simps)
qed

lemma watch_document: "Unmarshal (document (watch_table b)) = Inr (ObjV (table_members (watch_table b)))"
  by (rule writable_document[OF watch_writable[of 0]]) (simp add: maxNestingDepth_def)

text \<open>The readers do not depend on the form of a document. The names are those of the REST interface.\<close>

definition watch_fields :: "string list" where
  "watch_fields =
     [''general_data'', ''id'', ''name'', ''description'', ''active'', ''project_resources'', ''resources'', ''type'', ''bin_mgr_id'',
      ''repo_type'', ''filters'', ''value'', ''assigned_policies'']"

abbreviation same_watch_members :: "(members \<Rightarrow> 'a) \<Rightarrow> bool" where
  "same_watch_members \<equiv> same_members watch_fields [''value'']"

lemma same_members_then:
  "same_members given whole rd \<Longrightarrow> (\<And>x. same_members given whole (f x)) \<Longrightarrow> same_members given whole (\<lambda>ms. and_then (rd ms) (\<lambda>x. f x ms))"
proof (unfold same_members_def, intro allI impI)
  fix fs ms assume rd: "\<forall>fs ms. shows_value given whole (ObjV fs) (ObjV ms) \<longrightarrow> rd ms = rd fs"
    and f: "\<And>x. \<forall>fs ms. shows_value given whole (ObjV fs) (ObjV ms) \<longrightarrow> f x ms = f x fs"
    and shown: "shows_value given whole (ObjV fs) (ObjV ms)"
  have "rd ms = rd fs" "f x ms = f x fs" for x using rd f shown by blast+
  then show "and_then (rd ms) (\<lambda>x. f x ms) = and_then (rd fs) (\<lambda>x. f x fs)" by simp
qed

lemma same_members_const: "same_members given whole (\<lambda>_. c)"
  by (simp add: same_members_def)

lemma watch_fields_simps:
  "''general_data'' \<in> set watch_fields" "''id'' \<in> set watch_fields" "''name'' \<in> set watch_fields"
  "''description'' \<in> set watch_fields" "''active'' \<in> set watch_fields" "''project_resources'' \<in> set watch_fields"
  "''resources'' \<in> set watch_fields" "''type'' \<in> set watch_fields" "''bin_mgr_id'' \<in> set watch_fields"
  "''repo_type'' \<in> set watch_fields" "''filters'' \<in> set watch_fields" "''value'' \<in> set watch_fields"
  "''assigned_policies'' \<in> set watch_fields"
  by code_simp+

lemma shown_fields:
  "k \<in> set given \<Longrightarrow> same_members given whole (read_string k)" "k \<in> set given \<Longrightarrow> same_members given whole (read_flag k)"
  "k \<in> set given \<Longrightarrow> same_reading given whole conv \<Longrightarrow> same_members given whole (read_list conv dflt' k)"
  unfolding read_string_def read_flag_def read_list_def
  using scalars_shown by (auto intro: read_field_shown array_shown)

lemma filter_shown: "same_watch_members read_watchFilter"
  unfolding read_watchFilter_def
  by (intro same_members_then same_members_const shown_fields watch_fields_simps read_field_shown disjI2) code_simp

lemma element_shown: "same_watch_members read_element"
  unfolding read_element_def
  by (intro same_members_then same_members_const shown_fields watch_fields_simps struct_shown filter_shown)

lemma resources_shown: "same_watch_members read_resources"
  unfolding read_resources_def by (intro shown_fields watch_fields_simps struct_shown element_shown)

lemma general_shown: "same_watch_members read_general"
  unfolding read_general_def by (intro same_members_then same_members_const shown_fields watch_fields_simps)

lemma policy_shown: "same_watch_members read_AssignedPolicy"
  unfolding read_AssignedPolicy_def by (intro same_members_then same_members_const shown_fields watch_fields_simps)

lemma watch_shown: "same_watch_members read_WatchBody"
  unfolding read_WatchBody_def split_beta
  by (intro same_members_then same_members_const read_field_shown disjI1 shown_fields watch_fields_simps struct_shown
      general_shown resources_shown policy_shown)

lemma watch_answer_shown:
  assumes "sv_parse xws = Unmarshal" "CreateBody p = Inr body" "repositories_ok (w_Repositories p)" "builds_ok (w_Builds p)"
    and "Unmarshal text = Inr shown" "shows_value watch_fields [''value''] (ObjV (table_members (watch_table body))) shown"
  shows "watch_answer xws n text = Inr p"
proof -
  obtain ms where ms: "shown = ObjV ms" using shows_object[OF assms(6)] by blast
  then have "read_WatchBody ms = Inr (json_body body)"
    using watch_shown assms(6) read_WatchBody_written[of body] unfolding same_members_def by metis
  then show ?thesis using CreateBody_roundtrip[OF assms(3,4)] assms(1,2,5) ms
    by (simp add: watch_answer_def decoded_def read_as_def)
qed


text \<open>A server that shows the members in the reverse order, with one of its own.\<close>

definition example_body :: "filter_value WatchBody" where
  "example_body = projr (CreateBody example_watch)"

definition example_shown :: jvalue where
  "example_shown = ObjV ((''created_by'', StrV ''admin'') # rev (table_members (watch_table example_body)))"

definition watch_response :: "nat \<Rightarrow> Response" where
  "watch_response status = (example_response (int status))\<lparr>Body := (Marshal example_shown, None)\<rparr>"

definition example_xray :: "nat service" where
  "example_xray = (example_service (\<lambda>w. Answered (watch_response (if w = 0 then 201 else 200))))\<lparr>sv_parse := Unmarshal\<rparr>"

lemma example_xray_simps [simp]:
  "sv_client example_xray = sv_client (example_service (\<lambda>w. Answered (watch_response (if w = 0 then 201 else 200))))"
  "sv_parse example_xray = Unmarshal" "StatusCode (watch_response n) = int n"
  "fst (Body (watch_response n)) = Marshal example_shown"
  by (simp_all add: example_xray_def watch_response_def example_response_def)


section \<open>Policies are read back\<close>

definition range_ok :: "(string \<Rightarrow> string option) \<Rightarrow> string PolicyCriteria \<Rightarrow> bool" where
  "range_ok float_text c \<longleftrightarrow> pred_option (\<lambda>(f, t). exact_float float_text f \<and> exact_float float_text t) (CvssRange c)"

definition rule_ok :: "(string \<Rightarrow> string option) \<Rightarrow> string PolicyRule \<Rightarrow> bool" where
  "rule_ok float_text r \<longleftrightarrow> range_ok float_text (Criteria r) \<and> machine_int (Priority r)"

lemma read_range_written:
  assumes "exact_float float_text f" "exact_float float_text t"
  shows "read_range float_text (table_members [(''from'', opt_float f), (''to'', opt_float t)]) = Inr (f, t)"
proof -
  note r = read_float_table[OF table_names(11)]
  show ?thesis unfolding read_range_def using r[of "''from''" f] r[of "''to''" t] assms by simp
qed

lemma read_PolicyCriteria_written:
  assumes "range_ok float_text c"
  shows "read_PolicyCriteria float_text (table_members (PolicyCriteria_table c)) = Inr c"
proof -
  note r = table_reads[OF table_names(6)[of c]]
  have "read_ptr (conv_struct (read_range float_text)) ''cvss_range'' (table_members (PolicyCriteria_table c)) = Inr (CvssRange c)"
  proof (rule read_table_ptr[OF table_names(6)])
    show "(''cvss_range'', opt_ptr (\<lambda>(f, t). ObjV (table_members [(''from'', opt_float f), (''to'', opt_float t)])) (CvssRange c)) \<in>
        set (PolicyCriteria_table c)"
      by (simp only: PolicyCriteria_table_def list.set insert_iff simp_thms)
  qed (use assms in \<open>auto simp: range_ok_def conv_struct_def read_range_written simp del: table_members_simps\<close>)
  moreover have "read_string ''min_severity'' (table_members (PolicyCriteria_table c)) = Inr (MinSeverity c)"
    by (rule r) (simp add: PolicyCriteria_table_def)
  moreover have "read_strings ''allowed_licenses'' (table_members (PolicyCriteria_table c)) = Inr (AllowedLicenses c)"
    by (rule r) (simp add: PolicyCriteria_table_def)
  moreover have "read_strings ''banned_licenses'' (table_members (PolicyCriteria_table c)) = Inr (BannedLicenses c)"
    by (rule r) (simp add: PolicyCriteria_table_def)
  moreover have "read_ptr conv_bool ''allow_unknown'' (table_members (PolicyCriteria_table c)) = Inr (AllowUnknown c)"
    by (rule r) (simp add: PolicyCriteria_table_def)
  moreover have "read_ptr conv_bool ''multi_license_permissive'' (table_members (PolicyCriteria_table c)) = Inr (MultiLicensePermissive c)"
    by (rule r) (simp add: PolicyCriteria_table_def)
  ultimately show ?thesis by (simp add: read_PolicyCriteria_def)
qed

lemma read_BlockDownload_written: "read_BlockDownload (table_members (BlockDownload_table b)) = Inr b"
proof -
  note r = table_reads[OF table_names(7)[of b]]
  have "read_ptr conv_bool ''active'' (table_members (BlockDownload_table b)) = Inr (pbd_Active b)" by (rule r) (simp add: BlockDownload_table_def)
  moreover have "read_ptr conv_bool ''unscanned'' (table_members (BlockDownload_table b)) = Inr (Unscanned b)"
    by (rule r) (simp add: BlockDownload_table_def)
  ultimately show ?thesis by (simp add: read_BlockDownload_def)
qed

lemma read_PolicyAction_written: "read_PolicyAction (table_members (PolicyAction_table a)) = Inr a"
proof -
  note r = table_reads[OF table_names(8)[of a]] and d = PolicyAction_table_def
  have "read_field (conv_struct read_BlockDownload) x ''block_download'' (table_members (PolicyAction_table a)) = Inr (BlockDownload a)" for x
    by (rule read_struct_of[OF table_names(8), where t = "BlockDownload_table (BlockDownload a)"]) (simp add: d, rule read_BlockDownload_written)
  moreover have "read_strings ''webhooks'' (table_members (PolicyAction_table a)) = Inr (Webhooks a)" by (rule r) (simp add: d)
  moreover have "read_ptr conv_bool ''block_release_bundle_distribution'' (table_members (PolicyAction_table a)) = Inr (BlockReleaseBundleDistribution a)"
    by (rule r) (simp add: d)
  moreover have "read_ptr conv_bool ''fail_build'' (table_members (PolicyAction_table a)) = Inr (FailBuild a)" by (rule r) (simp add: d)
  moreover have "read_ptr conv_bool ''notify_deployer'' (table_members (PolicyAction_table a)) = Inr (NotifyDeployer a)" by (rule r) (simp add: d)
  moreover have "read_ptr conv_bool ''notify_watch_recipients'' (table_members (PolicyAction_table a)) = Inr (NotifyWatchRecipients a)"
    by (rule r) (simp add: d)
  moreover have "read_string ''custom_severity'' (table_members (PolicyAction_table a)) = Inr (CustomSeverity a)" by (rule r) (simp add: d)
  ultimately show ?thesis by (simp add: read_PolicyAction_def)
qed

lemma read_PolicyRule_written:
  assumes "rule_ok float_text x"
  shows "read_PolicyRule float_text (table_members (PolicyRule_table x)) = Inr x"
proof -
  note r = table_reads[OF table_names(9)[of x]] and d = PolicyRule_table_def
  have "read_field (conv_struct (read_PolicyCriteria float_text)) c ''criteria'' (table_members (PolicyRule_table x)) = Inr (Criteria x)" for c
    by (rule read_struct_of[OF table_names(9), where t = "PolicyCriteria_table (Criteria x)"])
       (simp add: d, rule read_PolicyCriteria_written, use assms in \<open>simp add: rule_ok_def\<close>)
  moreover have "read_ptr (conv_struct read_PolicyAction) ''actions'' (table_members (PolicyRule_table x)) = Inr (Actions x)"
    by (rule read_table_ptr[OF table_names(9), where f = "\<lambda>a. ObjV (table_members (PolicyAction_table a))"])
       (auto simp: d conv_struct_def read_PolicyAction_written simp del: table_members_simps)
  moreover have "read_string ''name'' (table_members (PolicyRule_table x)) = Inr (rule_Name x)" by (rule r) (simp add: d)
  moreover have "read_int ''priority'' (table_members (PolicyRule_table x)) = Inr (Priority x)"
    by (rule r) (use assms in \<open>simp_all add: d rule_ok_def\<close>)
  ultimately show ?thesis by (simp add: read_PolicyRule_def)
qed

lemma policy_read_back:
  assumes "list_all (rule_ok float_text) (pp_Rules p)" "is_date zero_date"
  shows "read_policy float_text is_date (table_members (policy_table (CreatePolicyBody p))) = Inr p"
proof -
  let ?b = "CreatePolicyBody p"
  note r = table_reads[OF table_names(10)[of ?b]] and d = policy_table_def CreatePolicyBody_def
  have "read_list (conv_struct (read_PolicyRule float_text)) x ''rules'' (table_members (policy_table ?b)) = Inr (map id (pp_Rules p))" for x
    by (rule read_structs_of[OF table_names(10), where t = PolicyRule_table])
       (simp add: d, use assms(1) in \<open>simp add: list_all_iff read_PolicyRule_written\<close>)
  moreover have "read_field (conv_date is_date) () k (table_members (policy_table ?b)) = Inr ()" if "k = ''created'' \<or> k = ''modified''" for k
    by (rule read_field_table[OF table_names(10), where v = "Some (StrV zero_date)"]) (use that assms(2) in \<open>auto simp: d conv_date_def\<close>)
  moreover have "read_string ''name'' (table_members (policy_table ?b)) = Inr (pp_Name p)" by (rule r) (simp add: d)
  moreover have "read_string ''type'' (table_members (policy_table ?b)) = Inr (pp_Type p)" by (rule r) (simp add: d)
  moreover have "read_string ''description'' (table_members (policy_table ?b)) = Inr (pp_Description p)" by (rule r) (simp add: d)
  moreover have "read_string ''author'' (table_members (policy_table ?b)) = Inr []" by (rule r) (simp add: d)
  ultimately show ?thesis by (cases p) (simp add: read_policy_def)
qed

end
