(* ===== verification/Usage.thy ===== *)
theory Usage
  imports Storage
begin

text \<open>
  Reporting usage, \<^verbatim>\<open>artifactory/usage/reportusage.go\<close>, and inviting users, \<^verbatim>\<open>access/services/invite.go\<close>. The comparison of
  versions is a parameter, as is the version of the server.
\<close>

definition minArtifactoryVersion :: string where
  "minArtifactoryVersion = ''6.9.0''"

definition ReportUsagePrefix :: string where
  "ReportUsagePrefix = ''Usage Report: ''"

record ReportUsageAttribute =
  AttributeName :: string
  AttributeValue :: string

definition isEmpty :: "ReportUsageAttribute \<Rightarrow> bool" where
  "isEmpty rua \<longleftrightarrow> AttributeName rua = []"

text \<open>A later attribute replaces an earlier one of the same name. A map is written in the order of its keys and left out when it
  has no entries.\<close>

definition attribute_map :: "ReportUsageAttribute list \<Rightarrow> (string \<times> string) list" where
  "attribute_map attributes =
     fold (\<lambda>a m. if isEmpty a then m else AList.update (AttributeName a) (AttributeValue a) m) attributes []"

definition attributes_value :: "(string \<times> string) list \<Rightarrow> jvalue option" where
  "attributes_value m = (if m = [] then None else Some (ObjV (map (\<lambda>k. (k, StrV (the (map_of m k)))) (sort (map fst m)))))"

definition feature_table :: "string \<Rightarrow> ReportUsageAttribute list \<Rightarrow> field_table" where
  "feature_table commandName attributes =
     [(''featureId'', opt_string commandName), (''attributes'', attributes_value (attribute_map attributes))]"

definition reportUsageToJson :: "string \<Rightarrow> string \<Rightarrow> ReportUsageAttribute list \<Rightarrow> string" where
  "reportUsageToJson productId commandName attributes =
     document [(''productId'', Some (StrV productId)),
       (''features'', Some (ArrV [ObjV (table_members (feature_table commandName attributes))]))]"

definition prefixed :: "string \<Rightarrow> go_error \<Rightarrow> go_error" where
  "prefixed what e = (case e of Err m \<Rightarrow> Err (ReportUsagePrefix @ what @ m) | Panic m \<Rightarrow> Panic m)"

text \<open>The configuration of the manager, and the details in it, may be nil.\<close>

definition SendReportUsage :: "url_env \<Rightarrow> (string \<Rightarrow> string \<Rightarrow> bool) \<Rightarrow> string result \<Rightarrow> 'w service option option \<Rightarrow> string \<Rightarrow> string \<Rightarrow>
    ReportUsageAttribute list \<Rightarrow> 'w \<Rightarrow> (go_error option \<times> 'w) option" where
  "SendReportUsage env at_least artifactoryVersion serviceManager productId commandName attributes w =
     (case serviceManager of
        None \<Rightarrow> Some (Some (Err (ReportUsagePrefix @ ''Expected full config, but no configuration exists.'')), w)
      | Some None \<Rightarrow> Some (Some (Err (ReportUsagePrefix @ ''Artifactory details not configured.'')), w)
      | Some (Some rt) \<Rightarrow>
          (case rest_url env rt ''api/system/usage'' [] of
             Inl e \<Rightarrow> Some (Some (prefixed [] e), w)
           | Inr url \<Rightarrow>
               (case artifactoryVersion of
                  Inl e \<Rightarrow> Some (Some (prefixed (''Couldn'' @ [CHR 0x27] @ ''t get Artifactory version. Error: '') e), w)
                | Inr version \<Rightarrow>
                    if \<not> at_least version minArtifactoryVersion then Some (None, w)
                    else after_reply (jc_SendPost (sv_client rt) url (Some (reportUsageToJson productId commandName attributes)) (json_details rt) w)
                           (\<lambda>reply w. Some (case reply of
                              (_, _, Some e) \<Rightarrow> Some (prefixed (''Couldn'' @ [CHR 0x27] @ ''t send usage info. Error: '') e)
                            | _ \<Rightarrow> (case checked rt [200, 202] reply of Inl e \<Rightarrow> Some e | Inr _ \<Rightarrow> None), w)))))"

definition InviteUser :: "'w service \<Rightarrow> string \<Rightarrow> string \<Rightarrow> 'w \<Rightarrow> (go_error option \<times> 'w) option" where
  "InviteUser us email source w =
     after_reply (jc_SendPost (sv_client us) (sv_url us @ ''api/v1/users/invite'')
         (Some (document [(''invited_email'', opt_string email), (''source'', opt_string source)])) (json_details us) w) (\<lambda>reply w.
       case reply of
         (None, _, None) \<Rightarrow> Some (Some (Err ''no response was returned for the request sent''), w)
       | _ \<Rightarrow> finished us [200] (Some (reply, w)))"

end
