(* ===== verification/Spec2Isabelle.thy ===== *)
theory Spec2Isabelle
  imports Prelude Parens Utils Retry Encoding Props RepoPath ArtUtils Specs Aql AqlDocument Content Items Builds Search Results Delete MoveCopy Watch Http Download DownloadService Collect Client Upload Git Json Service Scan Distribution PropsService GitLfs Auth Ssh Url Connection Repositories JsonParser Rest Security Access Directory Accounts Storage Admin GoPublish SearchService Pipeline XrayResults XrayAdmin Usage
begin

text \<open>
  A verification development for the Go client library of JFrog Artifactory, Xray, Distribution, Access and Pipelines.

  The library turns calls of a program into requests to REST services. Its logic is in what it computes around these
  requests: which files a pattern stands for and where they go, the text of a query, what is deleted, moved or
  downloaded among the answers of a search, when a request is sent again, whether a transfer succeeded, and what is read
  back from an answer. The parts of the library interact as follows. A service holds the client and the details of a
  server. It gets details for a request (headers and credentials) from them, runs through the interceptors of the client, and
  sends the request with retries. File services first search: a file specification becomes an AQL query, its
  answer a file of records that a reader streams; readers are sorted, reduced and merged on disk, and the records that are
  left become tasks for the threads of a runner, which count what succeeded and collect the first error.

  \<^bold>\<open>Conventions.\<close> A string is a list of bytes. A function that returns a value and an error is a sum \<open>'a result\<close>
  with the errors \<open>Err\<close> and run-time panics \<open>Panic\<close>; errors alone are an option. State is passed explicitly; the world
  of type \<open>'w\<close> is the network with its servers, changed by \<open>http_do\<close> only. A Go map is an association list whose order is the
  (arbitrary) order of iteration; a pointer or a slice that may be nil is an option where the difference shows. A loop
  that may not end has the result type \<open>option\<close>. A definition has the name of the Go function it models, with a prefix of its
  service where names would clash; loops of a function are \<open>..._loop\<close>, inner blocks have names of their own. Log messages,
  progress bars and closing of files are left out everywhere.

  \<^bold>\<open>Theories and code.\<close> (paths below \<^verbatim>\<open>src/\<close>)

  \<^item> \<open>Prelude\<close>: what is used of the Go language and of packages strings, strconv and path; the type \<open>result\<close>.
  \<^item> \<open>Parens\<close>, \<open>Utils\<close>: \<^verbatim>\<open>utils/parenthesesutils.go\<close>, \<^verbatim>\<open>utils/utils.go\<close>, \<^verbatim>\<open>utils/antUtils.go\<close>. Parentheses are
    specified by the depth of nesting; replacing placeholders one by one is simultaneous substitution.
  \<^item> \<open>Retry\<close>: \<^verbatim>\<open>utils/retryexecutor.go\<close>, \<^verbatim>\<open>utils/io/httputils/pollingexecutor.go\<close>, \<^verbatim>\<open>utils/errorsqueue.go\<close>. Executors
    are compared with a run specification (number of attempts, outcome, sleeps); the queue implements the interface
    \<open>bounded_queue\<close>.
  \<^item> \<open>Encoding\<close>, \<open>Url\<close>: the codecs of packages url and base64 with their decoders, and \<open>BuildArtifactoryUrl\<close> of
    \<^verbatim>\<open>artifactory/services/utils/artifactoryutils.go\<close>.
  \<^item> \<open>Props\<close>, \<open>Specs\<close>, \<open>RepoPath\<close>, \<open>ArtUtils\<close>, \<open>Aql\<close>, \<open>AqlDocument\<close>: the files properties, specutils, repopathfile,
    artifactoryutils and aqlquerybuilder of \<^verbatim>\<open>artifactory/services/utils\<close>. The translation of patterns is compared with
    matching whole paths (\<open>glob\<close>), the text of a query with the JSON document it is meant to be, which a parser reads from it
    as long as no string needs an escape.
  \<^item> \<open>Content\<close>, \<open>Items\<close>, \<open>Search\<close>, \<open>Builds\<close>: \<^verbatim>\<open>utils/io/content\<close>, \<^verbatim>\<open>artifactory/services/utils/searchutil.go\<close> and the
    builds of artifactoryutils.go. A file is what decoding it gives. The interfaces \<open>key_order\<close> (orders by a computed
    key) and \<open>search_based_item\<close> (items with a sort key and a path) carry sorting and the reductions of chains; both are
    interpreted on the records of the code.
  \<^item> \<open>Results\<close>, \<open>Delete\<close>, \<open>MoveCopy\<close>, \<open>PropsService\<close>, \<open>GitLfs\<close>: \<^verbatim>\<open>artifactory/services/utils/resultutils.go\<close>,
    deleteutils.go, \<^verbatim>\<open>artifactory/services/delete.go\<close>, movecopy.go, props.go and gitlfsclean.go. A run of the threads is a
    sequence of tasks with their threads, so theorems over all sequences are over all schedules.
  \<^item> \<open>Http\<close>, \<open>Client\<close>, \<open>Download\<close>, \<open>Connection\<close>: \<^verbatim>\<open>http/httpclient\<close>, \<^verbatim>\<open>http/jfroghttpclient/client.go\<close> and the details
    of \<^verbatim>\<open>auth/servicedetails.go\<close>; \<^verbatim>\<open>artifactory/services/xrayscan.go\<close> on a connection that is opened again.
  \<^item> \<open>DownloadService\<close>, \<open>Collect\<close>, \<open>Upload\<close>: \<^verbatim>\<open>artifactory/services/download.go\<close>, upload.go,
    \<^verbatim>\<open>artifactory/services/fspatterns\<close> and the verification of release bundles.
  \<^item> \<open>Git\<close>: \<^verbatim>\<open>utils/git.go\<close>, regexputils.go, vcsdetails.go. The cache implements the interface \<open>ancestor_search\<close>.
  \<^item> \<open>Json\<close>, \<open>JsonParser\<close>, \<open>Codec\<close>: what is used of package encoding/json: writing values, reading texts, and structs as tables of
    fields with their readers. The interface \<open>json_writer\<close> is a way to write values that \<open>Unmarshal\<close> reads back; it is
    interpreted on \<open>Marshal\<close> and on texts that are put together without escapes.
  \<^item> \<open>Service\<close>: a request of a service with a JSON body and the check of its answer.
  \<^item> \<open>Auth\<close>, \<open>Ssh\<close>: \<^verbatim>\<open>auth/authutils.go\<close>, sshlogin.go and servicedetails.go. The refresh of a token by concurrent requests is a
    step relation over the shared details, the mutex and the requests.
  \<^item> \<open>Watch\<close>, \<open>Scan\<close>: \<^verbatim>\<open>xray/services\<close>: bodies of watches and policies, graph scans and flattening of graphs.
  \<^item> \<open>Distribution\<close>: \<^verbatim>\<open>distribution/services\<close>: bundles, distribution and the loops that wait for the server.
  \<^item> \<open>Repository\<close>, \<open>LocalRepository\<close>, \<open>RemoteRepository\<close>, \<open>VirtualRepository\<close>, \<open>FederatedRepository\<close>, \<open>Repositories\<close>: the
    parameters of repositories by class and package type, their JSON, and the requests of \<^verbatim>\<open>artifactory/services\<close>. The members that
    are written are compared with a list of the names of the REST interface.
  \<^item> \<open>Rest\<close>, \<open>Security\<close>, \<open>Access\<close>: what administrative services share (with \<open>shows_table\<close>: an object that shows the fields of a
    struct in any order and among others), and \<^verbatim>\<open>artifactory/services/users.go\<close>, groups.go,
    permissiontarget.go, security.go, \<^verbatim>\<open>access/services/project.go\<close>, accesstoken.go: users, groups, permission targets, tokens, projects.
  \<^item> \<open>Directory\<close>, \<open>Accounts\<close>: these four services as directories of named entries. The interface \<open>entry_codec\<close> (a struct that
    is read as it was written) gives, over a server that keeps documents, the interface \<open>directory\<close>, in which every
    sequence of calls refines the same calls on a map. Both are interpreted on the code's structs and clients. What a server
    keeps of a document is up to it; servers in memory, one that drops passwords and one that adds addresses, show that the
    hypotheses can hold.
  \<^item> \<open>Storage\<close>, \<open>Admin\<close>, \<open>GoPublish\<close>, \<open>SearchService\<close>, \<open>Usage\<close>: the other services of \<^verbatim>\<open>artifactory/services\<close>: storage, system,
    ping, export, import, promotion, builds, federation, replication, publishing of Go modules, search, reporting of usage.
  \<^item> \<open>Pipeline\<close>: \<^verbatim>\<open>pipelines/services\<close>: integrations, sources, runs and synchronisation.
  \<^item> \<open>XrayResults\<close>, \<open>XrayAdmin\<close>: the structs Xray answers with, its reports, summaries and build scans, and the requests on
    watches and policies with their JSON; a watch that is created is read back as it was given from a server that shows its
    members in a form of its own (\<open>shows_value\<close>).

  \<^bold>\<open>Bounds and fuel.\<close>
  \<^item> \<open>Send\<close> and the methods of the client take the number \<open>jc_redirects\<close> of nested redirects they follow; \<open>None\<close> is a chain
    of redirects that is longer. The theorems about answers need one level; a cycle of redirects gives \<open>None\<close> for every bound,
    as the code follows it without end.
  \<^item> \<open>module_loop\<close> (transitive builds) and \<open>do_loop\<close> (connections) are partial functions into options; that they return is
    proved where they do, that they do not where they do not.
  \<^item> \<open>parent_loop\<close> follows one parent more than there are nodes, so \<open>None\<close> is a cycle above the node. \<open>node_value\<close> is given the
    number of nodes, which is the longest chain of a graph whose JSON exists. The loops that wait for a distribution, a
    deletion or a scan run through as many polls as fit in their timeout.
  \<^item> Readers keep at most \<open>MaxBufferSize\<close> (50000) records in memory; the theorem on sorting holds for any positive size.
  \<^item> Integers are unbounded where the code only counts; readers of numbers refuse what is no 64-bit integer, and times of
    tokens and the days of \<open>calculateMinimumBuildDate\<close> wrap around at 64 bits. The product of the minutes to wait for a distribution
    and 60 is not wrapped. The index of a part of a split download is computed on integers as in the code.

  \<^bold>\<open>Parameters.\<close> What is not code of this repository is an argument: the exchange of one HTTP request, translation and matching
  of regular expressions, go-git and the process git, the SSH library, the clock, the local file system, checksums,
  archives, verification of signatures. Laws that a theorem needs of them are its hypotheses.

  \<^bold>\<open>Not modelled.\<close>
  \<^item> \<^verbatim>\<open>jfrogclient.go\<close> and the managers of the products: their methods make a service from the client and the details and
    call one operation of it, and \<^verbatim>\<open>artifactory/emptymanager.go\<close> panics in every method. The settings in \<^verbatim>\<open>config\<close>.
  \<^item> Certificates, TLS and the transports of net/http: the exchange of a request is a parameter.
  \<^item> Logging, progress bars and the terminal; helpers of tests.
  \<^item> Operations on the disk of the machine: temporary files, copying and moving of directories, archives. Where they decide
    what the code does, their outcome is a field of the environment of the component.
  \<^item> Of the answers to a graph scan and to a query for the state of a distribution only the status is decoded: the error for
    another member of a wrong type is left out.
  \<^item> The commit message of a commit and running the process git (go-git, os/exec), the types of build-info of another
    module, and the wiring of go routines and channels, which only carries tasks to threads.
\<close>

end
